(* ===== verification/Prelude.thy ===== *)
theory Prelude
  imports Main "HOL-Library.AList" "HOL-Library.Product_Lexorder" "HOL-Library.Multiset"
    "HOL-Library.Sublist"
begin

text \<open>
  What every component shares: results with Python's exceptions as values, insertion-ordered
  dictionaries as association lists, and the ``append or merge into the last element'' loop
  that the tools use to build intervals, turns and label runs, with the contracts its
  clients rely on stated as locales.
\<close>

section \<open>Exceptions as values\<close>

text \<open>
  The exceptions the modelled code raises, with the message of a \<^verbatim>\<open>ValueError\<close>.
  \<open>OutOfModel\<close> marks inputs outside the modelled range (a non-finite number where the code
  does arithmetic without testing for it).
\<close>

datatype py_error =
    ValueError string
  | KeyError string
  | TypeError
  | AttributeError
  | IndexError
  | ZeroDivisionError
  | OSError
  | RuntimeError string
  | OutOfModel

type_synonym 'a res = "py_error + 'a"

definition rbind :: "'a res \<Rightarrow> ('a \<Rightarrow> 'b res) \<Rightarrow> 'b res" where
  "rbind m f = (case m of Inl e \<Rightarrow> Inl e | Inr x \<Rightarrow> f x)"

text \<open>\<^verbatim>\<open>if b: raise e\<close> before the rest of a body.\<close>

definition raise_if :: "bool \<Rightarrow> py_error \<Rightarrow> 'a res \<Rightarrow> 'a res" where
  "raise_if b e k = (if b then Inl e else k)"

fun rmap :: "('a \<Rightarrow> 'b res) \<Rightarrow> 'a list \<Rightarrow> 'b list res" where
  "rmap f [] = Inr []"
| "rmap f (x # xs) = rbind (f x) (\<lambda>y. rbind (rmap f xs) (\<lambda>ys. Inr (y # ys)))"

text \<open>A loop whose body may raise.\<close>

fun rfold :: "('s \<Rightarrow> 'a \<Rightarrow> 's res) \<Rightarrow> 's \<Rightarrow> 'a list \<Rightarrow> 's res" where
  "rfold f s [] = Inr s"
| "rfold f s (x # xs) = rbind (f s x) (\<lambda>s'. rfold f s' xs)"

named_theorems res_iff \<open>when a computation returns normally\<close>

lemma rbind_simps [simp]: "rbind (Inl e) f = Inl e" "rbind (Inr x) f = f x"
  by (simp_all add: rbind_def)

lemma rbind_Inr_iff [res_iff]: "rbind m f = Inr y \<longleftrightarrow> (\<exists>x. m = Inr x \<and> f x = Inr y)"
  by (cases m) auto

lemma raise_if_Inr_iff [res_iff]: "raise_if b e k = Inr y \<longleftrightarrow> \<not> b \<and> k = Inr y"
  by (simp add: raise_if_def)

lemma raise_if_simps [simp]: "raise_if True e k = Inl e" "raise_if False e k = k"
  by (simp_all add: raise_if_def)

lemma rmap_Inr_iff [res_iff]: "rmap f xs = Inr ys \<longleftrightarrow> list_all2 (\<lambda>x y. f x = Inr y) xs ys"
  by (induction xs arbitrary: ys) (auto simp: rbind_Inr_iff list_all2_Cons1)

lemma rmap_image: "rmap f xs = Inr ys \<Longrightarrow> y \<in> set ys \<Longrightarrow> \<exists>x \<in> set xs. f x = Inr y"
  by (induction xs arbitrary: ys) (auto simp: rbind_Inr_iff)

lemma rmap_all: "rmap f xs = Inr ys \<Longrightarrow> x \<in> set xs \<Longrightarrow> \<exists>y. f x = Inr y"
  by (induction xs arbitrary: ys) (auto simp: rbind_Inr_iff)

lemma rmap_exists: "\<forall>x \<in> set xs. \<exists>y. f x = Inr y \<Longrightarrow> \<exists>ys. rmap f xs = Inr ys"
  by (induction xs) (auto simp: rbind_Inr_iff)

lemma rmap_length: "rmap f xs = Inr ys \<Longrightarrow> length ys = length xs"
  by (simp add: rmap_Inr_iff list_all2_lengthD)

lemma rmap_member: "rmap f xs = Inr ys \<Longrightarrow> x \<in> set xs \<Longrightarrow> \<exists>y \<in> set ys. f x = Inr y"
  by (induction xs arbitrary: ys) (auto simp: rbind_Inr_iff)

lemma rmap_map: "\<forall>x \<in> set xs. f x = Inr (g x) \<Longrightarrow> rmap f xs = Inr (map g xs)"
  by (induction xs) auto

lemma rmap_projr: "rmap f xs = Inr ys \<Longrightarrow> map (\<lambda>x. projr (f x)) xs = ys"
  by (induction xs arbitrary: ys) (auto simp: rbind_Inr_iff)

lemma option_Inr_iff:
  "(case a of None \<Rightarrow> Inl e | Some x \<Rightarrow> f x) = Inr r \<longleftrightarrow> (\<exists>x. a = Some x \<and> f x = Inr r)"
  by (cases a) simp_all

lemma rfold_append: "rfold f s (xs @ ys) = rbind (rfold f s xs) (\<lambda>s'. rfold f s' ys)"
proof (induction xs arbitrary: s)
  case (Cons x xs)
  then show ?case by (cases "f s x") simp_all
qed simp

lemma rfold_invariant:
  assumes "\<And>s x s'. P s \<Longrightarrow> x \<in> set xs \<Longrightarrow> f s x = Inr s' \<Longrightarrow> P s'"
    and "P s" and "rfold f s xs = Inr s'"
  shows "P s'"
  using assms
proof (induction xs arbitrary: s)
  case (Cons x xs)
  obtain t where t: "f s x = Inr t" "rfold f t xs = Inr s'"
    using Cons.prems(3) by (cases "f s x") simp_all
  have "P t" by (rule Cons.prems(1)[OF Cons.prems(2) _ t(1)]) simp
  have "P s2" if "P s1" "y \<in> set xs" "f s1 y = Inr s2" for s1 y s2
    by (rule Cons.prems(1)[OF that(1) _ that(3)]) (simp add: that(2))
  then show ?case using \<open>P t\<close> t(2) by (rule Cons.IH)
qed simp

section \<open>Dictionaries\<close>

text \<open>
  A Python dict keeps its keys in insertion order: an association list with distinct keys.
  \<open>AList.update\<close> overwrites in place or appends, as item assignment does; \<open>AList.delete\<close> is
  \<^verbatim>\<open>pop(k, None)\<close>.
\<close>

type_synonym ('k, 'v) pydict = "('k \<times> 'v) list"

abbreviation dset :: "'k \<Rightarrow> 'v \<Rightarrow> ('k, 'v) pydict \<Rightarrow> ('k, 'v) pydict" where
  "dset \<equiv> AList.update"

abbreviation dpop :: "'k \<Rightarrow> ('k, 'v) pydict \<Rightarrow> ('k, 'v) pydict" where
  "dpop \<equiv> AList.delete"

lemma map_of_dset [simp]: "map_of (dset k v d) k' = (if k' = k then Some v else map_of d k')"
  by (simp add: update_conv)

lemma map_of_dpop [simp]: "map_of (dpop k d) k' = (if k' = k then None else map_of d k')"
  by (simp add: delete_conv)

lemma keys_dset: "set (map fst (dset k v d)) = insert k (set (map fst d))"
  by (simp add: dom_update)

lemma set_dset_subset: "set (dset k v d) \<subseteq> insert (k, v) (set d)"
  by (induction d) auto

lemma Ball_dset: "P (k, v) \<Longrightarrow> \<forall>x \<in> set d. P x \<Longrightarrow> \<forall>x \<in> set (dset k v d). P x"
  using set_dset_subset by fastforce

lemma distinct_dset: "distinct (map fst d) \<Longrightarrow> distinct (map fst (dset k v d))"
  by (rule distinct_update)

lemma dpop_dset: "dpop k (dset k v d) = dpop k d"
  by (induction d) auto

lemma dpop_id: "k \<notin> set (map fst d) \<Longrightarrow> dpop k d = d"
  by (induction d) auto

lemma sorted_wrt_subseq: "subseq ys xs \<Longrightarrow> sorted_wrt P xs \<Longrightarrow> sorted_wrt P ys"
  by (induction rule: list_emb.induct) (auto elim!: list_emb_set)

section \<open>Merging into the last element\<close>

text \<open>
  The loop
  \<^verbatim>\<open>
    out = []
    for x in xs:
        if out and same(out[-1], x):  out[-1] = join(out[-1], x)
        else:                         out.append(mk(x))
  \<close>
  The output is kept reversed while it grows, so that its head is Python's \<^verbatim>\<open>out[-1]\<close>.
\<close>

definition merge_step ::
  "('a \<Rightarrow> 'b) \<Rightarrow> ('b \<Rightarrow> 'a \<Rightarrow> bool) \<Rightarrow> ('b \<Rightarrow> 'a \<Rightarrow> 'b) \<Rightarrow> 'b list \<Rightarrow> 'a \<Rightarrow> 'b list" where
  "merge_step mk same join acc x = (case acc of [] \<Rightarrow> [mk x]
     | p # ps \<Rightarrow> if same p x then join p x # ps else mk x # p # ps)"

definition merge_runs ::
  "('a \<Rightarrow> 'b) \<Rightarrow> ('b \<Rightarrow> 'a \<Rightarrow> bool) \<Rightarrow> ('b \<Rightarrow> 'a \<Rightarrow> 'b) \<Rightarrow> 'a list \<Rightarrow> 'b list" where
  "merge_runs mk same join xs = rev (foldl (merge_step mk same join) [] xs)"

lemma merge_runs_Nil [simp]: "merge_runs mk same join [] = []"
  by (simp add: merge_runs_def)

lemma merge_step_nonempty [simp]: "merge_step mk same join acc x \<noteq> []"
  by (simp add: merge_step_def split: list.split)

lemma merge_fold_nonempty:
  "acc \<noteq> [] \<Longrightarrow> foldl (merge_step mk same join) acc xs \<noteq> []"
proof (induction xs arbitrary: acc)
  case (Cons x xs)
  then show ?case using Cons.IH[of "merge_step mk same join acc x"] by simp
qed simp

lemma merge_runs_Nil_iff [simp]: "merge_runs mk same join xs = [] \<longleftrightarrow> xs = []"
  by (cases xs) (simp_all add: merge_runs_def merge_fold_nonempty)

lemma merge_fold_invariant:
  assumes "\<And>x. x \<in> set xs \<Longrightarrow> P (mk x)"
    and "\<And>p x. x \<in> set xs \<Longrightarrow> P p \<Longrightarrow> same p x \<Longrightarrow> P (join p x)"
    and "\<forall>p \<in> set acc. P p"
  shows "\<forall>p \<in> set (foldl (merge_step mk same join) acc xs). P p"
  using assms
proof (induction xs arbitrary: acc)
  case (Cons x xs)
  have "P (mk x)" by (rule Cons.prems(1)) simp
  moreover have "P (join p x)" if "P p" "same p x" for p
    by (rule Cons.prems(2)) (use that in simp_all)
  ultimately have "\<forall>p \<in> set (merge_step mk same join acc x). P p"
    using Cons.prems(3) by (auto simp: merge_step_def split: list.split)
  then have "\<forall>p \<in> set (foldl (merge_step mk same join) (merge_step mk same join acc x) xs). P p"
    by (rule Cons.IH [rotated 2]) (rule Cons.prems(1,2), simp_all)+
  then show ?case by simp
qed simp

lemma merge_runs_invariant:
  assumes "\<And>x. x \<in> set xs \<Longrightarrow> P (mk x)"
    and "\<And>p x. x \<in> set xs \<Longrightarrow> P p \<Longrightarrow> same p x \<Longrightarrow> P (join p x)"
    and "p \<in> set (merge_runs mk same join xs)"
  shows "P p"
proof -
  have "\<forall>p \<in> set (foldl (merge_step mk same join) [] xs). P p"
    by (rule merge_fold_invariant) (use assms(1,2) in blast, use assms(1,2) in blast, simp)
  with assms(3) show ?thesis by (simp add: merge_runs_def)
qed

lemma merge_runs_length: "length (merge_runs mk same join xs) \<le> length xs"
proof -
  have "length (foldl (merge_step mk same join) acc xs) \<le> length acc + length xs" for acc
  proof (induction xs arbitrary: acc)
    case (Cons x xs)
    have "length (merge_step mk same join acc x) \<le> Suc (length acc)"
      by (simp add: merge_step_def split: list.split)
    then show ?case using Cons.IH[of "merge_step mk same join acc x"] by simp
  qed simp
  from this[of "[]"] show ?thesis by (simp add: merge_runs_def)
qed

text \<open>The output elements are the inputs cut into consecutive non-empty groups, each folded up.\<close>

lemma merge_runs_groups:
  "\<exists>gs. concat gs = xs \<and> [] \<notin> set gs \<and>
     merge_runs mk same join xs = map (\<lambda>g. foldl join (mk (hd g)) (tl g)) gs"
proof (induction xs rule: rev_induct)
  case Nil
  show ?case by (rule exI[of _ "[]"]) simp
next
  case (snoc x xs)
  then obtain gs where gs: "concat gs = xs" "[] \<notin> set gs"
    "merge_runs mk same join xs = map (\<lambda>g. foldl join (mk (hd g)) (tl g)) gs" by auto
  show ?case
  proof (cases gs rule: rev_cases)
    case Nil
    with gs show ?thesis
      by (intro exI[of _ "[[x]]"]) (simp add: merge_runs_def merge_step_def)
  next
    case (snoc hs g)
    let ?p = "foldl join (mk (hd g)) (tl g)"
    have m: "merge_runs mk same join (xs @ [x]) =
        map (\<lambda>g. foldl join (mk (hd g)) (tl g)) hs @ (if same ?p x then [join ?p x] else [?p, mk x])"
      using gs(3) snoc by (simp add: merge_runs_def merge_step_def rev_swap)
    have g: "g \<noteq> []" using gs(2) snoc by auto
    show ?thesis
    proof (cases "same ?p x")
      case True
      then show ?thesis using gs(1,2) snoc g m
        by (intro exI[of _ "hs @ [g @ [x]]"]) auto
    next
      case False
      then show ?thesis using gs(1,2) snoc g m
        by (intro exI[of _ "hs @ [g, [x]]"]) auto
    qed
  qed
qed

text \<open>
  Contract 1: an element carries content (a text, a list of indices, a list of intervals) and
  joining appends it, for the elements a merge can produce (the proper ones).  Then merging
  neither loses, repeats nor reorders content.
\<close>

locale run_content_on =
  fixes mk :: "'a \<Rightarrow> 'b" and same :: "'b \<Rightarrow> 'a \<Rightarrow> bool" and join :: "'b \<Rightarrow> 'a \<Rightarrow> 'b"
    and content_in :: "'a \<Rightarrow> 'c list" and content_out :: "'b \<Rightarrow> 'c list" and proper :: "'b \<Rightarrow> bool"
  assumes proper_mk: "proper (mk x)" and proper_join: "proper p \<Longrightarrow> same p x \<Longrightarrow> proper (join p x)"
    and content_on_mk: "content_out (mk x) = content_in x"
    and content_on_join: "proper p \<Longrightarrow> same p x \<Longrightarrow> content_out (join p x) = content_out p @ content_in x"
begin

lemma fold_content_on:
  "\<forall>p \<in> set acc. proper p \<Longrightarrow>
   (\<forall>p \<in> set (foldl (merge_step mk same join) acc xs). proper p) \<and>
   concat (map content_out (rev (foldl (merge_step mk same join) acc xs)))
     = concat (map content_out (rev acc)) @ concat (map content_in xs)"
proof (induction xs arbitrary: acc)
  case (Cons x xs)
  have "\<forall>p \<in> set (merge_step mk same join acc x). proper p"
    using Cons.prems by (auto simp: merge_step_def proper_mk proper_join split: list.splits)
  moreover have "concat (map content_out (rev (merge_step mk same join acc x)))
      = concat (map content_out (rev acc)) @ content_in x"
    using Cons.prems by (auto simp: merge_step_def content_on_mk content_on_join split: list.splits)
  ultimately show ?case using Cons.IH[of "merge_step mk same join acc x"] by simp
qed simp

lemma merge_content_on:
  "concat (map content_out (merge_runs mk same join xs)) = concat (map content_in xs)"
  "\<forall>p \<in> set (merge_runs mk same join xs). proper p"
  using fold_content_on[of "[]" xs] by (simp_all add: merge_runs_def)

end

text \<open>Where joining appends the content of any two elements, all of them are proper.\<close>

locale run_content =
  fixes mk :: "'a \<Rightarrow> 'b" and same :: "'b \<Rightarrow> 'a \<Rightarrow> bool" and join :: "'b \<Rightarrow> 'a \<Rightarrow> 'b"
    and content_in :: "'a \<Rightarrow> 'c list" and content_out :: "'b \<Rightarrow> 'c list"
  assumes content_mk: "content_out (mk x) = content_in x"
    and content_join: "same p x \<Longrightarrow> content_out (join p x) = content_out p @ content_in x"

sublocale run_content \<subseteq> run_content_on mk same join content_in content_out "\<lambda>_. True"
  by unfold_locales (simp_all add: content_mk content_join)

context run_content
begin

lemma merge_content:
  "concat (map content_out (merge_runs mk same join xs)) = concat (map content_in xs)"
  by (rule merge_content_on)

end

text \<open>
  Contract 2: \<open>same\<close> reads only what a join leaves alone in its right argument, seen through
  \<open>next_same\<close>, the test between two output elements.  Then no two neighbours of the result
  could have been merged: the runs are maximal.
\<close>

locale run_maximal =
  fixes mk :: "'a \<Rightarrow> 'b" and same :: "'b \<Rightarrow> 'a \<Rightarrow> bool" and join :: "'b \<Rightarrow> 'a \<Rightarrow> 'b"
    and next_same :: "'b \<Rightarrow> 'b \<Rightarrow> bool"
  assumes next_mk: "next_same q (mk x) \<longleftrightarrow> same q x"
    and next_join: "same p x \<Longrightarrow> next_same q (join p x) \<longleftrightarrow> next_same q p"
begin

lemma fold_maximal:
  "successively (\<lambda>q p. \<not> next_same p q) acc \<Longrightarrow>
   successively (\<lambda>q p. \<not> next_same p q) (foldl (merge_step mk same join) acc xs)"
proof (induction xs arbitrary: acc)
  case (Cons x xs)
  have "successively (\<lambda>q p. \<not> next_same p q) (merge_step mk same join acc x)"
    using Cons.prems
    by (auto simp: merge_step_def next_mk next_join successively_Cons split: list.splits)
  then show ?case using Cons.IH by simp
qed simp

lemma merge_maximal: "successively (\<lambda>p q. \<not> next_same p q) (merge_runs mk same join xs)"
  using fold_maximal[of "[]" xs] by (simp add: merge_runs_def successively_rev)

end

text \<open>
  Contract 3: input and output elements are of one type and \<open>mk\<close> is the identity.  Merging
  maximal runs changes nothing, so the operation is idempotent.
\<close>

lemma merge_fold_stable:
  "successively (\<lambda>q p. \<not> same p q) (rev xs @ acc) \<Longrightarrow>
   foldl (merge_step (\<lambda>x. x) same join) acc xs = rev xs @ acc"
proof (induction xs arbitrary: acc)
  case (Cons x xs)
  have s: "successively (\<lambda>q p. \<not> same p q) (rev xs @ x # acc)" using Cons.prems by simp
  then have "successively (\<lambda>q p. \<not> same p q) (x # acc)" by (simp add: successively_append_iff)
  then have "merge_step (\<lambda>x. x) same join acc x = x # acc"
    by (cases acc) (auto simp: merge_step_def)
  then show ?case using Cons.IH[OF s] by simp
qed simp

lemma merge_runs_stable:
  "successively (\<lambda>p q. \<not> same p q) xs \<Longrightarrow> merge_runs (\<lambda>x. x) same join xs = xs"
  using merge_fold_stable[of same xs "[]" join]
  by (simp add: merge_runs_def successively_rev)

locale run_uniform = run_maximal "\<lambda>x. x" same join same
  for same :: "'a \<Rightarrow> 'a \<Rightarrow> bool" and join :: "'a \<Rightarrow> 'a \<Rightarrow> 'a"
begin

lemma merge_idem:
  "merge_runs (\<lambda>x. x) same join (merge_runs (\<lambda>x. x) same join xs)
   = merge_runs (\<lambda>x. x) same join xs"
  by (rule merge_runs_stable [OF merge_maximal])

end

text \<open>
  Contract 4: elements are half-open spans and joining two that touch spans both.  Then merging
  a gap-free chain of spans gives a gap-free chain between the same ends.
\<close>

fun chained :: "('b \<Rightarrow> 't :: linorder) \<Rightarrow> ('b \<Rightarrow> 't) \<Rightarrow> 't \<Rightarrow> 'b list \<Rightarrow> 't \<Rightarrow> bool" where
  "chained lo hi s [] e = (s = e)"
| "chained lo hi s (x # xs) e = (lo x = s \<and> lo x < hi x \<and> chained lo hi (hi x) xs e)"

lemma chained_append:
  "chained lo hi s (xs @ ys) e \<longleftrightarrow> (\<exists>m. chained lo hi s xs m \<and> chained lo hi m ys e)"
  by (induction xs arbitrary: s) auto

lemma chained_le: "chained lo hi s xs e \<Longrightarrow> s \<le> e"
  by (induction xs arbitrary: s) (auto intro: order_trans[OF less_imp_le])

lemma chained_map:
  assumes "\<And>x. lo' (f x) = lo x" "\<And>x. hi' (f x) = hi x"
  shows "chained lo' hi' s (map f xs) e \<longleftrightarrow> chained lo hi s xs e"
  by (induction xs arbitrary: s) (simp_all add: assms)

locale run_span =
  fixes mk :: "'a \<Rightarrow> 'b" and same :: "'b \<Rightarrow> 'a \<Rightarrow> bool" and join :: "'b \<Rightarrow> 'a \<Rightarrow> 'b"
    and lo_in hi_in :: "'a \<Rightarrow> 't :: linorder" and lo hi :: "'b \<Rightarrow> 't"
  assumes lo_mk: "lo (mk x) = lo_in x" and hi_mk: "hi (mk x) = hi_in x"
    and lo_join: "same p x \<Longrightarrow> lo (join p x) = lo p"
    and hi_join: "same p x \<Longrightarrow> hi (join p x) = hi_in x"
begin

lemma step_chained:
  assumes "chained lo hi s (rev acc) m" and "lo_in x = m" and "m < hi_in x"
  shows "chained lo hi s (rev (merge_step mk same join acc x)) (hi_in x)"
proof (cases acc)
  case Nil
  with assms show ?thesis by (simp add: merge_step_def lo_mk hi_mk)
next
  case (Cons p ps)
  with assms show ?thesis
    by (auto simp: merge_step_def lo_mk hi_mk lo_join hi_join chained_append)
qed

lemma fold_chained:
  "chained lo hi s (rev acc) m \<Longrightarrow> chained lo_in hi_in m xs e \<Longrightarrow>
   chained lo hi s (rev (foldl (merge_step mk same join) acc xs)) e"
proof (induction xs arbitrary: acc m)
  case (Cons x xs)
  then have "chained lo hi s (rev (merge_step mk same join acc x)) (hi_in x)"
    by (intro step_chained) auto
  with Cons show ?case by simp
qed simp

lemma merge_chained:
  "chained lo_in hi_in s xs e \<Longrightarrow> chained lo hi s (merge_runs mk same join xs) e"
  using fold_chained[of s "[]" s xs e] by (simp add: merge_runs_def)

end

text \<open>
  Contract 5: a key that a join leaves alone.  The keys of the result are a subsequence of the
  keys of the input, so sorted input stays sorted.
\<close>

locale run_key =
  fixes mk :: "'a \<Rightarrow> 'b" and same :: "'b \<Rightarrow> 'a \<Rightarrow> bool" and join :: "'b \<Rightarrow> 'a \<Rightarrow> 'b"
    and key_in :: "'a \<Rightarrow> 'k" and key_out :: "'b \<Rightarrow> 'k"
  assumes key_mk: "key_out (mk x) = key_in x"
    and key_join: "same p x \<Longrightarrow> key_out (join p x) = key_out p"
begin

lemma merge_keys_snoc:
  "map key_out (merge_runs mk same join (xs @ [x])) = map key_out (merge_runs mk same join xs) \<or>
   map key_out (merge_runs mk same join (xs @ [x])) = map key_out (merge_runs mk same join xs) @ [key_in x]"
proof (cases "rev (merge_runs mk same join xs)")
  case Nil
  then show ?thesis by (simp add: merge_runs_def merge_step_def key_mk)
next
  case (Cons p ps)
  then show ?thesis
    by (auto simp: merge_runs_def merge_step_def key_mk key_join rev_swap)
qed

lemma merge_keys: "subseq (map key_out (merge_runs mk same join xs)) (map key_in xs)"
proof (induction xs rule: rev_induct)
  case (snoc x xs)
  have "subseq (map key_out (merge_runs mk same join xs)) (map key_in xs @ [key_in x])"
    "subseq (map key_out (merge_runs mk same join xs) @ [key_in x]) (map key_in xs @ [key_in x])"
    using snoc by (auto intro: subseq_rev_drop_many)
  then show ?case using merge_keys_snoc[of xs x] by auto
qed simp

lemma merge_sorted:
  "sorted_wrt P (map key_in xs) \<Longrightarrow> sorted_wrt P (map key_out (merge_runs mk same join xs))"
  using merge_keys by (rule sorted_wrt_subseq)

end

text \<open>
  When joining keeps the left element, merging is a thinning: a subsequence that starts with
  the first element and whose last element absorbed the last one.
\<close>

definition thin :: "('a \<Rightarrow> 'a \<Rightarrow> bool) \<Rightarrow> 'a list \<Rightarrow> 'a list" where
  "thin near xs = merge_runs (\<lambda>x. x) near (\<lambda>p _. p) xs"

lemma merge_runs_snoc:
  "merge_runs mk same join (xs @ [x]) = rev (merge_step mk same join (rev (merge_runs mk same join xs)) x)"
  by (simp add: merge_runs_def)

lemma thin_Nil_iff [simp]: "thin near xs = [] \<longleftrightarrow> xs = []"
  by (simp add: thin_def)

lemma thin_Nil [simp]: "thin near [] = []"
  by simp

lemma thin_single [simp]: "thin near [x] = [x]"
  by (simp add: thin_def merge_runs_def merge_step_def)

lemma thin_snoc:
  "thin near (xs @ [x]) =
     (if xs \<noteq> [] \<and> near (last (thin near xs)) x then thin near xs else thin near xs @ [x])"
proof (cases "rev (thin near xs)")
  case Nil
  then show ?thesis by simp
next
  case (Cons p ps)
  then have "thin near xs = rev ps @ [p]" by (simp add: rev_eq_Cons_iff)
  moreover from this have "xs \<noteq> []" by (metis Nil_is_append_conv list.distinct(1) thin_Nil_iff)
  ultimately show ?thesis by (auto simp: thin_def merge_runs_snoc merge_step_def)
qed

lemma subseq_thin: "subseq (thin near xs) xs"
proof (induction xs rule: rev_induct)
  case (snoc x xs)
  have "subseq (thin near xs) (xs @ [x])" "subseq (thin near xs @ [x]) (xs @ [x])"
    using snoc by (auto intro: subseq_rev_drop_many)
  then show ?case by (simp add: thin_snoc)
qed simp

lemma sorted_thin: "sorted xs \<Longrightarrow> sorted (thin near xs)"
  using subseq_thin by (rule sorted_wrt_subseq)

lemma hd_thin: "xs \<noteq> [] \<Longrightarrow> hd (thin near xs) = hd xs"
proof (induction xs rule: rev_induct)
  case (snoc x xs)
  then show ?case by (cases "xs = []") (simp_all add: thin_snoc)
qed simp

lemma last_thin:
  "xs \<noteq> [] \<Longrightarrow> last (thin near xs) = last xs \<or> near (last (thin near xs)) (last xs)"
  by (induction xs rule: rev_induct) (auto simp: thin_snoc)

lemma thin_separated: "successively (\<lambda>p q. \<not> near p q) (thin near xs)"
proof (induction xs rule: rev_induct)
  case (snoc x xs)
  then show ?case by (auto simp: thin_snoc successively_append_iff)
qed simp

section \<open>Lists\<close>

text \<open>\<^verbatim>\<open>zip(xs, xs[1:])\<close>.\<close>

definition adjacent :: "'a list \<Rightarrow> ('a \<times> 'a) list" where
  "adjacent xs = zip xs (tl xs)"

lemma adjacent_simps [simp]:
  "adjacent [] = []" "adjacent [x] = []" "adjacent (x # y # xs) = (x, y) # adjacent (y # xs)"
  by (simp_all add: adjacent_def)

lemma successively_adjacent: "successively P xs \<longleftrightarrow> (\<forall>(x, y) \<in> set (adjacent xs). P x y)"
  by (induction xs rule: induct_list012) auto

lemma sorted_map_weaken:
  assumes "sorted (map f xs)" and "\<And>x y. f x \<le> f y \<Longrightarrow> g x \<le> g y"
  shows "sorted (map g xs)"
  using assms(1) unfolding sorted_map
  by (rule sorted_wrt_mono_rel[rotated]) (rule assms(2))

lemma set_map_filter_iff: "y \<in> set (List.map_filter f xs) \<longleftrightarrow> (\<exists>x \<in> set xs. f x = Some y)"
  by (induction xs) (auto simp: List.map_filter_simps split: option.splits)

lemma mset_concat_map_partition:
  "mset (concat (map f (filter P xs))) + mset (concat (map f (filter (\<lambda>x. \<not> P x) xs)))
   = mset (concat (map f xs))"
  by (induction xs) auto

lemma mset_concat_update:
  assumes "i < length xs" "mset (f y) = mset (f (xs ! i)) + m"
  shows "mset (concat (map f (xs[i := y]))) = mset (concat (map f xs)) + m"
proof -
  have "xs = take i xs @ xs ! i # drop (Suc i) xs" using assms(1) by (rule id_take_nth_drop)
  then have "mset (concat (map f xs))
      = mset (concat (map f (take i xs))) + mset (f (xs ! i)) + mset (concat (map f (drop (Suc i) xs)))"
    by (metis append.assoc concat.simps(2) concat_append list.simps(9) map_append mset_append)
  moreover have "xs[i := y] = take i xs @ y # drop (Suc i) xs" using assms(1) by (rule upd_conv_take_nth_drop)
  ultimately show ?thesis by (simp add: assms(2))
qed

lemma sum_list_update_add:
  "i < length xs \<Longrightarrow> f y = f (xs ! i) + m \<Longrightarrow>
   sum_list (map f (xs[i := y])) = sum_list (map f xs) + (m :: nat)"
  by (induction xs arbitrary: i) (auto split: nat.split)

lemma mset_concat_sort:
  "mset (concat (map f (sort_key k xs))) = mset (concat (map f xs))"
proof -
  have "mset (concat (map f ys)) = (\<Sum>x \<in># mset ys. mset (f x))" for ys
    by (induction ys) auto
  then show ?thesis by simp
qed


lemma distinct_concat_inj:
  assumes "distinct ks" "\<forall>k \<in> set ks. distinct (g k)"
    "\<forall>k \<in> set ks. \<forall>k' \<in> set ks. set (g k) \<inter> set (g k') \<noteq> {} \<longrightarrow> k = k'"
  shows "distinct (concat (map g ks))"
  using assms
proof (induction ks)
  case (Cons k ks)
  then have "distinct (concat (map g ks))" "\<forall>k' \<in> set ks. set (g k) \<inter> set (g k') = {}" by auto
  with Cons.prems(2) show ?case by auto
qed simp

text \<open>Lists by strictly ascending keys: each key's part can be cut out of their concatenation.\<close>

lemma concat_by_key:
  assumes "list_all2 (\<lambda>k e. (\<forall>x \<in> set e. f x = k) \<and> Q e) ks ess" "sorted_wrt (<) (ks :: int list)"
  shows "sorted (map f (concat ess)) \<and> (\<forall>x \<in> set (concat ess). f x \<in> set ks) \<and>
    (\<forall>k \<in> set ks. Q (filter (\<lambda>x. f x = k) (concat ess)))"
  using assms
proof (induction rule: list_all2_induct)
  case (Cons k ks e ess)
  then have IH: "sorted (map f (concat ess))" "\<forall>x \<in> set (concat ess). f x \<in> set ks"
    "\<forall>k \<in> set ks. Q (filter (\<lambda>x. f x = k) (concat ess))" and lt: "\<forall>k' \<in> set ks. k < k'" by simp_all
  have e: "\<forall>x \<in> set e. f x = k" "Q e" using Cons.hyps by simp_all
  have rest: "\<forall>x \<in> set (concat ess). k < f x" using IH(2) lt by blast
  have "sorted (map f e)"
    using e(1) by (auto simp: sorted_wrt_map intro: sorted_wrt_mono_rel[of _ "\<lambda>_ _. True"])
  then have "sorted (map f (concat (e # ess)))"
    using IH(1) e(1) rest by (auto simp: sorted_append intro: less_imp_le)
  moreover have "filter (\<lambda>x. f x = k) (concat (e # ess)) = e"
    using e(1) rest by (simp add: filter_id_conv filter_empty_conv) force
  moreover have "filter (\<lambda>x. f x = j) (concat (e # ess)) = filter (\<lambda>x. f x = j) (concat ess)" if "j \<in> set ks" for j
    using e(1) lt that by (auto simp: filter_empty_conv)
  ultimately show ?case using IH(2,3) e by auto
qed simp

end
