(* ===== verification/Py_Float.thy ===== *)
theory Py_Float
  imports Complex_Main "HOL-Library.Log_Nat"
begin

text \<open>
  Python's \<^verbatim>\<open>float\<close>: IEEE-754 binary64 values with round-to-nearest, ties-to-even.
  A finite double is a rational number with a 53-bit significand, and every arithmetic
  operation is the exact operation on rationals followed by \<open>fl\<close>, the rounding to 53 bits.
  Comparisons, \<open>min\<close> and \<open>max\<close> are exact.  Not modelled: the exponent range (overflow to
  infinity, subnormals) and the sign of zero; the program's quantities are seconds,
  probabilities and scores, far from both ends.  Infinities and NaN appear only as values
  read from JSON (theory \<^verbatim>\<open>Py_Value\<close>), where the code tests for them.
\<close>

section \<open>Rounding to 53 bits\<close>

text \<open>Round to the nearest integer, ties to even.\<close>

definition rne :: "rat \<Rightarrow> int" where
  "rne x = (let f = \<lfloor>x\<rfloor>; d = x - of_int f in
     if d < 1 / 2 then f else if 1 / 2 < d then f + 1 else if even f then f else f + 1)"

text \<open>The binary exponent of a positive rational, from the bit lengths of its quotient.\<close>

definition expo :: "rat \<Rightarrow> int" where
  "expo x = (let (p, q) = quotient_of x; k = bitlen p - bitlen q
     in if 2 powi k \<le> x then k else k - 1)"

definition fl :: "rat \<Rightarrow> rat" where
  "fl x = (if x = 0 then 0
     else let u = 2 powi (expo \<bar>x\<bar> - 52) in of_int (rne (x / u)) * u)"

lemma rne_bounds: "\<bar>of_int (rne x) - x\<bar> \<le> 1 / 2"
proof -
  have "of_int \<lfloor>x\<rfloor> \<le> x" "x < of_int \<lfloor>x\<rfloor> + 1" by linarith+
  then show ?thesis by (auto simp: rne_def Let_def)
qed

lemma rne_of_int [simp]: "rne (of_int n) = n"
  by (simp add: rne_def)

lemma rne_mono:
  assumes "x \<le> y" shows "rne x \<le> rne y"
proof (cases "\<lfloor>x\<rfloor> = \<lfloor>y\<rfloor>")
  case True
  with assms show ?thesis by (auto simp: rne_def Let_def)
next
  case False
  have "\<lfloor>x\<rfloor> \<le> \<lfloor>y\<rfloor>" using assms by (rule floor_mono)
  with False have "\<lfloor>x\<rfloor> + 1 \<le> \<lfloor>y\<rfloor>" by linarith
  moreover have "rne x \<le> \<lfloor>x\<rfloor> + 1" "\<lfloor>y\<rfloor> \<le> rne y" by (auto simp: rne_def Let_def)
  ultimately show ?thesis by linarith
qed

lemma rne_neg: "rne (- x) = - rne x"
proof (cases "x = of_int \<lfloor>x\<rfloor>")
  case True
  then show ?thesis by (metis of_int_minus rne_of_int)
next
  case False
  define f where "f = \<lfloor>x\<rfloor>"
  have fx: "of_int f \<le> x" "x < of_int f + 1" unfolding f_def by linarith+
  with False have "of_int f < x" unfolding f_def by linarith
  with fx have fm: "\<lfloor>- x\<rfloor> = - f - 1" by (simp add: floor_eq_iff)
  have "rne x = (if x - of_int f < 1 / 2 then f else if 1 / 2 < x - of_int f then f + 1
      else if even f then f else f + 1)" by (simp add: rne_def f_def Let_def)
  moreover have "rne (- x) = (if 1 / 2 < x - of_int f then - f - 1
      else if x - of_int f < 1 / 2 then - f else if even f then - f else - f - 1)"
    by (auto simp: rne_def fm Let_def)
  ultimately show ?thesis by auto
qed

lemma powi_shift: "e' = e + int m \<Longrightarrow> (2 powi e' :: rat) = of_int (2 ^ m) * 2 powi e"
  by (simp add: power_int_add)

lemma bitlen_pos: "0 < n \<Longrightarrow> 0 < bitlen n"
  using bitlen_bounds[of n] by (cases "0 < bitlen n") auto

lemma expo_bounds:
  assumes "0 < x" shows "2 powi expo x \<le> x" and "x < 2 powi (expo x + 1)"
proof -
  obtain p q where pq: "quotient_of x = (p, q)" by (cases "quotient_of x")
  have q: "0 < q" by (rule quotient_of_denom_pos[OF pq])
  have x: "x = of_int p / of_int q" by (rule quotient_of_div[OF pq])
  with assms q have p: "0 < p" by (simp add: zero_less_divide_iff)
  define a b where "a = bitlen p" and "b = bitlen q"
  have bp: "2 ^ nat (a - 1) \<le> p \<and> p < 2 ^ nat a" and bq: "2 ^ nat (b - 1) \<le> q \<and> q < 2 ^ nat b"
    unfolding a_def b_def by (rule bitlen_bounds, fact)+
  have pos: "0 < a" "0 < b" unfolding a_def b_def using p q by (simp_all add: bitlen_pos)
  have cast: "(of_int (2 ^ nat k) :: rat) = 2 powi k" if "0 \<le> k" for k
    using that by (simp add: power_int_def)
  have lp: "2 powi (a - 1) \<le> (of_int p :: rat)" "(of_int p :: rat) < 2 powi a"
    using bp pos cast[of "a - 1"] cast[of a]
    by (metis of_int_le_iff int_one_le_iff_zero_less diff_ge_0_iff_ge)
       (metis bp cast of_int_less_iff less_imp_le pos(1))
  have lq: "2 powi (b - 1) \<le> (of_int q :: rat)" "(of_int q :: rat) < 2 powi b"
    using bq pos cast[of "b - 1"] cast[of b]
    by (metis of_int_le_iff int_one_le_iff_zero_less diff_ge_0_iff_ge)
       (metis bq cast of_int_less_iff less_imp_le pos(2))
  have qpos: "(0 :: rat) < of_int q" using q by simp
  have "2 powi (a - b - 1) * of_int q \<le> 2 powi (a - b - 1) * (2 powi b :: rat)"
    using lq(2) by (intro mult_left_mono) auto
  also have "\<dots> = 2 powi (a - 1)" by (simp flip: power_int_add)
  also have "\<dots> \<le> of_int p" by (rule lp(1))
  finally have lo: "2 powi (a - b - 1) \<le> x" using qpos by (simp add: x pos_le_divide_eq)
  have "of_int p < (2 powi a :: rat)" by (rule lp(2))
  also have "\<dots> = 2 powi (a - b + 1) * 2 powi (b - 1)" by (simp flip: power_int_add)
  also have "\<dots> \<le> 2 powi (a - b + 1) * of_int q"
    using lq(1) by (intro mult_left_mono) auto
  finally have hi: "x < 2 powi (a - b + 1)" using qpos by (simp add: x pos_divide_less_eq)
  have e: "expo x = (if 2 powi (a - b) \<le> x then a - b else a - b - 1)"
    by (simp add: expo_def pq a_def b_def Let_def)
  show "2 powi expo x \<le> x" using lo by (simp add: e)
  show "x < 2 powi (expo x + 1)" using hi by (simp add: e)
qed

lemma powi_2_less_iff: "(2 powi i :: rat) < 2 powi j \<longleftrightarrow> i < j"
  by (metis less_irrefl linorder_less_linear one_less_numeral_iff order_less_trans
      power_int_strict_increasing semiring_norm(76))

lemma powi_2_le_iff: "(2 powi i :: rat) \<le> 2 powi j \<longleftrightarrow> i \<le> j"
  by (metis linorder_not_le powi_2_less_iff)

lemma expo_unique:
  assumes "0 < x" "2 powi e \<le> x" "x < 2 powi (e + 1)"
  shows "expo x = e"
proof -
  have "2 powi e < (2 powi (expo x + 1) :: rat)" "2 powi expo x < (2 powi (e + 1) :: rat)"
    using expo_bounds[OF assms(1)] assms(2,3) by linarith+
  then show ?thesis unfolding powi_2_less_iff by linarith
qed

lemma expo_mono: "0 < x \<Longrightarrow> x \<le> y \<Longrightarrow> expo x \<le> expo y"
proof -
  assume "0 < x" "x \<le> y"
  then have "2 powi expo x < (2 powi (expo y + 1) :: rat)"
    using expo_bounds(1)[of x] expo_bounds(2)[of y] by linarith
  then show "expo x \<le> expo y" unfolding powi_2_less_iff by linarith
qed

lemma fl_0 [simp]: "fl 0 = 0"
  by (simp add: fl_def)

lemma fl_pos_eq: "0 < x \<Longrightarrow> fl x = of_int (rne (x / 2 powi (expo x - 52))) * 2 powi (expo x - 52)"
  by (simp add: fl_def Let_def)

lemma fl_neg: "fl (- x) = - fl x"
  by (simp add: fl_def Let_def rne_neg)

text \<open>A positive number rounds into its own binade, both ends included.\<close>

lemma fl_binade:
  assumes "0 < x"
  shows "2 powi expo x \<le> fl x" "fl x \<le> 2 powi (expo x + 1)"
proof -
  let ?u = "2 powi (expo x - 52) :: rat"
  have u: "0 < ?u" by simp
  have p: "(2 powi expo x :: rat) = of_int (2 ^ 52) * ?u"
    "(2 powi (expo x + 1) :: rat) = of_int (2 ^ 53) * ?u"
    by (rule powi_shift, simp)+
  have "of_int (2 ^ 52) \<le> x / ?u" "x / ?u \<le> of_int (2 ^ 53)"
    using expo_bounds[OF assms] u unfolding p
    by (auto simp: pos_le_divide_eq pos_divide_le_eq simp del: of_int_power)
  then have "2 ^ 52 \<le> rne (x / ?u)" "rne (x / ?u) \<le> 2 ^ 53"
    using rne_mono[of "of_int (2 ^ 52)" "x / ?u"] rne_mono[of "x / ?u" "of_int (2 ^ 53)"]
    by (simp_all only: rne_of_int)
  then have "(of_int (2 ^ 52) :: rat) \<le> of_int (rne (x / ?u))"
    "(of_int (rne (x / ?u)) :: rat) \<le> of_int (2 ^ 53)"
    by (simp_all only: of_int_le_iff)
  then show "2 powi expo x \<le> fl x" "fl x \<le> 2 powi (expo x + 1)"
    unfolding fl_pos_eq[OF assms] p using u by (auto intro: mult_right_mono)
qed

lemma fl_pos [simp]: "0 < x \<Longrightarrow> 0 < fl x"
  using fl_binade(1)[of x] by (meson less_le_trans zero_less_numeral zero_less_power_int)

lemma fl_mono_pos:
  assumes "0 < x" "x \<le> y" shows "fl x \<le> fl y"
proof (cases "expo x = expo y")
  case True
  let ?u = "2 powi (expo x - 52) :: rat"
  have "x / ?u \<le> y / ?u" using assms by (simp add: divide_right_mono)
  then have "rne (x / ?u) \<le> rne (y / ?u)" by (rule rne_mono)
  then have "(of_int (rne (x / ?u)) :: rat) \<le> of_int (rne (y / ?u))" by simp
  then have "of_int (rne (x / ?u)) * ?u \<le> of_int (rne (y / ?u)) * ?u"
    by (rule mult_right_mono) simp
  with assms True show ?thesis by (simp add: fl_pos_eq)
next
  case False
  with expo_mono[OF assms] have "expo x + 1 \<le> expo y" by simp
  then have "(2 powi (expo x + 1) :: rat) \<le> 2 powi expo y" by (simp only: powi_2_le_iff)
  with assms fl_binade(2)[of x] fl_binade(1)[of y] show ?thesis by linarith
qed

lemma fl_mono: "x \<le> y \<Longrightarrow> fl x \<le> fl y"
proof -
  assume xy: "x \<le> y"
  consider "0 < x" | "y < 0" | "x \<le> 0" "0 \<le> y" by linarith
  then show ?thesis
  proof cases
    case 1
    then show ?thesis using xy by (rule fl_mono_pos)
  next
    case 2
    then show ?thesis using fl_mono_pos[of "- y" "- x"] xy by (simp add: fl_neg)
  next
    case 3
    have "fl x \<le> 0" using 3(1) fl_pos[of "- x"] by (cases "x = 0") (auto simp: fl_neg)
    moreover have "0 \<le> fl y" using 3(2) fl_pos[of y] by (cases "y = 0") (simp, linarith)
    ultimately show ?thesis by simp
  qed
qed

text \<open>Numbers with at most 53 significant bits are fixed points.\<close>

lemma fl_exact_pos:
  assumes "0 < n" "n < 2 ^ 53" shows "fl (of_int n * 2 powi k) = of_int n * 2 powi k"
proof -
  let ?x = "of_int n * 2 powi k :: rat"
  have x: "0 < ?x" using assms by simp
  have "(2 powi expo ?x :: rat) \<le> ?x" by (rule expo_bounds(1)[OF x])
  also have "?x < of_int (2 ^ 53) * 2 powi k"
    by (rule mult_strict_right_mono) (use assms in \<open>simp_all only: of_int_less_iff\<close>, simp)
  also have "\<dots> = 2 powi (53 + k)" by (rule powi_shift [symmetric]) simp
  finally have e: "expo ?x - 52 \<le> k" unfolding powi_2_less_iff by simp
  define j where "j = nat (k - (expo ?x - 52))"
  have k: "k = int j + (expo ?x - 52)" using e by (simp add: j_def)
  have p: "(2 powi k :: rat) = of_int (2 ^ j) * 2 powi (expo ?x - 52)"
    by (rule powi_shift) (use k in linarith)
  have eq: "?x = of_int (n * 2 ^ j) * 2 powi (expo ?x - 52)"
    by (subst p) (simp only: of_int_mult mult.assoc)
  have "?x / 2 powi (expo ?x - 52) = of_int (n * 2 ^ j)"
    by (rule iffD2 [OF nonzero_divide_eq_eq eq]) simp
  then have "fl ?x = of_int (n * 2 ^ j) * 2 powi (expo ?x - 52)"
    by (simp only: fl_pos_eq[OF x] rne_of_int)
  also have "\<dots> = ?x" by (rule eq [symmetric])
  finally show ?thesis .
qed

lemma fl_exact:
  assumes "\<bar>n\<bar> \<le> 2 ^ 53" shows "fl (of_int n * 2 powi k) = of_int n * 2 powi k"
proof -
  have pos: "fl (of_int m * 2 powi k) = of_int m * 2 powi k" if m: "0 < m" "m \<le> 2 ^ 53" for m :: int
  proof (cases "m = 2 ^ 53")
    case True
    have "(of_int m :: rat) * 2 powi k = of_int 1 * 2 powi (53 + k)"
      by (simp add: True power_int_add)
    then show ?thesis using fl_exact_pos[of 1 "53 + k"] by (simp only:) simp
  next
    case False
    with m show ?thesis by (intro fl_exact_pos) auto
  qed
  consider "n = 0" | "0 < n" | "n < 0" by linarith
  then show ?thesis
  proof cases
    case 3
    then show ?thesis using pos[of "- n"] assms by (simp add: fl_neg)
  qed (use pos assms in auto)
qed

lemma fl_of_int: "\<bar>n\<bar> \<le> 2 ^ 53 \<Longrightarrow> fl (of_int n) = of_int n"
  using fl_exact[of n 0] by simp

lemma fl_1 [simp]: "fl 1 = 1"
  using fl_of_int[of 1] by simp

lemma fl_numeral [simp]: "(numeral k :: int) \<le> 9007199254740992 \<Longrightarrow> fl (numeral k) = numeral k"
  using fl_of_int[of "numeral k"] by simp

lemma fl_neg_numeral [simp]:
  "(numeral k :: int) \<le> 9007199254740992 \<Longrightarrow> fl (- numeral k) = - numeral k"
  by (simp add: fl_neg)

lemma fl_fl [simp]: "fl (fl x) = fl x"
proof -
  have pos: "fl (fl y) = fl y" if y: "0 < y" for y
  proof -
    let ?u = "2 powi (expo y - 52) :: rat"
    have u: "0 < ?u" by simp
    have "of_int (rne (y / ?u)) * ?u \<le> 2 powi (expo y + 1)" "0 < of_int (rne (y / ?u)) * ?u"
      using fl_binade(2)[OF y] fl_pos[OF y] by (simp_all only: fl_pos_eq[OF y])
    moreover have "(2 powi (expo y + 1) :: rat) = of_int (2 ^ 53) * ?u"
      by (rule powi_shift) simp
    ultimately have "(of_int (rne (y / ?u)) :: rat) \<le> of_int (2 ^ 53)"
      "(0 :: rat) < of_int (rne (y / ?u))"
      using u by (simp_all only: mult_le_cancel_right_pos zero_less_mult_iff, linarith)
    then have "\<bar>rne (y / ?u)\<bar> \<le> 2 ^ 53" by (simp only: of_int_le_iff of_int_0_less_iff)
    then show ?thesis by (simp only: fl_pos_eq[OF y]) (rule fl_exact)
  qed
  consider "x = 0" | "0 < x" | "x < 0" by linarith
  then show ?thesis
  proof cases
    case 3
    then show ?thesis using pos[of "- x"] by (simp add: fl_neg)
  qed (use pos in auto)
qed


subsection \<open>Evaluation\<close>

text \<open>
  Code equations in integer arithmetic: a number that is a double already is its own rounding,
  every other one is scaled to an integer quotient with 53 significant bits.
\<close>

definition div_even :: "int \<Rightarrow> int \<Rightarrow> int" where
  "div_even a b = (let (d, r) = (a div b, a mod b) in
     if 2 * r < b then d else if b < 2 * r then d + 1 else if even d then d else d + 1)"

lemma rne_quotient:
  assumes "0 < b" shows "rne (of_int a / of_int b) = div_even a b"
proof -
  let ?x = "of_int a / of_int b :: rat"
  have f: "\<lfloor>?x\<rfloor> = a div b" by (rule floor_divide_of_int_eq)
  have "(of_int a :: rat) = of_int (a div b) * of_int b + of_int (a mod b)"
    by (metis div_mult_mod_eq of_int_add of_int_mult)
  then have d: "?x - of_int (a div b) = of_int (a mod b) / of_int b"
    using assms by (simp add: field_simps)
  have b: "(0 :: rat) < of_int b" using assms by simp
  have lt: "of_int (a mod b) / of_int b < (1 / 2 :: rat) \<longleftrightarrow> 2 * (a mod b) < b"
    "(1 / 2 :: rat) < of_int (a mod b) / of_int b \<longleftrightarrow> b < 2 * (a mod b)"
    using b by (simp_all add: pos_divide_less_eq pos_less_divide_eq)
       (metis mult.commute of_int_less_iff of_int_mult of_int_numeral)+
  show ?thesis unfolding rne_def div_even_def Let_def f d lt by simp
qed

fun fast_bitlen :: "int \<Rightarrow> int" where
  "fast_bitlen n = (if 4294967296 \<le> n then 32 + fast_bitlen (n div 4294967296)
     else if 256 \<le> n then 8 + bitlen (n div 256) else bitlen n)"

declare fast_bitlen.simps [simp del, code]

lemma bitlen_div: "2 ^ k \<le> n \<Longrightarrow> bitlen n = int k + bitlen (n div 2 ^ k)"
proof (induction k arbitrary: n)
  case (Suc k)
  then have n: "0 < n" by (meson less_le_trans zero_less_numeral zero_less_power)
  have "2 ^ k \<le> n div 2" using Suc.prems by simp
  from Suc.IH[OF this] have "bitlen (n div 2) = int k + bitlen (n div 2 div 2 ^ k)" .
  moreover have "n div 2 div 2 ^ k = n div 2 ^ Suc k" by (simp add: zdiv_zmult2_eq)
  ultimately show ?case using n compute_bitlen[of n] by simp
qed simp

lemma fast_bitlen [simp]: "fast_bitlen n = bitlen n"
proof (induction n rule: fast_bitlen.induct)
  case (1 n)
  show ?case
    using 1 bitlen_div[of 32 n] bitlen_div[of 8 n] by (subst fast_bitlen.simps) simp
qed

definition round_quotient :: "int \<Rightarrow> int \<Rightarrow> rat" where
  "round_quotient p q =
    (let k = fast_bitlen p - fast_bitlen q;
         e = (if (if 0 \<le> k then 2 ^ nat k * q \<le> p else q \<le> p * 2 ^ nat (- k)) then k else k - 1);
         s = 52 - e
     in if 0 \<le> s then of_int (div_even (p * 2 ^ nat s) q) / of_int (2 ^ nat s)
        else of_int (div_even p (q * 2 ^ nat (- s)) * 2 ^ nat (- s)))"

lemma powi_as_int:
  "0 \<le> k \<Longrightarrow> (2 powi k :: rat) = of_int (2 ^ nat k)"
  "k < 0 \<Longrightarrow> (2 powi k :: rat) = 1 / of_int (2 ^ nat (- k))"
  by (simp_all add: power_int_def inverse_eq_divide power_one_over)

lemma fl_quotient:
  assumes "quotient_of x = (p, q)" and "0 < p"
  shows "fl x = round_quotient p q"
proof -
  have q: "0 < q" by (rule quotient_of_denom_pos[OF assms(1)])
  have x: "x = of_int p / of_int q" by (rule quotient_of_div[OF assms(1)])
  have pos: "0 < x" using assms(2) q by (simp add: x)
  define k where "k = bitlen p - bitlen q"
  have "(2 powi k \<le> x) = (if 0 \<le> k then 2 ^ nat k * q \<le> p else q \<le> p * 2 ^ nat (- k))"
  proof (cases "0 \<le> k")
    case True
    have "(2 powi k \<le> x) = ((of_int (2 ^ nat k * q) :: rat) \<le> of_int p)"
      using True q by (simp add: powi_as_int x pos_le_divide_eq)
    then show ?thesis using True by (simp only: of_int_le_iff if_True)
  next
    case False
    have "(2 powi k \<le> x) = ((of_int q :: rat) \<le> of_int (p * 2 ^ nat (- k)))"
      using False q by (simp add: powi_as_int x field_simps)
    then show ?thesis using False by (simp only: of_int_le_iff if_False)
  qed
  then have e: "expo x = (if (if 0 \<le> k then 2 ^ nat k * q \<le> p else q \<le> p * 2 ^ nat (- k))
      then k else k - 1)"
    by (simp add: expo_def assms(1) k_def Let_def)
  define s where "s = 52 - expo x"
  have rq: "round_quotient p q =
     (if 0 \<le> s then of_int (div_even (p * 2 ^ nat s) q) / of_int (2 ^ nat s)
      else of_int (div_even p (q * 2 ^ nat (- s)) * 2 ^ nat (- s)))"
    by (simp only: round_quotient_def Let_def fast_bitlen k_def [symmetric] e [symmetric] s_def [symmetric])
  have fl: "fl x = of_int (rne (x / 2 powi (- s))) * 2 powi (- s)"
    by (simp add: fl_pos_eq[OF pos] s_def)
  show ?thesis
  proof (cases "0 \<le> s")
    case True
    have "x / 2 powi (- s) = of_int (p * 2 ^ nat s) / of_int q"
      using True by (simp add: x power_int_minus powi_as_int field_simps)
    moreover have "(2 powi (- s) :: rat) = 1 / of_int (2 ^ nat s)"
      using True by (simp add: power_int_minus powi_as_int inverse_eq_divide)
    ultimately have "fl x = of_int (div_even (p * 2 ^ nat s) q) / of_int (2 ^ nat s)"
      using rne_quotient[OF q, of "p * 2 ^ nat s"] by (simp add: fl)
    then show ?thesis using True by (simp only: rq if_True)
  next
    case False
    have "x / 2 powi (- s) = of_int p / of_int (q * 2 ^ nat (- s))"
      using False by (simp add: x powi_as_int)
    moreover have "(2 powi (- s) :: rat) = of_int (2 ^ nat (- s))"
      using False by (simp add: powi_as_int)
    moreover have "0 < q * 2 ^ nat (- s)" using q by simp
    ultimately have "fl x = of_int (div_even p (q * 2 ^ nat (- s)) * 2 ^ nat (- s))"
      using rne_quotient[of "q * 2 ^ nat (- s)" p] by (simp add: fl)
    then show ?thesis using False by (simp only: rq if_False)
  qed
qed

lemma fl_code [code]:
  "fl x = (let (p, q) = quotient_of x in
     if \<bar>p\<bar> \<le> 9007199254740992 \<and> q = 1 then x
     else if 0 < p then round_quotient p q else - round_quotient (- p) q)"
proof -
  obtain p q where pq: "quotient_of x = (p, q)" by (cases "quotient_of x")
  have x: "x = of_int p / of_int q" by (rule quotient_of_div[OF pq])
  consider "\<bar>p\<bar> \<le> 9007199254740992 \<and> q = 1" | "0 < p" | "p < 0" | "p = 0" by linarith
  then show ?thesis
  proof cases
    case 1
    then have "fl x = x" using fl_of_int[of p] by (simp add: x)
    then show ?thesis using 1 by (simp add: pq)
  next
    case 2
    have "fl x = x" if "\<bar>p\<bar> \<le> 9007199254740992 \<and> q = 1"
      using that fl_of_int[of p] by (simp add: x)
    then show ?thesis using 2 by (auto simp: pq fl_quotient[OF pq])
  next
    case 3
    have "quotient_of (- x) = (- p, q)" by (simp add: rat_uminus_code pq)
    from fl_quotient[OF this] 3 have "fl x = - round_quotient (- p) q" by (simp add: fl_neg)
    moreover have "fl x = x" if "\<bar>p\<bar> \<le> 9007199254740992 \<and> q = 1"
      using that fl_of_int[of p] by (simp add: x)
    ultimately show ?thesis using 3 by (auto simp: pq)
  next
    case 4
    then have "x = 0" by (simp add: x)
    then show ?thesis by simp
  qed
qed

section \<open>The type of finite doubles\<close>

typedef dbl = "{x :: rat. fl x = x}"
  morphisms val Abs_dbl
  by (rule exI[of _ 0]) simp

setup_lifting type_definition_dbl

text \<open>A literal or an exactly known number, rounded to the nearest double.\<close>

lift_definition D :: "rat \<Rightarrow> dbl" is fl by simp

instantiation dbl :: "{zero, one, plus, minus, uminus, times, inverse, abs, linorder, equal}"
begin

lift_definition zero_dbl :: dbl is 0 by simp

lift_definition one_dbl :: dbl is 1 by simp

lift_definition plus_dbl :: "dbl \<Rightarrow> dbl \<Rightarrow> dbl" is "\<lambda>x y. fl (x + y)" by simp

lift_definition minus_dbl :: "dbl \<Rightarrow> dbl \<Rightarrow> dbl" is "\<lambda>x y. fl (x - y)" by simp

lift_definition uminus_dbl :: "dbl \<Rightarrow> dbl" is uminus by (simp add: fl_neg)

lift_definition times_dbl :: "dbl \<Rightarrow> dbl \<Rightarrow> dbl" is "\<lambda>x y. fl (x * y)" by simp

lift_definition inverse_dbl :: "dbl \<Rightarrow> dbl" is "\<lambda>x. fl (inverse x)" by simp

lift_definition divide_dbl :: "dbl \<Rightarrow> dbl \<Rightarrow> dbl" is "\<lambda>x y. fl (x / y)" by simp

lift_definition abs_dbl :: "dbl \<Rightarrow> dbl" is abs by (auto simp: fl_neg abs_if)

lift_definition less_eq_dbl :: "dbl \<Rightarrow> dbl \<Rightarrow> bool" is "(\<le>)" .

lift_definition less_dbl :: "dbl \<Rightarrow> dbl \<Rightarrow> bool" is "(<)" .

lift_definition equal_dbl :: "dbl \<Rightarrow> dbl \<Rightarrow> bool" is HOL.equal .

instance
  by standard (transfer, simp add: equal; linarith)+

end

text \<open>\<open>int\<close> to \<open>float\<close>, and \<open>math.floor\<close>/\<open>is_integer\<close>/\<open>int(x)\<close> on a double.\<close>

lift_definition of_pyint :: "int \<Rightarrow> dbl" is "\<lambda>n. fl (of_int n)" by simp

lift_definition dbl_is_integer :: "dbl \<Rightarrow> bool" is "\<lambda>x. of_int \<lfloor>x\<rfloor> = x" .

lift_definition dbl_trunc :: "dbl \<Rightarrow> int" is "\<lambda>x. if 0 \<le> x then \<lfloor>x\<rfloor> else \<lceil>x\<rceil>" .

text \<open>
  \<open>round(x, n)\<close> for \<open>n > 0\<close>: the exact decimal rounding (ties to even) of the double,
  read back as a double.  \<^verbatim>\<open>float(f"{x:.nf}")\<close> computes the same number.
\<close>

lift_definition py_round :: "dbl \<Rightarrow> nat \<Rightarrow> dbl" is
  "\<lambda>x n. fl (of_int (rne (x * 10 ^ n)) / 10 ^ n)" by simp

lemma val_fl [simp]: "fl (val x) = val x"
  using val[of x] by simp

subsection \<open>Order laws of rounded arithmetic\<close>

named_theorems dbl_arith \<open>monotonicity and sign laws of binary64 arithmetic\<close>

lemma dbl_add_mono [dbl_arith]: "a \<le> b \<Longrightarrow> c \<le> d \<Longrightarrow> a + c \<le> b + (d :: dbl)"
  by transfer (rule fl_mono, rule add_mono)

lemma dbl_diff_mono [dbl_arith]: "a \<le> b \<Longrightarrow> d \<le> c \<Longrightarrow> a - c \<le> b - (d :: dbl)"
  by transfer (rule fl_mono, rule diff_mono)

lemma dbl_add_commute: "a + b = b + (a :: dbl)"
  by transfer (simp add: add.commute)

lemma dbl_add_0 [simp]: "a + 0 = (a :: dbl)" "0 + a = a"
  by (transfer, simp)+

lemma dbl_diff_0 [simp]: "a - 0 = (a :: dbl)"
  by transfer simp

lemma dbl_diff_self [simp]: "a - a = (0 :: dbl)"
  by transfer simp

lemma dbl_mult_0 [simp]: "a * 0 = (0 :: dbl)" "0 * a = (0 :: dbl)"
  by (transfer, simp)+

lemma fl_pos_iff: "0 < fl x \<longleftrightarrow> 0 < x"
  by (metis fl_0 fl_mono fl_pos linorder_not_le)

lemma fl_nonneg_iff: "0 \<le> fl x \<longleftrightarrow> 0 \<le> x"
  using fl_pos_iff[of "- x"] by (auto simp: fl_neg not_less[symmetric])

lemma dbl_diff_pos_iff [simp]: "0 < a - b \<longleftrightarrow> b < (a :: dbl)"
  by transfer (simp add: fl_pos_iff)

lemma dbl_diff_nonneg_iff [simp]: "0 \<le> a - b \<longleftrightarrow> b \<le> (a :: dbl)"
  by transfer (simp add: fl_nonneg_iff)

lemma dbl_diff_nonpos_iff [simp]: "a - b \<le> 0 \<longleftrightarrow> a \<le> (b :: dbl)"
  using dbl_diff_pos_iff[of a b] by (simp only: not_less[symmetric])

lemma dbl_add_nonneg [dbl_arith]: "0 \<le> a \<Longrightarrow> 0 \<le> b \<Longrightarrow> 0 \<le> a + (b :: dbl)"
  by transfer (simp add: fl_nonneg_iff)

lemma dbl_le_add [dbl_arith]: "0 \<le> e \<Longrightarrow> a \<le> a + (e :: dbl)"
  using dbl_add_mono[of a a 0 e] by simp

lemma dbl_diff_le [dbl_arith]: "0 \<le> e \<Longrightarrow> a - e \<le> (a :: dbl)"
  using dbl_diff_mono[of a a 0 e] by simp

lemma dbl_mult_nonneg [dbl_arith]: "0 \<le> a \<Longrightarrow> 0 \<le> b \<Longrightarrow> 0 \<le> a * (b :: dbl)"
  by transfer (simp add: fl_nonneg_iff)

lemma dbl_div_nonneg [dbl_arith]: "0 \<le> a \<Longrightarrow> 0 \<le> b \<Longrightarrow> 0 \<le> a / (b :: dbl)"
  by transfer (simp add: fl_nonneg_iff)

lemma dbl_div_le_1 [dbl_arith]: "0 \<le> a \<Longrightarrow> a \<le> b \<Longrightarrow> 0 < b \<Longrightarrow> a / b \<le> (1 :: dbl)"
  by transfer (use fl_mono[of _ 1] in \<open>simp add: pos_divide_le_eq\<close>)

lemma dbl_abs_nonneg [simp]: "0 \<le> \<bar>a :: dbl\<bar>"
  by transfer simp

lemma dbl_abs_of_nonneg [simp]: "0 \<le> a \<Longrightarrow> \<bar>a :: dbl\<bar> = a"
  by transfer simp

lemma dbl_abs_le_0_iff [simp]: "\<bar>a :: dbl\<bar> \<le> 0 \<longleftrightarrow> a = 0"
  by transfer simp

lemma dbl_abs_diff_commute: "\<bar>a - b\<bar> = \<bar>b - a :: dbl\<bar>"
proof transfer
  fix a b :: rat
  have "fl (b - a) = - fl (a - b)" using fl_neg[of "a - b"] by simp
  then show "\<bar>fl (a - b)\<bar> = \<bar>fl (b - a)\<bar>" by simp
qed

lemma D_mono: "r \<le> s \<Longrightarrow> D r \<le> D s"
  by transfer (rule fl_mono)

lemma D_0 [simp]: "D 0 = 0" and D_1 [simp]: "D 1 = 1"
  by (transfer, simp)+

lemma D_pos_iff [simp]: "0 < D r \<longleftrightarrow> 0 < r"
  by transfer (simp add: fl_pos_iff)

lemma D_nonneg_iff [simp]: "0 \<le> D r \<longleftrightarrow> 0 \<le> r"
  by transfer (simp add: fl_nonneg_iff)

lemma py_round_mono: "a \<le> b \<Longrightarrow> py_round a n \<le> py_round b n"
  by transfer (intro fl_mono divide_right_mono, simp_all add: rne_mono mult_right_mono)

lemma py_round_0 [simp]: "py_round 0 n = 0"
  by transfer (use rne_of_int[of 0] in simp)

lemma py_round_nonneg [dbl_arith]: "0 \<le> a \<Longrightarrow> 0 \<le> py_round a n"
  using py_round_mono[of 0 a n] by simp

lemma of_pyint_mono: "m \<le> n \<Longrightarrow> of_pyint m \<le> of_pyint n"
  by transfer (rule fl_mono, simp)

subsection \<open>Summation\<close>

text \<open>
  The built-in \<open>sum\<close> on floats.  CPython 3.12 (the interpreter \<^verbatim>\<open>tools/torchenv.sh\<close>
  pins) adds with Neumaier's compensation: a running total and a running correction, which
  is added at the end.
\<close>

definition neumaier_step :: "dbl \<times> dbl \<Rightarrow> dbl \<Rightarrow> dbl \<times> dbl" where
  "neumaier_step acc x = (let (s, c) = acc; t = s + x
     in (t, c + (if \<bar>x\<bar> \<le> \<bar>s\<bar> then (s - t) + x else (x - t) + s)))"

definition py_sum :: "dbl list \<Rightarrow> dbl" where
  "py_sum xs = (let (s, c) = foldl neumaier_step (0, 0) xs in s + c)"

lemma py_sum_Nil [simp]: "py_sum [] = 0"
  by (simp add: py_sum_def)

lemma py_sum_singleton [simp]: "py_sum [x] = x"
proof -
  have "neumaier_step (0, 0) x = (x, 0)" by (simp add: neumaier_step_def Let_def)
  then show ?thesis by (simp add: py_sum_def)
qed

end
