(* ===== verification/Py_Value.thy ===== *)
theory Py_Value
  imports Prelude Py_Float "HOL-Library.List_Lexorder" "HOL-Library.Char_ord"
begin

text \<open>
  Python values as \<^verbatim>\<open>json.load\<close> produces them, and the built-in conversions the tools apply
  to them: truth testing, \<open>==\<close>, \<open>dict.get\<close>, \<open>float\<close>, \<open>int\<close>, \<open>str\<close> and iteration.

  A \<open>string\<close> is a sequence of code points, one \<open>char\<close> each, so that \<open>length\<close> is Python's
  \<open>len\<close> and \<open>@\<close> its concatenation.  HOL's \<open>char\<close> has the first 256 code points; no modelled
  operation looks at a code point beyond ASCII.
\<close>

section \<open>Values\<close>

datatype non_finite = PosInf | NegInf | NaN

datatype json =
    JNull
  | JBool bool
  | JInt int
  | JFlt dbl
  | JNonFin non_finite
  | JStr string
  | JArr "json list"
  | JObj "(string \<times> json) list"

type_synonym obj = "(string, json) pydict"

text \<open>\<^verbatim>\<open>d.get(k, default)\<close> and \<^verbatim>\<open>d.get(k)\<close> on a dict, and \<^verbatim>\<open>d[k]\<close>.\<close>

definition dget :: "obj \<Rightarrow> string \<Rightarrow> json \<Rightarrow> json" where
  "dget d k dflt = (case map_of d k of None \<Rightarrow> dflt | Some v \<Rightarrow> v)"

definition get :: "obj \<Rightarrow> string \<Rightarrow> json" where
  "get d k = dget d k JNull"

definition ditem :: "('k \<times> 'v) list \<Rightarrow> 'k \<Rightarrow> py_error \<Rightarrow> 'v res" where
  "ditem d k e = (case map_of d k of None \<Rightarrow> Inl e | Some v \<Rightarrow> Inr v)"

definition item :: "obj \<Rightarrow> string \<Rightarrow> json res" where
  "item d k = ditem d k (KeyError k)"

text \<open>\<^verbatim>\<open>v.get(k, default)\<close> on any value: an AttributeError unless it is a dict.\<close>

fun vget :: "json \<Rightarrow> string \<Rightarrow> json \<Rightarrow> json res" where
  "vget (JObj d) k dflt = Inr (dget d k dflt)"
| "vget _ k dflt = Inl AttributeError"

text \<open>\<^verbatim>\<open>v[k]\<close> with a string key on any value: a TypeError unless it is a dict.\<close>

fun vitem :: "json \<Rightarrow> string \<Rightarrow> json res" where
  "vitem (JObj d) k = item d k"
| "vitem _ k = Inl TypeError"

text \<open>A value on which methods of a dict are called.\<close>

fun vdict :: "json \<Rightarrow> obj res" where
  "vdict (JObj d) = Inr d"
| "vdict _ = Inl AttributeError"

text \<open>\<^verbatim>\<open>isinstance(v, dict)\<close> as a filter on lists, and \<^verbatim>\<open>isinstance(v, list)\<close>.\<close>

fun as_obj :: "json \<Rightarrow> obj option" where
  "as_obj (JObj d) = Some d"
| "as_obj _ = None"

fun arr_or_empty :: "json \<Rightarrow> json list" where
  "arr_or_empty (JArr xs) = xs"
| "arr_or_empty _ = []"

definition dict_items :: "json list \<Rightarrow> obj list" where
  "dict_items xs = List.map_filter as_obj xs"

text \<open>\<^verbatim>\<open>for x in v\<close>: lists, the keys of a dict, the characters of a string.\<close>

fun py_iter :: "json \<Rightarrow> json list res" where
  "py_iter (JArr xs) = Inr xs"
| "py_iter (JObj d) = Inr (map (JStr \<circ> fst) d)"
| "py_iter (JStr s) = Inr (map (\<lambda>c. JStr [c]) s)"
| "py_iter _ = Inl TypeError"

fun py_len :: "json \<Rightarrow> int res" where
  "py_len (JArr xs) = Inr (int (length xs))"
| "py_len (JObj d) = Inr (int (length d))"
| "py_len (JStr s) = Inr (int (length s))"
| "py_len _ = Inl TypeError"

section \<open>Truth and equality\<close>

fun truthy :: "json \<Rightarrow> bool" where
  "truthy JNull = False"
| "truthy (JBool b) = b"
| "truthy (JInt n) = (n \<noteq> 0)"
| "truthy (JFlt x) = (x \<noteq> 0)"
| "truthy (JNonFin _) = True"
| "truthy (JStr s) = (s \<noteq> [])"
| "truthy (JArr xs) = (xs \<noteq> [])"
| "truthy (JObj d) = (d \<noteq> [])"

text \<open>Numbers compare by value across \<open>bool\<close>, \<open>int\<close> and \<open>float\<close>.\<close>

fun num_val :: "json \<Rightarrow> rat option" where
  "num_val (JBool b) = Some (if b then 1 else 0)"
| "num_val (JInt n) = Some (of_int n)"
| "num_val (JFlt x) = Some (val x)"
| "num_val _ = None"

fun py_eq :: "json \<Rightarrow> json \<Rightarrow> bool" where
  "py_eq JNull y = (y = JNull)"
| "py_eq (JStr s) y = (y = JStr s)"
| "py_eq (JNonFin i) y = (i \<noteq> NaN \<and> y = JNonFin i)"
| "py_eq (JArr xs) y = (case y of JArr ys \<Rightarrow> list_all2 py_eq xs ys | _ \<Rightarrow> False)"
| "py_eq (JObj d) y = (case y of
     JObj d' \<Rightarrow> length d = length d' \<and>
       list_all (\<lambda>(k, v). case map_of d' k of None \<Rightarrow> False | Some w \<Rightarrow> py_eq v w) d
   | _ \<Rightarrow> False)"
| "py_eq x y = (case (num_val x, num_val y) of (Some a, Some b) \<Rightarrow> a = b | _ \<Rightarrow> False)"

section \<open>Numbers\<close>

text \<open>\<^verbatim>\<open>isinstance(v, (int, float)) and math.isfinite(v)\<close>; a bool is an int.\<close>

fun finite_num :: "json \<Rightarrow> dbl option" where
  "finite_num (JBool b) = Some (of_pyint (if b then 1 else 0))"
| "finite_num (JInt n) = Some (of_pyint n)"
| "finite_num (JFlt x) = Some x"
| "finite_num _ = None"

fun is_digit :: "char \<Rightarrow> bool" where
  "is_digit c = (CHR ''0'' \<le> c \<and> c \<le> CHR ''9'')"

definition is_space :: "char \<Rightarrow> bool" where
  "is_space c \<longleftrightarrow> c = CHR '' '' \<or> (CHR 0x09 \<le> c \<and> c \<le> CHR 0x0D) \<or> (CHR 0x1C \<le> c \<and> c \<le> CHR 0x1F)
     \<or> c = CHR 0x85 \<or> c = CHR 0xA0"

definition strip :: "string \<Rightarrow> string" where
  "strip s = rev (dropWhile is_space (rev (dropWhile is_space s)))"

definition digit_val :: "char \<Rightarrow> int" where
  "digit_val c = of_char c - 48"

definition digits_val :: "string \<Rightarrow> int" where
  "digits_val s = foldl (\<lambda>n c. 10 * n + digit_val c) 0 s"

text \<open>Digits with single underscores between them: the value and the number of digits.\<close>

fun digit_part_ok :: "string \<Rightarrow> bool" where
  "digit_part_ok [] = False"
| "digit_part_ok [c] = is_digit c"
| "digit_part_ok (c # d # s) =
     (is_digit c \<and> (if d = CHR ''_'' then digit_part_ok s else digit_part_ok (d # s)))"

definition split_sign :: "string \<Rightarrow> bool \<times> string" where
  "split_sign s = (case s of [] \<Rightarrow> (False, [])
     | c # r \<Rightarrow> if c = CHR ''-'' then (True, r) else if c = CHR ''+'' then (False, r) else (False, s))"

definition parse_int :: "string \<Rightarrow> int option" where
  "parse_int s = (let (neg, r) = split_sign (strip s) in
     if digit_part_ok r
     then let n = digits_val (filter is_digit r) in Some (if neg then - n else n) else None)"

definition split_at :: "(char \<Rightarrow> bool) \<Rightarrow> string \<Rightarrow> string \<times> string option" where
  "split_at p s = (takeWhile (\<lambda>c. \<not> p c) s,
     case dropWhile (\<lambda>c. \<not> p c) s of [] \<Rightarrow> None | _ # r \<Rightarrow> Some r)"

text \<open>A decimal literal with optional fraction and exponent, as an exact rational.\<close>

definition parse_decimal :: "string \<Rightarrow> rat option" where
  "parse_decimal s =
    (let (neg, r) = split_sign (strip s);
         (mant, ex) = split_at (\<lambda>c. c = CHR ''e'' \<or> c = CHR ''E'') r;
         (ip, fp) = split_at (\<lambda>c. c = CHR ''.'') mant;
         fd = (case fp of None \<Rightarrow> [] | Some f \<Rightarrow> f);
         ok = (ip = [] \<or> digit_part_ok ip) \<and> (fd = [] \<or> digit_part_ok fd) \<and> (ip \<noteq> [] \<or> fd \<noteq> []);
         e = (case ex of None \<Rightarrow> Some 0
               | Some x \<Rightarrow> (let (en, er) = split_sign x in
                   if digit_part_ok er
                   then let n = digits_val (filter is_digit er) in Some (if en then - n else n)
                   else None))
     in case e of None \<Rightarrow> None | Some k \<Rightarrow>
       if ok then let ds = filter is_digit ip @ filter is_digit fd;
                      m = of_int (digits_val ds) * 10 powi (k - int (length (filter is_digit fd)))
                  in Some (if neg then - m else m)
       else None)"

definition lower :: "string \<Rightarrow> string" where
  "lower s = map (\<lambda>c. if CHR ''A'' \<le> c \<and> c \<le> CHR ''Z'' then char_of (of_char c + (32 :: int)) else c) s"

definition non_finite_word :: "string \<Rightarrow> bool" where
  "non_finite_word s \<longleftrightarrow>
     lower (snd (split_sign (strip s))) \<in> set [''inf'', ''infinity'', ''nan'']"

text \<open>\<^verbatim>\<open>float(text)\<close> and \<^verbatim>\<open>int(text)\<close>.\<close>

definition float_str :: "string \<Rightarrow> dbl res" where
  "float_str s = (case parse_decimal s of Some r \<Rightarrow> Inr (D r)
     | None \<Rightarrow> if non_finite_word s then Inl OutOfModel
               else Inl (ValueError ''could not convert string to float''))"

definition int_str :: "string \<Rightarrow> int res" where
  "int_str s = (case parse_int s of Some n \<Rightarrow> Inr n
     | None \<Rightarrow> Inl (ValueError ''invalid literal for int()''))"

text \<open>\<^verbatim>\<open>float(v)\<close> and \<^verbatim>\<open>int(v)\<close> on any value.\<close>

fun py_float :: "json \<Rightarrow> dbl res" where
  "py_float (JBool b) = Inr (of_pyint (if b then 1 else 0))"
| "py_float (JInt n) = Inr (of_pyint n)"
| "py_float (JFlt x) = Inr x"
| "py_float (JNonFin _) = Inl OutOfModel"
| "py_float (JStr s) = float_str s"
| "py_float _ = Inl TypeError"

fun py_int :: "json \<Rightarrow> int res" where
  "py_int (JBool b) = Inr (if b then 1 else 0)"
| "py_int (JInt n) = Inr n"
| "py_int (JFlt x) = Inr (dbl_trunc x)"
| "py_int (JNonFin _) = Inl OutOfModel"
| "py_int (JStr s) = int_str s"
| "py_int _ = Inl TypeError"

section \<open>Text\<close>

function digits :: "int \<Rightarrow> string" where
  "digits n = (if n < 10 then [char_of (48 + n)] else digits (n div 10) @ [char_of (48 + n mod 10)])"
  by pat_completeness auto
termination by (relation "measure nat") auto

declare digits.simps [simp del]

definition int_repr :: "int \<Rightarrow> string" where
  "int_repr n = (if n < 0 then CHR ''-'' # digits (- n) else digits n)"

text \<open>\<^verbatim>\<open>f"{n:0wd}"\<close> for a non-negative number.\<close>

definition zero_pad :: "nat \<Rightarrow> int \<Rightarrow> string" where
  "zero_pad w n = (let s = digits n in replicate (w - length s) CHR ''0'' @ s)"

text \<open>\<^verbatim>\<open>f"{x:.nf}"\<close> (without the sign of a negative zero).\<close>

definition fixed_repr :: "nat \<Rightarrow> dbl \<Rightarrow> string" where
  "fixed_repr n x = (let m = rne (val x * 10 ^ n); a = \<bar>m\<bar> in
     (if m < 0 then ''-'' else []) @ digits (a div 10 ^ n) @
     (if n = 0 then [] else ''.'' @ zero_pad n (a mod 10 ^ n)))"

text \<open>
  \<^verbatim>\<open>repr\<close> of a double: the shortest decimal that rounds back to it, the closest one if there
  are several, in positional notation for exponents from -4 to 15.
\<close>

definition floor_log10 :: "rat \<Rightarrow> int" where
  "floor_log10 x = (let (p, q) = quotient_of x;
      k = int (length (digits p)) - int (length (digits q))
     in if 10 powi k \<le> x then k else k - 1)"

fun shortest :: "nat \<Rightarrow> nat \<Rightarrow> rat \<Rightarrow> int \<Rightarrow> int \<times> int" where
  "shortest 0 n x e = (rne (x / 10 powi (e - 16)), e - 16)"
| "shortest (Suc fuel) n x e =
    (let u = 10 powi (e - int n + 1); m = rne (x / u); f = \<lfloor>x / u\<rfloor>;
         m' = (if m = f then f + 1 else f)
     in if fl (of_int m * u) = x then (m, e - int n + 1)
        else if fl (of_int m' * u) = x then (m', e - int n + 1)
        else shortest fuel (Suc n) x e)"

fun strip_zeros :: "nat \<Rightarrow> int \<Rightarrow> int \<Rightarrow> int \<times> int" where
  "strip_zeros 0 m k = (m, k)"
| "strip_zeros (Suc fuel) m k =
     (if m \<noteq> 0 \<and> m mod 10 = 0 then strip_zeros fuel (m div 10) (k + 1) else (m, k))"

definition float_repr :: "dbl \<Rightarrow> string" where
  "float_repr x = (if x = 0 then ''0.0'' else
     let r = \<bar>val x\<bar>; e0 = floor_log10 r; (m0, k0) = shortest 16 1 r e0; (m, k) = strip_zeros 20 m0 k0;
         ds = digits m; n = int (length ds); pt = n + k
     in (if val x < 0 then ''-'' else []) @
        (if - 4 < pt \<and> pt \<le> 16
         then if pt \<le> 0 then ''0.'' @ replicate (nat (- pt)) CHR ''0'' @ ds
              else if n \<le> pt then ds @ replicate (nat (pt - n)) CHR ''0'' @ ''.0''
              else take (nat pt) ds @ ''.'' @ drop (nat pt) ds
         else let e = pt - 1 in take 1 ds @ (if n = 1 then [] else ''.'' @ drop 1 ds) @ ''e'' @
           (if e < 0 then ''-'' else ''+'') @ zero_pad 2 \<bar>e\<bar>))"

definition hex_digit :: "nat \<Rightarrow> char" where
  "hex_digit n = ''0123456789abcdef'' ! n"

definition esc_char :: "char \<Rightarrow> char \<Rightarrow> string" where
  "esc_char q c =
    (if c = CHR 0x5C \<or> c = q then [CHR 0x5C, c]
     else if c = CHR 0x09 then [CHR 0x5C, CHR ''t'']
     else if c = CHR 0x0A then [CHR 0x5C, CHR ''n'']
     else if c = CHR 0x0D then [CHR 0x5C, CHR ''r'']
     else let n = of_char c :: int in
       if n < 32 \<or> (127 \<le> n \<and> n \<le> 160) \<or> n = 173
       then [CHR 0x5C, CHR ''x'', hex_digit (nat (n div 16)), hex_digit (nat (n mod 16))] else [c])"

definition str_repr :: "string \<Rightarrow> string" where
  "str_repr s = (let q = (if CHR 0x27 \<in> set s \<and> CHR 0x22 \<notin> set s then CHR 0x22 else CHR 0x27)
     in q # concat (map (esc_char q) s) @ [q])"

fun join_with :: "string \<Rightarrow> string list \<Rightarrow> string" where
  "join_with sep [] = []"
| "join_with sep [x] = x"
| "join_with sep (x # y # xs) = x @ sep @ join_with sep (y # xs)"

fun py_repr :: "json \<Rightarrow> string" where
  "py_repr JNull = ''None''"
| "py_repr (JBool b) = (if b then ''True'' else ''False'')"
| "py_repr (JInt n) = int_repr n"
| "py_repr (JFlt x) = float_repr x"
| "py_repr (JNonFin i) = (case i of PosInf \<Rightarrow> ''inf'' | NegInf \<Rightarrow> ''-inf'' | NaN \<Rightarrow> ''nan'')"
| "py_repr (JStr s) = str_repr s"
| "py_repr (JArr xs) = ''['' @ join_with '', '' (map py_repr xs) @ '']''"
| "py_repr (JObj d) = ''{'' @ join_with '', '' (map (\<lambda>(k, v). str_repr k @ '': '' @ py_repr v) d) @ ''}''"

text \<open>\<^verbatim>\<open>str(v)\<close>.\<close>

definition py_str :: "json \<Rightarrow> string" where
  "py_str v = (case v of JStr s \<Rightarrow> s | _ \<Rightarrow> py_repr v)"

section \<open>Laws\<close>

lemma get_dset [simp]: "get (dset k v d) k' = (if k' = k then v else get d k')"
  by (simp add: get_def dget_def)

lemma get_dpop [simp]: "get (dpop k d) k' = (if k' = k then JNull else get d k')"
  by (simp add: get_def dget_def)

lemma dget_dset [simp]: "dget (dset k v d) k' c = (if k' = k then v else dget d k' c)"
  by (simp add: dget_def)

lemma dget_dpop [simp]: "dget (dpop k d) k' c = (if k' = k then c else dget d k' c)"
  by (simp add: dget_def)

lemma dget_Cons [simp]: "dget ((k, v) # d) k' c = (if k' = k then v else dget d k' c)"
  by (simp add: dget_def)

lemma get_Cons [simp]: "get ((k, v) # d) k' = (if k' = k then v else get d k')"
  by (simp add: get_def)

lemma get_Nil [simp]: "get [] k = JNull"
  by (simp add: get_def dget_def)

lemma dget_Nil [simp]: "dget [] k c = c"
  by (simp add: dget_def)

lemma item_simps [simp]: "item [] k = Inl (KeyError k)"
  "item ((k, v) # d) k' = (if k' = k then Inr v else item d k')"
  by (simp_all add: item_def ditem_def)

lemma item_dset [simp]: "item (dset k v d) k' = (if k' = k then Inr v else item d k')"
  by (simp add: item_def ditem_def)

lemma py_str_JStr [simp]: "py_str (JStr s) = s"
  by (simp add: py_str_def)

lemma py_eq_string [simp]: "py_eq y (JStr s) \<longleftrightarrow> y = JStr s"
  by (cases y) auto

lemma vdict_Inr_iff: "vdict v = Inr d \<longleftrightarrow> v = JObj d"
  by (cases v) auto

end
