(* ===== verification/Fusion_Extract.thy ===== *)
theory Fusion_Extract
  imports Py_Value
begin

text \<open>
  \<^verbatim>\<open>tools/verify/py/fusion_audit.py\<close>, input side: the dataclasses, the tolerant number
  conversions and the extraction of typed ASR, diarization and alignment entries from the
  timeline JSON that \<^verbatim>\<open>ws_unified_test.py\<close> captured.
\<close>

section \<open>Data\<close>

definition EPS :: dbl where
  "EPS = D (1 / 1000000)"

record asr_entry =
  a_text_id :: int
  a_start :: dbl
  a_end :: dbl
  a_text :: string

record diar_entry =
  d_start :: dbl
  d_end :: dbl
  d_speaker :: int
  d_confidence :: dbl
  d_speaker_id :: "string option"
  d_speaker_name :: "string option"

record align_unit =
  u_start :: dbl
  u_end :: dbl
  u_text :: string

record align_group =
  g_text_id :: int
  g_start :: dbl
  g_end :: dbl
  g_units :: "align_unit list"

record speaker_turn =
  t_start :: dbl
  t_end :: dbl
  t_speaker :: int
  t_speaker_id :: "string option"
  t_speaker_name :: "string option"
  t_diar_overlap :: dbl
  t_diar_total :: dbl

section \<open>Conversions\<close>

definition num_or :: "json \<Rightarrow> dbl \<Rightarrow> dbl" where
  "num_or v dflt = (case finite_num v of Some x \<Rightarrow> x | None \<Rightarrow> dflt)"

abbreviation num :: "json \<Rightarrow> dbl" where
  "num v \<equiv> num_or v 0"

fun int_or :: "json \<Rightarrow> int \<Rightarrow> int" where
  "int_or (JBool b) dflt = (if b then 1 else 0)"
| "int_or (JInt n) dflt = n"
| "int_or (JFlt x) dflt = (if dbl_is_integer x then dbl_trunc x else dflt)"
| "int_or _ dflt = dflt"

abbreviation int_of :: "json \<Rightarrow> int" where
  "int_of v \<equiv> int_or v (- 1)"

definition opt_text :: "json \<Rightarrow> string option" where
  "opt_text v = (if truthy v then Some (py_str v) else None)"

section \<open>Extraction\<close>

definition timeline :: "obj \<Rightarrow> obj res" where
  "timeline package = (case dget package ''timeline'' (JObj package) of
     JObj d \<Rightarrow> Inr d
   | _ \<Rightarrow> Inl (ValueError ''input does not contain a timeline object''))"

definition tracks :: "obj \<Rightarrow> (string, obj) pydict res" where
  "tracks t = rbind (py_iter (dget t ''tracks'' (JArr []))) (\<lambda>items.
     Inr (foldl (\<lambda>acc it. case it of
            JObj d \<Rightarrow> (case get d ''kind'' of JStr k \<Rightarrow> dset k d acc | _ \<Rightarrow> acc)
          | _ \<Rightarrow> acc) [] items))"

definition track_or_empty :: "(string, obj) pydict \<Rightarrow> string \<Rightarrow> obj" where
  "track_or_empty ts k = (case map_of ts k of Some d \<Rightarrow> d | None \<Rightarrow> [])"

definition entries_of :: "obj \<Rightarrow> json list" where
  "entries_of track = arr_or_empty (dget track ''entries'' (JArr []))"

definition extract_asr :: "obj \<Rightarrow> asr_entry list" where
  "extract_asr track = List.map_filter
     (\<lambda>(idx, v). map_option (\<lambda>it. \<lparr>a_text_id = int idx, a_start = num (get it ''start''),
          a_end = num (get it ''end''), a_text = py_str (dget it ''text'' (JStr []))\<rparr>) (as_obj v))
     (enumerate 0 (entries_of track))"

definition diar_of_obj :: "obj \<Rightarrow> diar_entry" where
  "diar_of_obj it = \<lparr>d_start = num (get it ''start''), d_end = num (get it ''end''),
     d_speaker = int_of (get it ''speaker''), d_confidence = num (get it ''confidence''),
     d_speaker_id = opt_text (get it ''speaker_id''),
     d_speaker_name = opt_text (get it ''speaker_name'')\<rparr>"

definition extract_diar :: "obj \<Rightarrow> diar_entry list" where
  "extract_diar track = sort_key (\<lambda>x. (d_start x, d_end x, d_speaker x))
     (map diar_of_obj (dict_items (entries_of track)))"

definition unit_of_obj :: "obj \<Rightarrow> align_unit" where
  "unit_of_obj u = \<lparr>u_start = num (get u ''start''), u_end = num (get u ''end''),
     u_text = py_str (dget u ''text'' (JStr []))\<rparr>"

definition extract_units :: "obj \<Rightarrow> align_unit list" where
  "extract_units it = sort_key (\<lambda>x. (u_start x, u_end x))
     (map unit_of_obj (dict_items (arr_or_empty (dget it ''units'' (JArr [])))))"

definition add_align_group ::
  "(int, align_group) pydict \<Rightarrow> obj \<Rightarrow> (int, align_group) pydict" where
  "add_align_group out it = (let text_id = int_of (get it ''text_id'') in
     if text_id < 0 then out
     else dset text_id \<lparr>g_text_id = text_id, g_start = num (get it ''start''),
            g_end = num (get it ''end''), g_units = extract_units it\<rparr> out)"

definition extract_align :: "obj \<Rightarrow> (int, align_group) pydict" where
  "extract_align track = foldl add_align_group [] (dict_items (entries_of track))"

definition add_by_text_id :: "(int, obj list) pydict \<Rightarrow> obj \<Rightarrow> (int, obj list) pydict" where
  "add_by_text_id grouped it = (let text_id = int_of (get it ''text_id'') in
     if text_id < 0 then grouped
     else dset text_id (case map_of grouped text_id of Some xs \<Rightarrow> xs @ [it] | None \<Rightarrow> [it]) grouped)"

definition entries_by_text_id :: "json list \<Rightarrow> (int, obj list) pydict" where
  "entries_by_text_id entries = foldl add_by_text_id [] (dict_items entries)"

section \<open>Laws\<close>

lemma EPS_val [code abstract]: "val EPS = 4722366482869645 / 4722366482869645213696"
  unfolding EPS_def by code_simp

lemma EPS_pos [simp]: "0 < EPS"
  by (simp add: EPS_def)

lemma EPS_nonneg [simp]: "0 \<le> EPS"
  using EPS_pos by (rule less_imp_le)

lemma num_or_simps [simp]:
  "num_or (JFlt x) d = x" "num_or (JInt n) d = of_pyint n" "num_or (JStr s) d = d" "num_or JNull d = d"
  by (simp_all add: num_or_def)

lemma as_obj_Some_iff [simp]: "as_obj v = Some x \<longleftrightarrow> v = JObj x"
  by (cases v) simp_all

lemma set_dict_items: "x \<in> set (dict_items xs) \<longleftrightarrow> JObj x \<in> set xs"
proof (induction xs)
  case (Cons v xs)
  then show ?case by (cases v) (auto simp: dict_items_def)
qed (simp add: dict_items_def)

lemma extract_diar_sorted: "sorted (map (\<lambda>x. (d_start x, d_end x, d_speaker x)) (extract_diar track))"
  by (simp add: extract_diar_def)

lemma extract_diar_starts: "sorted (map d_start (extract_diar track))"
  using extract_diar_sorted by (rule sorted_map_weaken) (auto simp: less_eq_prod_def)

lemma extract_units_sorted: "sorted (map u_start (extract_units it))"
proof -
  have "sorted (map (\<lambda>x. (u_start x, u_end x)) (extract_units it))"
    by (simp add: extract_units_def)
  then show ?thesis by (rule sorted_map_weaken) (auto simp: less_eq_prod_def)
qed

text \<open>The groups are keyed by their own text id, which is never negative.\<close>

definition align_groups_ok :: "(int, align_group) pydict \<Rightarrow> bool" where
  "align_groups_ok gs \<longleftrightarrow> distinct (map fst gs) \<and>
     (\<forall>(k, g) \<in> set gs. 0 \<le> k \<and> g_text_id g = k \<and> sorted (map u_start (g_units g)))"

lemma align_groups_ok_add:
  assumes "align_groups_ok out" shows "align_groups_ok (add_align_group out it)"
proof (cases "int_of (get it ''text_id'') < 0")
  case False
  let ?k = "int_of (get it ''text_id'')"
  let ?g = "\<lparr>g_text_id = ?k, g_start = num (get it ''start''), g_end = num (get it ''end''),
    g_units = extract_units it\<rparr>"
  have add: "add_align_group out it = dset ?k ?g out"
    using False by (simp add: add_align_group_def Let_def)
  have "\<forall>(k, g) \<in> set (dset ?k ?g out).
      0 \<le> k \<and> g_text_id g = k \<and> sorted (map u_start (g_units g))"
    by (rule Ball_dset) (use assms False in \<open>auto simp: align_groups_ok_def extract_units_sorted\<close>)
  then show ?thesis
    using assms unfolding add by (simp add: align_groups_ok_def distinct_dset)
qed (simp add: add_align_group_def assms)

lemma extract_align_ok: "align_groups_ok (extract_align track)"
proof -
  have "align_groups_ok (foldl add_align_group out its)" if "align_groups_ok out" for out its
    using that by (induction its arbitrary: out) (simp_all add: align_groups_ok_add)
  moreover have "align_groups_ok []" by (simp add: align_groups_ok_def)
  ultimately show ?thesis by (simp add: extract_align_def)
qed

end
