(* ===== verification/Fusion_Turns.thy ===== *)
theory Fusion_Turns
  imports Fusion_Extract
begin

text \<open>
  \<^verbatim>\<open>tools/verify/py/fusion_audit.py\<close>, interval side: the overlap of two spans, the two
  duration-based speaker attributions, the partition of an ASR span into speaker turns at
  diarization boundaries, VAD support, and the grouping of alignment units into runs.
\<close>

section \<open>Overlap\<close>

definition overlap :: "dbl \<Rightarrow> dbl \<Rightarrow> dbl \<Rightarrow> dbl \<Rightarrow> dbl" where
  "overlap a0 a1 b0 b1 = max 0 (min a1 b1 - max a0 b0)"

lemma overlap_nonneg [simp]: "0 \<le> overlap a b c d"
  by (simp add: overlap_def)

lemma overlap_commute: "overlap a b c d = overlap c d a b"
  by (simp add: overlap_def min.commute max.commute)

lemma overlap_pos_iff: "0 < overlap a b c d \<longleftrightarrow> max a c < min b d"
  by (simp add: overlap_def less_max_iff_disj)

lemma overlap_le_left: "a \<le> b \<Longrightarrow> overlap a b c d \<le> b - a"
  unfolding overlap_def by (rule max.boundedI) (auto intro: dbl_arith)

lemma overlap_inside: "c \<le> a \<Longrightarrow> a \<le> b \<Longrightarrow> b \<le> d \<Longrightarrow> overlap a b c d = b - a"
  by (simp add: overlap_def min_absorb1 max_absorb1 max_absorb2)

lemma overlap_apart: "b \<le> c \<or> d \<le> a \<Longrightarrow> overlap a b c d = 0"
  unfolding overlap_def
  by (rule max_absorb1) (auto simp: min_le_iff_disj le_max_iff_disj simp del: min.bounded_iff)

section \<open>Choosing a speaker for a span\<close>


text \<open>The running best of the two attribution loops.\<close>

record attribution =
  b_speaker :: int
  b_id :: "string option"
  b_name :: "string option"
  b_overlap :: dbl
  b_span :: dbl
  b_conf :: dbl
  b_total :: dbl

definition no_attribution :: attribution where
  "no_attribution = \<lparr>b_speaker = - 1, b_id = None, b_name = None, b_overlap = 0, b_span = 0,
     b_conf = - 1, b_total = 0\<rparr>"

definition seg_span :: "diar_entry \<Rightarrow> dbl" where
  "seg_span seg = max 0 (d_end seg - d_start seg)"

definition take_segment :: "diar_entry \<Rightarrow> dbl \<Rightarrow> attribution \<Rightarrow> attribution" where
  "take_segment seg ov a = a\<lparr>b_speaker := d_speaker seg, b_id := d_speaker_id seg,
     b_name := d_speaker_name seg, b_overlap := ov, b_span := seg_span seg,
     b_conf := d_confidence seg\<rparr>"

definition consider_segment ::
  "(attribution \<Rightarrow> diar_entry \<Rightarrow> dbl \<Rightarrow> bool) \<Rightarrow> dbl \<Rightarrow> dbl \<Rightarrow> attribution \<Rightarrow> diar_entry \<Rightarrow> attribution" where
  "consider_segment better s e a seg = (let ov = overlap s e (d_start seg) (d_end seg) in
     if ov \<le> EPS then a
     else let a' = a\<lparr>b_total := b_total a + ov\<rparr> in
       if better a' seg ov then take_segment seg ov a' else a')"

text \<open>The loop over the diarization entries, with its \<^verbatim>\<open>continue\<close> and \<^verbatim>\<open>break\<close>.\<close>

fun scan_diar ::
  "(attribution \<Rightarrow> diar_entry \<Rightarrow> dbl \<Rightarrow> bool) \<Rightarrow> dbl \<Rightarrow> dbl \<Rightarrow> attribution \<Rightarrow> diar_entry list \<Rightarrow> attribution" where
  "scan_diar better s e a [] = a"
| "scan_diar better s e a (seg # segs) =
     (if d_end seg \<le> s + EPS then scan_diar better s e a segs
      else if e - EPS \<le> d_start seg then a
      else scan_diar better s e (consider_segment better s e a seg) segs)"

definition better_weighted :: "attribution \<Rightarrow> diar_entry \<Rightarrow> dbl \<Rightarrow> bool" where
  "better_weighted a seg ov \<longleftrightarrow> b_overlap a + EPS < ov \<or>
     (\<bar>ov - b_overlap a\<bar> \<le> EPS \<and> b_conf a < d_confidence seg)"

definition better_tight :: "attribution \<Rightarrow> diar_entry \<Rightarrow> dbl \<Rightarrow> bool" where
  "better_tight a seg ov \<longleftrightarrow> b_overlap a + EPS < ov \<or>
     (b_overlap a - EPS \<le> ov \<and>
       (seg_span seg < b_span a - EPS \<or>
        (\<bar>seg_span seg - b_span a\<bar> \<le> EPS \<and> b_conf a < d_confidence seg)))"

definition weighted_speaker :: "dbl \<Rightarrow> dbl \<Rightarrow> diar_entry list \<Rightarrow> attribution" where
  "weighted_speaker s e diar = scan_diar better_weighted s e no_attribution diar"

definition attribute_interval :: "dbl \<Rightarrow> dbl \<Rightarrow> diar_entry list \<Rightarrow> attribution" where
  "attribute_interval s e diar = scan_diar better_tight s e no_attribution diar"

section \<open>Speaker turns\<close>

definition same_turn_speaker :: "speaker_turn \<Rightarrow> speaker_turn \<Rightarrow> bool" where
  "same_turn_speaker a b \<longleftrightarrow> t_speaker a = t_speaker b \<and> t_speaker_id a = t_speaker_id b"

definition inner_bounds :: "dbl \<Rightarrow> dbl \<Rightarrow> diar_entry list \<Rightarrow> dbl list" where
  "inner_bounds s e diar = concat (map (\<lambda>seg.
     (if s + EPS < d_start seg \<and> d_start seg < e - EPS then [d_start seg] else []) @
     (if s + EPS < d_end seg \<and> d_end seg < e - EPS then [d_end seg] else [])) diar)"

definition turn_bounds :: "dbl \<Rightarrow> dbl \<Rightarrow> diar_entry list \<Rightarrow> dbl list" where
  "turn_bounds s e diar = sort ([s, e] @ inner_bounds s e diar)"

definition near_bound :: "dbl \<Rightarrow> dbl \<Rightarrow> bool" where
  "near_bound p v \<longleftrightarrow> \<bar>v - p\<bar> \<le> EPS"

definition deduped_bounds :: "dbl \<Rightarrow> dbl \<Rightarrow> diar_entry list \<Rightarrow> dbl list" where
  "deduped_bounds s e diar = thin near_bound (turn_bounds s e diar)"

definition turn_of :: "diar_entry list \<Rightarrow> dbl \<times> dbl \<Rightarrow> speaker_turn" where
  "turn_of diar = (\<lambda>(s, e). let a = attribute_interval s e diar in
     \<lparr>t_start = s, t_end = e, t_speaker = b_speaker a, t_speaker_id = b_id a,
      t_speaker_name = b_name a, t_diar_overlap = b_overlap a, t_diar_total = b_total a\<rparr>)"

definition join_turns :: "speaker_turn \<Rightarrow> speaker_turn \<Rightarrow> speaker_turn" where
  "join_turns p t = p\<lparr>t_end := t_end t, t_diar_overlap := t_diar_overlap p + t_diar_overlap t,
     t_diar_total := t_diar_total p + t_diar_total t\<rparr>"

definition coalesce_turns :: "speaker_turn list \<Rightarrow> speaker_turn list" where
  "coalesce_turns ts = merge_runs (\<lambda>t. t) same_turn_speaker join_turns ts"

definition seg_before :: "speaker_turn \<Rightarrow> diar_entry list \<Rightarrow> diar_entry option" where
  "seg_before t diar = foldl (\<lambda>b seg.
     if d_end seg \<le> t_start t + EPS \<and> (case b of None \<Rightarrow> True | Some g \<Rightarrow> d_end g < d_end seg)
     then Some seg else b) None diar"

definition seg_after :: "speaker_turn \<Rightarrow> diar_entry list \<Rightarrow> diar_entry option" where
  "seg_after t diar = foldl (\<lambda>b seg.
     if t_end t - EPS \<le> d_start seg \<and> (case b of None \<Rightarrow> True | Some g \<Rightarrow> d_start seg < d_start g)
     then Some seg else b) None diar"

definition fill_gap :: "diar_entry list \<Rightarrow> dbl option \<Rightarrow> speaker_turn \<Rightarrow> speaker_turn" where
  "fill_gap diar max_gap t = (if 0 \<le> t_speaker t then t else
     case (seg_before t diar, seg_after t diar) of
       (Some b, Some a) \<Rightarrow>
         if d_speaker b = d_speaker a \<and> d_speaker_id b = d_speaker_id a \<and>
            (case max_gap of None \<Rightarrow> True | Some m \<Rightarrow> t_end t - t_start t \<le> m + EPS)
         then t\<lparr>t_speaker := d_speaker b, t_speaker_id := d_speaker_id b,
                t_speaker_name := d_speaker_name b\<rparr>
         else t
     | _ \<Rightarrow> t)"

definition diar_turns :: "dbl \<Rightarrow> dbl \<Rightarrow> diar_entry list \<Rightarrow> dbl option \<Rightarrow> speaker_turn list" where
  "diar_turns s e diar max_gap =
    (let spans = filter (\<lambda>(a, b). \<not> b - a \<le> EPS) (adjacent (deduped_bounds s e diar));
         turns = coalesce_turns (map (turn_of diar) spans)
     in coalesce_turns (map (fill_gap diar max_gap) turns))"

section \<open>VAD support\<close>

text \<open>Entries that are not objects are skipped; the loop stops at the first one after the span.\<close>

fun vad_loop :: "dbl \<Rightarrow> dbl \<Rightarrow> dbl \<Rightarrow> json list \<Rightarrow> dbl" where
  "vad_loop s e acc [] = acc"
| "vad_loop s e acc (v # vs) = (case as_obj v of None \<Rightarrow> vad_loop s e acc vs
     | Some seg \<Rightarrow> let a = num (get seg ''start''); b = num (get seg ''end'') in
         if b \<le> s + EPS then vad_loop s e acc vs
         else if e - EPS \<le> a then acc
         else vad_loop s e (acc + overlap s e a b) vs)"

definition vad_overlap :: "dbl \<Rightarrow> dbl \<Rightarrow> json list \<Rightarrow> dbl" where
  "vad_overlap s e vad = vad_loop s e 0 vad"

section \<open>Runs of alignment units\<close>

definition boundary_near_gap :: "dbl \<Rightarrow> speaker_turn list \<Rightarrow> dbl \<Rightarrow> dbl \<Rightarrow> bool" where
  "boundary_near_gap tol turns gap_start gap_end \<longleftrightarrow> 0 < tol \<and>
     list_ex (\<lambda>(l, r). \<not> same_turn_speaker l r \<and> gap_start - tol \<le> t_start r \<and>
       t_start r \<le> gap_end + tol) (adjacent turns)"

definition same_run :: "dbl \<Rightarrow> dbl \<Rightarrow> speaker_turn list \<Rightarrow> align_unit list \<Rightarrow> align_unit \<Rightarrow> bool" where
  "same_run pause tol turns cur u \<longleftrightarrow> cur \<noteq> [] \<and>
     \<not> (pause < u_start u - u_end (last cur) \<or> boundary_near_gap tol turns (u_end (last cur)) (u_start u))"

definition unit_runs ::
  "align_unit list \<Rightarrow> dbl \<Rightarrow> dbl \<Rightarrow> speaker_turn list \<Rightarrow> align_unit list list" where
  "unit_runs units pause tol turns =
     merge_runs (\<lambda>u. [u]) (same_run pause tol turns) (\<lambda>cur u. cur @ [u]) units"

section \<open>The scan against its specification\<close>

definition relevant :: "dbl \<Rightarrow> dbl \<Rightarrow> diar_entry \<Rightarrow> bool" where
  "relevant s e seg \<longleftrightarrow> \<not> d_end seg \<le> s + EPS \<and> \<not> e - EPS \<le> d_start seg"

definition eligible :: "dbl \<Rightarrow> dbl \<Rightarrow> diar_entry \<Rightarrow> bool" where
  "eligible s e seg \<longleftrightarrow> relevant s e seg \<and> EPS < overlap s e (d_start seg) (d_end seg)"

text \<open>On entries sorted by start, leaving the loop early loses nothing.\<close>

lemma scan_diar_reference:
  "sorted (map d_start diar) \<Longrightarrow>
   scan_diar better s e a diar
   = foldl (consider_segment better s e) a (filter (relevant s e) diar)"
proof (induction diar arbitrary: a)
  case (Cons seg segs)
  have "filter (relevant s e) segs = []" if "e - EPS \<le> d_start seg"
    using Cons.prems that by (auto simp: relevant_def filter_empty_conv)
  then show ?case
    using Cons.IH[of a] Cons.IH[of "consider_segment better s e a seg"] Cons.prems
    by (cases "d_end seg \<le> s + EPS"; cases "e - EPS \<le> d_start seg")
       (simp_all add: relevant_def[of s e seg])
qed simp

definition chosen_from :: "dbl \<Rightarrow> dbl \<Rightarrow> diar_entry \<Rightarrow> attribution \<Rightarrow> bool" where
  "chosen_from s e seg a \<longleftrightarrow> b_speaker a = d_speaker seg \<and> b_id a = d_speaker_id seg \<and>
     b_name a = d_speaker_name seg \<and> b_overlap a = overlap s e (d_start seg) (d_end seg)"

text \<open>What the two rules share: a clearly longer overlap always wins.\<close>

locale attribution_rule =
  fixes better :: "attribution \<Rightarrow> diar_entry \<Rightarrow> dbl \<Rightarrow> bool"
  assumes clear_win: "b_overlap a + EPS < ov \<Longrightarrow> better a seg ov"
begin

definition choice_ok :: "dbl \<Rightarrow> dbl \<Rightarrow> diar_entry list \<Rightarrow> attribution \<Rightarrow> bool" where
  "choice_ok s e diar a \<longleftrightarrow>
     (if \<exists>seg \<in> set diar. eligible s e seg
      then \<exists>seg \<in> set diar. eligible s e seg \<and> chosen_from s e seg a
      else a = no_attribution)"

lemma consider_choice_ok:
  assumes ok: "choice_ok s e segs a" and rel: "relevant s e seg"
  shows "choice_ok s e (segs @ [seg]) (consider_segment better s e a seg)"
proof (cases "EPS < overlap s e (d_start seg) (d_end seg)")
  case False
  with ok show ?thesis
    by (auto simp: choice_ok_def consider_segment_def eligible_def Let_def split: if_splits)
next
  case True
  let ?ov = "overlap s e (d_start seg) (d_end seg)"
  let ?a = "a\<lparr>b_total := b_total a + ?ov\<rparr>"
  have el: "eligible s e seg" using True rel by (simp add: eligible_def)
  have c: "consider_segment better s e a seg = (if better ?a seg ?ov then take_segment seg ?ov ?a else ?a)"
    using True by (simp add: consider_segment_def Let_def)
  show ?thesis
  proof (cases "better ?a seg ?ov")
    case True
    then have "chosen_from s e seg (consider_segment better s e a seg)"
      by (simp add: c chosen_from_def take_segment_def)
    with el show ?thesis by (auto simp: choice_ok_def)
  next
    case False
    with clear_win[of ?a ?ov seg] have "b_overlap a \<noteq> 0" using True by auto
    with ok obtain g where "g \<in> set segs" "eligible s e g" "chosen_from s e g a"
      by (auto simp: choice_ok_def no_attribution_def split: if_splits)
    moreover from this have "chosen_from s e g (consider_segment better s e a seg)"
      using False by (simp add: c chosen_from_def)
    ultimately show ?thesis by (auto simp: choice_ok_def)
  qed
qed

lemma fold_choice_ok:
  "choice_ok s e pre a \<Longrightarrow> \<forall>seg \<in> set segs. relevant s e seg \<Longrightarrow>
   choice_ok s e (pre @ segs) (foldl (consider_segment better s e) a segs)"
proof (induction segs arbitrary: pre a)
  case (Cons seg segs)
  then have "choice_ok s e (pre @ [seg]) (consider_segment better s e a seg)"
    by (intro consider_choice_ok) simp_all
  from Cons.IH[OF this] Cons.prems(2) show ?case by simp
qed simp

lemma scan_choice_ok:
  assumes "sorted (map d_start diar)"
  shows "choice_ok s e diar (scan_diar better s e no_attribution diar)"
proof -
  have "choice_ok s e [] no_attribution" by (simp add: choice_ok_def)
  from fold_choice_ok[OF this, of "filter (relevant s e) diar"]
  have "choice_ok s e (filter (relevant s e) diar) (scan_diar better s e no_attribution diar)"
    by (simp add: scan_diar_reference[OF assms])
  then show ?thesis by (auto simp: choice_ok_def eligible_def split: if_splits)
qed

end

interpretation weighted: attribution_rule better_weighted
  by unfold_locales (simp add: better_weighted_def)

interpretation tight: attribution_rule better_tight
  by unfold_locales (simp add: better_tight_def)

section \<open>Turns cover the span\<close>

interpretation turn_span: run_span "\<lambda>t. t" same_turn_speaker join_turns t_start t_end t_start t_end
  by unfold_locales (simp_all add: join_turns_def)

interpretation turn_runs: run_uniform same_turn_speaker join_turns
  by unfold_locales (auto simp: same_turn_speaker_def join_turns_def)

lemma set_turn_bounds: "set (turn_bounds s e diar) = {s, e} \<union> set (inner_bounds s e diar)"
  unfolding turn_bounds_def set_sort by auto

lemma sorted_turn_bounds: "sorted (turn_bounds s e diar)"
  unfolding turn_bounds_def by (rule sorted_sort)

lemma inner_bounds_between:
  "b \<in> set (inner_bounds s e diar) \<Longrightarrow> s + EPS < b \<and> b < e - EPS"
  by (auto simp: inner_bounds_def split: if_splits)

lemma turn_bounds_ends:
  assumes "s \<le> e" shows "turn_bounds s e diar \<noteq> []" "hd (turn_bounds s e diar) = s"
    "last (turn_bounds s e diar) = e"
proof -
  let ?b = "turn_bounds s e diar"
  have mem: "s \<in> set ?b" "e \<in> set ?b" by (simp_all add: set_turn_bounds)
  then show ne: "?b \<noteq> []" by auto
  have bounds: "s \<le> b \<and> b \<le> e" if "b \<in> set ?b" for b
  proof -
    have "s \<le> s + EPS" "e - EPS \<le> e" by (auto intro: dbl_arith)
    then show ?thesis
      using that assms inner_bounds_between[of b s e diar] by (force simp: set_turn_bounds)
  qed
  have "hd ?b \<le> s" using sorted_turn_bounds[of s e diar] mem(1) by (cases ?b) auto
  with bounds[of "hd ?b"] ne show "hd ?b = s" by (simp add: antisym)
  have "e \<le> last ?b" using sorted_turn_bounds[of s e diar] mem(2) ne
    by (cases ?b rule: rev_cases) (auto simp: sorted_append)
  with bounds[of "last ?b"] ne show "last ?b = e" by (simp add: antisym)
qed

lemma chained_adjacent:
  "successively (<) (x # xs) \<Longrightarrow> chained fst snd x (adjacent (x # xs)) (last (x # xs))"
  by (induction xs arbitrary: x) auto

lemma deduped_gaps: "\<forall>(a, b) \<in> set (adjacent (deduped_bounds s e diar)). EPS < b - a"
proof -
  let ?b = "deduped_bounds s e diar"
  have "successively (\<le>) ?b"
    using sorted_thin[OF sorted_turn_bounds]
    by (simp add: deduped_bounds_def successively_conv_sorted_wrt)
  moreover have "successively (\<lambda>a b. \<not> near_bound a b) ?b"
    unfolding deduped_bounds_def by (rule thin_separated)
  ultimately have "\<forall>p \<in> set (adjacent ?b). fst p \<le> snd p \<and> \<not> \<bar>snd p - fst p\<bar> \<le> EPS"
    by (simp add: successively_adjacent near_bound_def split_beta)
  then show ?thesis by (auto simp: not_le[symmetric])
qed

lemma deduped_chained:
  assumes "s \<le> e"
  obtains m where "chained fst snd s (adjacent (deduped_bounds s e diar)) m"
    "m \<le> e" "e - m \<le> EPS"
proof
  let ?b = "deduped_bounds s e diar"
  note ends = turn_bounds_ends[OF assms, of diar]
  have ne: "?b \<noteq> []" and hd: "hd ?b = s"
    using ends by (simp_all add: deduped_bounds_def hd_thin)
  have "\<forall>(a, b) \<in> set (adjacent ?b). a < b"
    using deduped_gaps[of s e diar] EPS_pos
    by (metis (no_types, lifting) case_prod_conv dbl_diff_pos_iff order_less_trans split_beta)
  then have "successively (<) ?b" by (simp add: successively_adjacent)
  then show "chained fst snd s (adjacent ?b) (last ?b)"
    using ne hd chained_adjacent by (metis list.collapse)
  have "last ?b \<in> set (turn_bounds s e diar)"
    using last_in_set[OF ne] list_emb_set[OF subseq_thin, of _ near_bound "turn_bounds s e diar"]
    by (auto simp: deduped_bounds_def)
  then show le: "last ?b \<le> e"
    using sorted_turn_bounds[of s e diar] ends(1,3)
    by (cases "turn_bounds s e diar" rule: rev_cases) (auto simp: sorted_append)
  have "last ?b = e \<or> \<bar>e - last ?b\<bar> \<le> EPS"
    using last_thin[OF ends(1), of near_bound] ends(3)
    by (simp add: deduped_bounds_def near_bound_def)
  with le show "e - last ?b \<le> EPS" by auto
qed

lemma coalesce_turns_chained:
  "chained t_start t_end s ts e \<Longrightarrow> chained t_start t_end s (coalesce_turns ts) e"
  unfolding coalesce_turns_def by (rule turn_span.merge_chained)

lemma fill_gap_span [simp]: "t_start (fill_gap diar g t) = t_start t" "t_end (fill_gap diar g t) = t_end t"
  by (simp_all add: fill_gap_def split: option.split)

lemma turn_of_span [simp]: "t_start (turn_of diar x) = fst x" "t_end (turn_of diar x) = snd x"
  by (simp_all add: turn_of_def split_beta Let_def)

lemma diar_turns_chained:
  assumes "s \<le> e"
  shows "\<exists>m. chained t_start t_end s (diar_turns s e diar gap) m \<and> m \<le> e \<and> e - m \<le> EPS"
proof -
  obtain m where m: "chained fst snd s (adjacent (deduped_bounds s e diar)) m" "m \<le> e" "e - m \<le> EPS"
    using deduped_chained[OF assms] .
  have "filter (\<lambda>(a, b). \<not> b - a \<le> EPS) (adjacent (deduped_bounds s e diar))
      = adjacent (deduped_bounds s e diar)"
    using deduped_gaps[of s e diar] by (intro filter_True) auto
  then have "diar_turns s e diar gap = coalesce_turns (map (fill_gap diar gap)
      (coalesce_turns (map (turn_of diar) (adjacent (deduped_bounds s e diar)))))"
    by (simp only: diar_turns_def Let_def)
  with m(1) have "chained t_start t_end s (diar_turns s e diar gap) m"
    by (simp add: coalesce_turns_chained chained_map[where lo = t_start and hi = t_end]
        chained_map[where lo = fst and hi = snd])
  with m show ?thesis by blast
qed

lemma diar_turns_maximal: "successively (\<lambda>a b. \<not> same_turn_speaker a b) (diar_turns s e diar gap)"
  unfolding diar_turns_def Let_def coalesce_turns_def by (rule turn_runs.merge_maximal)

lemma diar_turns_nonempty:
  assumes "EPS < e - s" shows "diar_turns s e diar gap \<noteq> []"
proof -
  have "s < e" using order_less_trans[OF EPS_pos assms] by simp
  then obtain m where "chained t_start t_end s (diar_turns s e diar gap) m" "e - m \<le> EPS"
    using diar_turns_chained[OF less_imp_le] by blast
  with assms show ?thesis by (metis chained.simps(1) linorder_not_le)
qed

text \<open>Gap filling touches only unknown turns, and only with a speaker on both sides.\<close>

lemma seg_before_Some: "seg_before t diar = Some b \<Longrightarrow> b \<in> set diar \<and> d_end b \<le> t_start t + EPS"
proof -
  have "foldl (\<lambda>b seg. if d_end seg \<le> t_start t + EPS \<and>
        (case b of None \<Rightarrow> True | Some g \<Rightarrow> d_end g < d_end seg) then Some seg else b) o1 segs = Some b \<Longrightarrow>
      o1 = Some b \<or> (b \<in> set segs \<and> d_end b \<le> t_start t + EPS)" for o1 segs
    by (induction segs arbitrary: o1) (auto split: if_splits)
  then show "seg_before t diar = Some b \<Longrightarrow> b \<in> set diar \<and> d_end b \<le> t_start t + EPS"
    unfolding seg_before_def by blast
qed

lemma seg_after_Some: "seg_after t diar = Some a \<Longrightarrow> a \<in> set diar \<and> t_end t - EPS \<le> d_start a"
proof -
  have "foldl (\<lambda>b seg. if t_end t - EPS \<le> d_start seg \<and>
        (case b of None \<Rightarrow> True | Some g \<Rightarrow> d_start seg < d_start g) then Some seg else b) o1 segs = Some a \<Longrightarrow>
      o1 = Some a \<or> (a \<in> set segs \<and> t_end t - EPS \<le> d_start a)" for o1 segs
    by (induction segs arbitrary: o1) (auto split: if_splits)
  then show "seg_after t diar = Some a \<Longrightarrow> a \<in> set diar \<and> t_end t - EPS \<le> d_start a"
    unfolding seg_after_def by blast
qed

section \<open>Runs keep the units\<close>

interpretation unit_runs: run_content "\<lambda>u. [u]" "same_run pause tol turns" "\<lambda>cur u. cur @ [u]"
  "\<lambda>u. [u]" "\<lambda>run. run" for pause tol turns
  by unfold_locales simp_all

interpretation unit_runs_max: run_maximal "\<lambda>u. [u]" "same_run pause tol turns" "\<lambda>cur u. cur @ [u]"
  "\<lambda>q p. same_run pause tol turns q (hd p)" for pause tol turns
  by unfold_locales (auto simp: same_run_def)

lemma concat_unit_runs: "concat (unit_runs units pause tol turns) = units"
  using unit_runs.merge_content[of pause tol turns units] by (simp add: unit_runs_def)

lemma unit_runs_nonempty: "run \<in> set (unit_runs units pause tol turns) \<Longrightarrow> run \<noteq> []"
  unfolding unit_runs_def by (rule merge_runs_invariant[where P = "\<lambda>r. r \<noteq> []"]) simp_all

lemma unit_runs_pauses:
  assumes "run \<in> set (unit_runs units pause tol turns)" and "(u, v) \<in> set (adjacent run)"
  shows "u_start v - u_end u \<le> pause"
proof -
  have snoc: "set (adjacent (r @ [x])) = set (adjacent r) \<union> {(last r, x)}" if "r \<noteq> []" for r and x :: align_unit
    using that by (induction r rule: induct_list012) auto
  have "\<forall>(u, v) \<in> set (adjacent run). u_start v - u_end u \<le> pause"
    using assms(1) unfolding unit_runs_def
    by (rule merge_runs_invariant[where P = "\<lambda>r. \<forall>(u, v) \<in> set (adjacent r). u_start v - u_end u \<le> pause", rotated 2])
       (auto simp: same_run_def snoc)
  with assms(2) show ?thesis by auto
qed

end
