(* ===== verification/Fusion_Candidate.thy ===== *)
theory Fusion_Candidate
  imports Fusion_Turns
begin

text \<open>
  \<^verbatim>\<open>tools/verify/py/fusion_audit.py\<close>, output side: \<^verbatim>\<open>fuse\<close> assigns runs of alignment units to
  speaker turns by their midpoint, falls back to the current comprehensive view, coalesces,
  and optionally downgrades weakly supported speakers and smooths short flips;
  \<^verbatim>\<open>business_turns\<close> merges the entries of one speaker.  Entries are dicts, as in the code.
\<close>

section \<open>Assigning unit runs to turns\<close>

record fuse_params =
  pause_sec :: dbl
  boundary_tolerance_sec :: dbl
  min_run_sec :: dbl
  short_flip_sec :: dbl
  short_flip_chars :: int
  short_flip_gap_sec :: dbl
  fill_unknown_sec :: dbl
  min_diar_coverage_ratio :: dbl
  min_diar_overlap_sec :: dbl
  diar_gapfill_max_sec :: "dbl option"

definition half :: dbl where
  "half = D (1 / 2)"

definition run_mid :: "asr_entry \<Rightarrow> dbl \<Rightarrow> align_unit list \<Rightarrow> dbl" where
  "run_mid asr min_run run =
    (let s0 = u_start (hd run); e0 = u_end (last run);
         (s1, e1) = (if e0 < s0 then (e0, s0) else (s0, e0));
         (s2, e2) = (if e1 - s1 < min_run
           then let mid = half * (s1 + e1)
                in (max (a_start asr) (mid - min_run * half), min (a_end asr) (mid + min_run * half))
           else (s1, e1))
     in half * (s2 + e2))"

text \<open>The first turn that ends after the midpoint, the last one if none does.\<close>

fun turn_index :: "dbl \<Rightarrow> speaker_turn list \<Rightarrow> nat" where
  "turn_index mid (t # u # ts) = (if t_end t - EPS \<le> mid then Suc (turn_index mid (u # ts)) else 0)"
| "turn_index mid _ = 0"

type_synonym text_slice = "string \<times> nat"

definition add_run ::
  "asr_entry \<Rightarrow> dbl \<Rightarrow> speaker_turn list \<Rightarrow> text_slice list \<Rightarrow> align_unit list \<Rightarrow> text_slice list" where
  "add_run asr min_run turns sl run =
    (let i = turn_index (run_mid asr min_run run) turns; (text, n) = sl ! i
     in sl[i := (text @ concat (map u_text run), n + length run)])"

definition assign_runs ::
  "asr_entry \<Rightarrow> dbl \<Rightarrow> speaker_turn list \<Rightarrow> align_unit list list \<Rightarrow> text_slice list" where
  "assign_runs asr min_run turns runs =
     foldl (add_run asr min_run turns) (map (\<lambda>_. ([], 0)) turns) runs"

section \<open>Entries\<close>

definition opt_field :: "string \<Rightarrow> string option \<Rightarrow> obj" where
  "opt_field k v = (case v of Some s \<Rightarrow> if s \<noteq> [] then [(k, JStr s)] else [] | None \<Rightarrow> [])"

abbreviation round3 :: "dbl \<Rightarrow> json" where
  "round3 x \<equiv> JFlt (py_round x 3)"

definition turn_entry :: "asr_entry \<Rightarrow> json list \<Rightarrow> speaker_turn \<Rightarrow> text_slice \<Rightarrow> obj" where
  "turn_entry asr vad t sl =
    [(''start'', round3 (t_start t)), (''end'', round3 (t_end t)),
     (''text_id'', JInt (a_text_id asr)), (''speaker'', JInt (t_speaker t)),
     (''text'', JStr (fst sl)), (''boundary_source'', JStr ''align_units_midpoint_turn''),
     (''speaker_source'', JStr ''diar_turn_midpoint''), (''align_units'', JInt (int (snd sl))),
     (''diar_overlap_sec'', round3 (t_diar_overlap t)),
     (''diar_total_overlap_sec'', round3 (t_diar_total t)),
     (''vad_overlap_sec'', round3 (vad_overlap (t_start t) (t_end t) vad))]
    @ opt_field ''speaker_id'' (t_speaker_id t) @ opt_field ''speaker_name'' (t_speaker_name t)"

definition copy_current :: "json list \<Rightarrow> obj \<Rightarrow> obj" where
  "copy_current vad it =
    (let c = dset ''speaker_source'' (JStr ''current_comprehensive'')
               (dset ''boundary_source'' (JStr ''current_comprehensive'') it)
     in dset ''vad_overlap_sec'' (round3 (vad_overlap (num (get c ''start'')) (num (get c ''end'')) vad)) c)"

definition asr_span_entry :: "asr_entry \<Rightarrow> diar_entry list \<Rightarrow> json list \<Rightarrow> obj" where
  "asr_span_entry asr diar vad = (let a = weighted_speaker (a_start asr) (a_end asr) diar in
    [(''start'', round3 (a_start asr)), (''end'', round3 (a_end asr)),
     (''text_id'', JInt (a_text_id asr)), (''speaker'', JInt (b_speaker a)),
     (''text'', JStr (a_text asr)), (''boundary_source'', JStr ''asr_span''),
     (''speaker_source'', JStr ''diar_overlap''),
     (''diar_overlap_sec'', round3 (b_overlap a)), (''diar_total_overlap_sec'', round3 (b_total a)),
     (''vad_overlap_sec'', round3 (vad_overlap (a_start asr) (a_end asr) vad))]
    @ opt_field ''speaker_id'' (b_id a) @ opt_field ''speaker_name'' (b_name a))"

definition fallback_from_current ::
  "asr_entry \<Rightarrow> (int, obj list) pydict \<Rightarrow> diar_entry list \<Rightarrow> json list \<Rightarrow> obj list" where
  "fallback_from_current asr current diar vad = (case map_of current (a_text_id asr) of
     Some (it # its) \<Rightarrow> map (copy_current vad) (it # its)
   | _ \<Rightarrow> [asr_span_entry asr diar vad])"

text \<open>The body of the loop over ASR entries.\<close>

definition aligned_entries ::
  "fuse_params \<Rightarrow> json list \<Rightarrow> asr_entry \<Rightarrow> align_unit list \<Rightarrow> speaker_turn list \<Rightarrow> obj list" where
  "aligned_entries p vad asr units turns =
    (let runs = unit_runs units (pause_sec p) (boundary_tolerance_sec p) turns;
         slices = assign_runs asr (min_run_sec p) turns runs
     in map (\<lambda>(t, sl). turn_entry asr vad t sl) (filter (\<lambda>(t, sl). fst sl \<noteq> []) (zip turns slices)))"

definition fuse_asr ::
  "fuse_params \<Rightarrow> diar_entry list \<Rightarrow> (int, align_group) pydict \<Rightarrow> json list \<Rightarrow>
   (int, obj list) pydict \<Rightarrow> asr_entry \<Rightarrow> obj list" where
  "fuse_asr p diar groups vad current asr =
    (let fallback = fallback_from_current asr current diar vad in
     case map_of groups (a_text_id asr) of
       None \<Rightarrow> fallback
     | Some g \<Rightarrow> if g_units g = [] then fallback
         else let turns = diar_turns (a_start asr) (a_end asr) diar (diar_gapfill_max_sec p)
              in if turns = [] then fallback else aligned_entries p vad asr (g_units g) turns)"

section \<open>Coalescing\<close>

definition text_of :: "obj \<Rightarrow> string" where
  "text_of e = py_str (dget e ''text'' (JStr []))"

definition same_source :: "obj \<Rightarrow> obj \<Rightarrow> bool" where
  "same_source prev it \<longleftrightarrow> int_of (get prev ''text_id'') = int_of (get it ''text_id'') \<and>
     int_of (get prev ''speaker'') = int_of (get it ''speaker'') \<and>
     py_eq (get prev ''speaker_id'') (get it ''speaker_id'') \<and>
     py_eq (get prev ''boundary_source'') (get it ''boundary_source'')"

definition coalescible :: "obj \<Rightarrow> obj \<Rightarrow> bool" where
  "coalescible prev it \<longleftrightarrow> same_source prev it \<and>
     num (get it ''start'') - num (get prev ''end'') \<le> EPS"

definition add_field :: "string \<Rightarrow> obj \<Rightarrow> obj \<Rightarrow> obj" where
  "add_field k it prev = dset k (round3 (num (get prev k) + num (get it k))) prev"

definition coalesce_entry :: "obj \<Rightarrow> obj \<Rightarrow> obj" where
  "coalesce_entry prev it =
    add_field ''vad_overlap_sec'' it
     (add_field ''diar_total_overlap_sec'' it
      (add_field ''diar_overlap_sec'' it
       (dset ''align_units'' (JInt (int_or (get prev ''align_units'') 0 + int_or (get it ''align_units'') 0))
        (dset ''text'' (JStr (text_of prev @ text_of it))
         (dset ''end'' (get it ''end'') prev)))))"

definition coalesce_candidate :: "obj list \<Rightarrow> obj list" where
  "coalesce_candidate es = merge_runs (\<lambda>e. e) coalescible coalesce_entry es"

section \<open>Speaker relabelling\<close>

definition same_speaker :: "obj \<Rightarrow> obj \<Rightarrow> bool" where
  "same_speaker a b \<longleftrightarrow> py_eq (get a ''speaker_id'') (get b ''speaker_id'') \<and>
     int_of (get a ''speaker'') = int_of (get b ''speaker'')"

definition speaker_known :: "obj \<Rightarrow> bool" where
  "speaker_known e \<longleftrightarrow> 0 \<le> int_of (get e ''speaker'') \<or> truthy (get e ''speaker_id'')"

definition text_chars :: "obj \<Rightarrow> int" where
  "text_chars e = int (length (text_of e))"

definition duration :: "obj \<Rightarrow> dbl" where
  "duration e = max 0 (num (get e ''end'') - num (get e ''start''))"

definition has_key :: "string \<Rightarrow> obj \<Rightarrow> bool" where
  "has_key k e \<longleftrightarrow> k \<in> set (map fst e)"

text \<open>The original speaker is recorded once, before the first change.\<close>

definition save_raw :: "obj \<Rightarrow> obj" where
  "save_raw e =
    (let e1 = (if has_key ''raw_speaker'' e then e else dset ''raw_speaker'' (get e ''speaker'') e);
         e2 = (if \<not> has_key ''raw_speaker_id'' e1 \<and> truthy (get e1 ''speaker_id'')
               then dset ''raw_speaker_id'' (get e1 ''speaker_id'') e1 else e1)
     in if \<not> has_key ''raw_speaker_name'' e2 \<and> truthy (get e2 ''speaker_name'')
        then dset ''raw_speaker_name'' (get e2 ''speaker_name'') e2 else e2)"

definition copy_opt :: "string \<Rightarrow> obj \<Rightarrow> obj \<Rightarrow> obj" where
  "copy_opt k src dst = (if truthy (get src k) then dset k (get src k) dst else dpop k dst)"

definition copy_speaker :: "string \<Rightarrow> obj \<Rightarrow> obj \<Rightarrow> obj" where
  "copy_speaker reason src dst =
    (let d1 = dset ''speaker'' (dget src ''speaker'' (JInt (- 1))) (save_raw dst)
     in dset ''speaker_smoothing'' (JStr reason) (dset ''speaker_source'' (JStr ''context_smooth'')
          (copy_opt ''speaker_name'' src (copy_opt ''speaker_id'' src d1))))"

definition clear_speaker :: "string \<Rightarrow> obj \<Rightarrow> obj" where
  "clear_speaker reason dst =
    dset ''speaker_smoothing'' (JStr reason) (dset ''speaker_source'' (JStr ''low_diar_coverage'')
      (dpop ''speaker_name'' (dpop ''speaker_id'' (dset ''speaker'' (JInt (- 1)) (save_raw dst)))))"

definition downgrade_entry :: "dbl \<Rightarrow> dbl \<Rightarrow> obj \<Rightarrow> obj" where
  "downgrade_entry min_ratio min_overlap e =
    (if \<not> speaker_known e then e
     else let dur = duration e in
       if dur \<le> EPS then e
       else let ov = num (get e ''diar_overlap_sec''); ratio = ov / dur in
         if 0 < min_overlap \<and> ov + EPS < min_overlap then clear_speaker ''diar_overlap_below_min'' e
         else if 0 < min_ratio \<and> ratio + EPS < min_ratio
           then clear_speaker ''diar_coverage_ratio_below_min'' e
         else e)"

definition downgrade_low_diar_coverage :: "dbl \<Rightarrow> dbl \<Rightarrow> obj list \<Rightarrow> obj list" where
  "downgrade_low_diar_coverage min_ratio min_overlap es = map (downgrade_entry min_ratio min_overlap) es"

definition smooth_entry :: "fuse_params \<Rightarrow> obj \<Rightarrow> obj \<Rightarrow> obj \<Rightarrow> obj" where
  "smooth_entry p prev cur nxt =
    (if \<not> speaker_known prev \<or> \<not> same_speaker prev nxt then cur
     else if short_flip_gap_sec p < num (get cur ''start'') - num (get prev ''end'') \<or>
             short_flip_gap_sec p < num (get nxt ''start'') - num (get cur ''end'') then cur
     else let dur = duration cur;
              tiny = (dur \<le> short_flip_sec p \<or> text_chars cur \<le> short_flip_chars p)
       in if \<not> speaker_known cur \<and> 0 < fill_unknown_sec p \<and> dur \<le> fill_unknown_sec p
          then copy_speaker ''short_unknown_between_same_speaker'' prev cur
          else if 0 < short_flip_sec p \<and> tiny \<and> speaker_known cur \<and> \<not> same_speaker cur prev
          then copy_speaker ''short_flip_between_same_speaker'' prev cur
          else cur)"

text \<open>Entries are relabelled in place from left to right: the left neighbour is already final.\<close>

fun smooth_from :: "fuse_params \<Rightarrow> obj \<Rightarrow> obj list \<Rightarrow> obj list" where
  "smooth_from p prev (cur # nxt # es) =
     (let c = smooth_entry p prev cur nxt in c # smooth_from p c (nxt # es))"
| "smooth_from p prev es = es"

definition smooth_context :: "fuse_params \<Rightarrow> obj list \<Rightarrow> obj list" where
  "smooth_context p es = (case es of [] \<Rightarrow> [] | e # r \<Rightarrow> e # smooth_from p e r)"

section \<open>The fused view\<close>

definition entry_key :: "obj \<Rightarrow> dbl \<times> dbl \<times> int" where
  "entry_key e = (num (get e ''start''), num (get e ''end''), int_of (get e ''text_id''))"

definition fused_entries ::
  "fuse_params \<Rightarrow> asr_entry list \<Rightarrow> diar_entry list \<Rightarrow> (int, align_group) pydict \<Rightarrow> json list \<Rightarrow>
   json list \<Rightarrow> obj list" where
  "fused_entries p asr diar groups vad current =
     sort_key entry_key (concat (map (fuse_asr p diar groups vad (entries_by_text_id current)) asr))"

definition fuse ::
  "fuse_params \<Rightarrow> asr_entry list \<Rightarrow> diar_entry list \<Rightarrow> (int, align_group) pydict \<Rightarrow> json list \<Rightarrow>
   json list \<Rightarrow> obj list" where
  "fuse p asr diar groups vad current =
    (let out1 = coalesce_candidate (fused_entries p asr diar groups vad current);
         out2 = (if 0 < min_diar_coverage_ratio p \<or> 0 < min_diar_overlap_sec p
           then coalesce_candidate (downgrade_low_diar_coverage (min_diar_coverage_ratio p)
                  (min_diar_overlap_sec p) out1)
           else out1)
     in if 0 < short_flip_sec p \<or> 0 < fill_unknown_sec p
        then coalesce_candidate (smooth_context p out2) else out2)"

section \<open>Business turns\<close>

text \<open>
  The dict of a business turn; its \<^verbatim>\<open>boundary_source\<close> is always \<^verbatim>\<open>business_turn_merge\<close>, and its
  speaker id and name are present only when they are non-empty.
\<close>

record business_turn =
  bt_start :: json
  bt_end :: json
  bt_speaker :: json
  bt_text :: json
  bt_text_ids :: "int list"
  bt_entry_count :: int
  bt_indices :: "nat list"
  bt_speaker_source :: json
  bt_speaker_id :: "json option"
  bt_speaker_name :: "json option"

definition truthy_opt :: "json \<Rightarrow> json option" where
  "truthy_opt v = (if truthy v then Some v else None)"

definition or_none :: "json option \<Rightarrow> json" where
  "or_none v = (case v of Some x \<Rightarrow> x | None \<Rightarrow> JNull)"

definition new_business_turn :: "nat \<times> obj \<Rightarrow> business_turn" where
  "new_business_turn = (\<lambda>(idx, e). let text_id = int_of (get e ''text_id'') in
     \<lparr>bt_start = get e ''start'', bt_end = get e ''end'', bt_speaker = dget e ''speaker'' (JInt (- 1)),
      bt_text = dget e ''text'' (JStr []), bt_text_ids = (if 0 \<le> text_id then [text_id] else []),
      bt_entry_count = 1, bt_indices = [idx], bt_speaker_source = get e ''speaker_source'',
      bt_speaker_id = truthy_opt (get e ''speaker_id''),
      bt_speaker_name = truthy_opt (get e ''speaker_name'')\<rparr>)"

definition continues_turn :: "dbl \<Rightarrow> business_turn \<Rightarrow> nat \<times> obj \<Rightarrow> bool" where
  "continues_turn gap prev = (\<lambda>(idx, e).
     py_eq (or_none (bt_speaker_id prev)) (get e ''speaker_id'') \<and>
     int_of (bt_speaker prev) = int_of (get e ''speaker'') \<and>
     num (get e ''start'') - num (bt_end prev) \<le> gap)"

definition extend_turn :: "business_turn \<Rightarrow> nat \<times> obj \<Rightarrow> business_turn" where
  "extend_turn prev = (\<lambda>(idx, e). let text_id = int_of (get e ''text_id'') in
     prev\<lparr>bt_end := get e ''end'', bt_text := JStr (py_str (bt_text prev) @ text_of e),
       bt_entry_count := bt_entry_count prev + 1,
       bt_text_ids := (if 0 \<le> text_id \<and> text_id \<notin> set (bt_text_ids prev)
                       then bt_text_ids prev @ [text_id] else bt_text_ids prev),
       bt_indices := bt_indices prev @ [idx]\<rparr>)"

definition business_turns :: "obj list \<Rightarrow> dbl \<Rightarrow> business_turn list" where
  "business_turns es gap =
     merge_runs new_business_turn (continues_turn gap) extend_turn (enumerate 0 es)"

section \<open>Assignment keeps every unit\<close>

lemma turn_index_less: "ts \<noteq> [] \<Longrightarrow> turn_index mid ts < length ts"
  by (induction mid ts rule: turn_index.induct) auto

lemma turn_index_before: "j < turn_index mid ts \<Longrightarrow> t_end (ts ! j) - EPS \<le> mid"
proof (induction mid ts arbitrary: j rule: turn_index.induct)
  case (1 mid t u ts)
  then show ?case by (cases j) (auto split: if_splits)
qed simp_all

lemma turn_index_at:
  "Suc (turn_index mid ts) < length ts \<Longrightarrow> mid < t_end (ts ! turn_index mid ts) - EPS"
  by (induction mid ts rule: turn_index.induct) auto

lemma add_run_simps:
  assumes "turns \<noteq> []" "length sl = length turns"
  shows "length (add_run asr m turns sl run) = length turns"
    "mset (concat (map fst (add_run asr m turns sl run)))
       = mset (concat (map fst sl)) + mset (concat (map u_text run))"
    "sum_list (map snd (add_run asr m turns sl run)) = sum_list (map snd sl) + length run"
  using assms turn_index_less[OF assms(1), of "run_mid asr m run"]
  by (simp_all add: add_run_def Let_def split_beta mset_concat_update sum_list_update_add)

lemma fold_add_run:
  assumes "turns \<noteq> []" "length sl = length turns"
  shows "length (foldl (add_run asr m turns) sl runs) = length turns \<and>
    mset (concat (map fst (foldl (add_run asr m turns) sl runs)))
      = mset (concat (map fst sl)) + mset (concat (map u_text (concat runs))) \<and>
    sum_list (map snd (foldl (add_run asr m turns) sl runs))
      = sum_list (map snd sl) + length (concat runs)"
  using assms(2)
proof (induction runs arbitrary: sl)
  case (Cons run runs)
  note step = add_run_simps[OF assms(1) Cons.prems, of asr m run]
  show ?case using Cons.IH[OF step(1)] step by simp
qed simp

lemma assign_runs_conserve:
  assumes "turns \<noteq> []"
  shows "length (assign_runs asr m turns runs) = length turns"
    "mset (concat (map fst (assign_runs asr m turns runs))) = mset (concat (map u_text (concat runs)))"
    "sum_list (map snd (assign_runs asr m turns runs)) = length (concat runs)"
proof -
  have "concat (map (\<lambda>_. []) turns) = []" "sum_list (map (\<lambda>_. 0 :: nat) turns) = 0"
    by simp_all
  then show "length (assign_runs asr m turns runs) = length turns"
    "mset (concat (map fst (assign_runs asr m turns runs))) = mset (concat (map u_text (concat runs)))"
    "sum_list (map snd (assign_runs asr m turns runs)) = length (concat runs)"
    using fold_add_run[OF assms, of "map (\<lambda>_. ([], 0)) turns" asr m runs]
    by (simp_all add: assign_runs_def o_def)
qed

lemma text_of_turn_entry [simp]: "text_of (turn_entry asr vad t sl) = fst sl"
  by (simp add: text_of_def turn_entry_def)

lemma concat_map_filter_nonempty:
  "concat (map f (filter (\<lambda>x. f x \<noteq> []) xs)) = concat (map f xs)"
  by (induction xs) auto

lemma concat_zip_snd:
  "length xs = length ys \<Longrightarrow> concat (map (\<lambda>(x, y). f y) (zip xs ys)) = concat (map f ys)"
  by (induction xs ys rule: list_induct2) auto

lemma aligned_entries_text:
  assumes "turns \<noteq> []"
  shows "mset (concat (map text_of (aligned_entries p vad asr units turns)))
    = mset (concat (map u_text units))"
proof -
  let ?runs = "unit_runs units (pause_sec p) (boundary_tolerance_sec p) turns"
  let ?sl = "assign_runs asr (min_run_sec p) turns ?runs"
  have "concat (map text_of (aligned_entries p vad asr units turns))
      = concat (map (\<lambda>x. (fst \<circ> snd) x) (filter (\<lambda>x. (fst \<circ> snd) x \<noteq> []) (zip turns ?sl)))"
    by (simp add: aligned_entries_def Let_def case_prod_unfold o_def)
  also have "\<dots> = concat (map (fst \<circ> snd) (zip turns ?sl))"
    by (rule concat_map_filter_nonempty)
  also have "\<dots> = concat (map fst ?sl)"
    using concat_zip_snd[of turns ?sl fst] assign_runs_conserve(1)[OF assms]
    by (simp add: case_prod_unfold o_def)
  finally show ?thesis by (simp add: assign_runs_conserve(2)[OF assms] concat_unit_runs)
qed

section \<open>Coalescing keeps text, order and maximality\<close>

lemma text_of_coalesce_entry [simp]: "text_of (coalesce_entry p x) = text_of p @ text_of x"
  by (simp add: text_of_def coalesce_entry_def add_field_def)

lemma get_coalesce_entry [simp]:
  "get (coalesce_entry p x) ''start'' = get p ''start''"
  "get (coalesce_entry p x) ''end'' = get x ''end''"
  "get (coalesce_entry p x) ''text_id'' = get p ''text_id''"
  "get (coalesce_entry p x) ''speaker'' = get p ''speaker''"
  "get (coalesce_entry p x) ''speaker_id'' = get p ''speaker_id''"
  "get (coalesce_entry p x) ''boundary_source'' = get p ''boundary_source''"
  by (simp_all add: coalesce_entry_def add_field_def)

interpretation entry_text: run_content "\<lambda>e. e" coalescible coalesce_entry text_of text_of
  by unfold_locales simp_all

interpretation entry_start: run_key "\<lambda>e. e" coalescible coalesce_entry
  "\<lambda>e. num (get e ''start'')" "\<lambda>e. num (get e ''start'')"
  by unfold_locales simp_all

interpretation entry_runs: run_uniform coalescible coalesce_entry
  by unfold_locales (simp_all add: coalescible_def same_source_def)

lemma coalesce_candidate_text: "concat (map text_of (coalesce_candidate es)) = concat (map text_of es)"
  unfolding coalesce_candidate_def by (rule entry_text.merge_content)

lemma coalesce_candidate_sorted:
  "sorted (map (\<lambda>e. num (get e ''start'')) es) \<Longrightarrow>
   sorted (map (\<lambda>e. num (get e ''start'')) (coalesce_candidate es))"
  unfolding coalesce_candidate_def by (rule entry_start.merge_sorted)

section \<open>Relabelling keeps everything but the speaker\<close>

definition relabel_keys :: "string set" where
  "relabel_keys = {''speaker'', ''speaker_id'', ''speaker_name'', ''speaker_source'',
     ''speaker_smoothing'', ''raw_speaker'', ''raw_speaker_id'', ''raw_speaker_name''}"

definition same_frame :: "obj \<Rightarrow> obj \<Rightarrow> bool" where
  "same_frame a b \<longleftrightarrow> (\<forall>k. k \<notin> relabel_keys \<longrightarrow> map_of a k = map_of b k)"

lemma same_frame_refl [simp]: "same_frame a a"
  by (simp add: same_frame_def)

lemma same_frame_get: "same_frame a b \<Longrightarrow> k \<notin> relabel_keys \<Longrightarrow> get b k = get a k"
  by (simp add: same_frame_def get_def dget_def)

lemma same_frame_text: "same_frame a b \<Longrightarrow> text_of b = text_of a"
  by (simp add: same_frame_def text_of_def dget_def relabel_keys_def)

lemma relabel_member [simp]:
  "''speaker'' \<in> relabel_keys" "''speaker_id'' \<in> relabel_keys" "''speaker_name'' \<in> relabel_keys"
  "''speaker_source'' \<in> relabel_keys" "''speaker_smoothing'' \<in> relabel_keys"
  "''raw_speaker'' \<in> relabel_keys" "''raw_speaker_id'' \<in> relabel_keys"
  "''raw_speaker_name'' \<in> relabel_keys"
  by (simp_all add: relabel_keys_def)

lemma same_frame_dset: "k \<in> relabel_keys \<Longrightarrow> same_frame a b \<Longrightarrow> same_frame a (dset k v b)"
  by (metis map_of_dset same_frame_def)

lemma same_frame_dpop: "k \<in> relabel_keys \<Longrightarrow> same_frame a b \<Longrightarrow> same_frame a (dpop k b)"
  by (metis map_of_dpop same_frame_def)

lemmas frame_intros = same_frame_dset same_frame_dpop same_frame_refl relabel_member

lemma same_frame_save_raw: "same_frame e (save_raw e)"
  by (simp add: save_raw_def Let_def frame_intros)

lemma save_raw_get [simp]: "get (save_raw e) ''speaker'' = get e ''speaker''"
  by (simp add: save_raw_def Let_def)

lemma same_frame_copy: "same_frame e (copy_speaker r src e)"
  by (simp add: copy_speaker_def copy_opt_def Let_def frame_intros same_frame_save_raw)

lemma same_frame_clear: "same_frame e (clear_speaker r e)"
  by (simp add: clear_speaker_def frame_intros same_frame_save_raw)

lemma same_frame_downgrade: "same_frame e (downgrade_entry r m e)"
  by (simp add: downgrade_entry_def Let_def same_frame_clear)

lemma same_frame_smooth: "same_frame cur (smooth_entry p prev cur nxt)"
  by (simp add: smooth_entry_def Let_def same_frame_copy)

lemma smooth_from_frame: "list_all2 same_frame es (smooth_from p prev es)"
  by (induction p prev es rule: smooth_from.induct)
     (simp_all add: Let_def same_frame_smooth list_all2_same)

lemma smooth_context_frame: "list_all2 same_frame es (smooth_context p es)"
  by (cases es) (simp_all add: smooth_context_def smooth_from_frame)

lemma downgrade_frame: "list_all2 same_frame es (downgrade_low_diar_coverage r m es)"
  by (induction es) (simp_all add: downgrade_low_diar_coverage_def same_frame_downgrade)

lemma frame_texts: "list_all2 same_frame es fs \<Longrightarrow> map text_of fs = map text_of es"
  by (induction rule: list_all2_induct) (auto simp: same_frame_text)

lemma frame_starts:
  "list_all2 same_frame es fs \<Longrightarrow>
   map (\<lambda>e. num (get e ''start'')) fs = map (\<lambda>e. num (get e ''start'')) es"
  by (induction rule: list_all2_induct) (auto simp: same_frame_get relabel_keys_def)

lemmas frame_eqs = frame_texts[OF smooth_context_frame] frame_texts[OF downgrade_frame]
  frame_starts[OF smooth_context_frame] frame_starts[OF downgrade_frame]

lemma fuse_text:
  "concat (map text_of (fuse p asr diar groups vad cur))
   = concat (map text_of (fused_entries p asr diar groups vad cur))"
  by (simp add: fuse_def Let_def coalesce_candidate_text frame_eqs)

lemma fused_entries_sorted:
  "sorted (map (\<lambda>e. num (get e ''start'')) (fused_entries p asr diar groups vad cur))"
proof -
  have "sorted (map entry_key (fused_entries p asr diar groups vad cur))"
    by (simp add: fused_entries_def)
  then show ?thesis by (rule sorted_map_weaken) (auto simp: entry_key_def less_eq_prod_def)
qed

section \<open>Business turns keep text and provenance\<close>

interpretation turn_text: run_content new_business_turn "continues_turn gap" extend_turn
  "\<lambda>(i, e). text_of e" "\<lambda>t. py_str (bt_text t)" for gap
  by unfold_locales (auto simp: new_business_turn_def extend_turn_def text_of_def Let_def)

interpretation turn_indices: run_content new_business_turn "continues_turn gap" extend_turn
  "\<lambda>(i, e). [i]" bt_indices for gap
  by unfold_locales (auto simp: new_business_turn_def extend_turn_def Let_def)

interpretation turn_start: run_key new_business_turn "continues_turn gap" extend_turn
  "\<lambda>(i, e). get e ''start''" bt_start for gap
  by unfold_locales (auto simp: new_business_turn_def extend_turn_def Let_def)

lemma map_enumerate: "map (\<lambda>(i, e). f e) (enumerate n es) = map f es"
  by (induction es arbitrary: n) simp_all

lemma concat_enumerate_fst: "concat (map (\<lambda>(i, e). [i]) (enumerate n es)) = [n..<n + length es]"
  by (simp add: case_prod_unfold)

lemma business_turns_text:
  "concat (map (\<lambda>t. py_str (bt_text t)) (business_turns es gap)) = concat (map text_of es)"
  unfolding business_turns_def by (simp add: turn_text.merge_content map_enumerate)

lemma business_turns_indices: "concat (map bt_indices (business_turns es gap)) = [0..<length es]"
  unfolding business_turns_def using concat_enumerate_fst[of 0 es]
  by (simp add: turn_indices.merge_content)

lemma business_turns_count:
  "t \<in> set (business_turns es gap) \<Longrightarrow> bt_entry_count t = int (length (bt_indices t)) \<and> bt_indices t \<noteq> []"
  unfolding business_turns_def
  by (rule merge_runs_invariant[where P = "\<lambda>t. bt_entry_count t = int (length (bt_indices t)) \<and> bt_indices t \<noteq> []"])
     (auto simp: new_business_turn_def extend_turn_def Let_def)

lemma business_turns_text_ids:
  "t \<in> set (business_turns es gap) \<Longrightarrow> distinct (bt_text_ids t) \<and> (\<forall>i \<in> set (bt_text_ids t). 0 \<le> i)"
  unfolding business_turns_def
  by (rule merge_runs_invariant[where P = "\<lambda>t. distinct (bt_text_ids t) \<and> (\<forall>i \<in> set (bt_text_ids t). 0 \<le> i)"])
     (auto simp: new_business_turn_def extend_turn_def Let_def split: if_splits)

text \<open>Every entry a turn absorbed has the turn's speaker.\<close>

definition turn_speaker_ok :: "obj list \<Rightarrow> business_turn \<Rightarrow> bool" where
  "turn_speaker_ok es t \<longleftrightarrow> (\<forall>i \<in> set (bt_indices t). i < length es \<and>
     int_of (bt_speaker t) = int_of (get (es ! i) ''speaker''))"

lemma int_of_dget_minus_1 [simp]: "int_of (dget e k (JInt (- 1))) = int_of (get e k)"
  by (simp add: dget_def get_def split: option.split)

lemma business_turns_speaker: "t \<in> set (business_turns es gap) \<Longrightarrow> turn_speaker_ok es t"
proof -
  have mem: "fst x < length es \<and> es ! fst x = snd x" if "x \<in> set (enumerate 0 es)" for x
    using that by (simp add: in_set_enumerate_eq)
  assume "t \<in> set (business_turns es gap)"
  then show ?thesis unfolding business_turns_def
    by (rule merge_runs_invariant[where P = "turn_speaker_ok es", rotated 2])
       (use mem in \<open>force simp: turn_speaker_ok_def new_business_turn_def extend_turn_def
          continues_turn_def Let_def split: prod.splits\<close>)+
qed

end
