(* ===== verification/Fusion_Audit.thy ===== *)
theory Fusion_Audit
  imports Fusion_Candidate
begin

text \<open>
  \<^verbatim>\<open>tools/verify/py/fusion_audit.py\<close>, report side: the mechanical consistency issues, the
  unknown-speaker shares, the issue counts, and \<^verbatim>\<open>main\<close> from the loaded package to the two
  output documents (argument parsing, file access and printing are left out).
\<close>

section \<open>Issues\<close>

definition span_json :: "dbl \<Rightarrow> dbl \<Rightarrow> json" where
  "span_json a b = JArr [round3 a, round3 b]"

definition tol05 :: dbl where "tol05 = D (5 / 100)"

definition tol10 :: dbl where "tol10 = D (10 / 100)"

definition id_issue :: "string \<Rightarrow> int \<Rightarrow> obj" where
  "id_issue kind text_id = [(''kind'', JStr kind), (''text_id'', JInt text_id)]"

fun unit_issues ::
  "asr_entry \<Rightarrow> int \<Rightarrow> nat \<Rightarrow> dbl option \<Rightarrow> align_unit list \<Rightarrow> obj list" where
  "unit_issues asr text_id idx prev_end [] = []"
| "unit_issues asr text_id idx prev_end (u # us) =
    (if u_end u < u_start u - EPS
     then [[(''kind'', JStr ''align_unit_negative_duration''), (''text_id'', JInt text_id),
            (''unit_index'', JInt (int idx))]] else []) @
    (if u_start u < a_start asr - tol05 \<or> a_end asr + tol05 < u_end u
     then [[(''kind'', JStr ''align_unit_outside_asr''), (''text_id'', JInt text_id),
            (''unit_index'', JInt (int idx)), (''asr'', span_json (a_start asr) (a_end asr)),
            (''unit'', span_json (u_start u) (u_end u))]] else []) @
    (case prev_end of None \<Rightarrow> []
     | Some pe \<Rightarrow> if u_start u < pe - tol05
         then [[(''kind'', JStr ''align_unit_backtrack''), (''text_id'', JInt text_id),
                (''unit_index'', JInt (int idx)), (''previous_end'', round3 pe),
                (''start'', round3 (u_start u))]] else []) @
    unit_issues asr text_id (Suc idx) (Some (u_end u)) us"

definition asr_by_id :: "asr_entry list \<Rightarrow> (int, asr_entry) pydict" where
  "asr_by_id asr = foldl (\<lambda>d a. dset (a_text_id a) a d) [] asr"

definition group_issues :: "(int, asr_entry) pydict \<Rightarrow> int \<times> align_group \<Rightarrow> obj list" where
  "group_issues asr = (\<lambda>(text_id, g). case map_of asr text_id of None \<Rightarrow> []
   | Some a \<Rightarrow>
      (if g_start g < a_start a - tol05 \<or> a_end a + tol05 < g_end g
       then [[(''kind'', JStr ''align_group_outside_asr''), (''text_id'', JInt text_id),
              (''asr'', span_json (a_start a) (a_end a)), (''align'', span_json (g_start g) (g_end g))]]
       else []) @ unit_issues a text_id 0 None (g_units g))"

definition entry_issues :: "(int, asr_entry) pydict \<Rightarrow> nat \<times> obj \<Rightarrow> obj list" where
  "entry_issues asr = (\<lambda>(idx, e).
     let s = num (get e ''start''); t = num (get e ''end''); text_id = int_of (get e ''text_id'') in
     (if t < s - EPS then [[(''kind'', JStr ''candidate_negative_duration''), (''index'', JInt (int idx))]]
      else []) @
     (case map_of asr text_id of None \<Rightarrow> []
      | Some a \<Rightarrow> if s < a_start a - tol10 \<or> a_end a + tol10 < t
          then [[(''kind'', JStr ''candidate_outside_asr''), (''index'', JInt (int idx)),
                 (''text_id'', JInt text_id), (''asr'', span_json (a_start a) (a_end a)),
                 (''candidate'', span_json s t)]] else []))"

definition audit_issues ::
  "asr_entry list \<Rightarrow> (int, align_group) pydict \<Rightarrow> obj list \<Rightarrow> obj list" where
  "audit_issues asr groups cand =
    (let align_ids = map fst groups; asr_ids = map a_text_id asr; by_id = asr_by_id asr in
     map (id_issue ''align_without_asr'') (sort (filter (\<lambda>i. i \<notin> set asr_ids) (remdups align_ids))) @
     map (id_issue ''asr_without_align'') (sort (filter (\<lambda>i. i \<notin> set align_ids) (remdups asr_ids))) @
     concat (map (group_issues by_id) (sort_key fst groups)) @
     concat (map (entry_issues by_id) (enumerate 0 cand)))"

section \<open>Counts and shares\<close>

definition issue_kind :: "obj \<Rightarrow> string" where
  "issue_kind issue = py_str (dget issue ''kind'' (JStr ''unknown''))"

definition bump :: "('k, int) pydict \<Rightarrow> 'k \<Rightarrow> ('k, int) pydict" where
  "bump counts k = dset k ((case map_of counts k of Some n \<Rightarrow> n | None \<Rightarrow> 0) + 1) counts"

definition count_by_kind :: "obj list \<Rightarrow> (string, int) pydict" where
  "count_by_kind issues = sort_key fst (foldl (\<lambda>c i. bump c (issue_kind i)) [] issues)"

definition unknown_seconds :: "('e \<Rightarrow> json) \<Rightarrow> ('e \<Rightarrow> json) \<Rightarrow> ('e \<Rightarrow> json) \<Rightarrow> 'e list \<Rightarrow> dbl" where
  "unknown_seconds spk st en es = foldl (\<lambda>acc e.
     if int_of (spk e) < 0 then acc + max 0 (num (en e) - num (st e)) else acc) 0 es"

definition unknown_pct :: "dbl \<Rightarrow> dbl \<Rightarrow> dbl" where
  "unknown_pct unknown audio = py_round (if 0 < audio then unknown / audio * D 100 else 0) 2"

definition business_turn_audit :: "obj \<Rightarrow> business_turn list \<Rightarrow> json" where
  "business_turn_audit t turns =
    (let unknown = unknown_seconds bt_speaker bt_start bt_end turns; audio = num (get t ''audio_sec'') in
     JObj [(''count'', JInt (int (length turns))), (''unknown_speaker_sec'', round3 unknown),
           (''unknown_speaker_pct_of_audio'', JFlt (unknown_pct unknown audio))])"

definition audit ::
  "obj \<Rightarrow> asr_entry list \<Rightarrow> diar_entry list \<Rightarrow> (int, align_group) pydict \<Rightarrow> obj list \<Rightarrow>
   business_turn list \<Rightarrow> obj res" where
  "audit t asr diar groups cand turns =
    rbind (py_len (dget t ''comprehensive'' (JArr []))) (\<lambda>n_current.
    (let issues = audit_issues asr groups cand;
         align_ids = remdups (map fst groups); asr_ids = remdups (map a_text_id asr);
         unknown = unknown_seconds (\<lambda>e. get e ''speaker'') (\<lambda>e. get e ''start'') (\<lambda>e. get e ''end'') cand
     in Inr
      [(''audio_sec'', JFlt (num (get t ''audio_sec''))),
       (''track_counts'', JObj
         [(''asr'', JInt (int (length asr))), (''diarization'', JInt (int (length diar))),
          (''align'', JInt (int (length groups))), (''comprehensive_current'', JInt n_current),
          (''comprehensive_candidate'', JInt (int (length cand))),
          (''business_turns'', JInt (int (length turns)))]),
       (''align_coverage'', JObj
         [(''aligned_asr_segments'', JInt (int (length (filter (\<lambda>i. i \<in> set align_ids) asr_ids)))),
          (''missing_align_segments'', JInt (int (length (filter (\<lambda>i. i \<notin> set align_ids) asr_ids)))),
          (''extra_align_segments'', JInt (int (length (filter (\<lambda>i. i \<notin> set asr_ids) align_ids))))]),
       (''candidate'', JObj
         [(''unknown_speaker_sec'', round3 unknown),
          (''unknown_speaker_pct_of_audio'', JFlt (unknown_pct unknown (num (get t ''audio_sec''))))]),
       (''business_turns'', business_turn_audit t turns),
       (''issues'', JArr (map JObj issues)),
       (''issue_counts'', JObj (map (\<lambda>(k, n). (k, JInt n)) (count_by_kind issues)))]))"

section \<open>From the package to the documents\<close>

record fusion_args =
  align_snap_pause_sec :: "dbl option"
  pause_sec_alias :: "dbl option"
  align_boundary_split_tolerance_sec :: dbl
  arg_min_run_sec :: dbl
  arg_short_flip_sec :: dbl
  arg_short_flip_chars :: int
  arg_short_flip_gap_sec :: dbl
  arg_fill_unknown_sec :: dbl
  arg_min_diar_coverage_ratio :: dbl
  arg_min_diar_overlap_sec :: dbl
  diar_gapfill_max_sec_arg :: dbl
  business_turn_gap_sec :: dbl
  timeline_view_turns :: bool

definition snap_pause :: "fusion_args \<Rightarrow> dbl" where
  "snap_pause args = (case align_snap_pause_sec args of Some x \<Rightarrow> x
     | None \<Rightarrow> (case pause_sec_alias args of Some x \<Rightarrow> x | None \<Rightarrow> D (25 / 100)))"

definition params_of :: "fusion_args \<Rightarrow> fuse_params" where
  "params_of args = \<lparr>pause_sec = snap_pause args,
     boundary_tolerance_sec = align_boundary_split_tolerance_sec args,
     min_run_sec = arg_min_run_sec args, short_flip_sec = arg_short_flip_sec args,
     short_flip_chars = arg_short_flip_chars args, short_flip_gap_sec = arg_short_flip_gap_sec args,
     fill_unknown_sec = arg_fill_unknown_sec args,
     min_diar_coverage_ratio = arg_min_diar_coverage_ratio args,
     min_diar_overlap_sec = arg_min_diar_overlap_sec args,
     diar_gapfill_max_sec =
       (if diar_gapfill_max_sec_arg args < 0 then None else Some (diar_gapfill_max_sec_arg args))\<rparr>"

record fusion_inputs =
  in_timeline :: obj
  in_asr :: "asr_entry list"
  in_diar :: "diar_entry list"
  in_align :: "(int, align_group) pydict"
  in_vad :: "json list"
  in_current :: "json list"

definition vad_start :: "json \<Rightarrow> dbl" where
  "vad_start v = (case as_obj v of Some d \<Rightarrow> num (get d ''start'') | None \<Rightarrow> 0)"

definition read_inputs :: "json \<Rightarrow> fusion_inputs res" where
  "read_inputs package = (case package of
     JObj pk \<Rightarrow> rbind (timeline pk) (\<lambda>t. rbind (tracks t) (\<lambda>ts.
       Inr \<lparr>in_timeline = t,
            in_asr = extract_asr (track_or_empty ts ''asr''),
            in_diar = extract_diar (track_or_empty ts ''diarization''),
            in_align = extract_align (track_or_empty ts ''align''),
            in_vad = sort_key vad_start (entries_of (track_or_empty ts ''vad'')),
            in_current = arr_or_empty (dget t ''comprehensive'' (JArr []))\<rparr>))
   | _ \<Rightarrow> Inl AttributeError)"

definition run_fuse :: "fusion_args \<Rightarrow> fusion_inputs \<Rightarrow> obj list" where
  "run_fuse args i = fuse (params_of args) (in_asr i) (in_diar i) (in_align i) (in_vad i) (in_current i)"

definition opt_json_field :: "string \<Rightarrow> json option \<Rightarrow> obj" where
  "opt_json_field k v = (case v of Some x \<Rightarrow> [(k, x)] | None \<Rightarrow> [])"

definition turn_json :: "business_turn \<Rightarrow> json" where
  "turn_json t = JObj
    ([(''start'', bt_start t), (''end'', bt_end t), (''speaker'', bt_speaker t), (''text'', bt_text t),
      (''text_ids'', JArr (map JInt (bt_text_ids t))), (''entry_count'', JInt (bt_entry_count t)),
      (''source_entry_indices'', JArr (map (JInt \<circ> int) (bt_indices t))),
      (''boundary_source'', JStr ''business_turn_merge''), (''speaker_source'', bt_speaker_source t)]
     @ opt_json_field ''speaker_id'' (bt_speaker_id t) @ opt_json_field ''speaker_name'' (bt_speaker_name t))"

definition parameters_json :: "fusion_args \<Rightarrow> json" where
  "parameters_json args = JObj
    [(''align_snap_pause_sec'', JFlt (snap_pause args)),
     (''align_boundary_split_tolerance_sec'', JFlt (align_boundary_split_tolerance_sec args)),
     (''min_run_sec'', JFlt (arg_min_run_sec args)),
     (''short_flip_sec'', JFlt (arg_short_flip_sec args)),
     (''short_flip_chars'', JInt (arg_short_flip_chars args)),
     (''short_flip_gap_sec'', JFlt (arg_short_flip_gap_sec args)),
     (''fill_unknown_sec'', JFlt (arg_fill_unknown_sec args)),
     (''min_diar_coverage_ratio'', JFlt (arg_min_diar_coverage_ratio args)),
     (''min_diar_overlap_sec'', JFlt (arg_min_diar_overlap_sec args)),
     (''diar_gapfill_max_sec'', JFlt (diar_gapfill_max_sec_arg args)),
     (''business_turn_gap_sec'', JFlt (business_turn_gap_sec args))]"

definition strategy :: json where
  "strategy = JStr ''diar_turns_with_align_run_midpoint''"

definition fusion_document :: "fusion_args \<Rightarrow> string \<Rightarrow> json \<Rightarrow> obj res" where
  "fusion_document args path package =
    rbind (read_inputs package) (\<lambda>i.
    let cand = run_fuse args i; turns = business_turns cand (business_turn_gap_sec args) in
    rbind (audit (in_timeline i) (in_asr i) (in_diar i) (in_align i) cand turns) (\<lambda>audit_doc.
    Inr [(''source'', JStr path), (''parameters'', parameters_json args), (''audit'', JObj audit_doc),
         (''fusion'', JObj [(''strategy'', strategy),
            (''comprehensive'', JArr (map JObj cand)), (''business_turns'', JArr (map turn_json turns))])]))"

text \<open>The \<^verbatim>\<open>--timeline-out\<close> package: the input with only its derived view replaced.\<close>

definition diagnostic_package :: "fusion_args \<Rightarrow> string \<Rightarrow> obj \<Rightarrow> fusion_inputs \<Rightarrow> obj" where
  "diagnostic_package args path pk i =
    (let cand = run_fuse args i; turns = business_turns cand (business_turn_gap_sec args);
         view = (if timeline_view_turns args then JArr (map turn_json turns) else JArr (map JObj cand));
         t' = dset ''fusion_diagnostic'' (JObj [(''source'', JStr path),
                (''view'', JStr (if timeline_view_turns args then ''business_turns'' else ''comprehensive'')),
                (''parameters'', parameters_json args), (''strategy'', strategy)])
              (dset ''comprehensive'' view (in_timeline i))
     in dset ''timeline'' (JObj t') pk)"

section \<open>Laws\<close>

lemma bump_map_of: "map_of (bump c k) k' = (if k' = k then Some ((case map_of c k of Some n \<Rightarrow> n | None \<Rightarrow> 0) + 1) else map_of c k')"
  by (simp add: bump_def)

lemma bump_total:
  "distinct (map fst c) \<Longrightarrow> sum_list (map snd (bump c k)) = sum_list (map snd c) + 1"
proof (induction c)
  case (Cons p c)
  obtain k0 n where p: "p = (k0, n)" by (cases p)
  have "bump (p # c) k = (if k0 = k then (k0, n + 1) # c else (k0, n) # bump c k)"
    by (simp add: bump_def p)
  with Cons show ?case by (simp add: p)
qed (simp add: bump_def)

lemma bump_distinct: "distinct (map fst c) \<Longrightarrow> distinct (map fst (bump c k))"
  by (simp add: bump_def distinct_dset)

lemma count_fold:
  assumes "distinct (map fst c)"
  shows "distinct (map fst (foldl (\<lambda>c i. bump c (f i)) c xs)) \<and>
    sum_list (map snd (foldl (\<lambda>c i. bump c (f i)) c xs)) = sum_list (map snd c) + int (length xs)"
  using assms by (induction xs arbitrary: c) (auto simp: bump_total bump_distinct)

lemma count_fold_of:
  "map_of (foldl (\<lambda>c i. bump c (f i)) c xs) k =
    (if k \<in> f ` set xs \<or> map_of c k \<noteq> None
     then Some ((case map_of c k of Some n \<Rightarrow> n | None \<Rightarrow> 0) + int (length (filter (\<lambda>x. f x = k) xs)))
     else None)"
  by (induction xs arbitrary: c) (auto simp: bump_map_of split: option.splits)

lemma sum_list_sort_key: "sum_list (map (f :: _ \<Rightarrow> int) (sort_key k xs)) = sum_list (map f xs)"
  by (metis mset_map mset_sort sum_mset_sum_list)

lemma map_of_sort_key:
  "distinct (map fst xs) \<Longrightarrow> map_of (sort_key fst xs) k = map_of (xs :: ('a :: linorder \<times> 'b) list) k"
proof -
  assume d: "distinct (map fst xs)"
  have "mset (map fst (sort_key fst xs)) = mset (map fst xs)" by (simp add: mset_map)
  then have "distinct (map fst (sort_key fst xs))" using d mset_eq_imp_distinct_iff by blast
  moreover have "set (sort_key fst xs) = set xs" by simp
  ultimately show ?thesis using d by (metis map_of_eqI map_of_inject_set)
qed

lemma unknown_seconds_nonneg: "0 \<le> unknown_seconds spk st en es"
proof -
  have "0 \<le> foldl (\<lambda>acc e. if int_of (spk e) < 0 then acc + max 0 (num (en e) - num (st e)) else acc) a es"
    if "0 \<le> a" for a
    using that by (induction es arbitrary: a) (simp_all add: dbl_add_nonneg)
  then show ?thesis by (simp add: unknown_seconds_def)
qed

end
