(* ===== verification/Fusion_Properties.thy ===== *)
theory Fusion_Properties
  imports Fusion_Audit
begin

text \<open>
  What \<^verbatim>\<open>fusion_audit.py\<close> promises: speaker turns partition an ASR span, attribution picks an
  overlapping segment, no aligned text is lost or repeated on the way to the fused view,
  relabelling keeps the evidence, business turns account for every entry, and the audit's
  counts agree with its issues.
\<close>

section \<open>Turns and attribution\<close>

text \<open>
  C1: the speaker turns of an ASR span form a gap-free, strictly increasing chain from the
  start of the span to its end (up to the tolerance \<open>EPS\<close>), and no two neighbouring turns have
  the same speaker.
\<close>

theorem diar_turns_partition:
  assumes "s \<le> e"
  shows "(\<exists>m. chained t_start t_end s (diar_turns s e diar gap) m \<and> m \<le> e \<and> e - m \<le> EPS) \<and>
    successively (\<lambda>a b. \<not> same_turn_speaker a b) (diar_turns s e diar gap)"
  using diar_turns_chained[OF assms] diar_turns_maximal by blast

definition seg_a :: diar_entry where
  "seg_a = \<lparr>d_start = D 0, d_end = D 4, d_speaker = 0, d_confidence = D (1 / 2),
     d_speaker_id = Some ''spk_0'', d_speaker_name = None\<rparr>"

definition seg_b :: diar_entry where
  "seg_b = \<lparr>d_start = D 5, d_end = D 9, d_speaker = 0, d_confidence = D (1 / 2),
     d_speaker_id = Some ''spk_0'', d_speaker_name = None\<rparr>"

theorem diar_turns_partition_witness:
  "D 1 \<le> D 8 \<and>
   map (\<lambda>t. (t_start t, t_end t, t_speaker t)) (diar_turns (D 1) (D 8) [seg_a] None)
     = [(D 1, D 4, 0), (D 4, D 8, - 1)] \<and>
   (\<exists>m. chained t_start t_end (D 1) (diar_turns (D 1) (D 8) [seg_a] None) m \<and>
     m \<le> D 8 \<and> D 8 - m \<le> EPS)"
proof -
  have h: "D 1 \<le> D 8" by code_simp
  have "map (\<lambda>t. (t_start t, t_end t, t_speaker t)) (diar_turns (D 1) (D 8) [seg_a] None)
     = [(D 1, D 4, 0), (D 4, D 8, - 1)]" by code_simp
  then show ?thesis using h diar_turns_partition[OF h, of "[seg_a]" None] by blast
qed

text \<open>
  On the extracted diarization track both attribution rules are sound: if some entry
  overlaps the interval by more than \<open>EPS\<close>, the speaker, id, name and overlap reported are
  those of such an entry; otherwise the interval stays unattributed.
\<close>

lemma attribution_sound:
  "(if list_ex (eligible s e) (extract_diar track)
    then list_ex (\<lambda>g. eligible s e g \<and> chosen_from s e g (attribute_interval s e (extract_diar track)))
           (extract_diar track)
    else attribute_interval s e (extract_diar track) = no_attribution) \<and>
   (if list_ex (eligible s e) (extract_diar track)
    then list_ex (\<lambda>g. eligible s e g \<and> chosen_from s e g (weighted_speaker s e (extract_diar track)))
           (extract_diar track)
    else weighted_speaker s e (extract_diar track) = no_attribution)"
  using tight.scan_choice_ok[OF extract_diar_starts, of s e track]
    weighted.scan_choice_ok[OF extract_diar_starts, of s e track]
  by (simp add: tight.choice_ok_def weighted.choice_ok_def attribute_interval_def
      weighted_speaker_def list_ex_iff)

text \<open>
  C2: stopping the attribution loops at the first entry past the interval is only an
  optimisation: on the extracted (sorted) track both loops equal the plain fold over the
  entries that reach into the interval.
\<close>

theorem attribution_scan_complete:
  "attribute_interval s e (extract_diar track)
     = foldl (consider_segment better_tight s e) no_attribution
         (filter (relevant s e) (extract_diar track)) \<and>
   weighted_speaker s e (extract_diar track)
     = foldl (consider_segment better_weighted s e) no_attribution
         (filter (relevant s e) (extract_diar track))"
  by (simp add: attribute_interval_def weighted_speaker_def scan_diar_reference extract_diar_starts)

text \<open>
  Gap filling relabels a turn only when the turn is unknown, no longer than the allowed
  gap, and lies between a diarization entry that ends before it and one that starts after it,
  both of one speaker; it then takes exactly that speaker and keeps its span.
\<close>

lemma fill_gap_sound:
  assumes "fill_gap diar max_gap t \<noteq> t"
  shows "t_speaker t < 0 \<and>
    (\<exists>b \<in> set diar. \<exists>a \<in> set diar. d_end b \<le> t_start t + EPS \<and> t_end t - EPS \<le> d_start a \<and>
       d_speaker b = d_speaker a \<and> d_speaker_id b = d_speaker_id a \<and>
       (\<forall>m. max_gap = Some m \<longrightarrow> t_end t - t_start t \<le> m + EPS) \<and>
       fill_gap diar max_gap t = t\<lparr>t_speaker := d_speaker b, t_speaker_id := d_speaker_id b,
         t_speaker_name := d_speaker_name b\<rparr>)"
proof -
  have unknown: "t_speaker t < 0"
    by (rule ccontr) (use assms in \<open>simp add: fill_gap_def not_less\<close>)
  with assms obtain b a where ba: "seg_before t diar = Some b" "seg_after t diar = Some a"
    and same: "d_speaker b = d_speaker a" "d_speaker_id b = d_speaker_id a"
    and gap: "case max_gap of None \<Rightarrow> True | Some m \<Rightarrow> t_end t - t_start t \<le> m + EPS"
    and eq: "fill_gap diar max_gap t = t\<lparr>t_speaker := d_speaker b, t_speaker_id := d_speaker_id b,
         t_speaker_name := d_speaker_name b\<rparr>"
    by (auto simp: fill_gap_def split: option.splits if_splits)
  show ?thesis
    using unknown seg_before_Some[OF ba(1)] seg_after_Some[OF ba(2)] same gap eq by force
qed

definition gap_turn :: speaker_turn where
  "gap_turn = \<lparr>t_start = D 4, t_end = D 5, t_speaker = - 1, t_speaker_id = None,
     t_speaker_name = None, t_diar_overlap = 0, t_diar_total = 0\<rparr>"

theorem fill_gap_sound_witness:
  "t_speaker (fill_gap [seg_a, seg_b] None gap_turn) = 0 \<and> t_speaker gap_turn < 0 \<and>
   (\<exists>b \<in> set [seg_a, seg_b]. d_end b \<le> t_start gap_turn + EPS)"
proof -
  have sp: "t_speaker (fill_gap [seg_a, seg_b] None gap_turn) = 0" by code_simp
  then have "fill_gap [seg_a, seg_b] None gap_turn \<noteq> gap_turn" by (auto simp: gap_turn_def)
  from fill_gap_sound[OF this] sp show ?thesis by blast
qed

section \<open>Alignment units\<close>

text \<open>
  Splitting alignment units at pauses and speaker boundaries yields non-empty runs that
  concatenate to the units, no gap inside a run exceeds the pause, and neighbouring runs are
  separated by a pause or a boundary (the split is the coarsest one).
\<close>

lemma unit_runs_partition:
  "concat (unit_runs units pause tol turns) = units \<and> [] \<notin> set (unit_runs units pause tol turns) \<and>
   list_all (\<lambda>run. list_all (\<lambda>(u, v). u_start v - u_end u \<le> pause) (adjacent run))
     (unit_runs units pause tol turns) \<and>
   successively (\<lambda>r q. \<not> same_run pause tol turns r (hd q)) (unit_runs units pause tol turns)"
proof -
  have "successively (\<lambda>r q. \<not> same_run pause tol turns r (hd q)) (unit_runs units pause tol turns)"
    unfolding unit_runs_def by (rule unit_runs_max.merge_maximal)
  moreover have "[] \<notin> set (unit_runs units pause tol turns)"
    using unit_runs_nonempty by blast
  moreover have "list_all (\<lambda>run. list_all (\<lambda>(u, v). u_start v - u_end u \<le> pause) (adjacent run))
      (unit_runs units pause tol turns)"
    using unit_runs_pauses by (fastforce simp: list_all_iff)
  ultimately show ?thesis by (simp add: concat_unit_runs)
qed

section \<open>The fused view\<close>

text \<open>
  C3: fusing conserves text.  When every ASR entry has alignment units and a span longer than
  \<open>EPS\<close>, the characters of the fused entries are exactly those of all units, each as often.
\<close>

theorem fuse_conserves_text:
  assumes "\<forall>a \<in> set asr. EPS < a_end a - a_start a \<and>
    (\<exists>g. map_of groups (a_text_id a) = Some g \<and> g_units g \<noteq> [])"
  shows "mset (concat (map text_of (fuse p asr diar groups vad current)))
    = (\<Sum>a \<leftarrow> asr. mset (concat (map u_text (g_units (the (map_of groups (a_text_id a)))))))"
proof -
  have one: "mset (concat (map text_of (fuse_asr p diar groups vad cur a)))
      = mset (concat (map u_text (g_units (the (map_of groups (a_text_id a))))))"
    if "a \<in> set asr" for a cur
  proof -
    from that assms obtain g where g: "map_of groups (a_text_id a) = Some g" "g_units g \<noteq> []"
      and span: "EPS < a_end a - a_start a" by blast
    have "diar_turns (a_start a) (a_end a) diar (diar_gapfill_max_sec p) \<noteq> []"
      using span by (rule diar_turns_nonempty)
    with g show ?thesis by (simp add: fuse_asr_def Let_def aligned_entries_text)
  qed
  have "mset (concat (map text_of (concat (map (fuse_asr p diar groups vad cur) as))))
      = (\<Sum>a \<leftarrow> as. mset (concat (map u_text (g_units (the (map_of groups (a_text_id a)))))))"
    if "set as \<subseteq> set asr" for as cur
    using that by (induction as) (simp_all add: one)
  then show ?thesis by (simp add: fuse_text fused_entries_def mset_concat_sort)
qed

definition demo_params :: fuse_params where
  "demo_params = \<lparr>pause_sec = D (1 / 4), boundary_tolerance_sec = 0, min_run_sec = 0, short_flip_sec = 0,
     short_flip_chars = 2, short_flip_gap_sec = 1, fill_unknown_sec = 0, min_diar_coverage_ratio = 0,
     min_diar_overlap_sec = 0, diar_gapfill_max_sec = None\<rparr>"

definition demo_asr :: asr_entry where
  "demo_asr = \<lparr>a_text_id = 0, a_start = D 0, a_end = D 4, a_text = ''hi you''\<rparr>"

definition demo_groups :: "(int, align_group) pydict" where
  "demo_groups = [(0, \<lparr>g_text_id = 0, g_start = D 0, g_end = D 4, g_units =
     [\<lparr>u_start = D 0, u_end = D 1, u_text = ''hi''\<rparr>, \<lparr>u_start = D 2, u_end = D 3, u_text = ''you''\<rparr>]\<rparr>)]"

theorem fuse_conserves_text_witness:
  "EPS < a_end demo_asr - a_start demo_asr \<and>
   mset (concat (map text_of (fuse demo_params [demo_asr] [] demo_groups [] []))) = mset ''hiyou''"
proof -
  have span: "EPS < a_end demo_asr - a_start demo_asr" by code_simp
  have h: "\<forall>a \<in> set [demo_asr]. EPS < a_end a - a_start a \<and>
      (\<exists>g. map_of demo_groups (a_text_id a) = Some g \<and> g_units g \<noteq> [])"
    using span by (simp add: demo_groups_def demo_asr_def)
  from fuse_conserves_text[OF h, of demo_params "[]" "[]" "[]"] span show ?thesis
    by (simp add: demo_groups_def demo_asr_def)
qed

text \<open>
  The fused view is ordered by start time and fully coalesced: no two neighbouring
  entries have the same text id, speaker and source and touch within \<open>EPS\<close>.
\<close>

lemma fuse_sorted_and_coalesced:
  "sorted (map (\<lambda>e. num (get e ''start'')) (fuse p asr diar groups vad current)) \<and>
   successively (\<lambda>a b. \<not> coalescible a b) (fuse p asr diar groups vad current)"
proof -
  have "successively (\<lambda>a b. \<not> coalescible a b) (coalesce_candidate es)" for es
    unfolding coalesce_candidate_def by (rule entry_runs.merge_maximal)
  moreover have "sorted (map (\<lambda>e. num (get e ''start'')) (fuse p asr diar groups vad current))"
    by (simp add: fuse_def Let_def coalesce_candidate_sorted frame_eqs fused_entries_sorted)
  ultimately show ?thesis by (simp add: fuse_def Let_def)
qed

text \<open>
  coalescing is idempotent and concatenates texts in order; the text of the fused view is
  the text of the sorted per-ASR entries, whatever relabelling is switched on.
\<close>

lemma coalesce_idempotent_and_textual:
  "coalesce_candidate (coalesce_candidate es) = coalesce_candidate es \<and>
   concat (map text_of (coalesce_candidate es)) = concat (map text_of es) \<and>
   concat (map text_of (fuse p asr diar groups vad current))
     = concat (map text_of (fused_entries p asr diar groups vad current))"
  using entry_runs.merge_idem coalesce_candidate_text fuse_text by (simp add: coalesce_candidate_def)

lemma last_smooth_from: "es \<noteq> [] \<Longrightarrow> last (smooth_from p prev es) = last es"
proof (induction p prev es rule: smooth_from.induct)
  case (1 p prev cur nxt es)
  have "smooth_from p (smooth_entry p prev cur nxt) (nxt # es) \<noteq> []" by (cases es) (simp_all add: Let_def)
  with 1 show ?case by (simp add: Let_def)
qed simp_all

lemma smooth_context_ends:
  "es \<noteq> [] \<Longrightarrow> hd (smooth_context p es) = hd es \<and> last (smooth_context p es) = last es"
proof (cases es)
  case (Cons e r)
  have "smooth_from p e r = [] \<longleftrightarrow> r = []" by (cases "(p, e, r)" rule: smooth_from.cases) (simp_all add: Let_def)
  with Cons show ?thesis by (simp add: smooth_context_def last_smooth_from)
qed simp

text \<open>
  Context smoothing changes nothing but the speaker fields of inner entries: entry by
  entry all other fields survive, and the first and the last entry are untouched.
\<close>

lemma smooth_context_frame_property:
  "list_all2 same_frame es (smooth_context p es) \<and>
   (if es = [] then smooth_context p es = []
    else hd (smooth_context p es) = hd es \<and> last (smooth_context p es) = last es)"
  using smooth_context_frame smooth_context_ends by (simp add: smooth_context_def)

lemma save_raw_keeps: "\<not> has_key ''raw_speaker'' e \<Longrightarrow> get (save_raw e) ''raw_speaker'' = get e ''speaker''"
  by (simp add: save_raw_def Let_def)

lemma copy_speaker_get:
  "get (copy_speaker r src e) ''speaker'' = dget src ''speaker'' (JInt (- 1))"
  "get (copy_speaker r src e) ''raw_speaker'' = get (save_raw e) ''raw_speaker''"
  by (simp_all add: copy_speaker_def copy_opt_def Let_def)

text \<open>
  Smoothing relabels an entry only between two entries of one known speaker within the
  gap limit, gives it that speaker, and keeps the original speaker in \<^verbatim>\<open>raw_speaker\<close>.
\<close>

lemma smooth_entry_sound:
  assumes "smooth_entry p prev cur nxt \<noteq> cur" and "\<not> has_key ''raw_speaker'' cur"
  shows "speaker_known prev \<and> same_speaker prev nxt \<and>
    num (get cur ''start'') - num (get prev ''end'') \<le> short_flip_gap_sec p \<and>
    num (get nxt ''start'') - num (get cur ''end'') \<le> short_flip_gap_sec p \<and>
    int_of (get (smooth_entry p prev cur nxt) ''speaker'') = int_of (get prev ''speaker'') \<and>
    get (smooth_entry p prev cur nxt) ''raw_speaker'' = get cur ''speaker''"
proof -
  from assms(1) have c: "speaker_known prev" "same_speaker prev nxt"
    "num (get cur ''start'') - num (get prev ''end'') \<le> short_flip_gap_sec p"
    "num (get nxt ''start'') - num (get cur ''end'') \<le> short_flip_gap_sec p"
    and "\<exists>r. smooth_entry p prev cur nxt = copy_speaker r prev cur"
    by (auto simp: smooth_entry_def Let_def not_less split: if_splits)
  then obtain r where "smooth_entry p prev cur nxt = copy_speaker r prev cur" by blast
  with c assms(2) show ?thesis by (simp add: copy_speaker_get save_raw_keeps)
qed

definition smooth_demo :: "int \<Rightarrow> dbl \<Rightarrow> dbl \<Rightarrow> obj" where
  "smooth_demo spk s e = [(''start'', JFlt s), (''end'', JFlt e), (''speaker'', JInt spk),
     (''text'', JStr ''a''), (''text_id'', JInt 0)]"

theorem smooth_entry_sound_witness:
  "get (smooth_entry (demo_params\<lparr>short_flip_sec := 1\<rparr>) (smooth_demo 0 (D 0) (D 1))
     (smooth_demo 1 (D 1) (D 2)) (smooth_demo 0 (D 2) (D 3))) ''raw_speaker'' = JInt 1 \<and>
   speaker_known (smooth_demo 0 (D 0) (D 1))"
proof -
  let ?r = "smooth_entry (demo_params\<lparr>short_flip_sec := 1\<rparr>) (smooth_demo 0 (D 0) (D 1))
     (smooth_demo 1 (D 1) (D 2)) (smooth_demo 0 (D 2) (D 3))"
  have "int_of (get ?r ''speaker'') = 0" by code_simp
  then have ne: "?r \<noteq> smooth_demo 1 (D 1) (D 2)" by (auto simp: smooth_demo_def)
  have nk: "\<not> has_key ''raw_speaker'' (smooth_demo 1 (D 1) (D 2))"
    by (simp add: has_key_def smooth_demo_def)
  from smooth_entry_sound[OF ne nk] show ?thesis by (simp add: smooth_demo_def)
qed

lemma clear_speaker_unknown: "\<not> speaker_known (clear_speaker r e)"
  by (simp add: speaker_known_def clear_speaker_def)

lemma downgrade_cases:
  "downgrade_entry r m e = e \<or> (speaker_known e \<and> \<not> speaker_known (downgrade_entry r m e))"
  by (auto simp: downgrade_entry_def Let_def clear_speaker_unknown)

lemma downgrade_entry_idem: "downgrade_entry r m (downgrade_entry r m e) = downgrade_entry r m e"
proof -
  have "downgrade_entry r m x = x" if "\<not> speaker_known x" for x
    using that by (simp add: downgrade_entry_def)
  with downgrade_cases[of r m e] show ?thesis by metis
qed

text \<open>
  Downgrading weakly supported speakers is idempotent and changes only speaker fields;
  an entry it changes had a known speaker and is unknown afterwards.
\<close>

lemma downgrade_idempotent_and_framed:
  "downgrade_low_diar_coverage r m (downgrade_low_diar_coverage r m es)
     = downgrade_low_diar_coverage r m es \<and>
   list_all2 (\<lambda>e e'. same_frame e e' \<and> (e' = e \<or> (speaker_known e \<and> \<not> speaker_known e')))
     es (downgrade_low_diar_coverage r m es)"
  using downgrade_cases same_frame_downgrade
  by (induction es) (simp_all add: downgrade_low_diar_coverage_def downgrade_entry_idem)

section \<open>Business turns\<close>

text \<open>
  C4: business turns account for every candidate entry once and in order: their source
  indices concatenate to \<open>0, ..., n - 1\<close>, their texts to the text of the entries; each turn's
  entry count is its number of indices, its text ids are distinct, and every entry it absorbed
  has the turn's speaker.
\<close>

theorem business_turns_account:
  "concat (map bt_indices (business_turns es gap)) = [0..<length es] \<and>
   concat (map (\<lambda>t. py_str (bt_text t)) (business_turns es gap)) = concat (map text_of es) \<and>
   list_all (\<lambda>t. bt_entry_count t = int (length (bt_indices t)) \<and> bt_indices t \<noteq> [] \<and>
     distinct (bt_text_ids t) \<and> turn_speaker_ok es t) (business_turns es gap)"
  using business_turns_count business_turns_text_ids business_turns_speaker
  by (simp add: business_turns_indices business_turns_text list_all_iff)

section \<open>The audit\<close>

lemma map_of_pos_iff:
  "map_of (foldl (\<lambda>c i. bump c (f i)) [] xs) k =
    (if k \<in> set (map f xs) then Some (int (length (filter (\<lambda>x. f x = k) xs))) else None)"
  by (simp add: count_fold_of)

text \<open>
  the issue counts list each kind once, in sorted order, with the number of issues of
  that kind, and add up to the number of issues.
\<close>

lemma count_by_kind_correct:
  "map_of (count_by_kind issues) k =
     (if k \<in> set (map issue_kind issues)
      then Some (int (length (filter (\<lambda>i. issue_kind i = k) issues))) else None) \<and>
   sorted (map fst (count_by_kind issues)) \<and> distinct (map fst (count_by_kind issues)) \<and>
   sum_list (map snd (count_by_kind issues)) = int (length issues)"
proof -
  let ?c = "foldl (\<lambda>c i. bump c (issue_kind i)) [] issues"
  have c: "distinct (map fst ?c)" "sum_list (map snd ?c) = int (length issues)"
    using count_fold[of "[]" issue_kind issues] by simp_all
  have "mset (map fst (sort_key fst ?c)) = mset (map fst ?c)" by (simp add: mset_map)
  then have "distinct (map fst (sort_key fst ?c))" using c(1) mset_eq_imp_distinct_iff by blast
  then show ?thesis
    by (simp add: count_by_kind_def map_of_sort_key[OF c(1)] map_of_pos_iff sum_list_sort_key c(2)
        del: set_map)
qed

end
