(* ===== verification/Py_Rounding.thy ===== *)
theory Py_Rounding
  imports Py_Value
begin

text \<open>
  Laws of decimal rounding: conversion to a double picks a nearest one, \<^verbatim>\<open>round(x, n)\<close> is
  idempotent, and printing with \<open>n\<close> digits and reading the text back is \<^verbatim>\<open>round(x, n)\<close>.
\<close>

section \<open>Nearest doubles\<close>

lemma rne_unique: "\<bar>x - of_int n\<bar> < 1 / 2 \<Longrightarrow> rne x = n"
proof -
  assume a: "\<bar>x - of_int n\<bar> < 1 / 2"
  have "\<bar>of_int (rne x) - x\<bar> \<le> 1 / 2" by (rule rne_bounds)
  with a have "\<bar>of_int (rne x) - of_int n :: rat\<bar> < 1" by linarith
  then have "\<bar>rne x - n\<bar> < 1" by linarith
  then show ?thesis by simp
qed

lemma rne_tie_even: "\<bar>x - of_int (rne x)\<bar> = 1 / 2 \<Longrightarrow> even (rne x)"
proof -
  have "of_int \<lfloor>x\<rfloor> \<le> x" "x < of_int \<lfloor>x\<rfloor> + 1" by linarith+
  moreover assume "\<bar>x - of_int (rne x)\<bar> = 1 / 2"
  ultimately have "\<not> x - of_int \<lfloor>x\<rfloor> < 1 / 2 \<and> \<not> 1 / 2 < x - of_int \<lfloor>x\<rfloor>"
    by (auto simp only: rne_def Let_def of_int_add of_int_1 abs_if split: if_splits)
  then show ?thesis by (simp add: rne_def Let_def)
qed

lemma rne_even: "even n \<Longrightarrow> \<bar>x - of_int n\<bar> \<le> 1 / 2 \<Longrightarrow> rne x = n"
proof (cases "\<bar>x - of_int n\<bar> < 1 / 2")
  case False
  assume n: "even n" and "\<bar>x - of_int n\<bar> \<le> 1 / 2"
  with False consider "x = of_int n + 1 / 2" | "x = of_int n - 1 / 2" by (auto simp: abs_if split: if_splits)
  then show ?thesis
  proof cases
    case 1
    then have "\<lfloor>x\<rfloor> = n" by linarith
    with 1 n show ?thesis by (simp add: rne_def)
  next
    case 2
    then have "\<lfloor>x\<rfloor> = n - 1" by linarith
    with 2 n show ?thesis by (simp add: rne_def)
  qed
qed (rule rne_unique)

lemma rne_idem: "\<bar>y - of_int (rne x)\<bar> \<le> \<bar>x - of_int (rne x)\<bar> \<Longrightarrow> rne y = rne x"
proof (cases "\<bar>x - of_int (rne x)\<bar> = 1 / 2")
  case True
  assume "\<bar>y - of_int (rne x)\<bar> \<le> \<bar>x - of_int (rne x)\<bar>"
  with True show ?thesis by (intro rne_even rne_tie_even) simp_all
next
  case False
  assume le: "\<bar>y - of_int (rne x)\<bar> \<le> \<bar>x - of_int (rne x)\<bar>"
  have "\<bar>x - of_int (rne x)\<bar> \<le> 1 / 2" using rne_bounds[of x] by (simp add: abs_minus_commute)
  with False le show ?thesis by (intro rne_unique) linarith
qed

lemma fl_nearest_pos:
  assumes q: "0 < q" and x: "fl x = x"
  shows "\<bar>fl q - q\<bar> \<le> \<bar>x - q\<bar>"
proof (rule ccontr)
  define e u where "e = expo q" and "u = (2 :: rat) powi (e - 52)"
  have u: "0 < u" by (simp add: u_def)
  have flq: "fl q = of_int (rne (q / u)) * u" using q by (simp add: fl_pos_eq u_def e_def)
  have b: "2 powi e \<le> q" "q < 2 powi (e + 1)" using expo_bounds[OF q] by (simp_all add: e_def)
  have lo: "(2 :: rat) powi e = of_int (2 ^ 52) * u" and hi: "(2 :: rat) powi (e + 1) = of_int (2 ^ 53) * u"
    unfolding u_def by (rule powi_shift, simp)+
  assume "\<not> ?thesis"
  then have closer: "\<bar>x - q\<bar> < \<bar>fl q - q\<bar>" by simp
  have "\<bar>of_int (rne (q / u)) - q / u\<bar> * u \<le> 1 / 2 * u"
    using rne_bounds u by (intro mult_right_mono) simp_all
  moreover have "(of_int (rne (q / u)) - q / u) * u = fl q - q" using u by (simp add: flq left_diff_distrib)
  ultimately have half: "\<bar>fl q - q\<bar> \<le> u / 2" using u by (metis abs_mult abs_of_pos mult.commute times_divide_eq_right mult.right_neutral)
  have hit: "fl q = of_int n * u" if "\<bar>of_int n * u - q\<bar> < u / 2" for n :: int
  proof -
    have "\<bar>q / u - of_int n\<bar> * u < 1 / 2 * u"
    proof -
      have "(q / u - of_int n) * u = q - of_int n * u" using u by (simp add: left_diff_distrib)
      then have "\<bar>q / u - of_int n\<bar> * u = \<bar>of_int n * u - q\<bar>"
        using u by (metis abs_minus_commute abs_mult abs_of_pos)
      with that show ?thesis by simp
    qed
    then have "\<bar>q / u - of_int n\<bar> < 1 / 2" using u by (simp only: mult_less_cancel_right_pos)
    then show ?thesis by (simp add: flq rne_unique)
  qed
  have grid: "\<exists>n. x = of_int n * u" if "2 powi e \<le> x" "x < 2 powi (e + 1)"
  proof -
    have "0 < x" using that(1) by (rule less_le_trans[rotated]) simp
    moreover from this that have "expo x = e" by (rule expo_unique)
    ultimately show ?thesis using x fl_pos_eq[of x] by (metis u_def)
  qed
  have up: "fl x \<le> fl q" if "x \<le> q" using that by (rule fl_mono)
  have dn: "fl q \<le> fl x" if "q \<le> x" using that by (rule fl_mono)
  consider (below) "x < 2 powi e" | (mid) "2 powi e \<le> x" "x < 2 powi (e + 1)" | (above) "2 powi (e + 1) \<le> x"
    by linarith
  then show False
  proof cases
    case below
    then have "\<bar>of_int (2 ^ 52) * u - q\<bar> < u / 2" using closer half b lo by linarith
    from hit[OF this] have "fl q = 2 powi e" by (simp only: lo)
    with closer below b show False by linarith
  next
    case mid
    from grid[OF this] obtain n where n: "x = of_int n * u" ..
    have "\<bar>of_int n * u - q\<bar> < u / 2" using closer half n by linarith
    from hit[OF this] have "fl q = x" by (simp only: n)
    with closer show False by simp
  next
    case above
    then have "\<bar>of_int (2 ^ 53) * u - q\<bar> < u / 2" using closer half b hi by linarith
    from hit[OF this] have "fl q = 2 powi (e + 1)" by (simp only: hi)
    with closer above b show False by linarith
  qed
qed

lemma fl_nearest:
  assumes "fl x = x" shows "\<bar>fl q - q\<bar> \<le> \<bar>x - q\<bar>"
proof -
  consider "0 < q" | "q = 0" | "0 < - q" by linarith
  then show ?thesis
  proof cases
    case 3
    have "fl (- x) = - x" using assms by (simp add: fl_neg)
    from fl_nearest_pos[OF 3 this] show ?thesis by (simp add: fl_neg abs_minus_commute)
  qed (use fl_nearest_pos assms in simp_all)
qed

section \<open>Rounding to \<open>n\<close> digits\<close>

lemma py_round_idem [simp]: "py_round (py_round x n) n = py_round x n"
proof transfer
  fix x :: rat and n assume x: "fl x = x"
  define m where "m = rne (x * 10 ^ n)"
  define y where "y = fl (of_int m / 10 ^ n)"
  have "\<bar>y - of_int m / 10 ^ n\<bar> \<le> \<bar>x - of_int m / 10 ^ n\<bar>"
    unfolding y_def using x by (rule fl_nearest)
  then have "\<bar>y - of_int m / 10 ^ n\<bar> * 10 ^ n \<le> \<bar>x - of_int m / 10 ^ n\<bar> * 10 ^ n"
    by (rule mult_right_mono) simp
  moreover have "\<bar>z - of_int m / 10 ^ n\<bar> * 10 ^ n = \<bar>z * 10 ^ n - of_int m\<bar>" for z :: rat
  proof -
    have "\<bar>z - of_int m / 10 ^ n\<bar> * 10 ^ n = \<bar>(z - of_int m / 10 ^ n) * 10 ^ n\<bar>" by (simp add: abs_mult)
    then show ?thesis by (simp add: left_diff_distrib)
  qed
  ultimately have "rne (y * 10 ^ n) = rne (x * 10 ^ n)"
    unfolding m_def by (intro rne_idem) simp
  then show "fl (of_int (rne (fl (of_int (rne (x * 10 ^ n)) / 10 ^ n) * 10 ^ n)) / 10 ^ n)
      = fl (of_int (rne (x * 10 ^ n)) / 10 ^ n)"
    by (simp add: y_def m_def)
qed

section \<open>Sums of non-negative numbers\<close>

lemma fl_double: "fl (2 * x) = 2 * fl x"
proof -
  have pos: "fl (2 * y) = 2 * fl y" if y: "0 < y" for y
  proof -
    have sc: "(2 :: rat) powi (k + 1) = 2 * 2 powi k" for k by (simp add: power_int_add)
    have "expo (2 * y) = expo y + 1"
    proof (rule expo_unique)
      show "2 powi (expo y + 1) \<le> 2 * y" using expo_bounds(1)[OF y] by (simp only: sc)
      show "2 * y < 2 powi (expo y + 1 + 1)" using expo_bounds(2)[OF y] by (simp only: sc)
    qed (use y in simp)
    moreover have "(2 :: rat) powi (expo y + 1 - 52) = 2 * 2 powi (expo y - 52)"
      using sc[of "expo y - 52"] by (simp add: algebra_simps)
    ultimately show ?thesis using y by (simp add: fl_pos_eq)
  qed
  consider "0 < x" | "x = 0" | "0 < - x" by linarith
  then show ?thesis
  proof cases
    case 3
    from pos[OF 3] show ?thesis by (simp add: fl_neg)
  qed (use pos in simp_all)
qed

lemma fl_correction:
  assumes "fl a = a" "fl b = b" "0 \<le> a" "0 \<le> b"
  shows "- b \<le> fl (fl (a - fl (a + b)) + b)"
proof -
  have "\<bar>fl (a + b) - (a + b)\<bar> \<le> \<bar>a - (a + b)\<bar>" using assms(1) by (rule fl_nearest)
  then have "- (2 * b) \<le> a - fl (a + b)" using assms(4) by linarith
  then have "fl (- (2 * b)) \<le> fl (a - fl (a + b))" by (rule fl_mono)
  then have "- (2 * b) \<le> fl (a - fl (a + b))" using assms(2) by (simp only: fl_neg fl_double)
  then have "fl (- b) \<le> fl (fl (a - fl (a + b)) + b)" by (intro fl_mono) linarith
  then show ?thesis using assms(2) by (simp only: fl_neg)
qed

lemma dbl_correction: "0 \<le> a \<Longrightarrow> 0 \<le> b \<Longrightarrow> - b \<le> (a - (a + b)) + (b :: dbl)"
  by transfer (rule fl_correction)

lemma dbl_neg_add: "- (a + b) = - a + - (b :: dbl)"
  by transfer (simp add: fl_neg[symmetric])

lemma dbl_neg_iff [simp]: "- a \<le> - b \<longleftrightarrow> b \<le> (a :: dbl)" "- a < - b \<longleftrightarrow> b < (a :: dbl)"
  by (transfer, simp)+

lemma dbl_add_neg_self [simp]: "a + - a = (0 :: dbl)"
  by transfer simp

lemma neumaier_step_lower:
  assumes "0 \<le> s" "- s \<le> c" "0 \<le> x"
  shows "0 \<le> fst (neumaier_step (s, c) x) \<and> - fst (neumaier_step (s, c) x) \<le> snd (neumaier_step (s, c) x)"
proof -
  have "- x \<le> (if x \<le> s then (s - (s + x)) + x else (x - (s + x)) + s)"
  proof (cases "x \<le> s")
    case False
    have "- s \<le> (x - (x + s)) + s" using assms(1,3) by (rule dbl_correction[rotated])
    moreover have "- x \<le> - s" using False by simp
    ultimately have "- x \<le> (x - (x + s)) + s" by order
    with False show ?thesis by (simp add: dbl_add_commute[of s x])
  qed (use assms dbl_correction in simp)
  then have "- s + - x \<le> c + (if x \<le> s then (s - (s + x)) + x else (x - (s + x)) + s)"
    using assms(2) by (intro dbl_add_mono)
  then show ?thesis
    using assms by (simp add: neumaier_step_def Let_def dbl_neg_add dbl_add_nonneg)
qed

lemma py_sum_nonneg: "list_all (\<lambda>x. 0 \<le> x) xs \<Longrightarrow> 0 \<le> py_sum xs"
proof -
  have "0 \<le> s \<Longrightarrow> - s \<le> c \<Longrightarrow> list_all (\<lambda>x. 0 \<le> x) xs \<Longrightarrow>
      case foldl neumaier_step (s, c) xs of (s', c') \<Rightarrow> 0 \<le> s' + c'" for s c
  proof (induction xs arbitrary: s c)
    case Nil
    have "s + - s \<le> s + c" using Nil by (intro dbl_add_mono) simp_all
    then show ?case by simp
  next
    case (Cons x xs)
    obtain s' c' where n: "neumaier_step (s, c) x = (s', c')" by fastforce
    from neumaier_step_lower[of s c x] Cons.prems Cons.IH[of s' c'] show ?case by (simp add: n)
  qed
  from this[of 0 0] show "list_all (\<lambda>x. 0 \<le> x) xs \<Longrightarrow> ?thesis"
    by (simp add: py_sum_def case_prod_unfold Let_def) (metis dbl_neg_add dbl_add_0(1) dbl_add_neg_self order_refl)
qed

section \<open>Printing and reading back\<close>

lemma of_char_digit: "0 \<le> d \<Longrightarrow> d < 10 \<Longrightarrow> of_char (char_of (48 + d :: int)) = (48 + d :: int)"
  by simp

lemma digit_char:
  assumes "0 \<le> d" "d < 10"
  shows "is_digit (char_of (48 + d :: int))" "digit_val (char_of (48 + d :: int)) = d"
proof -
  from assms obtain k where k: "d = int k" "k < 10" by (metis nat_0_le nat_less_numeral_power_cancel_iff
    int_ops(3) of_nat_less_iff zero_less_imp_eq_int zero_le_imp_eq_int)
  have "(48 + d :: int) = of_nat (48 + k)" by (simp add: k)
  then have c: "char_of (48 + d :: int) = char_of (48 + k)" by (metis char_of_nat)
  show "is_digit (char_of (48 + d :: int))" using k(2) by (simp add: c less_eq_char_def)
  show "digit_val (char_of (48 + d :: int)) = d" using assms by (simp add: digit_val_def)
qed

lemma digits_ne [simp]: "digits n \<noteq> []"
  by (subst digits.simps) simp

lemma digits_ok: "0 \<le> n \<Longrightarrow> list_all is_digit (digits n)"
proof (induction n rule: digits.induct)
  case (1 n)
  show ?case
  proof (cases "n < 10")
    case True
    then show ?thesis using 1(2) by (subst digits.simps) (simp add: digit_char del: is_digit.simps)
  next
    case False
    then have "list_all is_digit (digits (n div 10))" using 1 by (simp del: is_digit.simps)
    with False show ?thesis by (subst digits.simps) (simp add: digit_char del: is_digit.simps)
  qed
qed

lemma digits_val_append: "digits_val (s @ t) = digits_val s * 10 ^ length t + digits_val t"
proof (induction t rule: rev_induct)
  case (snoc c t)
  then show ?case by (simp add: digits_val_def flip: append_assoc)
qed (simp add: digits_val_def)

lemma digits_val_digits: "0 \<le> n \<Longrightarrow> digits_val (digits n) = n"
proof (induction n rule: digits.induct)
  case (1 n)
  have one: "digits_val [char_of (48 + d)] = d" if "0 \<le> d" "d < 10" for d :: int
    using that by (simp add: digits_val_def digit_char)
  show ?case
  proof (cases "n < 10")
    case True
    then show ?thesis using 1(2) by (subst digits.simps) (simp add: one)
  next
    case False
    then have "digits_val (digits (n div 10)) = n div 10" using 1 by simp
    with False show ?thesis by (subst digits.simps) (simp add: digits_val_append one)
  qed
qed

lemma digits_length: "0 \<le> n \<Longrightarrow> n < 10 ^ k \<Longrightarrow> 0 < k \<Longrightarrow> length (digits n) \<le> k"
proof (induction n arbitrary: k rule: digits.induct)
  case (1 n)
  show ?case
  proof (cases "n < 10")
    case True
    then show ?thesis using 1(4) by (subst digits.simps) simp
  next
    case False
    with 1(3,4) obtain j where j: "k = Suc j" "0 < j" by (cases k; cases "k - 1") auto
    have "n div 10 < 10 ^ j" using 1(3) j by simp
    then have "length (digits (n div 10)) \<le> j" using False 1 j by simp
    with False j show ?thesis by (subst digits.simps) simp
  qed
qed

lemma zero_pad_ok: "0 \<le> n \<Longrightarrow> list_all is_digit (zero_pad w n)"
  using digits_ok[of n] by (auto simp: zero_pad_def Let_def list_all_iff less_eq_char_def)

lemma zero_pad_length: "0 \<le> n \<Longrightarrow> n < 10 ^ w \<Longrightarrow> 0 < w \<Longrightarrow> length (zero_pad w n) = w"
  using digits_length[of n w] by (simp add: zero_pad_def Let_def)

lemma zero_pad_val: "0 \<le> n \<Longrightarrow> digits_val (zero_pad w n) = n"
proof -
  have "digits_val (replicate k CHR ''0'') = 0" for k
    by (induction k) (simp_all add: digits_val_def digit_val_def)
  then show "0 \<le> n \<Longrightarrow> ?thesis" by (simp add: zero_pad_def Let_def digits_val_append digits_val_digits)
qed

lemma digit_part_okI: "list_all is_digit s \<Longrightarrow> s \<noteq> [] \<Longrightarrow> digit_part_ok s"
proof (induction s rule: digit_part_ok.induct)
  case (3 c d s)
  then have "d \<noteq> CHR ''_''" by (auto simp: less_eq_char_def)
  with 3 show ?case by simp
qed simp_all

text \<open>Reading the text of a rational with \<open>n\<close> decimals.\<close>

definition signed_text :: "nat \<Rightarrow> int \<Rightarrow> string" where
  "signed_text n m = (if m < 0 then ''-'' else []) @ digits (\<bar>m\<bar> div 10 ^ n) @
     (if n = 0 then [] else ''.'' @ zero_pad n (\<bar>m\<bar> mod 10 ^ n))"

lemma fixed_repr_text: "fixed_repr n x = signed_text n (rne (val x * 10 ^ n))"
  by (simp add: fixed_repr_def signed_text_def Let_def)

lemma strip_id: "s \<noteq> [] \<Longrightarrow> \<not> is_space (hd s) \<Longrightarrow> \<not> is_space (last s) \<Longrightarrow> strip s = s"
proof -
  assume "s \<noteq> []" "\<not> is_space (hd s)" "\<not> is_space (last s)"
  then have "dropWhile is_space s = s" "dropWhile is_space (rev s) = rev s"
    by (metis dropWhile.simps(2) hd_Cons_tl, metis dropWhile.simps(2) hd_Cons_tl hd_rev rev_is_Nil_conv)
  then show ?thesis by (simp add: strip_def)
qed

lemma digit_not_space: "is_digit c \<Longrightarrow> \<not> is_space c \<and> c \<noteq> CHR ''-'' \<and> c \<noteq> CHR ''+'' \<and> c \<noteq> CHR ''.'' \<and>
    c \<noteq> CHR ''e'' \<and> c \<noteq> CHR ''E''"
  by (auto simp: is_space_def less_eq_char_def)

lemma parse_signed_text: "parse_decimal (signed_text n m) = Some (of_int m / 10 ^ n)"
proof -
  define ip fp where "ip = digits (\<bar>m\<bar> div 10 ^ n)" and "fp = (if n = 0 then [] else zero_pad n (\<bar>m\<bar> mod 10 ^ n))"
  define body where "body = ip @ (if n = 0 then [] else ''.'' @ fp)"
  have ip: "list_all is_digit ip" "ip \<noteq> []" using digits_ok[of "\<bar>m\<bar> div 10 ^ n"] by (simp_all add: ip_def pos_imp_zdiv_nonneg_iff del: is_digit.simps)
  have fp: "list_all is_digit fp" "length fp = n"
    using zero_pad_length[of "\<bar>m\<bar> mod 10 ^ n" n] by (simp_all add: fp_def zero_pad_ok del: is_digit.simps)
  have tx: "signed_text n m = (if m < 0 then ''-'' else []) @ body"
    by (simp add: signed_text_def body_def ip_def fp_def)
  have chars: "c \<in> set body \<Longrightarrow> is_digit c \<or> c = CHR ''.''" for c
    using ip(1) fp(1) by (auto simp: body_def list_all_iff simp del: is_digit.simps split: if_splits)
  have ne: "body \<noteq> []" using ip by (simp add: body_def)
  have hd: "is_digit (hd body)" using ip by (cases ip) (simp_all add: body_def del: is_digit.simps)
  have nsp: "\<not> is_space c" if "c \<in> set body" for c
    using chars[OF that] digit_not_space[of c] by (auto simp: is_space_def simp del: is_digit.simps)
  have "strip (signed_text n m) = signed_text n m"
    using ne hd nsp[of "hd body"] nsp[of "last body"] unfolding tx
    by (intro strip_id) (auto simp: is_space_def simp del: is_digit.simps)
  moreover have "split_sign (signed_text n m) = (m < 0, body)"
    using ne hd digit_not_space[OF hd] by (cases body) (auto simp: tx split_sign_def simp del: is_digit.simps)
  ultimately have sg: "split_sign (strip (signed_text n m)) = (m < 0, body)" by simp
  have no_e: "split_at (\<lambda>c. c = CHR ''e'' \<or> c = CHR ''E'') body = (body, None)"
  proof -
    have "\<forall>c \<in> set body. \<not> (c = CHR ''e'' \<or> c = CHR ''E'')"
      using chars digit_not_space by (auto simp del: is_digit.simps)
    then show ?thesis unfolding split_at_def by (simp add: takeWhile_eq_all_conv[THEN iffD2] dropWhile_eq_Nil_conv[THEN iffD2])
  qed
  have dot: "split_at (\<lambda>c. c = CHR ''.'') body = (ip, if n = 0 then None else Some fp)"
  proof -
    have "\<forall>c \<in> set ip. c \<noteq> CHR ''.''"
      using ip(1) digit_not_space by (auto simp: list_all_iff simp del: is_digit.simps)
    then show ?thesis by (simp add: split_at_def body_def takeWhile_append2 dropWhile_append2
      takeWhile_eq_all_conv[THEN iffD2] dropWhile_eq_Nil_conv[THEN iffD2])
  qed
  have filt: "filter is_digit ip = ip" "filter is_digit fp = fp"
    using ip(1) fp(1) by (simp_all add: filter_id_conv list_all_iff del: is_digit.simps)
  have "digits_val fp = \<bar>m\<bar> mod 10 ^ n"
    by (simp add: fp_def zero_pad_val) (simp add: digits_val_def)
  then have "digits_val (ip @ fp) = \<bar>m\<bar>"
    by (simp add: digits_val_append ip_def digits_val_digits pos_imp_zdiv_nonneg_iff fp(2) div_mult_mod_eq)
  moreover have "10 powi (0 - int n) = (1 / 10 ^ n :: rat)"
    by (simp add: power_int_minus power_int_def field_simps)
  moreover have "digit_part_ok ip" using ip by (simp add: digit_part_okI del: is_digit.simps)
  moreover have "fp = [] \<or> digit_part_ok fp" using fp by (auto intro: digit_part_okI)
  ultimately show ?thesis
    unfolding parse_decimal_def sg Let_def prod.case no_e dot using ip(2) fp(2) filt
    by (auto simp: abs_if simp del: is_digit.simps)
qed

lemma float_str_fixed_repr: "float_str (fixed_repr n x) = Inr (py_round x n)"
proof -
  have "D (of_int (rne (val x * 10 ^ n)) / 10 ^ n) = py_round x n" by transfer simp
  then show ?thesis by (simp add: float_str_def fixed_repr_text parse_signed_text)
qed

lemma int_str_int_repr [simp]: "int_str (int_repr n) = Inr n"
proof -
  let ?d = "digits \<bar>n\<bar>"
  have d: "list_all is_digit ?d" "?d \<noteq> []" by (simp_all add: digits_ok)
  have tx: "int_repr n = (if n < 0 then ''-'' else []) @ ?d" by (simp add: int_repr_def)
  have mem: "is_digit (hd ?d)" "is_digit (last ?d)" using d by (simp_all add: list_all_iff del: is_digit.simps)
  have minus: "\<not> is_space CHR ''-''" by (simp add: is_space_def)
  have "strip (int_repr n) = int_repr n"
    unfolding tx using d(2) digit_not_space[OF mem(1)] digit_not_space[OF mem(2)] minus
    by (intro strip_id) (auto simp del: is_digit.simps)
  moreover have "split_sign (int_repr n) = (n < 0, ?d)"
    unfolding tx using d(2) digit_not_space[OF mem(1)]
    by (cases ?d) (auto simp: split_sign_def simp del: is_digit.simps)
  moreover have "filter is_digit ?d = ?d" using d(1) by (simp add: filter_id_conv list_all_iff del: is_digit.simps)
  ultimately show ?thesis
    using d by (simp add: int_str_def parse_int_def digit_part_okI digits_val_digits Let_def abs_if del: is_digit.simps)
qed

lemma fixed_repr_ne [simp]: "fixed_repr n x \<noteq> []"
  by (simp add: fixed_repr_def Let_def)

section \<open>Square roots\<close>

text \<open>
  \<^verbatim>\<open>math.sqrt\<close>: the correctly rounded square root.  The root of the scaled radicand is taken
  on integers with more than 53 bits; a last sticky bit records whether it is exact, so that
  rounding it to 53 bits rounds the real root.
\<close>

function isqrt :: "int \<Rightarrow> int" where
  "isqrt n = (if n \<le> 0 then 0 else let r = 2 * isqrt (n div 4) in if (r + 1) * (r + 1) \<le> n then r + 1 else r)"
  by pat_completeness auto
termination by (relation "measure nat") auto

declare isqrt.simps [simp del]

definition root_scale :: "rat \<Rightarrow> int" where
  "root_scale x = (112 - expo x) div 2"

definition sticky_root :: "rat \<Rightarrow> int" where
  "sticky_root y = (let s = isqrt \<lfloor>y\<rfloor> in 2 * s + (if of_int (s * s) = y then 0 else 1))"

definition py_sqrt :: "dbl \<Rightarrow> dbl" where
  "py_sqrt x = (if val x \<le> 0 then 0 else let k = root_scale (val x) in
     D (of_int (sticky_root (val x * 4 powi k)) / 2 / 2 powi k))"

section \<open>Correctness of the integer root\<close>

lemma isqrt_bounds: "0 \<le> n \<Longrightarrow> 0 \<le> isqrt n \<and> isqrt n * isqrt n \<le> n \<and> n < (isqrt n + 1) * (isqrt n + 1)"
proof (induction n rule: isqrt.induct)
  case (1 n)
  show ?case
  proof (cases "n = 0")
    case True
    then show ?thesis by (simp add: isqrt.simps)
  next
    case False
    let ?q = "isqrt (n div 4)"
    from 1 False have q: "0 \<le> ?q" "?q * ?q \<le> n div 4" "n div 4 < (?q + 1) * (?q + 1)" by simp_all
    have n: "4 * (n div 4) \<le> n" "n < 4 * (n div 4) + 4" by simp_all
    have "(2 * ?q) * (2 * ?q) = 4 * (?q * ?q)" by simp
    also have "\<dots> \<le> n" using q(2) n(1) by linarith
    finally have lo: "(2 * ?q) * (2 * ?q) \<le> n" .
    have "n < 4 * ((?q + 1) * (?q + 1))" using q(3) n(2) by linarith
    also have "\<dots> = (2 * ?q + 1 + 1) * (2 * ?q + 1 + 1)" by (simp add: algebra_simps)
    finally have hi: "n < (2 * ?q + 1 + 1) * (2 * ?q + 1 + 1)" .
    show ?thesis using lo hi q(1) False 1(2) by (simp add: isqrt.simps[of n] Let_def)
  qed
qed

end
