(* ===== verification/Spans.thy ===== *)
theory Spans
  imports Py_Rounding
begin

text \<open>
  Union of intervals: sort, then merge each interval into the last one unless it starts more
  than \<open>eps\<close> after its end.  Several tools contain this loop with tolerances of their own.
\<close>

type_synonym span = "dbl \<times> dbl"

text \<open>\<^verbatim>\<open>max(0.0, min(end, other_end) - max(start, other_start))\<close>, in several tools.\<close>

definition overlap_sec :: "dbl \<Rightarrow> dbl \<Rightarrow> dbl \<Rightarrow> dbl \<Rightarrow> dbl" where
  "overlap_sec s e os oe = max 0 (min e oe - max s os)"

definition span_joins :: "dbl \<Rightarrow> span \<Rightarrow> span \<Rightarrow> bool" where
  "span_joins eps p x \<longleftrightarrow> \<not> snd p + eps < fst x"

definition span_join :: "span \<Rightarrow> span \<Rightarrow> span" where
  "span_join p x = (fst p, max (snd p) (snd x))"

definition merge_sorted_spans :: "dbl \<Rightarrow> span list \<Rightarrow> span list" where
  "merge_sorted_spans eps xs = merge_runs (\<lambda>p. p) (span_joins eps) span_join xs"

definition merge_spans :: "dbl \<Rightarrow> span list \<Rightarrow> span list" where
  "merge_spans eps xs = merge_sorted_spans eps (sort xs)"

definition total_span :: "span list \<Rightarrow> dbl" where
  "total_span xs = py_sum (map (\<lambda>(s, e). e - s) xs)"

interpretation span_runs: run_uniform "span_joins eps" span_join for eps
  by unfold_locales (auto simp: span_joins_def span_join_def)

interpretation span_start: run_key "\<lambda>p. p" "span_joins eps" span_join fst fst for eps
  by unfold_locales (auto simp: span_join_def)

lemma merge_spans_separated: "successively (\<lambda>p q. snd p + eps < fst q) (merge_spans eps xs)"
  using span_runs.merge_maximal[of eps "sort xs"]
  by (simp add: merge_spans_def merge_sorted_spans_def span_joins_def)

lemma sorted_fst: "sorted (xs :: span list) \<Longrightarrow> sorted (map fst xs)"
  by (rule sorted_map_weaken[of "\<lambda>x. x"]) (auto simp: less_eq_prod_def)

lemma merge_spans_starts_sorted: "sorted (map fst (merge_spans eps xs))"
  unfolding merge_spans_def merge_sorted_spans_def
  by (rule span_start.merge_sorted) (simp add: sorted_fst)

text \<open>Ends are ends of inputs, and proper intervals stay proper.\<close>

lemma merge_spans_ends:
  "p \<in> set (merge_spans eps xs) \<Longrightarrow> fst p \<in> fst ` set xs \<and> snd p \<in> snd ` set xs"
  unfolding merge_spans_def merge_sorted_spans_def
  by (rule merge_runs_invariant[where P = "\<lambda>p. fst p \<in> fst ` set xs \<and> snd p \<in> snd ` set xs"])
     (auto simp: span_join_def max_def)

lemma merge_spans_proper:
  "\<forall>(s, e) \<in> set xs. s \<le> e \<Longrightarrow> p \<in> set (merge_spans eps xs) \<Longrightarrow> fst p \<le> snd p"
  unfolding merge_spans_def merge_sorted_spans_def
  by (rule merge_runs_invariant[where P = "\<lambda>p. fst p \<le> snd p"]) (auto simp: span_join_def max_def)

lemma merge_spans_strict:
  "\<forall>(s, e) \<in> set xs. s < e \<Longrightarrow> p \<in> set (merge_spans eps xs) \<Longrightarrow> fst p < snd p"
  unfolding merge_spans_def merge_sorted_spans_def
  by (rule merge_runs_invariant[where P = "\<lambda>p. fst p < snd p"]) (auto simp: span_join_def less_max_iff_disj)

lemma merge_spans_total_nonneg:
  assumes "\<forall>(s, e) \<in> set xs. s \<le> e" shows "0 \<le> total_span (merge_spans eps xs)"
  unfolding total_span_def
proof (rule py_sum_nonneg)
  have "fst p \<le> snd p" if "p \<in> set (merge_spans eps xs)" for p
    using merge_spans_proper[OF assms that] .
  then show "list_all (\<lambda>x. 0 \<le> x) (map (\<lambda>(s, e). e - s) (merge_spans eps xs))"
    by (fastforce simp: list_all_iff)
qed

lemma overlap_positive: "0 < overlap_sec s e a b \<Longrightarrow> max s a < min e b"
  by (auto simp: overlap_sec_def less_max_iff_disj)

lemma overlap_sec_nonneg [simp]: "0 \<le> overlap_sec s e a b"
  by (simp add: overlap_sec_def)

text \<open>Nothing is lost: every input interval lies inside an output interval.\<close>

definition inside :: "span \<Rightarrow> span \<Rightarrow> bool" where
  "inside x p \<longleftrightarrow> fst p \<le> fst x \<and> snd x \<le> snd p"

definition covered_by :: "span list \<Rightarrow> span \<Rightarrow> bool" where
  "covered_by ps x \<longleftrightarrow> list_ex (inside x) ps"

lemma fold_spans_cover:
  assumes "sorted (map fst (ys @ xs))" and "list_all (covered_by acc) ys"
    and "acc \<noteq> [] \<Longrightarrow> fst (hd acc) \<in> fst ` set ys"
  shows "list_all (covered_by (foldl (merge_step (\<lambda>p. p) (span_joins eps) span_join) acc xs)) (ys @ xs)"
  using assms
proof (induction xs arbitrary: acc ys)
  case (Cons x xs)
  let ?acc = "merge_step (\<lambda>p. p) (span_joins eps) span_join acc x"
  have le: "fst (hd acc) \<le> fst x" if "acc \<noteq> []"
    using Cons.prems(1,3) that by (auto simp: sorted_append)
  have old: "covered_by ?acc y" if "covered_by acc y" for y
    using that by (cases acc) (auto simp: covered_by_def merge_step_def inside_def span_join_def max_def)
  have new: "covered_by ?acc x"
    using le by (cases acc) (auto simp: covered_by_def merge_step_def inside_def span_join_def)
  have "list_all (covered_by (foldl (merge_step (\<lambda>p. p) (span_joins eps) span_join) ?acc xs)) ((ys @ [x]) @ xs)"
  proof (rule Cons.IH)
    show "list_all (covered_by ?acc) (ys @ [x])" using Cons.prems(2) old new by (auto simp: list_all_iff)
    show "fst (hd ?acc) \<in> fst ` set (ys @ [x])"
      using Cons.prems(3) by (cases acc) (auto simp: merge_step_def span_join_def)
  qed (use Cons.prems(1) in simp)
  then show ?case by simp
qed simp

lemma merge_spans_cover: "list_all (covered_by (merge_spans eps xs)) xs"
proof -
  have "list_all (covered_by (rev (merge_spans eps xs))) (sort xs)"
    using fold_spans_cover[of "[]" "sort xs" "[]" eps]
    by (simp add: merge_spans_def merge_sorted_spans_def merge_runs_def sorted_fst)
  then show ?thesis by (simp add: list_all_iff covered_by_def)
qed

lemma merge_spans_Nil_iff [simp]: "merge_spans eps xs = [] \<longleftrightarrow> xs = []"
  unfolding merge_spans_def merge_sorted_spans_def merge_runs_Nil_iff by (metis set_empty set_sort)

text \<open>Merging proper intervals twice changes nothing.\<close>

lemma merge_spans_idem:
  assumes "\<forall>(s, e) \<in> set xs. s \<le> e" and "0 \<le> eps"
  shows "merge_spans eps (merge_spans eps xs) = merge_spans eps xs"
proof -
  let ?m = "merge_spans eps xs"
  have "successively (<) ?m"
  proof (rule successively_mono[OF merge_spans_separated[of eps xs]])
    fix p q :: span assume p: "p \<in> set ?m" and gap: "snd p + eps < fst q"
    have "fst p \<le> snd p" using assms(1) p by (rule merge_spans_proper)
    moreover have "snd p \<le> snd p + eps" using assms(2) by (rule dbl_le_add)
    ultimately have "fst p < fst q" using gap by order
    then show "p < q" by (simp add: less_prod_def)
  qed
  then have "sorted_wrt (<) ?m" by (subst (asm) successively_conv_sorted_wrt) (auto simp: transp_def)
  then have "sort ?m = ?m" by (intro sort_key_id_if_sorted) (simp add: strict_sorted_imp_sorted)
  then show ?thesis
    using span_runs.merge_idem[of eps "sort xs"] by (simp add: merge_spans_def merge_sorted_spans_def)
qed

end
