(* ===== verification/Decision_Evidence.thy ===== *)
theory Decision_Evidence
  imports Spans Py_Rounding
begin

text \<open>
  \<^verbatim>\<open>tools/verify/py/speaker_decision_evidence.py\<close>: the speaker decision of every business entry
  is replayed from the diarization track, compared with the decision the runtime recorded, and
  summarised.  File access and the digest of the input file are parameters.
\<close>

section \<open>Constants and conversions\<close>

definition EPSILON :: dbl where "EPSILON = D (1 / 1000000000)"

definition LEGACY_CANDIDATE_CONFIDENCE_ERROR :: dbl where
  "LEGACY_CANDIDATE_CONFIDENCE_ERROR = D (501 / 1000000)"

definition LEGACY_MARGIN_CONFIDENCE_ERROR :: dbl where
  "LEGACY_MARGIN_CONFIDENCE_ERROR = D (1002 / 1000000)"

definition TIMELINE_QUANTUM_SEC :: dbl where "TIMELINE_QUANTUM_SEC = D (1 / 1000)"

definition timeline_from :: "json \<Rightarrow> obj res" where
  "timeline_from package = rbind (vget package ''timeline'' package) (\<lambda>t. case t of
     JObj d \<Rightarrow> Inr d
   | _ \<Rightarrow> Inl (ValueError ''timeline package is not an object''))"

definition tracks_by_kind :: "obj \<Rightarrow> (string, json) pydict res" where
  "tracks_by_kind t = rbind (py_iter (dget t ''tracks'' (JArr []))) (\<lambda>items.
     Inr (foldl (\<lambda>acc it. case it of
            JObj d \<Rightarrow> (case get d ''kind'' of JStr k \<Rightarrow> dset k (dget d ''entries'' (JArr [])) acc | _ \<Rightarrow> acc)
          | _ \<Rightarrow> acc) [] items))"

definition merge_intervals :: "span list \<Rightarrow> span list" where
  "merge_intervals xs = merge_spans EPSILON xs"

text \<open>
  \<^verbatim>\<open>float(f"{float(value):.{digits}f}")\<close>, on a double equal to \<open>py_round\<close>
  (\<open>rounded_float\<close> below), which the replay uses on the doubles it computes.
\<close>

definition rounded :: "json \<Rightarrow> nat \<Rightarrow> dbl res" where
  "rounded v n = rbind (py_float v) (\<lambda>x. float_str (fixed_repr n x))"

definition normalized_speaker_id :: "json \<Rightarrow> string option" where
  "normalized_speaker_id v = (case v of JStr s \<Rightarrow> if s \<noteq> [] then Some s else None | _ \<Rightarrow> None)"

definition float_item :: "json \<Rightarrow> string \<Rightarrow> dbl res" where
  "float_item v k = rbind (vitem v k) py_float"

definition float_get :: "json \<Rightarrow> string \<Rightarrow> dbl \<Rightarrow> dbl res" where
  "float_get v k dflt = rbind (vget v k (JFlt dflt)) py_float"

definition int_get :: "json \<Rightarrow> string \<Rightarrow> int \<Rightarrow> int res" where
  "int_get v k dflt = rbind (vget v k (JInt dflt)) py_int"

definition id_get :: "json \<Rightarrow> string option res" where
  "id_get v = rbind (vget v ''speaker_id'' JNull) (\<lambda>x. Inr (normalized_speaker_id x))"

section \<open>Where the text of an entry came from\<close>

definition asr_rows :: "json list \<Rightarrow> (int, json) pydict res" where
  "asr_rows asr = rfold (\<lambda>d v. rbind (int_get v ''text_id'' (- 1)) (\<lambda>i. Inr (dset i v d))) [] asr"

definition align_ids :: "json list \<Rightarrow> int list res" where
  "align_ids align = rfold (\<lambda>ids v. rbind (vget v ''units'' JNull) (\<lambda>u.
     if truthy u then rbind (int_get v ''text_id'' (- 1)) (\<lambda>i. Inr (i # ids)) else Inr ids)) [] align"

definition near_field :: "json \<Rightarrow> json \<Rightarrow> string \<Rightarrow> bool res" where
  "near_field raw v k = rbind (float_get raw k 0) (\<lambda>a. rbind (float_get v k 0) (\<lambda>b.
     Inr (\<bar>a - b\<bar> \<le> EPSILON)))"

definition exact_span :: "json option \<Rightarrow> json \<Rightarrow> bool res" where
  "exact_span raw v = (case raw of None \<Rightarrow> Inr False
   | Some r \<Rightarrow> rbind (near_field r v ''start'') (\<lambda>near.
       if near then near_field r v ''end'' else Inr False))"

definition projection_source ::
  "int list \<Rightarrow> (int, json) pydict \<Rightarrow> int list \<Rightarrow> json \<Rightarrow> string res" where
  "projection_source business_ids asr_by_id aligned v =
    rbind (vget v ''speaker_decision'' JNull) (\<lambda>runtime.
    case (case runtime of JObj d \<Rightarrow> get d ''text_projection_source'' | _ \<Rightarrow> JNull) of
      JStr s \<Rightarrow> Inr s
    | _ \<Rightarrow> rbind (int_get v ''text_id'' (- 1)) (\<lambda>text_id.
        rbind (exact_span (map_of asr_by_id text_id) v) (\<lambda>exact.
        Inr (if count_list business_ids text_id = 1 \<and> exact then ''asr_exact''
             else if text_id \<in> set aligned then ''forced_alignment''
             else ''asr_proportional''))))"

definition infer_projection_sources :: "json \<Rightarrow> json \<Rightarrow> json \<Rightarrow> string list res" where
  "infer_projection_sources business asr align =
    rbind (py_iter business) (\<lambda>bs. rbind (rmap (\<lambda>v. int_get v ''text_id'' (- 1)) bs) (\<lambda>ids.
    rbind (py_iter asr) (\<lambda>as. rbind (asr_rows as) (\<lambda>asr_by_id.
    rbind (py_iter align) (\<lambda>gs. rbind (align_ids gs) (\<lambda>aligned.
    rmap (projection_source ids asr_by_id aligned) bs))))))"

section \<open>The replayed decision\<close>

type_synonym speaker_key = "int \<times> string option"

record support =
  sp_intervals :: "span list"
  sp_weighted_sum :: dbl
  sp_weight :: dbl

record candidate =
  c_speaker :: int
  c_overlap_sec :: dbl
  c_coverage_ratio :: dbl
  c_confidence :: dbl
  c_island_count :: int
  c_selected :: bool
  c_speaker_id :: "string option"

record decision =
  dc_speaker_source :: string
  dc_projection_source :: string
  dc_reason :: string
  dc_overlap_margin :: dbl
  dc_confidence_margin :: dbl
  dc_candidates :: "candidate list"

definition key_of :: "json \<Rightarrow> speaker_key res" where
  "key_of v = rbind (int_get v ''speaker'' (- 1)) (\<lambda>k. rbind (id_get v) (\<lambda>i. Inr (k, i)))"

definition no_support :: support where
  "no_support = \<lparr>sp_intervals = [], sp_weighted_sum = 0, sp_weight = 0\<rparr>"

definition add_support ::
  "dbl \<Rightarrow> dbl \<Rightarrow> (speaker_key, support) pydict \<Rightarrow> json \<Rightarrow> (speaker_key, support) pydict res" where
  "add_support s e acc seg =
    rbind (float_item seg ''start'') (\<lambda>a. rbind (float_item seg ''end'') (\<lambda>b.
    let amount = overlap_sec s e a b in
    if amount \<le> 0 then Inr acc
    else rbind (key_of seg) (\<lambda>key. rbind (float_get seg ''confidence'' 0) (\<lambda>conf.
      let v = (case map_of acc key of Some v \<Rightarrow> v | None \<Rightarrow> no_support) in
      Inr (dset key \<lparr>sp_intervals = sp_intervals v @ [(max s a, min e b)],
            sp_weighted_sum = sp_weighted_sum v + conf * amount,
            sp_weight = sp_weight v + amount\<rparr> acc)))))"

definition covered_sec :: "support \<Rightarrow> dbl" where
  "covered_sec v = total_span (merge_intervals (sp_intervals v))"

definition mean_confidence :: "support \<Rightarrow> dbl" where
  "mean_confidence v = (if EPSILON < sp_weight v then sp_weighted_sum v / sp_weight v else 0)"

definition candidate_of :: "dbl \<Rightarrow> speaker_key \<Rightarrow> speaker_key \<times> support \<Rightarrow> candidate" where
  "candidate_of duration selected_key = (\<lambda>(key, v).
     \<lparr>c_speaker = fst key, c_overlap_sec = py_round (covered_sec v) 3,
      c_coverage_ratio = py_round (if EPSILON < duration then min 1 (covered_sec v / duration) else 0) 6,
      c_confidence = py_round (mean_confidence v) 6,
      c_island_count = int (length (merge_intervals (sp_intervals v))),
      c_selected = (key = selected_key), c_speaker_id = snd key\<rparr>)"

definition candidate_key :: "candidate \<Rightarrow> speaker_key" where
  "candidate_key c = (c_speaker c, c_speaker_id c)"

text \<open>\<^verbatim>\<open>raw_metrics\<close>; every candidate's key is in it.\<close>

type_synonym metrics = "(speaker_key, dbl \<times> dbl) pydict"

definition raw_metrics :: "(speaker_key, support) pydict \<Rightarrow> metrics" where
  "raw_metrics acc = map (\<lambda>(key, v). (key, (covered_sec v, mean_confidence v))) acc"

definition metric :: "metrics \<Rightarrow> speaker_key \<Rightarrow> dbl \<times> dbl" where
  "metric m k = (case map_of m k of Some x \<Rightarrow> x | None \<Rightarrow> (0, 0))"

definition candidate_order :: "metrics \<Rightarrow> candidate \<Rightarrow> bool \<times> dbl \<times> dbl \<times> int \<times> string" where
  "candidate_order m c = (\<not> c_selected c, - fst (metric m (candidate_key c)),
     - snd (metric m (candidate_key c)), c_speaker c,
     case c_speaker_id c of Some s \<Rightarrow> s | None \<Rightarrow> [])"

definition ranked_candidates ::
  "dbl \<Rightarrow> speaker_key \<Rightarrow> (speaker_key, support) pydict \<Rightarrow> candidate list" where
  "ranked_candidates duration selected_key acc =
     sort_key (candidate_order (raw_metrics acc)) (map (candidate_of duration selected_key) acc)"

definition sole_reason :: "bool \<Rightarrow> candidate \<Rightarrow> string" where
  "sole_reason gap_fill c =
    (if gap_fill \<and> 1 < c_island_count c \<and> c_coverage_ratio c < 1 - EPSILON
     then ''same_speaker_gap_fill'' else ''sole_diar_support'')"

definition decide ::
  "dbl \<Rightarrow> speaker_key \<Rightarrow> string \<Rightarrow> bool \<Rightarrow> (speaker_key, support) pydict \<Rightarrow> decision" where
  "decide duration selected_key source gap_fill acc =
    (let cands = ranked_candidates duration selected_key acc; m = raw_metrics acc;
         (reason, overlap_margin, confidence_margin) =
           (case (filter c_selected cands, filter (\<lambda>c. \<not> c_selected c) cands) of
              (c # _, r # _) \<Rightarrow> (''competing_diar_interval_policy'',
                 fst (metric m selected_key) - fst (metric m (candidate_key r)),
                 snd (metric m selected_key) - snd (metric m (candidate_key r)))
            | (c # _, []) \<Rightarrow> (sole_reason gap_fill c, 0, 0)
            | _ \<Rightarrow> (''no_diar_support'', 0, 0))
     in \<lparr>dc_speaker_source = ''sortformer_diarization'', dc_projection_source = source,
         dc_reason = reason, dc_overlap_margin = py_round overlap_margin 3,
         dc_confidence_margin = py_round confidence_margin 6, dc_candidates = cands\<rparr>)"

definition compute_decision :: "json \<Rightarrow> json \<Rightarrow> string \<Rightarrow> bool \<Rightarrow> decision res" where
  "compute_decision v diar source gap_fill =
    rbind (float_item v ''start'') (\<lambda>s. rbind (float_item v ''end'') (\<lambda>e.
    rbind (key_of v) (\<lambda>selected_key. rbind (py_iter diar) (\<lambda>segs.
    rbind (rfold (add_support s e) [] segs) (\<lambda>acc.
    Inr (decide (max 0 (e - s)) selected_key source gap_fill acc))))))"

section \<open>Decisions as JSON\<close>

definition candidate_json :: "candidate \<Rightarrow> json" where
  "candidate_json c = JObj
    ([(''speaker'', JInt (c_speaker c)), (''overlap_sec'', JFlt (c_overlap_sec c)),
      (''coverage_ratio'', JFlt (c_coverage_ratio c)), (''confidence'', JFlt (c_confidence c)),
      (''island_count'', JInt (c_island_count c)), (''selected'', JBool (c_selected c))]
     @ (case c_speaker_id c of Some s \<Rightarrow> [(''speaker_id'', JStr s)] | None \<Rightarrow> []))"

definition decision_json :: "decision \<Rightarrow> json" where
  "decision_json d = JObj
    [(''speaker_source'', JStr (dc_speaker_source d)),
     (''text_projection_source'', JStr (dc_projection_source d)), (''reason'', JStr (dc_reason d)),
     (''overlap_margin_sec'', JFlt (dc_overlap_margin d)),
     (''confidence_margin'', JFlt (dc_confidence_margin d)),
     (''candidates'', JArr (map candidate_json (dc_candidates d)))]"

definition rounded_get :: "json \<Rightarrow> string \<Rightarrow> nat \<Rightarrow> dbl res" where
  "rounded_get v k n = rbind (vget v k (JFlt 0)) (\<lambda>x. rounded x n)"

definition str_get :: "json \<Rightarrow> string \<Rightarrow> string res" where
  "str_get v k = rbind (vget v k (JStr [])) (\<lambda>x. Inr (py_str x))"

definition normalize_candidate :: "json \<Rightarrow> candidate res" where
  "normalize_candidate v =
    rbind (int_get v ''speaker'' (- 1)) (\<lambda>spk. rbind (rounded_get v ''overlap_sec'' 3) (\<lambda>ov.
    rbind (rounded_get v ''coverage_ratio'' 6) (\<lambda>cov. rbind (rounded_get v ''confidence'' 6) (\<lambda>conf.
    rbind (int_get v ''island_count'' 0) (\<lambda>n. rbind (vget v ''selected'' (JBool False)) (\<lambda>sel.
    rbind (id_get v) (\<lambda>i.
    Inr \<lparr>c_speaker = spk, c_overlap_sec = ov, c_coverage_ratio = cov, c_confidence = conf,
         c_island_count = n, c_selected = truthy sel, c_speaker_id = i\<rparr>)))))))"

definition normalize_runtime_decision :: "json \<Rightarrow> decision res" where
  "normalize_runtime_decision v =
    rbind (str_get v ''speaker_source'') (\<lambda>src. rbind (str_get v ''text_projection_source'') (\<lambda>proj.
    rbind (str_get v ''reason'') (\<lambda>reason. rbind (rounded_get v ''overlap_margin_sec'' 3) (\<lambda>om.
    rbind (rounded_get v ''confidence_margin'' 6) (\<lambda>cm.
    rbind (vget v ''candidates'' (JArr [])) (\<lambda>cs. rbind (py_iter cs) (\<lambda>items.
    rbind (rmap normalize_candidate items) (\<lambda>cands.
    Inr \<lparr>dc_speaker_source = src, dc_projection_source = proj, dc_reason = reason,
         dc_overlap_margin = om, dc_confidence_margin = cm, dc_candidates = cands\<rparr>))))))))"

section \<open>Comparing the runtime's decision with the replay\<close>

definition candidate_structure :: "candidate \<Rightarrow> int \<times> int \<times> bool \<times> string option" where
  "candidate_structure c = (c_speaker c, c_island_count c, c_selected c, c_speaker_id c)"

definition decision_structure where
  "decision_structure d = (dc_speaker_source d, dc_projection_source d, dc_reason d,
     map candidate_structure (dc_candidates d))"

definition overlap_error_bound :: "candidate \<Rightarrow> dbl" where
  "overlap_error_bound c = TIMELINE_QUANTUM_SEC * of_pyint (c_island_count c + 1)"

definition coverage_error_bound :: "candidate \<Rightarrow> dbl \<Rightarrow> dbl" where
  "coverage_error_bound c duration =
     (overlap_error_bound c + c_coverage_ratio c * TIMELINE_QUANTUM_SEC)
       / max (duration - TIMELINE_QUANTUM_SEC) TIMELINE_QUANTUM_SEC + D (1 / 1000000)"

definition deltas :: "(candidate \<Rightarrow> dbl) \<Rightarrow> decision \<Rightarrow> decision \<Rightarrow> dbl list" where
  "deltas f a b = map (\<lambda>(l, r). \<bar>f l - f r\<bar>) (zip (dc_candidates a) (dc_candidates b))"

definition compare_runtime_decision :: "decision \<Rightarrow> decision \<Rightarrow> dbl \<Rightarrow> bool \<times> bool" where
  "compare_runtime_decision runtime replay duration =
    (if decision_structure runtime \<noteq> decision_structure replay then (False, False)
     else if length (dc_candidates runtime) \<noteq> length (dc_candidates replay) then (False, False)
     else let cand_deltas = deltas c_confidence runtime replay;
              overlap_deltas = deltas c_overlap_sec runtime replay;
              coverage_deltas = deltas c_coverage_ratio runtime replay;
              margin_delta = \<bar>dc_confidence_margin runtime - dc_confidence_margin replay\<bar>;
              overlap_margin_delta = \<bar>dc_overlap_margin runtime - dc_overlap_margin replay\<bar>;
              exact = (list_all (\<lambda>d. d \<le> EPSILON) cand_deltas \<and>
                list_all (\<lambda>d. d \<le> EPSILON) overlap_deltas \<and>
                list_all (\<lambda>d. d \<le> EPSILON) coverage_deltas \<and>
                margin_delta \<le> EPSILON \<and> overlap_margin_delta \<le> EPSILON);
              overlap_margin_bound = py_sum (map overlap_error_bound (take 2 (dc_candidates replay)));
              bounded = (list_all (\<lambda>d. d \<le> LEGACY_CANDIDATE_CONFIDENCE_ERROR) cand_deltas \<and>
                list_all (\<lambda>(d, c). d \<le> overlap_error_bound c) (zip overlap_deltas (dc_candidates replay)) \<and>
                list_all (\<lambda>(d, c). d \<le> coverage_error_bound c duration)
                  (zip coverage_deltas (dc_candidates replay)) \<and>
                margin_delta \<le> LEGACY_MARGIN_CONFIDENCE_ERROR \<and>
                overlap_margin_delta \<le> overlap_margin_bound)
          in (bounded, exact))"

section \<open>Laws\<close>

lemma EPSILON_pos [simp]: "0 < EPSILON"
  by (simp add: EPSILON_def)

lemma EPSILON_nonneg [simp]: "0 \<le> EPSILON"
  using EPSILON_pos by (rule less_imp_le)

end
