(* ===== verification/Decision_Report.thy ===== *)
theory Decision_Report
  imports Decision_Evidence
begin

text \<open>
  \<^verbatim>\<open>tools/verify/py/speaker_decision_evidence.py\<close>: overlap between speakers on the raw
  diarization track, the rows of the report, and \<^verbatim>\<open>build_evidence\<close>.
\<close>

section \<open>Overlap between speakers\<close>

type_synonym raw_seg = "dbl \<times> dbl \<times> int"

definition raw_seg_of :: "json \<Rightarrow> raw_seg res" where
  "raw_seg_of v = rbind (float_item v ''start'') (\<lambda>s. rbind (float_item v ''end'') (\<lambda>e.
     rbind (int_get v ''speaker'' (- 1)) (\<lambda>k. Inr (s, e, k))))"

definition crossing :: "raw_seg \<Rightarrow> raw_seg \<Rightarrow> (dbl \<times> span) option" where
  "crossing = (\<lambda>(ls, le, lk) (rs, re, rk).
     if lk = rk then None
     else let amount = overlap_sec ls le rs re in
       if amount \<le> EPSILON then None else Some (amount, (max ls rs, min le re)))"

text \<open>For each entry the later ones, up to the first that starts after its end.\<close>

fun crossings :: "raw_seg list \<Rightarrow> (dbl \<times> span) list" where
  "crossings [] = []"
| "crossings (l # rest) =
     List.map_filter (crossing l) (takeWhile (\<lambda>r. \<not> fst (snd l) - EPSILON \<le> fst r) rest)
     @ crossings rest"

record overlap_summary =
  os_pair_count :: nat
  os_pair_overlap :: dbl
  os_contested :: dbl

definition raw_overlap_summary :: "json list \<Rightarrow> overlap_summary res" where
  "raw_overlap_summary diar = rbind (rmap raw_seg_of diar) (\<lambda>segs.
     let cs = crossings (sort segs) in
     Inr \<lparr>os_pair_count = length cs, os_pair_overlap = py_round (foldl (+) 0 (map fst cs)) 3,
          os_contested = py_round (total_span (merge_intervals (map snd cs))) 3\<rparr>)"

section \<open>Rows\<close>

record ev_row =
  er_index :: nat
  er_start :: dbl
  er_end :: dbl
  er_text_id :: int
  er_speaker :: int
  er_support :: json
  er_uncertain :: bool
  er_text :: string
  er_decision :: decision
  er_ambiguous :: bool
  er_speaker_id :: "string option"

definition close_pair :: "candidate \<Rightarrow> candidate \<Rightarrow> bool" where
  "close_pair l r \<longleftrightarrow> \<bar>c_overlap_sec l - c_overlap_sec r\<bar> \<le> D (1 / 1000) \<and>
     \<bar>c_confidence l - c_confidence r\<bar> \<le> LEGACY_MARGIN_CONFIDENCE_ERROR"

fun order_ambiguous :: "candidate list \<Rightarrow> bool" where
  "order_ambiguous [] = False"
| "order_ambiguous (l # rest) = (list_ex (close_pair l) rest \<or> order_ambiguous rest)"

definition row_of :: "nat \<Rightarrow> json \<Rightarrow> decision \<Rightarrow> ev_row res" where
  "row_of index v d =
    rbind (float_item v ''start'') (\<lambda>s. rbind (float_item v ''end'') (\<lambda>e.
    rbind (int_get v ''text_id'' (- 1)) (\<lambda>text_id. rbind (int_get v ''speaker'' (- 1)) (\<lambda>spk.
    rbind (vget v ''speaker_support'' JNull) (\<lambda>supp.
    rbind (vget v ''speaker_uncertain'' (JBool False)) (\<lambda>unc.
    rbind (str_get v ''text'') (\<lambda>text. rbind (id_get v) (\<lambda>i.
    Inr \<lparr>er_index = index, er_start = s, er_end = e, er_text_id = text_id, er_speaker = spk,
         er_support = supp, er_uncertain = truthy unc, er_text = text, er_decision = d,
         er_ambiguous = order_ambiguous (dc_candidates d), er_speaker_id = i\<rparr>))))))))"

definition mismatch_message :: "nat \<Rightarrow> decision \<Rightarrow> decision \<Rightarrow> string" where
  "mismatch_message index runtime replay =
     ''runtime decision mismatch at business entry '' @ int_repr (int index) @ '': runtime='' @
     py_repr (decision_json runtime) @ '' replay='' @ py_repr (decision_json replay)"

text \<open>
  One business entry: the row, and what its recorded decision is (absent, or present and
  exactly equal or only within the quantisation bounds).
\<close>

definition build_row :: "json \<Rightarrow> bool \<Rightarrow> nat \<Rightarrow> json \<Rightarrow> string \<Rightarrow> (ev_row \<times> bool option) res" where
  "build_row diar gap_fill index v source =
    rbind (compute_decision v diar source gap_fill) (\<lambda>d.
    rbind (vget v ''speaker_decision'' JNull) (\<lambda>runtime.
    rbind (if runtime = JNull then Inr None
           else rbind (normalize_runtime_decision runtime) (\<lambda>r.
             rbind (float_item v ''end'') (\<lambda>e. rbind (float_item v ''start'') (\<lambda>s.
             case compare_runtime_decision r d (e - s) of (bounded, exact) \<Rightarrow>
               raise_if (\<not> bounded) (ValueError (mismatch_message index r d)) (Inr (Some exact))))))
      (\<lambda>match. rbind (row_of index v d) (\<lambda>row. Inr (row, match)))))"

fun build_rows ::
  "json \<Rightarrow> bool \<Rightarrow> nat \<Rightarrow> json list \<Rightarrow> string list \<Rightarrow> (ev_row \<times> bool option) list res" where
  "build_rows diar gap_fill index (v # vs) (s # ss) =
     rbind (build_row diar gap_fill index v s) (\<lambda>r.
     rbind (build_rows diar gap_fill (Suc index) vs ss) (\<lambda>rs. Inr (r # rs)))"
| "build_rows diar gap_fill index _ _ = Inr []"

section \<open>The report\<close>

definition gap_fill_enabled :: "obj \<Rightarrow> bool res" where
  "gap_fill_enabled t = rbind (vget (dget t ''resolved_config'' (JObj [])) ''timeline'' (JObj [])) (\<lambda>c.
     rbind (vget c ''gap_fill_enabled'' (JBool True)) (\<lambda>v. Inr (truthy v)))"

definition required_tracks :: "string list" where
  "required_tracks = [''diarization'', ''asr'', ''align'', ''business_speaker'']"

definition track_of :: "(string, json) pydict \<Rightarrow> string \<Rightarrow> json res" where
  "track_of ts k = ditem ts k (KeyError k)"

definition count_if :: "('a \<Rightarrow> bool) \<Rightarrow> 'a list \<Rightarrow> json" where
  "count_if P xs = JInt (int (length (filter P xs)))"

definition add_count :: "('k, int) pydict \<Rightarrow> 'k \<Rightarrow> ('k, int) pydict" where
  "add_count d k = dset k ((case map_of d k of Some n \<Rightarrow> n | None \<Rightarrow> 0) + 1) d"

definition reason_counts :: "ev_row list \<Rightarrow> (string, int) pydict" where
  "reason_counts rows = sort_key fst (foldl (\<lambda>d r. add_count d (dc_reason (er_decision r))) [] rows)"

definition is_competing :: "ev_row \<Rightarrow> bool" where
  "is_competing r \<longleftrightarrow> dc_reason (er_decision r) = ''competing_diar_interval_policy''"

text \<open>On a competing row there are a selected and a rejected candidate, so both lists are non-empty.\<close>

definition below_any_rejected :: "candidate list \<Rightarrow> bool" where
  "below_any_rejected cs = (case (filter c_selected cs, filter (\<lambda>c. \<not> c_selected c) cs) of
     (c # _, r # rs) \<Rightarrow> c_confidence c < foldl max (c_confidence r) (map c_confidence rs)
   | _ \<Rightarrow> False)"

definition row_json :: "ev_row \<Rightarrow> json" where
  "row_json r = JObj
    ([(''business_index'', JInt (int (er_index r))), (''start'', JFlt (er_start r)),
      (''end'', JFlt (er_end r)), (''text_id'', JInt (er_text_id r)),
      (''speaker'', JInt (er_speaker r)), (''speaker_support'', er_support r),
      (''speaker_uncertain'', JBool (er_uncertain r)), (''text'', JStr (er_text r)),
      (''speaker_decision'', decision_json (er_decision r)),
      (''confidence_order_ambiguous'', JBool (er_ambiguous r))]
     @ (case er_speaker_id r of Some s \<Rightarrow> [(''speaker_id'', JStr s)] | None \<Rightarrow> []))"

definition replay_mode :: "bool option list \<Rightarrow> string" where
  "replay_mode matches =
    (let runtime = length (filter (\<lambda>m. m \<noteq> None) matches);
         exact = length (filter (\<lambda>m. m = Some True) matches)
     in if runtime = 0 then ''legacy_reconstructed''
        else if exact = runtime then ''exact'' else ''terminal_quantization_envelope'')"

definition summary_json :: "ev_row list \<Rightarrow> json" where
  "summary_json rows =
    (let competing = filter is_competing rows in
     JObj [(''reason_counts'', JObj (map (\<lambda>(k, n). (k, JInt n)) (reason_counts rows))),
       (''competing_entry_count'', JInt (int (length competing))),
       (''competing_duration_sec'',
          JFlt (py_round (py_sum (map (\<lambda>r. er_end r - er_start r) competing)) 3)),
       (''strong_competing_count'', count_if (\<lambda>r. er_support r = JStr ''strong'') competing),
       (''zero_overlap_margin_count'',
          count_if (\<lambda>r. \<bar>dc_overlap_margin (er_decision r)\<bar> \<le> EPSILON) competing),
       (''selected_lower_than_best_rejected_count'',
          count_if (\<lambda>r. dc_confidence_margin (er_decision r) < - EPSILON) competing),
       (''selected_lower_than_any_rejected_count'',
          count_if (\<lambda>r. below_any_rejected (dc_candidates (er_decision r))) competing)])"

definition overlap_json :: "nat \<Rightarrow> overlap_summary \<Rightarrow> json" where
  "overlap_json n ov = JObj [(''entry_count'', JInt (int n)),
     (''cross_speaker_pair_count'', JInt (int (os_pair_count ov))),
     (''pair_overlap_sec'', JFlt (os_pair_overlap ov)), (''contested_union_sec'', JFlt (os_contested ov))]"

definition report_json ::
  "string \<Rightarrow> string \<Rightarrow> dbl \<Rightarrow> (ev_row \<times> bool option) list \<Rightarrow> nat \<Rightarrow> overlap_summary \<Rightarrow> obj" where
  "report_json abs_path digest audio rows n_diar ov =
    (let rs = map fst rows; ms = map snd rows; runtime = length (filter (\<lambda>m. m \<noteq> None) ms) in
     [(''schema_version'', JInt 1), (''kind'', JStr ''orator_speaker_decision_evidence''),
      (''source'', JObj [(''path'', JStr abs_path), (''sha256'', JStr digest)]),
      (''audio_sec'', JFlt audio), (''business_entry_count'', JInt (int (length rs))),
      (''runtime_decision_count'', JInt (int runtime)),
      (''runtime_replay_match'', JBool (runtime = length rs)),
      (''runtime_replay_mode'', JStr (replay_mode ms)),
      (''confidence_reconstruction'', JObj
        [(''legacy_diar_quantum'', JFlt (D (1 / 1000))),
         (''candidate_error_bound'', JFlt LEGACY_CANDIDATE_CONFIDENCE_ERROR),
         (''margin_error_bound'', JFlt LEGACY_MARGIN_CONFIDENCE_ERROR),
         (''ambiguous_order_count'', count_if er_ambiguous rs)]),
      (''time_reconstruction'', JObj
        [(''timeline_quantum_sec'', JFlt TIMELINE_QUANTUM_SEC),
         (''overlap_error_formula'', JStr ''timeline_quantum_sec * (island_count + 1)''),
         (''coverage_error_formula'', JStr (''(overlap_error + coverage * timeline_quantum_sec) / ''
            @ ''max(duration - timeline_quantum_sec, timeline_quantum_sec)''))]),
      (''raw_diarization'', overlap_json n_diar ov),
      (''summary'', summary_json rs), (''entries'', JArr (map row_json rs))])"

definition missing_tracks :: "(string, json) pydict \<Rightarrow> string list" where
  "missing_tracks ts = sort (filter (\<lambda>k. k \<notin> set (map fst ts)) required_tracks)"

definition build_evidence :: "string \<Rightarrow> string \<Rightarrow> json \<Rightarrow> obj res" where
  "build_evidence abs_path digest package =
    rbind (timeline_from package) (\<lambda>t. rbind (tracks_by_kind t) (\<lambda>ts.
    raise_if (missing_tracks ts \<noteq> [])
      (ValueError (''timeline tracks missing: '' @ join_with '','' (missing_tracks ts)))
    (rbind (track_of ts ''diarization'') (\<lambda>diar. rbind (track_of ts ''business_speaker'') (\<lambda>business.
     rbind (track_of ts ''asr'') (\<lambda>asr. rbind (track_of ts ''align'') (\<lambda>align.
     rbind (infer_projection_sources business asr align) (\<lambda>sources.
     rbind (gap_fill_enabled t) (\<lambda>gap_fill. rbind (py_iter business) (\<lambda>entries.
     rbind (build_rows diar gap_fill 0 entries sources) (\<lambda>rows.
     rbind (py_float (dget t ''audio_sec'' (JFlt 0))) (\<lambda>audio.
     rbind (py_len diar) (\<lambda>n. rbind (py_iter diar) (\<lambda>segs.
     rbind (raw_overlap_summary segs) (\<lambda>ov.
     Inr (report_json abs_path digest audio rows (nat n) ov))))))))))))))))"

end
