(* ===== verification/Decision_Properties.thy ===== *)
theory Decision_Properties
  imports Decision_Report
begin

text \<open>
  What \<^verbatim>\<open>speaker_decision_evidence.py\<close> promises: interval union loses nothing and leaves
  separated intervals, rounding is stable, the candidates of a decision are ranked and consistent,
  a replayed decision read back from JSON is accepted as exact, and the report covers every entry.
\<close>

section \<open>Intervals and rounding\<close>

text \<open>
  C5: the merged intervals contain every input interval, are ordered, lie more than \<open>EPSILON\<close>
  apart, start and end where inputs start and end, and merging twice changes nothing.
\<close>

theorem merge_intervals_union:
  assumes "list_all (\<lambda>(s, e). s \<le> e) xs"
  shows "list_all (covered_by (merge_intervals xs)) xs \<and> sorted (map fst (merge_intervals xs)) \<and>
    successively (\<lambda>p q. snd p + EPSILON < fst q) (merge_intervals xs) \<and>
    list_all (\<lambda>p. fst p \<in> fst ` set xs \<and> snd p \<in> snd ` set xs \<and> fst p \<le> snd p) (merge_intervals xs) \<and>
    merge_intervals (merge_intervals xs) = merge_intervals xs"
proof -
  have p: "\<forall>(s, e) \<in> set xs. s \<le> e" using assms by (simp add: list_all_iff)
  show ?thesis
    using merge_spans_ends merge_spans_proper[OF p] merge_spans_idem[OF p EPSILON_nonneg]
    by (simp add: merge_intervals_def merge_spans_cover[unfolded list_all_iff] merge_spans_starts_sorted
      merge_spans_separated list_all_iff)
qed

theorem merge_intervals_union_witness:
  "list_all (\<lambda>(s, e). s \<le> e) [(D 2, D 4), (D 1, D 3)] \<and>
   merge_intervals [(D 2, D 4), (D 1, D 3)] = [(D 1, D 4)] \<and>
   merge_intervals [(D 1, D 4)] = [(D 1, D 4)]"
proof -
  have h: "list_all (\<lambda>(s, e). s \<le> e) [(D 2, D 4), (D 1, D 3)]" by code_simp
  have m: "merge_intervals [(D 2, D 4), (D 1, D 3)] = [(D 1, D 4)]" by code_simp
  from merge_intervals_union[OF h] h m show ?thesis by simp
qed

lemma rounded_float [simp]: "rounded (JFlt x) n = Inr (py_round x n)"
  by (simp add: rounded_def float_str_fixed_repr)

text \<open>
  rounding by printing and reading back is \<^verbatim>\<open>round\<close>, and rounding a rounded value
  changes nothing, so reports survive being read and rounded again.
\<close>

lemma rounded_stable:
  "rounded (JFlt x) n = Inr (py_round x n) \<and>
   rbind (rounded v n) (\<lambda>y. rounded (JFlt y) n) = rounded v n"
  by (cases "py_float v") (simp_all add: rounded_def float_str_fixed_repr)

section \<open>Candidates\<close>

definition key_ok :: "speaker_key \<Rightarrow> bool" where
  "key_ok k \<longleftrightarrow> snd k \<noteq> Some []"

definition proper :: "support \<Rightarrow> bool" where
  "proper v \<longleftrightarrow> sp_intervals v \<noteq> [] \<and> (\<forall>(a, b) \<in> set (sp_intervals v). a < b)"

definition supports_ok :: "(speaker_key, support) pydict \<Rightarrow> bool" where
  "supports_ok acc \<longleftrightarrow> distinct (map fst acc) \<and> (\<forall>(k, v) \<in> set acc. key_ok k \<and> proper v)"

lemma normalized_not_empty [simp]: "normalized_speaker_id v \<noteq> Some []"
  by (cases v) (simp_all add: normalized_speaker_id_def)

lemma key_of_ok: "key_of v = Inr k \<Longrightarrow> key_ok k"
  by (auto simp: key_of_def id_get_def res_iff key_ok_def)

lemma supports_ok_lookup:
  "supports_ok acc \<Longrightarrow> map_of acc k = Some v \<Longrightarrow> proper v"
  by (auto simp: supports_ok_def dest!: map_of_SomeD)

lemma add_support_ok:
  assumes ok: "supports_ok acc" and step: "add_support s e acc seg = Inr acc'"
  shows "supports_ok acc'"
proof -
  obtain a b where ab: "float_item seg ''start'' = Inr a" "float_item seg ''end'' = Inr b"
    using step by (auto simp: add_support_def res_iff)
  show ?thesis
  proof (cases "overlap_sec s e a b \<le> 0")
    case True
    with step ok show ?thesis by (simp add: add_support_def ab)
  next
    case False
    then have pos: "max s a < min e b" by (intro overlap_positive) simp
    obtain key conf where key: "key_of seg = Inr key" "float_get seg ''confidence'' 0 = Inr conf"
      using step False by (auto simp: add_support_def ab res_iff Let_def)
    define old where "old = (case map_of acc key of Some v \<Rightarrow> v | None \<Rightarrow> no_support)"
    define new where "new = \<lparr>sp_intervals = sp_intervals old @ [(max s a, min e b)],
        sp_weighted_sum = sp_weighted_sum old + conf * overlap_sec s e a b,
        sp_weight = sp_weight old + overlap_sec s e a b\<rparr>"
    have acc': "acc' = dset key new acc"
      using step False by (simp add: add_support_def ab key old_def new_def Let_def)
    have "\<forall>(a, b) \<in> set (sp_intervals old). a < b"
      using supports_ok_lookup[OF ok, of key]
      by (auto simp: old_def no_support_def proper_def split: option.splits)
    then have "proper new" using pos by (auto simp: proper_def new_def)
    moreover have "key_ok key" using key(1) by (rule key_of_ok)
    ultimately have "\<forall>(k, v) \<in> set (dset key new acc). key_ok k \<and> proper v"
      by (intro Ball_dset) (use ok in \<open>auto simp: supports_ok_def\<close>)
    then show ?thesis using ok by (simp add: supports_ok_def acc' distinct_dset)
  qed
qed

lemma supports_ok_fold: "rfold (add_support s e) [] segs = Inr acc \<Longrightarrow> supports_ok acc"
proof (rule rfold_invariant[where P = supports_ok])
  show "supports_ok acc'" if "supports_ok acc" "add_support s e acc seg = Inr acc'" for acc seg acc'
    using that by (rule add_support_ok)
qed (simp_all add: supports_ok_def)

text \<open>What a returned decision is: \<open>decide\<close> on well-formed supports.\<close>

lemma compute_decision_decide:
  assumes "compute_decision v diar source gap_fill = Inr d"
  obtains dur key acc where "supports_ok acc" "d = decide dur key source gap_fill acc" "0 \<le> dur"
    "key_of v = Inr key"
proof -
  from assms obtain s e key segs acc where
    "key_of v = Inr key" "rfold (add_support s e) [] segs = Inr acc"
    "d = decide (max 0 (e - s)) key source gap_fill acc"
    by (auto simp: compute_decision_def res_iff)
  then show thesis by (intro that[of acc "max 0 (e - s)" key]) (simp_all add: supports_ok_fold)
qed

lemma decide_candidates [simp]:
  "dc_candidates (decide dur key src gf acc) = ranked_candidates dur key acc"
  by (simp add: decide_def Let_def split: prod.split)

lemma candidate_key_of [simp]: "candidate_key (candidate_of dur key kv) = fst kv"
  by (cases kv) (simp add: candidate_of_def candidate_key_def)

lemma set_ranked: "set (ranked_candidates dur key acc) = candidate_of dur key ` set acc"
  by (simp add: ranked_candidates_def)

lemma ranked_keys: "mset (map candidate_key (ranked_candidates dur key acc)) = mset (map fst acc)"
  by (simp add: ranked_candidates_def image_mset.compositionality o_def)

lemma ranked_distinct:
  "supports_ok acc \<Longrightarrow> distinct (map candidate_key (ranked_candidates dur key acc))"
  using mset_eq_imp_distinct_iff[OF ranked_keys] by (simp add: supports_ok_def)

lemma selected_iff: "c \<in> set (ranked_candidates dur key acc) \<Longrightarrow> c_selected c \<longleftrightarrow> candidate_key c = key"
  by (auto simp: set_ranked candidate_of_def candidate_key_def)

lemma ranked_rejected_first:
  "sorted_wrt (\<lambda>a b. c_selected b \<longrightarrow> c_selected a) (ranked_candidates dur key acc)"
proof -
  have "sorted (map (candidate_order (raw_metrics acc)) (ranked_candidates dur key acc))"
    by (simp add: ranked_candidates_def)
  then show ?thesis unfolding sorted_map
    by (rule sorted_wrt_mono_rel[rotated]) (auto simp: candidate_order_def less_eq_prod_def)
qed

lemma selected_first:
  "sorted_wrt (\<lambda>a b. P b \<longrightarrow> P a) xs \<Longrightarrow> xs = filter P xs @ filter (\<lambda>x. \<not> P x) xs"
proof (induction xs)
  case (Cons x xs)
  show ?case
  proof (cases "P x")
    case False
    with Cons.prems have "filter P xs = []" by (auto simp: filter_empty_conv)
    with Cons False show ?thesis by simp
  qed (use Cons in simp)
qed simp

text \<open>The metrics of a candidate are those of its support.\<close>

lemma metric_of:
  assumes "supports_ok acc" "(k, v) \<in> set acc"
  shows "metric (raw_metrics acc) k = (covered_sec v, mean_confidence v)"
proof -
  have "map_of (raw_metrics acc) k = Some (covered_sec v, mean_confidence v)"
    using assms by (intro map_of_is_SomeI)
      (auto simp: raw_metrics_def supports_ok_def o_def case_prod_unfold image_iff intro: rev_bexI)
  then show ?thesis by (simp add: metric_def)
qed

lemma metric_candidate:
  assumes "supports_ok acc" "c \<in> set (ranked_candidates dur key acc)"
  shows "c_overlap_sec c = py_round (fst (metric (raw_metrics acc) (candidate_key c))) 3"
    and "c_confidence c = py_round (snd (metric (raw_metrics acc) (candidate_key c))) 6"
proof -
  obtain k v where kv: "(k, v) \<in> set acc" "c = candidate_of dur key (k, v)"
    using assms(2) by (auto simp: set_ranked)
  with metric_of[OF assms(1) kv(1)]
  show "c_overlap_sec c = py_round (fst (metric (raw_metrics acc) (candidate_key c))) 3"
    "c_confidence c = py_round (snd (metric (raw_metrics acc) (candidate_key c))) 6"
    by (simp_all add: candidate_key_def) (simp_all add: candidate_of_def)
qed

lemma ranked_by_overlap:
  assumes "supports_ok acc"
  shows "sorted_wrt (\<lambda>a b. c_selected a = c_selected b \<longrightarrow>
      fst (metric (raw_metrics acc) (candidate_key b)) \<le> fst (metric (raw_metrics acc) (candidate_key a)))
    (ranked_candidates dur key acc)"
proof -
  have "sorted (map (candidate_order (raw_metrics acc)) (ranked_candidates dur key acc))"
    by (simp add: ranked_candidates_def)
  then show ?thesis unfolding sorted_map
    by (rule sorted_wrt_mono_rel[rotated]) (auto simp: candidate_order_def less_eq_prod_def less_imp_le)
qed


lemma dbl_0_le_1 [simp]: "(0 :: dbl) \<le> 1"
  by transfer simp

lemma merge_intervals_total_nonneg:
  "\<forall>(s, e) \<in> set xs. s < e \<Longrightarrow> 0 \<le> total_span (merge_intervals xs)"
  unfolding merge_intervals_def by (rule merge_spans_total_nonneg) (auto intro: less_imp_le)

lemma py_round_1 [simp]: "py_round 1 n = 1"
proof -
  have "rne (10 ^ n) = 10 ^ n" using rne_of_int[of "10 ^ n"] by simp
  then show ?thesis by transfer simp
qed

lemma candidate_bounds:
  assumes "supports_ok acc" "c \<in> set (ranked_candidates dur key acc)"
  shows "c_coverage_ratio c \<le> 1" "1 \<le> c_island_count c" "0 \<le> c_coverage_ratio c"
    "0 \<le> c_overlap_sec c"
proof -
  obtain k v where kv: "(k, v) \<in> set acc" "c = candidate_of dur key (k, v)"
    using assms(2) by (auto simp: set_ranked)
  have "py_round (min 1 x) 6 \<le> 1" for x using py_round_mono[of "min 1 x" 1 6] by simp
  then show "c_coverage_ratio c \<le> 1" by (simp add: kv(2) candidate_of_def less_imp_le)
  have proper: "proper v" using assms(1) kv(1) by (auto simp: supports_ok_def)
  then have cov: "0 \<le> covered_sec v"
    unfolding covered_sec_def proper_def by (intro merge_intervals_total_nonneg) simp
  then show "0 \<le> c_overlap_sec c" by (simp add: kv(2) candidate_of_def py_round_nonneg)
  have "0 \<le> dur" if "EPSILON < dur" using that EPSILON_pos by order
  with cov show "0 \<le> c_coverage_ratio c"
    by (simp add: kv(2) candidate_of_def py_round_nonneg dbl_div_nonneg)
  have "sp_intervals v \<noteq> []" using proper by (simp add: proper_def)
  then have "merge_intervals (sp_intervals v) \<noteq> []" by (simp add: merge_intervals_def)
  then show "1 \<le> c_island_count c"
    by (cases "merge_intervals (sp_intervals v)") (simp_all add: kv(2) candidate_of_def)
qed

text \<open>
  The candidates of a decision have distinct speakers, the one with the entry's own speaker
  (at most one) is marked selected and comes first, the rejected ones follow with overlap not
  increasing, coverage lies between 0 and 1 and every candidate has at least one island.
\<close>

lemma decision_candidates_ranked:
  assumes "compute_decision v diar source gap_fill = Inr d"
  shows "\<exists>key. key_of v = Inr key \<and> distinct (map candidate_key (dc_candidates d)) \<and>
    (\<forall>c \<in> set (dc_candidates d). (c_selected c \<longleftrightarrow> candidate_key c = key) \<and> 0 \<le> c_overlap_sec c \<and>
       0 \<le> c_coverage_ratio c \<and> c_coverage_ratio c \<le> 1 \<and> 1 \<le> c_island_count c) \<and>
    dc_candidates d = filter c_selected (dc_candidates d) @ filter (\<lambda>c. \<not> c_selected c) (dc_candidates d) \<and>
    sorted_wrt (\<lambda>a b. c_overlap_sec b \<le> c_overlap_sec a)
      (filter (\<lambda>c. \<not> c_selected c) (dc_candidates d))"
proof -
  obtain dur key acc where ok: "supports_ok acc" and d: "d = decide dur key source gap_fill acc"
    and key: "key_of v = Inr key" using assms by (rule compute_decision_decide)
  let ?cs = "ranked_candidates dur key acc"
  have "sorted_wrt (\<lambda>a b. c_overlap_sec b \<le> c_overlap_sec a) (filter (\<lambda>c. \<not> c_selected c) ?cs)"
    by (rule sorted_wrt_mono_rel[OF _ sorted_wrt_filter[OF ranked_by_overlap[OF ok]]])
       (auto simp: metric_candidate(1)[OF ok] py_round_mono)
  then show ?thesis
    using key ok ranked_distinct[OF ok] selected_iff selected_first[OF ranked_rejected_first]
      candidate_bounds[OF ok] by (intro exI[of _ key]) (simp add: d)
qed

definition demo_seg :: "int \<Rightarrow> int \<Rightarrow> int \<Rightarrow> json" where
  "demo_seg s e k = JObj [(''start'', JInt s), (''end'', JInt e), (''speaker'', JInt k),
     (''confidence'', JInt 1)]"

definition demo_diar :: json where
  "demo_diar = JArr [demo_seg 0 3 0, demo_seg 3 8 1]"

definition demo_decision :: "decision res" where
  "demo_decision = compute_decision (demo_seg 0 4 0) demo_diar ''asr_exact'' True"

lemma demo_decision_value:
  "rbind demo_decision (\<lambda>d. Inr (dc_reason d, map c_speaker (dc_candidates d)))
     = Inr (''competing_diar_interval_policy'', [0, 1])"
  unfolding demo_decision_def by code_simp

theorem decision_candidates_ranked_witness:
  "\<exists>d. demo_decision = Inr d \<and> map c_speaker (dc_candidates d) = [0, 1] \<and>
     distinct (map candidate_key (dc_candidates d))"
proof -
  obtain d where d: "demo_decision = Inr d" "map c_speaker (dc_candidates d) = [0, 1]"
    using demo_decision_value by (auto simp: res_iff)
  have "distinct (map candidate_key (dc_candidates d))"
    using decision_candidates_ranked[OF d(1)[unfolded demo_decision_def]] by (elim exE conjE)
  with d show ?thesis by (intro exI[of _ d] conjI)
qed

section \<open>Reasons and margins\<close>

lemma filter_hd_least:
  assumes "sorted_wrt R xs" "filter P xs = c # cs" "x \<in> set xs" "P x" "x \<noteq> c"
  shows "R c x"
proof -
  have "sorted_wrt R (c # cs)" using assms(1,2) sorted_wrt_filter by metis
  moreover have "x \<in> set (filter P xs)" using assms(3,4) by simp
  then have "x \<in> set (c # cs)" unfolding assms(2) .
  ultimately show ?thesis using assms(5) by auto
qed

text \<open>
  C6: the reason of a decision says which speakers have support: none of the entry's own
  speaker, only the own speaker (with or without gaps), or own and competing speakers; the
  overlap margin is zero unless there is a competitor, and then it is at most the rounded
  difference to any competitor's overlap.
\<close>

theorem decision_reason_meaning:
  assumes "compute_decision v diar source gap_fill = Inr d"
  shows "(dc_reason d = ''no_diar_support'' \<longleftrightarrow> \<not> list_ex c_selected (dc_candidates d)) \<and>
    (dc_reason d = ''competing_diar_interval_policy'' \<longleftrightarrow>
       list_ex c_selected (dc_candidates d) \<and> \<not> list_all c_selected (dc_candidates d)) \<and>
    (dc_reason d \<noteq> ''competing_diar_interval_policy'' \<longrightarrow>
       dc_overlap_margin d = 0 \<and> dc_confidence_margin d = 0) \<and>
    (\<forall>c \<in> set (dc_candidates d). \<forall>r \<in> set (dc_candidates d). c_selected c \<and> \<not> c_selected r \<longrightarrow>
       (\<exists>oc or. c_overlap_sec c = py_round oc 3 \<and> c_overlap_sec r = py_round or 3 \<and>
          dc_overlap_margin d \<le> py_round (oc - or) 3))"
proof -
  obtain dur key acc where ok: "supports_ok acc" and d: "d = decide dur key source gap_fill acc"
    using assms by (rule compute_decision_decide)
  let ?cs = "ranked_candidates dur key acc" and ?m = "raw_metrics acc"
  have ex: "list_ex c_selected ?cs \<longleftrightarrow> filter c_selected ?cs \<noteq> []"
    by (simp add: list_ex_iff filter_empty_conv)
  have all: "list_all c_selected ?cs \<longleftrightarrow> filter (\<lambda>c. \<not> c_selected c) ?cs = []"
    by (simp add: list_all_iff filter_empty_conv)
  have margin: "dc_overlap_margin d \<le> py_round (fst (metric ?m key) - fst (metric ?m (candidate_key r))) 3"
    if c: "c \<in> set ?cs" "c_selected c" and r: "r \<in> set ?cs" "\<not> c_selected r" for c r
  proof -
    from c obtain c' cs where c': "filter c_selected ?cs = c' # cs"
      by (cases "filter c_selected ?cs") (auto simp: filter_empty_conv)
    from r obtain r' rs where r': "filter (\<lambda>c. \<not> c_selected c) ?cs = r' # rs"
      by (cases "filter (\<lambda>c. \<not> c_selected c) ?cs") (auto simp: filter_empty_conv)
    have "\<not> c_selected r'" using r' by (metis filter_eq_ConsD)
    have "fst (metric ?m (candidate_key r)) \<le> fst (metric ?m (candidate_key r'))"
    proof (cases "r = r'")
      case False
      from filter_hd_least[OF ranked_by_overlap[OF ok] r' r(1) r(2) False] r(2) \<open>\<not> c_selected r'\<close>
      show ?thesis by simp
    qed simp
    then show ?thesis by (simp add: d decide_def c' r' Let_def py_round_mono dbl_diff_mono)
  qed
  have "\<exists>oc or. c_overlap_sec c = py_round oc 3 \<and> c_overlap_sec r = py_round or 3 \<and>
      dc_overlap_margin d \<le> py_round (oc - or) 3"
    if c: "c \<in> set ?cs" "c_selected c" and r: "r \<in> set ?cs" "\<not> c_selected r" for c r
    using margin[OF c r] metric_candidate(1)[OF ok c(1)] metric_candidate(1)[OF ok r(1)]
      selected_iff[OF c(1)] c(2) by auto
  then show ?thesis
    unfolding d decide_candidates ex all
    by (auto simp: decide_def sole_reason_def Let_def d split: list.split)
qed

theorem decision_reason_meaning_witness:
  "\<exists>d. demo_decision = Inr d \<and> dc_reason d = ''competing_diar_interval_policy'' \<and>
     list_ex c_selected (dc_candidates d)"
proof -
  obtain d where d: "demo_decision = Inr d" "dc_reason d = ''competing_diar_interval_policy''"
    using demo_decision_value by (auto simp: res_iff)
  from decision_reason_meaning[OF d(1)[unfolded demo_decision_def]] d show ?thesis by blast
qed

section \<open>Reading a decision back\<close>

lemma dc_margins_rounded:
  "py_round (dc_overlap_margin (decide dur key src gf acc)) 3 = dc_overlap_margin (decide dur key src gf acc)"
  "py_round (dc_confidence_margin (decide dur key src gf acc)) 6
     = dc_confidence_margin (decide dur key src gf acc)"
  by (simp_all add: decide_def Let_def split: prod.split)

lemma normalize_candidate_json:
  assumes "key_ok k"
  shows "normalize_candidate (candidate_json (candidate_of dur key (k, v))) = Inr (candidate_of dur key (k, v))"
proof (cases "snd k")
  case None
  then show ?thesis
    by (simp add: normalize_candidate_def candidate_json_def candidate_of_def int_get_def rounded_get_def
      id_get_def dget_def normalized_speaker_id_def)
next
  case (Some i)
  with assms have "i \<noteq> []" by (simp add: key_ok_def)
  with Some show ?thesis
    by (simp add: normalize_candidate_def candidate_json_def candidate_of_def int_get_def rounded_get_def
      id_get_def dget_def normalized_speaker_id_def)
qed

lemma normalize_ranked:
  assumes "supports_ok acc"
  shows "rmap normalize_candidate (map candidate_json (ranked_candidates dur key acc))
    = Inr (ranked_candidates dur key acc)"
proof -
  have "normalize_candidate (candidate_json c) = Inr c" if "c \<in> set (ranked_candidates dur key acc)" for c
    using that assms by (auto simp: set_ranked supports_ok_def normalize_candidate_json)
  then have "rmap normalize_candidate (map candidate_json cs) = Inr cs"
    if "set cs \<subseteq> set (ranked_candidates dur key acc)" for cs
    using that by (induction cs) simp_all
  then show ?thesis by simp
qed

lemma normalize_decide:
  assumes "supports_ok acc"
  shows "normalize_runtime_decision (decision_json (decide dur key src gf acc)) = Inr (decide dur key src gf acc)"
proof -
  let ?d = "decide dur key src gf acc"
  have "normalize_runtime_decision (decision_json ?d) = Inr \<lparr>dc_speaker_source = dc_speaker_source ?d,
      dc_projection_source = dc_projection_source ?d, dc_reason = dc_reason ?d,
      dc_overlap_margin = dc_overlap_margin ?d, dc_confidence_margin = dc_confidence_margin ?d,
      dc_candidates = dc_candidates ?d\<rparr>"
    by (simp add: normalize_runtime_decision_def decision_json_def str_get_def rounded_get_def
      dc_margins_rounded normalize_ranked[OF assms])
  then show ?thesis by simp
qed

lemma TIMELINE_QUANTUM_pos [simp]: "0 < TIMELINE_QUANTUM_SEC"
  by (simp add: TIMELINE_QUANTUM_SEC_def)

lemma quantum_nonneg [simp]: "0 \<le> TIMELINE_QUANTUM_SEC"
  using TIMELINE_QUANTUM_pos by (rule less_imp_le)

lemma overlap_error_nonneg: "0 \<le> c_island_count c \<Longrightarrow> 0 \<le> overlap_error_bound c"
proof -
  assume "0 \<le> c_island_count c"
  then have "of_pyint 0 \<le> of_pyint (c_island_count c + 1)" by (intro of_pyint_mono) simp
  moreover have "of_pyint 0 = 0" by transfer simp
  ultimately show ?thesis by (simp add: overlap_error_bound_def dbl_mult_nonneg)
qed

lemma coverage_error_nonneg:
  "0 \<le> c_island_count c \<Longrightarrow> 0 \<le> c_coverage_ratio c \<Longrightarrow> 0 \<le> coverage_error_bound c dur"
  unfolding coverage_error_bound_def
  by (intro dbl_add_nonneg dbl_div_nonneg dbl_mult_nonneg overlap_error_nonneg) (auto simp: le_max_iff_disj)

lemma zip_deltas_self:
  "zip (deltas f d d) (dc_candidates d) = map (\<lambda>c. (0, c)) (dc_candidates d)"
  "deltas f d d = map (\<lambda>c. 0) (dc_candidates d)"
proof -
  show self: "deltas f d d = map (\<lambda>c. 0) (dc_candidates d)"
    by (simp add: deltas_def zip_same_conv_map o_def)
  show "zip (deltas f d d) (dc_candidates d) = map (\<lambda>c. (0, c)) (dc_candidates d)"
    unfolding self by (induction "dc_candidates d" arbitrary: d) (simp_all add: zip_map1 zip_same_conv_map o_def)
qed

text \<open>
  C7: a replayed decision survives the round trip through JSON, and the comparison accepts it as
  an exact match, whatever the duration.
\<close>

theorem decision_roundtrip:
  assumes "compute_decision v diar source gap_fill = Inr d"
  shows "normalize_runtime_decision (decision_json d) = Inr d \<and>
    compare_runtime_decision d d duration = (True, True)"
proof -
  obtain dur key acc where ok: "supports_ok acc" and d: "d = decide dur key source gap_fill acc"
    using assms by (rule compute_decision_decide)
  have bounds: "0 \<le> overlap_error_bound c" "0 \<le> coverage_error_bound c duration"
    if "c \<in> set (dc_candidates d)" for c
    using candidate_bounds[OF ok, of c dur key] that
    by (simp_all add: d overlap_error_nonneg coverage_error_nonneg)
  have "0 \<le> py_sum (map overlap_error_bound (take 2 (dc_candidates d)))"
    using bounds(1) by (intro py_sum_nonneg) (auto simp: list_all_iff dest: in_set_takeD)
  moreover have "0 \<le> LEGACY_CANDIDATE_CONFIDENCE_ERROR" "0 \<le> LEGACY_MARGIN_CONFIDENCE_ERROR"
    by (simp_all add: LEGACY_CANDIDATE_CONFIDENCE_ERROR_def LEGACY_MARGIN_CONFIDENCE_ERROR_def)
  moreover have "list_all (\<lambda>c. 0 \<le> overlap_error_bound c \<and> 0 \<le> coverage_error_bound c duration) (dc_candidates d)"
    using bounds by (simp add: list_all_iff)
  ultimately have "compare_runtime_decision d d duration = (True, True)"
    by (simp add: compare_runtime_decision_def zip_deltas_self(1) Let_def list_all_iff)
      (simp add: zip_deltas_self(2))
  then show ?thesis by (simp add: d normalize_decide[OF ok])
qed

theorem decision_roundtrip_witness:
  "\<exists>d. demo_decision = Inr d \<and> normalize_runtime_decision (decision_json d) = Inr d \<and>
     compare_runtime_decision d d (D 4) = (True, True)"
proof -
  obtain d where d: "demo_decision = Inr d" using demo_decision_value by (auto simp: res_iff)
  from decision_roundtrip[OF d[unfolded demo_decision_def], of "D 4"] d show ?thesis by blast
qed

section \<open>Overlap between speakers\<close>

text \<open>All pairs of an entry and a later one that starts before it ends, without leaving early.\<close>

fun all_crossings :: "raw_seg list \<Rightarrow> (dbl \<times> span) list" where
  "all_crossings [] = []"
| "all_crossings (l # rest) =
     List.map_filter (crossing l) (filter (\<lambda>r. \<not> fst (snd l) - EPSILON \<le> fst r) rest)
     @ all_crossings rest"

lemma takeWhile_filter_sorted:
  "sorted (map f xs) \<Longrightarrow> takeWhile (\<lambda>x. \<not> (c :: dbl) \<le> f x) xs = filter (\<lambda>x. \<not> c \<le> f x) xs"
proof (induction xs)
  case (Cons x xs)
  have "filter (\<lambda>x. \<not> c \<le> f x) xs = []" if "c \<le> f x"
    using Cons.prems that by (auto simp: filter_empty_conv intro: order_trans)
  with Cons show ?case by simp
qed simp

lemma crossings_complete: "sorted (map fst segs) \<Longrightarrow> crossings segs = all_crossings segs"
  by (induction segs) (auto simp: takeWhile_filter_sorted)

lemma crossing_positive: "crossing l r = Some x \<Longrightarrow> EPSILON < fst x \<and> fst (snd x) < snd (snd x)"
proof -
  assume c: "crossing l r = Some x"
  obtain ls le lk rs re rk where lr: "l = (ls, le, lk)" "r = (rs, re, rk)" by (metis prod_cases3)
  have "EPSILON < overlap_sec ls le rs re" "x = (overlap_sec ls le rs re, (max ls rs, min le re))"
    using c by (auto simp: lr crossing_def Let_def split: if_splits)
  moreover from this have "0 < overlap_sec ls le rs re" using EPSILON_pos by order
  ultimately show ?thesis using overlap_positive[of ls le rs re] by simp
qed

lemma all_crossings_positive:
  "x \<in> set (all_crossings segs) \<Longrightarrow> EPSILON < fst x \<and> fst (snd x) < snd (snd x)"
  by (induction segs) (auto simp: set_map_filter_iff dest: crossing_positive)

lemma foldl_add_nonneg: "(0 :: dbl) \<le> a \<Longrightarrow> list_all (\<lambda>x. 0 \<le> x) xs \<Longrightarrow> 0 \<le> foldl (+) a xs"
  by (induction xs arbitrary: a) (simp_all add: dbl_add_nonneg)

text \<open>
  On the sorted track, leaving the inner loop at the first entry that starts after the
  current one ends misses no pair; each reported pair contributes more than \<open>EPSILON\<close>, and the
  totals are non-negative.
\<close>

lemma raw_overlap_complete:
  assumes "raw_overlap_summary diar = Inr ov"
  shows "\<exists>segs. rmap raw_seg_of diar = Inr segs \<and>
    os_pair_count ov = length (all_crossings (sort segs)) \<and>
    list_all (\<lambda>x. EPSILON < fst x) (all_crossings (sort segs)) \<and>
    0 \<le> os_pair_overlap ov \<and> 0 \<le> os_contested ov"
proof -
  obtain segs where segs: "rmap raw_seg_of diar = Inr segs" using assms by (auto simp: raw_overlap_summary_def res_iff)
  let ?cs = "all_crossings (sort segs)"
  have "sorted (map fst (sort segs))"
    by (rule sorted_map_weaken[of "\<lambda>x. x"]) (auto simp: less_eq_prod_def)
  then have cs: "crossings (sort segs) = ?cs" by (rule crossings_complete)
  have pos: "EPSILON < fst x" "fst (snd x) < snd (snd x)" if "x \<in> set ?cs" for x
    using all_crossings_positive[OF that] by simp_all
  have amount: "0 \<le> fst x" if "x \<in> set ?cs" for x using pos(1)[OF that] EPSILON_pos by order
  then have "list_all (\<lambda>x. 0 \<le> x) (map fst ?cs)" unfolding list_all_iff set_map by blast
  then have "0 \<le> foldl (+) 0 (map fst ?cs)" by (rule foldl_add_nonneg[OF order_refl])
  moreover have "0 \<le> total_span (merge_intervals (map snd ?cs))"
  proof -
    have "\<forall>(s, e) \<in> set (map snd ?cs). s < e" using pos(2) by auto
    then show ?thesis by (rule merge_intervals_total_nonneg)
  qed
  moreover have "list_all (\<lambda>x. EPSILON < fst x) ?cs" unfolding list_all_iff using pos(1) by blast
  moreover have "ov = \<lparr>os_pair_count = length ?cs, os_pair_overlap = py_round (foldl (+) 0 (map fst ?cs)) 3,
      os_contested = py_round (total_span (merge_intervals (map snd ?cs))) 3\<rparr>"
    using assms by (simp only: raw_overlap_summary_def segs rbind_simps cs Let_def sum.inject)
  ultimately show ?thesis by (intro exI[of _ segs] conjI) (simp_all only: segs overlap_summary.simps py_round_nonneg)
qed

theorem raw_overlap_complete_witness:
  "\<exists>ov. raw_overlap_summary [demo_seg 0 3 0, demo_seg 2 8 1] = Inr ov \<and> os_pair_count ov = 1 \<and>
     0 \<le> os_contested ov"
proof -
  have "rbind (raw_overlap_summary [demo_seg 0 3 0, demo_seg 2 8 1]) (\<lambda>ov. Inr (os_pair_count ov)) = Inr 1"
    by code_simp
  then obtain ov where ov: "raw_overlap_summary [demo_seg 0 3 0, demo_seg 2 8 1] = Inr ov" "os_pair_count ov = 1"
    by (auto simp: res_iff)
  from raw_overlap_complete[OF ov(1)] ov show ?thesis by blast
qed

section \<open>The report\<close>

definition within_bounds :: "decision \<Rightarrow> decision \<Rightarrow> dbl \<Rightarrow> bool" where
  "within_bounds r d duration =
    (dc_speaker_source r = dc_speaker_source d \<and> dc_projection_source r = dc_projection_source d \<and>
     dc_reason r = dc_reason d \<and>
     map (\<lambda>c. (c_speaker c, c_island_count c, c_selected c, c_speaker_id c)) (dc_candidates r) =
       map (\<lambda>c. (c_speaker c, c_island_count c, c_selected c, c_speaker_id c)) (dc_candidates d) \<and>
     list_all2 (\<lambda>x c. \<bar>c_confidence x - c_confidence c\<bar> \<le> LEGACY_CANDIDATE_CONFIDENCE_ERROR \<and>
         \<bar>c_overlap_sec x - c_overlap_sec c\<bar> \<le> overlap_error_bound c \<and>
         \<bar>c_coverage_ratio x - c_coverage_ratio c\<bar> \<le> coverage_error_bound c duration)
       (dc_candidates r) (dc_candidates d) \<and>
     \<bar>dc_confidence_margin r - dc_confidence_margin d\<bar> \<le> LEGACY_MARGIN_CONFIDENCE_ERROR \<and>
     \<bar>dc_overlap_margin r - dc_overlap_margin d\<bar> \<le>
       py_sum (map overlap_error_bound (take 2 (dc_candidates d))))"

definition accepted :: "json \<Rightarrow> bool \<Rightarrow> nat \<Rightarrow> json \<Rightarrow> string \<Rightarrow> ev_row \<times> bool option \<Rightarrow> bool" where
  "accepted diar gap_fill index v source = (\<lambda>(row, match). er_index row = index \<and>
     compute_decision v diar source gap_fill = Inr (er_decision row) \<and>
     float_item v ''start'' = Inr (er_start row) \<and> float_item v ''end'' = Inr (er_end row) \<and>
     (match = None \<longleftrightarrow> vget v ''speaker_decision'' JNull = Inr JNull) \<and>
     (match \<noteq> None \<longrightarrow> (\<exists>runtime r. vget v ''speaker_decision'' JNull = Inr runtime \<and>
        normalize_runtime_decision runtime = Inr r \<and>
        within_bounds r (er_decision row) (er_end row - er_start row))))"

lemma compare_within_bounds:
  assumes "compare_runtime_decision r d duration = (True, exact)"
  shows "within_bounds r d duration"
proof -
  let ?cs = "dc_candidates r" and ?ds = "dc_candidates d"
  from assms have eq: "decision_structure r = decision_structure d" "length ?cs = length ?ds"
    by (auto simp: compare_runtime_decision_def split: if_splits)
  with assms have all: "list_all (\<lambda>x. x \<le> LEGACY_CANDIDATE_CONFIDENCE_ERROR) (deltas c_confidence r d)"
    "list_all (\<lambda>(x, c). x \<le> overlap_error_bound c) (zip (deltas c_overlap_sec r d) ?ds)"
    "list_all (\<lambda>(x, c). x \<le> coverage_error_bound c duration) (zip (deltas c_coverage_ratio r d) ?ds)"
    "\<bar>dc_confidence_margin r - dc_confidence_margin d\<bar> \<le> LEGACY_MARGIN_CONFIDENCE_ERROR"
    "\<bar>dc_overlap_margin r - dc_overlap_margin d\<bar> \<le>
       py_sum (map overlap_error_bound (take 2 ?ds))"
    by (simp_all add: compare_runtime_decision_def Let_def)
  have "list_all2 (\<lambda>x c. \<bar>c_confidence x - c_confidence c\<bar> \<le> LEGACY_CANDIDATE_CONFIDENCE_ERROR \<and>
         \<bar>c_overlap_sec x - c_overlap_sec c\<bar> \<le> overlap_error_bound c \<and>
         \<bar>c_coverage_ratio x - c_coverage_ratio c\<bar> \<le> coverage_error_bound c duration) ?cs ?ds"
    using all(1,2,3) eq(2) by (simp add: list_all2_conv_all_nth list_all_length deltas_def)
  moreover have "dc_speaker_source r = dc_speaker_source d" "dc_projection_source r = dc_projection_source d"
    "dc_reason r = dc_reason d"
    "map (\<lambda>c. (c_speaker c, c_island_count c, c_selected c, c_speaker_id c)) ?cs =
     map (\<lambda>c. (c_speaker c, c_island_count c, c_selected c, c_speaker_id c)) ?ds"
    using eq(1) by (simp_all add: decision_structure_def candidate_structure_def[abs_def])
  ultimately show ?thesis using all(4,5) by (simp only: within_bounds_def)
qed

lemma row_of_fields: "row_of i v d = Inr r \<Longrightarrow> er_index r = i \<and> er_decision r = d \<and>
    float_item v ''start'' = Inr (er_start r) \<and> float_item v ''end'' = Inr (er_end r)"
  by (auto simp: row_of_def res_iff)

lemma build_row_accepted: "build_row diar gf i v s = Inr r \<Longrightarrow> accepted diar gf i v s r"
proof -
  assume b: "build_row diar gf i v s = Inr r"
  then obtain d runtime where d: "compute_decision v diar s gf = Inr d"
    and rt: "vget v ''speaker_decision'' JNull = Inr runtime"
    by (auto simp: build_row_def res_iff)
  show ?thesis
  proof (cases "runtime = JNull")
    case True
    with b d rt obtain row where "row_of i v d = Inr row" "r = (row, None)"
      by (auto simp: build_row_def res_iff)
    with rt True d show ?thesis by (simp add: accepted_def row_of_fields)
  next
    case False
    with b d rt obtain n b e exact row where n: "normalize_runtime_decision runtime = Inr n"
      "float_item v ''start'' = Inr b" "float_item v ''end'' = Inr e"
      "compare_runtime_decision n d (e - b) = (True, exact)" "row_of i v d = Inr row" "r = (row, Some exact)"
      by (auto simp: build_row_def res_iff case_prod_unfold prod_eq_iff)
    from row_of_fields[OF n(5)] n(2,3) have row: "er_index row = i" "er_decision row = d"
      "er_start row = b" "er_end row = e" by simp_all
    have "within_bounds n d (e - b)" using n(4) by (rule compare_within_bounds)
    with rt False n d row show ?thesis by (simp add: accepted_def)
  qed
qed

lemma build_rows_accepted:
  "length ss = length vs \<Longrightarrow> build_rows diar gf i vs ss = Inr rows \<Longrightarrow>
   length rows = length vs \<and> (\<forall>k < length vs. accepted diar gf (i + k) (vs ! k) (ss ! k) (rows ! k))"
proof (induction vs arbitrary: i ss rows)
  case (Cons v vs)
  then obtain s ss' where ss: "ss = s # ss'" by (cases ss) auto
  with Cons.prems obtain r rs where r: "build_row diar gf i v s = Inr r"
    "build_rows diar gf (Suc i) vs ss' = Inr rs" "rows = r # rs" by (auto simp: res_iff)
  with Cons.IH[of ss' "Suc i" rs] Cons.prems ss have ih: "length rs = length vs"
    "\<forall>k < length vs. accepted diar gf (Suc i + k) (vs ! k) (ss' ! k) (rs ! k)" by auto
  have "accepted diar gf (i + k) ((v # vs) ! k) (ss ! k) ((r # rs) ! k)" if "k < length (v # vs)" for k
    using that ih build_row_accepted[OF r(1)] ss by (cases k) auto
  with ih r show ?case by auto
qed simp

lemma projection_length: "infer_projection_sources b a g = Inr ss \<Longrightarrow> py_iter b = Inr bs \<Longrightarrow> length ss = length bs"
  by (auto simp: infer_projection_sources_def res_iff dest!: list_all2_lengthD)

lemma track_of_map: "track_of ts k = Inr v \<Longrightarrow> map_of ts k = Some v"
  by (auto simp: track_of_def ditem_def split: option.splits)

text \<open>
  C8: a report that is produced has one row per business entry, in order. The decision of a row is
  the one replayed from its entry, the diarization track, the projection source inferred for the
  entry and the gap filling of the configuration; and where the runtime recorded a decision, it
  names the same source, reason and candidates as that replay, with every number within its
  quantisation bound. The report says that all decisions were replayed only if every entry
  recorded one.
\<close>

theorem evidence_accepts_only_matches:
  assumes "build_evidence path digest package = Inr doc"
  shows "\<exists>t ts diar business asr align sources gap_fill entries rows.
    timeline_from package = Inr t \<and> tracks_by_kind t = Inr ts \<and>
    map_of ts ''diarization'' = Some diar \<and> map_of ts ''business_speaker'' = Some business \<and>
    map_of ts ''asr'' = Some asr \<and> map_of ts ''align'' = Some align \<and>
    infer_projection_sources business asr align = Inr sources \<and>
    gap_fill_enabled t = Inr gap_fill \<and> py_iter business = Inr entries \<and>
    length sources = length entries \<and> length rows = length entries \<and>
    (\<forall>k < length entries. accepted diar gap_fill k (entries ! k) (sources ! k) (rows ! k)) \<and>
    get doc ''business_entry_count'' = JInt (int (length entries)) \<and>
    get doc ''entries'' = JArr (map (row_json \<circ> fst) rows) \<and>
    (get doc ''runtime_replay_match'' = JBool True \<longleftrightarrow> None \<notin> set (map snd rows))"
proof -
  from assms obtain t ts diar business asr align sources gf entries rows audio n segs ov where
    t: "timeline_from package = Inr t" "tracks_by_kind t = Inr ts"
    and tracks: "track_of ts ''diarization'' = Inr diar" "track_of ts ''business_speaker'' = Inr business"
      "track_of ts ''asr'' = Inr asr" "track_of ts ''align'' = Inr align"
    and entries: "py_iter business = Inr entries" and gf: "gap_fill_enabled t = Inr gf"
    and sources: "infer_projection_sources business asr align = Inr sources"
    and rows: "build_rows diar gf 0 entries sources = Inr rows"
    and doc: "doc = report_json path digest audio rows (nat n) ov"
    unfolding build_evidence_def res_iff by blast
  have len: "length sources = length entries" using sources entries by (rule projection_length)
  from build_rows_accepted[OF this rows] have acc: "length rows = length entries"
    "\<forall>k < length entries. accepted diar gf k (entries ! k) (sources ! k) (rows ! k)" by simp_all
  have "length (filter (\<lambda>m. m \<noteq> None) (map snd rows)) = length rows \<longleftrightarrow> None \<notin> set (map snd rows)"
    by (metis (mono_tags, lifting) filter_True length_filter_less length_map nat_neq_iff)
  then have "get doc ''runtime_replay_match'' = JBool True \<longleftrightarrow> None \<notin> set (map snd rows)"
    "get doc ''business_entry_count'' = JInt (int (length entries))"
    "get doc ''entries'' = JArr (map (row_json \<circ> fst) rows)"
    using acc(1) by (simp_all add: doc report_json_def Let_def)
  with t tracks[THEN track_of_map] sources gf entries len acc show ?thesis by blast
qed

definition demo_track :: "string \<Rightarrow> json list \<Rightarrow> json" where
  "demo_track kind es = JObj [(''kind'', JStr kind), (''entries'', JArr es)]"

definition demo_package :: json where
  "demo_package = JObj [(''tracks'', JArr [demo_track ''diarization'' [], demo_track ''asr'' [],
     demo_track ''align'' [], demo_track ''business_speaker'' [demo_seg 0 4 0]])]"

theorem evidence_accepts_only_matches_witness:
  "\<exists>doc. build_evidence ''/t.json'' ''0'' demo_package = Inr doc \<and>
     get doc ''business_entry_count'' = JInt 1 \<and> get doc ''runtime_replay_match'' = JBool False"
proof -
  have "rbind (build_evidence ''/t.json'' ''0'' demo_package)
      (\<lambda>doc. Inr (get doc ''business_entry_count'', get doc ''runtime_replay_match''))
      = Inr (JInt 1, JBool False)" by code_simp
  then obtain doc where doc: "build_evidence ''/t.json'' ''0'' demo_package = Inr doc"
    "get doc ''business_entry_count'' = JInt 1" "get doc ''runtime_replay_match'' = JBool False"
    by (auto simp: res_iff)
  from evidence_accepts_only_matches[OF doc(1)] doc show ?thesis by blast
qed

end
