(* ===== verification/Py_Json.thy ===== *)
theory Py_Json
  imports Py_Value
begin

text \<open>
  \<^verbatim>\<open>json.dumps(v, ensure_ascii=False)\<close> with given separators, and with \<^verbatim>\<open>sort_keys=True\<close>;
  the tools hash this text or compare it.
\<close>

definition json_char :: "char \<Rightarrow> string" where
  "json_char c =
    (if c = CHR 0x22 \<or> c = CHR 0x5C then [CHR 0x5C, c]
     else if c = CHR 0x0A then [CHR 0x5C, CHR ''n'']
     else if c = CHR 0x0D then [CHR 0x5C, CHR ''r'']
     else if c = CHR 0x09 then [CHR 0x5C, CHR ''t'']
     else if c = CHR 0x08 then [CHR 0x5C, CHR ''b'']
     else if c = CHR 0x0C then [CHR 0x5C, CHR ''f'']
     else let n = of_char c :: nat in
       if n < 32 then [CHR 0x5C, CHR ''u'', CHR ''0'', CHR ''0'', hex_digit (n div 16), hex_digit (n mod 16)]
       else [c])"

definition json_string :: "string \<Rightarrow> string" where
  "json_string s = [CHR 0x22] @ concat (map json_char s) @ [CHR 0x22]"

fun json_text :: "string \<Rightarrow> string \<Rightarrow> json \<Rightarrow> string" where
  "json_text isep ksep JNull = ''null''"
| "json_text isep ksep (JBool b) = (if b then ''true'' else ''false'')"
| "json_text isep ksep (JInt n) = int_repr n"
| "json_text isep ksep (JFlt x) = float_repr x"
| "json_text isep ksep (JNonFin i) =
     (case i of PosInf \<Rightarrow> ''Infinity'' | NegInf \<Rightarrow> ''-Infinity'' | NaN \<Rightarrow> ''NaN'')"
| "json_text isep ksep (JStr s) = json_string s"
| "json_text isep ksep (JArr xs) = ''['' @ join_with isep (map (json_text isep ksep) xs) @ '']''"
| "json_text isep ksep (JObj d) =
     ''{'' @ join_with isep (map (\<lambda>(k, v). json_string k @ ksep @ json_text isep ksep v) d) @ ''}''"

fun sort_keys :: "json \<Rightarrow> json" where
  "sort_keys (JArr xs) = JArr (map sort_keys xs)"
| "sort_keys (JObj d) = JObj (sort_key fst (map (\<lambda>(k, v). (k, sort_keys v)) d))"
| "sort_keys v = v"

text \<open>\<^verbatim>\<open>dumps(v, sort_keys=True, separators=(",", ":"))\<close> and \<^verbatim>\<open>dumps(v, sort_keys=True)\<close>.\<close>

definition canonical_text :: "json \<Rightarrow> string" where
  "canonical_text v = json_text '','' '':'' (sort_keys v)"

definition sorted_text :: "json \<Rightarrow> string" where
  "sorted_text v = json_text '', '' '': '' (sort_keys v)"

end
