(* ===== verification/Closing_Ledger.thy ===== *)
theory Closing_Ledger
  imports Spans Py_Json
begin

text \<open>
  \<^verbatim>\<open>tools/verify/py/closing_ledger.py\<close>, reference side: parsing the reference transcript,
  \<^verbatim>\<open>init-reference\<close> and the validation of a ledger.
\<close>

section \<open>Environment\<close>

text \<open>
  What the tool takes from outside: SHA-256 (of a text and of a file), the lines of a text
  file, \<^verbatim>\<open>ffprobe\<close>'s duration, the clock, and the prefix of the transcript's credit lines (a
  literal of characters beyond the 256 code points of the model).
\<close>

record ledger_env =
  env_sha256 :: "string \<Rightarrow> string"
  env_file_sha :: "json \<Rightarrow> string res"
  env_file_lines :: "json \<Rightarrow> string list res"
  env_audio_duration :: "string \<Rightarrow> dbl res"
  env_now :: string
  env_credit_prefix :: string

definition EXPECTED_REFERENCE_ENTRIES :: nat where "EXPECTED_REFERENCE_ENTRIES = 556"

definition is_finite_number :: "json \<Rightarrow> rat option" where
  "is_finite_number v = (case v of JInt n \<Rightarrow> Some (of_int n) | JFlt x \<Rightarrow> Some (val x) | _ \<Rightarrow> None)"

definition content_sha256 :: "ledger_env \<Rightarrow> obj \<Rightarrow> string" where
  "content_sha256 env d = env_sha256 env (canonical_text (JObj (dpop ''content_sha256'' d)))"

text \<open>The value \<^verbatim>\<open>write_json\<close> writes.\<close>

definition signed :: "ledger_env \<Rightarrow> obj \<Rightarrow> obj" where
  "signed env d = dset ''content_sha256'' (JStr (content_sha256 env d)) d"

section \<open>The reference transcript\<close>

record ref_row =
  rr_line :: nat
  rr_timestamp :: string
  rr_start :: int
  rr_speaker :: string
  rr_text_lines :: "string list"

text \<open>
  \<^verbatim>\<open>TIMESTAMP_RE\<close> on a stripped line: the time and the speaker.  The line ends with a
  non-space, so the lazy group runs to its end.
\<close>

fun two_digits :: "string \<Rightarrow> (string \<times> string) option" where
  "two_digits (a # b # rest) = (if is_digit a \<and> is_digit b then Some ([a, b], rest) else None)"
| "two_digits _ = None"

definition colon :: "string \<Rightarrow> string option" where
  "colon s = (case s of c # rest \<Rightarrow> if c = CHR '':'' then Some rest else None | [] \<Rightarrow> None)"

definition timestamp_match :: "string \<Rightarrow> (string \<times> string \<times> string \<times> string) option" where
  "timestamp_match line =
    (case two_digits line of None \<Rightarrow> None | Some (h, r1) \<Rightarrow>
     case colon r1 of None \<Rightarrow> None | Some r2 \<Rightarrow>
     case two_digits r2 of None \<Rightarrow> None | Some (m, r3) \<Rightarrow>
     case colon r3 of None \<Rightarrow> None | Some r4 \<Rightarrow>
     case two_digits r4 of None \<Rightarrow> None | Some (s, r5) \<Rightarrow>
       let speaker = dropWhile is_space r5 in
       if speaker = r5 \<or> speaker = [] then None else Some (h, m, s, speaker))"

definition start_row :: "nat \<Rightarrow> string \<times> string \<times> string \<times> string \<Rightarrow> ref_row" where
  "start_row n = (\<lambda>(h, m, s, speaker).
     \<lparr>rr_line = n, rr_timestamp = h @ '':'' @ m @ '':'' @ s,
      rr_start = digits_val h * 3600 + digits_val m * 60 + digits_val s,
      rr_speaker = strip speaker, rr_text_lines = []\<rparr>)"

definition starts_with :: "string \<Rightarrow> string \<Rightarrow> bool" where
  "starts_with p s \<longleftrightarrow> take (length p) s = p"

definition flush :: "ref_row list \<times> ref_row option \<Rightarrow> ref_row list" where
  "flush = (\<lambda>(rows, current). rows @ (case current of Some r \<Rightarrow> [r] | None \<Rightarrow> []))"

definition read_line ::
  "string \<Rightarrow> ref_row list \<times> ref_row option \<Rightarrow> nat \<times> string \<Rightarrow> ref_row list \<times> ref_row option" where
  "read_line credit st = (\<lambda>(n, raw). let line = strip raw in
     case timestamp_match line of
       Some g \<Rightarrow> (flush st, Some (start_row n g))
     | None \<Rightarrow> (case snd st of
         Some r \<Rightarrow> if line \<noteq> [] \<and> \<not> starts_with credit line
           then (fst st, Some (r\<lparr>rr_text_lines := rr_text_lines r @ [line]\<rparr>)) else st
       | None \<Rightarrow> st))"

definition reference_rows :: "string \<Rightarrow> string list \<Rightarrow> ref_row list" where
  "reference_rows credit lines = flush (foldl (read_line credit) ([], None) (enumerate 1 lines))"

definition ref_id :: "nat \<Rightarrow> string" where
  "ref_id index = ''ref-'' @ zero_pad 4 (int index + 1)"

definition source_fields :: "ref_row \<Rightarrow> dbl \<Rightarrow> obj" where
  "source_fields r end =
    [(''source_line'', JInt (int (rr_line r))), (''source_timestamp'', JStr (rr_timestamp r)),
     (''source_start_sec'', JFlt (of_pyint (rr_start r))), (''source_speaker'', JStr (rr_speaker r)),
     (''source_text'', JStr (concat (rr_text_lines r))), (''provisional_end_sec'', JFlt end)]"

definition fresh_adjudication :: "string \<Rightarrow> json" where
  "fresh_adjudication speaker = JObj
    [(''audible_start_sec'', JNull), (''audible_end_sec'', JNull), (''overlap_participants'', JArr []),
     (''overlap_intervals'', JArr []), (''criticality'', JStr ''unreviewed''),
     (''ambiguity'', JStr ''unreviewed''), (''canonical_speaker'', JStr speaker),
     (''acceptable_speakers'', JArr [JStr speaker]), (''acceptable_semantic_equivalents'', JArr []),
     (''context_summary'', JStr []), (''notes'', JStr []), (''reviewer'', JStr []),
     (''adjudicated_utc'', JNull)]"

definition reference_entry :: "ledger_env \<Rightarrow> nat \<Rightarrow> ref_row \<Rightarrow> dbl \<Rightarrow> obj" where
  "reference_entry env index r end =
    [(''reference_id'', JStr (ref_id index))] @ source_fields r end @
    [(''source_sha256'', JStr (env_sha256 env (canonical_text (JObj (source_fields r end))))),
     (''adjudication'', fresh_adjudication (rr_speaker r))]"

text \<open>An entry provisionally ends where the next one starts, the last one with the audio.\<close>

fun reference_entries :: "ledger_env \<Rightarrow> dbl \<Rightarrow> nat \<Rightarrow> ref_row list \<Rightarrow> obj list" where
  "reference_entries env final_end i [] = []"
| "reference_entries env final_end i (r # rs) =
     reference_entry env i r (case rs of [] \<Rightarrow> final_end | q # _ \<Rightarrow> of_pyint (rr_start q))
     # reference_entries env final_end (Suc i) rs"

definition parse_reference :: "ledger_env \<Rightarrow> json \<Rightarrow> dbl \<Rightarrow> obj list res" where
  "parse_reference env path final_end = rbind (env_file_lines env path) (\<lambda>lines.
     Inr (reference_entries env final_end 0 (reference_rows (env_credit_prefix env) lines)))"

section \<open>init-reference\<close>

record init_args =
  ia_reference :: string
  ia_audio :: string
  ia_audio_sec :: "dbl option"
  ia_expected :: int

definition ledger_document ::
  "ledger_env \<Rightarrow> init_args \<Rightarrow> dbl \<Rightarrow> string \<Rightarrow> string \<Rightarrow> obj list \<Rightarrow> obj" where
  "ledger_document env args duration ref_sha audio_sha entries =
    [(''schema_version'', JInt 2), (''kind'', JStr ''orator_reference_ledger''),
     (''created_utc'', JStr (env_now env)),
     (''reference'', JObj [(''path'', JStr (ia_reference args)), (''sha256'', JStr ref_sha),
        (''entry_count'', JInt (int (length entries)))]),
     (''audio'', JObj [(''path'', JStr (ia_audio args)), (''sha256'', JStr audio_sha),
        (''duration_sec'', JFlt duration), (''sample_rate'', JInt 16000)]),
     (''entries'', JArr (map JObj entries))]"

definition init_duration :: "ledger_env \<Rightarrow> init_args \<Rightarrow> dbl res" where
  "init_duration env args = (case ia_audio_sec args of
     Some x \<Rightarrow> if x \<noteq> 0 then Inr x else env_audio_duration env (ia_audio args)
   | None \<Rightarrow> env_audio_duration env (ia_audio args))"

definition init_ledger :: "ledger_env \<Rightarrow> init_args \<Rightarrow> obj res" where
  "init_ledger env args =
    rbind (init_duration env args) (\<lambda>duration.
    rbind (parse_reference env (JStr (ia_reference args)) duration) (\<lambda>entries.
    raise_if (int (length entries) \<noteq> ia_expected args)
      (ValueError (''expected '' @ int_repr (ia_expected args) @ '' reference entries, got '' @
         int_repr (int (length entries))))
    (rbind (env_file_sha env (JStr (ia_reference args))) (\<lambda>ref_sha.
     rbind (env_file_sha env (JStr (ia_audio args))) (\<lambda>audio_sha.
     Inr (signed env (ledger_document env args duration ref_sha audio_sha entries)))))))"

section \<open>Validation of a ledger\<close>

definition nonempty_str :: "json \<Rightarrow> bool" where
  "nonempty_str v = (case v of JStr s \<Rightarrow> s \<noteq> [] | _ \<Rightarrow> False)"

definition str_list_ok :: "json \<Rightarrow> bool" where
  "str_list_ok v = (case v of JArr xs \<Rightarrow> list_all nonempty_str xs | _ \<Rightarrow> False)"

definition one_of :: "json \<Rightarrow> string list \<Rightarrow> bool" where
  "one_of v ss = (case v of JStr s \<Rightarrow> s \<in> set ss | _ \<Rightarrow> False)"

definition py_in :: "json \<Rightarrow> json list \<Rightarrow> bool" where
  "py_in v xs = list_ex (py_eq v) xs"

definition immutable_fields :: "string list" where
  "immutable_fields = [''reference_id'', ''source_line'', ''source_timestamp'', ''source_start_sec'',
     ''source_speaker'', ''source_text'', ''provisional_end_sec'', ''source_sha256'']"

definition msg :: "string \<Rightarrow> string \<Rightarrow> string" where
  "msg ref text = ref @ '': '' @ text"

definition issue :: "bool \<Rightarrow> string \<Rightarrow> string \<Rightarrow> string list" where
  "issue bad ref text = (if bad then [msg ref text] else [])"

definition identity_errors :: "string \<Rightarrow> json \<Rightarrow> obj \<Rightarrow> obj \<Rightarrow> string list" where
  "identity_errors ref prev e src =
     concat (map (\<lambda>f. issue (\<not> py_eq (get e f) (get src f)) ref (''immutable '' @ f @ '' changed''))
       immutable_fields) @
     issue (\<not> py_eq (get e ''reference_id'') (JStr ref)) ref ''unstable reference id'' @
     issue (py_eq prev (get e ''reference_id'')) ref ''duplicate reference id''"

definition audible_interval :: "obj \<Rightarrow> dbl \<Rightarrow> (rat \<times> rat) option" where
  "audible_interval a duration =
    (case (is_finite_number (get a ''audible_start_sec''), is_finite_number (get a ''audible_end_sec'')) of
       (Some s, Some e) \<Rightarrow> if 0 \<le> s \<and> s < e \<and> e \<le> val duration then Some (s, e) else None
     | _ \<Rightarrow> None)"

definition overlap_interval_ok :: "json list \<Rightarrow> (rat \<times> rat) option \<Rightarrow> json \<Rightarrow> bool" where
  "overlap_interval_ok participants audible v = (case v of
     JObj i \<Rightarrow> nonempty_str (get i ''speaker'') \<and> py_in (get i ''speaker'') participants \<and>
       (case (is_finite_number (get i ''start_sec''), is_finite_number (get i ''end_sec''), audible) of
          (Some s, Some e, Some (lo, hi)) \<Rightarrow> \<not> s < lo \<and> \<not> hi < e \<and> \<not> e \<le> s
        | _ \<Rightarrow> False)
   | _ \<Rightarrow> False)"

definition overlap_errors :: "string \<Rightarrow> obj \<Rightarrow> (rat \<times> rat) option \<Rightarrow> string list" where
  "overlap_errors ref a audible = (case get a ''overlap_intervals'' of
     JArr is \<Rightarrow> concat (map (\<lambda>(n, i). issue (\<not> overlap_interval_ok
         (arr_or_empty (get a ''overlap_participants'')) audible i) ref
         (''overlap interval '' @ int_repr (int n) @ '' invalid'')) (enumerate 0 is))
   | _ \<Rightarrow> [msg ref ''overlap intervals invalid''])"

definition speaker_errors :: "string \<Rightarrow> obj \<Rightarrow> string list" where
  "speaker_errors ref a =
    (let canonical = get a ''canonical_speaker''; acceptable = get a ''acceptable_speakers'' in
     issue (\<not> nonempty_str canonical) ref ''canonical speaker missing'' @
     (if \<not> str_list_ok acceptable \<or> acceptable = JArr []
      then [msg ref ''acceptable speakers invalid'']
      else issue (\<not> py_in canonical (arr_or_empty acceptable)) ref ''canonical speaker is not acceptable''))"

definition adjudication_errors :: "string \<Rightarrow> dbl \<Rightarrow> obj \<Rightarrow> string list" where
  "adjudication_errors ref duration a =
    (let audible = audible_interval a duration in
     issue (audible = None) ref ''invalid audible interval'' @
     issue (\<not> one_of (get a ''criticality'') [''critical'', ''noncritical'']) ref ''criticality unreviewed'' @
     issue (\<not> one_of (get a ''ambiguity'')
         [''none'', ''timestamp'', ''speaker'', ''text'', ''audio'', ''overlap'']) ref ''ambiguity unreviewed'' @
     speaker_errors ref a @
     issue (\<not> str_list_ok (get a ''overlap_participants'')) ref ''overlap participants invalid'' @
     overlap_errors ref a audible @
     issue (\<not> str_list_ok (get a ''acceptable_semantic_equivalents'')) ref ''semantic equivalents invalid'' @
     issue (\<not> truthy (get a ''context_summary'')) ref ''context summary missing'' @
     issue (\<not> truthy (get a ''reviewer'')) ref ''adjudicator missing'' @
     issue (\<not> truthy (get a ''adjudicated_utc'')) ref ''adjudication time missing'')"

fun ledger_errors ::
  "dbl \<Rightarrow> bool \<Rightarrow> nat \<Rightarrow> json \<Rightarrow> json list \<Rightarrow> obj list \<Rightarrow> string list res" where
  "ledger_errors duration strict i prev (v # vs) (src # srcs) =
     rbind (vdict v) (\<lambda>e.
     rbind (if strict then rbind (vdict (dget e ''adjudication'' (JObj [])))
              (\<lambda>a. Inr (adjudication_errors (ref_id i) duration a)) else Inr []) (\<lambda>errs.
     rbind (ledger_errors duration strict (Suc i) (get e ''reference_id'') vs srcs) (\<lambda>rest.
     Inr (identity_errors (ref_id i) prev e src @ errs @ rest))))"
| "ledger_errors duration strict i prev _ _ = Inr []"

definition validate_hash :: "ledger_env \<Rightarrow> obj \<Rightarrow> string \<Rightarrow> unit res" where
  "validate_hash env d name =
     raise_if (\<not> py_eq (get d ''content_sha256'') (JStr (content_sha256 env d)))
       (ValueError (name @ '' content hash mismatch'')) (Inr ())"

definition check_file :: "ledger_env \<Rightarrow> json \<Rightarrow> string \<Rightarrow> unit res" where
  "check_file env d name =
     rbind (vget d ''path'' (JStr [])) (\<lambda>path. rbind (env_file_sha env path) (\<lambda>sha.
     rbind (vget d ''sha256'' JNull) (\<lambda>v.
     raise_if (\<not> py_eq v (JStr sha)) (ValueError (name @ '' file hash mismatch'')) (Inr ()))))"

definition validate_ledger :: "ledger_env \<Rightarrow> obj \<Rightarrow> bool \<Rightarrow> unit res" where
  "validate_ledger env ledger strict =
    rbind (validate_hash env ledger ''ledger'') (\<lambda>_.
    raise_if (\<not> py_eq (get ledger ''schema_version'') (JInt 2))
      (ValueError ''unsupported ledger schema version'')
    (raise_if (\<not> py_eq (get ledger ''kind'') (JStr ''orator_reference_ledger''))
      (ValueError ''input is not a reference ledger'')
    (let entries = dget ledger ''entries'' (JArr []);
         reference = dget ledger ''reference'' (JObj []); audio = dget ledger ''audio'' (JObj []) in
     rbind (py_len entries) (\<lambda>n. rbind (vget reference ''entry_count'' JNull) (\<lambda>count.
     raise_if (\<not> py_eq (JInt n) count) (ValueError ''ledger entry count mismatch'')
     (raise_if (n \<noteq> int EXPECTED_REFERENCE_ENTRIES)
       (ValueError (''reference ledger must contain '' @ int_repr (int EXPECTED_REFERENCE_ENTRIES) @
          '' entries, got '' @ int_repr n))
     (rbind (check_file env reference ''reference'') (\<lambda>_.
      rbind (check_file env audio ''audio'') (\<lambda>_.
      rbind (vitem reference ''path'') (\<lambda>path. rbind (vitem audio ''duration_sec'') (\<lambda>dv.
      rbind (py_float dv) (\<lambda>duration. rbind (parse_reference env path duration) (\<lambda>sources.
      raise_if (int (length sources) \<noteq> n)
        (ValueError ''current reference source count differs from ledger'')
      (rbind (py_iter entries) (\<lambda>es.
       rbind (ledger_errors duration strict 0 JNull es sources) (\<lambda>errors.
       raise_if (errors \<noteq> []) (ValueError (join_with [CHR 0x0A] (take 50 errors))) (Inr ())))))))))))))))))"

end
