(* ===== verification/Closing_Review.thy ===== *)
theory Closing_Review
  imports Closing_Ledger
begin

text \<open>
  \<^verbatim>\<open>tools/verify/py/closing_ledger.py\<close>, review side: \<^verbatim>\<open>prepare-review\<close> attaches
  the overlapping evidence of every track to each reference entry, and \<^verbatim>\<open>validate\<close> decides
  whether a review is complete.
\<close>

section \<open>Preparing a review\<close>

definition fresh_judgment :: json where
  "fresh_judgment = JObj
    [(''result'', JStr ''unreviewed''), (''speaker_eval'', JStr ''unreviewed''),
     (''system_speakers'', JArr []), (''correct_speaker_intervals'', JArr []),
     (''boundary_start_offset_sec'', JNull), (''boundary_end_offset_sec'', JNull),
     (''boundary_offset_notes'', JStr []), (''confident_wrong'', JNull), (''uncertain_output'', JNull),
     (''evidence_ids'', JArr []), (''context_notes'', JStr []), (''reviewer'', JStr []),
     (''reviewed_utc'', JNull)]"

definition audible_overlap :: "dbl \<Rightarrow> dbl \<Rightarrow> dbl \<Rightarrow> dbl \<Rightarrow> dbl" where
  "audible_overlap a_start a_end b_start b_end = max 0 (min a_end b_end - max a_start b_start)"

definition terminal_timeline :: "obj \<Rightarrow> obj" where
  "terminal_timeline package = (case get package ''timeline'' of JObj t \<Rightarrow> t | _ \<Rightarrow> package)"

text \<open>
  The keys are the truthy \<^verbatim>\<open>kind\<close>s, of which only strings are ever looked up; a list or a dict
  as a key is a TypeError.
\<close>

definition add_track :: "(string, json) pydict \<Rightarrow> json \<Rightarrow> (string, json) pydict res" where
  "add_track acc v = (case v of
     JObj d \<Rightarrow> (case get d ''kind'' of
         JStr k \<Rightarrow> Inr (if k \<noteq> [] then dset k (dget d ''entries'' (JArr [])) acc else acc)
       | JArr xs \<Rightarrow> if xs \<noteq> [] then Inl TypeError else Inr acc
       | JObj o' \<Rightarrow> if o' \<noteq> [] then Inl TypeError else Inr acc
       | _ \<Rightarrow> Inr acc)
   | _ \<Rightarrow> Inr acc)"

definition track_map :: "obj \<Rightarrow> (string, json) pydict res" where
  "track_map t = rbind (py_iter (dget t ''tracks'' (JArr []))) (rfold add_track [])"

definition evidence_id :: "string \<Rightarrow> obj \<Rightarrow> nat \<Rightarrow> string" where
  "evidence_id kind it index = kind @ '':'' @ int_repr (int index) @
     (case get it ''text_id'' of JNull \<Rightarrow> [] | v \<Rightarrow> '':text:'' @ py_str v)"

definition item_span :: "obj \<Rightarrow> span res" where
  "item_span it = rbind (py_float (dget it ''start'' (JFlt 0))) (\<lambda>s.
     rbind (py_float (dget it ''end'' (JFlt s))) (\<lambda>e. Inr (s, e)))"

text \<open>\<^verbatim>\<open>{"evidence_id": ..., **item}\<close>: an \<^verbatim>\<open>evidence_id\<close> of the item wins.\<close>

definition with_evidence_id :: "string \<Rightarrow> obj \<Rightarrow> obj" where
  "with_evidence_id i it = foldl (\<lambda>d (k, v). dset k v d) [(''evidence_id'', JStr i)] it"

fun select_evidence :: "dbl \<Rightarrow> dbl \<Rightarrow> string \<Rightarrow> nat \<Rightarrow> json list \<Rightarrow> obj list res" where
  "select_evidence s e kind i [] = Inr []"
| "select_evidence s e kind i (v # vs) = (case v of
     JObj it \<Rightarrow> rbind (item_span it) (\<lambda>(a, b).
       rbind (select_evidence s e kind (Suc i) vs) (\<lambda>rest.
       Inr (if audible_overlap s e a b \<le> 0 then rest
            else with_evidence_id (evidence_id kind it i) it # rest)))
   | _ \<Rightarrow> select_evidence s e kind (Suc i) vs)"

definition select_track ::
  "(string, json) pydict \<Rightarrow> json \<Rightarrow> dbl \<Rightarrow> dbl \<Rightarrow> string \<Rightarrow> (string \<times> json) res" where
  "select_track ts dflt s e kind =
     rbind (py_iter (case map_of ts kind of Some v \<Rightarrow> v | None \<Rightarrow> dflt)) (\<lambda>es.
     rbind (select_evidence s e kind 0 es) (\<lambda>sel. Inr (kind, JArr (map JObj sel))))"

text \<open>The interval of an entry, the adjudicated one where there is one.\<close>

definition adjudicated_or :: "obj \<Rightarrow> obj \<Rightarrow> string \<Rightarrow> string \<Rightarrow> json res" where
  "adjudicated_or e a k src = rbind (item a k) (\<lambda>v. if v = JNull then item e src else Inr v)"

text \<open>A validated ledger holds numbers here; other values are outside the model.\<close>

definition as_number :: "json \<Rightarrow> dbl res" where
  "as_number v = (case finite_num v of Some x \<Rightarrow> Inr x | None \<Rightarrow> Inl OutOfModel)"

definition review_entry :: "(string, json) pydict \<Rightarrow> json \<Rightarrow> json \<Rightarrow> json res" where
  "review_entry ts business v =
    rbind (vitem v ''adjudication'') (\<lambda>av. rbind (vdict v) (\<lambda>e. rbind (vdict av) (\<lambda>a.
    rbind (adjudicated_or e a ''audible_start_sec'' ''source_start_sec'') (\<lambda>sv.
    rbind (adjudicated_or e a ''audible_end_sec'' ''provisional_end_sec'') (\<lambda>ev.
    rbind (as_number sv) (\<lambda>s. rbind (as_number ev) (\<lambda>e'.
    rbind (select_track [(''business_speaker'', business)] JNull s e' ''business_speaker'') (\<lambda>b.
    rbind (rmap (select_track ts (JArr []) s e') [''diarization'', ''asr'', ''align'', ''vad'']) (\<lambda>rest.
    rbind (item e ''reference_id'') (\<lambda>ref.
    Inr (JObj [(''reference_id'', ref), (''evidence'', JObj (b # rest)),
      (''chronological_pass'', fresh_judgment), (''reverse_block_pass'', fresh_judgment),
      (''final'', fresh_judgment), (''reconciliation_notes'', JStr [])])))))))))))"

definition prepare_review :: "ledger_env \<Rightarrow> string \<Rightarrow> obj \<Rightarrow> string \<Rightarrow> obj \<Rightarrow> obj res" where
  "prepare_review env ledger_path ledger timeline_path package =
    rbind (validate_ledger env ledger True) (\<lambda>_.
    rbind (track_map (terminal_timeline package)) (\<lambda>ts.
    let business = (case map_of ts ''business_speaker'' of Some v \<Rightarrow> v
                    | None \<Rightarrow> dget (terminal_timeline package) ''comprehensive'' (JArr [])) in
    rbind (item ledger ''entries'') (\<lambda>ev. rbind (py_iter ev) (\<lambda>es.
    rbind (rmap (review_entry ts business) es) (\<lambda>rows.
    rbind (item ledger ''content_sha256'') (\<lambda>ledger_sha.
    rbind (env_file_sha env (JStr timeline_path)) (\<lambda>timeline_sha.
    rbind (vget (dget package ''meta'' (JObj [])) ''resolved_config_sha256'' JNull) (\<lambda>config_sha.
    Inr (signed env [(''schema_version'', JInt 2), (''kind'', JStr ''orator_run_review''),
      (''created_utc'', JStr (env_now env)), (''ledger_path'', JStr ledger_path),
      (''ledger_sha256'', ledger_sha), (''timeline_path'', JStr timeline_path),
      (''timeline_sha256'', JStr timeline_sha), (''resolved_config_sha256'', config_sha),
      (''entry_count'', JInt (int (length rows))), (''entries'', JArr rows)])))))))))"

section \<open>Speaker time of a judgment\<close>

definition interval_of :: "dbl \<Rightarrow> dbl \<Rightarrow> json \<Rightarrow> span res" where
  "interval_of s e v = (case v of
     JArr [l, r] \<Rightarrow> (case (is_finite_number l, is_finite_number r) of
         (Some a, Some b) \<Rightarrow> if a < val s \<or> val e < b \<or> b \<le> a
           then Inl (ValueError ''correct speaker interval is empty or out of bounds'')
           else rbind (py_float l) (\<lambda>x. rbind (py_float r) (\<lambda>y. Inr (x, y)))
       | _ \<Rightarrow> Inl (ValueError ''correct speaker interval is empty or out of bounds''))
   | _ \<Rightarrow> Inl (ValueError ''correct_speaker_intervals must be [start,end] pairs''))"

definition normalize_intervals :: "json \<Rightarrow> dbl \<Rightarrow> dbl \<Rightarrow> span list res" where
  "normalize_intervals v s e = (case v of
     JArr is \<Rightarrow> rbind (rmap (interval_of s e) is) (\<lambda>clipped. Inr (merge_spans 0 clipped))
   | _ \<Rightarrow> Inl (ValueError ''correct_speaker_intervals must be a list''))"

definition intervals_duration :: "json \<Rightarrow> dbl \<Rightarrow> dbl \<Rightarrow> dbl res" where
  "intervals_duration v s e = rbind (normalize_intervals v s e) (\<lambda>m. Inr (total_span m))"

section \<open>Judgments\<close>

definition is_bool :: "json \<Rightarrow> bool" where
  "is_bool v = (case v of JBool _ \<Rightarrow> True | _ \<Rightarrow> False)"

definition fail_if :: "bool \<Rightarrow> string \<Rightarrow> string \<Rightarrow> unit res \<Rightarrow> unit res" where
  "fail_if b ref text k = raise_if b (ValueError (msg ref text)) k"

definition text_of_str :: "json \<Rightarrow> string" where
  "text_of_str v = (case v of JStr s \<Rightarrow> s | _ \<Rightarrow> [])"

definition cited_ids :: "json \<Rightarrow> string list" where
  "cited_ids v = map text_of_str (arr_or_empty v)"

definition unavailable :: "json \<Rightarrow> string list \<Rightarrow> string list" where
  "unavailable ids available = sort (filter (\<lambda>i. i \<notin> set available) (remdups (cited_ids ids)))"

definition boundary_offset :: "string \<Rightarrow> obj \<Rightarrow> string \<Rightarrow> dbl list res" where
  "boundary_offset ref j field = (let v = get j field in
     if v = JNull then Inr []
     else if is_finite_number v = None then Inl (ValueError (msg ref (field @ '' invalid'')))
     else rbind (py_float v) (\<lambda>x. Inr [\<bar>x\<bar>]))"

definition validate_judgment ::
  "json \<Rightarrow> string \<Rightarrow> dbl \<Rightarrow> dbl \<Rightarrow> string list \<Rightarrow> unit res" where
  "validate_judgment v ref s e available =
    rbind (vdict v) (\<lambda>j.
    fail_if (\<not> one_of (get j ''result'') [''correct'', ''incorrect'', ''ambiguous'']) ref ''result unreviewed''
    (fail_if (\<not> one_of (get j ''speaker_eval'') [''accurate'', ''mostly_accurate'', ''minor_confusion'',
        ''major_confusion'', ''unusable'', ''not_scorable'']) ref ''speaker_eval unreviewed''
    (fail_if (\<not> is_bool (get j ''confident_wrong'')) ref ''confident_wrong unreviewed''
    (fail_if (\<not> is_bool (get j ''uncertain_output'')) ref ''uncertain output unreviewed''
    (fail_if (truthy (get j ''uncertain_output'') \<and> get j ''result'' = JStr ''correct'') ref
       ''uncertain output cannot count as correct''
    (fail_if (\<not> str_list_ok (get j ''system_speakers'')) ref ''system speakers invalid''
    (fail_if (\<not> str_list_ok (get j ''evidence_ids'')) ref ''evidence IDs invalid''
    (let unknown = unavailable (get j ''evidence_ids'') available in
     fail_if (unknown \<noteq> []) ref
       (''judgment cites unavailable evidence '' @ py_repr (JArr (map JStr (take 3 unknown))))
    (rbind (intervals_duration (get j ''correct_speaker_intervals'') s e) (\<lambda>duration.
     fail_if (get j ''result'' = JStr ''correct'' \<and> duration \<le> 0) ref
       ''correct result has no correct speaker time''
    (rbind (boundary_offset ref j ''boundary_start_offset_sec'') (\<lambda>o1.
     rbind (boundary_offset ref j ''boundary_end_offset_sec'') (\<lambda>o2.
     let notes = get j ''boundary_offset_notes'' in
     case notes of JStr text \<Rightarrow>
       fail_if (list_ex (\<lambda>x. 1 < x) (o1 @ o2) \<and> strip text = []) ref
         ''boundary offset over 1 second is unannotated''
      (fail_if (\<not> truthy (get j ''context_notes'')) ref ''context notes missing''
      (fail_if (\<not> truthy (get j ''reviewer'') \<or> \<not> truthy (get j ''reviewed_utc'')) ref
         ''review signature missing'' (Inr ())))
     | _ \<Rightarrow> Inl (ValueError (msg ref ''boundary offset notes invalid'')))))))))))))))"

section \<open>Reviews\<close>

definition signature_fields :: "string list" where
  "signature_fields = [''result'', ''speaker_eval'', ''system_speakers'', ''correct_speaker_intervals'',
     ''boundary_start_offset_sec'', ''boundary_end_offset_sec'', ''confident_wrong'', ''uncertain_output'']"

definition judgment_decision_signature :: "json \<Rightarrow> string list res" where
  "judgment_decision_signature v =
     rbind (vdict v) (\<lambda>j. Inr (map (\<lambda>f. sorted_text (get j f)) signature_fields))"

definition available_evidence_ids :: "json \<Rightarrow> string list res" where
  "available_evidence_ids evidence = rbind (vdict evidence) (\<lambda>d. Inr
     (concat (map (\<lambda>(k, items). List.map_filter (\<lambda>v. case v of
          JObj it \<Rightarrow> (case get it ''evidence_id'' of JStr i \<Rightarrow> Some i | _ \<Rightarrow> None)
        | _ \<Rightarrow> None) (arr_or_empty items)) d)))"

definition passes :: "string list" where
  "passes = [''chronological_pass'', ''reverse_block_pass'', ''final'']"

definition validate_row :: "json \<Rightarrow> json \<Rightarrow> unit res" where
  "validate_row expected row =
    rbind (vitem expected ''reference_id'') (\<lambda>ref_v. let ref = py_str ref_v in
    rbind (vget row ''reference_id'' JNull) (\<lambda>row_id.
    fail_if (\<not> py_eq row_id ref_v) ref ''review order/id mismatch''
    (rbind (vitem expected ''adjudication'') (\<lambda>a.
     rbind (rbind (vitem a ''audible_start_sec'') py_float) (\<lambda>s.
     rbind (rbind (vitem a ''audible_end_sec'') py_float) (\<lambda>e.
     rbind (vget row ''evidence'' (JObj [])) (\<lambda>evidence.
     rbind (available_evidence_ids evidence) (\<lambda>available.
     rbind (rmap (\<lambda>p. rbind (vitem row p) (\<lambda>j. validate_judgment j ref s e available)) passes) (\<lambda>_.
     rbind (rbind (vitem row ''chronological_pass'') judgment_decision_signature) (\<lambda>sig1.
     rbind (rbind (vitem row ''reverse_block_pass'') judgment_decision_signature) (\<lambda>sig2.
     rbind (vget row ''reconciliation_notes'' (JStr [])) (\<lambda>notes.
     fail_if (sig1 \<noteq> sig2 \<and> strip (py_str notes) = []) ref
       ''pass disagreement is not reconciled'' (Inr ())))))))))))))"

definition validate_review :: "ledger_env \<Rightarrow> obj \<Rightarrow> obj \<Rightarrow> bool \<Rightarrow> unit res" where
  "validate_review env review ledger strict =
    rbind (validate_hash env review ''review'') (\<lambda>_.
    raise_if (\<not> py_eq (get review ''schema_version'') (JInt 2))
      (ValueError ''unsupported review schema version'')
    (raise_if (\<not> py_eq (get review ''kind'') (JStr ''orator_run_review''))
      (ValueError ''input is not a run review'')
    (raise_if (\<not> py_eq (get review ''ledger_sha256'') (get ledger ''content_sha256''))
      (ValueError ''review points to a different reference ledger'')
    (rbind (env_file_sha env (dget review ''timeline_path'' (JStr []))) (\<lambda>sha.
     raise_if (\<not> py_eq (get review ''timeline_sha256'') (JStr sha))
       (ValueError ''review timeline hash mismatch'')
    (raise_if (strict \<and> \<not> truthy (get review ''resolved_config_sha256''))
       (ValueError ''review resolved configuration hash missing'')
    (let rows = dget review ''entries'' (JArr []) in
     rbind (py_len rows) (\<lambda>n. rbind (py_len (dget ledger ''entries'' (JArr []))) (\<lambda>m.
     raise_if (n \<noteq> m) (ValueError ''review entry count mismatch'')
     (if \<not> strict then Inr ()
      else rbind (item ledger ''entries'') (\<lambda>ev. rbind (py_iter ev) (\<lambda>es. rbind (py_iter rows) (\<lambda>rs.
        rbind (rmap (\<lambda>(x, r). validate_row x r) (zip es rs)) (\<lambda>_. Inr ()))))))))))))))"

definition command_validate :: "ledger_env \<Rightarrow> obj \<Rightarrow> obj option \<Rightarrow> bool \<Rightarrow> unit res" where
  "command_validate env ledger review strict =
    rbind (validate_ledger env ledger strict) (\<lambda>_.
    case review of None \<Rightarrow> Inr () | Some r \<Rightarrow> validate_review env r ledger strict)"

end
