(* ===== verification/Closing_Properties.thy ===== *)
theory Closing_Properties
  imports Closing_Review Py_Rounding
begin

text \<open>
  What \<^verbatim>\<open>closing_ledger.py\<close> promises: the reference is cut at its timestamps, a ledger it
  writes validates, a validated ledger and a validated review are complete and consistent.
\<close>

section \<open>Reference ids\<close>

lemma zero_pad_inj: "0 \<le> m \<Longrightarrow> 0 \<le> n \<Longrightarrow> zero_pad w m = zero_pad w n \<Longrightarrow> m = n"
  using zero_pad_val by metis

lemma ref_id_inj [simp]: "ref_id i = ref_id j \<longleftrightarrow> i = j"
  using zero_pad_inj[of "int i + 1" "int j + 1" 4] by (auto simp: ref_id_def)

section \<open>The transcript\<close>

definition is_timestamp :: "string \<Rightarrow> bool" where
  "is_timestamp raw \<longleftrightarrow> timestamp_match (strip raw) \<noteq> None"

lemma length_flush_read:
  "length (flush (foldl (read_line credit) st (enumerate n lines)))
   = length (flush st) + length (filter is_timestamp lines)"
proof (induction lines arbitrary: st n)
  case (Cons l lines)
  have "length (flush (read_line credit st (n, l))) = length (flush st) + (if is_timestamp l then 1 else 0)"
    by (cases st) (auto simp: read_line_def Let_def flush_def is_timestamp_def split: option.splits)
  then show ?case by (simp add: Cons.IH)
qed simp

lemma length_reference_rows: "length (reference_rows credit lines) = length (filter is_timestamp lines)"
  unfolding reference_rows_def length_flush_read by (simp add: flush_def)

lemma length_reference_entries [simp]: "length (reference_entries env fe i rs) = length rs"
  by (induction rs arbitrary: i) simp_all

lemma get_append [simp]: "get (xs @ ys) k = (if k \<in> set (map fst xs) then get xs k else get ys k)"
  by (induction xs) (auto simp: get_def dget_def)

lemma reference_entry_get [simp]:
  "get (reference_entry env i r e) ''reference_id'' = JStr (ref_id i)"
  "get (reference_entry env i r e) ''source_start_sec'' = JFlt (of_pyint (rr_start r))"
  "get (reference_entry env i r e) ''provisional_end_sec'' = JFlt e"
  "get (reference_entry env i r e) ''adjudication'' = fresh_adjudication (rr_speaker r)"
  by (simp_all add: reference_entry_def source_fields_def)

lemma reference_ids:
  "map (\<lambda>e. get e ''reference_id'') (reference_entries env fe i rs)
   = map (JStr \<circ> ref_id) [i..<i + length rs]"
  by (induction rs arbitrary: i) (simp_all add: upt_rec)

lemma reference_ends:
  "successively (\<lambda>a b. get a ''provisional_end_sec'' = get b ''source_start_sec'')
     (reference_entries env fe i rs) \<and>
   (rs \<noteq> [] \<longrightarrow> get (last (reference_entries env fe i rs)) ''provisional_end_sec'' = JFlt fe)"
proof (induction rs arbitrary: i)
  case (Cons r rs)
  have ne: "reference_entries env fe (Suc i) rs = [] \<longleftrightarrow> rs = []" by (cases rs) simp_all
  from Cons[of "Suc i"] show ?case by (cases rs) (simp_all add: ne)
qed simp

text \<open>
  The parsed reference has one entry per timestamp line, with the ids \<open>ref-0001\<close>, ... in
  order and all different; each entry provisionally ends where the next one starts and the last
  one where the audio ends.
\<close>

lemma parse_reference_entries:
  "rbind (env_file_lines env path) (\<lambda>lines. rbind (parse_reference env path fe) (\<lambda>es. Inr
     (length es = length (filter is_timestamp lines) \<and>
      map (\<lambda>e. get e ''reference_id'') es = map (JStr \<circ> ref_id) [0..<length es] \<and>
      distinct (map (\<lambda>e. get e ''reference_id'') es) \<and>
      successively (\<lambda>a b. get a ''provisional_end_sec'' = get b ''source_start_sec'') es \<and>
      (if es = [] then True else get (last es) ''provisional_end_sec'' = JFlt fe))))
   = rbind (env_file_lines env path) (\<lambda>_. Inr True)"
proof (cases "env_file_lines env path")
  case (Inr lines)
  let ?rs = "reference_rows (env_credit_prefix env) lines"
  have "distinct (map (JStr \<circ> ref_id) [0..<n])" for n by (simp add: distinct_map inj_on_def)
  moreover have "reference_entries env fe 0 ?rs = [] \<longleftrightarrow> ?rs = []" by (metis length_0_conv length_reference_entries)
  ultimately show ?thesis
    using reference_ends[of env fe 0 ?rs] reference_ids[of env fe 0 ?rs]
    by (simp add: Inr parse_reference_def length_reference_rows)
qed simp

section \<open>Ledgers\<close>

lemma signed_get [simp]: "k \<noteq> ''content_sha256'' \<Longrightarrow> get (signed env d) k = get d k"
  "k \<noteq> ''content_sha256'' \<Longrightarrow> dget (signed env d) k c = dget d k c"
  by (simp_all add: signed_def)

lemma signed_hash [simp]: "validate_hash env (signed env d) name = Inr ()"
  by (simp add: validate_hash_def signed_def content_sha256_def dpop_dset)

text \<open>An edit of an entry that keeps what validation compares with the transcript.\<close>

definition keeps_source :: "obj \<Rightarrow> obj \<Rightarrow> bool" where
  "keeps_source e e' \<longleftrightarrow> list_all (\<lambda>k. get e' k = get e k) immutable_fields"

definition adjudicated :: "dbl \<Rightarrow> obj \<Rightarrow> bool" where
  "adjudicated duration e \<longleftrightarrow> (\<exists>a. dget e ''adjudication'' (JObj []) = JObj a \<and>
     (\<forall>ref. adjudication_errors ref duration a = []))"

lemma identity_errors_none:
  assumes "keeps_source (reference_entry env i r fe) e'" and "\<not> py_eq prev (JStr (ref_id i))"
  shows "identity_errors (ref_id i) prev e' (reference_entry env i r fe) = []"
proof -
  have "get e' k = get (reference_entry env i r fe) k" if "k \<in> set immutable_fields" for k
    using assms(1) that by (simp add: keeps_source_def list_all_iff)
  then show ?thesis using assms(2)
    by (simp add: identity_errors_def immutable_fields_def issue_def reference_entry_def source_fields_def)
qed

lemma ledger_errors_none:
  assumes "\<And>e. keeps_source e (f e)" and "\<And>e. strict \<Longrightarrow> adjudicated duration (f e)"
    and "\<not> py_eq prev (JStr (ref_id i))"
  shows "ledger_errors duration strict i prev (map (JObj \<circ> f) (reference_entries env fe i rs))
    (reference_entries env fe i rs) = Inr []"
  using assms(3)
proof (induction rs arbitrary: i prev)
  case (Cons r rs)
  let ?e = "reference_entry env i r (case rs of [] \<Rightarrow> fe | q # _ \<Rightarrow> of_pyint (rr_start q))"
  have id: "get (f ?e) ''reference_id'' = JStr (ref_id i)"
    using assms(1)[of ?e] by (simp add: keeps_source_def immutable_fields_def)
  have adj: "(if strict then rbind (vdict (dget (f ?e) ''adjudication'' (JObj [])))
      (\<lambda>a. Inr (adjudication_errors (ref_id i) duration a)) else Inr []) = Inr []"
    using assms(2)[of ?e] by (auto simp: adjudicated_def)
  show ?case
    using Cons identity_errors_none[OF assms(1) Cons.prems] by (simp add: adj id)
qed simp

lemma validate_document:
  assumes "env_file_sha env (JStr (ia_reference args)) = Inr r"
    and "env_file_sha env (JStr (ia_audio args)) = Inr a"
    and "parse_reference env (JStr (ia_reference args)) duration = Inr es"
    and "length es = EXPECTED_REFERENCE_ENTRIES"
    and "\<And>e. keeps_source e (f e)" and "\<And>e. strict \<Longrightarrow> adjudicated duration (f e)"
  shows "validate_ledger env (signed env (ledger_document env args duration r a (map f es))) strict = Inr ()"
proof -
  obtain rs where es: "es = reference_entries env duration 0 rs"
    using assms(3) by (auto simp: parse_reference_def res_iff)
  have "ledger_errors duration strict 0 JNull (map (JObj \<circ> f) es) es = Inr []"
    unfolding es by (rule ledger_errors_none) (use assms(5,6) in simp_all)
  then show ?thesis using assms(1-4)
    by (simp add: validate_ledger_def ledger_document_def check_file_def Let_def)
qed

lemma keeps_source_refl [simp]: "keeps_source e e"
  by (simp add: keeps_source_def list_all_iff)

lemma init_ledger_cases:
  assumes "init_ledger env args = Inr ledger"
  obtains duration es r a where "parse_reference env (JStr (ia_reference args)) duration = Inr es"
    "int (length es) = ia_expected args"
    "env_file_sha env (JStr (ia_reference args)) = Inr r" "env_file_sha env (JStr (ia_audio args)) = Inr a"
    "ledger = signed env (ledger_document env args duration r a es)"
  using assms by (auto simp: init_ledger_def res_iff)

text \<open>
  C9: a ledger written by \<^verbatim>\<open>init-reference\<close> with the expected number of entries passes
  validation while its files are unchanged.
\<close>

theorem init_ledger_validates:
  assumes "init_ledger env args = Inr ledger" and "ia_expected args = int EXPECTED_REFERENCE_ENTRIES"
  shows "validate_ledger env ledger False = Inr ()"
proof -
  obtain duration es r a where es: "parse_reference env (JStr (ia_reference args)) duration = Inr es"
    "int (length es) = ia_expected args"
    and sha: "env_file_sha env (JStr (ia_reference args)) = Inr r"
      "env_file_sha env (JStr (ia_audio args)) = Inr a"
    and l: "ledger = signed env (ledger_document env args duration r a es)"
    using assms(1) by (rule init_ledger_cases)
  have "length es = EXPECTED_REFERENCE_ENTRIES" using es(2) assms(2) by simp
  from validate_document[OF sha es(1) this, of "\<lambda>e. e" False] show ?thesis by (simp add: l)
qed

definition demo_env :: ledger_env where
  "demo_env = \<lparr>env_sha256 = (\<lambda>s. ''0''), env_file_sha = (\<lambda>p. Inr ''1''),
     env_file_lines = (\<lambda>p. Inr (replicate 556 ''00:00:00 A'')),
     env_audio_duration = (\<lambda>p. Inr (D 8)), env_now = ''now'', env_credit_prefix = ''(''\<rparr>"

definition demo_args :: init_args where
  "demo_args = \<lparr>ia_reference = ''ref.txt'', ia_audio = ''a.wav'', ia_audio_sec = Some (D 8), ia_expected = 556\<rparr>"

lemma demo_timestamp: "is_timestamp ''00:00:00 A''"
  unfolding is_timestamp_def by code_simp

lemma demo_parse:
  "\<exists>es. parse_reference demo_env p d = Inr es \<and> length es = 556"
  by (simp add: parse_reference_def demo_env_def length_reference_rows demo_timestamp filter_replicate)

lemma demo_init: "\<exists>ledger. init_ledger demo_env demo_args = Inr ledger"
proof -
  have "D 8 \<noteq> 0" by code_simp
  then have "init_duration demo_env demo_args = Inr (D 8)"
    by (simp add: init_duration_def demo_args_def)
  with demo_parse[of "JStr ''ref.txt''" "D 8"] show ?thesis
    by (auto simp: init_ledger_def demo_args_def) (auto simp: demo_env_def)
qed

theorem init_ledger_validates_witness:
  "\<exists>ledger. init_ledger demo_env demo_args = Inr ledger \<and> validate_ledger demo_env ledger False = Inr ()"
proof -
  obtain ledger where l: "init_ledger demo_env demo_args = Inr ledger" using demo_init by blast
  have "ia_expected demo_args = int EXPECTED_REFERENCE_ENTRIES"
    by (simp add: demo_args_def EXPECTED_REFERENCE_ENTRIES_def)
  from init_ledger_validates[OF l this] l show ?thesis by blast
qed

lemma issue_Nil [simp]: "issue bad ref text = [] \<longleftrightarrow> \<not> bad"
  by (simp add: issue_def)

definition adjudication_sound :: "dbl \<Rightarrow> obj \<Rightarrow> bool" where
  "adjudication_sound duration a \<longleftrightarrow> (\<exists>s t ps.
     is_finite_number (get a ''audible_start_sec'') = Some s \<and>
     is_finite_number (get a ''audible_end_sec'') = Some t \<and> 0 \<le> s \<and> s < t \<and> t \<le> val duration \<and>
     nonempty_str (get a ''canonical_speaker'') \<and>
     py_in (get a ''canonical_speaker'') (arr_or_empty (get a ''acceptable_speakers'')) \<and>
     get a ''overlap_participants'' = JArr ps \<and>
     list_all (overlap_interval_ok ps (Some (s, t))) (arr_or_empty (get a ''overlap_intervals'')) \<and>
     truthy (get a ''reviewer'') \<and> truthy (get a ''adjudicated_utc''))"

lemma overlap_errors_Nil:
  assumes "overlap_errors ref a audible = []"
  shows "list_all (overlap_interval_ok (arr_or_empty (get a ''overlap_participants'')) audible)
    (arr_or_empty (get a ''overlap_intervals''))"
proof (cases "get a ''overlap_intervals''")
  case (JArr ivs)
  have "overlap_interval_ok (arr_or_empty (get a ''overlap_participants'')) audible x" if x: "x \<in> set ivs" for x
  proof -
    from x obtain n where "n < length ivs" "ivs ! n = x" by (auto simp: in_set_conv_nth)
    then have "(n, x) \<in> set (enumerate 0 ivs)" by (auto simp: in_set_enumerate_eq)
    with assms show ?thesis by (auto simp: overlap_errors_def JArr)
  qed
  then show ?thesis by (simp add: JArr list_all_iff)
qed simp_all

lemma adjudication_errors_sound:
  assumes "adjudication_errors ref duration a = []"
  shows "adjudication_sound duration a"
proof -
  from assms obtain s t where st: "audible_interval a duration = Some (s, t)"
    by (auto simp: adjudication_errors_def Let_def)
  then have i: "is_finite_number (get a ''audible_start_sec'') = Some s"
    "is_finite_number (get a ''audible_end_sec'') = Some t" "0 \<le> s" "s < t" "t \<le> val duration"
    by (auto simp: audible_interval_def split: option.splits if_splits)
  from assms obtain ps where ps: "get a ''overlap_participants'' = JArr ps"
    by (cases "get a ''overlap_participants''") (auto simp: adjudication_errors_def str_list_ok_def Let_def)
  have "overlap_errors ref a (Some (s, t)) = []" "speaker_errors ref a = []"
    "truthy (get a ''reviewer'')" "truthy (get a ''adjudicated_utc'')"
    using assms by (simp_all add: adjudication_errors_def st)
  with i ps overlap_errors_Nil[of ref a "Some (s, t)"] show ?thesis
    by (auto simp: adjudication_sound_def speaker_errors_def Let_def split: if_splits)
qed

lemma identity_errors_id: "identity_errors ref prev e src = [] \<Longrightarrow> get e ''reference_id'' = JStr ref"
  by (simp add: identity_errors_def)

lemma ledger_errors_sound:
  "ledger_errors duration True i prev vs srcs = Inr [] \<Longrightarrow> length srcs = length vs \<Longrightarrow> k < length vs \<Longrightarrow>
   \<exists>e a. vs ! k = JObj e \<and> get e ''reference_id'' = JStr (ref_id (i + k)) \<and>
     dget e ''adjudication'' (JObj []) = JObj a \<and> adjudication_sound duration a"
proof (induction vs arbitrary: i prev srcs k)
  case (Cons v vs)
  then obtain src srcs' where src: "srcs = src # srcs'" by (cases srcs) auto
  obtain e where v: "v = JObj e" using Cons.prems(1) src by (cases v) (auto simp: res_iff)
  obtain a where a: "dget e ''adjudication'' (JObj []) = JObj a"
    using Cons.prems(1) src v by (cases "dget e ''adjudication'' (JObj [])") (auto simp: res_iff)
  from Cons.prems(1) have head: "identity_errors (ref_id i) prev e src = []"
      "adjudication_errors (ref_id i) duration a = []"
    and rest: "ledger_errors duration True (Suc i) (get e ''reference_id'') vs srcs' = Inr []"
    by (auto simp: src v a res_iff)
  show ?case
  proof (cases k)
    case 0
    then show ?thesis using v a identity_errors_id[OF head(1)] adjudication_errors_sound[OF head(2)] by simp
  next
    case (Suc j)
    with Cons.IH[OF rest, of j] Cons.prems src show ?thesis by simp
  qed
qed simp

lemma strict_ledger_complete:
  assumes "validate_ledger env ledger True = Inr ()"
  shows "\<exists>es duration. py_iter (dget ledger ''entries'' (JArr [])) = Inr es \<and>
    rbind (vitem (dget ledger ''audio'' (JObj [])) ''duration_sec'') py_float = Inr duration \<and>
    int (length es) = 556 \<and>
    (\<forall>k < length es. \<exists>e a. es ! k = JObj e \<and> get e ''reference_id'' = JStr (ref_id k) \<and>
       dget e ''adjudication'' (JObj []) = JObj a \<and> adjudication_sound duration a)"
proof -
  have len: "n = int (length es)" if "py_len v = Inr n" "py_iter v = Inr es" for v n es
    using that by (cases v) auto
  from assms obtain n dv duration path srcs es where
    n: "py_len (dget ledger ''entries'' (JArr [])) = Inr n" "n = 556"
    and d: "vitem (dget ledger ''audio'' (JObj [])) ''duration_sec'' = Inr dv" "py_float dv = Inr duration"
    and srcs: "parse_reference env path duration = Inr srcs" "int (length srcs) = n"
    and es: "py_iter (dget ledger ''entries'' (JArr [])) = Inr es"
    and errs: "ledger_errors duration True 0 JNull es srcs = Inr []"
    by (auto simp: validate_ledger_def res_iff Let_def EXPECTED_REFERENCE_ENTRIES_def)
  have l: "int (length es) = n" using len[OF n(1) es] by simp
  with srcs(2) have "length srcs = length es" by simp
  from ledger_errors_sound[OF errs this] es d l n(2) show ?thesis
    by (intro exI[of _ es] exI[of _ duration]) simp
qed

text \<open>
  C10: a ledger that passes strict validation has the expected number of entries with the ids in
  order, and every entry is adjudicated: its audible interval is non-empty and inside the audio,
  its canonical speaker is among the acceptable ones, every overlap interval lies inside the
  audible one, and it is signed.
\<close>

theorem validated_ledger_complete:
  assumes "validate_ledger env ledger True = Inr ()"
  shows "\<exists>es duration. py_iter (dget ledger ''entries'' (JArr [])) = Inr es \<and>
    rbind (vitem (dget ledger ''audio'' (JObj [])) ''duration_sec'') py_float = Inr duration \<and>
    int (length es) = 556 \<and>
    (\<forall>k < length es. \<exists>e a. es ! k = JObj e \<and> get e ''reference_id'' = JStr (ref_id k) \<and>
       dget e ''adjudication'' (JObj []) = JObj a \<and> adjudication_sound duration a)"
  by (rule strict_ledger_complete[OF assms])

definition demo_adjudication :: obj where
  "demo_adjudication = [(''audible_start_sec'', JInt 0), (''audible_end_sec'', JInt 1),
     (''criticality'', JStr ''critical''), (''ambiguity'', JStr ''none''),
     (''canonical_speaker'', JStr ''A''), (''acceptable_speakers'', JArr [JStr ''A'']),
     (''overlap_participants'', JArr []), (''overlap_intervals'', JArr []),
     (''acceptable_semantic_equivalents'', JArr []), (''context_summary'', JStr ''c''),
     (''reviewer'', JStr ''r''), (''adjudicated_utc'', JStr ''t'')]"

definition adjudicate :: "obj \<Rightarrow> obj" where
  "adjudicate e = dset ''adjudication'' (JObj demo_adjudication) e"

lemma adjudicate_ok: "keeps_source e (adjudicate e)" "adjudicated (D 8) (adjudicate e)"
proof -
  show "keeps_source e (adjudicate e)"
    by (simp add: keeps_source_def immutable_fields_def adjudicate_def)
  have "val (D 8) = 8" by transfer simp
  then have "adjudication_errors ref (D 8) demo_adjudication = []" for ref
    by (simp add: adjudication_errors_def demo_adjudication_def audible_interval_def is_finite_number_def
      one_of_def speaker_errors_def nonempty_str_def str_list_ok_def py_in_def overlap_errors_def Let_def
      issue_def)
  then show "adjudicated (D 8) (adjudicate e)" by (simp add: adjudicated_def adjudicate_def)
qed

lemma demo_strict:
  "\<exists>es. parse_reference demo_env (JStr (ia_reference demo_args)) (D 8) = Inr es \<and>
     validate_ledger demo_env (signed demo_env
       (ledger_document demo_env demo_args (D 8) ''1'' ''1'' (map adjudicate es))) True = Inr ()"
proof -
  obtain es where es: "parse_reference demo_env (JStr (ia_reference demo_args)) (D 8) = Inr es"
    "length es = 556" using demo_parse by blast
  have sha: "env_file_sha demo_env p = Inr ''1''" for p by (simp add: demo_env_def)
  have "validate_ledger demo_env (signed demo_env
      (ledger_document demo_env demo_args (D 8) ''1'' ''1'' (map adjudicate es))) True = Inr ()"
    by (rule validate_document[OF sha sha es(1)])
       (use es(2) adjudicate_ok in \<open>simp_all add: EXPECTED_REFERENCE_ENTRIES_def\<close>)
  with es(1) show ?thesis by blast
qed

theorem validated_ledger_complete_witness:
  "\<exists>ledger es. validate_ledger demo_env ledger True = Inr () \<and>
     py_iter (dget ledger ''entries'' (JArr [])) = Inr es \<and> int (length es) = 556"
proof -
  obtain ledger where v: "validate_ledger demo_env ledger True = Inr ()" using demo_strict by blast
  from validated_ledger_complete[OF v] v show ?thesis by blast
qed

section \<open>Evidence\<close>

definition item_overlaps :: "dbl \<Rightarrow> dbl \<Rightarrow> nat \<times> json \<Rightarrow> bool" where
  "item_overlaps s e = (\<lambda>(i, v). case v of
     JObj it \<Rightarrow> (case item_span it of Inr (a, b) \<Rightarrow> 0 < audible_overlap s e a b | Inl _ \<Rightarrow> False) | _ \<Rightarrow> False)"

definition tagged :: "string \<Rightarrow> nat \<times> json \<Rightarrow> obj" where
  "tagged kind = (\<lambda>(i, v). case v of
     JObj it \<Rightarrow> with_evidence_id (evidence_id kind it i) it | _ \<Rightarrow> [])"

text \<open>
  The evidence of an entry is exactly the items of the track that overlap its interval, in
  track order, each tagged with its position in the track.
\<close>

lemma select_evidence_filters:
  assumes "select_evidence s e kind i vs = Inr sel"
  shows "sel = map (tagged kind) (filter (item_overlaps s e) (enumerate i vs))"
  using assms
proof (induction vs arbitrary: i sel)
  case (Cons v vs)
  show ?case
  proof (cases v)
    case (JObj it)
    with Cons.prems obtain a b rest where ab: "item_span it = Inr (a, b)"
      and rest: "select_evidence s e kind (Suc i) vs = Inr rest"
      and sel: "sel = (if audible_overlap s e a b \<le> 0 then rest
                 else with_evidence_id (evidence_id kind it i) it # rest)"
      by (auto simp: res_iff)
    with Cons.IH[OF rest] JObj show ?thesis by (simp add: item_overlaps_def tagged_def not_le[symmetric])
  qed (use Cons in \<open>simp_all add: item_overlaps_def\<close>)
qed simp

definition demo_item :: "int \<Rightarrow> int \<Rightarrow> json" where
  "demo_item a b = JObj [(''start'', JInt a), (''end'', JInt b)]"

theorem select_evidence_filters_witness:
  "\<exists>sel. select_evidence (D 1) (D 3) ''vad'' 0 [demo_item 0 1, demo_item 2 4] = Inr sel \<and>
     sel = map (tagged ''vad'') (filter (item_overlaps (D 1) (D 3))
       (enumerate 0 [demo_item 0 1, demo_item 2 4])) \<and>
     map (\<lambda>d. get d ''evidence_id'') sel = [JStr ''vad:1'']"
proof -
  have "rbind (select_evidence (D 1) (D 3) ''vad'' 0 [demo_item 0 1, demo_item 2 4])
      (\<lambda>sel. Inr (map (\<lambda>d. get d ''evidence_id'') sel)) = Inr [JStr ''vad:1'']"
    by code_simp
  then obtain sel where sel: "select_evidence (D 1) (D 3) ''vad'' 0 [demo_item 0 1, demo_item 2 4] = Inr sel"
    "map (\<lambda>d. get d ''evidence_id'') sel = [JStr ''vad:1'']" by (auto simp: res_iff)
  from select_evidence_filters[OF sel(1)] sel show ?thesis by (intro exI[of _ sel] conjI)
qed

section \<open>Judged intervals\<close>

lemma interval_of_sound:
  assumes "interval_of s e v = Inr p"
  shows "s \<le> fst p \<and> snd p \<le> e \<and> fst p \<le> snd p"
proof -
  from assms obtain l r where v: "v = JArr [l, r]"
    by (auto simp: interval_of_def split: json.splits list.splits)
  from assms obtain a b where ab: "is_finite_number l = Some a" "is_finite_number r = Some b"
    "\<not> a < val s" "\<not> val e < b" "a \<le> b"
    and p: "py_float l = Inr (fst p)" "py_float r = Inr (snd p)"
    by (auto simp: interval_of_def v res_iff split: option.splits if_splits)
  have num: "x = Abs_dbl (fl c)" if "is_finite_number w = Some c" "py_float w = Inr x" for w c x
    using that by (cases w) (auto simp: is_finite_number_def val_inverse of_pyint_def)
  have "fl (val s) \<le> fl a" "fl b \<le> fl (val e)" "fl a \<le> fl b"
    by (rule fl_mono, use ab in linarith)+
  then show ?thesis
    using num[OF ab(1) p(1)] num[OF ab(2) p(2)] by (simp add: less_eq_dbl.rep_eq Abs_dbl_inverse)
qed

text \<open>
  The normalised intervals of a judgment lie inside the entry's interval, are ordered and
  disjoint, contain every judged interval, and their total is not negative.
\<close>

lemma normalize_intervals_sound:
  assumes "normalize_intervals v s e = Inr m"
  shows "\<exists>xs is. v = JArr is \<and> rmap (interval_of s e) is = Inr xs \<and>
    list_all (covered_by m) xs \<and> list_all (\<lambda>p. s \<le> fst p \<and> snd p \<le> e) m \<and>
    successively (\<lambda>p q. snd p < fst q) m \<and> sorted (map fst m) \<and>
    intervals_duration v s e = Inr (total_span m) \<and> 0 \<le> total_span m"
proof -
  from assms obtain vs xs where v: "v = JArr vs" and xs: "rmap (interval_of s e) vs = Inr xs"
    and m: "m = merge_spans 0 xs"
    by (auto simp: normalize_intervals_def res_iff split: json.splits)
  have each: "s \<le> fst p \<and> snd p \<le> e \<and> fst p \<le> snd p" if "p \<in> set xs" for p
    using rmap_image[OF xs that] interval_of_sound by blast
  have "\<forall>(a, b) \<in> set xs. a \<le> b" using each by fastforce
  then have "0 \<le> total_span m" unfolding m by (rule merge_spans_total_nonneg)
  moreover have "s \<le> fst p \<and> snd p \<le> e" if "p \<in> set xs" for p using each[OF that] by blast
  then have "s \<le> fst p \<and> snd p \<le> e" if "p \<in> set m" for p
    using merge_spans_ends[of p 0 xs] that by (metis (no_types, lifting) imageE m)
  then have "list_all (\<lambda>p. s \<le> fst p \<and> snd p \<le> e) m" by (simp only: list_all_iff Ball_def) blast
  moreover have "successively (\<lambda>p q. snd p < fst q) m"
    using merge_spans_separated[of 0 xs] by (simp add: m)
  ultimately show ?thesis
    using v xs assms merge_spans_cover[of 0 xs] merge_spans_starts_sorted[of 0 xs]
    by (simp add: m intervals_duration_def)
qed

theorem normalize_intervals_sound_witness:
  "\<exists>m. normalize_intervals (JArr [JArr [JInt 2, JInt 4], JArr [JInt 1, JInt 3]]) (D 0) (D 8) = Inr m \<and>
     m = [(D 1, D 4)] \<and> 0 \<le> total_span m"
proof -
  have m: "normalize_intervals (JArr [JArr [JInt 2, JInt 4], JArr [JInt 1, JInt 3]]) (D 0) (D 8)
      = Inr [(D 1, D 4)]" by code_simp
  have "0 \<le> total_span [(D 1, D 4)]" using normalize_intervals_sound[OF m] by blast
  with m show ?thesis by blast
qed

section \<open>Judgments and reviews\<close>

definition offset_over_one :: "json \<Rightarrow> bool" where
  "offset_over_one v \<longleftrightarrow> (\<exists>x. py_float v = Inr x \<and> is_finite_number v \<noteq> None \<and> 1 < \<bar>x\<bar>)"

text \<open>What an accepted judgment has decided.\<close>

definition judgment_sound :: "json \<Rightarrow> dbl \<Rightarrow> dbl \<Rightarrow> string list \<Rightarrow> bool" where
  "judgment_sound v s e available \<longleftrightarrow> (\<exists>j text duration. v = JObj j \<and>
     one_of (get j ''result'') [''correct'', ''incorrect'', ''ambiguous''] \<and>
     \<not> (truthy (get j ''uncertain_output'') \<and> get j ''result'' = JStr ''correct'') \<and>
     set (cited_ids (get j ''evidence_ids'')) \<subseteq> set available \<and>
     intervals_duration (get j ''correct_speaker_intervals'') s e = Inr duration \<and>
     (get j ''result'' = JStr ''correct'' \<longrightarrow> 0 < duration) \<and>
     get j ''boundary_offset_notes'' = JStr text \<and>
     (offset_over_one (get j ''boundary_start_offset_sec'') \<or>
      offset_over_one (get j ''boundary_end_offset_sec'') \<longrightarrow> strip text \<noteq> []) \<and>
     truthy (get j ''context_notes'') \<and> truthy (get j ''reviewer'') \<and> truthy (get j ''reviewed_utc''))"

lemma fail_if_Inr_iff [res_iff]: "fail_if b ref text k = Inr y \<longleftrightarrow> \<not> b \<and> k = Inr y"
  by (simp add: fail_if_def raise_if_Inr_iff)

lemma unavailable_Nil: "unavailable ids available = [] \<longleftrightarrow> set (cited_ids ids) \<subseteq> set available"
proof -
  have "unavailable ids available = [] \<longleftrightarrow> set (unavailable ids available) = {}" by simp
  also have "\<dots> \<longleftrightarrow> set (cited_ids ids) \<subseteq> set available"
    unfolding unavailable_def set_sort by auto
  finally show ?thesis .
qed

lemma boundary_offset_over:
  assumes "boundary_offset ref j field = Inr os" and "offset_over_one (get j field)"
  shows "list_ex (\<lambda>x. 1 < x) os"
  using assms by (auto simp: boundary_offset_def offset_over_one_def Let_def split: if_splits)

lemma json_str_case_Inr:
  "(case v of JStr text \<Rightarrow> f text | _ \<Rightarrow> Inl err) = Inr y \<longleftrightarrow> (\<exists>text. v = JStr text \<and> f text = Inr y)"
  by (cases v) simp_all

lemma validate_judgment_sound:
  assumes "validate_judgment v ref s e available = Inr ()"
  shows "judgment_sound v s e available"
proof -
  obtain j where v: "v = JObj j" using assms by (cases v) (simp_all add: validate_judgment_def)
  from assms obtain duration o1 o2 nt where
    o: "boundary_offset ref j ''boundary_start_offset_sec'' = Inr o1"
      "boundary_offset ref j ''boundary_end_offset_sec'' = Inr o2"
    and bn: "get j ''boundary_offset_notes'' = JStr nt"
    and offs: "\<not> (list_ex (\<lambda>x. 1 < x) (o1 @ o2) \<and> strip nt = [])"
    and rest: "one_of (get j ''result'') [''correct'', ''incorrect'', ''ambiguous'']"
      "\<not> (truthy (get j ''uncertain_output'') \<and> get j ''result'' = JStr ''correct'')"
      "unavailable (get j ''evidence_ids'') available = []"
      "intervals_duration (get j ''correct_speaker_intervals'') s e = Inr duration"
      "\<not> (get j ''result'' = JStr ''correct'' \<and> duration \<le> 0)"
      "truthy (get j ''context_notes'')" "truthy (get j ''reviewer'')" "truthy (get j ''reviewed_utc'')"
    unfolding validate_judgment_def v vdict.simps rbind_simps Let_def res_iff json_str_case_Inr by blast
  have "offset_over_one (get j ''boundary_start_offset_sec'') \<or>
      offset_over_one (get j ''boundary_end_offset_sec'') \<longrightarrow> strip nt \<noteq> []"
    using offs boundary_offset_over[OF o(1)] boundary_offset_over[OF o(2)] by auto
  with bn rest v show ?thesis by (auto simp: judgment_sound_def unavailable_Nil not_le)
qed

definition row_sound :: "json \<Rightarrow> json \<Rightarrow> bool" where
  "row_sound expected row \<longleftrightarrow> (\<exists>ref s e evidence available c r f sc sr notes.
     vitem expected ''reference_id'' = Inr ref \<and> (\<exists>i. vget row ''reference_id'' JNull = Inr i \<and> py_eq i ref) \<and>
     vget row ''evidence'' (JObj []) = Inr evidence \<and> available_evidence_ids evidence = Inr available \<and>
     vitem row ''chronological_pass'' = Inr c \<and> vitem row ''reverse_block_pass'' = Inr r \<and>
     vitem row ''final'' = Inr f \<and> list_all (\<lambda>j. judgment_sound j s e available) [c, r, f] \<and>
     judgment_decision_signature c = Inr sc \<and> judgment_decision_signature r = Inr sr \<and>
     vget row ''reconciliation_notes'' (JStr []) = Inr notes \<and> (sc = sr \<or> strip (py_str notes) \<noteq> []))"

lemma validate_row_sound: "validate_row expected row = Inr () \<Longrightarrow> row_sound expected row"
  unfolding validate_row_def row_sound_def passes_def Let_def rmap.simps res_iff
  by (force dest: validate_judgment_sound)

text \<open>
  Strict validation accepts a review only if every row carries the id of its reference entry
  in order, all three passes of every row are decided, cite only evidence attached to the row and
  annotate offsets over a second, and passes that disagree are reconciled.
\<close>

lemma validated_review_complete:
  assumes "validate_review env review ledger True = Inr ()"
  shows "\<exists>es rows. rbind (item ledger ''entries'') py_iter = Inr es \<and>
    py_iter (dget review ''entries'' (JArr [])) = Inr rows \<and> length rows = length es \<and>
    list_all2 row_sound es rows \<and> py_eq (get review ''ledger_sha256'') (get ledger ''content_sha256'') \<and>
    get review ''content_sha256'' = JStr (content_sha256 env review)"
proof -
  have len: "n = int (length es)" if "py_len v = Inr n" "py_iter v = Inr es" for v n es
    using that by (cases v) auto
  from assms obtain n ev es rows rs where n: "py_len (dget review ''entries'' (JArr [])) = Inr n"
      "py_len (dget ledger ''entries'' (JArr [])) = Inr n"
    and ev: "item ledger ''entries'' = Inr ev" "py_iter ev = Inr es"
    and rows: "py_iter (dget review ''entries'' (JArr [])) = Inr rows"
    and rs: "rmap (\<lambda>(x, r). validate_row x r) (zip es rows) = Inr rs"
    and hash: "py_eq (get review ''ledger_sha256'') (get ledger ''content_sha256'')"
      "validate_hash env review ''review'' = Inr ()"
    by (auto simp: validate_review_def res_iff Let_def)
  have "dget ledger ''entries'' (JArr []) = ev"
    using ev(1) by (auto simp: item_def ditem_def dget_def split: option.splits)
  with len[OF n(1) rows] len[OF n(2)] ev(2) have l: "length rows = length es" by simp
  have "row_sound x r" if "(x, r) \<in> set (zip es rows)" for x r
    using rmap_all[OF rs that] by (auto intro: validate_row_sound)
  then have "list_all2 row_sound es rows" using l by (auto simp: list_all2_iff)
  then show ?thesis using ev rows l hash by (auto simp: validate_hash_def raise_if_def split: if_splits)
qed

definition demo_judgment :: json where
  "demo_judgment = JObj [(''result'', JStr ''correct''), (''speaker_eval'', JStr ''accurate''),
     (''system_speakers'', JArr []), (''correct_speaker_intervals'', JArr [JArr [JInt 1, JInt 3]]),
     (''boundary_offset_notes'', JStr []), (''confident_wrong'', JBool False),
     (''uncertain_output'', JBool False), (''evidence_ids'', JArr [JStr ''vad:0'']),
     (''context_notes'', JStr ''n''), (''reviewer'', JStr ''r''), (''reviewed_utc'', JStr ''t'')]"

definition demo_review :: obj where
  "demo_review = [(''content_sha256'', JStr ''0''), (''schema_version'', JInt 2),
     (''kind'', JStr ''orator_run_review''), (''ledger_sha256'', JStr ''0''), (''timeline_path'', JStr ''t''),
     (''timeline_sha256'', JStr ''1''), (''resolved_config_sha256'', JStr ''c''), (''entries'', JArr [JObj
       [(''reference_id'', JStr ''ref-0001''),
        (''evidence'', JObj [(''vad'', JArr [JObj [(''evidence_id'', JStr ''vad:0'')]])]),
        (''chronological_pass'', demo_judgment), (''reverse_block_pass'', demo_judgment),
        (''final'', demo_judgment)]])]"

definition demo_adjudication4 :: obj where
  "demo_adjudication4 = dset ''audible_end_sec'' (JInt 4) demo_adjudication"

definition demo_ledger4 :: obj where
  "demo_ledger4 = [(''content_sha256'', JStr ''0''), (''entries'', JArr [JObj
     [(''reference_id'', JStr ''ref-0001''), (''adjudication'', JObj demo_adjudication4)]])]"

theorem validated_review_complete_witness:
  "validate_review demo_env demo_review demo_ledger4 True = Inr () \<and>
   get demo_review ''content_sha256'' = JStr (content_sha256 demo_env demo_review)"
proof -
  have hash: "content_sha256 demo_env d = ''0''" for d by (simp add: content_sha256_def demo_env_def)
  have "validate_row (JObj [(''reference_id'', JStr ''ref-0001''), (''adjudication'', JObj demo_adjudication4)])
      (JObj [(''reference_id'', JStr ''ref-0001''),
        (''evidence'', JObj [(''vad'', JArr [JObj [(''evidence_id'', JStr ''vad:0'')]])]),
        (''chronological_pass'', demo_judgment), (''reverse_block_pass'', demo_judgment),
        (''final'', demo_judgment)]) = Inr ()" by code_simp
  then have v: "validate_review demo_env demo_review demo_ledger4 True = Inr ()"
    by (simp add: validate_review_def validate_hash_def hash demo_review_def demo_ledger4_def Let_def)
       (simp add: demo_env_def)
  with validated_review_complete[OF v] show ?thesis by blast
qed

section \<open>A prepared review is not a finished one\<close>

lemma fresh_judgment_rejected:
  "validate_judgment fresh_judgment ref s e available = Inl (ValueError (msg ref ''result unreviewed''))"
  by (simp add: validate_judgment_def fresh_judgment_def fail_if_def one_of_def)

lemma item_get: "get d k \<noteq> JNull \<Longrightarrow> item d k = Inr (get d k)"
  by (auto simp: item_def ditem_def get_def dget_def split: option.splits)

lemma finite_py_float: "is_finite_number v = Some x \<Longrightarrow> \<exists>y. py_float v = Inr y"
  by (cases v) (simp_all add: is_finite_number_def)

lemma prepared_row_rejected:
  assumes "review_entry ts business v = Inr row" and "v = JObj e" "get e ''reference_id'' = JStr ref"
    and "dget e ''adjudication'' (JObj []) = JObj a" "adjudication_sound d a"
  shows "validate_row v row = Inl (ValueError (msg ref ''result unreviewed''))"
proof -
  from assms(1,2) obtain av where "item e ''adjudication'' = Inr av" by (auto simp: review_entry_def res_iff)
  with assms(4) have adj: "item e ''adjudication'' = Inr (JObj a)"
    by (auto simp: item_def ditem_def dget_def split: option.splits)
  from assms(5) obtain x y where "is_finite_number (get a ''audible_start_sec'') = Some x"
    "is_finite_number (get a ''audible_end_sec'') = Some y" by (auto simp: adjudication_sound_def)
  moreover from this have "get a ''audible_start_sec'' \<noteq> JNull" "get a ''audible_end_sec'' \<noteq> JNull"
    by (auto simp: is_finite_number_def)
  ultimately obtain s t where st: "rbind (item a ''audible_start_sec'') py_float = Inr s"
    "rbind (item a ''audible_end_sec'') py_float = Inr t"
    using finite_py_float by (fastforce simp: item_get)
  have id: "item e ''reference_id'' = Inr (JStr ref)" using assms(3) by (simp add: item_get)
  from assms(1,2) id obtain sel where row: "row = JObj [(''reference_id'', JStr ref), (''evidence'', JObj sel),
      (''chronological_pass'', fresh_judgment), (''reverse_block_pass'', fresh_judgment),
      (''final'', fresh_judgment), (''reconciliation_notes'', JStr [])]"
    by (auto simp: review_entry_def res_iff)
  show ?thesis
    by (simp add: validate_row_def assms(2) row id adj st passes_def available_evidence_ids_def
      fresh_judgment_rejected fail_if_def)
qed

text \<open>
  C11: a review that has just been prepared points to its ledger and timeline, so it passes the
  plain validation, but strict validation rejects it: nothing has been judged yet.
\<close>

theorem prepared_review_unfinished:
  assumes "prepare_review env lp ledger tp package = Inr review"
  shows "validate_review env review ledger False = Inr () \<and>
    (\<exists>m. validate_review env review ledger True = Inl (ValueError m))"
proof -
  let ?t = "terminal_timeline package"
  from assms obtain ts business ev es rows lsha tsha csha where
    valid: "validate_ledger env ledger True = Inr ()"
    and ev: "item ledger ''entries'' = Inr ev" "py_iter ev = Inr es"
    and rows: "rmap (review_entry ts business) es = Inr rows"
    and lsha: "item ledger ''content_sha256'' = Inr lsha"
    and tsha: "env_file_sha env (JStr tp) = Inr tsha"
    and review: "review = signed env [(''schema_version'', JInt 2), (''kind'', JStr ''orator_run_review''),
      (''created_utc'', JStr (env_now env)), (''ledger_path'', JStr lp), (''ledger_sha256'', lsha),
      (''timeline_path'', JStr tp), (''timeline_sha256'', JStr tsha), (''resolved_config_sha256'', csha),
      (''entry_count'', JInt (int (length rows))), (''entries'', JArr rows)]"
    by (auto simp: prepare_review_def res_iff Let_def)
  have dev: "dget ledger ''entries'' (JArr []) = ev"
    using ev(1) by (auto simp: item_def ditem_def dget_def split: option.splits)
  obtain d where es: "int (length es) = 556" "\<forall>k < length es. \<exists>e a. es ! k = JObj e \<and>
      get e ''reference_id'' = JStr (ref_id k) \<and> dget e ''adjudication'' (JObj []) = JObj a \<and>
      adjudication_sound d a"
    using strict_ledger_complete[OF valid] ev(2) by (auto simp: dev)
  from es(1) obtain x xs where x: "es = x # xs" by (cases es) auto
  with rows obtain r rs where r: "rows = r # rs" "review_entry ts business x = Inr r"
    by (auto simp: res_iff)
  from es(2) x obtain e a where e: "x = JObj e" "get e ''reference_id'' = JStr (ref_id 0)"
    "dget e ''adjudication'' (JObj []) = JObj a" "adjudication_sound d a"
    by (metis length_greater_0_conv list.distinct(1) nth_Cons_0)
  have bad: "validate_row x r = Inl (ValueError (msg (ref_id 0) ''result unreviewed''))"
    using r(2) e by (rule prepared_row_rejected)
  have len: "py_len ev = Inr (int (length rows))"
    using ev(2) es(1) rmap_length[OF rows] e(1) x by (cases ev) auto
  have "validate_hash env ledger ''ledger'' = Inr ()" using valid by (simp add: validate_ledger_def res_iff)
  then have "get ledger ''content_sha256'' = JStr (content_sha256 env ledger)"
    by (simp add: validate_hash_def res_iff)
  moreover from this lsha have "lsha = JStr (content_sha256 env ledger)" by (simp add: item_get)
  ultimately show ?thesis
    using x r bad tsha by (simp add: validate_review_def review Let_def dev len ev(1) ev(2) raise_if_def)
qed

lemma demo_review_entry:
  "\<exists>row. review_entry [] (JArr []) (JObj (adjudicate (reference_entry env i r fe))) = Inr row"
proof -
  have "get (adjudicate (reference_entry env i r fe)) ''reference_id'' = JStr (ref_id i)"
    by (simp add: adjudicate_def)
  then have "item (adjudicate (reference_entry env i r fe)) ''reference_id'' = Inr (JStr (ref_id i))"
    by (simp add: item_get)
  then show ?thesis
    by (simp add: review_entry_def adjudicate_def adjudicated_or_def demo_adjudication_def as_number_def
      select_track_def)
qed

theorem prepared_review_unfinished_witness:
  "\<exists>ledger review. prepare_review demo_env ''l'' ledger ''t'' [] = Inr review \<and>
     validate_review demo_env review ledger False = Inr ()"
proof -
  obtain es where es: "parse_reference demo_env (JStr (ia_reference demo_args)) (D 8) = Inr es"
    and v: "validate_ledger demo_env (signed demo_env
      (ledger_document demo_env demo_args (D 8) ''1'' ''1'' (map adjudicate es))) True = Inr ()"
    using demo_strict by blast
  let ?l = "signed demo_env (ledger_document demo_env demo_args (D 8) ''1'' ''1'' (map adjudicate es))"
  obtain rs where rs: "es = reference_entries demo_env (D 8) 0 rs" using es by (auto simp: parse_reference_def res_iff)
  have all: "\<forall>v \<in> set (map (JObj \<circ> adjudicate) (reference_entries demo_env (D 8) i rs)).
      \<exists>row. review_entry [] (JArr []) v = Inr row" for i rs
    using demo_review_entry by (induction rs arbitrary: i) auto
  obtain rows where rows: "rmap (review_entry [] (JArr [])) (map (JObj \<circ> adjudicate) es) = Inr rows"
    using rmap_exists[OF all[of 0 rs]] by (auto simp only: rs)
  have "get ?l ''entries'' = JArr (map (JObj \<circ> adjudicate) es)" by (simp add: ledger_document_def)
  then have e: "item ?l ''entries'' = Inr (JArr (map (JObj \<circ> adjudicate) es))" by (simp add: item_get)
  have h: "item ?l ''content_sha256'' = Inr (JStr (content_sha256 demo_env (ledger_document demo_env demo_args
      (D 8) ''1'' ''1'' (map adjudicate es))))" by (simp add: signed_def)
  have sha: "env_file_sha demo_env p = Inr ''1''" for p by (simp add: demo_env_def)
  have t: "track_map (terminal_timeline []) = Inr []" "dget (terminal_timeline []) k c = c" for k c
    by (simp_all add: terminal_timeline_def track_map_def)
  have "\<exists>review. prepare_review demo_env ''l'' ?l ''t'' [] = Inr review"
    unfolding prepare_review_def v t Let_def rbind_simps e py_iter.simps rows h sha map_of.simps option.case t(2)
    by simp
  then obtain review where p: "prepare_review demo_env ''l'' ?l ''t'' [] = Inr review" by blast
  from prepared_review_unfinished[OF p] p show ?thesis by blast
qed

end
