(* ===== verification/Py_Text.thy ===== *)
theory Py_Text
  imports Py_Value
begin

text \<open>
  Tables as the tools read them, operations of \<^verbatim>\<open>str\<close> and comprehension patterns that the evidence tools share: splitting,
  \<^verbatim>\<open>rpartition\<close>, \<^verbatim>\<open>isdigit\<close>, \<^verbatim>\<open>any\<close> and filters whose test may raise.
\<close>

section \<open>Tables\<close>

text \<open>
  Tables as \<^verbatim>\<open>csv.DictReader\<close> yields them: the field names, and one dict per row whose values
  are texts, or \<^verbatim>\<open>None\<close> for fields a short row lacks.
\<close>

type_synonym csv_row = "(string, string option) pydict"

record csv_table =
  csv_fields :: "string list"
  csv_rows :: "csv_row list"

text \<open>\<^verbatim>\<open>row[k]\<close>, \<^verbatim>\<open>int(row[k])\<close> and \<^verbatim>\<open>float(row[k])\<close>.\<close>

definition csv_item :: "csv_row \<Rightarrow> string \<Rightarrow> string option res" where
  "csv_item row k = ditem row k (KeyError k)"

definition csv_int :: "csv_row \<Rightarrow> string \<Rightarrow> int res" where
  "csv_int row k = rbind (csv_item row k) (\<lambda>v. case v of Some s \<Rightarrow> int_str s | None \<Rightarrow> Inl TypeError)"

definition csv_float :: "csv_row \<Rightarrow> string \<Rightarrow> dbl res" where
  "csv_float row k = rbind (csv_item row k) (\<lambda>v. case v of Some s \<Rightarrow> float_str s | None \<Rightarrow> Inl TypeError)"

text \<open>\<^verbatim>\<open>row.get(k)\<close> where only a non-empty text counts, and its number.\<close>

definition csv_text :: "csv_row \<Rightarrow> string \<Rightarrow> string option" where
  "csv_text row k = (case map_of row k of Some (Some s) \<Rightarrow> if s \<noteq> [] then Some s else None | _ \<Rightarrow> None)"

definition csv_opt_float :: "csv_row \<Rightarrow> string \<Rightarrow> dbl option res" where
  "csv_opt_float row k = (case csv_text row k of None \<Rightarrow> Inr None
     | Some s \<Rightarrow> rbind (float_str s) (\<lambda>x. Inr (Some x)))"

definition has_prefix :: "string \<Rightarrow> string \<Rightarrow> bool" where
  "has_prefix p s \<longleftrightarrow> take (length p) s = p"

definition fields_missing :: "string list \<Rightarrow> string list \<Rightarrow> string list" where
  "fields_missing required have = sort (filter (\<lambda>k. k \<notin> set have) (remdups required))"

definition opt_json :: "string option \<Rightarrow> json" where
  "opt_json v = (case v of Some s \<Rightarrow> JStr s | None \<Rightarrow> JNull)"

definition opt_num :: "dbl option \<Rightarrow> json" where
  "opt_num v = (case v of Some x \<Rightarrow> JFlt x | None \<Rightarrow> JNull)"

text \<open>A file as manifests name it: its resolved path and digest.\<close>

type_synonym file_identity = "string \<times> string"

definition file_doc :: "file_identity \<Rightarrow> json" where
  "file_doc f = JObj [(''path'', JStr (fst f)), (''sha256'', JStr (snd f))]"

section \<open>Texts\<close>

text \<open>\<^verbatim>\<open>s.split(c)\<close> for a single character.\<close>

fun split_on :: "char \<Rightarrow> string \<Rightarrow> string list" where
  "split_on c [] = [[]]"
| "split_on c (x # xs) = (if x = c then [] # split_on c xs
     else case split_on c xs of [] \<Rightarrow> [[x]] | p # ps \<Rightarrow> (x # p) # ps)"

text \<open>\<^verbatim>\<open>s.rpartition(c)\<close>: head and tail around the last \<open>c\<close>, if there is one.\<close>

definition rpartition :: "char \<Rightarrow> string \<Rightarrow> (string \<times> string) option" where
  "rpartition c s = (if c \<in> set s
     then Some (butlast (rev (dropWhile (\<lambda>x. x \<noteq> c) (rev s))), rev (takeWhile (\<lambda>x. x \<noteq> c) (rev s)))
     else None)"

text \<open>\<^verbatim>\<open>s.isdigit()\<close>: also true of the superscript digits, which \<^verbatim>\<open>int\<close> rejects.\<close>

definition is_digit_text :: "string \<Rightarrow> bool" where
  "is_digit_text s \<longleftrightarrow> s \<noteq> [] \<and>
     list_all (\<lambda>c. is_digit c \<or> c = CHR 0xB2 \<or> c = CHR 0xB3 \<or> c = CHR 0xB9) s"

section \<open>Comprehensions whose test may raise\<close>

fun rany :: "('a \<Rightarrow> bool res) \<Rightarrow> 'a list \<Rightarrow> bool res" where
  "rany f [] = Inr False"
| "rany f (x # xs) = rbind (f x) (\<lambda>b. if b then Inr True else rany f xs)"

fun rfilter :: "('a \<Rightarrow> bool res) \<Rightarrow> 'a list \<Rightarrow> 'a list res" where
  "rfilter f [] = Inr []"
| "rfilter f (x # xs) = rbind (f x) (\<lambda>b. rbind (rfilter f xs) (\<lambda>ys. Inr (if b then x # ys else ys)))"

lemma rany_Inr: "rany f xs = Inr b \<Longrightarrow> b \<longleftrightarrow> (\<exists>x \<in> set xs. f x = Inr True)"
proof (induction xs)
  case (Cons x xs)
  then show ?case by (cases "f x") (auto split: if_splits)
qed simp

lemma rany_False: "rany f xs = Inr False \<Longrightarrow> \<forall>x \<in> set xs. f x = Inr False"
  by (induction xs) (auto simp: rbind_Inr_iff split: if_splits)

lemma rfilter_Inr:
  "rfilter f xs = Inr ys \<Longrightarrow> ys = filter (\<lambda>x. f x = Inr True) xs \<and> (\<forall>x \<in> set xs. \<exists>b. f x = Inr b)"
proof (induction xs arbitrary: ys)
  case (Cons x xs)
  then obtain b zs where "f x = Inr b" "rfilter f xs = Inr zs" "ys = (if b then x # zs else zs)"
    by (auto simp: res_iff)
  with Cons.IH[of zs] show ?case by auto
qed simp

lemma rfilter_total: "\<forall>x \<in> set xs. \<exists>b. f x = Inr b \<Longrightarrow> rfilter f xs = Inr (filter (\<lambda>x. f x = Inr True) xs)"
  by (induction xs) auto

text \<open>A loop that skips (\<^verbatim>\<open>continue\<close>) or appends one result: the results that are there.\<close>

definition rcollect :: "('a \<Rightarrow> 'b option res) \<Rightarrow> 'a list \<Rightarrow> 'b list res" where
  "rcollect f xs = rbind (rmap f xs) (\<lambda>ys. Inr (List.map_filter (\<lambda>y. y) ys))"

lemma rcollect_simps [simp]:
  "rcollect f [] = Inr []"
  "rcollect f (x # xs) = rbind (f x) (\<lambda>y. rbind (rcollect f xs)
     (\<lambda>ys. Inr (case y of None \<Rightarrow> ys | Some v \<Rightarrow> v # ys)))"
proof -
  show "rcollect f (x # xs) = rbind (f x) (\<lambda>y. rbind (rcollect f xs)
     (\<lambda>ys. Inr (case y of None \<Rightarrow> ys | Some v \<Rightarrow> v # ys)))"
    by (cases "f x"; cases "rmap f xs") (auto simp: rcollect_def map_filter_simps split: option.split)
qed (simp add: rcollect_def map_filter_simps)

lemma rbind_Inr_right [simp]: "rbind m Inr = m"
  by (cases m) simp_all

lemma rcollect_append:
  "rcollect f (xs @ ys) = rbind (rcollect f xs) (\<lambda>a. rbind (rcollect f ys) (\<lambda>b. Inr (a @ b)))"
proof (induction xs)
  case Nil
  show ?case by (cases "rcollect f ys") simp_all
next
  case (Cons x xs)
  then show ?case
    by (cases "f x"; cases "rcollect f xs"; cases "rcollect f ys") (simp_all split: option.split)
qed

lemma rcollect_set:
  "rcollect f xs = Inr ys \<Longrightarrow> y \<in> set ys \<longleftrightarrow> (\<exists>x \<in> set xs. f x = Inr (Some y))"
proof (induction xs arbitrary: ys)
  case (Cons x xs)
  then obtain r zs where r: "f x = Inr r" "rcollect f xs = Inr zs"
    "ys = (case r of None \<Rightarrow> zs | Some v \<Rightarrow> v # zs)" by (auto simp: res_iff)
  with Cons.IH[of zs] show ?case by (cases r) auto
qed simp

lemma rcollect_all: "rcollect f xs = Inr ys \<Longrightarrow> x \<in> set xs \<Longrightarrow> \<exists>r. f x = Inr r"
  by (auto simp: rcollect_def rbind_Inr_iff dest: rmap_all)

text \<open>
  When each result carries (under \<open>g\<close>) the element it came from, the results name exactly the
  elements that were not skipped, in order.
\<close>

lemma rcollect_filter:
  assumes "rcollect f xs = Inr ys" and "\<And>x y. x \<in> set xs \<Longrightarrow> f x = Inr (Some y) \<Longrightarrow> g y = h x"
  shows "map g ys = map h (filter (\<lambda>x. \<exists>y. f x = Inr (Some y)) xs)"
  using assms
proof (induction xs arbitrary: ys)
  case (Cons x xs)
  from Cons.prems(1) obtain r zs where r: "f x = Inr r" "rcollect f xs = Inr zs"
    "ys = (case r of None \<Rightarrow> zs | Some v \<Rightarrow> v # zs)" by (auto simp: res_iff)
  have "g y = h z" if "z \<in> set xs" "f z = Inr (Some y)" for y z
    by (rule Cons.prems(2)) (use that in simp_all)
  with Cons.IH[OF r(2)] have "map g zs = map h (filter (\<lambda>x. \<exists>y. f x = Inr (Some y)) xs)" by blast
  moreover have "g v = h x" if "r = Some v" for v
    by (rule Cons.prems(2)) (use that r(1) in simp_all)
  ultimately show ?case using r by (cases r) auto
qed simp

lemma rcollect_exists: "\<forall>x \<in> set xs. \<exists>r. f x = Inr r \<Longrightarrow> \<exists>ys. rcollect f xs = Inr ys"
  unfolding rcollect_def by (drule rmap_exists) auto

section \<open>Splitting\<close>

lemma split_on_nonempty [simp]: "split_on c s \<noteq> []"
  by (induction s) (auto split: list.splits)

lemma split_on_clean: "p \<in> set (split_on c s) \<Longrightarrow> c \<notin> set p"
proof (induction s arbitrary: p)
  case (Cons x xs)
  then show ?case by (cases "split_on c xs") (auto split: if_splits)
qed simp

lemma split_on_join: "join_with [c] (split_on c s) = s"
proof (induction s)
  case (Cons x xs)
  then show ?case by (cases "split_on c xs"; cases "tl (split_on c xs)") auto
qed simp

lemma rpartition_append: "rpartition c s = Some (a, b) \<Longrightarrow> s = a @ c # b \<and> c \<notin> set b"
proof -
  assume r: "rpartition c s = Some (a, b)"
  then have mem: "c \<in> set (rev s)" by (auto simp: rpartition_def split: if_splits)
  let ?d = "dropWhile (\<lambda>x. x \<noteq> c) (rev s)"
  have ne: "?d \<noteq> []" using mem by (auto simp: dropWhile_eq_Nil_conv)
  then have hd: "hd ?d = c" using hd_dropWhile[of "\<lambda>x. x \<noteq> c"] by blast
  have "a = butlast (rev ?d)" using r by (auto simp: rpartition_def split: if_splits)
  moreover have "last (rev ?d) = c" using ne hd by (simp only: last_rev)
  moreover have "butlast (rev ?d) @ [last (rev ?d)] = rev ?d" using ne by (intro append_butlast_last_id) simp
  ultimately have d: "rev ?d = a @ [c]" by (simp only:)
  have b: "b = rev (takeWhile (\<lambda>x. x \<noteq> c) (rev s))" using r by (auto simp: rpartition_def split: if_splits)
  have "s = rev (takeWhile (\<lambda>x. x \<noteq> c) (rev s) @ ?d)" by simp
  also have "\<dots> = rev ?d @ b" by (simp only: rev_append b)
  finally have "s = a @ c # b" using d by simp
  moreover have "c \<notin> set b" unfolding b by (auto dest: set_takeWhileD)
  ultimately show ?thesis ..
qed

end
