(* ===== verification/Frozen_Evidence.thy ===== *)
theory Frozen_Evidence
  imports Py_Text Decision_Evidence
begin

text \<open>
  \<^verbatim>\<open>tools/verify/py/speaker_frozen_evidence.py\<close>, readers and metrics: Sortformer frame tables,
  TitaNet score tables, external diarization segments, configuration overlay, frame summaries,
  VAD coverage and alignment evidence of an interval.
\<close>

section \<open>Sortformer frames\<close>

record frame_row =
  fr_frame :: int
  fr_time :: dbl
  fr_session :: int
  fr_top1 :: int
  fr_top1_prob :: dbl
  fr_top2 :: int
  fr_top2_prob :: dbl
  fr_margin :: dbl
  fr_active_count :: int
  fr_probs :: "dbl list"

definition speaker_columns :: "string list \<Rightarrow> string list res" where
  "speaker_columns names = rbind
     (rmap (\<lambda>n. rbind (int_str (drop 3 n)) (\<lambda>k. Inr (k, n))) (filter (has_prefix ''spk'') names))
     (\<lambda>keyed. Inr (map snd (sort_key fst keyed)))"

definition frame_row_of :: "string list \<Rightarrow> csv_row \<Rightarrow> frame_row res" where
  "frame_row_of columns row =
    rbind (csv_int row ''frame'') (\<lambda>frame. rbind (csv_float row ''time_sec'') (\<lambda>time.
    rbind (csv_int row ''session'') (\<lambda>session. rbind (csv_int row ''top1'') (\<lambda>top1.
    rbind (csv_float row ''top1_prob'') (\<lambda>p1. rbind (csv_int row ''top2'') (\<lambda>top2.
    rbind (csv_float row ''top2_prob'') (\<lambda>p2. rbind (csv_float row ''margin'') (\<lambda>margin.
    rbind (csv_int row ''active_count'') (\<lambda>active. rbind (rmap (csv_float row) columns) (\<lambda>probs.
    Inr \<lparr>fr_frame = frame, fr_time = time, fr_session = session, fr_top1 = top1, fr_top1_prob = p1,
         fr_top2 = top2, fr_top2_prob = p2, fr_margin = margin, fr_active_count = active,
         fr_probs = probs\<rparr>))))))))))"

fun check_frames :: "int \<Rightarrow> dbl option \<Rightarrow> frame_row list \<Rightarrow> unit res" where
  "check_frames i prev [] = Inr ()"
| "check_frames i prev (r # rs) =
     raise_if (fr_frame r \<noteq> i) (ValueError ''Sortformer frame indices are not contiguous'')
     (raise_if (case prev of None \<Rightarrow> False | Some t \<Rightarrow> fr_time r \<le> t)
        (ValueError ''Sortformer frame times are not monotonic'')
        (check_frames (i + 1) (Some (fr_time r)) rs))"

definition frame_period_of :: "frame_row list \<Rightarrow> dbl" where
  "frame_period_of rows = (case rows of a # b # _ \<Rightarrow> fr_time b - fr_time a | _ \<Rightarrow> D (8 / 100))"

definition read_frames :: "csv_table \<Rightarrow> (frame_row list \<times> string list \<times> dbl) res" where
  "read_frames t =
    rbind (speaker_columns (csv_fields t)) (\<lambda>columns.
    raise_if (columns = []) (ValueError ''Sortformer frame CSV has no speaker columns'')
    (rbind (rmap (frame_row_of columns) (csv_rows t)) (\<lambda>rows.
     raise_if (rows = []) (ValueError ''Sortformer frame CSV is empty'')
     (rbind (check_frames 0 None rows) (\<lambda>_. Inr (rows, columns, frame_period_of rows))))))"

section \<open>TitaNet scores\<close>

record titanet_row =
  tn_source_start :: dbl
  tn_source_end :: dbl
  tn_source_duration :: dbl
  tn_status :: "string option"
  tn_embed_start :: "dbl option"
  tn_embed_end :: "dbl option"
  tn_best_id :: "string option"
  tn_best_score :: "dbl option"
  tn_second_id :: "string option"
  tn_second_score :: "dbl option"
  tn_margin :: "dbl option"
  tn_scores :: "(string, dbl) pydict"

text \<open>The scores of the columns \<^verbatim>\<open>score_<id>\<close> that are filled in.\<close>

definition row_scores :: "string list \<Rightarrow> csv_row \<Rightarrow> (string, dbl) pydict res" where
  "row_scores columns row = rfold (\<lambda>d n. case csv_text row n of None \<Rightarrow> Inr d
     | Some s \<Rightarrow> rbind (float_str s) (\<lambda>x. Inr (dset (drop (length ''score_'') n) x d))) [] columns"

definition titanet_row_of :: "string list \<Rightarrow> csv_row \<Rightarrow> titanet_row res" where
  "titanet_row_of columns row =
    rbind (row_scores columns row) (\<lambda>scores.
    rbind (csv_float row ''start_sec'') (\<lambda>s. rbind (csv_float row ''end_sec'') (\<lambda>e.
    rbind (csv_float row ''duration_sec'') (\<lambda>d. rbind (csv_item row ''status'') (\<lambda>status.
    rbind (csv_opt_float row ''embed_start_sec'') (\<lambda>es. rbind (csv_opt_float row ''embed_end_sec'') (\<lambda>ee.
    rbind (csv_opt_float row ''best_score'') (\<lambda>best. rbind (csv_opt_float row ''second_score'') (\<lambda>second.
    rbind (csv_opt_float row ''margin'') (\<lambda>margin.
    Inr \<lparr>tn_source_start = s, tn_source_end = e, tn_source_duration = d, tn_status = status,
         tn_embed_start = es, tn_embed_end = ee, tn_best_id = csv_text row ''best_id'',
         tn_best_score = best, tn_second_id = csv_text row ''second_id'', tn_second_score = second,
         tn_margin = margin, tn_scores = scores\<rparr>))))))))))"

definition id_text :: "string option \<Rightarrow> string" where
  "id_text v = (case v of Some s \<Rightarrow> s | None \<Rightarrow> ''None'')"

definition add_titanet ::
  "string list \<Rightarrow> (string option, titanet_row) pydict \<Rightarrow> csv_row \<Rightarrow> (string option, titanet_row) pydict res"
where
  "add_titanet columns rows row = rbind (csv_item row ''evidence_id'') (\<lambda>i.
     raise_if (i \<in> set (map fst rows)) (ValueError (''duplicate TitaNet evidence ID '' @ id_text i))
     (rbind (titanet_row_of columns row) (\<lambda>r. Inr (dset i r rows))))"

definition read_titanet :: "csv_table \<Rightarrow> (string option, titanet_row) pydict res" where
  "read_titanet t = rfold (add_titanet (filter (has_prefix ''score_'') (csv_fields t))) [] (csv_rows t)"

section \<open>External diarization segments\<close>

definition segment_fields :: "string list" where
  "segment_fields = [''start_sec'', ''end_sec'', ''session'', ''local_speaker'', ''confidence'']"

definition diar_segment_of :: "nat \<times> csv_row \<Rightarrow> ((dbl \<times> dbl \<times> int \<times> nat) \<times> json) res" where
  "diar_segment_of = (\<lambda>(i, row).
    rbind (csv_float row ''start_sec'') (\<lambda>s. rbind (csv_float row ''end_sec'') (\<lambda>e.
    raise_if (s < 0 \<or> e \<le> s)
      (ValueError (''invalid external diar segment row '' @ int_repr (int i + 2)))
    (rbind (csv_int row ''local_speaker'') (\<lambda>spk. rbind (csv_float row ''confidence'') (\<lambda>conf.
     rbind (csv_int row ''session'') (\<lambda>session. rbind (csv_opt_float row ''mean_margin'') (\<lambda>margin.
     Inr ((s, e, spk, i), JObj [(''start'', JFlt s), (''end'', JFlt e), (''speaker'', JInt spk),
       (''speaker_id'', JNull), (''confidence'', JFlt conf), (''source_session'', JInt session),
       (''source_mean_margin'', opt_num margin), (''source_index'', JInt (int i))])))))))))"

definition read_diar_segments :: "csv_table \<Rightarrow> json list res" where
  "read_diar_segments t = (let missing = fields_missing segment_fields (csv_fields t) in
     raise_if (missing \<noteq> []) (ValueError (''external diar segment CSV missing: '' @ join_with '','' missing))
     (rbind (rmap diar_segment_of (enumerate 0 (csv_rows t))) (\<lambda>keyed.
      Inr (map snd (sort_key fst keyed)))))"

section \<open>Configuration\<close>

definition dict_update :: "obj \<Rightarrow> obj \<Rightarrow> obj" where
  "dict_update d u = foldl (\<lambda>d (k, v). dset k v d) d u"

definition overlay_section :: "obj \<Rightarrow> string \<times> json \<Rightarrow> obj" where
  "overlay_section resolved = (\<lambda>(section, values). case values of
     JObj u \<Rightarrow> (case map_of resolved section of
         None \<Rightarrow> dset section (JObj (dict_update [] u)) resolved
       | Some (JObj cur) \<Rightarrow> dset section (JObj (dict_update cur u)) resolved
       | Some _ \<Rightarrow> dset section (JObj u) resolved)
   | _ \<Rightarrow> resolved)"

text \<open>The second argument is the parsed TOML file, if a path was given.\<close>

definition candidate_resolved_config :: "obj \<Rightarrow> obj option \<Rightarrow> obj res" where
  "candidate_resolved_config t config =
    rbind (vdict (dget t ''resolved_config'' (JObj []))) (\<lambda>resolved.
    Inr (case config of None \<Rightarrow> resolved | Some c \<Rightarrow> foldl overlay_section resolved c))"

section \<open>Frames of an interval\<close>

text \<open>\<^verbatim>\<open>bisect\<close> on an ascending list.\<close>

definition bisect_right :: "dbl list \<Rightarrow> dbl \<Rightarrow> nat" where
  "bisect_right xs x = length (takeWhile (\<lambda>t. t \<le> x) xs)"

definition bisect_left :: "dbl list \<Rightarrow> dbl \<Rightarrow> nat" where
  "bisect_left xs x = length (takeWhile (\<lambda>t. t < x) xs)"

record frame_sums =
  fs_probability :: "dbl list"
  fs_active :: "dbl list"
  fs_top1 :: "dbl list"
  fs_active_top1 :: "dbl list"
  fs_total :: dbl
  fs_margin :: dbl
  fs_overlap :: dbl
  fs_any_active :: dbl
  fs_used :: "int list"

definition no_frames :: "nat \<Rightarrow> frame_sums" where
  "no_frames n = \<lparr>fs_probability = replicate n 0, fs_active = replicate n 0, fs_top1 = replicate n 0,
     fs_active_top1 = replicate n 0, fs_total = 0, fs_margin = 0, fs_overlap = 0, fs_any_active = 0,
     fs_used = []\<rparr>"

definition add_at :: "int \<Rightarrow> dbl \<Rightarrow> dbl list \<Rightarrow> dbl list" where
  "add_at i w xs = (if 0 \<le> i \<and> i < int (length xs) then xs[nat i := xs ! nat i + w] else xs)"

definition frame_weight :: "dbl \<Rightarrow> dbl \<Rightarrow> dbl \<Rightarrow> frame_row \<Rightarrow> dbl" where
  "frame_weight period s e r = overlap_sec s e (fr_time r) (fr_time r + period)"

definition add_frame :: "dbl \<Rightarrow> dbl \<Rightarrow> dbl \<Rightarrow> dbl \<Rightarrow> frame_sums \<Rightarrow> nat \<times> frame_row \<Rightarrow> frame_sums" where
  "add_frame period s e onset acc = (\<lambda>(i, r). let w = frame_weight period s e r in
     if w \<le> EPSILON then acc
     else \<lparr>fs_probability = map (\<lambda>(a, p). a + p * w) (zip (fs_probability acc) (fr_probs r)),
           fs_active = map (\<lambda>(a, p). if onset \<le> p then a + w else a) (zip (fs_active acc) (fr_probs r)),
           fs_top1 = add_at (fr_top1 r) w (fs_top1 acc),
           fs_active_top1 = (if 1 \<le> fr_active_count r then add_at (fr_top1 r) w (fs_active_top1 acc)
                             else fs_active_top1 acc),
           fs_total = fs_total acc + w, fs_margin = fs_margin acc + fr_margin r * w,
           fs_overlap = (if 2 \<le> fr_active_count r then fs_overlap acc + w else fs_overlap acc),
           fs_any_active = (if 1 \<le> fr_active_count r then fs_any_active acc + w else fs_any_active acc),
           fs_used = fs_used acc @ [int i]\<rparr>)"

definition frame_window :: "dbl list \<Rightarrow> dbl \<Rightarrow> dbl \<Rightarrow> dbl \<Rightarrow> nat \<times> nat" where
  "frame_window ts period s e = (bisect_right ts (s - period) - 1, bisect_left ts e)"

definition window_frames :: "frame_row list \<Rightarrow> dbl \<Rightarrow> dbl \<Rightarrow> dbl \<Rightarrow> (nat \<times> frame_row) list" where
  "window_frames rows period s e =
    (let (left, right) = frame_window (map fr_time rows) period s e
     in drop left (take right (enumerate 0 rows)))"

definition frame_summary :: "nat \<Rightarrow> frame_sums \<Rightarrow> json" where
  "frame_summary n acc =
    (let nums = \<lambda>xs. JArr (map JFlt xs); used = fs_used acc; zeros = replicate n 0 in
     if used = [] \<or> fs_total acc \<le> EPSILON then JObj
       [(''frame_start_index'', JNull), (''frame_end_index'', JNull), (''frame_coverage_sec'', JFlt 0),
        (''mean_probs'', nums zeros), (''active_duration_sec'', nums zeros),
        (''top1_duration_sec'', nums zeros), (''active_top1_duration_sec'', nums zeros),
        (''mean_margin'', JFlt 0), (''any_active_duration_sec'', JFlt 0), (''overlap_duration_sec'', JFlt 0)]
     else JObj
       [(''frame_start_index'', JInt (hd used)), (''frame_end_index'', JInt (last used + 1)),
        (''frame_coverage_sec'', JFlt (fs_total acc)),
        (''mean_probs'', nums (map (\<lambda>v. v / fs_total acc) (fs_probability acc))),
        (''active_duration_sec'', nums (fs_active acc)), (''top1_duration_sec'', nums (fs_top1 acc)),
        (''active_top1_duration_sec'', nums (fs_active_top1 acc)),
        (''mean_margin'', JFlt (fs_margin acc / fs_total acc)),
        (''any_active_duration_sec'', JFlt (fs_any_active acc)),
        (''overlap_duration_sec'', JFlt (fs_overlap acc))])"

definition summarize_frames :: "frame_row list \<Rightarrow> dbl \<Rightarrow> dbl \<Rightarrow> dbl \<Rightarrow> dbl \<Rightarrow> json" where
  "summarize_frames rows period s e onset = (let n = length (fr_probs (hd rows)) in
     frame_summary n (foldl (add_frame period s e onset) (no_frames n) (window_frames rows period s e)))"

section \<open>VAD coverage of an interval\<close>

record vad_pick =
  vp_clip :: span
  vp_evidence :: json

definition entry_span :: "json \<Rightarrow> span res" where
  "entry_span v = rbind (float_get v ''start'' 0) (\<lambda>s. rbind (float_get v ''end'' s) (\<lambda>e. Inr (s, e)))"

definition vad_pick_of :: "dbl \<Rightarrow> dbl \<Rightarrow> nat \<Rightarrow> json \<Rightarrow> vad_pick list res" where
  "vad_pick_of s e i v = rbind (entry_span v) (\<lambda>(a, b). let amount = overlap_sec s e a b in
     Inr (if amount \<le> EPSILON then []
       else [\<lparr>vp_clip = (max s a, min e b), vp_evidence = JObj
         [(''evidence_id'', JStr (''vad:'' @ int_repr (int i))), (''start_sec'', JFlt a),
          (''end_sec'', JFlt b), (''overlap_sec'', JFlt amount)]\<rparr>]))"

definition vad_picks :: "dbl \<Rightarrow> dbl \<Rightarrow> json list \<Rightarrow> vad_pick list res" where
  "vad_picks s e entries = rbind (rmap (\<lambda>(i, v). vad_pick_of s e i v) (enumerate 0 entries))
     (\<lambda>parts. Inr (concat parts))"

fun span_gaps :: "dbl \<Rightarrow> dbl \<Rightarrow> span list \<Rightarrow> dbl list" where
  "span_gaps e cursor [] = (if cursor < e then [e - cursor] else [])"
| "span_gaps e cursor ((a, b) # ms) =
     (if cursor < a then [a - cursor] else []) @ span_gaps e (max cursor b) ms"

definition max_or_zero :: "dbl list \<Rightarrow> dbl" where
  "max_or_zero xs = (case xs of [] \<Rightarrow> 0 | x # r \<Rightarrow> foldl max x r)"

definition interval_metrics :: "dbl \<Rightarrow> dbl \<Rightarrow> json list \<Rightarrow> json res" where
  "interval_metrics s e entries = rbind (vad_picks s e entries) (\<lambda>parts.
     let merged = merge_spans EPSILON (map vp_clip parts); coverage = total_span merged in
     if e - s = 0 then Inl ZeroDivisionError else
     Inr (JObj [(''coverage_sec'', JFlt coverage), (''coverage_ratio'', JFlt (coverage / (e - s))),
       (''max_gap_sec'', JFlt (max_or_zero (span_gaps e s merged))),
       (''island_count'', JInt (int (length merged))), (''evidence'', JArr (map vp_evidence parts))]))"

section \<open>Alignment and diarization evidence\<close>

record align_pick =
  ap_id :: string
  ap_start :: dbl
  ap_end :: dbl
  ap_text :: string

definition unit_selected :: "dbl \<Rightarrow> dbl \<Rightarrow> dbl \<Rightarrow> dbl \<Rightarrow> bool" where
  "unit_selected s e a b \<longleftrightarrow>
    (let point = \<bar>b - a\<bar> \<le> EPSILON; inside = s - EPSILON \<le> a \<and> a < e - EPSILON in
     \<not> (point \<and> \<not> inside \<or> \<not> point \<and> overlap_sec s e a b \<le> EPSILON))"

definition align_pick_of :: "int \<Rightarrow> dbl \<Rightarrow> dbl \<Rightarrow> nat \<times> json \<Rightarrow> align_pick list res" where
  "align_pick_of text_id s e = (\<lambda>(i, v). rbind (entry_span v) (\<lambda>(a, b).
     if \<not> unit_selected s e a b then Inr []
     else rbind (str_get v ''text'') (\<lambda>text.
       Inr [\<lparr>ap_id = ''align:'' @ int_repr text_id @ '':'' @ int_repr (int i), ap_start = a, ap_end = b,
             ap_text = text\<rparr>])))"

definition pause_gaps :: "align_pick list \<Rightarrow> (dbl \<times> dbl) list" where
  "pause_gaps picks = map (\<lambda>(x, y). (ap_end x, ap_start y))
     (filter (\<lambda>(x, y). EPSILON < ap_start y - ap_end x) (adjacent picks))"

definition pick_json :: "align_pick \<Rightarrow> json" where
  "pick_json p = JObj [(''evidence_id'', JStr (ap_id p)), (''start_sec'', JFlt (ap_start p)),
     (''end_sec'', JFlt (ap_end p)), (''text'', JStr (ap_text p))]"

definition align_picks :: "int \<Rightarrow> dbl \<Rightarrow> dbl \<Rightarrow> json \<Rightarrow> align_pick list res" where
  "align_picks text_id s e grp = rbind (vget grp ''units'' (JArr [])) (\<lambda>us. rbind (py_iter us) (\<lambda>units.
     rbind (rmap (align_pick_of text_id s e) (enumerate 0 units)) (\<lambda>ps. Inr (concat ps))))"

definition alignment_evidence :: "(int, json) pydict \<Rightarrow> int \<Rightarrow> dbl \<Rightarrow> dbl \<Rightarrow> json res" where
  "alignment_evidence align_by_id text_id s e =
    rbind (case map_of align_by_id text_id of None \<Rightarrow> Inr [] | Some g \<Rightarrow>
       if g = JNull then Inr [] else align_picks text_id s e g) (\<lambda>picks.
    Inr (JObj [(''text_id'', JInt text_id), (''units'', JArr (map pick_json picks)),
      (''pause_gaps'', JArr (map (\<lambda>(a, b). JObj [(''start_sec'', JFlt a), (''end_sec'', JFlt b),
         (''duration_sec'', JFlt (b - a))]) (pause_gaps picks)))]))"

definition titanet_json :: "titanet_row \<Rightarrow> json" where
  "titanet_json r = JObj
    [(''source_start_sec'', JFlt (tn_source_start r)), (''source_end_sec'', JFlt (tn_source_end r)),
     (''source_duration_sec'', JFlt (tn_source_duration r)), (''status'', opt_json (tn_status r)),
     (''embed_start_sec'', opt_num (tn_embed_start r)), (''embed_end_sec'', opt_num (tn_embed_end r)),
     (''best_id'', opt_json (tn_best_id r)), (''best_score'', opt_num (tn_best_score r)),
     (''second_id'', opt_json (tn_second_id r)), (''second_score'', opt_num (tn_second_score r)),
     (''margin'', opt_num (tn_margin r)),
     (''scores'', JObj (map (\<lambda>(k, x). (k, JFlt x)) (tn_scores r)))]"

definition diar_evidence_id :: "nat \<Rightarrow> string" where
  "diar_evidence_id i = ''diarization:'' @ int_repr (int i)"

definition diar_pick ::
  "(string option, titanet_row) pydict \<Rightarrow> dbl \<Rightarrow> dbl \<Rightarrow> nat \<times> json \<Rightarrow> json list res" where
  "diar_pick titanet s e = (\<lambda>(i, v).
    rbind (float_item v ''start'') (\<lambda>a. rbind (float_item v ''end'') (\<lambda>b.
    let amount = overlap_sec s e a b in
    if amount \<le> EPSILON then Inr []
    else case map_of titanet (Some (diar_evidence_id i)) of
      None \<Rightarrow> Inl (ValueError (''TitaNet diar evidence missing '' @ diar_evidence_id i))
    | Some t \<Rightarrow> rbind (rbind (vitem v ''speaker'') py_int) (\<lambda>spk. rbind (vget v ''speaker_id'' JNull) (\<lambda>sid.
        rbind (float_get v ''confidence'' 0) (\<lambda>conf.
        Inr [JObj [(''evidence_id'', JStr (diar_evidence_id i)), (''start_sec'', JFlt a),
          (''end_sec'', JFlt b), (''local_speaker'', JInt spk), (''baseline_speaker_id'', sid),
          (''confidence'', JFlt conf), (''overlap_sec'', JFlt amount), (''titanet'', titanet_json t)]]))))))"

definition diar_segment_evidence ::
  "json list \<Rightarrow> (string option, titanet_row) pydict \<Rightarrow> dbl \<Rightarrow> dbl \<Rightarrow> json list res" where
  "diar_segment_evidence entries titanet s e =
     rbind (rmap (diar_pick titanet s e) (enumerate 0 entries)) (\<lambda>ps. Inr (concat ps))"

end
