(* ===== verification/Frozen_Build.thy ===== *)
theory Frozen_Build
  imports Frozen_Evidence
begin

text \<open>
  \<^verbatim>\<open>tools/verify/py/speaker_frozen_evidence.py\<close>, \<^verbatim>\<open>main\<close>: the three span exports and the
  evidence package built from a timeline and the model outputs.  The files arrive parsed; their
  absolute paths and digests are parameters.
\<close>

section \<open>Exports\<close>

text \<open>The rows written after the header.\<close>

definition positive_span :: "string \<Rightarrow> nat \<Rightarrow> json \<Rightarrow> span res" where
  "positive_span what i v = rbind (float_item v ''start'') (\<lambda>s. rbind (float_item v ''end'') (\<lambda>e.
     raise_if (e \<le> s) (ValueError (what @ int_repr (int i))) (Inr (s, e))))"

definition diar_spans :: "json list \<Rightarrow> (string \<times> dbl \<times> dbl) list res" where
  "diar_spans entries = rmap (\<lambda>(i, v). rbind (float_item v ''start'') (\<lambda>s.
     rbind (float_item v ''end'') (\<lambda>e. Inr (diar_evidence_id i, s, e)))) (enumerate 0 entries)"

definition diar_queries :: "json list \<Rightarrow> (string \<times> string \<times> int \<times> int \<times> int \<times> dbl \<times> dbl) list res" where
  "diar_queries entries = rmap (\<lambda>(i, v).
     rbind (positive_span ''invalid diarization query at index '' i v) (\<lambda>(s, e).
     Inr (diar_evidence_id i, ''diarization'', - 1, 0, 0, s, e))) (enumerate 0 entries)"

definition turn_id :: "nat \<Rightarrow> string" where
  "turn_id i = ''business_speaker:'' @ int_repr (int i)"

definition business_spans :: "json list \<Rightarrow> (string \<times> dbl \<times> dbl) list res" where
  "business_spans entries = rmap (\<lambda>(i, v).
     rbind (positive_span ''invalid business speaker span at index '' i v) (\<lambda>(s, e).
     Inr (turn_id i, s, e))) (enumerate 0 entries)"

section \<open>The evidence package\<close>

record frozen_args =
  fa_timeline :: string
  fa_frames :: "string option"
  fa_turns :: "string option"
  fa_diar_titanet :: "string option"
  fa_diar_segments :: "string option"
  fa_config :: "string option"
  fa_out :: "string option"
  fa_export_spans :: "string option"
  fa_export_queries :: "string option"
  fa_export_business :: "string option"

record frozen_files =
  ff_frames :: csv_table
  ff_turns :: csv_table
  ff_diar_titanet :: csv_table
  ff_diar_segments :: csv_table
  ff_config :: obj
  ff_abspath :: "string \<Rightarrow> string"
  ff_sha :: "string \<Rightarrow> string"

definition given :: "string option \<Rightarrow> bool" where
  "given v \<longleftrightarrow> (case v of Some s \<Rightarrow> s \<noteq> [] | None \<Rightarrow> False)"

definition frozen_tracks :: "string list" where
  "frozen_tracks = [''diarization'', ''asr'', ''vad'', ''align'', ''business_speaker'']"

definition absent_args :: "frozen_args \<Rightarrow> string list" where
  "absent_args args = map fst (filter (\<lambda>(n, v). \<not> given v)
     [(''--sortformer-frames'', fa_frames args), (''--titanet-turns'', fa_turns args),
      (''--titanet-diar-segments'', fa_diar_titanet args), (''--out'', fa_out args)])"

text \<open>
  \<^verbatim>\<open>sorted\<close> of a set of ids: a missing id (\<^verbatim>\<open>None\<close>) does not compare with a text.
\<close>

definition sorted_ids :: "string option list \<Rightarrow> json list res" where
  "sorted_ids ids = raise_if (None \<in> set ids \<and> length ids > 1) TypeError
     (Inr (map opt_json (if None \<in> set ids then ids else map Some (sort (map id_text ids)))))"

text \<open>The score table must have exactly one row per diarization segment.\<close>

definition check_diar_ids :: "nat \<Rightarrow> (string option, titanet_row) pydict \<Rightarrow> unit res" where
  "check_diar_ids n titanet =
    (let expected = map (Some \<circ> diar_evidence_id) [0..<n]; have = map fst titanet;
         lacking = filter (\<lambda>i. i \<notin> set have) expected;
         extra = filter (\<lambda>i. i \<notin> set expected) have in
     if lacking = [] \<and> extra = [] then Inr ()
     else rbind (sorted_ids lacking) (\<lambda>ls. rbind (sorted_ids extra) (\<lambda>es.
       Inl (ValueError (''TitaNet diar evidence ID mismatch: missing='' @ py_repr (JArr (take 3 ls))
          @ '' extra='' @ py_repr (JArr (take 3 es)))))))"

definition align_by_id :: "json list \<Rightarrow> (int, json) pydict res" where
  "align_by_id entries = rfold (\<lambda>d v. rbind (rbind (vitem v ''text_id'') py_int) (\<lambda>i. Inr (dset i v d))) [] entries"

record frozen_context =
  fc_frames :: "frame_row list"
  fc_period :: dbl
  fc_onset :: dbl
  fc_turn_titanet :: "(string option, titanet_row) pydict"
  fc_diar :: "json list"
  fc_diar_titanet :: "(string option, titanet_row) pydict"
  fc_vad :: "json list"
  fc_align :: "(int, json) pydict"

definition baseline_json :: "json \<Rightarrow> json res" where
  "baseline_json v = rbind (int_get v ''speaker'' (- 1)) (\<lambda>spk. rbind (vdict v) (\<lambda>d.
     Inr (JObj [(''local_speaker'', JInt spk), (''speaker_id'', get d ''speaker_id''),
       (''speaker_support'', get d ''speaker_support''),
       (''speaker_uncertain'', JBool (truthy (dget d ''speaker_uncertain'' (JBool False)))),
       (''speaker_decision'', get d ''speaker_decision'')])))"

definition frozen_turn :: "frozen_context \<Rightarrow> nat \<times> json \<Rightarrow> json res" where
  "frozen_turn c = (\<lambda>(i, v). case map_of (fc_turn_titanet c) (Some (turn_id i)) of
     None \<Rightarrow> Inl (ValueError (''TitaNet evidence missing '' @ turn_id i))
   | Some t \<Rightarrow>
    rbind (float_item v ''start'') (\<lambda>s. rbind (float_item v ''end'') (\<lambda>e.
    raise_if (e \<le> s) (ValueError (''invalid business turn '' @ turn_id i))
    (rbind (int_get v ''text_id'' (- 1)) (\<lambda>text_id. rbind (str_get v ''text'') (\<lambda>text.
     rbind (baseline_json v) (\<lambda>baseline.
     rbind (diar_segment_evidence (fc_diar c) (fc_diar_titanet c) s e) (\<lambda>segs.
     rbind (interval_metrics s e (fc_vad c)) (\<lambda>vad.
     rbind (alignment_evidence (fc_align c) text_id s e) (\<lambda>align.
     Inr (JObj [(''turn_id'', JStr (turn_id i)), (''start_sec'', JFlt s), (''end_sec'', JFlt e),
       (''duration_sec'', JFlt (e - s)), (''text_id'', JInt text_id), (''text'', JStr text),
       (''baseline_output'', baseline),
       (''sortformer'', summarize_frames (fc_frames c) (fc_period c) s e (fc_onset c)),
       (''diar_segments'', JArr segs), (''titanet'', titanet_json t), (''vad'', vad),
       (''align'', align)])))))))))))"

definition file_json :: "frozen_files \<Rightarrow> string \<Rightarrow> json" where
  "file_json files p = JObj [(''path'', JStr (ff_abspath files p)), (''sha256'', JStr (ff_sha files p))]"

definition path_of :: "string option \<Rightarrow> string" where
  "path_of v = (case v of Some s \<Rightarrow> s | None \<Rightarrow> [])"

definition sources_json :: "frozen_args \<Rightarrow> frozen_files \<Rightarrow> nat \<Rightarrow> json \<Rightarrow> json" where
  "sources_json args files n_diar config_sha = JObj
    [(''timeline'', file_json files (fa_timeline args)),
     (''sortformer_frames'', file_json files (path_of (fa_frames args))),
     (''titanet_turns'', file_json files (path_of (fa_turns args))),
     (''titanet_diar_segments'', file_json files (path_of (fa_diar_titanet args))),
     (''diar_segments'', if given (fa_diar_segments args) then file_json files (path_of (fa_diar_segments args))
        else JObj [(''source'', JStr ''timeline:diarization''), (''count'', JInt (int n_diar))]),
     (''candidate_config'', if given (fa_config args) then file_json files (path_of (fa_config args)) else JNull),
     (''resolved_config_sha256'', config_sha)]"

definition diar_onset :: "obj \<Rightarrow> dbl res" where
  "diar_onset resolved = rbind (vget (dget resolved ''diarizer'' (JObj [])) ''onset'' (JFlt (D (45 / 100)))) py_float"

definition diar_source :: "frozen_args \<Rightarrow> frozen_files \<Rightarrow> json \<Rightarrow> json list res" where
  "diar_source args files track =
     (if given (fa_diar_segments args) then read_diar_segments (ff_diar_segments files) else py_iter track)"

text \<open>The timeline, its tracks and the diarization entries the run works on.\<close>

definition frozen_inputs :: "frozen_args \<Rightarrow> frozen_files \<Rightarrow> json \<Rightarrow> (obj \<times> (string, json) pydict \<times> json list) res" where
  "frozen_inputs args files package =
    rbind (timeline_from package) (\<lambda>t. rbind (tracks_by_kind t) (\<lambda>ts.
    let missing = fields_missing frozen_tracks (map fst ts) in
    raise_if (missing \<noteq> []) (ValueError (''timeline tracks missing: '' @ join_with '','' missing))
    (rbind (ditem ts ''diarization'' (KeyError ''diarization'')) (\<lambda>dtrack.
     rbind (diar_source args files dtrack) (\<lambda>diar. Inr (t, ts, diar))))))"

definition track_entries :: "(string, json) pydict \<Rightarrow> string \<Rightarrow> json list res" where
  "track_entries ts kind = rbind (ditem ts kind (KeyError kind)) py_iter"

definition build_turns :: "frozen_context \<Rightarrow> json list \<Rightarrow> json list res" where
  "build_turns c business = rmap (frozen_turn c) (enumerate 0 business)"

definition build_frozen ::
  "frozen_args \<Rightarrow> frozen_files \<Rightarrow> json \<Rightarrow> obj \<Rightarrow> (string, json) pydict \<Rightarrow> json list \<Rightarrow> obj res" where
  "build_frozen args files package t ts diar =
     raise_if (absent_args args \<noteq> []) (ValueError (''build mode requires: '' @ join_with '','' (absent_args args)))
     (rbind (read_frames (ff_frames files)) (\<lambda>(frames, columns, period).
      rbind (read_titanet (ff_turns files)) (\<lambda>turn_titanet.
      rbind (read_titanet (ff_diar_titanet files)) (\<lambda>diar_titanet.
      rbind (check_diar_ids (length diar) diar_titanet) (\<lambda>_.
      rbind (candidate_resolved_config t (if given (fa_config args) then Some (ff_config files) else None)) (\<lambda>resolved.
      rbind (diar_onset resolved) (\<lambda>onset.
      rbind (track_entries ts ''align'') (\<lambda>align_entries.
      rbind (align_by_id align_entries) (\<lambda>aligned.
      rbind (track_entries ts ''business_speaker'') (\<lambda>business.
      rbind (track_entries ts ''vad'') (\<lambda>vad.
      rbind (build_turns \<lparr>fc_frames = frames, fc_period = period, fc_onset = onset,
          fc_turn_titanet = turn_titanet, fc_diar = diar, fc_diar_titanet = diar_titanet, fc_vad = vad,
          fc_align = aligned\<rparr> business) (\<lambda>turns.
      rbind (vget (case package of JObj pk \<Rightarrow> dget pk ''meta'' (JObj []) | _ \<Rightarrow> JNull)
         ''resolved_config_sha256'' JNull) (\<lambda>config_sha.
      rbind (rbind (item t ''audio_sec'') py_float) (\<lambda>audio.
      rbind (rbind (item t ''sample_rate'') py_int) (\<lambda>rate.
      Inr [(''schema_version'', JInt 4), (''kind'', JStr ''orator_frozen_speaker_evidence''),
        (''sources'', sources_json args files (length diar) config_sha),
        (''resolved_config'', JObj resolved), (''audio_sec'', JFlt audio), (''sample_rate'', JInt rate),
        (''sortformer'', JObj [(''frame_period_sec'', JFlt period), (''frame_count'', JInt (int (length frames))),
           (''speaker_columns'', JArr (map JStr columns)), (''onset'', JFlt onset)]),
        (''turn_count'', JInt (int (length turns))), (''turns'', JArr turns)])))))))))))))))"

section \<open>The run\<close>

text \<open>What a run writes: one of the three exports, or the package.\<close>

datatype frozen_output =
  DiarSpans "(string \<times> dbl \<times> dbl) list"
| DiarQueries "(string \<times> string \<times> int \<times> int \<times> int \<times> dbl \<times> dbl) list"
| BusinessSpans "(string \<times> dbl \<times> dbl) list"
| FrozenPackage obj

definition export_modes :: "frozen_args \<Rightarrow> string option list" where
  "export_modes args = filter given [fa_export_spans args, fa_export_queries args, fa_export_business args]"

definition frozen_main :: "frozen_args \<Rightarrow> frozen_files \<Rightarrow> json \<Rightarrow> frozen_output res" where
  "frozen_main args files package =
     raise_if (length (export_modes args) > 1) (ValueError ''select only one export mode'')
     (rbind (frozen_inputs args files package) (\<lambda>(t, ts, diar).
      if given (fa_export_spans args) then rbind (diar_spans diar) (\<lambda>rows. Inr (DiarSpans rows))
      else if given (fa_export_queries args) then rbind (diar_queries diar) (\<lambda>rows. Inr (DiarQueries rows))
      else if given (fa_export_business args) then
        rbind (track_entries ts ''business_speaker'') (\<lambda>business.
        rbind (business_spans business) (\<lambda>rows. Inr (BusinessSpans rows)))
      else rbind (build_frozen args files package t ts diar) (\<lambda>p. Inr (FrozenPackage p))))"

end
