(* ===== verification/Frozen_Properties.thy ===== *)
theory Frozen_Properties
  imports Frozen_Build
begin

text \<open>
  What \<^verbatim>\<open>speaker_frozen_evidence.py\<close> promises: frame tables are contiguous, an interval's
  summary misses no frame, VAD coverage is consistent, and every diarization segment has exactly
  one score row.
\<close>

section \<open>Frames\<close>

lemma check_frames_sound:
  "check_frames i prev rows = Inr () \<Longrightarrow>
   map fr_frame rows = map (\<lambda>k. i + int k) [0..<length rows] \<and>
   sorted_wrt (<) ((case prev of None \<Rightarrow> [] | Some t \<Rightarrow> [t]) @ map fr_time rows)"
proof (induction i prev rows rule: check_frames.induct)
  case (2 i prev r rs)
  then have ih: "map fr_frame rs = map (\<lambda>k. i + 1 + int k) [0..<length rs]"
    "sorted_wrt (<) (fr_time r # map fr_time rs)" by (auto simp: res_iff)
  have "map (\<lambda>k. i + int k) [0..<length (r # rs)] = i # map (\<lambda>k. i + 1 + int k) [0..<length rs]"
    by (simp add: upt_conv_Cons map_Suc_upt[symmetric] o_def del: upt_Suc)
  moreover have "fr_frame r = i" "\<forall>t. prev = Some t \<longrightarrow> t < fr_time r"
    using 2(2) by (auto simp: res_iff split: option.splits)
  ultimately show ?case using ih by (auto split: option.splits intro: less_trans)
qed (simp split: option.split)

text \<open>
  Rounding is monotone, so a frame strictly before the rounded difference ends by the start of
  the interval.
\<close>

lemma dbl_less_diff: "t < s - p \<Longrightarrow> t + p \<le> (s :: dbl)"
proof (transfer, rule ccontr)
  fix t s p :: rat
  assume fx: "fl t = t" "fl s = s" and less: "t < fl (s - p)" and "\<not> fl (t + p) \<le> s"
  then have "\<not> fl (t + p) \<le> fl s" by simp
  then have "\<not> t + p \<le> s" using fl_mono by blast
  then have "s - p \<le> t" by simp
  then have "fl (s - p) \<le> fl t" by (rule fl_mono)
  with less fx(1) show False by simp
qed

lemma overlap_zero: "min e b \<le> max s a \<Longrightarrow> overlap_sec s e a b = 0"
  unfolding overlap_sec_def by (rule max.absorb1) simp

lemma frame_before: "fr_time r < s - p \<Longrightarrow> frame_weight p s e r = 0"
proof -
  assume "fr_time r < s - p"
  then have "fr_time r + p \<le> s" by (rule dbl_less_diff)
  then have "min e (fr_time r + p) \<le> max s (fr_time r)"
    by (meson max.cobounded1 min.cobounded2 order_trans)
  then show ?thesis unfolding frame_weight_def by (rule overlap_zero)
qed

lemma frame_after: "e \<le> fr_time r \<Longrightarrow> frame_weight p s e r = 0"
proof -
  assume "e \<le> fr_time r"
  then have "min e (fr_time r + p) \<le> max s (fr_time r)"
    by (meson max.cobounded2 min.cobounded1 order_trans)
  then show ?thesis unfolding frame_weight_def by (rule overlap_zero)
qed

lemma add_frame_skip: "frame_weight p s e r = 0 \<Longrightarrow> add_frame p s e onset acc (i, r) = acc"
  by (simp add: add_frame_def EPSILON_def less_imp_le)

lemma fold_skip:
  "\<forall>x \<in> set xs. frame_weight p s e (snd x) = 0 \<Longrightarrow> foldl (add_frame p s e onset) acc xs = acc"
  by (induction xs arbitrary: acc) (auto simp: add_frame_skip)

lemma bisect_right_below: "i < bisect_right xs x \<Longrightarrow> xs ! i \<le> x"
  unfolding bisect_right_def using nth_length_takeWhile set_takeWhileD takeWhile_nth nth_mem by metis

lemma bisect_left_above:
  assumes "sorted xs" "bisect_left xs x \<le> i" "i < length xs" shows "x \<le> xs ! i"
proof -
  let ?k = "bisect_left xs x"
  have "?k < length xs" using assms by simp
  then have "\<not> xs ! ?k < x" unfolding bisect_left_def by (rule nth_length_takeWhile)
  moreover have "xs ! ?k \<le> xs ! i" using assms by (simp add: sorted_nth_mono)
  ultimately show ?thesis by order
qed

text \<open>
  C12: a frame table that is accepted is contiguous with strictly increasing times, and
  summarising an interval over the window found by bisection is the same as summarising it over
  all frames, whatever the rounding of the start less the frame period.
\<close>

theorem summarize_frames_complete:
  assumes "read_frames t = Inr (rows, columns, p)"
  shows "map fr_frame rows = map int [0..<length rows] \<and> sorted_wrt (<) (map fr_time rows) \<and>
    summarize_frames rows p s e onset = frame_summary (length (fr_probs (hd rows)))
      (foldl (add_frame p s e onset) (no_frames (length (fr_probs (hd rows)))) (enumerate 0 rows))"
proof -
  have c: "check_frames 0 None rows = Inr ()" using assms by (auto simp: read_frames_def res_iff)
  from check_frames_sound[OF c] have frames: "map fr_frame rows = map int [0..<length rows]"
    and times: "sorted_wrt (<) (map fr_time rows)" by simp_all
  let ?all = "enumerate 0 rows" and ?ts = "map fr_time rows"
  let ?l = "bisect_right ?ts (s - p) - 1" and ?r = "bisect_left ?ts e"
  have sorted: "sorted ?ts" using times by (rule strict_sorted_imp_sorted)
  have at: "snd (?all ! i) = rows ! i" if "i < length rows" for i
    using that by (simp add: nth_enumerate_eq)
  have w_r: "\<forall>x \<in> set (drop ?r ?all). frame_weight p s e (snd x) = 0"
  proof
    fix x assume "x \<in> set (drop ?r ?all)"
    then obtain j where "j < length (drop ?r ?all)" "x = drop ?r ?all ! j" by (metis in_set_conv_nth)
    then have j: "?r + j < length rows" "x = ?all ! (?r + j)" by simp_all
    have "e \<le> ?ts ! (?r + j)" using j by (intro bisect_left_above[OF sorted]) simp_all
    then have "frame_weight p s e (rows ! (?r + j)) = 0" using j by (intro frame_after) simp
    with j at show "frame_weight p s e (snd x) = 0" by simp
  qed
  have w_l: "\<forall>x \<in> set (take ?l (take ?r ?all)). frame_weight p s e (snd x) = 0"
  proof
    fix x assume "x \<in> set (take ?l (take ?r ?all))"
    then obtain i where i: "i < ?l" "i < length rows" "x = ?all ! i"
      by (auto simp: in_set_conv_nth)
    have k: "?l < bisect_right ?ts (s - p)" using i(1) by simp
    also have "\<dots> \<le> length ?ts" unfolding bisect_right_def by (rule length_takeWhile_le)
    finally have "?ts ! i < ?ts ! ?l" using times i(1) by (simp add: sorted_wrt_iff_nth_less)
    also have "\<dots> \<le> s - p" using k by (rule bisect_right_below)
    finally have "frame_weight p s e (rows ! i) = 0" using i(2) by (intro frame_before) simp
    with i at show "frame_weight p s e (snd x) = 0" by simp
  qed
  let ?f = "foldl (add_frame p s e onset)" and ?z = "no_frames (length (fr_probs (hd rows)))"
  have "?all = take ?l (take ?r ?all) @ drop ?l (take ?r ?all) @ drop ?r ?all"
    by (metis append.assoc append_take_drop_id)
  from arg_cong[OF this, of "?f ?z"]
  have "?f ?z ?all = ?f (?f (?f ?z (take ?l (take ?r ?all))) (drop ?l (take ?r ?all))) (drop ?r ?all)"
    by (simp only: foldl_append)
  also have "\<dots> = ?f ?z (window_frames rows p s e)"
    by (simp only: fold_skip[OF w_l] fold_skip[OF w_r] window_frames_def frame_window_def Let_def prod.case)
  finally show ?thesis using frames times by (simp add: summarize_frames_def Let_def)
qed

definition demo_frame :: "string \<Rightarrow> string \<Rightarrow> csv_row" where
  "demo_frame i t = [(''frame'', Some i), (''time_sec'', Some t), (''session'', Some ''0''),
     (''top1'', Some ''0''), (''top1_prob'', Some ''1''), (''top2'', Some ''1''), (''top2_prob'', Some ''0''),
     (''margin'', Some ''1''), (''active_count'', Some ''1''), (''spk0'', Some ''1'')]"

definition demo_frames :: csv_table where
  "demo_frames = \<lparr>csv_fields = [''frame'', ''spk0''],
     csv_rows = [demo_frame ''0'' ''0'', demo_frame ''1'' ''1'', demo_frame ''2'' ''2'']\<rparr>"

theorem summarize_frames_complete_witness:
  "\<exists>rows columns. read_frames demo_frames = Inr (rows, columns, D 1) \<and>
     map fr_frame rows = [0, 1, 2]"
proof -
  have "rbind (read_frames demo_frames) (\<lambda>(rows, columns, p). Inr (length rows, p)) = Inr (3, D 1)"
    by code_simp
  then obtain rows columns where r: "read_frames demo_frames = Inr (rows, columns, D 1)" "length rows = 3"
    by (auto simp: res_iff)
  from summarize_frames_complete[OF r(1), of "D 2" "D 3" 0] r(2)
  have "map fr_frame rows = map int [0..<3]" by simp
  also have "\<dots> = [0, 1, 2]" by (simp add: upt_rec)
  finally show ?thesis using r by (intro exI conjI)
qed

section \<open>Coverage\<close>

text \<open>
  A stretch of the interval that no island meets, and the parts of the voice activity entries
  that lie in the interval.
\<close>

definition uncovered :: "dbl \<Rightarrow> dbl \<Rightarrow> span list \<Rightarrow> span \<Rightarrow> bool" where
  "uncovered s e islands = (\<lambda>(a, b). s \<le> a \<and> a < b \<and> b \<le> e \<and>
     list_all (\<lambda>(p, q). q \<le> a \<or> b \<le> p) islands)"

definition clips_of :: "dbl \<Rightarrow> dbl \<Rightarrow> span list \<Rightarrow> span list" where
  "clips_of s e spans = map (\<lambda>(a, b). (max s a, min e b))
     (filter (\<lambda>(a, b). EPSILON < min e b - max s a) spans)"

text \<open>The stretch from \<open>p\<close> to \<open>q\<close> is held together by clips with holes of at most \<open>EPSILON\<close>.\<close>

definition held_by :: "span list \<Rightarrow> span \<Rightarrow> bool" where
  "held_by clips = (\<lambda>(p, q). \<forall>x. p \<le> x \<longrightarrow> x < q \<longrightarrow>
     list_ex (\<lambda>(a, b). a \<le> x + EPSILON \<and> x < b) clips)"

lemma merge_spans_held: "p \<in> set (merge_spans EPSILON xs) \<Longrightarrow> held_by xs p"
  unfolding merge_spans_def merge_sorted_spans_def
proof (rule merge_runs_invariant[where P = "held_by xs" and xs = "sort xs" and mk = "\<lambda>p. p"])
  have le: "x \<le> x + EPSILON" for x :: dbl by (rule dbl_le_add) (rule EPSILON_nonneg)
  show "held_by xs x" if "x \<in> set (sort xs)" for x
  proof -
    have "list_ex (\<lambda>(a, b). a \<le> y + EPSILON \<and> y < b) xs" if "fst x \<le> y" "y < snd x" for y
      unfolding list_ex_iff
    proof (rule bexI)
      show "case x of (a, b) \<Rightarrow> a \<le> y + EPSILON \<and> y < b"
        using that order_trans[OF that(1) le] by (simp add: case_prod_unfold)
    qed (use \<open>x \<in> set (sort xs)\<close> in simp)
    then show ?thesis by (simp add: held_by_def case_prod_unfold)
  qed
  fix p x :: span
  assume x: "x \<in> set (sort xs)" and p: "held_by xs p" and joins: "span_joins EPSILON p x"
  show "held_by xs (span_join p x)" unfolding held_by_def span_join_def prod.case
  proof (intro allI impI)
    fix y assume y: "fst p \<le> y" "y < max (snd p) (snd x)"
    show "list_ex (\<lambda>(a, b). a \<le> y + EPSILON \<and> y < b) xs"
    proof (cases "y < snd p")
      case True
      with p y(1) show ?thesis by (simp add: held_by_def case_prod_unfold)
    next
      case False
      then have "snd p + EPSILON \<le> y + EPSILON" by (intro dbl_add_mono) simp_all
      with joins have "fst x \<le> y + EPSILON" by (simp add: span_joins_def)
      moreover have "y < snd x" using y(2) False by (simp add: less_max_iff_disj)
      ultimately show ?thesis using x by (force simp: list_ex_iff)
    qed
  qed
qed

lemma span_gaps_above:
  "uncovered c e ms (a, b) \<Longrightarrow> \<exists>g \<in> set (span_gaps e c ms). b - a \<le> g"
proof (induction e c ms rule: span_gaps.induct)
  case (1 e c)
  then have "c < e" "b - a \<le> e - c" by (auto simp: uncovered_def intro!: dbl_diff_mono)
  then show ?case by simp
next
  case (2 e c p q ms)
  then have u: "c \<le> a" "a < b" "q \<le> a \<or> b \<le> p" by (auto simp: uncovered_def)
  show ?case
  proof (cases "q \<le> a")
    case True
    with 2 show ?thesis by (auto simp: uncovered_def)
  next
    case False
    with u have "c < p" "b - a \<le> p - c" by (auto intro!: dbl_diff_mono)
    then show ?thesis by simp
  qed
qed

lemma span_gaps_attained:
  assumes "g \<in> set (span_gaps e c ms)" and "sorted (map fst ms)" and "list_all (\<lambda>p. fst p \<le> e) ms"
  shows "\<exists>a b. uncovered c e ms (a, b) \<and> g = b - a"
  using assms
proof (induction e c ms rule: span_gaps.induct)
  case (1 e c)
  then have "c < e" "g = e - c" by (simp_all split: if_splits)
  then show ?case by (intro exI[of _ c] exI[of _ e]) (simp add: uncovered_def)
next
  case (2 e c p q ms)
  show ?case
  proof (cases "c < p \<and> g = p - c")
    case True
    then show ?thesis using 2(3,4)
      by (intro exI[of _ c] exI[of _ p]) (auto simp: uncovered_def list_all_iff)
  next
    case False
    with 2 obtain a b where "uncovered (max c q) e ms (a, b)" "g = b - a" by (auto split: if_splits)
    then show ?thesis by (intro exI[of _ a] exI[of _ b]) (auto simp: uncovered_def)
  qed
qed

lemma foldl_max_in: "foldl max (x :: dbl) xs \<in> set (x # xs)"
proof (induction xs arbitrary: x)
  case (Cons y ys)
  from Cons[of "max x y"] show ?case by (auto simp: max_def split: if_splits)
qed simp

lemma foldl_max_ge: "y \<in> set (x # xs) \<Longrightarrow> y \<le> foldl max (x :: dbl) xs"
proof (induction xs arbitrary: x y)
  case (Cons z zs)
  show ?case
  proof (cases "y \<in> set zs")
    case True
    then show ?thesis using Cons.IH[of y "max x z"] by simp
  next
    case False
    then have "y \<le> max x z" using Cons.prems by auto
    also have "\<dots> \<le> foldl max (max x z) zs" by (rule Cons.IH) simp
    finally show ?thesis by simp
  qed
qed simp

lemma largest_gap:
  assumes "sorted (map fst ms)" and "list_all (\<lambda>p. fst p \<le> e) ms"
  shows "uncovered s e ms (a, b) \<Longrightarrow> b - a \<le> max_or_zero (span_gaps e s ms)" 
    and "(max_or_zero (span_gaps e s ms) = 0 \<and> (\<forall>st. \<not> uncovered s e ms st)) \<or>
      (\<exists>a b. uncovered s e ms (a, b) \<and> max_or_zero (span_gaps e s ms) = b - a)"
proof -
  let ?g = "max_or_zero (span_gaps e s ms)"
  have ge: "b - a \<le> ?g" if un: "uncovered s e ms (a, b)" for a b
  proof -
    from span_gaps_above[OF un] obtain g where g: "g \<in> set (span_gaps e s ms)" "b - a \<le> g" by blast
    then obtain x xs where xs: "span_gaps e s ms = x # xs" by (cases "span_gaps e s ms") auto
    with g(1) have "g \<le> ?g" unfolding xs max_or_zero_def list.case by (intro foldl_max_ge) simp
    with g(2) show ?thesis by order
  qed
  then show "uncovered s e ms (a, b) \<Longrightarrow> b - a \<le> ?g" .
  show "(?g = 0 \<and> (\<forall>st. \<not> uncovered s e ms st)) \<or> (\<exists>a b. uncovered s e ms (a, b) \<and> ?g = b - a)"
  proof (cases "span_gaps e s ms")
    case Nil
    then have "\<not> uncovered s e ms st" for st using span_gaps_above[of s e ms] by (cases st) auto
    with Nil show ?thesis by (simp add: max_or_zero_def)
  next
    case (Cons x xs)
    have "?g \<in> set (span_gaps e s ms)"
      unfolding Cons max_or_zero_def list.case by (rule foldl_max_in)
    from span_gaps_attained[OF this assms] show ?thesis by blast
  qed
qed

lemma vad_picks_clips:
  assumes "vad_picks s e entries = Inr parts"
  shows "\<exists>spans. rmap entry_span entries = Inr spans \<and> map vp_clip parts = clips_of s e spans"
proof -
  have gen: "\<exists>spans. rmap entry_span vs = Inr spans \<and> map vp_clip (concat pss) = clips_of s e spans"
    if "rmap (\<lambda>(i, v). vad_pick_of s e i v) (enumerate n vs) = Inr pss" for n vs pss
    using that
  proof (induction vs arbitrary: n pss)
    case (Cons v vs)
    then obtain ps pss' where ps: "vad_pick_of s e n v = Inr ps" "pss = ps # pss'"
      "rmap (\<lambda>(i, v). vad_pick_of s e i v) (enumerate (Suc n) vs) = Inr pss'"
      by (auto simp: rbind_Inr_iff)
    from Cons.IH[OF ps(3)] obtain spans where ih: "rmap entry_span vs = Inr spans"
      "map vp_clip (concat pss') = clips_of s e spans" by blast
    from ps(1) obtain a b where ab: "entry_span v = Inr (a, b)"
      "map vp_clip ps = (if overlap_sec s e a b \<le> EPSILON then [] else [(max s a, min e b)])"
      by (auto simp: vad_pick_of_def rbind_Inr_iff Let_def)
    have "overlap_sec s e a b \<le> EPSILON \<longleftrightarrow> \<not> EPSILON < min e b - max s a"
      using EPSILON_nonneg by (simp add: overlap_sec_def not_less)
    with ab ih ps(2) show ?case
      by (intro exI[of _ "(a, b) # spans"]) (simp add: clips_of_def)
  qed (simp add: clips_of_def)
  from assms obtain pss where "rmap (\<lambda>(i, v). vad_pick_of s e i v) (enumerate 0 entries) = Inr pss"
    "parts = concat pss"
    unfolding vad_picks_def rbind_Inr_iff by blast
  with gen show ?thesis by blast
qed

lemma clips_of_bounds:
  assumes "x \<in> set (clips_of s e spans)" shows "s \<le> fst x" "fst x < snd x" "snd x \<le> e"
proof -
  from assms obtain a b where ab: "x = (max s a, min e b)" "EPSILON < min e b - max s a"
    by (auto simp: clips_of_def)
  from less_trans[OF EPSILON_pos ab(2)] have "max s a < min e b" by (simp only: dbl_diff_pos_iff)
  then show "s \<le> fst x" "fst x < snd x" "snd x \<le> e" unfolding ab(1) by simp_all
qed

text \<open>
  C13: the VAD metrics of an interval. The clips are the parts inside the interval of the entries
  that overlap it by more than \<open>EPSILON\<close>. The islands are their union: every clip lies in an
  island, every island begins and ends where clips do and has no hole of more than \<open>EPSILON\<close>
  within it, and islands are more than \<open>EPSILON\<close> apart. The metrics count the islands, the
  coverage is the sum of their lengths and the ratio divides it by the length of the interval.
  The largest gap is the length of the longest stretch of the interval that no island meets, the
  stretches before the first island and after the last one included, and zero if there is none.
\<close>

theorem interval_metrics_sound:
  assumes "interval_metrics s e entries = Inr m"
  shows "\<exists>spans islands cov gap. rmap entry_span entries = Inr spans \<and>
    list_all (covered_by islands) (clips_of s e spans) \<and>
    list_all (\<lambda>p. fst p \<in> fst ` set (clips_of s e spans) \<and> snd p \<in> snd ` set (clips_of s e spans) \<and>
      fst p < snd p \<and> held_by (clips_of s e spans) p) islands \<and>
    successively (\<lambda>p q. snd p + EPSILON < fst q) islands \<and>
    vget m ''island_count'' JNull = Inr (JInt (int (length islands))) \<and>
    vget m ''coverage_sec'' JNull = Inr (JFlt cov) \<and> cov = py_sum (map (\<lambda>(a, b). b - a) islands) \<and>
    vget m ''coverage_ratio'' JNull = Inr (JFlt (cov / (e - s))) \<and>
    vget m ''max_gap_sec'' JNull = Inr (JFlt gap) \<and>
    (\<forall>a b. uncovered s e islands (a, b) \<longrightarrow> b - a \<le> gap) \<and>
    ((gap = 0 \<and> (\<forall>stretch. \<not> uncovered s e islands stretch)) \<or>
     (\<exists>a b. uncovered s e islands (a, b) \<and> gap = b - a))"
proof -
  from assms obtain parts where "vad_picks s e entries = Inr parts"
    by (auto simp: interval_metrics_def res_iff)
  from vad_picks_clips[OF this] obtain spans where spans: "rmap entry_span entries = Inr spans"
    "map vp_clip parts = clips_of s e spans" by blast
  let ?c = "clips_of s e spans"
  let ?m = "merge_spans EPSILON ?c"
  have m: "m = JObj [(''coverage_sec'', JFlt (total_span ?m)),
      (''coverage_ratio'', JFlt (total_span ?m / (e - s))),
      (''max_gap_sec'', JFlt (max_or_zero (span_gaps e s ?m))),
      (''island_count'', JInt (int (length ?m))), (''evidence'', JArr (map vp_evidence parts))]"
    using assms by (auto simp: interval_metrics_def \<open>vad_picks s e entries = Inr parts\<close> spans(2)
      Let_def split: if_splits)
  have proper: "\<forall>(a, b) \<in> set ?c. a < b" using clips_of_bounds(2) by fastforce
  have ends: "fst p \<in> fst ` set ?c \<and> snd p \<in> snd ` set ?c \<and> fst p < snd p \<and> held_by ?c p"
    if "p \<in> set ?m" for p
    using merge_spans_ends[OF that] merge_spans_strict[OF proper that] merge_spans_held[OF that] by blast
  have "fst p \<le> e" if "p \<in> set ?m" for p
  proof -
    from merge_spans_ends[OF that] obtain x where x: "x \<in> set ?c" "fst p = fst x" by auto
    with clips_of_bounds(2,3)[OF x(1)] show ?thesis by simp
  qed
  then have below: "list_all (\<lambda>p. fst p \<le> e) ?m" by (simp add: list_all_iff)
  show ?thesis
    using spans(1) merge_spans_cover[of EPSILON ?c] merge_spans_separated[of EPSILON ?c] ends
      largest_gap[OF merge_spans_starts_sorted below, where s = s]
    by (intro exI[of _ spans] exI[of _ ?m] exI[of _ "total_span ?m"]
        exI[of _ "max_or_zero (span_gaps e s ?m)"] conjI)
      (simp_all add: m list_all_iff total_span_def)
qed

definition demo_vad :: "json list" where
  "demo_vad = [JObj [(''start'', JFlt 0), (''end'', JFlt (D 2))], JObj [(''start'', JFlt (D 3)), (''end'', JFlt (D 9))]]"

theorem interval_metrics_sound_witness:
  "\<exists>m. interval_metrics 1 (D 5) demo_vad = Inr m \<and>
     vget m ''island_count'' JNull = Inr (JInt 2)"
proof -
  have "rbind (interval_metrics 1 (D 5) demo_vad) (\<lambda>m. vget m ''island_count'' JNull) = Inr (JInt 2)"
    by code_simp
  then obtain m where m: "interval_metrics 1 (D 5) demo_vad = Inr m"
    "vget m ''island_count'' JNull = Inr (JInt 2)" by (auto simp: res_iff)
  with interval_metrics_sound[OF m(1)] show ?thesis by blast
qed

section \<open>Score rows\<close>

lemma digits_nonneg_inj: "0 \<le> m \<Longrightarrow> 0 \<le> n \<Longrightarrow> digits m = digits n \<Longrightarrow> m = n"
  by (metis digits_val_digits)

lemma diar_evidence_id_inj: "inj diar_evidence_id"
  by (rule injI) (auto simp: diar_evidence_id_def int_repr_def dest: digits_nonneg_inj[rotated 2])

lemma read_titanet_distinct: "read_titanet t = Inr d \<Longrightarrow> distinct (map fst d)"
  unfolding read_titanet_def
  by (rule rfold_invariant[where P = "\<lambda>d. distinct (map fst d)"])
     (auto simp: add_titanet_def res_iff distinct_dset)

text \<open>
  Score tables that pass the build's check have exactly one row per diarization segment: as
  many rows as segments, and row ids \<open>diarization:0\<close> to \<open>diarization:n-1\<close>.
\<close>

lemma diar_scores_matched:
  assumes "read_titanet tbl = Inr d" and "check_diar_ids n d = Inr ()"
  shows "distinct (map fst d) \<and> length d = n \<and>
    set (map fst d) = (Some \<circ> diar_evidence_id) ` {0..<n}"
proof -
  from read_titanet_distinct[OF assms(1)] have dist: "distinct (map fst d)" .
  have ids: "set (map fst d) = (Some \<circ> diar_evidence_id) ` {0..<n}"
    using assms(2) by (auto simp: check_diar_ids_def res_iff Let_def filter_empty_conv split: if_splits)
  have "length d = card (set (map fst d))" using distinct_card[OF dist] by (simp only: length_map)
  also have "\<dots> = n" unfolding ids
    by (subst card_image) (auto intro: inj_on_subset[OF inj_compose[OF inj_Some diar_evidence_id_inj]])
  finally show ?thesis using dist ids by blast
qed

definition demo_scores :: csv_table where
  "demo_scores = \<lparr>csv_fields = [''evidence_id'', ''score_a''],
     csv_rows = [[(''evidence_id'', Some ''diarization:0''), (''start_sec'', Some ''0''), (''end_sec'', Some ''2''),
        (''duration_sec'', Some ''2''), (''status'', Some ''ok''), (''score_a'', Some ''1'')]]\<rparr>"

theorem diar_scores_matched_witness:
  "\<exists>d. read_titanet demo_scores = Inr d \<and> check_diar_ids 1 d = Inr () \<and> length d = 1"
proof -
  have "rbind (read_titanet demo_scores) (check_diar_ids 1) = Inr ()" by code_simp
  then obtain d where d: "read_titanet demo_scores = Inr d" "check_diar_ids 1 d = Inr ()"
    by (auto simp: res_iff)
  with diar_scores_matched[OF d] show ?thesis by blast
qed

end
