(* ===== verification/Short_Primary.thy ===== *)
theory Short_Primary
  imports Py_Text Py_Json Frozen_Evidence
begin

text \<open>
  \<^verbatim>\<open>tools/verify/py/speaker_short_primary_evidence.py\<close>, readers and relations: frame, primary
  evidence and identity epoch tables, and the alignment relations of a primary run with the
  business pieces they lead to.  \<open>EPSILON\<close> is the tolerance of the same name and value.
\<close>

definition TIME_TOLERANCE_SEC :: dbl where "TIME_TOLERANCE_SEC = D (1 / 1000000)"

definition identity_key :: "json \<Rightarrow> string res" where
  "identity_key v = rbind (vget v ''speaker_id'' JNull) (\<lambda>sid. case normalized_speaker_id sid of
     Some s \<Rightarrow> Inr (''id:'' @ s)
   | None \<Rightarrow> rbind (int_get v ''speaker'' (- 1)) (\<lambda>n. Inr (''local:'' @ int_repr n)))"

section \<open>Tables\<close>

record short_frame =
  sf_frame :: int
  sf_time :: dbl
  sf_session :: int
  sf_top1 :: int
  sf_top1_prob :: dbl
  sf_top2 :: int
  sf_top2_prob :: dbl
  sf_margin :: dbl
  sf_active_count :: int
  sf_channels :: "(string, dbl) pydict"

definition short_frame_fields :: "string list" where
  "short_frame_fields = [''frame'', ''time_sec'', ''session'', ''top1'', ''top1_prob'', ''top2'',
     ''top2_prob'', ''margin'', ''active_count'']"

text \<open>The table of a reader with a set of required columns, or its complaint.\<close>

definition require_fields :: "string \<Rightarrow> string list \<Rightarrow> csv_table \<Rightarrow> 'a res \<Rightarrow> 'a res" where
  "require_fields what required t k = (let missing = fields_missing required (csv_fields t) in
     raise_if (missing \<noteq> []) (ValueError (what @ join_with '','' missing)) k)"

definition channel_columns :: "string list \<Rightarrow> string list res" where
  "channel_columns names = speaker_columns (filter (\<lambda>n. is_digit_text (drop 3 n)) names)"

definition read_channels :: "string list \<Rightarrow> csv_row \<Rightarrow> (string, dbl) pydict res" where
  "read_channels columns row =
     rfold (\<lambda>d n. rbind (csv_float row n) (\<lambda>x. Inr (dset n x d))) [] columns"

definition short_frame_of :: "string list \<Rightarrow> csv_row \<Rightarrow> short_frame res" where
  "short_frame_of columns row =
    rbind (csv_int row ''frame'') (\<lambda>frame. rbind (csv_float row ''time_sec'') (\<lambda>time.
    rbind (csv_int row ''session'') (\<lambda>session. rbind (csv_int row ''top1'') (\<lambda>top1.
    rbind (csv_float row ''top1_prob'') (\<lambda>p1. rbind (csv_int row ''top2'') (\<lambda>top2.
    rbind (csv_float row ''top2_prob'') (\<lambda>p2. rbind (csv_float row ''margin'') (\<lambda>margin.
    rbind (csv_int row ''active_count'') (\<lambda>active. rbind (read_channels columns row) (\<lambda>channels.
    Inr \<lparr>sf_frame = frame, sf_time = time, sf_session = session, sf_top1 = top1, sf_top1_prob = p1,
         sf_top2 = top2, sf_top2_prob = p2, sf_margin = margin, sf_active_count = active,
         sf_channels = channels\<rparr>))))))))))"

fun check_short_frames :: "int \<Rightarrow> dbl option \<Rightarrow> short_frame list \<Rightarrow> unit res" where
  "check_short_frames i prev [] = Inr ()"
| "check_short_frames i prev (r # rs) =
     raise_if (sf_frame r \<noteq> i) (ValueError ''Sortformer frame indices are not contiguous'')
     (raise_if (case prev of None \<Rightarrow> False | Some t \<Rightarrow> sf_time r \<le> t)
        (ValueError ''Sortformer frame times are not monotonic'')
        (check_short_frames (i + 1) (Some (sf_time r)) rs))"

definition read_short_frames :: "csv_table \<Rightarrow> (short_frame list \<times> dbl) res" where
  "read_short_frames t = require_fields ''Sortformer frame CSV missing: '' short_frame_fields t
    (rbind (channel_columns (csv_fields t)) (\<lambda>columns.
     raise_if (columns = []) (ValueError ''Sortformer frame CSV has no speaker columns'')
     (rbind (rmap (short_frame_of columns) (csv_rows t)) (\<lambda>rows.
      raise_if (length rows < 2) (ValueError ''Sortformer frame CSV requires at least two rows'')
      (rbind (check_short_frames 0 None rows) (\<lambda>_.
       Inr (rows, sf_time (rows ! 1) - sf_time (rows ! 0))))))))"

definition score_json :: "string \<times> dbl \<Rightarrow> json" where
  "score_json = (\<lambda>(i, x). JObj [(''speaker_id'', JStr i), (''score'', JFlt x)])"

definition parse_score :: "string \<Rightarrow> (string \<times> dbl) res" where
  "parse_score s = (case rpartition CHR '':'' s of
     Some (i, x) \<Rightarrow> raise_if (i = []) (ValueError ''invalid primary evidence score list'')
       (rbind (float_str x) (\<lambda>v. Inr (i, v)))
   | None \<Rightarrow> Inl (ValueError ''invalid primary evidence score list''))"

definition parse_scores :: "string option \<Rightarrow> (string \<times> dbl) list res" where
  "parse_scores v = (case v of None \<Rightarrow> Inr []
     | Some s \<Rightarrow> if s = [] then Inr [] else rmap parse_score (split_on CHR '','' s))"

record primary_row =
  pe_id :: string
  pe_start :: dbl
  pe_end :: dbl
  pe_available :: bool
  pe_session_complete :: bool
  pe_robust_complete :: bool
  pe_session_scores :: "(string \<times> dbl) list"
  pe_robust_scores :: "(string \<times> dbl) list"

definition primary_fields :: "string list" where
  "primary_fields = [''evidence_id'', ''kind'', ''start'', ''end'', ''embedding_available'',
     ''session_gallery_complete'', ''robust_gallery_complete'', ''session_scores'', ''robust_scores'']"

definition csv_flag :: "csv_row \<Rightarrow> string \<Rightarrow> bool res" where
  "csv_flag row k = rbind (csv_item row k) (\<lambda>v. Inr (v = Some ''1''))"

definition primary_run_id :: "nat \<Rightarrow> string" where
  "primary_run_id i = ''primary_run:'' @ int_repr (int i)"

definition primary_row_of :: "nat \<times> csv_row \<Rightarrow> primary_row res" where
  "primary_row_of = (\<lambda>(i, row). rbind (csv_item row ''evidence_id'') (\<lambda>eid.
     raise_if (eid \<noteq> Some (primary_run_id i)) (ValueError ''primary evidence IDs are not contiguous'')
     (rbind (csv_item row ''kind'') (\<lambda>kind.
      raise_if (kind \<noteq> Some ''primary_run'') (ValueError ''primary evidence has an unexpected kind'')
      (rbind (csv_float row ''start'') (\<lambda>s. rbind (csv_float row ''end'') (\<lambda>e.
       rbind (csv_flag row ''embedding_available'') (\<lambda>avail.
       rbind (csv_flag row ''session_gallery_complete'') (\<lambda>sess.
       rbind (csv_flag row ''robust_gallery_complete'') (\<lambda>rob.
       rbind (rbind (csv_item row ''session_scores'') parse_scores) (\<lambda>ss.
       rbind (rbind (csv_item row ''robust_scores'') parse_scores) (\<lambda>rs.
       Inr \<lparr>pe_id = primary_run_id i, pe_start = s, pe_end = e, pe_available = avail,
            pe_session_complete = sess, pe_robust_complete = rob, pe_session_scores = ss,
            pe_robust_scores = rs\<rparr>))))))))))))"

definition read_primary_evidence :: "csv_table \<Rightarrow> primary_row list res" where
  "read_primary_evidence t = require_fields ''primary evidence TSV missing: '' primary_fields t
     (rmap primary_row_of (enumerate 0 (csv_rows t)))"

record identity_epoch =
  ie_local :: int
  ie_start :: dbl
  ie_end :: dbl
  ie_speaker :: string

definition epoch_fields :: "string list" where
  "epoch_fields = [''local_speaker'', ''start_sec'', ''end_sec'', ''speaker_id'']"

definition epoch_of :: "csv_row \<Rightarrow> identity_epoch res" where
  "epoch_of row =
    rbind (csv_float row ''start_sec'') (\<lambda>s. rbind (csv_float row ''end_sec'') (\<lambda>e.
    raise_if (s < 0 \<or> e \<le> s) (ValueError ''identity epoch has invalid values'')
    (rbind (csv_item row ''speaker_id'') (\<lambda>sid. case sid of
       Some (c # cs) \<Rightarrow> rbind (csv_int row ''local_speaker'') (\<lambda>spk.
         Inr \<lparr>ie_local = spk, ie_start = s, ie_end = e, ie_speaker = c # cs\<rparr>)
     | _ \<Rightarrow> Inl (ValueError ''identity epoch has invalid values'')))))"

definition epoch_order :: "identity_epoch \<Rightarrow> int \<times> dbl \<times> dbl" where
  "epoch_order x = (ie_local x, ie_start x, ie_end x)"

definition read_identity_epochs :: "csv_table \<Rightarrow> identity_epoch list res" where
  "read_identity_epochs t = require_fields ''identity epoch TSV missing: '' epoch_fields t
     (rbind (rmap epoch_of (csv_rows t)) (\<lambda>rows. Inr (sort_key epoch_order rows)))"

definition bounds_differ :: "nat \<Rightarrow> 'a res" where
  "bounds_differ i = Inl (ValueError (''primary evidence bounds differ at primary_run:'' @ int_repr (int i)))"

definition validate_primary_evidence :: "json list \<Rightarrow> primary_row list \<Rightarrow> unit res" where
  "validate_primary_evidence primary evidence =
     raise_if (length primary \<noteq> length evidence)
       (ValueError ''primary evidence count does not match primary track'')
     (rbind (rmap (\<lambda>(i, v, x). rbind (float_item v ''start'') (\<lambda>s.
          if TIME_TOLERANCE_SEC < \<bar>s - pe_start x\<bar> then bounds_differ i
          else rbind (float_item v ''end'') (\<lambda>e.
            if TIME_TOLERANCE_SEC < \<bar>e - pe_end x\<bar> then bounds_differ i else Inr ())))
        (enumerate 0 (zip primary evidence))) (\<lambda>_. Inr ()))"

section \<open>Alignment relations\<close>

datatype relation_kind = PositiveUnit | ZeroDurationUnit | AlignmentGap

record relation =
  rl_kind :: relation_kind
  rl_text_id :: int
  rl_index :: nat
  rl_start :: dbl
  rl_end :: dbl
  rl_text :: string
  rl_after :: string

fun kind_text :: "relation_kind \<Rightarrow> string" where
  "kind_text PositiveUnit = ''positive_unit''"
| "kind_text ZeroDurationUnit = ''zero_duration_unit''"
| "kind_text AlignmentGap = ''alignment_gap''"

definition relation_json :: "relation \<Rightarrow> json" where
  "relation_json r = (case rl_kind r of
     AlignmentGap \<Rightarrow> JObj [(''kind'', JStr (kind_text (rl_kind r))), (''text_id'', JInt (rl_text_id r)),
       (''before_unit_index'', JInt (int (rl_index r))), (''after_unit_index'', JInt (int (rl_index r) + 1)),
       (''start_sec'', JFlt (rl_start r)), (''end_sec'', JFlt (rl_end r)),
       (''before_text'', JStr (rl_text r)), (''after_text'', JStr (rl_after r))]
   | _ \<Rightarrow> JObj [(''kind'', JStr (kind_text (rl_kind r))), (''text_id'', JInt (rl_text_id r)),
       (''unit_index'', JInt (int (rl_index r))), (''start_sec'', JFlt (rl_start r)),
       (''end_sec'', JFlt (rl_end r)), (''text'', JStr (rl_text r))])"

definition near_point :: "dbl \<Rightarrow> dbl \<Rightarrow> dbl \<Rightarrow> bool" where
  "near_point s e p \<longleftrightarrow> s - TIME_TOLERANCE_SEC \<le> p \<and> p \<le> e + TIME_TOLERANCE_SEC"

definition unit_kind :: "dbl \<Rightarrow> dbl \<Rightarrow> dbl \<Rightarrow> dbl \<Rightarrow> relation_kind option" where
  "unit_kind s e a b =
     (if a + EPSILON < b then if overlap_sec s e a b \<le> EPSILON then None else Some PositiveUnit
      else if near_point s e a then Some ZeroDurationUnit else None)"

definition unit_relation :: "dbl \<Rightarrow> dbl \<Rightarrow> int \<Rightarrow> nat \<times> json \<Rightarrow> relation option res" where
  "unit_relation s e tid = (\<lambda>(i, u). rbind (entry_span u) (\<lambda>(a, b). case unit_kind s e a b of
     None \<Rightarrow> Inr None
   | Some k \<Rightarrow> rbind (str_get u ''text'') (\<lambda>t.
       Inr (Some \<lparr>rl_kind = k, rl_text_id = tid, rl_index = i, rl_start = a, rl_end = b,
                  rl_text = t, rl_after = []\<rparr>))))"

definition gap_span :: "json \<Rightarrow> json \<Rightarrow> span res" where
  "gap_span before after =
     rbind (vget before ''start'' (JFlt 0)) (\<lambda>d. rbind (rbind (vget before ''end'' d) py_float) (\<lambda>a.
     rbind (float_get after ''start'' 0) (\<lambda>b. Inr (a, b))))"

definition gap_relation :: "dbl \<Rightarrow> dbl \<Rightarrow> int \<Rightarrow> nat \<times> json \<times> json \<Rightarrow> relation option res" where
  "gap_relation s e tid = (\<lambda>(i, before, after). rbind (gap_span before after) (\<lambda>(a, b).
     if b \<le> a + EPSILON \<or> overlap_sec s e a b \<le> EPSILON then Inr None
     else rbind (str_get before ''text'') (\<lambda>t. rbind (str_get after ''text'') (\<lambda>t'.
       Inr (Some \<lparr>rl_kind = AlignmentGap, rl_text_id = tid, rl_index = i, rl_start = a, rl_end = b,
                  rl_text = t, rl_after = t'\<rparr>)))))"

text \<open>A dict has no slices: \<^verbatim>\<open>units[1:]\<close> is a KeyError.\<close>

definition unit_pairs :: "json \<Rightarrow> json list \<Rightarrow> (nat \<times> json \<times> json) list res" where
  "unit_pairs units us = (case units of JObj _ \<Rightarrow> Inl (KeyError ''slice(1, None, None)'')
     | _ \<Rightarrow> Inr (enumerate 0 (zip us (drop 1 us))))"

definition group_relations :: "dbl \<Rightarrow> dbl \<Rightarrow> json \<Rightarrow> relation list res" where
  "group_relations s e g = rbind (int_get g ''text_id'' (- 1)) (\<lambda>tid.
     rbind (vget g ''units'' (JArr [])) (\<lambda>units. rbind (py_iter units) (\<lambda>us.
     rbind (rcollect (unit_relation s e tid) (enumerate 0 us)) (\<lambda>rs.
     rbind (unit_pairs units us) (\<lambda>pairs.
     rbind (rcollect (gap_relation s e tid) pairs) (\<lambda>gs. Inr (rs @ gs)))))))"

definition relation_order :: "relation \<Rightarrow> dbl \<times> dbl \<times> int \<times> string" where
  "relation_order r = (rl_start r, rl_end r, rl_text_id r, kind_text (rl_kind r))"

definition alignment_relations :: "json \<Rightarrow> json list \<Rightarrow> relation list res" where
  "alignment_relations primary align =
     rbind (float_item primary ''start'') (\<lambda>s. rbind (float_item primary ''end'') (\<lambda>e.
     rbind (rmap (group_relations s e) align) (\<lambda>rss. Inr (sort_key relation_order (concat rss)))))"

section \<open>Business pieces\<close>

definition relation_overlaps_business :: "relation \<Rightarrow> json \<Rightarrow> bool res" where
  "relation_overlaps_business r v = rbind (int_get v ''text_id'' (- 1)) (\<lambda>tid.
     if tid \<noteq> rl_text_id r then Inr False
     else rbind (float_item v ''start'') (\<lambda>s. rbind (float_item v ''end'') (\<lambda>e.
       Inr (if rl_kind r = ZeroDurationUnit then near_point s e (rl_start r)
            else EPSILON < overlap_sec (rl_start r) (rl_end r) s e))))"

definition business_selected :: "dbl \<Rightarrow> dbl \<Rightarrow> relation list \<Rightarrow> nat \<times> json \<Rightarrow> bool res" where
  "business_selected s e relations = (\<lambda>(i, v). rbind (int_get v ''text_id'' (- 1)) (\<lambda>tid.
     if tid \<notin> rl_text_id ` set relations then Inr False
     else rbind (float_item v ''start'') (\<lambda>a. rbind (float_item v ''end'') (\<lambda>b.
       rbind (rany (\<lambda>r. relation_overlaps_business r v) relations) (\<lambda>related.
       Inr (EPSILON < overlap_sec s e a b \<or> related))))))"

definition associated_business :: "json \<Rightarrow> relation list \<Rightarrow> json list \<Rightarrow> (nat \<times> json) list res" where
  "associated_business primary relations business =
     rbind (float_item primary ''start'') (\<lambda>s. rbind (float_item primary ''end'') (\<lambda>e.
     rfilter (business_selected s e relations) (enumerate 0 business)))"

section \<open>Context of a run\<close>

text \<open>\<^verbatim>\<open>{"index": index, **entry}\<close>.\<close>

definition with_index :: "nat \<times> json \<Rightarrow> json res" where
  "with_index = (\<lambda>(i, v). case v of JObj d \<Rightarrow> Inr (JObj (dict_update [(''index'', JInt (int i))] d))
     | _ \<Rightarrow> Inl TypeError)"

definition indexed_entries :: "json list \<Rightarrow> int list \<Rightarrow> json list res" where
  "indexed_entries entries indices =
     rmap (\<lambda>i. with_index (nat i, entries ! nat i))
       (filter (\<lambda>i. 0 \<le> i \<and> i < int (length entries)) (sort (remdups indices)))"

definition raw_frame_selected :: "dbl \<Rightarrow> dbl \<Rightarrow> dbl \<Rightarrow> short_frame \<Rightarrow> bool" where
  "raw_frame_selected s e period f \<longleftrightarrow>
     EPSILON < overlap_sec s e (sf_time f) (sf_time f + period) \<or> sf_time f < s \<or> e \<le> sf_time f"

definition raw_frames_for :: "json \<Rightarrow> short_frame list \<Rightarrow> dbl \<Rightarrow> short_frame list res" where
  "raw_frames_for primary frames period =
     rbind (float_item primary ''start'') (\<lambda>s. rbind (float_item primary ''end'') (\<lambda>e.
     let times = map sf_time frames; left = bisect_left times s - 1;
         right = min (length frames) (bisect_left times e + 1)
     in Inr (filter (raw_frame_selected s e period) (drop left (take right frames)))))"

definition short_frame_json :: "short_frame \<Rightarrow> json" where
  "short_frame_json f = JObj [(''frame'', JInt (sf_frame f)), (''time_sec'', JFlt (sf_time f)),
     (''session'', JInt (sf_session f)), (''top1'', JInt (sf_top1 f)), (''top1_prob'', JFlt (sf_top1_prob f)),
     (''top2'', JInt (sf_top2 f)), (''top2_prob'', JFlt (sf_top2_prob f)), (''margin'', JFlt (sf_margin f)),
     (''active_count'', JInt (sf_active_count f)),
     (''channels'', JObj (map (\<lambda>(k, x). (k, JFlt x)) (sf_channels f)))]"

text \<open>An entry whose end defaults to its start, and the start to zero.\<close>

definition entry_bounds :: "json \<Rightarrow> span res" where
  "entry_bounds v = rbind (vget v ''start'' (JFlt 0)) (\<lambda>d. rbind (py_float d) (\<lambda>a.
     rbind (rbind (vget v ''end'' d) py_float) (\<lambda>b. Inr (a, b))))"

definition overlapping_entries :: "json \<Rightarrow> dbl \<Rightarrow> dbl \<Rightarrow> json list res" where
  "overlapping_entries track s e = rbind (py_iter track) (\<lambda>entries.
     rcollect (\<lambda>(i, v). rbind (entry_bounds v) (\<lambda>(a, b).
       if EPSILON < overlap_sec s e a b then rbind (with_index (i, v)) (\<lambda>j. Inr (Some j)) else Inr None))
       (enumerate 0 entries))"

definition voiceprint_entries :: "json \<Rightarrow> int list \<Rightarrow> dbl \<Rightarrow> dbl \<Rightarrow> json list res" where
  "voiceprint_entries track text_ids s e = rbind (py_iter track) (\<lambda>entries.
     rcollect (\<lambda>(i, v). rbind (int_get v ''text_id'' (- 1)) (\<lambda>tid. rbind (entry_bounds v) (\<lambda>(a, b).
       if tid \<in> set text_ids \<or> EPSILON < overlap_sec s e a b
       then rbind (with_index (i, v)) (\<lambda>j. Inr (Some j)) else Inr None)))
       (enumerate 0 entries))"

definition epochs_for :: "json \<Rightarrow> identity_epoch list \<Rightarrow> identity_epoch list res" where
  "epochs_for primary epochs = rbind (int_get primary ''speaker'' (- 1)) (\<lambda>spk.
     rbind (float_item primary ''start'') (\<lambda>s. rbind (float_item primary ''end'') (\<lambda>e.
     Inr (filter (\<lambda>x. ie_local x = spk \<and> EPSILON < overlap_sec s e (ie_start x) (ie_end x)) epochs))))"

end
