(* ===== verification/Short_Inventory.thy ===== *)
theory Short_Inventory
  imports Short_Primary
begin

text \<open>
  \<^verbatim>\<open>tools/verify/py/speaker_short_primary_evidence.py\<close>, \<^verbatim>\<open>build_inventory\<close> and
  \<^verbatim>\<open>export_inventory\<close>: one record for every short primary run whose identity differs from a
  business piece it reaches through forced alignment.  The digest is a parameter.
\<close>

record short_record =
  sr_index :: nat
  sr_primary :: json
  sr_evidence :: primary_row
  sr_epochs :: "identity_epoch list"
  sr_relations :: "relation list"
  sr_asr :: "json list"
  sr_align :: "json list"
  sr_associated :: "(nat \<times> json) list"
  sr_conflicts :: "(nat \<times> json) list"
  sr_primary_controls :: "json list"
  sr_business_controls :: "json list"
  sr_frames :: "short_frame list"
  sr_activity :: "json list"
  sr_vad :: "json list"
  sr_voiceprint :: "json list"

record inventory_inputs =
  in_tracks :: "(string, json) pydict"
  in_primary :: "json list"
  in_evidence :: "primary_row list"
  in_align :: "json list"
  in_asr_by_id :: "(int, json) pydict"
  in_align_by_id :: "(int, json) pydict"
  in_frames :: "short_frame list"
  in_period :: dbl
  in_epochs :: "identity_epoch list"
  in_short_max :: dbl

definition inventory_tracks :: "string list" where
  "inventory_tracks = [''diarization'', ''primary_speaker'', ''asr'', ''vad'', ''align'',
     ''speaker_voiceprint'', ''business_speaker'']"

definition short_max_of :: "obj \<Rightarrow> dbl res" where
  "short_max_of t = rbind (vget (dget t ''resolved_config'' (JObj [])) ''speaker_fusion'' (JObj [])) (\<lambda>sf.
     rbind (vget sf ''short_max_sec'' (JFlt 0)) py_float)"

definition short_by_text_id :: "json list \<Rightarrow> (int, json) pydict res" where
  "short_by_text_id entries =
     rfold (\<lambda>d v. rbind (int_get v ''text_id'' (- 1)) (\<lambda>i. Inr (dset i v d))) [] entries"

text \<open>\<^verbatim>\<open>end <= start or end - start > short_max_sec + EPSILON\<close> skips a run.\<close>

definition short_run :: "dbl \<Rightarrow> dbl \<Rightarrow> dbl \<Rightarrow> bool" where
  "short_run m s e \<longleftrightarrow> \<not> (e \<le> s \<or> m + EPSILON < e - s)"

definition identity_conflict :: "json \<Rightarrow> nat \<times> json \<Rightarrow> bool res" where
  "identity_conflict primary = (\<lambda>(i, b). rbind (identity_key b) (\<lambda>kb. rbind (identity_key primary) (\<lambda>kp.
     Inr (kb \<noteq> kp))))"

definition run_text_ids :: "relation list \<Rightarrow> int list" where
  "run_text_ids relations = sort (remdups (map rl_text_id relations))"

definition business_control_indices :: "json list \<Rightarrow> int list \<Rightarrow> (nat \<times> json) list \<Rightarrow> int list res" where
  "business_control_indices business text_ids associated =
     rbind (rfilter (\<lambda>(i, v). rbind (int_get v ''text_id'' (- 1)) (\<lambda>tid. Inr (tid \<in> set text_ids)))
       (enumerate 0 business)) (\<lambda>same.
     Inr (concat (map (\<lambda>(i, v). [int i - 1, int i, int i + 1]) associated) @ map (int \<circ> fst) same))"

text \<open>\<^verbatim>\<open>min([start] + ...)\<close> and \<^verbatim>\<open>max([end] + ...)\<close> over the relations.\<close>

definition run_context :: "dbl \<Rightarrow> dbl \<Rightarrow> relation list \<Rightarrow> span" where
  "run_context s e relations = (foldl min s (map rl_start relations), foldl max e (map rl_end relations))"

definition sources_for :: "(int, json) pydict \<Rightarrow> int list \<Rightarrow> json list" where
  "sources_for d ids = List.map_filter (map_of d) ids"

definition inventory_track :: "inventory_inputs \<Rightarrow> string \<Rightarrow> json res" where
  "inventory_track x k = ditem (in_tracks x) k (KeyError k)"

definition short_record_of ::
  "inventory_inputs \<Rightarrow> json list \<Rightarrow> nat \<Rightarrow> json \<Rightarrow> dbl \<Rightarrow> dbl \<Rightarrow> relation list \<Rightarrow> (nat \<times> json) list \<Rightarrow> (nat \<times> json) list
     \<Rightarrow> short_record res" where
  "short_record_of x business i v s e relations associated conflicts =
    (let ids = run_text_ids relations; (cs, ce) = run_context s e relations in
     rbind (business_control_indices business ids associated) (\<lambda>bidx.
     rbind (epochs_for v (in_epochs x)) (\<lambda>epochs.
     rbind (rmap with_index associated) (\<lambda>_. rbind (rmap with_index conflicts) (\<lambda>_.
     rbind (indexed_entries (in_primary x) [int i - 1, int i, int i + 1]) (\<lambda>pc.
     rbind (indexed_entries business bidx) (\<lambda>bc.
     rbind (raw_frames_for v (in_frames x) (in_period x)) (\<lambda>frames.
     rbind (rbind (inventory_track x ''diarization'') (\<lambda>t. overlapping_entries t cs ce)) (\<lambda>activity.
     rbind (rbind (inventory_track x ''vad'') (\<lambda>t. overlapping_entries t cs ce)) (\<lambda>vad.
     rbind (rbind (inventory_track x ''speaker_voiceprint'') (\<lambda>t. voiceprint_entries t ids cs ce)) (\<lambda>voice.
     Inr \<lparr>sr_index = i, sr_primary = v, sr_evidence = in_evidence x ! i, sr_epochs = epochs,
          sr_relations = relations, sr_asr = sources_for (in_asr_by_id x) ids,
          sr_align = sources_for (in_align_by_id x) ids, sr_associated = associated,
          sr_conflicts = conflicts, sr_primary_controls = pc, sr_business_controls = bc,
          sr_frames = frames, sr_activity = activity, sr_vad = vad, sr_voiceprint = voice\<rparr>)))))))))))"

text \<open>The body of the loop over the primary runs: \<^verbatim>\<open>continue\<close> is \<open>None\<close>.\<close>

definition inventory_step :: "inventory_inputs \<Rightarrow> nat \<times> json \<Rightarrow> short_record option res" where
  "inventory_step x = (\<lambda>(i, v). rbind (float_item v ''start'') (\<lambda>s. rbind (float_item v ''end'') (\<lambda>e.
     if \<not> short_run (in_short_max x) s e then Inr None
     else rbind (alignment_relations v (in_align x)) (\<lambda>relations.
     if relations = [] then Inr None
     else rbind (rbind (inventory_track x ''business_speaker'') py_iter) (\<lambda>business.
     rbind (associated_business v relations business) (\<lambda>associated.
     rbind (rfilter (identity_conflict v) associated) (\<lambda>conflicts.
     if conflicts = [] then Inr None
     else rbind (short_record_of x business i v s e relations associated conflicts) (\<lambda>r. Inr (Some r)))))))))"

definition short_inputs ::
  "obj \<Rightarrow> short_frame list \<Rightarrow> dbl \<Rightarrow> primary_row list \<Rightarrow> identity_epoch list \<Rightarrow> inventory_inputs res" where
  "short_inputs t frames period evidence epochs =
    rbind (tracks_by_kind t) (\<lambda>ts. let missing = fields_missing inventory_tracks (map fst ts) in
    raise_if (missing \<noteq> []) (ValueError (''timeline tracks missing: '' @ join_with '','' missing))
    (rbind (rbind (ditem ts ''primary_speaker'' (KeyError ''primary_speaker'')) py_iter) (\<lambda>primary.
     rbind (validate_primary_evidence primary evidence) (\<lambda>_.
     rbind (short_max_of t) (\<lambda>m.
     raise_if (m \<le> 0) (ValueError ''resolved speaker_fusion.short_max_sec is missing'')
     (rbind (rbind (ditem ts ''asr'' (KeyError ''asr'')) py_iter) (\<lambda>asr.
      rbind (short_by_text_id asr) (\<lambda>asr_by_id.
      rbind (rbind (ditem ts ''align'' (KeyError ''align'')) py_iter) (\<lambda>align.
      rbind (short_by_text_id align) (\<lambda>align_by_id.
      Inr \<lparr>in_tracks = ts, in_primary = primary, in_evidence = evidence,
           in_align = align, in_asr_by_id = asr_by_id, in_align_by_id = align_by_id,
           in_frames = frames, in_period = period, in_epochs = epochs, in_short_max = m\<rparr>))))))))))"

definition build_inventory ::
  "obj \<Rightarrow> short_frame list \<Rightarrow> dbl \<Rightarrow> primary_row list \<Rightarrow> identity_epoch list \<Rightarrow> (short_record list \<times> dbl) res"
where
  "build_inventory t frames period evidence epochs =
     rbind (short_inputs t frames period evidence epochs) (\<lambda>x.
     rbind (rcollect (inventory_step x) (enumerate 0 (in_primary x))) (\<lambda>records.
     Inr (records, in_short_max x)))"

section \<open>Output\<close>

definition primary_row_json :: "primary_row \<Rightarrow> json" where
  "primary_row_json r = JObj [(''evidence_id'', JStr (pe_id r)), (''start_sec'', JFlt (pe_start r)),
     (''end_sec'', JFlt (pe_end r)), (''embedding_available'', JBool (pe_available r)),
     (''session_gallery_complete'', JBool (pe_session_complete r)),
     (''robust_gallery_complete'', JBool (pe_robust_complete r)),
     (''session_scores'', JArr (map score_json (pe_session_scores r))),
     (''robust_scores'', JArr (map score_json (pe_robust_scores r)))]"

definition epoch_json :: "identity_epoch \<Rightarrow> json" where
  "epoch_json x = JObj [(''local_speaker'', JInt (ie_local x)), (''start_sec'', JFlt (ie_start x)),
     (''end_sec'', JFlt (ie_end x)), (''speaker_id'', JStr (ie_speaker x))]"

definition indexed_json :: "nat \<times> json \<Rightarrow> json" where
  "indexed_json p = (case with_index p of Inr j \<Rightarrow> j | Inl _ \<Rightarrow> JNull)"

definition short_record_json :: "short_record \<Rightarrow> json" where
  "short_record_json r = JObj
    [(''record_id'', JStr (''short_primary:'' @ int_repr (int (sr_index r)))),
     (''primary_index'', JInt (int (sr_index r))), (''primary'', sr_primary r),
     (''primary_evidence'', primary_row_json (sr_evidence r)),
     (''identity_epochs'', JArr (map epoch_json (sr_epochs r))),
     (''alignment_relations'', JArr (map relation_json (sr_relations r))),
     (''asr_sources'', JArr (sr_asr r)), (''align_sources'', JArr (sr_align r)),
     (''associated_business'', JArr (map indexed_json (sr_associated r))),
     (''identity_conflicts'', JArr (map indexed_json (sr_conflicts r))),
     (''controls'', JObj [(''primary'', JArr (sr_primary_controls r)),
        (''business'', JArr (sr_business_controls r))]),
     (''raw_sortformer_frames'', JArr (map short_frame_json (sr_frames r))),
     (''activity'', JArr (sr_activity r)), (''vad'', JArr (sr_vad r)),
     (''voiceprint'', JArr (sr_voiceprint r))]"

definition records_sha256 :: "(string \<Rightarrow> string) \<Rightarrow> json list \<Rightarrow> string" where
  "records_sha256 sha records = sha (canonical_text (JArr records))"

record short_files =
  sh_timeline :: "string \<times> json"
  sh_frames :: "string \<times> csv_table"
  sh_primary :: "string \<times> csv_table"
  sh_epochs :: "string \<times> csv_table"
  sh_abspath :: "string \<Rightarrow> string"
  sh_file_sha :: "string \<Rightarrow> string"
  sh_text_sha :: "string \<Rightarrow> string"

definition source_json :: "short_files \<Rightarrow> string \<Rightarrow> json" where
  "source_json files p = JObj [(''path'', JStr (sh_abspath files p)), (''sha256'', JStr (sh_file_sha files p))]"

definition export_inventory :: "short_files \<Rightarrow> obj res" where
  "export_inventory files =
    rbind (timeline_from (snd (sh_timeline files))) (\<lambda>t.
    rbind (read_short_frames (snd (sh_frames files))) (\<lambda>(frames, period).
    rbind (read_primary_evidence (snd (sh_primary files))) (\<lambda>evidence.
    rbind (read_identity_epochs (snd (sh_epochs files))) (\<lambda>epochs.
    rbind (build_inventory t frames period evidence epochs) (\<lambda>(records, m).
    rbind (rbind (item t ''audio_sec'') py_float) (\<lambda>audio.
    rbind (rbind (item t ''sample_rate'') py_int) (\<lambda>rate.
    let rs = map short_record_json records in
    Inr [(''schema_version'', JInt 1), (''kind'', JStr ''orator_short_primary_evidence''),
      (''scope'', JStr ''reference_free_mechanical_identity_conflicts''),
      (''sources'', JObj [(''timeline'', source_json files (fst (sh_timeline files))),
         (''sortformer_frames'', source_json files (fst (sh_frames files))),
         (''primary_evidence'', source_json files (fst (sh_primary files))),
         (''identity_epochs'', source_json files (fst (sh_epochs files)))]),
      (''audio_sec'', JFlt audio), (''sample_rate'', JInt rate), (''short_max_sec'', JFlt m),
      (''frame_period_sec'', JFlt period), (''record_count'', JInt (int (length records))),
      (''records_sha256'', JStr (records_sha256 (sh_text_sha files) rs)),
      (''records'', JArr rs)])))))))"

end
