(* ===== verification/Short_Properties.thy ===== *)
theory Short_Properties
  imports Short_Inventory
begin

text \<open>
  What \<^verbatim>\<open>speaker_short_primary_evidence.py\<close> promises: the inventory holds exactly the short
  primary runs with an identity conflict, and each record is consistent with the tracks.
\<close>

section \<open>Specification\<close>

text \<open>
  A primary run belongs to the inventory if it is short and a business piece selected through its
  alignment relations has another identity.
\<close>

definition conflict_run :: "inventory_inputs \<Rightarrow> json \<Rightarrow> bool" where
  "conflict_run x v \<longleftrightarrow>
    (case (float_item v ''start'', float_item v ''end'', alignment_relations v (in_align x),
           rbind (inventory_track x ''business_speaker'') py_iter) of
       (Inr s, Inr e, Inr rs, Inr bs) \<Rightarrow> short_run (in_short_max x) s e \<and>
         list_ex (\<lambda>p. business_selected s e rs p = Inr True \<and> identity_key (snd p) \<noteq> identity_key v)
           (enumerate 0 bs)
     | _ \<Rightarrow> False)"

text \<open>A record agrees with the tracks it was made from.\<close>

definition record_ok :: "inventory_inputs \<Rightarrow> short_record \<Rightarrow> bool" where
  "record_ok x r \<longleftrightarrow> sr_index r < length (in_primary x) \<and> sr_primary r = in_primary x ! sr_index r \<and>
     sr_evidence r = in_evidence x ! sr_index r \<and> sr_relations r \<noteq> [] \<and>
     sorted (map relation_order (sr_relations r)) \<and> sr_conflicts r \<noteq> [] \<and>
     subseq (sr_conflicts r) (sr_associated r) \<and>
     list_all (\<lambda>p. identity_key (snd p) \<noteq> identity_key (sr_primary r)) (sr_conflicts r) \<and>
     sorted_wrt (<) (map fst (sr_associated r)) \<and>
     subseq (sr_epochs r) (in_epochs x) \<and> subseq (sr_frames r) (in_frames x)"

section \<open>One step\<close>

lemma identity_conflict_iff:
  "identity_conflict v p = Inr b \<Longrightarrow> b \<longleftrightarrow> identity_key (snd p) \<noteq> identity_key v"
  by (auto simp: identity_conflict_def res_iff split: prod.splits)

lemma business_none: "business_selected s e [] p \<noteq> Inr True"
  by (cases p; cases "int_get (snd p) ''text_id'' (- 1)") (simp_all add: business_selected_def)

lemma conflicts_spec:
  assumes "rfilter (business_selected s e rs) bs = Inr as" and "rfilter (identity_conflict v) as = Inr cs"
  shows "cs = filter (\<lambda>p. identity_key (snd p) \<noteq> identity_key v) as \<and>
    (cs \<noteq> [] \<longleftrightarrow> list_ex (\<lambda>p. business_selected s e rs p = Inr True \<and> identity_key (snd p) \<noteq> identity_key v) bs)"
proof -
  from rfilter_Inr[OF assms(1)] have as: "as = filter (\<lambda>p. business_selected s e rs p = Inr True) bs" by blast
  from rfilter_Inr[OF assms(2)] have cs: "cs = filter (\<lambda>p. identity_conflict v p = Inr True) as"
    and ok: "\<forall>p \<in> set as. \<exists>b. identity_conflict v p = Inr b" by blast+
  have "identity_conflict v p = Inr True \<longleftrightarrow> identity_key (snd p) \<noteq> identity_key v" if "p \<in> set as" for p
    using bspec[OF ok that] identity_conflict_iff[of v p] by auto
  then have "cs = filter (\<lambda>p. identity_key (snd p) \<noteq> identity_key v) as" unfolding cs by (rule filter_cong[OF refl])
  then show ?thesis by (auto simp: as filter_empty_conv list_ex_iff)
qed

lemma inventory_step_spec:
  assumes "inventory_step x (i, v) = Inr r"
  shows "conflict_run x v \<longleftrightarrow> r \<noteq> None"
proof -
  from assms obtain s e where se: "float_item v ''start'' = Inr s" "float_item v ''end'' = Inr e"
    by (auto simp: inventory_step_def res_iff)
  show ?thesis
  proof (cases "short_run (in_short_max x) s e")
    case short: True
    with assms se obtain rs where rs: "alignment_relations v (in_align x) = Inr rs"
      by (auto simp: inventory_step_def res_iff)
    show ?thesis
    proof (cases "rs = []")
      case True
      with assms se rs short show ?thesis
        by (auto simp: inventory_step_def conflict_run_def list_ex_iff business_none split: sum.splits)
    next
      case False
      with assms se rs short obtain bs as cs where b:
        "rbind (inventory_track x ''business_speaker'') py_iter = Inr bs"
        "rfilter (business_selected s e rs) (enumerate 0 bs) = Inr as"
        "rfilter (identity_conflict v) as = Inr cs" "cs = [] \<longleftrightarrow> r = None"
        by (auto simp: inventory_step_def associated_business_def res_iff split: if_splits)
      from conflicts_spec[OF b(2,3)] b(4) show ?thesis
        by (simp add: conflict_run_def se rs b(1) short)
    qed
  next
    case False
    with assms se show ?thesis by (auto simp: inventory_step_def conflict_run_def split: sum.splits)
  qed
qed

lemma subseq_slice: "subseq (filter P (drop l (take r xs))) xs"
proof -
  have "subseq (filter P (drop l (take r xs))) (drop l (take r xs))" by simp
  also have "subseq (drop l (take r xs)) (take r xs)" by (intro suffix_imp_subseq suffix_drop)
  also have "subseq (take r xs) xs" by (intro prefix_imp_subseq take_is_prefix)
  finally (subseq_order.trans) show ?thesis .
qed

lemma short_record_of_fields:
  "short_record_of x business i v s e rs as cs = Inr r \<Longrightarrow>
   sr_index r = i \<and> sr_primary r = v \<and> sr_evidence r = in_evidence x ! i \<and> sr_relations r = rs \<and>
   sr_associated r = as \<and> sr_conflicts r = cs \<and> subseq (sr_epochs r) (in_epochs x) \<and>
   subseq (sr_frames r) (in_frames x)"
  by (auto simp: short_record_of_def epochs_for_def raw_frames_for_def Let_def res_iff subseq_slice
      split: prod.splits)

lemma enumerate_sorted: "sorted_wrt (<) (map fst (filter P (enumerate n xs)))"
proof -
  have "subseq (map fst (filter P (enumerate n xs))) (map fst (enumerate n xs))"
    by (intro subseq_map subseq_filter_left)
  moreover have "sorted_wrt (<) (map fst (enumerate n xs))" by simp
  ultimately show ?thesis by (rule sorted_wrt_subseq)
qed

lemma inventory_step_ok:
  assumes "inventory_step x (i, v) = Inr (Some r)" and "i < length (in_primary x)" and "v = in_primary x ! i"
  shows "record_ok x r"
proof -
  from assms(1) obtain s e rs bs as cs where b:
    "alignment_relations v (in_align x) = Inr rs" "rs \<noteq> []"
    "rfilter (business_selected s e rs) (enumerate 0 bs) = Inr as"
    "rfilter (identity_conflict v) as = Inr cs" "cs \<noteq> []"
    "short_record_of x bs i v s e rs as cs = Inr r"
    by (auto simp: inventory_step_def associated_business_def res_iff split: if_splits)
  from short_record_of_fields[OF b(6)] have r: "sr_index r = i" "sr_primary r = v"
    "sr_evidence r = in_evidence x ! i" "sr_relations r = rs" "sr_associated r = as" "sr_conflicts r = cs"
    "subseq (sr_epochs r) (in_epochs x)" "subseq (sr_frames r) (in_frames x)" by blast+
  have "sorted (map relation_order rs)" using b(1) by (auto simp: alignment_relations_def res_iff)
  moreover have "sorted_wrt (<) (map fst as)"
    using rfilter_Inr[OF b(3)] enumerate_sorted by metis
  moreover have cs: "cs = filter (\<lambda>p. identity_key (snd p) \<noteq> identity_key v) as"
    using conflicts_spec[OF b(3,4)] by blast
  moreover have "subseq cs as" unfolding cs by (rule subseq_filter_left)
  ultimately show ?thesis using r b(2,5) assms(2,3) by (simp add: record_ok_def list_all_iff)
qed

section \<open>The inventory\<close>

lemma build_inventory_cases:
  assumes "build_inventory t frames period evidence epochs = Inr (records, m)"
  obtains x where "short_inputs t frames period evidence epochs = Inr x"
    "rcollect (inventory_step x) (enumerate 0 (in_primary x)) = Inr records" "m = in_short_max x"
  using assms by (auto simp: build_inventory_def res_iff)

text \<open>
  C14: the inventory refines its specification: the records are exactly the short primary runs
  with an identity conflict, each once and in the order of the track.
\<close>

theorem inventory_refines_spec:
  assumes "build_inventory t frames period evidence epochs = Inr (records, m)"
  shows "\<exists>x. short_inputs t frames period evidence epochs = Inr x \<and> m = in_short_max x \<and>
    map (\<lambda>r. (sr_index r, sr_primary r)) records =
      filter (\<lambda>p. conflict_run x (snd p)) (enumerate 0 (in_primary x))"
proof -
  from build_inventory_cases[OF assms] obtain x where x:
    "short_inputs t frames period evidence epochs = Inr x"
    "rcollect (inventory_step x) (enumerate 0 (in_primary x)) = Inr records" "m = in_short_max x" .
  have "map (\<lambda>r. (sr_index r, sr_primary r)) records =
      map (\<lambda>p. p) (filter (\<lambda>p. \<exists>r. inventory_step x p = Inr (Some r)) (enumerate 0 (in_primary x)))"
    using x(2) by (rule rcollect_filter)
      (auto simp: inventory_step_def res_iff split: if_splits dest!: short_record_of_fields)
  also have "\<dots> = filter (\<lambda>p. conflict_run x (snd p)) (enumerate 0 (in_primary x))"
    unfolding list.map_ident
  proof (rule filter_cong[OF refl])
    fix p assume "p \<in> set (enumerate 0 (in_primary x))"
    from rcollect_all[OF x(2) this] obtain r where r: "inventory_step x (fst p, snd p) = Inr r" by auto
    from inventory_step_spec[OF r] show "(\<exists>r. inventory_step x p = Inr (Some r)) \<longleftrightarrow> conflict_run x (snd p)"
      using r by auto
  qed
  finally show ?thesis using x by blast
qed

text \<open>
  C15: every record of an inventory is well formed: its index, run and evidence belong together,
  its relations are sorted, its conflicts are among the associated pieces (in track order) and
  have another identity, and its epochs and frames come from the tables in order.
\<close>

theorem inventory_records_ok:
  assumes "build_inventory t frames period evidence epochs = Inr (records, m)"
  shows "0 < m \<and> (\<exists>x. short_inputs t frames period evidence epochs = Inr x \<and> list_all (record_ok x) records)"
proof -
  from build_inventory_cases[OF assms] obtain x where x:
    "short_inputs t frames period evidence epochs = Inr x"
    "rcollect (inventory_step x) (enumerate 0 (in_primary x)) = Inr records" "m = in_short_max x" .
  have "record_ok x r" if "r \<in> set records" for r
  proof -
    from that rcollect_set[OF x(2)] obtain i v where "(i, v) \<in> set (enumerate 0 (in_primary x))"
      and step: "inventory_step x (i, v) = Inr (Some r)" by auto
    then have "i < length (in_primary x)" "v = in_primary x ! i" by (auto simp: in_set_enumerate_eq)
    with step show ?thesis by (rule inventory_step_ok)
  qed
  moreover have "0 < in_short_max x" using x(1) by (auto simp: short_inputs_def Let_def res_iff)
  ultimately show ?thesis using x by (auto simp: list_all_iff)
qed

section \<open>Example\<close>

definition demo_track :: "string \<Rightarrow> json list \<Rightarrow> json" where
  "demo_track k es = JObj [(''kind'', JStr k), (''entries'', JArr es)]"

definition demo_span :: "dbl \<Rightarrow> dbl \<Rightarrow> int \<Rightarrow> json" where
  "demo_span s e spk = JObj [(''start'', JFlt s), (''end'', JFlt e), (''speaker'', JInt spk), (''text_id'', JInt 7)]"

definition demo_timeline :: obj where
  "demo_timeline = [(''resolved_config'', JObj [(''speaker_fusion'', JObj [(''short_max_sec'', JFlt (D 4))])]),
     (''tracks'', JArr [demo_track ''diarization'' [], demo_track ''primary_speaker'' [demo_span 1 (D 2) 0],
        demo_track ''asr'' [], demo_track ''vad'' [], demo_track ''speaker_voiceprint'' [],
        demo_track ''align'' [JObj [(''text_id'', JInt 7), (''units'', JArr [demo_span 1 (D 2) 0])]],
        demo_track ''business_speaker'' [demo_span 0 (D 3) 1]])]"

definition demo_evidence :: primary_row where
  "demo_evidence = \<lparr>pe_id = ''primary_run:0'', pe_start = 1, pe_end = D 2, pe_available = True,
     pe_session_complete = True, pe_robust_complete = True, pe_session_scores = [], pe_robust_scores = []\<rparr>"

lemma demo_inventory: "\<exists>records m. build_inventory demo_timeline [] 1 [demo_evidence] [] = Inr (records, m)
    \<and> map sr_index records = [0]"
proof -
  have "rbind (build_inventory demo_timeline [] 1 [demo_evidence] []) (\<lambda>(rs, m). Inr (map sr_index rs)) = Inr [0]"
    by code_simp
  then show ?thesis by (auto simp: res_iff)
qed

theorem inventory_refines_spec_witness:
  "\<exists>records m x. build_inventory demo_timeline [] 1 [demo_evidence] [] = Inr (records, m) \<and>
     map fst (filter (\<lambda>p. conflict_run x (snd p)) (enumerate 0 (in_primary x))) = [0]"
proof -
  from demo_inventory obtain records m where r:
    "build_inventory demo_timeline [] 1 [demo_evidence] [] = Inr (records, m)" "map sr_index records = [0]" by (elim exE conjE)
  from inventory_refines_spec[OF r(1)] obtain x where
    "map (\<lambda>r. (sr_index r, sr_primary r)) records = filter (\<lambda>p. conflict_run x (snd p)) (enumerate 0 (in_primary x))"
    by blast
  from arg_cong[OF this, of "map fst"] r(2)
  have "map fst (filter (\<lambda>p. conflict_run x (snd p)) (enumerate 0 (in_primary x))) = [0]" by (simp add: o_def)
  with r(1) show ?thesis by (intro exI conjI)
qed

theorem inventory_records_ok_witness:
  "\<exists>records m x. build_inventory demo_timeline [] 1 [demo_evidence] [] = Inr (records, m) \<and>
     length records = 1 \<and> 0 < m \<and> list_all (record_ok x) records"
proof -
  from demo_inventory obtain records m where r:
    "build_inventory demo_timeline [] 1 [demo_evidence] [] = Inr (records, m)" "map sr_index records = [0]" by (elim exE conjE)
  from arg_cong[OF r(2), of length] have "length records = 1" by simp
  with r(1) inventory_records_ok[OF r(1)] show ?thesis by blast
qed

end
