(* ===== verification/Top1_Runs.thy ===== *)
theory Top1_Runs
  imports Py_Text Frozen_Evidence
begin

text \<open>
  \<^verbatim>\<open>tools/verify/py/speaker_primary_top1_replay_inputs.py\<close>: the native top-1 speaker track,
  contained in VAD spans.  TOML and CSV arrive parsed; file digests and paths are parameters.
  \<open>EPSILON\<close> is the tolerance of the same name and value.
\<close>

definition TIME_EPSILON :: dbl where "TIME_EPSILON = D (1 / 1000000)"
definition INHERITED_MINIMUM_PROBABILITY :: dbl where "INHERITED_MINIMUM_PROBABILITY = D (1 / 2)"
definition INHERITED_MINIMUM_RUN_SEC :: dbl where "INHERITED_MINIMUM_RUN_SEC = D (4 / 10)"

section \<open>Policy\<close>

record top1_policy =
  tp_min_probability :: dbl
  tp_min_run :: dbl

text \<open>\<^verbatim>\<open>set(v)\<close>, as the texts in it: the elements must be hashable.\<close>

definition name_set :: "json \<Rightarrow> string list res" where
  "name_set v = rbind (py_iter v) (\<lambda>xs.
     raise_if (list_ex (\<lambda>x. case x of JArr _ \<Rightarrow> True | JObj _ \<Rightarrow> True | _ \<Rightarrow> False) xs) TypeError
     (Inr (List.map_filter (\<lambda>x. case x of JStr s \<Rightarrow> Some s | _ \<Rightarrow> None) xs)))"

definition top1_policy_fields :: "string list" where
  "top1_policy_fields = [''enabled'', ''require_vad_support'', ''minimum_probability'', ''minimum_run_sec'']"

definition load_top1_policy :: "obj \<Rightarrow> top1_policy res" where
  "load_top1_policy document =
    (let section = dget document ''speaker_primary_top1'' (JObj []) in
     rbind (name_set section) (\<lambda>names. let missing = fields_missing top1_policy_fields names in
     raise_if (missing \<noteq> []) (ValueError (''primary top-1 policy missing: '' @ join_with '','' missing))
     (rbind (vitem section ''enabled'') (\<lambda>enabled.
      rbind (vitem section ''require_vad_support'') (\<lambda>vad.
      rbind (float_item section ''minimum_probability'') (\<lambda>p.
      rbind (float_item section ''minimum_run_sec'') (\<lambda>run.
      raise_if (enabled \<noteq> JBool True) (ValueError ''primary top-1 evidence must be enabled'')
      (raise_if (vad \<noteq> JBool True) (ValueError ''primary top-1 evidence requires VAD support'')
      (raise_if (EPSILON < \<bar>p - INHERITED_MINIMUM_PROBABILITY\<bar>)
         (ValueError ''minimum_probability must preserve inherited 0.5'')
      (raise_if (EPSILON < \<bar>run - INHERITED_MINIMUM_RUN_SEC\<bar>)
         (ValueError ''minimum_run_sec must preserve inherited 0.4 s'')
      (Inr \<lparr>tp_min_probability = p, tp_min_run = run\<rparr>)))))))))))"

definition top1_policy_json :: "top1_policy \<Rightarrow> json" where
  "top1_policy_json p = JObj [(''enabled'', JBool True), (''require_vad_support'', JBool True),
     (''minimum_probability'', JFlt (tp_min_probability p)), (''minimum_run_sec'', JFlt (tp_min_run p))]"

section \<open>Frames, VAD spans, mapping\<close>

record native_frame =
  nf_frame :: int
  nf_time :: dbl
  nf_session :: int
  nf_local :: int
  nf_probability :: dbl

definition native_frame_of :: "csv_row \<Rightarrow> native_frame res" where
  "native_frame_of row =
    rbind (csv_int row ''frame'') (\<lambda>frame. rbind (csv_float row ''time_sec'') (\<lambda>time.
    rbind (csv_int row ''session'') (\<lambda>session. rbind (csv_int row ''top1'') (\<lambda>spk.
    rbind (csv_float row ''top1_prob'') (\<lambda>p.
    Inr \<lparr>nf_frame = frame, nf_time = time, nf_session = session, nf_local = spk, nf_probability = p\<rparr>)))))"

definition frame_interval :: "native_frame \<times> native_frame \<Rightarrow> dbl res" where
  "frame_interval = (\<lambda>(l, r).
     raise_if (nf_frame r \<noteq> nf_frame l + 1) (ValueError ''native frame indices are not contiguous'')
     (raise_if (nf_time r - nf_time l \<le> 0) (ValueError ''native frame times are not monotonic'')
     (Inr (nf_time r - nf_time l))))"

definition native_fields :: "string list" where
  "native_fields = [''frame'', ''time_sec'', ''session'', ''top1'', ''top1_prob'']"

definition read_native_frames :: "csv_table \<Rightarrow> (native_frame list \<times> dbl) res" where
  "read_native_frames t =
    raise_if (\<not> set native_fields \<subseteq> set (csv_fields t)) (ValueError ''native frame CSV is missing required columns'')
    (rbind (rmap native_frame_of (csv_rows t)) (\<lambda>frames.
     raise_if (length frames < 2) (ValueError ''native frame CSV requires at least two frames'')
     (rbind (rmap frame_interval (adjacent frames)) (\<lambda>intervals.
      let frame_sec = py_sum intervals / of_pyint (int (length intervals));
          tolerance = max EPSILON (frame_sec * D (1 / 10000)) in
      raise_if (list_ex (\<lambda>v. tolerance < \<bar>v - frame_sec\<bar>) intervals)
        (ValueError ''native frame period is not stable'') (Inr (frames, frame_sec))))))"

definition vad_span_of :: "csv_row \<Rightarrow> span res" where
  "vad_span_of row = rbind (csv_float row ''start_sec'') (\<lambda>s. rbind (csv_float row ''end_sec'') (\<lambda>e.
     raise_if (s < 0 \<or> e \<le> s) (ValueError ''VAD span has invalid bounds'') (Inr (s, e))))"

definition spans_clash :: "span \<times> span \<Rightarrow> bool" where
  "spans_clash = (\<lambda>(l, r). fst r < snd l - TIME_EPSILON)"

definition read_vad :: "csv_table \<Rightarrow> span list res" where
  "read_vad t =
    raise_if (\<not> {''start_sec'', ''end_sec''} \<subseteq> set (csv_fields t)) (ValueError ''VAD TSV is missing start/end columns'')
    (rbind (rmap vad_span_of (csv_rows t)) (\<lambda>spans.
     raise_if (spans = []) (ValueError ''VAD TSV contains no speech spans'')
     (raise_if (list_ex spans_clash (adjacent spans)) (ValueError ''VAD spans overlap or are not monotonic'')
     (Inr spans))))"

definition mapping_of :: "obj \<Rightarrow> (int, string) pydict res" where
  "mapping_of raw = rfold (\<lambda>d (k, v). rbind (int_str k) (\<lambda>i. Inr (dset i (py_str v) d))) [] raw"

definition read_mapping :: "json \<Rightarrow> (int, string) pydict res" where
  "read_mapping document = rbind (vget document ''mapping'' JNull) (\<lambda>raw. case raw of
     JObj (e # es) \<Rightarrow> rbind (mapping_of (e # es)) (\<lambda>m.
       raise_if (\<not> distinct (map snd m)) (ValueError ''mapping assigns one identity to multiple slots'')
       (raise_if (list_ex (\<lambda>(k, v). k < 0 \<or> v = []) m) (ValueError ''mapping contains an invalid slot or identity'')
       (Inr m)))
   | _ \<Rightarrow> Inl (ValueError ''mapping document has no local-slot mapping''))"

section \<open>Runs\<close>

record primary_run =
  pr_start :: dbl
  pr_end :: dbl
  pr_vad_index :: nat
  pr_session :: int
  pr_local :: int
  pr_speaker :: string
  pr_frame_start :: int
  pr_frame_end :: int
  pr_frame_count :: nat
  pr_mean_probability :: dbl

record run_setup =
  ru_frame_sec :: dbl
  ru_mapping :: "(int, string) pydict"
  ru_policy :: top1_policy

definition run_span_of :: "run_setup \<Rightarrow> span \<Rightarrow> native_frame list \<Rightarrow> span" where
  "run_span_of x vad cur = (max (fst vad) (nf_time (hd cur)), min (snd vad) (nf_time (last cur) + ru_frame_sec x))"

text \<open>\<^verbatim>\<open>finish()\<close>: the run of the collected frames, none if it is too short.\<close>

definition finish_run :: "run_setup \<Rightarrow> nat \<Rightarrow> span \<Rightarrow> native_frame list \<Rightarrow> primary_run option res" where
  "finish_run x i vad cur = (if cur = [] then Inr None
     else let (s, e) = run_span_of x vad cur; spk = nf_local (hd cur) in
       if e - s + TIME_EPSILON < tp_min_run (ru_policy x) then Inr None
       else case map_of (ru_mapping x) spk of
         None \<Rightarrow> Inl (ValueError (''no identity mapping for local '' @ int_repr spk))
       | Some sid \<Rightarrow> Inr (Some \<lparr>pr_start = s, pr_end = e, pr_vad_index = i, pr_session = nf_session (hd cur),
            pr_local = spk, pr_speaker = sid, pr_frame_start = nf_frame (hd cur),
            pr_frame_end = nf_frame (last cur) + 1, pr_frame_count = length cur,
            pr_mean_probability = py_sum (map nf_probability cur) / of_pyint (int (length cur))\<rparr>))"

definition eligible_frame :: "run_setup \<Rightarrow> span \<Rightarrow> native_frame \<Rightarrow> bool" where
  "eligible_frame x vad f \<longleftrightarrow> fst vad \<le> nf_time f + TIME_EPSILON \<and> nf_time f < snd vad - TIME_EPSILON \<and>
     tp_min_probability (ru_policy x) \<le> nf_probability f + EPSILON"

definition continues_run :: "native_frame list \<Rightarrow> native_frame \<Rightarrow> bool" where
  "continues_run cur f \<longleftrightarrow> nf_frame f = nf_frame (last cur) + 1 \<and> nf_session f = nf_session (last cur) \<and>
     nf_local f = nf_local (last cur)"

text \<open>One frame: the runs so far and the frames being collected.\<close>

definition run_step ::
  "run_setup \<Rightarrow> nat \<Rightarrow> span \<Rightarrow> primary_run list \<times> native_frame list \<Rightarrow> native_frame
     \<Rightarrow> (primary_run list \<times> native_frame list) res" where
  "run_step x i vad = (\<lambda>(runs, cur) f.
     let ok = eligible_frame x vad f; goes_on = (cur \<noteq> [] \<and> ok \<and> continues_run cur f) in
     if cur \<noteq> [] \<and> \<not> goes_on
     then rbind (finish_run x i vad cur) (\<lambda>r.
       Inr (runs @ (case r of None \<Rightarrow> [] | Some v \<Rightarrow> [v]), if ok then [f] else []))
     else Inr (runs, if ok then cur @ [f] else cur))"

definition vad_window :: "native_frame list \<Rightarrow> span \<Rightarrow> native_frame list" where
  "vad_window frames vad = (let times = map nf_time frames in
     drop (bisect_left times (fst vad - TIME_EPSILON)) (take (bisect_left times (snd vad - TIME_EPSILON)) frames))"

definition vad_runs :: "run_setup \<Rightarrow> native_frame list \<Rightarrow> nat \<times> span \<Rightarrow> primary_run list res" where
  "vad_runs x frames = (\<lambda>(i, vad). rbind (rfold (run_step x i vad) ([], []) (vad_window frames vad)) (\<lambda>(runs, cur).
     rbind (finish_run x i vad cur) (\<lambda>r. Inr (runs @ (case r of None \<Rightarrow> [] | Some v \<Rightarrow> [v])))))"

definition runs_clash :: "primary_run \<times> primary_run \<Rightarrow> bool" where
  "runs_clash = (\<lambda>(l, r). pr_start r < pr_end l - TIME_EPSILON)"

definition primary_runs ::
  "native_frame list \<Rightarrow> dbl \<Rightarrow> span list \<Rightarrow> (int, string) pydict \<Rightarrow> top1_policy \<Rightarrow> primary_run list res" where
  "primary_runs frames frame_sec vad mapping policy =
    (let x = \<lparr>ru_frame_sec = frame_sec, ru_mapping = mapping, ru_policy = policy\<rparr> in
     rbind (rmap (vad_runs x frames) (enumerate 0 vad)) (\<lambda>rss. let runs = concat rss in
     raise_if (list_ex runs_clash (adjacent runs)) (ValueError ''primary runs overlap'') (Inr runs)))"

section \<open>Output\<close>

definition run_row :: "primary_run \<Rightarrow> string list" where
  "run_row r = [fixed_repr 6 (pr_start r), fixed_repr 6 (pr_end r), int_repr (pr_local r),
     fixed_repr 6 (pr_mean_probability r), pr_speaker r]"

definition write_runs :: "primary_run list \<Rightarrow> string list list" where
  "write_runs runs = [''start_sec'', ''end_sec'', ''local_speaker'', ''confidence'', ''speaker_id'']
     # map run_row runs"

definition write_embedding_spans :: "primary_run list \<Rightarrow> string list list" where
  "write_embedding_spans runs = [''evidence_id'', ''start_sec'', ''end_sec'']
     # map (\<lambda>(i, r). [''primary_top1:'' @ int_repr (int i), fixed_repr 6 (pr_start r), fixed_repr 6 (pr_end r)])
         (enumerate 0 runs)"

record top1_files =
  tf_frames :: "string \<times> csv_table"
  tf_vad :: "string \<times> csv_table"
  tf_mapping :: "string \<times> json"
  tf_config :: "string \<times> obj"
  tf_out :: string
  tf_spans :: "string option"
  tf_abspath :: "string \<Rightarrow> string"
  tf_sha :: "string \<Rightarrow> string"
  tf_rows_sha :: "string list list \<Rightarrow> string"

definition top1_source :: "top1_files \<Rightarrow> string \<Rightarrow> json" where
  "top1_source files p = JObj [(''path'', JStr (tf_abspath files p)), (''sha256'', JStr (tf_sha files p))]"

definition written_source :: "top1_files \<Rightarrow> string \<Rightarrow> string list list \<Rightarrow> json" where
  "written_source files p rows = JObj [(''path'', JStr (tf_abspath files p)), (''sha256'', JStr (tf_rows_sha files rows))]"

definition top1_manifest ::
  "top1_files \<Rightarrow> top1_policy \<Rightarrow> dbl \<Rightarrow> (int, string) pydict \<Rightarrow> nat \<Rightarrow> nat \<Rightarrow> primary_run list \<Rightarrow> obj" where
  "top1_manifest files policy frame_sec mapping n_frames n_vad runs =
    [(''schema_version'', JInt 1), (''kind'', JStr ''orator_primary_top1_replay_inputs''),
     (''frame_period_sec'', JFlt frame_sec), (''policy'', top1_policy_json policy),
     (''mapping'', JObj (map (\<lambda>(k, v). (int_repr k, JStr v)) (sort_key fst mapping))),
     (''counts'', JObj [(''frames'', JInt (int n_frames)), (''vad_spans'', JInt (int n_vad)),
        (''primary_runs'', JInt (int (length runs)))]),
     (''sources'', JObj [(''frames'', top1_source files (fst (tf_frames files))),
        (''vad'', top1_source files (fst (tf_vad files))), (''mapping'', top1_source files (fst (tf_mapping files))),
        (''config'', top1_source files (fst (tf_config files)))]),
     (''output'', written_source files (tf_out files) (write_runs runs))] @
    (case tf_spans files of None \<Rightarrow> []
     | Some p \<Rightarrow> [(''embedding_spans'', written_source files p (write_embedding_spans runs))])"

definition export_top1_inputs :: "top1_files \<Rightarrow> (primary_run list \<times> obj) res" where
  "export_top1_inputs files =
    rbind (load_top1_policy (snd (tf_config files))) (\<lambda>policy.
    rbind (read_native_frames (snd (tf_frames files))) (\<lambda>(frames, frame_sec).
    rbind (read_vad (snd (tf_vad files))) (\<lambda>vad.
    rbind (read_mapping (snd (tf_mapping files))) (\<lambda>mapping.
    rbind (primary_runs frames frame_sec vad mapping policy) (\<lambda>runs.
    Inr (runs, top1_manifest files policy frame_sec mapping (length frames) (length vad) runs))))))"

end
