(* ===== verification/Top1_Properties.thy ===== *)
theory Top1_Properties
  imports Top1_Runs
begin

text \<open>
  What \<^verbatim>\<open>speaker_primary_top1_replay_inputs.py\<close> promises: the loop over the frames of a VAD
  span cuts its eligible frames into maximal runs, and every exported run is backed by
  contiguous frames of one session and slot inside its span.
\<close>

section \<open>Reference definition\<close>

definition joins_run :: "native_frame list \<Rightarrow> native_frame \<Rightarrow> bool" where
  "joins_run cur f \<longleftrightarrow> cur \<noteq> [] \<and> continues_run cur f"

definition frame_groups :: "run_setup \<Rightarrow> span \<Rightarrow> native_frame list \<Rightarrow> native_frame list list" where
  "frame_groups x vad fs = merge_runs (\<lambda>f. [f]) joins_run (\<lambda>cur f. cur @ [f]) (filter (eligible_frame x vad) fs)"

definition next_frame :: "native_frame \<Rightarrow> native_frame \<Rightarrow> bool" where
  "next_frame a b \<longleftrightarrow> nf_frame b = nf_frame a + 1"

definition same_track :: "native_frame \<Rightarrow> native_frame \<Rightarrow> bool" where
  "same_track a b \<longleftrightarrow> next_frame a b \<and> nf_session b = nf_session a \<and> nf_local b = nf_local a"

interpretation groups_content: run_content "\<lambda>f. [f]" joins_run "\<lambda>cur f. cur @ [f]" "\<lambda>f. [f]" "\<lambda>cur. cur"
  by unfold_locales simp_all

interpretation groups_maximal: run_maximal "\<lambda>f. [f]" joins_run "\<lambda>cur f. cur @ [f]"
    "\<lambda>p q. joins_run p (hd q)"
  by unfold_locales (auto simp: joins_run_def)

lemma groups_concat: "concat (frame_groups x vad fs) = filter (eligible_frame x vad) fs"
  using groups_content.merge_content[of "filter (eligible_frame x vad) fs"]
  by (simp add: frame_groups_def)

lemma groups_maximal: "successively (\<lambda>p q. \<not> joins_run p (hd q)) (frame_groups x vad fs)"
  unfolding frame_groups_def by (rule groups_maximal.merge_maximal)

lemma groups_uniform:
  "g \<in> set (frame_groups x vad fs) \<Longrightarrow> g \<noteq> [] \<and> successively same_track g"
  unfolding frame_groups_def
  by (rule merge_runs_invariant[where P = "\<lambda>g. g \<noteq> [] \<and> successively same_track g"])
     (auto simp: joins_run_def continues_run_def same_track_def next_frame_def successively_append_iff)

lemma groups_snoc: "frame_groups x vad (fs @ [f]) =
  (if eligible_frame x vad f then rev (merge_step (\<lambda>f. [f]) joins_run (\<lambda>cur f. cur @ [f]) (rev (frame_groups x vad fs)) f)
   else frame_groups x vad fs)"
  by (simp add: frame_groups_def merge_runs_snoc)

section \<open>The loop\<close>

lemma contiguous_less:
  "successively next_frame (fs @ [p]) \<Longrightarrow> g \<in> set fs \<Longrightarrow> nf_frame g < nf_frame p"
proof (induction fs arbitrary: p rule: rev_induct)
  case (snoc q fs)
  then have "nf_frame p = nf_frame q + 1" "successively next_frame (fs @ [q])"
    by (simp_all add: successively_append_iff next_frame_def)
  with snoc show ?case by (cases "g = q") force+
qed simp

definition loop_state :: "run_setup \<Rightarrow> nat \<Rightarrow> span \<Rightarrow> native_frame list \<Rightarrow> native_frame list list
    \<Rightarrow> native_frame list \<Rightarrow> bool" where
  "loop_state x i vad ps fin cur \<longleftrightarrow>
     frame_groups x vad ps = fin @ (if cur = [] then [] else [cur]) \<and>
     (cur = [] \<longrightarrow> ps = [] \<or> \<not> eligible_frame x vad (last ps)) \<and>
     rfold (run_step x i vad) ([], []) ps = rbind (rcollect (finish_run x i vad) fin) (\<lambda>r. Inr (r, cur))"

lemma gap_breaks:
  assumes "successively next_frame (ps @ [f])" "ps \<noteq> []" "\<not> eligible_frame x vad (last ps)"
    "g \<in> set (frame_groups x vad ps)"
  shows "\<not> joins_run g f"
proof
  assume join: "joins_run g f"
  then have "last g \<in> set g" by (simp add: joins_run_def)
  with assms(4) have "last g \<in> set (concat (frame_groups x vad ps))" by auto
  then have l: "last g \<in> set ps" "eligible_frame x vad (last g)" by (simp_all add: groups_concat)
  from assms(2) obtain qs where ps: "ps = qs @ [last ps]" by (metis append_butlast_last_id)
  from assms(1) have "successively next_frame (qs @ [last ps])" "nf_frame f = nf_frame (last ps) + 1"
    by (subst (asm) ps, simp add: successively_append_iff next_frame_def)+
  moreover have "last g \<in> set qs" using l assms(3) ps by (metis UnE empty_iff empty_set list.set_cases set_ConsD set_append)
  ultimately have "nf_frame (last g) < nf_frame (last ps)" by (intro contiguous_less)
  with join \<open>nf_frame f = nf_frame (last ps) + 1\<close> show False by (simp add: joins_run_def continues_run_def)
qed

lemma loop_runs:
  "successively next_frame ps \<Longrightarrow> \<exists>fin cur. loop_state x i vad ps fin cur"
proof (induction ps rule: rev_induct)
  case Nil
  show ?case by (rule exI[of _ "[]"], rule exI[of _ "[]"]) (simp add: loop_state_def frame_groups_def)
next
  case (snoc f ps)
  then obtain fin cur where st: "loop_state x i vad ps fin cur" by (auto simp: successively_append_iff)
  let ?F = "finish_run x i vad"
  have run: "rfold (run_step x i vad) ([], []) (ps @ [f]) =
      rbind (rcollect ?F fin) (\<lambda>r. run_step x i vad (r, cur) f)"
    using st by (cases "rcollect ?F fin") (simp_all add: loop_state_def rfold_append)
  show ?case
  proof (cases "cur = []")
    case True
    with st have g: "frame_groups x vad ps = fin" "ps = [] \<or> \<not> eligible_frame x vad (last ps)"
      by (simp_all add: loop_state_def)
    show ?thesis
    proof (cases "eligible_frame x vad f")
      case ok: True
      have "\<not> joins_run (last fin) f" if "fin \<noteq> []"
      proof -
        from that g(1) have "ps \<noteq> []" by (auto simp: frame_groups_def)
        with g snoc.prems that show ?thesis by (intro gap_breaks[of ps]) auto
      qed
      then have "frame_groups x vad (ps @ [f]) = fin @ [[f]]"
        using ok g(1) by (cases fin rule: rev_cases) (simp_all add: groups_snoc merge_step_def)
      with ok True run show ?thesis
        by (intro exI[of _ fin] exI[of _ "[f]"]) (simp add: loop_state_def run_step_def)
    next
      case False
      with True g run show ?thesis
        by (intro exI[of _ fin] exI[of _ "[]"]) (simp add: loop_state_def run_step_def groups_snoc)
    qed
  next
    case cur: False
    with st have g: "frame_groups x vad ps = fin @ [cur]" by (simp add: loop_state_def)
    show ?thesis
    proof (cases "eligible_frame x vad f \<and> continues_run cur f")
      case True
      with cur g run show ?thesis
        by (intro exI[of _ fin] exI[of _ "cur @ [f]"])
           (simp add: loop_state_def run_step_def groups_snoc merge_step_def joins_run_def)
    next
      case False
      have "rbind (rcollect ?F (fin @ [cur])) (\<lambda>r. Inr (r, if eligible_frame x vad f then [f] else [])) =
          rfold (run_step x i vad) ([], []) (ps @ [f])"
        unfolding run using cur False
        by (cases "rcollect ?F fin"; cases "?F cur")
           (auto simp: rcollect_append run_step_def split: option.splits)
      with cur g False show ?thesis
        by (intro exI[of _ "fin @ [cur]"] exI[of _ "if eligible_frame x vad f then [f] else []"])
           (auto simp: loop_state_def groups_snoc merge_step_def joins_run_def)
    qed
  qed
qed

lemma vad_runs_groups:
  assumes "successively next_frame (vad_window frames vad)"
  shows "vad_runs x frames (i, vad) = rcollect (finish_run x i vad) (frame_groups x vad (vad_window frames vad))"
proof -
  from loop_runs[OF assms] obtain fin cur where st: "loop_state x i vad (vad_window frames vad) fin cur" by blast
  let ?F = "finish_run x i vad"
  have "vad_runs x frames (i, vad) = rcollect ?F (fin @ (if cur = [] then [] else [cur]))"
    using st unfolding vad_runs_def loop_state_def
    by (cases "rcollect ?F fin"; cases "?F cur") (auto simp: rcollect_append finish_run_def split: option.splits)
  with st show ?thesis by (simp add: loop_state_def)
qed

section \<open>Accepted frames\<close>

lemma frame_intervals_contiguous:
  "rmap frame_interval (adjacent fs) = Inr ds \<Longrightarrow> successively next_frame fs"
  unfolding successively_adjacent
  by (fastforce simp: frame_interval_def next_frame_def raise_if_Inr_iff dest: rmap_all)

lemma native_contiguous: "read_native_frames t = Inr (frames, p) \<Longrightarrow> successively next_frame frames"
  by (auto simp: read_native_frames_def Let_def res_iff(1,2) intro: frame_intervals_contiguous)

lemma successively_take_drop: "successively P xs \<Longrightarrow> successively P (drop l (take r xs))"
  by (metis append_take_drop_id successively_append_iff)

lemma window_contiguous: "successively next_frame frames \<Longrightarrow> successively next_frame (vad_window frames v)"
  unfolding vad_window_def Let_def by (rule successively_take_drop)

definition setup_of :: "dbl \<Rightarrow> (int, string) pydict \<Rightarrow> top1_policy \<Rightarrow> run_setup" where
  "setup_of frame_sec mapping policy = \<lparr>ru_frame_sec = frame_sec, ru_mapping = mapping, ru_policy = policy\<rparr>"

text \<open>The runs of a VAD span, read off its groups.\<close>

definition group_runs :: "run_setup \<Rightarrow> native_frame list \<Rightarrow> nat \<times> span \<Rightarrow> primary_run list res" where
  "group_runs x frames = (\<lambda>(i, v). rcollect (finish_run x i v) (frame_groups x v (vad_window frames v)))"

text \<open>
  C16: on an accepted frame table the collecting loop computes, for every VAD span, the maximal
  runs of its eligible_frame frames (all of them, in order, cut exactly where a frame does not
  continue the run), each turned into a record or dropped by \<^verbatim>\<open>finish\<close>.
\<close>

theorem primary_runs_reference:
  assumes "read_native_frames tbl = Inr (frames, p)"
  shows "primary_runs frames p vad mapping policy =
      rbind (rmap (group_runs (setup_of p mapping policy) frames) (enumerate 0 vad)) (\<lambda>rss.
        if list_ex runs_clash (adjacent (concat rss)) then Inl (ValueError ''primary runs overlap'')
        else Inr (concat rss)) \<and>
    list_all (\<lambda>v. let x = setup_of p mapping policy; gs = frame_groups x v (vad_window frames v) in
      concat gs = filter (eligible_frame x v) (vad_window frames v) \<and> list_all (\<lambda>g. g \<noteq> [] \<and> successively same_track g) gs \<and>
      successively (\<lambda>g h. \<not> same_track (last g) (hd h)) gs) vad"
proof
  let ?x = "setup_of p mapping policy"
  have "vad_runs ?x frames = group_runs ?x frames"
    using window_contiguous[OF native_contiguous[OF assms]]
    by (auto simp: fun_eq_iff group_runs_def vad_runs_groups)
  then show "primary_runs frames p vad mapping policy =
      rbind (rmap (group_runs ?x frames) (enumerate 0 vad)) (\<lambda>rss.
        if list_ex runs_clash (adjacent (concat rss)) then Inl (ValueError ''primary runs overlap'')
        else Inr (concat rss))"
    by (simp add: primary_runs_def setup_of_def raise_if_def Let_def)
  have "successively (\<lambda>g h. \<not> same_track (last g) (hd h)) (frame_groups ?x v ws)" for v ws
    by (rule successively_mono[OF groups_maximal])
       (auto simp: joins_run_def continues_run_def same_track_def next_frame_def dest: groups_uniform)
  then show "list_all (\<lambda>v. let x = ?x; gs = frame_groups x v (vad_window frames v) in
      concat gs = filter (eligible_frame x v) (vad_window frames v) \<and> list_all (\<lambda>g. g \<noteq> [] \<and> successively same_track g) gs \<and>
      successively (\<lambda>g h. \<not> same_track (last g) (hd h)) gs) vad"
    by (simp add: list_all_iff groups_concat groups_uniform Let_def)
qed

section \<open>Exported runs\<close>

text \<open>A run is backed by the accepted frames with its frame numbers.\<close>

definition run_frames :: "native_frame list \<Rightarrow> primary_run \<Rightarrow> native_frame list" where
  "run_frames frames r = filter (\<lambda>f. pr_frame_start r \<le> nf_frame f \<and> nf_frame f < pr_frame_end r) frames"

definition run_backed ::
  "native_frame list \<Rightarrow> span list \<Rightarrow> (int, string) pydict \<Rightarrow> top1_policy \<Rightarrow> primary_run \<Rightarrow> bool" where
  "run_backed frames vad mapping policy r \<longleftrightarrow>
     pr_vad_index r < length vad \<and> fst (vad ! pr_vad_index r) \<le> pr_start r \<and>
     pr_end r \<le> snd (vad ! pr_vad_index r) \<and>
     tp_min_run policy \<le> pr_end r - pr_start r + TIME_EPSILON \<and>
     map_of mapping (pr_local r) = Some (pr_speaker r) \<and>
     0 < pr_frame_count r \<and> length (run_frames frames r) = pr_frame_count r \<and>
     list_all (\<lambda>f. nf_session f = pr_session r \<and> nf_local f = pr_local r \<and>
       tp_min_probability policy \<le> nf_probability f + EPSILON) (run_frames frames r)"

lemma track_run:
  "successively same_track g \<Longrightarrow> k < length g \<Longrightarrow>
   nf_frame (g ! k) = nf_frame (hd g) + int k \<and> nf_session (g ! k) = nf_session (hd g) \<and>
   nf_local (g ! k) = nf_local (hd g)"
proof (induction k)
  case (Suc k)
  then have "same_track (g ! k) (g ! Suc k)" by (simp add: successively_conv_nth)
  with Suc show ?case by (simp add: same_track_def next_frame_def)
qed (cases g, simp_all)

lemma contiguous_sorted: "successively next_frame fs \<Longrightarrow> sorted_wrt (\<lambda>a b. nf_frame a < nf_frame b) fs"
proof (induction fs rule: rev_induct)
  case (snoc f fs)
  then have "successively next_frame fs" by (simp add: successively_append_iff)
  with snoc.IH contiguous_less[OF snoc.prems] show ?case by (simp add: sorted_wrt_append)
qed simp

lemma numbered_distinct: "sorted_wrt (\<lambda>a b. nf_frame a < nf_frame b) fs \<Longrightarrow> distinct fs"
  by (induction fs) auto

lemma run_frames_group:
  assumes fs: "successively next_frame fs" and g: "successively same_track g" "g \<noteq> []" "set g \<subseteq> set fs"
    and r: "pr_frame_start r = nf_frame (hd g)" "pr_frame_end r = nf_frame (last g) + 1"
  shows "set (run_frames fs r) = set g \<and> length (run_frames fs r) = length g"
proof -
  have inj: "a = b" if "a \<in> set fs" "b \<in> set fs" "nf_frame a = nf_frame b" for a b
    using contiguous_sorted[OF fs] that by (metis linorder_neq_iff in_set_conv_nth sorted_wrt_nth_less nat_neq_iff order.irrefl)
  have last: "nf_frame (last g) = nf_frame (hd g) + int (length g) - 1"
    using track_run[OF g(1), of "length g - 1"] g(2) by (simp add: last_conv_nth of_nat_diff Suc_leI)
  have num: "nf_frame (g ! k) = nf_frame (hd g) + int k" if "k < length g" for k
    using track_run[OF g(1) that] by blast
  have "set (run_frames fs r) = set g"
  proof (rule set_eqI, rule iffI)
    fix f assume "f \<in> set (run_frames fs r)"
    then have f: "f \<in> set fs" "nf_frame (hd g) \<le> nf_frame f" "nf_frame f \<le> nf_frame (last g)"
      by (simp_all add: run_frames_def r)
    let ?k = "nat (nf_frame f - nf_frame (hd g))"
    have k: "?k < length g" using f(2,3) last g(2) by (cases g) auto
    have "g ! ?k \<in> set fs" using k g(3) nth_mem by blast
    with f inj[of f "g ! ?k"] num[OF k] have "f = g ! ?k" by simp
    with k show "f \<in> set g" by (metis nth_mem)
  next
    fix f assume f: "f \<in> set g"
    then obtain k where k: "k < length g" "f = g ! k" by (metis in_set_conv_nth)
    with f num[OF k(1)] g(3) last show "f \<in> set (run_frames fs r)" by (auto simp: run_frames_def r)
  qed
  moreover have "successively next_frame g"
    using g(1) by (rule successively_mono) (simp add: same_track_def)
  then have "distinct g" by (intro numbered_distinct contiguous_sorted)
  moreover have "distinct (run_frames fs r)"
    unfolding run_frames_def using numbered_distinct[OF contiguous_sorted[OF fs]] by (rule distinct_filter)
  ultimately show ?thesis by (metis distinct_card)
qed

lemma finish_run_fields:
  assumes "finish_run x i v g = Inr (Some r)"
  shows "g \<noteq> [] \<and> pr_vad_index r = i \<and> pr_session r = nf_session (hd g) \<and> pr_local r = nf_local (hd g) \<and>
    pr_frame_start r = nf_frame (hd g) \<and> pr_frame_end r = nf_frame (last g) + 1 \<and>
    pr_frame_count r = length g \<and> map_of (ru_mapping x) (nf_local (hd g)) = Some (pr_speaker r) \<and>
    fst v \<le> pr_start r \<and> pr_end r \<le> snd v \<and>
    tp_min_run (ru_policy x) \<le> pr_end r - pr_start r + TIME_EPSILON"
  using assms by (auto simp: finish_run_def run_span_of_def Let_def split: if_splits option.splits)

lemma group_run_backed:
  assumes fs: "successively next_frame frames" and i: "i < length vad"
    and g: "g \<in> set (frame_groups x (vad ! i) (vad_window frames (vad ! i)))"
    and r: "finish_run x i (vad ! i) g = Inr (Some r)"
  shows "run_backed frames vad (ru_mapping x) (ru_policy x) r"
proof -
  let ?v = "vad ! i"
  have sub: "set g \<subseteq> {f \<in> set frames. eligible_frame x ?v f}"
  proof
    fix f assume "f \<in> set g"
    with g have "f \<in> set (concat (frame_groups x ?v (vad_window frames ?v)))" by auto
    then have "f \<in> set (vad_window frames ?v)" "eligible_frame x ?v f" by (simp_all add: groups_concat)
    then show "f \<in> {f \<in> set frames. eligible_frame x ?v f}"
      by (auto simp: vad_window_def Let_def dest: in_set_dropD in_set_takeD)
  qed
  note f = finish_run_fields[OF r] and u = groups_uniform[OF g]
  have fr: "set g \<subseteq> set frames" using sub by blast
  have rf: "set (run_frames frames r) = set g" "length (run_frames frames r) = length g"
    using run_frames_group[OF fs conjunct2[OF u] conjunct1[OF u] fr] f by blast+
  have "list_all (\<lambda>f. nf_session f = pr_session r \<and> nf_local f = pr_local r \<and>
       tp_min_probability (ru_policy x) \<le> nf_probability f + EPSILON) (run_frames frames r)"
    unfolding list_all_iff rf(1)
  proof
    fix h assume h: "h \<in> set g"
    then obtain k where k: "k < length g" "h = g ! k" by (metis in_set_conv_nth)
    from h sub have "eligible_frame x ?v h" by blast
    with track_run[OF conjunct2[OF u] k(1)] f show "nf_session h = pr_session r \<and> nf_local h = pr_local r \<and>
       tp_min_probability (ru_policy x) \<le> nf_probability h + EPSILON" by (simp add: k(2) eligible_frame_def)
  qed
  moreover have "0 < pr_frame_count r" using f by simp
  ultimately show ?thesis using f i rf(2) by (simp add: run_backed_def)
qed

text \<open>
  C17: every exported run lies inside its VAD span, is long enough, has the mapped identity of its
  slot and is backed by exactly \<open>frame_count\<close> accepted frames with consecutive numbers, one
  session and slot, and sufficient probability; runs follow one another without overlap (up to
  \<open>TIME_EPSILON\<close>).
\<close>

theorem primary_runs_backed:
  assumes "read_native_frames tbl = Inr (frames, p)" and "primary_runs frames p vad mapping policy = Inr runs"
  shows "list_all (run_backed frames vad mapping policy) runs \<and>
    successively (\<lambda>l r. pr_end l - TIME_EPSILON \<le> pr_start r) runs"
proof -
  let ?x = "setup_of p mapping policy"
  from assms(2) obtain rss where rss: "rmap (vad_runs ?x frames) (enumerate 0 vad) = Inr rss" "runs = concat rss"
    and clash: "\<not> list_ex runs_clash (adjacent runs)"
    unfolding primary_runs_def Let_def setup_of_def[symmetric] rbind_Inr_iff raise_if_Inr_iff by blast
  have cont: "successively next_frame frames" using assms(1) by (rule native_contiguous)
  have "run_backed frames vad mapping policy r" if "r \<in> set runs" for r
  proof -
    from that rss(2) obtain rs where rs: "rs \<in> set rss" "r \<in> set rs" by auto
    from rmap_image[OF rss(1) rs(1)] obtain i v where iv: "(i, v) \<in> set (enumerate 0 vad)"
      and run: "vad_runs ?x frames (i, v) = Inr rs" by auto
    have i: "i < length vad" "v = vad ! i" using iv by (auto simp: in_set_enumerate_eq)
    from run rcollect_set[of "finish_run ?x i v"] rs(2) obtain g where
      g: "g \<in> set (frame_groups ?x v (vad_window frames v))" "finish_run ?x i v g = Inr (Some r)"
      unfolding vad_runs_groups[OF window_contiguous[OF cont]] by blast
    have "run_backed frames vad (ru_mapping ?x) (ru_policy ?x) r"
      using cont i(1) g unfolding i(2) by (rule group_run_backed)
    then show ?thesis by (simp add: setup_of_def)
  qed
  moreover have "successively (\<lambda>l r. pr_end l - TIME_EPSILON \<le> pr_start r) runs"
    using clash by (auto simp: successively_adjacent list_ex_iff runs_clash_def not_less)
  ultimately show ?thesis by (simp add: list_all_iff)
qed

section \<open>Example\<close>

definition demo_native :: "string \<Rightarrow> string \<Rightarrow> csv_row" where
  "demo_native i k = [(''frame'', Some i), (''time_sec'', Some i), (''session'', Some ''0''), (''top1'', Some k),
     (''top1_prob'', Some ''1'')]"

definition demo_table :: csv_table where
  "demo_table = \<lparr>csv_fields = native_fields,
     csv_rows = [demo_native ''0'' ''0'', demo_native ''1'' ''0'', demo_native ''2'' ''1'']\<rparr>"

definition demo_policy :: top1_policy where
  "demo_policy = \<lparr>tp_min_probability = D (1 / 2), tp_min_run = D (4 / 10)\<rparr>"

lemma demo_native_frames: "\<exists>frames. read_native_frames demo_table = Inr (frames, 1) \<and>
    (\<exists>runs. primary_runs frames 1 [(0, D 3)] [(0, ''a''), (1, ''b'')] demo_policy = Inr runs \<and>
      map pr_frame_count runs = [2, 1])"
proof -
  have "rbind (read_native_frames demo_table) (\<lambda>(frames, p). rbind
      (primary_runs frames p [(0, D 3)] [(0, ''a''), (1, ''b'')] demo_policy)
      (\<lambda>runs. Inr (p, map pr_frame_count runs))) = Inr (1, [2, 1])" by code_simp
  then show ?thesis by (auto simp: res_iff)
qed

theorem primary_runs_reference_witness:
  "\<exists>frames. read_native_frames demo_table = Inr (frames, 1) \<and>
    primary_runs frames 1 [] [] demo_policy = Inr []"
proof -
  from demo_native_frames obtain frames where f: "read_native_frames demo_table = Inr (frames, 1)"
    by (elim exE conjE)
  from primary_runs_reference[OF f, of "[]" "[]" demo_policy]
  have "primary_runs frames 1 [] [] demo_policy = Inr []" by simp
  with f show ?thesis by (intro exI conjI)
qed

theorem primary_runs_backed_witness:
  "\<exists>frames runs. primary_runs frames 1 [(0, D 3)] [(0, ''a''), (1, ''b'')] demo_policy = Inr runs \<and>
     map pr_frame_count runs = [2, 1] \<and>
     list_all (run_backed frames [(0, D 3)] [(0, ''a''), (1, ''b'')] demo_policy) runs"
proof -
  from demo_native_frames obtain frames runs where f: "read_native_frames demo_table = Inr (frames, 1)"
    "primary_runs frames 1 [(0, D 3)] [(0, ''a''), (1, ''b'')] demo_policy = Inr runs"
    "map pr_frame_count runs = [2, 1]" by (elim exE conjE)
  from conjunct1[OF primary_runs_backed[OF f(1,2)]] f(2,3) show ?thesis by (intro exI conjI)
qed

end
