(* ===== verification/Gallery_Robust.thy ===== *)
theory Gallery_Robust
  imports Py_Text Py_Rounding Frozen_Evidence
begin

text \<open>
  \<^verbatim>\<open>tools/verify/py/speaker_robust_gallery_evidence.py\<close>: scores of query embeddings against a
  clean gallery, as the mean of the best half of each identity's prototypes.  TOML, CSV and JSON
  arrive parsed; digests and paths are parameters.
\<close>

definition load_robust_policy :: "obj \<Rightarrow> unit res" where
  "load_robust_policy document = (let section = dget document ''robust_gallery'' (JObj []) in
     rbind (vget section ''aggregation'' JNull) (\<lambda>a.
     raise_if (a \<noteq> JStr ''top_half_mean'') (ValueError ''robust gallery aggregation must be top_half_mean'')
     (rbind (vget section ''require_complete_gallery'' JNull) (\<lambda>c.
      raise_if (c \<noteq> JBool True) (ValueError ''robust gallery must require a complete gallery'') (Inr ())))))"

definition robust_policy_json :: json where
  "robust_policy_json = JObj [(''aggregation'', JStr ''top_half_mean''), (''require_complete_gallery'', JBool True)]"

section \<open>Embeddings\<close>

record embedding_row =
  em_id :: "string option"
  em_start :: dbl
  em_end :: dbl
  em_duration :: dbl
  em_status :: "string option"
  em_embed_start :: "dbl option"
  em_embed_end :: "dbl option"
  em_vector :: "dbl list"

definition embedding_required :: "string list" where
  "embedding_required = [''evidence_id'', ''start_sec'', ''end_sec'', ''duration_sec'', ''status'',
     ''embed_start_sec'', ''embed_end_sec'']"

definition dot_sum :: "dbl list \<Rightarrow> dbl list \<Rightarrow> dbl" where
  "dot_sum xs ys = py_sum (map (\<lambda>(a, b). a * b) (zip xs ys))"

definition vector_norm :: "dbl list \<Rightarrow> dbl" where
  "vector_norm v = py_sqrt (dot_sum v v)"

definition embedding_row_of :: "string list \<Rightarrow> csv_row \<Rightarrow> string option \<Rightarrow> embedding_row res" where
  "embedding_row_of columns row i = rbind (csv_item row ''status'') (\<lambda>status.
     rbind (if status = Some ''ok'' then rmap (csv_float row) columns else Inr []) (\<lambda>v.
     raise_if (v \<noteq> [] \<and> D (1 / 1000) < \<bar>vector_norm v - 1\<bar>)
       (ValueError (''embedding is not normalized: '' @ id_text i))
     (rbind (csv_float row ''start_sec'') (\<lambda>s. rbind (csv_float row ''end_sec'') (\<lambda>e.
      rbind (csv_float row ''duration_sec'') (\<lambda>d.
      rbind (csv_opt_float row ''embed_start_sec'') (\<lambda>es. rbind (csv_opt_float row ''embed_end_sec'') (\<lambda>ee.
      Inr \<lparr>em_id = i, em_start = s, em_end = e, em_duration = d, em_status = status,
           em_embed_start = es, em_embed_end = ee, em_vector = v\<rparr>))))))))"

definition add_embedding :: "string list \<Rightarrow> (string option, embedding_row) pydict \<Rightarrow> csv_row
    \<Rightarrow> (string option, embedding_row) pydict res" where
  "add_embedding columns d row = rbind (csv_item row ''evidence_id'') (\<lambda>i.
     raise_if (i \<in> set (map fst d)) (ValueError (''duplicate embedding '' @ id_text i))
     (rbind (embedding_row_of columns row i) (\<lambda>r. Inr (dset i r d))))"

definition read_embeddings :: "csv_table \<Rightarrow> (string option, embedding_row) pydict res" where
  "read_embeddings t = (let columns = filter (has_prefix ''emb_'') (csv_fields t) in
     raise_if (\<not> set embedding_required \<subseteq> set (csv_fields t) \<or> columns = [])
       (ValueError ''embedding table schema is incomplete'')
     (rfold (add_embedding columns) [] (csv_rows t)))"

section \<open>Gallery\<close>

type_synonym gallery = "(string, dbl list list) pydict"

definition str_item :: "json \<Rightarrow> string \<Rightarrow> string res" where
  "str_item v k = rbind (vitem v k) (\<lambda>x. Inr (py_str x))"

definition gallery_of :: "gallery \<Rightarrow> string \<Rightarrow> dbl list list" where
  "gallery_of g i = (case map_of g i of None \<Rightarrow> [] | Some vs \<Rightarrow> vs)"

definition add_prototype :: "(string option, embedding_row) pydict \<Rightarrow> gallery \<Rightarrow> json \<Rightarrow> gallery res" where
  "add_prototype embeddings g v = rbind (str_item v ''evidence_id'') (\<lambda>i.
     case map_of embeddings (Some i) of
       None \<Rightarrow> Inl (ValueError (''missing clean prototype '' @ i))
     | Some r \<Rightarrow>
        raise_if (em_status r \<noteq> Some ''ok'') (ValueError (''missing clean prototype '' @ i))
        (rbind (float_item v ''start'') (\<lambda>s.
         raise_if (D (1 / 1000000) < \<bar>em_start r - s\<bar>) (ValueError (''prototype interval differs: '' @ i))
         (rbind (float_item v ''end'') (\<lambda>e.
          raise_if (D (1 / 1000000) < \<bar>em_end r - e\<bar>) (ValueError (''prototype interval differs: '' @ i))
          (rbind (str_item v ''identity'') (\<lambda>who. Inr (dset who (gallery_of g who @ [em_vector r]) g))))))))"

definition load_gallery ::
  "json \<Rightarrow> (string option, embedding_row) pydict \<Rightarrow> (string list \<times> gallery) res" where
  "load_gallery metadata embeddings =
    rbind (rbind (vget metadata ''prototypes'' (JArr [])) py_iter) (\<lambda>records.
    rbind (rfold (add_prototype embeddings) [] records) (\<lambda>g.
    rbind (rbind (vitem metadata ''active_speaker_ids'') py_iter) (\<lambda>ids.
    let active = map py_str ids; counts = remdups (map (\<lambda>i. length (gallery_of g i)) active) in
    raise_if (sort (map fst g) \<noteq> sort active) (ValueError ''clean gallery identity set is incomplete'')
    (raise_if (length counts \<noteq> 1) (ValueError ''clean gallery prototype counts differ'')
    (raise_if (hd counts < 2 \<or> odd (hd counts)) (ValueError ''top-half aggregation requires an even complete gallery'')
    (Inr (active, g)))))))"

section \<open>Scores\<close>

definition dot :: "dbl list \<Rightarrow> dbl list \<Rightarrow> dbl res" where
  "dot xs ys = raise_if (length xs \<noteq> length ys) (ValueError ''embedding dimensions differ'') (Inr (dot_sum xs ys))"

definition top_half_mean :: "dbl list \<Rightarrow> dbl list list \<Rightarrow> dbl res" where
  "top_half_mean query prototypes =
     raise_if (length prototypes < 2 \<or> odd (length prototypes))
       (ValueError ''top-half aggregation requires an even prototype count'')
     (rbind (rmap (dot query) prototypes) (\<lambda>ds. let scores = rev (sort ds); keep = length scores div 2 in
      Inr (py_sum (take keep scores) / of_pyint (int keep))))"

definition score_query :: "embedding_row \<Rightarrow> gallery \<Rightarrow> string list \<Rightarrow> (string, dbl) pydict res" where
  "score_query q g active = (if em_status q \<noteq> Some ''ok'' then Inr []
     else rfold (\<lambda>d i. rbind (top_half_mean (em_vector q) (gallery_of g i)) (\<lambda>x. Inr (dset i x d))) [] active)"

definition rank_key :: "string \<times> dbl \<Rightarrow> dbl \<times> string" where
  "rank_key p = (- snd p, fst p)"

text \<open>\<^verbatim>\<open>ranked[1]\<close> of a single score is an IndexError.\<close>

definition ranked_fields :: "(string, dbl) pydict \<Rightarrow> obj res" where
  "ranked_fields scores = (case sort_key rank_key scores of
     [] \<Rightarrow> Inr []
   | [_] \<Rightarrow> Inl IndexError
   | a # b # _ \<Rightarrow> Inr ([(''best_id'', JStr (fst a)), (''best_score'', JFlt (snd a)), (''second_id'', JStr (fst b)),
       (''second_score'', JFlt (snd b)), (''margin'', JFlt (snd a - snd b))] @
       map (\<lambda>(i, x). (''score_'' @ i, JFlt x)) scores))"

definition evidence_row :: "gallery \<Rightarrow> string list \<Rightarrow> embedding_row \<Rightarrow> obj res" where
  "evidence_row g active q = rbind (score_query q g active) (\<lambda>scores.
     rbind (ranked_fields scores) (\<lambda>fs.
     Inr ([(''evidence_id'', opt_json (em_id q)), (''start_sec'', JFlt (em_start q)), (''end_sec'', JFlt (em_end q)),
        (''duration_sec'', JFlt (em_duration q)), (''status'', opt_json (em_status q)),
        (''embed_start_sec'', opt_num (em_embed_start q)), (''embed_end_sec'', opt_num (em_embed_end q))] @ fs)))"

definition evidence_fields :: "string list \<Rightarrow> string list" where
  "evidence_fields active = [''evidence_id'', ''start_sec'', ''end_sec'', ''duration_sec'', ''status'',
     ''embed_start_sec'', ''embed_end_sec'', ''best_id'', ''best_score'', ''second_id'', ''second_score'',
     ''margin''] @ map (\<lambda>i. ''score_'' @ i) active"

definition write_evidence ::
  "(string option, embedding_row) pydict \<Rightarrow> gallery \<Rightarrow> string list \<Rightarrow> obj list res" where
  "write_evidence queries g active = rmap (evidence_row g active) (map snd queries)"

section \<open>The run\<close>

record robust_files =
  rf_metadata :: "string \<times> json"
  rf_prototypes :: "string \<times> csv_table"
  rf_queries :: "string \<times> csv_table"
  rf_config :: "string \<times> obj"
  rf_out :: string
  rf_abspath :: "string \<Rightarrow> string"
  rf_sha :: "string \<Rightarrow> string"
  rf_table_sha :: "string list \<Rightarrow> obj list \<Rightarrow> string"

definition robust_source :: "robust_files \<Rightarrow> string \<Rightarrow> json" where
  "robust_source files p = JObj [(''path'', JStr (rf_abspath files p)), (''sha256'', JStr (rf_sha files p))]"

definition robust_manifest :: "robust_files \<Rightarrow> string list \<Rightarrow> gallery \<Rightarrow> nat \<Rightarrow> obj list \<Rightarrow> obj" where
  "robust_manifest files active g n rows = (let count = int (length (gallery_of g (hd active))) in
    [(''schema_version'', JInt 1), (''kind'', JStr ''orator_robust_clean_gallery_evidence''),
     (''policy'', robust_policy_json), (''active_speaker_ids'', JArr (map JStr active)),
     (''prototype_count_per_identity'', JInt count), (''retained_count_per_identity'', JInt (count div 2)),
     (''query_count'', JInt (int n)),
     (''sources'', JObj [(''metadata'', robust_source files (fst (rf_metadata files))),
        (''prototype_embeddings'', robust_source files (fst (rf_prototypes files))),
        (''query_embeddings'', robust_source files (fst (rf_queries files))),
        (''config'', robust_source files (fst (rf_config files)))]),
     (''output'', JObj [(''path'', JStr (rf_abspath files (rf_out files))),
        (''sha256'', JStr (rf_table_sha files (evidence_fields active) rows))])])"

definition check_dimensions :: "nat list \<Rightarrow> embedding_row \<Rightarrow> unit res" where
  "check_dimensions dims q = raise_if (em_vector q \<noteq> [] \<and> length (em_vector q) \<notin> set dims)
     (ValueError (''query embedding dimension differs: '' @ id_text (em_id q))) (Inr ())"

definition build_robust :: "robust_files \<Rightarrow> (obj list \<times> obj) res" where
  "build_robust files =
    rbind (load_robust_policy (snd (rf_config files))) (\<lambda>_.
    rbind (vget (snd (rf_metadata files)) ''kind'' JNull) (\<lambda>kind.
    raise_if (kind \<noteq> JStr ''orator_clean_speaker_gallery_spans'') (ValueError ''metadata is not a clean speaker gallery'')
    (rbind (read_embeddings (snd (rf_prototypes files))) (\<lambda>prototypes.
     rbind (read_embeddings (snd (rf_queries files))) (\<lambda>queries.
     rbind (load_gallery (snd (rf_metadata files)) prototypes) (\<lambda>(active, g).
     let dims = remdups (map length (concat (map snd g))) in
     raise_if (length dims \<noteq> 1) (ValueError ''prototype embedding dimensions differ'')
     (rbind (rmap (check_dimensions dims) (map snd queries)) (\<lambda>_.
      rbind (write_evidence queries g active) (\<lambda>rows.
      Inr (rows, robust_manifest files active g (length queries) rows))))))))))"

end
