(* ===== verification/Multi_Prototype.thy ===== *)
theory Multi_Prototype
  imports Py_Text Frozen_Evidence
begin

text \<open>
  \<^verbatim>\<open>tools/verify/py/speaker_multiprototype_evidence.py\<close>: two evidence tables of the same spans
  are fused by taking the larger score of every identity.
\<close>

definition METADATA_FIELDS :: "string list" where
  "METADATA_FIELDS = [''evidence_id'', ''start_sec'', ''end_sec'', ''duration_sec'', ''status'',
     ''embed_start_sec'', ''embed_end_sec'']"

definition DECISION_FIELDS :: "string list" where
  "DECISION_FIELDS = [''best_id'', ''best_score'', ''second_id'', ''second_score'', ''margin'']"

definition load_fusion_policy :: "obj \<Rightarrow> unit res" where
  "load_fusion_policy document = (let section = dget document ''speaker_prototype_fusion'' (JObj []) in
     rbind (vget section ''aggregation'' JNull) (\<lambda>a.
     raise_if (a \<noteq> JStr ''maximum'') (ValueError ''speaker prototype aggregation must be maximum'')
     (rbind (vget section ''require_complete_gallery'' JNull) (\<lambda>c.
      raise_if (c \<noteq> JBool True) (ValueError ''complete prototype galleries must be required'') (Inr ())))))"

definition read_score_table :: "csv_table \<Rightarrow> (string list \<times> string list \<times> csv_row list) res" where
  "read_score_table t = (let missing = filter (\<lambda>n. n \<notin> set (csv_fields t)) METADATA_FIELDS;
       scores = filter (has_prefix ''score_'') (csv_fields t) in
     raise_if (missing \<noteq> []) (ValueError (''evidence missing fields: '' @ join_with '','' missing))
     (raise_if (scores = []) (ValueError ''evidence has no identity score fields'')
     (Inr (csv_fields t, scores, csv_rows t))))"

text \<open>\<^verbatim>\<open>row.get(field, "")\<close>, and \<^verbatim>\<open>float\<close> of it.\<close>

definition cell :: "csv_row \<Rightarrow> string \<Rightarrow> string option" where
  "cell row k = (case map_of row k of None \<Rightarrow> Some [] | Some v \<Rightarrow> v)"

definition cell_float :: "string option \<Rightarrow> dbl res" where
  "cell_float v = (case v of None \<Rightarrow> Inl TypeError | Some s \<Rightarrow> float_str s)"

definition same_metadata :: "csv_row \<Rightarrow> csv_row \<Rightarrow> string \<Rightarrow> bool res" where
  "same_metadata l r k = (let a = cell l k; b = cell r k in
     if k \<in> {''evidence_id'', ''status''} then Inr (a = b)
     else if a = Some [] \<or> b = Some [] then Inr (a = b)
     else rbind (cell_float a) (\<lambda>x. rbind (cell_float b) (\<lambda>y. Inr (\<bar>x - y\<bar> \<le> D (1 / 1000000)))))"

definition check_metadata :: "nat \<Rightarrow> csv_row \<Rightarrow> csv_row \<Rightarrow> unit res" where
  "check_metadata i l r = rbind (rmap (\<lambda>k. rbind (same_metadata l r k) (\<lambda>same.
     raise_if (\<not> same) (ValueError (''prototype evidence metadata mismatch at row '' @ int_repr (int i)
       @ '': '' @ k)) (Inr ()))) METADATA_FIELDS) (\<lambda>_. Inr ())"

text \<open>One score column: the row being written and the scores so far.\<close>

definition fuse_score :: "nat \<Rightarrow> csv_row \<Rightarrow> csv_row \<Rightarrow> csv_row \<times> (string, dbl) pydict \<Rightarrow> string
    \<Rightarrow> (csv_row \<times> (string, dbl) pydict) res" where
  "fuse_score i l r = (\<lambda>(row, scores) k. let a = cell l k; b = cell r k in
     raise_if ((a = Some []) \<noteq> (b = Some []))
       (ValueError (''incomplete prototype gallery at row '' @ int_repr (int i) @ '': '' @ k))
     (if a = Some [] then Inr (row, scores)
      else rbind (cell_float a) (\<lambda>x. rbind (cell_float b) (\<lambda>y.
        Inr (dset k (Some (fixed_repr 9 (max x y))) row, dset k (max x y) scores)))))"

definition score_rank :: "string \<times> dbl \<Rightarrow> dbl \<times> string" where
  "score_rank p = (- snd p, fst p)"

definition score_identity :: "string \<Rightarrow> string" where
  "score_identity k = (if has_prefix ''score_'' k then drop 6 k else k)"

definition ranked_cells :: "(string \<times> dbl) list \<Rightarrow> (string \<times> string) list" where
  "ranked_cells ranked = (case ranked of
     [] \<Rightarrow> map (\<lambda>k. (k, [])) DECISION_FIELDS
   | [a] \<Rightarrow> [(''best_id'', score_identity (fst a)), (''best_score'', fixed_repr 9 (snd a)),
       (''second_id'', []), (''second_score'', []), (''margin'', [])]
   | a # b # _ \<Rightarrow> [(''best_id'', score_identity (fst a)), (''best_score'', fixed_repr 9 (snd a)),
       (''second_id'', score_identity (fst b)), (''second_score'', fixed_repr 9 (snd b)),
       (''margin'', fixed_repr 9 (snd a - snd b))])"

definition set_cells :: "csv_row \<Rightarrow> (string \<times> string) list \<Rightarrow> csv_row" where
  "set_cells row cells = foldl (\<lambda>d (k, v). dset k (Some v) d) row cells"

definition fuse_row :: "string list \<Rightarrow> nat \<times> csv_row \<times> csv_row \<Rightarrow> csv_row res" where
  "fuse_row score_fields = (\<lambda>(i, l, r). rbind (check_metadata i l r) (\<lambda>_.
     rbind (rfold (fuse_score i l r) (l, []) score_fields) (\<lambda>(row, scores).
     rbind (csv_item row ''status'') (\<lambda>status.
     raise_if (status = Some ''ok'' \<and> length scores < 2)
       (ValueError (''incomplete identity scores at row '' @ int_repr (int i)))
     (Inr (set_cells row (ranked_cells (sort_key score_rank scores))))))))"

definition fuse_rows :: "csv_row list \<Rightarrow> csv_row list \<Rightarrow> string list \<Rightarrow> csv_row list res" where
  "fuse_rows primary secondary score_fields =
     raise_if (length primary \<noteq> length secondary) (ValueError ''prototype evidence row counts differ'')
     (rmap (fuse_row score_fields) (enumerate 0 (zip primary secondary)))"

text \<open>\<^verbatim>\<open>csv.DictWriter\<close> rejects a row with a key outside the field names.\<close>

definition write_table :: "string list \<Rightarrow> csv_row list \<Rightarrow> csv_table res" where
  "write_table names rows = rbind (rmap (\<lambda>row. raise_if (\<not> set (map fst row) \<subseteq> set names)
     (ValueError ''dict contains fields not in fieldnames'') (Inr row)) rows)
     (\<lambda>rs. Inr \<lparr>csv_fields = names, csv_rows = rs\<rparr>)"

record prototype_files =
  pf_primary :: "string \<times> csv_table"
  pf_secondary :: "string \<times> csv_table"
  pf_config :: "string \<times> obj"
  pf_out :: string
  pf_abspath :: "string \<Rightarrow> string"
  pf_sha :: "string \<Rightarrow> string"
  pf_table_sha :: "csv_table \<Rightarrow> string"

definition prototype_source :: "prototype_files \<Rightarrow> string \<Rightarrow> json" where
  "prototype_source files p = JObj [(''path'', JStr (pf_abspath files p)), (''sha256'', JStr (pf_sha files p))]"

definition prototype_manifest :: "prototype_files \<Rightarrow> string list \<Rightarrow> csv_table \<Rightarrow> obj" where
  "prototype_manifest files score_fields table =
    [(''schema_version'', JInt 1), (''kind'', JStr ''orator_speaker_multiprototype_evidence''),
     (''policy'', JObj [(''aggregation'', JStr ''maximum''), (''require_complete_gallery'', JBool True)]),
     (''evidence_count'', JInt (int (length (csv_rows table)))),
     (''identity_score_fields'', JArr (map JStr score_fields)),
     (''sources'', JObj [(''primary'', prototype_source files (fst (pf_primary files))),
        (''secondary'', prototype_source files (fst (pf_secondary files))),
        (''config'', prototype_source files (fst (pf_config files)))]),
     (''output'', JObj [(''path'', JStr (pf_abspath files (pf_out files))),
        (''sha256'', JStr (pf_table_sha files table))])]"

definition fuse_prototypes :: "prototype_files \<Rightarrow> (csv_table \<times> obj) res" where
  "fuse_prototypes files =
    rbind (load_fusion_policy (snd (pf_config files))) (\<lambda>_.
    rbind (read_score_table (snd (pf_primary files))) (\<lambda>(names, scores, primary).
    rbind (read_score_table (snd (pf_secondary files))) (\<lambda>(names', scores', secondary).
    raise_if (names \<noteq> names' \<or> scores \<noteq> scores') (ValueError ''prototype evidence schemas differ'')
    (rbind (fuse_rows primary secondary scores) (\<lambda>rows.
     rbind (write_table names rows) (\<lambda>table.
     Inr (table, prototype_manifest files scores table)))))))"

end
