(* ===== verification/Gallery_Properties.thy ===== *)
theory Gallery_Properties
  imports Gallery_Robust Multi_Prototype
begin

text \<open>
  What the gallery tools promise: a complete gallery of at least two identities scores every
  query, rankings are by score, and fused tables carry the larger score of every identity.
\<close>

section \<open>Embeddings and gallery\<close>

lemma embedding_vector:
  assumes "embedding_row_of columns row i = Inr r"
  shows "(em_status r = Some ''ok'' \<longrightarrow> length (em_vector r) = length columns) \<and>
    (em_status r \<noteq> Some ''ok'' \<longrightarrow> em_vector r = [])"
  using assms
  by (auto simp: embedding_row_of_def rbind_Inr_iff raise_if_Inr_iff split: if_splits dest!: rmap_length)

lemma read_embeddings_vectors:
  assumes "read_embeddings t = Inr d" and "r \<in> set (map snd d)" and "em_status r = Some ''ok''"
  shows "em_vector r \<noteq> []"
proof -
  let ?c = "filter (has_prefix ''emb_'') (csv_fields t)"
  have ne: "?c \<noteq> []" and run: "rfold (add_embedding ?c) [] (csv_rows t) = Inr d"
    using assms(1) by (auto simp: read_embeddings_def Let_def raise_if_Inr_iff)
  let ?P = "\<lambda>d. \<forall>x \<in> set d. em_status (snd x) = Some ''ok'' \<longrightarrow> length (em_vector (snd x)) = length ?c"
  have "?P d"
  proof (rule rfold_invariant[OF _ _ run])
    fix s x s' assume P: "?P s" and "add_embedding ?c s x = Inr s'"
    then obtain i r where r: "embedding_row_of ?c x i = Inr r" "s' = dset i r s"
      by (auto simp: add_embedding_def rbind_Inr_iff raise_if_Inr_iff)
    show "?P s'" unfolding r(2) by (rule Ball_dset) (use embedding_vector[OF r(1)] P in simp_all)
  qed simp
  with assms(2,3) ne show ?thesis by fastforce
qed

text \<open>The invariant of an accepted gallery.\<close>

definition gallery_ok :: "string list \<Rightarrow> gallery \<Rightarrow> bool" where
  "gallery_ok active g \<longleftrightarrow> distinct active \<and> mset (map fst g) = mset active \<and>
     (\<exists>n \<ge> 2. even n \<and> list_all (\<lambda>i. length (gallery_of g i) = n) active)"

lemma gallery_distinct:
  "rfold (add_prototype embeddings) [] records = Inr g \<Longrightarrow> distinct (map fst g)"
  by (rule rfold_invariant[where P = "\<lambda>g. distinct (map fst g)"])
     (auto simp: add_prototype_def rbind_Inr_iff raise_if_Inr_iff distinct_dset split: option.splits)

lemma load_gallery_ok:
  assumes "load_gallery metadata embeddings = Inr (active, g)"
  shows "gallery_ok active g"
proof -
  let ?n = "\<lambda>i. length (gallery_of g i)"
  from assms obtain records where r: "rfold (add_prototype embeddings) [] records = Inr g"
    and s: "sort (map fst g) = sort active" and c: "length (remdups (map ?n active)) = 1"
    and n: "\<not> (hd (remdups (map ?n active)) < 2 \<or> odd (hd (remdups (map ?n active))))"
    by (auto simp: load_gallery_def Let_def rbind_Inr_iff raise_if_Inr_iff)
  from arg_cong[OF s, of mset] have ms: "mset (map fst g) = mset active" by simp
  then have "distinct active" using gallery_distinct[OF r] by (metis mset_eq_imp_distinct_iff)
  moreover obtain k where k: "remdups (map ?n active) = [k]" using c by (cases "remdups (map ?n active)") auto
  then have "list_all (\<lambda>i. ?n i = k) active"
    using arg_cong[OF k, of set] unfolding list_all_iff set_remdups by auto
  moreover have "2 \<le> k" "even k" using n k by simp_all
  ultimately show ?thesis using ms unfolding gallery_ok_def by blast
qed

section \<open>Scores\<close>

lemma top_half_mean_total:
  assumes "\<forall>v \<in> set vs. length v = length q" "2 \<le> length vs" "even (length vs)"
  shows "\<exists>x. top_half_mean q vs = Inr x"
proof -
  have "\<exists>ds. rmap (dot q) vs = Inr ds" using assms(1) by (intro rmap_exists) (auto simp: dot_def)
  then show ?thesis using assms(2,3) by (auto simp: top_half_mean_def raise_if_def Let_def)
qed

lemma score_fold_total:
  assumes "\<forall>i \<in> set ids. \<exists>x. f i = Inr x"
  shows "\<exists>d'. rfold (\<lambda>d i. rbind (f i) (\<lambda>x. Inr (dset i x d))) d ids = Inr d' \<and>
    set (map fst d') = set (map fst d) \<union> set ids"
  using assms
proof (induction ids arbitrary: d)
  case (Cons i ids)
  then obtain x where x: "f i = Inr x" by auto
  from Cons.IH[of "dset i x d"] Cons.prems x show ?case by (auto simp: dom_update)
qed simp

lemma ranked_fields_total:
  assumes "2 \<le> card (set (map fst scores))" shows "\<exists>fs. ranked_fields scores = Inr fs"
proof -
  have "card (set (map fst scores)) \<le> length scores" by (metis card_length length_map)
  with assms have "2 \<le> length (sort_key rank_key scores)" by simp
  then show ?thesis unfolding ranked_fields_def
    by (cases "sort_key rank_key scores" rule: remdups_adj.cases) (auto split: list.split)
qed

lemma evidence_row_total:
  assumes ok: "gallery_ok active g" and two: "2 \<le> length active"
    and dims: "em_status q = Some ''ok'' \<longrightarrow>
      (\<forall>i \<in> set active. \<forall>v \<in> set (gallery_of g i). length v = length (em_vector q))"
  shows "\<exists>row. evidence_row g active q = Inr row"
proof (cases "em_status q = Some ''ok''")
  case True
  from ok obtain n where n: "2 \<le> n" "even n" "\<forall>i \<in> set active. length (gallery_of g i) = n"
    by (auto simp: gallery_ok_def list_all_iff)
  have "\<forall>i \<in> set active. \<exists>x. top_half_mean (em_vector q) (gallery_of g i) = Inr x"
    using dims True n by (intro ballI top_half_mean_total) auto
  from score_fold_total[OF this, of "[]"] obtain d where d: "score_query q g active = Inr d"
    "set (map fst d) = set active" by (auto simp: score_query_def True)
  have "2 \<le> card (set (map fst d))" using d(2) ok two by (simp add: gallery_ok_def distinct_card)
  from ranked_fields_total[OF this] d(1) show ?thesis by (auto simp: evidence_row_def)
next
  case False
  then show ?thesis by (simp add: evidence_row_def score_query_def ranked_fields_def)
qed

lemma single_identity_index_error:
  assumes ok: "gallery_ok [i] g" and "em_status q = Some ''ok''"
    and dims: "\<forall>v \<in> set (gallery_of g i). length v = length (em_vector q)"
  shows "evidence_row g [i] q = Inl IndexError"
proof -
  obtain x where "top_half_mean (em_vector q) (gallery_of g i) = Inr x"
    using top_half_mean_total[OF dims] ok by (auto simp: gallery_ok_def)
  then show ?thesis by (simp add: evidence_row_def score_query_def ranked_fields_def assms(2))
qed

lemma rmap_first_error:
  assumes "\<forall>x \<in> set xs. f x = Inl e \<or> (\<exists>y. f x = Inr y)" and "\<exists>x \<in> set xs. f x = Inl e"
  shows "rmap f xs = Inl e"
  using assms
proof (induction xs)
  case (Cons x xs)
  show ?case
  proof (cases "f x = Inl e")
    case False
    with Cons.prems obtain y where "f x = Inr y" "\<exists>x \<in> set xs. f x = Inl e" by auto
    moreover have "rmap f xs = Inl e"
      by (rule Cons.IH) (use Cons.prems(1) calculation(2) in auto)
    ultimately show ?thesis by simp
  qed simp
qed simp

text \<open>In a loaded gallery all vectors have its dimension, and so have the scored queries.\<close>

lemma gallery_dimensions:
  assumes "remdups (map length (concat (map snd g))) = [n]" "v \<in> set (gallery_of g i)"
  shows "length v = n"
proof -
  from assms(2) obtain vs where "(i, vs) \<in> set g" "v \<in> set vs"
    by (cases "map_of g i") (auto simp: gallery_of_def dest: map_of_SomeD)
  then have "length v \<in> set (remdups (map length (concat (map snd g))))" by force
  then show ?thesis unfolding assms(1) by simp
qed

lemma query_dimensions:
  assumes "read_embeddings qt = Inr queries" "rmap (check_dimensions [n]) (map snd queries) = Inr us"
    and q: "q \<in> set (map snd queries)" "em_status q = Some ''ok''"
  shows "length (em_vector q) = n"
proof -
  have "check_dimensions [n] q = Inr ()" using rmap_all[OF assms(2) q(1)] by simp
  with read_embeddings_vectors[OF assms(1) q] show ?thesis by (auto simp: check_dimensions_def raise_if_Inr_iff)
qed

lemma evidence_row_skipped: "em_status q \<noteq> Some ''ok'' \<Longrightarrow> \<exists>row. evidence_row g active q = Inr row"
  by (simp add: evidence_row_def score_query_def ranked_fields_def)

text \<open>
  C18: for an accepted gallery whose vectors have the one dimension the queries are checked
  against, the evidence is written (one row per query, no exception) if it has at least two
  identities or no query has an embedding; with a single identity and a scored query the run ends
  in an IndexError.
\<close>

theorem robust_evidence_written:
  assumes "load_gallery metadata prototypes = Inr (active, g)"
    and "read_embeddings qt = Inr queries"
    and "remdups (map length (concat (map snd g))) = [n]"
    and "rmap (check_dimensions [n]) (map snd queries) = Inr us"
  shows "if 2 \<le> length active \<or> list_all (\<lambda>q. em_status q \<noteq> Some ''ok'') (map snd queries)
    then \<exists>rows. write_evidence queries g active = Inr rows \<and> length rows = length queries
    else write_evidence queries g active = Inl IndexError"
proof -
  note ok = load_gallery_ok[OF assms(1)]
  note vectors = gallery_dimensions[OF assms(3)] and dims = query_dimensions[OF assms(2,4)]
  show ?thesis
  proof (cases "2 \<le> length active \<or> list_all (\<lambda>q. em_status q \<noteq> Some ''ok'') (map snd queries)")
    case True
    have "\<exists>row. evidence_row g active q = Inr row" if q: "q \<in> set (map snd queries)" for q
    proof (cases "em_status q = Some ''ok''")
      case ok_q: True
      with True q have "2 \<le> length active" by (auto simp: list_all_iff)
      then show ?thesis using vectors dims[OF q ok_q] by (intro evidence_row_total[OF ok]) auto
    qed (rule evidence_row_skipped)
    then obtain rows where rows: "write_evidence queries g active = Inr rows"
      unfolding write_evidence_def using rmap_exists[of "map snd queries" "evidence_row g active"] by blast
    from rmap_length[OF rows[unfolded write_evidence_def]] rows True show ?thesis by auto
  next
    case False
    then have "length active < 2" by simp
    moreover have "active \<noteq> []"
      using assms(1) by (auto simp: load_gallery_def Let_def rbind_Inr_iff raise_if_Inr_iff)
    ultimately obtain i where i: "active = [i]" by (cases active rule: remdups_adj.cases) auto
    have err: "evidence_row g active q = Inl IndexError"
      if q: "q \<in> set (map snd queries)" "em_status q = Some ''ok''" for q
      unfolding i using ok[unfolded i] q(2) vectors dims[OF q] by (intro single_identity_index_error) auto
    have "write_evidence queries g active = Inl IndexError" unfolding write_evidence_def
      by (rule rmap_first_error) (use False err evidence_row_skipped in \<open>fastforce simp: list_all_iff\<close>)+
    with False show ?thesis by simp
  qed
qed

definition demo_embedding :: "string \<Rightarrow> csv_row" where
  "demo_embedding i = [(''evidence_id'', Some i), (''start_sec'', Some ''0''), (''end_sec'', Some ''1''),
     (''duration_sec'', Some ''1''), (''status'', Some ''ok''), (''embed_start_sec'', Some []),
     (''embed_end_sec'', Some []), (''emb_0'', Some ''1'')]"

definition demo_embeddings :: "string list \<Rightarrow> csv_table" where
  "demo_embeddings ids = \<lparr>csv_fields = embedding_required @ [''emb_0''], csv_rows = map demo_embedding ids\<rparr>"

definition demo_prototype :: "string \<Rightarrow> string \<Rightarrow> json" where
  "demo_prototype i who = JObj [(''evidence_id'', JStr i), (''start'', JFlt 0), (''end'', JFlt 1), (''identity'', JStr who)]"

definition demo_metadata :: json where
  "demo_metadata = JObj [(''prototypes'', JArr [demo_prototype ''p'' ''a'', demo_prototype ''q'' ''a'',
      demo_prototype ''r'' ''b'', demo_prototype ''s'' ''b'']),
     (''active_speaker_ids'', JArr [JStr ''a'', JStr ''b''])]"

theorem robust_evidence_written_witness:
  "\<exists>prototypes active g queries rows. read_embeddings (demo_embeddings [''p'', ''q'', ''r'', ''s'']) = Inr prototypes \<and>
     load_gallery demo_metadata prototypes = Inr (active, g) \<and> active = [''a'', ''b''] \<and>
     read_embeddings (demo_embeddings [''x'']) = Inr queries \<and>
     write_evidence queries g active = Inr rows \<and> length rows = length queries"
proof -
  have "rbind (read_embeddings (demo_embeddings [''p'', ''q'', ''r'', ''s''])) (\<lambda>prototypes.
      rbind (load_gallery demo_metadata prototypes) (\<lambda>(active, g). rbind (read_embeddings (demo_embeddings [''x'']))
      (\<lambda>queries. rbind (rmap (check_dimensions [1]) (map snd queries)) (\<lambda>_.
      Inr (active, remdups (map length (concat (map snd g)))))))) = Inr ([''a'', ''b''], [1])"
    by code_simp
  then obtain prototypes active g queries us where e:
    "read_embeddings (demo_embeddings [''p'', ''q'', ''r'', ''s'']) = Inr prototypes"
    "load_gallery demo_metadata prototypes = Inr (active, g)"
    "read_embeddings (demo_embeddings [''x'']) = Inr queries"
    "rmap (check_dimensions [1]) (map snd queries) = Inr us" "active = [''a'', ''b'']"
    "remdups (map length (concat (map snd g))) = [1]"
    by (auto simp only: rbind_Inr_iff split_paired_Ex prod.case prod.inject sum.inject)
  have "2 \<le> length active" by (simp add: e(5))
  with robust_evidence_written[OF e(2,3,6,4)] obtain rows where
    "write_evidence queries g active = Inr rows" "length rows = length queries" by auto
  with e(1-3,5) show ?thesis by (intro exI conjI)
qed

section \<open>Fused tables\<close>

text \<open>What the loop over the score columns has done after the columns \<open>ks\<close>.\<close>

definition fused_cell :: "csv_row \<Rightarrow> csv_row \<Rightarrow> csv_row \<Rightarrow> (string, dbl) pydict \<Rightarrow> string \<Rightarrow> bool" where
  "fused_cell l r row scores k \<longleftrightarrow>
     (if cell l k = Some [] then map_of row k = map_of l k \<and> map_of scores k = None
      else \<exists>x y. cell_float (cell l k) = Inr x \<and> cell_float (cell r k) = Inr y \<and>
        map_of scores k = Some (max x y) \<and> map_of row k = Some (Some (fixed_repr 9 (max x y))))"

definition fused_ok :: "csv_row \<Rightarrow> csv_row \<Rightarrow> string list \<Rightarrow> csv_row \<times> (string, dbl) pydict \<Rightarrow> bool" where
  "fused_ok l r ks = (\<lambda>(row, scores). \<forall>k. if k \<in> set ks then fused_cell l r row scores k
     else map_of scores k = None \<and> map_of row k = map_of l k)"

lemma fuse_score_ok:
  assumes "fused_ok l r ks st" and "fuse_score i l r st k = Inr st'"
  shows "fused_ok l r (ks @ [k]) st'"
proof -
  obtain row scores where st: "st = (row, scores)" by (cases st)
  show ?thesis
  proof (cases "cell l k = Some []")
    case True
    with assms(2) have st': "st' = (row, scores)"
      by (auto simp: st fuse_score_def Let_def raise_if_Inr_iff)
    have "fused_cell l r row scores k"
      using spec[OF assms(1)[unfolded st fused_ok_def prod.case], of k] True
      by (auto simp: fused_cell_def split: if_splits)
    with assms(1) show ?thesis by (auto simp: st st' fused_ok_def)
  next
    case False
    with assms(2) obtain x y where xy: "cell_float (cell l k) = Inr x" "cell_float (cell r k) = Inr y"
      "st' = (dset k (Some (fixed_repr 9 (max x y))) row, dset k (max x y) scores)"
      by (auto simp: st fuse_score_def Let_def rbind_Inr_iff raise_if_Inr_iff)
    have old: "if j \<in> set ks then fused_cell l r row scores j
        else map_of scores j = None \<and> map_of row j = map_of l j" for j
      using assms(1) by (simp add: st fused_ok_def)
    show ?thesis unfolding fused_ok_def xy(3) prod.case
    proof
      fix j
      show "if j \<in> set (ks @ [k])
          then fused_cell l r (dset k (Some (fixed_repr 9 (max x y))) row) (dset k (max x y) scores) j
          else map_of (dset k (max x y) scores) j = None \<and>
            map_of (dset k (Some (fixed_repr 9 (max x y))) row) j = map_of l j"
        using old[of j] False xy(1,2) by (cases "j = k") (auto simp: fused_cell_def split: if_splits)
    qed
  qed
qed

lemma fuse_scores_ok:
  "rfold (fuse_score i l r) st ks = Inr st' \<Longrightarrow> fused_ok l r js st \<Longrightarrow> fused_ok l r (js @ ks) st'"
proof (induction ks arbitrary: st js)
  case (Cons k ks)
  then obtain t where t: "fuse_score i l r st k = Inr t" "rfold (fuse_score i l r) t ks = Inr st'"
    by (auto simp: rbind_Inr_iff)
  from Cons.IH[OF t(2) fuse_score_ok[OF Cons.prems(2) t(1)]] show ?case by simp
qed simp

lemma set_cells_other: "k \<notin> set (map fst cs) \<Longrightarrow> map_of (set_cells row cs) k = map_of row k"
  unfolding set_cells_def by (induction cs arbitrary: row) auto

lemma ranked_cells_keys: "set (map fst (ranked_cells rs)) = set DECISION_FIELDS"
  by (auto simp: ranked_cells_def DECISION_FIELDS_def split: list.splits)

lemma score_not_decision: "has_prefix ''score_'' k \<Longrightarrow> k \<notin> set DECISION_FIELDS"
  by (auto simp: DECISION_FIELDS_def has_prefix_def)

lemma best_cell:
  assumes "sort_key score_rank scores = a # rs"
  shows "map_of (set_cells row (ranked_cells (a # rs))) ''best_id'' = Some (Some (score_identity (fst a))) \<and>
    a \<in> set scores \<and> list_all (\<lambda>p. snd p \<le> snd a) scores"
proof -
  have "map_of (set_cells row (ranked_cells (a # rs))) ''best_id'' = Some (Some (score_identity (fst a)))"
    by (cases rs) (simp_all add: ranked_cells_def set_cells_def)
  moreover have "set (a # rs) = set scores" using assms by (metis set_sort)
  moreover have "sorted (map score_rank (a # rs))" using assms by (metis sorted_sort_key)
  ultimately show ?thesis by (auto simp: list_all_iff score_rank_def less_eq_prod_def dest: order.strict_implies_order)
qed

definition fused_row_ok :: "string list \<Rightarrow> csv_row \<Rightarrow> csv_row \<Rightarrow> csv_row \<Rightarrow> bool" where
  "fused_row_ok ks l r row \<longleftrightarrow> (\<exists>scores :: (string, dbl) pydict.
     list_all (fused_cell l r row scores) ks \<and>
     fst ` set scores \<subseteq> set ks \<and>
     (case map_of row ''best_id'' of Some (Some b) \<Rightarrow>
        if scores = [] then b = []
        else \<exists>k x. (k, x) \<in> set scores \<and> b = score_identity k \<and> list_all (\<lambda>p. snd p \<le> x) scores
      | _ \<Rightarrow> False))"

lemma fuse_row_ok:
  assumes "fuse_row ks (i, l, r) = Inr row" and "list_all (has_prefix ''score_'') ks"
  shows "fused_row_ok ks l r row"
proof -
  from assms(1) obtain row0 scores where f: "rfold (fuse_score i l r) (l, []) ks = Inr (row0, scores)"
    and row: "row = set_cells row0 (ranked_cells (sort_key score_rank scores))"
    by (auto simp: fuse_row_def rbind_Inr_iff raise_if_Inr_iff)
  have "fused_ok l r [] (l, [])" by (simp add: fused_ok_def)
  from fuse_scores_ok[OF f this] have ok: "fused_ok l r ks (row0, scores)" by simp
  have same: "map_of row k = map_of row0 k" if "k \<in> set ks" for k
    unfolding row using assms(2) that
    by (intro set_cells_other) (simp only: ranked_cells_keys, rule score_not_decision, simp add: list_all_iff)
  have cols: "list_all (fused_cell l r row scores) ks"
    unfolding list_all_iff
  proof
    fix k assume k: "k \<in> set ks"
    then have "fused_cell l r row0 scores k"
      using spec[OF ok[unfolded fused_ok_def prod.case], of k] by simp
    then show "fused_cell l r row scores k" using same[OF k]
      by (cases "cell l k = Some []") (simp_all add: fused_cell_def)
  qed
  have keys: "fst ` set scores \<subseteq> set ks"
  proof
    fix k assume "k \<in> fst ` set scores"
    then have "map_of scores k \<noteq> None" by (simp add: map_of_eq_None_iff)
    with ok show "k \<in> set ks" by (auto simp: fused_ok_def split: if_splits)
  qed
  show ?thesis
  proof (cases "sort_key score_rank scores")
    case Nil
    then have "scores = []" by (metis set_empty set_sort)
    moreover have "map_of row ''best_id'' = Some (Some [])"
      by (simp add: row Nil ranked_cells_def DECISION_FIELDS_def set_cells_def)
    ultimately show ?thesis unfolding fused_row_ok_def using cols keys by (intro exI[of _ scores]) simp
  next
    case (Cons a rs)
    from best_cell[OF Cons, of row0] have b: "map_of row ''best_id'' = Some (Some (score_identity (fst a)))"
      "a \<in> set scores" "list_all (\<lambda>p. snd p \<le> snd a) scores" by (simp_all add: row Cons)
    then have "scores \<noteq> []" "\<exists>k x. (k, x) \<in> set scores \<and> score_identity (fst a) = score_identity k \<and>
        list_all (\<lambda>p. snd p \<le> x) scores"
      by (auto intro!: exI[of _ "fst a"] exI[of _ "snd a"])
    with cols keys b(1) show ?thesis unfolding fused_row_ok_def by (intro exI[of _ scores]) simp
  qed
qed

text \<open>
  In every fused row each score column present in the tables holds the larger of the two
  scores (printed with nine digits), absent columns stay as they were, and the best identity has
  the largest fused score.
\<close>

lemma fused_rows_maximal:
  assumes "read_score_table t = Inr (names, ks, primary)" and "fuse_rows primary secondary ks = Inr rows"
  shows "length rows = length primary \<and> length secondary = length primary \<and>
    list_all (\<lambda>((l, r), row). fused_row_ok ks l r row) (zip (zip primary secondary) rows)"
proof -
  have score: "list_all (has_prefix ''score_'') ks"
    using assms(1) by (auto simp: read_score_table_def Let_def raise_if_Inr_iff list_all_iff)
  from assms(2) have len: "length primary = length secondary"
    and run: "list_all2 (\<lambda>p row. fuse_row ks p = Inr row) (enumerate 0 (zip primary secondary)) rows"
    by (simp_all add: fuse_rows_def raise_if_Inr_iff rmap_Inr_iff)
  have n: "length rows = length primary" using list_all2_lengthD[OF run] len by simp
  have "fused_row_ok ks (primary ! i) (secondary ! i) (rows ! i)" if "i < length rows" for i
  proof -
    have "fuse_row ks (i, primary ! i, secondary ! i) = Inr (rows ! i)"
      using list_all2_nthD2[OF run that] that n len by (simp add: nth_enumerate_eq)
    then show ?thesis using score by (rule fuse_row_ok)
  qed
  then show ?thesis using n len by (auto simp: list_all_length)
qed

definition demo_score_table :: "string \<Rightarrow> string \<Rightarrow> csv_table" where
  "demo_score_table a b = \<lparr>csv_fields = METADATA_FIELDS @ DECISION_FIELDS @ [''score_a'', ''score_b''],
     csv_rows = [[(''evidence_id'', Some ''x''), (''start_sec'', Some ''0''), (''end_sec'', Some ''1''),
       (''duration_sec'', Some ''1''), (''status'', Some ''ok''), (''score_a'', Some a), (''score_b'', Some b)]]\<rparr>"

theorem fused_rows_maximal_witness:
  "\<exists>names ks primary rows. read_score_table (demo_score_table ''1'' ''2'') = Inr (names, ks, primary) \<and>
     fuse_rows primary (csv_rows (demo_score_table ''3'' ''1'')) ks = Inr rows \<and> length rows = 1 \<and>
     list_all (\<lambda>row. map_of row ''best_id'' = Some (Some ''a'')) rows"
proof -
  have "rbind (read_score_table (demo_score_table ''1'' ''2'')) (\<lambda>(names, ks, primary).
      rbind (fuse_rows primary (csv_rows (demo_score_table ''3'' ''1'')) ks)
      (\<lambda>rows. Inr (length primary, list_all (\<lambda>row. map_of row ''best_id'' = Some (Some ''a'')) rows))) = Inr (1, True)"
    by code_simp
  then obtain names ks primary rows where r: "read_score_table (demo_score_table ''1'' ''2'') = Inr (names, ks, primary)"
    "fuse_rows primary (csv_rows (demo_score_table ''3'' ''1'')) ks = Inr rows"
    "list_all (\<lambda>row. map_of row ''best_id'' = Some (Some ''a'')) rows" "length primary = 1"
    by (auto simp: rbind_Inr_iff)
  have "length rows = 1" using fused_rows_maximal[OF r(1,2)] r(4) by (simp only:)
  with r(1-3) show ?thesis by (intro exI conjI)
qed

end
