(* ===== verification/Review_Packet.thy ===== *)
theory Review_Packet
  imports Py_Text Closing_Ledger
begin

text \<open>
  \<^verbatim>\<open>tools/verify/py/speaker_business_review_packet.py\<close>: the reference transcript placed beside
  candidate business views, by window or by reference row.  Files arrive as parsed JSON and
  lists of lines; the timestamp pattern is the one of \<^verbatim>\<open>closing_ledger.py\<close>
  (\<open>timestamp_match\<close>).
\<close>

section \<open>Blocks and entries\<close>

record ref_block =
  rb_id :: string
  rb_start :: dbl
  rb_end :: dbl
  rb_speaker :: string
  rb_text :: string
  rb_issue :: string

record view_entry =
  ve_start :: dbl
  ve_end :: dbl
  ve_speaker :: string
  ve_text :: string
  ve_reason :: string
  ve_uncertain :: bool

text \<open>\<^verbatim>\<open>_num\<close>: numbers as floats, anything else 0.\<close>

fun packet_num :: "json \<Rightarrow> dbl res" where
  "packet_num (JBool b) = Inr (if b then 1 else 0)"
| "packet_num (JInt n) = Inr (of_pyint n)"
| "packet_num (JFlt x) = Inr x"
| "packet_num (JNonFin i) = Inl OutOfModel"
| "packet_num _ = Inr 0"

definition sec_to_hms :: "dbl \<Rightarrow> string" where
  "sec_to_hms sec = (let n = dbl_trunc (max 0 sec) in
     zero_pad 2 (n div 3600) @ '':'' @ zero_pad 2 (n mod 3600 div 60) @ '':'' @ zero_pad 2 (n mod 60))"

lemma dropWhile_shorter [termination_simp]: "length (dropWhile p cs) < Suc (length cs)"
  by (simp add: length_dropWhile_le less_Suc_eq_le)

text \<open>\<^verbatim>\<open>text.split()\<close>: the maximal runs of non-space characters.\<close>

fun split_words :: "string \<Rightarrow> string list" where
  "split_words [] = []"
| "split_words (c # cs) = (if is_space c then split_words cs
     else (c # takeWhile (\<lambda>x. \<not> is_space x) cs) # split_words (dropWhile (\<lambda>x. \<not> is_space x) cs))"

definition compact_text :: "string \<Rightarrow> int \<Rightarrow> string" where
  "compact_text t max_chars = (let compact = join_with '' '' (split_words t) in
     if 0 < max_chars \<and> max_chars < int (length compact) then take (nat (max_chars - 1)) compact @ ''...''
     else compact)"

section \<open>Reference\<close>

type_synonym raw_block = "dbl \<times> string \<times> string list"

definition block_start :: "string \<times> string \<times> string \<times> string \<Rightarrow> raw_block" where
  "block_start = (\<lambda>(h, m, s, speaker).
     (of_pyint (digits_val h * 3600 + digits_val m * 60 + digits_val s), strip speaker, []))"

definition close_block :: "raw_block list \<times> raw_block option \<Rightarrow> raw_block list" where
  "close_block st = fst st @ (case snd st of Some b \<Rightarrow> [b] | None \<Rightarrow> [])"

definition ref_line :: "raw_block list \<times> raw_block option \<Rightarrow> string \<Rightarrow> raw_block list \<times> raw_block option" where
  "ref_line st raw = (let line = strip raw in case timestamp_match line of
     Some g \<Rightarrow> (close_block st, Some (block_start g))
   | None \<Rightarrow> (case snd st of
       Some (t, who, ls) \<Rightarrow> if line \<noteq> [] then (fst st, Some (t, who, ls @ [line])) else st
     | None \<Rightarrow> st))"

definition interval_issue :: "dbl \<Rightarrow> dbl \<Rightarrow> string" where
  "interval_issue s e = (if e = s then ''duplicate_source_timestamp''
     else if e < s then ''backward_source_timestamp'' else [])"

fun ref_blocks :: "nat \<Rightarrow> dbl \<Rightarrow> raw_block list \<Rightarrow> ref_block list" where
  "ref_blocks i audio [] = []"
| "ref_blocks i audio ((s, who, ls) # bs) =
     (let e = (case bs of [] \<Rightarrow> audio | b # _ \<Rightarrow> fst b) in
      \<lparr>rb_id = ref_id i, rb_start = s, rb_end = e, rb_speaker = who, rb_text = concat ls,
       rb_issue = interval_issue s e\<rparr> # ref_blocks (Suc i) audio bs)"

definition parse_ref :: "string list \<Rightarrow> dbl \<Rightarrow> ref_block list" where
  "parse_ref lines audio = ref_blocks 0 audio (close_block (foldl ref_line ([], None) lines))"

section \<open>Views\<close>

definition speaker_label :: "obj \<Rightarrow> string" where
  "speaker_label d =
    (if truthy (get d ''speaker_name'') then py_str (get d ''speaker_name'')
     else if truthy (get d ''speaker_id'') then py_str (get d ''speaker_id'')
     else case get d ''speaker'' of
       JInt n \<Rightarrow> if 0 \<le> n then ''L'' @ int_repr n else ''unknown''
     | JBool b \<Rightarrow> ''L'' @ py_str (JBool b)
     | _ \<Rightarrow> ''unknown'')"

definition max_end :: "json list \<Rightarrow> dbl res" where
  "max_end items = rbind (rmap (\<lambda>d. packet_num (get d ''end'')) (dict_items items))
     (\<lambda>es. Inr (case es of [] \<Rightarrow> 0 | e # es' \<Rightarrow> foldl max e es'))"

definition view_entry_of :: "json \<Rightarrow> view_entry option res" where
  "view_entry_of v = (case v of
     JObj d \<Rightarrow> rbind (packet_num (get d ''start'')) (\<lambda>s. rbind (packet_num (get d ''end'')) (\<lambda>e.
       Inr (if e \<le> s then None
         else Some \<lparr>ve_start = s, ve_end = e, ve_speaker = speaker_label d,
           ve_text = py_str (dget d ''text'' (JStr [])), ve_reason = py_str (dget d ''decision_reason'' (JStr [])),
           ve_uncertain = truthy (dget d ''speaker_uncertain'' (JBool False))\<rparr>)))
   | _ \<Rightarrow> Inr None)"

definition entry_order :: "view_entry \<Rightarrow> dbl \<times> dbl \<times> string" where
  "entry_order v = (ve_start v, ve_end v, ve_speaker v)"

text \<open>The raw entries and the audio duration of a candidate or timeline package.\<close>

definition view_source :: "json \<Rightarrow> (dbl \<times> json) res" where
  "view_source package = rbind (vdict package) (\<lambda>p.
     if get p ''kind'' = JStr ''orator_frozen_speaker_candidate''
     then let raw = dget p ''track'' (JArr []) in rbind (packet_num (get p ''audio_sec'')) (\<lambda>audio.
       if audio \<le> 0 then rbind (py_iter raw) (\<lambda>items. rbind (max_end items) (\<lambda>m. Inr (m, raw)))
       else Inr (audio, raw))
     else (case dget p ''timeline'' package of
         JObj t \<Rightarrow> rbind (packet_num (get t ''audio_sec'')) (\<lambda>audio.
           Inr (audio, dget t ''comprehensive'' (JArr [])))
       | _ \<Rightarrow> Inl (ValueError ''input does not contain a timeline object'')))"

definition load_view :: "json \<Rightarrow> (dbl \<times> view_entry list) res" where
  "load_view package = rbind (view_source package) (\<lambda>(audio, raw).
     rbind (rcollect view_entry_of (arr_or_empty raw)) (\<lambda>entries. Inr (audio, sort_key entry_order entries)))"

section \<open>Windows\<close>

definition window_of :: "string \<Rightarrow> span option res" where
  "window_of t = (if strip t = [] then Inr None
     else case split_at (\<lambda>c. c = CHR ''-'') t of
       (_, None) \<Rightarrow> Inl (ValueError (''invalid window: '' @ t))
     | (a, Some b) \<Rightarrow> rbind (float_str a) (\<lambda>s. rbind (float_str b) (\<lambda>e.
         Inr (if s < e then Some (s, e) else None))))"

text \<open>The loop over default windows: \<open>None\<close> if it does not end.\<close>

partial_function (option) window_loop :: "dbl \<Rightarrow> dbl \<Rightarrow> dbl \<Rightarrow> span list option" where
  "window_loop audio w s = (if s < audio
     then Option.bind (window_loop audio w (min audio (s + w))) (\<lambda>ws. Some ((s, min audio (s + w)) # ws))
     else Some [])"

declare window_loop.simps [code]

definition parse_windows :: "string \<Rightarrow> dbl \<Rightarrow> dbl \<Rightarrow> span list res option" where
  "parse_windows v audio w =
    (if v \<noteq> [] then Some (rcollect window_of (split_on CHR '','' v)) else map_option Inr (window_loop audio w 0))"

section \<open>Formatting\<close>

definition in_window :: "dbl \<Rightarrow> dbl \<Rightarrow> ref_block \<Rightarrow> bool" where
  "in_window s e b = (if rb_start b < rb_end b then 0 < overlap_sec (rb_start b) (rb_end b) s e
     else s \<le> rb_start b \<and> rb_start b < e)"

definition ref_text :: "int \<Rightarrow> ref_block \<Rightarrow> string" where
  "ref_text m b = ''- `'' @ rb_id b @ ''` `'' @ sec_to_hms (rb_start b) @ ''-'' @ sec_to_hms (rb_end b) @ ''`''
     @ (if rb_issue b \<noteq> [] then '' ['' @ rb_issue b @ '']'' else []) @ '' '' @ rb_speaker b @ '': ''
     @ compact_text (rb_text b) m"

definition or_else :: "string list \<Rightarrow> string \<Rightarrow> string list" where
  "or_else ls dflt = (if ls = [] then [dflt] else ls)"

definition format_ref :: "ref_block list \<Rightarrow> dbl \<Rightarrow> dbl \<Rightarrow> int \<Rightarrow> string list" where
  "format_ref blocks s e m = or_else (map (ref_text m) (filter (in_window s e) blocks))
     ''- No reference block in this window.''"

text \<open>\<^verbatim>\<open>f"{x:07.3f}"\<close>: zeros go between the sign and the digits.\<close>

definition fixed_7_3 :: "dbl \<Rightarrow> string" where
  "fixed_7_3 x = (let t = fixed_repr 3 x in case t of
     c # r \<Rightarrow> if c = CHR ''-'' then c # replicate (6 - length r) CHR ''0'' @ r
              else replicate (7 - length t) CHR ''0'' @ t
   | [] \<Rightarrow> [])"

definition seen :: "dbl \<Rightarrow> dbl \<Rightarrow> view_entry \<Rightarrow> bool" where
  "seen s e v \<longleftrightarrow> \<not> overlap_sec (ve_start v) (ve_end v) s e \<le> 0"

definition view_text :: "int \<Rightarrow> view_entry \<Rightarrow> string" where
  "view_text m v = ''- `'' @ fixed_7_3 (ve_start v) @ ''-'' @ fixed_7_3 (ve_end v) @ ''` '' @ ve_speaker v
     @ (if ve_reason v \<noteq> [] then '' ['' @ ve_reason v @ (if ve_uncertain v then '', uncertain'' else []) @ '']'' else [])
     @ '': '' @ compact_text (ve_text v) m"

definition format_view :: "view_entry list \<Rightarrow> dbl \<Rightarrow> dbl \<Rightarrow> int \<Rightarrow> string list" where
  "format_view entries s e m = or_else (map (view_text m) (filter (seen s e) entries))
     ''- No candidate entry in this window.''"

section \<open>By reference\<close>

definition evidence_window :: "ref_block \<Rightarrow> dbl \<Rightarrow> span" where
  "evidence_window b audio = (if rb_start b < rb_end b then (rb_start b, rb_end b)
     else (max 0 (rb_start b - 1), min audio (rb_start b + D 2)))"

definition assignment_signature :: "view_entry list \<Rightarrow> dbl \<Rightarrow> dbl \<Rightarrow> (dbl \<times> dbl \<times> string \<times> bool) list" where
  "assignment_signature entries s e =
     map (\<lambda>v. (max s (ve_start v), min e (ve_end v), ve_speaker v, ve_uncertain v)) (filter (seen s e) entries)"

definition speaker_sequence_signature :: "view_entry list \<Rightarrow> dbl \<Rightarrow> dbl \<Rightarrow> string list" where
  "speaker_sequence_signature entries s e =
     merge_runs (\<lambda>x. x) (=) (\<lambda>p _. p) (map ve_speaker (filter (seen s e) entries))"

text \<open>One window: the blocks it emits, and the indices emitted so far.\<close>

definition emit_window :: "ref_block list \<Rightarrow> (nat \<times> ref_block) list \<Rightarrow> span \<Rightarrow> (nat \<times> ref_block) list" where
  "emit_window refs out = (\<lambda>(s, e).
     out @ filter (\<lambda>(i, b). i \<notin> set (map fst out) \<and> in_window s e b) (enumerate 0 refs))"

definition order_references :: "ref_block list \<Rightarrow> span list option \<Rightarrow> ref_block list" where
  "order_references refs windows = (case windows of
     None \<Rightarrow> refs
   | Some ws \<Rightarrow> let out = foldl (emit_window refs) [] ws in
       map snd out @ map snd (filter (\<lambda>(i, b). i \<notin> set (map fst out)) (enumerate 0 refs)))"

section \<open>Documents\<close>

definition window_section :: "ref_block list \<Rightarrow> view_entry list \<Rightarrow> int \<Rightarrow> span \<Rightarrow> string list" where
  "window_section refs entries m = (\<lambda>(s, e).
     [''## '' @ sec_to_hms s @ ''-'' @ sec_to_hms e, [], ''### Reference'', []] @ format_ref refs s e m
     @ [[], ''### Candidate Business View'', []] @ format_view entries s e m @ [[]])"

definition join_lines :: "string list \<Rightarrow> string" where
  "join_lines ls = join_with [CHR 0x0A] ls"

definition render :: "string \<Rightarrow> string \<Rightarrow> dbl \<Rightarrow> ref_block list \<Rightarrow> view_entry list \<Rightarrow> span list \<Rightarrow> int \<Rightarrow> string" where
  "render timeline reference audio refs entries windows m = join_lines
    ([''# Speaker Business Review Packet'', [], ''- Timeline: `'' @ timeline @ ''`'',
      ''- Reference: `'' @ reference @ ''`'', ''- Audio seconds: `'' @ fixed_repr 3 audio @ ''`'',
      ''- Purpose: side-by-side context review only; no script accuracy score.'', []]
     @ concat (map (window_section refs entries m) windows))"

record packet_view =
  pv_entries :: "view_entry list"
  pv_comparison :: "(string \<times> view_entry list) option"
  pv_only_changed :: bool
  pv_sequence_only :: bool

definition block_changed :: "packet_view \<Rightarrow> dbl \<Rightarrow> dbl \<Rightarrow> bool option" where
  "block_changed pv s e = (case pv_comparison pv of
     None \<Rightarrow> None
   | Some (_, old) \<Rightarrow> Some (if pv_sequence_only pv
       then speaker_sequence_signature old s e \<noteq> speaker_sequence_signature (pv_entries pv) s e
       else assignment_signature old s e \<noteq> assignment_signature (pv_entries pv) s e))"

definition selected_blocks ::
  "packet_view \<Rightarrow> dbl \<Rightarrow> ref_block list \<Rightarrow> span list option \<Rightarrow> (ref_block \<times> span \<times> bool option) list" where
  "selected_blocks pv audio refs windows =
     filter (\<lambda>(b, w, changed). \<not> (pv_only_changed pv \<and> changed \<noteq> Some True))
       (map (\<lambda>b. let (s, e) = evidence_window b audio in (b, (s, e), block_changed pv s e))
         (order_references refs windows))"

definition block_section :: "packet_view \<Rightarrow> int \<Rightarrow> ref_block \<times> span \<times> bool option \<Rightarrow> string list" where
  "block_section pv m = (\<lambda>(b, (s, e), changed).
     [''## '' @ rb_id b, [],
      ''- Source interval: `'' @ fixed_repr 3 (rb_start b) @ ''-'' @ fixed_repr 3 (rb_end b) @ ''`''
        @ (if rb_issue b \<noteq> [] then '' ('' @ rb_issue b @ '')'' else []),
      ''- Reference speaker: `'' @ rb_speaker b @ ''`'',
      ''- Reference text: '' @ compact_text (rb_text b) m]
     @ (case changed of None \<Rightarrow> [] | Some c \<Rightarrow>
         [''- Assignment changed: `'' @ (if c then ''yes'' else ''no'') @ ''`'', ''- Comparison evidence:'']
         @ format_view (case pv_comparison pv of None \<Rightarrow> [] | Some (_, old) \<Rightarrow> old) s e m)
     @ [''- Candidate evidence:''] @ format_view (pv_entries pv) s e m @ [[]])"

definition render_by_reference ::
  "string \<Rightarrow> string \<Rightarrow> dbl \<Rightarrow> ref_block list \<Rightarrow> packet_view \<Rightarrow> span list option \<Rightarrow> int \<Rightarrow> string" where
  "render_by_reference timeline reference audio refs pv windows m =
    (let selected = selected_blocks pv audio refs windows in join_lines
     ([''# Speaker Business Review Worksheet'', [], ''- Timeline: `'' @ timeline @ ''`'',
       ''- Reference: `'' @ reference @ ''`'', ''- Reference entries: `'' @ int_repr (int (length refs)) @ ''`'',
       ''- Displayed entries: `'' @ int_repr (int (length selected)) @ ''`'',
       ''- Purpose: per-reference context display only; no correctness is assigned by this tool.'']
      @ (case pv_comparison pv of None \<Rightarrow> [] | Some (p, _) \<Rightarrow> [''- Comparison timeline: `'' @ p @ ''`''])
      @ [[]] @ concat (map (block_section pv m) selected)))"

section \<open>The run\<close>

record packet_args =
  pa_timeline :: "string \<times> json"
  pa_reference :: "string \<times> string list"
  pa_comparison :: "(string \<times> json) option"
  pa_only_changed :: bool
  pa_sequence_only :: bool
  pa_by_reference :: bool
  pa_window_sec :: dbl
  pa_windows :: string
  pa_max_chars :: int

definition comparison_of :: "packet_args \<Rightarrow> dbl \<Rightarrow> (string \<times> view_entry list) option res" where
  "comparison_of args audio = (case pa_comparison args of
     None \<Rightarrow> Inr None
   | Some (p, package) \<Rightarrow> rbind (load_view package) (\<lambda>(audio', entries).
       raise_if (D (1 / 1000) < \<bar>audio' - audio\<bar>) (ValueError ''comparison timeline audio duration differs'')
       (Inr (Some (p, entries)))))"

definition render_packet :: "packet_args \<Rightarrow> dbl \<Rightarrow> ref_block list \<Rightarrow> view_entry list
    \<Rightarrow> (string \<times> view_entry list) option \<Rightarrow> span list \<Rightarrow> string" where
  "render_packet args audio refs entries comparison windows =
    (if pa_by_reference args
     then render_by_reference (fst (pa_timeline args)) (fst (pa_reference args)) audio refs
       \<lparr>pv_entries = entries, pv_comparison = comparison, pv_only_changed = pa_only_changed args,
        pv_sequence_only = pa_sequence_only args\<rparr> (Some windows) (pa_max_chars args)
     else render (fst (pa_timeline args)) (fst (pa_reference args)) audio refs entries windows (pa_max_chars args))"

text \<open>\<open>None\<close>: the run does not end.\<close>

definition packet_main :: "packet_args \<Rightarrow> string res option" where
  "packet_main args =
    (case rbind (load_view (snd (pa_timeline args))) (\<lambda>(audio, entries).
        rbind (comparison_of args audio) (\<lambda>comparison.
        raise_if (pa_only_changed args \<and> comparison = None)
          (ValueError ''--only-changed requires --comparison-timeline'') (Inr (audio, entries, comparison)))) of
       Inl e \<Rightarrow> Some (Inl e)
     | Inr (audio, entries, comparison) \<Rightarrow>
         map_option (\<lambda>r. rbind r (\<lambda>windows. Inr (render_packet args audio
           (parse_ref (snd (pa_reference args)) audio) entries comparison windows)))
         (parse_windows (pa_windows args) audio (pa_window_sec args)))"

end
