(* ===== verification/Packet_Properties.thy ===== *)
theory Packet_Properties
  imports Review_Packet
begin

text \<open>
  What \<^verbatim>\<open>speaker_business_review_packet.py\<close> promises: when the loop over the default
  windows ends and that it then covers the audio, explicit windows reorder the reference without
  losing a row, and the two change signatures are related.
\<close>

section \<open>Default windows\<close>

lemma fl_error: "0 < x \<Longrightarrow> x - x / 2 ^ 53 \<le> fl x"
proof -
  assume x: "0 < x"
  let ?u = "2 powi (expo x - 52) :: rat"
  have u: "0 < ?u" by simp
  have "x / ?u - 1 / 2 \<le> of_int (rne (x / ?u))" using rne_bounds[of "x / ?u"] by linarith
  then have "(x / ?u - 1 / 2) * ?u \<le> of_int (rne (x / ?u)) * ?u" using u by (intro mult_right_mono) simp_all
  then have "x - ?u / 2 \<le> fl x" using u by (simp add: fl_pos_eq[OF x] left_diff_distrib)
  moreover have "?u / 2 = 2 powi expo x / 2 ^ 53" by (simp add: power_int_diff)
  moreover have "2 powi expo x / 2 ^ 53 \<le> x / 2 ^ 53" using expo_bounds[OF x] by (intro divide_right_mono) simp_all
  ultimately show ?thesis by linarith
qed

lemma window_progress:
  assumes "0 < val w" "0 \<le> val s" "val s \<le> val w * 2 ^ 50"
  shows "val s + val w / 2 \<le> val (s + w)"
proof -
  let ?x = "val s + val w"
  have x: "0 < ?x" using assms by simp
  have "?x / 2 ^ 53 \<le> (val w * 2 ^ 50 + val w) / 2 ^ 53" using assms(3) by (intro divide_right_mono) simp_all
  also have "\<dots> \<le> val w / 2" using assms(1) by simp
  finally have "?x / 2 ^ 53 \<le> val w / 2" .
  moreover have "val (s + w) = fl ?x" by transfer simp
  ultimately show ?thesis using fl_error[OF x] by linarith
qed

text \<open>A step that moves at all moves by at least half the window length.\<close>

lemma fl_half_step:
  assumes s: "fl s = s" "0 \<le> s" and w: "fl w = w" "0 < w" and moves: "s < fl (s + w)"
  shows "s + w / 2 \<le> fl (s + w)"
proof (cases "s = 0")
  case True
  with w show ?thesis by simp
next
  case False
  let ?x = "s + w" and ?e = "expo s" and ?E = "expo (s + w)"
  let ?u = "2 powi (expo s - 52) :: rat"
  from False s w have pos: "0 < s" "0 < ?x" by simp_all
  have u: "0 < ?u" by simp
  have top: "(2 powi (?e + 1) :: rat) = of_int (2 ^ 53) * ?u" by (rule powi_shift) simp
  obtain a where a: "s = of_int a * ?u" using s(1) fl_pos_eq[OF pos(1)] by metis
  have "of_int a * ?u < of_int (2 ^ 53) * ?u" using expo_bounds(2)[OF pos(1)] by (simp only: a[symmetric] top)
  then have "(of_int a :: rat) < of_int (2 ^ 53)" using u by (simp only: mult_less_cancel_right_pos)
  then have "a + 1 \<le> 2 ^ 53" by (simp only: of_int_less_iff)
  then have "(of_int (a + 1) :: rat) * ?u \<le> of_int (2 ^ 53) * ?u"
    using u by (simp only: of_int_le_iff mult_le_cancel_right_pos)
  moreover have "(of_int (a + 1) :: rat) * ?u = s + ?u" by (subst (2) a) (simp only: of_int_add of_int_1 distrib_right mult_1)
  ultimately have next_binade: "s + ?u \<le> 2 powi (?e + 1)" by (simp only: top)
  have "?e \<le> ?E" using pos(1) w(2) by (intro expo_mono) simp_all
  then consider "?E = ?e" | "?E = ?e + 1" | "?e + 2 \<le> ?E" by linarith
  then have err: "?x - 2 powi (?E - 53) \<le> fl ?x" and far: "?E \<noteq> ?e + 1 \<and> ?E \<noteq> ?e \<Longrightarrow> 2 powi (?E - 1) \<le> w"
    and ulp: "s + ?u \<le> fl ?x"
  proof -
    let ?v = "2 powi (?E - 52) :: rat"
    have v: "0 < ?v" by simp
    have "?x / ?v - 1 / 2 \<le> of_int (rne (?x / ?v))" using rne_bounds[of "?x / ?v"] by linarith
    then have "(?x / ?v - 1 / 2) * ?v \<le> of_int (rne (?x / ?v)) * ?v" using v by (intro mult_right_mono) simp_all
    then have "?x - ?v / 2 \<le> fl ?x" using v by (simp add: fl_pos_eq[OF pos(2)] left_diff_distrib)
    moreover have "?v / 2 = 2 powi (?E - 53)" by (simp add: power_int_diff)
    ultimately show "?x - 2 powi (?E - 53) \<le> fl ?x" by simp
    show "s + ?u \<le> fl ?x"
    proof (cases "?E = ?e")
      case True
      obtain b where b: "fl ?x = of_int b * ?u" using fl_pos_eq[OF pos(2)] True by metis
      have "of_int a * ?u < of_int b * ?u" using moves by (simp only: a[symmetric] b[symmetric])
      then have "(of_int a :: rat) < of_int b" using u by (simp only: mult_less_cancel_right_pos)
      then have "a + 1 \<le> b" by simp
      then have "(of_int (a + 1) :: rat) * ?u \<le> of_int b * ?u"
        using u by (simp only: of_int_le_iff mult_le_cancel_right_pos)
      then show ?thesis by (simp add: a[symmetric] b[symmetric] distrib_right)
    next
      case False
      with \<open>?e \<le> ?E\<close> have "?e + 1 \<le> ?E" by simp
      then have "(2 powi (?e + 1) :: rat) \<le> 2 powi ?E" by (simp only: powi_2_le_iff)
      with next_binade fl_binade(1)[OF pos(2)] show ?thesis by linarith
    qed
    show "2 powi (?E - 1) \<le> w" if "?E \<noteq> ?e + 1 \<and> ?E \<noteq> ?e"
    proof -
      from that \<open>?e \<le> ?E\<close> have "?e + 1 \<le> ?E - 1" by simp
      then have "(2 powi (?e + 1) :: rat) \<le> 2 powi (?E - 1)" by (simp only: powi_2_le_iff)
      moreover have "(2 powi ?E :: rat) = 2 * 2 powi (?E - 1)" by (simp add: power_int_diff)
      ultimately show ?thesis using expo_bounds(2)[OF pos(1)] expo_bounds(1)[OF pos(2)] by linarith
    qed
  qed
  show ?thesis
  proof (cases "?E = ?e + 1 \<or> ?E = ?e")
    case True
    then have "?E - 53 \<le> ?e - 52" by auto
    then have "(2 powi (?E - 53) :: rat) \<le> ?u" by (simp only: powi_2_le_iff)
    with err ulp show ?thesis by (cases "?u \<le> w / 2") linarith+
  next
    case False
    have "(2 powi (?E - 53) :: rat) \<le> 2 powi (?E - 2)" by (simp only: powi_2_le_iff)
    moreover have "(2 powi (?E - 1) :: rat) = 2 * 2 powi (?E - 2)" by (simp add: power_int_diff)
    ultimately show ?thesis using err far False by simp
  qed
qed

lemma half_step: "0 \<le> s \<Longrightarrow> 0 < w \<Longrightarrow> s < s + w \<Longrightarrow> val s + val w / 2 \<le> val (s + w)"
  by transfer (rule fl_half_step)

text \<open>Adding the window length moves every position before the end of the audio.\<close>

definition advances :: "dbl \<Rightarrow> dbl \<Rightarrow> bool" where
  "advances audio w \<longleftrightarrow> (\<forall>s. 0 \<le> s \<longrightarrow> s < audio \<longrightarrow> s < s + w)"

lemma advances_if: "0 < w \<Longrightarrow> val audio \<le> val w * 2 ^ 50 \<Longrightarrow> advances audio w"
  unfolding advances_def
proof (intro allI impI)
  fix s assume w: "0 < w" "val audio \<le> val w * 2 ^ 50" and s: "0 \<le> s" "s < audio"
  then have "val s + val w / 2 \<le> val (s + w)"
    by (intro window_progress) (simp_all add: less_dbl.rep_eq less_eq_dbl.rep_eq zero_dbl.rep_eq)
  then show "s < s + w" using w(1) by (simp add: less_dbl.rep_eq zero_dbl.rep_eq)
qed

lemma window_loop_returns:
  assumes w: "0 < w" "advances audio w"
    and s: "0 \<le> s" "s \<le> audio" "val audio - val s \<le> of_nat n * (val w / 2)"
  shows "\<exists>ws. window_loop audio w s = Some ws \<and> length ws \<le> n \<and> chained fst snd s ws audio \<and>
    list_all (\<lambda>x. snd x \<le> fst x + w) ws"
  using s
proof (induction n arbitrary: s)
  case 0
  then have "val audio \<le> val s" by simp
  with 0 have "s = audio" by (metis less_eq_dbl.rep_eq order_antisym)
  then show ?case by (subst window_loop.simps) simp
next
  case (Suc n)
  show ?case
  proof (cases "s < audio")
    case True
    let ?e = "min audio (s + w)"
    have moves: "s < s + w" using w(2) Suc.prems(1) True by (simp add: advances_def)
    then have step: "val s + val w / 2 \<le> val (s + w)" using Suc.prems(1) w(1) by (intro half_step)
    from True moves have e: "s < ?e" by simp
    have "0 < val w" using w(1) by (simp add: less_dbl.rep_eq zero_dbl.rep_eq)
    have "val audio - val ?e \<le> of_nat n * (val w / 2)"
    proof (cases "audio \<le> s + w")
      case True
      then show ?thesis using \<open>0 < val w\<close> by (simp add: min_def)
    next
      case False
      then show ?thesis using step Suc.prems(3) by (simp add: min_def distrib_right)
    qed
    moreover have "0 \<le> ?e" using e Suc.prems(1) by order
    ultimately obtain ws where ws: "window_loop audio w ?e = Some ws" "length ws \<le> n"
      "chained fst snd ?e ws audio" "list_all (\<lambda>x. snd x \<le> fst x + w) ws"
      using Suc.IH[of ?e] by auto
    then have "window_loop audio w s = Some ((s, ?e) # ws)"
      using True by (subst window_loop.simps) simp
    with ws e show ?thesis by simp
  next
    case False
    with Suc.prems(2) have "s = audio" by simp
    then show ?thesis by (subst window_loop.simps) simp
  qed
qed

text \<open>A position that the window length does not move is never passed: the loop does not end.\<close>

lemma window_loop_diverges:
  assumes "stop + w \<le> stop" "stop < audio" and "s \<le> stop"
  shows "window_loop audio w s = None"
proof -
  let ?P = "\<lambda>audio w s ws. \<not> (stop + w \<le> stop \<and> stop < audio \<and> s \<le> stop)"
  have "?P audio w s ws" if "window_loop audio w s = Some ws" for ws
  proof (rule window_loop.raw_induct[OF _ that, where P = ?P], intro notI)
    fix loop :: "dbl \<Rightarrow> dbl \<Rightarrow> dbl \<Rightarrow> span list option" and audio w s ws
    assume ih: "\<And>audio w s ws. loop audio w s = Some ws \<Longrightarrow> ?P audio w s ws"
      and body: "(if s < audio
        then Option.bind (loop audio w (min audio (s + w))) (\<lambda>ws. Some ((s, min audio (s + w)) # ws))
        else Some []) = Some ws"
      and stop: "stop + w \<le> stop \<and> stop < audio \<and> s \<le> stop"
    from stop have "s < audio" by auto
    with body obtain r where "loop audio w (min audio (s + w)) = Some r"
      by (cases "loop audio w (min audio (s + w))") auto
    from ih[OF this] stop have "\<not> min audio (s + w) \<le> stop" by blast
    moreover have "s + w \<le> stop + w" using stop by (intro dbl_add_mono) simp_all
    ultimately show False using stop by (meson min.coboundedI2 order_trans)
  qed
  with assms show ?thesis by (cases "window_loop audio w s") auto
qed

text \<open>
  C19: the loop over the default windows, for every length of audio and every window length. It
  ends at once without a window when the audio is empty. Otherwise it ends exactly if adding the
  window length moves every position before the end of the audio: then the windows form a
  gap-free chain of proper intervals from 0 to the end of the audio, none longer than the window
  length, at most two per window length. A window length that is not positive never moves, and the
  loop runs forever; a positive one of which \<open>2 ^ 50\<close> reach the end of the audio always does
  (below that, a position can be so large that adding the window length rounds back to it).
\<close>

theorem default_windows_terminate:
  "(audio \<le> 0 \<longrightarrow> parse_windows [] audio w = Some (Inr [])) \<and>
   (0 < audio \<longrightarrow> (if advances audio w
     then \<exists>ws. parse_windows [] audio w = Some (Inr ws) \<and> chained fst snd 0 ws audio \<and>
       list_all (\<lambda>x. snd x \<le> fst x + w) ws \<and> int (length ws) \<le> \<lceil>2 * val audio / val w\<rceil>
     else parse_windows [] audio w = None)) \<and>
   (0 < audio \<and> w \<le> 0 \<longrightarrow> \<not> advances audio w) \<and>
   (0 < w \<and> val audio \<le> val w * 2 ^ 50 \<longrightarrow> advances audio w)"
proof (intro conjI impI)
  assume "audio \<le> 0"
  then show "parse_windows [] audio w = Some (Inr [])"
    unfolding parse_windows_def by (subst window_loop.simps) (simp add: leD)
next
  assume audio: "0 < audio"
  show "if advances audio w
     then \<exists>ws. parse_windows [] audio w = Some (Inr ws) \<and> chained fst snd 0 ws audio \<and>
       list_all (\<lambda>x. snd x \<le> fst x + w) ws \<and> int (length ws) \<le> \<lceil>2 * val audio / val w\<rceil>
     else parse_windows [] audio w = None"
  proof (cases "advances audio w")
    case adv: True
    with audio have pos: "0 < w" by (force simp: advances_def)
    have w: "0 < val w" "0 < val audio" using audio pos by (simp_all add: less_dbl.rep_eq zero_dbl.rep_eq)
    let ?n = "nat \<lceil>2 * val audio / val w\<rceil>"
    have "0 \<le> 2 * val audio / val w" using w by simp
    then have n: "int ?n = \<lceil>2 * val audio / val w\<rceil>" by simp
    have "2 * val audio / val w \<le> of_int (int ?n)" unfolding n by (rule le_of_int_ceiling)
    then have "val audio \<le> of_int (int ?n) * (val w / 2)" using w by (simp add: pos_divide_le_eq)
    then have "val audio \<le> of_nat ?n * (val w / 2)" by (simp only: of_int_of_nat_eq)
    then have "val audio - val 0 \<le> of_nat ?n * (val w / 2)" by (simp add: zero_dbl.rep_eq)
    from window_loop_returns[OF pos adv order.refl less_imp_le[OF audio] this] obtain ws where
      ws: "window_loop audio w 0 = Some ws" "length ws \<le> ?n" "chained fst snd 0 ws audio"
      "list_all (\<lambda>x. snd x \<le> fst x + w) ws" by blast
    moreover from ws(2) have "int (length ws) \<le> int ?n" by (simp only: of_nat_le_iff)
    ultimately show ?thesis unfolding n if_P[OF adv] by (intro exI[of _ ws]) (simp add: parse_windows_def)
  next
    case False
    then obtain stop where "0 \<le> stop" "stop < audio" "stop + w \<le> stop" by (auto simp: advances_def not_less)
    with window_loop_diverges[of stop w audio 0] False show ?thesis by (simp add: parse_windows_def)
  qed
next
  assume "0 < audio \<and> w \<le> 0"
  then show "\<not> advances audio w" by (auto simp: advances_def intro!: exI[of _ 0])
next
  assume "0 < w \<and> val audio \<le> val w * 2 ^ 50"
  then show "advances audio w" by (simp add: advances_if)
qed

theorem default_windows_terminate_witness:
  "(\<exists>ws. parse_windows [] (D 1500) (D 600) = Some (Inr ws) \<and> chained fst snd 0 ws (D 1500)) \<and>
   parse_windows [] (D 1500) 0 = None \<and> parse_windows [] 0 0 = Some (Inr [])"
proof -
  have "0 < D 600" "0 < D 1500" "val (D 1500) \<le> val (D 600) * 2 ^ 50" by code_simp+
  with default_windows_terminate[of "D 1500" "D 600"] default_windows_terminate[of "D 1500" 0]
    default_windows_terminate[of 0 0]
  show ?thesis by auto
qed

section \<open>Order of the reference\<close>

lemma emit_windows:
  assumes "distinct (map fst out)" "set out \<subseteq> set (enumerate 0 refs)"
  shows "distinct (map fst (foldl (emit_window refs) out ws)) \<and>
    set (foldl (emit_window refs) out ws) \<subseteq> set (enumerate 0 refs)"
  using assms
proof (induction ws arbitrary: out)
  case (Cons w ws)
  obtain s e where w: "w = (s, e)" by (cases w)
  let ?new = "filter (\<lambda>(i, b). i \<notin> set (map fst out) \<and> in_window s e b) (enumerate 0 refs)"
  have "distinct (map fst (enumerate 0 refs))" by simp
  then have "distinct (map fst ?new)" by (rule distinct_map_filter)
  moreover have "set (map fst out) \<inter> set (map fst ?new) = {}"
  proof (rule equals0I)
    fix i assume i: "i \<in> set (map fst out) \<inter> set (map fst ?new)"
    then obtain p where "p \<in> set ?new" "i = fst p" by auto
    then have "i \<notin> set (map fst out)" by (auto simp: case_prod_unfold)
    with i show False by blast
  qed
  ultimately have "distinct (map fst (out @ ?new))"
    using Cons.prems(1) by (simp only: map_append distinct_append simp_thms)
  then show ?case using Cons.prems(2) Cons.IH[of "out @ ?new"] by (auto simp: emit_window_def w)
qed simp

lemma order_references_mset: "mset (order_references refs windows) = mset refs"
proof (cases windows)
  case (Some ws)
  let ?out = "foldl (emit_window refs) [] ws"
  let ?rest = "filter (\<lambda>(i, b). i \<notin> set (map fst ?out)) (enumerate 0 refs)"
  from emit_windows[of "[]" refs ws] have out: "distinct (map fst ?out)" "set ?out \<subseteq> set (enumerate 0 refs)"
    by simp_all
  have enum: "distinct (map fst (enumerate 0 refs))" by simp
  have dist: "distinct (?out @ ?rest)"
    using out(1) distinct_enumerate[of 0 refs] by (force simp: distinct_map)
  have old: "p \<in> set ?out" if p: "p \<in> set (enumerate 0 refs)" "fst p \<in> set (map fst ?out)" for p
  proof -
    from p(2) obtain q where q: "q \<in> set ?out" "fst q = fst p" by auto
    with out(2) p(1) have "q = p" by (cases q; cases p) (auto simp: in_set_enumerate_eq)
    with q show ?thesis by simp
  qed
  have "set (?out @ ?rest) = set (enumerate 0 refs)"
  proof (rule subset_antisym)
    show "set (enumerate 0 refs) \<subseteq> set (?out @ ?rest)"
    proof
      fix p assume p: "p \<in> set (enumerate 0 refs)"
      then show "p \<in> set (?out @ ?rest)"
        using old[OF p] by (cases "fst p \<in> set (map fst ?out)") (simp_all add: case_prod_unfold)
    qed
    show "set (?out @ ?rest) \<subseteq> set (enumerate 0 refs)" using out(2) by auto
  qed
  then have "mset (?out @ ?rest) = mset (enumerate 0 refs)"
    by (rule iffD1[OF set_eq_iff_mset_eq_distinct[OF dist distinct_enumerate]])
  then have "mset (map snd (?out @ ?rest)) = mset (map snd (enumerate 0 refs))" by (simp only: mset_map)
  then show ?thesis by (simp only: order_references_def Some option.case Let_def map_append map_snd_enumerate)
qed (simp add: order_references_def)

text \<open>
  C20: explicit windows control the order of the review and not its completeness: every reference
  row appears exactly once; a row is left out only when only changed rows were asked for, and then
  exactly the rows without a recorded change.
\<close>

theorem references_retained:
  "mset (order_references refs windows) = mset refs \<and>
   (if pv_only_changed pv
    then map fst (selected_blocks pv audio refs windows) =
      filter (\<lambda>b. (let (s, e) = evidence_window b audio in block_changed pv s e) = Some True)
        (order_references refs windows)
    else mset (map fst (selected_blocks pv audio refs windows)) = mset refs)"
  using order_references_mset[of refs windows]
  by (auto simp: selected_blocks_def filter_map o_def case_prod_unfold Let_def simp del: mset_map)

section \<open>Change signatures\<close>

lemma merge_equal_adjacent: "merge_runs (\<lambda>x. x) (=) (\<lambda>p _. p) xs = remdups_adj xs"
proof (induction xs rule: rev_induct)
  case IH: (snoc x xs)
  show ?case
  proof (cases xs rule: rev_cases)
    case (snoc ys y)
    then have "remdups_adj xs = butlast (remdups_adj xs) @ [y]"
      by (metis append_butlast_last_id last_remdups_adj last_snoc remdups_adj_Nil_iff snoc_eq_iff_butlast)
    then have r: "rev (merge_runs (\<lambda>x. x) (=) (\<lambda>p _. p) xs) = y # rev (butlast (remdups_adj xs))"
      using IH by (metis rev.simps(2) rev_rev_ident rev_append append_Nil rev_singleton_conv append_Cons)
    have "merge_runs (\<lambda>x. x) (=) (\<lambda>p _. p) (xs @ [x]) = (if y = x then remdups_adj xs else remdups_adj xs @ [x])"
      unfolding merge_runs_snoc r using IH r by (auto simp: merge_step_def rev_eq_Cons_iff)
    moreover have "remdups_adj (xs @ [x]) = (if y = x then remdups_adj xs else remdups_adj xs @ [x])"
      by (simp add: snoc remdups_adj_append_two)
    ultimately show ?thesis by simp
  qed (simp add: merge_runs_def merge_step_def)
qed simp

text \<open>
  the speaker sequence is the assignment signature with everything but the labels dropped and
  equal neighbours collapsed; so a change seen in the sequences is always a change of assignments.
\<close>

lemma sequence_signature_coarser:
  "speaker_sequence_signature entries s e =
     remdups_adj (map (\<lambda>(a, b, who, u). who) (assignment_signature entries s e)) \<and>
   \<not> (block_changed (pv\<lparr>pv_sequence_only := True\<rparr>) s e = Some True \<and>
      block_changed (pv\<lparr>pv_sequence_only := False\<rparr>) s e \<noteq> Some True)"
proof -
  have seq: "speaker_sequence_signature vs s e =
      remdups_adj (map (\<lambda>(a, b, who, u). who) (assignment_signature vs s e))" for vs
    by (simp add: speaker_sequence_signature_def assignment_signature_def merge_equal_adjacent o_def)
  then show ?thesis by (auto simp: block_changed_def split: option.splits)
qed

section \<open>Text lengths\<close>

text \<open>A shortened text is two characters longer than the maximum asked for.\<close>

lemma compact_text_exceeds:
  assumes "0 < m" and "m < int (length (join_with '' '' (split_words t)))"
  shows "int (length (compact_text t m)) = m + 2"
  using assms by (simp add: compact_text_def Let_def)

end
