(* ===== verification/Residual_Sources.thy ===== *)
theory Residual_Sources
  imports Py_Text Frozen_Evidence
begin

text \<open>
  \<^verbatim>\<open>tools/verify/py/speaker_residual_evidence_packet.py\<close>, raw evidence tables: VAD windows and
  endpoint states, retained identity references and gallery queries, each checked row by row.
  Tables arrive as \<^verbatim>\<open>csv.DictReader\<close> yields them; the surplus of a long row, which the reader
  files under the key \<^verbatim>\<open>None\<close>, is kept under the empty key here (no column has that name).
  The tolerance \<^verbatim>\<open>1e-9\<close> of the checks is \<open>EPSILON\<close>.
\<close>

section \<open>Numbers\<close>

text \<open>\<^verbatim>\<open>float(text)\<close> where the code tests the result with \<^verbatim>\<open>math.isfinite\<close>: None if it is not.\<close>

definition read_float :: "string \<Rightarrow> dbl option res" where
  "read_float s = (case float_str s of Inr x \<Rightarrow> Inr (Some x)
     | Inl e \<Rightarrow> if e = OutOfModel then Inr None else Inl e)"

definition csv_number :: "csv_row \<Rightarrow> string \<Rightarrow> dbl option res" where
  "csv_number row k = rbind (csv_item row k) (\<lambda>v. case v of Some s \<Rightarrow> read_float s | None \<Rightarrow> Inl TypeError)"

text \<open>
  A sample index in seconds: the correctly rounded quotient of two integers.  The division of Python
  raises on a rate of zero, which never reaches this code: the export refuses a sample rate that is not
  positive first.
\<close>

definition sample_sec :: "int \<Rightarrow> int \<Rightarrow> dbl" where
  "sample_sec n rate = D (of_int n / of_int rate)"

definition off_clock :: "dbl \<Rightarrow> int \<Rightarrow> int \<Rightarrow> bool" where
  "off_clock x n rate \<longleftrightarrow> EPSILON < \<bar>x - sample_sec n rate\<bar>"

section \<open>Raw tables\<close>

record raw_evidence =
  rw_columns :: "string list"
  rw_rows :: "csv_row list"

definition VAD_WINDOW_COLUMNS :: "string list" where
  "VAD_WINDOW_COLUMNS = [''evidence_id'', ''start_sample'', ''end_sample'', ''start_sec'', ''end_sec'',
     ''speech_probability'']"

definition VAD_STATE_COLUMNS :: "string list" where
  "VAD_STATE_COLUMNS = [''evidence_id'', ''final'', ''in_speech'', ''observed_until_sample'',
     ''observed_until_sec'', ''active_start_sample'', ''active_start_sec'',
     ''active_stable_until_sample'', ''active_stable_until_sec'',
     ''silence_stable_until_sample'', ''silence_stable_until_sec'']"

definition IDENTITY_REFERENCE_COLUMNS :: "string list" where
  "IDENTITY_REFERENCE_COLUMNS = [''evidence_id'', ''local_speaker'', ''epoch_start_sec'', ''speaker_id'',
     ''source_start_sec'', ''source_end_sec'', ''embedding_start_sample'', ''embedding_end_sample'',
     ''embedding_start_sec'', ''embedding_end_sec'', ''quality'']"

definition GALLERY_INDEPENDENCE_COLUMNS :: "string list" where
  "GALLERY_INDEPENDENCE_COLUMNS = [''evidence_id'', ''kind'', ''text_id'', ''source_start'', ''source_end'',
     ''start'', ''end'', ''embedding_available'', ''session_gallery_complete'',
     ''robust_gallery_complete'', ''session_scores'', ''robust_scores'',
     ''query_embedding_start_sample'', ''query_embedding_end_sample'',
     ''nonoverlap_embedding_available'', ''nonoverlap_session_gallery_complete'',
     ''nonoverlap_robust_gallery_complete'', ''nonoverlap_session_scores'',
     ''nonoverlap_robust_scores'', ''intersecting_reference_ids'']"

definition load_raw_tsv :: "string \<Rightarrow> csv_table \<Rightarrow> string list \<Rightarrow> raw_evidence res" where
  "load_raw_tsv name t expected =
    raise_if (csv_fields t \<noteq> expected) (ValueError (''raw evidence columns differ for '' @ name))
    (raise_if (csv_rows t = []) (ValueError (''raw evidence is empty: '' @ name))
     (Inr \<lparr>rw_columns = expected, rw_rows = csv_rows t\<rparr>))"

section \<open>VAD windows\<close>

text \<open>One row of the loop: the end of the previous window goes in, the end of this one comes out.\<close>

definition vad_window_step :: "int \<Rightarrow> int \<Rightarrow> nat \<times> csv_row \<Rightarrow> int res" where
  "vad_window_step rate prior_end = (\<lambda>(i, row).
    rbind (csv_item row ''evidence_id'') (\<lambda>eid.
    raise_if (eid \<noteq> Some (''vad_window:'' @ int_repr (int i)))
      (ValueError ''VAD window evidence IDs are not contiguous'')
    (rbind (csv_int row ''start_sample'') (\<lambda>s. rbind (csv_int row ''end_sample'') (\<lambda>e.
     rbind (csv_number row ''start_sec'') (\<lambda>ss. rbind (csv_number row ''end_sec'') (\<lambda>es.
     rbind (csv_number row ''speech_probability'') (\<lambda>p.
     raise_if (s \<noteq> prior_end \<or> e \<le> s) (ValueError ''VAD window sample bounds are not contiguous'')
     (case (ss, es, p) of
        (Some a, Some b, Some q) \<Rightarrow>
          raise_if (off_clock a s rate \<or> off_clock b e rate)
            (ValueError ''VAD window time differs from sample bounds'')
          (raise_if (\<not> (0 \<le> q \<and> q \<le> 1)) (ValueError ''VAD window probability is outside [0,1]'')
           (Inr e))
      | _ \<Rightarrow> Inl (ValueError ''VAD window evidence contains a non-finite value''))))))))))"

definition verify_vad_window_evidence :: "raw_evidence \<Rightarrow> int \<Rightarrow> unit res" where
  "verify_vad_window_evidence ev rate =
     rbind (rfold (vad_window_step rate) 0 (enumerate 0 (rw_rows ev))) (\<lambda>_. Inr ())"

section \<open>VAD endpoint states\<close>

definition check_frontier :: "int \<Rightarrow> int \<Rightarrow> csv_row \<Rightarrow> string \<times> string \<Rightarrow> unit res" where
  "check_frontier rate observed row = (\<lambda>(sample_field, sec_field).
    rbind (csv_int row sample_field) (\<lambda>frontier. rbind (csv_number row sec_field) (\<lambda>sec.
    raise_if (observed < frontier) (ValueError ''VAD state exceeds its observed frontier'')
    (case sec of None \<Rightarrow> Inl (ValueError ''VAD state time is not finite'')
     | Some x \<Rightarrow>
         raise_if (frontier < - 1 \<or>
             EPSILON < \<bar>x - (if frontier = - 1 then - 1 else sample_sec frontier rate)\<bar>)
           (ValueError ''VAD state time differs from sample frontier'') (Inr ())))))"

definition frontier_fields :: "(string \<times> string) list" where
  "frontier_fields = [(''active_start_sample'', ''active_start_sec''),
     (''active_stable_until_sample'', ''active_stable_until_sec''),
     (''silence_stable_until_sample'', ''silence_stable_until_sec'')]"

definition vad_state_step :: "int \<Rightarrow> nat \<Rightarrow> int \<Rightarrow> nat \<times> csv_row \<Rightarrow> int res" where
  "vad_state_step rate n prior = (\<lambda>(i, row).
    rbind (csv_item row ''evidence_id'') (\<lambda>eid.
    raise_if (eid \<noteq> Some (''vad_state:'' @ int_repr (int i)))
      (ValueError ''VAD state evidence IDs are not contiguous'')
    (rbind (csv_item row ''final'') (\<lambda>fin.
     raise_if (fin \<notin> {Some ''true'', Some ''false''}) (ValueError ''VAD final state is not boolean'')
     (raise_if ((fin = Some ''true'') \<noteq> (i + 1 = n)) (ValueError ''VAD final state is not the last observation'')
     (rbind (csv_item row ''in_speech'') (\<lambda>sp.
      raise_if (sp \<notin> {Some ''true'', Some ''false''}) (ValueError ''VAD speech state is not boolean'')
      (rbind (csv_int row ''observed_until_sample'') (\<lambda>observed.
       rbind (csv_number row ''observed_until_sec'') (\<lambda>sec.
       raise_if (observed < prior) (ValueError ''VAD observed frontiers are not monotonic'')
       (case sec of None \<Rightarrow> Inl (ValueError ''VAD observed time is not finite'')
        | Some x \<Rightarrow>
            raise_if (off_clock x observed rate) (ValueError ''VAD observed time differs from sample frontier'')
            (rbind (rmap (check_frontier rate observed row) frontier_fields) (\<lambda>_. Inr observed)))))))))))))"

definition verify_vad_state_evidence :: "raw_evidence \<Rightarrow> int \<Rightarrow> unit res" where
  "verify_vad_state_evidence ev rate =
     rbind (rfold (vad_state_step rate (length (rw_rows ev))) (- 1) (enumerate 0 (rw_rows ev))) (\<lambda>_. Inr ())"

section \<open>Cells of the gallery table\<close>

definition parse_evidence_bool :: "string option \<Rightarrow> string \<Rightarrow> bool res" where
  "parse_evidence_bool v field =
     raise_if (v \<notin> {Some ''0'', Some ''1''}) (ValueError (field @ '' is not a zero/one boolean''))
       (Inr (v = Some ''1''))"

definition score_item :: "string \<Rightarrow> string list \<Rightarrow> string \<Rightarrow> string list res" where
  "score_item field seen cell =
    (let (speaker_id, raw) = (case rpartition CHR '':'' cell of Some p \<Rightarrow> p | None \<Rightarrow> ([], cell)) in
     rbind (read_float raw) (\<lambda>score.
       raise_if (speaker_id = [] \<or> speaker_id \<in> set seen \<or> score = None)
         (ValueError (field @ '' contains an invalid score'')) (Inr (speaker_id # seen))))"

definition parse_evidence_scores :: "string option \<Rightarrow> string \<Rightarrow> unit res" where
  "parse_evidence_scores v field = (case v of None \<Rightarrow> Inr ()
     | Some s \<Rightarrow> if s = [] then Inr ()
         else rbind (rfold (score_item field) [] (split_on CHR '','' s)) (\<lambda>_. Inr ()))"

section \<open>Retained identity references\<close>

text \<open>\<^verbatim>\<open>re.fullmatch(r"identity_ref:(\d+):(\d+):(\d+)", id)\<close> and the integers of its groups.\<close>

definition digit_text :: "string \<Rightarrow> bool" where
  "digit_text s \<longleftrightarrow> s \<noteq> [] \<and> list_all is_digit s"

definition identity_ref_key :: "string \<Rightarrow> (int \<times> int \<times> int) option" where
  "identity_ref_key s = (case split_on CHR '':'' s of
     [p, a, b, c] \<Rightarrow> if p = ''identity_ref'' \<and> digit_text a \<and> digit_text b \<and> digit_text c
       then Some (digits_val a, digits_val b, digits_val c) else None
   | _ \<Rightarrow> None)"

definition identity_evidence_id :: "csv_row \<Rightarrow> string res" where
  "identity_evidence_id row = rbind (csv_item row ''evidence_id'') (\<lambda>v. case v of
     Some s \<Rightarrow> Inr s | None \<Rightarrow> Inl TypeError)"

type_synonym reference_bounds = "(string, int \<times> int) pydict"

text \<open>The numeric checks of a row; the sample bounds of its embedding.\<close>

definition reference_values :: "int \<Rightarrow> csv_row \<Rightarrow> (int \<times> int) res" where
  "reference_values rate row =
    rbind (csv_number row ''epoch_start_sec'') (\<lambda>v1. rbind (csv_number row ''source_start_sec'') (\<lambda>v2.
    rbind (csv_number row ''source_end_sec'') (\<lambda>v3.
    rbind (csv_int row ''embedding_start_sample'') (\<lambda>a. rbind (csv_int row ''embedding_end_sample'') (\<lambda>b.
    rbind (csv_number row ''embedding_start_sec'') (\<lambda>v4. rbind (csv_number row ''embedding_end_sec'') (\<lambda>v5.
    rbind (csv_number row ''quality'') (\<lambda>v6.
    case (v1, v2, v3, v4, v5, v6) of
      (Some epoch, Some s, Some e, Some es, Some ee, Some quality) \<Rightarrow>
        raise_if (epoch < 0 \<or> s < epoch - D (1 / 1000000) \<or> e \<le> s \<or> a < 0 \<or> b \<le> a \<or> quality < 0)
          (ValueError ''identity reference bounds are invalid'')
        (raise_if (off_clock es a rate \<or> off_clock ee b rate)
          (ValueError ''identity reference sample/time bounds differ'')
        (raise_if (es < s - D (1 / 1000000) \<or> e + D (1 / 1000000) < ee)
          (ValueError ''identity embedding lies outside its source'') (Inr (a, b))))
    | _ \<Rightarrow> Inl (ValueError ''identity reference contains a non-finite value'')))))))))"

definition identity_reference_step ::
  "int \<Rightarrow> reference_bounds \<times> (int \<times> int \<times> int) option \<Rightarrow> csv_row
     \<Rightarrow> (reference_bounds \<times> (int \<times> int \<times> int) option) res" where
  "identity_reference_step rate = (\<lambda>(refs, prior) row.
    rbind (identity_evidence_id row) (\<lambda>eid. case identity_ref_key eid of
      None \<Rightarrow> Inl (ValueError ''identity reference ID is invalid or duplicated'')
    | Some key \<Rightarrow>
        raise_if (map_of refs eid \<noteq> None) (ValueError ''identity reference ID is invalid or duplicated'')
        (raise_if (case prior of None \<Rightarrow> False | Some k \<Rightarrow> key \<le> k)
          (ValueError ''identity references are not ordered'')
        (rbind (csv_int row ''local_speaker'') (\<lambda>spk. rbind (csv_item row ''speaker_id'') (\<lambda>sid.
         raise_if (spk \<noteq> fst key \<or> sid \<in> {None, Some []}) (ValueError ''identity reference owner is invalid'')
         (rbind (reference_values rate row) (\<lambda>bounds.
          Inr (dset eid bounds refs, Some key)))))))))"

definition verify_identity_references :: "raw_evidence \<Rightarrow> int \<Rightarrow> reference_bounds res" where
  "verify_identity_references ev rate =
     rbind (rfold (identity_reference_step rate) ([], None) (rw_rows ev)) (\<lambda>(refs, _). Inr refs)"

section \<open>Gallery queries\<close>

definition bool_cell :: "csv_row \<Rightarrow> string \<Rightarrow> bool res" where
  "bool_cell row field = rbind (csv_item row field) (\<lambda>v. parse_evidence_bool v field)"

definition score_cell :: "csv_row \<Rightarrow> string \<Rightarrow> unit res" where
  "score_cell row field = rbind (csv_item row field) (\<lambda>v. parse_evidence_scores v field)"

text \<open>Bounds, flags and scores of a query: whether it has an embedding, and its samples.\<close>

definition query_span_ok :: "csv_row \<Rightarrow> unit res" where
  "query_span_ok row = rbind (csv_number row ''start'') (\<lambda>s. rbind (csv_number row ''end'') (\<lambda>e.
     case (s, e) of
       (Some a, Some b) \<Rightarrow> raise_if (a < 0 \<or> b \<le> a) (ValueError ''gallery query bounds are invalid'') (Inr ())
     | _ \<Rightarrow> Inl (ValueError ''gallery query bounds are invalid'')))"

definition query_samples :: "csv_row \<Rightarrow> (bool \<times> int \<times> int) res" where
  "query_samples row =
    rbind (bool_cell row ''embedding_available'') (\<lambda>avail.
    rbind (bool_cell row ''session_gallery_complete'') (\<lambda>_.
    rbind (bool_cell row ''robust_gallery_complete'') (\<lambda>_.
    rbind (bool_cell row ''nonoverlap_embedding_available'') (\<lambda>nonoverlap.
    rbind (bool_cell row ''nonoverlap_session_gallery_complete'') (\<lambda>_.
    rbind (bool_cell row ''nonoverlap_robust_gallery_complete'') (\<lambda>_.
    raise_if (avail \<noteq> nonoverlap) (ValueError ''inclusive/nonoverlap embedding availability differs'')
    (rbind (rmap (score_cell row) [''session_scores'', ''robust_scores'', ''nonoverlap_session_scores'',
        ''nonoverlap_robust_scores'']) (\<lambda>_.
     rbind (csv_int row ''query_embedding_start_sample'') (\<lambda>a.
     rbind (csv_int row ''query_embedding_end_sample'') (\<lambda>b.
     if avail
     then raise_if (a < 0 \<or> b \<le> a) (ValueError ''gallery query sample bounds are invalid'') (Inr (avail, a, b))
     else raise_if (a \<noteq> 0 \<or> b \<noteq> 0) (ValueError ''unavailable gallery query has sample bounds'')
       (Inr (avail, a, b))))))))))))"

definition listed_references :: "csv_row \<Rightarrow> string list res" where
  "listed_references row = rbind (csv_item row ''intersecting_reference_ids'') (\<lambda>v. case v of
     None \<Rightarrow> Inl AttributeError
   | Some s \<Rightarrow> Inr (filter (\<lambda>p. p \<noteq> []) (split_on CHR '','' s)))"

definition expected_references :: "reference_bounds \<Rightarrow> bool \<times> int \<times> int \<Rightarrow> string list" where
  "expected_references refs = (\<lambda>(avail, a, b). if avail
     then map fst (filter (\<lambda>(_, s, e). max a s < min b e) refs) else [])"

definition gallery_step :: "reference_bounds \<Rightarrow> string list \<Rightarrow> csv_row \<Rightarrow> string list res" where
  "gallery_step refs seen row =
    rbind (csv_item row ''evidence_id'') (\<lambda>eid. rbind (csv_item row ''kind'') (\<lambda>kind.
    case eid of None \<Rightarrow> Inl (ValueError ''gallery query ID is invalid or duplicated'')
    | Some q \<Rightarrow>
      raise_if (q = [] \<or> q \<in> set seen \<or> kind \<in> {None, Some []})
        (ValueError ''gallery query ID is invalid or duplicated'')
      (rbind (query_span_ok row) (\<lambda>_. rbind (query_samples row) (\<lambda>query.
       rbind (listed_references row) (\<lambda>listed.
       raise_if (\<not> distinct listed) (ValueError ''gallery query repeats an intersecting reference'')
       (raise_if (listed \<noteq> expected_references refs query)
         (ValueError ''gallery query/reference intersections differ'') (Inr (q # seen)))))))))"

definition verify_gallery_independence_evidence :: "raw_evidence \<Rightarrow> reference_bounds \<Rightarrow> unit res" where
  "verify_gallery_independence_evidence ev refs =
     rbind (rfold (gallery_step refs) [] (rw_rows ev)) (\<lambda>_. Inr ())"

end
