(* ===== verification/Residual_Timeline.thy ===== *)
theory Residual_Timeline
  imports Residual_Sources Review_Packet
begin

text \<open>
  \<^verbatim>\<open>tools/verify/py/speaker_residual_evidence_packet.py\<close>, contexts and clock: the context table,
  the reference transcript, the timeline and its tracks, Sortformer frames and segments, the check
  that the primary track is what the frames produce, and the identity epochs of the diarization
  track.  Files arrive as parsed JSON, tables, or lists of lines; \<^verbatim>\<open>csv.reader\<close> on one line is a
  parameter.
\<close>

section \<open>Contexts\<close>

definition SERIALIZED_FRAME_CONTIGUITY_SEC :: dbl where
  "SERIALIZED_FRAME_CONTIGUITY_SEC = D (2 / 1000000)"

definition CONTEXT_COLUMNS :: "string list" where
  "CONTEXT_COLUMNS = [''context_id'', ''start_sec'', ''end_sec'', ''focus_refs'', ''control_refs'']"

definition TRACK_KINDS :: "string list" where
  "TRACK_KINDS = [''diarization'', ''primary_speaker'', ''asr'', ''vad'', ''align'', ''speaker_voiceprint'',
     ''business_speaker'']"

record packet_context =
  cx_id :: string
  cx_start :: dbl
  cx_end :: dbl
  cx_focus :: "string list"
  cx_control :: "string list"

text \<open>\<^verbatim>\<open>REFERENCE_ID_RE\<close>: four digits after an optional prefix.\<close>

definition normalize_reference_id :: "string \<Rightarrow> string res" where
  "normalize_reference_id v =
    (let s = strip v; ds = (if has_prefix ''ref-'' s then drop 4 s else s) in
     if length ds = 4 \<and> list_all is_digit ds then Inr (''ref-'' @ ds)
     else Inl (ValueError (''invalid reference ID: '' @ v)))"

definition parse_reference_list :: "string \<Rightarrow> string list res" where
  "parse_reference_list v = (if strip v = [] then Inr []
     else rbind (rmap normalize_reference_id (split_on CHR '','' v)) (\<lambda>ids.
       raise_if (\<not> distinct ids) (ValueError ''context contains duplicate reference IDs'') (Inr ids)))"

text \<open>A line_cell on which a \<^verbatim>\<open>str\<close> method is called.\<close>

definition csv_str :: "csv_row \<Rightarrow> string \<Rightarrow> string res" where
  "csv_str row k = rbind (csv_item row k) (\<lambda>v. case v of Some s \<Rightarrow> Inr s | None \<Rightarrow> Inl AttributeError)"

definition context_of :: "csv_row \<Rightarrow> packet_context res" where
  "context_of row =
    rbind (rbind (csv_str row ''context_id'') normalize_reference_id) (\<lambda>cid.
    rbind (csv_float row ''start_sec'') (\<lambda>s. rbind (csv_float row ''end_sec'') (\<lambda>e.
    rbind (rbind (csv_str row ''focus_refs'') parse_reference_list) (\<lambda>focus.
    rbind (rbind (csv_str row ''control_refs'') parse_reference_list) (\<lambda>control.
    raise_if (s < 0 \<or> e \<le> s) (ValueError (''invalid context bounds: '' @ cid))
    (raise_if (focus = []) (ValueError (''context has no focus reference: '' @ cid))
    (raise_if (set focus \<inter> set control \<noteq> {}) (ValueError (''focus/control overlap: '' @ cid))
    (Inr \<lparr>cx_id = cid, cx_start = s, cx_end = e, cx_focus = focus, cx_control = control\<rparr>))))))))"

definition context_order :: "packet_context \<Rightarrow> dbl \<times> dbl \<times> string" where
  "context_order c = (cx_start c, cx_end c, cx_id c)"

definition load_contexts :: "csv_table \<Rightarrow> packet_context list res" where
  "load_contexts t =
    raise_if (csv_fields t \<noteq> CONTEXT_COLUMNS)
      (ValueError (''context TSV columns must be exactly: '' @ join_with '','' CONTEXT_COLUMNS))
    (rbind (rmap context_of (csv_rows t)) (\<lambda>contexts.
     raise_if (contexts = []) (ValueError ''context TSV is empty'')
     (raise_if (\<not> distinct (map cx_id contexts)) (ValueError ''context IDs are not unique'')
     (raise_if (contexts \<noteq> sort_key context_order contexts)
       (ValueError ''contexts are not in chronological order'') (Inr contexts)))))"

section \<open>Reference transcript\<close>

text \<open>
  The loop over the lines and the blocks it makes are those of the review packet
  (\<open>ref_line\<close>, \<open>ref_blocks\<close>), with the same timestamp pattern.
\<close>

definition load_reference :: "string list \<Rightarrow> dbl \<Rightarrow> ref_block list res" where
  "load_reference lines audio_sec =
    (let blocks = parse_ref lines audio_sec in
     raise_if (blocks = []) (ValueError ''reference transcript is empty'') (Inr blocks))"

section \<open>Intersection\<close>

definition interval_intersects :: "dbl \<Rightarrow> dbl \<Rightarrow> dbl \<Rightarrow> dbl \<Rightarrow> bool" where
  "interval_intersects s e os oe = (if s < e then EPSILON < min e oe - max s os
     else os - EPSILON \<le> s \<and> s < oe + EPSILON)"

definition block_intersects :: "ref_block \<Rightarrow> packet_context \<Rightarrow> bool" where
  "block_intersects b c \<longleftrightarrow> interval_intersects (rb_start b) (rb_end b) (cx_start c) (cx_end c) \<or>
     (cx_start c - EPSILON \<le> rb_start b \<and> rb_start b < cx_end c + EPSILON)"

definition entry_intersects :: "json \<Rightarrow> dbl \<Rightarrow> dbl \<Rightarrow> bool res" where
  "entry_intersects v s e = rbind (float_get v ''start'' 0) (\<lambda>a. rbind (float_get v ''end'' a) (\<lambda>b.
     Inr (interval_intersects a b s e)))"

section \<open>Timeline and manifest\<close>

type_synonym kind_entries = "(string, json list) pydict"

definition add_packet_track :: "kind_entries \<Rightarrow> json \<Rightarrow> kind_entries res" where
  "add_packet_track acc v = (case v of
     JObj d \<Rightarrow> (case get d ''kind'' of
       JStr kind \<Rightarrow>
         raise_if (map_of acc kind \<noteq> None) (ValueError (''duplicate timeline track: '' @ kind))
         (case dget d ''entries'' (JArr []) of
            JArr entries \<Rightarrow> Inr (dset kind entries acc)
          | _ \<Rightarrow> Inl (ValueError (''timeline track entries are not a list: '' @ kind)))
     | _ \<Rightarrow> Inr acc)
   | _ \<Rightarrow> Inr acc)"

definition timeline_and_tracks :: "json \<Rightarrow> (obj \<times> kind_entries) res" where
  "timeline_and_tracks package = (case package of
     JObj p \<Rightarrow> (case dget p ''timeline'' package of
       JObj t \<Rightarrow> rbind (py_iter (dget t ''tracks'' (JArr []))) (\<lambda>items. rbind (rfold add_packet_track [] items) (\<lambda>tracks.
         let missing = filter (\<lambda>k. map_of tracks k = None) TRACK_KINDS in
         raise_if (missing \<noteq> []) (ValueError (''timeline tracks missing: '' @ join_with '','' missing))
         (case get t ''comprehensive'' of
            JArr _ \<Rightarrow> Inr (t, tracks)
          | _ \<Rightarrow> Inl (ValueError ''timeline comprehensive view is not a list''))))
     | _ \<Rightarrow> Inl (ValueError ''artifact does not contain a timeline object''))
   | _ \<Rightarrow> Inl (ValueError ''artifact package is not an object''))"

text \<open>\<^verbatim>\<open>tracks[kind]\<close>; present for every kind of \<open>TRACK_KINDS\<close>.\<close>

definition track :: "kind_entries \<Rightarrow> string \<Rightarrow> json list res" where
  "track tracks kind = ditem tracks kind (KeyError kind)"

definition verify_artifact_manifest :: "string \<Rightarrow> json \<Rightarrow> obj \<Rightarrow> obj res" where
  "verify_artifact_manifest actual_sha256 manifest package = (case manifest of
     JObj m \<Rightarrow> rbind (vget (dget m ''artifact'' (JObj [])) ''sha256'' JNull) (\<lambda>expected.
       raise_if (\<not> py_eq (JStr actual_sha256) expected)
         (ValueError ''artifact SHA-256 differs from its manifest'')
       (rbind (vget (dget package ''meta'' (JObj [])) ''resolved_config_sha256'' JNull) (\<lambda>config.
        raise_if (truthy config \<and> \<not> py_eq config (get m ''resolved_config_sha256''))
          (ValueError ''resolved configuration identity differs'') (Inr m))))
   | _ \<Rightarrow> Inl (ValueError ''artifact manifest is not an object''))"

end
