(* ===== verification/Residual_Frames.thy ===== *)
theory Residual_Frames
  imports Residual_Timeline
begin

text \<open>
  \<^verbatim>\<open>tools/verify/py/speaker_residual_evidence_packet.py\<close>, tracks on the common clock: Sortformer
  frames and auxiliary segments, the runs of the primary speaker that the frames produce, and the
  identity epochs that the diarization track shows.
\<close>

section \<open>Lines of a CSV file\<close>

text \<open>\<^verbatim>\<open>next(csv.reader([line]))\<close> is a parameter of the definitions below.\<close>

type_synonym csv_line = "string \<Rightarrow> string list res"

text \<open>\<^verbatim>\<open>{name: position}\<close> of a header: the last position of a name, and the line_cell there.\<close>

definition line_cell :: "string list \<Rightarrow> string list \<Rightarrow> string \<Rightarrow> string res" where
  "line_cell header vals name = ditem (rev (zip header vals)) name (KeyError name)"

definition int_cell :: "string list \<Rightarrow> string list \<Rightarrow> string \<Rightarrow> int res" where
  "int_cell header vals name = rbind (line_cell header vals name) int_str"

definition float_cell :: "string list \<Rightarrow> string list \<Rightarrow> string \<Rightarrow> dbl res" where
  "float_cell header vals name = rbind (line_cell header vals name) float_str"

definition number_cell :: "string list \<Rightarrow> string list \<Rightarrow> string \<Rightarrow> dbl option res" where
  "number_cell header vals name = rbind (line_cell header vals name) read_float"

section \<open>Frames\<close>

record posterior_row =
  po_frame :: int
  po_time :: dbl
  po_session :: int
  po_top1 :: int
  po_top1_prob :: dbl
  po_line :: string

definition posterior_columns :: "string list" where
  "posterior_columns = [''frame'', ''time_sec'', ''session'', ''top1'', ''top1_prob'', ''top2'',
     ''top2_prob'', ''margin'', ''active_count'']"

definition channel_name :: "string \<Rightarrow> bool" where
  "channel_name name \<longleftrightarrow> has_prefix ''spk'' name \<and> digit_text (drop 3 name)"

definition posterior_row_of :: "csv_line \<Rightarrow> string list \<Rightarrow> string \<Rightarrow> posterior_row res" where
  "posterior_row_of parse header raw = rbind (parse raw) (\<lambda>vals.
    raise_if (length vals \<noteq> length header) (ValueError ''Sortformer posterior row width differs'')
    (rbind (int_cell header vals ''frame'') (\<lambda>frame. rbind (float_cell header vals ''time_sec'') (\<lambda>time.
     rbind (int_cell header vals ''session'') (\<lambda>session. rbind (int_cell header vals ''top1'') (\<lambda>top1.
     rbind (float_cell header vals ''top1_prob'') (\<lambda>prob.
     Inr \<lparr>po_frame = frame, po_time = time, po_session = session, po_top1 = top1,
          po_top1_prob = prob, po_line = raw\<rparr>)))))))"

definition posterior_step :: "csv_line \<Rightarrow> string list \<Rightarrow> posterior_row list \<Rightarrow> string \<Rightarrow> posterior_row list res" where
  "posterior_step parse header rows raw = rbind (posterior_row_of parse header raw) (\<lambda>row.
    raise_if (po_frame row \<noteq> int (length rows)) (ValueError ''Sortformer posterior frames are not contiguous'')
    (raise_if (rows \<noteq> [] \<and> po_time row \<le> po_time (last rows))
      (ValueError ''Sortformer posterior times are not monotonic'') (Inr (rows @ [row]))))"

record posterior =
  ps_header :: string
  ps_rows :: "posterior_row list"
  ps_period :: dbl
  ps_columns :: "string list"

definition load_posterior :: "csv_line \<Rightarrow> string list \<Rightarrow> posterior res" where
  "load_posterior parse raw_lines =
    raise_if (length raw_lines < 3) (ValueError ''Sortformer posterior requires at least two rows'')
    (rbind (parse (hd raw_lines)) (\<lambda>header.
     let missing = fields_missing posterior_columns header; columns = sort (filter channel_name header) in
     raise_if (missing \<noteq> [] \<or> columns = []) (ValueError (''Sortformer posterior columns missing: '' @
       (if missing \<noteq> [] then join_with '','' missing else ''speaker channels'')))
     (rbind (rfold (posterior_step parse header) [] (drop 1 raw_lines)) (\<lambda>rows.
      let period = po_time (rows ! 1) - po_time (rows ! 0) in
      raise_if (period \<le> 0) (ValueError ''Sortformer posterior frame period is invalid'')
      (Inr \<lparr>ps_header = hd raw_lines, ps_rows = rows, ps_period = period, ps_columns = columns\<rparr>)))))"

definition verify_posterior_extent :: "posterior_row list \<Rightarrow> dbl \<Rightarrow> dbl \<Rightarrow> string \<Rightarrow> unit res" where
  "verify_posterior_extent rows period audio_sec label =
    raise_if (D (1 / 1000000) < \<bar>po_time (hd rows)\<bar>)
      (ValueError (label @ '' posterior does not start at time zero''))
    (raise_if (D (1 / 1000) < \<bar>(po_time (last rows) + period) - audio_sec\<bar>)
      (ValueError (label @ '' posterior extent differs from timeline'')) (Inr ()))"

section \<open>Auxiliary segments\<close>

record segment_row =
  sg_index :: nat
  sg_start :: dbl
  sg_end :: dbl
  sg_session :: int
  sg_local :: int
  sg_confidence :: dbl
  sg_margin :: dbl
  sg_line :: string

definition segment_columns :: "string list" where
  "segment_columns = [''start_sec'', ''end_sec'', ''duration_sec'', ''session'', ''local_speaker'',
     ''confidence'', ''mean_margin'']"

definition segment_step ::
  "csv_line \<Rightarrow> string list \<Rightarrow> dbl \<Rightarrow> segment_row list \<times> dbl \<Rightarrow> string \<Rightarrow> (segment_row list \<times> dbl) res" where
  "segment_step parse header audio_sec = (\<lambda>(rows, prior) raw. rbind (parse raw) (\<lambda>vals.
    raise_if (length vals \<noteq> length header) (ValueError ''auxiliary Sortformer segment row width differs'')
    (rbind (number_cell header vals ''start_sec'') (\<lambda>v1. rbind (number_cell header vals ''end_sec'') (\<lambda>v2.
     rbind (number_cell header vals ''duration_sec'') (\<lambda>v3. rbind (int_cell header vals ''session'') (\<lambda>session.
     rbind (int_cell header vals ''local_speaker'') (\<lambda>spk.
     rbind (number_cell header vals ''confidence'') (\<lambda>v4. rbind (number_cell header vals ''mean_margin'') (\<lambda>v5.
     case (v1, v2, v3, v4, v5) of
       (Some s, Some e, Some duration, Some confidence, Some margin) \<Rightarrow>
         raise_if (s < 0 \<or> e \<le> s \<or> audio_sec + D (1 / 1000) < e \<or> D (1 / 100000) < \<bar>(e - s) - duration\<bar> \<or>
             session < 0 \<or> spk < 0 \<or> s + EPSILON < prior)
           (ValueError ''auxiliary Sortformer segment is invalid'')
         (Inr (rows @ [\<lparr>sg_index = length rows, sg_start = s, sg_end = e, sg_session = session,
             sg_local = spk, sg_confidence = confidence, sg_margin = margin, sg_line = raw\<rparr>], s))
     | _ \<Rightarrow> Inl (ValueError ''auxiliary Sortformer segment is not finite'')))))))))))"

definition load_segments :: "csv_line \<Rightarrow> string list \<Rightarrow> dbl \<Rightarrow> (string \<times> segment_row list) res" where
  "load_segments parse raw_lines audio_sec =
    raise_if (length raw_lines < 2) (ValueError ''auxiliary Sortformer segments are empty'')
    (rbind (parse (hd raw_lines)) (\<lambda>header.
     let missing = fields_missing segment_columns header in
     raise_if (missing \<noteq> []) (ValueError (''auxiliary Sortformer segment columns missing: '' @ join_with '','' missing))
     (rbind (rfold (segment_step parse header audio_sec) ([], - 1) (drop 1 raw_lines)) (\<lambda>(rows, _).
      Inr (hd raw_lines, rows)))))"

section \<open>Primary runs\<close>

text \<open>A run of one speaker, with the total and number of its frames' probabilities.\<close>

record top1_run =
  tr_start :: dbl
  tr_end :: dbl
  tr_speaker :: int
  tr_total :: dbl
  tr_frames :: int

definition tr_confidence :: "top1_run \<Rightarrow> dbl" where
  "tr_confidence r = tr_total r / of_pyint (tr_frames r)"

definition local_speaker :: "int \<Rightarrow> posterior_row \<Rightarrow> int" where
  "local_speaker per_session row = po_session row * per_session + po_top1 row"

definition start_run :: "int \<Rightarrow> dbl \<Rightarrow> posterior_row \<Rightarrow> top1_run" where
  "start_run n period row = \<lparr>tr_start = po_time row, tr_end = po_time row + period,
     tr_speaker = local_speaker n row, tr_total = po_top1_prob row, tr_frames = 1\<rparr>"

definition extends_run :: "int \<Rightarrow> top1_run \<Rightarrow> posterior_row \<Rightarrow> bool" where
  "extends_run n cur row \<longleftrightarrow> \<not> (tr_speaker cur \<noteq> local_speaker n row \<or>
     SERIALIZED_FRAME_CONTIGUITY_SEC < \<bar>tr_end cur - po_time row\<bar>)"

definition extend_run :: "dbl \<Rightarrow> top1_run \<Rightarrow> posterior_row \<Rightarrow> top1_run" where
  "extend_run period cur row = cur\<lparr>tr_end := po_time row + period,
     tr_total := tr_total cur + po_top1_prob row, tr_frames := tr_frames cur + 1\<rparr>"

definition flush_run :: "top1_run list \<times> top1_run option \<Rightarrow> top1_run list" where
  "flush_run = (\<lambda>(runs, current). runs @ (case current of Some c \<Rightarrow> [c] | None \<Rightarrow> []))"

definition inactive :: "dbl \<Rightarrow> posterior_row \<Rightarrow> bool" where
  "inactive threshold row \<longleftrightarrow> po_top1_prob row + EPSILON < threshold"

definition compress_step ::
  "dbl \<Rightarrow> int \<Rightarrow> dbl \<Rightarrow> top1_run list \<times> top1_run option \<Rightarrow> posterior_row \<Rightarrow> top1_run list \<times> top1_run option" where
  "compress_step period n threshold = (\<lambda>(runs, current) row.
    if inactive threshold row then (flush_run (runs, current), None)
    else case current of
      None \<Rightarrow> (runs, Some (start_run n period row))
    | Some cur \<Rightarrow> if extends_run n cur row then (runs, Some (extend_run period cur row))
        else (flush_run (runs, current), Some (start_run n period row)))"

definition compress_primary_runs :: "posterior_row list \<Rightarrow> dbl \<Rightarrow> int \<Rightarrow> dbl \<Rightarrow> top1_run list" where
  "compress_primary_runs rows period n threshold =
     flush_run (foldl (compress_step period n threshold) ([], None) rows)"

definition run_field_differs :: "nat \<Rightarrow> json \<Rightarrow> string \<times> dbl \<Rightarrow> unit res" where
  "run_field_differs i produced = (\<lambda>(field, x). rbind (float_get produced field 0) (\<lambda>y.
     raise_if (D (1 / 1000000) < \<bar>y - x\<bar>)
       (ValueError (''posterior '' @ field @ '' differs at primary run '' @ int_repr (int i))) (Inr ())))"

definition check_produced :: "nat \<times> top1_run \<times> json \<Rightarrow> unit res" where
  "check_produced = (\<lambda>(i, src, produced). case produced of
     JObj _ \<Rightarrow> rbind (int_get produced ''speaker'' (- 1)) (\<lambda>spk.
       raise_if (spk \<noteq> tr_speaker src)
         (ValueError (''posterior local slot differs at primary run '' @ int_repr (int i)))
       (rbind (rmap (run_field_differs i produced) [(''start'', tr_start src), (''end'', tr_end src),
          (''confidence'', tr_confidence src)]) (\<lambda>_. Inr ())))
   | _ \<Rightarrow> Inl (ValueError (''primary track entry is invalid at '' @ int_repr (int i))))"

text \<open>The activity threshold: \<^verbatim>\<open>float\<close> of a nested configuration value, in (0, 1].\<close>

definition activity_threshold :: "obj \<Rightarrow> dbl res" where
  "activity_threshold t =
    rbind (vget (dget t ''resolved_config'' (JObj [])) ''speaker_fusion'' (JObj [])) (\<lambda>fusion.
    rbind (vget fusion ''frame_activity_threshold'' (JFlt 0)) (\<lambda>v.
    case py_float v of
      Inr x \<Rightarrow> raise_if (\<not> (0 < x \<and> x \<le> 1)) (ValueError ''resolved primary frame threshold is invalid'') (Inr x)
    | Inl e \<Rightarrow> if e = OutOfModel then Inl (ValueError ''resolved primary frame threshold is invalid'') else Inl e))"

definition verify_primary_producer :: "obj \<Rightarrow> kind_entries \<Rightarrow> posterior \<Rightarrow> json res" where
  "verify_primary_producer t tracks p =
    rbind (activity_threshold t) (\<lambda>threshold.
    rbind (rbind (item t ''audio_sec'') py_float) (\<lambda>audio_sec.
    rbind (verify_posterior_extent (ps_rows p) (ps_period p) audio_sec ''Sortformer'') (\<lambda>_.
    let compressed = compress_primary_runs (ps_rows p) (ps_period p) (int (length (ps_columns p))) threshold in
    rbind (track tracks ''primary_speaker'') (\<lambda>primary.
    raise_if (length compressed \<noteq> length primary)
      (ValueError ''posterior top-1 run count differs from primary track'')
    (rbind (rmap check_produced (enumerate 0 (zip compressed primary))) (\<lambda>_.
     Inr (JObj [(''frame_activity_threshold'', JFlt threshold), (''primary_run_count'', JInt (int (length primary))),
       (''local_slot_and_order_match'', JBool True), (''bounds_and_mean_tolerance'', JFlt (D (1 / 1000000)))])))))))"

section \<open>Identity epochs\<close>

record epoch =
  ep_local :: int
  ep_start :: dbl
  ep_end :: dbl
  ep_speaker :: string

text \<open>An entry that names a local speaker and an identity, with its id.\<close>

definition observation :: "json \<Rightarrow> (int \<times> string \<times> json) option res" where
  "observation v = (case v of
     JObj d \<Rightarrow> rbind (py_int (dget d ''speaker'' (JInt (- 1)))) (\<lambda>spk.
       Inr (case get d ''speaker_id'' of
         JStr sid \<Rightarrow> if spk < 0 \<or> sid = [] then None else Some (spk, sid, v)
       | _ \<Rightarrow> None))
   | _ \<Rightarrow> Inr None)"

text \<open>Entries of one speaker by start and end: the sort key (which may raise), then the identity.\<close>

definition observed_at :: "string \<times> json \<Rightarrow> (dbl \<times> dbl \<times> string) res" where
  "observed_at = (\<lambda>(sid, v). rbind (float_get v ''start'' 0) (\<lambda>s. rbind (float_get v ''end'' 0) (\<lambda>e.
     Inr (s, e, sid))))"

definition sorted_observations :: "(string \<times> json) list \<Rightarrow> (dbl \<times> dbl \<times> string) list res" where
  "sorted_observations entries = rbind (rmap observed_at entries) (\<lambda>xs.
     Inr (sort_key (\<lambda>(s, e, _). (s, e)) xs))"

fun epochs_from :: "int \<Rightarrow> dbl \<Rightarrow> dbl \<Rightarrow> string \<Rightarrow> (dbl \<times> dbl \<times> string) list \<Rightarrow> epoch list res" where
  "epochs_from spk audio_sec start sid [] =
     Inr [\<lparr>ep_local = spk, ep_start = start, ep_end = audio_sec, ep_speaker = sid\<rparr>]"
| "epochs_from spk audio_sec start sid ((s, e, next_id) # rest) =
     (if next_id = sid then epochs_from spk audio_sec start sid rest
      else raise_if (s \<le> start) (ValueError ''identity observations are not chronological'')
        (rbind (epochs_from spk audio_sec s next_id rest) (\<lambda>es.
          Inr (\<lparr>ep_local = spk, ep_start = start, ep_end = s, ep_speaker = sid\<rparr> # es))))"

definition speaker_epochs :: "(int \<times> string \<times> json) list \<Rightarrow> dbl \<Rightarrow> int \<Rightarrow> epoch list res" where
  "speaker_epochs obs audio_sec spk =
    rbind (sorted_observations (map snd (filter (\<lambda>x. fst x = spk) obs))) (\<lambda>xs. case xs of
      [] \<Rightarrow> Inr []
    | (_, _, sid) # rest \<Rightarrow> epochs_from spk audio_sec 0 sid rest)"

definition derive_identity_epochs :: "json list \<Rightarrow> dbl \<Rightarrow> epoch list res" where
  "derive_identity_epochs diarization audio_sec =
    rbind (rcollect observation diarization) (\<lambda>obs.
    rbind (rmap (speaker_epochs obs audio_sec) (sort (remdups (map fst obs)))) (\<lambda>ess.
    let epochs = concat ess in
    raise_if (epochs = []) (ValueError ''no local identity observations are available'') (Inr epochs)))"

definition epoch_row :: "epoch \<Rightarrow> string list" where
  "epoch_row x = [int_repr (ep_local x), fixed_repr 9 (ep_start x), fixed_repr 9 (ep_end x), ep_speaker x]"

definition write_epochs :: "epoch list \<Rightarrow> string list list" where
  "write_epochs epochs = [''local_speaker'', ''start_sec'', ''end_sec'', ''speaker_id''] # map epoch_row epochs"

end
