(* ===== verification/Residual_Packet.thy ===== *)
theory Residual_Packet
  imports Residual_Frames Py_Json
begin

text \<open>
  \<^verbatim>\<open>tools/verify/py/speaker_residual_evidence_packet.py\<close>, what a context receives: the entries,
  frames, epochs, VAD rows, references and speaker intersections that meet it, and the texts that
  present them.
\<close>

section \<open>Entries of the timeline\<close>

definition entry_json :: "nat \<times> json \<Rightarrow> json" where
  "entry_json = (\<lambda>(i, v). JObj [(''index'', JInt (int i)), (''entry'', v)])"

definition is_dict :: "json \<Rightarrow> bool" where
  "is_dict v \<longleftrightarrow> as_obj v \<noteq> None"

definition context_entries :: "json list \<Rightarrow> packet_context \<Rightarrow> json list res" where
  "context_entries entries c = rbind (rfilter (\<lambda>(i, v). if is_dict v then entry_intersects v (cx_start c) (cx_end c) else Inr False)
       (enumerate 0 entries)) (\<lambda>sel. Inr (map entry_json sel))"

definition text_id_of :: "packet_context \<Rightarrow> json \<Rightarrow> int option res" where
  "text_id_of c v = (if \<not> is_dict v then Inr None
     else rbind (entry_intersects v (cx_start c) (cx_end c)) (\<lambda>meets. if \<not> meets then Inr None
       else rbind (int_get v ''text_id'' (- 1)) (\<lambda>n. Inr (if 0 \<le> n then Some n else None))))"

definition source_text_ids :: "obj \<Rightarrow> kind_entries \<Rightarrow> packet_context \<Rightarrow> int list res" where
  "source_text_ids t tracks c =
    rbind (track tracks ''asr'') (\<lambda>asr. rbind (track tracks ''align'') (\<lambda>align.
    rbind (track tracks ''business_speaker'') (\<lambda>business.
    rcollect (text_id_of c) (asr @ align @ business @ arr_or_empty (get t ''comprehensive'')))))"

definition voiceprint_selected :: "int list \<Rightarrow> packet_context \<Rightarrow> nat \<times> json \<Rightarrow> bool res" where
  "voiceprint_selected text_ids c = (\<lambda>(i, v). if \<not> is_dict v then Inr False
     else rbind (int_get v ''text_id'' (- 1)) (\<lambda>n.
       if 0 \<le> n \<and> n \<in> set text_ids then Inr True else entry_intersects v (cx_start c) (cx_end c)))"

definition packet_voiceprints :: "json list \<Rightarrow> int list \<Rightarrow> packet_context \<Rightarrow> json list res" where
  "packet_voiceprints entries text_ids c =
     rbind (rfilter (voiceprint_selected text_ids c) (enumerate 0 entries)) (\<lambda>sel. Inr (map entry_json sel))"

definition context_tracks :: "obj \<Rightarrow> kind_entries \<Rightarrow> packet_context \<Rightarrow> json res" where
  "context_tracks t tracks c = rbind (source_text_ids t tracks c) (\<lambda>text_ids.
     rbind (rmap (\<lambda>kind. rbind (track tracks kind) (\<lambda>entries.
         rbind (if kind = ''speaker_voiceprint'' then packet_voiceprints entries text_ids c
                else context_entries entries c)
           (\<lambda>sel. Inr (JObj [(''kind'', JStr kind), (''entries'', JArr sel)])))) TRACK_KINDS)
       (\<lambda>out. Inr (JArr out)))"

definition context_business :: "obj \<Rightarrow> kind_entries \<Rightarrow> packet_context \<Rightarrow> json res" where
  "context_business t tracks c =
    rbind (context_entries (arr_or_empty (get t ''comprehensive'')) c) (\<lambda>comp.
    rbind (track tracks ''business_speaker'') (\<lambda>business.
    rbind (context_entries business c) (\<lambda>bs.
    Inr (JObj [(''comprehensive'', JArr comp), (''business_speaker'', JArr bs)]))))"

section \<open>Epochs, frames and segments\<close>

definition context_epochs :: "epoch list \<Rightarrow> packet_context \<Rightarrow> epoch list" where
  "context_epochs epochs c =
     filter (\<lambda>x. interval_intersects (ep_start x) (ep_end x) (cx_start c) (cx_end c)) epochs"

definition context_posterior :: "posterior_row list \<Rightarrow> dbl \<Rightarrow> packet_context \<Rightarrow> posterior_row list" where
  "context_posterior rows period c =
     filter (\<lambda>r. interval_intersects (po_time r) (po_time r + period) (cx_start c) (cx_end c)) rows"

definition context_segments :: "segment_row list \<Rightarrow> packet_context \<Rightarrow> segment_row list" where
  "context_segments rows c =
     filter (\<lambda>r. interval_intersects (sg_start r) (sg_end r) (cx_start c) (cx_end c)) rows"

section \<open>Reference sections\<close>

definition context_reference :: "ref_block list \<Rightarrow> packet_context \<Rightarrow> ref_block list res" where
  "context_reference blocks c =
    (let selected = filter (\<lambda>b. block_intersects b c) blocks;
         missing = sort (filter (\<lambda>r. r \<notin> set (map rb_id selected)) (remdups (cx_focus c @ cx_control c)))
     in raise_if (missing \<noteq> []) (ValueError (''context '' @ cx_id c @ '' excludes named references: '' @
          join_with '','' missing)) (Inr selected))"

definition quoted :: "string \<Rightarrow> string" where
  "quoted s = ''`'' @ s @ ''`''"

definition range_text :: "dbl \<Rightarrow> dbl \<Rightarrow> string" where
  "range_text a b = quoted (fixed_repr 3 a @ ''-'' @ fixed_repr 3 b)"

definition issue_text :: "ref_block \<Rightarrow> string" where
  "issue_text b = (if rb_issue b = [] then [] else '' ('' @ rb_issue b @ '')'')"

definition block_lines :: "ref_block \<Rightarrow> string list" where
  "block_lines b = [''- Source interval: '' @ range_text (rb_start b) (rb_end b) @ issue_text b,
     ''- Reference speaker: '' @ quoted (rb_speaker b), ''- Reference text: '' @ rb_text b, []]"

definition reference_role :: "packet_context \<Rightarrow> ref_block \<Rightarrow> string" where
  "reference_role c b = (if rb_id b \<in> set (cx_focus c) then ''focus''
     else if rb_id b \<in> set (cx_control c) then ''control'' else ''context'')"

definition render_reference :: "ref_block list \<Rightarrow> packet_context \<Rightarrow> string" where
  "render_reference blocks c = join_lines ([''# Reference Context'', [],
     ''- Context: '' @ quoted (cx_id c),
     ''- Common-clock bounds: '' @ range_text (cx_start c) (cx_end c),
     ''- Focus references: '' @ join_with '', '' (map quoted (cx_focus c)),
     ''- Control references: '' @ join_with '', '' (map quoted (cx_control c)),
     ''- Purpose: complete source display for human contextual review only.'', []]
     @ concat (map (\<lambda>b. [''## '' @ rb_id b, [], ''- Role: '' @ quoted (reference_role c b)] @ block_lines b) blocks))"

section \<open>Retained references\<close>

text \<open>The bounds of a verified row, as its numbers were verified to be finite.\<close>

definition row_bounds :: "csv_row \<Rightarrow> string \<Rightarrow> string \<Rightarrow> span res" where
  "row_bounds row lo hi = rbind (csv_float row lo) (\<lambda>s. rbind (csv_float row hi) (\<lambda>e. Inr (s, e)))"

definition touches :: "dbl \<Rightarrow> dbl \<Rightarrow> ref_block \<Rightarrow> bool" where
  "touches s e b \<longleftrightarrow> interval_intersects s e (rb_start b) (rb_end b) \<or>
     (s - EPSILON \<le> rb_start b \<and> rb_start b \<le> e + EPSILON)"

definition positions :: "('a \<Rightarrow> bool) \<Rightarrow> 'a list \<Rightarrow> nat list" where
  "positions p xs = map fst (filter (\<lambda>(_, x). p x) (enumerate 0 xs))"

definition retained_positions :: "ref_block list \<Rightarrow> dbl \<Rightarrow> dbl \<Rightarrow> nat list" where
  "retained_positions blocks s e = (case positions (touches s e) blocks of
     [] \<Rightarrow> (case positions (\<lambda>b. e + EPSILON < rb_start b) blocks of
        [] \<Rightarrow> [length blocks - 1] | i # _ \<Rightarrow> [i])
   | sel \<Rightarrow> sel)"

definition retained_reference_blocks :: "ref_block list \<Rightarrow> csv_row \<Rightarrow> ref_block list res" where
  "retained_reference_blocks blocks row =
    rbind (row_bounds row ''source_start_sec'' ''source_end_sec'') (\<lambda>(s, e).
    let sel = retained_positions blocks s e; first = hd sel - 1; upper = min (length blocks) (last sel + 2)
    in Inr (drop first (take upper blocks)))"

text \<open>A line_cell in an f-string.\<close>

definition cell_text :: "csv_row \<Rightarrow> string \<Rightarrow> string res" where
  "cell_text row k = rbind (csv_item row k) (\<lambda>v. Inr (case v of Some s \<Rightarrow> s | None \<Rightarrow> ''None''))"

definition quoted_cells :: "csv_row \<Rightarrow> string \<Rightarrow> string list \<Rightarrow> string res" where
  "quoted_cells row label ks = rbind (rmap (cell_text row) ks) (\<lambda>vs.
     Inr (''- '' @ label @ '': '' @ quoted (join_with ''-'' vs)))"

definition retained_labels :: "(string \<times> string list) list" where
  "retained_labels = [(''Evidence'', [''evidence_id'']), (''Local speaker'', [''local_speaker'']),
     (''Identity epoch start'', [''epoch_start_sec'']), (''Assigned global identity'', [''speaker_id'']),
     (''Source bounds'', [''source_start_sec'', ''source_end_sec'']),
     (''Embedded bounds'', [''embedding_start_sec'', ''embedding_end_sec'']),
     (''Existing selection quality'', [''quality''])]"

definition render_retained_reference :: "csv_row \<Rightarrow> ref_block list \<Rightarrow> string res" where
  "render_retained_reference row blocks =
    rbind (rmap (\<lambda>(label, ks). quoted_cells row label ks) retained_labels) (\<lambda>ls.
    Inr (join_lines ([''# Retained Identity Reference Context'', []] @ ls @
      [''- Purpose: raw provenance display for contextual review only.'', []] @
      concat (map (\<lambda>b. [''## '' @ rb_id b, []] @ block_lines b) blocks))))"

definition provenance_key :: "csv_row \<Rightarrow> (dbl \<times> dbl \<times> string) res" where
  "provenance_key row = rbind (row_bounds row ''source_start_sec'' ''source_end_sec'') (\<lambda>(s, e).
     rbind (identity_evidence_id row) (\<lambda>eid. Inr (s, e, eid)))"

text \<open>\<^verbatim>\<open>sorted(rows, key=..., reverse=...)\<close>; a reversed sort keeps equal elements in order.\<close>

definition sorted_rows :: "csv_row list \<Rightarrow> bool \<Rightarrow> csv_row list res" where
  "sorted_rows rows reverse = rbind (rmap provenance_key rows) (\<lambda>ks. let keyed = zip ks rows in
     Inr (map snd (if reverse then rev (sort_key fst (rev keyed)) else sort_key fst keyed)))"

definition render_retained_reference_sequence :: "csv_row list \<Rightarrow> ref_block list \<Rightarrow> bool \<Rightarrow> string res" where
  "render_retained_reference_sequence rows blocks reverse =
    rbind (sorted_rows rows reverse) (\<lambda>ordered.
    rbind (rmap (\<lambda>row. rbind (retained_reference_blocks blocks row) (render_retained_reference row)) ordered) (\<lambda>parts.
    Inr (join_lines ([''# Retained Identity References: '' @ (if reverse then ''Reverse'' else ''Chronological''), [],
      ''This file orders raw retained-reference provenance for contextual review only. It contains no automated speaker judgment.'']
      @ concat (map (\<lambda>p. [[], ''---'', [], p]) parts)))))"

end
