(* ===== verification/Residual_Spans.thy ===== *)
theory Residual_Spans
  imports Residual_Packet
begin

text \<open>
  \<^verbatim>\<open>tools/verify/py/speaker_residual_evidence_packet.py\<close>, tables of a context: accepted speaker
  spans against auxiliary segments on the common clock, VAD rows with the observations around the
  context, gallery queries and retained references.
\<close>

section \<open>Accepted speaker spans\<close>

definition ACCEPTED_SPEAKER_TRACKS :: "string list" where
  "ACCEPTED_SPEAKER_TRACKS = [''diarization'', ''primary_speaker'']"

definition AUX_MAIN_INTERSECTION_COLUMNS :: "string list" where
  "AUX_MAIN_INTERSECTION_COLUMNS = [''aux_segment_index'', ''aux_start_sec'', ''aux_end_sec'', ''aux_session'',
     ''aux_local_speaker'', ''aux_confidence'', ''aux_mean_margin'', ''main_track'', ''main_entry_index'',
     ''main_start_sec'', ''main_end_sec'', ''main_local_speaker'', ''main_speaker_id'', ''main_confidence'',
     ''intersection_start_sec'', ''intersection_end_sec'', ''intersection_duration_sec'']"

record main_span =
  ms_index :: nat
  ms_start :: dbl
  ms_end :: dbl
  ms_local :: int
  ms_speaker :: string
  ms_confidence :: dbl

text \<open>
  The three numbers of an entry: conversion errors are replaced by the complaint, and so is a
  number that is not finite.
\<close>

definition main_numbers :: "obj \<Rightarrow> (dbl \<times> dbl \<times> dbl) option" where
  "main_numbers d = (case py_float (dget d ''start'' (JFlt 0)) of
       Inl _ \<Rightarrow> None
     | Inr s \<Rightarrow> (case (py_float (dget d ''end'' (JFlt s)), py_float (dget d ''confidence'' (JFlt 0))) of
         (Inr e, Inr p) \<Rightarrow> Some (s, e, p)
       | _ \<Rightarrow> None))"

definition main_span_of :: "string \<Rightarrow> nat \<times> json \<Rightarrow> main_span res" where
  "main_span_of name = (\<lambda>(i, v). let invalid = Inl (ValueError (''accepted '' @ name @ '' entry is invalid'')) in
     case v of
       JObj d \<Rightarrow> (case (main_numbers d, dget d ''speaker'' (JInt (- 1)), dget d ''speaker_id'' (JStr [])) of
         (Some (s, e, p), JInt spk, JStr sid) \<Rightarrow>
           if s < 0 \<or> e \<le> s \<or> spk < 0 then invalid
           else Inr \<lparr>ms_index = i, ms_start = s, ms_end = e, ms_local = spk, ms_speaker = sid, ms_confidence = p\<rparr>
       | _ \<Rightarrow> invalid)
     | _ \<Rightarrow> Inl (ValueError (''accepted '' @ name @ '' entry is not an object'')))"

type_synonym main_spans = "(string, main_span list) pydict"

definition load_main_speaker_spans :: "kind_entries \<Rightarrow> main_spans res" where
  "load_main_speaker_spans tracks = rmap (\<lambda>name. rbind (track tracks name) (\<lambda>entries.
     rbind (rmap (main_span_of name) (enumerate 0 entries)) (\<lambda>spans. Inr (name, spans)))) ACCEPTED_SPEAKER_TRACKS"

type_synonym text_row = "(string, string) pydict"

definition segment_cells :: "segment_row \<Rightarrow> string \<Rightarrow> text_row" where
  "segment_cells g name = [(''aux_segment_index'', int_repr (int (sg_index g))),
     (''aux_start_sec'', fixed_repr 9 (sg_start g)), (''aux_end_sec'', fixed_repr 9 (sg_end g)),
     (''aux_session'', int_repr (sg_session g)), (''aux_local_speaker'', int_repr (sg_local g)),
     (''aux_confidence'', fixed_repr 9 (sg_confidence g)), (''aux_mean_margin'', fixed_repr 9 (sg_margin g)),
     (''main_track'', name)]"

definition span_cells :: "main_span \<Rightarrow> dbl \<Rightarrow> dbl \<Rightarrow> text_row" where
  "span_cells m s e = [(''main_entry_index'', int_repr (int (ms_index m))),
     (''main_start_sec'', fixed_repr 9 (ms_start m)), (''main_end_sec'', fixed_repr 9 (ms_end m)),
     (''main_local_speaker'', int_repr (ms_local m)), (''main_speaker_id'', ms_speaker m),
     (''main_confidence'', fixed_repr 9 (ms_confidence m)), (''intersection_start_sec'', fixed_repr 9 s),
     (''intersection_end_sec'', fixed_repr 9 e), (''intersection_duration_sec'', fixed_repr 9 (e - s))]"

definition main_speaker_row :: "segment_row \<Rightarrow> string \<Rightarrow> main_span option \<Rightarrow> text_row res" where
  "main_speaker_row g name found = (case found of
     None \<Rightarrow> Inr (segment_cells g name @ map (\<lambda>k. (k, [])) (drop 8 AUX_MAIN_INTERSECTION_COLUMNS))
   | Some m \<Rightarrow> let s = max (sg_start g) (ms_start m); e = min (sg_end g) (ms_end m) in
       raise_if (e - s \<le> EPSILON) (ValueError ''non-intersecting accepted row was selected'')
       (Inr (segment_cells g name @ span_cells m s e)))"

definition meets :: "segment_row \<Rightarrow> main_span \<Rightarrow> bool" where
  "meets g m \<longleftrightarrow> interval_intersects (sg_start g) (sg_end g) (ms_start m) (ms_end m)"

text \<open>The loop over the spans of one track: the rows so far, and \<^verbatim>\<open>matched\<close>.\<close>

definition span_step :: "segment_row \<Rightarrow> string \<Rightarrow> text_row list \<times> bool \<Rightarrow> main_span \<Rightarrow> (text_row list \<times> bool) res" where
  "span_step g name = (\<lambda>(rows, matched) m. if \<not> meets g m then Inr (rows, matched)
     else rbind (main_speaker_row g name (Some m)) (\<lambda>row. Inr (rows @ [row], True)))"

definition track_rows :: "main_spans \<Rightarrow> segment_row \<Rightarrow> string \<Rightarrow> text_row list res" where
  "track_rows spans g name = rbind (ditem spans name (KeyError name)) (\<lambda>ms.
     rbind (rfold (span_step g name) ([], False) ms) (\<lambda>(rows, matched).
     if matched then Inr rows
     else rbind (main_speaker_row g name None) (\<lambda>row. Inr (rows @ [row]))))"

definition auxiliary_main_intersections :: "segment_row list \<Rightarrow> main_spans \<Rightarrow> text_row list res" where
  "auxiliary_main_intersections segments spans =
     rbind (rmap (\<lambda>g. rbind (rmap (track_rows spans g) ACCEPTED_SPEAKER_TRACKS) (\<lambda>rss. Inr (concat rss))) segments)
       (\<lambda>rss. Inr (concat rss))"

section \<open>Raw rows of a context\<close>

definition rows_meeting :: "string \<Rightarrow> string \<Rightarrow> raw_evidence \<Rightarrow> packet_context \<Rightarrow> csv_row list res" where
  "rows_meeting lo hi ev c = rfilter (\<lambda>row. rbind (row_bounds row lo hi) (\<lambda>(s, e).
     Inr (interval_intersects s e (cx_start c) (cx_end c)))) (rw_rows ev)"

definition context_vad_windows :: "raw_evidence \<Rightarrow> packet_context \<Rightarrow> csv_row list res" where
  "context_vad_windows = rows_meeting ''start_sec'' ''end_sec''"

definition context_gallery_evidence :: "raw_evidence \<Rightarrow> packet_context \<Rightarrow> csv_row list res" where
  "context_gallery_evidence = rows_meeting ''start'' ''end''"

definition context_identity_references :: "raw_evidence \<Rightarrow> packet_context \<Rightarrow> csv_row list res" where
  "context_identity_references = rows_meeting ''source_start_sec'' ''source_end_sec''"

definition state_positions :: "dbl list \<Rightarrow> packet_context \<Rightarrow> nat list" where
  "state_positions observed c =
    (let middle = positions (\<lambda>x. cx_start c - EPSILON \<le> x \<and> x \<le> cx_end c + EPSILON) observed;
         preceding = positions (\<lambda>x. x < cx_start c - EPSILON) observed;
         following = positions (\<lambda>x. cx_end c + EPSILON < x) observed
     in sort (remdups (middle @ (if preceding = [] then [] else [last preceding]) @
          (if following = [] then [] else [hd following]))))"

definition context_vad_states :: "raw_evidence \<Rightarrow> packet_context \<Rightarrow> csv_row list res" where
  "context_vad_states ev c =
    rbind (rmap (\<lambda>row. csv_float row ''observed_until_sec'') (rw_rows ev)) (\<lambda>observed.
    Inr (map (\<lambda>i. rw_rows ev ! i) (state_positions observed c)))"

end
