(* ===== verification/Residual_Properties.thy ===== *)
theory Residual_Properties
  imports Residual_Spans
begin

text \<open>
  What the checks and tables of \<^verbatim>\<open>speaker_residual_evidence_packet.py\<close> promise: identity epochs
  tile the audio, the primary track is what the frames produce, accepted VAD windows chain from
  sample zero, and the common-clock intersections are complete.
\<close>

section \<open>Identity epochs\<close>

fun epochs_tile :: "dbl \<Rightarrow> dbl \<Rightarrow> epoch list \<Rightarrow> bool" where
  "epochs_tile s audio [] = False"
| "epochs_tile s audio [x] = (ep_start x = s \<and> ep_end x = audio)"
| "epochs_tile s audio (x # y # xs) = (ep_start x = s \<and> ep_start x < ep_end x \<and>
     ep_speaker x \<noteq> ep_speaker y \<and> epochs_tile (ep_end x) audio (y # xs))"

definition epoch_covers :: "dbl \<Rightarrow> int \<Rightarrow> string \<Rightarrow> dbl \<Rightarrow> epoch \<Rightarrow> bool" where
  "epoch_covers audio spk sid s x \<longleftrightarrow> ep_local x = spk \<and> ep_speaker x = sid \<and>
     (ep_start x = 0 \<or> ep_start x \<le> s) \<and> (s \<le> ep_end x \<or> ep_end x = audio)"

lemma epochs_from_tile:
  "epochs_from spk audio start sid xs = Inr es \<Longrightarrow>
   epochs_tile start audio es \<and> ep_speaker (hd es) = sid \<and> es \<noteq> [] \<and> (\<forall>x \<in> set es. ep_local x = spk)"
proof (induction xs arbitrary: start sid es)
  case (Cons x xs)
  obtain s e next_id where x: "x = (s, e, next_id)" by (cases x)
  show ?case
  proof (cases "next_id = sid")
    case True
    with Cons x show ?thesis by simp
  next
    case False
    with Cons.prems x obtain fs where fs: "epochs_from spk audio s next_id xs = Inr fs" "start < s"
      "es = \<lparr>ep_local = spk, ep_start = start, ep_end = s, ep_speaker = sid\<rparr> # fs"
      by (auto simp: res_iff)
    from Cons.IH[OF fs(1)] obtain f gs where "fs = f # gs" by (cases fs) auto
    with Cons.IH[OF fs(1)] fs False show ?thesis by auto
  qed
qed auto

lemma epochs_from_covers:
  assumes "epochs_from spk audio start sid xs = Inr es" "sorted (map fst ((s0, e0, sid) # xs))"
    "start = 0 \<or> start \<le> s0" "(s, e, i) \<in> set ((s0, e0, sid) # xs)"
  shows "\<exists>x \<in> set es. epoch_covers audio spk i s x"
  using assms
proof (induction xs arbitrary: start sid es s0 e0 s e i)
  case (Cons y ys)
  obtain s1 e1 next_id where y: "y = (s1, e1, next_id)" by (cases y)
  show ?case
  proof (cases "next_id = sid")
    case True
    with Cons.prems(1) y have run: "epochs_from spk audio start sid ys = Inr es" by simp
    have s1: "sorted (map fst ((s1, e1, sid) # ys))" "start = 0 \<or> start \<le> s1"
      and s0: "sorted (map fst ((s0, e0, sid) # ys))" using Cons.prems(2,3) y by auto
    from Cons.prems(4) y True have "(s, e, i) \<in> set ((s1, e1, sid) # ys) \<or> (s, e, i) \<in> set ((s0, e0, sid) # ys)"
      by auto
    then show ?thesis
      by (elim disjE) (erule Cons.IH[OF run s1], erule Cons.IH[OF run s0 Cons.prems(3)])
  next
    case False
    with Cons.prems(1) y obtain fs where fs: "epochs_from spk audio s1 next_id ys = Inr fs"
      "es = \<lparr>ep_local = spk, ep_start = start, ep_end = s1, ep_speaker = sid\<rparr> # fs"
      by (auto simp: res_iff)
    show ?thesis
    proof (cases "(s, e, i) = (s0, e0, sid)")
      case True
      then show ?thesis using Cons.prems(2,3) fs(2) y by (auto simp: epoch_covers_def)
    next
      case other: False
      have "\<exists>x \<in> set fs. epoch_covers audio spk i s x"
        by (rule Cons.IH[OF fs(1), of s1 e1]) (use Cons.prems(2,4) y other in auto)
      then show ?thesis using fs(2) by auto
    qed
  qed
qed (auto simp: epoch_covers_def)

text \<open>Epochs begin in order, and only the last one can fail to begin before it ends.\<close>

lemma epochs_from_starts:
  "epochs_from spk audio start sid xs = Inr es \<Longrightarrow>
   \<forall>x \<in> set es. start \<le> ep_start x \<and> (ep_start x = start \<or> ep_start x \<in> fst ` set xs)"
proof (induction xs arbitrary: start sid es)
  case (Cons y ys)
  obtain s1 e1 next_id where y: "y = (s1, e1, next_id)" by (cases y)
  show ?case
  proof (cases "next_id = sid")
    case False
    with Cons.prems y obtain fs where fs: "epochs_from spk audio s1 next_id ys = Inr fs" "start < s1"
      "es = \<lparr>ep_local = spk, ep_start = start, ep_end = s1, ep_speaker = sid\<rparr> # fs"
      by (auto simp: res_iff)
    with Cons.IH[OF fs(1)] y show ?thesis by fastforce
  qed (use Cons y in fastforce)
qed simp

lemma epochs_from_proper:
  "epochs_from spk audio start sid xs = Inr es \<Longrightarrow> start < audio \<Longrightarrow> \<forall>x \<in> set xs. fst x < audio \<Longrightarrow>
   \<forall>x \<in> set es. ep_start x < ep_end x"
proof (induction xs arbitrary: start sid es)
  case (Cons y ys)
  then show ?case by (cases y) (fastforce simp: res_iff split: if_splits)
qed simp

text \<open>No observation of another identity begins strictly inside an epoch.\<close>

lemma epochs_from_undisturbed:
  assumes "epochs_from spk audio start sid xs = Inr es" "sorted (map fst ((s0, e0, sid) # xs))"
    "(s, e, i) \<in> set ((s0, e0, sid) # xs)" "x \<in> set es" "ep_start x < s" "s < ep_end x"
  shows "i = ep_speaker x"
  using assms
proof (induction xs arbitrary: start sid es s0 e0 s e i)
  case (Cons y ys)
  obtain s1 e1 next_id where y: "y = (s1, e1, next_id)" by (cases y)
  show ?case
  proof (cases "next_id = sid")
    case True
    with Cons.prems(1) y have run: "epochs_from spk audio start sid ys = Inr es" by simp
    have s1: "sorted (map fst ((s1, e1, sid) # ys))" and s0: "sorted (map fst ((s0, e0, sid) # ys))"
      using Cons.prems(2) y by auto
    from Cons.prems(3) y True have "(s, e, i) \<in> set ((s1, e1, sid) # ys) \<or> (s, e, i) \<in> set ((s0, e0, sid) # ys)"
      by auto
    then show ?thesis
      using Cons.IH[OF run s1 _ Cons.prems(4-6)] Cons.IH[OF run s0 _ Cons.prems(4-6)] by blast
  next
    case False
    with Cons.prems(1) y obtain fs where fs: "epochs_from spk audio s1 next_id ys = Inr fs"
      "es = \<lparr>ep_local = spk, ep_start = start, ep_end = s1, ep_speaker = sid\<rparr> # fs"
      by (auto simp: res_iff)
    from Cons.prems(2) y have le: "s0 \<le> s1" "\<forall>z \<in> set ys. s1 \<le> fst z" by auto
    from Cons.prems(4) fs(2) consider
      "x = \<lparr>ep_local = spk, ep_start = start, ep_end = s1, ep_speaker = sid\<rparr>" | "x \<in> set fs" by auto
    then show ?thesis
    proof cases
      case 1
      with Cons.prems(6) have "s < s1" by simp
      with le(2) have "(s, e, i) \<notin> set (y # ys)" using y by fastforce
      with Cons.prems(3) 1 show ?thesis by auto
    next
      case 2
      with epochs_from_starts[OF fs(1)] have "s1 \<le> ep_start x" by blast
      with Cons.prems(5) le(1) have "s \<noteq> s0" by auto
      with Cons.prems(3) y have "(s, e, i) \<in> set ((s1, e1, next_id) # ys)" by auto
      from Cons.IH[OF fs(1) _ this 2 Cons.prems(5,6)] show ?thesis using Cons.prems(2) y by auto
    qed
  qed
qed auto

lemma sorted_observations_sorted:
  "sorted_observations xs = Inr ys \<Longrightarrow> sorted (map fst ys)"
proof -
  assume "sorted_observations xs = Inr ys"
  then obtain zs where "ys = sort_key (\<lambda>(s, e, _). (s, e)) zs"
    by (auto simp: sorted_observations_def res_iff)
  then have "sorted (map (\<lambda>(s, e, _). (s, e)) ys)" by simp
  then show ?thesis
    by (auto simp: sorted_map less_eq_prod_def case_prod_unfold elim!: sorted_wrt_mono_rel[rotated] dest: order.strict_implies_order)
qed

definition observed :: "json \<Rightarrow> int \<Rightarrow> string \<Rightarrow> dbl \<Rightarrow> bool" where
  "observed v spk sid s \<longleftrightarrow> observation v = Inr (Some (spk, sid, v)) \<and> float_get v ''start'' 0 = Inr s"

lemma speaker_epochs_run:
  assumes "speaker_epochs obs audio spk = Inr es" "spk \<in> fst ` set obs"
  obtains ys s0 e0 sid0 rest where "ys = (s0, e0, sid0) # rest" "sorted (map fst ys)"
    "epochs_from spk audio 0 sid0 rest = Inr es"
    "\<And>sid v s. (spk, sid, v) \<in> set obs \<Longrightarrow> float_get v ''start'' 0 = Inr s \<Longrightarrow> \<exists>e. (s, e, sid) \<in> set ys"
    "\<And>s e sid. (s, e, sid) \<in> set ys \<Longrightarrow> \<exists>v. (spk, sid, v) \<in> set obs \<and> float_get v ''start'' 0 = Inr s"
proof -
  from assms(1) obtain ys where ys: "sorted_observations (map snd (filter (\<lambda>x. fst x = spk) obs)) = Inr ys"
    and run: "(case ys of [] \<Rightarrow> Inr [] | (_, _, sid) # rest \<Rightarrow> epochs_from spk audio 0 sid rest) = Inr es"
    by (auto simp: speaker_epochs_def res_iff)
  from ys obtain zs where zs: "rmap observed_at (map snd (filter (\<lambda>x. fst x = spk) obs)) = Inr zs"
    "set ys = set zs" "length ys = length zs" by (auto simp: sorted_observations_def res_iff)
  from assms(2) have "filter (\<lambda>x. fst x = spk) obs \<noteq> []" by (force simp: filter_empty_conv)
  then have "ys \<noteq> []" using rmap_length[OF zs(1)] zs(3) by auto
  then obtain s0 e0 sid0 rest where y: "ys = (s0, e0, sid0) # rest" by (cases ys) auto
  show ?thesis
  proof (rule that[OF y sorted_observations_sorted[OF ys]])
    show "epochs_from spk audio 0 sid0 rest = Inr es" using run y by simp
    show "\<exists>e. (s, e, sid) \<in> set ys" if "(spk, sid, v) \<in> set obs" "float_get v ''start'' 0 = Inr s" for sid v s
    proof -
      from that(1) have "(sid, v) \<in> set (map snd (filter (\<lambda>x. fst x = spk) obs))" by force
      from rmap_member[OF zs(1) this] that(2) zs(2) show ?thesis by (auto simp: observed_at_def res_iff)
    qed
    show "\<exists>v. (spk, sid, v) \<in> set obs \<and> float_get v ''start'' 0 = Inr s" if "(s, e, sid) \<in> set ys" for s e sid
    proof -
      from that zs(2) have "(s, e, sid) \<in> set zs" by simp
      from rmap_image[OF zs(1) this] show ?thesis by (auto simp: observed_at_def res_iff)
    qed
  qed
qed

lemma observation_self: "observation u = Inr (Some (spk, sid, v)) \<Longrightarrow> v = u"
proof (cases u)
  case (JObj d)
  assume "observation u = Inr (Some (spk, sid, v))"
  with JObj show ?thesis
    by (cases "get d ''speaker_id''") (auto simp: observation_def rbind_Inr_iff split: if_splits)
qed (simp_all add: observation_def)

text \<open>What the epochs of one speaker promise of the observations of that speaker.\<close>

definition epochs_fit :: "(int \<times> string \<times> json) list \<Rightarrow> dbl \<Rightarrow> int \<Rightarrow> epoch list \<Rightarrow> bool" where
  "epochs_fit obs audio spk es \<longleftrightarrow> (\<forall>x \<in> set es. ep_local x = spk) \<and> epochs_tile 0 audio es \<and>
     (0 < audio \<and> (\<forall>sid v s. (spk, sid, v) \<in> set obs \<and> float_get v ''start'' 0 = Inr s \<longrightarrow> s < audio) \<longrightarrow>
       (\<forall>x \<in> set es. ep_start x < ep_end x)) \<and>
     (\<forall>sid v s. (spk, sid, v) \<in> set obs \<and> float_get v ''start'' 0 = Inr s \<longrightarrow>
       (\<exists>x \<in> set es. epoch_covers audio spk sid s x) \<and>
       (\<forall>x \<in> set es. ep_start x < s \<and> s < ep_end x \<longrightarrow> ep_speaker x = sid))"

lemma speaker_epochs_fit:
  assumes "speaker_epochs obs audio spk = Inr es" "spk \<in> fst ` set obs"
  shows "epochs_fit obs audio spk es"
proof -
  obtain ys s0 e0 sid0 rest where y: "ys = (s0, e0, sid0) # rest" "sorted (map fst ys)"
    and run: "epochs_from spk audio 0 sid0 rest = Inr es"
    and there: "\<And>sid v s. (spk, sid, v) \<in> set obs \<Longrightarrow> float_get v ''start'' 0 = Inr s \<Longrightarrow> \<exists>e. (s, e, sid) \<in> set ys"
    and behind: "\<And>s e sid. (s, e, sid) \<in> set ys \<Longrightarrow>
      \<exists>v. (spk, sid, v) \<in> set obs \<and> float_get v ''start'' 0 = Inr s"
    by (rule speaker_epochs_run[OF assms]) blast
  have covers: "\<exists>x \<in> set es. epoch_covers audio spk sid s x" if "(s, e, sid) \<in> set ys" for s e sid
    by (rule epochs_from_covers[OF run _ _ that[unfolded y(1)]]) (use y in simp_all)
  have undisturbed: "ep_speaker x = sid" if "(s, e, sid) \<in> set ys" "x \<in> set es" "ep_start x < s" "s < ep_end x" for s e sid x
    using epochs_from_undisturbed[OF run y(2)[unfolded y(1)] that(1)[unfolded y(1)] that(2-4)] ..
  have "\<forall>x \<in> set es. ep_start x < ep_end x"
    if "0 < audio" "\<forall>sid v s. (spk, sid, v) \<in> set obs \<and> float_get v ''start'' 0 = Inr s \<longrightarrow> s < audio"
  proof (rule epochs_from_proper[OF run that(1)], rule ballI)
    fix x assume "x \<in> set rest"
    then have "(fst x, fst (snd x), snd (snd x)) \<in> set ys" by (simp add: y(1))
    with behind that(2) show "fst x < audio" by blast
  qed
  moreover have "(\<exists>x \<in> set es. epoch_covers audio spk sid s x) \<and>
       (\<forall>x \<in> set es. ep_start x < s \<and> s < ep_end x \<longrightarrow> ep_speaker x = sid)"
    if v: "(spk, sid, v) \<in> set obs \<and> float_get v ''start'' 0 = Inr s" for sid v s
  proof -
    from v there obtain e where "(s, e, sid) \<in> set ys" by blast
    with covers undisturbed show ?thesis by blast
  qed
  ultimately show ?thesis using epochs_from_tile[OF run] unfolding epochs_fit_def by blast
qed

text \<open>
  C21: the identity epochs derived from the diarization track are listed by local speaker. Those
  of one speaker tile the audio: the first starts at zero, each next one starts where its
  predecessor ends, the last ends with the audio, neighbours have different identities and every
  epoch but the last begins before it ends; the last one does too when the audio is not empty and
  every observation of the speaker starts before it ends. An observation that starts within the audio starts within
  an epoch of its own identity, ends included, and no observation of the speaker with another
  identity starts strictly inside an epoch. (The code reads only where an observation starts: an
  epoch is cut where the next identity starts, even if the observation before it lasts longer.)
\<close>

theorem identity_epochs_tile:
  assumes "derive_identity_epochs diarization audio = Inr es"
  shows "sorted (map ep_local es) \<and>
    (\<forall>x \<in> set es. epochs_tile 0 audio (filter (\<lambda>y. ep_local y = ep_local x) es)) \<and>
    (\<forall>x \<in> set es. 0 < audio \<and> (\<forall>v \<in> set diarization. \<forall>sid s. observed v (ep_local x) sid s \<longrightarrow> s < audio) \<longrightarrow>
       ep_start x < ep_end x) \<and>
    (\<forall>v \<in> set diarization. \<forall>spk sid s. observed v spk sid s \<longrightarrow>
       (0 \<le> s \<and> s \<le> audio \<longrightarrow>
         (\<exists>x \<in> set es. ep_local x = spk \<and> ep_speaker x = sid \<and> ep_start x \<le> s \<and> s \<le> ep_end x)) \<and>
       (\<forall>x \<in> set es. ep_local x = spk \<and> ep_start x < s \<and> s < ep_end x \<longrightarrow> ep_speaker x = sid))"
proof -
  from assms obtain obs ess where obs: "rcollect observation diarization = Inr obs"
    and ess: "rmap (speaker_epochs obs audio) (sort (remdups (map fst obs))) = Inr ess" "es = concat ess"
    by (auto simp: derive_identity_epochs_def res_iff Let_def)
  let ?ks = "sort (remdups (map fst obs))"
  have ks: "sorted_wrt (<) ?ks" by (simp add: strict_sorted_iff)
  have all: "list_all2 (\<lambda>k e. speaker_epochs obs audio k = Inr e) ?ks ess" using ess(1) by (simp add: rmap_Inr_iff)
  then have "list_all2 (\<lambda>k e. (\<forall>x \<in> set e. ep_local x = k) \<and> epochs_tile 0 audio e) ?ks ess"
    by (rule list.rel_mono_strong) (use speaker_epochs_fit in \<open>force simp: epochs_fit_def\<close>)
  from concat_by_key[OF this ks] have tile: "sorted (map ep_local es)"
    "\<forall>x \<in> set es. epochs_tile 0 audio (filter (\<lambda>y. ep_local y = ep_local x) es)"
    unfolding ess(2) by blast+
  have seen: "(spk, sid, v) \<in> set obs \<and> float_get v ''start'' 0 = Inr s \<longleftrightarrow> v \<in> set diarization \<and> observed v spk sid s"
    for spk sid v s
  proof -
    have "(spk, sid, v) \<in> set obs \<longleftrightarrow> (\<exists>u \<in> set diarization. observation u = Inr (Some (spk, sid, v)))"
      by (rule rcollect_set[OF obs])
    then show ?thesis using observation_self by (fastforce simp: observed_def)
  qed
  have fits: "\<exists>spk. spk \<in> fst ` set obs \<and> epochs_fit obs audio spk e" if "e \<in> set ess" for e
    using rmap_image[OF ess(1) that] speaker_epochs_fit by force
  have proper: "ep_start x < ep_end x"
    if x: "x \<in> set es" and ends: "0 < audio"
      "\<forall>v \<in> set diarization. \<forall>sid s. observed v (ep_local x) sid s \<longrightarrow> s < audio" for x
  proof -
    from x ess(2) obtain e where e: "e \<in> set ess" "x \<in> set e" by auto
    from fits[OF e(1)] obtain spk where "epochs_fit obs audio spk e" by blast
    with e(2) ends show ?thesis unfolding epochs_fit_def seen by metis
  qed
  have own: "(0 \<le> s \<and> s \<le> audio \<longrightarrow>
         (\<exists>x \<in> set es. ep_local x = spk \<and> ep_speaker x = sid \<and> ep_start x \<le> s \<and> s \<le> ep_end x)) \<and>
       (\<forall>x \<in> set es. ep_local x = spk \<and> ep_start x < s \<and> s < ep_end x \<longrightarrow> ep_speaker x = sid)"
    if v: "v \<in> set diarization" "observed v spk sid s" for v spk sid s
  proof -
    from v seen have mem: "(spk, sid, v) \<in> set obs" "float_get v ''start'' 0 = Inr s" by blast+
    then have "spk \<in> set ?ks" by force
    from rmap_member[OF ess(1) this] obtain e where e: "speaker_epochs obs audio spk = Inr e" "e \<in> set ess"
      by blast
    have "epochs_fit obs audio spk e" by (rule speaker_epochs_fit[OF e(1)]) (use mem in force)
    with mem obtain x where x: "x \<in> set e" "epoch_covers audio spk sid s x" unfolding epochs_fit_def by blast
    have "ep_speaker y = sid" if y: "y \<in> set es" "ep_local y = spk" "ep_start y < s" "s < ep_end y" for y
    proof -
      from y(1) ess(2) obtain f where f: "f \<in> set ess" "y \<in> set f" by auto
      from fits[OF f(1)] obtain k where "epochs_fit obs audio k f" by blast
      with f(2) y(2-4) mem show ?thesis unfolding epochs_fit_def by metis
    qed
    moreover have "ep_local x = spk \<and> ep_speaker x = sid \<and> ep_start x \<le> s \<and> s \<le> ep_end x" if "0 \<le> s" "s \<le> audio"
      using x(2) that by (auto simp: epoch_covers_def)
    ultimately show ?thesis using x(1) e(2) ess(2) by auto
  qed
  from tile proper own show ?thesis by blast
qed

definition observed_entry :: "int \<Rightarrow> string \<Rightarrow> int \<Rightarrow> int \<Rightarrow> json" where
  "observed_entry spk sid s e = JObj [(''speaker'', JInt spk), (''speaker_id'', JStr sid),
     (''start'', JInt s), (''end'', JInt e)]"

definition demo_diarization :: "json list" where
  "demo_diarization = [observed_entry 1 ''bo'' 6 7, observed_entry 0 ''ann'' 1 3, observed_entry 0 ''cy'' 8 9, JNull,
     observed_entry 0 ''ann'' 4 5, observed_entry 2 '''' 5 6]"

lemma demo_epochs:
  "(case derive_identity_epochs demo_diarization (of_pyint 10) of
     Inr es \<Rightarrow> map ep_start es = [0, of_pyint 8, 0] \<and> map ep_speaker es = [''ann'', ''cy'', ''bo''] | Inl _ \<Rightarrow> False)"
  by code_simp

theorem identity_epochs_tile_witness:
  "\<exists>es. derive_identity_epochs demo_diarization (of_pyint 10) = Inr es \<and>
     map ep_speaker es = [''ann'', ''cy'', ''bo''] \<and> sorted (map ep_local es)"
proof -
  from demo_epochs obtain es where es: "derive_identity_epochs demo_diarization (of_pyint 10) = Inr es"
    "map ep_speaker es = [''ann'', ''cy'', ''bo'']" by (auto split: sum.splits)
  then show ?thesis using conjunct1[OF identity_epochs_tile[OF es(1)]] by (intro exI conjI)
qed

section \<open>Primary runs\<close>

text \<open>Reference: the frames cut into maximal groups, and what a run says of its group.\<close>

definition continues_top1 :: "dbl \<Rightarrow> int \<Rightarrow> dbl \<Rightarrow> posterior_row \<Rightarrow> posterior_row \<Rightarrow> bool" where
  "continues_top1 period n threshold a b \<longleftrightarrow> \<not> inactive threshold a \<and> \<not> inactive threshold b \<and>
     local_speaker n b = local_speaker n a \<and>
     \<bar>(po_time a + period) - po_time b\<bar> \<le> SERIALIZED_FRAME_CONTIGUITY_SEC"

definition top1_groups :: "dbl \<Rightarrow> int \<Rightarrow> dbl \<Rightarrow> posterior_row list \<Rightarrow> posterior_row list list" where
  "top1_groups period n threshold =
     merge_runs (\<lambda>r. [r]) (\<lambda>g r. g \<noteq> [] \<and> continues_top1 period n threshold (last g) r) (\<lambda>g r. g @ [r])"

definition active_groups :: "dbl \<Rightarrow> int \<Rightarrow> dbl \<Rightarrow> posterior_row list \<Rightarrow> posterior_row list list" where
  "active_groups period n threshold rows =
     filter (\<lambda>g. \<not> inactive threshold (hd g)) (top1_groups period n threshold rows)"

definition run_of_group :: "dbl \<Rightarrow> int \<Rightarrow> posterior_row list \<Rightarrow> top1_run" where
  "run_of_group period n g = foldl (extend_run period) (start_run n period (hd g)) (tl g)"

interpretation top1_content: run_content "\<lambda>r. [r]"
    "\<lambda>g r. g \<noteq> [] \<and> continues_top1 period n threshold (last g) r" "\<lambda>g r. g @ [r]" "\<lambda>r. [r]" "\<lambda>g. g"
  by unfold_locales simp_all

interpretation top1_maximal: run_maximal "\<lambda>r. [r]"
    "\<lambda>g r. g \<noteq> [] \<and> continues_top1 period n threshold (last g) r" "\<lambda>g r. g @ [r]"
    "\<lambda>p q. p \<noteq> [] \<and> continues_top1 period n threshold (last p) (hd q)"
  by unfold_locales auto

lemma top1_groups_concat: "concat (top1_groups period n threshold rows) = rows"
  unfolding top1_groups_def using top1_content.merge_content[of period n threshold rows] by simp

lemma top1_groups_uniform:
  "g \<in> set (top1_groups period n threshold rows) \<Longrightarrow>
   g \<noteq> [] \<and> successively (continues_top1 period n threshold) g"
  unfolding top1_groups_def
  by (rule merge_runs_invariant[where P = "\<lambda>g. g \<noteq> [] \<and> successively (continues_top1 period n threshold) g"])
     (auto simp: successively_append_iff)

lemma run_of_group_snoc:
  "g \<noteq> [] \<Longrightarrow> run_of_group period n (g @ [r]) = extend_run period (run_of_group period n g) r"
  by (simp add: run_of_group_def)

lemma run_of_group_fields:
  assumes "g \<noteq> []" "successively (continues_top1 period n threshold) g"
  shows "tr_speaker (run_of_group period n g) = local_speaker n (last g) \<and>
    tr_end (run_of_group period n g) = po_time (last g) + period \<and>
    tr_start (run_of_group period n g) = po_time (hd g) \<and>
    tr_frames (run_of_group period n g) = int (length g) \<and>
    tr_total (run_of_group period n g) = foldl (+) (po_top1_prob (hd g)) (map po_top1_prob (tl g)) \<and>
    (inactive threshold (last g) \<longleftrightarrow> inactive threshold (hd g))"
  using assms
proof (induction g rule: rev_induct)
  case (snoc r g)
  show ?case
  proof (cases "g = []")
    case True
    then show ?thesis by (simp add: run_of_group_def start_run_def)
  next
    case False
    with snoc.prems have "successively (continues_top1 period n threshold) g"
      "continues_top1 period n threshold (last g) r" by (simp_all add: successively_append_iff)
    then have "local_speaker n r = local_speaker n (last g)" "\<not> inactive threshold (last g)" "\<not> inactive threshold r"
      by (simp_all add: continues_top1_def)
    with snoc.IH[OF False] \<open>successively _ g\<close> False show ?thesis
      by (simp add: run_of_group_snoc extend_run_def)
  qed
qed simp

lemma top1_group_speaker:
  "successively (continues_top1 period n threshold) g \<Longrightarrow> r \<in> set g \<Longrightarrow> local_speaker n r = local_speaker n (last g)"
proof (induction g rule: rev_induct)
  case (snoc q g)
  show ?case
  proof (cases "r \<in> set g")
    case True
    then have "g \<noteq> []" by auto
    with snoc.prems(1) have "successively (continues_top1 period n threshold) g" "local_speaker n q = local_speaker n (last g)"
      by (simp_all add: successively_append_iff continues_top1_def)
    with snoc.IH True show ?thesis by simp
  qed (use snoc.prems(2) in auto)
qed simp

lemma compress_state:
  "foldl (compress_step period n threshold) ([], None) rows =
    (let gs = top1_groups period n threshold rows; act = filter (\<lambda>g. \<not> inactive threshold (hd g)) in
     (map (run_of_group period n) (act (butlast gs)),
      if gs = [] \<or> inactive threshold (hd (last gs)) then None else Some (run_of_group period n (last gs))))"
proof (induction rows rule: rev_induct)
  case Nil
  show ?case by (simp add: top1_groups_def)
next
  case (snoc r rows)
  let ?gs = "top1_groups period n threshold rows"
  let ?same = "\<lambda>g r. g \<noteq> [] \<and> continues_top1 period n threshold (last g) r"
  have gs: "top1_groups period n threshold (rows @ [r]) = rev (merge_step (\<lambda>r. [r]) ?same (\<lambda>g r. g @ [r]) (rev ?gs) r)"
    by (simp add: top1_groups_def merge_runs_snoc)
  show ?case
  proof (cases "?gs = []")
    case True
    then show ?thesis using snoc.IH
      by (simp add: gs merge_step_def compress_step_def run_of_group_def flush_run_def)
  next
    case False
    define g hs where "g = last ?gs" and "hs = butlast ?gs"
    have split: "?gs = hs @ [g]" using False by (simp add: g_def hs_def)
    have g: "g \<noteq> []" "successively (continues_top1 period n threshold) g"
      using top1_groups_uniform[of g period n threshold rows] split by auto
    have ext: "\<not> inactive threshold r \<Longrightarrow> \<not> inactive threshold (hd g) \<Longrightarrow>
        extends_run n (run_of_group period n g) r = ?same g r"
      using run_of_group_fields[OF g] g(1) by (auto simp: extends_run_def continues_top1_def)
    have act: "?same g r \<Longrightarrow> \<not> inactive threshold r \<and> \<not> inactive threshold (hd g)"
      using run_of_group_fields[OF g] by (auto simp: continues_top1_def)
    have ends: "last ?gs = g" "butlast ?gs = hs" "?gs \<noteq> []" "rev ?gs = g # rev hs" using split by simp_all
    show ?thesis
    proof (cases "?same g r")
      case True
      with act have a: "\<not> inactive threshold r" "\<not> inactive threshold (hd g)" by simp_all
      have gs': "top1_groups period n threshold (rows @ [r]) = hs @ [g @ [r]]"
        using True by (simp add: gs ends merge_step_def)
      show ?thesis unfolding gs' using snoc.IH ext[OF a] a True g(1)
        by (simp add: Let_def ends compress_step_def run_of_group_snoc)
    next
      case other: False
      have gs': "top1_groups period n threshold (rows @ [r]) = (hs @ [g]) @ [[r]]"
        using other by (simp only: gs ends merge_step_def list.case if_False rev.simps rev_rev_ident append.simps)
      have r: "run_of_group period n [r] = start_run n period r" by (simp add: run_of_group_def)
      show ?thesis unfolding gs' using snoc.IH ext other
        by (cases "inactive threshold r"; cases "inactive threshold (hd g)")
           (simp_all add: Let_def ends compress_step_def flush_run_def butlast_append r)
    qed
  qed
qed

lemma compress_groups:
  "compress_primary_runs rows period n threshold = map (run_of_group period n) (active_groups period n threshold rows)"
proof (cases "top1_groups period n threshold rows" rule: rev_cases)
  case Nil
  then show ?thesis by (simp add: compress_primary_runs_def compress_state flush_run_def active_groups_def)
next
  case (snoc gs g)
  then show ?thesis by (simp add: compress_primary_runs_def compress_state flush_run_def active_groups_def)
qed

definition near_number :: "json \<Rightarrow> string \<Rightarrow> dbl \<Rightarrow> bool" where
  "near_number v k x = (case float_get v k 0 of Inr y \<Rightarrow> \<bar>y - x\<bar> \<le> D (1 / 1000000) | Inl _ \<Rightarrow> False)"

definition group_mean :: "posterior_row list \<Rightarrow> dbl" where
  "group_mean g = foldl (+) (po_top1_prob (hd g)) (map po_top1_prob (tl g)) / of_pyint (int (length g))"

definition produced_by :: "dbl \<Rightarrow> int \<Rightarrow> posterior_row list \<Rightarrow> json \<Rightarrow> bool" where
  "produced_by period n g v \<longleftrightarrow> is_dict v \<and> int_get v ''speaker'' (- 1) = Inr (local_speaker n (last g)) \<and>
     near_number v ''start'' (po_time (hd g)) \<and> near_number v ''end'' (po_time (last g) + period) \<and>
     near_number v ''confidence'' (group_mean g)"

lemma successively_active:
  "successively (continues_top1 period n threshold) g \<Longrightarrow> tl g \<noteq> [] \<Longrightarrow> \<forall>r \<in> set g. \<not> inactive threshold r"
proof (induction g)
  case (Cons a g)
  then obtain b h where g: "g = b # h" by (cases g) auto
  with Cons.prems have "continues_top1 period n threshold a b" by simp
  then have "\<not> inactive threshold a" "\<not> inactive threshold b" by (simp_all add: continues_top1_def)
  with Cons.IH Cons.prems g show ?case by (cases h) simp_all
qed simp

lemma active_groups_concat:
  "concat (active_groups period n threshold rows) = filter (\<lambda>r. \<not> inactive threshold r) rows"
proof -
  let ?A = "\<lambda>r. \<not> inactive threshold r"
  have "concat (filter (\<lambda>g. ?A (hd g)) gs) = filter ?A (concat gs)"
    if "\<forall>g \<in> set gs. g \<noteq> [] \<and> successively (continues_top1 period n threshold) g" for gs
    using that
  proof (induction gs)
    case (Cons g gs)
    have "filter ?A g = (if ?A (hd g) then g else [])"
    proof (cases "tl g = []")
      case True
      with Cons.prems show ?thesis by (cases g) auto
    next
      case False
      then have "\<forall>r \<in> set g. ?A r" using Cons.prems by (intro successively_active) auto
      then show ?thesis using Cons.prems by (auto simp: filter_id_conv)
    qed
    with Cons show ?case by simp
  qed simp
  from this[of "top1_groups period n threshold rows"] top1_groups_uniform
  show ?thesis by (simp add: active_groups_def top1_groups_concat)
qed

lemma active_group_uniform:
  "g \<in> set (active_groups period n threshold rows) \<Longrightarrow>
   g \<noteq> [] \<and> successively (continues_top1 period n threshold) g"
  using top1_groups_uniform[of g] by (auto simp: active_groups_def)

lemma check_produced_run:
  assumes "check_produced (i, run_of_group period n g, v) = Inr ()" "g \<noteq> []"
    "successively (continues_top1 period n threshold) g"
  shows "produced_by period n g v"
proof -
  note f = run_of_group_fields[OF assms(2,3)]
  from assms(1) obtain d where v: "v = JObj d" by (cases v) (auto simp: check_produced_def)
  have "tr_confidence (run_of_group period n g) = group_mean g"
    using f by (simp add: tr_confidence_def group_mean_def)
  with assms(1) f v show ?thesis
    by (auto simp: check_produced_def run_field_differs_def produced_by_def is_dict_def near_number_def res_iff not_less)
qed

text \<open>
  C22: When the producer check passes, the primary track has exactly one entry for every
  maximal group of active frames of one local speaker on a contiguous clock, in order, with the
  group's speaker, and with its start, end and mean probability up to the tolerance; and the
  groups contain every active frame once.
\<close>

theorem primary_producer_backed:
  assumes "verify_primary_producer t tracks p = Inr report"
  shows "\<exists>threshold primary. activity_threshold t = Inr threshold \<and>
    track tracks ''primary_speaker'' = Inr primary \<and>
    (let n = int (length (ps_columns p)); gs = active_groups (ps_period p) n threshold (ps_rows p) in
      list_all2 (produced_by (ps_period p) n) gs primary \<and>
      concat gs = filter (\<lambda>r. \<not> inactive threshold r) (ps_rows p))"
proof -
  from assms obtain threshold primary where t: "activity_threshold t = Inr threshold"
    "track tracks ''primary_speaker'' = Inr primary"
    and len: "length (compress_primary_runs (ps_rows p) (ps_period p) (int (length (ps_columns p))) threshold) = length primary"
    and chk: "\<exists>us. rmap check_produced (enumerate 0 (zip (compress_primary_runs (ps_rows p) (ps_period p)
        (int (length (ps_columns p))) threshold) primary)) = Inr us"
    by (auto simp: verify_primary_producer_def res_iff Let_def)
  let ?n = "int (length (ps_columns p))"
  let ?gs = "active_groups (ps_period p) ?n threshold (ps_rows p)"
  have "produced_by (ps_period p) ?n (?gs ! i) (primary ! i)" if i: "i < length primary" for i
  proof -
    have "?gs ! i \<in> set ?gs" using i len by (simp add: compress_groups)
    note u = conjunct1[OF active_group_uniform[OF this]] conjunct2[OF active_group_uniform[OF this]]
    have mem: "(i, run_of_group (ps_period p) ?n (?gs ! i), primary ! i) \<in>
        set (enumerate 0 (zip (compress_primary_runs (ps_rows p) (ps_period p) ?n threshold) primary))"
      using i len by (auto simp: in_set_enumerate_eq compress_groups)
    from chk obtain us where "rmap check_produced (enumerate 0 (zip (compress_primary_runs (ps_rows p) (ps_period p)
        ?n threshold) primary)) = Inr us" ..
    from rmap_all[OF this mem] have "check_produced (i, run_of_group (ps_period p) ?n (?gs ! i), primary ! i) = Inr ()"
      by simp
    then show ?thesis
      by (rule check_produced_run) (rule u)+
  qed
  with len have "list_all2 (produced_by (ps_period p) ?n) ?gs primary"
    by (simp add: list_all2_conv_all_nth compress_groups)
  with t show ?thesis by (auto simp: Let_def active_groups_concat)
qed

definition demo_row :: "int \<Rightarrow> rat \<Rightarrow> int \<Rightarrow> rat \<Rightarrow> posterior_row" where
  "demo_row i t spk p = \<lparr>po_frame = i, po_time = D t, po_session = 0, po_top1 = spk, po_top1_prob = D p, po_line = []\<rparr>"

definition demo_posterior :: posterior where
  "demo_posterior = \<lparr>ps_header = [], ps_rows = [demo_row 0 0 0 (3 / 4), demo_row 1 (1 / 2) 0 (1 / 4),
     demo_row 2 1 1 1, demo_row 3 (3 / 2) 1 (1 / 2)], ps_period = D (1 / 2), ps_columns = [''spk0'', ''spk1'']\<rparr>"

definition primary_entry :: "int \<Rightarrow> rat \<Rightarrow> rat \<Rightarrow> rat \<Rightarrow> json" where
  "primary_entry spk s e p = JObj [(''speaker'', JInt spk), (''start'', JFlt (D s)), (''end'', JFlt (D e)),
     (''confidence'', JFlt (D p))]"

definition demo_clock :: obj where
  "demo_clock = [(''audio_sec'', JInt 2), (''resolved_config'', JObj [(''speaker_fusion'',
     JObj [(''frame_activity_threshold'', JFlt (D (1 / 2)))])])]"

definition demo_tracks :: kind_entries where
  "demo_tracks = [(''primary_speaker'', [primary_entry 0 0 (1 / 2) (3 / 4), primary_entry 1 1 2 (3 / 4)])]"

lemma demo_producer:
  "(case verify_primary_producer demo_clock demo_tracks demo_posterior of Inr _ \<Rightarrow> True | Inl _ \<Rightarrow> False)"
  by code_simp

theorem primary_producer_backed_witness:
  "\<exists>primary. track demo_tracks ''primary_speaker'' = Inr primary \<and> length primary = 2 \<and>
     (\<exists>threshold. list_all2 (produced_by (D (1 / 2)) 2)
       (active_groups (D (1 / 2)) 2 threshold (ps_rows demo_posterior)) primary)"
proof -
  from demo_producer obtain report where "verify_primary_producer demo_clock demo_tracks demo_posterior = Inr report"
    by (auto split: sum.splits)
  from primary_producer_backed[OF this] show ?thesis
    by (auto simp: Let_def demo_posterior_def track_def demo_tracks_def ditem_def)
qed

section \<open>VAD windows\<close>

definition reads :: "csv_row \<Rightarrow> string \<Rightarrow> (dbl \<Rightarrow> bool) \<Rightarrow> bool" where
  "reads row k P = (case csv_number row k of Inr (Some x) \<Rightarrow> P x | _ \<Rightarrow> False)"

definition window_ok :: "int \<Rightarrow> nat \<times> csv_row \<Rightarrow> int \<times> int \<Rightarrow> bool" where
  "window_ok rate = (\<lambda>(i, row) (s, e).
     csv_item row ''evidence_id'' = Inr (Some (''vad_window:'' @ int_repr (int i))) \<and>
     csv_int row ''start_sample'' = Inr s \<and> csv_int row ''end_sample'' = Inr e \<and>
     reads row ''start_sec'' (\<lambda>x. \<bar>x - sample_sec s rate\<bar> \<le> EPSILON) \<and>
     reads row ''end_sec'' (\<lambda>x. \<bar>x - sample_sec e rate\<bar> \<le> EPSILON) \<and>
     reads row ''speech_probability'' (\<lambda>x. 0 \<le> x \<and> x \<le> 1))"

lemma reads_iff: "reads row k P \<longleftrightarrow> (\<exists>x. csv_number row k = Inr (Some x) \<and> P x)"
  by (simp add: reads_def split: sum.split option.split)

lemma vad_window_step_iff:
  "vad_window_step rate s x = Inr e \<longleftrightarrow> window_ok rate x (s, e) \<and> s < e"
  by (cases x) (auto simp: vad_window_step_def window_ok_def reads_iff off_clock_def rbind_Inr_iff raise_if_Inr_iff
    option_Inr_iff not_less not_le)

lemma vad_window_fold_iff:
  "rfold (vad_window_step rate) s xs = Inr e \<longleftrightarrow>
   (\<exists>ws. list_all2 (window_ok rate) xs ws \<and> chained fst snd s ws e)"
proof (induction xs arbitrary: s)
  case (Cons x xs)
  have "rfold (vad_window_step rate) s (x # xs) = Inr e \<longleftrightarrow>
      (\<exists>m. (window_ok rate x (s, m) \<and> s < m) \<and> (\<exists>ws. list_all2 (window_ok rate) xs ws \<and> chained fst snd m ws e))"
    by (simp add: rbind_Inr_iff vad_window_step_iff Cons.IH)
  also have "\<dots> \<longleftrightarrow> (\<exists>ws. list_all2 (window_ok rate) (x # xs) ws \<and> chained fst snd s ws e)"
  proof
    assume "\<exists>m. (window_ok rate x (s, m) \<and> s < m) \<and> (\<exists>ws. list_all2 (window_ok rate) xs ws \<and> chained fst snd m ws e)"
    then obtain m ws where "window_ok rate x (s, m)" "s < m" "list_all2 (window_ok rate) xs ws" "chained fst snd m ws e"
      by blast
    then show "\<exists>ws. list_all2 (window_ok rate) (x # xs) ws \<and> chained fst snd s ws e"
      by (intro exI[of _ "(s, m) # ws"]) simp
  qed (fastforce simp: list_all2_Cons1)
  finally show ?case .
qed auto

text \<open>
  C23: The row-by-row check of the VAD windows implements its specification: it accepts a
  table exactly when the rows denote sample windows that chain without gaps or overlap from
  sample zero, with positional ids, times on the sample clock and probabilities.
\<close>

theorem vad_windows_refine:
  "verify_vad_window_evidence ev rate = Inr () \<longleftrightarrow>
   (\<exists>ws e. list_all2 (window_ok rate) (enumerate 0 (rw_rows ev)) ws \<and> chained fst snd 0 ws e)"
  by (auto simp: verify_vad_window_evidence_def rbind_Inr_iff vad_window_fold_iff)

section \<open>Common-clock intersections\<close>

definition span_row :: "segment_row \<Rightarrow> string \<Rightarrow> main_span \<Rightarrow> text_row" where
  "span_row g name m = segment_cells g name @
     span_cells m (max (sg_start g) (ms_start m)) (min (sg_end g) (ms_end m))"

definition absent_row :: "segment_row \<Rightarrow> string \<Rightarrow> text_row" where
  "absent_row g name = segment_cells g name @ map (\<lambda>k. (k, [])) (drop 8 AUX_MAIN_INTERSECTION_COLUMNS)"

definition common_seconds :: "segment_row \<Rightarrow> main_span \<Rightarrow> dbl" where
  "common_seconds g m = min (sg_end g) (ms_end m) - max (sg_start g) (ms_start m)"

definition expected_rows :: "main_spans \<Rightarrow> segment_row \<Rightarrow> string \<Rightarrow> text_row list" where
  "expected_rows spans g name =
    (let met = filter (\<lambda>m. EPSILON < common_seconds g m) (case map_of spans name of Some ms \<Rightarrow> ms | None \<Rightarrow> []) in
     if met = [] then [absent_row g name] else map (span_row g name) met)"

lemma segment_step_proper:
  "segment_step parse columns audio st raw = Inr st' \<Longrightarrow>
   \<exists>g. fst st' = fst st @ [g] \<and> sg_start g < sg_end g"
  by (cases st) (auto simp: segment_step_def rbind_Inr_iff raise_if_Inr_iff option_Inr_iff)

lemma segments_proper:
  assumes "load_segments parse raw audio = Inr (header, segs)"
  shows "\<forall>g \<in> set segs. sg_start g < sg_end g"
proof -
  from assms obtain columns p where
    run: "rfold (segment_step parse columns audio) ([], - 1) (drop 1 raw) = Inr (segs, p)"
    by (auto simp: load_segments_def res_iff Let_def)
  have "\<forall>g \<in> set (fst (segs, p)). sg_start g < sg_end g"
  proof (rule rfold_invariant[OF _ _ run])
    fix st raw st'
    assume "\<forall>g \<in> set (fst st). sg_start g < sg_end g" "segment_step parse columns audio st raw = Inr st'"
    then show "\<forall>g \<in> set (fst st'). sg_start g < sg_end g" using segment_step_proper[of parse columns audio st raw st'] by auto
  qed simp
  then show ?thesis by simp
qed

lemma span_fold:
  assumes "sg_start g < sg_end g"
  shows "rfold (span_step g name) (rows, matched) ms =
    (let met = filter (\<lambda>m. EPSILON < common_seconds g m) ms in
     Inr (rows @ map (span_row g name) met, matched \<or> met \<noteq> []))"
proof (induction ms arbitrary: rows matched)
  case (Cons m ms)
  have "meets g m \<longleftrightarrow> EPSILON < common_seconds g m"
    using assms by (simp add: meets_def interval_intersects_def common_seconds_def)
  then have "span_step g name (rows, matched) m = (if EPSILON < common_seconds g m
      then Inr (rows @ [span_row g name m], True) else Inr (rows, matched))"
    by (cases "EPSILON < common_seconds g m")
       (simp_all add: span_step_def main_speaker_row_def span_row_def common_seconds_def[symmetric] Let_def raise_if_def)
  then show ?case using Cons.IH by (simp add: Let_def)
qed (simp add: Let_def)

text \<open>
  C24: On validated segments and tracks the intersection table can always be built (the
  internal error is unreachable), and it lists for every segment and every accepted track the
  spans that share more than the tolerance with it, or one row that says there is none.
\<close>

theorem intersections_complete:
  assumes "load_segments parse raw audio = Inr (header, segs)" "load_main_speaker_spans tracks = Inr spans"
  shows "auxiliary_main_intersections segs spans =
    Inr (concat (map (\<lambda>g. concat (map (expected_rows spans g) ACCEPTED_SPEAKER_TRACKS)) segs))"
proof -
  from assms(2) have dom: "map_of spans name \<noteq> None" if "name \<in> set ACCEPTED_SPEAKER_TRACKS" for name
    using that by (auto simp: load_main_speaker_spans_def ACCEPTED_SPEAKER_TRACKS_def res_iff list_all2_Cons1)
  have "track_rows spans g name = Inr (expected_rows spans g name)"
    if "g \<in> set segs" "name \<in> set ACCEPTED_SPEAKER_TRACKS" for g name
    using dom[OF that(2)] span_fold[of g name "[]" False] segments_proper[OF assms(1)] that(1)
    by (auto simp: track_rows_def ditem_def expected_rows_def absent_row_def main_speaker_row_def Let_def)
  then have "rmap (track_rows spans g) ACCEPTED_SPEAKER_TRACKS = Inr (map (expected_rows spans g) ACCEPTED_SPEAKER_TRACKS)"
    if "g \<in> set segs" for g using that by (intro rmap_map) blast
  then have "rmap (\<lambda>g. rbind (rmap (track_rows spans g) ACCEPTED_SPEAKER_TRACKS) (\<lambda>rss. Inr (concat rss))) segs =
      Inr (map (\<lambda>g. concat (map (expected_rows spans g) ACCEPTED_SPEAKER_TRACKS)) segs)"
    by (intro rmap_map) simp
  then show ?thesis by (simp add: auxiliary_main_intersections_def)
qed

definition comma_line :: csv_line where
  "comma_line l = Inr (split_on CHR '','' l)"

definition demo_segment_lines :: "string list" where
  "demo_segment_lines = [''start_sec,end_sec,duration_sec,session,local_speaker,confidence,mean_margin'',
     ''0.5,1.5,1,0,0,0.75,0.25'', ''3,4,1,0,1,0.5,0.5'']"

definition demo_accepted :: kind_entries where
  "demo_accepted = [(''diarization'', [observed_entry 0 ''ann'' 1 2]), (''primary_speaker'', [observed_entry 1 '''' 0 1])]"

lemma demo_segments:
  "(case load_segments comma_line demo_segment_lines (of_pyint 5) of Inr (h, segs) \<Rightarrow> length segs = 2 | Inl _ \<Rightarrow> False)"
  "(case load_main_speaker_spans demo_accepted of Inr _ \<Rightarrow> True | Inl _ \<Rightarrow> False)"
  by code_simp+

theorem intersections_complete_witness:
  "\<exists>header segs spans rows. load_segments comma_line demo_segment_lines (of_pyint 5) = Inr (header, segs) \<and>
     length segs = 2 \<and> load_main_speaker_spans demo_accepted = Inr spans \<and>
     auxiliary_main_intersections segs spans = Inr rows"
proof -
  from demo_segments obtain header segs spans where
    h: "load_segments comma_line demo_segment_lines (of_pyint 5) = Inr (header, segs)" "length segs = 2"
      "load_main_speaker_spans demo_accepted = Inr spans" by (auto split: sum.splits)
  from intersections_complete[OF h(1,3)] h show ?thesis by blast
qed

end
