(* ===== verification/Residual_Export.thy ===== *)
theory Residual_Export
  imports Residual_Spans
begin

text \<open>
  \<^verbatim>\<open>tools/verify/py/speaker_residual_evidence_packet.py\<close>, \<^verbatim>\<open>export_packet\<close> and \<^verbatim>\<open>main\<close>: all sources
  are loaded and checked, then the files of the packet are written.  The input files arrive
  parsed; their names, resolved paths and digests, and the digests of written files, are
  parameters.  What a failure after the first write leaves on disk is not represented.
\<close>

section \<open>Files\<close>

datatype packet_file =
    TsvFile "string list list"
  | LinesFile "string list"
  | TextFile string
  | JsonFile json

type_synonym packet_entry = "string list \<times> packet_file"

text \<open>\<^verbatim>\<open>csv.DictWriter\<close>: a key outside the columns is an error, a missing value is empty.\<close>

definition dict_cells :: "string list \<Rightarrow> csv_row \<Rightarrow> string list res" where
  "dict_cells columns row =
    raise_if (list_ex (\<lambda>(k, _). k \<notin> set columns) row) (ValueError ''dict contains fields not in fieldnames'')
      (Inr (map (\<lambda>k. case map_of row k of Some (Some v) \<Rightarrow> v | _ \<Rightarrow> []) columns))"

definition write_dict_tsv :: "string list \<Rightarrow> csv_row list \<Rightarrow> packet_file res" where
  "write_dict_tsv columns rows = rbind (rmap (dict_cells columns) rows) (\<lambda>cells. Inr (TsvFile (columns # cells)))"

definition write_raw_tsv :: "raw_evidence \<Rightarrow> csv_row list \<Rightarrow> packet_file res" where
  "write_raw_tsv ev rows = write_dict_tsv (rw_columns ev) rows"

definition write_text_rows :: "text_row list \<Rightarrow> packet_file res" where
  "write_text_rows rows = write_dict_tsv AUX_MAIN_INTERSECTION_COLUMNS (map (map (\<lambda>(k, v). (k, Some v))) rows)"

definition write_context_tsv :: "packet_context \<Rightarrow> packet_file" where
  "write_context_tsv c = TsvFile [CONTEXT_COLUMNS, [cx_id c, fixed_repr 3 (cx_start c), fixed_repr 3 (cx_end c),
     join_with '','' (cx_focus c), join_with '','' (cx_control c)]]"

definition write_posterior :: "string \<Rightarrow> posterior_row list \<Rightarrow> packet_file" where
  "write_posterior header rows = LinesFile (header # map po_line rows)"

definition write_segments :: "string \<Rightarrow> segment_row list \<Rightarrow> packet_file" where
  "write_segments header rows = LinesFile (header # map sg_line rows)"

section \<open>Sources\<close>

text \<open>
  \<open>pk_path\<close>, \<open>pk_name\<close> and \<open>pk_sha256\<close> give the resolved path, the file name and the digest of a
  source by its key in the manifest.
\<close>

record packet_inputs =
  pk_parse :: csv_line
  pk_path :: "string \<Rightarrow> string"
  pk_name :: "string \<Rightarrow> string"
  pk_sha256 :: "string \<Rightarrow> string"
  pk_file_sha256 :: "packet_file \<Rightarrow> string"
  pk_out_dir :: string
  pk_out_exists :: bool
  pk_contexts :: csv_table
  pk_artifact :: json
  pk_manifest :: json
  pk_reference :: "string list"
  pk_posterior :: "string list"
  pk_vad_window :: "csv_table option"
  pk_vad_state :: "csv_table option"
  pk_identity :: "csv_table option"
  pk_gallery :: "csv_table option"
  pk_aux_posterior :: "string list option"
  pk_aux_segments :: "string list option"

record aux_sources =
  ax_posterior :: posterior
  ax_header :: string
  ax_segments :: "segment_row list"
  ax_spans :: main_spans

record packet_sources =
  pc_contexts :: "packet_context list"
  pc_timeline :: obj
  pc_tracks :: kind_entries
  pc_manifest :: obj
  pc_audio_sec :: dbl
  pc_sample_rate :: int
  pc_blocks :: "ref_block list"
  pc_posterior :: posterior
  pc_check :: json
  pc_aux :: "aux_sources option"
  pc_vad :: "(raw_evidence \<times> raw_evidence) option"
  pc_identity :: "(raw_evidence \<times> raw_evidence) option"
  pc_epochs :: "epoch list"
  pc_reference :: "ref_block list list"

definition unpaired :: "'a option \<Rightarrow> 'b option \<Rightarrow> bool" where
  "unpaired a b \<longleftrightarrow> (a = None) \<noteq> (b = None)"

text \<open>The second step of an optional pair of sources.\<close>

definition paired :: "'a option \<Rightarrow> 'b option \<Rightarrow> ('a \<Rightarrow> 'b \<Rightarrow> 'c res) \<Rightarrow> 'c option res" where
  "paired a b f = (case (a, b) of (Some x, Some y) \<Rightarrow> rbind (f x y) (\<lambda>z. Inr (Some z)) | _ \<Rightarrow> Inr None)"

definition load_auxiliary :: "packet_inputs \<Rightarrow> kind_entries \<Rightarrow> dbl \<Rightarrow> string list \<Rightarrow> string list \<Rightarrow> aux_sources res" where
  "load_auxiliary x tracks audio_sec frames segments =
    rbind (load_posterior (pk_parse x) frames) (\<lambda>p.
    rbind (verify_posterior_extent (ps_rows p) (ps_period p) audio_sec ''auxiliary Sortformer'') (\<lambda>_.
    rbind (load_segments (pk_parse x) segments audio_sec) (\<lambda>(header, rows).
    rbind (load_main_speaker_spans tracks) (\<lambda>spans.
    Inr \<lparr>ax_posterior = p, ax_header = header, ax_segments = rows, ax_spans = spans\<rparr>))))"

definition load_vad :: "packet_inputs \<Rightarrow> int \<Rightarrow> csv_table \<Rightarrow> csv_table \<Rightarrow> (raw_evidence \<times> raw_evidence) res" where
  "load_vad x rate windows states =
    rbind (load_raw_tsv (pk_name x ''vad_window_probabilities'') windows VAD_WINDOW_COLUMNS) (\<lambda>w.
    rbind (load_raw_tsv (pk_name x ''vad_endpoint_states'') states VAD_STATE_COLUMNS) (\<lambda>s.
    rbind (verify_vad_window_evidence w rate) (\<lambda>_. rbind (verify_vad_state_evidence s rate) (\<lambda>_. Inr (w, s)))))"

definition load_identity :: "packet_inputs \<Rightarrow> int \<Rightarrow> csv_table \<Rightarrow> csv_table \<Rightarrow> (raw_evidence \<times> raw_evidence) res" where
  "load_identity x rate references gallery =
    rbind (load_raw_tsv (pk_name x ''identity_retained_references'') references IDENTITY_REFERENCE_COLUMNS) (\<lambda>r.
    rbind (load_raw_tsv (pk_name x ''gallery_independence_evidence'') gallery GALLERY_INDEPENDENCE_COLUMNS) (\<lambda>g.
    rbind (verify_identity_references r rate) (\<lambda>bounds.
    rbind (verify_gallery_independence_evidence g bounds) (\<lambda>_. Inr (r, g)))))"

definition check_pairs :: "packet_inputs \<Rightarrow> unit res" where
  "check_pairs x =
    raise_if (unpaired (pk_vad_window x) (pk_vad_state x))
      (ValueError ''raw VAD window and state evidence must be paired'')
    (raise_if (unpaired (pk_identity x) (pk_gallery x))
      (ValueError ''identity references and gallery evidence must be paired'')
    (raise_if (unpaired (pk_aux_posterior x) (pk_aux_segments x))
      (ValueError ''auxiliary posterior and segment evidence must be paired'') (Inr ())))"

definition timeline_clock :: "obj \<Rightarrow> (dbl \<times> int) res" where
  "timeline_clock t =
    rbind (py_float (dget t ''audio_sec'' (JFlt 0))) (\<lambda>audio_sec.
    raise_if (audio_sec \<le> 0) (ValueError ''timeline audio_sec is invalid'')
    (rbind (py_int (dget t ''sample_rate'' (JInt 0))) (\<lambda>rate.
     raise_if (rate \<le> 0) (ValueError ''timeline sample rate is invalid'') (Inr (audio_sec, rate)))))"

definition load_packet :: "packet_inputs \<Rightarrow> packet_sources res" where
  "load_packet x =
    rbind (check_pairs x) (\<lambda>_.
    rbind (load_contexts (pk_contexts x)) (\<lambda>contexts.
    rbind (timeline_and_tracks (pk_artifact x)) (\<lambda>(t, tracks).
    rbind (rbind (vdict (pk_artifact x)) (verify_artifact_manifest (pk_sha256 x ''artifact'') (pk_manifest x))) (\<lambda>manifest.
    rbind (timeline_clock t) (\<lambda>(audio_sec, rate).
    rbind (load_reference (pk_reference x) audio_sec) (\<lambda>blocks.
    rbind (load_posterior (pk_parse x) (pk_posterior x)) (\<lambda>p.
    rbind (verify_primary_producer t tracks p) (\<lambda>check.
    rbind (paired (pk_aux_posterior x) (pk_aux_segments x) (load_auxiliary x tracks audio_sec)) (\<lambda>aux.
    rbind (paired (pk_vad_window x) (pk_vad_state x) (load_vad x rate)) (\<lambda>vad.
    rbind (paired (pk_identity x) (pk_gallery x) (load_identity x rate)) (\<lambda>identity.
    rbind (rbind (track tracks ''diarization'') (\<lambda>d. derive_identity_epochs d audio_sec)) (\<lambda>epochs.
    rbind (rmap (context_reference blocks) contexts) (\<lambda>reference.
    Inr \<lparr>pc_contexts = contexts, pc_timeline = t, pc_tracks = tracks, pc_manifest = manifest,
         pc_audio_sec = audio_sec, pc_sample_rate = rate, pc_blocks = blocks, pc_posterior = p, pc_check = check,
         pc_aux = aux, pc_vad = vad, pc_identity = identity, pc_epochs = epochs,
         pc_reference = reference\<rparr>)))))))))))))"

section \<open>Packet-wide files\<close>

definition aux_files :: "packet_sources \<Rightarrow> packet_entry list res" where
  "aux_files s = (case pc_aux s of None \<Rightarrow> Inr []
     | Some a \<Rightarrow> rbind (rbind (auxiliary_main_intersections (ax_segments a) (ax_spans a)) write_text_rows) (\<lambda>f.
         Inr [([''aux-main-common-clock-intersections.tsv''], f)]))"

definition reference_dir :: "string \<Rightarrow> string" where
  "reference_dir eid = map (\<lambda>c. if c = CHR '':'' then CHR ''_'' else c) eid"

definition retained_files :: "packet_sources \<Rightarrow> raw_evidence \<Rightarrow> csv_row \<Rightarrow> packet_entry list res" where
  "retained_files s refs row =
    rbind (identity_evidence_id row) (\<lambda>eid. let dir = [''retained-reference-contexts'', reference_dir eid] in
    rbind (write_raw_tsv refs [row]) (\<lambda>f.
    rbind (rbind (retained_reference_blocks (pc_blocks s) row) (render_retained_reference row)) (\<lambda>tx.
    Inr [(dir @ [''identity-reference.tsv''], f), (dir @ [''reference-sections.md''], TextFile tx)])))"

definition identity_files :: "packet_sources \<Rightarrow> packet_entry list res" where
  "identity_files s = (case pc_identity s of None \<Rightarrow> Inr []
     | Some (refs, _) \<Rightarrow>
         rbind (write_raw_tsv refs (rw_rows refs)) (\<lambda>f.
         rbind (rmap (retained_files s refs) (rw_rows refs)) (\<lambda>fss.
         rbind (render_retained_reference_sequence (rw_rows refs) (pc_blocks s) False) (\<lambda>chrono.
         rbind (render_retained_reference_sequence (rw_rows refs) (pc_blocks s) True) (\<lambda>reversed.
         Inr ([([''identity-retained-references.tsv''], f)] @ concat fss @
           [([''retained-references-chronological.md''], TextFile chrono),
            ([''retained-references-reverse.md''], TextFile reversed)]))))))"

section \<open>Files of a context\<close>

definition context_aux_files :: "packet_sources \<Rightarrow> packet_context \<Rightarrow> packet_entry list res" where
  "context_aux_files s c = (case pc_aux s of None \<Rightarrow> Inr []
     | Some a \<Rightarrow> let p = ax_posterior a; segs = context_segments (ax_segments a) c in
         rbind (rbind (auxiliary_main_intersections segs (ax_spans a)) write_text_rows) (\<lambda>f.
         Inr [([cx_id c, ''aux-sortformer-frames.csv''],
               write_posterior (ps_header p) (context_posterior (ps_rows p) (ps_period p) c)),
              ([cx_id c, ''aux-sortformer-segments.csv''], write_segments (ax_header a) segs),
              ([cx_id c, ''aux-main-common-clock-intersections.tsv''], f)]))"

definition context_vad_files :: "packet_sources \<Rightarrow> packet_context \<Rightarrow> packet_entry list res" where
  "context_vad_files s c = (case pc_vad s of None \<Rightarrow> Inr []
     | Some (w, st) \<Rightarrow> rbind (rbind (context_vad_windows w c) (write_raw_tsv w)) (\<lambda>f.
         rbind (rbind (context_vad_states st c) (write_raw_tsv st)) (\<lambda>g.
         Inr [([cx_id c, ''vad-window-probabilities.tsv''], f), ([cx_id c, ''vad-endpoint-states.tsv''], g)])))"

definition context_identity_files :: "packet_sources \<Rightarrow> packet_context \<Rightarrow> packet_entry list res" where
  "context_identity_files s c = (case pc_identity s of None \<Rightarrow> Inr []
     | Some (r, q) \<Rightarrow> rbind (rbind (context_identity_references r c) (write_raw_tsv r)) (\<lambda>f.
         rbind (rbind (context_gallery_evidence q c) (write_raw_tsv q)) (\<lambda>g.
         Inr [([cx_id c, ''identity-retained-references.tsv''], f),
              ([cx_id c, ''gallery-independence-evidence.tsv''], g)])))"

definition context_files :: "packet_sources \<Rightarrow> packet_context \<times> ref_block list \<Rightarrow> packet_entry list res" where
  "context_files s = (\<lambda>(c, refs).
    rbind (context_tracks (pc_timeline s) (pc_tracks s) c) (\<lambda>typed.
    rbind (context_business (pc_timeline s) (pc_tracks s) c) (\<lambda>view.
    rbind (context_aux_files s c) (\<lambda>aux. rbind (context_vad_files s c) (\<lambda>vad.
    rbind (context_identity_files s c) (\<lambda>ident. let p = pc_posterior s in
    Inr ([([cx_id c, ''context.tsv''], write_context_tsv c),
          ([cx_id c, ''reference-sections.md''], TextFile (render_reference refs c)),
          ([cx_id c, ''typed-tracks.json''], JsonFile typed),
          ([cx_id c, ''business-view.json''], JsonFile view),
          ([cx_id c, ''local-identity-epochs.tsv''], TsvFile (write_epochs (context_epochs (pc_epochs s) c))),
          ([cx_id c, ''sortformer-frames.csv''],
            write_posterior (ps_header p) (context_posterior (ps_rows p) (ps_period p) c))]
         @ aux @ vad @ ident)))))))"

definition packet_files :: "packet_sources \<Rightarrow> packet_entry list res" where
  "packet_files s =
    rbind (aux_files s) (\<lambda>aux. rbind (identity_files s) (\<lambda>ident.
    rbind (rmap (context_files s) (zip (pc_contexts s) (pc_reference s))) (\<lambda>fss.
    Inr ([([''local-identity-epochs.tsv''], TsvFile (write_epochs (pc_epochs s)))] @ aux @ ident @ concat fss))))"

section \<open>Manifest\<close>

definition packet_source_json :: "packet_inputs \<Rightarrow> string \<Rightarrow> (string \<times> json)" where
  "packet_source_json x k = (k, JObj [(''path'', JStr (pk_path x k)), (''sha256'', JStr (pk_sha256 x k))])"

definition artifact_manifest_json :: "packet_inputs \<Rightarrow> obj \<Rightarrow> string \<times> json" where
  "artifact_manifest_json x m = (''artifact_manifest'', JObj
     [(''path'', JStr (pk_path x ''artifact_manifest'')), (''sha256'', JStr (pk_sha256 x ''artifact_manifest'')),
      (''artifact_id'', dget m ''artifact_id'' (JStr [])), (''git'', dget m ''git'' (JObj [])),
      (''resolved_config_sha256'', dget m ''resolved_config_sha256'' (JStr [])),
      (''source_audio'', dget m ''source_audio'' (JObj []))])"

definition optional_sources :: "packet_inputs \<Rightarrow> packet_sources \<Rightarrow> obj" where
  "optional_sources x s = map (packet_source_json x)
    ((if pc_vad s = None then [] else [''vad_window_probabilities'', ''vad_endpoint_states'']) @
     (if pc_aux s = None then [] else [''auxiliary_sortformer_posterior'', ''auxiliary_sortformer_segments'']) @
     (if pc_identity s = None then [] else [''identity_retained_references'', ''gallery_independence_evidence'']))"

definition context_json :: "packet_context \<Rightarrow> json" where
  "context_json c = JObj [(''context_id'', JStr (cx_id c)), (''start_sec'', JFlt (cx_start c)),
     (''end_sec'', JFlt (cx_end c)), (''focus_refs'', JArr (map JStr (cx_focus c))),
     (''control_refs'', JArr (map JStr (cx_control c)))]"

definition auxiliary_json :: "aux_sources \<Rightarrow> json" where
  "auxiliary_json a = (let p = ax_posterior a in JObj [(''role'', JStr ''display_only_correlated_model_context''),
     (''frame_period_sec'', JFlt (ps_period p)), (''first_frame_sec'', JFlt (po_time (hd (ps_rows p)))),
     (''last_frame_sec'', JFlt (po_time (last (ps_rows p)))), (''speaker_columns'', JArr (map JStr (ps_columns p))),
     (''identity_mapping'', JStr ''not_assigned_by_packet''),
     (''common_clock_intersections'', JStr ''all_pairwise_rows_with_explicit_track_absence'')])"

definition packet_manifest :: "packet_inputs \<Rightarrow> packet_sources \<Rightarrow> obj" where
  "packet_manifest x s = (let p = pc_posterior s in
    [(''schema_version'', JInt 1), (''kind'', JStr ''orator_speaker_residual_evidence_packet''),
     (''scope'', JStr ''display_only_cross_pipeline_evidence''),
     (''governance'', JStr ''Source arrangement and mechanical validation only; contextual human review is required for every product judgment.''),
     (''sources'', JObj ([packet_source_json x ''artifact'', artifact_manifest_json x (pc_manifest s), packet_source_json x ''reference'',
        packet_source_json x ''contexts'', packet_source_json x ''sortformer_posterior''] @ optional_sources x s)),
     (''audio_sec'', JFlt (pc_audio_sec s)), (''sample_rate'', JInt (pc_sample_rate s)),
     (''frame_period_sec'', JFlt (ps_period p)),
     (''posterior_first_frame_sec'', JFlt (po_time (hd (ps_rows p)))),
     (''posterior_last_frame_sec'', JFlt (po_time (last (ps_rows p)))),
     (''posterior_speaker_columns'', JArr (map JStr (ps_columns p))),
     (''posterior_primary_producer_check'', pc_check s),
     (''identity_epoch_derivation'', JStr ''Observed diarization local-speaker/speaker-id transitions; raw diarization entries remain in each typed-tracks file.''),
     (''track_kinds'', JArr (map JStr TRACK_KINDS)),
     (''contexts'', JArr (map context_json (pc_contexts s)))]
    @ (case pc_aux s of None \<Rightarrow> [] | Some a \<Rightarrow> [(''auxiliary_streaming_context'', auxiliary_json a)]))"

definition manifest_line :: "packet_inputs \<Rightarrow> packet_entry \<Rightarrow> string" where
  "manifest_line x = (\<lambda>(path, f). pk_file_sha256 x f @ ''  '' @ join_with ''/'' path)"

definition write_content_manifest :: "packet_inputs \<Rightarrow> packet_entry list \<Rightarrow> packet_file" where
  "write_content_manifest x files = LinesFile (map (manifest_line x) (sort_key fst files))"

text \<open>The document \<^verbatim>\<open>export_packet\<close> returns and the files it writes, the digest list last.\<close>

definition export_packet :: "packet_inputs \<Rightarrow> (obj \<times> packet_entry list) res" where
  "export_packet x =
    rbind (load_packet x) (\<lambda>s.
    raise_if (pk_out_exists x) OSError
    (rbind (packet_files s) (\<lambda>files.
     let manifest = packet_manifest x s;
         written = files @ [([''packet-manifest.json''], JsonFile (JObj manifest))];
         contents = write_content_manifest x written
     in Inr (manifest @ [(''content_manifest_sha256'', JStr (pk_file_sha256 x contents))],
             written @ [([''content.sha256''], contents)]))))"

text \<open>The line \<^verbatim>\<open>main\<close> prints.\<close>

definition packet_summary :: "packet_inputs \<Rightarrow> obj \<Rightarrow> string" where
  "packet_summary x result = json_text '', '' '': '' (JObj [(''kind'', get result ''kind''),
     (''scope'', get result ''scope''), (''out_dir'', JStr (pk_out_dir x)),
     (''content_manifest_sha256'', get result ''content_manifest_sha256'')])"

definition residual_main :: "packet_inputs \<Rightarrow> (string \<times> packet_entry list) res" where
  "residual_main x = rbind (export_packet x) (\<lambda>(result, files). Inr (packet_summary x result, files))"

end
