(* ===== verification/Residual_Files.thy ===== *)
theory Residual_Files
  imports Residual_Export
begin

text \<open>
  What \<^verbatim>\<open>export_packet\<close> promises of the files it writes: their paths are known in advance and
  distinct, and the content list names each of them once.
\<close>

section \<open>The files of a packet\<close>

lemma identity_fold_ids:
  "rfold (identity_reference_step rate) (refs, prior) rows = Inr (refs', prior') \<Longrightarrow>
   \<exists>ids. rmap identity_evidence_id rows = Inr ids \<and> map fst refs' = map fst refs @ ids \<and>
     (\<forall>i \<in> set ids. identity_ref_key i \<noteq> None) \<and> (distinct (map fst refs) \<longrightarrow> distinct (map fst refs'))"
proof (induction rows arbitrary: refs prior)
  case (Cons row rows)
  from Cons.prems obtain refs1 prior1 where step: "identity_reference_step rate (refs, prior) row = Inr (refs1, prior1)"
    and rest: "rfold (identity_reference_step rate) (refs1, prior1) rows = Inr (refs', prior')"
    by (auto simp: rbind_Inr_iff)
  from step obtain eid where e: "identity_evidence_id row = Inr eid" "identity_ref_key eid \<noteq> None"
    "map_of refs eid = None" and b: "\<exists>b. refs1 = dset eid b refs"
    by (auto simp: identity_reference_step_def rbind_Inr_iff raise_if_Inr_iff option_Inr_iff simp del: not_None_eq)
  have "eid \<notin> fst ` set refs" using e(3) by (simp add: map_of_eq_None_iff)
  then have keys: "map fst refs1 = map fst refs @ [eid]" using b by (auto simp: update_keys)
  from Cons.IH[OF rest] obtain ids where ids: "rmap identity_evidence_id rows = Inr ids"
    "map fst refs' = map fst refs1 @ ids" "\<forall>i \<in> set ids. identity_ref_key i \<noteq> None"
    "distinct (map fst refs1) \<longrightarrow> distinct (map fst refs')" by blast
  show ?case
    by (rule exI[of _ "eid # ids"]) (use e ids keys \<open>eid \<notin> fst ` set refs\<close> in auto)
qed simp

lemma identity_ids:
  assumes "verify_identity_references ev rate = Inr refs"
  shows "\<exists>ids. rmap identity_evidence_id (rw_rows ev) = Inr ids \<and> distinct ids \<and>
    (\<forall>i \<in> set ids. identity_ref_key i \<noteq> None)"
proof -
  from assms obtain prior where "rfold (identity_reference_step rate) ([], None) (rw_rows ev) = Inr (refs, prior)"
    by (auto simp: verify_identity_references_def rbind_Inr_iff)
  from identity_fold_ids[OF this] show ?thesis by auto
qed

lemma identity_ref_form:
  assumes "identity_ref_key s \<noteq> None"
  shows "\<exists>t. s = ''identity_ref'' @ t \<and> CHR ''_'' \<notin> set t"
proof -
  from assms obtain a b c where sp: "split_on CHR '':'' s = [''identity_ref'', a, b, c]"
    and d: "digit_text a" "digit_text b" "digit_text c"
    by (auto simp: identity_ref_key_def split: list.splits if_splits)
  have s: "s = ''identity_ref'' @ '':'' @ a @ '':'' @ b @ '':'' @ c" using split_on_join[of "CHR '':''" s] sp by simp
  have "\<not> is_digit CHR ''_''" by (simp add: less_eq_char_def)
  then have "CHR ''_'' \<notin> set (a @ b @ c)" using d by (auto simp: digit_text_def list_all_iff simp del: is_digit.simps)
  then show ?thesis by (intro exI[of _ "'':'' @ a @ '':'' @ b @ '':'' @ c"]) (simp add: s)
qed

lemma reference_dir_inj: "inj_on reference_dir {s. identity_ref_key s \<noteq> None}"
proof (rule inj_onI, unfold mem_Collect_eq)
  fix s s' assume "identity_ref_key s \<noteq> None" "identity_ref_key s' \<noteq> None" and eq: "reference_dir s = reference_dir s'"
  from identity_ref_form[OF this(1)] identity_ref_form[OF this(2)] obtain t t' where
    t: "s = ''identity_ref'' @ t" "s' = ''identity_ref'' @ t'" "CHR ''_'' \<notin> set t \<union> set t'" by auto
  let ?f = "\<lambda>c. if c = CHR '':'' then CHR ''_'' else c"
  from eq have "map ?f t = map ?f t'" by (simp add: reference_dir_def t)
  moreover have "inj_on ?f (set t \<union> set t')" using t(3) by (auto simp: inj_on_def)
  ultimately show "s = s'" by (simp add: t inj_on_map_eq_map)
qed

definition context_names :: "packet_sources \<Rightarrow> string list" where
  "context_names s = [''context.tsv'', ''reference-sections.md'', ''typed-tracks.json'', ''business-view.json'',
     ''local-identity-epochs.tsv'', ''sortformer-frames.csv'']
   @ (if pc_aux s = None then [] else [''aux-sortformer-frames.csv'', ''aux-sortformer-segments.csv'',
        ''aux-main-common-clock-intersections.tsv''])
   @ (if pc_vad s = None then [] else [''vad-window-probabilities.tsv'', ''vad-endpoint-states.tsv''])
   @ (if pc_identity s = None then [] else [''identity-retained-references.tsv'', ''gallery-independence-evidence.tsv''])"

lemma context_names_distinct: "distinct (context_names s)"
  by (simp add: context_names_def)

lemma context_files_paths:
  assumes "context_files s (c, refs) = Inr fs"
  shows "map fst fs = map (\<lambda>n. [cx_id c, n]) (context_names s)"
  using assms
  by (auto simp: context_files_def rbind_Inr_iff context_aux_files_def context_vad_files_def
    context_identity_files_def context_names_def Let_def split: option.splits)

definition reference_paths :: "string \<Rightarrow> string list list" where
  "reference_paths eid = map (\<lambda>n. [''retained-reference-contexts'', reference_dir eid, n])
     [''identity-reference.tsv'', ''reference-sections.md'']"

lemma retained_files_paths:
  assumes "retained_files s refs row = Inr fs" "identity_evidence_id row = Inr eid"
  shows "map fst fs = reference_paths eid"
  using assms by (auto simp: retained_files_def rbind_Inr_iff reference_paths_def Let_def)

lemma concat_rmap_paths:
  "rmap f xs = Inr fss \<Longrightarrow> (\<And>x fs. x \<in> set xs \<Longrightarrow> f x = Inr fs \<Longrightarrow> map fst fs = g x) \<Longrightarrow>
   map fst (concat fss) = concat (map g xs)"
proof (induction xs arbitrary: fss)
  case (Cons x xs)
  from Cons.prems(1) obtain fs gss where fs: "f x = Inr fs" "rmap f xs = Inr gss" "fss = fs # gss"
    by (auto simp: rbind_Inr_iff)
  have "map fst fs = g x" by (rule Cons.prems(2)) (simp_all add: fs)
  moreover have "map fst (concat gss) = concat (map g xs)"
    by (rule Cons.IH[OF fs(2)]) (rule Cons.prems(2), simp_all)
  ultimately show ?case by (simp add: fs(3))
qed simp

lemma retained_paths_distinct:
  assumes "distinct ids" "\<forall>i \<in> set ids. identity_ref_key i \<noteq> None"
  shows "distinct (concat (map reference_paths ids))"
proof (rule distinct_concat_inj[OF assms(1)])
  show "\<forall>i \<in> set ids. \<forall>j \<in> set ids. set (reference_paths i) \<inter> set (reference_paths j) \<noteq> {} \<longrightarrow> i = j"
    using assms(2) by (auto simp: reference_paths_def intro: inj_onD[OF reference_dir_inj])
qed (simp add: reference_paths_def)

lemma context_paths_distinct:
  assumes "distinct (map cx_id cs)"
  shows "distinct (concat (map (\<lambda>c. map (\<lambda>n. [cx_id c, n]) (context_names s)) cs))"
proof -
  have "distinct (concat (map (\<lambda>i. map (\<lambda>n. [i, n]) (context_names s)) (map cx_id cs)))"
    by (rule distinct_concat_inj[OF assms]) (auto simp: distinct_map inj_on_def context_names_distinct)
  then show ?thesis by (simp add: comp_def)
qed

text \<open>The paths \<open>export_packet\<close> writes, by group.\<close>

definition packet_paths :: "packet_sources \<Rightarrow> string list \<Rightarrow> string list list" where
  "packet_paths s ids = [''local-identity-epochs.tsv'']
    # (if pc_aux s = None then [] else [[''aux-main-common-clock-intersections.tsv'']])
    @ (if pc_identity s = None then [] else [''identity-retained-references.tsv''] # concat (map reference_paths ids)
        @ [[''retained-references-chronological.md''], [''retained-references-reverse.md'']])
    @ concat (map (\<lambda>c. map (\<lambda>n. [cx_id c, n]) (context_names s)) (pc_contexts s))
    @ [[''packet-manifest.json''], [''content.sha256'']]"

lemma packet_paths_distinct:
  assumes "distinct ids" "\<forall>i \<in> set ids. identity_ref_key i \<noteq> None" "distinct (map cx_id (pc_contexts s))"
  shows "distinct (packet_paths s ids)"
proof -
  have l3: "length p = 3" if "p \<in> set (concat (map reference_paths ids))" for p
    using that by (auto simp: reference_paths_def)
  have l2: "length p = 2" if "p \<in> set (concat (map (\<lambda>c. map (\<lambda>n. [cx_id c, n]) (context_names s)) (pc_contexts s)))" for p
    using that by auto
  show ?thesis
    using retained_paths_distinct[OF assms(1,2)] context_paths_distinct[OF assms(3), of s]
    unfolding packet_paths_def
    by (auto simp del: set_concat dest!: l2 l3)
qed

lemma aux_files_paths:
  "aux_files s = Inr fs \<Longrightarrow> map fst fs = (if pc_aux s = None then [] else [[''aux-main-common-clock-intersections.tsv'']])"
  by (auto simp: aux_files_def rbind_Inr_iff split: option.splits)

lemma identity_files_paths:
  assumes "identity_files s = Inr fs"
    "\<And>refs g. pc_identity s = Some (refs, g) \<Longrightarrow> rmap identity_evidence_id (rw_rows refs) = Inr ids"
  shows "map fst fs = (if pc_identity s = None then []
    else [''identity-retained-references.tsv''] # concat (map reference_paths ids)
      @ [[''retained-references-chronological.md''], [''retained-references-reverse.md'']])"
proof (cases "pc_identity s")
  case None
  with assms(1) show ?thesis by (simp add: identity_files_def)
next
  case (Some p)
  obtain refs g where p: "p = (refs, g)" by (cases p)
  from assms(2) Some p have ids: "rmap identity_evidence_id (rw_rows refs) = Inr ids" by blast
  from assms(1) Some p obtain f fss chrono reversed where
    fss: "rmap (retained_files s refs) (rw_rows refs) = Inr fss" and
    fs: "fs = [([''identity-retained-references.tsv''], f)] @ concat fss @
      [([''retained-references-chronological.md''], TextFile chrono), ([''retained-references-reverse.md''], TextFile reversed)]"
    by (auto simp: identity_files_def rbind_Inr_iff)
  have "map fst (concat fss) = concat (map (\<lambda>row. reference_paths (projr (identity_evidence_id row))) (rw_rows refs))"
    by (rule concat_rmap_paths[OF fss]) (use rmap_all[OF ids] retained_files_paths in fastforce)
  also have "\<dots> = concat (map reference_paths (map (\<lambda>row. projr (identity_evidence_id row)) (rw_rows refs)))"
    by (simp add: comp_def)
  also have "map (\<lambda>row. projr (identity_evidence_id row)) (rw_rows refs) = ids"
    using ids by (rule rmap_projr)
  finally show ?thesis using Some fs by simp
qed

lemma packet_files_paths:
  assumes "packet_files s = Inr fs"
    "\<And>refs g. pc_identity s = Some (refs, g) \<Longrightarrow> rmap identity_evidence_id (rw_rows refs) = Inr ids"
    "length (pc_reference s) = length (pc_contexts s)"
  shows "map fst fs @ [[''packet-manifest.json''], [''content.sha256'']] = packet_paths s ids"
proof -
  from assms(1) obtain aux ident fss where f: "aux_files s = Inr aux" "identity_files s = Inr ident"
    "rmap (context_files s) (zip (pc_contexts s) (pc_reference s)) = Inr fss"
    "fs = [([''local-identity-epochs.tsv''], TsvFile (write_epochs (pc_epochs s)))] @ aux @ ident @ concat fss"
    by (auto simp: packet_files_def rbind_Inr_iff)
  have "map fst (concat fss) = concat (map (\<lambda>x. map (\<lambda>n. [cx_id (fst x), n]) (context_names s)) (zip (pc_contexts s) (pc_reference s)))"
    by (rule concat_rmap_paths[OF f(3)]) (use context_files_paths in force)
  also have "\<dots> = concat (map (\<lambda>c. map (\<lambda>n. [cx_id c, n]) (context_names s)) (map fst (zip (pc_contexts s) (pc_reference s))))"
    by (simp add: comp_def)
  also have "map fst (zip (pc_contexts s) (pc_reference s)) = pc_contexts s" using assms(3) by simp
  finally show ?thesis
    using aux_files_paths[OF f(1)] identity_files_paths[OF f(2) assms(2)] f(4) by (simp add: packet_paths_def)
qed

lemma load_packet_facts:
  assumes "load_packet x = Inr s"
  shows "distinct (map cx_id (pc_contexts s))" "length (pc_reference s) = length (pc_contexts s)"
    "\<exists>ids. distinct ids \<and> (\<forall>i \<in> set ids. identity_ref_key i \<noteq> None) \<and>
      (\<forall>refs g. pc_identity s = Some (refs, g) \<longrightarrow> rmap identity_evidence_id (rw_rows refs) = Inr ids)"
proof -
  from assms obtain cs rate blocks reference idn where
    l: "load_contexts (pk_contexts x) = Inr cs" "rmap (context_reference blocks) cs = Inr reference"
    "paired (pk_identity x) (pk_gallery x) (load_identity x rate) = Inr idn"
    "pc_contexts s = cs" "pc_reference s = reference" "pc_identity s = idn"
    by (auto simp: load_packet_def rbind_Inr_iff)
  from l(1,4) show "distinct (map cx_id (pc_contexts s))"
    by (auto simp: load_contexts_def rbind_Inr_iff raise_if_Inr_iff)
  show "length (pc_reference s) = length (pc_contexts s)" using rmap_length[OF l(2)] l(4,5) by simp
  show "\<exists>ids. distinct ids \<and> (\<forall>i \<in> set ids. identity_ref_key i \<noteq> None) \<and>
      (\<forall>refs g. pc_identity s = Some (refs, g) \<longrightarrow> rmap identity_evidence_id (rw_rows refs) = Inr ids)"
  proof (cases idn)
    case None
    with l(6) show ?thesis by (intro exI[of _ "[]"]) simp
  next
    case (Some p)
    obtain refs g where p: "p = (refs, g)" by (cases p)
    from l(3) Some p obtain r q where "load_identity x rate r q = Inr (refs, g)"
      by (auto simp: paired_def rbind_Inr_iff split: option.splits)
    then obtain bounds where "verify_identity_references refs rate = Inr bounds"
      by (auto simp: load_identity_def rbind_Inr_iff)
    from identity_ids[OF this] show ?thesis using l(6) Some p by auto
  qed
qed

definition contents_list :: "packet_inputs \<Rightarrow> packet_entry list \<Rightarrow> string list \<Rightarrow> bool" where
  "contents_list x files lines \<longleftrightarrow> write_content_manifest x files = LinesFile lines \<and>
     mset lines = image_mset (manifest_line x) (mset files)"

lemma contents_list_ex: "\<exists>lines. contents_list x files lines"
  unfolding contents_list_def write_content_manifest_def
  by (rule exI, rule conjI, rule refl) (simp add: mset_map[symmetric] del: mset_map, simp add: mset_map)

text \<open>
  C25: A packet that is written has no two files under one path, its content list names
  every other file exactly once with its digest, the returned manifest carries the digest of that
  list, and every context has all the files its sources call for.
\<close>

theorem packet_files_listed:
  assumes "export_packet x = Inr (doc, files)"
  shows "distinct (map fst files) \<and>
    (\<exists>s written lines. load_packet x = Inr s \<and>
      files = written @ [([''content.sha256''], LinesFile lines)] \<and> contents_list x written lines \<and>
      get doc ''content_manifest_sha256'' = JStr (pk_file_sha256 x (LinesFile lines)) \<and>
      (\<forall>c \<in> set (pc_contexts s). \<forall>n \<in> set (context_names s). [cx_id c, n] \<in> fst ` set written))"
proof -
  from assms obtain s fs where s: "load_packet x = Inr s" "packet_files s = Inr fs" and
    e: "doc = packet_manifest x s @ [(''content_manifest_sha256'', JStr (pk_file_sha256 x (write_content_manifest x
         (fs @ [([''packet-manifest.json''], JsonFile (JObj (packet_manifest x s)))]))))]"
      "files = (fs @ [([''packet-manifest.json''], JsonFile (JObj (packet_manifest x s)))]) @ [([''content.sha256''],
         write_content_manifest x (fs @ [([''packet-manifest.json''], JsonFile (JObj (packet_manifest x s)))]))]"
    by (auto simp: export_packet_def rbind_Inr_iff raise_if_Inr_iff Let_def)
  define written where "written = fs @ [([''packet-manifest.json''], JsonFile (JObj (packet_manifest x s)))]"
  note e = e[folded written_def]
  obtain lines where lines: "contents_list x written lines" using contents_list_ex by blast
  obtain ids where ids: "distinct ids" "\<forall>i \<in> set ids. identity_ref_key i \<noteq> None"
    "\<forall>refs g. pc_identity s = Some (refs, g) \<longrightarrow> rmap identity_evidence_id (rw_rows refs) = Inr ids"
    using load_packet_facts(3)[OF s(1)] by blast
  have paths: "map fst files = packet_paths s ids"
    using packet_files_paths[OF s(2) _ load_packet_facts(2)[OF s(1)]] ids(3) by (simp add: e(2) written_def)
  then have "distinct (map fst files)"
    using packet_paths_distinct[OF ids(1,2) load_packet_facts(1)[OF s(1)]] by simp
  moreover have "[cx_id c, n] \<in> fst ` set written" if "c \<in> set (pc_contexts s)" "n \<in> set (context_names s)" for c n
  proof -
    have "[cx_id c, n] \<in> set (map fst files)" unfolding paths packet_paths_def using that by auto
    then show ?thesis by (auto simp: e(2))
  qed
  moreover have "get doc ''content_manifest_sha256'' = JStr (pk_file_sha256 x (write_content_manifest x written))"
    by (simp add: e(1) get_def dget_def packet_manifest_def Let_def split: option.split)
  ultimately show ?thesis using s(1) e(2) lines by (auto simp: contents_list_def)
qed

definition text_table :: "string list \<Rightarrow> string list list \<Rightarrow> csv_table" where
  "text_table fs rows = \<lparr>csv_fields = fs, csv_rows = map (\<lambda>r. zip fs (map Some r)) rows\<rparr>"

definition demo_entry :: "(string \<times> json) list \<Rightarrow> json" where
  "demo_entry extra = JObj ([(''start'', JInt 0), (''end'', JInt 2), (''confidence'', JInt 1)] @ extra)"

definition demo_kind :: "string \<Rightarrow> json list \<Rightarrow> json" where
  "demo_kind kind es = JObj [(''kind'', JStr kind), (''entries'', JArr es)]"

definition demo_artifact :: json where
  "demo_artifact = JObj [(''timeline'', JObj [(''audio_sec'', JInt 2), (''sample_rate'', JInt 4),
     (''resolved_config'', JObj [(''speaker_fusion'', JObj [(''frame_activity_threshold'', JInt 1)])]),
     (''comprehensive'', JArr [demo_entry [(''text_id'', JInt 1)]]),
     (''tracks'', JArr (demo_kind ''diarization'' [demo_entry [(''speaker'', JInt 0), (''speaker_id'', JStr ''ann'')]]
        # demo_kind ''primary_speaker'' [demo_entry [(''speaker'', JInt 0)]]
        # map (\<lambda>k. demo_kind k []) [''asr'', ''vad'', ''align'', ''speaker_voiceprint'', ''business_speaker'']))])]"

definition demo_packet :: packet_inputs where
  "demo_packet = \<lparr>pk_parse = \<lambda>l. Inr (split_on CHR '','' l), pk_path = \<lambda>k. ''/data/'' @ k, pk_name = \<lambda>k. k,
     pk_sha256 = \<lambda>k. ''abc'', pk_file_sha256 = \<lambda>f. ''def'', pk_out_dir = ''/out'', pk_out_exists = False,
     pk_contexts = text_table CONTEXT_COLUMNS [[''0001'', ''0'', ''2'', ''0001'', '''']],
     pk_artifact = demo_artifact, pk_manifest = JObj [(''artifact'', JObj [(''sha256'', JStr ''abc'')])],
     pk_reference = [''00:00:00 ann'', ''hello''],
     pk_posterior = [''frame,time_sec,session,top1,top1_prob,top2,top2_prob,margin,active_count,spk0'',
       ''0,0,0,0,1,0,0,1,1,1'', ''1,1,0,0,1,0,0,1,1,1''],
     pk_vad_window = None, pk_vad_state = None,
     pk_identity = Some (text_table IDENTITY_REFERENCE_COLUMNS
       [[''identity_ref:0:0:1'', ''0'', ''0'', ''ann'', ''0'', ''1'', ''0'', ''4'', ''0'', ''1'', ''1'']]),
     pk_gallery = Some (text_table GALLERY_INDEPENDENCE_COLUMNS
       [[''q'', ''primary'', ''1'', ''0'', ''1'', ''0'', ''1'', ''1'', ''1'', ''1'', ''ann:1'', ''ann:1'', ''2'', ''4'', ''1'',
         ''1'', ''1'', '''', '''', ''identity_ref:0:0:1'']]),
     pk_aux_posterior = None, pk_aux_segments = None\<rparr>"

lemma demo_files:
  "(case rbind (load_packet demo_packet) packet_files of Inr fs \<Rightarrow> length fs = 14 | Inl _ \<Rightarrow> False)"
  by code_simp

theorem packet_files_listed_witness:
  "\<exists>doc files. export_packet demo_packet = Inr (doc, files) \<and> length files = 16 \<and> distinct (map fst files)"
proof -
  from demo_files obtain s fs where s: "load_packet demo_packet = Inr s" "packet_files s = Inr fs" "length fs = 14"
    by (cases "load_packet demo_packet") (auto split: sum.splits)
  then have "\<exists>doc files. export_packet demo_packet = Inr (doc, files) \<and> length files = 16"
    by (simp add: export_packet_def Let_def demo_packet_def)
  then obtain doc files where e: "export_packet demo_packet = Inr (doc, files)" "length files = 16" by blast
  then show ?thesis using conjunct1[OF packet_files_listed[OF e(1)]] by (intro exI conjI)
qed

end
