(* ===== verification/Gallery_Queries.thy ===== *)
theory Gallery_Queries
  imports Residual_Sources
begin

text \<open>
  \<^verbatim>\<open>tools/verify/py/speaker_gallery_independence_inputs.py\<close>: the voiceprint queries of a frozen
  artifact that touch one of the given contexts are copied to a table, and a replay of the same
  queries is compared with the evidence the artifact already holds.  Parsed files, resolved paths
  and digests are parameters; argument parsing and writing are left out.
\<close>

section \<open>Contexts and entries\<close>

definition GALLERY_CONTEXT_COLUMNS :: "string list" where
  "GALLERY_CONTEXT_COLUMNS = [''context_id'', ''start_sec'', ''end_sec'', ''focus_refs'', ''control_refs'']"

definition QUERY_COLUMNS :: "string list" where
  "QUERY_COLUMNS = [''evidence_id'', ''kind'', ''text_id'', ''source_start'', ''source_end'', ''start'', ''end'']"

definition INCLUSIVE_EVIDENCE_COLUMNS :: "string list" where
  "INCLUSIVE_EVIDENCE_COLUMNS = QUERY_COLUMNS @ [''embedding_available'', ''session_gallery_complete'',
     ''robust_gallery_complete'', ''session_scores'', ''robust_scores'']"

record display_context =
  dc_id :: string
  dc_start :: dbl
  dc_end :: dbl

definition display_context_of :: "csv_row \<Rightarrow> display_context res" where
  "display_context_of row =
    rbind (csv_number row ''start_sec'') (\<lambda>s. rbind (csv_number row ''end_sec'') (\<lambda>e.
    rbind (csv_item row ''context_id'') (\<lambda>cid. case (cid, s, e) of
      (Some c, Some a, Some b) \<Rightarrow>
        raise_if (c = [] \<or> a < 0 \<or> b \<le> a) (ValueError ''context has invalid bounds'')
          (Inr \<lparr>dc_id = c, dc_start = a, dc_end = b\<rparr>)
    | _ \<Rightarrow> Inl (ValueError ''context has invalid bounds''))))"

definition load_display_contexts :: "csv_table \<Rightarrow> display_context list res" where
  "load_display_contexts t =
    raise_if (csv_fields t \<noteq> GALLERY_CONTEXT_COLUMNS)
      (ValueError ''context columns differ from the governed schema'')
    (rbind (rmap display_context_of (csv_rows t)) (\<lambda>contexts.
     raise_if (contexts = []) (ValueError ''context table is empty'') (Inr contexts)))"

definition artifact_timeline :: "json \<Rightarrow> obj res" where
  "artifact_timeline package = (case package of
     JObj p \<Rightarrow> (case dget p ''timeline'' package of JObj t \<Rightarrow> Inr t
       | _ \<Rightarrow> Inl (ValueError ''artifact has no timeline''))
   | _ \<Rightarrow> Inl (ValueError ''artifact is not an object''))"

definition gallery_voiceprints :: "obj \<Rightarrow> json list res" where
  "gallery_voiceprints t = rbind (py_iter (dget t ''tracks'' (JArr []))) (\<lambda>tracks.
     case filter (\<lambda>d. get d ''kind'' = JStr ''speaker_voiceprint'') (dict_items tracks) of
       [d] \<Rightarrow> (case get d ''entries'' of JArr entries \<Rightarrow> Inr entries
         | _ \<Rightarrow> Inl (ValueError ''timeline requires one speaker_voiceprint track''))
     | _ \<Rightarrow> Inl (ValueError ''timeline requires one speaker_voiceprint track''))"

section \<open>Selected queries\<close>

text \<open>\<^verbatim>\<open>float(v)\<close> where the code tests the result with \<^verbatim>\<open>math.isfinite\<close>: None if it is not.\<close>

definition json_number :: "json \<Rightarrow> dbl option res" where
  "json_number v = (case py_float v of Inr x \<Rightarrow> Inr (Some x)
     | Inl e \<Rightarrow> if e = OutOfModel then Inr None else Inl e)"

definition query_intersects :: "dbl \<Rightarrow> dbl \<Rightarrow> display_context \<Rightarrow> bool" where
  "query_intersects s e c \<longleftrightarrow> max s (dc_start c) < min e (dc_end c)"

type_synonym query_row = "(string, string) pydict"

definition query_cells :: "string \<Rightarrow> string \<Rightarrow> int \<Rightarrow> int \<Rightarrow> int \<Rightarrow> dbl \<Rightarrow> dbl \<Rightarrow> query_row" where
  "query_cells eid kind text_id a b s e =
    [(''evidence_id'', eid), (''kind'', kind), (''text_id'', int_repr text_id), (''source_start'', int_repr a),
     (''source_end'', int_repr b), (''start'', fixed_repr 9 s), (''end'', fixed_repr 9 e)]"

text \<open>The source range of an entry, read only where the entry touches a context.\<close>

definition query_of :: "obj \<Rightarrow> string \<Rightarrow> string \<Rightarrow> dbl \<Rightarrow> dbl \<Rightarrow> query_row res" where
  "query_of d eid kind s e =
    rbind (rbind (item d ''text_id'') py_int) (\<lambda>text_id.
    rbind (rbind (item d ''source_start'') py_int) (\<lambda>a.
    rbind (rbind (item d ''source_end'') py_int) (\<lambda>b.
    raise_if ((0 \<le> text_id \<and> b \<le> a) \<or> (text_id < 0 \<and> (a \<noteq> 0 \<or> b \<noteq> 0)))
      (ValueError ''voiceprint query has an invalid source range'')
      (Inr (query_cells eid kind text_id a b s e)))))"

definition query_identity :: "obj \<Rightarrow> string list \<Rightarrow> (string \<times> string) res" where
  "query_identity d seen = (case get d ''evidence_id'' of
     JStr eid \<Rightarrow>
       raise_if (eid = []) (ValueError ''voiceprint evidence_id is invalid'')
       (raise_if (eid \<in> set seen) (ValueError ''voiceprint evidence_id is duplicated'')
        (case get d ''evidence_kind'' of
           JStr kind \<Rightarrow> raise_if (kind = []) (ValueError ''voiceprint evidence kind is invalid'') (Inr (eid, kind))
         | _ \<Rightarrow> Inl (ValueError ''voiceprint evidence kind is invalid'')))
   | _ \<Rightarrow> Inl (ValueError ''voiceprint evidence_id is invalid''))"

definition query_bounds :: "obj \<Rightarrow> (dbl \<times> dbl) res" where
  "query_bounds d =
    rbind (rbind (item d ''start'') json_number) (\<lambda>s. rbind (rbind (item d ''end'') json_number) (\<lambda>e.
    case (s, e) of
      (Some a, Some b) \<Rightarrow> raise_if (a < 0 \<or> b \<le> a) (ValueError ''voiceprint query has invalid bounds'') (Inr (a, b))
    | _ \<Rightarrow> Inl (ValueError ''voiceprint query has invalid bounds'')))"

definition select_query ::
  "display_context list \<Rightarrow> string list \<times> query_row list \<Rightarrow> json \<Rightarrow> (string list \<times> query_row list) res" where
  "select_query contexts = (\<lambda>(seen, rows) entry. case entry of
     JObj d \<Rightarrow> rbind (query_identity d seen) (\<lambda>(eid, kind). rbind (query_bounds d) (\<lambda>(s, e).
       if list_ex (query_intersects s e) contexts
       then rbind (query_of d eid kind s e) (\<lambda>q. Inr (eid # seen, rows @ [q]))
       else Inr (eid # seen, rows)))
   | _ \<Rightarrow> Inl (ValueError ''voiceprint entry is not an object''))"

definition selected_queries :: "json list \<Rightarrow> display_context list \<Rightarrow> query_row list res" where
  "selected_queries entries contexts =
    rbind (rfold (select_query contexts) ([], []) entries) (\<lambda>(seen, rows).
    raise_if (rows = []) (ValueError ''no voiceprint query intersects the contexts'') (Inr rows))"

text \<open>The table of \<^verbatim>\<open>write_queries\<close>: the header and the cells of each row.\<close>

definition write_queries :: "query_row list \<Rightarrow> string list list" where
  "write_queries rows = QUERY_COLUMNS # map (\<lambda>q. map (\<lambda>k. case map_of q k of Some v \<Rightarrow> v | None \<Rightarrow> []) QUERY_COLUMNS) rows"

section \<open>Comparison with a replay\<close>

definition replay_score :: "string \<Rightarrow> (string \<times> dbl) res" where
  "replay_score cell =
    (let (speaker_id, raw) = (case rpartition CHR '':'' cell of Some p \<Rightarrow> p | None \<Rightarrow> ([], cell)) in
     rbind (read_float raw) (\<lambda>score. case score of
       Some x \<Rightarrow> raise_if (speaker_id = []) (ValueError ''replayed score list is invalid'') (Inr (speaker_id, x))
     | None \<Rightarrow> Inl (ValueError ''replayed score list is invalid'')))"

definition replay_scores :: "string option \<Rightarrow> (string \<times> dbl) list res" where
  "replay_scores v = (case v of None \<Rightarrow> Inr []
     | Some s \<Rightarrow> if s = [] then Inr [] else rmap replay_score (split_on CHR '','' s))"

text \<open>\<^verbatim>\<open>expected_by_id\<close>; keys that are not texts are never looked up.\<close>

definition add_expected :: "(string, json) pydict \<Rightarrow> json \<Rightarrow> (string, json) pydict res" where
  "add_expected acc entry = rbind (vitem entry ''evidence_id'') (\<lambda>k. case k of
     JStr s \<Rightarrow> Inr (dset s entry acc)
   | JArr _ \<Rightarrow> Inl TypeError | JObj _ \<Rightarrow> Inl TypeError
   | _ \<Rightarrow> Inr acc)"

definition expected_score :: "json \<Rightarrow> (string \<times> dbl option) res" where
  "expected_score v = rbind (vitem v ''speaker_id'') (\<lambda>i. rbind (rbind (vitem v ''score'') json_number) (\<lambda>x.
     Inr (py_str i, x)))"

definition compare_score :: "dbl \<Rightarrow> dbl \<Rightarrow> (string \<times> dbl) \<times> (string \<times> dbl option) \<Rightarrow> dbl res" where
  "compare_score tolerance largest = (\<lambda>((_, actual), (_, expected)). case expected of
     None \<Rightarrow> Inl (ValueError ''terminal evidence score is not finite'')
   | Some x \<Rightarrow> let delta = \<bar>actual - x\<bar> in
       raise_if (tolerance < delta) (ValueError ''replayed inclusive score differs'') (Inr (max largest delta)))"

definition compare_flag :: "obj \<Rightarrow> csv_row \<Rightarrow> string \<Rightarrow> unit res" where
  "compare_flag expected row field = rbind (csv_item row field) (\<lambda>v.
     raise_if (v \<noteq> Some (if truthy (dget expected field (JBool False)) then ''1'' else ''0''))
       (ValueError ''replayed evidence availability differs'') (Inr ()))"

definition compare_scores :: "dbl \<Rightarrow> obj \<Rightarrow> csv_row \<Rightarrow> dbl \<Rightarrow> string \<Rightarrow> dbl res" where
  "compare_scores tolerance expected row largest field =
    rbind (rbind (csv_item row field) replay_scores) (\<lambda>actual.
    rbind (rbind (py_iter (dget expected field (JArr []))) (rmap expected_score)) (\<lambda>wanted.
    raise_if (map fst actual \<noteq> map fst wanted) (ValueError ''replayed evidence speaker IDs differ'')
      (rfold (compare_score tolerance) largest (zip actual wanted))))"

definition query_metadata_differs :: "query_row \<Rightarrow> csv_row \<Rightarrow> bool res" where
  "query_metadata_differs query row = rany (\<lambda>k. rbind (csv_item row k) (\<lambda>v.
     rbind (ditem query k (KeyError k)) (\<lambda>w. Inr (v \<noteq> Some w)))) QUERY_COLUMNS"

definition compare_query ::
  "dbl \<Rightarrow> (string, json) pydict \<Rightarrow> dbl \<Rightarrow> query_row \<times> csv_row \<Rightarrow> dbl res" where
  "compare_query tolerance expected_by_id largest = (\<lambda>(query, row).
    rbind (query_metadata_differs query row) (\<lambda>differs.
    raise_if differs (ValueError ''replayed query metadata differs from input'')
    (rbind (ditem query ''evidence_id'' (KeyError ''evidence_id'')) (\<lambda>eid.
     rbind (rbind (ditem expected_by_id eid (KeyError eid)) vdict) (\<lambda>expected.
     rbind (rmap (compare_flag expected row)
       [''embedding_available'', ''session_gallery_complete'', ''robust_gallery_complete'']) (\<lambda>_.
     rfold (compare_scores tolerance expected row) largest [''session_scores'', ''robust_scores'']))))))"

record replay_contract =
  rp_row_count :: nat
  rp_tolerance :: dbl
  rp_maximum_delta :: dbl

definition verify_inclusive_replay ::
  "json list \<Rightarrow> query_row list \<Rightarrow> csv_table \<Rightarrow> dbl \<Rightarrow> replay_contract res" where
  "verify_inclusive_replay entries selected replayed tolerance =
    rbind (rfold add_expected [] entries) (\<lambda>expected_by_id.
    raise_if (take (length INCLUSIVE_EVIDENCE_COLUMNS) (csv_fields replayed) \<noteq> INCLUSIVE_EVIDENCE_COLUMNS)
      (ValueError ''replayed evidence columns differ'')
    (raise_if (length (csv_rows replayed) \<noteq> length selected)
      (ValueError ''replayed evidence count differs from query input'')
    (rbind (rfold (compare_query tolerance expected_by_id) 0 (zip selected (csv_rows replayed))) (\<lambda>largest.
     Inr \<lparr>rp_row_count = length (csv_rows replayed), rp_tolerance = tolerance, rp_maximum_delta = largest\<rparr>))))"

definition contract_doc :: "replay_contract \<Rightarrow> json" where
  "contract_doc c = JObj [(''row_count'', JInt (int (rp_row_count c))), (''score_tolerance'', JFlt (rp_tolerance c)),
     (''maximum_score_delta'', JFlt (rp_maximum_delta c))]"

section \<open>Export\<close>

text \<open>
  What the command reads, with the resolved path and digest of each file; the digest of the
  written table is a function of its cells.
\<close>

record independence_inputs =
  gi_artifact :: json
  gi_contexts :: csv_table
  gi_replayed :: "csv_table option"
  gi_artifact_file :: file_identity
  gi_contexts_file :: file_identity
  gi_replayed_file :: file_identity
  gi_output_path :: string
  gi_table_sha256 :: "string list list \<Rightarrow> string"

definition independence_manifest ::
  "independence_inputs \<Rightarrow> string list list \<Rightarrow> nat \<Rightarrow> nat \<Rightarrow> replay_contract option \<Rightarrow> json" where
  "independence_manifest x table contexts queries contract = JObj
    ([(''schema_version'', JInt 1),
      (''kind'', JStr ''orator_speaker_gallery_independence_inputs''),
      (''scope'', JStr ''display_only_query_selection''),
      (''sources'', JObj ([(''artifact'', file_doc (gi_artifact_file x)), (''contexts'', file_doc (gi_contexts_file x))] @
         (if contract = None then [] else [(''replayed_evidence'', file_doc (gi_replayed_file x))]))),
      (''output'', file_doc (gi_output_path x, gi_table_sha256 x table)),
      (''context_count'', JInt (int contexts)),
      (''query_count'', JInt (int queries))] @
     (case contract of None \<Rightarrow> [] | Some c \<Rightarrow> [(''inclusive_replay_contract'', contract_doc c)]))"

text \<open>The written table and the manifest.\<close>

definition export_independence_inputs :: "independence_inputs \<Rightarrow> (string list list \<times> json) res" where
  "export_independence_inputs x =
    rbind (load_display_contexts (gi_contexts x)) (\<lambda>contexts.
    rbind (rbind (artifact_timeline (gi_artifact x)) gallery_voiceprints) (\<lambda>entries.
    rbind (selected_queries entries contexts) (\<lambda>queries.
    let table = write_queries queries in
    rbind (case gi_replayed x of None \<Rightarrow> Inr None
      | Some t \<Rightarrow> rbind (verify_inclusive_replay entries queries t (D (1 / 1000000))) (\<lambda>c. Inr (Some c)))
    (\<lambda>contract. Inr (table, independence_manifest x table (length contexts) (length queries) contract)))))"

end
