(* ===== verification/Identity_Snapshots.thy ===== *)
theory Identity_Snapshots
  imports Gallery_Queries
begin

text \<open>
  \<^verbatim>\<open>tools/verify/py/speaker_identity_snapshot_evidence.py\<close>: the diarization events of a captured
  session, copied in capture order to a table with one block of rows per event.  The parsed
  artifact, resolved paths and digests are parameters; argument parsing and writing are left out.
\<close>

section \<open>Segments\<close>

text \<open>Start, end, local speaker, confidence, captured speaker id: the tuple of the code.\<close>

type_synonym snapshot_segment = "dbl \<times> dbl \<times> int \<times> dbl \<times> string"

definition SNAPSHOT_COLUMNS :: "string list" where
  "SNAPSHOT_COLUMNS = [''snapshot_index'', ''start_sec'', ''end_sec'', ''local_speaker'', ''confidence'',
     ''captured_speaker_id'']"

text \<open>\<^verbatim>\<open>SPEAKER_RE.fullmatch\<close> and the integer of its group.\<close>

definition snapshot_speaker :: "string \<Rightarrow> int option" where
  "snapshot_speaker s = (let ds = drop 8 s in
     if has_prefix ''speaker_'' s \<and> digit_text ds then Some (digits_val ds) else None)"

definition snapshot_values :: "obj \<Rightarrow> (dbl \<times> dbl \<times> dbl) res" where
  "snapshot_values d =
    rbind (rbind (item d ''start'') json_number) (\<lambda>s. rbind (rbind (item d ''end'') json_number) (\<lambda>e.
    rbind (rbind (item d ''confidence'') json_number) (\<lambda>c. case (s, e, c) of
      (Some a, Some b, Some q) \<Rightarrow>
        raise_if (a < 0 \<or> b \<le> a) (ValueError ''diar segment has invalid bounds'') (Inr (a, b, q))
    | _ \<Rightarrow> Inl (ValueError ''diar segment contains a non-finite value''))))"

definition parse_segment :: "json \<Rightarrow> snapshot_segment res" where
  "parse_segment source = (case source of
     JObj d \<Rightarrow> rbind (snapshot_values d) (\<lambda>(s, e, q). case get d ''speaker'' of
       JStr speaker \<Rightarrow> (case snapshot_speaker speaker of
         Some n \<Rightarrow> (case dget d ''speaker_id'' (JStr []) of
           JStr sid \<Rightarrow> Inr (s, e, n, q, sid)
         | _ \<Rightarrow> Inl (ValueError ''diar segment speaker_id is not a string''))
       | None \<Rightarrow> Inl (ValueError ''diar segment speaker has an invalid label''))
     | _ \<Rightarrow> Inl (ValueError ''diar segment speaker is not a string''))
   | _ \<Rightarrow> Inl (ValueError ''diar segment is not an object''))"

definition segment_order_key :: "snapshot_segment \<Rightarrow> dbl \<times> dbl \<times> int" where
  "segment_order_key = (\<lambda>(s, e, n, _, _). (s, e, n))"

section \<open>Snapshots\<close>

definition event_segments :: "json \<Rightarrow> snapshot_segment list option res" where
  "event_segments event = (case event of
     JObj d \<Rightarrow> if get d ''type'' \<noteq> JStr ''diar'' then Inr None
       else (case get d ''segments'' of
         JArr raw \<Rightarrow> rbind (rmap parse_segment raw) (\<lambda>segments.
           raise_if (segments \<noteq> sort_key segment_order_key segments)
             (ValueError ''diar event segments are not ordered'') (Inr (Some segments)))
       | _ \<Rightarrow> Inl (ValueError ''diar event has no segment list''))
   | _ \<Rightarrow> Inr None)"

definition diar_snapshots :: "json \<Rightarrow> snapshot_segment list list res" where
  "diar_snapshots package = (case package of
     JObj p \<Rightarrow> (case get p ''events'' of
       JArr events \<Rightarrow> rbind (rcollect event_segments events) (\<lambda>snapshots.
         raise_if (snapshots = []) (ValueError ''artifact contains no diar snapshots'') (Inr snapshots))
     | _ \<Rightarrow> Inl (ValueError ''artifact has no event list''))
   | _ \<Rightarrow> Inl (ValueError ''artifact has no event list''))"

section \<open>Export\<close>

definition snapshot_cells :: "nat \<Rightarrow> snapshot_segment \<Rightarrow> string list" where
  "snapshot_cells i = (\<lambda>(s, e, n, q, sid).
     [int_repr (int i), fixed_repr 9 s, fixed_repr 9 e, int_repr n, fixed_repr 9 q, sid])"

definition snapshot_rows :: "nat \<times> snapshot_segment list \<Rightarrow> string list list" where
  "snapshot_rows = (\<lambda>(i, segments). if segments = [] then [[int_repr (int i), [], [], [], [], []]]
     else map (snapshot_cells i) segments)"

text \<open>The table and the number of segment rows in it.\<close>

definition write_snapshots :: "snapshot_segment list list \<Rightarrow> string list list \<times> nat" where
  "write_snapshots snapshots =
    (SNAPSHOT_COLUMNS # concat (map snapshot_rows (enumerate 0 snapshots)),
     sum_list (map length snapshots))"

definition snapshot_manifest :: "file_identity \<Rightarrow> file_identity \<Rightarrow> nat \<Rightarrow> nat \<Rightarrow> json" where
  "snapshot_manifest source output snapshots rows = JObj
     [(''schema_version'', JInt 1),
      (''kind'', JStr ''orator_speaker_identity_snapshot_evidence''),
      (''scope'', JStr ''mechanical_capture_order_copy''),
      (''source'', file_doc source),
      (''output'', file_doc output),
      (''snapshot_count'', JInt (int snapshots)),
      (''segment_row_count'', JInt (int rows))]"

definition export_snapshots ::
  "json \<Rightarrow> file_identity \<Rightarrow> string \<Rightarrow> (string list list \<Rightarrow> string) \<Rightarrow> (string list list \<times> json) res" where
  "export_snapshots artifact source output_path table_sha256 =
    rbind (diar_snapshots artifact) (\<lambda>snapshots.
    let (table, rows) = write_snapshots snapshots in
    Inr (table, snapshot_manifest source (output_path, table_sha256 table) (length snapshots) rows))"

end
