(* ===== verification/Business_Inputs.thy ===== *)
theory Business_Inputs
  imports Py_Text
begin

text \<open>
  \<^verbatim>\<open>tools/verify/py/speaker_business_replay_inputs.py\<close>: the tracks of a timeline as
  reference-free tables for the business-speaker replay, either with a mapping from a candidate
  document (legacy) or straight from the timeline's own speaker tracks.  Parsed files, absolute
  paths and digests are parameters; argument parsing and writing are left out.
\<close>

section \<open>Texts in hexadecimal\<close>

text \<open>\<^verbatim>\<open>s.encode("utf-8")\<close>: code points below 256 take one or two bytes.\<close>

definition utf8_char :: "char \<Rightarrow> nat list" where
  "utf8_char c = (let n = of_char c :: nat in
     if n < 128 then [n] else [192 + n div 64, 128 + n mod 64])"

definition utf8_encode :: "string \<Rightarrow> nat list" where
  "utf8_encode s = concat (map utf8_char s)"

definition hex_byte :: "nat \<Rightarrow> string" where
  "hex_byte n = [hex_digit (n div 16), hex_digit (n mod 16)]"

definition encode_text :: "json \<Rightarrow> string" where
  "encode_text v = concat (map hex_byte (utf8_encode (py_str v)))"

section \<open>Cells\<close>

text \<open>
  \<^verbatim>\<open>csv.writer\<close> on one value: an empty cell for \<^verbatim>\<open>None\<close>, the repr of a float, \<^verbatim>\<open>str\<close> of the
  rest.  Quoting is the library's and is not represented: a row is the list of its cells.
\<close>

definition cell_of :: "json \<Rightarrow> string" where
  "cell_of v = (case v of JNull \<Rightarrow> [] | _ \<Rightarrow> py_str v)"

text \<open>A row written to a file opened with \<^verbatim>\<open>encoding="ascii"\<close>.\<close>

definition ascii_row :: "string list \<Rightarrow> string list res" where
  "ascii_row cells = raise_if (list_ex (list_ex (\<lambda>c. (128 :: nat) \<le> of_char c)) cells)
     (ValueError ''ordinal not in range(128)'') (Inr cells)"

section \<open>Timeline and mapping\<close>

definition replay_timeline :: "json \<Rightarrow> obj res" where
  "replay_timeline package = rbind (vget package ''timeline'' package) (\<lambda>t. case t of
     JObj d \<Rightarrow> raise_if (map_of d ''tracks'' = None) (ValueError ''timeline document has no tracks'') (Inr d)
   | _ \<Rightarrow> Inl (ValueError ''timeline document has no tracks''))"

text \<open>The dict comprehension of \<^verbatim>\<open>replay_tracks\<close>; kinds that are not texts are never looked up.\<close>

definition add_replay_track :: "obj \<Rightarrow> json \<Rightarrow> obj res" where
  "add_replay_track acc t = rbind (vitem t ''kind'') (\<lambda>k. rbind (vget t ''entries'' (JArr [])) (\<lambda>entries.
     case k of JStr s \<Rightarrow> Inr (dset s entries acc)
     | JArr _ \<Rightarrow> Inl TypeError | JObj _ \<Rightarrow> Inl TypeError
     | _ \<Rightarrow> Inr acc))"

definition replay_tracks :: "obj \<Rightarrow> obj res" where
  "replay_tracks timeline = rbind (rbind (item timeline ''tracks'') py_iter) (rfold add_replay_track [])"

type_synonym slot_map = "(int, string) pydict"

definition add_slot :: "slot_map \<Rightarrow> json \<Rightarrow> slot_map res" where
  "add_slot m slot =
    rbind (rbind (vitem slot ''local_speaker'') py_int) (\<lambda>local.
    rbind (vitem slot ''speaker_id'') (\<lambda>v. let speaker_id = py_str v in
    raise_if (case map_of m local of None \<Rightarrow> False | Some s \<Rightarrow> s \<noteq> speaker_id)
      (ValueError (''conflicting mapping for local '' @ int_repr local)) (Inr (dset local speaker_id m))))"

text \<open>The slots in the order of the two loops; the session that fails comes after its predecessors' slots.\<close>

definition add_session :: "slot_map \<Rightarrow> json \<Rightarrow> slot_map res" where
  "add_session m session = rbind (rbind (vget session ''slots'' (JArr [])) py_iter) (rfold add_slot m)"

definition slot_mapping :: "json \<Rightarrow> slot_map res" where
  "slot_mapping candidate =
    rbind (rbind (vget candidate ''sessions'' (JObj [])) vdict) (\<lambda>sessions.
    rbind (rfold add_session [] (map snd sessions)) (\<lambda>m.
    raise_if (m = []) (ValueError ''mapping candidate has no session slots'') (Inr m)))"

text \<open>The mapping of the direct mode: the last entry of a local speaker wins.\<close>

definition add_direct :: "slot_map \<Rightarrow> json \<Rightarrow> slot_map res" where
  "add_direct m entry =
    rbind (rbind (vitem entry ''speaker'') py_int) (\<lambda>local.
    rbind (vget entry ''speaker_id'' (JStr [])) (\<lambda>v. Inr (dset local (py_str v) m)))"

definition direct_mapping :: "json \<Rightarrow> slot_map res" where
  "direct_mapping diarization = rbind (py_iter diarization) (rfold add_direct [])"

section \<open>Tables\<close>

type_synonym table = "string list list"

definition SPEAKER_HEADER :: "string list" where
  "SPEAKER_HEADER = [''start_sec'', ''end_sec'', ''local_speaker'', ''confidence'', ''speaker_id'']"

definition csv_cell :: "csv_row \<Rightarrow> string \<Rightarrow> string res" where
  "csv_cell row k = rbind (csv_item row k) (\<lambda>v. Inr (case v of Some s \<Rightarrow> s | None \<Rightarrow> []))"

definition diar_row :: "slot_map \<Rightarrow> csv_row \<Rightarrow> string list res" where
  "diar_row mapping row = rbind (csv_int row ''local_speaker'') (\<lambda>local. case map_of mapping local of
     None \<Rightarrow> Inl (ValueError (''no identity mapping for local '' @ int_repr local))
   | Some speaker_id \<Rightarrow>
       rbind (csv_cell row ''start_sec'') (\<lambda>s. rbind (csv_cell row ''end_sec'') (\<lambda>e.
       rbind (csv_cell row ''confidence'') (\<lambda>c. Inr [s, e, int_repr local, c, speaker_id]))))"

text \<open>A table and the count the writer returns.\<close>

definition write_diar :: "csv_table \<Rightarrow> slot_map \<Rightarrow> (table \<times> int) res" where
  "write_diar t mapping = rbind (rmap (diar_row mapping) (csv_rows t)) (\<lambda>rows.
     Inr (SPEAKER_HEADER # rows, int (length rows)))"

definition vcell :: "json \<Rightarrow> string \<Rightarrow> string res" where
  "vcell v k = rbind (vitem v k) (\<lambda>x. Inr (cell_of x))"

definition vint_cell :: "json \<Rightarrow> string \<Rightarrow> string res" where
  "vint_cell v k = rbind (rbind (vitem v k) py_int) (\<lambda>n. Inr (int_repr n))"

definition speaker_row :: "json \<Rightarrow> string list res" where
  "speaker_row entry =
    rbind (vcell entry ''start'') (\<lambda>s. rbind (vcell entry ''end'') (\<lambda>e.
    rbind (vint_cell entry ''speaker'') (\<lambda>n. rbind (vcell entry ''confidence'') (\<lambda>c.
    rbind (vget entry ''speaker_id'' (JStr [])) (\<lambda>i. Inr [s, e, n, c, cell_of i])))))"

text \<open>Every writer ends with \<^verbatim>\<open>len(entries)\<close> or counts its rows.\<close>

definition write_entries :: "string list \<Rightarrow> (json \<Rightarrow> string list res) \<Rightarrow> json \<Rightarrow> (table \<times> int) res" where
  "write_entries header row entries = rbind (py_iter entries) (\<lambda>xs. rbind (rmap row xs) (\<lambda>rows.
     rbind (py_len entries) (\<lambda>n. Inr (header # rows, n))))"

definition write_speaker_track :: "json \<Rightarrow> (table \<times> int) res" where
  "write_speaker_track = write_entries SPEAKER_HEADER speaker_row"

definition asr_row :: "json \<Rightarrow> string list res" where
  "asr_row entry =
    rbind (vint_cell entry ''text_id'') (\<lambda>i. rbind (vcell entry ''start'') (\<lambda>s. rbind (vcell entry ''end'') (\<lambda>e.
    rbind (vget entry ''text'' (JStr [])) (\<lambda>t. ascii_row [i, s, e, encode_text t]))))"

definition ASR_HEADER :: "string list" where
  "ASR_HEADER = [''text_id'', ''start_sec'', ''end_sec'', ''text_hex'']"

definition write_asr :: "json \<Rightarrow> (table \<times> int) res" where
  "write_asr = write_entries ASR_HEADER asr_row"

definition ALIGN_HEADER :: "string list" where
  "ALIGN_HEADER = [''text_id'', ''group_start_sec'', ''group_end_sec'', ''unit_start_sec'', ''unit_end_sec'', ''text_hex'']"

definition align_row :: "json \<Rightarrow> json \<Rightarrow> string list res" where
  "align_row entry u =
    rbind (vint_cell entry ''text_id'') (\<lambda>i. rbind (vcell entry ''start'') (\<lambda>gs. rbind (vcell entry ''end'') (\<lambda>ge.
    rbind (vcell u ''start'') (\<lambda>us. rbind (vcell u ''end'') (\<lambda>ue.
    rbind (vget u ''text'' (JStr [])) (\<lambda>t. ascii_row [i, gs, ge, us, ue, encode_text t]))))))"

definition align_rows :: "json \<Rightarrow> string list list res" where
  "align_rows entry = rbind (rbind (vget entry ''units'' (JArr [])) py_iter) (rmap (align_row entry))"

definition write_align :: "json \<Rightarrow> (table \<times> int) res" where
  "write_align entries = rbind (py_iter entries) (\<lambda>xs. rbind (rmap align_rows xs) (\<lambda>rowss.
     Inr (ALIGN_HEADER # concat rowss, int (length (concat rowss)))))"

definition score_text :: "json \<Rightarrow> string res" where
  "score_text v = rbind (vitem v ''speaker_id'') (\<lambda>i. rbind (vitem v ''score'') (\<lambda>x.
     Inr (py_str i @ '':'' @ py_str x)))"

definition encode_scores :: "json \<Rightarrow> string res" where
  "encode_scores v = rbind (py_iter v) (\<lambda>xs. rbind (rmap score_text xs) (\<lambda>ts. Inr (join_with '','' ts)))"

definition VOICEPRINT_HEADER :: "string list" where
  "VOICEPRINT_HEADER = [''evidence_id'', ''kind'', ''text_id'', ''source_start'', ''source_end'', ''start'', ''end'',
     ''embedding_available'', ''session_gallery_complete'', ''robust_gallery_complete'', ''session_scores'',
     ''robust_scores'']"

definition flag_cell :: "json \<Rightarrow> string" where
  "flag_cell v = (if truthy v then ''1'' else ''0'')"

definition voiceprint_row :: "json \<Rightarrow> string list res" where
  "voiceprint_row entry =
    rbind (vcell entry ''evidence_id'') (\<lambda>eid. rbind (vcell entry ''evidence_kind'') (\<lambda>kind.
    rbind (rmap (vint_cell entry) [''text_id'', ''source_start'', ''source_end'']) (\<lambda>ints.
    rbind (vcell entry ''start'') (\<lambda>s. rbind (vcell entry ''end'') (\<lambda>e.
    rbind (vitem entry ''embedding_available'') (\<lambda>avail.
    rbind (vget entry ''session_gallery_complete'' (JBool False)) (\<lambda>session.
    rbind (vitem entry ''robust_gallery_complete'') (\<lambda>robust.
    rbind (rbind (vget entry ''session_scores'' (JArr [])) encode_scores) (\<lambda>ss.
    rbind (rbind (vget entry ''robust_scores'' (JArr [])) encode_scores) (\<lambda>rs.
    Inr ([eid, kind] @ ints @ [s, e, flag_cell avail, flag_cell session, flag_cell robust, ss, rs])))))))))))"

definition write_voiceprint :: "json \<Rightarrow> (table \<times> int) res" where
  "write_voiceprint = write_entries VOICEPRINT_HEADER voiceprint_row"

section \<open>Export\<close>

text \<open>What the command is given; the legacy files are absent in direct mode.\<close>

record replay_request =
  rq_timeline :: json
  rq_diar :: "csv_table option"
  rq_mapping :: "json option"
  rq_direct :: bool
  rq_prefix :: string
  rq_abspath :: "string \<Rightarrow> string"
  rq_timeline_file :: file_identity
  rq_diar_file :: file_identity
  rq_mapping_file :: file_identity
  rq_table_sha256 :: "table \<Rightarrow> string"

definition replay_required :: "string list" where
  "replay_required = [''diarization'', ''primary_speaker'', ''speaker_voiceprint'']"

type_synonym named_table = "string \<times> string \<times> table \<times> int"

text \<open>Name and count key of an output, its table and count, in the order the files are written.\<close>

definition direct_tables :: "obj \<Rightarrow> (slot_map \<times> named_table list) res" where
  "direct_tables tracks =
    rbind (rbind (item tracks ''diarization'') direct_mapping) (\<lambda>mapping.
    rbind (rbind (item tracks ''diarization'') write_speaker_track) (\<lambda>diar.
    rbind (rbind (item tracks ''primary_speaker'') write_speaker_track) (\<lambda>primary.
    rbind (rbind (item tracks ''asr'') write_asr) (\<lambda>asr.
    rbind (rbind (item tracks ''align'') write_align) (\<lambda>align.
    rbind (rbind (item tracks ''speaker_voiceprint'') write_voiceprint) (\<lambda>voiceprint.
    Inr (mapping, [(''diar'', ''diar'', diar), (''primary'', ''primary'', primary), (''asr'', ''asr'', asr),
      (''align'', ''align_units'', align), (''voiceprint'', ''voiceprint'', voiceprint)])))))))"

definition legacy_tables :: "obj \<Rightarrow> csv_table \<Rightarrow> json \<Rightarrow> (slot_map \<times> named_table list) res" where
  "legacy_tables tracks diar candidate =
    rbind (slot_mapping candidate) (\<lambda>mapping.
    rbind (write_diar diar mapping) (\<lambda>d.
    rbind (rbind (item tracks ''asr'') write_asr) (\<lambda>asr.
    rbind (rbind (item tracks ''align'') write_align) (\<lambda>align.
    Inr (mapping, [(''diar'', ''diar'', d), (''asr'', ''asr'', asr), (''align'', ''align_units'', align)])))))"

text \<open>The names of the outputs in the order of the \<^verbatim>\<open>outputs\<close> dict.\<close>

definition output_names :: "bool \<Rightarrow> string list" where
  "output_names direct = [''diar'', ''asr'', ''align''] @ (if direct then [''primary'', ''voiceprint''] else [])"

definition output_doc :: "replay_request \<Rightarrow> named_table list \<Rightarrow> string \<Rightarrow> string \<times> json" where
  "output_doc x tables name = (name, file_doc (rq_abspath x (rq_prefix x @ ''-'' @ name @ ''.tsv''),
     rq_table_sha256 x (case map_of tables name of Some (_, t, _) \<Rightarrow> t | None \<Rightarrow> [])))"

definition replay_manifest :: "replay_request \<Rightarrow> dbl \<Rightarrow> int \<Rightarrow> slot_map \<Rightarrow> named_table list \<Rightarrow> json" where
  "replay_manifest x audio_sec sample_rate mapping tables = JObj
     [(''schema_version'', JInt 2),
      (''kind'', JStr ''orator_business_speaker_replay_inputs''),
      (''source_mode'', JStr (if rq_direct x then ''direct_timeline_tracks'' else ''legacy_offline_mapping'')),
      (''audio_sec'', JFlt audio_sec),
      (''sample_rate'', JInt sample_rate),
      (''counts'', JObj (map (\<lambda>(_, k, _, n). (k, JInt n)) tables)),
      (''mapping'', JObj (map (\<lambda>(k, v). (int_repr k, JStr v)) (sort_key (\<lambda>p. p) mapping))),
      (''sources'', JObj ((''timeline'', file_doc (rq_timeline_file x)) #
         (if rq_direct x then [] else [(''diar_segments'', file_doc (rq_diar_file x)),
            (''mapping_candidate'', file_doc (rq_mapping_file x))]))),
      (''outputs'', JObj (map (output_doc x tables) (output_names (rq_direct x))))]"

definition replay_tables :: "replay_request \<Rightarrow> obj \<Rightarrow> (slot_map \<times> named_table list) res" where
  "replay_tables x tracks =
    raise_if (map_of tracks ''asr'' = None \<or> map_of tracks ''align'' = None)
      (ValueError ''timeline requires asr and align tracks'')
    (if rq_direct x
     then let missing = sort (filter (\<lambda>k. map_of tracks k = None) replay_required) in
       raise_if (missing \<noteq> [])
         (ValueError (''timeline is missing replay tracks: '' @ join_with '', '' missing)) (direct_tables tracks)
     else case (rq_diar x, rq_mapping x) of
       (Some diar, Some candidate) \<Rightarrow> legacy_tables tracks diar candidate
     | _ \<Rightarrow> Inl (ValueError ''legacy export requires diar segments and mapping candidate''))"

text \<open>The written tables and the manifest.\<close>

definition export_replay_inputs :: "replay_request \<Rightarrow> (named_table list \<times> json) res" where
  "export_replay_inputs x =
    rbind (replay_timeline (rq_timeline x)) (\<lambda>timeline.
    rbind (replay_tracks timeline) (\<lambda>tracks.
    rbind (replay_tables x tracks) (\<lambda>(mapping, tables).
    rbind (rbind (item timeline ''audio_sec'') py_float) (\<lambda>audio_sec.
    rbind (rbind (item timeline ''sample_rate'') py_int) (\<lambda>sample_rate.
    Inr (tables, replay_manifest x audio_sec sample_rate mapping tables))))))"

end
