(* ===== verification/Replay_Properties.thy ===== *)
theory Replay_Properties
  imports Identity_Snapshots Business_Inputs Py_Rounding
begin

text \<open>
  Properties of the replay input tools: the snapshot table read back, the queries selected for
  gallery review and their replay within tolerance, and the slot mapping.
\<close>

section \<open>Snapshots\<close>

definition rounded_segment :: "snapshot_segment \<Rightarrow> snapshot_segment" where
  "rounded_segment = (\<lambda>(s, e, n, q, sid). (py_round s 9, py_round e 9, n, py_round q 9, sid))"

text \<open>A reader of the table: the segments of one snapshot are the rows that carry its index and a start.\<close>

definition read_segment :: "string list \<Rightarrow> snapshot_segment res" where
  "read_segment row = rbind (float_str (row ! 1)) (\<lambda>s. rbind (float_str (row ! 2)) (\<lambda>e.
     rbind (int_str (row ! 3)) (\<lambda>n. rbind (float_str (row ! 4)) (\<lambda>q. Inr (s, e, n, q, row ! 5)))))"

definition shows_segment :: "nat \<Rightarrow> string list \<Rightarrow> bool" where
  "shows_segment i row \<longleftrightarrow> int_str (row ! 0) = Inr (int i) \<and> row ! 1 \<noteq> []"

definition rows_of_snapshot :: "string list list \<Rightarrow> nat \<Rightarrow> string list list" where
  "rows_of_snapshot table i = filter (shows_segment i) (tl table)"

definition read_snapshots :: "string list list \<Rightarrow> snapshot_segment list list res" where
  "read_snapshots table = (let indices = remdups (map (\<lambda>row. row ! 0) (tl table)) in
     rmap (\<lambda>i. rmap read_segment (rows_of_snapshot table i)) [0..<length indices])"

lemma read_segment_cells [simp]: "read_segment (snapshot_cells i g) = Inr (rounded_segment g)"
  by (cases g) (simp add: read_segment_def snapshot_cells_def rounded_segment_def float_str_fixed_repr)

lemma snapshot_rows_key: "row \<in> set (snapshot_rows (i, g)) \<Longrightarrow> row ! 0 = int_repr (int i)"
  by (auto simp: snapshot_rows_def snapshot_cells_def split: if_splits)

lemma snapshot_rows_of:
  "filter (shows_segment i) (snapshot_rows (j, g)) =
   (if j = i then map (snapshot_cells i) g else [])"
proof -
  have "snapshot_cells i s ! 0 = int_repr (int i) \<and> snapshot_cells i s ! 1 \<noteq> []" for s
    by (cases s) (simp add: snapshot_cells_def)
  then show ?thesis
    by (auto simp: snapshot_rows_def shows_segment_def filter_empty_conv filter_id_conv snapshot_cells_def
        split: if_splits prod.splits)
qed

lemma read_segments [simp]: "rmap read_segment (map (snapshot_cells i) g) = Inr (map rounded_segment g)"
  by (induction g) simp_all

lemma rows_of_written:
  "k \<le> i \<Longrightarrow> i < k + length snaps \<Longrightarrow>
   filter (shows_segment i) (concat (map snapshot_rows (enumerate k snaps)))
   = map (snapshot_cells i) (snaps ! (i - k))"
proof (induction snaps arbitrary: k)
  case (Cons g snaps)
  have none: "filter (shows_segment i) (concat (map snapshot_rows (enumerate (Suc k) snaps))) = []"
    if "i = k"
    using that by (auto simp: filter_empty_conv shows_segment_def in_set_enumerate_eq dest!: snapshot_rows_key)
  show ?case
  proof (cases "i = k")
    case True
    then show ?thesis using none by (simp add: snapshot_rows_of)
  next
    case False
    then have "snaps ! (i - Suc k) = (g # snaps) ! (i - k)" using Cons.prems by (simp add: nth_Cons')
    then show ?thesis using Cons.IH[of "Suc k"] Cons.prems False by (simp add: snapshot_rows_of)
  qed
qed simp

lemma snapshot_indices:
  "set (map (\<lambda>row. row ! 0) (concat (map snapshot_rows (enumerate k snaps)))) = (\<lambda>i. int_repr (int i)) ` {k..<k + length snaps}"
proof -
  have "snapshot_rows (i, g) \<noteq> []" for i g by (simp add: snapshot_rows_def)
  then have "(\<lambda>row. row ! 0) ` set (snapshot_rows p) = {int_repr (int (fst p))}" for p
    using snapshot_rows_key[of _ "fst p" "snd p"] by (cases p) (auto simp: image_iff, metis last_in_set)
  then have "set (map (\<lambda>row. row ! 0) (concat (map snapshot_rows (enumerate k snaps))))
      = (\<Union>p \<in> set (enumerate k snaps). {int_repr (int (fst p))})" by (simp add: image_UN)
  also have "\<dots> = (\<lambda>i. int_repr (int i)) ` fst ` set (enumerate k snaps)" by auto
  also have "fst ` set (enumerate k snaps) = {k..<k + length snaps}"
    by (metis list.set_map map_fst_enumerate set_upt)
  finally show ?thesis .
qed

text \<open>
  The snapshot table is a copy: reading its rows back by snapshot index gives every
  segment list, empty ones included, with times and confidences rounded to nine digits, and the
  returned count is the number of segment rows.
\<close>

lemma snapshots_roundtrip:
  "read_snapshots (fst (write_snapshots snapshots)) = Inr (map (map rounded_segment) snapshots) \<and>
   snd (write_snapshots snapshots) = length (filter (\<lambda>row. row ! 1 \<noteq> []) (tl (fst (write_snapshots snapshots))))"
proof -
  let ?t = "fst (write_snapshots snapshots)"
  have tl: "tl ?t = concat (map snapshot_rows (enumerate 0 snapshots))" by (simp add: write_snapshots_def)
  have inj: "inj (\<lambda>i. int_repr (int i))" by (rule injI) (metis int_str_int_repr sum.inject(2) of_nat_eq_iff)
  have n: "length (remdups (map (\<lambda>row. row ! 0) (tl ?t))) = length snapshots"
    unfolding tl length_remdups_card_conv snapshot_indices by (simp add: card_image inj_on_subset[OF inj])
  have "rmap read_segment (rows_of_snapshot ?t i) = Inr (map rounded_segment (snapshots ! i))" if "i < length snapshots" for i
    using rows_of_written[of 0 i snapshots] that
    by (simp add: rows_of_snapshot_def tl)
  then have "read_snapshots ?t = Inr (map (\<lambda>i. map rounded_segment (snapshots ! i)) [0..<length snapshots])"
    unfolding read_snapshots_def Let_def n by (intro rmap_map) simp
  moreover have "map (\<lambda>i. map rounded_segment (snapshots ! i)) [0..<length snapshots] = map (map rounded_segment) snapshots"
    by (rule nth_equalityI) simp_all
  moreover have "length (filter (\<lambda>row. row ! 1 \<noteq> []) (concat (map snapshot_rows (enumerate k snaps)))) = sum_list (map length snaps)"
    for k snaps
  proof (induction snaps arbitrary: k)
    case (Cons g snaps)
    have "filter (\<lambda>row. row ! 1 \<noteq> []) (snapshot_rows (k, g)) = (if g = [] then [] else snapshot_rows (k, g))"
      by (auto simp: snapshot_rows_def filter_id_conv snapshot_cells_def)
    then show ?case using Cons by (simp add: snapshot_rows_def)
  qed simp
  ultimately show ?thesis by (simp add: tl) (simp add: write_snapshots_def)
qed

section \<open>Selected queries\<close>

text \<open>An entry touches the contexts when its bounds are valid and meet one of them.\<close>

definition shown_in :: "display_context list \<Rightarrow> json \<Rightarrow> bool" where
  "shown_in contexts entry \<longleftrightarrow> (case entry of
     JObj d \<Rightarrow> (case query_bounds d of Inr (s, e) \<Rightarrow> list_ex (query_intersects s e) contexts | Inl _ \<Rightarrow> False)
   | _ \<Rightarrow> False)"

definition entry_id :: "json \<Rightarrow> string" where
  "entry_id entry = (case entry of JObj d \<Rightarrow> py_str (get d ''evidence_id'') | _ \<Rightarrow> [])"

text \<open>A row is the copy of an entry.\<close>

definition copied :: "json \<Rightarrow> query_row \<Rightarrow> bool" where
  "copied entry q \<longleftrightarrow> (case entry of
     JObj d \<Rightarrow> (case query_bounds d of
       Inr (s, e) \<Rightarrow> query_of d (entry_id entry) (py_str (get d ''evidence_kind'')) s e = Inr q | Inl _ \<Rightarrow> False)
   | _ \<Rightarrow> False)"

lemma query_identity_Inr:
  "query_identity d seen = Inr (eid, kind) \<Longrightarrow>
   eid = py_str (get d ''evidence_id'') \<and> kind = py_str (get d ''evidence_kind'') \<and> eid \<noteq> [] \<and> eid \<notin> set seen"
  by (auto simp: query_identity_def raise_if_Inr_iff split: json.splits)

lemma select_queries_fold:
  "rfold (select_query contexts) (seen, rows) entries = Inr (seen', rows') \<Longrightarrow>
   seen' = rev (map entry_id entries) @ seen \<and> (distinct seen \<longrightarrow> distinct seen') \<and>
   (\<exists>new. rows' = rows @ new \<and> list_all2 copied (filter (shown_in contexts) entries) new)"
proof (induction entries arbitrary: seen rows)
  case (Cons v entries)
  from Cons.prems obtain s1 where s1: "select_query contexts (seen, rows) v = Inr s1"
    "rfold (select_query contexts) s1 entries = Inr (seen', rows')" by (auto simp: rbind_Inr_iff)
  from s1(1) obtain d where v: "v = JObj d" by (cases v) (simp_all add: select_query_def)
  with s1(1) obtain eid kind s e where i: "query_identity d seen = Inr (eid, kind)" "query_bounds d = Inr (s, e)"
    and r: "(if list_ex (query_intersects s e) contexts
       then rbind (query_of d eid kind s e) (\<lambda>q. Inr (eid # seen, rows @ [q])) else Inr (eid # seen, rows)) = Inr s1"
    by (auto simp: select_query_def rbind_Inr_iff)
  note q = query_identity_Inr[OF i(1)]
  have id: "entry_id v = eid" using q by (simp add: entry_id_def v)
  have t: "shown_in contexts v \<longleftrightarrow> list_ex (query_intersects s e) contexts" by (simp add: shown_in_def v i(2))
  show ?case
  proof (cases "shown_in contexts v")
    case True
    with r t obtain row where row: "query_of d eid kind s e = Inr row" "s1 = (eid # seen, rows @ [row])"
      by (auto simp: rbind_Inr_iff)
    have "copied v row" using row(1) q id by (simp add: copied_def v i(2))
    moreover obtain new where new: "seen' = rev (map entry_id entries) @ eid # seen"
      "distinct (eid # seen) \<longrightarrow> distinct seen'" "rows' = (rows @ [row]) @ new"
      "list_all2 copied (filter (shown_in contexts) entries) new"
      using Cons.IH[OF s1(2)[unfolded row(2)]] by blast
    moreover have "distinct seen \<longrightarrow> distinct seen'" using new(2) conjunct2[OF conjunct2[OF conjunct2[OF q]]] by auto
    ultimately show ?thesis using True id by (intro conjI exI[of _ "row # new"]) simp_all
  next
    case False
    with r t have "s1 = (eid # seen, rows)" by simp
    then obtain new where new: "seen' = rev (map entry_id entries) @ eid # seen"
      "distinct (eid # seen) \<longrightarrow> distinct seen'" "rows' = rows @ new"
      "list_all2 copied (filter (shown_in contexts) entries) new"
      using Cons.IH[of "eid # seen" rows] s1(2) by blast
    moreover have "distinct seen \<longrightarrow> distinct seen'" using new(2) conjunct2[OF conjunct2[OF conjunct2[OF q]]] by auto
    ultimately show ?thesis using False id by (intro conjI exI[of _ new]) simp_all
  qed
qed simp

text \<open>
  The selected queries are the entries that touch a context, each copied to one row, in
  order; evidence ids are distinct over all entries, selected or not.
\<close>

lemma selected_queries_exact:
  assumes "selected_queries entries contexts = Inr rows"
  shows "list_all2 copied (filter (shown_in contexts) entries) rows \<and> distinct (map entry_id entries) \<and> rows \<noteq> []"
proof -
  from assms obtain seen where f: "rfold (select_query contexts) ([], []) entries = Inr (seen, rows)" and "rows \<noteq> []"
    by (auto simp: selected_queries_def rbind_Inr_iff raise_if_Inr_iff)
  have all: "seen = rev (map entry_id entries) @ []" "distinct ([] :: string list) \<longrightarrow> distinct seen"
    "list_all2 copied (filter (shown_in contexts) entries) rows"
    using select_queries_fold[OF f] by auto
  have "distinct (rev (map entry_id entries))" using all(2) unfolding all(1) by simp
  then have "distinct (map entry_id entries)" by (simp only: distinct_rev)
  with all(3) \<open>rows \<noteq> []\<close> show ?thesis by blast
qed

section \<open>Replay tolerance\<close>

text \<open>A loop over a bound that only grows: what holds at a step still holds at the end.\<close>

lemma rfold_grows:
  assumes "\<And>m x m'. x \<in> set xs \<Longrightarrow> f m x = Inr m' \<Longrightarrow> (m :: 'b :: order) \<le> m' \<and> (m \<le> c \<longrightarrow> m' \<le> c) \<and> P m' x"
    and "\<And>m m' x. P m x \<Longrightarrow> m \<le> m' \<Longrightarrow> P m' x" and "rfold f m xs = Inr r"
  shows "m \<le> r \<and> (m \<le> c \<longrightarrow> r \<le> c) \<and> (\<forall>x \<in> set xs. P r x)"
  using assms
proof (induction xs arbitrary: m)
  case (Cons x xs)
  from Cons.prems(3) obtain m1 where m1: "f m x = Inr m1" "rfold f m1 xs = Inr r" by (auto simp: rbind_Inr_iff)
  have x: "m \<le> m1 \<and> (m \<le> c \<longrightarrow> m1 \<le> c) \<and> P m1 x" by (rule Cons.prems(1)[OF _ m1(1)]) simp
  have "m1 \<le> r \<and> (m1 \<le> c \<longrightarrow> r \<le> c) \<and> (\<forall>x \<in> set xs. P r x)"
    by (rule Cons.IH[OF _ _ m1(2)]) (rule Cons.prems(1), simp_all, rule Cons.prems(2))
  with x Cons.prems(2)[of m1 x r] show ?case by (auto intro: order_trans)
qed simp

definition scores_within :: "obj \<Rightarrow> csv_row \<Rightarrow> dbl \<Rightarrow> string \<Rightarrow> bool" where
  "scores_within expected row delta field \<longleftrightarrow> (\<exists>actual wanted.
     rbind (csv_item row field) replay_scores = Inr actual \<and>
     rbind (py_iter (dget expected field (JArr []))) (rmap expected_score) = Inr wanted \<and>
     map fst actual = map fst wanted \<and>
     list_all (\<lambda>((_, a), (_, w)). \<exists>x. w = Some x \<and> \<bar>a - x\<bar> \<le> delta) (zip actual wanted))"

lemma scores_within_mono: "scores_within expected row m field \<Longrightarrow> m \<le> m' \<Longrightarrow> scores_within expected row m' field"
  unfolding scores_within_def list_all_iff by (fastforce intro: order_trans)

lemma compare_score_grows:
  "compare_score c m p = Inr m' \<Longrightarrow>
   m \<le> m' \<and> (m \<le> c \<longrightarrow> m' \<le> c) \<and> (\<lambda>((_, a), (_, w)). \<exists>x. w = Some x \<and> \<bar>a - x\<bar> \<le> m') p"
  by (cases p) (auto simp: compare_score_def Let_def raise_if_Inr_iff split: option.splits)

lemma compare_scores_grows:
  assumes "compare_scores c expected row m field = Inr m'"
  shows "m \<le> m' \<and> (m \<le> c \<longrightarrow> m' \<le> c) \<and> scores_within expected row m' field"
proof -
  from assms obtain actual wanted where w: "rbind (csv_item row field) replay_scores = Inr actual"
    "rbind (py_iter (dget expected field (JArr []))) (rmap expected_score) = Inr wanted" "map fst actual = map fst wanted"
    and f: "rfold (compare_score c) m (zip actual wanted) = Inr m'"
    by (auto simp: compare_scores_def rbind_Inr_iff[of "rbind _ _"] raise_if_Inr_iff)
  have "m \<le> m' \<and> (m \<le> c \<longrightarrow> m' \<le> c) \<and>
      (\<forall>p \<in> set (zip actual wanted). (\<lambda>((_, a), (_, w)). \<exists>x. w = Some x \<and> \<bar>a - x\<bar> \<le> m') p)"
    by (rule rfold_grows[OF compare_score_grows _ f]) (auto intro: order_trans)
  then show ?thesis using w unfolding scores_within_def list_all_iff by blast
qed

definition replayed_as :: "(string, json) pydict \<Rightarrow> dbl \<Rightarrow> query_row \<times> csv_row \<Rightarrow> bool" where
  "replayed_as by_id delta = (\<lambda>(q, row). list_all (\<lambda>k. \<exists>v. map_of q k = Some v \<and> csv_item row k = Inr (Some v)) QUERY_COLUMNS \<and>
     (\<exists>eid expected. map_of q ''evidence_id'' = Some eid \<and> map_of by_id eid = Some (JObj expected) \<and>
       scores_within expected row delta ''session_scores'' \<and> scores_within expected row delta ''robust_scores''))"

lemma compare_query_grows:
  assumes "compare_query c by_id m (q, row) = Inr m'"
  shows "m \<le> m' \<and> (m \<le> c \<longrightarrow> m' \<le> c) \<and> replayed_as by_id m' (q, row)"
proof -
  from assms obtain eid expected where
    meta: "query_metadata_differs q row = Inr False" and e: "map_of q ''evidence_id'' = Some eid"
    "map_of by_id eid = Some (JObj expected)"
    and f: "rfold (compare_scores c expected row) m [''session_scores'', ''robust_scores''] = Inr m'"
    by (auto simp: compare_query_def rbind_Inr_iff raise_if_Inr_iff ditem_def option_Inr_iff vdict_Inr_iff
        simp del: rfold.simps)
  have g: "m \<le> m' \<and> (m \<le> c \<longrightarrow> m' \<le> c) \<and> (\<forall>k \<in> set [''session_scores'', ''robust_scores'']. scores_within expected row m' k)"
    by (rule rfold_grows[OF compare_scores_grows scores_within_mono f])
  have "\<exists>v. map_of q k = Some v \<and> csv_item row k = Inr (Some v)" if "k \<in> set QUERY_COLUMNS" for k
    using rany_False[OF meta[unfolded query_metadata_differs_def]] that
    by (auto simp: rbind_Inr_iff ditem_def option_Inr_iff)
  with g e show ?thesis by (auto simp: replayed_as_def list_all_iff)
qed

text \<open>
  When the replay check returns, every query has a replayed row with the same metadata
  whose two score lists name the speakers of the stored evidence and differ from its scores by at
  most the reported maximum, which is within the tolerance.
\<close>

lemma replay_within_tolerance:
  assumes "verify_inclusive_replay entries selected replayed tolerance = Inr contract" "0 \<le> tolerance"
  shows "rp_row_count contract = length selected \<and> length (csv_rows replayed) = length selected \<and>
    0 \<le> rp_maximum_delta contract \<and> rp_maximum_delta contract \<le> tolerance \<and>
    (\<exists>by_id. rfold add_expected [] entries = Inr by_id \<and>
      list_all (replayed_as by_id (rp_maximum_delta contract)) (zip selected (csv_rows replayed)))"
proof -
  from assms(1) obtain by_id m where by_id: "rfold add_expected [] entries = Inr by_id"
    and n: "length (csv_rows replayed) = length selected"
    and f: "rfold (compare_query tolerance by_id) 0 (zip selected (csv_rows replayed)) = Inr m"
    and c: "contract = \<lparr>rp_row_count = length (csv_rows replayed), rp_tolerance = tolerance, rp_maximum_delta = m\<rparr>"
    by (auto simp: verify_inclusive_replay_def rbind_Inr_iff raise_if_Inr_iff)
  have step: "m \<le> m' \<and> (m \<le> tolerance \<longrightarrow> m' \<le> tolerance) \<and> replayed_as by_id m' p"
    if "compare_query tolerance by_id m p = Inr m'" for m m' p
    using compare_query_grows[of tolerance by_id m "fst p" "snd p" m'] that by simp
  have mono: "replayed_as by_id m p \<Longrightarrow> m \<le> m' \<Longrightarrow> replayed_as by_id m' p" for m m' p
    unfolding replayed_as_def case_prod_beta by (blast intro: scores_within_mono)
  have "0 \<le> m \<and> (0 \<le> tolerance \<longrightarrow> m \<le> tolerance) \<and> (\<forall>p \<in> set (zip selected (csv_rows replayed)). replayed_as by_id m p)"
    by (rule rfold_grows[OF step mono f])
  then show ?thesis using by_id n c assms(2) by (auto simp: list_all_iff)
qed

section \<open>Slots\<close>

text \<open>What one slot says, and all slots in order.\<close>

definition slot_pair :: "json \<Rightarrow> (int \<times> string) res" where
  "slot_pair slot = rbind (rbind (vitem slot ''local_speaker'') py_int) (\<lambda>n. rbind (vitem slot ''speaker_id'') (\<lambda>v. Inr (n, py_str v)))"

definition session_pairs :: "json \<Rightarrow> (int \<times> string) list res" where
  "session_pairs session = rbind (rbind (vget session ''slots'' (JArr [])) py_iter) (rmap slot_pair)"

definition candidate_pairs :: "json \<Rightarrow> (int \<times> string) list res" where
  "candidate_pairs candidate = rbind (rbind (vget candidate ''sessions'' (JObj [])) vdict) (\<lambda>sessions.
     rbind (rmap session_pairs (map snd sessions)) (\<lambda>xs. Inr (concat xs)))"

lemma set_dset_distinct:
  "distinct (map fst d) \<Longrightarrow> (case map_of d k of None \<Rightarrow> True | Some w \<Rightarrow> w = v) \<Longrightarrow> set (dset k v d) = insert (k, v) (set d)"
proof -
  assume d: "distinct (map fst d)" and w: "case map_of d k of None \<Rightarrow> True | Some w \<Rightarrow> w = v"
  have "(a, b) \<in> set (dset k v d) \<longleftrightarrow> (a, b) \<in> insert (k, v) (set d)" for a b
  proof -
    have "(a, b) \<in> set (dset k v d) \<longleftrightarrow> (if a = k then Some v else map_of d a) = Some b"
      using map_of_eq_Some_iff[OF distinct_dset[OF d, of k v], of a b] by simp
    moreover have "(a, b) \<in> set d \<longleftrightarrow> map_of d a = Some b" using map_of_eq_Some_iff[OF d, of a b] by simp
    ultimately show ?thesis using w by (cases "map_of d k") auto
  qed
  then show ?thesis by (intro set_eqI) (metis surj_pair)
qed

definition slots_from :: "slot_map \<Rightarrow> slot_map \<Rightarrow> (int \<times> string) list \<Rightarrow> bool" where
  "slots_from m m' pairs \<longleftrightarrow> (distinct (map fst m) \<longrightarrow> distinct (map fst m') \<and> set m' = set m \<union> set pairs)"

lemma add_slot_pairs:
  assumes "add_slot m slot = Inr m'" shows "\<exists>p. slot_pair slot = Inr p \<and> slots_from m m' [p]"
proof -
  from assms obtain n v where s: "slot_pair slot = Inr (n, py_str v)" and m: "m' = dset n (py_str v) m"
    and w: "case map_of m n of None \<Rightarrow> True | Some w \<Rightarrow> w = py_str v"
    by (auto simp: add_slot_def slot_pair_def rbind_Inr_iff raise_if_Inr_iff Let_def split: option.splits)
  have "slots_from m m' [(n, py_str v)]"
    using set_dset_distinct[OF _ w] distinct_dset by (auto simp: slots_from_def m)
  with s show ?thesis by blast
qed

lemma slots_from_trans: "slots_from m m1 ps \<Longrightarrow> slots_from m1 m2 qs \<Longrightarrow> slots_from m m2 (ps @ qs)"
  by (auto simp: slots_from_def)

lemma fold_slot_pairs:
  assumes "\<And>m x m'. f m x = Inr m' \<Longrightarrow> \<exists>ps. g x = Inr ps \<and> slots_from m m' (h ps)" and "rfold f m xs = Inr m'"
  shows "\<exists>pss. rmap g xs = Inr pss \<and> slots_from m m' (concat (map h pss))"
  using assms(2)
proof (induction xs arbitrary: m)
  case Nil
  then show ?case by (simp add: slots_from_def)
next
  case (Cons x xs)
  from Cons.prems obtain m1 where m1: "f m x = Inr m1" "rfold f m1 xs = Inr m'" by (auto simp: rbind_Inr_iff)
  from assms(1)[OF m1(1)] Cons.IH[OF m1(2)] obtain ps pss where
    "g x = Inr ps" "slots_from m m1 (h ps)" "rmap g xs = Inr pss" "slots_from m1 m' (concat (map h pss))" by blast
  then show ?case using slots_from_trans by fastforce
qed

lemma add_session_pairs:
  "add_session m session = Inr m' \<Longrightarrow> \<exists>ps. session_pairs session = Inr ps \<and> slots_from m m' ps"
proof -
  assume "add_session m session = Inr m'"
  then obtain xs where xs: "rbind (vget session ''slots'' (JArr [])) py_iter = Inr xs" "rfold add_slot m xs = Inr m'"
    by (auto simp: add_session_def rbind_Inr_iff[of "rbind _ _"])
  from fold_slot_pairs[OF _ xs(2), of slot_pair "\<lambda>p. [p]"] add_slot_pairs obtain ps where
    "rmap slot_pair xs = Inr ps" "slots_from m m' (concat (map (\<lambda>p. [p]) ps))" by blast
  then show ?thesis by (auto simp: session_pairs_def xs(1))
qed

text \<open>
  The mapping read from a candidate document is the relation its slots state, and it
  is a function: conflicting slots are refused instead of overwritten.
\<close>

lemma slot_mapping_functional:
  assumes "slot_mapping candidate = Inr m"
  shows "\<exists>pairs. candidate_pairs candidate = Inr pairs \<and> set m = set pairs \<and> distinct (map fst m) \<and> m \<noteq> []"
proof -
  from assms obtain sessions where s: "rbind (vget candidate ''sessions'' (JObj [])) vdict = Inr sessions"
    and f: "rfold add_session [] (map snd sessions) = Inr m" and "m \<noteq> []"
    by (auto simp: slot_mapping_def rbind_Inr_iff[of "rbind _ _"] raise_if_Inr_iff rbind_Inr_iff[of "rfold _ _ _"])
  from fold_slot_pairs[where f = add_session and g = session_pairs and h = "\<lambda>p. p", OF add_session_pairs f] obtain pss where
    "rmap session_pairs (map snd sessions) = Inr pss" "slots_from [] m (concat (map (\<lambda>p. p) pss))" by blast
  with s \<open>m \<noteq> []\<close> show ?thesis by (auto simp: candidate_pairs_def slots_from_def)
qed

section \<open>Witnesses\<close>

definition demo_query :: json where
  "demo_query = JObj [(''evidence_id'', JStr ''q''), (''evidence_kind'', JStr ''k''), (''start'', JInt 0), (''end'', JInt 1),
     (''text_id'', JInt 0), (''source_start'', JInt 0), (''source_end'', JInt 2), (''embedding_available'', JBool True),
     (''session_scores'', JArr [JObj [(''speaker_id'', JStr ''A''), (''score'', JInt 1)]])]"

definition demo_contexts :: "display_context list" where
  "demo_contexts = [\<lparr>dc_id = ''c'', dc_start = 0, dc_end = 1\<rparr>]"

definition demo_queries :: "query_row list" where
  "demo_queries = [query_cells ''q'' ''k'' 0 0 2 0 1]"

definition demo_replay :: csv_table where
  "demo_replay = \<lparr>csv_fields = INCLUSIVE_EVIDENCE_COLUMNS,
     csv_rows = [map (\<lambda>(k, v). (k, Some v)) (hd demo_queries @ [(''embedding_available'', ''1''),
       (''session_gallery_complete'', ''0''), (''robust_gallery_complete'', ''0''), (''session_scores'', ''A:1.0''),
       (''robust_scores'', '''')])]\<rparr>"

theorem selected_queries_exact_witness:
  "list_all2 copied (filter (shown_in demo_contexts) [demo_query]) demo_queries"
proof -
  have "selected_queries [demo_query] demo_contexts = Inr demo_queries" by code_simp
  from conjunct1[OF selected_queries_exact[OF this]] show ?thesis .
qed

theorem replay_within_tolerance_witness:
  "\<exists>contract. verify_inclusive_replay [demo_query] demo_queries demo_replay 1 = Inr contract \<and> rp_maximum_delta contract \<le> 1"
proof -
  have "case verify_inclusive_replay [demo_query] demo_queries demo_replay 1 of
      Inr contract \<Rightarrow> rp_row_count contract = 1 | Inl _ \<Rightarrow> False" by code_simp
  then obtain contract where c: "verify_inclusive_replay [demo_query] demo_queries demo_replay 1 = Inr contract"
    by (auto split: sum.splits)
  have "(0 :: dbl) \<le> 1" by code_simp
  from replay_within_tolerance[OF c this] c show ?thesis by blast
qed

definition demo_candidate :: json where
  "demo_candidate = JObj [(''sessions'', JObj [(''s'', JObj [(''slots'', JArr
     [JObj [(''local_speaker'', JInt 0), (''speaker_id'', JStr ''A'')],
      JObj [(''local_speaker'', JInt 0), (''speaker_id'', JStr ''A'')]])])])]"

theorem slot_mapping_functional_witness:
  "\<exists>pairs. candidate_pairs demo_candidate = Inr pairs \<and> {(0, ''A'')} = set pairs"
proof -
  have "slot_mapping demo_candidate = Inr [(0, ''A'')]" by code_simp
  from slot_mapping_functional[OF this] show ?thesis by auto
qed

end
