(* ===== verification/Phrase_Spans.thy ===== *)
theory Phrase_Spans
  imports Business_Inputs Top1_Runs
begin

text \<open>
  \<^verbatim>\<open>tools/archive/spec013-speaker-candidates/speaker_punctuation_phrase_candidate.py\<close>, first half:
  the policy, the tables of texts and aligned units (written by the business replay inputs), the
  cut of a text into phrases at its punctuation, the times of its characters and the spans whose
  voice is to be compared.  The other candidates of that directory import this module.  The dicts
  of the code that end up in the written documents are JSON values here; parsed files, absolute
  paths and digests are parameters.
\<close>

section \<open>Policy\<close>

record gate_policy =
  gp_short_max :: dbl
  gp_short_score :: dbl
  gp_short_margin :: dbl
  gp_regular_score :: dbl
  gp_regular_margin :: dbl

record phrase_policy =
  pp_minimum :: dbl
  pp_maximum :: dbl
  pp_visible :: int
  pp_punctuation :: string
  pp_gates :: gate_policy
  pp_require_anchor :: bool

definition GATE_FIELDS :: "string list" where
  "GATE_FIELDS = [''short_max_sec'', ''short_min_score'', ''short_min_margin'', ''regular_min_score'',
     ''regular_min_margin'']"

definition phrase_fields :: "string list" where
  "phrase_fields = [''minimum_duration_sec'', ''maximum_duration_sec'', ''minimum_visible_character_count'',
     ''punctuation'']"

definition projection_fields :: "string list" where
  "projection_fields = [''preserve_direct_anchors'', ''reject_on_direct_anchor_conflict'',
     ''require_agreeing_direct_anchor'']"

text \<open>\<^verbatim>\<open>required - set(section)\<close>.\<close>

definition absent_fields :: "string list \<Rightarrow> json \<Rightarrow> string list res" where
  "absent_fields required section = rbind (name_set section) (\<lambda>names. Inr (fields_missing required names))"

definition gates_of :: "json \<Rightarrow> gate_policy res" where
  "gates_of fusion =
    rbind (float_item fusion ''short_max_sec'') (\<lambda>a. rbind (float_item fusion ''short_min_score'') (\<lambda>b.
    rbind (float_item fusion ''short_min_margin'') (\<lambda>c. rbind (float_item fusion ''regular_min_score'') (\<lambda>d.
    rbind (float_item fusion ''regular_min_margin'') (\<lambda>e.
    Inr \<lparr>gp_short_max = a, gp_short_score = b, gp_short_margin = c, gp_regular_score = d,
         gp_regular_margin = e\<rparr>)))))"

definition flag_item :: "json \<Rightarrow> string \<Rightarrow> bool res" where
  "flag_item v k = rbind (vitem v k) (\<lambda>x. Inr (truthy x))"

definition load_phrase_policy :: "obj \<Rightarrow> phrase_policy res" where
  "load_phrase_policy document =
    (let phrase = dget document ''punctuation_phrase'' (JObj []);
         fusion = dget document ''speaker_fusion'' (JObj []);
         projection = dget document ''punctuation_phrase_projection'' (JObj []) in
     rbind (absent_fields phrase_fields phrase) (\<lambda>m1. rbind (absent_fields GATE_FIELDS fusion) (\<lambda>m2.
     rbind (absent_fields projection_fields projection) (\<lambda>m3.
     let missing = sort (m1 @ m2 @ m3) in
     raise_if (missing \<noteq> []) (ValueError (''punctuation phrase policy missing: '' @ join_with '','' missing))
     (rbind (float_item phrase ''minimum_duration_sec'') (\<lambda>lo.
      rbind (float_item phrase ''maximum_duration_sec'') (\<lambda>hi.
      rbind (rbind (vitem phrase ''minimum_visible_character_count'') py_int) (\<lambda>visible.
      rbind (vitem phrase ''punctuation'') (\<lambda>punctuation.
      rbind (gates_of fusion) (\<lambda>gates.
      rbind (flag_item projection ''preserve_direct_anchors'') (\<lambda>preserve.
      rbind (flag_item projection ''reject_on_direct_anchor_conflict'') (\<lambda>reject.
      rbind (flag_item projection ''require_agreeing_direct_anchor'') (\<lambda>agreeing.
      raise_if (lo \<le> 0 \<or> hi < lo) (ValueError ''invalid phrase duration bounds'')
      (raise_if (visible < 1) (ValueError ''minimum_visible_character_count must be positive'')
      (raise_if (py_str punctuation = []) (ValueError ''punctuation must not be empty'')
      (raise_if (\<not> preserve) (ValueError ''direct anchor preservation is mandatory'')
      (raise_if (\<not> reject) (ValueError ''direct anchor conflict rejection is mandatory'')
      (Inr \<lparr>pp_minimum = lo, pp_maximum = hi, pp_visible = visible, pp_punctuation = py_str punctuation,
           pp_gates = gates, pp_require_anchor = agreeing\<rparr>))))))))))))))))))"

definition gate_entries :: "gate_policy \<Rightarrow> obj" where
  "gate_entries g = [(''short_max_sec'', JFlt (gp_short_max g)), (''short_min_score'', JFlt (gp_short_score g)),
     (''short_min_margin'', JFlt (gp_short_margin g)), (''regular_min_score'', JFlt (gp_regular_score g)),
     (''regular_min_margin'', JFlt (gp_regular_margin g))]"

text \<open>The policy dict; the code takes the five gates from a set, in no fixed order.\<close>

definition phrase_policy_doc :: "phrase_policy \<Rightarrow> json" where
  "phrase_policy_doc p = JObj
     ([(''minimum_duration_sec'', JFlt (pp_minimum p)), (''maximum_duration_sec'', JFlt (pp_maximum p)),
       (''minimum_visible_character_count'', JInt (pp_visible p)), (''punctuation'', JStr (pp_punctuation p))] @
      gate_entries (pp_gates p) @
      [(''preserve_direct_anchors'', JBool True), (''reject_on_direct_anchor_conflict'', JBool True),
       (''require_agreeing_direct_anchor'', JBool (pp_require_anchor p))])"

section \<open>Tables of texts and units\<close>

text \<open>\<^verbatim>\<open>bytes.fromhex\<close>: white space is allowed between the pairs of digits.\<close>

definition hex_value :: "char \<Rightarrow> nat option" where
  "hex_value c = (let n = of_char c :: nat in
     if 48 \<le> n \<and> n \<le> 57 then Some (n - 48)
     else if 97 \<le> n \<and> n \<le> 102 then Some (n - 87)
     else if 65 \<le> n \<and> n \<le> 70 then Some (n - 55) else None)"

definition ascii_space :: "char \<Rightarrow> bool" where
  "ascii_space c \<longleftrightarrow> c = CHR '' '' \<or> (CHR 0x09 \<le> c \<and> c \<le> CHR 0x0D)"

fun from_hex :: "string \<Rightarrow> nat list option" where
  "from_hex [] = Some []"
| "from_hex [c] = (if ascii_space c then Some [] else None)"
| "from_hex (c # d # s) =
    (if ascii_space c then from_hex (d # s)
     else case (hex_value c, hex_value d) of
       (Some a, Some b) \<Rightarrow> map_option (\<lambda>bs. (16 * a + b) # bs) (from_hex s)
     | _ \<Rightarrow> None)"

text \<open>
  UTF-8 decoding: one byte below 128, or the two bytes of a code point below 256.  Longer
  sequences, valid or not, and two-byte sequences beyond that range have no value in the model.
\<close>

fun utf8_decode :: "nat list \<Rightarrow> string res" where
  "utf8_decode [] = Inr []"
| "utf8_decode [b] = (if b < 128 then Inr [char_of b] else Inl (ValueError ''utf-8''))"
| "utf8_decode (b # c # bs) =
    (if b < 128 then rbind (utf8_decode (c # bs)) (\<lambda>s. Inr (char_of b # s))
     else if b < 194 \<or> 244 < b \<or> c < 128 \<or> 192 \<le> c then Inl (ValueError ''utf-8'')
     else if b < 196 then rbind (utf8_decode bs) (\<lambda>s. Inr (char_of (64 * (b - 192) + (c - 128)) # s))
     else Inl OutOfModel)"

definition decode_hex :: "string \<Rightarrow> string res" where
  "decode_hex s = (case from_hex s of None \<Rightarrow> Inl (ValueError ''non-hexadecimal number found in fromhex()'')
     | Some bs \<Rightarrow> utf8_decode bs)"

definition csv_hex :: "csv_row \<Rightarrow> string \<Rightarrow> string res" where
  "csv_hex row k = rbind (csv_item row k) (\<lambda>v. case v of Some s \<Rightarrow> decode_hex s | None \<Rightarrow> Inl TypeError)"

record asr_text =
  at_start :: dbl
  at_end :: dbl
  at_text :: string

definition asr_doc :: "asr_text \<Rightarrow> json" where
  "asr_doc a = JObj [(''start'', JFlt (at_start a)), (''end'', JFlt (at_end a)), (''text'', JStr (at_text a))]"

definition add_asr :: "(int, asr_text) pydict \<Rightarrow> csv_row \<Rightarrow> (int, asr_text) pydict res" where
  "add_asr values row = rbind (csv_int row ''text_id'') (\<lambda>i.
     raise_if (i \<in> set (map fst values)) (ValueError (''duplicate ASR text_id '' @ int_repr i))
     (rbind (csv_float row ''start_sec'') (\<lambda>s. rbind (csv_float row ''end_sec'') (\<lambda>e.
      rbind (csv_hex row ''text_hex'') (\<lambda>t.
      Inr (dset i \<lparr>at_start = s, at_end = e, at_text = t\<rparr> values))))))"

definition read_asr :: "csv_table \<Rightarrow> (int, asr_text) pydict res" where
  "read_asr t = rfold add_asr [] (csv_rows t)"

definition unit_doc :: "dbl \<Rightarrow> dbl \<Rightarrow> string \<Rightarrow> json" where
  "unit_doc s e t = JObj [(''start'', JFlt s), (''end'', JFlt e), (''text'', JStr t)]"

definition add_unit :: "(int, json list) pydict \<Rightarrow> csv_row \<Rightarrow> (int, json list) pydict res" where
  "add_unit values row = rbind (csv_int row ''text_id'') (\<lambda>i.
     rbind (csv_float row ''unit_start_sec'') (\<lambda>s. rbind (csv_float row ''unit_end_sec'') (\<lambda>e.
     rbind (csv_hex row ''text_hex'') (\<lambda>t.
     Inr (dset i ((case map_of values i of None \<Rightarrow> [] | Some us \<Rightarrow> us) @ [unit_doc s e t]) values)))))"

definition read_align :: "csv_table \<Rightarrow> (int, json list) pydict res" where
  "read_align t = rfold add_unit [] (csv_rows t)"

section \<open>Phrases of a text\<close>

definition visible_char :: "string \<Rightarrow> char \<Rightarrow> bool" where
  "visible_char punctuation c \<longleftrightarrow> \<not> is_space c \<and> c \<notin> set punctuation"

text \<open>\<^verbatim>\<open>source[a:b]\<close> for positions in range.\<close>

definition slice :: "nat \<Rightarrow> nat \<Rightarrow> 'a list \<Rightarrow> 'a list" where
  "slice a b xs = take (b - a) (drop a xs)"

text \<open>The generator's loop: where the next phrase starts, and what was yielded.\<close>

definition phrase_step ::
  "string \<Rightarrow> string \<Rightarrow> nat \<times> (nat \<times> nat) list \<Rightarrow> nat \<times> char \<Rightarrow> nat \<times> (nat \<times> nat) list" where
  "phrase_step source punctuation = (\<lambda>(start, out) (i, c).
     if c \<notin> set punctuation then (start, out)
     else (i + 1, if list_ex (visible_char punctuation) (slice start (i + 1) source)
                  then out @ [(start, i + 1)] else out))"

definition phrase_ranges :: "string \<Rightarrow> string \<Rightarrow> (nat \<times> nat) list" where
  "phrase_ranges source punctuation =
    (let (start, out) = foldl (phrase_step source punctuation) (0, []) (enumerate 0 source) in
     if start < length source \<and> list_ex (visible_char punctuation) (drop start source)
     then out @ [(start, length source)] else out)"

section \<open>Times of characters\<close>

type_synonym char_times = "(dbl \<times> dbl) option list"

text \<open>\<^verbatim>\<open>source.find(c, cursor)\<close>.\<close>

definition find_char :: "char \<Rightarrow> string \<Rightarrow> nat \<Rightarrow> nat option" where
  "find_char c source cursor = (if c \<in> set (drop cursor source)
     then Some (cursor + length (takeWhile (\<lambda>x. x \<noteq> c) (drop cursor source))) else None)"

definition place_char :: "string \<Rightarrow> json \<Rightarrow> char_times \<times> nat \<Rightarrow> char \<Rightarrow> (char_times \<times> nat) res" where
  "place_char source u = (\<lambda>(ts, cursor) c. case find_char c source cursor of
     None \<Rightarrow> Inl (ValueError ''alignment unit is not a subsequence of ASR text'')
   | Some i \<Rightarrow> rbind (float_item u ''start'') (\<lambda>s. rbind (float_item u ''end'') (\<lambda>e.
       Inr (ts[i := Some (s, e)], i + 1))))"

definition place_unit :: "string \<Rightarrow> char_times \<times> nat \<Rightarrow> json \<Rightarrow> (char_times \<times> nat) res" where
  "place_unit source state u = rbind (vitem u ''text'') (\<lambda>t. rfold (place_char source u) state (py_str t))"

definition aligned_character_times :: "string \<Rightarrow> json list \<Rightarrow> char_times res" where
  "aligned_character_times source us =
    rbind (rfold (place_unit source) (replicate (length source) None, 0) us) (\<lambda>(ts, _). Inr ts)"

text \<open>The times in a range that have a positive duration.\<close>

definition timed_in :: "char_times \<Rightarrow> nat \<Rightarrow> nat \<Rightarrow> (dbl \<times> dbl) list" where
  "timed_in ts a b = List.map_filter (\<lambda>t. case t of Some (s, e) \<Rightarrow> if s < e then Some (s, e) else None | None \<Rightarrow> None)
     (slice a b ts)"

text \<open>\<^verbatim>\<open>min\<close> and \<^verbatim>\<open>max\<close> of a non-empty list.\<close>

definition least :: "dbl list \<Rightarrow> dbl" where
  "least xs = foldl min (hd xs) (tl xs)"

definition greatest :: "dbl list \<Rightarrow> dbl" where
  "greatest xs = foldl max (hd xs) (tl xs)"

definition time_hull :: "(dbl \<times> dbl) list \<Rightarrow> dbl \<times> dbl" where
  "time_hull ts = (least (map fst ts), greatest (map snd ts))"

section \<open>Enumeration\<close>

record phrase_span =
  ps_id :: string
  ps_text_id :: int
  ps_source_start :: nat
  ps_source_end :: nat
  ps_start :: dbl
  ps_end :: dbl
  ps_text :: string

definition phrase_fits :: "phrase_policy \<Rightarrow> string \<Rightarrow> dbl \<times> dbl \<Rightarrow> bool" where
  "phrase_fits p piece = (\<lambda>(s, e). let duration = e - s in
     \<not> (duration + EPSILON < pp_minimum p \<or> pp_maximum p + EPSILON < duration \<or>
        int (length (filter (visible_char (pp_punctuation p)) piece)) < pp_visible p))"

text \<open>The phrases of one text; \<open>n\<close> phrases came before.\<close>

definition add_phrase ::
  "phrase_policy \<Rightarrow> int \<Rightarrow> string \<Rightarrow> char_times \<Rightarrow> phrase_span list \<Rightarrow> nat \<times> nat \<Rightarrow> phrase_span list" where
  "add_phrase p text_id source ts out = (\<lambda>(a, b). let timed = timed_in ts a b in
     if timed = [] \<or> \<not> phrase_fits p (slice a b source) (time_hull timed) then out
     else out @ [\<lparr>ps_id = ''punctuation_phrase:'' @ int_repr (int (length out)), ps_text_id = text_id,
       ps_source_start = a, ps_source_end = b, ps_start = fst (time_hull timed), ps_end = snd (time_hull timed),
       ps_text = slice a b source\<rparr>])"

definition text_phrases ::
  "phrase_policy \<Rightarrow> (int, asr_text) pydict \<Rightarrow> (int, json list) pydict \<Rightarrow> phrase_span list \<Rightarrow> int
     \<Rightarrow> phrase_span list res" where
  "text_phrases p asr align out text_id =
    rbind (ditem asr text_id (KeyError (int_repr text_id))) (\<lambda>a.
    rbind (ditem align text_id (KeyError (int_repr text_id))) (\<lambda>us.
    rbind (aligned_character_times (at_text a) us) (\<lambda>ts.
    Inr (foldl (add_phrase p text_id (at_text a) ts) out (phrase_ranges (at_text a) (pp_punctuation p))))))"

definition enumerate_phrases ::
  "(int, asr_text) pydict \<Rightarrow> (int, json list) pydict \<Rightarrow> phrase_policy \<Rightarrow> phrase_span list res" where
  "enumerate_phrases asr align p =
    raise_if (set (map fst asr) \<noteq> set (map fst align)) (ValueError ''ASR and alignment text_id sets differ'')
      (rfold (text_phrases p asr align) [] (sort (map fst asr)))"

definition phrase_doc :: "phrase_span \<Rightarrow> json" where
  "phrase_doc x = JObj [(''evidence_id'', JStr (ps_id x)), (''text_id'', JInt (ps_text_id x)),
     (''source_start'', JInt (int (ps_source_start x))), (''source_end'', JInt (int (ps_source_end x))),
     (''start'', JFlt (ps_start x)), (''end'', JFlt (ps_end x)), (''text'', JStr (ps_text x))]"

definition write_phrase_spans :: "phrase_span list \<Rightarrow> table" where
  "write_phrase_spans xs = [''evidence_id'', ''start_sec'', ''end_sec''] #
     map (\<lambda>x. [ps_id x, float_repr (ps_start x), float_repr (ps_end x)]) xs"

section \<open>The spans command\<close>

record phrase_inputs =
  ph_asr :: csv_table
  ph_align :: csv_table
  ph_config :: obj
  ph_asr_file :: file_identity
  ph_align_file :: file_identity
  ph_config_file :: file_identity

definition phrase_metadata ::
  "phrase_inputs \<Rightarrow> phrase_policy \<Rightarrow> (int, asr_text) pydict \<Rightarrow> (int, json list) pydict \<Rightarrow> phrase_span list \<Rightarrow> json" where
  "phrase_metadata x p asr align phrases = JObj
     [(''schema_version'', JInt 1),
      (''kind'', JStr ''orator_punctuation_phrase_spans''),
      (''policy'', phrase_policy_doc p),
      (''asr'', JObj (map (\<lambda>(k, v). (int_repr k, asr_doc v)) asr)),
      (''align'', JObj (map (\<lambda>(k, v). (int_repr k, JArr v)) align)),
      (''phrase_count'', JInt (int (length phrases))),
      (''phrases'', JArr (map phrase_doc phrases)),
      (''sources'', JObj [(''asr'', file_doc (ph_asr_file x)), (''align'', file_doc (ph_align_file x)),
         (''config'', file_doc (ph_config_file x))])]"

definition command_phrase_spans :: "phrase_inputs \<Rightarrow> (table \<times> json) res" where
  "command_phrase_spans x =
    rbind (load_phrase_policy (ph_config x)) (\<lambda>p.
    rbind (read_asr (ph_asr x)) (\<lambda>asr.
    rbind (read_align (ph_align x)) (\<lambda>align.
    rbind (enumerate_phrases asr align p) (\<lambda>phrases.
    Inr (write_phrase_spans phrases, phrase_metadata x p asr align phrases)))))"

end
