(* ===== verification/Phrase_Overlay.thy ===== *)
theory Phrase_Overlay
  imports Phrase_Spans
begin

text \<open>
  \<^verbatim>\<open>tools/archive/spec013-speaker-candidates/speaker_punctuation_phrase_candidate.py\<close>, second
  half: the identity a voiceprint selects, the fragments of the directly fused track and their
  anchors, the relabelling of a text's characters by accepted overlays, and the candidate
  document.  Identities in the mapping and in anchors are texts; other values have no value in
  the model.
\<close>

section \<open>Voiceprint evidence\<close>

record phrase_voice =
  pv_status :: "string option"
  pv_duration :: dbl
  pv_scores :: "(string, dbl) pydict"

type_synonym voice_table = "(string option, phrase_voice) pydict"

definition add_voice :: "string list \<Rightarrow> voice_table \<Rightarrow> csv_row \<Rightarrow> voice_table res" where
  "add_voice columns evidence row = rbind (csv_item row ''evidence_id'') (\<lambda>i.
     rbind (csv_item row ''status'') (\<lambda>status. rbind (csv_float row ''duration_sec'') (\<lambda>d.
     rbind (row_scores columns row) (\<lambda>scores.
     Inr (dset i \<lparr>pv_status = status, pv_duration = d, pv_scores = scores\<rparr> evidence)))))"

definition read_voice :: "csv_table \<Rightarrow> voice_table res" where
  "read_voice t = rfold (add_voice (filter (has_prefix ''score_'') (csv_fields t))) [] (csv_rows t)"

text \<open>\<^verbatim>\<open>evidence.get(evidence_id)\<close> for a key from a document.\<close>

definition find_voice :: "voice_table \<Rightarrow> json \<Rightarrow> phrase_voice option res" where
  "find_voice evidence k = (case k of
     JStr s \<Rightarrow> Inr (map_of evidence (Some s))
   | JNull \<Rightarrow> Inr (map_of evidence None)
   | JArr _ \<Rightarrow> Inl TypeError | JObj _ \<Rightarrow> Inl TypeError
   | _ \<Rightarrow> Inr None)"

section \<open>Identity\<close>

text \<open>Best score first, equal scores by identity.\<close>

definition voice_rank :: "string \<times> dbl \<Rightarrow> dbl \<times> string" where
  "voice_rank = (\<lambda>(speaker, score). (- score, speaker))"

definition ranked_voices :: "phrase_voice \<Rightarrow> string list \<Rightarrow> (string \<times> dbl) list" where
  "ranked_voices v active = sort_key voice_rank
     (List.map_filter (\<lambda>s. map_option (Pair s) (map_of (pv_scores v) s)) active)"

text \<open>The selected identity if there is one, the reason, the ranking.\<close>

type_synonym selection = "string option \<times> string \<times> (string \<times> dbl) list"

definition gated_identity :: "gate_policy \<Rightarrow> phrase_voice \<Rightarrow> (string \<times> dbl) list \<Rightarrow> string option \<times> string" where
  "gated_identity g v ranked =
    (let (score_gate, margin_gate, kind) =
       (if pv_duration v < gp_short_max g then (gp_short_score g, gp_short_margin g, ''short'')
        else (gp_regular_score g, gp_regular_margin g, ''regular''));
       (best, top1) = ranked ! 0; (_, top2) = ranked ! 1 in
     if top1 < score_gate then (None, ''phrase_'' @ kind @ ''_score_below_gate'')
     else if top1 - top2 < margin_gate then (None, ''phrase_'' @ kind @ ''_margin_below_gate'')
     else (Some best, ''phrase_'' @ kind @ ''_voiceprint''))"

definition select_identity :: "phrase_voice option \<Rightarrow> string list \<Rightarrow> gate_policy \<Rightarrow> selection" where
  "select_identity voice active g = (case voice of
     None \<Rightarrow> (None, ''phrase_embedding_unavailable'', [])
   | Some v \<Rightarrow> if pv_status v \<noteq> Some ''ok'' then (None, ''phrase_embedding_unavailable'', [])
       else let ranked = ranked_voices v active in
         if length ranked < 2 then (None, ''phrase_active_scores_incomplete'', ranked)
         else let (speaker, reason) = gated_identity g v ranked in (speaker, reason, ranked))"

section \<open>Fragments of the direct track\<close>

record fragment =
  fr_index :: nat
  fr_start :: nat
  fr_end :: nat
  fr_entry :: json
  fr_decision :: json
  fr_anchor :: bool

definition is_direct_anchor :: "json \<Rightarrow> bool res" where
  "is_direct_anchor decision = rbind (vget decision ''reason'' (JStr [])) (\<lambda>r.
     rbind (vget decision ''speaker_id'' JNull) (\<lambda>s. let reason = py_str r in
     Inr (s \<noteq> JNull \<and> sublist ''direct_voiceprint'' reason \<and> \<not> sublist ''below_gate'' reason)))"

text \<open>\<^verbatim>\<open>decisions[index]\<close>.\<close>

definition decision_at :: "json \<Rightarrow> nat \<Rightarrow> json res" where
  "decision_at v i = (case v of
     JArr xs \<Rightarrow> if i < length xs then Inr (xs ! i) else Inl IndexError
   | JStr s \<Rightarrow> if i < length s then Inr (JStr [s ! i]) else Inl IndexError
   | JObj _ \<Rightarrow> Inl (KeyError (int_repr (int i)))
   | _ \<Rightarrow> Inl TypeError)"

type_synonym track_groups = "(int, (nat \<times> json \<times> json) list) pydict"

definition add_track_item :: "json \<Rightarrow> track_groups \<Rightarrow> nat \<times> json \<Rightarrow> track_groups res" where
  "add_track_item decisions grouped = (\<lambda>(i, x).
    rbind (rbind (vitem x ''text_id'') py_int) (\<lambda>text_id.
    rbind (decision_at decisions i) (\<lambda>d.
    Inr (dset text_id ((case map_of grouped text_id of None \<Rightarrow> [] | Some xs \<Rightarrow> xs) @ [(i, x, d)]) grouped))))"

text \<open>\<^verbatim>\<open>str(item.get("text", ""))\<close>.\<close>

definition entry_text :: "json \<Rightarrow> string res" where
  "entry_text x = rbind (vget x ''text'' (JStr [])) (\<lambda>t. Inr (py_str t))"

definition add_fragment :: "nat \<times> fragment list \<Rightarrow> nat \<times> json \<times> json \<Rightarrow> (nat \<times> fragment list) res" where
  "add_fragment = (\<lambda>(cursor, values) (i, x, d).
    rbind (entry_text x) (\<lambda>t. rbind (is_direct_anchor d) (\<lambda>anchor.
    Inr (cursor + length t, values @ [\<lparr>fr_index = i, fr_start = cursor, fr_end = cursor + length t,
      fr_entry = x, fr_decision = d, fr_anchor = anchor\<rparr>]))))"

definition group_fragments :: "int \<times> (nat \<times> json \<times> json) list \<Rightarrow> (int \<times> fragment list) res" where
  "group_fragments = (\<lambda>(text_id, xs). rbind (rfold add_fragment (0, []) xs) (\<lambda>(_, values). Inr (text_id, values)))"

type_synonym fragments_by_text = "(int, fragment list) pydict"

definition source_fragments :: "json \<Rightarrow> fragments_by_text res" where
  "source_fragments direct =
    rbind (vget direct ''track'' (JArr [])) (\<lambda>track. rbind (vget direct ''decisions'' (JArr [])) (\<lambda>decisions.
    rbind (py_len track) (\<lambda>n. rbind (py_len decisions) (\<lambda>m.
    raise_if (n \<noteq> m) (ValueError ''direct candidate track and decisions differ'')
    (rbind (py_iter track) (\<lambda>items.
     rbind (rfold (add_track_item decisions) [] (enumerate 0 items)) (rmap group_fragments)))))))"

section \<open>Anchors\<close>

text \<open>\<^verbatim>\<open>n < v\<close> and \<^verbatim>\<open>n > v\<close> for an int and a document value.\<close>

definition int_less :: "nat \<Rightarrow> json \<Rightarrow> bool res" where
  "int_less n v = (case num_val v of Some x \<Rightarrow> Inr (of_nat n < x)
     | None \<Rightarrow> (case v of JNonFin i \<Rightarrow> Inr (i = PosInf) | _ \<Rightarrow> Inl TypeError))"

definition int_greater :: "nat \<Rightarrow> json \<Rightarrow> bool res" where
  "int_greater n v = (case num_val v of Some x \<Rightarrow> Inr (x < of_nat n)
     | None \<Rightarrow> (case v of JNonFin i \<Rightarrow> Inr (i = NegInf) | _ \<Rightarrow> Inl TypeError))"

definition anchor_id :: "json \<Rightarrow> string res" where
  "anchor_id v = (case v of JStr s \<Rightarrow> Inr s | JArr _ \<Rightarrow> Inl TypeError | JObj _ \<Rightarrow> Inl TypeError
     | _ \<Rightarrow> Inl OutOfModel)"

definition anchor_of :: "json \<Rightarrow> fragment \<Rightarrow> string option res" where
  "anchor_of phrase fr = (if \<not> fr_anchor fr then Inr None
     else rbind (rbind (vitem phrase ''source_end'') (int_less (fr_start fr))) (\<lambda>before.
       if \<not> before then Inr None
       else rbind (rbind (vitem phrase ''source_start'') (int_greater (fr_end fr))) (\<lambda>after.
         if \<not> after then Inr None
         else rbind (rbind (vitem (fr_decision fr) ''speaker_id'') anchor_id) (\<lambda>s. Inr (Some s)))))"

text \<open>The set, as the list of its elements.\<close>

definition phrase_anchor_ids :: "json \<Rightarrow> fragment list \<Rightarrow> string list res" where
  "phrase_anchor_ids phrase fragments = rbind (rcollect (anchor_of phrase) fragments) (\<lambda>ids. Inr (remdups ids))"

definition phrase_overlay_accepted :: "string option \<Rightarrow> string list \<Rightarrow> bool \<Rightarrow> bool" where
  "phrase_overlay_accepted selected anchors require_anchor \<longleftrightarrow>
     selected \<noteq> None \<and> (anchors \<noteq> [] \<or> \<not> require_anchor) \<and> list_all (\<lambda>a. Some a = selected) anchors"

section \<open>Reprojection\<close>

text \<open>What a character is labelled with.\<close>

record char_label =
  cl_speaker_id :: json
  cl_speaker :: int
  cl_uncertain :: bool
  cl_reason :: string

definition entry_label :: "json \<Rightarrow> char_label res" where
  "entry_label x =
    rbind (vget x ''speaker_id'' JNull) (\<lambda>i. rbind (rbind (vget x ''speaker'' (JInt (- 1))) py_int) (\<lambda>n.
    rbind (vget x ''speaker_uncertain'' (JBool False)) (\<lambda>u.
    rbind (vget x ''decision_reason'' (JStr ''baseline'')) (\<lambda>r.
    Inr \<lparr>cl_speaker_id = i, cl_speaker = n, cl_uncertain = truthy u, cl_reason = py_str r\<rparr>))))"

text \<open>The owner and the label of every character, fragment by fragment.\<close>

definition fragment_chars :: "nat \<times> fragment \<Rightarrow> (nat \<times> char_label) list res" where
  "fragment_chars = (\<lambda>(owner, fr). rbind (entry_text (fr_entry fr)) (\<lambda>t.
     if t = [] then Inr [] else rbind (entry_label (fr_entry fr)) (\<lambda>l. Inr (replicate (length t) (owner, l)))))"

definition owned_labels :: "fragment list \<Rightarrow> (nat \<times> char_label) list res" where
  "owned_labels fragments = rbind (rmap fragment_chars (enumerate 0 fragments)) (\<lambda>xs. Inr (concat xs))"

text \<open>The bounds of \<^verbatim>\<open>range\<close>, and item assignment with Python's negative positions.\<close>

definition range_bound :: "json \<Rightarrow> int res" where
  "range_bound v = (case v of JInt n \<Rightarrow> Inr n | JBool b \<Rightarrow> Inr (if b then 1 else 0) | _ \<Rightarrow> Inl TypeError)"

definition set_label :: "char_label \<Rightarrow> char_label list \<Rightarrow> int \<Rightarrow> char_label list res" where
  "set_label l labels i = (let n = int (length labels) in
     if 0 \<le> i \<and> i < n then Inr (labels[nat i := l])
     else if - n \<le> i \<and> i < 0 then Inr (labels[nat (i + n) := l])
     else Inl IndexError)"

type_synonym local_ids = "(string, int) pydict"

definition overlay_label :: "local_ids \<Rightarrow> obj \<Rightarrow> char_label res" where
  "overlay_label id_to_local overlay =
    rbind (rbind (item overlay ''speaker_id'') anchor_id) (\<lambda>s.
    rbind (ditem id_to_local s (KeyError s)) (\<lambda>n.
    rbind (item overlay ''reason'') (\<lambda>r.
    Inr \<lparr>cl_speaker_id = JStr s, cl_speaker = n, cl_uncertain = False, cl_reason = py_str r\<rparr>)))"

definition apply_overlay :: "local_ids \<Rightarrow> char_label list \<Rightarrow> obj \<Rightarrow> char_label list res" where
  "apply_overlay id_to_local labels overlay =
    rbind (overlay_label id_to_local overlay) (\<lambda>l.
    rbind (item overlay ''source_start'') (\<lambda>sa. rbind (item overlay ''source_end'') (\<lambda>sb.
    rbind (range_bound sa) (\<lambda>a. rbind (range_bound sb) (\<lambda>b.
    rfold (set_label l) labels [a..b - 1])))))"

text \<open>Tuple comparison finds identical objects equal before it compares them.\<close>

definition same_label :: "char_label \<Rightarrow> char_label \<Rightarrow> bool" where
  "same_label l r \<longleftrightarrow> (cl_speaker_id l = cl_speaker_id r \<or> py_eq (cl_speaker_id l) (cl_speaker_id r)) \<and>
     cl_uncertain l = cl_uncertain r \<and> cl_reason l = cl_reason r"

definition label_bounds :: "char_label list \<Rightarrow> nat list" where
  "label_bounds labels = 0 # filter (\<lambda>i. \<not> same_label (labels ! (i - 1)) (labels ! i)) [1..<length labels] @ [length labels]"

definition owner_sec :: "string \<Rightarrow> fragment list \<Rightarrow> nat \<Rightarrow> dbl res" where
  "owner_sec k fragments i = float_item (fr_entry (fragments ! i)) k"

definition span_time :: "nat \<Rightarrow> nat \<Rightarrow> char_times \<Rightarrow> nat list \<Rightarrow> fragment list \<Rightarrow> (dbl \<times> dbl) res" where
  "span_time a b ts owners fragments = (let timed = timed_in ts a b; indices = sort (remdups (slice a b owners)) in
     if timed \<noteq> [] then Inr (time_hull timed)
     else rbind (rmap (owner_sec ''start'' fragments) indices) (\<lambda>ss.
       rbind (rmap (owner_sec ''end'' fragments) indices) (\<lambda>es. Inr (least ss, greatest es))))"

record phrase_turn =
  pt_turn_id :: string
  pt_start :: dbl
  pt_end :: dbl
  pt_text_id :: int
  pt_text :: string
  pt_label :: char_label

definition turn_piece ::
  "int \<Rightarrow> string \<Rightarrow> char_times \<Rightarrow> nat list \<Rightarrow> char_label list \<Rightarrow> fragment list \<Rightarrow> nat \<times> nat \<times> nat
     \<Rightarrow> phrase_turn option res" where
  "turn_piece text_id source ts owners labels fragments = (\<lambda>(piece, a, b).
     if b \<le> a then Inr None
     else rbind (span_time a b ts owners fragments) (\<lambda>(s, e).
       raise_if (e \<le> s + EPSILON) (ValueError ''reprojected phrase has non-positive duration'')
       (Inr (Some \<lparr>pt_turn_id = ''punctuation_phrase:'' @ int_repr text_id @ '':'' @ int_repr (int piece),
         pt_start = s, pt_end = e, pt_text_id = text_id, pt_text = slice a b source, pt_label = labels ! a\<rparr>))))"

definition reproject_text ::
  "int \<Rightarrow> string \<Rightarrow> json \<Rightarrow> fragment list \<Rightarrow> obj list \<Rightarrow> local_ids \<Rightarrow> phrase_turn list res" where
  "reproject_text text_id source us fragments overlays id_to_local =
    rbind (owned_labels fragments) (\<lambda>owned.
    raise_if (length owned \<noteq> length source) (ValueError (''candidate text differs for text_id '' @ int_repr text_id))
    (rbind (rfold (apply_overlay id_to_local) (map snd owned) overlays) (\<lambda>labels.
     rbind (rbind (py_iter us) (aligned_character_times source)) (\<lambda>ts.
     rbind (rcollect (turn_piece text_id source ts (map fst owned) labels fragments)
       (enumerate 0 (adjacent (label_bounds labels)))) (\<lambda>output.
     raise_if (concat (map pt_text output) \<noteq> source) (ValueError ''reprojected source text is not exact'')
       (Inr output))))))"

end
