(* ===== verification/Phrase_Candidate.thy ===== *)
theory Phrase_Candidate
  imports Phrase_Overlay
begin

text \<open>
  \<^verbatim>\<open>tools/archive/spec013-speaker-candidates/speaker_punctuation_phrase_candidate.py\<close>,
  \<^verbatim>\<open>build_candidate\<close> and the build command: every phrase is decided by its voiceprint and the
  anchors it touches, then every text is relabelled.  Input documents are parsed JSON; digests and
  absolute paths are parameters.
\<close>

section \<open>Identities\<close>

definition add_local :: "(int, string) pydict \<Rightarrow> string \<times> json \<Rightarrow> (int, string) pydict res" where
  "add_local m = (\<lambda>(k, v). rbind (int_str k) (\<lambda>i. rbind (anchor_id v) (\<lambda>s. Inr (dset i s m))))"

definition local_mapping :: "json \<Rightarrow> (int, string) pydict res" where
  "local_mapping manifest = rbind (rbind (vitem manifest ''mapping'') vdict) (rfold add_local [])"

text \<open>The mapping turned around; of two slots with one identity the later one counts.\<close>

definition invert_mapping :: "(int, string) pydict \<Rightarrow> local_ids" where
  "invert_mapping m = foldl (\<lambda>d (i, s). dset s i d) [] m"

definition identity_list :: "json \<Rightarrow> string list res" where
  "identity_list v = rbind (py_iter v) (rmap anchor_id)"

section \<open>Decisions\<close>

record phrase_decision =
  pd_id :: json
  pd_text_id :: int
  pd_start :: json
  pd_end :: json
  pd_speaker :: "string option"
  pd_anchors :: "string list"
  pd_accepted :: bool
  pd_reason :: string
  pd_ranked :: "(string \<times> dbl) list"

type_synonym overlays_by_text = "(int, obj list) pydict"

definition overlays_of :: "overlays_by_text \<Rightarrow> int \<Rightarrow> obj list" where
  "overlays_of d i = (case map_of d i of None \<Rightarrow> [] | Some xs \<Rightarrow> xs)"

text \<open>The reason of a decision.\<close>

definition phrase_reason :: "phrase_policy \<Rightarrow> string option \<Rightarrow> string \<Rightarrow> string list \<Rightarrow> bool \<Rightarrow> string" where
  "phrase_reason p selected reason anchors accepted =
    (if selected = None then reason
     else if pp_require_anchor p \<and> anchors = [] then ''phrase_direct_anchor_required''
     else if \<not> accepted then ''phrase_direct_anchor_conflict''
     else reason @ ''_overlay'')"

text \<open>The overlay of an accepted phrase: the phrase's dict with identity and reason.\<close>

definition accept_overlay ::
  "overlays_by_text \<Rightarrow> int \<Rightarrow> obj \<Rightarrow> string option \<Rightarrow> bool \<Rightarrow> string \<Rightarrow> overlays_by_text" where
  "accept_overlay overlays text_id d selected accepted why = (case selected of
     None \<Rightarrow> overlays
   | Some speaker \<Rightarrow> if accepted
       then dset text_id (overlays_of overlays text_id @
         [dset ''reason'' (JStr why) (dset ''speaker_id'' (JStr speaker) d)]) overlays
       else overlays)"

definition decide_phrase ::
  "phrase_policy \<Rightarrow> voice_table \<Rightarrow> string list \<Rightarrow> fragments_by_text
     \<Rightarrow> overlays_by_text \<times> phrase_decision list \<Rightarrow> json \<Rightarrow> (overlays_by_text \<times> phrase_decision list) res" where
  "decide_phrase p evidence active fragments = (\<lambda>(overlays, decisions) phrase.
    rbind (vitem phrase ''evidence_id'') (\<lambda>eid. rbind (find_voice evidence eid) (\<lambda>voice.
    raise_if (voice = None) (ValueError (''missing phrase evidence '' @ py_str eid))
    (case select_identity voice active (pp_gates p) of (selected, reason, ranked) \<Rightarrow>
      rbind (rbind (vitem phrase ''text_id'') py_int) (\<lambda>text_id.
      rbind (ditem fragments text_id (KeyError (int_repr text_id))) (\<lambda>frs.
      rbind (phrase_anchor_ids phrase frs) (\<lambda>anchors.
      rbind (vdict phrase) (\<lambda>d.
      let accepted = phrase_overlay_accepted selected anchors (pp_require_anchor p);
          why = phrase_reason p selected reason anchors accepted in
      rbind (vitem phrase ''start'') (\<lambda>s. rbind (vitem phrase ''end'') (\<lambda>e.
      Inr (accept_overlay overlays text_id d selected accepted why,
           decisions @ [\<lparr>pd_id = eid, pd_text_id = text_id, pd_start = s, pd_end = e, pd_speaker = selected,
             pd_anchors = sort anchors, pd_accepted = accepted, pd_reason = why, pd_ranked = ranked\<rparr>])))))))))))"

section \<open>Track\<close>

definition fragment_text :: "fragment list \<Rightarrow> string res" where
  "fragment_text frs = rbind (rmap (\<lambda>fr. entry_text (fr_entry fr)) frs) (\<lambda>ts. Inr (concat ts))"

definition text_turns ::
  "json \<Rightarrow> json \<Rightarrow> overlays_by_text \<Rightarrow> local_ids \<Rightarrow> int \<times> fragment list \<Rightarrow> phrase_turn list res" where
  "text_turns asr align overlays id_to_local = (\<lambda>(text_id, frs).
    rbind (rbind (vitem asr (int_repr text_id)) (\<lambda>a. vitem a ''text'')) (\<lambda>source.
    rbind (fragment_text frs) (\<lambda>actual.
    raise_if (source \<noteq> JStr actual) (ValueError (''direct source text mismatch for '' @ int_repr text_id))
    (rbind (vitem align (int_repr text_id)) (\<lambda>us.
     reproject_text text_id actual us frs (overlays_of overlays text_id) id_to_local)))))"

definition phrase_track ::
  "json \<Rightarrow> json \<Rightarrow> fragments_by_text \<Rightarrow> overlays_by_text \<Rightarrow> local_ids \<Rightarrow> phrase_turn list res" where
  "phrase_track asr align fragments overlays id_to_local =
    rbind (rmap (text_turns asr align overlays id_to_local) (sort_key fst fragments)) (\<lambda>xs. Inr (concat xs))"

section \<open>Documents\<close>

definition turn_doc :: "phrase_turn \<Rightarrow> json" where
  "turn_doc t = JObj [(''turn_id'', JStr (pt_turn_id t)), (''start'', JFlt (pt_start t)), (''end'', JFlt (pt_end t)),
     (''text_id'', JInt (pt_text_id t)), (''text'', JStr (pt_text t)), (''speaker'', JInt (cl_speaker (pt_label t))),
     (''speaker_id'', cl_speaker_id (pt_label t)), (''speaker_uncertain'', JBool (cl_uncertain (pt_label t))),
     (''decision_reason'', JStr (cl_reason (pt_label t)))]"

definition ranked_doc :: "(string \<times> dbl) list \<Rightarrow> json" where
  "ranked_doc xs = JArr (map (\<lambda>(s, x). JObj [(''speaker_id'', JStr s), (''score'', JFlt x)]) xs)"

definition phrase_decision_doc :: "phrase_decision \<Rightarrow> json" where
  "phrase_decision_doc d = JObj [(''evidence_id'', pd_id d), (''text_id'', JInt (pd_text_id d)),
     (''start'', pd_start d), (''end'', pd_end d), (''speaker_id'', opt_json (pd_speaker d)),
     (''direct_anchor_ids'', JArr (map JStr (pd_anchors d))), (''accepted'', JBool (pd_accepted d)),
     (''reason'', JStr (pd_reason d)), (''ranked'', ranked_doc (pd_ranked d))]"

text \<open>The input documents of the build command.\<close>

record phrase_build =
  pb_direct :: json
  pb_metadata :: json
  pb_evidence :: voice_table
  pb_manifest :: json

record phrase_result =
  pq_active :: "string list"
  pq_source_turns :: int
  pq_phrases :: int
  pq_audio_sec :: dbl
  pq_sample_rate :: int
  pq_decisions :: "phrase_decision list"
  pq_track :: "phrase_turn list"

definition candidate_identities :: "phrase_build \<Rightarrow> (local_ids \<times> string list) res" where
  "candidate_identities x =
    rbind (local_mapping (pb_manifest x)) (\<lambda>m.
    rbind (rbind (vget (pb_direct x) ''active_speaker_ids'' (JArr [])) identity_list) (\<lambda>listed.
    let active = sort (remdups (map snd m)) in
    raise_if (sort listed \<noteq> active) (ValueError ''active identities differ from mapping'')
      (Inr (invert_mapping m, active))))"

definition build_phrase_candidate :: "phrase_build \<Rightarrow> phrase_policy \<Rightarrow> phrase_result res" where
  "build_phrase_candidate x p =
    rbind (vget (pb_direct x) ''kind'' JNull) (\<lambda>dk.
    raise_if (dk \<noteq> JStr ''orator_frozen_speaker_candidate'')
      (ValueError ''direct input is not a frozen speaker candidate'')
    (rbind (vget (pb_metadata x) ''kind'' JNull) (\<lambda>mk.
     raise_if (mk \<noteq> JStr ''orator_punctuation_phrase_spans'')
       (ValueError ''metadata is not punctuation phrase spans'')
     (rbind (candidate_identities x) (\<lambda>(id_to_local, active).
      rbind (source_fragments (pb_direct x)) (\<lambda>fragments.
      rbind (vitem (pb_metadata x) ''asr'') (\<lambda>asr. rbind (vitem (pb_metadata x) ''align'') (\<lambda>align.
      rbind (vitem (pb_metadata x) ''phrases'') (\<lambda>phrases. rbind (py_iter phrases) (\<lambda>items.
      rbind (rfold (decide_phrase p (pb_evidence x) active fragments) ([], []) items) (\<lambda>(overlays, decisions).
      rbind (phrase_track asr align fragments overlays id_to_local) (\<lambda>track.
      rbind (float_item (pb_direct x) ''audio_sec'') (\<lambda>audio_sec.
      rbind (rbind (vitem (pb_direct x) ''sample_rate'') py_int) (\<lambda>sample_rate.
      rbind (rbind (vget (pb_direct x) ''track'' (JArr [])) py_len) (\<lambda>turns.
      rbind (py_len phrases) (\<lambda>n.
      Inr \<lparr>pq_active = active, pq_source_turns = turns, pq_phrases = n, pq_audio_sec = audio_sec,
           pq_sample_rate = sample_rate, pq_decisions = decisions, pq_track = track\<rparr>))))))))))))))))"

definition phrase_result_doc :: "phrase_policy \<Rightarrow> phrase_result \<Rightarrow> obj" where
  "phrase_result_doc p r =
     [(''schema_version'', JInt 1),
      (''kind'', JStr ''orator_frozen_speaker_candidate''),
      (''candidate_kind'', JStr ''v21_punctuation_phrase_voiceprint_overlay''),
      (''audio_sec'', JFlt (pq_audio_sec r)),
      (''sample_rate'', JInt (pq_sample_rate r)),
      (''active_speaker_ids'', JArr (map JStr (pq_active r))),
      (''source_turn_count'', JInt (pq_source_turns r)),
      (''turn_count'', JInt (int (length (pq_track r)))),
      (''phrase_count'', JInt (pq_phrases r)),
      (''accepted_phrase_count'', JInt (int (length (filter pd_accepted (pq_decisions r))))),
      (''policy'', phrase_policy_doc p),
      (''decisions'', JArr (map phrase_decision_doc (pq_decisions r))),
      (''track'', JArr (map turn_doc (pq_track r)))]"

text \<open>The sources dict of a build command: the files in the order of their names here.\<close>

definition sources_doc :: "(string \<times> file_identity) list \<Rightarrow> json" where
  "sources_doc files = JObj (map (\<lambda>(n, f). (n, file_doc f)) files)"

definition command_phrase_build ::
  "json \<Rightarrow> json \<Rightarrow> csv_table \<Rightarrow> json \<Rightarrow> obj \<Rightarrow> (string \<times> file_identity) list \<Rightarrow> obj res" where
  "command_phrase_build direct metadata titanet manifest config files =
    rbind (load_phrase_policy config) (\<lambda>p.
    rbind (read_voice titanet) (\<lambda>evidence.
    rbind (build_phrase_candidate \<lparr>pb_direct = direct, pb_metadata = metadata, pb_evidence = evidence,
      pb_manifest = manifest\<rparr> p) (\<lambda>r.
    Inr (dset ''sources'' (sources_doc files) (phrase_result_doc p r)))))"

end
