(* ===== verification/Posterior_Pieces.thy ===== *)
theory Posterior_Pieces
  imports Phrase_Candidate
begin

text \<open>
  \<^verbatim>\<open>tools/archive/spec013-speaker-candidates/speaker_posterior_bounded_phrase_candidate.py\<close>:
  phrases are cut at the sustained runs of one local speaker in the raw posteriors, the pieces are
  decided by voiceprint and mapping together, and accepted pieces relabel the text outside the
  regular anchors.  Input documents are parsed; digests and absolute paths are parameters.
\<close>

section \<open>Policy\<close>

record posterior_policy =
  bp_threshold :: dbl
  bp_minimum_run :: dbl
  bp_minimum_piece :: dbl
  bp_regular_piece :: dbl
  bp_allow_regular :: bool
  bp_gates :: gate_policy

definition posterior_fields :: "string list" where
  "posterior_fields = [''frame_activity_threshold'', ''minimum_sustained_run_sec'', ''minimum_piece_duration_sec'',
     ''regular_piece_min_sec'', ''preserve_regular_direct_anchors'', ''allow_regular_consensus_over_short_anchor'']"

definition load_posterior_policy :: "obj \<Rightarrow> posterior_policy res" where
  "load_posterior_policy document =
    (let bounded = dget document ''posterior_bounded_phrase'' (JObj []);
         fusion = dget document ''speaker_fusion'' (JObj []) in
     rbind (absent_fields posterior_fields bounded) (\<lambda>m1. rbind (absent_fields GATE_FIELDS fusion) (\<lambda>m2.
     let missing = sort (m1 @ m2) in
     raise_if (missing \<noteq> []) (ValueError (''posterior phrase policy missing: '' @ join_with '','' missing))
     (rbind (float_item bounded ''frame_activity_threshold'') (\<lambda>threshold.
      rbind (float_item bounded ''minimum_sustained_run_sec'') (\<lambda>run.
      rbind (float_item bounded ''minimum_piece_duration_sec'') (\<lambda>piece.
      rbind (float_item bounded ''regular_piece_min_sec'') (\<lambda>regular.
      rbind (flag_item bounded ''preserve_regular_direct_anchors'') (\<lambda>preserve.
      rbind (flag_item bounded ''allow_regular_consensus_over_short_anchor'') (\<lambda>allow.
      rbind (gates_of fusion) (\<lambda>gates.
      raise_if (\<not> (0 < threshold \<and> threshold < 1))
        (ValueError ''frame_activity_threshold must be between zero and one'')
      (raise_if (run \<le> 0) (ValueError ''minimum_sustained_run_sec must be positive'')
      (raise_if (piece \<le> 0) (ValueError ''minimum_piece_duration_sec must be positive'')
      (raise_if (regular < piece) (ValueError ''regular_piece_min_sec is below the piece minimum'')
      (raise_if (\<not> preserve) (ValueError ''regular direct anchor preservation is mandatory'')
      (Inr \<lparr>bp_threshold = threshold, bp_minimum_run = run, bp_minimum_piece = piece, bp_regular_piece = regular,
           bp_allow_regular = allow, bp_gates = gates\<rparr>))))))))))))))))"

definition posterior_policy_doc :: "posterior_policy \<Rightarrow> json" where
  "posterior_policy_doc p = JObj
     ([(''frame_activity_threshold'', JFlt (bp_threshold p)), (''minimum_sustained_run_sec'', JFlt (bp_minimum_run p)),
       (''minimum_piece_duration_sec'', JFlt (bp_minimum_piece p)), (''regular_piece_min_sec'', JFlt (bp_regular_piece p)),
       (''preserve_regular_direct_anchors'', JBool True),
       (''allow_regular_consensus_over_short_anchor'', JBool (bp_allow_regular p))] @ gate_entries (bp_gates p))"

section \<open>Frames and runs\<close>

record top1_frame =
  tf_frame :: int
  tf_time :: dbl
  tf_local :: int
  tf_probability :: dbl

definition top1_frame_of :: "csv_row \<Rightarrow> top1_frame res" where
  "top1_frame_of row =
    rbind (csv_int row ''frame'') (\<lambda>n. rbind (csv_float row ''time_sec'') (\<lambda>t.
    rbind (csv_int row ''top1'') (\<lambda>spk. rbind (csv_float row ''top1_prob'') (\<lambda>p.
    Inr \<lparr>tf_frame = n, tf_time = t, tf_local = spk, tf_probability = p\<rparr>))))"

definition frames_broken :: "top1_frame \<times> top1_frame \<Rightarrow> bool" where
  "frames_broken = (\<lambda>(l, r). tf_frame r \<noteq> tf_frame l + 1 \<or> tf_time r \<le> tf_time l)"

definition top1_columns :: "string list" where
  "top1_columns = [''frame'', ''time_sec'', ''top1'', ''top1_prob'']"

definition read_top1_frames :: "csv_table \<Rightarrow> (top1_frame list \<times> dbl) res" where
  "read_top1_frames t =
    raise_if (\<not> set top1_columns \<subseteq> set (csv_fields t)) (ValueError ''raw frame CSV is missing required columns'')
    (rbind (rmap top1_frame_of (csv_rows t)) (\<lambda>frames.
     raise_if (length frames < 2) (ValueError ''raw frame CSV requires at least two frames'')
     (raise_if (list_ex frames_broken (adjacent frames)) (ValueError ''raw frames are not contiguous and monotonic'')
     (Inr (frames, py_sum (map (\<lambda>(l, r). tf_time r - tf_time l) (adjacent frames))
        / of_pyint (int (length frames - 1)))))))"

record sustained_run =
  sr_start :: dbl
  sr_end :: dbl
  sr_local :: int
  sr_frame_start :: int
  sr_frame_end :: int
  sr_frame_count :: nat
  sr_mean :: dbl

text \<open>The phrase's bounds with the frame period: what the loop closes over.\<close>

record run_bounds =
  rb_first :: dbl
  rb_last :: dbl
  rb_period :: dbl

definition half_frame :: "run_bounds \<Rightarrow> dbl" where
  "half_frame b = D (1 / 2) * rb_period b"

definition finish_sustained :: "dbl \<Rightarrow> run_bounds \<Rightarrow> top1_frame list \<Rightarrow> sustained_run list" where
  "finish_sustained minimum b cur = (if cur = [] then []
     else let s = max (rb_first b) (tf_time (hd cur) - half_frame b);
              e = min (rb_last b) (tf_time (last cur) + half_frame b) in
       if minimum \<le> e - s + EPSILON
       then [\<lparr>sr_start = s, sr_end = e, sr_local = tf_local (hd cur), sr_frame_start = tf_frame (hd cur),
         sr_frame_end = tf_frame (last cur) + 1, sr_frame_count = length cur,
         sr_mean = py_sum (map tf_probability cur) / of_pyint (int (length cur))\<rparr>]
       else [])"

text \<open>
  The loop body, for any test of activity and any way to finish a run; the relative top-1 candidate
  and the channel islands have the same loop with another test and another end.
\<close>

definition gated_step ::
  "(top1_frame \<Rightarrow> bool) \<Rightarrow> (top1_frame list \<Rightarrow> 'r list) \<Rightarrow> 'r list \<times> top1_frame list \<Rightarrow> top1_frame
     \<Rightarrow> 'r list \<times> top1_frame list" where
  "gated_step active finish = (\<lambda>(runs, cur) f.
    (let cut = \<not> active f \<or> (cur \<noteq> [] \<and> tf_local f \<noteq> tf_local (last cur));
         runs' = (if cut then runs @ finish cur else runs);
         cur' = (if cut then [] else cur) in
     (runs', if active f then cur' @ [f] else cur')))"

definition gated_runs ::
  "(top1_frame \<Rightarrow> bool) \<Rightarrow> (top1_frame list \<Rightarrow> 'r list) \<Rightarrow> top1_frame list \<Rightarrow> 'r list" where
  "gated_runs active finish frames =
    (let (runs, cur) = foldl (gated_step active finish) ([], []) frames in runs @ finish cur)"

definition active_frame :: "posterior_policy \<Rightarrow> top1_frame \<Rightarrow> bool" where
  "active_frame p f \<longleftrightarrow> bp_threshold p \<le> tf_probability f"

text \<open>The frames between the two bisected positions.\<close>

definition phrase_frames :: "top1_frame list \<Rightarrow> run_bounds \<Rightarrow> top1_frame list" where
  "phrase_frames frames b = (let ts = map tf_time frames in
     slice (bisect_left ts (rb_first b - half_frame b)) (bisect_left ts (rb_last b + half_frame b)) frames)"

definition active_runs :: "top1_frame list \<Rightarrow> run_bounds \<Rightarrow> posterior_policy \<Rightarrow> sustained_run list" where
  "active_runs frames b p =
    gated_runs (active_frame p) (finish_sustained (bp_minimum_run p) b) (phrase_frames frames b)"

definition in_run :: "dbl \<Rightarrow> sustained_run \<Rightarrow> bool" where
  "in_run t r \<longleftrightarrow> sr_start r - EPSILON \<le> t \<and> t < sr_end r + EPSILON"

definition run_for_time :: "sustained_run list \<Rightarrow> dbl \<Rightarrow> nat option" where
  "run_for_time runs t = (let n = length (takeWhile (\<lambda>r. \<not> in_run t r) runs) in
     if n < length runs then Some n else None)"

section \<open>Pieces\<close>

text \<open>\<^verbatim>\<open>xs[i]\<close> and \<^verbatim>\<open>xs[a:b]\<close>, negative positions counted from the end.\<close>

definition py_nth :: "'a list \<Rightarrow> int \<Rightarrow> 'a res" where
  "py_nth xs i = (let n = int (length xs) in
     if 0 \<le> i \<and> i < n then Inr (xs ! nat i)
     else if - n \<le> i \<and> i < 0 then Inr (xs ! nat (i + n)) else Inl IndexError)"

definition clamp_index :: "nat \<Rightarrow> int \<Rightarrow> nat" where
  "clamp_index n i = (if i < 0 then nat (i + int n) else min (nat i) n)"

definition py_slice :: "'a list \<Rightarrow> int \<Rightarrow> int \<Rightarrow> 'a list" where
  "py_slice xs a b = slice (clamp_index (length xs) a) (clamp_index (length xs) b) xs"

record piece_group =
  pg_source_start :: int
  pg_source_end :: int
  pg_start :: dbl
  pg_end :: dbl
  pg_run :: sustained_run

text \<open>A text under its phrase: times of characters, runs and the phrase's last position.\<close>

record piece_setup =
  px_times :: char_times
  px_runs :: "sustained_run list"
  px_limit :: int

text \<open>The loop that takes the untimed characters after a piece into it.\<close>

function extend_piece :: "char_times \<Rightarrow> int \<Rightarrow> int \<Rightarrow> int res" where
  "extend_piece ts limit i = (if i < limit
     then rbind (py_nth ts i) (\<lambda>t. if t = None then extend_piece ts limit (i + 1) else Inr i)
     else Inr i)"
  by pat_completeness auto
termination by (relation "measure (\<lambda>(ts, limit, i). nat (limit - i))") auto

definition finish_piece ::
  "posterior_policy \<Rightarrow> piece_setup \<Rightarrow> nat option \<Rightarrow> (int \<times> dbl \<times> dbl) list \<Rightarrow> piece_group list res" where
  "finish_piece p x run cur = (case run of None \<Rightarrow> Inr [] | Some n \<Rightarrow>
     if cur = [] then Inr []
     else let r = px_runs x ! n; (lo, hi) = time_hull (map snd cur);
              s = max (sr_start r) lo; e = min (sr_end r) hi in
       if e - s + EPSILON < bp_minimum_piece p then Inr []
       else rbind (extend_piece (px_times x) (px_limit x) (fst (last cur) + 1)) (\<lambda>source_end.
         Inr [\<lparr>pg_source_start = fst (hd cur), pg_source_end = source_end, pg_start = s, pg_end = e, pg_run = r\<rparr>]))"

text \<open>The groups so far, the current run, and the current positions with their times.\<close>

type_synonym piece_state = "piece_group list \<times> nat option \<times> (int \<times> dbl \<times> dbl) list"

definition piece_step :: "posterior_policy \<Rightarrow> piece_setup \<Rightarrow> piece_state \<Rightarrow> int \<Rightarrow> piece_state res" where
  "piece_step p x = (\<lambda>(groups, run, cur) i.
    rbind (py_nth (px_times x) i) (\<lambda>t. case t of
      None \<Rightarrow> Inr (groups, run, cur)
    | Some (s, e) \<Rightarrow>
        if e \<le> s then Inr (groups, run, cur)
        else case run_for_time (px_runs x) (D (1 / 2) * (s + e)) of
          None \<Rightarrow> rbind (finish_piece p x run cur) (\<lambda>g. Inr (groups @ g, None, []))
        | Some n \<Rightarrow>
            if run \<noteq> None \<and> run \<noteq> Some n
            then rbind (finish_piece p x run cur) (\<lambda>g. Inr (groups @ g, Some n, [(i, s, e)]))
            else Inr (groups, Some n, cur @ [(i, s, e)])))"

definition phrase_pieces ::
  "json \<Rightarrow> string \<Rightarrow> json \<Rightarrow> sustained_run list \<Rightarrow> posterior_policy \<Rightarrow> piece_group list res" where
  "phrase_pieces phrase source us runs p =
    rbind (rbind (py_iter us) (aligned_character_times source)) (\<lambda>ts.
    rbind (vitem phrase ''source_start'') (\<lambda>sa. rbind (vitem phrase ''source_end'') (\<lambda>sb.
    rbind (range_bound sa) (\<lambda>a. rbind (range_bound sb) (\<lambda>b.
    let x = \<lparr>px_times = ts, px_runs = runs, px_limit = b\<rparr> in
    rbind (rfold (piece_step p x) ([], None, []) [a..b - 1]) (\<lambda>(groups, run, cur).
    rbind (finish_piece p x run cur) (\<lambda>g. Inr (groups @ g))))))))"

record posterior_piece =
  pc_id :: string
  pc_phrase_id :: json
  pc_text_id :: int
  pc_text :: string
  pc_group :: piece_group

text \<open>The text a document holds under an id; another value there has no value in the model.\<close>

definition source_text :: "json \<Rightarrow> int \<Rightarrow> string res" where
  "source_text asr text_id = rbind (rbind (vitem asr (int_repr text_id)) (\<lambda>a. vitem a ''text'')) (\<lambda>t. case t of
     JStr s \<Rightarrow> Inr s | _ \<Rightarrow> Inl OutOfModel)"

text \<open>
  The pieces of one phrase, for any way to find the runs between its bounds; the relative top-1
  candidate has the same loop with its own runs.
\<close>

definition phrase_group_pieces ::
  "string \<Rightarrow> (dbl \<Rightarrow> dbl \<Rightarrow> sustained_run list) \<Rightarrow> posterior_policy \<Rightarrow> json \<Rightarrow> posterior_piece list \<Rightarrow> json
     \<Rightarrow> posterior_piece list res" where
  "phrase_group_pieces name runs_between p metadata pieces phrase =
    rbind (rbind (vitem phrase ''text_id'') py_int) (\<lambda>text_id.
    rbind (rbind (vitem metadata ''asr'') (\<lambda>asr. source_text asr text_id)) (\<lambda>source.
    rbind (rbind (vitem metadata ''align'') (\<lambda>align. vitem align (int_repr text_id))) (\<lambda>us.
    rbind (float_item phrase ''start'') (\<lambda>s. rbind (float_item phrase ''end'') (\<lambda>e.
    rbind (phrase_pieces phrase source us (runs_between s e) p) (\<lambda>groups.
    rbind (if groups = [] then Inr JNull else vitem phrase ''evidence_id'') (\<lambda>pid.
    Inr (pieces @ map (\<lambda>(i, g). \<lparr>pc_id = name @ int_repr (int i), pc_phrase_id = pid,
      pc_text_id = text_id, pc_text = py_slice source (pg_source_start g) (pg_source_end g), pc_group = g\<rparr>)
      (enumerate (length pieces) groups)))))))))"

definition enumerate_pieces ::
  "json \<Rightarrow> top1_frame list \<Rightarrow> dbl \<Rightarrow> posterior_policy \<Rightarrow> posterior_piece list res" where
  "enumerate_pieces metadata frames period p =
    rbind (rbind (vitem metadata ''phrases'') py_iter) (rfold (phrase_group_pieces ''posterior_phrase:''
      (\<lambda>s e. active_runs frames \<lparr>rb_first = s, rb_last = e, rb_period = period\<rparr> p) p metadata) [])"

definition piece_doc :: "posterior_piece \<Rightarrow> json" where
  "piece_doc x = (let g = pc_group x; r = pg_run g in JObj
     [(''evidence_id'', JStr (pc_id x)), (''phrase_evidence_id'', pc_phrase_id x), (''text_id'', JInt (pc_text_id x)),
      (''text'', JStr (pc_text x)), (''source_start'', JInt (pg_source_start g)), (''source_end'', JInt (pg_source_end g)),
      (''start'', JFlt (pg_start g)), (''end'', JFlt (pg_end g)), (''local_speaker'', JInt (sr_local r)),
      (''frame_start'', JInt (sr_frame_start r)), (''frame_end'', JInt (sr_frame_end r)),
      (''frame_count'', JInt (int (sr_frame_count r))), (''mean_probability'', JFlt (sr_mean r))])"

definition write_piece_spans :: "posterior_piece list \<Rightarrow> table" where
  "write_piece_spans xs = [''evidence_id'', ''start_sec'', ''end_sec''] #
     map (\<lambda>x. [pc_id x, float_repr (pg_start (pc_group x)), float_repr (pg_end (pc_group x))]) xs"

section \<open>The spans command\<close>

definition command_posterior_spans ::
  "json \<Rightarrow> csv_table \<Rightarrow> obj \<Rightarrow> (string \<times> file_identity) list \<Rightarrow> (table \<times> json) res" where
  "command_posterior_spans metadata frame_table config files =
    rbind (load_posterior_policy config) (\<lambda>p.
    rbind (read_top1_frames frame_table) (\<lambda>(frames, period).
    rbind (enumerate_pieces metadata frames period p) (\<lambda>pieces.
    rbind (vitem metadata ''asr'') (\<lambda>asr. rbind (vitem metadata ''align'') (\<lambda>align.
    Inr (write_piece_spans pieces, JObj
      [(''schema_version'', JInt 1), (''kind'', JStr ''orator_posterior_bounded_phrase_spans''),
       (''frame_period_sec'', JFlt period), (''policy'', posterior_policy_doc p), (''asr'', asr), (''align'', align),
       (''pieces'', JArr (map piece_doc pieces)), (''piece_count'', JInt (int (length pieces))),
       (''sources'', sources_doc files)]))))))"

end
