(* ===== verification/Posterior_Overlay.thy ===== *)
theory Posterior_Overlay
  imports Posterior_Pieces
begin

text \<open>
  \<^verbatim>\<open>tools/archive/spec013-speaker-candidates/speaker_posterior_bounded_phrase_candidate.py\<close>,
  second half: acceptance of a piece, the positions it may relabel, the evaluation of all pieces,
  the projected track and the candidate document.
\<close>

section \<open>Acceptance\<close>

definition is_regular_anchor :: "fragment \<Rightarrow> bool res" where
  "is_regular_anchor fr = (if \<not> fr_anchor fr then Inr False
     else rbind (vget (fr_decision fr) ''reason'' (JStr [])) (\<lambda>r.
       Inr (sublist ''regular_direct_voiceprint'' (py_str r))))"

definition overlapping_fragments :: "json \<Rightarrow> fragment list \<Rightarrow> fragment list res" where
  "overlapping_fragments piece = rfilter (\<lambda>fr.
     rbind (rbind (vitem piece ''source_end'') (int_less (fr_start fr))) (\<lambda>before.
     if \<not> before then Inr False else rbind (vitem piece ''source_start'') (int_greater (fr_end fr))))"

text \<open>\<^verbatim>\<open>item["decision"].get("speaker_id") != selected\<close>.\<close>

definition other_identity :: "string \<Rightarrow> fragment \<Rightarrow> bool res" where
  "other_identity selected fr = rbind (vget (fr_decision fr) ''speaker_id'' JNull) (\<lambda>v. Inr (v \<noteq> JStr selected))"

definition is_short_anchor :: "fragment \<Rightarrow> bool res" where
  "is_short_anchor fr = rbind (is_regular_anchor fr) (\<lambda>regular. Inr (fr_anchor fr \<and> \<not> regular))"

definition regular_piece :: "posterior_policy \<Rightarrow> json \<Rightarrow> bool res" where
  "regular_piece p piece = rbind (float_item piece ''end'') (\<lambda>e. rbind (float_item piece ''start'') (\<lambda>s.
     Inr (bp_regular_piece p \<le> e - s + EPSILON)))"

definition accept_piece ::
  "json \<Rightarrow> string option \<Rightarrow> string \<Rightarrow> fragment list \<Rightarrow> posterior_policy \<Rightarrow> (bool \<times> string) res" where
  "accept_piece piece selected mapped_id fragments p = (case selected of
     None \<Rightarrow> Inr (False, ''piece_voiceprint_ineligible'')
   | Some s \<Rightarrow> if s \<noteq> mapped_id then Inr (False, ''piece_posterior_voiceprint_conflict'')
     else rbind (rfilter is_regular_anchor fragments) (\<lambda>regular.
       rbind (rany (other_identity s) regular) (\<lambda>conflict.
       if conflict then Inr (False, ''piece_regular_direct_anchor_conflict'')
       else rbind (rfilter is_short_anchor fragments) (\<lambda>short.
         rbind (rany (other_identity s) short) (\<lambda>short_conflict.
         rbind (regular_piece p piece) (\<lambda>long.
         if short_conflict \<and> \<not> (long \<and> bp_allow_regular p)
         then Inr (False, ''piece_short_direct_anchor_conflict'')
         else Inr (True, ''piece_posterior_voiceprint_consensus'')))))))"

section \<open>Relabelled positions\<close>

definition owner_of :: "fragment list \<Rightarrow> int \<Rightarrow> fragment option" where
  "owner_of fragments i = List.find (\<lambda>fr. int (fr_start fr) \<le> i \<and> i < int (fr_end fr)) fragments"

text \<open>Whether a position may be relabelled: not in a regular anchor nor in one that agrees already.\<close>

definition free_position :: "string option \<Rightarrow> fragment list \<Rightarrow> int \<Rightarrow> bool res" where
  "free_position selected fragments i = (case owner_of fragments i of
     None \<Rightarrow> Inr True
   | Some fr \<Rightarrow> rbind (is_regular_anchor fr) (\<lambda>regular.
       if regular then Inr False
       else if fr_anchor fr
       then rbind (vget (fr_decision fr) ''speaker_id'' JNull) (\<lambda>v. Inr (v \<noteq> opt_json selected))
       else Inr True))"

definition position_ranges :: "int list \<Rightarrow> (int \<times> int) list" where
  "position_ranges = merge_runs (\<lambda>i. (i, i + 1)) (\<lambda>r i. snd r = i) (\<lambda>r i. (fst r, i + 1))"

definition overlay_ranges :: "json \<Rightarrow> string option \<Rightarrow> fragment list \<Rightarrow> (int \<times> int) list res" where
  "overlay_ranges piece selected fragments =
    rbind (vitem piece ''source_start'') (\<lambda>sa. rbind (vitem piece ''source_end'') (\<lambda>sb.
    rbind (range_bound sa) (\<lambda>a. rbind (range_bound sb) (\<lambda>b.
    rbind (rfilter (free_position selected fragments) [a..b - 1]) (\<lambda>positions.
    Inr (position_ranges positions))))))"

section \<open>Evaluation\<close>

definition add_slot_name :: "(int, string) pydict \<Rightarrow> string \<times> json \<Rightarrow> (int, string) pydict res" where
  "add_slot_name m = (\<lambda>(k, v). rbind (int_str k) (\<lambda>i. Inr (dset i (py_str v) m)))"

definition slot_names :: "json \<Rightarrow> (int, string) pydict res" where
  "slot_names manifest = rbind (rbind (vitem manifest ''mapping'') vdict) (rfold add_slot_name [])"

record piece_context =
  pe_policy :: posterior_policy
  pe_evidence :: voice_table
  pe_active :: "string list"
  pe_local_to_id :: "(int, string) pydict"
  pe_fragments :: fragments_by_text

definition range_overlay :: "string option \<Rightarrow> string \<Rightarrow> int \<times> int \<Rightarrow> obj" where
  "range_overlay selected reason = (\<lambda>(a, b). [(''source_start'', JInt a), (''source_end'', JInt b),
     (''speaker_id'', opt_json selected), (''reason'', JStr reason)])"

definition add_ranges ::
  "overlays_by_text \<Rightarrow> int \<Rightarrow> string option \<Rightarrow> string \<Rightarrow> (int \<times> int) list \<Rightarrow> overlays_by_text" where
  "add_ranges overlays text_id selected reason ranges = (if ranges = [] then overlays
     else dset text_id (overlays_of overlays text_id @ map (range_overlay selected reason) ranges) overlays)"

definition piece_decision ::
  "obj \<Rightarrow> string \<Rightarrow> string option \<Rightarrow> bool \<Rightarrow> string \<Rightarrow> (int \<times> int) list \<Rightarrow> (string \<times> dbl) list \<Rightarrow> obj" where
  "piece_decision d mapped selected accepted reason ranges ranked = foldl (\<lambda>d (k, v). dset k v d) d
     [(''mapped_speaker_id'', JStr mapped), (''speaker_id'', opt_json selected), (''accepted'', JBool accepted),
      (''reason'', JStr reason), (''overlay_ranges'', JArr (map (\<lambda>(a, b). JArr [JInt a, JInt b]) ranges)),
      (''ranked'', ranked_doc ranked)]"

definition evaluate_piece ::
  "piece_context \<Rightarrow> overlays_by_text \<times> obj list \<Rightarrow> json \<Rightarrow> (overlays_by_text \<times> obj list) res" where
  "evaluate_piece x = (\<lambda>(overlays, decisions) piece.
    rbind (rbind (vitem piece ''text_id'') py_int) (\<lambda>text_id.
    rbind (rbind (vitem piece ''local_speaker'') py_int) (\<lambda>local.
    case map_of (pe_local_to_id x) local of
      None \<Rightarrow> Inl (ValueError (''no identity mapping for local '' @ int_repr local))
    | Some mapped \<Rightarrow>
        rbind (rbind (vitem piece ''evidence_id'') (find_voice (pe_evidence x))) (\<lambda>voice.
        case select_identity voice (pe_active x) (bp_gates (pe_policy x)) of (selected, why, ranked) \<Rightarrow>
        rbind (ditem (pe_fragments x) text_id (KeyError (int_repr text_id))) (\<lambda>frs.
        rbind (overlapping_fragments piece frs) (\<lambda>overlaps.
        rbind (accept_piece piece selected mapped overlaps (pe_policy x)) (\<lambda>(accepted, reason).
        rbind (if accepted then overlay_ranges piece selected overlaps else Inr []) (\<lambda>ranges.
        rbind (vdict piece) (\<lambda>d.
        Inr (add_ranges overlays text_id selected reason ranges,
          decisions @ [piece_decision d mapped selected accepted
            (if accepted then reason else why @ '':'' @ reason) ranges ranked]))))))))))"

record piece_evaluation =
  el_active :: "string list"
  el_local_to_id :: "(int, string) pydict"
  el_id_to_local :: local_ids
  el_fragments :: fragments_by_text
  el_overlays :: overlays_by_text
  el_decisions :: "obj list"

definition evaluate_pieces ::
  "json \<Rightarrow> json \<Rightarrow> voice_table \<Rightarrow> json \<Rightarrow> posterior_policy \<Rightarrow> piece_evaluation res" where
  "evaluate_pieces direct metadata evidence manifest p =
    rbind (source_fragments direct) (\<lambda>fragments.
    rbind (rbind (vitem direct ''active_speaker_ids'') py_iter) (\<lambda>ids.
    rbind (slot_names manifest) (\<lambda>local_to_id.
    let active = map py_str ids;
        x = \<lparr>pe_policy = p, pe_evidence = evidence, pe_active = active, pe_local_to_id = local_to_id,
          pe_fragments = fragments\<rparr> in
    rbind (rbind (vitem metadata ''pieces'') py_iter) (\<lambda>pieces.
    rbind (rfold (evaluate_piece x) ([], []) pieces) (\<lambda>(overlays, decisions).
    Inr \<lparr>el_active = active, el_local_to_id = local_to_id, el_id_to_local = invert_mapping local_to_id,
         el_fragments = fragments, el_overlays = overlays, el_decisions = decisions\<rparr>)))))"

section \<open>Track and document\<close>

text \<open>The second loop of \<^verbatim>\<open>project_track\<close>.\<close>

definition check_projection :: "json \<Rightarrow> phrase_turn list \<Rightarrow> int \<Rightarrow> unit res" where
  "check_projection asr track text_id =
    rbind (rbind (vitem asr (int_repr text_id)) (\<lambda>a. vitem a ''text'')) (\<lambda>expected.
    raise_if (expected \<noteq> JStr (concat (map pt_text (filter (\<lambda>t. pt_text_id t = text_id) track))))
      (ValueError (''reprojected source text mismatch for '' @ int_repr text_id)) (Inr ()))"

definition text_turns_of :: "json \<Rightarrow> overlays_by_text \<Rightarrow> local_ids \<Rightarrow> int \<times> fragment list \<Rightarrow> phrase_turn list res" where
  "text_turns_of metadata overlays id_to_local = (\<lambda>(text_id, frs).
    rbind (vitem metadata ''asr'') (\<lambda>asr.
    rbind (rbind (vitem asr (int_repr text_id)) (\<lambda>a. vitem a ''text'')) (\<lambda>source.
    rbind (fragment_text frs) (\<lambda>actual.
    raise_if (source \<noteq> JStr actual) (ValueError (''direct source text mismatch for '' @ int_repr text_id))
    (rbind (vitem metadata ''align'') (\<lambda>align. rbind (vitem align (int_repr text_id)) (\<lambda>us.
     reproject_text text_id actual us frs (overlays_of overlays text_id) id_to_local)))))))"

definition project_track ::
  "json \<Rightarrow> fragments_by_text \<Rightarrow> overlays_by_text \<Rightarrow> local_ids \<Rightarrow> phrase_turn list res" where
  "project_track metadata fragments overlays id_to_local =
    rbind (rmap (text_turns_of metadata overlays id_to_local) (sort_key fst fragments)) (\<lambda>xs.
    let track = concat xs in
    rbind (rmap (\<lambda>i. rbind (vitem metadata ''asr'') (\<lambda>asr. check_projection asr track i)) (sort (map fst fragments)))
      (\<lambda>_. Inr track))"

record posterior_result =
  po_active :: "string list"
  po_source_turns :: int
  po_pieces :: int
  po_audio_sec :: dbl
  po_sample_rate :: int
  po_decisions :: "obj list"
  po_track :: "phrase_turn list"

definition build_posterior_candidate ::
  "json \<Rightarrow> json \<Rightarrow> voice_table \<Rightarrow> json \<Rightarrow> posterior_policy \<Rightarrow> posterior_result res" where
  "build_posterior_candidate direct metadata evidence manifest p =
    rbind (evaluate_pieces direct metadata evidence manifest p) (\<lambda>ev.
    rbind (project_track metadata (el_fragments ev) (el_overlays ev) (el_id_to_local ev)) (\<lambda>track.
    rbind (float_item direct ''audio_sec'') (\<lambda>audio_sec.
    rbind (rbind (vitem direct ''sample_rate'') py_int) (\<lambda>sample_rate.
    rbind (rbind (vget direct ''track'' (JArr [])) py_len) (\<lambda>turns.
    rbind (rbind (vitem metadata ''pieces'') py_len) (\<lambda>n.
    Inr \<lparr>po_active = el_active ev, po_source_turns = turns, po_pieces = n, po_audio_sec = audio_sec,
         po_sample_rate = sample_rate, po_decisions = el_decisions ev, po_track = track\<rparr>))))))"

definition posterior_result_doc :: "posterior_policy \<Rightarrow> posterior_result \<Rightarrow> obj" where
  "posterior_result_doc p r =
     [(''schema_version'', JInt 1),
      (''kind'', JStr ''orator_frozen_speaker_candidate''),
      (''candidate_kind'', JStr ''v21_posterior_bounded_phrase_consensus''),
      (''audio_sec'', JFlt (po_audio_sec r)),
      (''sample_rate'', JInt (po_sample_rate r)),
      (''active_speaker_ids'', JArr (map JStr (po_active r))),
      (''source_turn_count'', JInt (po_source_turns r)),
      (''turn_count'', JInt (int (length (po_track r)))),
      (''piece_count'', JInt (po_pieces r)),
      (''accepted_piece_count'', JInt (int (length (filter (\<lambda>d. get d ''accepted'' = JBool True) (po_decisions r))))),
      (''policy'', posterior_policy_doc p),
      (''decisions'', JArr (map JObj (po_decisions r))),
      (''track'', JArr (map turn_doc (po_track r)))]"

definition command_posterior_build ::
  "json \<Rightarrow> json \<Rightarrow> csv_table \<Rightarrow> json \<Rightarrow> obj \<Rightarrow> (string \<times> file_identity) list \<Rightarrow> obj res" where
  "command_posterior_build direct metadata titanet manifest config files =
    rbind (load_posterior_policy config) (\<lambda>p.
    rbind (read_voice titanet) (\<lambda>evidence.
    rbind (build_posterior_candidate direct metadata evidence manifest p) (\<lambda>r.
    Inr (dset ''sources'' (sources_doc files) (posterior_result_doc p r)))))"

end
