(* ===== verification/Reviewed_Overlay.thy ===== *)
theory Reviewed_Overlay
  imports Phrase_Candidate
begin

text \<open>
  \<^verbatim>\<open>tools/archive/spec013-speaker-candidates/speaker_reviewed_overlay_candidate.py\<close>: the turns of a
  retained candidate whose decision reason is on a reviewed allowlist are laid over a base
  candidate; every other base turn is kept, times included.  Nine other candidates import this
  module.  Input documents are parsed JSON; digests and absolute paths are parameters.
\<close>

section \<open>Policy\<close>

definition overlay_fields :: "string list" where
  "overlay_fields = [''enabled'', ''allowed_reasons'']"

definition forbidden_tokens :: "string list" where
  "forbidden_tokens = [''baseline'', ''neighbour'', ''neighbor'', ''propagation'']"

text \<open>The allowlist is the whole policy: \<^verbatim>\<open>enabled\<close> is always true in it.\<close>

definition load_overlay_policy :: "obj \<Rightarrow> string list res" where
  "load_overlay_policy document =
    (let section = dget document ''reviewed_speaker_overlay'' (JObj []) in
     rbind (absent_fields overlay_fields section) (\<lambda>missing.
     raise_if (missing \<noteq> []) (ValueError (''reviewed overlay policy missing: '' @ join_with '','' (sort missing)))
     (rbind (vitem section ''enabled'') (\<lambda>enabled.
      raise_if (enabled \<noteq> JBool True) (ValueError ''reviewed speaker overlays must be enabled'')
      (rbind (vitem section ''allowed_reasons'') (\<lambda>reasons. case reasons of
        JArr (r # rs) \<Rightarrow>
          (let normalized = map py_str (r # rs) in
           raise_if ([] \<in> set normalized) (ValueError ''reviewed overlay reason must be non-empty'')
           (raise_if (\<not> distinct normalized) (ValueError ''reviewed overlay allowlist contains duplicates'')
           (raise_if (list_ex (\<lambda>reason. list_ex (\<lambda>t. sublist t (lower reason)) forbidden_tokens) normalized)
             (ValueError ''reviewed overlay allowlist contains generic reason'')
             (Inr normalized))))
      | _ \<Rightarrow> Inl (ValueError ''reviewed overlay allowlist must be non-empty'')))))))"

definition overlay_policy_doc :: "string list \<Rightarrow> json" where
  "overlay_policy_doc reasons = JObj [(''enabled'', JBool True), (''allowed_reasons'', JArr (map JStr reasons))]"

section \<open>Mapping\<close>

definition add_mapping_slot :: "(int, string) pydict \<Rightarrow> string \<times> json \<Rightarrow> (int, string) pydict res" where
  "add_mapping_slot m = (\<lambda>(k, v). rbind (int_str k) (\<lambda>i. Inr (dset i (py_str v) m)))"

definition read_slots :: "json \<Rightarrow> (int, string) pydict res" where
  "read_slots document = rbind (vget document ''mapping'' JNull) (\<lambda>raw. case raw of
     JObj (x # xs) \<Rightarrow> rbind (rfold add_mapping_slot [] (x # xs)) (\<lambda>m.
       raise_if (\<not> distinct (map snd m)) (ValueError ''mapping identities are not one-to-one'') (Inr m))
   | _ \<Rightarrow> Inl (ValueError ''mapping document has no local-slot mapping''))"

section \<open>Fragments of a candidate\<close>

record base_fragment =
  bf_index :: nat
  bf_start :: nat
  bf_end :: nat
  bf_entry :: json

type_synonym track_by_text = "(int, (nat \<times> json) list) pydict"

definition add_ordered ::
  "track_by_text \<times> int option \<Rightarrow> nat \<times> json \<Rightarrow> (track_by_text \<times> int option) res" where
  "add_ordered = (\<lambda>(grouped, previous) (i, x). rbind (rbind (vitem x ''text_id'') py_int) (\<lambda>text_id.
     raise_if (case previous of None \<Rightarrow> False | Some q \<Rightarrow> text_id < q)
       (ValueError ''candidate track is not ordered by text_id'')
       (Inr (dset text_id ((case map_of grouped text_id of None \<Rightarrow> [] | Some xs \<Rightarrow> xs) @ [(i, x)]) grouped,
             Some text_id))))"

definition add_base_fragment :: "nat \<times> base_fragment list \<Rightarrow> nat \<times> json \<Rightarrow> (nat \<times> base_fragment list) res" where
  "add_base_fragment = (\<lambda>(cursor, fragments) (i, x). rbind (entry_text x) (\<lambda>t.
     raise_if (t = []) (ValueError ''candidate contains an empty source fragment'')
       (Inr (cursor + length t, fragments @
         [\<lparr>bf_index = i, bf_start = cursor, bf_end = cursor + length t, bf_entry = x\<rparr>]))))"

definition text_fragments :: "int \<times> (nat \<times> json) list \<Rightarrow> (int \<times> base_fragment list) res" where
  "text_fragments = (\<lambda>(text_id, xs). rbind (rfold add_base_fragment (0, []) xs) (\<lambda>(_, fragments).
     Inr (text_id, fragments)))"

type_synonym base_fragments = "(int, base_fragment list) pydict"

definition candidate_fragments :: "json \<Rightarrow> base_fragments res" where
  "candidate_fragments candidate =
    rbind (vget candidate ''kind'' JNull) (\<lambda>kind.
    raise_if (kind \<noteq> JStr ''orator_frozen_speaker_candidate'')
      (ValueError ''input is not a frozen speaker candidate'')
    (rbind (rbind (vget candidate ''track'' (JArr [])) py_iter) (\<lambda>items.
     rbind (rfold add_ordered ([], None) (enumerate 0 items)) (\<lambda>(grouped, _).
     raise_if (grouped = []) (ValueError ''candidate track is empty'')
       (rmap text_fragments grouped)))))"

text \<open>\<^verbatim>\<open>source_text\<close> of the fragments of one text.\<close>

definition fragments_source :: "base_fragment list \<Rightarrow> string res" where
  "fragments_source fragments =
    rbind (rmap (\<lambda>f. rbind (vitem (bf_entry f) ''text'') (\<lambda>t. Inr (py_str t))) fragments) (\<lambda>ts. Inr (concat ts))"

text \<open>\<^verbatim>\<open>str(asr[str(text_id)]["text"])\<close>.\<close>

definition asr_source :: "json \<Rightarrow> int \<Rightarrow> string res" where
  "asr_source asr text_id = rbind (vitem asr (int_repr text_id)) (\<lambda>x. rbind (vitem x ''text'') (\<lambda>t. Inr (py_str t)))"

definition check_source :: "json \<Rightarrow> int \<times> base_fragment list \<Rightarrow> unit res" where
  "check_source asr = (\<lambda>(text_id, fragments).
     rbind (fragments_source fragments) (\<lambda>actual. rbind (asr_source asr text_id) (\<lambda>expected.
     raise_if (actual \<noteq> expected) (ValueError (''candidate source differs for text_id '' @ int_repr text_id))
       (Inr ()))))"

definition validate_candidate_sources :: "base_fragments \<Rightarrow> json \<Rightarrow> unit res" where
  "validate_candidate_sources fragments metadata =
    rbind (vget metadata ''asr'' JNull) (\<lambda>asr. rbind (vget metadata ''align'' JNull) (\<lambda>align.
    case (asr, align) of
      (JObj a, JObj b) \<Rightarrow>
        rbind (rmap int_str (map fst a)) (\<lambda>expected.
        raise_if (set (map fst fragments) \<noteq> set expected)
          (ValueError ''candidate and metadata text_id sets differ'')
        (raise_if (set (map fst b) \<noteq> set (map fst a))
          (ValueError ''metadata ASR/alignment text_id sets differ'')
        (rbind (rmap (check_source asr) fragments) (\<lambda>_. Inr ()))))
    | _ \<Rightarrow> Inl (ValueError ''metadata has no ASR/alignment source'')))"

section \<open>Reviewed overlays\<close>

text \<open>What every overlay has: a range of positions, an identity and a reason.\<close>

record source_overlay =
  so_start :: int
  so_end :: int
  so_speaker :: string
  so_reason :: string

record reviewed_overlay = source_overlay +
  ro_text_id :: int
  ro_index :: nat

definition span_order :: "'a source_overlay_scheme \<Rightarrow> int \<times> int" where
  "span_order ov = (so_start ov, so_end ov)"

definition check_range :: "int \<Rightarrow> int \<Rightarrow> 'a source_overlay_scheme \<Rightarrow> int res" where
  "check_range text_id previous ov =
    raise_if (so_start ov < 0 \<or> so_end ov \<le> so_start ov)
      (ValueError (''overlay has invalid range for text_id '' @ int_repr text_id))
    (raise_if (so_start ov < previous) (ValueError (''reviewed overlays conflict for text_id '' @ int_repr text_id))
      (Inr (so_end ov)))"

definition validate_overlays :: "(int, 'a source_overlay_scheme list) pydict \<Rightarrow> unit res" where
  "validate_overlays overlays =
    rbind (rmap (\<lambda>(text_id, ovs). rfold (check_range text_id) (- 1) (sort_key span_order ovs)) overlays)
      (\<lambda>_. Inr ())"

definition active_identity :: "string list \<Rightarrow> json \<Rightarrow> string res" where
  "active_identity active v = (case v of
     JStr s \<Rightarrow> raise_if (s \<notin> set active) (ValueError ''allowlisted overlay has no active identity'') (Inr s)
   | JArr _ \<Rightarrow> Inl TypeError | JObj _ \<Rightarrow> Inl TypeError
   | _ \<Rightarrow> Inl (ValueError ''allowlisted overlay has no active identity''))"

definition reviewed_of :: "string list \<Rightarrow> string list \<Rightarrow> int \<Rightarrow> base_fragment \<Rightarrow> reviewed_overlay option res" where
  "reviewed_of allowed active text_id f =
    rbind (vget (bf_entry f) ''decision_reason'' (JStr [])) (\<lambda>r.
    if py_str r \<notin> set allowed then Inr None
    else rbind (rbind (vget (bf_entry f) ''speaker_id'' JNull) (active_identity active)) (\<lambda>s.
      Inr (Some \<lparr>so_start = int (bf_start f), so_end = int (bf_end f), so_speaker = s, so_reason = py_str r,
        ro_text_id = text_id, ro_index = bf_index f\<rparr>)))"

type_synonym reviewed_by_text = "(int, reviewed_overlay list) pydict"

text \<open>A text without reviewed fragments gets no key.\<close>

definition collect_overlays ::
  "base_fragments \<Rightarrow> string list \<Rightarrow> string list \<Rightarrow> (reviewed_by_text \<times> reviewed_overlay list) res" where
  "collect_overlays retained allowed active =
    rbind (rmap (\<lambda>(text_id, fragments). rbind (rcollect (reviewed_of allowed active text_id) fragments) (\<lambda>ovs.
        Inr (text_id, ovs))) (sort_key fst retained)) (\<lambda>collected.
    let overlays = filter (\<lambda>(_, ovs). ovs \<noteq> []) collected in
    rbind (validate_overlays overlays) (\<lambda>_. Inr (overlays, concat (map snd overlays))))"

definition reviewed_doc :: "reviewed_overlay \<Rightarrow> json" where
  "reviewed_doc ov = JObj [(''text_id'', JInt (ro_text_id ov)), (''source_start'', JInt (so_start ov)),
     (''source_end'', JInt (so_end ov)), (''speaker_id'', JStr (so_speaker ov)), (''reason'', JStr (so_reason ov)),
     (''retained_track_index'', JInt (int (ro_index ov)))]"

section \<open>Times of a part of a base turn\<close>

text \<open>Aligned characters clipped to the owner, or the share of the owner's characters.\<close>

definition share_time :: "nat \<Rightarrow> nat \<Rightarrow> base_fragment \<Rightarrow> (dbl \<times> dbl) res" where
  "share_time a b f =
    raise_if (bf_end f \<le> bf_start f) (ValueError ''base fragment has no source width'')
    (rbind (float_item (bf_entry f) ''end'') (\<lambda>hi. rbind (float_item (bf_entry f) ''start'') (\<lambda>lo.
     let width = of_nat (bf_end f - bf_start f);
         start_ratio = D (of_int (int a - int (bf_start f)) / width);
         end_ratio = D (of_int (int b - int (bf_start f)) / width) in
     Inr (lo + (hi - lo) * start_ratio, lo + (hi - lo) * end_ratio))))"

definition partial_span_time :: "nat \<Rightarrow> nat \<Rightarrow> char_times \<Rightarrow> base_fragment \<Rightarrow> (dbl \<times> dbl) res" where
  "partial_span_time a b ts f = (let timed = timed_in ts a b in
     if timed = [] then share_time a b f
     else rbind (float_item (bf_entry f) ''start'') (\<lambda>lo. rbind (float_item (bf_entry f) ''end'') (\<lambda>hi.
       let (first, final) = time_hull timed; s = max lo first; e = min hi final in
       if s + EPSILON < e then Inr (s, e) else share_time a b f)))"

section \<open>Reprojection\<close>

definition base_chars :: "nat \<times> base_fragment \<Rightarrow> (nat \<times> char_label) list res" where
  "base_chars = (\<lambda>(owner, f). rbind (entry_label (bf_entry f)) (\<lambda>l. rbind (entry_text (bf_entry f)) (\<lambda>t.
     Inr (replicate (length t) (owner, l)))))"

definition base_labels :: "base_fragment list \<Rightarrow> (nat \<times> char_label) list res" where
  "base_labels fragments = rbind (rmap base_chars (enumerate 0 fragments)) (\<lambda>xs. Inr (concat xs))"

definition lay_over :: "local_ids \<Rightarrow> char_label list \<Rightarrow> 'a source_overlay_scheme \<Rightarrow> char_label list res" where
  "lay_over id_to_local labels ov =
    rbind (ditem id_to_local (so_speaker ov) (KeyError (so_speaker ov))) (\<lambda>n.
    rfold (set_label \<lparr>cl_speaker_id = JStr (so_speaker ov), cl_speaker = n, cl_uncertain = False,
      cl_reason = so_reason ov\<rparr>) labels [so_start ov..so_end ov - 1])"

text \<open>A new turn starts where the owner or the label changes.\<close>

definition owned_bounds :: "nat list \<Rightarrow> char_label list \<Rightarrow> nat list" where
  "owned_bounds owners labels = 0 # filter (\<lambda>i. owners ! (i - 1) \<noteq> owners ! i
      \<or> \<not> same_label (labels ! (i - 1)) (labels ! i)) [1..<length labels] @ [length labels]"

definition piece_time :: "nat \<Rightarrow> nat \<Rightarrow> char_times \<Rightarrow> base_fragment \<Rightarrow> (dbl \<times> dbl) res" where
  "piece_time a b ts f = (if a = bf_start f \<and> b = bf_end f
     then rbind (float_item (bf_entry f) ''start'') (\<lambda>s. rbind (float_item (bf_entry f) ''end'') (\<lambda>e. Inr (s, e)))
     else partial_span_time a b ts f)"

definition composed_piece ::
  "int \<Rightarrow> string \<Rightarrow> char_times \<Rightarrow> nat list \<Rightarrow> char_label list \<Rightarrow> base_fragment list \<Rightarrow> nat \<times> nat \<times> nat
     \<Rightarrow> phrase_turn option res" where
  "composed_piece text_id source ts owners labels fragments = (\<lambda>(piece, a, b).
     if b \<le> a then Inr None
     else raise_if (list_ex (\<lambda>x. x \<noteq> owners ! a) (slice a b owners))
       (ValueError ''composed fragment crosses a base owner'')
     (rbind (piece_time a b ts (fragments ! (owners ! a))) (\<lambda>(s, e).
       raise_if (e \<le> s + EPSILON) (ValueError ''composed fragment has non-positive duration'')
       (Inr (Some \<lparr>pt_turn_id = ''reviewed_overlay:'' @ int_repr text_id @ '':'' @ int_repr (int piece),
         pt_start = s, pt_end = e, pt_text_id = text_id, pt_text = slice a b source, pt_label = labels ! a\<rparr>)))))"

definition reproject_preserving_base ::
  "int \<Rightarrow> string \<Rightarrow> json \<Rightarrow> base_fragment list \<Rightarrow> 'a source_overlay_scheme list \<Rightarrow> local_ids
     \<Rightarrow> phrase_turn list res" where
  "reproject_preserving_base text_id source us fragments overlays id_to_local =
    rbind (base_labels fragments) (\<lambda>owned.
    raise_if (length owned \<noteq> length source) (ValueError (''base source differs for text_id '' @ int_repr text_id))
    (rbind (rfold (lay_over id_to_local) (map snd owned) overlays) (\<lambda>labels.
     rbind (rbind (py_iter us) (aligned_character_times source)) (\<lambda>ts.
     rbind (rcollect (composed_piece text_id source ts (map fst owned) labels fragments)
       (enumerate 0 (adjacent (owned_bounds (map fst owned) labels)))) (\<lambda>output.
     raise_if (concat (map pt_text output) \<noteq> source)
       (ValueError ''composed candidate changed immutable source text'') (Inr output))))))"

section \<open>Build\<close>

definition check_base_identity :: "local_ids \<Rightarrow> base_fragment \<Rightarrow> unit res" where
  "check_base_identity id_to_local f = rbind (vget (bf_entry f) ''speaker_id'' JNull) (\<lambda>v. case v of
     JNull \<Rightarrow> Inr ()
   | JArr _ \<Rightarrow> Inl TypeError | JObj _ \<Rightarrow> Inl TypeError
   | JStr s \<Rightarrow> (case map_of id_to_local s of
       None \<Rightarrow> Inl (ValueError ''base candidate has an unmapped identity'')
     | Some n \<Rightarrow> rbind (rbind (vget (bf_entry f) ''speaker'' (JInt (- 1))) py_int) (\<lambda>local.
         raise_if (local \<noteq> n) (ValueError ''base candidate local/global identity mismatch'') (Inr ())))
   | _ \<Rightarrow> Inl (ValueError ''base candidate has an unmapped identity''))"

definition composed_text ::
  "json \<Rightarrow> (int, 'a source_overlay_scheme list) pydict \<Rightarrow> local_ids \<Rightarrow> int \<times> base_fragment list
     \<Rightarrow> phrase_turn list res" where
  "composed_text metadata overlays id_to_local = (\<lambda>(text_id, fragments).
     rbind (rbind (vitem metadata ''asr'') (\<lambda>asr. asr_source asr text_id)) (\<lambda>source.
     rbind (rbind (vitem metadata ''align'') (\<lambda>align. vitem align (int_repr text_id))) (\<lambda>us.
     reproject_preserving_base text_id source us fragments
       (case map_of overlays text_id of None \<Rightarrow> [] | Some ovs \<Rightarrow> ovs) id_to_local)))"

text \<open>The texts of the finished track, which the code compares once more with their sources.\<close>

definition texts_of_track :: "phrase_turn list \<Rightarrow> (int, string) pydict" where
  "texts_of_track track = foldl (\<lambda>d t. dset (pt_text_id t)
     ((case map_of d (pt_text_id t) of None \<Rightarrow> [] | Some s \<Rightarrow> s) @ pt_text t) d) [] track"

definition check_track_text :: "json \<Rightarrow> int \<times> string \<Rightarrow> unit res" where
  "check_track_text metadata = (\<lambda>(text_id, actual).
     rbind (rbind (vitem metadata ''asr'') (\<lambda>asr. asr_source asr text_id)) (\<lambda>source.
     raise_if (actual \<noteq> source) (ValueError ''composed candidate changed immutable source text'') (Inr ())))"

record reviewed_result =
  rr_active :: "string list"
  rr_source_turns :: int
  rr_audio_sec :: dbl
  rr_sample_rate :: int
  rr_overlays :: "reviewed_overlay list"
  rr_track :: "phrase_turn list"

definition build_reviewed_candidate ::
  "json \<Rightarrow> json \<Rightarrow> json \<Rightarrow> json \<Rightarrow> string list \<Rightarrow> reviewed_result res" where
  "build_reviewed_candidate base retained metadata mapping_document allowed =
    rbind (read_slots mapping_document) (\<lambda>mapping.
    let id_to_local = invert_mapping mapping; active = sort (map fst id_to_local) in
    rbind (rbind (vget retained ''active_speaker_ids'' (JArr [])) identity_list) (\<lambda>listed.
    raise_if (sort listed \<noteq> active) (ValueError ''retained candidate identities differ from mapping'')
    (rbind (candidate_fragments base) (\<lambda>base_frs.
     rbind (candidate_fragments retained) (\<lambda>retained_frs.
     rbind (validate_candidate_sources base_frs metadata) (\<lambda>_.
     rbind (validate_candidate_sources retained_frs metadata) (\<lambda>_.
     rbind (collect_overlays retained_frs allowed active) (\<lambda>(overlays, decisions).
     rbind (rmap (check_base_identity id_to_local) (concat (map snd base_frs))) (\<lambda>_.
     rbind (rmap (composed_text metadata overlays id_to_local) (sort_key fst base_frs)) (\<lambda>pieces.
     rbind (rmap (check_track_text metadata) (texts_of_track (concat pieces))) (\<lambda>_.
     rbind (float_item base ''audio_sec'') (\<lambda>audio_sec.
     rbind (rbind (vitem base ''sample_rate'') py_int) (\<lambda>sample_rate.
     rbind (rbind (vitem base ''track'') py_len) (\<lambda>turns.
     Inr \<lparr>rr_active = active, rr_source_turns = turns, rr_audio_sec = audio_sec, rr_sample_rate = sample_rate,
          rr_overlays = decisions, rr_track = concat pieces\<rparr>))))))))))))))"

definition reviewed_result_doc :: "string list \<Rightarrow> reviewed_result \<Rightarrow> obj" where
  "reviewed_result_doc allowed r =
     [(''schema_version'', JInt 1),
      (''kind'', JStr ''orator_frozen_speaker_candidate''),
      (''candidate_kind'', JStr ''v21_primary_top1_reviewed_overlay''),
      (''audio_sec'', JFlt (rr_audio_sec r)),
      (''sample_rate'', JInt (rr_sample_rate r)),
      (''active_speaker_ids'', JArr (map JStr (rr_active r))),
      (''source_turn_count'', JInt (rr_source_turns r)),
      (''turn_count'', JInt (int (length (rr_track r)))),
      (''overlay_count'', JInt (int (length (rr_overlays r)))),
      (''policy'', overlay_policy_doc allowed),
      (''overlay_decisions'', JArr (map reviewed_doc (rr_overlays r))),
      (''track'', JArr (map turn_doc (rr_track r)))]"

definition command_reviewed_build ::
  "json \<Rightarrow> json \<Rightarrow> json \<Rightarrow> json \<Rightarrow> obj \<Rightarrow> (string \<times> file_identity) list \<Rightarrow> obj res" where
  "command_reviewed_build base retained metadata mapping_document config files =
    rbind (load_overlay_policy config) (\<lambda>allowed.
    rbind (build_reviewed_candidate base retained metadata mapping_document allowed) (\<lambda>r.
    Inr (dset ''sources'' (sources_doc files) (reviewed_result_doc allowed r))))"

end
