(* ===== verification/Relative_Top1.thy ===== *)
theory Relative_Top1
  imports Posterior_Overlay Reviewed_Overlay
begin

text \<open>
  \<^verbatim>\<open>tools/archive/spec013-speaker-candidates/speaker_relative_top1_phrase_candidate.py\<close>: phrases are
  cut at runs of one top-1 local speaker inside voice activity, whatever its probability, and a
  piece relabels the baseline where two voiceprint tables and the slot mapping agree against it.
  The module uses the phrase and posterior candidates through their functions, as the model does.
  Parsed files, digests and absolute paths are parameters.
\<close>

section \<open>Policy\<close>

definition relative_flags :: "string list" where
  "relative_flags = [''enabled'', ''require_vad_support'', ''require_session_registry_agreement'',
     ''require_robust_gallery_agreement'', ''require_raw_local_identity_agreement'',
     ''require_known_baseline_conflict'', ''allow_exact_regular_anchor_challenge'']"

text \<open>The flags are all true in a policy that loads.\<close>

record relative_policy =
  rp_minimum_run :: dbl
  rp_minimum_piece :: dbl
  rp_voiceprint :: posterior_policy

definition relative_number :: "json \<Rightarrow> string \<Rightarrow> dbl \<Rightarrow> dbl res" where
  "relative_number section name reference = rbind (name_set section) (\<lambda>names.
     raise_if (name \<notin> set names) (ValueError (''relative-top1 policy missing: '' @ name))
     (rbind (float_item section name) (\<lambda>value.
      raise_if (EPSILON < \<bar>value - reference\<bar>) (ValueError (''relative-top1 '' @ name @ '' differs from FR16J''))
        (Inr value))))"

definition load_relative_policy :: "obj \<Rightarrow> relative_policy res" where
  "load_relative_policy document =
    rbind (load_posterior_policy document) (\<lambda>voiceprint.
    let section = dget document ''relative_top1_phrase'' (JObj []) in
    rbind (absent_fields relative_flags section) (\<lambda>missing.
    raise_if (missing \<noteq> []) (ValueError (''relative-top1 policy missing: '' @ join_with '','' (sort missing)))
    (rbind (rmap (flag_item section) relative_flags) (\<lambda>flags.
     raise_if (False \<in> set flags) (ValueError ''all relative-top1 safety contracts are mandatory'')
     (rbind (relative_number section ''minimum_sustained_run_sec'' (bp_minimum_run voiceprint)) (\<lambda>run.
      rbind (relative_number section ''minimum_piece_duration_sec'' (bp_minimum_piece voiceprint)) (\<lambda>piece.
      Inr \<lparr>rp_minimum_run = run, rp_minimum_piece = piece, rp_voiceprint = voiceprint\<rparr>)))))))"

text \<open>The policy dict without the voiceprint policy; the code takes the flags from a set.\<close>

definition relative_policy_doc :: "relative_policy \<Rightarrow> json" where
  "relative_policy_doc p = JObj (map (\<lambda>k. (k, JBool True)) relative_flags @
     [(''minimum_sustained_run_sec'', JFlt (rp_minimum_run p)), (''minimum_piece_duration_sec'', JFlt (rp_minimum_piece p))])"

section \<open>Voice activity\<close>

definition add_activity :: "span list \<Rightarrow> dbl \<times> dbl \<Rightarrow> span list res" where
  "add_activity intervals = (\<lambda>(s, e).
     raise_if (s < 0 \<or> e \<le> s) (ValueError ''invalid VAD interval'')
     (raise_if (intervals \<noteq> [] \<and> s < snd (last intervals) - EPSILON)
       (ValueError ''VAD intervals overlap or are not monotonic'')
       (Inr (intervals @ [(s, e)]))))"

definition add_activity_row :: "span list \<Rightarrow> csv_row \<Rightarrow> span list res" where
  "add_activity_row intervals row =
    rbind (csv_float row ''start_sec'') (\<lambda>s. rbind (csv_float row ''end_sec'') (\<lambda>e. add_activity intervals (s, e)))"

definition activity_table :: "csv_table \<Rightarrow> span list res" where
  "activity_table t =
    raise_if (\<not> set [''start_sec'', ''end_sec''] \<subseteq> set (csv_fields t))
      (ValueError ''VAD span TSV is missing required columns'')
    (rbind (rfold add_activity_row [] (csv_rows t)) (\<lambda>intervals.
     raise_if (intervals = []) (ValueError ''VAD span TSV is empty'') (Inr intervals)))"

definition add_activity_entry :: "span list \<Rightarrow> json \<Rightarrow> span list res" where
  "add_activity_entry intervals x =
    rbind (float_item x ''start'') (\<lambda>s. rbind (float_item x ''end'') (\<lambda>e. add_activity intervals (s, e)))"

definition activity_track :: "json \<Rightarrow> span list res" where
  "activity_track document =
    rbind (vget document ''timeline'' document) (\<lambda>timeline.
    rbind (rbind (vget timeline ''tracks'' (JArr [])) py_iter) (\<lambda>tracks.
    rbind (rfilter (\<lambda>x. rbind (vget x ''kind'' JNull) (\<lambda>k. Inr (k = JStr ''vad''))) tracks) (\<lambda>vad_tracks.
    raise_if (length vad_tracks \<noteq> 1) (ValueError ''timeline must contain exactly one VAD track'')
    (rbind (rbind (vget (hd vad_tracks) ''entries'' (JArr [])) py_iter) (\<lambda>entries.
     rbind (rfold add_activity_entry [] entries) (\<lambda>intervals.
     raise_if (intervals = []) (ValueError ''VAD track is empty'') (Inr intervals)))))))"

text \<open>The file by its suffix: a table, or a JSON document.\<close>

datatype activity_source = ActivityTable csv_table | ActivityDocument json

fun read_activity :: "activity_source \<Rightarrow> span list res" where
  "read_activity (ActivityTable t) = activity_table t"
| "read_activity (ActivityDocument v) = activity_track v"

text \<open>\<^verbatim>\<open>bisect.bisect_right(xs, x)\<close>, the binary search itself: the starts need not be sorted to the bit.\<close>

function bisect_search :: "dbl list \<Rightarrow> dbl \<Rightarrow> nat \<Rightarrow> nat \<Rightarrow> nat" where
  "bisect_search xs x lo hi = (if lo < hi
     then let mid = (lo + hi) div 2 in
       if x < xs ! mid then bisect_search xs x lo mid else bisect_search xs x (mid + 1) hi
     else lo)"
  by pat_completeness auto
termination by (relation "measure (\<lambda>(xs, x, lo, hi). hi - lo)") auto

declare bisect_search.simps [simp del]

definition vad_contains :: "span list \<Rightarrow> dbl \<Rightarrow> bool" where
  "vad_contains vad t = (let i = bisect_search (map fst vad) (t + EPSILON) 0 (length vad) in
     0 < i \<and> t < snd (vad ! (i - 1)) - EPSILON)"

definition voiced_frame :: "span list \<Rightarrow> top1_frame \<Rightarrow> bool" where
  "voiced_frame vad f \<longleftrightarrow> vad_contains vad (tf_time f)"

definition relative_top1_runs ::
  "top1_frame list \<Rightarrow> run_bounds \<Rightarrow> span list \<Rightarrow> relative_policy \<Rightarrow> sustained_run list" where
  "relative_top1_runs frames b vad p =
    gated_runs (voiced_frame vad) (finish_sustained (rp_minimum_run p) b) (phrase_frames frames b)"

definition relative_pieces ::
  "json \<Rightarrow> top1_frame list \<Rightarrow> dbl \<Rightarrow> span list \<Rightarrow> relative_policy \<Rightarrow> posterior_piece list res" where
  "relative_pieces metadata frames period vad p =
    rbind (rbind (vitem metadata ''phrases'') py_iter) (rfold (phrase_group_pieces ''relative_top1_phrase:''
      (\<lambda>s e. relative_top1_runs frames \<lparr>rb_first = s, rb_last = e, rb_period = period\<rparr> vad p)
      (rp_voiceprint p) metadata) [])"

section \<open>Fragments of the baseline\<close>

text \<open>
  Fragments by text and the cursor of each text.  The code's dicts have no track index, decision
  or anchor; nothing here reads those fields of the record, which are left empty.
\<close>

type_synonym fragment_state = "fragments_by_text \<times> (int, nat) pydict"

definition add_track_fragment :: "fragment_state \<Rightarrow> json \<Rightarrow> fragment_state res" where
  "add_track_fragment = (\<lambda>(grouped, cursors) x.
    rbind (rbind (vitem x ''text_id'') py_int) (\<lambda>text_id. rbind (entry_text x) (\<lambda>t.
    let start = (case map_of cursors text_id of None \<Rightarrow> 0 | Some c \<Rightarrow> c);
        values = (case map_of grouped text_id of None \<Rightarrow> [] | Some frs \<Rightarrow> frs) in
    Inr (dset text_id (values @ [\<lparr>fr_index = 0, fr_start = start, fr_end = start + length t, fr_entry = x,
           fr_decision = JNull, fr_anchor = False\<rparr>]) grouped,
         dset text_id (start + length t) cursors))))"

definition track_fragments :: "json \<Rightarrow> fragments_by_text res" where
  "track_fragments track = rbind (py_iter track) (\<lambda>items.
     rbind (rfold add_track_fragment ([], []) items) (\<lambda>(grouped, _). Inr grouped))"

definition check_text_source :: "json \<Rightarrow> string \<Rightarrow> int \<times> fragment list \<Rightarrow> unit res" where
  "check_text_source metadata label = (\<lambda>(text_id, frs). rbind (fragment_text frs) (\<lambda>actual.
     rbind (rbind (vitem metadata ''asr'') (\<lambda>asr. asr_source asr text_id)) (\<lambda>expected.
     raise_if (actual \<noteq> expected) (ValueError (label @ '' source text mismatch for '' @ int_repr text_id))
       (Inr ()))))"

definition validate_source_text :: "fragments_by_text \<Rightarrow> json \<Rightarrow> string \<Rightarrow> unit res" where
  "validate_source_text fragments metadata label =
    rbind (rbind (rbind (vitem metadata ''asr'') py_iter) (rmap py_int)) (\<lambda>expected.
    raise_if (set (map fst fragments) \<noteq> set expected) (ValueError (label @ '' text ID set differs from metadata''))
    (rbind (rmap (check_text_source metadata label) fragments) (\<lambda>_. Inr ())))"

section \<open>Decisions\<close>

definition conflict_of :: "string option \<Rightarrow> fragment \<Rightarrow> string option res" where
  "conflict_of selected fr = rbind (vget (fr_entry fr) ''speaker_id'' JNull) (\<lambda>v.
     Inr (if v = JNull \<or> v = opt_json selected then None else Some (py_str v)))"

definition known_conflicts :: "fragment list \<Rightarrow> string option \<Rightarrow> string list res" where
  "known_conflicts frs selected = rbind (rcollect (conflict_of selected) frs) (\<lambda>ids. Inr (sort (remdups ids)))"

text \<open>Whether a piece is accepted, and why.\<close>

definition relative_verdict ::
  "string option \<Rightarrow> string option \<Rightarrow> string option \<Rightarrow> string list \<Rightarrow> bool \<times> string" where
  "relative_verdict current robust mapped conflicts =
    (if current = None then (False, ''relative_top1_session_registry_abstention'')
     else if robust = None then (False, ''relative_top1_robust_gallery_abstention'')
     else if current \<noteq> robust then (False, ''relative_top1_registry_disagreement'')
     else if mapped \<noteq> current then (False, ''relative_top1_raw_local_identity_disagreement'')
     else if conflicts = [] then (False, ''relative_top1_known_baseline_conflict_missing'')
     else (True, ''relative_top1_dual_voiceprint_consensus''))"

record relative_context =
  rx_policy :: relative_policy
  rx_session :: voice_table
  rx_robust :: voice_table
  rx_active :: "string list"
  rx_local_to_id :: "(int, string) pydict"
  rx_fragments :: fragments_by_text

definition decided_by :: "relative_context \<Rightarrow> phrase_voice \<Rightarrow> selection" where
  "decided_by x voice = select_identity (Some voice) (rx_active x) (bp_gates (rp_voiceprint (rx_policy x)))"

text \<open>What both tables and the slot mapping say of a piece; \<^verbatim>\<open>{**piece, ...}\<close>.\<close>

definition view_entries :: "selection \<Rightarrow> selection \<Rightarrow> obj" where
  "view_entries = (\<lambda>(current, current_reason, current_ranked) (robust, robust_reason, robust_ranked).
     [(''session_registry_speaker_id'', opt_json current), (''session_registry_reason'', JStr current_reason),
      (''session_registry_ranked'', ranked_doc current_ranked), (''robust_gallery_speaker_id'', opt_json robust),
      (''robust_gallery_reason'', JStr robust_reason), (''robust_gallery_ranked'', ranked_doc robust_ranked)])"

definition voice_entries :: "string option \<Rightarrow> selection \<Rightarrow> selection \<Rightarrow> obj" where
  "voice_entries mapped current robust = (''mapped_speaker_id'', opt_json mapped) # view_entries current robust"

definition updated :: "obj \<Rightarrow> obj \<Rightarrow> obj" where
  "updated d changes = foldl (\<lambda>d (k, v). dset k v d) d changes"

definition relative_decision ::
  "obj \<Rightarrow> string option \<Rightarrow> selection \<Rightarrow> selection \<Rightarrow> string list \<Rightarrow> bool \<times> string \<Rightarrow> obj" where
  "relative_decision d mapped current robust conflicts = (\<lambda>(accepted, reason).
     updated d (voice_entries mapped current robust @
     [(''known_baseline_conflict_ids'', JArr (map JStr conflicts)),
      (''selected_speaker_id'', if accepted then opt_json (fst current) else JNull),
      (''accepted'', JBool accepted), (''reason'', JStr reason)]))"

text \<open>The decision of a piece, its verdict and the identity its session voice selects.\<close>

definition decide_relative ::
  "relative_context \<Rightarrow> json \<Rightarrow> phrase_voice \<Rightarrow> phrase_voice \<Rightarrow> fragment list \<Rightarrow> (obj \<times> (bool \<times> string) \<times> string option) res" where
  "decide_relative x piece session robust frs =
    (let current = decided_by x session; other = decided_by x robust in
     rbind (rbind (vitem piece ''local_speaker'') py_int) (\<lambda>local.
     let mapped = map_of (rx_local_to_id x) local in
     rbind (known_conflicts frs (fst current)) (\<lambda>conflicts.
     let verdict = relative_verdict (fst current) (fst other) mapped conflicts in
     rbind (vdict piece) (\<lambda>d. Inr (relative_decision d mapped current other conflicts verdict, verdict, fst current)))))"

definition accepted_range :: "json \<Rightarrow> (int \<times> int) res" where
  "accepted_range piece = rbind (rbind (vitem piece ''source_start'') py_int) (\<lambda>a.
     rbind (rbind (vitem piece ''source_end'') py_int) (\<lambda>b. Inr (a, b)))"

definition evaluate_relative ::
  "relative_context \<Rightarrow> overlays_by_text \<times> obj list \<Rightarrow> json \<Rightarrow> (overlays_by_text \<times> obj list) res" where
  "evaluate_relative x = (\<lambda>(overlays, decisions) piece.
    rbind (rbind (vitem piece ''evidence_id'') (\<lambda>v. Inr (py_str v))) (\<lambda>evidence_id.
    rbind (ditem (rx_session x) (Some evidence_id) (ValueError (''missing session evidence '' @ evidence_id))) (\<lambda>session.
    rbind (ditem (rx_robust x) (Some evidence_id) (ValueError (''missing robust evidence '' @ evidence_id))) (\<lambda>robust.
    rbind (rbind (vitem piece ''text_id'') py_int) (\<lambda>text_id.
    rbind (ditem (rx_fragments x) text_id (KeyError (int_repr text_id))) (\<lambda>frs.
    rbind (overlapping_fragments piece frs) (\<lambda>overlaps.
    rbind (decide_relative x piece session robust overlaps) (\<lambda>(d, (accepted, reason), selected).
    rbind (if accepted then rbind (accepted_range piece) (\<lambda>r. Inr [r]) else Inr []) (\<lambda>ranges.
    Inr (add_ranges overlays text_id selected reason ranges, decisions @ [d]))))))))))"

section \<open>Build\<close>

record relative_result =
  rv_active :: "string list"
  rv_source_turns :: int
  rv_audio_sec :: dbl
  rv_sample_rate :: int
  rv_decisions :: "obj list"
  rv_track :: "phrase_turn list"

definition relative_setup ::
  "json \<Rightarrow> fragments_by_text \<Rightarrow> voice_table \<Rightarrow> voice_table \<Rightarrow> json \<Rightarrow> relative_policy \<Rightarrow> relative_context res" where
  "relative_setup baseline fragments session robust manifest p =
    rbind (rbind (vitem baseline ''active_speaker_ids'') py_iter) (\<lambda>ids.
    rbind (slot_names manifest) (\<lambda>local_to_id.
    let active = map py_str ids in
    raise_if (sort (map snd local_to_id) \<noteq> sort active) (ValueError ''manifest identity set differs from baseline'')
      (Inr \<lparr>rx_policy = p, rx_session = session, rx_robust = robust, rx_active = active,
        rx_local_to_id = local_to_id, rx_fragments = fragments\<rparr>)))"

definition build_relative_candidate ::
  "json \<Rightarrow> json \<Rightarrow> voice_table \<Rightarrow> voice_table \<Rightarrow> json \<Rightarrow> relative_policy \<Rightarrow> relative_result res" where
  "build_relative_candidate baseline metadata session robust manifest p =
    rbind (vget baseline ''kind'' JNull) (\<lambda>bk.
    raise_if (bk \<noteq> JStr ''orator_frozen_speaker_candidate'')
      (ValueError ''baseline is not a frozen speaker candidate'')
    (rbind (vget metadata ''kind'' JNull) (\<lambda>mk.
     raise_if (mk \<noteq> JStr ''orator_relative_top1_phrase_spans'')
       (ValueError ''metadata is not relative-top1 phrase evidence'')
     (rbind (rbind (vget baseline ''track'' (JArr [])) track_fragments) (\<lambda>fragments.
      rbind (validate_source_text fragments metadata ''baseline'') (\<lambda>_.
      rbind (relative_setup baseline fragments session robust manifest p) (\<lambda>x.
      rbind (rbind (vitem metadata ''pieces'') py_iter) (\<lambda>pieces.
      rbind (rfold (evaluate_relative x) ([], []) pieces) (\<lambda>(overlays, decisions).
      rbind (project_track metadata fragments overlays (invert_mapping (rx_local_to_id x))) (\<lambda>track.
      rbind (rbind (track_fragments (JArr (map turn_doc track))) (\<lambda>frs. validate_source_text frs metadata ''projected'')) (\<lambda>_.
      rbind (float_item baseline ''audio_sec'') (\<lambda>audio_sec.
      rbind (rbind (vitem baseline ''sample_rate'') py_int) (\<lambda>sample_rate.
      rbind (rbind (vget baseline ''track'' (JArr [])) py_len) (\<lambda>turns.
      Inr \<lparr>rv_active = rx_active x, rv_source_turns = turns, rv_audio_sec = audio_sec, rv_sample_rate = sample_rate,
           rv_decisions = decisions, rv_track = track\<rparr>))))))))))))))"

definition relative_result_doc :: "relative_policy \<Rightarrow> relative_result \<Rightarrow> obj" where
  "relative_result_doc p r =
     [(''schema_version'', JInt 1),
      (''kind'', JStr ''orator_frozen_speaker_candidate''),
      (''candidate_kind'', JStr ''v21_relative_top1_dual_voiceprint_consensus''),
      (''audio_sec'', JFlt (rv_audio_sec r)),
      (''sample_rate'', JInt (rv_sample_rate r)),
      (''active_speaker_ids'', JArr (map JStr (rv_active r))),
      (''source_turn_count'', JInt (rv_source_turns r)),
      (''turn_count'', JInt (int (length (rv_track r)))),
      (''piece_count'', JInt (int (length (rv_decisions r)))),
      (''accepted_piece_count'', JInt (int (length (filter (\<lambda>d. get d ''accepted'' = JBool True) (rv_decisions r))))),
      (''policy'', relative_policy_doc p),
      (''voiceprint_policy'', posterior_policy_doc (rp_voiceprint p)),
      (''piece_decisions'', JArr (map JObj (rv_decisions r))),
      (''track'', JArr (map turn_doc (rv_track r)))]"

section \<open>Commands\<close>

definition command_relative_spans ::
  "json \<Rightarrow> csv_table \<Rightarrow> activity_source \<Rightarrow> obj \<Rightarrow> (string \<times> file_identity) list \<Rightarrow> (table \<times> json) res" where
  "command_relative_spans phrases frame_table activity config files =
    rbind (load_relative_policy config) (\<lambda>p.
    rbind (read_top1_frames frame_table) (\<lambda>(frames, period).
    rbind (read_activity activity) (\<lambda>vad.
    rbind (relative_pieces phrases frames period vad p) (\<lambda>pieces.
    rbind (vitem phrases ''asr'') (\<lambda>asr. rbind (vitem phrases ''align'') (\<lambda>align.
    Inr (write_piece_spans pieces, JObj
      [(''schema_version'', JInt 1), (''kind'', JStr ''orator_relative_top1_phrase_spans''),
       (''frame_period_sec'', JFlt period), (''policy'', relative_policy_doc p),
       (''voiceprint_policy'', posterior_policy_doc (rp_voiceprint p)), (''asr'', asr), (''align'', align),
       (''pieces'', JArr (map piece_doc pieces)), (''piece_count'', JInt (int (length pieces))),
       (''sources'', sources_doc files)])))))))"

definition command_relative_build ::
  "json \<Rightarrow> json \<Rightarrow> csv_table \<Rightarrow> csv_table \<Rightarrow> json \<Rightarrow> obj \<Rightarrow> (string \<times> file_identity) list \<Rightarrow> obj res" where
  "command_relative_build baseline metadata session_table robust_table manifest config files =
    rbind (load_relative_policy config) (\<lambda>p.
    rbind (read_voice session_table) (\<lambda>session. rbind (read_voice robust_table) (\<lambda>robust.
    rbind (build_relative_candidate baseline metadata session robust manifest p) (\<lambda>r.
    Inr (dset ''sources'' (sources_doc files) (relative_result_doc p r))))))"

end
