(* ===== verification/Phrase_Labels.thy ===== *)
theory Phrase_Labels
  imports Phrase_Candidate
begin

text \<open>
  Laws of the relabelling step the phrase candidates share: a list cut where its key changes, the
  label of a character after all overlays, the turns as a labelling of the text, and where the
  fragments of a track lie in their text.
\<close>

section \<open>Slices and neighbours\<close>

lemma slice_nth: "b \<le> length xs \<Longrightarrow> slice a b xs = map ((!) xs) [a..<b]"
  by (rule nth_equalityI) (auto simp: slice_def)

lemma slice_all: "slice a (length xs) xs = drop a xs"
  by (simp add: slice_def)

lemma slice_append: "a \<le> b \<Longrightarrow> b \<le> c \<Longrightarrow> slice a b xs @ slice b c xs = slice a c xs"
proof -
  assume "a \<le> b" "b \<le> c"
  then have "slice b c xs = take (c - b) (drop (b - a) (drop a xs))" "c - a = (b - a) + (c - b)"
    by (simp_all add: slice_def)
  then show ?thesis by (simp add: slice_def take_add)
qed

lemma adjacent_snoc: "xs \<noteq> [] \<Longrightarrow> adjacent (xs @ [y]) = adjacent xs @ [(last xs, y)]"
  by (induction xs rule: induct_list012) simp_all

lemma adjacent_snoc2: "adjacent (xs @ [x, y]) = adjacent (xs @ [x]) @ [(x, y)]"
  using adjacent_snoc[of "xs @ [x]" y] by simp

lemma fst_adjacent: "map fst (adjacent (xs @ [y])) = xs"
  by (induction xs rule: induct_list012) simp_all

section \<open>Cutting a list where its key changes\<close>

definition key_starts :: "('a \<Rightarrow> 'k) \<Rightarrow> 'a list \<Rightarrow> nat \<Rightarrow> nat list" where
  "key_starts k xs n = 0 # filter (\<lambda>i. k (xs ! (i - 1)) \<noteq> k (xs ! i)) [1..<n]"

lemma key_starts_cut:
  "0 < n \<Longrightarrow> n \<le> length xs \<Longrightarrow>
   last (key_starts k xs n) < n \<and> successively (\<lambda>a b. a < b \<and> k (xs ! a) \<noteq> k (xs ! b)) (key_starts k xs n) \<and>
   concat (map (\<lambda>(a, b). replicate (b - a) (k (xs ! a))) (adjacent (key_starts k xs n @ [n]))) = map k (take n xs)"
proof (induction n rule: nat_induct_non_zero)
  case 1
  then show ?case by (cases xs) (simp_all add: key_starts_def)
next
  case (Suc n)
  let ?B = "key_starts k xs n"
  have ne: "?B \<noteq> []" by (simp add: key_starts_def)
  have IH: "last ?B < n" "successively (\<lambda>a b. a < b \<and> k (xs ! a) \<noteq> k (xs ! b)) ?B"
    "concat (map (\<lambda>(a, b). replicate (b - a) (k (xs ! a))) (adjacent ?B)) @ replicate (n - last ?B) (k (xs ! last ?B))
      = map k (take n xs)"
    using Suc by (simp_all add: adjacent_snoc ne)
  have "k (xs ! last ?B) = last (map k (take n xs))"
    unfolding IH(3)[symmetric] using IH(1) by simp
  also have "\<dots> = k (xs ! (n - 1))"
  proof -
    have "take n xs \<noteq> []" using \<open>0 < n\<close> Suc.prems by auto
    then show ?thesis using Suc.prems by (simp add: last_conv_nth last_map min_def)
  qed
  finally have eq: "k (xs ! last ?B) = k (xs ! (n - 1))" .
  have B': "key_starts k xs (Suc n) = ?B @ (if k (xs ! (n - 1)) \<noteq> k (xs ! n) then [n] else [])"
    using Suc.hyps by (simp add: key_starts_def)
  have take: "map k (take (Suc n) xs) = map k (take n xs) @ [k (xs ! n)]"
    using Suc.prems by (simp add: take_Suc_conv_app_nth)
  show ?case
  proof (cases "k (xs ! (n - 1)) = k (xs ! n)")
    case True
    then have "replicate (Suc n - last ?B) (k (xs ! last ?B)) = replicate (n - last ?B) (k (xs ! last ?B)) @ [k (xs ! n)]"
      using IH(1) eq by (simp add: Suc_diff_le replicate_append_same)
    then show ?thesis using True IH by (simp add: B' adjacent_snoc ne take flip: IH(3))
  next
    case False
    then show ?thesis using IH eq ne
      by (simp add: B' adjacent_snoc2 adjacent_snoc take successively_append_iff)
  qed
qed

lemma key_starts_strict: "0 < n \<Longrightarrow> n \<le> length xs \<Longrightarrow> \<forall>(a, b) \<in> set (adjacent (key_starts k xs n @ [n])). a < b \<and> b \<le> n"
proof -
  assume n: "0 < n" "n \<le> length xs"
  let ?B = "key_starts k xs n"
  have c: "last ?B < n" "successively (\<lambda>a b. a < b \<and> k (xs ! a) \<noteq> k (xs ! b)) ?B"
    using key_starts_cut[OF n, of k] by simp_all
  have "successively (<) ?B" using c(2) by (rule successively_mono) auto
  moreover have "\<forall>b \<in> set ?B. b < n" using n(1) by (auto simp: key_starts_def)
  moreover have "?B \<noteq> []" by (simp add: key_starts_def)
  ultimately have s: "successively (<) (?B @ [n])" using c(1) by (simp add: successively_append_iff)
  have "b \<le> n" if "(a, b) \<in> set (adjacent (?B @ [n]))" for a b
  proof -
    have "b \<in> set (?B @ [n])" using that unfolding adjacent_def
      by (metis list.sel(2) list.set_sel(2) set_zip_rightD)
    then show ?thesis using \<open>\<forall>b \<in> set ?B. b < n\<close> by auto
  qed
  with s show ?thesis by (auto simp: successively_adjacent)
qed

text \<open>A stretch of one key between two changes is one of the cuts.\<close>

lemma adjacent_mem:
  "sorted_wrt (<) xs \<Longrightarrow> a \<in> set xs \<Longrightarrow> b \<in> set xs \<Longrightarrow> (a :: nat) < b \<Longrightarrow> \<forall>x \<in> set xs. \<not> (a < x \<and> x < b) \<Longrightarrow>
   (a, b) \<in> set (adjacent xs)"
  by (induction xs rule: induct_list012) auto

lemma key_starts_mem:
  assumes "n = length xs" "a < b" "b \<le> n" "\<forall>i. a < i \<longrightarrow> i < b \<longrightarrow> k (xs ! (i - 1)) = k (xs ! i)"
    "0 < a \<Longrightarrow> k (xs ! (a - 1)) \<noteq> k (xs ! a)" "b < n \<Longrightarrow> k (xs ! (b - 1)) \<noteq> k (xs ! b)"
  shows "(a, b) \<in> set (adjacent (key_starts k xs n @ [n]))"
proof (rule adjacent_mem)
  show "sorted_wrt (<) (key_starts k xs n @ [n])"
    using assms(2,3) by (auto simp: key_starts_def sorted_wrt_append sorted_wrt_filter)
  show "a \<in> set (key_starts k xs n @ [n])" using assms(2,3,5) by (auto simp: key_starts_def)
  show "b \<in> set (key_starts k xs n @ [n])" using assms(2,3,6) by (auto simp: key_starts_def)
  show "\<forall>x \<in> set (key_starts k xs n @ [n]). \<not> (a < x \<and> x < b)" using assms(2-4) by (auto simp: key_starts_def)
qed (rule assms(2))

section \<open>Labels\<close>

definition label_key :: "char_label \<Rightarrow> json \<times> bool \<times> string" where
  "label_key l = (cl_speaker_id l, cl_uncertain l, cl_reason l)"

definition plain_id :: "json \<Rightarrow> bool" where
  "plain_id v = (case v of JStr _ \<Rightarrow> True | JNull \<Rightarrow> True | _ \<Rightarrow> False)"

lemma same_label_key: "plain_id (cl_speaker_id l) \<Longrightarrow> same_label l r \<longleftrightarrow> label_key l = label_key r"
  by (auto simp: same_label_def label_key_def plain_id_def split: json.splits)

text \<open>The positions an overlay writes in a list of length \<open>n\<close>, and what it writes.\<close>

definition overlay_effect :: "local_ids \<Rightarrow> obj \<Rightarrow> (int list \<times> char_label) res" where
  "overlay_effect ids overlay =
    rbind (overlay_label ids overlay) (\<lambda>l.
    rbind (item overlay ''source_start'') (\<lambda>sa. rbind (item overlay ''source_end'') (\<lambda>sb.
    rbind (range_bound sa) (\<lambda>a. rbind (range_bound sb) (\<lambda>b. Inr ([a..b - 1], l))))))"

definition covers :: "nat \<Rightarrow> int list \<Rightarrow> nat \<Rightarrow> bool" where
  "covers n js i \<longleftrightarrow> list_ex (\<lambda>j. (if j < 0 then j + int n else j) = int i) js"

text \<open>The label of position \<open>i\<close> after all overlays: that of the last one that covers it.\<close>

definition final_label :: "local_ids \<Rightarrow> nat \<Rightarrow> obj list \<Rightarrow> nat \<Rightarrow> char_label \<Rightarrow> char_label" where
  "final_label ids n overlays i base = foldl (\<lambda>l ov. case overlay_effect ids ov of
     Inr (js, l') \<Rightarrow> if covers n js i then l' else l | Inl _ \<Rightarrow> l) base overlays"

lemma set_labels:
  "rfold (set_label l) labels js = Inr labels' \<Longrightarrow>
   length labels' = length labels \<and>
   (\<forall>i < length labels. labels' ! i = (if covers (length labels) js i then l else labels ! i))"
proof (induction js arbitrary: labels)
  case (Cons j js)
  let ?n = "length labels"
  from Cons.prems obtain m where m: "set_label l labels j = Inr m" "rfold (set_label l) m js = Inr labels'"
    by (auto simp: rbind_Inr_iff)
  let ?k = "nat (if j < 0 then j + int ?n else j)"
  have k: "m = labels[?k := l]" "?k < ?n" "0 \<le> (if j < 0 then j + int ?n else j)"
    using m(1) by (auto simp: set_label_def Let_def split: if_splits)
  have IH: "length labels' = ?n" "\<forall>i < ?n. labels' ! i = (if covers ?n js i then l else m ! i)"
    using Cons.IH[OF m(2)] k(1) by simp_all
  have c: "covers ?n (j # js) i \<longleftrightarrow> i = ?k \<or> covers ?n js i" for i
    using k(3) by (auto simp: covers_def)
  show ?case using IH k by (auto simp: c nth_list_update)
qed (simp add: covers_def)

lemma apply_overlay_effect:
  "apply_overlay ids labels overlay = Inr labels' \<Longrightarrow>
   \<exists>js l. overlay_effect ids overlay = Inr (js, l) \<and> rfold (set_label l) labels js = Inr labels'"
  by (auto simp: apply_overlay_def overlay_effect_def rbind_Inr_iff)

lemma apply_overlays:
  "rfold (apply_overlay ids) labels overlays = Inr labels' \<Longrightarrow>
   length labels' = length labels \<and>
   (\<forall>i < length labels. labels' ! i = final_label ids (length labels) overlays i (labels ! i))"
proof (induction overlays arbitrary: labels)
  case (Cons ov overlays)
  then obtain m where m: "apply_overlay ids labels ov = Inr m" "rfold (apply_overlay ids) m overlays = Inr labels'"
    by (auto simp: rbind_Inr_iff)
  from apply_overlay_effect[OF m(1)] obtain js l where
    e: "overlay_effect ids ov = Inr (js, l)" "rfold (set_label l) labels js = Inr m" by blast
  show ?case using Cons.IH[OF m(2)] set_labels[OF e(2)] by (simp add: final_label_def e(1))
qed (simp add: final_label_def)

lemma overlay_effect_plain: "overlay_effect ids ov = Inr (js, l) \<Longrightarrow> plain_id (cl_speaker_id l)"
  by (auto simp: overlay_effect_def overlay_label_def rbind_Inr_iff plain_id_def)

lemma final_label_plain: "plain_id (cl_speaker_id base) \<Longrightarrow> plain_id (cl_speaker_id (final_label ids n overlays i base))"
  unfolding final_label_def
proof (induction overlays arbitrary: base)
  case (Cons ov overlays)
  show ?case
  proof (cases "overlay_effect ids ov")
    case (Inr p)
    then show ?thesis using Cons.IH Cons.prems overlay_effect_plain[of ids ov] by (cases p) auto
  qed (use Cons in simp)
qed simp

section \<open>Turns\<close>

lemma rcollect_total:
  "rcollect f xs = Inr ys \<Longrightarrow> \<forall>x \<in> set xs. f x \<noteq> Inr None \<Longrightarrow> list_all2 (\<lambda>x y. f x = Inr (Some y)) xs ys"
proof (induction xs arbitrary: ys)
  case (Cons x xs)
  then obtain r zs where r: "f x = Inr r" "rcollect f xs = Inr zs" "ys = (case r of None \<Rightarrow> zs | Some v \<Rightarrow> v # zs)"
    by (auto simp: rbind_Inr_iff)
  with Cons show ?case by (cases r) auto
qed simp

definition expand_turns :: "phrase_turn list \<Rightarrow> (json \<times> bool \<times> string) list" where
  "expand_turns turns = concat (map (\<lambda>t. replicate (length (pt_text t)) (label_key (pt_label t))) turns)"

definition shows_piece :: "string \<Rightarrow> char_label list \<Rightarrow> nat \<times> nat \<Rightarrow> phrase_turn \<Rightarrow> bool" where
  "shows_piece source labels = (\<lambda>(a, b) t. pt_text t = slice a b source \<and> pt_label t = labels ! a)"

lemma rcollect_cut:
  assumes out: "rcollect g (enumerate 0 P) = Inr turns"
    and some: "\<And>i a b t. g (i, a, b) = Inr (Some t) \<Longrightarrow> Q (a, b) t"
    and none: "\<And>i a b. g (i, a, b) = Inr None \<Longrightarrow> b \<le> a"
    and strict: "\<forall>(a, b) \<in> set P. (a :: nat) < b"
  shows "list_all2 Q P turns" "length turns = length P"
    "\<And>i. i < length P \<Longrightarrow> g (i, P ! i) = Inr (Some (turns ! i))"
proof -
  have "g x \<noteq> Inr None" if "x \<in> set (enumerate 0 P)" for x
  proof -
    obtain i a b where x: "x = (i, a, b)" by (cases x)
    with that have "(a, b) \<in> set P" by (auto simp: in_set_enumerate_eq dest: nth_mem[of _ P])
    with strict none[of i a b] show ?thesis by (auto simp: x)
  qed
  then have all2: "list_all2 (\<lambda>x t. g x = Inr (Some t)) (enumerate 0 P) turns" by (intro rcollect_total[OF out]) blast
  then show "length turns = length P" by (auto dest: list_all2_lengthD)
  show nth: "g (i, P ! i) = Inr (Some (turns ! i))" if "i < length P" for i
    using list_all2_nthD[OF all2, of i] that by (simp add: nth_enumerate_eq)
  have "Q (P ! i) (turns ! i)" if "i < length P" for i
    using some nth[OF that] by (cases "P ! i") simp
  then show "list_all2 Q P turns" using \<open>length turns = length P\<close> by (simp add: list_all2_conv_all_nth)
qed

lemma cut_turns:
  assumes two: "list_all2 (shows_piece source labels) (adjacent (key_starts k xs n @ [n])) turns"
    and n: "length xs = n" "length labels = n" "length source = n" "0 < n"
    and key: "\<forall>i < n. label_key (labels ! i) = h (k (xs ! i))"
  shows "expand_turns turns = map label_key labels"
proof -
  let ?P = "adjacent (key_starts k xs n @ [n])"
  have strict: "\<forall>(a, b) \<in> set ?P. a < b \<and> b \<le> n"
    using key_starts_strict[of n xs k] n by simp
  have len: "length turns = length ?P" using two by (auto dest: list_all2_lengthD)
  have "map (\<lambda>t. replicate (length (pt_text t)) (label_key (pt_label t))) turns
      = map (map h) (map (\<lambda>(a, b). replicate (b - a) (k (xs ! a))) ?P)"
  proof (rule nth_equalityI)
    fix i assume "i < length (map (\<lambda>t. replicate (length (pt_text t)) (label_key (pt_label t))) turns)"
    then have i: "i < length turns" "i < length ?P" using len by simp_all
    obtain a b where ab: "?P ! i = (a, b)" by (cases "?P ! i")
    have "(a, b) \<in> set ?P" using nth_mem[OF i(2)] by (simp only: ab)
    then have "a < b" "b \<le> n" using strict by blast+
    moreover have "pt_text (turns ! i) = slice a b source \<and> pt_label (turns ! i) = labels ! a"
      using list_all2_nthD[OF two i(2)] by (simp add: ab shows_piece_def)
    ultimately show "map (\<lambda>t. replicate (length (pt_text t)) (label_key (pt_label t))) turns ! i
        = map (map h) (map (\<lambda>(a, b). replicate (b - a) (k (xs ! a))) ?P) ! i"
      using i n key by (simp add: ab slice_def)
  qed (simp add: len)
  then have "expand_turns turns = concat (map (map h) (map (\<lambda>(a, b). replicate (b - a) (k (xs ! a))) ?P))"
    by (simp only: expand_turns_def)
  also have "\<dots> = map h (concat (map (\<lambda>(a, b). replicate (b - a) (k (xs ! a))) ?P))" by (rule map_concat[symmetric])
  also have "\<dots> = map h (map k xs)" using key_starts_cut[of n xs k] n by (simp only: take_all order_refl)
  also have "\<dots> = map label_key labels" using n key by (intro nth_equalityI) simp_all
  finally show ?thesis .
qed

lemma turn_piece_Some:
  "turn_piece text_id source ts owners labels frs (i, a, b) = Inr (Some t) \<Longrightarrow>
   pt_text t = slice a b source \<and> pt_label t = labels ! a \<and> pt_text_id t = text_id"
  by (auto simp: turn_piece_def rbind_Inr_iff raise_if_Inr_iff split: if_splits)

lemma pieces_expand:
  assumes out: "rcollect (turn_piece text_id source ts owners labels frs) (enumerate 0 (adjacent (label_bounds labels))) = Inr turns"
    and n: "length labels = length source" "0 < length source"
    and plain: "\<forall>l \<in> set labels. plain_id (cl_speaker_id l)"
  shows "expand_turns turns = map label_key labels"
    "successively (\<lambda>t u. label_key (pt_label t) \<noteq> label_key (pt_label u)) turns"
proof -
  let ?n = "length labels" and ?P = "adjacent (label_bounds labels)"
  have "same_label (labels ! (i - 1)) (labels ! i) \<longleftrightarrow> label_key (labels ! (i - 1)) = label_key (labels ! i)"
    if "i \<in> set [1..<?n]" for i
    using that plain by (intro same_label_key) auto
  then have "filter (\<lambda>i. \<not> same_label (labels ! (i - 1)) (labels ! i)) [1..<?n]
      = filter (\<lambda>i. label_key (labels ! (i - 1)) \<noteq> label_key (labels ! i)) [1..<?n]"
    by (intro filter_cong) (simp_all only:)
  then have b: "label_bounds labels = key_starts label_key labels ?n @ [?n]"
    by (simp only: label_bounds_def key_starts_def append_Cons)
  have strict: "\<forall>(a, b) \<in> set ?P. a < b" using key_starts_strict[of ?n labels label_key] n b by auto
  have two: "list_all2 (shows_piece source labels) ?P turns"
    by (rule rcollect_cut(1)[OF out _ _ strict])
      (auto simp: turn_piece_def shows_piece_def rbind_Inr_iff raise_if_Inr_iff split: if_splits)
  show "expand_turns turns = map label_key labels"
    by (rule cut_turns[where k = label_key and h = "\<lambda>k. k", OF two[unfolded b]]) (use n in simp_all)
  have "map (\<lambda>t. label_key (pt_label t)) turns = map (\<lambda>a. label_key (labels ! a)) (map fst ?P)"
    using two by (auto simp: list_all2_conv_all_nth case_prod_unfold shows_piece_def intro!: nth_equalityI)
  also have "map fst ?P = key_starts label_key labels ?n" unfolding b by (rule fst_adjacent)
  finally have keys: "map (\<lambda>t. label_key (pt_label t)) turns
      = map (\<lambda>a. label_key (labels ! a)) (key_starts label_key labels ?n)" .
  have "successively (\<lambda>a b. label_key (labels ! a) \<noteq> label_key (labels ! b)) (key_starts label_key labels ?n)"
    by (rule successively_mono[OF conjunct1[OF conjunct2[OF key_starts_cut]]]) (use n in auto)
  then have "successively (\<lambda>k k'. k \<noteq> k') (map (\<lambda>a. label_key (labels ! a)) (key_starts label_key labels ?n))"
    unfolding successively_map .
  then show "successively (\<lambda>t u. label_key (pt_label t) \<noteq> label_key (pt_label u)) turns"
    unfolding keys[symmetric] successively_map .
qed

section \<open>Fragments\<close>

definition plain_fragment :: "fragment \<Rightarrow> bool" where
  "plain_fragment fr \<longleftrightarrow> (case fr_entry fr of JObj d \<Rightarrow> plain_id (get d ''speaker_id'') | _ \<Rightarrow> False)"

lemma entry_label_plain:
  "entry_label (fr_entry fr) = Inr l \<Longrightarrow> plain_fragment fr \<Longrightarrow> plain_id (cl_speaker_id l)"
  by (auto simp: entry_label_def plain_fragment_def rbind_Inr_iff get_def split: json.splits)

lemma owned_plain:
  assumes "owned_labels frs = Inr owned" "\<forall>fr \<in> set frs. plain_fragment fr"
  shows "\<forall>p \<in> set owned. plain_id (cl_speaker_id (snd p))"
proof
  fix p assume p: "p \<in> set owned"
  from assms(1) obtain xs where xs: "rmap fragment_chars (enumerate 0 frs) = Inr xs" "owned = concat xs"
    by (auto simp: owned_labels_def rbind_Inr_iff)
  with p obtain ys where ys: "ys \<in> set xs" "p \<in> set ys" by auto
  from rmap_image[OF xs(1) ys(1)] obtain k fr where f: "(k, fr) \<in> set (enumerate 0 frs)" "fragment_chars (k, fr) = Inr ys"
    by auto
  from f(1) have "fr \<in> set frs" by (auto simp: in_set_enumerate_eq)
  with f(2) ys(2) assms(2) show "plain_id (cl_speaker_id (snd p))"
    by (auto simp: fragment_chars_def rbind_Inr_iff intro: entry_label_plain split: if_splits)
qed

lemma reproject_expand:
  assumes "reproject_text text_id source us frs overlays ids = Inr turns"
    and plain: "\<forall>fr \<in> set frs. plain_fragment fr"
  obtains owned where "owned_labels frs = Inr owned" "length owned = length source"
    "concat (map pt_text turns) = source"
    "expand_turns turns = map (\<lambda>i. label_key (final_label ids (length source) overlays i (snd (owned ! i)))) [0..<length source]"
    "successively (\<lambda>t u. label_key (pt_label t) \<noteq> label_key (pt_label u)) turns"
    "\<forall>t \<in> set turns. pt_text_id t = text_id"
proof -
  from assms(1) obtain owned labels ts where
    o: "owned_labels frs = Inr owned" "length owned = length source"
    and l: "rfold (apply_overlay ids) (map snd owned) overlays = Inr labels"
    and out: "rcollect (turn_piece text_id source ts (map fst owned) labels frs)
       (enumerate 0 (adjacent (label_bounds labels))) = Inr turns"
    and src: "concat (map pt_text turns) = source"
    by (auto simp: reproject_text_def rbind_Inr_iff raise_if_Inr_iff)
  note a = apply_overlays[OF l]
  have n: "length labels = length source" using a o(2) by simp
  have labels: "labels = map (\<lambda>i. final_label ids (length source) overlays i (snd (owned ! i))) [0..<length source]"
    using a o(2) n by (intro nth_equalityI) simp_all
  have ids: "\<forall>t \<in> set turns. pt_text_id t = text_id"
    using out by (auto simp: rcollect_set dest!: turn_piece_Some)
  show ?thesis
  proof (cases "source = []")
    case True
    then have "label_bounds labels = [0, 0]" using n by (simp add: label_bounds_def)
    with out have "turns = []" by (auto simp: turn_piece_def)
    with True show ?thesis using that[OF o src _ _ ids] by (simp add: expand_turns_def)
  next
    case False
    have "\<forall>l \<in> set labels. plain_id (cl_speaker_id l)"
      using owned_plain[OF o(1) plain] o(2) by (auto simp: labels final_label_plain)
    then show ?thesis using that[OF o src _ _ ids] pieces_expand[OF out n] False by (simp add: labels comp_def)
  qed
qed

section \<open>Where fragments lie\<close>

fun tiles :: "nat \<Rightarrow> fragment list \<Rightarrow> bool" where
  "tiles c [] \<longleftrightarrow> True"
| "tiles c (f # fs) \<longleftrightarrow> fr_start f = c \<and>
     (case entry_text (fr_entry f) of Inr t \<Rightarrow> fr_end f = c + length t | Inl _ \<Rightarrow> False) \<and> tiles (fr_end f) fs"

fun tiles_end :: "nat \<Rightarrow> fragment list \<Rightarrow> nat" where
  "tiles_end c [] = c"
| "tiles_end c (f # fs) = tiles_end (fr_end f) fs"

lemma tiles_append: "tiles c (xs @ ys) \<longleftrightarrow> tiles c xs \<and> tiles (tiles_end c xs) ys"
  by (induction xs arbitrary: c) auto

lemma tiles_end_append [simp]: "tiles_end c (xs @ ys) = tiles_end (tiles_end c xs) ys"
  by (induction xs arbitrary: c) auto

lemma fragments_tile:
  assumes "rfold add_fragment (0, []) xs = Inr (c, frs)" shows "tiles 0 frs"
proof -
  have "(\<lambda>(c, frs). tiles 0 frs \<and> tiles_end 0 frs = c) (c, frs)"
  proof (rule rfold_invariant[OF _ _ assms])
    fix s x s' assume "case s of (c, frs) \<Rightarrow> tiles 0 frs \<and> tiles_end 0 frs = c" "add_fragment s x = Inr s'"
    then show "case s' of (c, frs) \<Rightarrow> tiles 0 frs \<and> tiles_end 0 frs = c"
      by (cases s; cases x) (auto simp: add_fragment_def rbind_Inr_iff tiles_append)
  qed simp
  then show ?thesis by simp
qed

lemma tiles_lower: "tiles c frs \<Longrightarrow> fr \<in> set frs \<Longrightarrow> c \<le> fr_start fr"
proof (induction frs arbitrary: c)
  case (Cons f fs)
  then have "c \<le> fr_end f" "fr = f \<Longrightarrow> c \<le> fr_start fr" by (auto split: sum.splits)
  with Cons.IH[of "fr_end f"] Cons.prems show ?case by fastforce
qed simp

lemma tiles_disjoint:
  "tiles c frs \<Longrightarrow> fr \<in> set frs \<Longrightarrow> gr \<in> set frs \<Longrightarrow> fr_start fr \<le> i \<Longrightarrow> i < fr_end fr \<Longrightarrow>
   fr_start gr \<le> i \<Longrightarrow> i < fr_end gr \<Longrightarrow> fr = gr"
proof (induction frs arbitrary: c)
  case (Cons f fs)
  have rest: "tiles (fr_end f) fs" using Cons.prems(1) by simp
  have "h \<in> set fs \<Longrightarrow> fr_end f \<le> fr_start h" for h by (rule tiles_lower[OF rest])
  with Cons.prems Cons.IH[OF rest] show ?case by fastforce
qed simp

lemma owned_at_nth:
  assumes "rmap fragment_chars (enumerate k frs) = Inr xs" "tiles c frs" "j < length frs"
    "fr_start (frs ! j) \<le> c + i" "c + i < fr_end (frs ! j)"
  shows "i < length (concat xs) \<and> fst (concat xs ! i) = k + j \<and> entry_label (fr_entry (frs ! j)) = Inr (snd (concat xs ! i))"
  using assms
proof (induction frs arbitrary: k c i j xs)
  case (Cons f fs)
  from Cons.prems(2) obtain t where t: "entry_text (fr_entry f) = Inr t" "fr_start f = c" "fr_end f = c + length t"
    "tiles (c + length t) fs" by (auto split: sum.splits)
  from Cons.prems(1) obtain y ys where y: "fragment_chars (k, f) = Inr y" "rmap fragment_chars (enumerate (Suc k) fs) = Inr ys"
    "xs = y # ys" by (auto simp: rbind_Inr_iff)
  have len: "length y = length t" using y(1) t(1) by (auto simp: fragment_chars_def rbind_Inr_iff split: if_splits)
  show ?case
  proof (cases j)
    case 0
    with Cons.prems(4,5) t have i: "i < length t" by simp
    then have "t \<noteq> []" by auto
    with y(1) t(1) obtain l where l: "entry_label (fr_entry f) = Inr l" "y = replicate (length t) (k, l)"
      by (auto simp: fragment_chars_def rbind_Inr_iff)
    then show ?thesis using i 0 y(3) by (simp add: nth_append)
  next
    case (Suc j')
    then have "fs ! j' \<in> set fs" using Cons.prems(3) by simp
    then have "c + length t \<le> fr_start (fs ! j')" by (rule tiles_lower[OF t(4)])
    with Suc Cons.prems(4) have "length t \<le> i" by simp
    then obtain m where m: "i = length t + m" by (metis le_Suc_ex)
    then show ?thesis
      using Cons.IH[OF y(2) t(4), of j' m] Cons.prems Suc len y(3) by (simp add: nth_append add.assoc)
  qed
qed simp

lemma owned_at:
  assumes "rmap fragment_chars (enumerate k frs) = Inr xs" "tiles c frs" "fr \<in> set frs"
    "fr_start fr \<le> c + i" "c + i < fr_end fr"
  shows "i < length (concat xs) \<and> entry_label (fr_entry fr) = Inr (snd (concat xs ! i))"
proof -
  obtain j where "j < length frs" "frs ! j = fr" using assms(3) by (auto simp: in_set_conv_nth)
  with owned_at_nth[OF assms(1,2), of j i] assms(4,5) show ?thesis by simp
qed

lemma group_fragments_facts:
  "group_fragments g = Inr (text_id, frs) \<Longrightarrow> fst g = text_id \<and> tiles 0 frs"
  by (cases g) (auto simp: group_fragments_def rbind_Inr_iff dest: fragments_tile)

lemma source_fragments_facts:
  assumes "source_fragments direct = Inr fragments"
  shows "distinct (map fst fragments)" "\<forall>(text_id, frs) \<in> set fragments. tiles 0 frs"
proof -
  from assms obtain decisions items groups where
    g: "rfold (add_track_item decisions) [] items = Inr groups" "rmap group_fragments groups = Inr fragments"
    by (auto simp: source_fragments_def rbind_Inr_iff raise_if_Inr_iff)
  have "distinct (map fst groups)"
  proof (rule rfold_invariant[OF _ _ g(1)])
    fix s x s' assume "distinct (map fst s)" "add_track_item decisions s x = Inr s'"
    then show "distinct (map fst s')"
      by (cases x) (auto simp: add_track_item_def rbind_Inr_iff distinct_dset)
  qed simp
  moreover have "map fst fragments = map fst groups"
    using g(2) by (auto simp: rmap_Inr_iff list_all2_conv_all_nth intro!: nth_equalityI dest: group_fragments_facts
      split: prod.splits) (metis group_fragments_facts prod.collapse)
  ultimately show "distinct (map fst fragments)" by simp
  show "\<forall>(text_id, frs) \<in> set fragments. tiles 0 frs"
    using rmap_image[OF g(2)] by (fastforce dest: group_fragments_facts)
qed

lemma filter_concat_key:
  "list_all2 (\<lambda>k e. \<forall>x \<in> set e. f x = k) ks ess \<Longrightarrow> distinct ks \<Longrightarrow> i < length ks \<Longrightarrow>
   filter (\<lambda>x. f x = ks ! i) (concat ess) = ess ! i"
proof (induction arbitrary: i rule: list_all2_induct)
  case (Cons k ks e ess)
  have other: "filter (\<lambda>x. f x = k) (concat ess) = []"
  proof -
    have "\<forall>x \<in> set (concat ess). f x \<in> set ks" using Cons.hyps(2) by (induction rule: list_all2_induct) auto
    with Cons.prems(1) show ?thesis by (auto simp: filter_empty_conv)
  qed
  show ?case
  proof (cases i)
    case 0
    then show ?thesis using Cons.hyps(1) other by (simp add: filter_id_conv)
  next
    case (Suc j)
    with Cons.prems have "ks ! j \<noteq> k" "j < length ks" by auto
    moreover from this have "filter (\<lambda>x. f x = ks ! j) e = []" using Cons.hyps(1) by (auto simp: filter_empty_conv)
    ultimately show ?thesis using Cons.IH[of j] Cons.prems(1) Suc by simp
  qed
qed simp

text \<open>The turns of one text in a track put together text by text.\<close>

lemma turns_of_text:
  assumes track: "rmap f (sort_key fst fragments) = Inr xs"
    and f: "\<And>g e. f g = Inr e \<Longrightarrow> \<forall>t \<in> set e. pt_text_id t = fst g"
    and dist: "distinct (map fst fragments)" and mem: "map_of fragments text_id = Some frs"
  shows "f (text_id, frs) = Inr (filter (\<lambda>t. pt_text_id t = text_id) (concat xs))"
proof -
  let ?F = "sort_key fst fragments"
  have all2: "list_all2 (\<lambda>g e. f g = Inr e) ?F xs" using track by (simp add: rmap_Inr_iff)
  have keys: "list_all2 (\<lambda>k e. \<forall>t \<in> set e. pt_text_id t = k) (map fst ?F) xs"
    unfolding list_all2_map1 by (rule list_all2_mono[OF all2]) (blast dest: f)
  have "(text_id, frs) \<in> set ?F" using mem by (simp add: map_of_SomeD)
  then obtain i where i: "i < length ?F" "?F ! i = (text_id, frs)" by (metis in_set_conv_nth)
  have "mset (map fst ?F) = mset (map fst fragments)" by simp
  then have "distinct (map fst ?F)" using dist by (metis mset_eq_imp_distinct_iff)
  then have "filter (\<lambda>t. pt_text_id t = map fst ?F ! i) (concat xs) = xs ! i"
    by (rule filter_concat_key[OF keys]) (simp add: i(1) del: length_sort)
  moreover have "map fst ?F ! i = text_id" using i by simp
  ultimately show ?thesis using list_all2_nthD[OF all2 i(1)] by (simp only: i(2))
qed

section \<open>The label of a character\<close>

lemma character_label:
  assumes rep: "reproject_text text_id source us frs overlays ids = Inr turns"
    and frs: "tiles 0 frs" "\<forall>fr \<in> set frs. plain_fragment fr"
    and fr: "fr \<in> set frs" "fr_start fr \<le> i" "i < fr_end fr"
  obtains l where "entry_label (fr_entry fr) = Inr l" "i < length (expand_turns turns)"
    "expand_turns turns ! i = label_key (final_label ids (length source) overlays i l)"
proof -
  obtain owned where o: "owned_labels frs = Inr owned" "length owned = length source"
    and e: "expand_turns turns = map (\<lambda>i. label_key (final_label ids (length source) overlays i (snd (owned ! i)))) [0..<length source]"
    by (rule reproject_expand[OF rep frs(2)])
  from o(1) obtain xs where xs: "rmap fragment_chars (enumerate 0 frs) = Inr xs" "owned = concat xs"
    by (auto simp: owned_labels_def rbind_Inr_iff)
  have at: "i < length owned" "entry_label (fr_entry fr) = Inr (snd (owned ! i))"
    using owned_at[OF xs(1) frs(1) fr(1), of i] fr(2,3) xs(2) by simp_all
  show ?thesis by (rule that[OF at(2)]) (use at(1) o(2) in \<open>simp_all add: e\<close>)
qed

end
