(* ===== verification/Phrase_Properties.thy ===== *)
theory Phrase_Properties
  imports Phrase_Labels
begin

text \<open>
  Properties of the punctuation phrase candidate: the hexadecimal texts of the replay inputs are
  read back, alignment succeeds exactly on subsequences, phrases cover what is visible, turns are
  the relabelled text, and anchors keep their identity.
\<close>

section \<open>Texts in hexadecimal\<close>

lemma hex_digits_read: "\<forall>n \<in> set [0..<16]. hex_value (hex_digit n) = Some n \<and> \<not> ascii_space (hex_digit n)"
  by code_simp

lemma from_hex_bytes: "\<forall>b \<in> set bs. b < 256 \<Longrightarrow> from_hex (concat (map hex_byte bs)) = Some bs"
proof (induction bs)
  case (Cons b bs)
  have "b div 16 \<in> set [0..<16]" "b mod 16 \<in> set [0..<16]" using Cons.prems by auto
  then have "hex_value (hex_digit (b div 16)) = Some (b div 16)" "\<not> ascii_space (hex_digit (b div 16))"
    "hex_value (hex_digit (b mod 16)) = Some (b mod 16)" using hex_digits_read by blast+
  then show ?case using Cons by (simp add: hex_byte_def)
qed simp

lemma utf8_bytes: "b \<in> set (utf8_encode s) \<Longrightarrow> b < 256"
proof -
  assume "b \<in> set (utf8_encode s)"
  then obtain c :: char where "b \<in> set (utf8_char c)" by (auto simp: utf8_encode_def)
  moreover have "of_char c < (256 :: nat)" by simp
  then have "of_char c div 64 < (64 :: nat)" by linarith
  ultimately show ?thesis by (auto simp: utf8_char_def Let_def split: if_splits)
qed

lemma utf8_roundtrip: "utf8_decode (utf8_encode s) = Inr s"
proof (induction s)
  case (Cons c s)
  define n where "n = (of_char c :: nat)"
  have n: "n < 256" "char_of n = c" by (simp_all add: n_def)
  have enc: "utf8_encode (c # s) = (if n < 128 then [n] else [192 + n div 64, 128 + n mod 64]) @ utf8_encode s"
    by (simp add: utf8_encode_def utf8_char_def n_def Let_def)
  show ?case
  proof (cases "n < 128")
    case True
    then show ?thesis using Cons enc n by (cases "utf8_encode s") simp_all
  next
    case False
    with n have "n div 64 = 2 \<or> n div 64 = 3" by auto
    with False show ?thesis using Cons n by (auto simp: enc)
  qed
qed (simp add: utf8_encode_def)

text \<open>
  The text a replay table carries in hexadecimal is read back by the phrase candidate: decoding
  what the business replay inputs encode gives the text of the value.
\<close>

lemma text_hex_roundtrip: "decode_hex (encode_text v) = Inr (py_str v)"
  using utf8_bytes by (simp add: decode_hex_def encode_text_def from_hex_bytes utf8_roundtrip)

section \<open>Alignment\<close>

lemma subseq_first: "c \<notin> set xs \<Longrightarrow> subseq (c # r) (xs @ c # ys) \<longleftrightarrow> subseq r ys"
  by (induction xs) auto

lemma find_char_split:
  "find_char c source cursor = Some i \<Longrightarrow>
   \<exists>xs. drop cursor source = xs @ c # drop (Suc i) source \<and> c \<notin> set xs \<and> i = cursor + length xs \<and> i < length source"
proof -
  assume f: "find_char c source cursor = Some i"
  let ?xs = "takeWhile (\<lambda>x. x \<noteq> c) (drop cursor source)"
  have mem: "c \<in> set (drop cursor source)" and i: "i = cursor + length ?xs"
    using f by (auto simp: find_char_def split: if_splits)
  let ?d = "dropWhile (\<lambda>x. x \<noteq> c) (drop cursor source)"
  have "?d \<noteq> []" using mem by (auto simp: dropWhile_eq_Nil_conv)
  moreover from this have "hd ?d = c" using hd_dropWhile[of "\<lambda>x. x \<noteq> c"] by blast
  ultimately have d: "?d = c # tl ?d" by (metis list.collapse)
  have split: "drop cursor source = ?xs @ ?d" by simp
  have "?d = drop (length ?xs) (drop cursor source)" by (rule dropWhile_eq_drop)
  then have "?d = drop i source" by (simp add: i add.commute)
  then have "tl ?d = drop (Suc i) source" by (simp add: drop_Suc tl_drop)
  moreover have "i < length source" using \<open>?d = drop i source\<close> \<open>?d \<noteq> []\<close> by simp
  moreover have "c \<notin> set ?xs" by (auto dest: set_takeWhileD)
  ultimately show ?thesis using split d i by metis
qed

lemma find_char_None: "find_char c source cursor = None \<longleftrightarrow> c \<notin> set (drop cursor source)"
  by (simp add: find_char_def)

lemma unit_doc_items [simp]:
  "float_item (unit_doc s e t) ''start'' = Inr s" "float_item (unit_doc s e t) ''end'' = Inr e"
  "vitem (unit_doc s e t) ''text'' = Inr (JStr t)"
  by (simp_all add: unit_doc_def float_item_def)

lemma place_unit_doc [simp]:
  "place_unit source state (unit_doc s e t) = rfold (place_char source (unit_doc s e t)) state t"
  by (simp add: place_unit_def)

text \<open>The scan takes the first place for each character; what is left decides the rest.\<close>

lemma place_chars_greedy:
  "case rfold (place_char source (unit_doc s e t)) (ts, cursor) cs of
     Inl _ \<Rightarrow> \<forall>r. \<not> subseq (cs @ r) (drop cursor source)
   | Inr (_, cursor') \<Rightarrow> \<forall>r. subseq (cs @ r) (drop cursor source) \<longleftrightarrow> subseq r (drop cursor' source)"
proof (induction cs arbitrary: ts cursor)
  case (Cons c cs)
  show ?case
  proof (cases "find_char c source cursor")
    case None
    then have "c \<notin> set (drop cursor source)" by (simp add: find_char_None)
    then have "\<not> subseq (c # cs @ r) (drop cursor source)" for r by (auto dest: list_emb_set)
    then show ?thesis using None by (simp add: place_char_def)
  next
    case (Some i)
    from find_char_split[OF Some] obtain xs where
      xs: "drop cursor source = xs @ c # drop (Suc i) source" "c \<notin> set xs" by blast
    have step: "subseq (c # r) (drop cursor source) \<longleftrightarrow> subseq r (drop (Suc i) source)" for r
      unfolding xs(1) by (rule subseq_first[OF xs(2)])
    have p: "place_char source (unit_doc s e t) (ts, cursor) c = Inr (ts[i := Some (s, e)], Suc i)"
      using Some by (simp add: place_char_def)
    show ?thesis using Cons.IH[where ts = "ts[i := Some (s, e)]" and cursor = "Suc i"]
      by (simp add: p step split: sum.splits prod.splits)
  qed
qed simp

lemma place_units_greedy:
  "case rfold (place_unit source) (ts, cursor) (map (\<lambda>(s, e, t). unit_doc s e t) us) of
     Inl _ \<Rightarrow> \<forall>r. \<not> subseq (concat (map (snd \<circ> snd) us) @ r) (drop cursor source)
   | Inr (_, cursor') \<Rightarrow>
       \<forall>r. subseq (concat (map (snd \<circ> snd) us) @ r) (drop cursor source) \<longleftrightarrow> subseq r (drop cursor' source)"
proof (induction us arbitrary: ts cursor)
  case (Cons u us)
  obtain s e t where u: "u = (s, e, t)" by (cases u)
  note g = place_chars_greedy[where source = source and s = s and e = e and t = t and ts = ts and cursor = cursor and cs = t]
  show ?case
  proof (cases "rfold (place_char source (unit_doc s e t)) (ts, cursor) t")
    case (Inl x)
    with g show ?thesis by (simp add: u)
  next
    case (Inr st)
    obtain ts' c' where st: "st = (ts', c')" by (cases st)
    have g': "\<forall>r. subseq (t @ r) (drop cursor source) \<longleftrightarrow> subseq r (drop c' source)" using g Inr st by simp
    show ?thesis using Inr Cons.IH[where ts = ts' and cursor = c']
      by (simp add: u st g' split: sum.splits prod.splits)
  qed
qed simp

text \<open>
  C31: the character times of a text are found exactly when the texts of its alignment units,
  joined, are a subsequence of it: the first-fit scan never misses a placement that exists, and
  finds none where there is none.
\<close>

theorem aligned_iff_subsequence:
  "(\<exists>ts. aligned_character_times source (map (\<lambda>(s, e, t). unit_doc s e t) us) = Inr ts) \<longleftrightarrow>
   subseq (concat (map (\<lambda>(s, e, t). t) us)) source"
proof -
  have m: "map (snd \<circ> snd) us = map (\<lambda>(s, e, t). t) us" by (simp add: case_prod_unfold comp_def)
  note g = place_units_greedy[where source = source and ts = "replicate (length source) None" and cursor = 0 and us = us, unfolded m]
  show ?thesis
  proof (cases "rfold (place_unit source) (replicate (length source) None, 0) (map (\<lambda>(s, e, t). unit_doc s e t) us)")
    case (Inl x)
    with g have "\<forall>r. \<not> subseq (concat (map (\<lambda>(s, e, t). t) us) @ r) source" by simp
    then have "\<not> subseq (concat (map (\<lambda>(s, e, t). t) us) @ []) source" by blast
    with Inl show ?thesis by (simp add: aligned_character_times_def)
  next
    case (Inr st)
    with g have "\<exists>c. \<forall>r. subseq (concat (map (\<lambda>(s, e, t). t) us) @ r) source \<longleftrightarrow> subseq r (drop c source)"
      by (auto split: prod.splits)
    then have "subseq (concat (map (\<lambda>(s, e, t). t) us) @ []) source" by blast
    with Inr show ?thesis by (cases st) (simp add: aligned_character_times_def)
  qed
qed

section \<open>Phrases\<close>

definition range_ok :: "string \<Rightarrow> string \<Rightarrow> nat \<times> nat \<Rightarrow> bool" where
  "range_ok source punctuation = (\<lambda>(a, b). a < b \<and> b \<le> length source \<and>
     list_ex (visible_char punctuation) (slice a b source) \<and>
     list_all (\<lambda>c. c \<notin> set punctuation) (slice a (b - 1) source))"

definition visible_positions :: "string \<Rightarrow> string \<Rightarrow> nat \<times> nat \<Rightarrow> nat list" where
  "visible_positions source punctuation = (\<lambda>(a, b). filter (\<lambda>i. visible_char punctuation (source ! i)) [a..<b])"

text \<open>After \<open>k\<close> characters: everything visible before \<open>start\<close> is in a range, no punctuation since.\<close>

definition cut_at :: "string \<Rightarrow> string \<Rightarrow> nat \<Rightarrow> nat \<times> (nat \<times> nat) list \<Rightarrow> bool" where
  "cut_at source punctuation k = (\<lambda>(start, out). start \<le> k \<and>
     list_all (\<lambda>c. c \<notin> set punctuation) (slice start k source) \<and>
     list_all (range_ok source punctuation) out \<and> sorted_wrt (\<lambda>r q. snd r \<le> fst q) out \<and>
     list_all (\<lambda>r. snd r \<le> start) out \<and>
     concat (map (visible_positions source punctuation) out) = visible_positions source punctuation (0, start))"

lemma visible_positions_join:
  "a \<le> b \<Longrightarrow> b \<le> c \<Longrightarrow>
   visible_positions s p (a, b) @ visible_positions s p (b, c) = visible_positions s p (a, c)"
  by (simp add: visible_positions_def flip: filter_append) (metis le_Suc_ex upt_add_eq_append)

lemma visible_positions_none:
  "b \<le> length s \<Longrightarrow> \<not> list_ex (visible_char p) (slice a b s) \<Longrightarrow> visible_positions s p (a, b) = []"
  by (auto simp: visible_positions_def slice_nth list_ex_iff filter_empty_conv)

lemma cut_emit:
  assumes "cut_at s p k (start, out)" and "k \<le> b" "b \<le> length s" "start < b" "b - 1 \<le> k"
  shows "let out' = (if list_ex (visible_char p) (slice start b s) then out @ [(start, b)] else out) in
    list_all (range_ok s p) out' \<and> sorted_wrt (\<lambda>r q. snd r \<le> fst q) out' \<and> list_all (\<lambda>r. snd r \<le> b) out' \<and>
    concat (map (visible_positions s p) out') = visible_positions s p (0, b)"
proof -
  have c: "list_all (\<lambda>c. c \<notin> set p) (slice start k s)" "list_all (range_ok s p) out"
    "sorted_wrt (\<lambda>r q. snd r \<le> fst q) out" "\<forall>r \<in> set out. snd r \<le> start"
    "concat (map (visible_positions s p) out) = visible_positions s p (0, start)"
    using assms(1) by (auto simp: cut_at_def list_all_iff)
  have "slice start k s = slice start (b - 1) s @ slice (b - 1) k s"
    using assms(2-5) by (intro slice_append[symmetric]) auto
  with c(1) have pre: "list_all (\<lambda>c. c \<notin> set p) (slice start (b - 1) s)" by simp
  have join: "visible_positions s p (0, start) @ visible_positions s p (start, b) = visible_positions s p (0, b)"
    using assms(4) by (intro visible_positions_join) simp_all
  have le: "\<forall>r \<in> set out. snd r \<le> b" using c(4) assms(4) by fastforce
  show ?thesis
  proof (cases "list_ex (visible_char p) (slice start b s)")
    case True
    then show ?thesis using c pre join le assms
      by (auto simp: range_ok_def list_all_iff sorted_wrt_append)
  next
    case False
    then show ?thesis using c join le visible_positions_none[OF assms(3) False] by (auto simp: list_all_iff)
  qed
qed

lemma phrase_cut:
  "k \<le> length s \<Longrightarrow> cut_at s p k (foldl (phrase_step s p) (0, []) (enumerate 0 (take k s)))"
proof (induction k)
  case 0
  then show ?case by (simp add: cut_at_def slice_def visible_positions_def)
next
  case (Suc k)
  obtain start out where st: "foldl (phrase_step s p) (0, []) (enumerate 0 (take k s)) = (start, out)"
    by (metis surj_pair)
  have inv: "cut_at s p k (start, out)" using Suc st by simp
  then have start: "start \<le> k" by (simp add: cut_at_def)
  have step: "foldl (phrase_step s p) (0, []) (enumerate 0 (take (Suc k) s)) = phrase_step s p (start, out) (k, s ! k)"
    using Suc.prems st by (simp add: take_Suc_conv_app_nth enumerate_append_eq)
  show ?case
  proof (cases "s ! k \<in> set p")
    case True
    have "cut_at s p (Suc k) (Suc k, if list_ex (visible_char p) (slice start (Suc k) s) then out @ [(start, Suc k)] else out)"
      using cut_emit[OF inv, of "Suc k"] Suc.prems start by (simp add: cut_at_def slice_def Let_def)
    moreover have "phrase_step s p (start, out) (k, s ! k) = (Suc k,
        if list_ex (visible_char p) (slice start (Suc k) s) then out @ [(start, Suc k)] else out)"
      using True by (simp add: phrase_step_def)
    ultimately show ?thesis by (simp only: step)
  next
    case False
    have "slice start (Suc k) s = slice start k s @ [s ! k]"
      using Suc.prems start by (simp add: slice_nth)
    with inv False have "cut_at s p (Suc k) (start, out)" by (auto simp: cut_at_def)
    then show ?thesis using False step by (simp add: phrase_step_def)
  qed
qed

text \<open>
  The phrases of a text are disjoint, in order and inside it, each holds something visible and
  has punctuation only at its end, and every visible character is in exactly one of them: the
  visible positions of the phrases, joined, are those of the text.
\<close>

lemma phrase_ranges_cover_visible:
  "concat (map (visible_positions source punctuation) (phrase_ranges source punctuation))
     = visible_positions source punctuation (0, length source) \<and>
   list_all (range_ok source punctuation) (phrase_ranges source punctuation) \<and>
   sorted_wrt (\<lambda>r q. snd r \<le> fst q) (phrase_ranges source punctuation)"
proof -
  let ?n = "length source"
  obtain start out where st: "foldl (phrase_step source punctuation) (0, []) (enumerate 0 source) = (start, out)"
    by (metis surj_pair)
  have inv: "cut_at source punctuation ?n (start, out)"
    using phrase_cut[of ?n source punctuation] st by simp
  show ?thesis
  proof (cases "start < ?n")
    case True
    then show ?thesis using cut_emit[OF inv, of ?n]
      by (simp add: phrase_ranges_def st slice_all Let_def)
  next
    case False
    with inv have "start = ?n" by (simp add: cut_at_def)
    then show ?thesis using inv by (simp add: phrase_ranges_def st cut_at_def)
  qed
qed

section \<open>Relabelled turns\<close>

text \<open>
  C30: the turns of a reprojected text refine a labelling of its characters: they spell the text,
  each character has the label of the last overlay that covers it and otherwise that of its
  fragment, and neighbouring turns differ in identity, certainty or reason.
\<close>

theorem reproject_relabels:
  assumes "reproject_text text_id source us frs overlays ids = Inr turns" "list_all plain_fragment frs"
  shows "\<exists>owned. owned_labels frs = Inr owned \<and> concat (map pt_text turns) = source \<and>
    expand_turns turns = map (\<lambda>i. label_key (final_label ids (length source) overlays i (snd (owned ! i)))) [0..<length source] \<and>
    successively (\<lambda>t u. label_key (pt_label t) \<noteq> label_key (pt_label u)) turns"
proof -
  have "\<forall>fr \<in> set frs. plain_fragment fr" using assms(2) by (simp add: list_all_iff)
  then obtain owned where "owned_labels frs = Inr owned" "concat (map pt_text turns) = source"
    "expand_turns turns = map (\<lambda>i. label_key (final_label ids (length source) overlays i (snd (owned ! i)))) [0..<length source]"
    "successively (\<lambda>t u. label_key (pt_label t) \<noteq> label_key (pt_label u)) turns"
    by (rule reproject_expand[OF assms(1)])
  then show ?thesis by (intro exI conjI)
qed

section \<open>Overlays respect anchors\<close>

definition forward_phrase :: "json \<Rightarrow> bool" where
  "forward_phrase v = (case v of JObj d \<Rightarrow> (case range_bound (get d ''source_start'') of Inr a \<Rightarrow> 0 \<le> a | Inl _ \<Rightarrow> True)
     | _ \<Rightarrow> True)"

text \<open>Wherever an overlay covers a character of an anchor, it names the anchor's identity.\<close>

definition agrees_with :: "local_ids \<Rightarrow> fragment list \<Rightarrow> obj \<Rightarrow> bool" where
  "agrees_with ids frs overlay \<longleftrightarrow> (\<forall>fr js l n i. fr \<in> set frs \<longrightarrow> fr_anchor fr \<longrightarrow>
     overlay_effect ids overlay = Inr (js, l) \<longrightarrow> fr_start fr \<le> i \<longrightarrow> i < fr_end fr \<longrightarrow> covers n js i \<longrightarrow>
     vitem (fr_decision fr) ''speaker_id'' = Inr (cl_speaker_id l))"

lemma range_bound_num: "range_bound v = Inr a \<Longrightarrow> num_val v = Some (of_int a)"
  by (cases v) (auto simp: range_bound_def)

lemma get_of_item: "item d k = Inr v \<Longrightarrow> get d k = v"
  by (auto simp: item_def ditem_def get_def dget_def split: option.splits)

lemma phrase_overlay_agrees:
  assumes anchors: "phrase_anchor_ids phrase frs = Inr anchors"
    and accepted: "phrase_overlay_accepted (Some speaker) anchors require"
    and phrase: "phrase = JObj d" "forward_phrase phrase"
  shows "agrees_with ids frs (dset ''reason'' (JStr why) (dset ''speaker_id'' (JStr speaker) d))"
  unfolding agrees_with_def
proof (intro allI impI)
  fix fr js l n i
  assume fr: "fr \<in> set frs" "fr_anchor fr" "fr_start fr \<le> i" "i < fr_end fr" "covers n js i"
    and eff: "overlay_effect ids (dset ''reason'' (JStr why) (dset ''speaker_id'' (JStr speaker) d)) = Inr (js, l)"
  from eff obtain sa sb a b where
    s: "item d ''source_start'' = Inr sa" "item d ''source_end'' = Inr sb" "range_bound sa = Inr a" "range_bound sb = Inr b"
    and js: "js = [a..b - 1]" and l: "cl_speaker_id l = JStr speaker"
    by (auto simp: overlay_effect_def overlay_label_def rbind_Inr_iff anchor_id_def)
  have "0 \<le> a" using phrase s(1,3) by (simp add: forward_phrase_def get_of_item)
  with fr(5) js have ab: "a \<le> int i" "int i < b" by (auto simp: covers_def list_ex_iff split: if_splits)
  have before: "int_less (fr_start fr) sb = Inr True"
  proof -
    have "int (fr_start fr) < b" using fr(3) ab by linarith
    then have "(of_nat (fr_start fr) :: rat) < of_int b" by (metis of_int_less_iff of_int_of_nat_eq)
    then show ?thesis by (simp add: int_less_def range_bound_num[OF s(4)])
  qed
  have after: "int_greater (fr_end fr) sa = Inr True"
  proof -
    have "a < int (fr_end fr)" using fr(4) ab by linarith
    then have "of_int a < (of_nat (fr_end fr) :: rat)" by (metis of_int_less_iff of_int_of_nat_eq)
    then show ?thesis by (simp add: int_greater_def range_bound_num[OF s(3)])
  qed
  from anchors obtain ids' where c: "rcollect (anchor_of phrase) frs = Inr ids'" "anchors = remdups ids'"
    by (auto simp: phrase_anchor_ids_def rbind_Inr_iff)
  from rcollect_all[OF c(1) fr(1)] obtain r where "anchor_of phrase fr = Inr r" by blast
  then obtain v w where v: "vitem (fr_decision fr) ''speaker_id'' = Inr v" "anchor_id v = Inr w"
    "anchor_of phrase fr = Inr (Some w)"
    using fr(2) s before after by (auto simp: anchor_of_def phrase rbind_Inr_iff)
  then have "w \<in> set anchors" using rcollect_set[OF c(1)] fr(1) c(2) by auto
  then have "w = speaker" using accepted by (auto simp: phrase_overlay_accepted_def list_all_iff)
  moreover have "v = JStr w" using v(2) by (auto simp: anchor_id_def split: json.splits)
  ultimately show "vitem (fr_decision fr) ''speaker_id'' = Inr (cl_speaker_id l)" using v(1) l by simp
qed

definition overlays_agree :: "local_ids \<Rightarrow> fragments_by_text \<Rightarrow> overlays_by_text \<Rightarrow> bool" where
  "overlays_agree ids fragments overlays \<longleftrightarrow> (\<forall>text_id frs ov. map_of fragments text_id = Some frs \<longrightarrow>
     ov \<in> set (overlays_of overlays text_id) \<longrightarrow> agrees_with ids frs ov)"

lemma overlays_of_dset: "overlays_of (dset k v d) k' = (if k' = k then v else overlays_of d k')"
  by (simp add: overlays_of_def)

lemma decide_phrase_agrees:
  assumes "decide_phrase p evidence active fragments (overlays, ds) phrase = Inr (overlays', ds')"
    and inv: "overlays_agree ids fragments overlays" and "forward_phrase phrase"
  shows "overlays_agree ids fragments overlays'"
proof -
  from assms(1) obtain voice text_id frs anchors d selected why where
    f: "map_of fragments text_id = Some frs" "phrase_anchor_ids phrase frs = Inr anchors" "phrase = JObj d"
    and o: "overlays' = accept_overlay overlays text_id d selected
      (phrase_overlay_accepted selected anchors (pp_require_anchor p)) why"
    by (auto simp: decide_phrase_def rbind_Inr_iff raise_if_Inr_iff ditem_def option_Inr_iff vdict_Inr_iff Let_def
        case_prod_beta)
  show ?thesis
  proof (cases "\<exists>speaker. selected = Some speaker \<and> phrase_overlay_accepted selected anchors (pp_require_anchor p)")
    case True
    then obtain speaker where sp: "selected = Some speaker" "phrase_overlay_accepted (Some speaker) anchors (pp_require_anchor p)" by auto
    have "agrees_with ids frs (dset ''reason'' (JStr why) (dset ''speaker_id'' (JStr speaker) d))"
      by (rule phrase_overlay_agrees[OF f(2) sp(2) f(3) assms(3)])
    then show ?thesis using inv f(1) sp by (auto simp: o accept_overlay_def overlays_agree_def overlays_of_dset)
  next
    case False
    then have "overlays' = overlays" by (auto simp: o accept_overlay_def split: option.splits)
    with inv show ?thesis by simp
  qed
qed

lemma final_label_agrees:
  assumes "\<forall>ov \<in> set overlays. agrees_with ids frs ov" "fr \<in> set frs" "fr_anchor fr" "fr_start fr \<le> i" "i < fr_end fr"
  shows "cl_speaker_id (final_label ids n overlays i base) = cl_speaker_id base \<or>
    vitem (fr_decision fr) ''speaker_id'' = Inr (cl_speaker_id (final_label ids n overlays i base))"
  using assms(1)
proof (induction overlays rule: rev_induct)
  case (snoc ov overlays)
  let ?l = "final_label ids n overlays i base"
  have step: "final_label ids n (overlays @ [ov]) i base = (case overlay_effect ids ov of
      Inr (js, l') \<Rightarrow> if covers n js i then l' else ?l | Inl _ \<Rightarrow> ?l)"
    by (simp only: final_label_def foldl_append foldl.simps)
  show ?case
  proof (cases "overlay_effect ids ov")
    case (Inr e)
    obtain js l where e: "e = (js, l)" by (cases e)
    show ?thesis
    proof (cases "covers n js i")
      case True
      have "agrees_with ids frs ov" using snoc.prems by simp
      with True Inr e assms(2-5) have "vitem (fr_decision fr) ''speaker_id'' = Inr (cl_speaker_id l)"
        unfolding agrees_with_def by blast
      then show ?thesis using True Inr e by (simp add: step)
    next
      case False
      then show ?thesis using snoc Inr e by (simp add: step)
    qed
  qed (use snoc step in simp)
qed (simp add: final_label_def)

section \<open>The track of one text\<close>

lemma reproject_ids: "reproject_text text_id source us frs overlays ids = Inr turns \<Longrightarrow> \<forall>t \<in> set turns. pt_text_id t = text_id"
  by (auto simp: reproject_text_def rbind_Inr_iff raise_if_Inr_iff rcollect_set dest!: turn_piece_Some)

lemma track_of_text:
  assumes track: "rmap f (sort_key fst fragments) = Inr xs"
    and f: "\<And>g e. f g = Inr e \<Longrightarrow> \<exists>source us. fragment_text (snd g) = Inr source \<and>
      reproject_text (fst g) source us (snd g) (overlays_of overlays (fst g)) ids = Inr e"
    and dist: "distinct (map fst fragments)" and mem: "map_of fragments text_id = Some frs"
  shows "\<exists>source us. fragment_text frs = Inr source \<and>
    reproject_text text_id source us frs (overlays_of overlays text_id) ids = Inr (filter (\<lambda>t. pt_text_id t = text_id) (concat xs))"
  using f[OF turns_of_text[OF track _ dist mem]] f reproject_ids by force

lemma text_turns_reproject:
  "text_turns asr align overlays ids g = Inr e \<Longrightarrow> \<exists>source us. fragment_text (snd g) = Inr source \<and>
     reproject_text (fst g) source us (snd g) (overlays_of overlays (fst g)) ids = Inr e"
  by (cases g) (auto simp: text_turns_def rbind_Inr_iff raise_if_Inr_iff)

lemma entry_label_id: "entry_label v = Inr l \<Longrightarrow> vget v ''speaker_id'' JNull = Inr (cl_speaker_id l)"
  by (auto simp: entry_label_def rbind_Inr_iff)

definition forward_phrases :: "json \<Rightarrow> bool" where
  "forward_phrases metadata \<longleftrightarrow> (case rbind (vitem metadata ''phrases'') py_iter of
     Inr ps \<Rightarrow> list_all forward_phrase ps | Inl _ \<Rightarrow> True)"

text \<open>
  C29: a phrase candidate never overrides a direct anchor: every character of an anchor fragment
  comes out with the identity its track entry had or the one its direct decision names, for
  phrases with non-negative bounds.
\<close>

theorem candidate_keeps_anchors:
  assumes build: "build_phrase_candidate x p = Inr r" and "forward_phrases (pb_metadata x)"
    and fragments: "source_fragments (pb_direct x) = Inr fragments"
    and plain: "list_all (\<lambda>(_, frs). list_all plain_fragment frs) fragments"
    and fr: "map_of fragments text_id = Some frs" "fr \<in> set frs" "fr_anchor fr" "fr_start fr \<le> i" "i < fr_end fr"
  shows "let labels = expand_turns (filter (\<lambda>t. pt_text_id t = text_id) (pq_track r)) in
    i < length labels \<and> (vget (fr_entry fr) ''speaker_id'' JNull = Inr (fst (labels ! i)) \<or>
      vitem (fr_decision fr) ''speaker_id'' = Inr (fst (labels ! i)))"
proof -
  from build fragments obtain ids active asr align ps overlays ds where
    ps: "rbind (vitem (pb_metadata x) ''phrases'') py_iter = Inr ps"
    and dec: "rfold (decide_phrase p (pb_evidence x) active fragments) ([], []) ps = Inr (overlays, ds)"
    and track: "phrase_track asr align fragments overlays ids = Inr (pq_track r)"
    by (auto simp: build_phrase_candidate_def rbind_Inr_iff raise_if_Inr_iff)
  have fwd: "\<forall>ph \<in> set ps. forward_phrase ph" using assms(2) by (simp add: forward_phrases_def ps list_all_iff)
  have "(\<lambda>(overlays, _). overlays_agree ids fragments overlays) (overlays, ds)"
  proof (rule rfold_invariant[OF _ _ dec])
    fix s ph s' assume s: "case s of (overlays, _) \<Rightarrow> overlays_agree ids fragments overlays" "ph \<in> set ps"
      "decide_phrase p (pb_evidence x) active fragments s ph = Inr s'"
    obtain o1 d1 o2 d2 where e: "s = (o1, d1)" "s' = (o2, d2)" by (cases s, cases s')
    have "overlays_agree ids fragments o2"
      by (rule decide_phrase_agrees[OF s(3)[unfolded e]]) (use s fwd in \<open>simp_all add: e\<close>)
    then show "case s' of (overlays, _) \<Rightarrow> overlays_agree ids fragments overlays" by (simp add: e)
  qed (simp add: overlays_agree_def overlays_of_def)
  then have agree: "\<forall>ov \<in> set (overlays_of overlays text_id). agrees_with ids frs ov"
    using fr(1) by (simp add: overlays_agree_def)
  note facts = source_fragments_facts[OF fragments]
  have mem: "(text_id, frs) \<in> set fragments" using fr(1) by (rule map_of_SomeD)
  have tl: "tiles 0 frs" using facts(2) mem by blast
  have pl: "\<forall>fr \<in> set frs. plain_fragment fr" using plain mem by (auto simp: list_all_iff)
  from track obtain xs where xs: "rmap (text_turns asr align overlays ids) (sort_key fst fragments) = Inr xs"
    "pq_track r = concat xs" by (auto simp: phrase_track_def rbind_Inr_iff)
  from track_of_text[OF xs(1) text_turns_reproject[where asr = asr and align = align and overlays = overlays and ids = ids]
      facts(1) fr(1)] obtain source us where
    rep: "reproject_text text_id source us frs (overlays_of overlays text_id) ids
      = Inr (filter (\<lambda>t. pt_text_id t = text_id) (pq_track r))" by (auto simp: xs(2))
  obtain l where l: "entry_label (fr_entry fr) = Inr l"
    "i < length (expand_turns (filter (\<lambda>t. pt_text_id t = text_id) (pq_track r)))"
    "expand_turns (filter (\<lambda>t. pt_text_id t = text_id) (pq_track r)) ! i
      = label_key (final_label ids (length source) (overlays_of overlays text_id) i l)"
    by (rule character_label[OF rep tl pl fr(2,4,5)])
  then show ?thesis
    using final_label_agrees[OF agree fr(2-5), where n = "length source" and base = l] entry_label_id[OF l(1)]
    by (auto simp: Let_def label_key_def)
qed

end
