(* ===== verification/Posterior_Properties.thy ===== *)
theory Posterior_Properties
  imports Posterior_Overlay Phrase_Properties
begin

text \<open>
  Properties of the posterior bounded phrase candidate: its runs, pieces, acceptance and relabelled
  positions, and that regular anchors come out of the whole build unchanged.
\<close>

section \<open>Runs\<close>

text \<open>Consecutive elements of equal key, as \<^verbatim>\<open>itertools.groupby\<close> would give them.\<close>

function key_groups :: "('a \<Rightarrow> 'k) \<Rightarrow> 'a list \<Rightarrow> 'a list list" where
  "key_groups k [] = []"
| "key_groups k (x # xs) = (x # takeWhile (\<lambda>y. k y = k x) xs) # key_groups k (dropWhile (\<lambda>y. k y = k x) xs)"
  by pat_completeness auto
termination by (relation "measure (length \<circ> snd)") (auto simp: le_imp_less_Suc length_dropWhile_le)

lemma key_groups_append:
  assumes "\<forall>x \<in> set cur. k x = c" "cur \<noteq> []" "xs = [] \<or> k (hd xs) \<noteq> c"
  shows "key_groups k (cur @ xs) = cur # key_groups k xs"
proof -
  obtain y ys where cur: "cur = y # ys" using assms(2) by (cases cur) auto
  have "takeWhile (\<lambda>z. k z = k y) (ys @ xs) = ys" "dropWhile (\<lambda>z. k z = k y) (ys @ xs) = xs"
    using assms(1,3) by (cases xs; simp add: cur takeWhile_append dropWhile_append)+
  then show ?thesis by (simp add: cur)
qed

definition frame_key :: "(top1_frame \<Rightarrow> bool) \<Rightarrow> top1_frame \<Rightarrow> int option" where
  "frame_key active f = (if active f then Some (tf_local f) else None)"

text \<open>The groups of active frames, by their first frame.\<close>

definition gated_groups :: "(top1_frame \<Rightarrow> bool) \<Rightarrow> top1_frame list \<Rightarrow> top1_frame list list" where
  "gated_groups active frames = filter (\<lambda>g. frame_key active (hd g) \<noteq> None) (key_groups (frame_key active) frames)"

text \<open>The frame loop, for every test of activity and every end of a run that drops an empty one.\<close>

locale gated_loop =
  fixes active :: "top1_frame \<Rightarrow> bool" and finish :: "top1_frame list \<Rightarrow> 'r list"
  assumes finish_Nil: "finish [] = []"
begin

lemma groups_inactive: "\<not> active f \<Longrightarrow> gated_groups active (f # fs) = gated_groups active fs"
proof (cases fs)
  case (Cons g gs)
  assume f: "\<not> active f"
  show ?thesis
  proof (cases "active g")
    case False
    with f Cons show ?thesis by (simp add: gated_groups_def frame_key_def)
  next
    case True
    with f Cons show ?thesis by (simp add: gated_groups_def frame_key_def)
  qed
qed (simp add: gated_groups_def frame_key_def)

lemma groups_extend:
  assumes "\<forall>f \<in> set cur. frame_key active f = Some c" "cur \<noteq> []" "xs = [] \<or> frame_key active (hd xs) \<noteq> Some c"
  shows "gated_groups active (cur @ xs) = cur # gated_groups active xs"
  using key_groups_append[of cur "frame_key active" "Some c" xs] assms by (simp add: gated_groups_def)

lemma step_groups:
  assumes "\<forall>f \<in> set cur. frame_key active f = Some c"
  shows "(let (r, cur') = foldl (gated_step active finish) (runs, cur) fs in r @ finish cur')
    = runs @ concat (map finish (gated_groups active (cur @ fs)))"
  using assms
proof (induction fs arbitrary: runs cur c)
  case Nil
  then show ?case using groups_extend[of cur c "[]"] by (cases "cur = []") (simp_all add: finish_Nil gated_groups_def)
next
  case (Cons f fs)
  have groups: "gated_groups active (cur @ f # fs) = (if cur = [] then [] else [cur]) @ gated_groups active (f # fs)"
    if "frame_key active f \<noteq> Some c"
    using groups_extend[of cur c "f # fs"] Cons.prems that by (cases "cur = []") auto
  have last: "cur \<noteq> [] \<Longrightarrow> tf_local (last cur) = c"
    using Cons.prems last_in_set[of cur] by (auto simp: frame_key_def split: if_splits)
  consider (off) "\<not> active f" | (new) "active f" "cur \<noteq> []" "tf_local f \<noteq> c"
    | (start) "active f" "cur = []" | (same) "active f" "tf_local f = c" "cur \<noteq> []" by blast
  then show ?case
  proof cases
    case off
    have "gated_step active finish (runs, cur) f = (runs @ finish cur, [])"
      using off by (simp add: gated_step_def)
    then show ?thesis using Cons.IH[of "[]" c "runs @ finish cur"] off groups
      by (simp add: groups_inactive finish_Nil frame_key_def)
  next
    case new
    then have "gated_step active finish (runs, cur) f = (runs @ finish cur, [f])"
      using last by (simp add: gated_step_def)
    then show ?thesis using Cons.IH[of "[f]" "tf_local f" "runs @ finish cur"] new groups by (simp add: frame_key_def)
  next
    case start
    then have "gated_step active finish (runs, cur) f = (runs, [f])" by (simp add: gated_step_def)
    then show ?thesis using Cons.IH[of "[f]" "tf_local f" runs] start by (simp add: frame_key_def)
  next
    case same
    then have "gated_step active finish (runs, cur) f = (runs, cur @ [f])"
      using last by (simp add: gated_step_def)
    then show ?thesis using Cons.IH[of "cur @ [f]" c runs] same Cons.prems by (simp add: frame_key_def)
  qed
qed

lemma runs_are_groups: "gated_runs active finish frames = concat (map finish (gated_groups active frames))"
  using step_groups[of "[]" 0 "[]" frames] by (simp add: gated_runs_def)

end

interpretation sustained: gated_loop "active_frame p" "finish_sustained minimum b" for p minimum b
  by unfold_locales (simp add: finish_sustained_def)

text \<open>
  The runs the posterior candidate collects in its loop are those of a plain grouping:
  the frames around the phrase split into consecutive frames of one active local speaker, each group
  turned into a run if it lasts long enough.
\<close>

lemma active_runs_are_groups:
  "active_runs frames b p = concat (map (finish_sustained (bp_minimum_run p) b)
     (gated_groups (active_frame p) (phrase_frames frames b)))"
  unfolding active_runs_def by (rule sustained.runs_are_groups)

section \<open>Relabelled positions\<close>

interpretation pos: run_content_on "\<lambda>i :: int. (i, i + 1)" "\<lambda>r i. snd r = i" "\<lambda>r i. (fst r, i + 1)"
  "\<lambda>i. [i]" "\<lambda>(s, e). [s..e - 1]" "\<lambda>(s, e). s < e"
  by unfold_locales (auto simp: upto_rec2)

interpretation pos_max: run_maximal "\<lambda>i :: int. (i, i + 1)" "\<lambda>r i. snd r = i" "\<lambda>r i. (fst r, i + 1)"
  "\<lambda>r q. snd r = fst q"
  by unfold_locales auto

lemma position_ranges_facts:
  "concat (map (\<lambda>(s, e). [s..e - 1]) (position_ranges is)) = is"
  "\<forall>(s, e) \<in> set (position_ranges is). s < e"
  "successively (\<lambda>r q. snd r \<noteq> fst q) (position_ranges is)"
  using pos.merge_content_on[of "is"] pos_max.merge_maximal[of "is"] by (simp_all add: position_ranges_def)

lemma overlay_ranges_facts:
  assumes "overlay_ranges piece selected frs = Inr ranges"
  obtains sa sb a b where "vitem piece ''source_start'' = Inr sa" "vitem piece ''source_end'' = Inr sb"
    "range_bound sa = Inr a" "range_bound sb = Inr b"
    "concat (map (\<lambda>(s, e). [s..e - 1]) ranges) = filter (\<lambda>i. free_position selected frs i = Inr True) [a..b - 1]"
    "\<forall>(s, e) \<in> set ranges. s < e" "successively (\<lambda>r q. snd r \<noteq> fst q) ranges"
  using assms that by (auto simp: overlay_ranges_def rbind_Inr_iff position_ranges_facts dest!: rfilter_Inr)

section \<open>Regular anchors are not relabelled\<close>

definition spares_regular :: "local_ids \<Rightarrow> fragment list \<Rightarrow> obj \<Rightarrow> bool" where
  "spares_regular ids frs overlay \<longleftrightarrow> (\<forall>fr js l n i. fr \<in> set frs \<longrightarrow> is_regular_anchor fr = Inr True \<longrightarrow>
     overlay_effect ids overlay = Inr (js, l) \<longrightarrow> fr_start fr \<le> i \<longrightarrow> i < fr_end fr \<longrightarrow> \<not> covers n js i)"

lemma int_less_bound: "range_bound v = Inr b \<Longrightarrow> int_less n v = Inr (int n < b)"
  by (simp add: int_less_def range_bound_num) (metis of_int_less_iff of_int_of_nat_eq)

lemma int_greater_bound: "range_bound v = Inr b \<Longrightarrow> int_greater n v = Inr (b < int n)"
  by (simp add: int_greater_def range_bound_num) (metis of_int_less_iff of_int_of_nat_eq)

lemma range_overlay_effect:
  "overlay_effect ids (range_overlay selected reason (a, b)) = Inr (js, l) \<Longrightarrow> js = [a..b - 1]"
  by (auto simp: overlay_effect_def range_overlay_def rbind_Inr_iff range_bound_def)

lemma range_spares_regular:
  assumes overlaps: "overlapping_fragments piece frs = Inr overlaps"
    and ranges: "overlay_ranges piece selected overlaps = Inr ranges" "ab \<in> set ranges"
    and tl: "tiles c frs" and fwd: "piece = JObj d" "forward_phrase piece"
  shows "spares_regular ids frs (range_overlay selected reason ab)"
  unfolding spares_regular_def
proof (intro allI impI notI)
  fix fr js l n i
  assume fr: "fr \<in> set frs" "is_regular_anchor fr = Inr True" "fr_start fr \<le> i" "i < fr_end fr" "covers n js i"
    and eff: "overlay_effect ids (range_overlay selected reason ab) = Inr (js, l)"
  obtain sa sb a b where s: "vitem piece ''source_start'' = Inr sa" "vitem piece ''source_end'' = Inr sb"
    "range_bound sa = Inr a" "range_bound sb = Inr b"
    and free: "concat (map (\<lambda>(s, e). [s..e - 1]) ranges)
        = filter (\<lambda>i. free_position selected overlaps i = Inr True) [a..b - 1]"
    and proper: "\<forall>(s, e) \<in> set ranges. s < e"
    by (rule overlay_ranges_facts[OF ranges(1)])
  obtain u v where ab: "ab = (u, v)" by (cases ab)
  have js: "js = [u..v - 1]" using range_overlay_effect eff by (simp add: ab)
  have sub: "j \<in> set (filter (\<lambda>i. free_position selected overlaps i = Inr True) [a..b - 1])" if "j \<in> set [u..v - 1]" for j
    unfolding free[symmetric] using ranges(2) that by (force simp: ab)
  have "0 \<le> a" using fwd s(1,3) by (simp add: forward_phrase_def get_of_item)
  moreover have "a \<le> u" using sub[of u] proper ranges(2) by (auto simp: ab)
  ultimately have "int i \<in> set [u..v - 1]" using fr(5) by (auto simp: js covers_def list_ex_iff)
  from sub[OF this] have i: "free_position selected overlaps (int i) = Inr True" "a \<le> int i" "int i < b" by auto
  have "rbind (rbind (vitem piece ''source_end'') (int_less (fr_start fr))) (\<lambda>before.
      if \<not> before then Inr False else rbind (vitem piece ''source_start'') (int_greater (fr_end fr))) = Inr True"
    using s fr(3,4) i(2,3) by (simp add: int_less_bound int_greater_bound)
  then have mem: "fr \<in> set overlaps" "set overlaps \<subseteq> set frs"
    using rfilter_Inr[OF overlaps[unfolded overlapping_fragments_def]] fr(1) by auto
  then have "owner_of overlaps (int i) \<noteq> None"
    using fr(3,4) unfolding owner_of_def find_None_iff by auto
  then obtain g where g: "owner_of overlaps (int i) = Some g" by auto
  then have "g \<in> set overlaps" "fr_start g \<le> i" "i < fr_end g" by (auto simp: owner_of_def find_Some_iff)
  with mem have "g = fr" using tiles_disjoint[OF tl, of g fr i] fr by auto
  with i(1) g fr(2) show False by (simp add: free_position_def)
qed

definition overlays_spare :: "local_ids \<Rightarrow> fragments_by_text \<Rightarrow> overlays_by_text \<Rightarrow> bool" where
  "overlays_spare ids fragments overlays \<longleftrightarrow> (\<forall>text_id frs ov. map_of fragments text_id = Some frs \<longrightarrow>
     ov \<in> set (overlays_of overlays text_id) \<longrightarrow> spares_regular ids frs ov)"

lemma evaluate_piece_spares:
  assumes "evaluate_piece x (overlays, ds) piece = Inr (overlays', ds')"
    and inv: "overlays_spare ids (pe_fragments x) overlays" and fwd: "forward_phrase piece"
    and tl: "\<forall>(_, frs) \<in> set (pe_fragments x). tiles 0 frs"
  shows "overlays_spare ids (pe_fragments x) overlays'"
proof -
  from assms(1) obtain text_id frs overlaps selected accepted reason ranges d where
    f: "map_of (pe_fragments x) text_id = Some frs" "overlapping_fragments piece frs = Inr overlaps" "piece = JObj d"
    and r: "(if accepted then overlay_ranges piece selected overlaps else Inr []) = Inr ranges"
    and o: "overlays' = add_ranges overlays text_id selected reason ranges"
    by (auto simp: evaluate_piece_def rbind_Inr_iff ditem_def option_Inr_iff vdict_Inr_iff case_prod_beta)
  have "(text_id, frs) \<in> set (pe_fragments x)" using f(1) by (rule map_of_SomeD)
  with tl have "tiles 0 frs" by blast
  then have "\<forall>ab \<in> set ranges. spares_regular ids frs (range_overlay selected reason ab)"
    using r range_spares_regular[OF f(2) _ _ _ f(3) fwd] by (auto split: if_splits)
  then show ?thesis using inv f(1) by (auto simp: o add_ranges_def overlays_spare_def overlays_of_dset)
qed

lemma final_label_untouched:
  "\<forall>ov \<in> set overlays. spares_regular ids frs ov \<Longrightarrow> fr \<in> set frs \<Longrightarrow> is_regular_anchor fr = Inr True \<Longrightarrow>
   fr_start fr \<le> i \<Longrightarrow> i < fr_end fr \<Longrightarrow> final_label ids n overlays i base = base"
proof (induction overlays)
  case (Cons ov overlays)
  have "\<not> covers n js i" if "overlay_effect ids ov = Inr (js, l)" for js l
    using Cons.prems that unfolding spares_regular_def by (meson list.set_intros(1))
  then show ?case using Cons by (auto simp: final_label_def split: sum.splits)
qed (simp add: final_label_def)

lemma text_turns_of_reproject:
  "text_turns_of metadata overlays ids g = Inr e \<Longrightarrow> \<exists>source us. fragment_text (snd g) = Inr source \<and>
     reproject_text (fst g) source us (snd g) (overlays_of overlays (fst g)) ids = Inr e"
  by (cases g) (auto simp: text_turns_of_def rbind_Inr_iff raise_if_Inr_iff)

definition forward_pieces :: "json \<Rightarrow> bool" where
  "forward_pieces metadata \<longleftrightarrow> (case rbind (vitem metadata ''pieces'') py_iter of
     Inr ps \<Rightarrow> list_all forward_phrase ps | Inl _ \<Rightarrow> True)"

lemma evaluation_spares:
  assumes ev: "evaluate_pieces direct metadata evidence manifest p = Inr ev" and "forward_pieces metadata"
    and fragments: "source_fragments direct = Inr fragments"
  shows "el_fragments ev = fragments" "overlays_spare ids fragments (el_overlays ev)"
proof -
  from ev fragments obtain x ps overlays ds where
    ps: "rbind (vitem metadata ''pieces'') py_iter = Inr ps" and x: "pe_fragments x = fragments"
    and fold: "rfold (evaluate_piece x) ([], []) ps = Inr (overlays, ds)"
    and e: "el_fragments ev = fragments" "el_overlays ev = overlays"
    by (auto simp: evaluate_pieces_def rbind_Inr_iff Let_def case_prod_beta) (metis piece_context.select_convs(5) surjective_pairing)
  have fwd: "\<forall>ph \<in> set ps. forward_phrase ph" using assms(2) by (simp add: forward_pieces_def ps list_all_iff)
  have "(\<lambda>(overlays, _). overlays_spare ids fragments overlays) (overlays, ds)"
  proof (rule rfold_invariant[OF _ _ fold])
    fix s ph s' assume s: "case s of (overlays, _) \<Rightarrow> overlays_spare ids fragments overlays" "ph \<in> set ps"
      "evaluate_piece x s ph = Inr s'"
    obtain o1 d1 o2 d2 where q: "s = (o1, d1)" "s' = (o2, d2)" by (cases s, cases s')
    have "overlays_spare ids (pe_fragments x) o2"
      by (rule evaluate_piece_spares[OF s(3)[unfolded q]])
        (use s fwd source_fragments_facts(2)[OF fragments] in \<open>simp_all add: q x\<close>)
    then show "case s' of (overlays, _) \<Rightarrow> overlays_spare ids fragments overlays" by (simp add: q x)
  qed (simp add: overlays_spare_def overlays_of_def)
  then show "el_fragments ev = fragments" "overlays_spare ids fragments (el_overlays ev)" by (simp_all add: e)
qed


text \<open>
  C28: the posterior candidate leaves regular anchors alone: every character of a regular
  anchor fragment comes out of the whole build with the identity, certainty and reason of its own
  track entry, for pieces with non-negative bounds.
\<close>

theorem posterior_keeps_regular_anchors:
  assumes build: "build_posterior_candidate direct metadata evidence manifest p = Inr r"
    and "forward_pieces metadata" and fragments: "source_fragments direct = Inr fragments"
    and plain: "list_all (\<lambda>(_, frs). list_all plain_fragment frs) fragments"
    and fr: "map_of fragments text_id = Some frs" "fr \<in> set frs" "is_regular_anchor fr = Inr True"
      "fr_start fr \<le> i" "i < fr_end fr"
  shows "let labels = expand_turns (filter (\<lambda>t. pt_text_id t = text_id) (po_track r)) in
    i < length labels \<and> rbind (entry_label (fr_entry fr)) (\<lambda>l. Inr (label_key l)) = Inr (labels ! i)"
proof -
  from build obtain ev where ev: "evaluate_pieces direct metadata evidence manifest p = Inr ev"
    "project_track metadata (el_fragments ev) (el_overlays ev) (el_id_to_local ev) = Inr (po_track r)"
    by (auto simp: build_posterior_candidate_def rbind_Inr_iff)
  let ?ids = "el_id_to_local ev"
  note spare = evaluation_spares[OF ev(1) assms(2) fragments]
  have untouched: "\<forall>ov \<in> set (overlays_of (el_overlays ev) text_id). spares_regular ?ids frs ov"
    using spare(2)[of ?ids] fr(1) by (simp add: overlays_spare_def)
  note facts = source_fragments_facts[OF fragments]
  have mem: "(text_id, frs) \<in> set fragments" using fr(1) by (rule map_of_SomeD)
  have tl: "tiles 0 frs" using facts(2) mem by blast
  have pl: "\<forall>fr \<in> set frs. plain_fragment fr" using plain mem by (auto simp: list_all_iff)
  from ev(2) obtain xs where xs: "rmap (text_turns_of metadata (el_overlays ev) ?ids) (sort_key fst fragments) = Inr xs"
    "po_track r = concat xs" by (auto simp: project_track_def rbind_Inr_iff Let_def spare(1))
  from track_of_text[OF xs(1) text_turns_of_reproject[where metadata = metadata and overlays = "el_overlays ev" and ids = ?ids]
      facts(1) fr(1)] obtain source us where
    rep: "reproject_text text_id source us frs (overlays_of (el_overlays ev) text_id) ?ids
      = Inr (filter (\<lambda>t. pt_text_id t = text_id) (po_track r))" by (auto simp: xs(2))
  obtain l where l: "entry_label (fr_entry fr) = Inr l"
    "i < length (expand_turns (filter (\<lambda>t. pt_text_id t = text_id) (po_track r)))"
    "expand_turns (filter (\<lambda>t. pt_text_id t = text_id) (po_track r)) ! i
      = label_key (final_label ?ids (length source) (overlays_of (el_overlays ev) text_id) i l)"
    by (rule character_label[OF rep tl pl fr(2,4,5)])
  then show ?thesis using final_label_untouched[OF untouched fr(2-5)] by (simp add: Let_def)
qed

text \<open>
  The ranges an accepted piece may relabel are exactly its free positions (outside
  regular anchors and anchors that agree already), each once and in order, as maximal stretches.
\<close>

lemma overlay_ranges_exact:
  assumes "overlay_ranges piece selected frs = Inr ranges"
    "rbind (vitem piece ''source_start'') range_bound = Inr a" "rbind (vitem piece ''source_end'') range_bound = Inr b"
  shows "concat (map (\<lambda>(s, e). [s..e - 1]) ranges) = filter (\<lambda>i. free_position selected frs i = Inr True) [a..b - 1] \<and>
    successively (\<lambda>r q. snd r < fst q) ranges"
proof -
  obtain sa sb a' b' where s: "vitem piece ''source_start'' = Inr sa" "vitem piece ''source_end'' = Inr sb"
    "range_bound sa = Inr a'" "range_bound sb = Inr b'"
    and r': "concat (map (\<lambda>(s, e). [s..e - 1]) ranges) = filter (\<lambda>i. free_position selected frs i = Inr True) [a'..b' - 1]"
    and proper: "\<forall>(s, e) \<in> set ranges. s < e" and apart: "successively (\<lambda>r q. snd r \<noteq> fst q) ranges"
    by (rule overlay_ranges_facts[OF assms(1)])
  have r: "concat (map (\<lambda>(s, e). [s..e - 1]) ranges) = filter (\<lambda>i. free_position selected frs i = Inr True) [a..b - 1]"
    using r' s assms(2,3) by simp
  have "sorted_wrt (<) (concat (map (\<lambda>(s, e). [s..e - 1]) ranges))"
    unfolding r by (intro sorted_wrt_filter) simp
  then have "successively (\<lambda>r q. snd r < fst q) ranges"
    using proper apart
  proof (induction ranges rule: induct_list012)
    case (3 x y zs)
    obtain s e s' e' where xy: "x = (s, e)" "y = (s', e')" by (cases x, cases y)
    have "e - 1 \<in> set [s..e - 1]" "s' \<in> set [s'..e' - 1]" using "3.prems"(2) by (auto simp: xy)
    moreover have "sorted_wrt (<) ([s..e - 1] @ [s'..e' - 1] @ concat (map (\<lambda>(s, e). [s..e - 1]) zs))"
      using "3.prems"(1) by (simp only: xy list.map concat.simps prod.case)
    ultimately have "e - 1 < s'" unfolding sorted_wrt_append set_append by blast
    moreover have "e \<noteq> s'" using "3.prems"(3) by (simp add: xy)
    moreover have "successively (\<lambda>r q. snd r < fst q) (y # zs)"
    proof (rule "3.IH"(2))
      show "sorted_wrt (<) (concat (map (\<lambda>(s, e). [s..e - 1]) (y # zs)))"
        using "3.prems"(1) unfolding list.map concat.simps sorted_wrt_append by (elim conjE) (intro conjI)
      show "\<forall>(s, e) \<in> set (y # zs). s < e" using "3.prems"(2) by simp
      show "successively (\<lambda>r q. snd r \<noteq> fst q) (y # zs)" using "3.prems"(3) by simp
    qed
    ultimately show ?case by (simp add: xy)
  qed simp_all
  with r show ?thesis ..
qed

section \<open>Acceptance\<close>

text \<open>
  A piece is only accepted when its voiceprint selects the mapped identity, no regular
  anchor it touches names another one, and a short anchor that does is overruled only by a long
  piece under a policy that allows it.
\<close>

lemma accepted_piece_sound:
  assumes "accept_piece piece selected mapped_id frs p = Inr (True, reason)"
  shows "selected = Some mapped_id \<and>
    list_all (\<lambda>fr. is_regular_anchor fr = Inr True \<longrightarrow> other_identity mapped_id fr = Inr False) frs \<and>
    (list_all (\<lambda>fr. fr_anchor fr \<longrightarrow> other_identity mapped_id fr = Inr False) frs \<or>
     regular_piece p piece = Inr True \<and> bp_allow_regular p)"
proof -
  from assms obtain regular short conflict where s: "selected = Some mapped_id"
    and reg: "rfilter is_regular_anchor frs = Inr regular" "rany (other_identity mapped_id) regular = Inr False"
    and sh: "rfilter is_short_anchor frs = Inr short" "rany (other_identity mapped_id) short = Inr conflict"
    and long: "conflict \<longrightarrow> regular_piece p piece = Inr True \<and> bp_allow_regular p"
    by (cases selected) (auto simp: accept_piece_def rbind_Inr_iff split: if_splits)
  have r: "\<forall>fr \<in> set frs. is_regular_anchor fr = Inr True \<longrightarrow> other_identity mapped_id fr = Inr False"
    using rfilter_Inr[OF reg(1)] rany_False[OF reg(2)] by auto
  moreover have "\<forall>fr \<in> set frs. fr_anchor fr \<longrightarrow> other_identity mapped_id fr = Inr False" if "\<not> conflict"
  proof (intro ballI impI)
    fix fr assume fr: "fr \<in> set frs" "fr_anchor fr"
    then obtain b where b: "is_regular_anchor fr = Inr b" using rfilter_Inr[OF reg(1)] by blast
    show "other_identity mapped_id fr = Inr False"
    proof (cases b)
      case False
      then have "is_short_anchor fr = Inr True" using fr b by (simp add: is_short_anchor_def)
      then have "fr \<in> set short" using rfilter_Inr[OF sh(1)] fr(1) by simp
      then show ?thesis using rany_False[of "other_identity mapped_id" short] sh(2) that by simp
    qed (use r fr b in simp)
  qed
  ultimately show ?thesis using s long by (auto simp: list_all_iff)
qed

section \<open>Pieces\<close>

lemma extend_piece_facts:
  "extend_piece ts limit i = Inr r \<Longrightarrow> i \<le> r \<and> r \<le> max i limit \<and>
   (\<forall>j t. i \<le> j \<longrightarrow> j < limit \<longrightarrow> py_nth ts j = Inr (Some t) \<longrightarrow> r \<le> j)"
proof (induction ts limit i rule: extend_piece.induct)
  case (1 ts limit i)
  show ?case
  proof (cases "i < limit")
    case True
    with "1.prems" obtain t where t: "py_nth ts i = Inr t" "(if t = None then extend_piece ts limit (i + 1) else Inr i) = Inr r"
      by (auto simp: rbind_Inr_iff)
    show ?thesis
    proof (cases t)
      case None
      with t have e: "extend_piece ts limit (i + 1) = Inr r" by simp
      have IH: "i + 1 \<le> r \<and> r \<le> max (i + 1) limit \<and>
          (\<forall>j t. i + 1 \<le> j \<longrightarrow> j < limit \<longrightarrow> py_nth ts j = Inr (Some t) \<longrightarrow> r \<le> j)"
        by (rule "1.IH"[OF True _ e]) (simp add: None)
      moreover have "i + 1 \<le> j" if "i \<le> j" "py_nth ts j = Inr (Some u)" for j u
      proof -
        have "j \<noteq> i" using that(2) t(1) None by auto
        with that(1) show ?thesis by simp
      qed
      ultimately show ?thesis using True by (auto simp: max_def split: if_splits)
    qed (use t in auto)
  qed (use "1.prems" in auto)
qed

definition piece_ok :: "posterior_policy \<Rightarrow> sustained_run list \<Rightarrow> int \<Rightarrow> int \<Rightarrow> piece_group \<Rightarrow> bool" where
  "piece_ok p runs a b g \<longleftrightarrow> a \<le> pg_source_start g \<and> pg_source_start g < pg_source_end g \<and> pg_source_end g \<le> b \<and>
     pg_run g \<in> set runs \<and> sr_start (pg_run g) \<le> pg_start g \<and> pg_end g \<le> sr_end (pg_run g) \<and>
     bp_minimum_piece p \<le> pg_end g - pg_start g + EPSILON"

definition pieces_at :: "posterior_policy \<Rightarrow> piece_setup \<Rightarrow> int \<Rightarrow> int \<Rightarrow> piece_group list \<Rightarrow> bool" where
  "pieces_at p x a i groups \<longleftrightarrow> (\<forall>g \<in> set groups. piece_ok p (px_runs x) a (px_limit x) g) \<and>
     sorted_wrt (\<lambda>g h. pg_source_end g \<le> pg_source_start h) groups \<and>
     (\<forall>g \<in> set groups. \<forall>j t. i \<le> j \<longrightarrow> j < px_limit x \<longrightarrow> py_nth (px_times x) j = Inr (Some t) \<longrightarrow> pg_source_end g \<le> j)"

definition piece_inv :: "posterior_policy \<Rightarrow> piece_setup \<Rightarrow> int \<Rightarrow> int \<Rightarrow> piece_state \<Rightarrow> bool" where
  "piece_inv p x a i = (\<lambda>(groups, run, cur). pieces_at p x a i groups \<and> (run = None \<longrightarrow> cur = []) \<and>
     (\<forall>n. run = Some n \<longrightarrow> n < length (px_runs x)) \<and> sorted_wrt (<) (map fst cur) \<and>
     (\<forall>c \<in> set cur. a \<le> fst c \<and> fst c < i \<and> fst c < px_limit x) \<and>
     (\<forall>g \<in> set groups. \<forall>c \<in> set cur. pg_source_end g \<le> fst c))"

lemma pieces_at_later: "pieces_at p x a i groups \<Longrightarrow> pieces_at p x a (i + 1) groups"
  by (auto simp: pieces_at_def)

lemma finish_piece_one:
  assumes "finish_piece p x run cur = Inr gs" "gs \<noteq> []"
  obtains n g r where "run = Some n" "cur \<noteq> []" "gs = [g]"
    "extend_piece (px_times x) (px_limit x) (fst (last cur) + 1) = Inr r"
    "pg_source_start g = fst (hd cur)" "pg_source_end g = r" "pg_run g = px_runs x ! n"
    "sr_start (px_runs x ! n) \<le> pg_start g" "pg_end g \<le> sr_end (px_runs x ! n)"
    "\<not> pg_end g - pg_start g + EPSILON < bp_minimum_piece p"
proof (cases run)
  case (Some n)
  define s e where "s = max (sr_start (px_runs x ! n)) (fst (time_hull (map snd cur)))"
    and "e = min (sr_end (px_runs x ! n)) (snd (time_hull (map snd cur)))"
  have unfold: "finish_piece p x run cur = (if cur = [] then Inr [] else
      if e - s + EPSILON < bp_minimum_piece p then Inr []
      else rbind (extend_piece (px_times x) (px_limit x) (fst (last cur) + 1)) (\<lambda>r.
        Inr [\<lparr>pg_source_start = fst (hd cur), pg_source_end = r, pg_start = s, pg_end = e, pg_run = px_runs x ! n\<rparr>]))"
    by (simp only: finish_piece_def Some option.case Let_def case_prod_beta s_def e_def)
  have cur: "cur \<noteq> []" and long: "\<not> e - s + EPSILON < bp_minimum_piece p"
    using assms by (simp_all only: unfold split: if_splits) simp_all
  then obtain r where r: "extend_piece (px_times x) (px_limit x) (fst (last cur) + 1) = Inr r"
    "gs = [\<lparr>pg_source_start = fst (hd cur), pg_source_end = r, pg_start = s, pg_end = e, pg_run = px_runs x ! n\<rparr>]"
    using assms(1) by (auto simp only: unfold if_False rbind_Inr_iff sum.inject)
  show ?thesis by (rule that[OF Some cur r(2) r(1)]) (use long in \<open>simp_all add: s_def e_def\<close>)
qed (use assms in \<open>simp add: finish_piece_def\<close>)

lemma finish_piece_inv:
  assumes inv: "piece_inv p x a i (groups, run, cur)" and fin: "finish_piece p x run cur = Inr gs"
  shows "pieces_at p x a i (groups @ gs)"
proof (cases "gs = []")
  case True
  with inv show ?thesis by (simp add: piece_inv_def)
next
  case False
  obtain n g r where n: "run = Some n" "cur \<noteq> []" "gs = [g]"
    and e: "extend_piece (px_times x) (px_limit x) (fst (last cur) + 1) = Inr r"
    and g: "pg_source_start g = fst (hd cur)" "pg_source_end g = r" "pg_run g = px_runs x ! n"
    "sr_start (px_runs x ! n) \<le> pg_start g" "pg_end g \<le> sr_end (px_runs x ! n)"
    "\<not> pg_end g - pg_start g + EPSILON < bp_minimum_piece p"
    by (rule finish_piece_one[OF fin False])
  have mem: "hd cur \<in> set cur" "last cur \<in> set cur" using n(2) by simp_all
  have le: "fst (hd cur) \<le> fst (last cur)"
  proof -
    obtain c cs where "cur = c # cs" using n(2) by (cases cur) auto
    then show ?thesis using inv by (auto simp: piece_inv_def intro: less_imp_le)
  qed
  note x = extend_piece_facts[OF e]
  have b: "a \<le> fst (hd cur)" "fst (last cur) < i" "fst (last cur) < px_limit x" "n < length (px_runs x)"
    using inv mem n(1) by (auto simp: piece_inv_def)
  have "piece_ok p (px_runs x) a (px_limit x) g" using g x b le by (simp add: piece_ok_def max_def split: if_splits)
  moreover have "\<forall>h \<in> set groups. pg_source_end h \<le> pg_source_start g" using inv mem g(1) by (auto simp: piece_inv_def)
  moreover have "pg_source_end g \<le> j" if "i \<le> j" "j < px_limit x" "py_nth (px_times x) j = Inr (Some t)" for j t
  proof -
    have "fst (last cur) + 1 \<le> j" using b(2) that(1) by linarith
    with x that(2,3) g(2) show ?thesis by blast
  qed
  ultimately show ?thesis using inv n(3) by (auto simp: piece_inv_def pieces_at_def sorted_wrt_append)
qed

lemma piece_step_inv:
  assumes inv: "piece_inv p x a i (groups, run, cur)" and i: "a \<le> i" "i < px_limit x"
    and step: "piece_step p x (groups, run, cur) i = Inr st"
  shows "piece_inv p x a (i + 1) st"
proof -
  from step obtain t where t: "py_nth (px_times x) i = Inr t" by (auto simp: piece_step_def rbind_Inr_iff)
  have later: "piece_inv p x a (i + 1) (groups, run, cur)"
    using inv by (fastforce simp: piece_inv_def pieces_at_def)
  show ?thesis
  proof (cases t)
    case None
    then have "st = (groups, run, cur)" using step t by (simp add: piece_step_def)
    with later show ?thesis by simp
  next
    case (Some se)
    obtain s e where se: "se = (s, e)" by (cases se)
    have timed: "py_nth (px_times x) i = Inr (Some (s, e))" using t Some se by simp
    show ?thesis
    proof (cases "e \<le> s")
      case True
      then have "st = (groups, run, cur)" using step timed by (simp add: piece_step_def)
      with later show ?thesis by simp
    next
      case False
      note long = this
      show ?thesis
      proof (cases "run_for_time (px_runs x) (D (1 / 2) * (s + e))")
        case None
        with step timed long obtain gs where "finish_piece p x run cur = Inr gs" "st = (groups @ gs, None, [])"
          by (auto simp: piece_step_def rbind_Inr_iff)
        then show ?thesis using finish_piece_inv[OF inv] by (simp add: piece_inv_def pieces_at_later)
      next
        case (Some n)
        have n: "n < length (px_runs x)" using Some by (auto simp: run_for_time_def Let_def split: if_splits)
        show ?thesis
        proof (cases "run \<noteq> None \<and> run \<noteq> Some n")
          case True
          with step timed long Some obtain gs where gs: "finish_piece p x run cur = Inr gs"
            "st = (groups @ gs, Some n, [(i, s, e)])"
            by (auto simp: piece_step_def rbind_Inr_iff)
          have "pieces_at p x a i (groups @ gs)" by (rule finish_piece_inv[OF inv gs(1)])
          moreover from this have "\<forall>g \<in> set (groups @ gs). pg_source_end g \<le> i"
            using timed i(2) unfolding pieces_at_def by blast
          ultimately show ?thesis using i n by (simp add: piece_inv_def gs(2) pieces_at_later)
        next
          case False
          then have st: "st = (groups, Some n, cur @ [(i, s, e)])" using step timed long Some by (auto simp: piece_step_def)
          have "\<forall>g \<in> set groups. pg_source_end g \<le> i"
            using inv timed i(2) unfolding piece_inv_def pieces_at_def by auto
          then show ?thesis using later i n inv by (auto simp: st piece_inv_def sorted_wrt_append)
        qed
      qed
    qed
  qed
qed

lemma piece_fold_inv:
  "rfold (piece_step p x) st [i..px_limit x - 1] = Inr st' \<Longrightarrow> a \<le> i \<Longrightarrow> piece_inv p x a i st \<Longrightarrow>
   \<exists>k. piece_inv p x a k st'"
proof (induction "nat (px_limit x - i)" arbitrary: i st)
  case 0
  then show ?case by auto
next
  case (Suc m)
  then have up: "[i..px_limit x - 1] = i # [i + 1..px_limit x - 1]" by (intro upto_rec1) simp
  with Suc.prems(1) obtain s1 where s1: "piece_step p x st i = Inr s1" "rfold (piece_step p x) s1 [i + 1..px_limit x - 1] = Inr st'"
    by (auto simp: rbind_Inr_iff)
  obtain groups run cur where st: "st = (groups, run, cur)" by (cases st)
  have "piece_inv p x a (i + 1) s1"
    using piece_step_inv[of p x a i groups run cur s1] Suc s1(1) by (simp add: st)
  then show ?case using Suc.hyps(1)[OF _ s1(2)] Suc.hyps(2) Suc.prems(2) by simp
qed

text \<open>
  The pieces cut from a phrase lie inside it, are non-empty, disjoint and in order, and
  each lasts long enough within the sustained run it comes from.
\<close>

lemma phrase_pieces_ordered:
  assumes "phrase_pieces phrase source us runs p = Inr groups"
    "rbind (vitem phrase ''source_start'') range_bound = Inr a" "rbind (vitem phrase ''source_end'') range_bound = Inr b"
  shows "list_all (piece_ok p runs a b) groups \<and> sorted_wrt (\<lambda>g h. pg_source_end g \<le> pg_source_start h) groups"
proof -
  from assms obtain ts gs run cur g where
    f: "rfold (piece_step p \<lparr>px_times = ts, px_runs = runs, px_limit = b\<rparr>) ([], None, []) [a..b - 1] = Inr (gs, run, cur)"
    and fin: "finish_piece p \<lparr>px_times = ts, px_runs = runs, px_limit = b\<rparr> run cur = Inr g" and groups: "groups = gs @ g"
    by (auto simp: phrase_pieces_def rbind_Inr_iff Let_def)
  let ?x = "\<lparr>px_times = ts, px_runs = runs, px_limit = b\<rparr>"
  have "piece_inv p ?x a a ([], None, [])" by (simp add: piece_inv_def pieces_at_def)
  then obtain k where "piece_inv p ?x a k (gs, run, cur)"
    using piece_fold_inv[of p ?x "([], None, [])" a "(gs, run, cur)" a] f by auto
  from finish_piece_inv[OF this fin] show ?thesis by (simp add: pieces_at_def groups list_all_iff)
qed

end
