(* ===== verification/Relative_Properties.thy ===== *)
theory Relative_Properties
  imports Relative_Top1 Posterior_Properties
begin

text \<open>
  Properties of the relative top-1 candidate: the binary search and the runs inside voice activity,
  and that a character of the baseline is relabelled only by a piece on which both voiceprint
  tables and the slot mapping agree, against a known identity of the baseline.
\<close>

section \<open>Voice activity\<close>

lemma bisect_search_sorted:
  "sorted xs \<Longrightarrow> lo \<le> hi \<Longrightarrow> hi \<le> length xs \<Longrightarrow> \<forall>i < lo. xs ! i \<le> x \<Longrightarrow> \<forall>i. hi \<le> i \<longrightarrow> i < length xs \<longrightarrow> x < xs ! i \<Longrightarrow>
   bisect_search xs x lo hi \<le> length xs \<and> (\<forall>i < bisect_search xs x lo hi. xs ! i \<le> x) \<and>
   (\<forall>i. bisect_search xs x lo hi \<le> i \<longrightarrow> i < length xs \<longrightarrow> x < xs ! i)"
proof (induction xs x lo hi rule: bisect_search.induct)
  case (1 xs x lo hi)
  let ?m = "(lo + hi) div 2"
  show ?case
  proof (cases "lo < hi")
    case True
    then have m: "lo \<le> ?m" "?m < hi" "?m < length xs" using "1.prems"(3) by auto
    show ?thesis
    proof (cases "x < xs ! ?m")
      case less: True
      have e: "bisect_search xs x lo hi = bisect_search xs x lo ?m"
        using True less by (simp add: bisect_search.simps[of xs x lo hi] Let_def)
      have above: "\<forall>i. ?m \<le> i \<longrightarrow> i < length xs \<longrightarrow> x < xs ! i"
      proof (intro allI impI)
        fix i assume "?m \<le> i" "i < length xs"
        then have "xs ! ?m \<le> xs ! i" using "1.prems"(1) by (simp add: sorted_nth_mono)
        with less show "x < xs ! i" by simp
      qed
      have mid: "?m \<le> length xs" using m by simp
      show ?thesis unfolding e by (rule "1.IH"(1)[OF True refl less "1.prems"(1) m(1) mid "1.prems"(4) above])
    next
      case False
      have e: "bisect_search xs x lo hi = bisect_search xs x (?m + 1) hi"
        using True False by (simp add: bisect_search.simps[of xs x lo hi] Let_def)
      have below: "\<forall>i < ?m + 1. xs ! i \<le> x"
      proof (intro allI impI)
        fix i assume "i < ?m + 1"
        then have "xs ! i \<le> xs ! ?m" using "1.prems"(1) m(3) by (intro sorted_nth_mono) simp_all
        with False show "xs ! i \<le> x" by simp
      qed
      have hi: "?m + 1 \<le> hi" using m(2) by simp
      show ?thesis unfolding e by (rule "1.IH"(2)[OF True refl False "1.prems"(1) hi "1.prems"(3) below "1.prems"(5)])
    qed
  next
    case False
    then have "bisect_search xs x lo hi = lo" by (simp add: bisect_search.simps[of xs x lo hi])
    with False "1.prems" show ?thesis by simp
  qed
qed

text \<open>
  On sorted times the binary search finds the number of times that are not later, as the
  scan the frame tables are searched with.
\<close>

lemma bisect_search_counts:
  assumes "sorted xs" shows "bisect_search xs x 0 (length xs) = bisect_right xs x"
proof -
  let ?n = "bisect_search xs x 0 (length xs)"
  have n: "?n \<le> length xs" "\<forall>i < ?n. xs ! i \<le> x" "\<forall>i. ?n \<le> i \<longrightarrow> i < length xs \<longrightarrow> x < xs ! i"
    using bisect_search_sorted[OF assms, of 0 "length xs" x] by auto
  have "takeWhile (\<lambda>t. t \<le> x) xs = take ?n xs"
    by (rule takeWhile_eq_take_P_nth) (use n in \<open>auto simp: not_le\<close>)
  then show ?thesis using n(1) by (simp add: bisect_right_def)
qed

interpretation relative: gated_loop "voiced_frame vad" "finish_sustained minimum b" for vad minimum b
  by unfold_locales (simp add: finish_sustained_def)

lemma relative_runs_are_groups:
  "relative_top1_runs frames b vad p = concat (map (finish_sustained (rp_minimum_run p) b)
     (gated_groups (voiced_frame vad) (phrase_frames frames b)))"
  unfolding relative_top1_runs_def by (rule relative.runs_are_groups)

section \<open>Fragments of a track\<close>

definition tracked :: "fragment_state \<Rightarrow> bool" where
  "tracked = (\<lambda>(grouped, cursors). distinct (map fst grouped) \<and>
     (\<forall>t. map_of grouped t = None \<longrightarrow> map_of cursors t = None) \<and>
     (\<forall>t frs. map_of grouped t = Some frs \<longrightarrow> tiles 0 frs \<and> map_of cursors t = Some (tiles_end 0 frs)))"

lemma add_track_fragment_tracked:
  assumes "tracked st" "add_track_fragment st x = Inr st'" shows "tracked st'"
proof -
  obtain grouped cursors where st: "st = (grouped, cursors)" by (cases st)
  let ?frs = "\<lambda>t. case map_of grouped t of None \<Rightarrow> [] | Some frs \<Rightarrow> frs"
  let ?c = "\<lambda>t. case map_of cursors t of None \<Rightarrow> 0 | Some c \<Rightarrow> c"
  have inv: "distinct (map fst grouped)" "tiles 0 (?frs t)" "?c t = tiles_end 0 (?frs t)" for t
    using assms(1) by (auto simp: tracked_def st split: option.split)
  from assms(2) obtain text_id t where t: "entry_text x = Inr t" and
    st': "st' = (dset text_id (?frs text_id @ [\<lparr>fr_index = 0, fr_start = ?c text_id, fr_end = ?c text_id + length t,
        fr_entry = x, fr_decision = JNull, fr_anchor = False\<rparr>]) grouped, dset text_id (?c text_id + length t) cursors)"
    by (auto simp: add_track_fragment_def st rbind_Inr_iff Let_def)
  have new: "tiles 0 (?frs text_id @ [\<lparr>fr_index = 0, fr_start = ?c text_id, fr_end = ?c text_id + length t,
      fr_entry = x, fr_decision = JNull, fr_anchor = False\<rparr>])"
    using inv(2)[of text_id] inv(3)[of text_id] by (simp add: tiles_append t)
  show ?thesis using assms(1) inv(1) new unfolding st' st tracked_def
    by (simp add: distinct_dset)
qed

lemma track_fragments_facts:
  assumes "track_fragments track = Inr fragments"
  shows "distinct (map fst fragments)" "\<forall>(text_id, frs) \<in> set fragments. tiles 0 frs"
proof -
  from assms obtain items cursors where "rfold add_track_fragment ([], []) items = Inr (fragments, cursors)"
    by (auto simp: track_fragments_def rbind_Inr_iff)
  from rfold_invariant[where P = tracked, OF add_track_fragment_tracked _ this]
  have t: "tracked (fragments, cursors)" by (simp add: tracked_def)
  then show d: "distinct (map fst fragments)" by (simp add: tracked_def)
  show "\<forall>(text_id, frs) \<in> set fragments. tiles 0 frs" using t d by (auto simp: tracked_def)
qed

section \<open>Consensus\<close>

text \<open>Both tables select one identity for the piece, and its local speaker is mapped to it.\<close>

definition same_selection :: "relative_context \<Rightarrow> json \<Rightarrow> string \<Rightarrow> bool" where
  "same_selection x piece s \<longleftrightarrow>
     (case rbind (vitem piece ''evidence_id'') (\<lambda>v. Inr (Some (py_str v))) of Inl _ \<Rightarrow> False
      | Inr k \<Rightarrow> map_option (fst \<circ> decided_by x) (map_of (rx_session x) k) = Some (Some s) \<and>
          map_option (fst \<circ> decided_by x) (map_of (rx_robust x) k) = Some (Some s)) \<and>
     rbind (rbind (vitem piece ''local_speaker'') py_int) (\<lambda>n. Inr (map_of (rx_local_to_id x) n)) = Inr (Some s)"

text \<open>The piece contradicts a known identity of the baseline fragments it overlaps.\<close>

definition contradicts :: "fragment list \<Rightarrow> json \<Rightarrow> string \<Rightarrow> bool" where
  "contradicts frs piece s \<longleftrightarrow> (case rbind (overlapping_fragments piece frs) (\<lambda>met. known_conflicts met (Some s)) of
     Inl _ \<Rightarrow> False | Inr ids \<Rightarrow> ids \<noteq> [])"

definition consensus_reason :: string where
  "consensus_reason = ''relative_top1_dual_voiceprint_consensus''"

definition consensus_overlay :: "relative_context \<Rightarrow> int \<Rightarrow> fragment list \<Rightarrow> json \<Rightarrow> obj \<Rightarrow> bool" where
  "consensus_overlay x text_id frs piece ov \<longleftrightarrow> rbind (vitem piece ''text_id'') py_int = Inr text_id \<and>
     (\<exists>s r. ov = range_overlay (Some s) consensus_reason r \<and> accepted_range piece = Inr r \<and>
       same_selection x piece s \<and> contradicts frs piece s)"

lemma relative_verdict_True:
  "relative_verdict current robust mapped conflicts = (True, reason) \<Longrightarrow>
   \<exists>s. current = Some s \<and> robust = Some s \<and> mapped = Some s \<and> conflicts \<noteq> [] \<and> reason = consensus_reason"
  by (auto simp: relative_verdict_def consensus_reason_def split: if_splits)

lemma evaluate_relative_overlays:
  assumes "evaluate_relative x (overlays, ds) piece = Inr (overlays', ds')"
  shows "\<exists>text_id. (\<forall>t. t \<noteq> text_id \<longrightarrow> overlays_of overlays' t = overlays_of overlays t) \<and>
    (\<forall>ov \<in> set (overlays_of overlays' text_id). ov \<in> set (overlays_of overlays text_id) \<or>
      (\<exists>frs. map_of (rx_fragments x) text_id = Some frs \<and> consensus_overlay x text_id frs piece ov))"
proof -
  from assms obtain v k session robust text_id frs overlaps d accepted reason selected ranges where
    k: "vitem piece ''evidence_id'' = Inr v" "map_of (rx_session x) (Some (py_str v)) = Some session"
      "map_of (rx_robust x) (Some (py_str v)) = Some robust"
    and t: "rbind (vitem piece ''text_id'') py_int = Inr text_id" "map_of (rx_fragments x) text_id = Some frs"
      "overlapping_fragments piece frs = Inr overlaps"
    and dec: "decide_relative x piece session robust overlaps = Inr (d, (accepted, reason), selected)"
    and r: "(if accepted then rbind (accepted_range piece) (\<lambda>r. Inr [r]) else Inr []) = Inr ranges"
    and o: "overlays' = add_ranges overlays text_id selected reason ranges"
    by (auto simp: evaluate_relative_def rbind_Inr_iff ditem_def option_Inr_iff case_prod_beta)
  from dec obtain n conflicts where n: "rbind (vitem piece ''local_speaker'') py_int = Inr n"
    and c: "known_conflicts overlaps (fst (decided_by x session)) = Inr conflicts"
    and ver: "relative_verdict (fst (decided_by x session)) (fst (decided_by x robust)) (map_of (rx_local_to_id x) n) conflicts
        = (accepted, reason)" and sel: "selected = fst (decided_by x session)"
    by (auto simp: decide_relative_def rbind_Inr_iff Let_def)
  have "\<exists>frs. map_of (rx_fragments x) text_id = Some frs \<and> consensus_overlay x text_id frs piece ov"
    if ov: "ov \<in> set (overlays_of overlays' text_id)" "ov \<notin> set (overlays_of overlays text_id)" for ov
  proof -
    from ov have m: "ov \<in> set (map (range_overlay selected reason) ranges)"
      by (auto simp: o add_ranges_def overlays_of_dset split: if_splits)
    then have "accepted" using r by (cases accepted) auto
    with r obtain ab where ab: "accepted_range piece = Inr ab" "ranges = [ab]" by (auto simp: rbind_Inr_iff)
    from relative_verdict_True[OF ver[unfolded \<open>accepted\<close>[THEN eqTrueI]]] obtain s where
      s: "fst (decided_by x session) = Some s" "fst (decided_by x robust) = Some s"
        "map_of (rx_local_to_id x) n = Some s" "conflicts \<noteq> []" "reason = consensus_reason" by blast
    have "same_selection x piece s" using k n s by (simp add: same_selection_def)
    moreover have "contradicts frs piece s" using t(3) c s(1,4) by (simp add: contradicts_def)
    moreover have "ov = range_overlay (Some s) consensus_reason ab" using m ab(2) s(1,5) sel by simp
    ultimately have "consensus_overlay x text_id frs piece ov" using ab(1) t(1) unfolding consensus_overlay_def by blast
    with t(2) show ?thesis by blast
  qed
  moreover have "overlays_of overlays' t = overlays_of overlays t" if "t \<noteq> text_id" for t
    using that by (simp add: o add_ranges_def overlays_of_dset)
  ultimately show ?thesis by blast
qed

section \<open>Relabelled characters\<close>

lemma final_label_cases:
  "final_label ids n overlays i base = base \<or>
   (\<exists>ov js l. ov \<in> set overlays \<and> overlay_effect ids ov = Inr (js, l) \<and> covers n js i \<and> final_label ids n overlays i base = l)"
proof (induction overlays rule: rev_induct)
  case (snoc ov overlays)
  have step: "final_label ids n (overlays @ [ov]) i base = (case overlay_effect ids ov of
      Inr (js, l') \<Rightarrow> if covers n js i then l' else final_label ids n overlays i base
    | Inl _ \<Rightarrow> final_label ids n overlays i base)"
    by (simp only: final_label_def foldl_append foldl.simps)
  show ?case
  proof (cases "\<exists>js l. overlay_effect ids ov = Inr (js, l) \<and> covers n js i")
    case True
    then show ?thesis by (fastforce simp: step)
  next
    case False
    then have "final_label ids n (overlays @ [ov]) i base = final_label ids n overlays i base"
      by (auto simp: step split: sum.split prod.split)
    with snoc.IH show ?thesis by (metis in_set_conv_decomp_first list.set_intros(1) set_append UnCI)
  qed
qed (simp add: final_label_def)

text \<open>
  In a projected track a character keeps the label of its fragment, or it has the label of an
  overlay that covers it.
\<close>

lemma projected_label:
  assumes track: "project_track metadata fragments overlays ids = Inr track"
    and fragments: "track_fragments v = Inr fragments"
    and plain: "list_all (\<lambda>(_, frs). list_all plain_fragment frs) fragments"
    and fr: "map_of fragments text_id = Some frs" "fr \<in> set frs" "fr_start fr \<le> i" "i < fr_end fr"
  obtains "i < length (expand_turns (filter (\<lambda>t. pt_text_id t = text_id) track))"
      "rbind (entry_label (fr_entry fr)) (\<lambda>l. Inr (label_key l)) = Inr (expand_turns (filter (\<lambda>t. pt_text_id t = text_id) track) ! i)"
  | ov js l where "i < length (expand_turns (filter (\<lambda>t. pt_text_id t = text_id) track))"
      "ov \<in> set (overlays_of overlays text_id)" "overlay_effect ids ov = Inr (js, l)"
      "covers (length (expand_turns (filter (\<lambda>t. pt_text_id t = text_id) track))) js i"
      "expand_turns (filter (\<lambda>t. pt_text_id t = text_id) track) ! i = label_key l"
proof -
  let ?turns = "filter (\<lambda>t. pt_text_id t = text_id) track"
  note facts = track_fragments_facts[OF fragments]
  have mem: "(text_id, frs) \<in> set fragments" using fr(1) by (rule map_of_SomeD)
  have tl: "tiles 0 frs" using facts(2) mem by blast
  have pl: "\<forall>fr \<in> set frs. plain_fragment fr" using plain mem by (auto simp: list_all_iff)
  from track obtain xs where xs: "rmap (text_turns_of metadata overlays ids) (sort_key fst fragments) = Inr xs"
    "track = concat xs" by (auto simp: project_track_def rbind_Inr_iff Let_def)
  from track_of_text[OF xs(1) text_turns_of_reproject[where metadata = metadata and overlays = overlays and ids = ids]
      facts(1) fr(1)] obtain source us where
    rep: "reproject_text text_id source us frs (overlays_of overlays text_id) ids = Inr ?turns" by (auto simp: xs(2))
  have n: "length (expand_turns ?turns) = length source"
  proof (rule reproject_expand[OF rep pl])
    fix owned assume e: "expand_turns ?turns
      = map (\<lambda>i. label_key (final_label ids (length source) (overlays_of overlays text_id) i (snd (owned ! i)))) [0..<length source]"
    show "length (expand_turns ?turns) = length source" unfolding e by simp
  qed
  obtain l where l: "entry_label (fr_entry fr) = Inr l" "i < length (expand_turns ?turns)"
    "expand_turns ?turns ! i = label_key (final_label ids (length source) (overlays_of overlays text_id) i l)"
    by (rule character_label[OF rep tl pl fr(2,3,4)])
  from final_label_cases[of ids "length source" "overlays_of overlays text_id" i l] show ?thesis
    using that l n by auto
qed

section \<open>Overlays of the pieces\<close>

text \<open>Every overlay that a loop over pieces collects was added by one of the pieces.\<close>

lemma folded_overlay:
  assumes fold: "rfold step ([], ds0) pieces = Inr (overlays, ds)"
    and step: "\<And>o1 d1 piece o2 d2. step (o1, d1) piece = Inr (o2, d2) \<Longrightarrow>
      \<exists>t. (\<forall>u. u \<noteq> t \<longrightarrow> overlays_of o2 u = overlays_of o1 u) \<and>
        (\<forall>ov \<in> set (overlays_of o2 t). ov \<in> set (overlays_of o1 t) \<or> Q t piece ov)"
    and ov: "ov \<in> set (overlays_of overlays text_id)"
  obtains piece where "piece \<in> set pieces" "Q text_id piece ov"
proof -
  have "(\<lambda>(overlays, _). \<forall>t. \<forall>ov \<in> set (overlays_of overlays t). \<exists>piece \<in> set pieces. Q t piece ov) (overlays, ds)"
  proof (rule rfold_invariant[OF _ _ fold])
    fix st piece st' assume inv: "case st of (overlays, _) \<Rightarrow> \<forall>t. \<forall>ov \<in> set (overlays_of overlays t). \<exists>piece \<in> set pieces. Q t piece ov"
      "piece \<in> set pieces" "step st piece = Inr st'"
    obtain o1 d1 o2 d2 where q: "st = (o1, d1)" "st' = (o2, d2)" by (cases st, cases st')
    from step[OF inv(3)[unfolded q]] obtain t where e: "\<forall>u. u \<noteq> t \<longrightarrow> overlays_of o2 u = overlays_of o1 u"
      "\<forall>ov \<in> set (overlays_of o2 t). ov \<in> set (overlays_of o1 t) \<or> Q t piece ov" by blast
    show "case st' of (overlays, _) \<Rightarrow> \<forall>t. \<forall>ov \<in> set (overlays_of overlays t). \<exists>piece \<in> set pieces. Q t piece ov"
      using inv(1,2) e unfolding q case_prod_conv by metis
  qed (simp add: overlays_of_def)
  with ov that show ?thesis by blast
qed

text \<open>The key of a character that a piece relabels by consensus.\<close>

definition relabels :: "relative_context \<Rightarrow> int \<Rightarrow> fragment list \<Rightarrow> nat \<Rightarrow> nat \<Rightarrow> json \<times> bool \<times> string \<Rightarrow> json \<Rightarrow> bool" where
  "relabels x text_id frs n i key piece \<longleftrightarrow> rbind (vitem piece ''text_id'') py_int = Inr text_id \<and>
     (case accepted_range piece of Inl _ \<Rightarrow> False | Inr (a, b) \<Rightarrow> covers n [a..b - 1] i) \<and>
     (case key of (JStr s, uncertain, reason) \<Rightarrow> \<not> uncertain \<and> reason = consensus_reason \<and>
        same_selection x piece s \<and> contradicts frs piece s | _ \<Rightarrow> False)"

lemma consensus_relabels:
  assumes "consensus_overlay x text_id frs piece ov" "overlay_effect ids ov = Inr (js, l)" "covers n js i"
  shows "relabels x text_id frs n i (label_key l) piece"
proof -
  from assms(1) obtain s a b where s: "rbind (vitem piece ''text_id'') py_int = Inr text_id"
    "ov = range_overlay (Some s) consensus_reason (a, b)" "accepted_range piece = Inr (a, b)"
    "same_selection x piece s" "contradicts frs piece s" by (auto simp: consensus_overlay_def)
  from assms(2) have "js = [a..b - 1]" "label_key l = (JStr s, False, consensus_reason)"
    by (auto simp: s(2) overlay_effect_def overlay_label_def range_overlay_def anchor_id_def opt_json_def label_key_def
      rbind_Inr_iff range_bound_def)
  with s assms(3) show ?thesis by (simp add: relabels_def)
qed

text \<open>
  A character of the baseline keeps its identity, certainty and reason through the whole
  build, or it lies in a piece for which both voiceprint tables select one identity that the
  piece's local speaker is mapped to and that contradicts a known identity of the baseline there;
  then it has that identity.
\<close>

lemma relative_changes_agreed:
  assumes build: "build_relative_candidate baseline metadata session robust manifest p = Inr r"
    and fragments: "rbind (vget baseline ''track'' (JArr [])) track_fragments = Inr fragments"
    and ctx: "relative_setup baseline fragments session robust manifest p = Inr x"
    and pieces: "rbind (vitem metadata ''pieces'') py_iter = Inr pieces"
    and plain: "list_all (\<lambda>(_, frs). list_all plain_fragment frs) fragments"
    and fr: "map_of fragments text_id = Some frs" "fr \<in> set frs" "fr_start fr \<le> i" "i < fr_end fr"
  shows "let labels = expand_turns (filter (\<lambda>t. pt_text_id t = text_id) (rv_track r)) in i < length labels \<and>
    (rbind (entry_label (fr_entry fr)) (\<lambda>l. Inr (label_key l)) = Inr (labels ! i) \<or>
     list_ex (relabels x text_id frs (length labels) i (labels ! i)) pieces)"
proof -
  from build fragments ctx pieces obtain overlays ds where
    fold: "rfold (evaluate_relative x) ([], []) pieces = Inr (overlays, ds)"
    and track: "project_track metadata fragments overlays (invert_mapping (rx_local_to_id x)) = Inr (rv_track r)"
    by (auto simp: build_relative_candidate_def rbind_Inr_iff raise_if_Inr_iff)
  have x: "rx_fragments x = fragments"
    using ctx by (auto simp: relative_setup_def rbind_Inr_iff raise_if_Inr_iff Let_def)
  from fragments obtain v where v: "track_fragments v = Inr fragments" by (auto simp: rbind_Inr_iff)
  show ?thesis
  proof (rule projected_label[OF track v plain fr])
    fix ov js l
    let ?labels = "expand_turns (filter (\<lambda>t. pt_text_id t = text_id) (rv_track r))"
    assume l: "i < length ?labels" "ov \<in> set (overlays_of overlays text_id)"
      "overlay_effect (invert_mapping (rx_local_to_id x)) ov = Inr (js, l)" "covers (length ?labels) js i" "?labels ! i = label_key l"
    obtain piece where p: "piece \<in> set pieces" "\<exists>frs. map_of (rx_fragments x) text_id = Some frs \<and> consensus_overlay x text_id frs piece ov"
      by (rule folded_overlay[OF fold evaluate_relative_overlays l(2)])
    then have "consensus_overlay x text_id frs piece ov" using fr(1) by (simp add: x)
    from consensus_relabels[OF this l(3,4)] p(1) l(1,5) show ?thesis by (auto simp: Let_def list_ex_iff)
  qed (simp add: Let_def)
qed

end
