(* ===== verification/Reviewed_Properties.thy ===== *)
theory Reviewed_Properties
  imports Reviewed_Overlay Phrase_Properties
begin

text \<open>
  Properties of the reviewed overlay candidate: what a validated set of overlays looks like, the
  label of every character of the composed candidate, and that base turns no overlay meets are
  kept as they are.
\<close>

section \<open>Validated overlays\<close>

definition apart :: "'a source_overlay_scheme \<Rightarrow> 'a source_overlay_scheme \<Rightarrow> bool" where
  "apart x y \<longleftrightarrow> so_end x \<le> so_start y \<or> so_end y \<le> so_start x"

definition proper_range :: "'a source_overlay_scheme \<Rightarrow> bool" where
  "proper_range ov \<longleftrightarrow> 0 \<le> so_start ov \<and> so_start ov < so_end ov"

lemma apart_insort:
  "sorted_wrt apart (insort_key f x xs) \<longleftrightarrow> (\<forall>y \<in> set xs. apart x y) \<and> sorted_wrt apart xs"
  by (induction xs) (auto simp: set_insort_key apart_def)

lemma apart_sort: "sorted_wrt apart (sort_key f xs) \<longleftrightarrow> sorted_wrt apart xs"
  by (induction xs) (auto simp: apart_insort)

lemma check_ranges:
  "(\<exists>e. rfold (check_range text_id) p xs = Inr e) \<longleftrightarrow>
   list_all proper_range xs \<and> sorted_wrt (\<lambda>x y. so_end x \<le> so_start y) xs \<and> (\<forall>x \<in> set xs. p \<le> so_start x)"
proof (induction xs arbitrary: p)
  case (Cons x xs)
  have "(\<exists>e. rfold (check_range text_id) p (x # xs) = Inr e) \<longleftrightarrow>
      proper_range x \<and> p \<le> so_start x \<and> (\<exists>e. rfold (check_range text_id) (so_end x) xs = Inr e)"
    by (auto simp: check_range_def proper_range_def raise_if_def)
  also have "\<dots> \<longleftrightarrow> proper_range x \<and> p \<le> so_start x \<and> list_all proper_range xs \<and>
      sorted_wrt (\<lambda>x y. so_end x \<le> so_start y) xs \<and> (\<forall>y \<in> set xs. so_end x \<le> so_start y)" by (simp only: Cons.IH)
  also have "\<dots> \<longleftrightarrow> list_all proper_range (x # xs) \<and> sorted_wrt (\<lambda>x y. so_end x \<le> so_start y) (x # xs) \<and>
      (\<forall>y \<in> set (x # xs). p \<le> so_start y)"
  proof -
    have "p \<le> so_start y" if "proper_range x" "p \<le> so_start x" "so_end x \<le> so_start y" for y
      using that by (simp add: proper_range_def)
    then show ?thesis by auto
  qed
  finally show ?case .
qed simp

lemma sorted_ranges:
  assumes "list_all proper_range xs" "sorted (map span_order xs)"
  shows "sorted_wrt (\<lambda>x y. so_end x \<le> so_start y) xs \<longleftrightarrow> sorted_wrt apart xs"
proof -
  have "so_end x \<le> so_start y \<longleftrightarrow> apart x y" if "x \<in> set xs" "y \<in> set xs" "span_order x \<le> span_order y" for x y
    using that assms(1) by (auto simp: list_all_iff apart_def proper_range_def span_order_def less_eq_prod_def)
  with assms(2) show ?thesis by (induction xs) auto
qed

text \<open>
  Overlays are accepted exactly when every range is non-empty and starts inside the text and
  no two ranges of a text overlap; the scan over the sorted ranges misses no conflict.
\<close>

lemma validate_overlays_iff:
  "validate_overlays overlays = Inr () \<longleftrightarrow>
   list_all (\<lambda>(text_id, ovs). list_all proper_range ovs \<and> sorted_wrt apart ovs) overlays"
proof -
  have one: "(\<exists>e. rfold (check_range text_id) (- 1) (sort_key span_order ovs) = Inr e) \<longleftrightarrow>
      list_all proper_range ovs \<and> sorted_wrt apart ovs" for text_id and ovs :: "'a source_overlay_scheme list"
  proof -
    let ?s = "sort_key span_order ovs"
    have p: "list_all proper_range ?s \<longleftrightarrow> list_all proper_range ovs" by (simp add: list_all_iff)
    have "\<forall>x \<in> set ?s. - 1 \<le> so_start x" if "list_all proper_range ovs"
      using that by (auto simp: list_all_iff proper_range_def)
    then show ?thesis using sorted_ranges[of ?s] by (auto simp: check_ranges p apart_sort)
  qed
  let ?f = "\<lambda>(text_id, ovs). rfold (check_range text_id) (- 1) (sort_key span_order ovs)"
  have "validate_overlays overlays = Inr () \<longleftrightarrow> (\<exists>ys. rmap ?f overlays = Inr ys)"
    by (simp add: validate_overlays_def rbind_Inr_iff)
  also have "\<dots> \<longleftrightarrow> (\<forall>x \<in> set overlays. \<exists>e. ?f x = Inr e)" by (rule iffI) (blast dest: rmap_all, rule rmap_exists)
  also have "\<dots> \<longleftrightarrow> (\<forall>x \<in> set overlays. (\<lambda>(text_id, ovs). list_all proper_range ovs \<and> sorted_wrt apart ovs) x)"
    by (intro ball_cong refl) (simp only: case_prod_unfold one)
  finally show ?thesis by (simp only: list_all_iff)
qed

section \<open>Labels after all overlays\<close>

definition holds_at :: "nat \<Rightarrow> 'a source_overlay_scheme \<Rightarrow> bool" where
  "holds_at i ov \<longleftrightarrow> so_start ov \<le> int i \<and> int i < so_end ov"

definition laid_label :: "local_ids \<Rightarrow> 'a source_overlay_scheme \<Rightarrow> char_label" where
  "laid_label ids ov = \<lparr>cl_speaker_id = JStr (so_speaker ov), cl_speaker = the (map_of ids (so_speaker ov)),
     cl_uncertain = False, cl_reason = so_reason ov\<rparr>"

definition label_at :: "local_ids \<Rightarrow> 'a source_overlay_scheme list \<Rightarrow> nat \<Rightarrow> char_label \<Rightarrow> char_label" where
  "label_at ids ovs i base = (case find (holds_at i) ovs of None \<Rightarrow> base | Some ov \<Rightarrow> laid_label ids ov)"

lemma covers_range: "0 \<le> a \<Longrightarrow> covers n [a..b - 1] i \<longleftrightarrow> a \<le> int i \<and> int i < b"
  by (auto simp: covers_def list_ex_iff)

lemma lay_over_Inr:
  "lay_over ids labels ov = Inr m \<longleftrightarrow> map_of ids (so_speaker ov) \<noteq> None \<and>
     rfold (set_label (laid_label ids ov)) labels [so_start ov..so_end ov - 1] = Inr m"
  by (cases "map_of ids (so_speaker ov)") (simp_all add: lay_over_def ditem_def laid_label_def)

lemma laid_over:
  "rfold (lay_over ids) labels ovs = Inr labels' \<Longrightarrow> list_all proper_range ovs \<Longrightarrow> sorted_wrt apart ovs \<Longrightarrow>
   length labels' = length labels \<and> (\<forall>i < length labels. labels' ! i = label_at ids ovs i (labels ! i))"
proof (induction ovs arbitrary: labels)
  case (Cons ov ovs)
  then obtain m where m: "rfold (set_label (laid_label ids ov)) labels [so_start ov..so_end ov - 1] = Inr m"
    "rfold (lay_over ids) m ovs = Inr labels'"
    by (auto simp: rbind_Inr_iff lay_over_Inr)
  have pos: "0 \<le> so_start ov" using Cons.prems(2) by (simp add: proper_range_def)
  note s = set_labels[OF m(1)]
  have IH: "length labels' = length m" "\<forall>i < length m. labels' ! i = label_at ids ovs i (m ! i)"
    using Cons.IH[OF m(2)] Cons.prems(2,3) by simp_all
  have none: "find (holds_at i) ovs = None" if "holds_at i ov" for i
    using that Cons.prems(2,3) by (fastforce simp: find_None_iff holds_at_def apart_def list_all_iff proper_range_def)
  show ?case using IH s none
    by (auto simp: label_at_def covers_range[OF pos] holds_at_def[symmetric])
qed (simp add: label_at_def)

section \<open>Fragments of a candidate\<close>

text \<open>A fragment as the phrase candidate has it, without a decision.\<close>

definition as_fragment :: "base_fragment \<Rightarrow> fragment" where
  "as_fragment f = \<lparr>fr_index = bf_index f, fr_start = bf_start f, fr_end = bf_end f, fr_entry = bf_entry f,
     fr_decision = JNull, fr_anchor = False\<rparr>"

lemma as_fragment_simps [simp]: "fr_start (as_fragment f) = bf_start f" "fr_end (as_fragment f) = bf_end f"
  "fr_entry (as_fragment f) = bf_entry f" by (simp_all add: as_fragment_def)

definition laid_out :: "base_fragment list \<Rightarrow> bool" where
  "laid_out fs \<longleftrightarrow> tiles 0 (map as_fragment fs) \<and> list_all (\<lambda>f. bf_start f < bf_end f) fs"

lemma base_fragments_laid_out:
  assumes "rfold add_base_fragment (0, []) xs = Inr (c, fs)" shows "laid_out fs"
proof -
  have "(\<lambda>(c, fs). laid_out fs \<and> tiles_end 0 (map as_fragment fs) = c) (c, fs)"
  proof (rule rfold_invariant[OF _ _ assms])
    fix s x s' assume "case s of (c, fs) \<Rightarrow> laid_out fs \<and> tiles_end 0 (map as_fragment fs) = c" "add_base_fragment s x = Inr s'"
    then show "case s' of (c, fs) \<Rightarrow> laid_out fs \<and> tiles_end 0 (map as_fragment fs) = c"
      by (cases s; cases x) (auto simp: add_base_fragment_def laid_out_def rbind_Inr_iff raise_if_Inr_iff tiles_append)
  qed (simp add: laid_out_def)
  then show ?thesis by simp
qed

lemma text_fragments_facts: "text_fragments g = Inr (text_id, fs) \<Longrightarrow> fst g = text_id \<and> laid_out fs"
  by (cases g) (auto simp: text_fragments_def rbind_Inr_iff dest: base_fragments_laid_out)

lemma rmap_keys:
  assumes "rmap f xs = Inr ys" "\<And>x y. f x = Inr y \<Longrightarrow> fst y = fst x" shows "map fst ys = map fst xs"
  using assms(1) by (induction xs arbitrary: ys) (fastforce simp: rbind_Inr_iff dest: assms(2))+

lemma candidate_fragments_facts:
  assumes "candidate_fragments candidate = Inr frs"
  shows "distinct (map fst frs)" "\<forall>(text_id, fs) \<in> set frs. laid_out fs"
proof -
  from assms obtain items grouped q where
    g: "rfold add_ordered ([], None) (enumerate 0 items) = Inr (grouped, q)" "rmap text_fragments grouped = Inr frs"
    by (auto simp: candidate_fragments_def rbind_Inr_iff raise_if_Inr_iff)
  have "(\<lambda>(grouped, q). distinct (map fst grouped)) (grouped, q)"
  proof (rule rfold_invariant[OF _ _ g(1)])
    fix s x s' assume "case s of (grouped, q) \<Rightarrow> distinct (map fst grouped)" "add_ordered s x = Inr s'"
    then show "case s' of (grouped, q) \<Rightarrow> distinct (map fst grouped)"
      by (cases s; cases x) (auto simp: add_ordered_def rbind_Inr_iff raise_if_Inr_iff distinct_dset)
  qed simp
  moreover have "fst y = fst x" if "text_fragments x = Inr y" for x y
    using text_fragments_facts[of x "fst y" "snd y"] that by simp
  ultimately show "distinct (map fst frs)" using rmap_keys[OF g(2)] by simp
  show "\<forall>(text_id, fs) \<in> set frs. laid_out fs" using rmap_image[OF g(2)] by (fastforce dest: text_fragments_facts)
qed

lemma base_chars_fragment:
  "base_chars (k, f) = Inr ys \<Longrightarrow> entry_text (bf_entry f) \<noteq> Inr [] \<Longrightarrow> fragment_chars (k, as_fragment f) = Inr ys"
  by (cases "entry_label (bf_entry f)"; cases "entry_text (bf_entry f)") (simp_all add: base_chars_def fragment_chars_def)

lemma tiles_text: "tiles c frs \<Longrightarrow> f \<in> set frs \<Longrightarrow> \<exists>t. entry_text (fr_entry f) = Inr t \<and> fr_end f = fr_start f + length t"
proof (induction frs arbitrary: c)
  case (Cons g frs)
  then show ?case using Cons.IH[of "fr_end g"] by (cases "entry_text (fr_entry g)") auto
qed simp

lemma base_labels_owned:
  assumes "laid_out fs" "rmap base_chars (enumerate k fs) = Inr xs"
  shows "rmap fragment_chars (enumerate k (map as_fragment fs)) = Inr xs"
proof -
  have "entry_text (bf_entry f) \<noteq> Inr []" if "f \<in> set fs" for f
    using tiles_text[of 0 "map as_fragment fs" "as_fragment f"] assms(1) that by (fastforce simp: laid_out_def list_all_iff)
  then show ?thesis using assms(2)
  proof (induction fs arbitrary: k xs)
    case (Cons f fs)
    then show ?case by (auto simp: rbind_Inr_iff intro!: base_chars_fragment)
  qed simp
qed

lemma owner_range:
  assumes "rmap fragment_chars (enumerate k frs) = Inr xs" "tiles c frs" "i < length (concat xs)"
  shows "\<exists>j < length frs. fst (concat xs ! i) = k + j \<and> fr_start (frs ! j) \<le> c + i \<and> c + i < fr_end (frs ! j)"
  using assms
proof (induction frs arbitrary: k c i xs)
  case (Cons f fs)
  from Cons.prems(2) obtain t where t: "entry_text (fr_entry f) = Inr t" "fr_start f = c" "fr_end f = c + length t"
    "tiles (c + length t) fs" by (auto split: sum.splits)
  from Cons.prems(1) obtain y ys where y: "fragment_chars (k, f) = Inr y" "rmap fragment_chars (enumerate (Suc k) fs) = Inr ys"
    "xs = y # ys" by (auto simp: rbind_Inr_iff)
  have len: "length y = length t" "\<forall>p \<in> set y. fst p = k" using y(1) t(1)
    by (auto simp: fragment_chars_def rbind_Inr_iff split: if_splits)
  show ?case
  proof (cases "i < length t")
    case True
    then show ?thesis using t len y(3) by (intro exI[of _ 0]) (simp add: nth_append)
  next
    case False
    then obtain m where m: "i = length t + m" by (metis le_Suc_ex not_le)
    have "m < length (concat ys)" using Cons.prems(3) m y(3) len by simp
    from Cons.IH[OF y(2) t(4) this] obtain j where "j < length fs" "fst (concat ys ! m) = Suc k + j"
      "fr_start (fs ! j) \<le> c + length t + m" "c + length t + m < fr_end (fs ! j)" by blast
    then show ?thesis using m y(3) len by (intro exI[of _ "Suc j"]) (simp add: nth_append add.assoc)
  qed
qed simp

lemma tiles_slice:
  "tiles c frs \<Longrightarrow> list_all2 (\<lambda>f t. entry_text (fr_entry f) = Inr t) frs ts \<Longrightarrow> j < length frs \<Longrightarrow>
   slice (fr_start (frs ! j) - c) (fr_end (frs ! j) - c) (concat ts) = ts ! j"
proof (induction frs arbitrary: c ts j)
  case (Cons f fs)
  from Cons.prems(2) obtain t us where ts: "ts = t # us" "entry_text (fr_entry f) = Inr t"
    "list_all2 (\<lambda>f t. entry_text (fr_entry f) = Inr t) fs us" by (auto simp: list_all2_Cons1)
  from Cons.prems(1) ts(2) have f: "fr_start f = c" "fr_end f = c + length t" "tiles (c + length t) fs" by auto
  show ?case
  proof (cases j)
    case 0
    then show ?thesis using f ts(1) by (simp add: slice_def)
  next
    case (Suc i)
    then have i: "i < length fs" using Cons.prems(3) by simp
    have le: "c + length t \<le> fr_start (fs ! i)" by (rule tiles_lower[OF f(3)]) (simp add: i)
    have "fr_start (fs ! i) - (c + length t) = fr_start (fs ! i) - c - length t" "fr_end (fs ! i) - (c + length t) = fr_end (fs ! i) - c - length t"
      by simp_all
    then show ?thesis using Cons.IH[OF f(3) ts(3) i] Suc ts(1) le by (simp add: slice_def)
  qed
qed simp

section \<open>The turns of one text\<close>

definition owner_key :: "nat \<times> char_label \<Rightarrow> nat \<times> json \<times> bool \<times> string" where
  "owner_key = (\<lambda>(owner, l). (owner, label_key l))"

definition source_cuts :: "(nat \<times> char_label) list \<Rightarrow> (nat \<times> nat) list" where
  "source_cuts xs = adjacent (key_starts owner_key xs (length xs) @ [length xs])"

lemma owned_bounds_cuts:
  assumes "length owners = length labels" "\<forall>l \<in> set labels. plain_id (cl_speaker_id l)"
  shows "adjacent (owned_bounds owners labels) = source_cuts (zip owners labels)"
proof -
  have "owners ! (i - 1) \<noteq> owners ! i \<or> \<not> same_label (labels ! (i - 1)) (labels ! i) \<longleftrightarrow>
      owner_key (zip owners labels ! (i - 1)) \<noteq> owner_key (zip owners labels ! i)" if "i \<in> set [1..<length labels]" for i
  proof -
    have "same_label (labels ! (i - 1)) (labels ! i) \<longleftrightarrow> label_key (labels ! (i - 1)) = label_key (labels ! i)"
      using that assms(2) by (intro same_label_key) auto
    then show ?thesis using that assms(1) by (auto simp: owner_key_def)
  qed
  then have "filter (\<lambda>i. owners ! (i - 1) \<noteq> owners ! i \<or> \<not> same_label (labels ! (i - 1)) (labels ! i)) [1..<length labels]
      = filter (\<lambda>i. owner_key (zip owners labels ! (i - 1)) \<noteq> owner_key (zip owners labels ! i)) [1..<length labels]"
    by (intro filter_cong) (simp_all only:)
  then show ?thesis using assms(1) by (simp add: source_cuts_def owned_bounds_def key_starts_def)
qed

lemma reproject_cut:
  assumes rep: "reproject_preserving_base text_id source us fs ovs ids = Inr turns"
    and fs: "laid_out fs" "\<forall>f \<in> set fs. plain_fragment (as_fragment f)"
    and ovs: "list_all proper_range ovs" "sorted_wrt apart ovs"
  obtains xs labels ts where
    "rmap fragment_chars (enumerate 0 (map as_fragment fs)) = Inr xs" "length (concat xs) = length source"
    "labels = map (\<lambda>i. label_at ids ovs i (snd (concat xs ! i))) [0..<length source]"
    "rcollect (composed_piece text_id source ts (map fst (concat xs)) labels fs)
       (enumerate 0 (source_cuts (zip (map fst (concat xs)) labels))) = Inr turns"
proof -
  from rep obtain owned labels ts where
    o: "base_labels fs = Inr owned" "length owned = length source"
    and l: "rfold (lay_over ids) (map snd owned) ovs = Inr labels"
    and out: "rcollect (composed_piece text_id source ts (map fst owned) labels fs)
       (enumerate 0 (adjacent (owned_bounds (map fst owned) labels))) = Inr turns"
    by (auto simp: reproject_preserving_base_def rbind_Inr_iff raise_if_Inr_iff)
  from o(1) obtain xs where xs: "rmap base_chars (enumerate 0 fs) = Inr xs" "owned = concat xs"
    by (auto simp: base_labels_def rbind_Inr_iff)
  note x = base_labels_owned[OF fs(1) xs(1)]
  note a = laid_over[OF l ovs]
  have labels: "labels = map (\<lambda>i. label_at ids ovs i (snd (concat xs ! i))) [0..<length source]"
    using a o(2) xs(2) by (intro nth_equalityI) simp_all
  have "owned_labels (map as_fragment fs) = Inr owned" by (simp add: owned_labels_def x xs(2))
  from owned_plain[OF this] fs(2) have "plain_id (cl_speaker_id (snd (owned ! i)))" if "i < length source" for i
    using that o(2) by simp
  then have "\<forall>l \<in> set labels. plain_id (cl_speaker_id l)"
    by (auto simp: labels label_at_def laid_label_def xs(2) plain_id_def[of "JStr _"] split: option.split)
  then have "adjacent (owned_bounds (map fst owned) labels) = source_cuts (zip (map fst owned) labels)"
    by (intro owned_bounds_cuts) (simp_all add: labels o(2))
  with that[OF x _ labels] out o(2) xs(2) show ?thesis by simp
qed

lemma composed_piece_Some:
  "composed_piece text_id source ts owners labels fs (i, a, b) = Inr (Some t) \<Longrightarrow>
   pt_text t = slice a b source \<and> pt_label t = labels ! a \<and> pt_text_id t = text_id \<and>
   piece_time a b ts (fs ! (owners ! a)) = Inr (pt_start t, pt_end t)"
  by (auto simp: composed_piece_def rbind_Inr_iff raise_if_Inr_iff split: if_splits)

lemma composed_piece_None: "composed_piece text_id source ts owners labels fs (i, a, b) = Inr None \<Longrightarrow> b \<le> a"
  by (auto simp: composed_piece_def rbind_Inr_iff raise_if_Inr_iff split: if_splits)

lemma source_cuts_strict: "xs \<noteq> [] \<Longrightarrow> \<forall>(a, b) \<in> set (source_cuts xs). a < b"
  using key_starts_strict[of "length xs" xs owner_key] by (auto simp: source_cuts_def)

lemma composed_expand:
  assumes out: "rcollect (composed_piece text_id source ts (map fst owned) labels fs)
      (enumerate 0 (source_cuts (zip (map fst owned) labels))) = Inr turns"
    and n: "length owned = length source" "length labels = length source"
  shows "expand_turns turns = map label_key labels"
proof (cases "source = []")
  case True
  with n out show ?thesis by (simp add: source_cuts_def key_starts_def composed_piece_def expand_turns_def)
next
  case False
  let ?xs = "zip (map fst owned) labels"
  have len: "length ?xs = length source" using n by simp
  with False have "?xs \<noteq> []" by auto
  note strict = source_cuts_strict[OF this]
  have two: "list_all2 (shows_piece source labels) (source_cuts ?xs) turns"
    by (rule rcollect_cut(1)[OF out _ _ strict]) (auto simp: shows_piece_def dest: composed_piece_Some composed_piece_None)
  show ?thesis
    by (rule cut_turns[where h = snd and k = owner_key, OF two[unfolded source_cuts_def]])
      (use n False in \<open>simp_all add: owner_key_def\<close>)
qed

lemma composed_kept:
  assumes out: "rcollect (composed_piece text_id source ts (map fst (concat xs)) labels fs)
      (enumerate 0 (source_cuts (zip (map fst (concat xs)) labels))) = Inr turns"
    and xs: "rmap fragment_chars (enumerate 0 (map as_fragment fs)) = Inr xs" "length (concat xs) = length source"
    and labels: "labels = map (\<lambda>i. label_at ids ovs i (snd (concat xs ! i))) [0..<length source]"
    and fs: "laid_out fs" "j < length fs"
    and free: "list_all (\<lambda>ov. so_end ov \<le> int (bf_start (fs ! j)) \<or> int (bf_end (fs ! j)) \<le> so_start ov) ovs"
  obtains t where "t \<in> set turns" "pt_text_id t = text_id" "pt_text t = slice (bf_start (fs ! j)) (bf_end (fs ! j)) source"
    "entry_label (bf_entry (fs ! j)) = Inr (pt_label t)"
    "float_item (bf_entry (fs ! j)) ''start'' = Inr (pt_start t)" "float_item (bf_entry (fs ! j)) ''end'' = Inr (pt_end t)"
proof -
  let ?f = "fs ! j" and ?a = "bf_start (fs ! j)" and ?b = "bf_end (fs ! j)" and ?o = "concat xs"
  let ?z = "zip (map fst ?o) labels" and ?n = "length source"
  have tl: "tiles 0 (map as_fragment fs)" using fs(1) by (simp add: laid_out_def)
  have at: "i < ?n \<and> fst (?o ! i) = j \<and> entry_label (bf_entry ?f) = Inr (snd (?o ! i))" if "?a \<le> i" "i < ?b" for i
    using owned_at_nth[OF xs(1) tl, of j i] that fs(2) by (simp add: xs(2))
  have lab: "labels ! i = snd (?o ! i)" if "?a \<le> i" "i < ?b" for i
  proof -
    have "find (holds_at i) ovs = None"
      using that free by (fastforce simp: find_None_iff holds_at_def list_all_iff)
    then show ?thesis using at[OF that] by (simp add: labels label_at_def)
  qed
  have ab: "?a < ?b" using fs by (simp add: laid_out_def list_all_iff)
  have zn: "length ?z = ?n" by (simp add: xs(2) labels)
  have zi: "?z ! i = (fst (?o ! i), labels ! i)" if "i < ?n" for i using that by (simp add: xs(2) labels)
  have last_char: "?a \<le> ?b - 1" "?b - 1 < ?b" using ab by simp_all
  then have bn: "?b \<le> ?n" using conjunct1[OF at[OF last_char]] by arith
  have other: "fst (?o ! i) \<noteq> j" if "i < ?n" "i < ?a \<or> ?b \<le> i" for i
    using owner_range[OF xs(1) tl, of i] that by (auto simp: xs(2))
  have same: "owner_key (?z ! (i - 1)) = owner_key (?z ! i)" if "?a < i" "i < ?b" for i
  proof -
    have p: "?a \<le> i - 1" "i - 1 < ?b" "?a \<le> i" using that by simp_all
    have "snd (?o ! (i - 1)) = snd (?o ! i)" using at[OF p(1,2)] at[OF p(3) that(2)] by simp
    then show ?thesis using at[OF p(1,2)] at[OF p(3) that(2)] lab[OF p(1,2)] lab[OF p(3) that(2)]
      by (simp add: zi owner_key_def)
  qed
  have mem: "(?a, ?b) \<in> set (source_cuts ?z)" unfolding source_cuts_def
  proof (rule key_starts_mem[OF refl ab])
    show "?b \<le> length ?z" using bn zn by simp
    show "\<forall>i. ?a < i \<longrightarrow> i < ?b \<longrightarrow> owner_key (?z ! (i - 1)) = owner_key (?z ! i)" using same by blast
    show "owner_key (?z ! (?a - 1)) \<noteq> owner_key (?z ! ?a)" if "0 < ?a"
      using that ab bn at[of ?a] other[of "?a - 1"] by (auto simp: zi owner_key_def)
    show "owner_key (?z ! (?b - 1)) \<noteq> owner_key (?z ! ?b)" if "?b < length ?z"
    proof -
      have "?b < ?n" using that by (simp only: zn)
      with other[of ?b] at[OF last_char] show ?thesis by (auto simp: zi owner_key_def)
    qed
  qed
  then obtain i where i: "i < length (source_cuts ?z)" "source_cuts ?z ! i = (?a, ?b)" by (metis in_set_conv_nth)
  have "?z \<noteq> []" using zn ab bn by (metis le_zero_eq length_0_conv not_less0)
  note strict = source_cuts_strict[OF this]
  have p: "composed_piece text_id source ts (map fst ?o) labels fs (i, ?a, ?b) = Inr (Some (turns ! i))"
    using rcollect_cut(3)[OF out _ _ strict, where Q = "\<lambda>_ _. True"] i composed_piece_None by (metis (no_types, lifting))
  have len: "length turns = length (source_cuts ?z)"
    using rcollect_cut(2)[OF out _ _ strict, where Q = "\<lambda>_ _. True"] composed_piece_None by (metis (no_types, lifting))
  have owner: "map fst ?o ! ?a = j" using at[of ?a] ab xs(2) by simp
  show ?thesis
    using that[of "turns ! i"] composed_piece_Some[OF p] at[of ?a] lab[of ?a] ab i len owner
    by (auto simp: piece_time_def rbind_Inr_iff)
qed

section \<open>Reviewed overlays and sources\<close>

lemma checked_plain: "check_base_identity ids f = Inr u \<Longrightarrow> plain_fragment (as_fragment f)"
  by (cases "bf_entry f") (auto simp: check_base_identity_def plain_fragment_def plain_id_def get_def rbind_Inr_iff split: json.splits)

lemma active_identity_Inr: "active_identity active v = Inr s \<Longrightarrow> s \<in> set active"
  by (cases v) (simp_all add: active_identity_def raise_if_Inr_iff)

lemma reviewed_of_Some:
  "reviewed_of allowed active text_id f = Inr (Some ov) \<Longrightarrow>
   ro_text_id ov = text_id \<and> so_reason ov \<in> set allowed \<and> so_speaker ov \<in> set active \<and>
   so_start ov = int (bf_start f) \<and> so_end ov = int (bf_end f) \<and> ro_index ov = bf_index f"
  by (auto simp: reviewed_of_def rbind_Inr_iff split: if_splits dest: active_identity_Inr)

lemma filter_by_text:
  "distinct (map fst ds) \<Longrightarrow> \<forall>(k, ovs) \<in> set ds. \<forall>ov \<in> set ovs. g ov = k \<Longrightarrow>
   filter (\<lambda>ov. g ov = k) (concat (map snd ds)) = (case map_of ds k of None \<Rightarrow> [] | Some ovs \<Rightarrow> ovs)"
proof (induction ds)
  case (Cons d ds)
  obtain k' ovs where d: "d = (k', ovs)" by (cases d)
  have none: "map_of ds k' = None" using Cons.prems(1) d by (simp add: map_of_eq_None_iff)
  show ?case
  proof (cases "k = k'")
    case True
    then have "filter (\<lambda>ov. g ov = k) ovs = ovs" using Cons.prems(2) d by (auto simp: filter_id_conv)
    then show ?thesis using Cons d none True by simp
  next
    case False
    then have "filter (\<lambda>ov. g ov = k) ovs = []" using Cons.prems(2) d by (auto simp: filter_empty_conv)
    then show ?thesis using Cons d False by simp
  qed
qed simp

lemma collected_facts:
  assumes "collect_overlays retained allowed active = Inr (overlays, decisions)" "distinct (map fst retained)"
  shows "filter (\<lambda>ov. ro_text_id ov = text_id) decisions = (case map_of overlays text_id of None \<Rightarrow> [] | Some ovs \<Rightarrow> ovs)"
    "list_all proper_range (filter (\<lambda>ov. ro_text_id ov = text_id) decisions)"
    "sorted_wrt apart (filter (\<lambda>ov. ro_text_id ov = text_id) decisions)"
    "\<forall>ov \<in> set decisions. so_reason ov \<in> set allowed \<and> so_speaker ov \<in> set active"
proof -
  let ?g = "\<lambda>(text_id, fragments). rbind (rcollect (reviewed_of allowed active text_id) fragments) (\<lambda>ovs. Inr (text_id, ovs))"
  from assms(1) obtain collected where c: "rmap ?g (sort_key fst retained) = Inr collected"
    and o: "overlays = filter (\<lambda>(_, ovs). ovs \<noteq> []) collected" "validate_overlays overlays = Inr ()"
      "decisions = concat (map snd overlays)"
    by (auto simp: collect_overlays_def rbind_Inr_iff Let_def)
  have "map fst collected = map fst (sort_key fst retained)"
    by (rule rmap_keys[OF c]) (auto simp: rbind_Inr_iff)
  moreover have "mset (map fst (sort_key fst retained)) = mset (map fst retained)" by simp
  ultimately have "distinct (map fst collected)" using assms(2) by (metis mset_eq_imp_distinct_iff)
  then have dist: "distinct (map fst overlays)" by (simp add: o(1) distinct_map_filter)
  have entry: "\<forall>ov \<in> set ovs. ro_text_id ov = k \<and> so_reason ov \<in> set allowed \<and> so_speaker ov \<in> set active"
    if "(k, ovs) \<in> set overlays" for k ovs
  proof -
    from that have "(k, ovs) \<in> set collected" by (simp add: o(1))
    from rmap_image[OF c this] obtain fs where "rcollect (reviewed_of allowed active k) fs = Inr ovs"
      by (auto simp: rbind_Inr_iff)
    then show ?thesis by (auto simp: rcollect_set dest!: reviewed_of_Some)
  qed
  show eq: "filter (\<lambda>ov. ro_text_id ov = text_id) decisions = (case map_of overlays text_id of None \<Rightarrow> [] | Some ovs \<Rightarrow> ovs)"
    unfolding o(3) by (rule filter_by_text[OF dist]) (use entry in blast)
  have "list_all proper_range (case map_of overlays text_id of None \<Rightarrow> [] | Some ovs \<Rightarrow> ovs) \<and>
      sorted_wrt apart (case map_of overlays text_id of None \<Rightarrow> [] | Some ovs \<Rightarrow> ovs)"
    using o(2) by (auto simp: validate_overlays_iff list_all_iff dest: map_of_SomeD split: option.split)
  then show "list_all proper_range (filter (\<lambda>ov. ro_text_id ov = text_id) decisions)"
    "sorted_wrt apart (filter (\<lambda>ov. ro_text_id ov = text_id) decisions)" by (simp_all only: eq)
  show "\<forall>ov \<in> set decisions. so_reason ov \<in> set allowed \<and> so_speaker ov \<in> set active" using entry by (fastforce simp: o(3))
qed

lemma vitem_entry_text: "vitem v ''text'' = Inr t \<Longrightarrow> entry_text v = Inr (py_str t)"
  by (cases v) (auto simp: entry_text_def item_def ditem_def dget_def split: option.splits)

lemma validated_sources:
  assumes "validate_candidate_sources frs metadata = Inr u"
  shows "\<exists>asr cs. vget metadata ''asr'' JNull = Inr asr \<and> rmap (check_source asr) frs = Inr cs"
proof -
  from assms obtain asr align where a: "vget metadata ''asr'' JNull = Inr asr" "vget metadata ''align'' JNull = Inr align"
    by (auto simp: validate_candidate_sources_def rbind_Inr_iff)
  with assms show ?thesis
    by (cases asr; cases align) (auto simp: validate_candidate_sources_def rbind_Inr_iff raise_if_Inr_iff)
qed

section \<open>One text\<close>

text \<open>What every candidate composed over a base shares: the turn of a base fragment, and a character's label.\<close>

lemma composed_turn_kept:
  assumes src: "fragments_source fs = Inr source"
    and rep: "reproject_preserving_base text_id source us fs ovs ids = Inr turns"
    and fs: "laid_out fs" "\<forall>f \<in> set fs. plain_fragment (as_fragment f)"
    and ovs: "list_all proper_range ovs" "sorted_wrt apart ovs"
    and f: "f \<in> set fs"
    and free: "list_all (\<lambda>ov. so_end ov \<le> int (bf_start f) \<or> int (bf_end f) \<le> so_start ov) ovs"
  obtains t where "t \<in> set turns" "pt_text_id t = text_id" "entry_text (bf_entry f) = Inr (pt_text t)"
    "entry_label (bf_entry f) = Inr (pt_label t)" "float_item (bf_entry f) ''start'' = Inr (pt_start t)"
    "float_item (bf_entry f) ''end'' = Inr (pt_end t)"
proof -
  obtain j where j: "j < length fs" "fs ! j = f" using f by (auto simp: in_set_conv_nth)
  obtain xs labels ts where c: "rmap fragment_chars (enumerate 0 (map as_fragment fs)) = Inr xs"
    "length (concat xs) = length source"
    "labels = map (\<lambda>i. label_at ids ovs i (snd (concat xs ! i))) [0..<length source]"
    "rcollect (composed_piece text_id source ts (map fst (concat xs)) labels fs)
       (enumerate 0 (source_cuts (zip (map fst (concat xs)) labels))) = Inr turns"
    by (rule reproject_cut[OF rep fs ovs])
  obtain t where t: "t \<in> set turns" "pt_text_id t = text_id"
    "pt_text t = slice (bf_start f) (bf_end f) source" "entry_label (bf_entry f) = Inr (pt_label t)"
    "float_item (bf_entry f) ''start'' = Inr (pt_start t)" "float_item (bf_entry f) ''end'' = Inr (pt_end t)"
    by (rule composed_kept[OF c(4,1-3) fs(1) j(1)]) (use free in \<open>simp_all add: j(2)\<close>)
  from src obtain us where us: "list_all2 (\<lambda>f t. rbind (vitem (bf_entry f) ''text'') (\<lambda>t. Inr (py_str t)) = Inr t) fs us"
    "source = concat us" by (auto simp: fragments_source_def rbind_Inr_iff[of "rmap _ _"] rmap_Inr_iff)
  have "list_all2 (\<lambda>f t. entry_text (fr_entry f) = Inr t) (map as_fragment fs) us"
    unfolding list_all2_map1 by (rule list_all2_mono[OF us(1)]) (auto simp: rbind_Inr_iff intro: vitem_entry_text)
  from tiles_slice[OF _ this, of 0 j] fs(1) j have "slice (bf_start f) (bf_end f) source = us ! j"
    by (simp add: laid_out_def us(2))
  moreover have "entry_text (bf_entry f) = Inr (us ! j)"
    using list_all2_nthD[OF us(1) j(1)] j(2) by (auto simp: rbind_Inr_iff dest: vitem_entry_text)
  ultimately show ?thesis using that[OF t(1,2) _ t(4-6)] by (simp add: t(3))
qed

lemma composed_label:
  assumes rep: "reproject_preserving_base text_id source us fs ovs ids = Inr turns"
    and fs: "laid_out fs" "\<forall>f \<in> set fs. plain_fragment (as_fragment f)"
    and ovs: "list_all proper_range ovs" "sorted_wrt apart ovs"
    and f: "f \<in> set fs" "bf_start f \<le> i" "i < bf_end f"
  obtains l where "entry_label (bf_entry f) = Inr l" "i < length (expand_turns turns)"
    "expand_turns turns ! i = label_key (label_at ids ovs i l)"
proof -
  obtain xs labels ts where c: "rmap fragment_chars (enumerate 0 (map as_fragment fs)) = Inr xs"
    "length (concat xs) = length source"
    "labels = map (\<lambda>i. label_at ids ovs i (snd (concat xs ! i))) [0..<length source]"
    "rcollect (composed_piece text_id source ts (map fst (concat xs)) labels fs)
       (enumerate 0 (source_cuts (zip (map fst (concat xs)) labels))) = Inr turns"
    by (rule reproject_cut[OF rep fs ovs])
  have e: "expand_turns turns = map label_key labels" by (rule composed_expand[OF c(4,2)]) (simp add: c(3))
  have at: "i < length source \<and> entry_label (bf_entry f) = Inr (snd (concat xs ! i))"
    using owned_at[OF c(1), of 0 "as_fragment f" i] fs(1) f c(2) by (auto simp: laid_out_def)
  with that show ?thesis by (simp add: e c(3))
qed

text \<open>The turns of one text in the whole track.\<close>

lemma composed_of_text:
  assumes frs: "candidate_fragments base = Inr frs" "map_of frs text_id = Some fs"
    and val: "validate_candidate_sources frs metadata = Inr ()"
    and pcs: "rmap (composed_text metadata overlays ids) (sort_key fst frs) = Inr pieces"
  obtains source us where "fragments_source fs = Inr source" "laid_out fs"
    "reproject_preserving_base text_id source us fs (case map_of overlays text_id of None \<Rightarrow> [] | Some ovs \<Rightarrow> ovs) ids
      = Inr (filter (\<lambda>t. pt_text_id t = text_id) (concat pieces))"
proof -
  note facts = candidate_fragments_facts[OF frs(1)]
  have mem: "(text_id, fs) \<in> set frs" using frs(2) by (rule map_of_SomeD)
  have "\<forall>t \<in> set e. pt_text_id t = fst g" if "composed_text metadata overlays ids g = Inr e" for g e
    using that by (cases g) (auto simp: composed_text_def reproject_preserving_base_def rbind_Inr_iff raise_if_Inr_iff
      rcollect_set dest!: composed_piece_Some)
  from turns_of_text[OF pcs this facts(1) frs(2)]
  have "composed_text metadata overlays ids (text_id, fs) = Inr (filter (\<lambda>t. pt_text_id t = text_id) (concat pieces))" .
  then obtain asr source us where src: "vitem metadata ''asr'' = Inr asr" "asr_source asr text_id = Inr source"
    and rep: "reproject_preserving_base text_id source us fs (case map_of overlays text_id of None \<Rightarrow> [] | Some ovs \<Rightarrow> ovs) ids
      = Inr (filter (\<lambda>t. pt_text_id t = text_id) (concat pieces))"
    by (auto simp: composed_text_def rbind_Inr_iff)
  from val obtain asr' cs where a: "vget metadata ''asr'' JNull = Inr asr'" "rmap (check_source asr') frs = Inr cs"
    using validated_sources by blast
  have "asr' = asr" using a(1) src(1) by (cases metadata) (auto simp: dget_def item_def ditem_def split: option.splits)
  with rmap_all[OF a(2) mem] src(2) have "fragments_source fs = Inr source"
    by (auto simp: check_source_def rbind_Inr_iff raise_if_Inr_iff)
  then show ?thesis using that[OF _ _ rep] facts(2) mem by blast
qed

section \<open>The composed candidate\<close>

lemma build_parts:
  assumes "build_reviewed_candidate base retained metadata mapping allowed = Inr r"
    and "candidate_fragments base = Inr frs" "map_of frs text_id = Some fs"
  obtains ids source us where "fragments_source fs = Inr source" "laid_out fs"
    "\<forall>f \<in> set fs. plain_fragment (as_fragment f)"
    "reproject_preserving_base text_id source us fs (filter (\<lambda>ov. ro_text_id ov = text_id) (rr_overlays r)) ids
      = Inr (filter (\<lambda>t. pt_text_id t = text_id) (rr_track r))"
    "list_all proper_range (filter (\<lambda>ov. ro_text_id ov = text_id) (rr_overlays r))"
    "sorted_wrt apart (filter (\<lambda>ov. ro_text_id ov = text_id) (rr_overlays r))"
    "\<forall>ov \<in> set (rr_overlays r). so_reason ov \<in> set allowed \<and> so_speaker ov \<in> set (rr_active r)"
proof -
  from assms(1,2) obtain ids retained_frs overlays pieces us where
    ret: "candidate_fragments retained = Inr retained_frs"
    and val: "validate_candidate_sources frs metadata = Inr ()"
    and col: "collect_overlays retained_frs allowed (rr_active r) = Inr (overlays, rr_overlays r)"
    and chk: "rmap (check_base_identity ids) (concat (map snd frs)) = Inr us"
    and pcs: "rmap (composed_text metadata overlays ids) (sort_key fst frs) = Inr pieces" "rr_track r = concat pieces"
    by (auto simp: build_reviewed_candidate_def rbind_Inr_iff raise_if_Inr_iff Let_def)
  note col_facts = collected_facts(1-3)[OF col candidate_fragments_facts(1)[OF ret], where text_id = text_id]
    collected_facts(4)[OF col candidate_fragments_facts(1)[OF ret]]
  have mem: "(text_id, fs) \<in> set frs" using assms(3) by (rule map_of_SomeD)
  have plain: "\<forall>f \<in> set fs. plain_fragment (as_fragment f)"
  proof
    fix f assume "f \<in> set fs"
    with mem have "f \<in> set (concat (map snd frs))" by force
    from rmap_all[OF chk this] show "plain_fragment (as_fragment f)" by (auto intro: checked_plain)
  qed
  obtain source us where t: "fragments_source fs = Inr source" "laid_out fs"
    "reproject_preserving_base text_id source us fs (case map_of overlays text_id of None \<Rightarrow> [] | Some ovs \<Rightarrow> ovs) ids
      = Inr (filter (\<lambda>t. pt_text_id t = text_id) (concat pieces))"
    by (rule composed_of_text[OF assms(2,3) val pcs(1)])
  show ?thesis by (rule that[OF t(1,2) plain t(3)[folded col_facts(1) pcs(2)] col_facts(2,3,4)])
qed

text \<open>
  C32: the composed candidate keeps every base turn that no reviewed overlay meets exactly as it
  was: text, start, end, identity, certainty and reason.
\<close>

theorem composed_keeps_base_turns:
  assumes build: "build_reviewed_candidate base retained metadata mapping allowed = Inr r"
    and frs: "candidate_fragments base = Inr frs" "map_of frs text_id = Some fs" "f \<in> set fs"
    and free: "list_all (\<lambda>ov. so_end ov \<le> int (bf_start f) \<or> int (bf_end f) \<le> so_start ov)
      (filter (\<lambda>ov. ro_text_id ov = text_id) (rr_overlays r))"
  shows "list_ex (\<lambda>t. pt_text_id t = text_id \<and> entry_text (bf_entry f) = Inr (pt_text t) \<and>
    entry_label (bf_entry f) = Inr (pt_label t) \<and> float_item (bf_entry f) ''start'' = Inr (pt_start t) \<and>
    float_item (bf_entry f) ''end'' = Inr (pt_end t)) (rr_track r)"
proof -
  obtain ids source us where src: "fragments_source fs = Inr source" and fs: "laid_out fs"
    and pl: "\<forall>f \<in> set fs. plain_fragment (as_fragment f)"
    and rep: "reproject_preserving_base text_id source us fs (filter (\<lambda>ov. ro_text_id ov = text_id) (rr_overlays r)) ids
      = Inr (filter (\<lambda>t. pt_text_id t = text_id) (rr_track r))"
    and ovs: "list_all proper_range (filter (\<lambda>ov. ro_text_id ov = text_id) (rr_overlays r))"
      "sorted_wrt apart (filter (\<lambda>ov. ro_text_id ov = text_id) (rr_overlays r))"
    by (rule build_parts[OF build frs(1,2)])
  obtain t where "t \<in> set (filter (\<lambda>t. pt_text_id t = text_id) (rr_track r))" "pt_text_id t = text_id"
    "entry_text (bf_entry f) = Inr (pt_text t)" "entry_label (bf_entry f) = Inr (pt_label t)"
    "float_item (bf_entry f) ''start'' = Inr (pt_start t)" "float_item (bf_entry f) ''end'' = Inr (pt_end t)"
    by (rule composed_turn_kept[OF src rep fs pl ovs frs(3) free])
  then show ?thesis by (auto simp: list_ex_iff)
qed

text \<open>
  Every character of the composed candidate has the identity and reason of the one
  reviewed overlay that holds it, an allowlisted reason and an active identity, and otherwise the
  label of its base turn.
\<close>

lemma composed_labels_exact:
  assumes build: "build_reviewed_candidate base retained metadata mapping allowed = Inr r"
    and frs: "candidate_fragments base = Inr frs" "map_of frs text_id = Some fs" "f \<in> set fs"
    and i: "bf_start f \<le> i" "i < bf_end f"
  shows "let labels = expand_turns (filter (\<lambda>t. pt_text_id t = text_id) (rr_track r)) in i < length labels \<and>
    (case find (holds_at i) (filter (\<lambda>ov. ro_text_id ov = text_id) (rr_overlays r)) of
       None \<Rightarrow> rbind (entry_label (bf_entry f)) (\<lambda>l. Inr (label_key l)) = Inr (labels ! i)
     | Some ov \<Rightarrow> labels ! i = (JStr (so_speaker ov), False, so_reason ov) \<and>
         so_reason ov \<in> set allowed \<and> so_speaker ov \<in> set (rr_active r))"
proof -
  let ?ovs = "filter (\<lambda>ov. ro_text_id ov = text_id) (rr_overlays r)"
  let ?turns = "filter (\<lambda>t. pt_text_id t = text_id) (rr_track r)"
  obtain ids source us where fs: "laid_out fs" and pl: "\<forall>f \<in> set fs. plain_fragment (as_fragment f)"
    and rep: "reproject_preserving_base text_id source us fs ?ovs ids = Inr ?turns"
    and ovs: "list_all proper_range ?ovs" "sorted_wrt apart ?ovs"
    and ok: "\<forall>ov \<in> set (rr_overlays r). so_reason ov \<in> set allowed \<and> so_speaker ov \<in> set (rr_active r)"
    by (rule build_parts[OF build frs(1,2)])
  obtain l where "entry_label (bf_entry f) = Inr l" "i < length (expand_turns ?turns)"
    "expand_turns ?turns ! i = label_key (label_at ids ?ovs i l)"
    by (rule composed_label[OF rep fs pl ovs frs(3) i])
  note l = this
  show ?thesis
  proof (cases "find (holds_at i) ?ovs")
    case None
    then show ?thesis using l by (simp add: Let_def label_at_def)
  next
    case (Some ov)
    then have "ov \<in> set (rr_overlays r)" by (auto simp: find_Some_iff dest: nth_mem)
    with ok l Some show ?thesis by (simp add: Let_def label_at_def laid_label_def label_key_def)
  qed
qed

end
