(* ===== verification/Phrase_Witnesses.thy ===== *)
theory Phrase_Witnesses
  imports Relative_Properties Reviewed_Properties
begin

text \<open>
  Concrete inputs of the phrase candidates: one text of two fragments, the first a regular anchor,
  one phrase that is its only piece, and voices that select the anchor's identity.
\<close>

section \<open>Inputs\<close>

definition demo_gates :: gate_policy where
  "demo_gates = \<lparr>gp_short_max = 0, gp_short_score = 0, gp_short_margin = 0, gp_regular_score = 0, gp_regular_margin = 0\<rparr>"

definition demo_phrase_policy :: phrase_policy where
  "demo_phrase_policy = \<lparr>pp_minimum = 1, pp_maximum = 1, pp_visible = 1, pp_punctuation = '','', pp_gates = demo_gates,
     pp_require_anchor = True\<rparr>"

definition demo_phrase_track :: json where
  "demo_phrase_track = JArr
     [JObj [(''text_id'', JInt 0), (''text'', JStr ''ab''), (''start'', JInt 0), (''end'', JInt 1), (''speaker'', JInt 0),
        (''speaker_id'', JStr ''A'')],
      JObj [(''text_id'', JInt 0), (''text'', JStr ''cd''), (''start'', JInt 1), (''end'', JInt 2), (''speaker'', JInt 1),
        (''speaker_id'', JStr ''B'')]]"

definition demo_direct :: json where
  "demo_direct = JObj [(''kind'', JStr ''orator_frozen_speaker_candidate''),
     (''active_speaker_ids'', JArr [JStr ''A'', JStr ''B'']), (''audio_sec'', JInt 2), (''sample_rate'', JInt 1),
     (''track'', demo_phrase_track),
     (''decisions'', JArr [JObj [(''reason'', JStr ''regular_direct_voiceprint''), (''speaker_id'', JStr ''A'')],
        JObj [(''reason'', JStr ''score_below_gate''), (''speaker_id'', JNull)]])]"

definition demo_spans :: "json list" where
  "demo_spans = [JObj [(''evidence_id'', JStr ''p''), (''text_id'', JInt 0), (''source_start'', JInt 0),
     (''source_end'', JInt 4), (''start'', JInt 0), (''end'', JInt 2), (''local_speaker'', JInt 0)]]"

definition demo_phrase_metadata :: json where
  "demo_phrase_metadata = JObj [(''kind'', JStr ''orator_punctuation_phrase_spans''),
     (''asr'', JObj [(''0'', JObj [(''text'', JStr ''abcd'')])]),
     (''align'', JObj [(''0'', JArr [JObj [(''text'', JStr ''abcd''), (''start'', JInt 0), (''end'', JInt 2)]])]),
     (''phrases'', JArr demo_spans), (''pieces'', JArr demo_spans)]"

definition demo_voices :: voice_table where
  "demo_voices = [(Some ''p'', \<lparr>pv_status = Some ''ok'', pv_duration = 1, pv_scores = [(''A'', 1), (''B'', 0)]\<rparr>)]"

definition demo_slots :: json where
  "demo_slots = JObj [(''mapping'', JObj [(''0'', JStr ''A''), (''1'', JStr ''B'')])]"

definition demo_build :: phrase_build where
  "demo_build = \<lparr>pb_direct = demo_direct, pb_metadata = demo_phrase_metadata, pb_evidence = demo_voices, pb_manifest = demo_slots\<rparr>"

definition demo_posterior_policy :: posterior_policy where
  "demo_posterior_policy = \<lparr>bp_threshold = 0, bp_minimum_run = 1, bp_minimum_piece = 1, bp_regular_piece = 1,
     bp_allow_regular = False, bp_gates = demo_gates\<rparr>"

definition demo_frs :: "fragment list" where
  "demo_frs = (case source_fragments demo_direct of Inr (g # _) \<Rightarrow> snd g | _ \<Rightarrow> [])"

definition demo_anchor :: fragment where
  "demo_anchor = hd demo_frs"

definition demo_align :: json where
  "demo_align = JArr [JObj [(''text'', JStr ''abcd''), (''start'', JInt 0), (''end'', JInt 2)]]"

definition demo_run :: sustained_run where
  "demo_run = \<lparr>sr_start = 0, sr_end = 1 + 1, sr_local = 0, sr_frame_start = 0, sr_frame_end = 2, sr_frame_count = 1, sr_mean = 1\<rparr>"

definition demo_retained :: json where
  "demo_retained = JObj [(''kind'', JStr ''orator_frozen_speaker_candidate''),
     (''active_speaker_ids'', JArr [JStr ''A'', JStr ''B'']),
     (''track'', JArr
       [JObj [(''text_id'', JInt 0), (''text'', JStr ''ab'')],
        JObj [(''text_id'', JInt 0), (''text'', JStr ''cd''), (''speaker_id'', JStr ''A''),
          (''decision_reason'', JStr ''reviewed'')]])]"

definition demo_base_fragments :: "base_fragment list" where
  "demo_base_fragments = (case candidate_fragments demo_direct of Inr (g # _) \<Rightarrow> snd g | _ \<Rightarrow> [])"

definition demo_relative_metadata :: json where
  "demo_relative_metadata = JObj [(''kind'', JStr ''orator_relative_top1_phrase_spans''),
     (''asr'', JObj [(''0'', JObj [(''text'', JStr ''abcd'')])]),
     (''align'', JObj [(''0'', JArr [JObj [(''text'', JStr ''abcd''), (''start'', JInt 0), (''end'', JInt 2)]])]),
     (''pieces'', JArr demo_spans)]"

definition demo_relative_policy :: relative_policy where
  "demo_relative_policy = \<lparr>rp_minimum_run = 1, rp_minimum_piece = 1, rp_voiceprint = demo_posterior_policy\<rparr>"

definition demo_relative_fragments :: "fragment list" where
  "demo_relative_fragments = (case track_fragments demo_phrase_track of Inr (g # _) \<Rightarrow> snd g | _ \<Rightarrow> [])"

definition demo_relative_context :: relative_context where
  "demo_relative_context = \<lparr>rx_policy = demo_relative_policy, rx_session = demo_voices, rx_robust = demo_voices,
     rx_active = [''A'', ''B''], rx_local_to_id = [(0, ''A''), (1, ''B'')],
     rx_fragments = [(0, demo_relative_fragments)]\<rparr>"

section \<open>Evaluations\<close>

lemma demo_values:
  "source_fragments demo_direct = Inr [(0, demo_frs)]"
  "list_all plain_fragment demo_frs"
  "demo_anchor \<in> set demo_frs"
  "fr_anchor demo_anchor"
  "is_regular_anchor demo_anchor = Inr True"
  "fr_start demo_anchor = 0"
  "fr_end demo_anchor = 2"
  "case build_phrase_candidate demo_build demo_phrase_policy of Inr r \<Rightarrow> length (pq_track r) = 1 | Inl _ \<Rightarrow> False"
  "case build_posterior_candidate demo_direct demo_phrase_metadata demo_voices demo_slots demo_posterior_policy of
     Inr r \<Rightarrow> length (po_track r) = 2 | Inl _ \<Rightarrow> False"
  "forward_phrases demo_phrase_metadata"
  "forward_pieces demo_phrase_metadata"
  "candidate_fragments demo_direct = Inr [(0, demo_base_fragments)]"
  "hd demo_base_fragments \<in> set demo_base_fragments"
  "last demo_base_fragments \<in> set demo_base_fragments"
  "bf_end (hd demo_base_fragments) = 2"
  "bf_start (last demo_base_fragments) = 2"
  "bf_end (last demo_base_fragments) = 4"
  "case build_reviewed_candidate demo_direct demo_retained demo_phrase_metadata demo_slots [''reviewed''] of
     Inr r \<Rightarrow> list_all (\<lambda>ov. so_start ov = 2 \<and> so_end ov = 4 \<and> ro_text_id ov = 0) (rr_overlays r) \<and> length (rr_overlays r) = 1
   | Inl _ \<Rightarrow> False"
  "rbind (vget demo_direct ''track'' (JArr [])) track_fragments = Inr [(0, demo_relative_fragments)]"
  "relative_setup demo_direct [(0, demo_relative_fragments)] demo_voices demo_voices demo_slots demo_relative_policy
    = Inr demo_relative_context"
  "rbind (vitem demo_relative_metadata ''pieces'') py_iter = Inr demo_spans"
  "list_all plain_fragment demo_relative_fragments"
  "last demo_relative_fragments \<in> set demo_relative_fragments"
  "fr_start (last demo_relative_fragments) = 2"
  "fr_end (last demo_relative_fragments) = 4"
  "case build_relative_candidate demo_direct demo_relative_metadata demo_voices demo_voices demo_slots demo_relative_policy of
     Inr r \<Rightarrow> map (\<lambda>t. cl_reason (pt_label t)) (rv_track r) = [consensus_reason] | Inl _ \<Rightarrow> False"
  "case reproject_text 0 ''abcd'' demo_align demo_frs [] [] of Inr turns \<Rightarrow> length turns = 2 | Inl _ \<Rightarrow> False"
  "overlay_ranges (hd demo_spans) (Some ''A'') demo_frs = Inr [(2, 4)]"
  "rbind (vitem (hd demo_spans) ''source_start'') range_bound = Inr 0"
  "rbind (vitem (hd demo_spans) ''source_end'') range_bound = Inr 4"
  "accept_piece (hd demo_spans) (Some ''A'') ''A'' demo_frs demo_posterior_policy
      = Inr (True, ''piece_posterior_voiceprint_consensus'')"
  "case phrase_pieces (hd demo_spans) ''abcd'' demo_align [demo_run] demo_posterior_policy of
      Inr groups \<Rightarrow> length groups = 1 | Inl _ \<Rightarrow> False"
  "rbind (vitem (hd demo_spans) ''source_start'') range_bound = Inr 0"
  "rbind (vitem (hd demo_spans) ''source_end'') range_bound = Inr 4"
  "case build_reviewed_candidate demo_direct demo_retained demo_phrase_metadata demo_slots [''reviewed''] of
     Inr r \<Rightarrow> (case find (holds_at 3) (filter (\<lambda>ov. ro_text_id ov = 0) (rr_overlays r)) of
       Some ov \<Rightarrow> so_speaker ov = ''A'' \<and> so_reason ov = ''reviewed'' | None \<Rightarrow> False) | Inl _ \<Rightarrow> False"
  "sorted [0, 1 :: dbl, 1 + 1]"
  "bisect_right [0, 1, 1 + 1] 1 = 2"
  by code_simp+

lemmas demo_fragments = demo_values(1)
lemmas demo_fragments_ok = demo_values(2-7)
lemmas demo_builds = demo_values(8)
lemmas demo_posterior_builds = demo_values(9)
lemmas demo_forward = demo_values(10-11)
lemmas demo_base = demo_values(12)
lemmas demo_base_facts = demo_values(13-17)
lemmas demo_composed = demo_values(18)
lemmas demo_relative = demo_values(19-22)
lemmas demo_relative_last = demo_values(23-25)
lemmas demo_relative_builds = demo_values(26)

section \<open>Witnesses\<close>

theorem reproject_relabels_witness:
  "\<exists>turns owned. reproject_text 0 ''abcd'' demo_align demo_frs [] [] = Inr turns \<and> owned_labels demo_frs = Inr owned \<and>
     concat (map pt_text turns) = ''abcd''"
proof -
  from demo_values(27) obtain turns where t: "reproject_text 0 ''abcd'' demo_align demo_frs [] [] = Inr turns"
    by (auto split: sum.splits)
  from reproject_relabels[OF t demo_fragments_ok(1)] t show ?thesis by blast
qed

theorem candidate_keeps_anchors_witness:
  "\<exists>r. build_phrase_candidate demo_build demo_phrase_policy = Inr r \<and>
     1 < length (expand_turns (filter (\<lambda>t. pt_text_id t = 0) (pq_track r)))"
proof -
  from demo_builds obtain r where r: "build_phrase_candidate demo_build demo_phrase_policy = Inr r"
    by (auto split: sum.splits)
  have p: "list_all (\<lambda>(_, frs). list_all plain_fragment frs) [(0 :: int, demo_frs)]" using demo_fragments_ok(1) by simp
  have m: "map_of [(0 :: int, demo_frs)] 0 = Some demo_frs" by simp
  have "let labels = expand_turns (filter (\<lambda>t. pt_text_id t = 0) (pq_track r)) in 1 < length labels \<and>
      (vget (fr_entry demo_anchor) ''speaker_id'' JNull = Inr (fst (labels ! 1)) \<or>
       vitem (fr_decision demo_anchor) ''speaker_id'' = Inr (fst (labels ! 1)))"
    by (rule candidate_keeps_anchors[OF r _ _ p m demo_fragments_ok(2,3)])
      (simp_all add: demo_build_def demo_forward demo_fragments demo_fragments_ok(5,6))
  with r show ?thesis by (auto simp: Let_def)
qed

theorem posterior_keeps_regular_anchors_witness:
  "\<exists>r. build_posterior_candidate demo_direct demo_phrase_metadata demo_voices demo_slots demo_posterior_policy = Inr r \<and>
     1 < length (expand_turns (filter (\<lambda>t. pt_text_id t = 0) (po_track r)))"
proof -
  from demo_posterior_builds obtain r where
    r: "build_posterior_candidate demo_direct demo_phrase_metadata demo_voices demo_slots demo_posterior_policy = Inr r"
    by (auto split: sum.splits)
  have p: "list_all (\<lambda>(_, frs). list_all plain_fragment frs) [(0 :: int, demo_frs)]" using demo_fragments_ok(1) by simp
  have m: "map_of [(0 :: int, demo_frs)] 0 = Some demo_frs" by simp
  have "let labels = expand_turns (filter (\<lambda>t. pt_text_id t = 0) (po_track r)) in 1 < length labels \<and>
      rbind (entry_label (fr_entry demo_anchor)) (\<lambda>l. Inr (label_key l)) = Inr (labels ! 1)"
    by (rule posterior_keeps_regular_anchors[OF r demo_forward(2) demo_fragments p m demo_fragments_ok(2,4)])
      (simp_all add: demo_fragments_ok(5,6))
  with r show ?thesis by (auto simp: Let_def)
qed

theorem overlay_ranges_exact_witness:
  "concat (map (\<lambda>(s, e). [s..e - 1]) [(2, 4)])
     = filter (\<lambda>i. free_position (Some ''A'') demo_frs i = Inr True) [0..3]"
proof -
  from conjunct1[OF overlay_ranges_exact[OF demo_values(28-30)]] show ?thesis by simp
qed

theorem accepted_piece_sound_witness:
  "\<exists>reason. accept_piece (hd demo_spans) (Some ''A'') ''A'' demo_frs demo_posterior_policy = Inr (True, reason) \<and>
     list_all (\<lambda>fr. is_regular_anchor fr = Inr True \<longrightarrow> other_identity ''A'' fr = Inr False) demo_frs"
proof -
  from accepted_piece_sound[OF demo_values(31)] demo_values(31) show ?thesis by blast
qed

theorem phrase_pieces_ordered_witness:
  "\<exists>groups. phrase_pieces (hd demo_spans) ''abcd'' demo_align [demo_run] demo_posterior_policy = Inr groups \<and>
     list_all (piece_ok demo_posterior_policy [demo_run] 0 4) groups"
proof -
  from demo_values(32) obtain groups where g: "phrase_pieces (hd demo_spans) ''abcd'' demo_align [demo_run] demo_posterior_policy = Inr groups"
    by (auto split: sum.splits)
  from phrase_pieces_ordered[OF g demo_values(33-34)] g show ?thesis by blast
qed

section \<open>Reviewed overlays\<close>

theorem composed_keeps_base_turns_witness:
  "\<exists>r. build_reviewed_candidate demo_direct demo_retained demo_phrase_metadata demo_slots [''reviewed''] = Inr r \<and>
     list_ex (\<lambda>t. entry_text (bf_entry (hd demo_base_fragments)) = Inr (pt_text t)) (rr_track r)"
proof -
  from demo_composed obtain r where r: "build_reviewed_candidate demo_direct demo_retained demo_phrase_metadata demo_slots [''reviewed''] = Inr r"
    and o: "list_all (\<lambda>ov. so_start ov = 2 \<and> so_end ov = 4 \<and> ro_text_id ov = 0) (rr_overlays r)" by (auto split: sum.splits)
  have free: "list_all (\<lambda>ov. so_end ov \<le> int (bf_start (hd demo_base_fragments)) \<or>
      int (bf_end (hd demo_base_fragments)) \<le> so_start ov) (filter (\<lambda>ov. ro_text_id ov = 0) (rr_overlays r))"
    using o by (auto simp: list_all_iff demo_base_facts)
  have m: "map_of [(0 :: int, demo_base_fragments)] 0 = Some demo_base_fragments" by simp
  from composed_keeps_base_turns[OF r demo_base m demo_base_facts(1) free] r show ?thesis by (auto simp: list_ex_iff)
qed

theorem composed_labels_exact_witness:
  "\<exists>r. build_reviewed_candidate demo_direct demo_retained demo_phrase_metadata demo_slots [''reviewed''] = Inr r \<and>
     expand_turns (filter (\<lambda>t. pt_text_id t = 0) (rr_track r)) ! 3 = (JStr ''A'', False, ''reviewed'')"
proof -
  from demo_values(35) obtain r where r: "build_reviewed_candidate demo_direct demo_retained demo_phrase_metadata demo_slots [''reviewed''] = Inr r"
    and f: "case find (holds_at 3) (filter (\<lambda>ov. ro_text_id ov = 0) (rr_overlays r)) of
       Some ov \<Rightarrow> so_speaker ov = ''A'' \<and> so_reason ov = ''reviewed'' | None \<Rightarrow> False" by (auto split: sum.splits)
  have m: "map_of [(0 :: int, demo_base_fragments)] 0 = Some demo_base_fragments" by simp
  have i: "bf_start (last demo_base_fragments) \<le> 3" "3 < bf_end (last demo_base_fragments)" by (simp_all add: demo_base_facts)
  from composed_labels_exact[OF r demo_base m demo_base_facts(2) i] f r show ?thesis
    by (auto simp: Let_def split: option.splits)
qed

section \<open>Relative top-1 candidate\<close>

theorem relative_changes_agreed_witness:
  "\<exists>r. build_relative_candidate demo_direct demo_relative_metadata demo_voices demo_voices demo_slots demo_relative_policy = Inr r \<and>
     3 < length (expand_turns (filter (\<lambda>t. pt_text_id t = 0) (rv_track r)))"
proof -
  from demo_relative_builds obtain r where
    r: "build_relative_candidate demo_direct demo_relative_metadata demo_voices demo_voices demo_slots demo_relative_policy = Inr r"
    by (auto split: sum.splits)
  have p: "list_all (\<lambda>(_, frs). list_all plain_fragment frs) [(0 :: int, demo_relative_fragments)]"
    using demo_relative(4) by simp
  have m: "map_of [(0 :: int, demo_relative_fragments)] 0 = Some demo_relative_fragments" by simp
  have i: "fr_start (last demo_relative_fragments) \<le> 3" "3 < fr_end (last demo_relative_fragments)"
    by (simp_all add: demo_relative_last)
  from relative_changes_agreed[OF r demo_relative(1-3) p m demo_relative_last(1) i] r show ?thesis
    by (auto simp: Let_def)
qed

theorem bisect_search_counts_witness:
  "bisect_search [0, 1, 1 + 1] 1 0 (length [0, 1 :: dbl, 1 + 1]) = 2"
proof -
  from bisect_search_counts[OF demo_values(36)] demo_values(37) show ?thesis by simp
qed

end
