(* ===== verification/Relative_Expansion.thy ===== *)
theory Relative_Expansion
  imports Relative_Top1
begin

text \<open>
  \<^verbatim>\<open>tools/archive/spec013-speaker-candidates/speaker_relative_top1_phrase_expansion_candidate.py\<close>:
  an accepted piece of the relative top-1 candidate is widened to the complete phrase around it
  where both voiceprint tables rank its identity first for the whole phrase.  The slot mapping,
  the fragments and the reprojection are those of the reviewed overlay candidate, which the module
  calls (its own \<^verbatim>\<open>read_mapping\<close> is the same function once more).  Parsed files, digests
  and absolute paths are parameters.
\<close>

section \<open>Policy\<close>

definition expansion_flags :: "string list" where
  "expansion_flags = [''enabled'', ''require_accepted_relative_piece'', ''require_piece_within_phrase'',
     ''require_phrase_dual_top_rank_identity'', ''require_existing_margin'',
     ''require_all_known_baseline_identities'', ''require_baseline_conflict'', ''reject_conflicting_overlays'']"

definition expansion_fields :: "string list" where
  "expansion_fields = expansion_flags @
     [''required_candidate_kind'', ''required_piece_reason'', ''phrase_margin'', ''protected_decision_reasons'']"

record expansion_policy =
  xp_kind :: string
  xp_piece_reason :: string
  xp_margin :: dbl
  xp_protected :: "string list"

text \<open>\<^verbatim>\<open>min(float(fusion["short_min_margin"]), float(fusion["regular_min_margin"]))\<close>.\<close>

definition inherited_margin :: "json \<Rightarrow> dbl res" where
  "inherited_margin fusion = rbind (float_item fusion ''short_min_margin'') (\<lambda>a.
     rbind (float_item fusion ''regular_min_margin'') (\<lambda>b. Inr (min a b)))"

definition protected_reasons :: "json \<Rightarrow> string list res" where
  "protected_reasons v = (case v of
     JArr (x # xs) \<Rightarrow> (let reasons = map py_str (x # xs) in
       raise_if ([] \<in> set reasons \<or> \<not> distinct reasons) (ValueError ''protected decision reasons are invalid'')
         (Inr reasons))
   | _ \<Rightarrow> Inl (ValueError ''protected decision reasons must be non-empty''))"

definition load_expansion_policy :: "obj \<Rightarrow> expansion_policy res" where
  "load_expansion_policy document =
    (let fusion = dget document ''speaker_fusion'' (JObj []);
         section = dget document ''relative_top1_phrase_expansion'' (JObj []) in
     rbind (absent_fields GATE_FIELDS fusion) (\<lambda>m1. rbind (absent_fields expansion_fields section) (\<lambda>m2.
     let missing = sort (m1 @ m2) in
     raise_if (missing \<noteq> []) (ValueError (''relative expansion policy missing: '' @ join_with '','' missing))
     (rbind (rmap (vitem section) expansion_flags) (\<lambda>flags.
      raise_if (\<exists>v \<in> set flags. v \<noteq> JBool True) (ValueError ''relative expansion safeguards are mandatory'')
      (rbind (float_item section ''phrase_margin'') (\<lambda>margin.
       rbind (inherited_margin fusion) (\<lambda>inherited.
       raise_if (EPSILON < \<bar>margin - inherited\<bar>) (ValueError ''relative expansion margin must inherit fusion margin'')
       (rbind (rbind (vitem section ''protected_decision_reasons'') protected_reasons) (\<lambda>protected.
        rbind (vitem section ''required_candidate_kind'') (\<lambda>kind.
        rbind (vitem section ''required_piece_reason'') (\<lambda>reason.
        Inr \<lparr>xp_kind = py_str kind, xp_piece_reason = py_str reason, xp_margin = margin,
          xp_protected = protected\<rparr>))))))))))))"

definition expansion_policy_doc :: "expansion_policy \<Rightarrow> json" where
  "expansion_policy_doc p = JObj [(''required_candidate_kind'', JStr (xp_kind p)),
     (''required_piece_reason'', JStr (xp_piece_reason p)), (''phrase_margin'', JFlt (xp_margin p)),
     (''protected_decision_reasons'', JArr (map JStr (xp_protected p)))]"

section \<open>Labels of the baseline\<close>

text \<open>The identity and the reason of every source character.\<close>

record base_mark =
  bm_speaker :: json
  bm_reason :: string

definition fragment_marks :: "base_fragment \<Rightarrow> base_mark list res" where
  "fragment_marks f = rbind (entry_text (bf_entry f)) (\<lambda>t. rbind (vget (bf_entry f) ''speaker_id'' JNull) (\<lambda>i.
     rbind (vget (bf_entry f) ''decision_reason'' (JStr ''baseline'')) (\<lambda>r.
     Inr (replicate (length t) \<lparr>bm_speaker = i, bm_reason = py_str r\<rparr>))))"

definition baseline_labels :: "base_fragment list \<Rightarrow> string \<Rightarrow> base_mark list res" where
  "baseline_labels fragments source = rbind (rmap fragment_marks fragments) (\<lambda>xs.
     raise_if (length (concat xs) \<noteq> length source) (ValueError ''baseline source and labels differ'')
       (Inr (concat xs)))"

type_synonym marks_by_text = "(int, base_mark list) pydict"

definition text_marks :: "json \<Rightarrow> int \<times> base_fragment list \<Rightarrow> (int \<times> base_mark list) res" where
  "text_marks metadata = (\<lambda>(text_id, fragments).
     rbind (rbind (vitem metadata ''asr'') (\<lambda>asr. asr_source asr text_id)) (\<lambda>source.
     rbind (baseline_labels fragments source) (\<lambda>marks. Inr (text_id, marks))))"

text \<open>A value as an element of a set: lists and dicts cannot be.\<close>

fun hashed :: "json \<Rightarrow> json res" where
  "hashed (JArr _) = Inl TypeError"
| "hashed (JObj _) = Inl TypeError"
| "hashed v = Inr v"

definition range_marks :: "marks_by_text \<Rightarrow> int \<Rightarrow> int \<Rightarrow> int \<Rightarrow> base_mark list res" where
  "range_marks labels text_id a b =
     rbind (ditem labels text_id (KeyError (int_repr text_id))) (\<lambda>marks. Inr (py_slice marks a b))"

section \<open>Voiceprints of a phrase\<close>

definition ranked_active :: "phrase_voice \<Rightarrow> string list \<Rightarrow> (string \<times> dbl) list" where
  "ranked_active v active = (if pv_status v \<noteq> Some ''ok'' then [] else ranked_voices v active)"

definition phrase_view_confirms ::
  "phrase_voice \<Rightarrow> json \<Rightarrow> string \<Rightarrow> string list \<Rightarrow> dbl \<Rightarrow> (bool \<times> (string \<times> dbl) list) res" where
  "phrase_view_confirms v phrase identity active margin =
    rbind (float_item phrase ''end'') (\<lambda>e. rbind (float_item phrase ''start'') (\<lambda>s.
    raise_if (D (1 / 1000000) < \<bar>pv_duration v - (e - s)\<bar>) (ValueError ''phrase evidence duration differs'')
    (let ranked = ranked_active v active in
     Inr (2 \<le> length ranked \<and> fst (ranked ! 0) = identity \<and>
          margin \<le> snd (ranked ! 0) - snd (ranked ! 1) + EPSILON, ranked))))"

section \<open>Decisions\<close>

record expansion_decision = source_overlay +
  xd_piece :: string
  xd_phrase :: string
  xd_text_id :: int
  xd_session :: "(string \<times> dbl) list"
  xd_robust :: "(string \<times> dbl) list"
  xd_accepted :: bool

type_synonym expansion_overlays = "(int, expansion_decision list) pydict"

record expansion_context =
  xx_policy :: expansion_policy
  xx_phrases :: obj
  xx_session :: voice_table
  xx_robust :: voice_table
  xx_labels :: marks_by_text
  xx_active :: "string list"
  xx_mapping :: "(int, string) pydict"

definition phrases_by_id :: "json \<Rightarrow> obj res" where
  "phrases_by_id metadata = rbind (rbind (vget metadata ''phrases'' (JArr [])) py_iter) (\<lambda>items.
     rfold (\<lambda>d x. rbind (vitem x ''evidence_id'') (\<lambda>i. Inr (dset (py_str i) x d))) [] items)"

text \<open>The verdict over the phrase's baseline labels.\<close>

definition expansion_verdict :: "expansion_policy \<Rightarrow> string \<Rightarrow> base_mark list \<Rightarrow> (bool \<times> string) res" where
  "expansion_verdict p selected marks = rbind (rmap (hashed \<circ> bm_speaker) marks) (\<lambda>ids. Inr
    (if JNull \<in> set ids then (False, ''phrase_baseline_identity_unknown'')
     else if \<forall>i \<in> set ids. i = JStr selected then (False, ''phrase_baseline_conflict_missing'')
     else if \<exists>m \<in> set marks. bm_reason m \<in> set (xp_protected p) then (False, ''phrase_protected_overlay_conflict'')
     else (True, ''relative_top1_complete_phrase_expansion'')))"

definition source_range :: "json \<Rightarrow> (int \<times> int) res" where
  "source_range x = rbind (rbind (vitem x ''source_start'') py_int) (\<lambda>a.
     rbind (rbind (vitem x ''source_end'') py_int) (\<lambda>b. Inr (a, b)))"

text \<open>The phrase of a piece: its text, its range, and the selected identity, all checked.\<close>

definition enclosing_phrase ::
  "expansion_context \<Rightarrow> json \<Rightarrow> string \<Rightarrow> (json \<times> int \<times> (int \<times> int) \<times> string) res" where
  "enclosing_phrase x piece phrase_id =
    rbind (ditem (xx_phrases x) phrase_id (ValueError ''relative piece has no enclosing phrase'')) (\<lambda>phrase.
    rbind (rbind (vitem piece ''text_id'') py_int) (\<lambda>text_id. rbind (rbind (vitem phrase ''text_id'') py_int) (\<lambda>owner.
    raise_if (text_id \<noteq> owner) (ValueError ''relative piece and phrase text ID differ'')
    (rbind (source_range piece) (\<lambda>(a, b). rbind (source_range phrase) (\<lambda>(s, e).
     raise_if (a < s \<or> e < b) (ValueError ''relative piece is not contained by phrase'')
     (rbind (vitem piece ''selected_speaker_id'') (\<lambda>v. rbind (rbind (vitem piece ''local_speaker'') py_int) (\<lambda>local.
      raise_if (map_of (xx_mapping x) local \<noteq> Some (py_str v))
        (ValueError ''relative piece local/global identity differs'')
        (Inr (phrase, text_id, (s, e), py_str v)))))))))))"

definition phrase_voices :: "expansion_context \<Rightarrow> string \<Rightarrow> (phrase_voice \<times> phrase_voice) res" where
  "phrase_voices x phrase_id =
    (case (map_of (xx_session x) (Some phrase_id), map_of (xx_robust x) (Some phrase_id)) of
       (Some session, Some robust) \<Rightarrow> Inr (session, robust)
     | _ \<Rightarrow> Inl (ValueError ''missing complete-phrase voiceprint evidence''))"

definition expand_piece :: "expansion_context \<Rightarrow> json \<Rightarrow> expansion_decision res" where
  "expand_piece x piece =
    rbind (rbind (vitem piece ''phrase_evidence_id'') (\<lambda>v. Inr (py_str v))) (\<lambda>phrase_id.
    rbind (enclosing_phrase x piece phrase_id) (\<lambda>(phrase, text_id, (s, e), selected).
    rbind (phrase_voices x phrase_id) (\<lambda>(session, robust).
    rbind (phrase_view_confirms session phrase selected (xx_active x) (xp_margin (xx_policy x))) (\<lambda>(session_ok, r1).
    rbind (phrase_view_confirms robust phrase selected (xx_active x) (xp_margin (xx_policy x))) (\<lambda>(robust_ok, r2).
    rbind (vitem piece ''evidence_id'') (\<lambda>eid.
    rbind (if \<not> session_ok \<or> \<not> robust_ok then Inr (False, ''phrase_boundary_voiceprint_veto'')
           else rbind (range_marks (xx_labels x) text_id s e) (expansion_verdict (xx_policy x) selected)) (\<lambda>(accepted, reason).
    Inr \<lparr>so_start = s, so_end = e, so_speaker = selected, so_reason = reason, xd_piece = py_str eid,
      xd_phrase = phrase_id, xd_text_id = text_id, xd_session = r1, xd_robust = r2, xd_accepted = accepted\<rparr>)))))))"

text \<open>Pieces that were not accepted, or for another reason, are passed over.\<close>

definition expandable :: "expansion_policy \<Rightarrow> json \<Rightarrow> bool res" where
  "expandable p piece = rbind (vget piece ''accepted'' JNull) (\<lambda>a.
     if a \<noteq> JBool True then Inr False
     else rbind (vget piece ''reason'' JNull) (\<lambda>r. Inr (py_str r = xp_piece_reason p)))"

definition add_expansion :: "expansion_overlays \<Rightarrow> expansion_decision \<Rightarrow> expansion_overlays" where
  "add_expansion overlays d = (if \<not> xd_accepted d then overlays
     else dset (xd_text_id d)
       ((case map_of overlays (xd_text_id d) of None \<Rightarrow> [] | Some ds \<Rightarrow> ds) @ [d]) overlays)"

definition consider_piece ::
  "expansion_context \<Rightarrow> expansion_overlays \<times> expansion_decision list \<Rightarrow> json
     \<Rightarrow> (expansion_overlays \<times> expansion_decision list) res" where
  "consider_piece x = (\<lambda>(overlays, decisions) piece. rbind (expandable (xx_policy x) piece) (\<lambda>wanted.
     if \<not> wanted then Inr (overlays, decisions)
     else rbind (expand_piece x piece) (\<lambda>d. Inr (add_expansion overlays d, decisions @ [d]))))"

definition collect_expansions ::
  "json \<Rightarrow> json \<Rightarrow> voice_table \<Rightarrow> voice_table \<Rightarrow> marks_by_text \<Rightarrow> string list \<Rightarrow> (int, string) pydict
     \<Rightarrow> expansion_policy \<Rightarrow> (expansion_overlays \<times> expansion_decision list) res" where
  "collect_expansions relative metadata session robust labels active mapping p =
    rbind (vget relative ''candidate_kind'' JNull) (\<lambda>kind.
    raise_if (kind \<noteq> JStr (xp_kind p)) (ValueError ''unexpected relative-top-1 candidate kind'')
    (rbind (phrases_by_id metadata) (\<lambda>phrases.
     rbind (rbind (vget relative ''piece_decisions'' (JArr [])) py_iter) (\<lambda>pieces.
     rbind (rfold (consider_piece \<lparr>xx_policy = p, xx_phrases = phrases, xx_session = session, xx_robust = robust,
       xx_labels = labels, xx_active = active, xx_mapping = mapping\<rparr>) ([], []) pieces) (\<lambda>(overlays, decisions).
     rbind (validate_overlays overlays) (\<lambda>_. Inr (overlays, decisions)))))))"

section \<open>Build\<close>

record expansion_result =
  xr_active :: "string list"
  xr_source_turns :: int
  xr_audio_sec :: dbl
  xr_sample_rate :: int
  xr_decisions :: "expansion_decision list"
  xr_track :: "phrase_turn list"

definition build_expansion_candidate ::
  "json \<Rightarrow> json \<Rightarrow> json \<Rightarrow> voice_table \<Rightarrow> voice_table \<Rightarrow> json \<Rightarrow> expansion_policy \<Rightarrow> expansion_result res" where
  "build_expansion_candidate baseline relative metadata session robust mapping_document p =
    rbind (vget metadata ''kind'' JNull) (\<lambda>mk.
    raise_if (mk \<noteq> JStr ''orator_punctuation_phrase_spans'')
      (ValueError ''metadata is not punctuation phrase evidence'')
    (rbind (read_slots mapping_document) (\<lambda>mapping.
     let id_to_local = invert_mapping mapping; active = sort (map fst id_to_local) in
     rbind (rbind (vget baseline ''active_speaker_ids'' (JArr [])) identity_list) (\<lambda>listed.
     raise_if (sort listed \<noteq> active) (ValueError ''baseline identities differ from mapping'')
     (rbind (candidate_fragments baseline) (\<lambda>fragments.
      rbind (validate_candidate_sources fragments metadata) (\<lambda>_.
      rbind (rmap (text_marks metadata) fragments) (\<lambda>labels.
      rbind (collect_expansions relative metadata session robust labels active mapping p) (\<lambda>(overlays, decisions).
      rbind (rmap (composed_text metadata overlays id_to_local) (sort_key fst fragments)) (\<lambda>pieces.
      rbind (float_item baseline ''audio_sec'') (\<lambda>audio_sec.
      rbind (rbind (vitem baseline ''sample_rate'') py_int) (\<lambda>sample_rate.
      rbind (rbind (vget baseline ''track'' (JArr [])) py_len) (\<lambda>turns.
      Inr \<lparr>xr_active = active, xr_source_turns = turns, xr_audio_sec = audio_sec, xr_sample_rate = sample_rate,
           xr_decisions = decisions, xr_track = concat pieces\<rparr>)))))))))))))"

definition expansion_decision_doc :: "expansion_decision \<Rightarrow> json" where
  "expansion_decision_doc d = JObj [(''piece_evidence_id'', JStr (xd_piece d)), (''phrase_evidence_id'', JStr (xd_phrase d)),
     (''text_id'', JInt (xd_text_id d)), (''source_start'', JInt (so_start d)), (''source_end'', JInt (so_end d)),
     (''speaker_id'', JStr (so_speaker d)), (''session_ranked'', ranked_doc (xd_session d)),
     (''robust_ranked'', ranked_doc (xd_robust d)), (''accepted'', JBool (xd_accepted d)), (''reason'', JStr (so_reason d))]"

definition expansion_result_doc :: "expansion_policy \<Rightarrow> expansion_result \<Rightarrow> obj" where
  "expansion_result_doc p r =
     [(''schema_version'', JInt 1),
      (''kind'', JStr ''orator_frozen_speaker_candidate''),
      (''candidate_kind'', JStr ''v21_relative_top1_complete_phrase_expansion''),
      (''audio_sec'', JFlt (xr_audio_sec r)),
      (''sample_rate'', JInt (xr_sample_rate r)),
      (''active_speaker_ids'', JArr (map JStr (xr_active r))),
      (''source_turn_count'', JInt (xr_source_turns r)),
      (''turn_count'', JInt (int (length (xr_track r)))),
      (''accepted_expansion_count'', JInt (int (length (filter xd_accepted (xr_decisions r))))),
      (''policy'', expansion_policy_doc p),
      (''expansion_decisions'', JArr (map expansion_decision_doc (xr_decisions r))),
      (''track'', JArr (map turn_doc (xr_track r)))]"

definition command_expansion_build ::
  "json \<Rightarrow> json \<Rightarrow> json \<Rightarrow> csv_table \<Rightarrow> csv_table \<Rightarrow> json \<Rightarrow> obj \<Rightarrow> (string \<times> file_identity) list \<Rightarrow> obj res" where
  "command_expansion_build baseline relative metadata session_table robust_table mapping_document config files =
    rbind (read_voice session_table) (\<lambda>session. rbind (read_voice robust_table) (\<lambda>robust.
    rbind (load_expansion_policy config) (\<lambda>p.
    rbind (build_expansion_candidate baseline relative metadata session robust mapping_document p) (\<lambda>r.
    Inr (dset ''sources'' (sources_doc files) (expansion_result_doc p r))))))"

end
