(* ===== verification/Adjacent_Clauses.thy ===== *)
theory Adjacent_Clauses
  imports Relative_Expansion
begin

text \<open>
  \<^verbatim>\<open>tools/archive/spec013-speaker-candidates/speaker_adjacent_subminimum_clause_candidate.py\<close>:
  two clauses in a row that are each too short for a voiceprint form one envelope; an envelope on
  which two voiceprint tables agree against a uniform baseline is proposed, and proposals that
  overlap are all withdrawn.  Its \<^verbatim>\<open>labels_for_source\<close> is the expansion candidate's
  \<^verbatim>\<open>baseline_labels\<close>.  Identities of the baseline that are not texts have no value in
  the model.  Parsed files, digests and absolute paths are parameters.
\<close>

section \<open>Policy\<close>

definition clause_flags :: "string list" where
  "clause_flags = [''enabled'', ''require_complete_adjacent_clauses'', ''require_each_below_phrase_minimum'',
     ''require_combined_within_phrase_bounds'', ''require_dual_voiceprint_consensus'',
     ''require_uniform_known_conflicting_baseline'', ''reject_conflicting_overlays'', ''reject_overlapping_proposals'']"

record clause_policy =
  ac_minimum :: dbl
  ac_maximum :: dbl
  ac_visible :: int
  ac_punctuation :: string
  ac_gates :: gate_policy
  ac_protected :: "string list"

text \<open>The bounds and the punctuation, with their checks.\<close>

definition clause_bounds :: "json \<Rightarrow> (dbl \<times> dbl) res" where
  "clause_bounds phrase =
    rbind (float_item phrase ''minimum_duration_sec'') (\<lambda>lo. rbind (float_item phrase ''maximum_duration_sec'') (\<lambda>hi.
    raise_if (lo \<le> 0 \<or> hi < lo) (ValueError ''invalid inherited punctuation duration bounds'') (Inr (lo, hi))))"

definition clause_text_policy :: "json \<Rightarrow> (int \<times> string) res" where
  "clause_text_policy phrase =
    rbind (rbind (vitem phrase ''minimum_visible_character_count'') py_int) (\<lambda>visible.
    rbind (vitem phrase ''punctuation'') (\<lambda>punctuation.
    raise_if (visible < 1 \<or> py_str punctuation = []) (ValueError ''invalid inherited punctuation policy'')
      (Inr (visible, py_str punctuation))))"

definition clause_protected :: "json \<Rightarrow> string list res" where
  "clause_protected section =
    rbind (rbind (vitem section ''protected_decision_reasons'') py_iter) (\<lambda>values.
    let reasons = map py_str values in
    raise_if (reasons = [] \<or> \<not> distinct reasons) (ValueError ''protected decision reasons are invalid'')
      (Inr reasons))"

definition load_clause_policy :: "obj \<Rightarrow> clause_policy res" where
  "load_clause_policy document =
    (let phrase = dget document ''punctuation_phrase'' (JObj []);
         fusion = dget document ''speaker_fusion'' (JObj []);
         section = dget document ''adjacent_subminimum_clause'' (JObj []) in
     rbind (absent_fields phrase_fields phrase) (\<lambda>m1. rbind (absent_fields GATE_FIELDS fusion) (\<lambda>m2.
     rbind (absent_fields (clause_flags @ [''clause_count'', ''protected_decision_reasons'']) section) (\<lambda>m3.
     let missing = sort (m1 @ m2 @ m3) in
     raise_if (missing \<noteq> []) (ValueError (''adjacent-clause policy missing: '' @ join_with '','' missing))
     (rbind (rmap (vitem section) clause_flags) (\<lambda>flags.
      raise_if (\<exists>v \<in> set flags. v \<noteq> JBool True) (ValueError ''adjacent-clause safeguards are mandatory'')
      (rbind (rbind (vitem section ''clause_count'') py_int) (\<lambda>count.
       raise_if (count \<noteq> 2) (ValueError ''adjacent-clause envelope must contain exactly two clauses'')
       (rbind (clause_bounds phrase) (\<lambda>(lo, hi). rbind (clause_text_policy phrase) (\<lambda>(visible, punctuation).
        rbind (clause_protected section) (\<lambda>protected. rbind (gates_of fusion) (\<lambda>gates.
        Inr \<lparr>ac_minimum = lo, ac_maximum = hi, ac_visible = visible, ac_punctuation = punctuation,
          ac_gates = gates, ac_protected = protected\<rparr>)))))))))))))"

definition clause_policy_doc :: "clause_policy \<Rightarrow> json" where
  "clause_policy_doc p = JObj
     ([(''minimum_duration_sec'', JFlt (ac_minimum p)), (''maximum_duration_sec'', JFlt (ac_maximum p)),
       (''minimum_visible_character_count'', JInt (ac_visible p)), (''punctuation'', JStr (ac_punctuation p))] @
      gate_entries (ac_gates p) @
      [(''clause_count'', JInt 2), (''protected_decision_reasons'', JArr (map JStr (ac_protected p)))])"

section \<open>Envelopes\<close>

record clause =
  cs_start :: nat
  cs_end :: nat
  cs_first :: dbl
  cs_last :: dbl

definition clause_sec :: "clause \<Rightarrow> dbl" where
  "clause_sec c = cs_last c - cs_first c"

definition aligned_bounds :: "char_times \<Rightarrow> nat \<Rightarrow> nat \<Rightarrow> (dbl \<times> dbl) option" where
  "aligned_bounds ts a b = (let timed = timed_in ts a b in if timed = [] then None else Some (time_hull timed))"

definition visible_count :: "string \<Rightarrow> nat \<Rightarrow> nat \<Rightarrow> string \<Rightarrow> nat" where
  "visible_count source a b punctuation = length (filter (visible_char punctuation) (slice a b source))"

definition clause_of :: "clause_policy \<Rightarrow> string \<Rightarrow> char_times \<Rightarrow> nat \<times> nat \<Rightarrow> clause option" where
  "clause_of p source ts = (\<lambda>(a, b). case aligned_bounds ts a b of None \<Rightarrow> None
     | Some (s, e) \<Rightarrow> if int (visible_count source a b (ac_punctuation p)) < ac_visible p then None
         else Some \<lparr>cs_start = a, cs_end = b, cs_first = s, cs_last = e\<rparr>)"

text \<open>Whether two clauses that follow each other make an envelope.\<close>

definition joins_clauses :: "clause_policy \<Rightarrow> clause \<times> clause \<Rightarrow> bool" where
  "joins_clauses p = (\<lambda>(l, r). let duration = cs_last r - cs_first l in
     cs_end l = cs_start r \<and>
     \<not> (ac_minimum p \<le> clause_sec l + EPSILON \<or> ac_minimum p \<le> clause_sec r + EPSILON) \<and>
     \<not> (duration + EPSILON < ac_minimum p \<or> ac_maximum p + EPSILON < duration))"

definition text_envelopes :: "clause_policy \<Rightarrow> string \<Rightarrow> char_times \<Rightarrow> (clause \<times> clause) list" where
  "text_envelopes p source ts = filter (joins_clauses p)
     (adjacent (List.map_filter (clause_of p source ts) (phrase_ranges source (ac_punctuation p))))"

record clause_envelope =
  ev_number :: nat
  ev_text_id :: int
  ev_left :: clause
  ev_right :: clause

definition ev_id :: "clause_envelope \<Rightarrow> string" where
  "ev_id x = ''adjacent_subminimum_clause:'' @ int_repr (int (ev_number x))"

text \<open>The texts in the order of their numbers; a table that is not a dict has no value in the model.\<close>

definition texts_in_order :: "json \<Rightarrow> (int \<times> string) list res" where
  "texts_in_order asr = (case asr of
     JObj d \<Rightarrow> rbind (rmap (\<lambda>(k, _). rbind (int_str k) (\<lambda>i. Inr (i, k))) d) (\<lambda>ks. Inr (sort_key fst ks))
   | _ \<Rightarrow> Inl OutOfModel)"

definition envelopes_of_text ::
  "clause_policy \<Rightarrow> json \<Rightarrow> json \<Rightarrow> int \<times> string \<Rightarrow> (int \<times> clause \<times> clause) list res" where
  "envelopes_of_text p asr align = (\<lambda>(text_id, k).
    rbind (rbind (vitem asr k) (\<lambda>x. vitem x ''text'')) (\<lambda>t.
    rbind (rbind (vitem align k) py_iter) (\<lambda>us. rbind (aligned_character_times (py_str t) us) (\<lambda>ts.
    Inr (map (Pair text_id) (text_envelopes p (py_str t) ts))))))"

definition enumerate_envelopes :: "json \<Rightarrow> clause_policy \<Rightarrow> clause_envelope list res" where
  "enumerate_envelopes alignment p =
    rbind (vget alignment ''kind'' JNull) (\<lambda>kind.
    raise_if (kind \<noteq> JStr ''orator_punctuation_phrase_spans'')
      (ValueError ''alignment input is not punctuation phrase metadata'')
    (rbind (rbind (vget alignment ''asr'' (JObj [])) name_set) (\<lambda>texts.
     rbind (rbind (vget alignment ''align'' (JObj [])) name_set) (\<lambda>aligned.
     raise_if (set texts \<noteq> set aligned) (ValueError ''ASR/alignment text ID sets differ'')
     (rbind (vitem alignment ''asr'') (\<lambda>asr. rbind (texts_in_order asr) (\<lambda>keys.
      rbind (rmap (\<lambda>k. rbind (vitem alignment ''align'') (\<lambda>align. envelopes_of_text p asr align k)) keys) (\<lambda>xs.
      Inr (map (\<lambda>(n, t, l, r). \<lparr>ev_number = n, ev_text_id = t, ev_left = l, ev_right = r\<rparr>)
        (enumerate 0 (concat xs)))))))))))"

definition clause_doc :: "clause \<Rightarrow> json" where
  "clause_doc c = JObj [(''source_start'', JInt (int (cs_start c))), (''source_end'', JInt (int (cs_end c))),
     (''start'', JFlt (cs_first c)), (''end'', JFlt (cs_last c)), (''duration_sec'', JFlt (clause_sec c))]"

definition envelope_doc :: "clause_envelope \<Rightarrow> json" where
  "envelope_doc x = JObj [(''evidence_id'', JStr (ev_id x)), (''text_id'', JInt (ev_text_id x)),
     (''source_start'', JInt (int (cs_start (ev_left x)))), (''source_end'', JInt (int (cs_end (ev_right x)))),
     (''start'', JFlt (cs_first (ev_left x))), (''end'', JFlt (cs_last (ev_right x))),
     (''left_clause'', clause_doc (ev_left x)), (''right_clause'', clause_doc (ev_right x))]"

definition write_envelope_spans :: "clause_envelope list \<Rightarrow> table" where
  "write_envelope_spans xs = [''evidence_id'', ''start_sec'', ''end_sec''] #
     map (\<lambda>x. [ev_id x, float_repr (cs_first (ev_left x)), float_repr (cs_last (ev_right x))]) xs"

section \<open>Decisions\<close>

text \<open>The range of a decision, and how it was decided.\<close>

record clause_decision =
  cd_id :: string
  cd_text_id :: int
  cd_range :: "int \<times> int"
  cd_times :: "dbl \<times> dbl"
  cd_session :: selection
  cd_robust :: selection
  cd_selected :: "string option"
  cd_accepted :: bool
  cd_reason :: string

text \<open>The identity of a character's baseline label as an element of a set.\<close>

definition mark_identity :: "base_mark \<Rightarrow> string option res" where
  "mark_identity m = (case bm_speaker m of JNull \<Rightarrow> Inr None | JStr s \<Rightarrow> Inr (Some s)
     | JArr _ \<Rightarrow> Inl TypeError | JObj _ \<Rightarrow> Inl TypeError | _ \<Rightarrow> Inl OutOfModel)"

definition baseline_verdict :: "string list \<Rightarrow> string \<Rightarrow> base_mark list \<Rightarrow> (bool \<times> string) res" where
  "baseline_verdict protected selected marks = rbind (rmap mark_identity marks) (\<lambda>ids. Inr
    (if None \<in> set ids \<or> length (remdups ids) \<noteq> 1 \<or> Some selected \<in> set ids
       then (False, ''uniform_known_conflict_missing'')
     else if \<exists>m \<in> set marks. bm_reason m \<in> set protected then (False, ''protected_overlay_conflict'')
     else (True, ''adjacent_subminimum_clause_dual_voiceprint_challenge'')))"

definition clause_verdict ::
  "clause_policy \<Rightarrow> marks_by_text \<Rightarrow> string option \<Rightarrow> string option \<Rightarrow> int \<Rightarrow> int \<times> int \<Rightarrow> (bool \<times> string) res" where
  "clause_verdict p labels session robust text_id = (\<lambda>(a, b). case (session, robust) of
     (Some s, Some r) \<Rightarrow> if s \<noteq> r then Inr (False, ''dual_voiceprint_disagreement'')
       else rbind (range_marks labels text_id a b) (baseline_verdict (ac_protected p) s)
   | _ \<Rightarrow> Inr (False, ''dual_voiceprint_abstention''))"

definition decide_envelope ::
  "clause_policy \<Rightarrow> voice_table \<Rightarrow> voice_table \<Rightarrow> marks_by_text \<Rightarrow> string list \<Rightarrow> json \<Rightarrow> clause_decision res" where
  "decide_envelope p session robust labels active envelope =
    rbind (rbind (vitem envelope ''evidence_id'') (\<lambda>v. Inr (py_str v))) (\<lambda>eid.
    rbind (case (map_of session (Some eid), map_of robust (Some eid)) of (Some v, Some w) \<Rightarrow> Inr (v, w)
      | _ \<Rightarrow> Inl (ValueError ''missing adjacent-clause voiceprint evidence'')) (\<lambda>(v, w).
    let first = select_identity (Some v) active (ac_gates p);
        second = select_identity (Some w) active (ac_gates p) in
    rbind (rbind (vitem envelope ''text_id'') py_int) (\<lambda>text_id. rbind (source_range envelope) (\<lambda>r.
    rbind (float_item envelope ''start'') (\<lambda>s. rbind (float_item envelope ''end'') (\<lambda>e.
    rbind (clause_verdict p labels (fst first) (fst second) text_id r) (\<lambda>(accepted, reason).
    Inr \<lparr>cd_id = eid, cd_text_id = text_id, cd_range = r, cd_times = (s, e), cd_session = first, cd_robust = second,
      cd_selected = (if accepted then fst first else None), cd_accepted = accepted, cd_reason = reason\<rparr>)))))))"

section \<open>Overlapping proposals\<close>

definition ranges_overlap :: "int \<times> int \<Rightarrow> int \<times> int \<Rightarrow> bool" where
  "ranges_overlap = (\<lambda>(a, b) (c, d). a < d \<and> c < b)"

definition proposal_order :: "clause_decision \<Rightarrow> int \<times> int \<times> string" where
  "proposal_order d = (fst (cd_range d), snd (cd_range d), cd_id d)"

text \<open>The inner loop over the later proposals stops at the first one that starts behind the left one.\<close>

fun conflicted_ids :: "clause_decision list \<Rightarrow> string list" where
  "conflicted_ids [] = []"
| "conflicted_ids (l # rs) =
     concat (map (\<lambda>r. [cd_id l, cd_id r]) (filter (\<lambda>r. ranges_overlap (cd_range l) (cd_range r))
       (takeWhile (\<lambda>r. fst (cd_range r) < snd (cd_range l)) rs))) @ conflicted_ids rs"

text \<open>The proposals of a text: the code's dict of lists holds the same dicts as the list of decisions.\<close>

definition proposals_of :: "clause_decision list \<Rightarrow> int \<Rightarrow> clause_decision list" where
  "proposals_of decisions text_id = filter (\<lambda>d. cd_accepted d \<and> cd_text_id d = text_id) decisions"

definition withdraw :: "clause_decision \<Rightarrow> clause_decision" where
  "withdraw d = d\<lparr>cd_accepted := False, cd_selected := None, cd_reason := ''overlapping_proposal_abstention''\<rparr>"

definition withdraw_conflicts :: "clause_decision list \<Rightarrow> clause_decision list" where
  "withdraw_conflicts decisions = map (\<lambda>d. if cd_accepted d \<and>
       cd_id d \<in> set (conflicted_ids (sort_key proposal_order (proposals_of decisions (cd_text_id d))))
     then withdraw d else d) decisions"

definition proposal_overlay :: "clause_decision \<Rightarrow> source_overlay option" where
  "proposal_overlay d = (if \<not> cd_accepted d then None else map_option (\<lambda>s.
     \<lparr>so_start = fst (cd_range d), so_end = snd (cd_range d), so_speaker = s,
      so_reason = ''adjacent_subminimum_clause_dual_voiceprint_challenge''\<rparr>) (cd_selected d))"

text \<open>Texts in the order of their first proposal; a text whose proposals were all withdrawn has no overlays.\<close>

definition clause_overlays :: "clause_decision list \<Rightarrow> clause_decision list \<Rightarrow> (int, source_overlay list) pydict" where
  "clause_overlays proposed resolved = filter (\<lambda>(_, ovs). ovs \<noteq> [])
     (map (\<lambda>t. (t, List.map_filter proposal_overlay (proposals_of resolved t)))
        (rev (remdups (rev (map cd_text_id (filter cd_accepted proposed))))))"

section \<open>Build\<close>

record clause_result =
  cr_active :: "string list"
  cr_source_turns :: int
  cr_audio_sec :: dbl
  cr_sample_rate :: int
  cr_decisions :: "clause_decision list"
  cr_overlays :: "(int, source_overlay list) pydict"
  cr_track :: "phrase_turn list"

text \<open>The baseline against the mapping and the metadata: the identities, the fragments, their labels.\<close>

definition clause_baseline ::
  "json \<Rightarrow> json \<Rightarrow> json \<Rightarrow> (local_ids \<times> string list \<times> base_fragments \<times> marks_by_text) res" where
  "clause_baseline baseline metadata mapping_document =
    rbind (read_slots mapping_document) (\<lambda>mapping.
    let id_to_local = invert_mapping mapping; active = sort (map fst id_to_local) in
    rbind (rbind (vget baseline ''active_speaker_ids'' (JArr [])) identity_list) (\<lambda>listed.
    raise_if (sort listed \<noteq> active) (ValueError ''baseline identities differ from mapping'')
    (rbind (candidate_fragments baseline) (\<lambda>fragments.
     rbind (validate_candidate_sources fragments metadata) (\<lambda>_.
     rbind (rmap (text_marks metadata) fragments) (\<lambda>labels.
     Inr (id_to_local, active, fragments, labels)))))))"

definition build_clause_candidate ::
  "json \<Rightarrow> json \<Rightarrow> voice_table \<Rightarrow> voice_table \<Rightarrow> json \<Rightarrow> clause_policy \<Rightarrow> clause_result res" where
  "build_clause_candidate baseline metadata session robust mapping_document p =
    rbind (vget metadata ''kind'' JNull) (\<lambda>mk.
    raise_if (mk \<noteq> JStr ''orator_adjacent_subminimum_clause_spans'')
      (ValueError ''metadata is not adjacent subminimum-clause evidence'')
    (rbind (clause_baseline baseline metadata mapping_document) (\<lambda>(id_to_local, active, fragments, labels).
     rbind (rbind (vget metadata ''envelopes'' (JArr [])) py_iter) (\<lambda>envelopes.
     rbind (rmap (decide_envelope p session robust labels active) envelopes) (\<lambda>proposed.
     let resolved = withdraw_conflicts proposed; overlays = clause_overlays proposed resolved in
     rbind (validate_overlays overlays) (\<lambda>_.
     rbind (rmap (composed_text metadata overlays id_to_local) (sort_key fst fragments)) (\<lambda>pieces.
     rbind (float_item baseline ''audio_sec'') (\<lambda>audio_sec.
     rbind (rbind (vitem baseline ''sample_rate'') py_int) (\<lambda>sample_rate.
     rbind (rbind (vget baseline ''track'' (JArr [])) py_len) (\<lambda>turns.
     Inr \<lparr>cr_active = active, cr_source_turns = turns, cr_audio_sec = audio_sec, cr_sample_rate = sample_rate,
          cr_decisions = resolved, cr_overlays = overlays, cr_track = concat pieces\<rparr>))))))))))"

definition clause_decision_doc :: "clause_decision \<Rightarrow> json" where
  "clause_decision_doc d = (let (sid, sreason, sranked) = cd_session d; (rid, rreason, rranked) = cd_robust d in JObj
     [(''evidence_id'', JStr (cd_id d)), (''text_id'', JInt (cd_text_id d)),
      (''source_start'', JInt (fst (cd_range d))), (''source_end'', JInt (snd (cd_range d))),
      (''start'', JFlt (fst (cd_times d))), (''end'', JFlt (snd (cd_times d))),
      (''session_identity'', opt_json sid), (''session_reason'', JStr sreason), (''session_ranked'', ranked_doc sranked),
      (''robust_identity'', opt_json rid), (''robust_reason'', JStr rreason), (''robust_ranked'', ranked_doc rranked),
      (''selected_speaker_id'', opt_json (cd_selected d)), (''accepted'', JBool (cd_accepted d)),
      (''reason'', JStr (cd_reason d))])"

definition clause_result_doc :: "clause_policy \<Rightarrow> clause_result \<Rightarrow> obj" where
  "clause_result_doc p r =
     [(''schema_version'', JInt 1),
      (''kind'', JStr ''orator_frozen_speaker_candidate''),
      (''candidate_kind'', JStr ''v21_adjacent_subminimum_clause_challenge''),
      (''audio_sec'', JFlt (cr_audio_sec r)),
      (''sample_rate'', JInt (cr_sample_rate r)),
      (''active_speaker_ids'', JArr (map JStr (cr_active r))),
      (''source_turn_count'', JInt (cr_source_turns r)),
      (''turn_count'', JInt (int (length (cr_track r)))),
      (''accepted_challenge_count'', JInt (int (length (filter cd_accepted (cr_decisions r))))),
      (''policy'', clause_policy_doc p),
      (''challenge_decisions'', JArr (map clause_decision_doc (cr_decisions r))),
      (''track'', JArr (map turn_doc (cr_track r)))]"

section \<open>Commands\<close>

definition command_clause_spans :: "json \<Rightarrow> obj \<Rightarrow> (string \<times> file_identity) list \<Rightarrow> (table \<times> json) res" where
  "command_clause_spans alignment config files =
    rbind (load_clause_policy config) (\<lambda>p.
    rbind (enumerate_envelopes alignment p) (\<lambda>envelopes.
    rbind (vitem alignment ''asr'') (\<lambda>asr. rbind (vitem alignment ''align'') (\<lambda>align.
    Inr (write_envelope_spans envelopes, JObj
      [(''schema_version'', JInt 1), (''kind'', JStr ''orator_adjacent_subminimum_clause_spans''),
       (''asr'', asr), (''align'', align), (''envelopes'', JArr (map envelope_doc envelopes)),
       (''policy'', clause_policy_doc p), (''sources'', sources_doc files)])))))"

definition command_clause_build ::
  "json \<Rightarrow> json \<Rightarrow> csv_table \<Rightarrow> csv_table \<Rightarrow> json \<Rightarrow> obj \<Rightarrow> (string \<times> file_identity) list \<Rightarrow> obj res" where
  "command_clause_build baseline metadata session_table robust_table mapping_document config files =
    rbind (read_voice session_table) (\<lambda>session. rbind (read_voice robust_table) (\<lambda>robust.
    rbind (load_clause_policy config) (\<lambda>p.
    rbind (build_clause_candidate baseline metadata session robust mapping_document p) (\<lambda>r.
    Inr (dset ''sources'' (sources_doc files) (clause_result_doc p r))))))"

end
