(* ===== verification/Clause_Properties.thy ===== *)
theory Clause_Properties
  imports Adjacent_Clauses Reviewed_Properties
begin

text \<open>
  What the loop over overlapping proposals computes, that the proposals it leaves can only be
  refused for an impossible range, and the labels of the finished track.
\<close>

section \<open>Overlapping proposals\<close>

definition meets_other :: "clause_decision list \<Rightarrow> clause_decision \<Rightarrow> bool" where
  "meets_other ds d \<longleftrightarrow> list_ex (\<lambda>e. ranges_overlap (cd_range d) (cd_range e)) (remove1 d ds)"

lemma ranges_overlap_sym: "ranges_overlap x y = ranges_overlap y x"
  by (cases x; cases y) (auto simp: ranges_overlap_def)

lemma overlap_prefix:
  assumes "sorted (map proposal_order rs)"
  shows "filter (\<lambda>r. ranges_overlap x (cd_range r)) (takeWhile (\<lambda>r. fst (cd_range r) < snd x) rs)
    = filter (\<lambda>r. ranges_overlap x (cd_range r)) rs"
  using assms
proof (induction rs)
  case (Cons r rs)
  show ?case
  proof (cases "fst (cd_range r) < snd x")
    case False
    have "\<not> ranges_overlap x (cd_range y)" if "y \<in> set (r # rs)" for y
    proof -
      have "fst (cd_range r) \<le> fst (cd_range y)"
        using Cons.prems that by (auto simp: proposal_order_def less_eq_prod_def)
      with False show ?thesis by (cases x; cases "cd_range y") (simp add: ranges_overlap_def)
    qed
    then have "filter (\<lambda>r. ranges_overlap x (cd_range r)) (r # rs) = []" by (simp only: filter_empty_conv) blast
    with False show ?thesis by simp
  qed (use Cons in simp)
qed simp

lemma meets_other_Cons:
  "meets_other (l # rs) d \<longleftrightarrow> (if d = l then \<exists>e \<in> set rs. ranges_overlap (cd_range l) (cd_range e)
     else ranges_overlap (cd_range l) (cd_range d) \<or> meets_other rs d)"
  using ranges_overlap_sym[of "cd_range d" "cd_range l"] by (cases "d = l") (simp_all add: meets_other_def list_ex_iff)

lemma meets_other_weaken: "meets_other rs d \<Longrightarrow> meets_other (l # rs) d"
  using set_remove1_subset[of d rs] by (auto simp: meets_other_def list_ex_iff)

lemma conflicted_sorted:
  "sorted (map proposal_order ds) \<Longrightarrow> i \<in> set (conflicted_ids ds) \<longleftrightarrow> (\<exists>d \<in> set ds. cd_id d = i \<and> meets_other ds d)"
proof (induction ds)
  case (Cons l rs)
  then have s: "sorted (map proposal_order rs)" by simp
  have "i \<in> set (conflicted_ids (l # rs)) \<longleftrightarrow>
      (\<exists>r \<in> set rs. ranges_overlap (cd_range l) (cd_range r) \<and> (i = cd_id l \<or> i = cd_id r)) \<or>
      (\<exists>d \<in> set rs. cd_id d = i \<and> meets_other rs d)"
    by (auto simp: overlap_prefix[OF s] Cons.IH[OF s])
  also have "\<dots> \<longleftrightarrow> (\<exists>d \<in> set (l # rs). cd_id d = i \<and> meets_other (l # rs) d)"
    (is "?A \<or> ?B \<longleftrightarrow> ?C")
  proof
    assume "?A \<or> ?B"
    then show ?C
    proof
      assume ?A
      then obtain r where r: "r \<in> set rs" "ranges_overlap (cd_range l) (cd_range r)" "i = cd_id l \<or> i = cd_id r" by blast
      then have "meets_other (l # rs) l" "meets_other (l # rs) r" by (auto simp: meets_other_Cons)
      with r show ?C by auto
    qed (auto intro: meets_other_weaken)
  qed (auto simp: meets_other_Cons split: if_splits)
  finally show ?case .
qed simp

lemma meets_other_perm: "mset xs = mset ys \<Longrightarrow> meets_other xs d = meets_other ys d"
proof -
  assume m: "mset xs = mset ys"
  have "set (remove1 d xs) = set (remove1 d ys)" by (metis m mset_remove1 set_mset_mset)
  then show ?thesis by (simp add: meets_other_def list_ex_iff)
qed

text \<open>The withdrawal, without the order and the early end of the loop.\<close>

definition clashing :: "clause_decision list \<Rightarrow> clause_decision \<Rightarrow> bool" where
  "clashing ds d \<longleftrightarrow> list_ex (\<lambda>x. cd_id x = cd_id d \<and> meets_other ds x) ds"

lemma conflicted_exact: "cd_id d \<in> set (conflicted_ids (sort_key proposal_order ds)) \<longleftrightarrow> clashing ds d"
  by (simp add: conflicted_sorted clashing_def list_ex_iff meets_other_perm[of "sort_key proposal_order ds" ds])

text \<open>
  C34: the nested loop with its early end withdraws exactly the proposals whose evidence
  identifier belongs to a proposal of the same text that overlaps another one; every other decision
  is left as it was.
\<close>

theorem withdrawn_exactly_clashing:
  "withdraw_conflicts decisions =
   map (\<lambda>d. if cd_accepted d \<and> clashing (proposals_of decisions (cd_text_id d)) d then withdraw d else d) decisions"
  by (simp add: withdraw_conflicts_def conflicted_exact cong: map_cong)

lemma kept_apart:
  "\<forall>d \<in> set ds. q d \<longrightarrow> \<not> meets_other ds d \<Longrightarrow>
   sorted_wrt (\<lambda>x y. \<not> ranges_overlap (cd_range x) (cd_range y)) (filter q ds)"
proof (induction ds)
  case (Cons l rs)
  have "\<forall>d \<in> set rs. q d \<longrightarrow> \<not> meets_other rs d" using Cons.prems by (auto dest: meets_other_weaken[where l = l])
  moreover have "q l \<Longrightarrow> \<forall>r \<in> set rs. \<not> ranges_overlap (cd_range l) (cd_range r)"
    using Cons.prems by (auto simp: meets_other_Cons)
  ultimately show ?case using Cons.IH by auto
qed simp

section \<open>Overlays of the proposals\<close>

text \<open>An accepted decision has an identity; its overlay has the decision's range.\<close>

definition selecting :: "clause_decision \<Rightarrow> bool" where
  "selecting d \<longleftrightarrow> (cd_accepted d \<longrightarrow> cd_selected d \<noteq> None)"

definition overlay_of :: "clause_decision \<Rightarrow> source_overlay" where
  "overlay_of d = \<lparr>so_start = fst (cd_range d), so_end = snd (cd_range d), so_speaker = the (cd_selected d),
     so_reason = ''adjacent_subminimum_clause_dual_voiceprint_challenge''\<rparr>"

lemma overlays_of_proposals:
  "list_all selecting ds \<Longrightarrow> List.map_filter proposal_overlay (proposals_of ds t) = map overlay_of (proposals_of ds t)"
  by (induction ds) (auto simp: proposals_of_def map_filter_simps proposal_overlay_def selecting_def overlay_of_def)

lemma decided_selecting:
  assumes "decide_envelope p session robust labels active e = Inr d" shows "selecting d"
proof -
  from assms obtain v w text_id r accepted reason where
    ver: "clause_verdict p labels (fst (select_identity (Some v) active (ac_gates p)))
      (fst (select_identity (Some w) active (ac_gates p))) text_id r = Inr (accepted, reason)"
    and d: "cd_accepted d = accepted"
      "cd_selected d = (if accepted then fst (select_identity (Some v) active (ac_gates p)) else None)"
    by (auto simp: decide_envelope_def rbind_Inr_iff Let_def)
  then show ?thesis
    by (cases "fst (select_identity (Some v) active (ac_gates p))") (auto simp: selecting_def clause_verdict_def split: prod.splits)
qed

lemma resolved_selecting: "list_all selecting ds \<Longrightarrow> list_all selecting (withdraw_conflicts ds)"
  by (auto simp: withdraw_conflicts_def list_all_iff selecting_def withdraw_def)

lemma resolved_proposals:
  "proposals_of (withdraw_conflicts ds) t = filter (\<lambda>d. \<not> clashing (proposals_of ds t) d) (proposals_of ds t)"
proof -
  have "proposals_of (map g ds) t = filter (\<lambda>d. \<not> clashing (proposals_of all t) d) (proposals_of ds t)"
    if "\<And>d. g d = (if cd_accepted d \<and> clashing (proposals_of all (cd_text_id d)) d then withdraw d else d)" for g all
    by (induction ds) (auto simp: proposals_of_def that withdraw_def)
  then show ?thesis by (simp add: withdraw_conflicts_def conflicted_exact)
qed

lemma overlays_apart:
  assumes "list_all selecting ds"
  shows "sorted_wrt apart (List.map_filter proposal_overlay (proposals_of (withdraw_conflicts ds) t))"
proof -
  have "sorted_wrt (\<lambda>x y. \<not> ranges_overlap (cd_range x) (cd_range y)) (proposals_of (withdraw_conflicts ds) t)"
    unfolding resolved_proposals by (rule kept_apart) (auto simp: clashing_def list_ex_iff)
  then show ?thesis unfolding overlays_of_proposals[OF resolved_selecting[OF assms]] sorted_wrt_map
    by (rule sorted_wrt_mono_rel[rotated]) (auto simp: ranges_overlap_def apart_def overlay_of_def split: prod.splits)
qed

lemma resolved_text: "d \<in> set (proposals_of (withdraw_conflicts ds) t) \<Longrightarrow> t \<in> set (map cd_text_id (filter cd_accepted ds))"
  unfolding resolved_proposals by (auto simp: proposals_of_def)

lemma clause_overlays_of:
  "(case map_of (clause_overlays ds (withdraw_conflicts ds)) t of None \<Rightarrow> [] | Some ovs \<Rightarrow> ovs)
     = List.map_filter proposal_overlay (proposals_of (withdraw_conflicts ds) t)"
proof -
  define keys where "keys = rev (remdups (rev (map cd_text_id (filter cd_accepted ds))))"
  let ?f = "\<lambda>t. List.map_filter proposal_overlay (proposals_of (withdraw_conflicts ds) t)"
  have keys: "distinct keys" "set keys = set (map cd_text_id (filter cd_accepted ds))" by (simp_all add: keys_def)
  have "?f t = []" if "t \<notin> set keys"
    using resolved_text[of _ ds t] that keys(2) by (cases "proposals_of (withdraw_conflicts ds) t") auto
  moreover have "map_of (filter (\<lambda>(_, ovs). ovs \<noteq> []) (map (\<lambda>t. (t, ?f t)) ks)) t
      = (if t \<in> set ks \<and> ?f t \<noteq> [] then Some (?f t) else None)" for ks
    by (induction ks) auto
  ultimately show ?thesis by (auto simp: clause_overlays_def keys_def[symmetric])
qed

text \<open>
  After the withdrawal the check of the overlays can only fail for an accepted range that is
  empty or starts before its text: two accepted proposals of one text never overlap.
\<close>

lemma clause_overlays_valid:
  assumes "rmap (decide_envelope p session robust labels active) envelopes = Inr proposed"
  shows "validate_overlays (clause_overlays proposed (withdraw_conflicts proposed)) = Inr () \<longleftrightarrow>
    list_all (\<lambda>d. 0 \<le> fst (cd_range d) \<and> fst (cd_range d) < snd (cd_range d))
      (filter cd_accepted (withdraw_conflicts proposed))"
proof -
  let ?ovs = "clause_overlays proposed (withdraw_conflicts proposed)"
  have sel: "list_all selecting proposed"
    using rmap_image[OF assms] decided_selecting by (force simp: list_all_iff)
  note res = resolved_selecting[OF sel]
  have mem: "(t, ovs) \<in> set ?ovs \<Longrightarrow> ovs = map overlay_of (proposals_of (withdraw_conflicts proposed) t)" for t ovs
    by (auto simp: clause_overlays_def overlays_of_proposals[OF res])
  have all: "(cd_text_id d, map overlay_of (proposals_of (withdraw_conflicts proposed) (cd_text_id d))) \<in> set ?ovs"
    if "d \<in> set (filter cd_accepted (withdraw_conflicts proposed))" for d
  proof -
    have d: "d \<in> set (proposals_of (withdraw_conflicts proposed) (cd_text_id d))" using that by (auto simp: proposals_of_def)
    from resolved_text[OF this] d show ?thesis by (force simp: clause_overlays_def overlays_of_proposals[OF res])
  qed
  have "validate_overlays ?ovs = Inr () \<longleftrightarrow> (\<forall>(t, ovs) \<in> set ?ovs. list_all proper_range ovs)"
    using overlays_apart[OF sel] mem overlays_of_proposals[OF res] by (fastforce simp: validate_overlays_iff list_all_iff)
  also have "\<dots> \<longleftrightarrow> list_all (\<lambda>d. proper_range (overlay_of d)) (filter cd_accepted (withdraw_conflicts proposed))"
    using mem all by (fastforce simp: list_all_iff proposals_of_def)
  finally show ?thesis by (simp add: proper_range_def overlay_of_def)
qed

section \<open>The finished track\<close>

text \<open>Whether an accepted decision holds a position of a text.\<close>

definition clause_holds :: "int \<Rightarrow> nat \<Rightarrow> clause_decision \<Rightarrow> bool" where
  "clause_holds text_id i d \<longleftrightarrow> cd_accepted d \<and> cd_text_id d = text_id \<and>
     fst (cd_range d) \<le> int i \<and> int i < snd (cd_range d)"

lemma find_filter: "find P (filter Q xs) = find (\<lambda>x. Q x \<and> P x) xs"
  by (induction xs) auto

lemma find_map: "find P (map g xs) = map_option g (find (P \<circ> g) xs)"
  by (induction xs) auto

lemma find_clause:
  "list_all selecting ds \<Longrightarrow> find (holds_at i) (List.map_filter proposal_overlay (proposals_of ds t))
     = map_option overlay_of (find (clause_holds t i) ds)"
  unfolding overlays_of_proposals
  by (simp add: find_map proposals_of_def find_filter clause_holds_def[abs_def] holds_at_def overlay_of_def comp_def)

text \<open>
  A ranking by falling score: its head beats every other entry, by name on a tie, and no other
  entry beats the second one.
\<close>

lemma ranking_sorted:
  assumes "sort_key voice_rank xs = p # q # rest" and "(t, y) \<in> set (q # rest)"
  shows "y < snd p \<or> y = snd p \<and> fst p \<le> t" and "y \<le> snd q"
proof -
  have neg: "- a < - b \<longleftrightarrow> b < a" "- a = - b \<longleftrightarrow> a = b" for a b :: dbl by (transfer, simp)+
  have "sorted (map voice_rank (p # q # rest))" unfolding assms(1)[symmetric] by simp
  then have le: "voice_rank p \<le> voice_rank (t, y)" "voice_rank q \<le> voice_rank (t, y)" using assms(2) by auto
  from le(1) show "y < snd p \<or> y = snd p \<and> fst p \<le> t"
    by (auto simp: voice_rank_def case_prod_unfold less_eq_prod_def neg)
  from le(2) show "y \<le> snd q"
    by (auto simp: voice_rank_def case_prod_unfold less_eq_prod_def neg)
qed

lemma ranked_voices_active: "(s, x) \<in> set (ranked_voices v active) \<Longrightarrow> s \<in> set active"
  by (induction active) (auto simp: ranked_voices_def map_filter_simps split: option.splits)

lemma selected_active: "fst (select_identity voice active g) = Some s \<Longrightarrow> s \<in> set active"
proof -
  assume "fst (select_identity voice active g) = Some s"
  then have "\<exists>v. 2 \<le> length (ranked_voices v active) \<and> s = fst (ranked_voices v active ! 0)"
    by (auto simp: select_identity_def gated_identity_def Let_def not_less split: option.splits if_splits prod.splits
      intro!: exI)
  then obtain v where v: "2 \<le> length (ranked_voices v active)" "s = fst (ranked_voices v active ! 0)" by blast
  then have "ranked_voices v active ! 0 \<in> set (ranked_voices v active)" by (intro nth_mem) linarith
  with v(2) show ?thesis by (metis prod.collapse ranked_voices_active)
qed

lemma decided_accepted:
  assumes "decide_envelope p session robust labels active e = Inr d" "cd_accepted d"
  obtains s where "s \<in> set active" "cd_selected d = Some s" "fst (cd_session d) = Some s" "fst (cd_robust d) = Some s"
proof -
  from assms obtain v w text_id r reason where
    ver: "clause_verdict p labels (fst (select_identity (Some v) active (ac_gates p)))
      (fst (select_identity (Some w) active (ac_gates p))) text_id r = Inr (True, reason)"
    and d: "cd_selected d = fst (select_identity (Some v) active (ac_gates p))"
      "cd_session d = select_identity (Some v) active (ac_gates p)" "cd_robust d = select_identity (Some w) active (ac_gates p)"
    by (auto simp: decide_envelope_def rbind_Inr_iff Let_def)
  from ver obtain s where s: "fst (select_identity (Some v) active (ac_gates p)) = Some s"
    "fst (select_identity (Some w) active (ac_gates p)) = Some s"
    by (auto simp: clause_verdict_def split: prod.splits option.splits if_splits)
  from that[OF selected_active[OF s(1)]] d s show ?thesis by simp
qed

text \<open>
  In the finished track every character of a text has the identity that both voiceprint
  tables gave the one accepted envelope holding it, and otherwise the label of its base turn.
\<close>

lemma clause_labels_exact:
  assumes build: "build_clause_candidate baseline metadata session robust mapping p = Inr r"
    and frs: "candidate_fragments baseline = Inr frs" "map_of frs text_id = Some fs" "f \<in> set fs"
    and plain: "list_all (\<lambda>f. plain_fragment (as_fragment f)) fs"
    and i: "bf_start f \<le> i" "i < bf_end f"
  shows "let labels = expand_turns (filter (\<lambda>t. pt_text_id t = text_id) (cr_track r)) in i < length labels \<and>
    (case find (clause_holds text_id i) (cr_decisions r) of
       None \<Rightarrow> rbind (entry_label (bf_entry f)) (\<lambda>l. Inr (label_key l)) = Inr (labels ! i)
     | Some d \<Rightarrow> list_ex (\<lambda>s. fst (cd_session d) = Some s \<and> fst (cd_robust d) = Some s \<and>
         labels ! i = (JStr s, False, ''adjacent_subminimum_clause_dual_voiceprint_challenge'')) (cr_active r))"
proof -
  let ?turns = "filter (\<lambda>t. pt_text_id t = text_id) (cr_track r)"
  from build frs(1) obtain ids labels envelopes proposed pieces where
    val: "validate_candidate_sources frs metadata = Inr ()"
    and dec: "rmap (decide_envelope p session robust labels (cr_active r)) envelopes = Inr proposed"
      "cr_decisions r = withdraw_conflicts proposed"
    and ovs: "validate_overlays (clause_overlays proposed (withdraw_conflicts proposed)) = Inr ()"
    and pcs: "rmap (composed_text metadata (clause_overlays proposed (withdraw_conflicts proposed)) ids) (sort_key fst frs) = Inr pieces"
      "cr_track r = concat pieces"
    by (auto simp: build_clause_candidate_def clause_baseline_def rbind_Inr_iff raise_if_Inr_iff Let_def)
  have sel: "list_all selecting proposed" using rmap_image[OF dec(1)] decided_selecting by (force simp: list_all_iff)
  let ?ovs = "List.map_filter proposal_overlay (proposals_of (withdraw_conflicts proposed) text_id)"
  obtain source us where fs: "laid_out fs"
    and rep: "reproject_preserving_base text_id source us fs ?ovs ids = Inr ?turns"
    using composed_of_text[OF frs(1,2) val pcs(1)] unfolding clause_overlays_of pcs(2) by metis
  have proper: "list_all proper_range ?ovs"
    using ovs clause_overlays_of[of proposed text_id]
    by (auto simp: validate_overlays_iff list_all_iff split: option.splits dest!: map_of_SomeD)
  obtain l where l: "entry_label (bf_entry f) = Inr l" "i < length (expand_turns ?turns)"
    "expand_turns ?turns ! i = label_key (label_at ids ?ovs i l)"
    by (rule composed_label[OF rep fs _ proper overlays_apart[OF sel] frs(3) i]) (use plain in \<open>simp add: list_all_iff\<close>)
  have f: "find (holds_at i) ?ovs = map_option overlay_of (find (clause_holds text_id i) (cr_decisions r))"
    unfolding dec(2) by (rule find_clause[OF resolved_selecting[OF sel]])
  show ?thesis
  proof (cases "find (clause_holds text_id i) (cr_decisions r)")
    case None
    then show ?thesis using l f by (simp add: Let_def label_at_def)
  next
    case (Some d)
    then have d: "d \<in> set (withdraw_conflicts proposed)" "cd_accepted d"
      by (auto simp: find_Some_iff dec(2) clause_holds_def dest: nth_mem)
    then have "d \<in> set proposed" by (auto simp: withdraw_conflicts_def withdraw_def split: if_splits)
    from rmap_image[OF dec(1) this] obtain e where "decide_envelope p session robust labels (cr_active r) e = Inr d" by blast
    then obtain s where "s \<in> set (cr_active r)" "cd_selected d = Some s" "fst (cd_session d) = Some s" "fst (cd_robust d) = Some s"
      using d(2) by (rule decided_accepted)
    with l f Some show ?thesis by (auto simp: Let_def label_at_def laid_label_def label_key_def overlay_of_def list_ex_iff)
  qed
qed

end
