(* ===== verification/Cross_Prototype.thy ===== *)
theory Cross_Prototype
  imports Adjacent_Clauses
begin

text \<open>
  \<^verbatim>\<open>tools/archive/spec013-speaker-candidates/speaker_complete_phrase_cross_prototype_candidate.py\<close>:
  the accepted challenges of another candidate that cover exactly one punctuation phrase are laid
  over the baseline.  Its \<^verbatim>\<open>read_mapping\<close> and \<^verbatim>\<open>baseline_labels\<close> are those of the reviewed
  overlay and of the expansion candidate once more.  Identities of the baseline that are not texts
  have no value in the model.
\<close>

section \<open>Policy\<close>

definition cross_flags :: "string list" where
  "cross_flags = [''enabled'', ''require_accepted_challenge'', ''require_exact_punctuation_phrase'',
     ''require_identity_parity'', ''require_uniform_known_baseline_conflict'', ''reject_conflicting_overlays'']"

record cross_policy =
  kp_kind :: string
  kp_reason :: string
  kp_protected :: "string list"

definition load_cross_policy :: "obj \<Rightarrow> cross_policy res" where
  "load_cross_policy document =
    (let section = dget document ''complete_phrase_cross_prototype'' (JObj []) in
     rbind (absent_fields (cross_flags @ [''required_candidate_kind'', ''required_decision_reason'',
       ''protected_decision_reasons'']) section) (\<lambda>missing.
     raise_if (missing \<noteq> []) (ValueError (''complete-phrase policy missing: '' @ join_with '','' (sort missing)))
     (rbind (rmap (vitem section) cross_flags) (\<lambda>flags.
      raise_if (\<exists>v \<in> set flags. v \<noteq> JBool True) (ValueError ''complete-phrase safeguards are mandatory'')
      (rbind (vitem section ''required_candidate_kind'') (\<lambda>kind. rbind (vitem section ''required_decision_reason'') (\<lambda>reason.
       raise_if (py_str kind = [] \<or> py_str reason = []) (ValueError ''complete-phrase provenance must be non-empty'')
       (rbind (rbind (vitem section ''protected_decision_reasons'') protected_reasons) (\<lambda>protected.
        Inr \<lparr>kp_kind = py_str kind, kp_reason = py_str reason, kp_protected = protected\<rparr>)))))))))"

definition cross_policy_doc :: "cross_policy \<Rightarrow> json" where
  "cross_policy_doc p = JObj [(''required_candidate_kind'', JStr (kp_kind p)), (''required_decision_reason'', JStr (kp_reason p)),
     (''protected_decision_reasons'', JArr (map JStr (kp_protected p)))]"

section \<open>Phrases\<close>

type_synonym phrase_key = "int \<times> int \<times> int"

definition add_phrase_key :: "phrase_key list \<Rightarrow> json \<Rightarrow> phrase_key list res" where
  "add_phrase_key keys phrase =
    rbind (rbind (vitem phrase ''text_id'') py_int) (\<lambda>text_id. rbind (source_range phrase) (\<lambda>(a, b).
    raise_if ((text_id, a, b) \<in> set keys) (ValueError ''duplicate punctuation phrase range'')
      (Inr (keys @ [(text_id, a, b)]))))"

definition phrase_keys :: "json \<Rightarrow> phrase_key list res" where
  "phrase_keys metadata =
    rbind (vget metadata ''kind'' JNull) (\<lambda>kind.
    raise_if (kind \<noteq> JStr ''orator_punctuation_phrase_spans'')
      (ValueError ''metadata is not punctuation phrase evidence'')
    (rbind (rbind (vget metadata ''phrases'' (JArr [])) py_iter) (rfold add_phrase_key [])))"

section \<open>Challenges\<close>

record cross_overlay = source_overlay +
  kx_text_id :: int
  kx_baseline :: string
  kx_initial :: string
  kx_local :: string
  kx_phrase :: string

definition wanted_challenge :: "cross_policy \<Rightarrow> json \<Rightarrow> bool res" where
  "wanted_challenge p c = rbind (vget c ''accepted'' JNull) (\<lambda>a.
     if a \<noteq> JBool True then Inr False
     else rbind (vget c ''reason'' JNull) (\<lambda>r. Inr (py_str r = kp_reason p)))"

definition challenge_text :: "json \<Rightarrow> string \<Rightarrow> string res" where
  "challenge_text c key = rbind (vget c key (JStr [])) (\<lambda>v. Inr (py_str v))"

text \<open>The one identity the challenge names three times; the terminal candidate had another.\<close>

definition challenge_identity :: "json \<Rightarrow> string res" where
  "challenge_identity c =
    rbind (rmap (challenge_text c) [''initial_speaker_id'', ''source_speaker_id'', ''mapped_speaker_id'']) (\<lambda>ids.
    raise_if (length (remdups ids) \<noteq> 1 \<or> [] \<in> set ids)
      (ValueError ''cross-prototype challenge identity parity failed'')
    (rbind (challenge_text c ''terminal_speaker_id'') (\<lambda>terminal.
     raise_if (terminal = hd ids) (ValueError ''cross-prototype terminal identity does not differ'') (Inr (hd ids)))))"

text \<open>The baseline's uniform identity under a range, where it is another one and nothing is protected.\<close>

definition challenged_identity :: "cross_policy \<Rightarrow> string \<Rightarrow> base_mark list \<Rightarrow> string option res" where
  "challenged_identity p selected marks = rbind (rmap mark_identity marks) (\<lambda>ids. Inr (case remdups ids of
     [Some s] \<Rightarrow> if s = selected then None
       else if \<exists>m \<in> set marks. bm_reason m \<in> set (kp_protected p) then None else Some s
   | _ \<Rightarrow> None))"

definition named_text :: "json \<Rightarrow> string \<Rightarrow> string res" where
  "named_text c key = rbind (vitem c key) (\<lambda>v. Inr (py_str v))"

definition cross_challenge ::
  "cross_policy \<Rightarrow> phrase_key list \<Rightarrow> marks_by_text \<Rightarrow> json \<Rightarrow> cross_overlay option res" where
  "cross_challenge p phrases labels c =
    rbind (wanted_challenge p c) (\<lambda>wanted. if \<not> wanted then Inr None
    else rbind (rbind (vitem c ''text_id'') py_int) (\<lambda>text_id. rbind (source_range c) (\<lambda>(a, b).
      if (text_id, a, b) \<notin> set phrases then Inr None
      else rbind (challenge_identity c) (\<lambda>selected.
        rbind (rbind (range_marks labels text_id a b) (challenged_identity p selected)) (\<lambda>baseline. case baseline of
          None \<Rightarrow> Inr None
        | Some was \<Rightarrow>
            rbind (named_text c ''initial_evidence_id'') (\<lambda>i. rbind (named_text c ''local_evidence_id'') (\<lambda>l.
            rbind (named_text c ''phrase_evidence_id'') (\<lambda>ph.
            Inr (Some \<lparr>so_start = a, so_end = b, so_speaker = selected,
              so_reason = ''complete_phrase_cross_prototype_margin_veto'', kx_text_id = text_id, kx_baseline = was,
              kx_initial = i, kx_local = l, kx_phrase = ph\<rparr>)))))))))"

definition append_at :: "'k \<Rightarrow> 'v \<Rightarrow> ('k, 'v list) pydict \<Rightarrow> ('k, 'v list) pydict" where
  "append_at k x d = dset k ((case map_of d k of None \<Rightarrow> [] | Some xs \<Rightarrow> xs) @ [x]) d"

definition collect_challenges ::
  "json \<Rightarrow> phrase_key list \<Rightarrow> marks_by_text \<Rightarrow> cross_policy
     \<Rightarrow> ((int, cross_overlay list) pydict \<times> cross_overlay list) res" where
  "collect_challenges challenger phrases labels p =
    rbind (vget challenger ''candidate_kind'' JNull) (\<lambda>kind.
    raise_if (kind \<noteq> JStr (kp_kind p)) (ValueError ''unexpected cross-prototype candidate kind'')
    (rbind (rbind (vget challenger ''challenge_decisions'' (JArr [])) py_iter) (\<lambda>items.
     rbind (rcollect (cross_challenge p phrases labels) items) (\<lambda>found.
     let overlays = foldl (\<lambda>d x. append_at (kx_text_id x) x d) [] found in
     rbind (validate_overlays overlays) (\<lambda>_. Inr (overlays, found))))))"

section \<open>Build\<close>

record cross_result =
  kr_active :: "string list"
  kr_source_turns :: int
  kr_audio_sec :: dbl
  kr_sample_rate :: int
  kr_overlays :: "cross_overlay list"
  kr_track :: "phrase_turn list"

definition build_cross_candidate :: "json \<Rightarrow> json \<Rightarrow> json \<Rightarrow> json \<Rightarrow> cross_policy \<Rightarrow> cross_result res" where
  "build_cross_candidate baseline challenger metadata mapping_document p =
    rbind (clause_baseline baseline metadata mapping_document) (\<lambda>(id_to_local, active, fragments, labels).
    rbind (phrase_keys metadata) (\<lambda>phrases.
    rbind (collect_challenges challenger phrases labels p) (\<lambda>(overlays, decisions).
    rbind (rmap (composed_text metadata overlays id_to_local) (sort_key fst fragments)) (\<lambda>pieces.
    rbind (float_item baseline ''audio_sec'') (\<lambda>audio_sec.
    rbind (rbind (vitem baseline ''sample_rate'') py_int) (\<lambda>sample_rate.
    rbind (rbind (vget baseline ''track'' (JArr [])) py_len) (\<lambda>turns.
    Inr \<lparr>kr_active = active, kr_source_turns = turns, kr_audio_sec = audio_sec, kr_sample_rate = sample_rate,
         kr_overlays = decisions, kr_track = concat pieces\<rparr>)))))))"

definition cross_overlay_doc :: "cross_overlay \<Rightarrow> json" where
  "cross_overlay_doc x = JObj [(''text_id'', JInt (kx_text_id x)), (''source_start'', JInt (so_start x)),
     (''source_end'', JInt (so_end x)), (''speaker_id'', JStr (so_speaker x)),
     (''baseline_speaker_id'', JStr (kx_baseline x)), (''reason'', JStr (so_reason x)),
     (''initial_evidence_id'', JStr (kx_initial x)), (''local_evidence_id'', JStr (kx_local x)),
     (''phrase_evidence_id'', JStr (kx_phrase x))]"

definition cross_result_doc :: "cross_policy \<Rightarrow> cross_result \<Rightarrow> obj" where
  "cross_result_doc p r =
     [(''schema_version'', JInt 1),
      (''kind'', JStr ''orator_frozen_speaker_candidate''),
      (''candidate_kind'', JStr ''v21_complete_phrase_cross_prototype''),
      (''audio_sec'', JFlt (kr_audio_sec r)),
      (''sample_rate'', JInt (kr_sample_rate r)),
      (''active_speaker_ids'', JArr (map JStr (kr_active r))),
      (''source_turn_count'', JInt (kr_source_turns r)),
      (''turn_count'', JInt (int (length (kr_track r)))),
      (''overlay_count'', JInt (int (length (kr_overlays r)))),
      (''policy'', cross_policy_doc p),
      (''overlay_decisions'', JArr (map cross_overlay_doc (kr_overlays r))),
      (''track'', JArr (map turn_doc (kr_track r)))]"

definition command_cross_build ::
  "json \<Rightarrow> json \<Rightarrow> json \<Rightarrow> json \<Rightarrow> obj \<Rightarrow> (string \<times> file_identity) list \<Rightarrow> obj res" where
  "command_cross_build baseline challenger metadata mapping_document config files =
    rbind (load_cross_policy config) (\<lambda>p.
    rbind (build_cross_candidate baseline challenger metadata mapping_document p) (\<lambda>r.
    Inr (dset ''sources'' (sources_doc files) (cross_result_doc p r))))"

end
