(* ===== verification/Vad_Challenges.thy ===== *)
theory Vad_Challenges
  imports Cross_Prototype
begin

text \<open>
  \<^verbatim>\<open>tools/archive/spec013-speaker-candidates/speaker_complete_vad_phrase_challenge_candidate.py\<close>: a
  short utterance of one top-1 speaker with exactly one phrase inside challenges the baseline where
  two voiceprint tables of the utterance and two of the phrase all select one identity.  Mapping,
  fragments, labels and reprojection are those of the reviewed overlay and expansion candidates.
\<close>

section \<open>Policy\<close>

definition challenge_flags :: "string list" where
  "challenge_flags = [''enabled'', ''require_unique_enclosing_phrase'', ''require_vad_dual_voiceprint_identity'',
     ''require_vad_regular_score_floor_for_raw_challenge'', ''require_phrase_dual_voiceprint_identity'',
     ''require_four_view_identity_agreement'', ''require_raw_local_identity_conflict'',
     ''require_uniform_known_baseline_identity'', ''require_baseline_identity_conflict'', ''reject_conflicting_overlays'']"

text \<open>The tolerance is always one frame in a policy that loads.\<close>

record challenge_policy =
  vp_gates :: gate_policy
  vp_protected :: "string list"

definition challenge_protected :: "json \<Rightarrow> string list res" where
  "challenge_protected section =
    rbind (rbind (vitem section ''protected_decision_reasons'') py_iter) (\<lambda>values.
    let reasons = map py_str values in
    raise_if (reasons = [] \<or> [] \<in> set reasons) (ValueError ''protected decision reasons are invalid'')
    (raise_if (\<not> distinct reasons) (ValueError ''protected decision reasons contain duplicates'') (Inr reasons)))"

definition load_challenge_policy :: "obj \<Rightarrow> challenge_policy res" where
  "load_challenge_policy document =
    (let fusion = dget document ''speaker_fusion'' (JObj []);
         section = dget document ''complete_vad_phrase_challenge'' (JObj []) in
     rbind (absent_fields GATE_FIELDS fusion) (\<lambda>m1.
     rbind (absent_fields (challenge_flags @ [''boundary_tolerance_frames'', ''protected_decision_reasons'']) section) (\<lambda>m2.
     let missing = sort (m1 @ m2) in
     raise_if (missing \<noteq> []) (ValueError (''complete VAD phrase policy missing: '' @ join_with '','' missing))
     (rbind (rmap (vitem section) challenge_flags) (\<lambda>flags.
      raise_if (\<exists>v \<in> set flags. v \<noteq> JBool True) (ValueError ''complete VAD phrase safeguards are mandatory'')
      (rbind (rbind (vitem section ''boundary_tolerance_frames'') py_int) (\<lambda>frames.
       raise_if (frames \<noteq> 1) (ValueError ''boundary tolerance must be one frozen frame'')
       (rbind (challenge_protected section) (\<lambda>protected. rbind (gates_of fusion) (\<lambda>gates.
        Inr \<lparr>vp_gates = gates, vp_protected = protected\<rparr>))))))))))"

definition challenge_policy_doc :: "challenge_policy \<Rightarrow> json" where
  "challenge_policy_doc p = JObj (gate_entries (vp_gates p) @ [(''boundary_tolerance_frames'', JInt 1),
     (''protected_decision_reasons'', JArr (map JStr (vp_protected p)))])"

section \<open>Phrases inside an utterance\<close>

text \<open>\<^verbatim>\<open>x and y\<close> where either may raise.\<close>

definition rconj :: "bool res \<Rightarrow> bool res \<Rightarrow> bool res" where
  "rconj x y = rbind x (\<lambda>b. if b then y else Inr False)"

definition int_le :: "json \<Rightarrow> string \<Rightarrow> json \<Rightarrow> string \<Rightarrow> bool res" where
  "int_le x k y l = rbind (rbind (vitem x k) py_int) (\<lambda>a. rbind (rbind (vitem y l) py_int) (\<lambda>b. Inr (a \<le> b)))"

definition encloses :: "dbl \<Rightarrow> json \<Rightarrow> json \<Rightarrow> bool res" where
  "encloses tolerance piece phrase =
    rconj (int_le phrase ''source_start'' piece ''source_start'')
    (rconj (int_le piece ''source_end'' phrase ''source_end'')
    (rconj (rbind (float_item phrase ''start'') (\<lambda>s. rbind (float_item piece ''start'') (\<lambda>t. Inr (t - tolerance \<le> s))))
      (rbind (float_item phrase ''end'') (\<lambda>s. rbind (float_item piece ''end'') (\<lambda>t. Inr (s \<le> t + tolerance))))))"

definition enclosing_phrases :: "json \<Rightarrow> json list \<Rightarrow> dbl \<Rightarrow> json list res" where
  "enclosing_phrases piece phrases tolerance = rfilter (encloses tolerance piece) phrases"

definition phrases_by_text :: "json \<Rightarrow> (int, json list) pydict res" where
  "phrases_by_text metadata = rbind (rbind (vget metadata ''phrases'' (JArr [])) py_iter) (rfold
     (\<lambda>d phrase. rbind (rbind (vitem phrase ''text_id'') py_int) (\<lambda>t. Inr (append_at t phrase d))) [])"

section \<open>Decision\<close>

text \<open>The four tables: session and robust of the utterances, then of the phrases.\<close>

record four_tables =
  ft_vad_session :: voice_table
  ft_vad_robust :: voice_table
  ft_phrase_session :: voice_table
  ft_phrase_robust :: voice_table

record four_views =
  fv_vad_session :: selection
  fv_vad_robust :: selection
  fv_phrase_session :: selection
  fv_phrase_robust :: selection

definition view_pair :: "voice_table \<Rightarrow> voice_table \<Rightarrow> string \<Rightarrow> string \<Rightarrow> (phrase_voice \<times> phrase_voice) res" where
  "view_pair a b key message = (case (map_of a (Some key), map_of b (Some key)) of
     (Some v, Some w) \<Rightarrow> Inr (v, w) | _ \<Rightarrow> Inl (ValueError message))"

definition views_of :: "four_tables \<Rightarrow> string list \<Rightarrow> gate_policy \<Rightarrow> string \<Rightarrow> string \<Rightarrow> four_views res" where
  "views_of tables active g vad_id phrase_id =
    rbind (view_pair (ft_vad_session tables) (ft_vad_robust tables) vad_id ''missing VAD voiceprint evidence'') (\<lambda>(a, b).
    rbind (view_pair (ft_phrase_session tables) (ft_phrase_robust tables) phrase_id
      ''missing phrase voiceprint evidence'') (\<lambda>(c, d).
    Inr \<lparr>fv_vad_session = select_identity (Some a) active g, fv_vad_robust = select_identity (Some b) active g,
      fv_phrase_session = select_identity (Some c) active g, fv_phrase_robust = select_identity (Some d) active g\<rparr>))"

definition view_list :: "four_views \<Rightarrow> selection list" where
  "view_list v = [fv_vad_session v, fv_vad_robust v, fv_phrase_session v, fv_phrase_robust v]"

text \<open>\<^verbatim>\<open>ranked[0]["score"]\<close>.\<close>

definition top_score :: "selection \<Rightarrow> dbl" where
  "top_score v = snd (hd (snd (snd v)))"

definition below_floor :: "gate_policy \<Rightarrow> four_views \<Rightarrow> bool" where
  "below_floor g v \<longleftrightarrow> list_ex (\<lambda>s. top_score s + EPSILON < gp_regular_score g) [fv_vad_session v, fv_vad_robust v]"

definition challenge_reason :: string where
  "challenge_reason = ''complete_vad_phrase_four_view_voiceprint_challenge''"

definition baseline_challenge :: "challenge_policy \<Rightarrow> string \<Rightarrow> base_mark list \<Rightarrow> (bool \<times> string) res" where
  "baseline_challenge p selected marks = rbind (rmap mark_identity marks) (\<lambda>ids. Inr
    (if None \<in> set ids \<or> length (remdups ids) \<noteq> 1 then (False, ''baseline_identity_not_uniform_known'')
     else if Some selected \<in> set ids then (False, ''baseline_identity_conflict_missing'')
     else if \<exists>m \<in> set marks. bm_reason m \<in> set (vp_protected p) then (False, ''protected_overlay_conflict'')
     else (True, challenge_reason)))"

definition challenge_verdict ::
  "challenge_policy \<Rightarrow> marks_by_text \<Rightarrow> four_views \<Rightarrow> string option \<Rightarrow> int \<Rightarrow> int \<times> int \<Rightarrow> (bool \<times> string) res" where
  "challenge_verdict p labels v mapped text_id = (\<lambda>(a, b).
     (case fst (fv_vad_session v) of None \<Rightarrow> Inr (False, ''four_view_voiceprint_abstention'')
      | Some s \<Rightarrow>
          if \<exists>w \<in> set (view_list v). fst w = None then Inr (False, ''four_view_voiceprint_abstention'')
          else if length (remdups (map fst (view_list v))) \<noteq> 1 then Inr (False, ''four_view_identity_disagreement'')
          else if below_floor (vp_gates p) v then Inr (False, ''vad_challenge_score_below_regular_floor'')
          else if mapped = Some s then Inr (False, ''raw_local_identity_agreement'')
          else rbind (range_marks labels text_id a b) (baseline_challenge p s)))"

record vad_challenge = source_overlay +
  vc_vad :: string
  vc_phrase :: string
  vc_text_id :: int
  vc_times :: "dbl \<times> dbl"
  vc_vad_times :: "dbl \<times> dbl"
  vc_mapped :: "string option"
  vc_views :: four_views
  vc_accepted :: bool

record challenge_context =
  cc_policy :: challenge_policy
  cc_tolerance :: dbl
  cc_tables :: four_tables
  cc_active :: "string list"
  cc_mapping :: "(int, string) pydict"
  cc_labels :: marks_by_text
  cc_phrases :: "(int, json list) pydict"

definition time_range :: "json \<Rightarrow> (dbl \<times> dbl) res" where
  "time_range x = rbind (float_item x ''start'') (\<lambda>s. rbind (float_item x ''end'') (\<lambda>e. Inr (s, e)))"

definition challenge_phrase :: "challenge_context \<Rightarrow> json \<Rightarrow> int \<Rightarrow> json \<Rightarrow> vad_challenge res" where
  "challenge_phrase x piece text_id phrase =
    rbind (named_text piece ''evidence_id'') (\<lambda>vad_id. rbind (named_text phrase ''evidence_id'') (\<lambda>phrase_id.
    rbind (views_of (cc_tables x) (cc_active x) (vp_gates (cc_policy x)) vad_id phrase_id) (\<lambda>views.
    rbind (source_range phrase) (\<lambda>r. rbind (time_range phrase) (\<lambda>t. rbind (time_range piece) (\<lambda>vt.
    rbind (rbind (vitem piece ''local_speaker'') py_int) (\<lambda>local.
    let mapped = map_of (cc_mapping x) local in
    rbind (challenge_verdict (cc_policy x) (cc_labels x) views mapped text_id r) (\<lambda>(accepted, reason).
    Inr \<lparr>so_start = fst r, so_end = snd r,
      so_speaker = (case fst (fv_vad_session views) of None \<Rightarrow> [] | Some s \<Rightarrow> s), so_reason = reason,
      vc_vad = vad_id, vc_phrase = phrase_id, vc_text_id = text_id, vc_times = t, vc_vad_times = vt,
      vc_mapped = mapped, vc_views = views, vc_accepted = accepted\<rparr>))))))))"

text \<open>An utterance without exactly one phrase inside is passed over.\<close>

definition challenge_piece :: "challenge_context \<Rightarrow> json \<Rightarrow> vad_challenge option res" where
  "challenge_piece x piece =
    rbind (rbind (vitem piece ''text_id'') py_int) (\<lambda>text_id.
    rbind (enclosing_phrases piece (case map_of (cc_phrases x) text_id of None \<Rightarrow> [] | Some ps \<Rightarrow> ps) (cc_tolerance x)) (\<lambda>met.
    case met of [phrase] \<Rightarrow> rbind (challenge_phrase x piece text_id phrase) (\<lambda>d. Inr (Some d)) | _ \<Rightarrow> Inr None))"

definition challenge_overlays :: "vad_challenge list \<Rightarrow> (int, vad_challenge list) pydict" where
  "challenge_overlays decisions = foldl (\<lambda>d x. append_at (vc_text_id x) x d) [] (filter vc_accepted decisions)"

section \<open>Build\<close>

record challenge_result =
  vr_active :: "string list"
  vr_source_turns :: int
  vr_audio_sec :: dbl
  vr_sample_rate :: int
  vr_tolerance :: dbl
  vr_decisions :: "vad_challenge list"
  vr_track :: "phrase_turn list"

definition frame_tolerance :: "json \<Rightarrow> dbl res" where
  "frame_tolerance vad_metadata =
    rbind (rbind (vget vad_metadata ''frame_period_sec'' (JFlt 0)) py_float) (\<lambda>period.
    raise_if (period \<le> 0) (ValueError ''VAD metadata has no frame period'') (Inr (of_pyint 1 * period)))"

definition build_challenge_candidate ::
  "json \<Rightarrow> json \<Rightarrow> json \<Rightarrow> four_tables \<Rightarrow> json \<Rightarrow> challenge_policy \<Rightarrow> challenge_result res" where
  "build_challenge_candidate baseline vad_metadata phrase_meta tables mapping_document p =
    rbind (vget vad_metadata ''kind'' JNull) (\<lambda>vk.
    raise_if (vk \<noteq> JStr ''orator_vad_utterance_spans'') (ValueError ''metadata is not short VAD utterance evidence'')
    (rbind (vget phrase_meta ''kind'' JNull) (\<lambda>pk.
     raise_if (pk \<noteq> JStr ''orator_punctuation_phrase_spans'') (ValueError ''metadata is not punctuation phrase evidence'')
     (rbind (read_slots mapping_document) (\<lambda>mapping.
      let active = sort (map snd mapping) in
      rbind (rbind (vget baseline ''active_speaker_ids'' (JArr [])) identity_list) (\<lambda>listed.
      raise_if (sort listed \<noteq> active) (ValueError ''baseline identities differ from mapping'')
      (rbind (frame_tolerance vad_metadata) (\<lambda>tolerance.
       rbind (candidate_fragments baseline) (\<lambda>fragments.
       rbind (validate_candidate_sources fragments phrase_meta) (\<lambda>_.
       rbind (rmap (text_marks phrase_meta) fragments) (\<lambda>labels.
       rbind (phrases_by_text phrase_meta) (\<lambda>phrases.
       rbind (rbind (vget vad_metadata ''pieces'' (JArr [])) py_iter) (\<lambda>pieces.
       rbind (rcollect (challenge_piece \<lparr>cc_policy = p, cc_tolerance = tolerance, cc_tables = tables, cc_active = active,
         cc_mapping = mapping, cc_labels = labels, cc_phrases = phrases\<rparr>) pieces) (\<lambda>decisions.
       let overlays = challenge_overlays decisions in
       rbind (validate_overlays overlays) (\<lambda>_.
       rbind (rmap (composed_text phrase_meta overlays (invert_mapping mapping)) (sort_key fst fragments)) (\<lambda>turns.
       rbind (float_item baseline ''audio_sec'') (\<lambda>audio_sec.
       rbind (rbind (vitem baseline ''sample_rate'') py_int) (\<lambda>sample_rate.
       rbind (rbind (vget baseline ''track'' (JArr [])) py_len) (\<lambda>n.
       Inr \<lparr>vr_active = active, vr_source_turns = n, vr_audio_sec = audio_sec, vr_sample_rate = sample_rate,
            vr_tolerance = tolerance, vr_decisions = decisions, vr_track = concat turns\<rparr>)))))))))))))))))))"

definition view_doc :: "selection \<Rightarrow> json" where
  "view_doc = (\<lambda>(s, reason, ranked). JObj [(''identity'', opt_json s), (''reason'', JStr reason), (''ranked'', ranked_doc ranked)])"

definition challenge_doc :: "dbl \<Rightarrow> vad_challenge \<Rightarrow> json" where
  "challenge_doc tolerance d = JObj
     [(''vad_evidence_id'', JStr (vc_vad d)), (''phrase_evidence_id'', JStr (vc_phrase d)), (''text_id'', JInt (vc_text_id d)),
      (''source_start'', JInt (so_start d)), (''source_end'', JInt (so_end d)),
      (''start'', JFlt (fst (vc_times d))), (''end'', JFlt (snd (vc_times d))),
      (''vad_start'', JFlt (fst (vc_vad_times d))), (''vad_end'', JFlt (snd (vc_vad_times d))),
      (''boundary_tolerance_sec'', JFlt tolerance), (''mapped_speaker_id'', opt_json (vc_mapped d)),
      (''views'', JObj [(''vad_session'', view_doc (fv_vad_session (vc_views d))),
        (''vad_robust'', view_doc (fv_vad_robust (vc_views d))),
        (''phrase_session'', view_doc (fv_phrase_session (vc_views d))),
        (''phrase_robust'', view_doc (fv_phrase_robust (vc_views d)))]),
      (''selected_speaker_id'', if vc_accepted d then JStr (so_speaker d) else JNull),
      (''accepted'', JBool (vc_accepted d)), (''reason'', JStr (so_reason d))]"

definition challenge_result_doc :: "challenge_policy \<Rightarrow> challenge_result \<Rightarrow> obj" where
  "challenge_result_doc p r =
     [(''schema_version'', JInt 1),
      (''kind'', JStr ''orator_frozen_speaker_candidate''),
      (''candidate_kind'', JStr ''v21_complete_vad_phrase_voiceprint_challenge''),
      (''audio_sec'', JFlt (vr_audio_sec r)),
      (''sample_rate'', JInt (vr_sample_rate r)),
      (''active_speaker_ids'', JArr (map JStr (vr_active r))),
      (''source_turn_count'', JInt (vr_source_turns r)),
      (''turn_count'', JInt (int (length (vr_track r)))),
      (''accepted_challenge_count'', JInt (int (length (filter vc_accepted (vr_decisions r))))),
      (''policy'', challenge_policy_doc p),
      (''challenge_decisions'', JArr (map (challenge_doc (vr_tolerance r)) (vr_decisions r))),
      (''track'', JArr (map turn_doc (vr_track r)))]"

text \<open>The four tables are read before the policy, and all of them before the build.\<close>

definition read_tables :: "csv_table \<Rightarrow> csv_table \<Rightarrow> csv_table \<Rightarrow> csv_table \<Rightarrow> four_tables res" where
  "read_tables a b c d = rbind (read_voice a) (\<lambda>v. rbind (read_voice b) (\<lambda>w. rbind (read_voice c) (\<lambda>x. rbind (read_voice d) (\<lambda>y.
     Inr \<lparr>ft_vad_session = v, ft_vad_robust = w, ft_phrase_session = x, ft_phrase_robust = y\<rparr>))))"

definition command_challenge_build ::
  "json \<Rightarrow> json \<Rightarrow> json \<Rightarrow> csv_table \<times> csv_table \<times> csv_table \<times> csv_table \<Rightarrow> json \<Rightarrow> obj
     \<Rightarrow> (string \<times> file_identity) list \<Rightarrow> obj res" where
  "command_challenge_build baseline vad_metadata phrase_meta = (\<lambda>(a, b, c, d) mapping_document config files.
    rbind (read_tables a b c d) (\<lambda>tables. rbind (load_challenge_policy config) (\<lambda>p.
    rbind (build_challenge_candidate baseline vad_metadata phrase_meta tables mapping_document p) (\<lambda>r.
    Inr (dset ''sources'' (sources_doc files) (challenge_result_doc p r))))))"

end
