(* ===== verification/Expansion_Properties.thy ===== *)
theory Expansion_Properties
  imports Relative_Expansion Clause_Properties Vad_Challenges
begin

text \<open>
  The labels of the expanded candidate: only accepted expansions change the baseline, and only to
  an identity that both voiceprint tables rank first for the complete phrase; and those of the
  challenged candidate, which is composed in the same way.
\<close>

text \<open>
  A voiceprint ranks an identity first among several: the identity has a score, so has another
  one, and every other scored identity is lower (on a tie later in the alphabet) and as far behind
  as asked for.  A phrase is confirmed by the margin alone; a selection has the gates of the
  duration for the score and the margin.
\<close>

definition voice_first :: "string set \<Rightarrow> phrase_voice \<Rightarrow> string \<Rightarrow> dbl \<Rightarrow> (dbl \<Rightarrow> bool) \<Rightarrow> bool" where
  "voice_first active v s x behind \<longleftrightarrow> pv_status v = Some ''ok'' \<and> s \<in> active \<and> map_of (pv_scores v) s = Some x \<and>
     (\<exists>t \<in> active. t \<noteq> s \<and> map_of (pv_scores v) t \<noteq> None) \<and>
     (\<forall>t \<in> active. \<forall>y. t \<noteq> s \<and> map_of (pv_scores v) t = Some y \<longrightarrow> (y < x \<or> y = x \<and> s \<le> t) \<and> behind y)"

definition voice_leads :: "dbl \<Rightarrow> string set \<Rightarrow> phrase_voice \<Rightarrow> string \<Rightarrow> bool" where
  "voice_leads margin active v s \<longleftrightarrow> (\<exists>x. voice_first active v s x (\<lambda>y. margin \<le> x - y + EPSILON))"

definition voice_selects :: "gate_policy \<Rightarrow> string set \<Rightarrow> phrase_voice \<Rightarrow> string \<Rightarrow> dbl \<Rightarrow> bool" where
  "voice_selects g active v s x \<longleftrightarrow>
     (if pv_duration v < gp_short_max g
      then gp_short_score g \<le> x \<and> voice_first active v s x (\<lambda>y. gp_short_margin g \<le> x - y)
      else gp_regular_score g \<le> x \<and> voice_first active v s x (\<lambda>y. gp_regular_margin g \<le> x - y))"

lemma voice_first_mono: "voice_first active v s x P \<Longrightarrow> (\<And>y. P y \<Longrightarrow> Q y) \<Longrightarrow> voice_first active v s x Q"
  unfolding voice_first_def by blast

definition scored :: "phrase_voice \<Rightarrow> string list \<Rightarrow> (string \<times> dbl) list" where
  "scored v active = List.map_filter (\<lambda>t. map_option (Pair t) (map_of (pv_scores v) t)) active"

lemma scored_member: "(t, y) \<in> set (scored v active) \<longleftrightarrow> t \<in> set active \<and> map_of (pv_scores v) t = Some y"
  by (induction active) (auto simp: scored_def map_filter_simps split: option.splits)

lemma scored_distinct: "distinct active \<Longrightarrow> distinct (map fst (scored v active))"
proof (induction active)
  case (Cons t ts)
  have "t \<notin> fst ` set (scored v ts)" using Cons.prems scored_member[of t _ v ts] by auto
  with Cons show ?case by (auto simp: scored_def map_filter_simps split: option.splits)
qed (simp add: scored_def map_filter_simps)

lemma ranking_first:
  assumes "distinct active" "pv_status v = Some ''ok''" "2 \<le> length (ranked_voices v active)"
  shows "voice_first (set active) v (fst (ranked_voices v active ! 0)) (snd (ranked_voices v active ! 0))
    (\<lambda>y. y \<le> snd (ranked_voices v active ! 1))"
proof -
  have ranked: "ranked_voices v active = sort_key voice_rank (scored v active)"
    by (simp add: ranked_voices_def scored_def)
  with assms(3) obtain p q rest where pq: "sort_key voice_rank (scored v active) = p # q # rest"
    by (metis One_nat_def Suc_1 Suc_le_length_iff)
  obtain s x t2 y2 where p: "p = (s, x)" "q = (t2, y2)" by (cases p; cases q) auto
  have set_eq: "set (p # q # rest) = set (scored v active)" unfolding pq[symmetric] by simp
  have mset: "mset (map fst (p # q # rest)) = mset (map fst (scored v active))"
    unfolding pq[symmetric] by simp
  have "distinct (map fst (p # q # rest))"
    using scored_distinct[OF assms(1), of v] mset_eq_imp_distinct_iff[OF mset] by simp
  then have other: "t2 \<noteq> s" by (auto simp: p)
  have "(s, x) \<in> set (scored v active)" "(t2, y2) \<in> set (scored v active)" unfolding set_eq[symmetric] by (simp_all add: p)
  then have mem: "s \<in> set active" "map_of (pv_scores v) s = Some x" "t2 \<in> set active" "map_of (pv_scores v) t2 = Some y2"
    by (simp_all add: scored_member)
  have "(y < x \<or> y = x \<and> s \<le> t) \<and> y \<le> y2"
    if t: "t \<in> set active" "t \<noteq> s" "map_of (pv_scores v) t = Some y" for t y
  proof -
    have "(t, y) \<in> set (scored v active)" using t by (simp add: scored_member)
    then have "(t, y) \<in> set (q # rest)" unfolding set_eq[symmetric] using t(2) by (auto simp: p)
    from ranking_sorted[OF pq this] show ?thesis by (auto simp: p)
  qed
  with assms(2) mem other show ?thesis unfolding voice_first_def ranked pq p by auto
qed

lemma view_confirms:
  assumes "distinct active" "phrase_view_confirms v phrase s active margin = Inr (True, ranked)"
  shows "voice_leads margin (set active) v s"
proof -
  from assms(2) have "2 \<le> length (ranked_active v active)" "fst (ranked_active v active ! 0) = s"
    "margin \<le> snd (ranked_active v active ! 0) - snd (ranked_active v active ! 1) + EPSILON"
    by (auto simp: phrase_view_confirms_def rbind_Inr_iff raise_if_Inr_iff Let_def)
  then have ok: "pv_status v = Some ''ok''" and r: "2 \<le> length (ranked_voices v active)" "fst (ranked_voices v active ! 0) = s"
    and margin: "margin \<le> snd (ranked_voices v active ! 0) - snd (ranked_voices v active ! 1) + EPSILON"
    by (auto simp: ranked_active_def split: if_splits)
  let ?x = "snd (ranked_voices v active ! 0)" and ?y = "snd (ranked_voices v active ! 1)"
  have "margin \<le> ?x - y + EPSILON" if "y \<le> ?y" for y
  proof -
    have "?x - ?y + EPSILON \<le> ?x - y + EPSILON" using that by (intro dbl_add_mono dbl_diff_mono) simp_all
    with margin show ?thesis by order
  qed
  then show ?thesis unfolding voice_leads_def
    by (intro exI[of _ ?x] voice_first_mono[OF ranking_first[OF assms(1) ok r(1), unfolded r(2)]])
qed

lemma selection_selects:
  assumes "distinct active" "fst (select_identity (Some v) active g) = Some s"
  shows "voice_selects g (set active) v s (top_score (select_identity (Some v) active g))"
proof -
  let ?r = "ranked_voices v active"
  let ?x = "snd (?r ! 0)" and ?y = "snd (?r ! 1)"
  from assms(2) have ok: "pv_status v = Some ''ok''" and r: "2 \<le> length ?r"
    by (auto simp: select_identity_def Let_def not_less split: if_splits)
  have sel: "fst (gated_identity g v ?r) = Some s" using assms(2) ok r
    by (auto simp: select_identity_def Let_def split: prod.splits)
  have "?r \<noteq> []" using r by auto
  then have top: "top_score (select_identity (Some v) active g) = ?x"
    using ok r by (simp add: select_identity_def top_score_def Let_def hd_conv_nth split: prod.split)
  have mono: "margin \<le> ?x - y" if "\<not> ?x - ?y < margin" "y \<le> ?y" for margin y
  proof -
    have "?x - ?y \<le> ?x - y" using that(2) by (intro dbl_diff_mono) simp_all
    with that(1) show ?thesis by order
  qed
  note head = ranking_first[OF assms(1) ok r]
  show ?thesis
  proof (cases "pv_duration v < gp_short_max g")
    case True
    with sel have f: "fst (?r ! 0) = s" "\<not> ?x < gp_short_score g" "\<not> ?x - ?y < gp_short_margin g"
      by (auto simp: gated_identity_def Let_def case_prod_unfold split: if_splits)
    have "voice_first (set active) v s ?x (\<lambda>y. gp_short_margin g \<le> ?x - y)"
      by (rule voice_first_mono[OF head[unfolded f(1)] mono[OF f(3)]])
    with f(2) show ?thesis unfolding voice_selects_def if_P[OF True] by (simp add: top not_less)
  next
    case False
    with sel have f: "fst (?r ! 0) = s" "\<not> ?x < gp_regular_score g" "\<not> ?x - ?y < gp_regular_margin g"
      by (auto simp: gated_identity_def Let_def case_prod_unfold split: if_splits)
    have "voice_first (set active) v s ?x (\<lambda>y. gp_regular_margin g \<le> ?x - y)"
      by (rule voice_first_mono[OF head[unfolded f(1)] mono[OF f(3)]])
    with f(2) show ?thesis unfolding voice_selects_def if_not_P[OF False] by (simp add: top not_less)
  qed
qed

text \<open>
  What an accepted expansion rests on: an accepted piece of the relative candidate that selects its
  identity, the one of the piece's slot; the phrase named by the piece, which contains it; and both
  voiceprint tables, whose rows for that phrase rank the identity first among those of the mapping.
\<close>

definition wanted_piece :: "expansion_policy \<Rightarrow> json \<Rightarrow> bool" where
  "wanted_piece p piece \<longleftrightarrow> vget piece ''accepted'' JNull = Inr (JBool True) \<and>
     rbind (vget piece ''reason'' JNull) (\<lambda>r. Inr (py_str r)) = Inr (xp_piece_reason p)"

lemma expandable_iff: "expandable p piece = Inr True \<longleftrightarrow> wanted_piece p piece"
  by (auto simp: expandable_def wanted_piece_def rbind_Inr_iff split: if_splits)

definition confirmed ::
  "json \<Rightarrow> json \<Rightarrow> voice_table \<Rightarrow> voice_table \<Rightarrow> json \<Rightarrow> expansion_policy \<Rightarrow> expansion_decision \<Rightarrow> bool" where
  "confirmed relative metadata session robust mapping p d \<longleftrightarrow>
    (\<exists>slots pieces piece phrases phrase n a b v w. read_slots mapping = Inr slots \<and>
      rbind (vget relative ''piece_decisions'' (JArr [])) py_iter = Inr pieces \<and> piece \<in> set pieces \<and>
      wanted_piece p piece \<and>
      named_text piece ''selected_speaker_id'' = Inr (so_speaker d) \<and>
      rbind (vitem piece ''local_speaker'') py_int = Inr n \<and> map_of slots n = Some (so_speaker d) \<and>
      named_text piece ''phrase_evidence_id'' = Inr (xd_phrase d) \<and>
      rbind (vget metadata ''phrases'' (JArr [])) py_iter = Inr phrases \<and> phrase \<in> set phrases \<and>
      named_text phrase ''evidence_id'' = Inr (xd_phrase d) \<and>
      rbind (vitem phrase ''text_id'') py_int = Inr (xd_text_id d) \<and>
      rbind (vitem piece ''text_id'') py_int = Inr (xd_text_id d) \<and>
      source_range phrase = Inr (so_start d, so_end d) \<and> source_range piece = Inr (a, b) \<and>
      so_start d \<le> a \<and> b \<le> so_end d \<and>
      map_of session (Some (xd_phrase d)) = Some v \<and> map_of robust (Some (xd_phrase d)) = Some w \<and>
      voice_leads (xp_margin p) (set (map snd slots)) v (so_speaker d) \<and>
      voice_leads (xp_margin p) (set (map snd slots)) w (so_speaker d))"

lemma verdict_reason:
  "expansion_verdict p s marks = Inr (True, why) \<Longrightarrow> why = ''relative_top1_complete_phrase_expansion''"
  by (auto simp: expansion_verdict_def rbind_Inr_iff split: if_splits)

text \<open>The same of a decision for one piece, over the context of the collection.\<close>

definition piece_confirmed :: "expansion_context \<Rightarrow> json \<Rightarrow> expansion_decision \<Rightarrow> bool" where
  "piece_confirmed x piece d \<longleftrightarrow> (\<exists>phrase n a b v w.
      named_text piece ''selected_speaker_id'' = Inr (so_speaker d) \<and>
      rbind (vitem piece ''local_speaker'') py_int = Inr n \<and> map_of (xx_mapping x) n = Some (so_speaker d) \<and>
      named_text piece ''phrase_evidence_id'' = Inr (xd_phrase d) \<and>
      map_of (xx_phrases x) (xd_phrase d) = Some phrase \<and>
      rbind (vitem phrase ''text_id'') py_int = Inr (xd_text_id d) \<and>
      rbind (vitem piece ''text_id'') py_int = Inr (xd_text_id d) \<and>
      source_range phrase = Inr (so_start d, so_end d) \<and> source_range piece = Inr (a, b) \<and>
      so_start d \<le> a \<and> b \<le> so_end d \<and>
      map_of (xx_session x) (Some (xd_phrase d)) = Some v \<and> map_of (xx_robust x) (Some (xd_phrase d)) = Some w \<and>
      voice_leads (xp_margin (xx_policy x)) (set (xx_active x)) v (so_speaker d) \<and>
      voice_leads (xp_margin (xx_policy x)) (set (xx_active x)) w (so_speaker d) \<and>
      so_reason d = ''relative_top1_complete_phrase_expansion'')"

lemma enclosing_phrase_facts:
  assumes "enclosing_phrase x piece phrase_id = Inr (phrase, text_id, (s, e), who)"
  obtains n a b where "map_of (xx_phrases x) phrase_id = Some phrase"
    "rbind (vitem piece ''text_id'') py_int = Inr text_id" "rbind (vitem phrase ''text_id'') py_int = Inr text_id"
    "source_range phrase = Inr (s, e)" "source_range piece = Inr (a, b)" "s \<le> a" "b \<le> e"
    "named_text piece ''selected_speaker_id'' = Inr who"
    "rbind (vitem piece ''local_speaker'') py_int = Inr n" "map_of (xx_mapping x) n = Some who"
proof -
  from assms obtain r n a b v where f: "map_of (xx_phrases x) phrase_id = Some phrase"
    "rbind (vitem piece ''text_id'') py_int = Inr text_id" "rbind (vitem phrase ''text_id'') py_int = Inr text_id"
    "source_range piece = Inr (a, b)" "source_range phrase = Inr (s, e)" "\<not> (a < s \<or> e < b)"
    "vitem piece ''selected_speaker_id'' = Inr v" "rbind (vitem piece ''local_speaker'') py_int = Inr n"
    "map_of (xx_mapping x) n = Some (py_str v)" "who = py_str v"
    unfolding enclosing_phrase_def ditem_def rbind_Inr_iff raise_if_Inr_iff
    by (auto simp: rbind_Inr_iff raise_if_Inr_iff split: option.splits)
  show ?thesis by (rule that[OF f(1-3,5,4) _ _ _ f(8)]) (use f in \<open>simp_all add: named_text_def\<close>)
qed

lemma expand_piece_confirmed:
  assumes "expand_piece x piece = Inr d" "xd_accepted d" "distinct (xx_active x)"
  shows "piece_confirmed x piece d"
proof -
  from assms obtain pid phrase text_id s e who session robust marks why where
    ph: "named_text piece ''phrase_evidence_id'' = Inr pid"
      "enclosing_phrase x piece pid = Inr (phrase, text_id, (s, e), who)" "phrase_voices x pid = Inr (session, robust)"
    and v: "phrase_view_confirms session phrase who (xx_active x) (xp_margin (xx_policy x)) = Inr (True, xd_session d)"
      "phrase_view_confirms robust phrase who (xx_active x) (xp_margin (xx_policy x)) = Inr (True, xd_robust d)"
    and r: "expansion_verdict (xx_policy x) who marks = Inr (True, why)"
    and d: "so_speaker d = who" "so_reason d = why" "xd_phrase d = pid" "xd_text_id d = text_id" "so_start d = s" "so_end d = e"
    by (auto simp: expand_piece_def named_text_def rbind_Inr_iff split: if_splits)
  have voices: "map_of (xx_session x) (Some pid) = Some session" "map_of (xx_robust x) (Some pid) = Some robust"
    using ph(3) by (auto simp: phrase_voices_def split: option.splits)
  from ph(2) show ?thesis
    by (rule enclosing_phrase_facts)
      (use ph(1) voices verdict_reason[OF r] view_confirms[OF assms(3) v(1)] view_confirms[OF assms(3) v(2)] d
        in \<open>auto simp: piece_confirmed_def\<close>)
qed

section \<open>Collected overlays\<close>

definition expansions_at :: "expansion_decision list \<Rightarrow> int \<Rightarrow> expansion_decision list" where
  "expansions_at decisions t = filter (\<lambda>d. xd_accepted d \<and> xd_text_id d = t) decisions"

definition collected ::
  "expansion_context \<Rightarrow> json list \<Rightarrow> expansion_overlays \<times> expansion_decision list \<Rightarrow> bool" where
  "collected x pieces = (\<lambda>(overlays, decisions).
     (\<forall>t. (case map_of overlays t of None \<Rightarrow> [] | Some ds \<Rightarrow> ds) = expansions_at decisions t) \<and>
     list_all (\<lambda>d. xd_accepted d \<longrightarrow> list_ex (\<lambda>piece. wanted_piece (xx_policy x) piece \<and>
       piece_confirmed x piece d) pieces) decisions)"

lemma consider_collected:
  assumes "collected x pieces s" "piece \<in> set pieces" "consider_piece x s piece = Inr s'" "distinct (xx_active x)"
  shows "collected x pieces s'"
proof -
  obtain overlays decisions where s: "s = (overlays, decisions)" by (cases s)
  from assms(3) s consider "s' = s" | d where "wanted_piece (xx_policy x) piece"
      "expand_piece x piece = Inr d" "s' = (add_expansion overlays d, decisions @ [d])"
    by (auto simp: consider_piece_def expandable_iff[symmetric] rbind_Inr_iff split: if_splits)
  then show ?thesis
  proof cases
    case 2
    then show ?thesis using assms(1,2) expand_piece_confirmed[OF 2(2) _ assms(4)]
      by (auto simp: collected_def s expansions_at_def add_expansion_def list_ex_iff)
  qed (use assms(1) in simp)
qed

lemma phrases_by_id_member:
  assumes "phrases_by_id metadata = Inr d" "map_of d k = Some phrase"
  obtains phrases where "rbind (vget metadata ''phrases'' (JArr [])) py_iter = Inr phrases" "phrase \<in> set phrases"
    "named_text phrase ''evidence_id'' = Inr k"
proof -
  from assms(1) obtain phrases where ps: "rbind (vget metadata ''phrases'' (JArr [])) py_iter = Inr phrases"
    and f: "rfold (\<lambda>d x. rbind (vitem x ''evidence_id'') (\<lambda>i. Inr (dset (py_str i) x d))) [] phrases = Inr d"
    unfolding phrases_by_id_def by (subst (asm) rbind_Inr_iff) blast
  let ?P = "\<lambda>d. \<forall>k phrase. map_of d k = Some phrase \<longrightarrow> phrase \<in> set phrases \<and> named_text phrase ''evidence_id'' = Inr k"
  have "?P d" by (rule rfold_invariant[OF _ _ f]) (auto simp: named_text_def rbind_Inr_iff split: if_splits)
  with assms(2) ps that show ?thesis by blast
qed

lemma expansions_collected:
  assumes "collect_expansions relative metadata session robust labels active mapping p = Inr (overlays, decisions)"
    and "distinct active" "set active = set (map snd mapping)" "read_slots document = Inr mapping"
  shows "(case map_of overlays t of None \<Rightarrow> [] | Some ds \<Rightarrow> ds) = expansions_at decisions t"
    "list_all (\<lambda>d. xd_accepted d \<longrightarrow> confirmed relative metadata session robust document p d \<and>
      so_reason d = ''relative_top1_complete_phrase_expansion'') decisions"
    "validate_overlays overlays = Inr ()"
proof -
  from assms(1) obtain phrases pieces where ph: "phrases_by_id metadata = Inr phrases"
    and ps: "rbind (vget relative ''piece_decisions'' (JArr [])) py_iter = Inr pieces"
    and f: "rfold (consider_piece \<lparr>xx_policy = p, xx_phrases = phrases, xx_session = session, xx_robust = robust,
       xx_labels = labels, xx_active = active, xx_mapping = mapping\<rparr>) ([], []) pieces = Inr (overlays, decisions)"
      (is "rfold (consider_piece ?x) _ _ = _")
    and v: "validate_overlays overlays = Inr ()"
    unfolding collect_expansions_def by (auto simp: rbind_Inr_iff[of "phrases_by_id _"] rbind_Inr_iff[of "rfold _ _ _"]
      rbind_Inr_iff[of "rbind _ _"] rbind_Inr_iff[of "vget _ _ _"] rbind_Inr_iff[of "validate_overlays _"] raise_if_Inr_iff)
  have c: "collected ?x pieces (overlays, decisions)"
  proof (rule rfold_invariant[OF _ _ f])
    show "collected ?x pieces ([], [])" by (simp add: collected_def expansions_at_def)
  qed (rule consider_collected, assumption+, simp add: assms(2))
  then show "(case map_of overlays t of None \<Rightarrow> [] | Some ds \<Rightarrow> ds) = expansions_at decisions t"
    by (simp add: collected_def)
  have "confirmed relative metadata session robust document p d \<and> so_reason d = ''relative_top1_complete_phrase_expansion''"
    if "d \<in> set decisions" "xd_accepted d" for d
  proof -
    from c that obtain piece where piece: "piece \<in> set pieces" "wanted_piece p piece"
      "piece_confirmed ?x piece d" by (auto simp: collected_def list_all_iff list_ex_iff)
    then obtain phrase n a b vo w where k: "map_of phrases (xd_phrase d) = Some phrase" and
      facts: "named_text piece ''selected_speaker_id'' = Inr (so_speaker d)"
      "rbind (vitem piece ''local_speaker'') py_int = Inr n" "map_of mapping n = Some (so_speaker d)"
      "named_text piece ''phrase_evidence_id'' = Inr (xd_phrase d)"
      "rbind (vitem phrase ''text_id'') py_int = Inr (xd_text_id d)"
      "rbind (vitem piece ''text_id'') py_int = Inr (xd_text_id d)"
      "source_range phrase = Inr (so_start d, so_end d)" "source_range piece = Inr (a, b)"
      "so_start d \<le> a" "b \<le> so_end d"
      "map_of session (Some (xd_phrase d)) = Some vo" "map_of robust (Some (xd_phrase d)) = Some w"
      "voice_leads (xp_margin p) (set active) vo (so_speaker d)" "voice_leads (xp_margin p) (set active) w (so_speaker d)"
      and reason: "so_reason d = ''relative_top1_complete_phrase_expansion''"
      unfolding piece_confirmed_def expansion_context.simps by blast
    from phrases_by_id_member[OF ph k] obtain items where
      "rbind (vget metadata ''phrases'' (JArr [])) py_iter = Inr items" "phrase \<in> set items"
      "named_text phrase ''evidence_id'' = Inr (xd_phrase d)" by blast
    with facts piece(1,2) ps assms(4) reason show ?thesis unfolding confirmed_def assms(3) by blast
  qed
  then show "list_all (\<lambda>d. xd_accepted d \<longrightarrow> confirmed relative metadata session robust document p d \<and>
      so_reason d = ''relative_top1_complete_phrase_expansion'') decisions" by (simp add: list_all_iff)
  show "validate_overlays overlays = Inr ()" by (rule v)
qed

section \<open>The finished track\<close>

text \<open>The identities of a mapping turned around are those of its slots, each once.\<close>

lemma invert_mapping_facts:
  "distinct (map fst (invert_mapping m))" "fst ` set (invert_mapping m) = snd ` set m"
proof -
  have keys: "fst ` set (dset k v d) = insert k (fst ` set d)" for k v and d :: local_ids
    by (induction d) auto
  show "distinct (map fst (invert_mapping m))"
    unfolding invert_mapping_def by (induction m rule: rev_induct) (auto intro: distinct_dset)
  show "fst ` set (invert_mapping m) = snd ` set m"
    unfolding invert_mapping_def by (induction m rule: rev_induct) (simp_all add: case_prod_unfold keys)
qed

text \<open>Overlays that are apart: at most one of them holds a position.\<close>

lemma apart_single:
  assumes "sorted_wrt apart ds" shows "length (filter (holds_at i) ds) \<le> 1"
  using assms
proof (induction ds)
  case (Cons d ds)
  have "filter (holds_at i) ds = []" if "holds_at i d"
    using Cons.prems that by (fastforce simp: filter_empty_conv holds_at_def apart_def)
  with Cons show ?case by auto
qed simp

lemma find_single:
  assumes "length (filter P xs) \<le> 1"
  shows "find P xs = (case filter P xs of [] \<Rightarrow> None | d # _ \<Rightarrow> Some d)" "filter P xs = [] \<or> (\<exists>d. filter P xs = [d])"
  using assms by (induction xs) (auto split: list.splits if_splits simp: le_Suc_eq)

definition expansion_holds :: "int \<Rightarrow> nat \<Rightarrow> expansion_decision \<Rightarrow> bool" where
  "expansion_holds text_id i d \<longleftrightarrow> xd_accepted d \<and> xd_text_id d = text_id \<and> holds_at i d"

text \<open>
  C33: in the expanded candidate at most one accepted expansion has a phrase that holds a given
  character. If there is none the character has the label of its base turn. Otherwise it has the
  identity of that expansion, which an accepted piece inside the phrase selects and the slot
  mapping gives to the piece's slot; and in the session table and in the robust table the row of
  that phrase ranks this identity first among the mapped ones, ahead of every other by the margin.
\<close>

theorem expansion_labels_exact:
  assumes build: "build_expansion_candidate baseline relative metadata session robust mapping p = Inr r"
    and frs: "candidate_fragments baseline = Inr frs" "map_of frs text_id = Some fs" "f \<in> set fs"
    and plain: "list_all (\<lambda>f. plain_fragment (as_fragment f)) fs"
    and i: "bf_start f \<le> i" "i < bf_end f"
  shows "let labels = expand_turns (filter (\<lambda>t. pt_text_id t = text_id) (xr_track r)) in i < length labels \<and>
    (case filter (expansion_holds text_id i) (xr_decisions r) of
       [] \<Rightarrow> rbind (entry_label (bf_entry f)) (\<lambda>l. Inr (label_key l)) = Inr (labels ! i)
     | [d] \<Rightarrow> confirmed relative metadata session robust mapping p d \<and>
         labels ! i = (JStr (so_speaker d), False, ''relative_top1_complete_phrase_expansion'')
     | _ \<Rightarrow> False)"
proof -
  let ?turns = "filter (\<lambda>t. pt_text_id t = text_id) (xr_track r)"
  from build frs(1) obtain slots labels overlays pieces where
    slots: "read_slots mapping = Inr slots" and act: "xr_active r = sort (map fst (invert_mapping slots))"
    and val: "validate_candidate_sources frs metadata = Inr ()"
    and col: "collect_expansions relative metadata session robust labels (xr_active r) slots p = Inr (overlays, xr_decisions r)"
    and pcs: "rmap (composed_text metadata overlays (invert_mapping slots)) (sort_key fst frs) = Inr pieces"
      "xr_track r = concat pieces"
    by (auto simp: build_expansion_candidate_def rbind_Inr_iff raise_if_Inr_iff Let_def)
  let ?ids = "invert_mapping slots"
  have active: "distinct (xr_active r)" "set (xr_active r) = set (map snd slots)"
    by (simp_all add: act invert_mapping_facts)
  note c = expansions_collected[OF col active slots]
  have ovs: "(case map_of overlays text_id of None \<Rightarrow> [] | Some ovs \<Rightarrow> ovs) = expansions_at (xr_decisions r) text_id"
    by (rule c(1))
  obtain source us where fs: "laid_out fs"
    and rep: "reproject_preserving_base text_id source us fs (expansions_at (xr_decisions r) text_id) ?ids = Inr ?turns"
    using composed_of_text[OF frs(1,2) val pcs(1)] unfolding ovs pcs(2) by metis
  have proper: "list_all proper_range (expansions_at (xr_decisions r) text_id)" "sorted_wrt apart (expansions_at (xr_decisions r) text_id)"
    using c(3) ovs by (auto simp: validate_overlays_iff list_all_iff split: option.splits dest!: map_of_SomeD)
  obtain l where l: "entry_label (bf_entry f) = Inr l" "i < length (expand_turns ?turns)"
    "expand_turns ?turns ! i = label_key (label_at ?ids (expansions_at (xr_decisions r) text_id) i l)"
    by (rule composed_label[OF rep fs _ proper frs(3) i]) (use plain in \<open>simp add: list_all_iff\<close>)
  have flt: "filter (holds_at i) (expansions_at (xr_decisions r) text_id) = filter (expansion_holds text_id i) (xr_decisions r)"
    by (simp add: expansions_at_def expansion_holds_def[abs_def] conj_ac)
  note one = find_single[OF apart_single[OF proper(2), of i], unfolded flt]
  show ?thesis
  proof (cases "filter (expansion_holds text_id i) (xr_decisions r)")
    case Nil
    then show ?thesis using l one(1) by (simp add: Let_def label_at_def)
  next
    case (Cons d ds)
    with one(2) have d: "filter (expansion_holds text_id i) (xr_decisions r) = [d]" by simp
    then have "d \<in> set (filter (expansion_holds text_id i) (xr_decisions r))" by simp
    then have "d \<in> set (xr_decisions r)" "xd_accepted d" by (simp_all add: expansion_holds_def)
    then have "confirmed relative metadata session robust mapping p d"
      "so_reason d = ''relative_top1_complete_phrase_expansion''" using c(2) by (simp_all add: list_all_iff)
    with l one(1) d show ?thesis by (simp add: Let_def label_at_def laid_label_def label_key_def)
  qed
qed

section \<open>Challenges\<close>

text \<open>
  The labels of the candidates that lay challenges over a baseline: only accepted challenges change
  it, and an accepted challenge of an utterance rests on four voiceprints that select one identity.
\<close>

section \<open>Collected overlays\<close>

lemma append_at_of: "(case map_of (append_at k x d) t of None \<Rightarrow> [] | Some ys \<Rightarrow> ys)
    = (case map_of d t of None \<Rightarrow> [] | Some ys \<Rightarrow> ys) @ (if t = k then [x] else [])"
  by (simp add: append_at_def)

lemma grouped_of: "(case map_of (foldl (\<lambda>d x. append_at (key x) x d) [] xs) t of None \<Rightarrow> [] | Some ys \<Rightarrow> ys)
    = filter (\<lambda>x. key x = t) xs"
  by (induction xs rule: rev_induct) (auto simp: append_at_of)

text \<open>The label of a character under overlays that are checked and laid over their text.\<close>

lemma overlaid_label:
  assumes frs: "candidate_fragments baseline = Inr frs" "map_of frs text_id = Some fs" "f \<in> set fs"
    and val: "validate_candidate_sources frs metadata = Inr ()"
    and ovs: "validate_overlays overlays = Inr ()"
    and pcs: "rmap (composed_text metadata overlays ids) (sort_key fst frs) = Inr pieces"
    and plain: "list_all (\<lambda>f. plain_fragment (as_fragment f)) fs"
    and i: "bf_start f \<le> i" "i < bf_end f"
  obtains l where "entry_label (bf_entry f) = Inr l" "i < length (expand_turns (filter (\<lambda>t. pt_text_id t = text_id) (concat pieces)))"
    "expand_turns (filter (\<lambda>t. pt_text_id t = text_id) (concat pieces)) ! i
       = label_key (label_at ids (case map_of overlays text_id of None \<Rightarrow> [] | Some ovs \<Rightarrow> ovs) i l)"
proof -
  let ?ovs = "case map_of overlays text_id of None \<Rightarrow> [] | Some ovs \<Rightarrow> ovs"
  obtain source us where fs: "laid_out fs"
    and rep: "reproject_preserving_base text_id source us fs ?ovs ids = Inr (filter (\<lambda>t. pt_text_id t = text_id) (concat pieces))"
    using composed_of_text[OF frs(1,2) val pcs] by metis
  have proper: "list_all proper_range ?ovs" "sorted_wrt apart ?ovs"
    using ovs by (cases "map_of overlays text_id"; force simp: validate_overlays_iff list_all_iff dest: map_of_SomeD)+
  show ?thesis
    by (rule composed_label[OF rep fs _ proper frs(3) i that]) (use plain in \<open>simp_all add: list_all_iff\<close>)
qed

section \<open>Challenges of utterances\<close>

text \<open>
  What an accepted challenge rests on: an utterance and the one phrase of its text that contains its
  characters and, up to the tolerance, lasts no longer than it; the four table rows for the two, all of which select the identity among those of the mapping, the
  two of the utterance with at least the regular score; and the utterance's slot, which the mapping
  does not give that identity.
\<close>

definition table_selects ::
  "gate_policy \<Rightarrow> string set \<Rightarrow> voice_table \<Rightarrow> string \<Rightarrow> dbl option \<Rightarrow> string \<Rightarrow> bool" where
  "table_selects g active table key minimum s \<longleftrightarrow> (\<exists>v x. map_of table (Some key) = Some v \<and>
     voice_selects g active v s x \<and> (case minimum of None \<Rightarrow> True | Some y \<Rightarrow> y \<le> x + EPSILON))"

definition four_tables_select :: "gate_policy \<Rightarrow> string set \<Rightarrow> four_tables \<Rightarrow> string \<Rightarrow> string \<Rightarrow> string \<Rightarrow> bool" where
  "four_tables_select g active tables vad_id phrase_id s \<longleftrightarrow>
     table_selects g active (ft_vad_session tables) vad_id (Some (gp_regular_score g)) s \<and>
     table_selects g active (ft_vad_robust tables) vad_id (Some (gp_regular_score g)) s \<and>
     table_selects g active (ft_phrase_session tables) phrase_id None s \<and>
     table_selects g active (ft_phrase_robust tables) phrase_id None s"

definition around_utterance :: "dbl \<Rightarrow> json \<Rightarrow> json \<Rightarrow> bool" where
  "around_utterance tolerance piece phrase \<longleftrightarrow>
     (\<exists>s e a b. source_range phrase = Inr (s, e) \<and> source_range piece = Inr (a, b) \<and> s \<le> a \<and> b \<le> e) \<and>
     (\<exists>s e a b. time_range phrase = Inr (s, e) \<and> time_range piece = Inr (a, b) \<and>
        a - tolerance \<le> s \<and> e \<le> b + tolerance)"

definition of_text :: "json list \<Rightarrow> int \<Rightarrow> json set" where
  "of_text phrases t = {phrase \<in> set phrases. rbind (vitem phrase ''text_id'') py_int = Inr t}"

definition unanimous ::
  "json \<Rightarrow> json \<Rightarrow> four_tables \<Rightarrow> json \<Rightarrow> challenge_policy \<Rightarrow> vad_challenge \<Rightarrow> bool" where
  "unanimous vad_metadata phrase_meta tables mapping p d \<longleftrightarrow>
    (\<exists>slots tolerance pieces piece phrases phrase n. read_slots mapping = Inr slots \<and>
      frame_tolerance vad_metadata = Inr tolerance \<and>
      rbind (vget vad_metadata ''pieces'' (JArr [])) py_iter = Inr pieces \<and> piece \<in> set pieces \<and>
      rbind (vitem piece ''text_id'') py_int = Inr (vc_text_id d) \<and> named_text piece ''evidence_id'' = Inr (vc_vad d) \<and>
      rbind (vget phrase_meta ''phrases'' (JArr [])) py_iter = Inr phrases \<and>
      {x \<in> of_text phrases (vc_text_id d). around_utterance tolerance piece x} = {phrase} \<and>
      named_text phrase ''evidence_id'' = Inr (vc_phrase d) \<and> source_range phrase = Inr (so_start d, so_end d) \<and>
      four_tables_select (vp_gates p) (set (map snd slots)) tables (vc_vad d) (vc_phrase d) (so_speaker d) \<and>
      rbind (vitem piece ''local_speaker'') py_int = Inr n \<and> map_of slots n \<noteq> Some (so_speaker d))"

lemma same_views:
  assumes "length (remdups (map fst vs)) = 1" "v \<in> set vs" "fst v = s" shows "\<forall>w \<in> set vs. fst w = s"
proof -
  from assms(1) obtain x where "remdups (map fst vs) = [x]" by (metis One_nat_def length_0_conv length_Suc_conv)
  then have "fst ` set vs = {x}" by (metis list.simps(15) list.set(1) set_map set_remdups)
  then have "\<forall>w \<in> set vs. fst w = x" by blast
  with assms(2,3) show ?thesis by metis
qed

lemma challenge_verdict_True:
  assumes "challenge_verdict p labels v mapped text_id r = Inr (True, reason)"
  obtains s where "fst (fv_vad_session v) = Some s" "list_all (\<lambda>w. fst w = Some s) (view_list v)" "\<not> below_floor (vp_gates p) v"
    "mapped \<noteq> Some s" "reason = challenge_reason"
proof -
  from assms obtain s where s: "fst (fv_vad_session v) = Some s" "length (remdups (map fst (view_list v))) = 1"
    "\<not> below_floor (vp_gates p) v" "mapped \<noteq> Some s" "reason = challenge_reason"
    by (cases r) (auto simp: challenge_verdict_def baseline_challenge_def rbind_Inr_iff split: option.splits if_splits)
  have "fv_vad_session v \<in> set (view_list v)" by (simp add: view_list_def)
  from same_views[OF s(2) this s(1)] that[OF s(1) _ s(3-5)] show ?thesis by (simp add: list_all_iff)
qed

lemma views_select:
  assumes "distinct active" "views_of tables active g vad_id phrase_id = Inr views"
    and "list_all (\<lambda>w. fst w = Some s) (view_list views)" "\<not> below_floor g views"
  shows "four_tables_select g (set active) tables vad_id phrase_id s"
proof -
  from assms(2) obtain a b c e where
    t: "map_of (ft_vad_session tables) (Some vad_id) = Some a" "map_of (ft_vad_robust tables) (Some vad_id) = Some b"
      "map_of (ft_phrase_session tables) (Some phrase_id) = Some c" "map_of (ft_phrase_robust tables) (Some phrase_id) = Some e"
    and v: "views = \<lparr>fv_vad_session = select_identity (Some a) active g, fv_vad_robust = select_identity (Some b) active g,
      fv_phrase_session = select_identity (Some c) active g, fv_phrase_robust = select_identity (Some e) active g\<rparr>"
    by (auto simp: views_of_def view_pair_def rbind_Inr_iff split: option.splits)
  have sel: "fst (select_identity (Some w) active g) = Some s" if "w \<in> {a, b, c, e}" for w
    using assms(3) that by (auto simp: v view_list_def)
  have loud: "gp_regular_score g \<le> top_score (select_identity (Some w) active g) + EPSILON" if "w \<in> {a, b}" for w
    using assms(4) that by (auto simp: v below_floor_def not_less)
  show ?thesis unfolding four_tables_select_def table_selects_def
    using t selection_selects[OF assms(1) sel] loud by auto
qed

lemma encloses_iff: "encloses tolerance piece phrase = Inr True \<longleftrightarrow> around_utterance tolerance piece phrase"
  by (auto simp: around_utterance_def encloses_def rconj_def int_le_def source_range_def time_range_def rbind_Inr_iff
    split: if_splits)

lemma phrases_by_text_group:
  assumes "phrases_by_text metadata = Inr d"
  obtains phrases where "rbind (vget metadata ''phrases'' (JArr [])) py_iter = Inr phrases"
    "\<And>t. set (case map_of d t of None \<Rightarrow> [] | Some ps \<Rightarrow> ps) = of_text phrases t"
proof -
  let ?f = "\<lambda>d phrase. rbind (rbind (vitem phrase ''text_id'') py_int) (\<lambda>t. Inr (append_at t phrase d))"
  have group: "set (case map_of d t of None \<Rightarrow> [] | Some ps \<Rightarrow> ps) =
      set (case map_of d0 t of None \<Rightarrow> [] | Some ps \<Rightarrow> ps) \<union> of_text phrases t"
    if "rfold ?f d0 phrases = Inr d" for d0 phrases t
    using that
  proof (induction phrases arbitrary: d0)
    case (Cons x xs)
    then obtain d1 where "?f d0 x = Inr d1" and run: "rfold ?f d1 xs = Inr d" by (auto simp: rbind_Inr_iff[of "?f _ _"])
    then obtain u where u: "rbind (vitem x ''text_id'') py_int = Inr u" "d1 = append_at u x d0"
      by (subst (asm) rbind_Inr_iff) auto
    have "of_text (x # xs) t = (if t = u then {x} else {}) \<union> of_text xs t" using u(1) by (auto simp: of_text_def)
    moreover have "set (case map_of d1 t of None \<Rightarrow> [] | Some ps \<Rightarrow> ps)
        = set (case map_of d0 t of None \<Rightarrow> [] | Some ps \<Rightarrow> ps) \<union> (if t = u then {x} else {})"
      unfolding u(2) append_at_of by simp
    ultimately show ?case using Cons.IH[OF run] by (simp add: Un_assoc)
  qed (simp add: of_text_def)
  from assms obtain phrases where "rbind (vget metadata ''phrases'' (JArr [])) py_iter = Inr phrases"
    and "rfold ?f [] phrases = Inr d"
    unfolding phrases_by_text_def by (subst (asm) rbind_Inr_iff) blast
  with group[of "[]" phrases] that show ?thesis by simp
qed

text \<open>The same of a decision for one utterance, over the context of the collection.\<close>

definition piece_unanimous :: "challenge_context \<Rightarrow> json \<Rightarrow> vad_challenge \<Rightarrow> bool" where
  "piece_unanimous x piece d \<longleftrightarrow> (\<exists>phrase n.
     {y \<in> set (case map_of (cc_phrases x) (vc_text_id d) of None \<Rightarrow> [] | Some ps \<Rightarrow> ps).
       around_utterance (cc_tolerance x) piece y} = {phrase} \<and>
     named_text piece ''evidence_id'' = Inr (vc_vad d) \<and> named_text phrase ''evidence_id'' = Inr (vc_phrase d) \<and>
     rbind (vitem piece ''text_id'') py_int = Inr (vc_text_id d) \<and> source_range phrase = Inr (so_start d, so_end d) \<and>
     four_tables_select (vp_gates (cc_policy x)) (set (cc_active x)) (cc_tables x) (vc_vad d) (vc_phrase d) (so_speaker d) \<and>
     rbind (vitem piece ''local_speaker'') py_int = Inr n \<and> map_of (cc_mapping x) n \<noteq> Some (so_speaker d) \<and>
     so_reason d = challenge_reason)"

lemma challenge_piece_unanimous:
  assumes "challenge_piece x piece = Inr (Some d)" "vc_accepted d" "distinct (cc_active x)"
  shows "piece_unanimous x piece d"
proof -
  from assms(1) obtain text_id met where t: "rbind (vitem piece ''text_id'') py_int = Inr text_id"
    and met: "enclosing_phrases piece (case map_of (cc_phrases x) text_id of None \<Rightarrow> [] | Some ps \<Rightarrow> ps) (cc_tolerance x) = Inr met"
    and c: "(case met of [phrase] \<Rightarrow> rbind (challenge_phrase x piece text_id phrase) (\<lambda>d. Inr (Some d))
      | _ \<Rightarrow> Inr None) = Inr (Some d)"
    unfolding challenge_piece_def rbind_Inr_iff[of "rbind (vitem piece ''text_id'') py_int"]
      rbind_Inr_iff[of "enclosing_phrases _ _ _"] by blast
  from c obtain phrase where one: "met = [phrase]" "challenge_phrase x piece text_id phrase = Inr d"
    by (cases met rule: remdups_adj.cases) (auto simp: rbind_Inr_iff)
  have ph: "{y \<in> set (case map_of (cc_phrases x) text_id of None \<Rightarrow> [] | Some ps \<Rightarrow> ps).
      around_utterance (cc_tolerance x) piece y} = {phrase}"
  proof -
    have "[phrase] = filter (\<lambda>y. encloses (cc_tolerance x) piece y = Inr True)
        (case map_of (cc_phrases x) text_id of None \<Rightarrow> [] | Some ps \<Rightarrow> ps)"
      using rfilter_Inr[OF met[unfolded enclosing_phrases_def]] one(1) by metis
    from arg_cong[OF this, of set] show ?thesis by (simp only: encloses_iff set_filter list.set)
  qed
  from one(2) obtain vad_id phrase_id views s e n reason where
    ids: "named_text piece ''evidence_id'' = Inr vad_id" "named_text phrase ''evidence_id'' = Inr phrase_id"
    and views: "views_of (cc_tables x) (cc_active x) (vp_gates (cc_policy x)) vad_id phrase_id = Inr views"
    and r: "source_range phrase = Inr (s, e)" "rbind (vitem piece ''local_speaker'') py_int = Inr n"
    and ver: "challenge_verdict (cc_policy x) (cc_labels x) views (map_of (cc_mapping x) n) text_id (s, e) = Inr (True, reason)"
    and d: "so_speaker d = (case fst (fv_vad_session views) of None \<Rightarrow> [] | Some s \<Rightarrow> s)" "so_reason d = reason"
      "vc_vad d = vad_id" "vc_phrase d = phrase_id" "vc_text_id d = text_id" "so_start d = s" "so_end d = e"
    using assms(2) by (auto simp: challenge_phrase_def rbind_Inr_iff Let_def)
  from ver obtain who where who: "fst (fv_vad_session views) = Some who" "list_all (\<lambda>w. fst w = Some who) (view_list views)"
    "\<not> below_floor (vp_gates (cc_policy x)) views" "map_of (cc_mapping x) n \<noteq> Some who" "reason = challenge_reason"
    by (rule challenge_verdict_True)
  have "so_speaker d = who" using d(1) who(1) by simp
  with ph ids r t d(2-) who views_select[OF assms(3) views who(2,3)] show ?thesis
    unfolding piece_unanimous_def by auto
qed

lemma read_slots_distinct:
  assumes "read_slots document = Inr slots" shows "distinct (map snd slots)"
proof -
  from assms obtain raw where raw: "(case raw of JObj (x # xs) \<Rightarrow> rbind (rfold add_mapping_slot [] (x # xs)) (\<lambda>m.
       raise_if (\<not> distinct (map snd m)) (ValueError ''mapping identities are not one-to-one'') (Inr m))
     | _ \<Rightarrow> Inl (ValueError ''mapping document has no local-slot mapping'')) = Inr slots"
    unfolding read_slots_def rbind_Inr_iff by blast
  show ?thesis
  proof (cases raw)
    case (JObj d)
    with raw show ?thesis by (cases d) (auto simp: rbind_Inr_iff raise_if_Inr_iff)
  qed (use raw in simp_all)
qed

lemma challenges_unanimous:
  assumes "rcollect (challenge_piece \<lparr>cc_policy = p, cc_tolerance = tolerance, cc_tables = tables, cc_active = sort (map snd slots),
         cc_mapping = slots, cc_labels = labels, cc_phrases = grouped\<rparr>) pieces = Inr decisions"
    and "d \<in> set decisions" "vc_accepted d"
    and slots: "read_slots mapping = Inr slots" and grouped: "phrases_by_text phrase_meta = Inr grouped"
    and pieces: "rbind (vget vad_metadata ''pieces'' (JArr [])) py_iter = Inr pieces"
    and tol: "frame_tolerance vad_metadata = Inr tolerance"
  shows "unanimous vad_metadata phrase_meta tables mapping p d \<and> so_reason d = challenge_reason"
proof -
  let ?x = "\<lparr>cc_policy = p, cc_tolerance = tolerance, cc_tables = tables, cc_active = sort (map snd slots),
         cc_mapping = slots, cc_labels = labels, cc_phrases = grouped\<rparr>"
  have "distinct (map snd slots)" using slots by (rule read_slots_distinct)
  then have dist: "distinct (cc_active ?x)" by simp
  from assms(2) obtain piece where piece: "piece \<in> set pieces" "challenge_piece ?x piece = Inr (Some d)"
    by (auto simp: rcollect_set[OF assms(1)])
  from challenge_piece_unanimous[OF piece(2) assms(3) dist] obtain phrase n where
    ph: "{y \<in> set (case map_of grouped (vc_text_id d) of None \<Rightarrow> [] | Some ps \<Rightarrow> ps). around_utterance tolerance piece y} = {phrase}"
    and ids: "named_text piece ''evidence_id'' = Inr (vc_vad d)" "named_text phrase ''evidence_id'' = Inr (vc_phrase d)"
      "rbind (vitem piece ''text_id'') py_int = Inr (vc_text_id d)" "source_range phrase = Inr (so_start d, so_end d)"
    and sel: "four_tables_select (vp_gates p) (set (map snd slots)) tables (vc_vad d) (vc_phrase d) (so_speaker d)"
    and slot: "rbind (vitem piece ''local_speaker'') py_int = Inr n" "map_of slots n \<noteq> Some (so_speaker d)"
    and reason: "so_reason d = challenge_reason"
    unfolding piece_unanimous_def challenge_context.simps set_sort by blast
  from phrases_by_text_group[OF grouped] obtain phrases where
    phrases: "rbind (vget phrase_meta ''phrases'' (JArr [])) py_iter = Inr phrases"
    and group: "\<And>t. set (case map_of grouped t of None \<Rightarrow> [] | Some ps \<Rightarrow> ps) = of_text phrases t" by blast
  from slots tol pieces piece(1) phrases ph[unfolded group] ids sel slot reason show ?thesis
    unfolding unanimous_def by blast
qed

definition challenge_holds :: "int \<Rightarrow> nat \<Rightarrow> vad_challenge \<Rightarrow> bool" where
  "challenge_holds text_id i d \<longleftrightarrow> vc_accepted d \<and> vc_text_id d = text_id \<and> holds_at i d"

lemma challenge_overlays_of:
  "(case map_of (challenge_overlays ds) t of None \<Rightarrow> [] | Some ovs \<Rightarrow> ovs) = filter (\<lambda>d. vc_accepted d \<and> vc_text_id d = t) ds"
  by (simp add: challenge_overlays_def grouped_of conj_commute)

text \<open>
  C40: in the challenged candidate at most one accepted challenge has a phrase that holds a given
  character. If there is none the character has the label of its base turn. Otherwise it has the
  identity of that challenge, which the rows of the utterance in its two tables and the rows of the
  one phrase around it in its two tables all select among the mapped identities, those of the utterance
  with at least the regular score; and the slot mapping does not give that identity to the
  utterance's slot.
\<close>

theorem challenge_labels_exact:
  assumes build: "build_challenge_candidate baseline vad_metadata phrase_meta tables mapping p = Inr r"
    and frs: "candidate_fragments baseline = Inr frs" "map_of frs text_id = Some fs" "f \<in> set fs"
    and plain: "list_all (\<lambda>f. plain_fragment (as_fragment f)) fs"
    and i: "bf_start f \<le> i" "i < bf_end f"
  shows "let labels = expand_turns (filter (\<lambda>t. pt_text_id t = text_id) (vr_track r)) in i < length labels \<and>
    (case filter (challenge_holds text_id i) (vr_decisions r) of
       [] \<Rightarrow> rbind (entry_label (bf_entry f)) (\<lambda>l. Inr (label_key l)) = Inr (labels ! i)
     | [d] \<Rightarrow> unanimous vad_metadata phrase_meta tables mapping p d \<and>
         labels ! i = (JStr (so_speaker d), False, challenge_reason)
     | _ \<Rightarrow> False)"
proof -
  let ?turns = "filter (\<lambda>t. pt_text_id t = text_id) (vr_track r)"
  let ?ovs = "filter (\<lambda>d. vc_accepted d \<and> vc_text_id d = text_id) (vr_decisions r)"
  from build frs(1) obtain slots tolerance labels grouped pieces turns where
    slots: "read_slots mapping = Inr slots" and val: "validate_candidate_sources frs phrase_meta = Inr ()"
    and grouped: "phrases_by_text phrase_meta = Inr grouped" and tol: "frame_tolerance vad_metadata = Inr tolerance"
    and pieces: "rbind (vget vad_metadata ''pieces'' (JArr [])) py_iter = Inr pieces"
    and dec: "rcollect (challenge_piece \<lparr>cc_policy = p, cc_tolerance = tolerance, cc_tables = tables,
         cc_active = sort (map snd slots), cc_mapping = slots, cc_labels = labels, cc_phrases = grouped\<rparr>) pieces
         = Inr (vr_decisions r)"
    and ovs: "validate_overlays (challenge_overlays (vr_decisions r)) = Inr ()"
    and pcs: "rmap (composed_text phrase_meta (challenge_overlays (vr_decisions r)) (invert_mapping slots)) (sort_key fst frs)
         = Inr turns" "vr_track r = concat turns"
    by (auto simp: build_challenge_candidate_def rbind_Inr_iff raise_if_Inr_iff Let_def)
  obtain l where l: "entry_label (bf_entry f) = Inr l" "i < length (expand_turns ?turns)"
    "expand_turns ?turns ! i = label_key (label_at (invert_mapping slots) ?ovs i l)"
    using overlaid_label[OF frs val ovs pcs(1) plain i] unfolding challenge_overlays_of pcs(2) by metis
  have apart: "sorted_wrt apart ?ovs"
    using ovs challenge_overlays_of[of "vr_decisions r" text_id]
    by (auto simp: validate_overlays_iff list_all_iff split: option.splits dest!: map_of_SomeD)
  have flt: "filter (holds_at i) ?ovs = filter (challenge_holds text_id i) (vr_decisions r)"
    by (simp add: challenge_holds_def[abs_def] conj_ac)
  note one = find_single[OF apart_single[OF apart, of i], unfolded flt]
  show ?thesis
  proof (cases "filter (challenge_holds text_id i) (vr_decisions r)")
    case Nil
    then show ?thesis using l one(1) by (simp add: Let_def label_at_def)
  next
    case (Cons d ds)
    with one(2) have d: "filter (challenge_holds text_id i) (vr_decisions r) = [d]" by simp
    then have "d \<in> set (filter (challenge_holds text_id i) (vr_decisions r))" by simp
    then have "d \<in> set (vr_decisions r)" "vc_accepted d" by (simp_all add: challenge_holds_def)
    from challenges_unanimous[OF dec this slots grouped pieces tol]
    have "unanimous vad_metadata phrase_meta tables mapping p d" "so_reason d = challenge_reason" by blast+
    with l one(1) d show ?thesis by (simp add: Let_def label_at_def laid_label_def label_key_def)
  qed
qed

section \<open>Challenges across prototypes\<close>

definition cross_holds :: "int \<Rightarrow> nat \<Rightarrow> cross_overlay \<Rightarrow> bool" where
  "cross_holds text_id i d \<longleftrightarrow> kx_text_id d = text_id \<and> holds_at i d"

text \<open>A character under a collected challenge has its identity, every other its base label.\<close>

lemma cross_labels_exact:
  assumes build: "build_cross_candidate baseline challenger metadata mapping p = Inr r"
    and frs: "candidate_fragments baseline = Inr frs" "map_of frs text_id = Some fs" "f \<in> set fs"
    and plain: "list_all (\<lambda>f. plain_fragment (as_fragment f)) fs"
    and i: "bf_start f \<le> i" "i < bf_end f"
  shows "let labels = expand_turns (filter (\<lambda>t. pt_text_id t = text_id) (kr_track r)) in i < length labels \<and>
    (case find (cross_holds text_id i) (kr_overlays r) of
       None \<Rightarrow> rbind (entry_label (bf_entry f)) (\<lambda>l. Inr (label_key l)) = Inr (labels ! i)
     | Some d \<Rightarrow> labels ! i = (JStr (so_speaker d), False, so_reason d))"
proof -
  let ?turns = "filter (\<lambda>t. pt_text_id t = text_id) (kr_track r)"
  let ?overlays = "foldl (\<lambda>d x. append_at (kx_text_id x) x d) [] (kr_overlays r)"
  from build frs(1) obtain ids phrases labels turns where
    val: "validate_candidate_sources frs metadata = Inr ()"
    and ovs: "validate_overlays ?overlays = Inr ()"
    and pcs: "rmap (composed_text metadata ?overlays ids) (sort_key fst frs) = Inr turns" "kr_track r = concat turns"
    by (fastforce simp: build_cross_candidate_def clause_baseline_def collect_challenges_def rbind_Inr_iff raise_if_Inr_iff Let_def)
  obtain l where l: "entry_label (bf_entry f) = Inr l" "i < length (expand_turns ?turns)"
    "expand_turns ?turns ! i = label_key (label_at ids (filter (\<lambda>d. kx_text_id d = text_id) (kr_overlays r)) i l)"
    using overlaid_label[OF frs val ovs pcs(1) plain i] unfolding grouped_of pcs(2) by metis
  have "find (holds_at i) (filter (\<lambda>d. kx_text_id d = text_id) (kr_overlays r)) = find (cross_holds text_id i) (kr_overlays r)"
    by (simp add: find_filter cross_holds_def[abs_def])
  with l show ?thesis
    by (cases "find (cross_holds text_id i) (kr_overlays r)") (simp_all add: Let_def label_at_def laid_label_def label_key_def)
qed

end
