(* ===== verification/Raw_Authoritative.thy ===== *)
theory Raw_Authoritative
  imports Relative_Top1
begin

text \<open>
  \<^verbatim>\<open>tools/archive/spec013-speaker-candidates/speaker_raw_authoritative_candidate.py\<close>: the ranges
  that the production replay decided for one of a few named reasons keep the production identity
  over an enhanced candidate.  Its \<^verbatim>\<open>source_fragments\<close> is that of the relative top-1 candidate,
  line by line; the reprojection is the phrase candidate's.  Parsed files, digests and absolute
  paths are parameters.
\<close>

section \<open>Policy\<close>

text \<open>The allowed reasons are the whole policy: a known identity is always required.\<close>

definition load_raw_policy :: "obj \<Rightarrow> string list res" where
  "load_raw_policy document =
    (let section = dget document ''raw_authoritative'' (JObj []) in
     rbind (absent_fields [''require_known_identity'', ''allowed_reasons''] section) (\<lambda>missing.
     raise_if (missing \<noteq> []) (ValueError (''raw-authoritative policy missing: '' @ join_with '','' (sort missing)))
     (rbind (flag_item section ''require_known_identity'') (\<lambda>known.
      rbind (rbind (vitem section ''allowed_reasons'') py_iter) (\<lambda>values.
      let reasons = map py_str values in
      raise_if (\<not> known) (ValueError ''known identity is mandatory for raw authority'')
      (raise_if (reasons = [] \<or> \<not> distinct reasons)
        (ValueError ''allowed raw-authority reasons must be unique and nonempty'') (Inr reasons)))))))"

definition raw_policy_doc :: "string list \<Rightarrow> json" where
  "raw_policy_doc reasons = JObj [(''require_known_identity'', JBool True), (''allowed_reasons'', JArr (map JStr reasons))]"

section \<open>Sources\<close>

text \<open>Unlike the relative candidate's check, the text of the metadata is not passed through \<^verbatim>\<open>str\<close>.\<close>

definition check_raw_source :: "json \<Rightarrow> string \<Rightarrow> int \<times> fragment list \<Rightarrow> unit res" where
  "check_raw_source metadata label = (\<lambda>(text_id, frs). rbind (fragment_text frs) (\<lambda>actual.
     rbind (rbind (rbind (vitem metadata ''asr'') (\<lambda>asr. vitem asr (int_repr text_id))) (\<lambda>a. vitem a ''text'')) (\<lambda>expected.
     raise_if (expected \<noteq> JStr actual) (ValueError (label @ '' source text mismatch for '' @ int_repr text_id))
       (Inr ()))))"

definition validate_raw_source :: "fragments_by_text \<Rightarrow> json \<Rightarrow> string \<Rightarrow> unit res" where
  "validate_raw_source fragments metadata label =
    rbind (rbind (rbind (vitem metadata ''asr'') py_iter) (rmap py_int)) (\<lambda>expected.
    raise_if (set (map fst fragments) \<noteq> set expected) (ValueError (label @ '' text ID set differs from metadata''))
    (rbind (rmap (check_raw_source metadata label) fragments) (\<lambda>_. Inr ())))"

section \<open>Authority\<close>

record authority =
  au_text_id :: int
  au_start :: nat
  au_end :: nat
  au_speaker :: json
  au_raw_reason :: string
  au_accepted :: bool
  au_reason :: string

text \<open>\<^verbatim>\<open>v in active_ids\<close> for a document value and a set of texts.\<close>

definition known_identity :: "string list \<Rightarrow> json \<Rightarrow> bool res" where
  "known_identity active v = (case v of JStr s \<Rightarrow> Inr (s \<in> set active)
     | JArr _ \<Rightarrow> Inl TypeError | JObj _ \<Rightarrow> Inl TypeError | _ \<Rightarrow> Inr False)"

text \<open>The audit record of a fragment of the production replay.\<close>

definition authority_of :: "string list \<Rightarrow> string list \<Rightarrow> int \<Rightarrow> fragment \<Rightarrow> authority res" where
  "authority_of allowed active text_id fr =
    rbind (vget (fr_entry fr) ''speaker_id'' JNull) (\<lambda>speaker.
    rbind (vget (fr_entry fr) ''decision_reason'' (JStr [])) (\<lambda>r.
    rbind (if py_str r \<notin> set allowed then Inr (False, ''raw_reason_not_authoritative'')
           else if speaker = JNull then Inr (False, ''raw_identity_missing'')
           else rbind (known_identity active speaker) (\<lambda>known.
             raise_if (\<not> known) (ValueError (''raw identity '' @ py_str speaker @ '' is not active''))
               (Inr (True, ''raw_authoritative_range'')))) (\<lambda>(accepted, reason).
    Inr \<lparr>au_text_id = text_id, au_start = fr_start fr, au_end = fr_end fr, au_speaker = speaker,
      au_raw_reason = py_str r, au_accepted = accepted, au_reason = reason\<rparr>)))"

definition authority_overlay :: "authority \<Rightarrow> obj" where
  "authority_overlay a = [(''text_id'', JInt (au_text_id a)), (''source_start'', JInt (int (au_start a))),
     (''source_end'', JInt (int (au_end a))), (''speaker_id'', au_speaker a),
     (''reason'', JStr ''raw_authoritative_sole_diar_support'')]"

text \<open>The audit, text by text; the overlays of a text are its accepted records.\<close>

definition authoritative_overlays ::
  "fragments_by_text \<Rightarrow> string list \<Rightarrow> string list \<Rightarrow> (overlays_by_text \<times> authority list) res" where
  "authoritative_overlays raw allowed active =
    rbind (rmap (\<lambda>(text_id, frs). rbind (rmap (authority_of allowed active text_id) frs) (\<lambda>xs. Inr (text_id, xs)))
      (sort_key fst raw)) (\<lambda>audited.
    Inr (filter (\<lambda>(_, ovs). ovs \<noteq> [])
        (map (\<lambda>(text_id, xs). (text_id, map authority_overlay (filter au_accepted xs))) audited),
      concat (map snd audited)))"

section \<open>Build\<close>

definition raw_text_turns ::
  "json \<Rightarrow> overlays_by_text \<Rightarrow> local_ids \<Rightarrow> int \<times> fragment list \<Rightarrow> phrase_turn list res" where
  "raw_text_turns metadata overlays id_to_local = (\<lambda>(text_id, frs).
    rbind (rbind (rbind (vitem metadata ''asr'') (\<lambda>asr. vitem asr (int_repr text_id))) (\<lambda>a. vitem a ''text'')) (\<lambda>source.
    rbind (rbind (vitem metadata ''align'') (\<lambda>align. vitem align (int_repr text_id))) (\<lambda>us.
    case source of JStr s \<Rightarrow> reproject_text text_id s us frs (overlays_of overlays text_id) id_to_local
    | _ \<Rightarrow> Inl OutOfModel)))"

record raw_result =
  ra_active :: "string list"
  ra_source_turns :: int
  ra_audio_sec :: dbl
  ra_sample_rate :: int
  ra_audit :: "authority list"
  ra_track :: "phrase_turn list"

definition raw_identities :: "json \<Rightarrow> json \<Rightarrow> (string list \<times> local_ids) res" where
  "raw_identities enhanced manifest =
    rbind (rbind (vitem enhanced ''active_speaker_ids'') py_iter) (\<lambda>ids.
    rbind (slot_names manifest) (\<lambda>mapping.
    let active = map py_str ids in
    raise_if (sort (map snd mapping) \<noteq> sort active) (ValueError ''manifest identity set differs from enhanced candidate'')
      (Inr (active, invert_mapping mapping))))"

definition build_raw_candidate :: "json \<Rightarrow> json \<Rightarrow> json \<Rightarrow> json \<Rightarrow> string list \<Rightarrow> raw_result res" where
  "build_raw_candidate raw enhanced metadata manifest allowed =
    rbind (vget raw ''candidate_kind'' JNull) (\<lambda>rk.
    raise_if (rk \<noteq> JStr ''production_business_speaker_replay'')
      (ValueError ''raw input is not a production business replay'')
    (rbind (vget enhanced ''kind'' JNull) (\<lambda>ek.
     raise_if (ek \<noteq> JStr ''orator_frozen_speaker_candidate'')
       (ValueError ''enhanced input is not a frozen speaker candidate'')
     (rbind (raw_identities enhanced manifest) (\<lambda>(active, id_to_local).
      rbind (rbind (vget raw ''track'' (JArr [])) track_fragments) (\<lambda>raw_frs.
      rbind (rbind (vget enhanced ''track'' (JArr [])) track_fragments) (\<lambda>enhanced_frs.
      rbind (validate_raw_source raw_frs metadata ''raw'') (\<lambda>_.
      rbind (validate_raw_source enhanced_frs metadata ''enhanced'') (\<lambda>_.
      rbind (authoritative_overlays raw_frs allowed active) (\<lambda>(overlays, audit).
      rbind (rmap (raw_text_turns metadata overlays id_to_local) (sort_key fst enhanced_frs)) (\<lambda>pieces.
      let track = concat pieces in
      rbind (rbind (track_fragments (JArr (map turn_doc track))) (\<lambda>frs. validate_raw_source frs metadata ''projected'')) (\<lambda>_.
      rbind (float_item enhanced ''audio_sec'') (\<lambda>audio_sec.
      rbind (rbind (vitem enhanced ''sample_rate'') py_int) (\<lambda>sample_rate.
      rbind (rbind (vget enhanced ''track'' (JArr [])) py_len) (\<lambda>turns.
      Inr \<lparr>ra_active = active, ra_source_turns = turns, ra_audio_sec = audio_sec, ra_sample_rate = sample_rate,
           ra_audit = audit, ra_track = track\<rparr>)))))))))))))))"

definition authority_doc :: "authority \<Rightarrow> json" where
  "authority_doc a = JObj [(''text_id'', JInt (au_text_id a)), (''source_start'', JInt (int (au_start a))),
     (''source_end'', JInt (int (au_end a))), (''speaker_id'', au_speaker a), (''raw_reason'', JStr (au_raw_reason a)),
     (''accepted'', JBool (au_accepted a)), (''reason'', JStr (au_reason a))]"

definition raw_result_doc :: "string list \<Rightarrow> raw_result \<Rightarrow> obj" where
  "raw_result_doc allowed r =
     [(''schema_version'', JInt 1),
      (''kind'', JStr ''orator_frozen_speaker_candidate''),
      (''candidate_kind'', JStr ''v21_raw_authoritative_fusion''),
      (''audio_sec'', JFlt (ra_audio_sec r)),
      (''sample_rate'', JInt (ra_sample_rate r)),
      (''active_speaker_ids'', JArr (map JStr (ra_active r))),
      (''source_turn_count'', JInt (ra_source_turns r)),
      (''turn_count'', JInt (int (length (ra_track r)))),
      (''authoritative_range_count'', JInt (int (length (filter au_accepted (ra_audit r))))),
      (''policy'', raw_policy_doc allowed),
      (''authority_decisions'', JArr (map authority_doc (ra_audit r))),
      (''track'', JArr (map turn_doc (ra_track r)))]"

definition command_raw_build ::
  "json \<Rightarrow> json \<Rightarrow> json \<Rightarrow> json \<Rightarrow> obj \<Rightarrow> (string \<times> file_identity) list \<Rightarrow> obj res" where
  "command_raw_build raw enhanced metadata manifest config files =
    rbind (load_raw_policy config) (\<lambda>allowed.
    rbind (build_raw_candidate raw enhanced metadata manifest allowed) (\<lambda>r.
    Inr (dset ''sources'' (sources_doc files) (raw_result_doc allowed r))))"

end
