(* ===== verification/Raw_Properties.thy ===== *)
theory Raw_Properties
  imports Raw_Authoritative Relative_Properties Clause_Properties
begin

text \<open>
  The authority of the production replay: in the finished track the label of a character follows
  from the one production fragment and the one enhanced fragment that hold it.
\<close>

text \<open>The identity that a production fragment claims, where its reason is allowed.\<close>

definition raw_claim :: "string list \<Rightarrow> fragment \<Rightarrow> string option" where
  "raw_claim allowed fr = (case (vget (fr_entry fr) ''decision_reason'' (JStr []), vget (fr_entry fr) ''speaker_id'' JNull) of
     (Inr r, Inr (JStr s)) \<Rightarrow> if py_str r \<in> set allowed then Some s else None
   | _ \<Rightarrow> None)"

definition sole_support :: string where
  "sole_support = ''raw_authoritative_sole_diar_support''"

section \<open>Audit records\<close>

lemma authority_facts:
  assumes "authority_of allowed active text_id fr = Inr a"
  shows "au_text_id a = text_id" "au_start a = fr_start fr" "au_end a = fr_end fr"
    "case raw_claim allowed fr of None \<Rightarrow> \<not> au_accepted a
     | Some s \<Rightarrow> au_accepted a \<and> au_speaker a = JStr s \<and> s \<in> set active"
  using assms by (auto simp: authority_of_def raw_claim_def known_identity_def rbind_Inr_iff raise_if_Inr_iff
    split: if_splits json.splits)

definition authority_holds :: "nat \<Rightarrow> authority \<Rightarrow> bool" where
  "authority_holds i a \<longleftrightarrow> au_start a \<le> i \<and> i < au_end a"

definition mapped_authority :: "local_ids \<Rightarrow> authority \<Rightarrow> bool" where
  "mapped_authority ids a \<longleftrightarrow> (case au_speaker a of JStr s \<Rightarrow> map_of ids s \<noteq> None | _ \<Rightarrow> False)"

lemma authority_effect:
  assumes "mapped_authority ids a"
  obtains l where "overlay_effect ids (authority_overlay a) = Inr ([int (au_start a)..int (au_end a) - 1], l)"
    "label_key l = (au_speaker a, False, sole_support)"
proof -
  from assms obtain s n where s: "au_speaker a = JStr s" "map_of ids s = Some n"
    by (auto simp: mapped_authority_def split: json.splits)
  then show ?thesis
    by (intro that[where l = "\<lparr>cl_speaker_id = JStr s, cl_speaker = n, cl_uncertain = False, cl_reason = sole_support\<rparr>"])
      (simp_all add: overlay_effect_def overlay_label_def authority_overlay_def item_def ditem_def anchor_id_def
        range_bound_def label_key_def sole_support_def)
qed

lemma authorities_laid:
  "list_all (mapped_authority ids) as \<Longrightarrow>
   label_key (final_label ids n (map authority_overlay as) i base) =
     (case find (authority_holds i) (rev as) of None \<Rightarrow> label_key base | Some a \<Rightarrow> (au_speaker a, False, sole_support))"
proof (induction as rule: rev_induct)
  case (snoc a as)
  from snoc.prems have "mapped_authority ids a" by simp
  then obtain l where l: "overlay_effect ids (authority_overlay a) = Inr ([int (au_start a)..int (au_end a) - 1], l)"
    "label_key l = (au_speaker a, False, sole_support)" by (rule authority_effect)
  have "covers n [int (au_start a)..int (au_end a) - 1] i \<longleftrightarrow> authority_holds i a"
    by (simp add: covers_range authority_holds_def)
  moreover have "final_label ids n (map authority_overlay (as @ [a])) i base =
      (if covers n [int (au_start a)..int (au_end a) - 1] i then l else final_label ids n (map authority_overlay as) i base)"
    by (simp only: final_label_def map_append foldl_append list.map foldl.simps l(1) sum.case prod.case)
  ultimately show ?case using snoc l(2) by simp
qed (simp add: final_label_def)

section \<open>One text\<close>

lemma tiles_ordered: "tiles c frs \<Longrightarrow> sorted_wrt (\<lambda>f g. fr_end f \<le> fr_start g) frs \<and> (\<forall>f \<in> set frs. c \<le> fr_start f)"
proof (induction frs arbitrary: c)
  case (Cons f fs)
  then have "c \<le> fr_end f" by (cases "entry_text (fr_entry f)") auto
  with Cons show ?case by (fastforce split: sum.splits)
qed simp

lemma tiles_unique:
  assumes "tiles c frs" "f \<in> set frs" "g \<in> set frs" "fr_start f \<le> i" "i < fr_end f" "fr_start g \<le> i" "i < fr_end g"
  shows "f = g"
proof -
  obtain j k where "j < length frs" "k < length frs" "frs ! j = f" "frs ! k = g" using assms(2,3) by (auto simp: in_set_conv_nth)
  note jk = this
  have o: "fr_end (frs ! a) \<le> fr_start (frs ! b)" if "a < b" "b < length frs" for a b
    using tiles_ordered[OF assms(1)] sorted_wrt_nth_less[of _ frs a b] that by blast
  show ?thesis using o[of j k] o[of k j] jk assms(4-) by (cases j k rule: linorder_cases) auto
qed

lemma inverted: "s \<in> snd ` set m \<Longrightarrow> map_of (invert_mapping m) s \<noteq> None"
proof (induction m rule: rev_induct)
  case (snoc x m)
  then show ?case by (cases x) (auto simp: invert_mapping_def)
qed simp

lemma audited_text:
  assumes "authoritative_overlays raw allowed active = Inr (overlays, audit)" "distinct (map fst raw)" "map_of raw t = Some frs"
  obtains xs where "rmap (authority_of allowed active t) frs = Inr xs"
    "overlays_of overlays t = map authority_overlay (filter au_accepted xs)"
proof -
  from assms(1) obtain audited where a: "rmap (\<lambda>(text_id, frs). rbind (rmap (authority_of allowed active text_id) frs)
      (\<lambda>xs. Inr (text_id, xs))) (sort_key fst raw) = Inr audited"
    and o: "overlays = filter (\<lambda>(_, ovs). ovs \<noteq> [])
        (map (\<lambda>(text_id, xs). (text_id, map authority_overlay (filter au_accepted xs))) audited)"
    by (auto simp: authoritative_overlays_def rbind_Inr_iff)
  have keys: "map fst audited = map fst (sort_key fst raw)" by (rule rmap_keys[OF a]) (auto simp: rbind_Inr_iff)
  have "distinct (map fst (sort_key fst raw))"
    using assms(2) by (metis distinct_map distinct_sort set_sort)
  then have dist: "distinct (map fst audited)" by (simp add: keys)
  have "(t, frs) \<in> set (sort_key fst raw)" using map_of_SomeD[OF assms(3)] by simp
  from rmap_member[OF a this] obtain xs where xs: "(t, xs) \<in> set audited" "rmap (authority_of allowed active t) frs = Inr xs"
    by (auto simp: rbind_Inr_iff)
  let ?f = "\<lambda>ys. filter (\<lambda>(_, ovs). ovs \<noteq> []) (map (\<lambda>(text_id, xs). (text_id, map authority_overlay (filter au_accepted xs))) ys)"
  have none: "map_of (?f ys) t = None" if "t \<notin> fst ` set ys" for ys
    using that by (force simp: map_of_eq_None_iff)
  have "overlays_of (?f ys) t = map authority_overlay (filter au_accepted xs)"
    if "distinct (map fst ys)" "(t, xs) \<in> set ys" for ys
    using that
  proof (induction ys)
    case (Cons y ys)
    obtain k zs where y: "y = (k, zs)" by (cases y)
    show ?case
    proof (cases "k = t")
      case True
      with Cons.prems y have "t \<notin> fst ` set ys" "zs = xs" by (auto intro: rev_image_eqI)
      with True y none[of ys] show ?thesis by (simp add: overlays_of_def)
    next
      case False
      with Cons y show ?thesis by (auto simp: overlays_of_def)
    qed
  qed simp
  from this[OF dist xs(1)] show ?thesis by (intro that[OF xs(2)]) (simp only: o)
qed

lemma raw_text_reproject:
  assumes "raw_text_turns metadata overlays ids g = Inr e"
  obtains source us where "reproject_text (fst g) source us (snd g) (overlays_of overlays (fst g)) ids = Inr e"
proof -
  obtain k frs where g: "g = (k, frs)" by (cases g)
  from assms obtain v us where "(case v of JStr s \<Rightarrow> reproject_text k s us frs (overlays_of overlays k) ids
      | _ \<Rightarrow> Inl OutOfModel) = Inr e"
    unfolding g raw_text_turns_def case_prod_conv by (auto simp only: rbind_Inr_iff)
  then show ?thesis by (cases v) (simp_all add: that g)
qed

section \<open>The finished track\<close>

text \<open>The mapping has every active identity, so every accepted authority is mapped.\<close>

lemma authorities_mapped:
  assumes idn: "raw_identities enhanced manifest = Inr (active, ids)" and xs: "rmap (authority_of allowed active text_id) frs = Inr xs"
  shows "list_all (mapped_authority ids) (filter au_accepted xs)"
proof -
  have ids: "map_of ids s \<noteq> None" if "s \<in> set active" for s
  proof -
    from idn obtain m where m: "sort (map snd m) = sort active" "ids = invert_mapping m"
      by (auto simp: raw_identities_def rbind_Inr_iff raise_if_Inr_iff Let_def)
    then have "set (map snd m) = set active" by (metis set_sort)
    with that m(2) inverted[of s m] show ?thesis by simp
  qed
  have "mapped_authority ids a" if "a \<in> set xs" "au_accepted a" for a
  proof -
    from rmap_image[OF xs that(1)] obtain g where "authority_of allowed active text_id g = Inr a" by blast
    from authority_facts(4)[OF this] that(2) obtain s where "au_speaker a = JStr s" "s \<in> set active"
      by (cases "raw_claim allowed g") auto
    with ids show ?thesis by (simp add: mapped_authority_def)
  qed
  then show ?thesis by (simp add: list_all_iff)
qed

text \<open>Fragments tile the text, so the authority found at a character is that of the fragment holding it.\<close>

lemma authority_found:
  assumes xs: "rmap (authority_of allowed active text_id) frs = Inr xs" and tiling: "tiles 0 frs"
    and fr: "fr \<in> set frs" "fr_start fr \<le> i" "i < fr_end fr"
  obtains a where "authority_of allowed active text_id fr = Inr a"
    "find (authority_holds i) (rev (filter au_accepted xs)) = (if raw_claim allowed fr = None then None else Some a)"
proof -
  have only: "authority_of allowed active text_id fr = Inr a" if "a \<in> set xs" "authority_holds i a" for a
  proof -
    from rmap_image[OF xs that(1)] obtain g where g: "g \<in> set frs" "authority_of allowed active text_id g = Inr a" by blast
    have "fr_start g \<le> i" "i < fr_end g" using authority_facts(2,3)[OF g(2)] that(2) by (simp_all add: authority_holds_def)
    from tiles_unique[OF tiling g(1) fr(1) this fr(2,3)] g(2) show ?thesis by simp
  qed
  from rmap_member[OF xs fr(1)] obtain a where a: "a \<in> set xs" "authority_of allowed active text_id fr = Inr a" by blast
  have holds: "authority_holds i a" using authority_facts(2,3)[OF a(2)] fr(2,3) by (simp add: authority_holds_def)
  show thesis
  proof (cases "raw_claim allowed fr")
    case None
    then have "find (authority_holds i) (rev (filter au_accepted xs)) = None"
      using authority_facts(4)[OF only] by (auto simp: find_None_iff)
    with None a(2) that show thesis by simp
  next
    case (Some s)
    then have "au_accepted a" using authority_facts(4)[OF a(2)] by simp
    then obtain b where b: "find (authority_holds i) (rev (filter au_accepted xs)) = Some b"
      using a(1) holds by (cases "find (authority_holds i) (rev (filter au_accepted xs))") (auto simp: find_None_iff)
    then have "b \<in> set (rev (filter au_accepted xs))" "authority_holds i b" unfolding find_Some_iff by (metis nth_mem)+
    then have "b \<in> set xs" "authority_holds i b" by simp_all
    with only a(2) have "b = a" by fastforce
    with Some b a(2) that show thesis by simp
  qed
qed

text \<open>
  C35: every character of the finished track has the identity that the production fragment
  holding it claims for an allowed reason, and where that fragment claims none the label of the
  enhanced fragment holding it.
\<close>

theorem raw_claims_prevail:
  assumes build: "build_raw_candidate raw enhanced metadata manifest allowed = Inr r"
    and raws: "rbind (vget raw ''track'' (JArr [])) track_fragments = Inr raw_fragments"
      "map_of raw_fragments text_id = Some raw_frs" "raw_fr \<in> set raw_frs" "fr_start raw_fr \<le> i" "i < fr_end raw_fr"
    and frs: "rbind (vget enhanced ''track'' (JArr [])) track_fragments = Inr fragments"
      "map_of fragments text_id = Some frs" "fr \<in> set frs" "fr_start fr \<le> i" "i < fr_end fr"
    and plain: "list_all plain_fragment frs"
  shows "let labels = expand_turns (filter (\<lambda>t. pt_text_id t = text_id) (ra_track r)) in i < length labels \<and>
    (case raw_claim allowed raw_fr of
       Some s \<Rightarrow> s \<in> set (ra_active r) \<and> labels ! i = (JStr s, False, sole_support)
     | None \<Rightarrow> rbind (entry_label (fr_entry fr)) (\<lambda>l. Inr (label_key l)) = Inr (labels ! i))"
proof -
  let ?turns = "filter (\<lambda>t. pt_text_id t = text_id) (ra_track r)"
  from build raws(1) frs(1) obtain ids overlays pieces where
    idn: "raw_identities enhanced manifest = Inr (ra_active r, ids)"
    and aut: "authoritative_overlays raw_fragments allowed (ra_active r) = Inr (overlays, ra_audit r)"
    and pcs: "rmap (raw_text_turns metadata overlays ids) (sort_key fst fragments) = Inr pieces" "ra_track r = concat pieces"
    by (auto simp: build_raw_candidate_def rbind_Inr_iff raise_if_Inr_iff Let_def)
  from raws(1) frs(1) obtain v w where t: "track_fragments v = Inr raw_fragments" "track_fragments w = Inr fragments"
    by (auto simp: rbind_Inr_iff)
  note rf = track_fragments_facts[OF t(1)] and ef = track_fragments_facts[OF t(2)]
  have tl: "tiles 0 raw_frs" "tiles 0 frs" using rf(2) ef(2) map_of_SomeD[OF raws(2)] map_of_SomeD[OF frs(2)] by auto
  obtain xs where xs: "rmap (authority_of allowed (ra_active r) text_id) raw_frs = Inr xs"
    "overlays_of overlays text_id = map authority_overlay (filter au_accepted xs)"
    by (rule audited_text[OF aut rf(1) raws(2)])
  have "\<forall>t \<in> set e. pt_text_id t = fst g" if "raw_text_turns metadata overlays ids g = Inr e" for g e
    using that by (rule raw_text_reproject) (rule reproject_ids)
  from turns_of_text[OF pcs(1) this ef(1) frs(2)]
  have "raw_text_turns metadata overlays ids (text_id, frs) = Inr ?turns" by (simp only: pcs(2))
  then obtain source us where rep: "reproject_text text_id source us frs (overlays_of overlays text_id) ids = Inr ?turns"
    by (rule raw_text_reproject) simp
  obtain l where l: "entry_label (fr_entry fr) = Inr l" "i < length (expand_turns ?turns)"
    "expand_turns ?turns ! i = label_key (final_label ids (length source) (overlays_of overlays text_id) i l)"
    by (rule character_label[OF rep tl(2) _ frs(3,4,5)]) (use plain in \<open>simp add: list_all_iff\<close>)
  note lab = l(3)[unfolded xs(2) authorities_laid[OF authorities_mapped[OF idn xs(1)]]]
  obtain a where a: "authority_of allowed (ra_active r) text_id raw_fr = Inr a"
    "find (authority_holds i) (rev (filter au_accepted xs)) = (if raw_claim allowed raw_fr = None then None else Some a)"
    by (rule authority_found[OF xs(1) tl(1) raws(3-5)])
  with authority_facts(4)[OF a(1)] l lab show ?thesis by (cases "raw_claim allowed raw_fr") (simp_all add: Let_def)
qed

end
