(* ===== verification/Direct_Fusion.thy ===== *)
theory Direct_Fusion
  imports Posterior_Pieces Phrase_Candidate Gallery_Robust
begin

text \<open>
  \<^verbatim>\<open>tools/archive/spec013-speaker-candidates/speaker_direct_fusion_candidate.py\<close>: the
  voiceprint of a business interval and the pooled voiceprints of its diarization segments are the
  two sources of a turn's identity.  The frozen evidence is parsed JSON; its digest and absolute
  path are parameters.  \<^verbatim>\<open>speaker_short_phrase_candidate.py\<close> has the same build with other sources.
\<close>

section \<open>Ranking\<close>

definition rank_scores :: "json \<Rightarrow> string list option \<Rightarrow> (string \<times> dbl) list res" where
  "rank_scores scores allowed = rbind (vdict scores) (\<lambda>d.
     rbind (rmap (\<lambda>(s, v). rbind (py_float v) (\<lambda>x. Inr (s, x)))
       (filter (\<lambda>(s, _). case allowed of None \<Rightarrow> True | Some ids \<Rightarrow> s \<in> set ids) d)) (\<lambda>xs.
     Inr (sort_key voice_rank xs)))"

definition score_gate :: "(string \<times> dbl) list \<Rightarrow> dbl \<Rightarrow> dbl \<Rightarrow> bool" where
  "score_gate ranked threshold margin \<longleftrightarrow> 2 \<le> length ranked \<and> threshold \<le> snd (ranked ! 0) \<and>
     margin \<le> snd (ranked ! 0) - snd (ranked ! 1)"

text \<open>\<^verbatim>\<open>evidence.get("status") == "ok"\<close>.\<close>

definition status_ok :: "json \<Rightarrow> bool res" where
  "status_ok v = rbind (vget v ''status'' JNull) (\<lambda>s. Inr (s = JStr ''ok''))"

section \<open>Active identities\<close>

text \<open>
  The generator \<^verbatim>\<open>unique_voiceprints\<close> and the loop that consumes it: the identifiers seen so
  far and the seconds of the identities that passed the gate, in the order they first did.
\<close>

type_synonym voice_seconds = "(string, dbl) pydict"

definition add_seconds :: "voice_seconds \<Rightarrow> string \<Rightarrow> dbl \<Rightarrow> voice_seconds" where
  "add_seconds durations s seconds =
     dset s (case map_of durations s of None \<Rightarrow> seconds | Some x \<Rightarrow> x + seconds) durations"

definition consume_voice :: "dbl \<Rightarrow> dbl \<Rightarrow> voice_seconds \<Rightarrow> json \<Rightarrow> dbl \<Rightarrow> voice_seconds res" where
  "consume_voice threshold margin durations evidence seconds =
    rbind (status_ok evidence) (\<lambda>ok. if \<not> ok then Inr durations
    else rbind (rbind (vget evidence ''scores'' (JObj [])) (\<lambda>s. rank_scores s None)) (\<lambda>ranked.
      Inr (if score_gate ranked threshold margin then add_seconds durations (fst (ranked ! 0)) seconds else durations)))"

type_synonym voice_scan = "string list \<times> voice_seconds"

definition visit_voice ::
  "dbl \<Rightarrow> dbl \<Rightarrow> voice_scan \<Rightarrow> string \<Rightarrow> (json \<times> dbl) res \<Rightarrow> voice_scan res" where
  "visit_voice threshold margin = (\<lambda>(seen, durations) i voice.
     if i \<in> set seen then Inr (seen, durations)
     else rbind voice (\<lambda>(evidence, seconds). rbind (consume_voice threshold margin durations evidence seconds)
       (\<lambda>durations'. Inr (i # seen, durations'))))"

definition turn_voice :: "json \<Rightarrow> (json \<times> dbl) res" where
  "turn_voice turn = rbind (vitem turn ''titanet'') (\<lambda>v. rbind (float_item turn ''duration_sec'') (\<lambda>d. Inr (v, d)))"

definition segment_voice :: "json \<Rightarrow> (json \<times> dbl) res" where
  "segment_voice segment = rbind (vitem segment ''titanet'') (\<lambda>v. rbind (float_item segment ''end_sec'') (\<lambda>e.
     rbind (float_item segment ''start_sec'') (\<lambda>s. Inr (v, e - s))))"

definition visit_turn :: "dbl \<Rightarrow> dbl \<Rightarrow> voice_scan \<Rightarrow> json \<Rightarrow> voice_scan res" where
  "visit_turn threshold margin st turn =
    rbind (str_item turn ''turn_id'') (\<lambda>i.
    rbind (visit_voice threshold margin st i (turn_voice turn)) (\<lambda>st'.
    rbind (rbind (vitem turn ''diar_segments'') py_iter)
      (rfold (\<lambda>st segment. rbind (str_item segment ''evidence_id'') (\<lambda>j.
         visit_voice threshold margin st j (segment_voice segment))) st')))"

definition seconds_rank :: "string \<times> dbl \<Rightarrow> dbl \<times> string" where
  "seconds_rank = (\<lambda>(s, seconds). (- seconds, s))"

definition discover_active_ids :: "json \<Rightarrow> json \<Rightarrow> string list res" where
  "discover_active_ids turns config =
    rbind (vitem config ''speaker'') (\<lambda>speaker.
    rbind (float_item speaker ''local_drift_competing_threshold'') (\<lambda>threshold.
    rbind (float_item speaker ''local_drift_competing_margin'') (\<lambda>margin.
    rbind (rbind (rbind (vitem config ''diarizer'') (\<lambda>v. vitem v ''max_speakers'')) py_int) (\<lambda>max_speakers.
    rbind (rbind (py_iter turns) (rfold (visit_turn threshold margin) ([], []))) (\<lambda>(_, durations).
    let active = py_slice (map fst (sort_key seconds_rank durations)) 0 max_speakers in
    raise_if (int (length active) \<noteq> max_speakers) (ValueError (''expected '' @ int_repr max_speakers @
        '' active identities, found '' @ int_repr (int (length active))))
      (Inr active))))))"

section \<open>Sources of a turn\<close>

text \<open>The weighted sums of the identities, in their order, the total weight, and the pooled identifiers.\<close>

type_synonym score_pool = "dbl list \<times> dbl \<times> string list"

definition pool_segment :: "string list \<Rightarrow> score_pool \<Rightarrow> json \<Rightarrow> score_pool res" where
  "pool_segment active = (\<lambda>(totals, total_weight, ids) segment.
    rbind (vitem segment ''titanet'') (\<lambda>evidence. rbind (vget evidence ''scores'' (JObj [])) (\<lambda>scores.
    rbind (status_ok evidence) (\<lambda>ok.
    rbind (if ok then rbind (name_set scores) (\<lambda>names. Inr (set active \<subseteq> set names)) else Inr False) (\<lambda>usable.
    if \<not> usable then Inr (totals, total_weight, ids)
    else rbind (float_item segment ''overlap_sec'') (\<lambda>weight.
      if weight \<le> EPSILON then Inr (totals, total_weight, ids)
      else rbind (rmap (float_item scores) active) (\<lambda>xs. rbind (str_item segment ''evidence_id'') (\<lambda>i.
        Inr (map2 (\<lambda>a x. a + weight * x) totals xs, total_weight + weight, ids @ [i])))))))))"

definition aggregate_segment_scores :: "json \<Rightarrow> string list \<Rightarrow> ((string \<times> dbl) list \<times> string list) res" where
  "aggregate_segment_scores turn active =
    rbind (rbind (vitem turn ''diar_segments'') py_iter) (\<lambda>segments.
    rbind (rfold (pool_segment active) (map (\<lambda>_. 0) active, 0, []) segments) (\<lambda>(totals, total_weight, ids).
    Inr (if total_weight \<le> EPSILON then ([], [])
         else (sort_key voice_rank (map2 (\<lambda>s x. (s, x / total_weight)) active totals), sort (remdups ids)))))"

record voice_source =
  vs_name :: string
  vs_strength :: "string option"
  vs_ranked :: "(string \<times> dbl) list"
  vs_ids :: "string list"

definition drift_gate :: "json \<Rightarrow> string \<Rightarrow> (string \<times> dbl) list \<Rightarrow> bool res" where
  "drift_gate speaker kind ranked =
    rbind (float_item speaker (''local_drift_competing_'' @ kind @ ''threshold'')) (\<lambda>threshold.
    rbind (float_item speaker (''local_drift_competing_'' @ kind @ ''margin'')) (\<lambda>margin.
    Inr (score_gate ranked threshold margin)))"

definition source_record ::
  "string \<Rightarrow> (string \<times> dbl) list \<Rightarrow> string list \<Rightarrow> json \<Rightarrow> voice_source res" where
  "source_record name ranked ids config =
    rbind (vitem config ''speaker'') (\<lambda>speaker.
    rbind (drift_gate speaker [] ranked) (\<lambda>strong. rbind (drift_gate speaker ''candidate_'' ranked) (\<lambda>candidate.
    Inr \<lparr>vs_name = name, vs_strength = (if strong then Some ''strong'' else if candidate then Some ''candidate'' else None),
         vs_ranked = ranked, vs_ids = ids\<rparr>)))"

definition turn_ranking :: "json \<Rightarrow> string list \<Rightarrow> (string \<times> dbl) list res" where
  "turn_ranking turn active = rbind (vitem turn ''titanet'') (\<lambda>evidence. rbind (status_ok evidence) (\<lambda>ok.
     if ok then rbind (vget evidence ''scores'' (JObj [])) (\<lambda>s. rank_scores s (Some active)) else Inr []))"

definition voice_sources :: "json \<Rightarrow> string list \<Rightarrow> json \<Rightarrow> voice_source list res" where
  "voice_sources turn active config =
    rbind (turn_ranking turn active) (\<lambda>turn_ranked.
    rbind (aggregate_segment_scores turn active) (\<lambda>(segment_ranked, ids).
    rbind (str_item turn ''turn_id'') (\<lambda>i.
    rbind (source_record ''turn'' turn_ranked [i] config) (\<lambda>a.
    rbind (source_record ''diar_segment'' segment_ranked ids config) (\<lambda>b. Inr [a, b])))))"

definition eligible_sources :: "voice_source list \<Rightarrow> voice_source list" where
  "eligible_sources sources = filter (\<lambda>x. vs_strength x \<noteq> None) sources"

definition voice_leader :: "voice_source \<Rightarrow> string" where
  "voice_leader x = fst (vs_ranked x ! 0)"

definition direct_identity :: "voice_source list \<Rightarrow> string option \<times> string" where
  "direct_identity sources = (case eligible_sources sources of
     [] \<Rightarrow> (None, ''no_eligible_direct_voiceprint'')
   | x # xs \<Rightarrow>
       if \<exists>y \<in> set xs. voice_leader y \<noteq> voice_leader x then (None, ''direct_voiceprint_conflict'')
       else (Some (voice_leader x),
         (if \<exists>y \<in> set (x # xs). vs_strength y = Some ''strong'' then ''strong'' else ''candidate'') @ ''_'' @
         (if length xs = 1 then ''combined'' else vs_name x) @ ''_voiceprint''))"

section \<open>Decisions\<close>

record direct_decision =
  dd_speaker :: json
  dd_local :: int
  dd_uncertain :: bool
  dd_reason :: string
  dd_changed :: bool
  dd_baseline :: json
  dd_sources :: "voice_source list"

definition decide_turn :: "json \<Rightarrow> string list \<Rightarrow> json \<Rightarrow> direct_decision res" where
  "decide_turn turn active config =
    rbind (vitem turn ''baseline_output'') (\<lambda>baseline. rbind (vget baseline ''speaker_id'' JNull) (\<lambda>baseline_id.
    rbind (voice_sources turn active config) (\<lambda>sources.
    let (selected, why) = direct_identity sources; changed = (selected \<noteq> None \<and> opt_json selected \<noteq> baseline_id) in
    rbind (rbind (vget baseline ''local_speaker'' (JInt (- 1))) py_int) (\<lambda>local.
    rbind (vget baseline ''speaker_uncertain'' (JBool False)) (\<lambda>uncertain.
    Inr \<lparr>dd_speaker = (if selected = None then baseline_id else opt_json selected), dd_local = local,
      dd_uncertain = (\<not> changed \<and> truthy uncertain),
      dd_reason = (if selected = None then ''baseline_'' @ why else if \<not> changed then ''baseline_confirmed_'' @ why
                   else why @ ''_override''),
      dd_changed = changed, dd_baseline = baseline_id, dd_sources = sources\<rparr>)))))"

section \<open>Build\<close>

definition voice_source_doc :: "voice_source \<Rightarrow> json" where
  "voice_source_doc x = JObj [(''name'', JStr (vs_name x)), (''strength'', opt_json (vs_strength x)),
     (''ranked'', JArr (map (\<lambda>(s, v). JArr [JStr s, JFlt v]) (vs_ranked x))),
     (''evidence_ids'', JArr (map JStr (vs_ids x)))]"

definition direct_decision_doc :: "json \<Rightarrow> direct_decision \<Rightarrow> json" where
  "direct_decision_doc turn_id d = JObj [(''turn_id'', turn_id), (''speaker_id'', dd_speaker d),
     (''local_speaker'', JInt (dd_local d)), (''speaker_uncertain'', JBool (dd_uncertain d)),
     (''reason'', JStr (dd_reason d)), (''changed'', JBool (dd_changed d)), (''baseline_speaker_id'', dd_baseline d),
     (''voiceprint_sources'', JArr (map voice_source_doc (dd_sources d)))]"

definition direct_turn_doc :: "json \<Rightarrow> json \<Rightarrow> direct_decision \<Rightarrow> json res" where
  "direct_turn_doc turn turn_id d =
    rbind (rmap (vitem turn) [''start_sec'', ''end_sec'', ''text_id'', ''text'']) (\<lambda>vs.
    Inr (JObj ([(''turn_id'', turn_id)] @ zip [''start'', ''end'', ''text_id'', ''text''] vs @
      [(''speaker'', JInt (dd_local d)), (''speaker_id'', dd_speaker d),
       (''speaker_uncertain'', JBool (dd_uncertain d)), (''decision_reason'', JStr (dd_reason d))])))"

definition direct_turn :: "string list \<Rightarrow> json \<Rightarrow> json \<Rightarrow> (json \<times> json) res" where
  "direct_turn active config turn =
    rbind (decide_turn turn active config) (\<lambda>d. rbind (vitem turn ''turn_id'') (\<lambda>i.
    rbind (direct_turn_doc turn i d) (\<lambda>t. Inr (direct_decision_doc i d, t))))"

definition build_direct_candidate :: "json \<Rightarrow> obj res" where
  "build_direct_candidate evidence =
    rbind (vitem evidence ''turns'') (\<lambda>v. rbind (vitem evidence ''resolved_config'') (\<lambda>config.
    rbind (discover_active_ids v config) (\<lambda>active. rbind (py_iter v) (\<lambda>turns.
    rbind (rmap (direct_turn active config) turns) (\<lambda>xs.
    rbind (float_item evidence ''audio_sec'') (\<lambda>audio_sec.
    rbind (rbind (vitem evidence ''sample_rate'') py_int) (\<lambda>sample_rate.
    Inr [(''schema_version'', JInt 1),
      (''kind'', JStr ''orator_frozen_speaker_candidate''),
      (''candidate_kind'', JStr ''v21_direct_current_interval_voiceprint''),
      (''audio_sec'', JFlt audio_sec), (''sample_rate'', JInt sample_rate),
      (''active_speaker_ids'', JArr (map JStr active)),
      (''turn_count'', JInt (int (length xs))),
      (''decisions'', JArr (map fst xs)), (''track'', JArr (map snd xs))])))))))"

definition command_direct_build :: "json \<Rightarrow> file_identity \<Rightarrow> obj res" where
  "command_direct_build evidence file =
    rbind (vget evidence ''kind'' JNull) (\<lambda>kind.
    raise_if (kind \<noteq> JStr ''orator_frozen_speaker_evidence'')
      (ValueError ''input is not a frozen speaker evidence package'')
    (rbind (build_direct_candidate evidence) (\<lambda>r. Inr (dset ''source'' (file_doc file) r))))"

section \<open>The strong short-phrase candidate\<close>

text \<open>
  \<^verbatim>\<open>speaker_short_phrase_candidate.py\<close>: the same voiceprints and ranking, with one strength of
  source; a turn keeps its identity unless all strong sources name another one.
\<close>

definition strong_source :: "string \<Rightarrow> (string \<times> dbl) list \<Rightarrow> string list \<Rightarrow> json \<Rightarrow> voice_source res" where
  "strong_source name ranked ids config =
    rbind (vitem config ''speaker'') (\<lambda>speaker. rbind (drift_gate speaker [] ranked) (\<lambda>strong.
    Inr \<lparr>vs_name = name, vs_strength = (if strong then Some ''strong'' else None), vs_ranked = ranked, vs_ids = ids\<rparr>))"

definition strong_sources :: "json \<Rightarrow> string list \<Rightarrow> json \<Rightarrow> voice_source list res" where
  "strong_sources turn active config =
    rbind (turn_ranking turn active) (\<lambda>turn_ranked.
    rbind (aggregate_segment_scores turn active) (\<lambda>(segment_ranked, ids).
    rbind (str_item turn ''turn_id'') (\<lambda>i.
    rbind (strong_source ''turn'' turn_ranked [i] config) (\<lambda>a.
    rbind (strong_source ''diar_segment'' segment_ranked ids config) (\<lambda>b. Inr [a, b])))))"

definition strong_identity :: "voice_source list \<Rightarrow> string option \<times> string" where
  "strong_identity sources = (case eligible_sources sources of
     [] \<Rightarrow> (None, ''no_strong_voiceprint'')
   | x # xs \<Rightarrow>
       if \<exists>y \<in> set xs. voice_leader y \<noteq> voice_leader x then (None, ''strong_voiceprint_conflict'')
       else (Some (voice_leader x),
         if length xs = 1 then ''strong_combined_voiceprint'' else ''strong_'' @ vs_name x @ ''_voiceprint''))"

definition decide_short_turn :: "json \<Rightarrow> string list \<Rightarrow> json \<Rightarrow> direct_decision res" where
  "decide_short_turn turn active config =
    rbind (vitem turn ''baseline_output'') (\<lambda>baseline. rbind (vget baseline ''speaker_id'' JNull) (\<lambda>baseline_id.
    rbind (strong_sources turn active config) (\<lambda>sources.
    let (selected, why) = strong_identity sources; changed = (selected \<noteq> None \<and> opt_json selected \<noteq> baseline_id) in
    rbind (rbind (vget baseline ''local_speaker'' (JInt (- 1))) py_int) (\<lambda>local.
    rbind (vget baseline ''speaker_uncertain'' (JBool False)) (\<lambda>uncertain.
    Inr \<lparr>dd_speaker = (if changed then opt_json selected else baseline_id), dd_local = local,
      dd_uncertain = (\<not> changed \<and> truthy uncertain),
      dd_reason = (if \<not> changed then (if baseline_id \<noteq> JNull \<and> why \<noteq> ''no_strong_voiceprint''
                     then ''baseline_voiceprint_confirmed'' else ''baseline_passthrough'')
                   else why @ (if truthy baseline_id then ''_override'' else ''_fill'')),
      dd_changed = changed, dd_baseline = baseline_id, dd_sources = sources\<rparr>)))))"

definition strong_source_doc :: "voice_source \<Rightarrow> json" where
  "strong_source_doc x = JObj [(''name'', JStr (vs_name x)), (''strong'', JBool (vs_strength x \<noteq> None)),
     (''ranked'', JArr (map (\<lambda>(s, v). JArr [JStr s, JFlt v]) (vs_ranked x))),
     (''evidence_ids'', JArr (map JStr (vs_ids x)))]"

definition short_decision_doc :: "json \<Rightarrow> direct_decision \<Rightarrow> json" where
  "short_decision_doc turn_id d = JObj [(''turn_id'', turn_id), (''speaker_id'', dd_speaker d),
     (''local_speaker'', JInt (dd_local d)), (''speaker_uncertain'', JBool (dd_uncertain d)),
     (''reason'', JStr (dd_reason d)), (''changed'', JBool (dd_changed d)), (''baseline_speaker_id'', dd_baseline d),
     (''voiceprint_sources'', JArr (map strong_source_doc (dd_sources d)))]"

definition short_turn :: "string list \<Rightarrow> json \<Rightarrow> json \<Rightarrow> (json \<times> json) res" where
  "short_turn active config turn =
    rbind (decide_short_turn turn active config) (\<lambda>d. rbind (vitem turn ''turn_id'') (\<lambda>i.
    rbind (direct_turn_doc turn i d) (\<lambda>t. Inr (short_decision_doc i d, t))))"

definition build_short_candidate :: "json \<Rightarrow> obj res" where
  "build_short_candidate evidence =
    rbind (vitem evidence ''turns'') (\<lambda>v. rbind (vitem evidence ''resolved_config'') (\<lambda>config.
    rbind (discover_active_ids v config) (\<lambda>active. rbind (py_iter v) (\<lambda>turns.
    rbind (rmap (short_turn active config) turns) (\<lambda>xs.
    rbind (float_item evidence ''audio_sec'') (\<lambda>audio_sec.
    rbind (rbind (vitem evidence ''sample_rate'') py_int) (\<lambda>sample_rate.
    Inr [(''schema_version'', JInt 1),
      (''kind'', JStr ''orator_frozen_speaker_candidate''),
      (''candidate_kind'', JStr ''v21_strong_short_phrase_voiceprint''),
      (''audio_sec'', JFlt audio_sec), (''sample_rate'', JInt sample_rate),
      (''active_speaker_ids'', JArr (map JStr active)),
      (''turn_count'', JInt (int (length xs))),
      (''decisions'', JArr (map fst xs)), (''track'', JArr (map snd xs))])))))))"

definition command_short_build :: "json \<Rightarrow> file_identity \<Rightarrow> obj res" where
  "command_short_build evidence file =
    rbind (vget evidence ''kind'' JNull) (\<lambda>kind.
    raise_if (kind \<noteq> JStr ''orator_frozen_speaker_evidence'')
      (ValueError ''input is not a frozen speaker evidence package'')
    (rbind (build_short_candidate evidence) (\<lambda>r. Inr (dset ''source'' (file_doc file) r))))"

end
