(* ===== verification/Replay_Voiceprint.thy ===== *)
theory Replay_Voiceprint
  imports Phrase_Candidate
begin

text \<open>
  \<^verbatim>\<open>tools/archive/spec013-speaker-candidates/speaker_replay_voiceprint_candidate.py\<close>: one voiceprint
  per replayed business turn, gated by the turn's length, replaces the turn's identity; every other
  field of the turn is kept.  Parsed files, digests and absolute paths are parameters.
\<close>

definition load_replay_policy :: "obj \<Rightarrow> gate_policy res" where
  "load_replay_policy document =
    (let values = dget document ''speaker_fusion'' (JObj []) in
     rbind (absent_fields GATE_FIELDS values) (\<lambda>missing.
     raise_if (missing \<noteq> []) (ValueError (''speaker_fusion missing: '' @ join_with '','' (sort missing)))
       (gates_of values)))"

definition replay_id :: "nat \<Rightarrow> string" where
  "replay_id i = ''business_replay:'' @ int_repr (int i)"

section \<open>Spans\<close>

text \<open>A cell of a written table: None is empty, other values are their \<^verbatim>\<open>str\<close>.\<close>

definition written_cell :: "json \<Rightarrow> string" where
  "written_cell v = (if v = JNull then [] else py_str v)"

definition replay_span_row :: "nat \<times> json \<Rightarrow> string list res" where
  "replay_span_row = (\<lambda>(i, x). rbind (vitem x ''start'') (\<lambda>s. rbind (vitem x ''end'') (\<lambda>e.
     Inr [replay_id i, written_cell s, written_cell e])))"

text \<open>The rows, and the number of turns that is reported.\<close>

definition export_replay_spans :: "json \<Rightarrow> (table \<times> int) res" where
  "export_replay_spans timeline =
    rbind (vget timeline ''kind'' JNull) (\<lambda>kind.
    raise_if (kind \<noteq> JStr ''orator_frozen_speaker_candidate'')
      (ValueError ''timeline is not a frozen speaker candidate'')
    (rbind (vget timeline ''track'' (JArr [])) (\<lambda>track. rbind (py_iter track) (\<lambda>items.
     rbind (rmap replay_span_row (enumerate 0 items)) (\<lambda>rows. rbind (py_len track) (\<lambda>n.
     Inr ([''evidence_id'', ''start_sec'', ''end_sec''] # rows, n)))))))"

section \<open>Evidence\<close>

definition add_replay_voice :: "string list \<Rightarrow> voice_table \<Rightarrow> csv_row \<Rightarrow> voice_table res" where
  "add_replay_voice columns evidence row = rbind (csv_item row ''evidence_id'') (\<lambda>i.
     rbind (row_scores columns row) (\<lambda>scores. rbind (csv_item row ''status'') (\<lambda>status.
     rbind (csv_float row ''duration_sec'') (\<lambda>d.
     Inr (dset i \<lparr>pv_status = status, pv_duration = d, pv_scores = scores\<rparr> evidence)))))"

definition read_replay_voices :: "csv_table \<Rightarrow> voice_table res" where
  "read_replay_voices t = rfold (add_replay_voice (filter (has_prefix ''score_'') (csv_fields t))) [] (csv_rows t)"

text \<open>The gate that a duration falls under: the threshold, the margin, the name.\<close>

definition duration_gate :: "gate_policy \<Rightarrow> dbl \<Rightarrow> dbl \<times> dbl \<times> string" where
  "duration_gate g d = (if d < gp_short_max g then (gp_short_score g, gp_short_margin g, ''short'')
     else (gp_regular_score g, gp_regular_margin g, ''regular''))"

definition replay_identity :: "phrase_voice \<Rightarrow> string list \<Rightarrow> gate_policy \<Rightarrow> selection" where
  "replay_identity v active g =
    (if pv_status v \<noteq> Some ''ok'' then (None, ''insufficient_duration'', [])
     else let ranked = ranked_voices v active in
       if length ranked < 2 then (None, ''incomplete_active_identity_scores'', ranked)
       else let (threshold, margin, gate) = duration_gate g (pv_duration v) in
         if snd (ranked ! 0) < threshold then (None, gate @ ''_score_below_gate'', ranked)
         else if snd (ranked ! 0) - snd (ranked ! 1) < margin then (None, gate @ ''_margin_below_gate'', ranked)
         else (Some (fst (ranked ! 0)), gate @ ''_direct_voiceprint'', ranked))"

section \<open>Decisions\<close>

record replay_decision =
  rd_turn :: json
  rd_evidence :: string
  rd_baseline :: json
  rd_speaker :: json
  rd_changed :: bool
  rd_reason :: string
  rd_ranked :: "(string \<times> dbl) list"

text \<open>\<^verbatim>\<open>id_to_local[selected] if selected in id_to_local else int(item.get("speaker", -1))\<close>.\<close>

definition local_of :: "local_ids \<Rightarrow> json \<Rightarrow> json \<Rightarrow> int res" where
  "local_of id_to_local selected x = (case selected of
     JArr _ \<Rightarrow> Inl TypeError | JObj _ \<Rightarrow> Inl TypeError
   | JStr s \<Rightarrow> (case map_of id_to_local s of Some n \<Rightarrow> Inr n
       | None \<Rightarrow> rbind (vget x ''speaker'' (JInt (- 1))) py_int)
   | _ \<Rightarrow> rbind (vget x ''speaker'' (JInt (- 1))) py_int)"

definition replay_reason :: "string option \<Rightarrow> string \<Rightarrow> bool \<Rightarrow> string" where
  "replay_reason selected reason changed =
    (if selected = None then ''baseline_'' @ reason else if changed then reason @ ''_override''
     else ''baseline_confirmed_'' @ reason)"

text \<open>\<^verbatim>\<open>output.update({...})\<close> on a copy of the turn.\<close>

definition relabelled :: "int \<Rightarrow> json \<Rightarrow> bool \<Rightarrow> string \<Rightarrow> obj \<Rightarrow> obj" where
  "relabelled speaker selected uncertain reason d =
    dset ''decision_reason'' (JStr reason) (dset ''speaker_uncertain'' (JBool uncertain)
      (dset ''speaker_id'' selected (dset ''speaker'' (JInt speaker) d)))"

definition replay_turn ::
  "voice_table \<Rightarrow> gate_policy \<Rightarrow> string list \<Rightarrow> local_ids \<Rightarrow> nat \<times> json \<Rightarrow> (obj \<times> replay_decision) res" where
  "replay_turn evidence g active id_to_local = (\<lambda>(i, x).
    rbind (ditem evidence (Some (replay_id i)) (ValueError (''missing TitaNet evidence '' @ replay_id i))) (\<lambda>v.
    let (selected, reason, ranked) = replay_identity v active g in
    rbind (vget x ''speaker_id'' JNull) (\<lambda>baseline.
    let changed = (selected \<noteq> None \<and> opt_json selected \<noteq> baseline);
        identity = (if selected = None then baseline else opt_json selected);
        why = replay_reason selected reason changed in
    rbind (local_of id_to_local identity x) (\<lambda>speaker.
    rbind (vget x ''speaker_uncertain'' (JBool False)) (\<lambda>uncertain.
    rbind (vdict x) (\<lambda>d. rbind (vget x ''turn_id'' (JStr (replay_id i))) (\<lambda>turn_id.
    Inr (relabelled speaker identity (\<not> changed \<and> truthy uncertain) why d,
      \<lparr>rd_turn = turn_id, rd_evidence = replay_id i, rd_baseline = baseline, rd_speaker = identity,
       rd_changed = changed, rd_reason = why, rd_ranked = ranked\<rparr>))))))))"

record replay_result =
  rt_active :: "string list"
  rt_audio_sec :: dbl
  rt_sample_rate :: int
  rt_decisions :: "replay_decision list"
  rt_track :: "obj list"

definition build_replay_candidate :: "json \<Rightarrow> voice_table \<Rightarrow> json \<Rightarrow> gate_policy \<Rightarrow> replay_result res" where
  "build_replay_candidate timeline evidence manifest g =
    rbind (local_mapping manifest) (\<lambda>mapping.
    let active = sort (remdups (map snd mapping)) in
    rbind (rbind (vget timeline ''track'' (JArr [])) py_iter) (\<lambda>items.
    rbind (rmap (replay_turn evidence g active (invert_mapping mapping)) (enumerate 0 items)) (\<lambda>xs.
    rbind (float_item timeline ''audio_sec'') (\<lambda>audio_sec.
    rbind (rbind (vitem timeline ''sample_rate'') py_int) (\<lambda>sample_rate.
    Inr \<lparr>rt_active = active, rt_audio_sec = audio_sec, rt_sample_rate = sample_rate,
         rt_decisions = map snd xs, rt_track = map fst xs\<rparr>)))))"

section \<open>Documents\<close>

definition replay_decision_doc :: "replay_decision \<Rightarrow> json" where
  "replay_decision_doc d = JObj [(''turn_id'', rd_turn d), (''evidence_id'', JStr (rd_evidence d)),
     (''baseline_speaker_id'', rd_baseline d), (''speaker_id'', rd_speaker d), (''changed'', JBool (rd_changed d)),
     (''reason'', JStr (rd_reason d)), (''ranked'', ranked_doc (rd_ranked d))]"

definition replay_result_doc :: "replay_result \<Rightarrow> obj" where
  "replay_result_doc r =
     [(''schema_version'', JInt 1),
      (''kind'', JStr ''orator_frozen_speaker_candidate''),
      (''candidate_kind'', JStr ''v21_replay_interval_direct_voiceprint''),
      (''audio_sec'', JFlt (rt_audio_sec r)),
      (''sample_rate'', JInt (rt_sample_rate r)),
      (''active_speaker_ids'', JArr (map JStr (rt_active r))),
      (''turn_count'', JInt (int (length (rt_track r)))),
      (''decisions'', JArr (map replay_decision_doc (rt_decisions r))),
      (''track'', JArr (map JObj (rt_track r)))]"

definition command_replay_build ::
  "json \<Rightarrow> csv_table \<Rightarrow> json \<Rightarrow> obj \<Rightarrow> (string \<times> file_identity) list \<Rightarrow> obj res" where
  "command_replay_build timeline titanet manifest config files =
    rbind (read_replay_voices titanet) (\<lambda>evidence.
    rbind (load_replay_policy config) (\<lambda>g.
    rbind (build_replay_candidate timeline evidence manifest g) (\<lambda>r.
    Inr (dset ''sources'' (sources_doc files) (replay_result_doc r)))))"

end
