(* ===== verification/Direct_Properties.thy ===== *)
theory Direct_Properties
  imports Direct_Fusion Replay_Voiceprint Clause_Properties
begin

text \<open>
  The direct fusion changes a turn only to the identity on which all its eligible voiceprint
  sources agree; the replay candidate changes four fields of a turn and no other.
\<close>

section \<open>Direct fusion\<close>

text \<open>
  The two sources of a turn, read from its JSON.  Its own voiceprint counts if its status is ok, with
  the scores of the active identities.  The voiceprints of its diarization segments are pooled: of
  the segments with status ok, a score for every active identity and an overlap, each identity gets
  the mean of its scores weighted by the overlaps.
\<close>

definition own_scores :: "json \<Rightarrow> string list \<Rightarrow> (string \<times> dbl) list \<Rightarrow> bool" where
  "own_scores turn active xs \<longleftrightarrow> (\<exists>evidence status. vitem turn ''titanet'' = Inr evidence \<and>
     vget evidence ''status'' JNull = Inr status \<and>
     (if status = JStr ''ok''
      then \<exists>scores. vget evidence ''scores'' (JObj []) = Inr (JObj scores) \<and>
        list_all2 (\<lambda>(s, v) (t, x). t = s \<and> py_float v = Inr x) (filter (\<lambda>(s, _). s \<in> set active) scores) xs
      else xs = []))"

lemma own_scores_members: "(s, x) \<in> set xs \<Longrightarrow> own_scores turn active xs \<Longrightarrow> s \<in> set active"
proof -
  have gen: "list_all2 (\<lambda>(s, v) (t, x). t = s \<and> py_float v = Inr x) ys zs \<Longrightarrow> \<forall>(s, _) \<in> set ys. s \<in> A \<Longrightarrow>
      \<forall>(s, _) \<in> set zs. s \<in> A" for ys :: obj and zs A
    by (induction rule: list_all2_induct) auto
  assume "(s, x) \<in> set xs" "own_scores turn active xs"
  moreover from this(2) have "xs = [] \<or> (\<exists>d :: obj. list_all2 (\<lambda>(s, v) (t, x). t = s \<and> py_float v = Inr x)
      (filter (\<lambda>(s, _). s \<in> set active) d) xs)"
    unfolding own_scores_def by (metis (no_types, lifting))
  ultimately obtain d :: obj where d: "list_all2 (\<lambda>(s, v) (t, x). t = s \<and> py_float v = Inr x)
      (filter (\<lambda>(s, _). s \<in> set active) d) xs" by auto
  from gen[OF d, of "set active"] \<open>(s, x) \<in> set xs\<close> show ?thesis by auto
qed

definition pooled_segment :: "string list \<Rightarrow> json \<Rightarrow> bool" where
  "pooled_segment active segment \<longleftrightarrow> (\<exists>evidence scores names overlap. vitem segment ''titanet'' = Inr evidence \<and>
     vget evidence ''status'' JNull = Inr (JStr ''ok'') \<and> vget evidence ''scores'' (JObj []) = Inr scores \<and>
     name_set scores = Inr names \<and> set active \<subseteq> set names \<and>
     float_item segment ''overlap_sec'' = Inr overlap \<and> EPSILON < overlap)"

definition segment_overlap :: "json \<Rightarrow> dbl" where
  "segment_overlap segment = projr (float_item segment ''overlap_sec'')"

definition segment_score :: "json \<Rightarrow> string \<Rightarrow> dbl" where
  "segment_score segment s = projr (rbind (vitem segment ''titanet'') (\<lambda>evidence.
     rbind (vget evidence ''scores'' (JObj [])) (\<lambda>scores. float_item scores s)))"

definition pooled_scores :: "json \<Rightarrow> string list \<Rightarrow> (string \<times> dbl) list \<Rightarrow> bool" where
  "pooled_scores turn active xs \<longleftrightarrow> (\<exists>segments. rbind (vitem turn ''diar_segments'') py_iter = Inr segments \<and>
     (let used = filter (pooled_segment active) segments;
          total = foldl (\<lambda>a g. a + segment_overlap g) 0 used in
      xs = (if total \<le> EPSILON then []
        else map (\<lambda>s. (s, foldl (\<lambda>a g. a + segment_overlap g * segment_score g s) 0 used / total)) active)))"

text \<open>
  An identity leads scores: at least two entries, its own reaches the threshold, and every other one
  is lower (on a tie later in the alphabet) and behind it by the margin.
\<close>

definition scores_lead :: "dbl \<Rightarrow> dbl \<Rightarrow> (string \<times> dbl) list \<Rightarrow> string \<Rightarrow> bool" where
  "scores_lead threshold margin xs s \<longleftrightarrow> (\<exists>x others. mset xs = add_mset (s, x) (mset others) \<and> others \<noteq> [] \<and>
     threshold \<le> x \<and> (\<forall>(t, y) \<in> set others. (y < x \<or> y = x \<and> s \<le> t) \<and> margin \<le> x - y))"

lemma gate_leads:
  "score_gate (sort_key voice_rank xs) threshold margin \<and> fst (sort_key voice_rank xs ! 0) = s
     \<longleftrightarrow> scores_lead threshold margin xs s" (is "?gate \<longleftrightarrow> ?lead")
proof
  assume gate: ?gate
  then have "Suc (Suc 0) \<le> length (sort_key voice_rank xs)" by (simp add: score_gate_def)
  then obtain p q rest where pq: "sort_key voice_rank xs = p # q # rest" by (metis Suc_le_length_iff)
  have "mset xs = mset (p # q # rest)" unfolding pq[symmetric] by simp
  then have "mset xs = add_mset (s, snd p) (mset (q # rest))" using gate pq by (cases p) simp
  moreover have "(y < snd p \<or> y = snd p \<and> s \<le> t) \<and> margin \<le> snd p - y" if "(t, y) \<in> set (q # rest)" for t y
  proof -
    note o = ranking_sorted[OF pq that]
    have "snd p - snd q \<le> snd p - y" using o(2) by (intro dbl_diff_mono) simp_all
    moreover have "margin \<le> snd p - snd q" "fst p = s" using gate pq by (simp_all add: score_gate_def)
    ultimately show ?thesis using o(1) by auto
  qed
  ultimately show ?lead using gate pq unfolding scores_lead_def score_gate_def
    by (intro exI[of _ "snd p"] exI[of _ "q # rest"]) auto
next
  assume ?lead
  then obtain x others where xs: "mset xs = add_mset (s, x) (mset others)" "others \<noteq> []" "threshold \<le> x"
    and best: "\<And>t y. (t, y) \<in> set others \<Longrightarrow> (y < x \<or> y = x \<and> s \<le> t) \<and> margin \<le> x - y"
    unfolding scores_lead_def by blast
  have neg: "- a < - b \<longleftrightarrow> b < a" "- a = - b \<longleftrightarrow> a = b" for a b :: dbl by (transfer, simp)+
  have first: "voice_rank (s, x) \<le> voice_rank z" if "z \<in> set others" for z
    using best[of "fst z" "snd z"] that by (auto simp: voice_rank_def case_prod_unfold less_eq_prod_def neg)
  have inj: "inj voice_rank" by (rule injI) (auto simp: voice_rank_def case_prod_unfold neg prod_eq_iff)
  let ?others = "sort_key voice_rank others"
  have "sort_key voice_rank xs = (s, x) # ?others"
  proof (rule sort_key_inj_key_eq)
    show "mset xs = mset ((s, x) # ?others)" using xs(1) by simp
    show "sorted (map voice_rank ((s, x) # ?others))" using first by simp
    show "inj_on voice_rank (set xs)" using inj by (rule inj_on_subset) simp
  qed
  moreover from xs(2) obtain q rest where q: "?others = q # rest"
    by (cases ?others) (metis mset.simps(1) mset_sort mset_zero_iff, blast)
  then have "q \<in> set ?others" by simp
  then have "margin \<le> x - snd q" using best[of "fst q" "snd q"] by simp
  ultimately show ?gate using xs(3) by (simp add: score_gate_def q)
qed

text \<open>The fold over the segments computes the weighted sums.\<close>

lemma pool_step:
  assumes "pool_segment active (totals, w, ids) segment = Inr (totals', w', ids')"
  shows "if pooled_segment active segment
    then totals' = map2 (\<lambda>s a. a + segment_overlap segment * segment_score segment s) active totals \<and>
      w' = w + segment_overlap segment
    else totals' = totals \<and> w' = w"
proof -
  from assms obtain evidence scores status where ev: "vitem segment ''titanet'' = Inr evidence"
    "vget evidence ''scores'' (JObj []) = Inr scores" "vget evidence ''status'' JNull = Inr status"
    by (auto simp: pool_segment_def status_ok_def rbind_Inr_iff)
  show ?thesis
  proof (cases "pooled_segment active segment")
    case True
    with ev assms obtain overlap ys i where o: "float_item segment ''overlap_sec'' = Inr overlap"
      and ys: "rmap (float_item scores) active = Inr ys" and t: "totals' = map2 (\<lambda>a x. a + overlap * x) totals ys"
      "w' = w + overlap"
      by (auto simp: pool_segment_def status_ok_def pooled_segment_def rbind_Inr_iff split: if_splits)
    have "ys = map (segment_score segment) active"
      using rmap_projr[OF ys] by (simp add: segment_score_def[abs_def] ev)
    then have "totals' = map2 (\<lambda>s a. a + segment_overlap segment * segment_score segment s) active totals"
      unfolding t(1) by (intro nth_equalityI) (simp_all add: segment_overlap_def o)
    with True t(2) o show ?thesis by (simp add: segment_overlap_def)
  next
    case False
    with ev assms show ?thesis
      by (auto simp: pool_segment_def status_ok_def pooled_segment_def rbind_Inr_iff not_le split: if_splits)
  qed
qed

lemma pool_fold:
  assumes "rfold (pool_segment active) (totals, w, ids) segments = Inr (totals', w', ids')" "length totals = length active"
  shows "totals' = map2 (\<lambda>s a. foldl (\<lambda>a g. a + segment_overlap g * segment_score g s) a
      (filter (pooled_segment active) segments)) active totals \<and>
    w' = foldl (\<lambda>a g. a + segment_overlap g) w (filter (pooled_segment active) segments)"
  using assms
proof (induction segments arbitrary: totals w ids)
  case Nil
  then show ?case by (auto intro: nth_equalityI)
next
  case (Cons g gs)
  then obtain totals1 w1 ids1 where step: "pool_segment active (totals, w, ids) g = Inr (totals1, w1, ids1)"
    and run: "rfold (pool_segment active) (totals1, w1, ids1) gs = Inr (totals', w', ids')"
    by (auto simp: rbind_Inr_iff)
  note s = pool_step[OF step]
  have "length totals1 = length active" using s Cons.prems(2) by (auto split: if_splits)
  from Cons.IH[OF run this] s show ?case by (auto intro!: nth_equalityI simp: Cons.prems(2) split: if_splits)
qed

lemma aggregate_pooled:
  assumes "aggregate_segment_scores turn active = Inr (ranked, ids)"
  obtains xs where "pooled_scores turn active xs" "ranked = sort_key voice_rank xs"
proof -
  from assms obtain segments totals w ids' where
    segs: "rbind (vitem turn ''diar_segments'') py_iter = Inr segments"
    and fold: "rfold (pool_segment active) (map (\<lambda>_. 0) active, 0, []) segments = Inr (totals, w, ids')"
    and out: "ranked = (if w \<le> EPSILON then [] else sort_key voice_rank (map2 (\<lambda>s x. (s, x / w)) active totals))"
    unfolding aggregate_segment_scores_def rbind_Inr_iff[of "rbind (vitem turn ''diar_segments'') py_iter"]
      rbind_Inr_iff[of "rfold _ _ _"] by (auto split: if_splits)
  let ?used = "filter (pooled_segment active) segments"
  from pool_fold[OF fold] have t: "totals = map2 (\<lambda>s a. foldl (\<lambda>a g. a + segment_overlap g * segment_score g s) a ?used)
      active (map (\<lambda>_. 0) active)" and w: "w = foldl (\<lambda>a g. a + segment_overlap g) 0 ?used" by simp_all
  have "map2 (\<lambda>s x. (s, x / w)) active totals
      = map (\<lambda>s. (s, foldl (\<lambda>a g. a + segment_overlap g * segment_score g s) 0 ?used / w)) active"
    unfolding t by (intro nth_equalityI) simp_all
  with out segs w that show ?thesis unfolding pooled_scores_def Let_def by (cases "w \<le> EPSILON") auto
qed

lemma turn_ranking_own:
  assumes "turn_ranking turn active = Inr ranked"
  obtains xs where "own_scores turn active xs" "ranked = sort_key voice_rank xs"
proof -
  from assms obtain evidence status where ev: "vitem turn ''titanet'' = Inr evidence" "vget evidence ''status'' JNull = Inr status"
    and r: "(if status = JStr ''ok'' then rbind (vget evidence ''scores'' (JObj [])) (\<lambda>s. rank_scores s (Some active))
      else Inr []) = Inr ranked"
    by (auto simp: turn_ranking_def status_ok_def rbind_Inr_iff)
  show ?thesis
  proof (cases "status = JStr ''ok''")
    case True
    with r obtain v d xs where v: "vget evidence ''scores'' (JObj []) = Inr v" "vdict v = Inr d"
      "rmap (\<lambda>(s, v). rbind (py_float v) (\<lambda>x. Inr (s, x))) (filter (\<lambda>(s, _). s \<in> set active) d) = Inr xs"
      "ranked = sort_key voice_rank xs"
      by (auto simp: rank_scores_def rbind_Inr_iff)
    have "v = JObj d" using v(2) by (cases v) simp_all
    moreover have "list_all2 (\<lambda>(s, v) (t, x). t = s \<and> py_float v = Inr x) (filter (\<lambda>(s, _). s \<in> set active) d) xs"
      using v(3) unfolding rmap_Inr_iff by (rule list_all2_mono) (auto simp: rbind_Inr_iff)
    ultimately have "own_scores turn active xs" using ev v(1) True by (auto simp: own_scores_def)
    then show ?thesis using v(4) by (rule that)
  next
    case False
    with r ev that[of "[]"] show ?thesis by (simp add: own_scores_def)
  qed
qed

lemma source_leads:
  assumes "source_record name (sort_key voice_rank xs) ids config = Inr x" "vitem config ''speaker'' = Inr speaker"
    and "float_item speaker ''local_drift_competing_threshold'' = Inr t1"
      "float_item speaker ''local_drift_competing_margin'' = Inr m1"
      "float_item speaker ''local_drift_competing_candidate_threshold'' = Inr t2"
      "float_item speaker ''local_drift_competing_candidate_margin'' = Inr m2"
  shows "x \<in> set (eligible_sources [x]) \<and> voice_leader x = s \<longleftrightarrow> scores_lead t1 m1 xs s \<or> scores_lead t2 m2 xs s"
proof -
  from assms have "vs_ranked x = sort_key voice_rank xs"
    "vs_strength x \<noteq> None \<longleftrightarrow> score_gate (sort_key voice_rank xs) t1 m1 \<or> score_gate (sort_key voice_rank xs) t2 m2"
    by (auto simp: source_record_def drift_gate_def rbind_Inr_iff split: if_splits)
  then show ?thesis unfolding gate_leads[symmetric] by (auto simp: eligible_sources_def voice_leader_def)
qed

lemma direct_identity_iff:
  "fst (direct_identity sources) = Some s \<longleftrightarrow> voice_leader ` set (eligible_sources sources) = {s}"
proof (cases "eligible_sources sources")
  case (Cons x xs)
  then show ?thesis by (auto simp: direct_identity_def)
qed (simp add: direct_identity_def)

text \<open>
  C36: a decision of the direct fusion, from the turn and the configuration. The sources are the
  scores of the turn's own voiceprint and the pooled scores of its diarization segments; an
  identity leads the turn if it leads one of the two by the strong or by the candidate threshold and
  margin of the configuration. If exactly one identity leads, it is active and the decision has it,
  and the turn is changed if this is not the identity of its baseline output, and is then certain.
  If none or several lead, the decision keeps the identity of the baseline output.
\<close>

theorem direct_change_unanimous:
  assumes "decide_turn turn active config = Inr d"
  shows "\<exists>own pooled baseline identity speaker t1 m1 t2 m2.
    own_scores turn active own \<and> pooled_scores turn active pooled \<and>
    vitem turn ''baseline_output'' = Inr baseline \<and> vget baseline ''speaker_id'' JNull = Inr identity \<and>
    vitem config ''speaker'' = Inr speaker \<and>
    float_item speaker ''local_drift_competing_threshold'' = Inr t1 \<and>
    float_item speaker ''local_drift_competing_margin'' = Inr m1 \<and>
    float_item speaker ''local_drift_competing_candidate_threshold'' = Inr t2 \<and>
    float_item speaker ''local_drift_competing_candidate_margin'' = Inr m2 \<and>
    (let leaders = {s. \<exists>xs \<in> {own, pooled}. scores_lead t1 m1 xs s \<or> scores_lead t2 m2 xs s} in
      leaders \<subseteq> set active \<and>
      (\<forall>s. leaders = {s} \<longrightarrow> dd_speaker d = JStr s) \<and>
      ((\<nexists>s. leaders = {s}) \<longrightarrow> dd_speaker d = identity) \<and>
      (dd_changed d \<longleftrightarrow> (\<exists>s. leaders = {s} \<and> identity \<noteq> JStr s)) \<and> (dd_changed d \<longrightarrow> \<not> dd_uncertain d))"
proof -
  from assms obtain baseline identity sources selected u where
    base: "vitem turn ''baseline_output'' = Inr baseline" "vget baseline ''speaker_id'' JNull = Inr identity"
    and src: "voice_sources turn active config = Inr sources" "fst (direct_identity sources) = selected"
    and d: "dd_changed d = (selected \<noteq> None \<and> opt_json selected \<noteq> identity)"
      "dd_speaker d = (if selected = None then identity else opt_json selected)"
      "dd_uncertain d = (\<not> dd_changed d \<and> truthy u)"
    by (auto simp: decide_turn_def rbind_Inr_iff Let_def case_prod_beta)
  from src(1) obtain tr sr ids i a b where
    r: "turn_ranking turn active = Inr tr" "aggregate_segment_scores turn active = Inr (sr, ids)"
    and ab: "sources = [a, b]" "source_record ''turn'' tr [i] config = Inr a" "source_record ''diar_segment'' sr ids config = Inr b"
    by (auto simp: voice_sources_def rbind_Inr_iff)
  obtain own where own: "own_scores turn active own" "tr = sort_key voice_rank own" by (rule turn_ranking_own[OF r(1)])
  obtain pooled where pooled: "pooled_scores turn active pooled" "sr = sort_key voice_rank pooled"
    by (rule aggregate_pooled[OF r(2)])
  from ab(2) obtain speaker t1 m1 t2 m2 where cfg: "vitem config ''speaker'' = Inr speaker"
    "float_item speaker ''local_drift_competing_threshold'' = Inr t1"
    "float_item speaker ''local_drift_competing_margin'' = Inr m1"
    "float_item speaker ''local_drift_competing_candidate_threshold'' = Inr t2"
    "float_item speaker ''local_drift_competing_candidate_margin'' = Inr m2"
    by (auto simp: source_record_def drift_gate_def rbind_Inr_iff)
  let ?leaders = "{s. \<exists>xs \<in> {own, pooled}. scores_lead t1 m1 xs s \<or> scores_lead t2 m2 xs s}"
  note lead = source_leads[OF ab(2)[unfolded own(2)] cfg] source_leads[OF ab(3)[unfolded pooled(2)] cfg]
  have "s \<in> ?leaders \<longleftrightarrow> s \<in> voice_leader ` set (eligible_sources sources)" for s
    using lead[of s] by (auto simp: ab(1) eligible_sources_def split: if_splits)
  then have eq: "voice_leader ` set (eligible_sources sources) = ?leaders" by blast
  have sel: "selected = Some s \<longleftrightarrow> ?leaders = {s}" for s
    using direct_identity_iff[of sources s] src(2) unfolding eq by simp
  have members: "s \<in> set active" if "xs \<in> {own, pooled}" "(s, x) \<in> set xs" for xs s x
  proof (cases "xs = pooled")
    case True
    with pooled(1) that(2) show ?thesis by (auto simp: pooled_scores_def Let_def split: if_splits)
  next
    case False
    with that have "(s, x) \<in> set own" by simp
    with own(1) show ?thesis by (rule own_scores_members[rotated])
  qed
  have "?leaders \<subseteq> set active"
  proof
    fix s assume "s \<in> ?leaders"
    then obtain xs x others where xs: "xs \<in> {own, pooled}" "mset xs = add_mset (s, x) (mset others)"
      unfolding scores_lead_def by blast
    from arg_cong[OF xs(2), of set_mset] have "(s, x) \<in> set xs" by simp
    with xs(1) show "s \<in> set active" by (rule members)
  qed
  moreover have "(\<forall>s. ?leaders = {s} \<longrightarrow> dd_speaker d = JStr s) \<and> ((\<nexists>s. ?leaders = {s}) \<longrightarrow> dd_speaker d = identity)"
    unfolding sel[symmetric] d(2) by (cases selected) (simp_all add: opt_json_def)
  moreover have "dd_changed d \<longleftrightarrow> (\<exists>s. ?leaders = {s} \<and> identity \<noteq> JStr s)"
    unfolding d(1) sel[symmetric] by (cases selected) (auto simp: opt_json_def)
  moreover have "dd_changed d \<longrightarrow> \<not> dd_uncertain d" by (simp add: d(3))
  ultimately have leaders: "let leaders = ?leaders in leaders \<subseteq> set active \<and>
      (\<forall>s. leaders = {s} \<longrightarrow> dd_speaker d = JStr s) \<and> ((\<nexists>s. leaders = {s}) \<longrightarrow> dd_speaker d = identity) \<and>
      (dd_changed d \<longleftrightarrow> (\<exists>s. leaders = {s} \<and> identity \<noteq> JStr s)) \<and> (dd_changed d \<longrightarrow> \<not> dd_uncertain d)"
    unfolding Let_def by (intro conjI) (assumption | erule conjunct1 | erule conjunct2)+
  show ?thesis
    by (rule exI[of _ own], rule exI[of _ pooled], rule exI[of _ baseline], rule exI[of _ identity], rule exI[of _ speaker],
        rule exI[of _ t1], rule exI[of _ m1], rule exI[of _ t2], rule exI[of _ m2])
      (intro conjI own(1) pooled(1) base cfg leaders)
qed

text \<open>The short-phrase candidate decides the same way, by the strong threshold and margin alone.\<close>

lemma strong_source_leads:
  assumes "strong_source name (sort_key voice_rank xs) ids config = Inr x" "vitem config ''speaker'' = Inr speaker"
    and "float_item speaker ''local_drift_competing_threshold'' = Inr t"
      "float_item speaker ''local_drift_competing_margin'' = Inr m"
  shows "x \<in> set (eligible_sources [x]) \<and> voice_leader x = s \<longleftrightarrow> scores_lead t m xs s"
proof -
  from assms have "vs_ranked x = sort_key voice_rank xs" "vs_strength x \<noteq> None \<longleftrightarrow> score_gate (sort_key voice_rank xs) t m"
    by (auto simp: strong_source_def drift_gate_def rbind_Inr_iff split: if_splits)
  then show ?thesis unfolding gate_leads[symmetric] by (auto simp: eligible_sources_def voice_leader_def)
qed

lemma strong_identity_iff:
  "fst (strong_identity sources) = Some s \<longleftrightarrow> voice_leader ` set (eligible_sources sources) = {s}"
proof (cases "eligible_sources sources")
  case (Cons x xs)
  then show ?thesis by (auto simp: strong_identity_def)
qed (simp add: strong_identity_def)

lemma short_change_unanimous:
  assumes "decide_short_turn turn active config = Inr d"
  shows "\<exists>own pooled baseline identity speaker t m. own_scores turn active own \<and> pooled_scores turn active pooled \<and>
    vitem turn ''baseline_output'' = Inr baseline \<and> vget baseline ''speaker_id'' JNull = Inr identity \<and>
    vitem config ''speaker'' = Inr speaker \<and>
    float_item speaker ''local_drift_competing_threshold'' = Inr t \<and>
    float_item speaker ''local_drift_competing_margin'' = Inr m \<and>
    (\<forall>s. {s. scores_lead t m own s \<or> scores_lead t m pooled s} = {s} \<longrightarrow> dd_speaker d = JStr s) \<and>
    ((\<nexists>s. {s. scores_lead t m own s \<or> scores_lead t m pooled s} = {s}) \<longrightarrow> dd_speaker d = identity)"
proof -
  from assms obtain baseline identity sources selected where
    base: "vitem turn ''baseline_output'' = Inr baseline" "vget baseline ''speaker_id'' JNull = Inr identity"
    and src: "strong_sources turn active config = Inr sources" "fst (strong_identity sources) = selected"
    and d: "dd_speaker d = (if selected \<noteq> None \<and> opt_json selected \<noteq> identity then opt_json selected else identity)"
    by (auto simp: decide_short_turn_def rbind_Inr_iff Let_def case_prod_beta)
  from src(1) obtain tr sr ids i a b where
    r: "turn_ranking turn active = Inr tr" "aggregate_segment_scores turn active = Inr (sr, ids)"
    and ab: "sources = [a, b]" "strong_source ''turn'' tr [i] config = Inr a" "strong_source ''diar_segment'' sr ids config = Inr b"
    by (auto simp: strong_sources_def rbind_Inr_iff)
  obtain own where own: "own_scores turn active own" "tr = sort_key voice_rank own" by (rule turn_ranking_own[OF r(1)])
  obtain pooled where pooled: "pooled_scores turn active pooled" "sr = sort_key voice_rank pooled"
    by (rule aggregate_pooled[OF r(2)])
  from ab(2) obtain speaker t m where cfg: "vitem config ''speaker'' = Inr speaker"
    "float_item speaker ''local_drift_competing_threshold'' = Inr t" "float_item speaker ''local_drift_competing_margin'' = Inr m"
    by (auto simp: strong_source_def drift_gate_def rbind_Inr_iff)
  let ?leaders = "{s. scores_lead t m own s \<or> scores_lead t m pooled s}"
  note lead = strong_source_leads[OF ab(2)[unfolded own(2)] cfg] strong_source_leads[OF ab(3)[unfolded pooled(2)] cfg]
  have "s \<in> ?leaders \<longleftrightarrow> s \<in> voice_leader ` set (eligible_sources sources)" for s
    using lead[of s] by (auto simp: ab(1) eligible_sources_def split: if_splits)
  then have eq: "voice_leader ` set (eligible_sources sources) = ?leaders" by blast
  have sel: "selected = Some s \<longleftrightarrow> ?leaders = {s}" for s
    using strong_identity_iff[of sources s] src(2) unfolding eq by simp
  have "(\<forall>s. ?leaders = {s} \<longrightarrow> dd_speaker d = JStr s) \<and> ((\<nexists>s. ?leaders = {s}) \<longrightarrow> dd_speaker d = identity)"
    unfolding sel[symmetric] d by (cases selected) (auto simp: opt_json_def)
  note leaders = conjunct1[OF this] conjunct2[OF this]
  show ?thesis
    by (rule exI[of _ own], rule exI[of _ pooled], rule exI[of _ baseline], rule exI[of _ identity], rule exI[of _ speaker],
        rule exI[of _ t], rule exI[of _ m])
      (intro conjI own(1) pooled(1) base cfg leaders)
qed

section \<open>Replay voiceprints\<close>

definition replaced_fields :: "string list" where
  "replaced_fields = [''speaker'', ''speaker_id'', ''speaker_uncertain'', ''decision_reason'']"

text \<open>The other fields of a turn, in their order.\<close>

definition other_fields :: "obj \<Rightarrow> obj" where
  "other_fields d = filter (\<lambda>(k, _). k \<notin> set replaced_fields) d"

lemma other_fields_dset: "k \<in> set replaced_fields \<Longrightarrow> other_fields (dset k v d) = other_fields d"
  by (induction d) (auto simp: other_fields_def)

lemma relabelled_fields:
  "other_fields (relabelled n i u w d) = other_fields d" "get (relabelled n i u w d) ''speaker_id'' = i"
  "get (relabelled n i u w d) ''speaker'' = JInt n" "get (relabelled n i u w d) ''speaker_uncertain'' = JBool u"
  by (simp_all add: relabelled_def other_fields_dset replaced_fields_def get_def dget_def)

lemma replay_selected:
  assumes "fst (replay_identity v active g) = Some s" shows "s \<in> set active"
proof -
  from assms have r: "2 \<le> length (ranked_voices v active)" "s = fst (ranked_voices v active ! 0)"
    by (auto simp: replay_identity_def Let_def split: if_splits prod.splits)
  then have "ranked_voices v active ! 0 \<in> set (ranked_voices v active)" by (intro nth_mem) linarith
  with r(2) show ?thesis by (metis prod.collapse ranked_voices_active)
qed

text \<open>A mapped identity has its slot; what a turn of the result keeps, and what its decision says of it.\<close>

definition slot_agrees :: "local_ids \<Rightarrow> json \<Rightarrow> json \<Rightarrow> bool" where
  "slot_agrees ids speaker local = (case speaker of
     JStr s \<Rightarrow> (case map_of ids s of None \<Rightarrow> True | Some n \<Rightarrow> local = JInt n) | _ \<Rightarrow> True)"

definition replayed :: "string list \<Rightarrow> local_ids \<Rightarrow> json \<Rightarrow> obj \<times> replay_decision \<Rightarrow> bool" where
  "replayed active ids x = (\<lambda>(t, d). (case x of JObj source \<Rightarrow> other_fields t = other_fields source \<and>
       rd_baseline d = get source ''speaker_id'' | _ \<Rightarrow> False) \<and>
     get t ''speaker_id'' = rd_speaker d \<and>
     slot_agrees ids (rd_speaker d) (get t ''speaker'') \<and>
     (if rd_changed d then get t ''speaker_uncertain'' = JBool False \<and> list_ex (\<lambda>s. rd_speaker d = JStr s) active
      else rd_speaker d = rd_baseline d))"

lemma replay_turn_replayed:
  assumes "replay_turn evidence g active ids (i, x) = Inr (t, d)" shows "replayed active ids x (t, d)"
proof -
  from assms obtain v selected baseline identity changed n u why source where
    v: "fst (replay_identity v active g) = selected" "vget x ''speaker_id'' JNull = Inr baseline"
      "identity = (if selected = None then baseline else opt_json selected)"
      "changed = (selected \<noteq> None \<and> opt_json selected \<noteq> baseline)"
      "local_of ids identity x = Inr n" "vdict x = Inr source"
    and t: "t = relabelled n identity (\<not> changed \<and> truthy u) why source"
    and d: "rd_baseline d = baseline" "rd_speaker d = identity" "rd_changed d = changed"
    by (auto simp: replay_turn_def rbind_Inr_iff Let_def case_prod_beta)
  have x: "x = JObj source" "baseline = get source ''speaker_id''" using v(2,6) by (cases x; simp add: get_def)+
  have slot: "slot_agrees ids identity (JInt n)"
    using v(5) by (cases identity) (auto simp: local_of_def slot_agrees_def split: option.splits)
  have who: "s \<in> set active" if "selected = Some s" for s using replay_selected[of v active g s] v(1) that by simp
  show ?thesis
    using v(3,4) d who x slot
    by (cases selected) (auto simp: replayed_def t relabelled_fields list_ex_iff opt_json_def)
qed

text \<open>
  C37: the replay candidate has one turn for every turn of the timeline, with all fields but four
  unchanged and in their order; a changed turn has an active identity and is certain, any other
  keeps its identity, and the local slot of a mapped identity is the mapped one.
\<close>

theorem replay_keeps_fields:
  assumes build: "build_replay_candidate timeline evidence manifest g = Inr r"
    and items: "rbind (vget timeline ''track'' (JArr [])) py_iter = Inr items"
    and mapping: "local_mapping manifest = Inr mapping"
  shows "list_all2 (replayed (rt_active r) (invert_mapping mapping)) items (zip (rt_track r) (rt_decisions r))"
proof -
  from build items mapping obtain xs where
    xs: "rmap (replay_turn evidence g (rt_active r) (invert_mapping mapping)) (enumerate 0 items) = Inr xs"
    and r: "rt_track r = map fst xs" "rt_decisions r = map snd xs"
    by (auto simp: build_replay_candidate_def rbind_Inr_iff Let_def)
  have "list_all2 (\<lambda>(i, x) y. replayed (rt_active r) (invert_mapping mapping) x y) (enumerate 0 items) xs"
    using xs unfolding rmap_Inr_iff by (rule list_all2_mono) (auto dest: replay_turn_replayed)
  then have "list_all2 (replayed (rt_active r) (invert_mapping mapping)) items xs"
    by (simp add: list_all2_conv_all_nth nth_enumerate_eq)
  then show ?thesis by (simp add: r zip_map_fst_snd)
qed

end
