(* ===== verification/Piece_Consensus.thy ===== *)
theory Piece_Consensus
  imports Relative_Top1
begin

text \<open>
  \<^verbatim>\<open>tools/archive/spec013-speaker-candidates/speaker_vad_utterance_candidate.py\<close>,
  \<^verbatim>\<open>decide_piece\<close> and \<^verbatim>\<open>build_candidate\<close>: the build that several candidates of that
  directory call with their own kind of metadata and their own decision function.  A decision
  function is an argument here as it is there.
\<close>

section \<open>Decision by two voiceprint tables\<close>

definition consensus_verdict ::
  "string \<Rightarrow> string option \<Rightarrow> string option \<Rightarrow> string option \<Rightarrow> string list \<Rightarrow> bool \<times> string" where
  "consensus_verdict label current robust mapped conflicts =
    (if current = None then (False, label @ ''_session_registry_abstention'')
     else if robust = None then (False, label @ ''_robust_gallery_abstention'')
     else if current \<noteq> robust then (False, label @ ''_registry_disagreement'')
     else if current \<noteq> mapped then (False, label @ ''_raw_local_identity_disagreement'')
     else if conflicts = [] then (False, label @ ''_known_baseline_conflict_missing'')
     else (True, label @ ''_dual_voiceprint_consensus''))"

text \<open>The decision dict, whether it is accepted and why, and the selected identity.\<close>

type_synonym piece_decision_result = "(obj \<times> (bool \<times> string) \<times> string option) res"

type_synonym piece_decider = "json \<Rightarrow> phrase_voice \<Rightarrow> phrase_voice \<Rightarrow> fragment list \<Rightarrow> piece_decision_result"

text \<open>A decision on the fragments that the piece overlaps, given all fragments of the text.\<close>

definition on_overlaps :: "piece_decider \<Rightarrow> piece_decider" where
  "on_overlaps decider piece session robust frs = rbind (overlapping_fragments piece frs) (decider piece session robust)"

definition decide_consensus ::
  "string \<Rightarrow> gate_policy \<Rightarrow> string list \<Rightarrow> (int, string) pydict \<Rightarrow> piece_decider" where
  "decide_consensus label g active local_to_id piece session robust frs =
    (let current = select_identity (Some session) active g; other = select_identity (Some robust) active g in
     rbind (rbind (vitem piece ''local_speaker'') py_int) (\<lambda>local.
     let mapped = map_of local_to_id local in
     rbind (known_conflicts frs (fst current)) (\<lambda>conflicts.
     let verdict = consensus_verdict label (fst current) (fst other) mapped conflicts in
     rbind (vdict piece) (\<lambda>d. Inr (relative_decision d mapped current other conflicts verdict, verdict, fst current)))))"

section \<open>Evaluation of the pieces\<close>

definition evaluate_voiced ::
  "piece_decider \<Rightarrow> voice_table \<Rightarrow> voice_table \<Rightarrow> fragments_by_text \<Rightarrow> overlays_by_text \<times> obj list \<Rightarrow> json
     \<Rightarrow> (overlays_by_text \<times> obj list) res" where
  "evaluate_voiced decider session robust fragments = (\<lambda>(overlays, decisions) piece.
    rbind (rbind (vitem piece ''evidence_id'') (\<lambda>v. Inr (py_str v))) (\<lambda>eid.
    rbind (ditem session (Some eid) (ValueError (''missing session evidence '' @ eid))) (\<lambda>v.
    rbind (ditem robust (Some eid) (ValueError (''missing robust evidence '' @ eid))) (\<lambda>w.
    rbind (rbind (vitem piece ''text_id'') py_int) (\<lambda>text_id.
    rbind (ditem fragments text_id (KeyError (int_repr text_id))) (\<lambda>frs.
    rbind (decider piece v w frs) (\<lambda>(d, (accepted, reason), selected).
    rbind (if accepted then rbind (accepted_range piece) (\<lambda>r. Inr [r]) else Inr []) (\<lambda>ranges.
    Inr (add_ranges overlays text_id selected reason ranges, decisions @ [d])))))))))"

section \<open>Build\<close>

text \<open>The kind of metadata a candidate takes, and the error for any other.\<close>

record piece_contract =
  kc_kind :: string
  kc_mismatch :: string

definition piece_identities :: "json \<Rightarrow> json \<Rightarrow> (string list \<times> (int, string) pydict) res" where
  "piece_identities baseline manifest =
    rbind (rbind (vitem baseline ''active_speaker_ids'') py_iter) (\<lambda>ids.
    rbind (slot_names manifest) (\<lambda>local_to_id.
    let active = map py_str ids in
    raise_if (sort (map snd local_to_id) \<noteq> sort active) (ValueError ''manifest identity set differs from baseline'')
      (Inr (active, local_to_id))))"

definition build_piece_candidate ::
  "piece_contract \<Rightarrow> (string list \<Rightarrow> (int, string) pydict \<Rightarrow> piece_decider) \<Rightarrow> json \<Rightarrow> json \<Rightarrow> voice_table \<Rightarrow> voice_table
     \<Rightarrow> json \<Rightarrow> relative_result res" where
  "build_piece_candidate contract decider baseline metadata session robust manifest =
    rbind (vget baseline ''kind'' JNull) (\<lambda>bk.
    raise_if (bk \<noteq> JStr ''orator_frozen_speaker_candidate'')
      (ValueError ''baseline is not a frozen speaker candidate'')
    (rbind (vget metadata ''kind'' JNull) (\<lambda>mk.
     raise_if (mk \<noteq> JStr (kc_kind contract)) (ValueError (kc_mismatch contract))
     (rbind (rbind (vget baseline ''track'' (JArr [])) track_fragments) (\<lambda>fragments.
      rbind (validate_source_text fragments metadata ''baseline'') (\<lambda>_.
      rbind (piece_identities baseline manifest) (\<lambda>(active, local_to_id).
      rbind (rbind (vitem metadata ''pieces'') py_iter) (\<lambda>pieces.
      rbind (rfold (evaluate_voiced (decider active local_to_id) session robust fragments) ([], []) pieces) (\<lambda>(overlays, decisions).
      rbind (project_track metadata fragments overlays (invert_mapping local_to_id)) (\<lambda>track.
      rbind (rbind (track_fragments (JArr (map turn_doc track))) (\<lambda>frs. validate_source_text frs metadata ''projected'')) (\<lambda>_.
      rbind (float_item baseline ''audio_sec'') (\<lambda>audio_sec.
      rbind (rbind (vitem baseline ''sample_rate'') py_int) (\<lambda>sample_rate.
      rbind (rbind (vget baseline ''track'' (JArr [])) py_len) (\<lambda>turns.
      Inr \<lparr>rv_active = active, rv_source_turns = turns, rv_audio_sec = audio_sec, rv_sample_rate = sample_rate,
           rv_decisions = decisions, rv_track = track\<rparr>))))))))))))))"

definition piece_result_doc :: "string \<Rightarrow> json \<Rightarrow> posterior_policy \<Rightarrow> relative_result \<Rightarrow> obj" where
  "piece_result_doc candidate_kind policy voiceprint r =
     [(''schema_version'', JInt 1),
      (''kind'', JStr ''orator_frozen_speaker_candidate''),
      (''candidate_kind'', JStr candidate_kind),
      (''audio_sec'', JFlt (rv_audio_sec r)),
      (''sample_rate'', JInt (rv_sample_rate r)),
      (''active_speaker_ids'', JArr (map JStr (rv_active r))),
      (''source_turn_count'', JInt (rv_source_turns r)),
      (''turn_count'', JInt (int (length (rv_track r)))),
      (''piece_count'', JInt (int (length (rv_decisions r)))),
      (''accepted_piece_count'', JInt (int (length (filter (\<lambda>d. get d ''accepted'' = JBool True) (rv_decisions r))))),
      (''policy'', policy),
      (''voiceprint_policy'', posterior_policy_doc voiceprint),
      (''piece_decisions'', JArr (map JObj (rv_decisions r))),
      (''track'', JArr (map turn_doc (rv_track r)))]"

section \<open>Spans\<close>

text \<open>A piece of a spans command: its identifier, the span whose voice is compared, its other fields.\<close>

record voiced_piece =
  vq_id :: string
  vq_start :: dbl
  vq_end :: dbl
  vq_fields :: obj

definition voiced_doc :: "voiced_piece \<Rightarrow> json" where
  "voiced_doc x = JObj ((''evidence_id'', JStr (vq_id x)) # vq_fields x)"

definition write_voiced_spans :: "voiced_piece list \<Rightarrow> table" where
  "write_voiced_spans xs = [''evidence_id'', ''start_sec'', ''end_sec''] #
     map (\<lambda>x. [vq_id x, float_repr (vq_start x), float_repr (vq_end x)]) xs"

text \<open>Pieces are numbered through the whole run.\<close>

definition numbered_pieces :: "string \<Rightarrow> (dbl \<times> dbl \<times> obj) list \<Rightarrow> voiced_piece list" where
  "numbered_pieces label xs = map (\<lambda>(n, s, e, d). \<lparr>vq_id = label @ int_repr (int n), vq_start = s, vq_end = e,
     vq_fields = d\<rparr>) (enumerate 0 xs)"

text \<open>The metadata document of a spans command; \<open>found\<close> are the runs, islands or utterances.\<close>

definition voiced_metadata ::
  "string \<Rightarrow> dbl \<Rightarrow> json \<Rightarrow> posterior_policy \<Rightarrow> json \<Rightarrow> json \<Rightarrow> string \<times> string \<Rightarrow> json list \<Rightarrow> voiced_piece list
     \<Rightarrow> (string \<times> file_identity) list \<Rightarrow> json" where
  "voiced_metadata kind period policy voiceprint asr align = (\<lambda>(items, item_count) found pieces files. JObj
     [(''schema_version'', JInt 1), (''kind'', JStr kind), (''frame_period_sec'', JFlt period), (''policy'', policy),
      (''voiceprint_policy'', posterior_policy_doc voiceprint), (''asr'', asr), (''align'', align),
      (items, JArr found), (''pieces'', JArr (map voiced_doc pieces)), (item_count, JInt (int (length found))),
      (''piece_count'', JInt (int (length pieces))), (''sources'', sources_doc files)])"

section \<open>Policies\<close>

text \<open>The flags of a section that are all required to hold.\<close>

definition require_flags :: "json \<Rightarrow> string list \<Rightarrow> string \<Rightarrow> string \<Rightarrow> unit res" where
  "require_flags section flags missing_label broken =
    rbind (absent_fields flags section) (\<lambda>missing.
    raise_if (missing \<noteq> []) (ValueError (missing_label @ join_with '','' (sort missing)))
    (rbind (rmap (flag_item section) flags) (\<lambda>values.
     raise_if (False \<in> set values) (ValueError broken) (Inr ()))))"

definition required_number :: "json \<Rightarrow> string \<Rightarrow> string \<Rightarrow> dbl res" where
  "required_number section missing_label name = rbind (name_set section) (\<lambda>names.
     raise_if (name \<notin> set names) (ValueError (missing_label @ name)) (float_item section name))"

definition flags_doc :: "string list \<Rightarrow> obj" where
  "flags_doc flags = map (\<lambda>k. (k, JBool True)) flags"

end
