(* ===== verification/Channel_Islands.thy ===== *)
theory Channel_Islands
  imports Piece_Consensus
begin

text \<open>
  \<^verbatim>\<open>tools/archive/spec013-speaker-candidates/speaker_local_channel_island_candidate.py\<close>: inside
  voice activity the frames are cut into runs of one top-1 speaker; a long enough run between two
  long enough runs of one other speaker is an island, and the characters that lie wholly inside it
  are its pieces.  Parsed files, digests and absolute paths are parameters.
\<close>

section \<open>Policy\<close>

definition island_flags :: "string list" where
  "island_flags = [''enabled'', ''require_vad_continuity'', ''require_same_bracketing_channel'',
     ''require_session_registry_agreement'', ''require_robust_gallery_agreement'',
     ''require_raw_local_identity_agreement'', ''require_known_baseline_conflict'',
     ''project_only_wholly_contained_alignment_units'']"

record island_policy =
  ip_minimum_island :: dbl
  ip_minimum_adjacent :: dbl
  ip_voiceprint :: posterior_policy

definition island_number :: "json \<Rightarrow> dbl \<Rightarrow> string \<Rightarrow> dbl res" where
  "island_number section inherited name =
    rbind (required_number section ''local-channel-island policy missing: '' name) (\<lambda>value.
    raise_if (EPSILON < \<bar>value - inherited\<bar>) (ValueError (''local-channel-island '' @ name @ '' differs from FR16J''))
      (Inr value))"

definition load_island_policy :: "obj \<Rightarrow> island_policy res" where
  "load_island_policy document =
    rbind (load_posterior_policy document) (\<lambda>voiceprint.
    let section = dget document ''local_channel_island'' (JObj []) in
    rbind (require_flags section island_flags ''local-channel-island policy missing: ''
      ''all local-channel-island safety contracts are mandatory'') (\<lambda>_.
    rbind (island_number section (bp_minimum_run voiceprint) ''minimum_island_run_sec'') (\<lambda>a.
    rbind (island_number section (bp_minimum_run voiceprint) ''minimum_adjacent_run_sec'') (\<lambda>b.
    Inr \<lparr>ip_minimum_island = a, ip_minimum_adjacent = b, ip_voiceprint = voiceprint\<rparr>))))"

definition island_policy_doc :: "island_policy \<Rightarrow> json" where
  "island_policy_doc p = JObj (flags_doc island_flags @ [(''minimum_island_run_sec'', JFlt (ip_minimum_island p)),
     (''minimum_adjacent_run_sec'', JFlt (ip_minimum_adjacent p))])"

section \<open>Runs inside voice activity\<close>

record raw_run =
  wr_start :: dbl
  wr_end :: dbl
  wr_local :: int
  wr_frame_start :: int
  wr_frame_end :: int
  wr_count :: nat
  wr_mean :: dbl
  wr_min :: dbl
  wr_max :: dbl

definition in_interval :: "dbl \<times> dbl \<Rightarrow> top1_frame \<Rightarrow> bool" where
  "in_interval = (\<lambda>(s, e) f. s - EPSILON \<le> tf_time f \<and> tf_time f < e - EPSILON)"

definition mean_probability :: "top1_frame list \<Rightarrow> dbl" where
  "mean_probability fs = py_sum (map tf_probability fs) / of_pyint (int (length fs))"

definition finish_raw :: "run_bounds \<Rightarrow> top1_frame list \<Rightarrow> raw_run list" where
  "finish_raw b cur = (if cur = [] then []
     else let s = max (rb_first b) (tf_time (hd cur) - half_frame b);
              e = min (rb_last b) (tf_time (last cur) + half_frame b) in
       if e \<le> s + EPSILON then []
       else [\<lparr>wr_start = s, wr_end = e, wr_local = tf_local (hd cur), wr_frame_start = tf_frame (hd cur),
         wr_frame_end = tf_frame (last cur) + 1, wr_count = length cur, wr_mean = mean_probability cur,
         wr_min = least (map tf_probability cur), wr_max = greatest (map tf_probability cur)\<rparr>])"

text \<open>Frames outside the interval are passed over; they do not end a run.\<close>

definition raw_runs_for_vad :: "top1_frame list \<Rightarrow> dbl \<Rightarrow> dbl \<times> dbl \<Rightarrow> raw_run list" where
  "raw_runs_for_vad frames period interval =
    (let b = \<lparr>rb_first = fst interval, rb_last = snd interval, rb_period = period\<rparr> in
     gated_runs (\<lambda>_. True) (finish_raw b) (filter (in_interval interval) (phrase_frames frames b)))"

definition run_sec :: "raw_run \<Rightarrow> dbl" where
  "run_sec r = wr_end r - wr_start r"

record channel_island =
  ci_vad :: nat
  ci_run :: raw_run
  ci_left :: raw_run
  ci_right :: raw_run

definition island_at :: "island_policy \<Rightarrow> nat \<Rightarrow> raw_run list \<Rightarrow> nat \<Rightarrow> channel_island option" where
  "island_at p vad_index runs i =
    (let l = runs ! (i - 1); m = runs ! i; r = runs ! (i + 1) in
     if wr_local l \<noteq> wr_local r then None
     else if wr_local l = wr_local m then None
     else if run_sec m + EPSILON < ip_minimum_island p then None
     else if run_sec l + EPSILON < ip_minimum_adjacent p \<or> run_sec r + EPSILON < ip_minimum_adjacent p then None
     else Some \<lparr>ci_vad = vad_index, ci_run = m, ci_left = l, ci_right = r\<rparr>)"

definition islands_of :: "island_policy \<Rightarrow> nat \<Rightarrow> raw_run list \<Rightarrow> channel_island list" where
  "islands_of p vad_index runs = List.map_filter (island_at p vad_index runs) [1..<length runs - 1]"

definition channel_islands :: "top1_frame list \<Rightarrow> dbl \<Rightarrow> span list \<Rightarrow> island_policy \<Rightarrow> channel_island list" where
  "channel_islands frames period vad p =
    concat (map (\<lambda>(i, interval). islands_of p i (raw_runs_for_vad frames period interval)) (enumerate 0 vad))"

section \<open>Characters inside an island\<close>

record projected_group =
  pj_text_id :: int
  pj_source_start :: nat
  pj_source_end :: nat
  pj_text :: string
  pj_start :: dbl
  pj_end :: dbl

definition char_inside :: "dbl \<times> dbl \<Rightarrow> (dbl \<times> dbl) option \<Rightarrow> bool" where
  "char_inside = (\<lambda>(s, e) t. case t of None \<Rightarrow> False
     | Some (a, b) \<Rightarrow> a < b \<and> s \<le> a + EPSILON \<and> b \<le> e + EPSILON)"

definition finish_group :: "int \<Rightarrow> string \<Rightarrow> char_times \<Rightarrow> nat list \<Rightarrow> projected_group list" where
  "finish_group text_id source ts cur = (if cur = [] then []
     else let bounds = time_hull (map (\<lambda>i. the (ts ! i)) cur) in
       [\<lparr>pj_text_id = text_id, pj_source_start = hd cur, pj_source_end = last cur + 1,
         pj_text = slice (hd cur) (last cur + 1) source, pj_start = fst bounds, pj_end = snd bounds\<rparr>])"

text \<open>The loop body: what was put out, and the positions collected so far.\<close>

definition group_step ::
  "dbl \<times> dbl \<Rightarrow> (nat list \<Rightarrow> 'g list) \<Rightarrow> 'g list \<times> nat list \<Rightarrow> nat \<times> (dbl \<times> dbl) option \<Rightarrow> 'g list \<times> nat list" where
  "group_step bounds finish = (\<lambda>(out, cur) (i, t).
     if \<not> char_inside bounds t then (out @ finish cur, [])
     else if cur \<noteq> [] \<and> i \<noteq> last cur + 1 then (out @ finish cur, [i])
     else (out, cur @ [i]))"

definition char_groups :: "dbl \<times> dbl \<Rightarrow> (nat list \<Rightarrow> 'g list) \<Rightarrow> char_times \<Rightarrow> 'g list" where
  "char_groups bounds finish ts =
    (let (out, cur) = foldl (group_step bounds finish) ([], []) (enumerate 0 ts) in out @ finish cur)"

definition text_groups :: "json \<Rightarrow> dbl \<times> dbl \<Rightarrow> string \<times> json \<Rightarrow> projected_group list res" where
  "text_groups metadata bounds = (\<lambda>(k, asr).
    rbind (int_str k) (\<lambda>text_id.
    rbind (float_item asr ''end'') (\<lambda>e. if e \<le> fst bounds then Inr []
    else rbind (float_item asr ''start'') (\<lambda>s. if snd bounds \<le> s then Inr []
    else rbind (vitem asr ''text'') (\<lambda>t.
      rbind (rbind (rbind (vitem metadata ''align'') (\<lambda>align. vitem align k)) py_iter) (\<lambda>us.
      rbind (aligned_character_times (py_str t) us) (\<lambda>ts.
      Inr (char_groups bounds (finish_group text_id (py_str t) ts) ts))))))))"

definition projected_groups :: "json \<Rightarrow> dbl \<times> dbl \<Rightarrow> projected_group list res" where
  "projected_groups metadata bounds =
    rbind (rbind (vitem metadata ''asr'') vdict) (\<lambda>d. rbind (rmap (text_groups metadata bounds) d) (\<lambda>xs. Inr (concat xs)))"

section \<open>Pieces\<close>

definition group_fields :: "projected_group \<Rightarrow> obj" where
  "group_fields g = [(''text_id'', JInt (pj_text_id g)), (''source_start'', JInt (int (pj_source_start g))),
     (''source_end'', JInt (int (pj_source_end g))), (''text'', JStr (pj_text g)),
     (''projection_start'', JFlt (pj_start g)), (''projection_end'', JFlt (pj_end g))]"

definition run_fields :: "raw_run \<Rightarrow> obj" where
  "run_fields r = [(''local_speaker'', JInt (wr_local r)), (''frame_start'', JInt (wr_frame_start r)),
     (''frame_end'', JInt (wr_frame_end r)), (''frame_count'', JInt (int (wr_count r))),
     (''mean_probability'', JFlt (wr_mean r)), (''minimum_probability'', JFlt (wr_min r)),
     (''maximum_probability'', JFlt (wr_max r))]"

definition bounds_fields :: "raw_run \<Rightarrow> obj" where
  "bounds_fields r = [(''start'', JFlt (wr_start r)), (''end'', JFlt (wr_end r))]"

definition side_fields :: "channel_island \<Rightarrow> obj" where
  "side_fields x = [(''vad_index'', JInt (int (ci_vad x))),
     (''left_local_speaker'', JInt (wr_local (ci_left x))), (''left_start'', JFlt (wr_start (ci_left x))),
     (''left_end'', JFlt (wr_end (ci_left x))),
     (''right_local_speaker'', JInt (wr_local (ci_right x))), (''right_start'', JFlt (wr_start (ci_right x))),
     (''right_end'', JFlt (wr_end (ci_right x)))]"

definition island_doc :: "channel_island \<Rightarrow> json" where
  "island_doc x = JObj (bounds_fields (ci_run x) @ run_fields (ci_run x) @ side_fields x)"

definition island_pieces_of :: "json \<Rightarrow> nat \<times> channel_island \<Rightarrow> (dbl \<times> dbl \<times> obj) list res" where
  "island_pieces_of metadata = (\<lambda>(n, x). rbind (projected_groups metadata (wr_start (ci_run x), wr_end (ci_run x))) (\<lambda>gs.
     Inr (map (\<lambda>g. (wr_start (ci_run x), wr_end (ci_run x),
       (''island_id'', JStr (''native_island:'' @ int_repr (int n))) # bounds_fields (ci_run x) @ group_fields g @
         run_fields (ci_run x) @ side_fields x)) gs)))"

definition island_pieces ::
  "json \<Rightarrow> top1_frame list \<Rightarrow> dbl \<Rightarrow> span list \<Rightarrow> island_policy \<Rightarrow> (voiced_piece list \<times> channel_island list) res" where
  "island_pieces metadata frames period vad p =
    (let islands = channel_islands frames period vad p in
     rbind (rmap (island_pieces_of metadata) (enumerate 0 islands)) (\<lambda>xs.
     Inr (numbered_pieces ''local_channel_island:'' (concat xs), islands)))"

section \<open>Build and commands\<close>

definition decide_island :: "island_policy \<Rightarrow> string list \<Rightarrow> (int, string) pydict \<Rightarrow> piece_decider" where
  "decide_island p = decide_consensus ''local_island'' (bp_gates (ip_voiceprint p))"

definition build_island_candidate ::
  "json \<Rightarrow> json \<Rightarrow> voice_table \<Rightarrow> voice_table \<Rightarrow> json \<Rightarrow> island_policy \<Rightarrow> relative_result res" where
  "build_island_candidate baseline metadata session robust manifest p =
    build_piece_candidate \<lparr>kc_kind = ''orator_local_channel_island_spans'',
      kc_mismatch = ''metadata is not local-channel-island evidence''\<rparr> (\<lambda>active ids. on_overlaps (decide_island p active ids)) baseline metadata session robust manifest"

definition command_island_spans ::
  "json \<Rightarrow> csv_table \<Rightarrow> activity_source \<Rightarrow> obj \<Rightarrow> (string \<times> file_identity) list \<Rightarrow> (table \<times> json) res" where
  "command_island_spans metadata frame_table activity config files =
    rbind (load_island_policy config) (\<lambda>p.
    rbind (read_top1_frames frame_table) (\<lambda>(frames, period).
    rbind (read_activity activity) (\<lambda>vad.
    rbind (island_pieces metadata frames period vad p) (\<lambda>(pieces, islands).
    rbind (vitem metadata ''asr'') (\<lambda>asr. rbind (vitem metadata ''align'') (\<lambda>align.
    Inr (write_voiced_spans pieces, voiced_metadata ''orator_local_channel_island_spans'' period (island_policy_doc p)
      (ip_voiceprint p) asr align (''islands'', ''island_count'') (map island_doc islands) pieces files)))))))"

definition command_island_build ::
  "json \<Rightarrow> json \<Rightarrow> csv_table \<Rightarrow> csv_table \<Rightarrow> json \<Rightarrow> obj \<Rightarrow> (string \<times> file_identity) list \<Rightarrow> obj res" where
  "command_island_build baseline metadata session_table robust_table manifest config files =
    rbind (load_island_policy config) (\<lambda>p.
    rbind (read_voice session_table) (\<lambda>session. rbind (read_voice robust_table) (\<lambda>robust.
    rbind (build_island_candidate baseline metadata session robust manifest p) (\<lambda>r.
    Inr (dset ''sources'' (sources_doc files)
      (piece_result_doc ''v21_local_channel_island_consensus'' (island_policy_doc p) (ip_voiceprint p) r))))))"

end
