(* ===== verification/Vad_Utterances.thy ===== *)
theory Vad_Utterances
  imports Channel_Islands
begin

text \<open>
  \<^verbatim>\<open>tools/archive/spec013-speaker-candidates/speaker_vad_utterance_candidate.py\<close>: a short interval of
  voice activity whose frames all have one top-1 speaker is an utterance; its characters are cut into
  pieces as those of an island are.
\<close>

section \<open>Policy\<close>

definition utterance_flags :: "string list" where
  "utterance_flags = [''enabled'', ''require_padded_vad_interval'', ''require_single_top1_channel'',
     ''require_session_registry_agreement'', ''require_robust_gallery_agreement'',
     ''require_raw_local_identity_agreement'', ''require_known_baseline_conflict'',
     ''project_only_wholly_contained_alignment_units'']"

record utterance_policy =
  up_minimum :: dbl
  up_maximum :: dbl
  up_voiceprint :: posterior_policy

definition load_utterance_policy :: "obj \<Rightarrow> utterance_policy res" where
  "load_utterance_policy document =
    rbind (load_posterior_policy document) (\<lambda>voiceprint.
    let section = dget document ''vad_utterance'' (JObj []) in
    rbind (require_flags section utterance_flags ''VAD-utterance policy missing: ''
      ''all VAD-utterance safety contracts are mandatory'') (\<lambda>_.
    rbind (required_number section ''VAD-utterance policy missing: '' ''minimum_duration_sec'') (\<lambda>a.
    rbind (required_number section ''VAD-utterance policy missing: '' ''maximum_duration_sec'') (\<lambda>b.
    raise_if (EPSILON < \<bar>a - bp_minimum_run voiceprint\<bar>) (ValueError ''VAD-utterance minimum differs from FR16J'')
    (raise_if (EPSILON < \<bar>b - gp_short_max (bp_gates voiceprint)\<bar>)
      (ValueError ''VAD-utterance maximum differs from TitaNet short class'')
    (raise_if (b \<le> a) (ValueError ''VAD-utterance duration bounds are invalid'')
    (Inr \<lparr>up_minimum = a, up_maximum = b, up_voiceprint = voiceprint\<rparr>)))))))"

definition utterance_policy_doc :: "utterance_policy \<Rightarrow> json" where
  "utterance_policy_doc p = JObj (flags_doc utterance_flags @ [(''minimum_duration_sec'', JFlt (up_minimum p)),
     (''maximum_duration_sec'', JFlt (up_maximum p))])"

section \<open>Utterances\<close>

text \<open>The record of a run serves the frames of the interval, which start and end with it.\<close>

record utterance =
  ut_vad :: nat
  ut_run :: raw_run
  ut_duration :: dbl

definition frames_in_interval :: "top1_frame list \<Rightarrow> dbl \<times> dbl \<Rightarrow> top1_frame list" where
  "frames_in_interval frames interval = filter (in_interval interval) frames"

definition utterance_at :: "top1_frame list \<Rightarrow> utterance_policy \<Rightarrow> nat \<times> dbl \<times> dbl \<Rightarrow> utterance option" where
  "utterance_at frames p = (\<lambda>(i, s, e).
    (let duration = e - s; inside = frames_in_interval frames (s, e); channels = remdups (map tf_local inside) in
     if duration + EPSILON < up_minimum p \<or> up_maximum p - EPSILON \<le> duration then None
     else if inside = [] \<or> length channels \<noteq> 1 then None
     else Some \<lparr>ut_vad = i, ut_run = \<lparr>wr_start = s, wr_end = e, wr_local = hd channels,
         wr_frame_start = tf_frame (hd inside), wr_frame_end = tf_frame (last inside) + 1, wr_count = length inside,
         wr_mean = mean_probability inside, wr_min = least (map tf_probability inside),
         wr_max = greatest (map tf_probability inside)\<rparr>, ut_duration = duration\<rparr>))"

definition utterances_of :: "top1_frame list \<Rightarrow> span list \<Rightarrow> utterance_policy \<Rightarrow> (nat \<times> utterance) list" where
  "utterances_of frames vad p = enumerate 0 (List.map_filter (utterance_at frames p) (enumerate 0 vad))"

definition utterance_fields :: "nat \<times> utterance \<Rightarrow> obj" where
  "utterance_fields = (\<lambda>(n, u). [(''utterance_id'', JStr (''vad_utterance:'' @ int_repr (int n))),
     (''vad_index'', JInt (int (ut_vad u)))] @ bounds_fields (ut_run u) @ (''duration_sec'', JFlt (ut_duration u)) #
     run_fields (ut_run u))"

definition utterance_pieces_of :: "json \<Rightarrow> nat \<times> utterance \<Rightarrow> (dbl \<times> dbl \<times> obj) list res" where
  "utterance_pieces_of metadata x =
    (let r = ut_run (snd x) in
     rbind (projected_groups metadata (wr_start r, wr_end r)) (\<lambda>gs.
     Inr (map (\<lambda>g. (wr_start r, wr_end r, utterance_fields x @ group_fields g)) gs)))"

definition utterance_pieces ::
  "json \<Rightarrow> top1_frame list \<Rightarrow> span list \<Rightarrow> utterance_policy \<Rightarrow> (voiced_piece list \<times> (nat \<times> utterance) list) res" where
  "utterance_pieces metadata frames vad p =
    (let found = utterances_of frames vad p in
     rbind (rmap (utterance_pieces_of metadata) found) (\<lambda>xs.
     Inr (numbered_pieces ''vad_utterance_piece:'' (concat xs), found)))"

section \<open>Build and commands\<close>

definition build_utterance_candidate ::
  "json \<Rightarrow> json \<Rightarrow> voice_table \<Rightarrow> voice_table \<Rightarrow> json \<Rightarrow> utterance_policy \<Rightarrow> relative_result res" where
  "build_utterance_candidate baseline metadata session robust manifest p =
    build_piece_candidate \<lparr>kc_kind = ''orator_vad_utterance_spans'',
      kc_mismatch = ''metadata kind differs from candidate contract''\<rparr>
      (\<lambda>active ids. on_overlaps (decide_consensus ''vad_utterance'' (bp_gates (up_voiceprint p)) active ids))
      baseline metadata session robust manifest"

definition command_utterance_spans ::
  "json \<Rightarrow> csv_table \<Rightarrow> activity_source \<Rightarrow> obj \<Rightarrow> (string \<times> file_identity) list \<Rightarrow> (table \<times> json) res" where
  "command_utterance_spans metadata frame_table activity config files =
    rbind (load_utterance_policy config) (\<lambda>p.
    rbind (read_top1_frames frame_table) (\<lambda>(frames, period).
    rbind (read_activity activity) (\<lambda>vad.
    rbind (utterance_pieces metadata frames vad p) (\<lambda>(pieces, found).
    rbind (vitem metadata ''asr'') (\<lambda>asr. rbind (vitem metadata ''align'') (\<lambda>align.
    Inr (write_voiced_spans pieces, voiced_metadata ''orator_vad_utterance_spans'' period (utterance_policy_doc p)
      (up_voiceprint p) asr align (''utterances'', ''utterance_count'')
      (map (\<lambda>x. JObj (utterance_fields x)) found) pieces files)))))))"

definition command_utterance_build ::
  "json \<Rightarrow> json \<Rightarrow> csv_table \<Rightarrow> csv_table \<Rightarrow> json \<Rightarrow> obj \<Rightarrow> (string \<times> file_identity) list \<Rightarrow> obj res" where
  "command_utterance_build baseline metadata session_table robust_table manifest config files =
    rbind (load_utterance_policy config) (\<lambda>p.
    rbind (read_voice session_table) (\<lambda>session. rbind (read_voice robust_table) (\<lambda>robust.
    rbind (build_utterance_candidate baseline metadata session robust manifest p) (\<lambda>r.
    Inr (dset ''sources'' (sources_doc files)
      (piece_result_doc ''v21_vad_utterance_consensus'' (utterance_policy_doc p) (up_voiceprint p) r))))))"

end
