(* ===== verification/Vad_Edges.thy ===== *)
theory Vad_Edges
  imports Vad_Utterances
begin

text \<open>
  \<^verbatim>\<open>tools/archive/spec013-speaker-candidates/speaker_vad_edge_run_candidate.py\<close> and
  \<^verbatim>\<open>speaker_vad_active_edge_candidate.py\<close>: the first and the last run of an interval of voice activity
  are edge runs when they and their neighbours last long enough and, if the policy asks for it, no
  frame of theirs is active.  The second candidate keeps the edge runs whose frames and whose
  neighbour's frames are all active, and hands them to the identity of their slot unless both
  voiceprint tables agree on somebody else.
\<close>

section \<open>Policy of the edge runs\<close>

definition edge_flags :: "string list" where
  "edge_flags = [''enabled'', ''require_padded_vad_interval'', ''require_multiple_top1_runs'', ''require_edge_run'',
     ''require_adjacent_sustained_run'', ''require_session_registry_agreement'', ''require_robust_gallery_agreement'',
     ''require_raw_local_identity_agreement'', ''require_known_baseline_conflict'',
     ''project_only_wholly_contained_alignment_units'']"

record edge_policy =
  ep_minimum :: dbl
  ep_maximum :: dbl
  ep_guarded :: bool
  ep_threshold :: dbl

definition required_flag :: "json \<Rightarrow> string \<Rightarrow> string \<Rightarrow> bool res" where
  "required_flag section missing_label name = rbind (name_set section) (\<lambda>names.
     raise_if (name \<notin> set names) (ValueError (missing_label @ name)) (flag_item section name))"

text \<open>\<^verbatim>\<open>max_embed_window_sec\<close> of the speaker section.\<close>

definition embed_window :: "obj \<Rightarrow> dbl res" where
  "embed_window document = (let speaker = dget document ''speaker'' (JObj []) in
     rbind (name_set speaker) (\<lambda>names.
     raise_if (''max_embed_window_sec'' \<notin> set names) (ValueError ''speaker max_embed_window_sec is missing'')
       (float_item speaker ''max_embed_window_sec'')))"

definition load_edge_policy :: "obj \<Rightarrow> (edge_policy \<times> posterior_policy) res" where
  "load_edge_policy document =
    rbind (load_posterior_policy document) (\<lambda>voiceprint.
    let section = dget document ''vad_edge_run'' (JObj []); label = ''VAD edge-run policy missing: '' in
    rbind (require_flags section edge_flags label ''all VAD edge-run safety contracts are mandatory'') (\<lambda>_.
    rbind (required_flag section label ''require_below_activity_threshold'') (\<lambda>guarded.
    rbind (required_number section label ''minimum_run_sec'') (\<lambda>a.
    rbind (required_number section label ''maximum_run_sec'') (\<lambda>b.
    raise_if (EPSILON < \<bar>a - bp_minimum_run voiceprint\<bar>) (ValueError ''VAD edge-run minimum differs from FR16J'')
    (rbind (embed_window document) (\<lambda>window.
     raise_if (EPSILON < \<bar>b - window\<bar>) (ValueError ''VAD edge-run maximum differs from embedding window'')
     (raise_if (b \<le> a) (ValueError ''VAD edge-run duration bounds are invalid'')
     (Inr (\<lparr>ep_minimum = a, ep_maximum = b, ep_guarded = guarded, ep_threshold = bp_threshold voiceprint\<rparr>,
       voiceprint))))))))))"

definition edge_policy_doc :: "edge_policy \<Rightarrow> json" where
  "edge_policy_doc p = JObj (flags_doc edge_flags @ [(''require_below_activity_threshold'', JBool (ep_guarded p)),
     (''minimum_run_sec'', JFlt (ep_minimum p)), (''maximum_run_sec'', JFlt (ep_maximum p)),
     (''frame_activity_threshold'', JFlt (ep_threshold p))])"

section \<open>Edge runs\<close>

record edge_run =
  eg_run :: raw_run
  eg_vad :: nat
  eg_index :: nat
  eg_count :: nat
  eg_adjacent :: raw_run

definition edge_at :: "edge_policy \<Rightarrow> nat \<Rightarrow> raw_run list \<Rightarrow> nat \<Rightarrow> edge_run option" where
  "edge_at p vad_index runs i =
    (let r = runs ! i; adjacent = (if i = 0 then runs ! 1 else runs ! (length runs - 2)) in
     if run_sec r + EPSILON < ep_minimum p \<or> ep_maximum p + EPSILON < run_sec r then None
     else if run_sec adjacent + EPSILON < ep_minimum p then None
     else if ep_guarded p \<and> ep_threshold p \<le> wr_max r + EPSILON then None
     else Some \<lparr>eg_run = r, eg_vad = vad_index, eg_index = i, eg_count = length runs, eg_adjacent = adjacent\<rparr>)"

definition edges_of :: "edge_policy \<Rightarrow> nat \<Rightarrow> raw_run list \<Rightarrow> edge_run list" where
  "edges_of p vad_index runs = (if length runs < 2 then []
     else List.map_filter (edge_at p vad_index runs) [0, length runs - 1])"

definition edge_runs :: "top1_frame list \<Rightarrow> dbl \<Rightarrow> span list \<Rightarrow> edge_policy \<Rightarrow> edge_run list" where
  "edge_runs frames period vad p =
    concat (map (\<lambda>(i, interval). edges_of p i (raw_runs_for_vad frames period interval)) (enumerate 0 vad))"

definition adjacent_fields :: "raw_run \<Rightarrow> obj" where
  "adjacent_fields r = [(''adjacent_start'', JFlt (wr_start r)), (''adjacent_end'', JFlt (wr_end r)),
     (''adjacent_local_speaker'', JInt (wr_local r)), (''adjacent_frame_count'', JInt (int (wr_count r))),
     (''adjacent_mean_probability'', JFlt (wr_mean r)), (''adjacent_minimum_probability'', JFlt (wr_min r)),
     (''adjacent_maximum_probability'', JFlt (wr_max r))]"

definition edge_fields :: "edge_run \<Rightarrow> obj" where
  "edge_fields x = bounds_fields (eg_run x) @ run_fields (eg_run x) @
     [(''vad_index'', JInt (int (eg_vad x))), (''edge'', JStr (if eg_index x = 0 then ''start'' else ''end'')),
      (''run_index'', JInt (int (eg_index x))), (''run_count'', JInt (int (eg_count x)))] @ adjacent_fields (eg_adjacent x)"

text \<open>The pieces of a run, with the name of the run's identifier and its text before the number.\<close>

definition edge_pieces_of :: "string \<times> string \<Rightarrow> json \<Rightarrow> nat \<times> edge_run \<Rightarrow> (dbl \<times> dbl \<times> obj) list res" where
  "edge_pieces_of = (\<lambda>(key, label) metadata (n, x). let r = eg_run x in
     rbind (projected_groups metadata (wr_start r, wr_end r)) (\<lambda>gs.
     Inr (map (\<lambda>g. (wr_start r, wr_end r, (key, JStr (label @ int_repr (int n))) # edge_fields x @ group_fields g)) gs)))"

definition edge_pieces ::
  "json \<Rightarrow> top1_frame list \<Rightarrow> dbl \<Rightarrow> span list \<Rightarrow> edge_policy \<Rightarrow> (voiced_piece list \<times> edge_run list) res" where
  "edge_pieces metadata frames period vad p =
    (let found = edge_runs frames period vad p in
     rbind (rmap (edge_pieces_of (''edge_run_id'', ''vad_edge_run:'') metadata) (enumerate 0 found)) (\<lambda>xs.
     Inr (numbered_pieces ''vad_edge_run_piece:'' (concat xs), found)))"

section \<open>Build and commands of the edge runs\<close>

definition edge_prefix :: "edge_policy \<Rightarrow> string" where
  "edge_prefix p = (if ep_guarded p then ''vad_edge_run_low_activity'' else ''vad_edge_run'')"

definition edge_candidate_kind :: "edge_policy \<Rightarrow> string" where
  "edge_candidate_kind p =
    (if ep_guarded p then ''v21_vad_edge_run_low_activity_consensus'' else ''v21_vad_edge_run_consensus'')"

definition build_edge_candidate ::
  "json \<Rightarrow> json \<Rightarrow> voice_table \<Rightarrow> voice_table \<Rightarrow> json \<Rightarrow> edge_policy \<times> posterior_policy \<Rightarrow> relative_result res" where
  "build_edge_candidate baseline metadata session robust manifest = (\<lambda>(p, voiceprint).
    build_piece_candidate \<lparr>kc_kind = ''orator_vad_edge_run_spans'',
      kc_mismatch = ''metadata kind differs from candidate contract''\<rparr>
      (\<lambda>active ids. on_overlaps (decide_consensus (edge_prefix p) (bp_gates voiceprint) active ids))
      baseline metadata session robust manifest)"

definition command_edge_spans ::
  "json \<Rightarrow> csv_table \<Rightarrow> activity_source \<Rightarrow> obj \<Rightarrow> (string \<times> file_identity) list \<Rightarrow> (table \<times> json) res" where
  "command_edge_spans metadata frame_table activity config files =
    rbind (load_edge_policy config) (\<lambda>(p, voiceprint).
    rbind (read_top1_frames frame_table) (\<lambda>(frames, period).
    rbind (read_activity activity) (\<lambda>vad.
    rbind (edge_pieces metadata frames period vad p) (\<lambda>(pieces, found).
    rbind (vitem metadata ''asr'') (\<lambda>asr. rbind (vitem metadata ''align'') (\<lambda>align.
    Inr (write_voiced_spans pieces, voiced_metadata ''orator_vad_edge_run_spans'' period (edge_policy_doc p)
      voiceprint asr align (''edge_runs'', ''edge_run_count'')
      (map (\<lambda>x. JObj (edge_fields x)) found) pieces files)))))))"

definition command_edge_build ::
  "json \<Rightarrow> json \<Rightarrow> csv_table \<Rightarrow> csv_table \<Rightarrow> json \<Rightarrow> obj \<Rightarrow> (string \<times> file_identity) list \<Rightarrow> obj res" where
  "command_edge_build baseline metadata session_table robust_table manifest config files =
    rbind (load_edge_policy config) (\<lambda>(p, voiceprint).
    rbind (read_voice session_table) (\<lambda>session. rbind (read_voice robust_table) (\<lambda>robust.
    rbind (build_edge_candidate baseline metadata session robust manifest (p, voiceprint)) (\<lambda>r.
    Inr (dset ''sources'' (sources_doc files)
      (piece_result_doc (edge_candidate_kind p) (edge_policy_doc p) voiceprint r))))))"

section \<open>Policy of the active edges\<close>

definition handoff_flags :: "string list" where
  "handoff_flags = [''enabled'', ''require_padded_vad_interval'', ''require_multiple_top1_runs'', ''require_edge_run'',
     ''require_adjacent_sustained_run'', ''require_all_edge_frames_active'', ''require_all_adjacent_frames_active'',
     ''require_raw_local_identity'', ''veto_agreed_different_dual_voiceprint'', ''require_known_baseline_conflict'',
     ''project_only_wholly_contained_alignment_units'']"

record handoff_policy =
  hp_minimum :: dbl
  hp_maximum :: dbl
  hp_threshold :: dbl
  hp_voiceprint :: posterior_policy

definition load_handoff_policy :: "obj \<Rightarrow> handoff_policy res" where
  "load_handoff_policy document =
    rbind (load_posterior_policy document) (\<lambda>voiceprint.
    let section = dget document ''vad_active_edge'' (JObj []); label = ''VAD active-edge policy missing: '' in
    rbind (require_flags section handoff_flags label ''all VAD active-edge contracts are mandatory'') (\<lambda>_.
    rbind (required_number section label ''minimum_run_sec'') (\<lambda>a.
    rbind (required_number section label ''maximum_run_sec'') (\<lambda>b.
    rbind (required_number section label ''frame_activity_threshold'') (\<lambda>threshold.
    raise_if (EPSILON < \<bar>a - bp_minimum_run voiceprint\<bar>) (ValueError ''VAD active-edge minimum differs from FR16J'')
    (raise_if (EPSILON < \<bar>threshold - bp_threshold voiceprint\<bar>)
      (ValueError ''VAD active-edge activity differs from FR16J'')
    (rbind (embed_window document) (\<lambda>window.
     raise_if (EPSILON < \<bar>b - window\<bar>) (ValueError ''VAD active-edge maximum differs from embedding window'')
     (Inr \<lparr>hp_minimum = a, hp_maximum = b, hp_threshold = threshold, hp_voiceprint = voiceprint\<rparr>)))))))))"

definition handoff_policy_doc :: "handoff_policy \<Rightarrow> json" where
  "handoff_policy_doc p = JObj (flags_doc handoff_flags @ [(''minimum_run_sec'', JFlt (hp_minimum p)),
     (''maximum_run_sec'', JFlt (hp_maximum p)), (''frame_activity_threshold'', JFlt (hp_threshold p))])"

section \<open>Active edge runs\<close>

definition unguarded :: "handoff_policy \<Rightarrow> edge_policy" where
  "unguarded p = \<lparr>ep_minimum = hp_minimum p, ep_maximum = hp_maximum p, ep_guarded = False, ep_threshold = hp_threshold p\<rparr>"

definition active_edge_runs :: "top1_frame list \<Rightarrow> dbl \<Rightarrow> span list \<Rightarrow> handoff_policy \<Rightarrow> edge_run list" where
  "active_edge_runs frames period vad p =
    filter (\<lambda>x. hp_threshold p \<le> wr_min (eg_run x) + EPSILON \<and> hp_threshold p \<le> wr_min (eg_adjacent x) + EPSILON)
      (edge_runs frames period vad (unguarded p))"

definition active_edge_pieces ::
  "json \<Rightarrow> top1_frame list \<Rightarrow> dbl \<Rightarrow> span list \<Rightarrow> handoff_policy \<Rightarrow> (voiced_piece list \<times> edge_run list) res" where
  "active_edge_pieces metadata frames period vad p =
    (let found = active_edge_runs frames period vad p in
     rbind (rmap (edge_pieces_of (''active_edge_run_id'', ''vad_active_edge:'') metadata) (enumerate 0 found)) (\<lambda>xs.
     Inr (numbered_pieces ''vad_active_edge_piece:'' (concat xs), found)))"

section \<open>Decision of the active edges\<close>

definition dual_conflict :: "string option \<Rightarrow> string option \<Rightarrow> string option \<Rightarrow> bool" where
  "dual_conflict current robust mapped \<longleftrightarrow> current \<noteq> None \<and> robust \<noteq> None \<and> current = robust \<and> current \<noteq> mapped"

definition handoff_verdict :: "string \<Rightarrow> string list \<Rightarrow> string option \<Rightarrow> bool \<Rightarrow> string list \<Rightarrow> bool \<times> string" where
  "handoff_verdict label active mapped vetoed conflicts =
    (if mapped \<notin> Some ` set active then (False, label @ ''_local_mapping_missing'')
     else if vetoed then (False, label @ ''_agreed_different_voiceprint_veto'')
     else if conflicts = [] then (False, label @ ''_known_baseline_conflict_missing'')
     else (True, label @ ''_sortformer_handoff''))"

definition handoff_decision ::
  "obj \<Rightarrow> string option \<Rightarrow> selection \<Rightarrow> selection \<Rightarrow> bool \<Rightarrow> string list \<Rightarrow> bool \<times> string \<Rightarrow> obj" where
  "handoff_decision d mapped current robust vetoed conflicts = (\<lambda>(accepted, reason).
     updated d (voice_entries mapped current robust @
     [(''agreed_different_voiceprint_veto'', JBool vetoed), (''known_baseline_conflict_ids'', JArr (map JStr conflicts)),
      (''selected_speaker_id'', if accepted then opt_json mapped else JNull),
      (''accepted'', JBool accepted), (''reason'', JStr reason)]))"

definition decide_handoff ::
  "string \<Rightarrow> gate_policy \<Rightarrow> string list \<Rightarrow> (int, string) pydict \<Rightarrow> piece_decider" where
  "decide_handoff label g active local_to_id piece session robust frs =
    (let current = select_identity (Some session) active g; other = select_identity (Some robust) active g in
     rbind (rbind (vitem piece ''local_speaker'') py_int) (\<lambda>local.
     let mapped = map_of local_to_id local in
     rbind (known_conflicts frs mapped) (\<lambda>conflicts.
     let vetoed = dual_conflict (fst current) (fst other) mapped;
         verdict = handoff_verdict label active mapped vetoed conflicts in
     rbind (vdict piece) (\<lambda>d. Inr (handoff_decision d mapped current other vetoed conflicts verdict, verdict, mapped)))))"

section \<open>Build and commands of the active edges\<close>

definition build_handoff_candidate ::
  "json \<Rightarrow> json \<Rightarrow> voice_table \<Rightarrow> voice_table \<Rightarrow> json \<Rightarrow> handoff_policy \<Rightarrow> relative_result res" where
  "build_handoff_candidate baseline metadata session robust manifest p =
    build_piece_candidate \<lparr>kc_kind = ''orator_vad_active_edge_spans'',
      kc_mismatch = ''metadata kind differs from candidate contract''\<rparr>
      (\<lambda>active ids. on_overlaps (decide_handoff ''vad_active_edge'' (bp_gates (hp_voiceprint p)) active ids))
      baseline metadata session robust manifest"

definition command_handoff_spans ::
  "json \<Rightarrow> csv_table \<Rightarrow> activity_source \<Rightarrow> obj \<Rightarrow> (string \<times> file_identity) list \<Rightarrow> (table \<times> json) res" where
  "command_handoff_spans metadata frame_table activity config files =
    rbind (load_handoff_policy config) (\<lambda>p.
    rbind (read_top1_frames frame_table) (\<lambda>(frames, period).
    rbind (read_activity activity) (\<lambda>vad.
    rbind (active_edge_pieces metadata frames period vad p) (\<lambda>(pieces, found).
    rbind (vitem metadata ''asr'') (\<lambda>asr. rbind (vitem metadata ''align'') (\<lambda>align.
    Inr (write_voiced_spans pieces, voiced_metadata ''orator_vad_active_edge_spans'' period (handoff_policy_doc p)
      (hp_voiceprint p) asr align (''active_edge_runs'', ''active_edge_run_count'')
      (map (\<lambda>x. JObj (edge_fields x)) found) pieces files)))))))"

definition command_handoff_build ::
  "json \<Rightarrow> json \<Rightarrow> csv_table \<Rightarrow> csv_table \<Rightarrow> json \<Rightarrow> obj \<Rightarrow> (string \<times> file_identity) list \<Rightarrow> obj res" where
  "command_handoff_build baseline metadata session_table robust_table manifest config files =
    rbind (load_handoff_policy config) (\<lambda>p.
    rbind (read_voice session_table) (\<lambda>session. rbind (read_voice robust_table) (\<lambda>robust.
    rbind (build_handoff_candidate baseline metadata session robust manifest p) (\<lambda>r.
    Inr (dset ''sources'' (sources_doc files)
      (piece_result_doc ''v21_vad_active_edge_handoff'' (handoff_policy_doc p) (hp_voiceprint p) r))))))"

end
