(* ===== verification/Complete_Local.thy ===== *)
theory Complete_Local
  imports Vad_Edges
begin

text \<open>
  \<^verbatim>\<open>tools/archive/spec013-speaker-candidates/speaker_complete_local_phrase_candidate.py\<close>: a complete
  phrase inside one interval of voice activity whose frames all have one top-1 speaker takes the
  identity of that speaker's slot, unless a voiceprint table speaks against it.
\<close>

section \<open>Policy\<close>

definition local_flags :: "string list" where
  "local_flags = [''enabled'', ''require_complete_punctuation_phrase'', ''require_padded_vad_interval'',
     ''require_single_top1_channel'', ''require_uniform_known_baseline_identity'',
     ''veto_any_different_session_voiceprint'', ''veto_any_different_robust_voiceprint'',
     ''veto_top_ranked_baseline_voiceprint'', ''project_complete_phrase'']"

record local_policy =
  lp_minimum :: dbl
  lp_maximum :: dbl
  lp_voiceprint :: posterior_policy

definition load_local_policy :: "obj \<Rightarrow> local_policy res" where
  "load_local_policy document =
    rbind (load_posterior_policy document) (\<lambda>voiceprint.
    let section = dget document ''complete_local_phrase'' (JObj []); label = ''complete-local-phrase policy missing: '' in
    rbind (require_flags section local_flags label ''all complete-local-phrase contracts are mandatory'') (\<lambda>_.
    rbind (required_number section label ''minimum_phrase_sec'') (\<lambda>a.
    rbind (required_number section label ''maximum_phrase_sec'') (\<lambda>b.
    raise_if (EPSILON < \<bar>a - bp_minimum_run voiceprint\<bar>)
      (ValueError ''complete-local-phrase minimum differs from FR16J'')
    (rbind (embed_window document) (\<lambda>window.
     raise_if (EPSILON < \<bar>b - window\<bar>) (ValueError ''complete-local-phrase maximum differs from speaker'')
     (Inr \<lparr>lp_minimum = a, lp_maximum = b, lp_voiceprint = voiceprint\<rparr>)))))))"

text \<open>The policy dict, with further flags that a module using this one has added.\<close>

definition local_policy_doc :: "string list \<Rightarrow> local_policy \<Rightarrow> json" where
  "local_policy_doc extra p = JObj (flags_doc (local_flags @ filter (\<lambda>k. k \<notin> set local_flags) extra) @
     [(''minimum_phrase_sec'', JFlt (lp_minimum p)), (''maximum_phrase_sec'', JFlt (lp_maximum p))])"

section \<open>Pieces\<close>

definition containing_vad :: "span list \<Rightarrow> dbl \<Rightarrow> dbl \<Rightarrow> (nat \<times> dbl \<times> dbl) option" where
  "containing_vad vad s e =
    (let n = bisect_search (map fst vad) (s + EPSILON) 0 (length vad) in
     if n = 0 then None
     else let (a, b) = vad ! (n - 1) in
       if a \<le> s + EPSILON \<and> e \<le> b + EPSILON then Some (n - 1, a, b) else None)"

definition local_piece_doc :: "json \<Rightarrow> dbl \<times> dbl \<Rightarrow> top1_frame list \<Rightarrow> nat \<times> dbl \<times> dbl \<Rightarrow> voiced_piece res" where
  "local_piece_doc phrase = (\<lambda>(s, e) inside (i, vs, ve).
    rbind (vitem phrase ''evidence_id'') (\<lambda>eid. rbind (rbind (vitem phrase ''text_id'') py_int) (\<lambda>text_id.
    rbind (accepted_range phrase) (\<lambda>(a, b). rbind (vitem phrase ''text'') (\<lambda>t.
    Inr \<lparr>vq_id = py_str eid, vq_start = s, vq_end = e, vq_fields =
      [(''text_id'', JInt text_id), (''source_start'', JInt a), (''source_end'', JInt b), (''start'', JFlt s),
       (''end'', JFlt e), (''duration_sec'', JFlt (e - s)), (''text'', JStr (py_str t)),
       (''local_speaker'', JInt (hd (remdups (map tf_local inside)))), (''frame_start'', JInt (tf_frame (hd inside))),
       (''frame_end'', JInt (tf_frame (last inside) + 1)), (''frame_count'', JInt (int (length inside))),
       (''minimum_probability'', JFlt (least (map tf_probability inside))),
       (''mean_probability'', JFlt (mean_probability inside)),
       (''maximum_probability'', JFlt (greatest (map tf_probability inside))),
       (''vad_index'', JInt (int i)), (''vad_start'', JFlt vs), (''vad_end'', JFlt ve)]\<rparr>)))))"

definition local_piece :: "top1_frame list \<Rightarrow> span list \<Rightarrow> local_policy \<Rightarrow> json \<Rightarrow> voiced_piece option res" where
  "local_piece frames vad p phrase =
    rbind (float_item phrase ''start'') (\<lambda>s. rbind (float_item phrase ''end'') (\<lambda>e.
    let duration = e - s; inside = frames_in_interval frames (s, e) in
    if duration + EPSILON < lp_minimum p \<or> lp_maximum p + EPSILON < duration then Inr None
    else case containing_vad vad s e of None \<Rightarrow> Inr None
      | Some container \<Rightarrow>
          if inside = [] \<or> length (remdups (map tf_local inside)) \<noteq> 1 then Inr None
          else rbind (local_piece_doc phrase (s, e) inside container) (\<lambda>x. Inr (Some x))))"

definition local_pieces :: "json \<Rightarrow> top1_frame list \<Rightarrow> span list \<Rightarrow> local_policy \<Rightarrow> voiced_piece list res" where
  "local_pieces metadata frames vad p =
    rbind (rbind (vget metadata ''phrases'' (JArr [])) py_iter) (rcollect (local_piece frames vad p))"

section \<open>Decision\<close>

text \<open>The identities of the fragments under a piece, and the known ones among them as sorted texts.\<close>

definition fragment_ids :: "fragment list \<Rightarrow> json list res" where
  "fragment_ids frs = rmap (\<lambda>fr. vget (fr_entry fr) ''speaker_id'' JNull) frs"

definition known_ids :: "json list \<Rightarrow> string list" where
  "known_ids ids = sort (remdups (map py_str (filter (\<lambda>v. v \<noteq> JNull) ids)))"

definition uniform_known :: "json list \<Rightarrow> bool" where
  "uniform_known ids \<longleftrightarrow> ids \<noteq> [] \<and> JNull \<notin> set ids \<and> length (known_ids ids) = 1"

text \<open>A table that selects somebody else.\<close>

definition view_against :: "selection \<Rightarrow> string option \<Rightarrow> bool" where
  "view_against v s \<longleftrightarrow> fst v \<noteq> None \<and> fst v \<noteq> s"

text \<open>A table that ranks the baseline's identity first.\<close>

definition view_prefers :: "selection \<Rightarrow> string \<Rightarrow> bool" where
  "view_prefers v s \<longleftrightarrow> (case snd (snd v) of [] \<Rightarrow> False | (name, _) # _ \<Rightarrow> name = s)"

definition local_verdict ::
  "string \<Rightarrow> string list \<Rightarrow> string option \<Rightarrow> json list \<Rightarrow> selection \<Rightarrow> selection \<Rightarrow> bool \<times> string" where
  "local_verdict label active mapped ids current robust =
    (if mapped \<notin> Some ` set active then (False, label @ ''_local_mapping_missing'')
     else if \<not> uniform_known ids then (False, label @ ''_baseline_not_uniform_known'')
     else if Some (hd (known_ids ids)) = mapped then (False, label @ ''_known_baseline_conflict_missing'')
     else if view_against current mapped then (False, label @ ''_session_voiceprint_veto'')
     else if view_against robust mapped then (False, label @ ''_robust_voiceprint_veto'')
     else if view_prefers current (hd (known_ids ids)) then (False, label @ ''_session_top_ranked_baseline_veto'')
     else if view_prefers robust (hd (known_ids ids)) then (False, label @ ''_robust_top_ranked_baseline_veto'')
     else (True, label @ ''_sortformer_consensus''))"

definition outcome_entries :: "json \<Rightarrow> bool \<times> string \<Rightarrow> obj" where
  "outcome_entries selected = (\<lambda>(accepted, reason). [(''selected_speaker_id'', if accepted then selected else JNull),
     (''accepted'', JBool accepted), (''reason'', JStr reason)])"

definition local_decision ::
  "obj \<Rightarrow> string option \<Rightarrow> json list \<Rightarrow> selection \<Rightarrow> selection \<Rightarrow> bool \<times> string \<Rightarrow> obj" where
  "local_decision d mapped ids current robust verdict = updated d
     ([(''mapped_speaker_id'', opt_json mapped), (''baseline_speaker_ids'', JArr (map JStr (known_ids ids))),
       (''uniform_known_baseline'', JBool (uniform_known ids))] @ view_entries current robust @
      outcome_entries (opt_json mapped) verdict)"

definition decide_local ::
  "string \<Rightarrow> gate_policy \<Rightarrow> string list \<Rightarrow> (int, string) pydict \<Rightarrow> piece_decider" where
  "decide_local label g active local_to_id piece session robust frs =
    (let current = select_identity (Some session) active g; other = select_identity (Some robust) active g in
     rbind (rbind (vitem piece ''local_speaker'') py_int) (\<lambda>local.
     rbind (fragment_ids frs) (\<lambda>ids.
     let mapped = map_of local_to_id local; verdict = local_verdict label active mapped ids current other in
     rbind (vdict piece) (\<lambda>d. Inr (local_decision d mapped ids current other verdict, verdict, mapped)))))"

section \<open>Build and commands\<close>

definition build_local_candidate ::
  "json \<Rightarrow> json \<Rightarrow> voice_table \<Rightarrow> voice_table \<Rightarrow> json \<Rightarrow> local_policy \<Rightarrow> relative_result res" where
  "build_local_candidate baseline metadata session robust manifest p =
    build_piece_candidate \<lparr>kc_kind = ''orator_complete_local_phrase_spans'',
      kc_mismatch = ''metadata kind differs from candidate contract''\<rparr>
      (\<lambda>active ids. on_overlaps (decide_local ''complete_local_phrase'' (bp_gates (lp_voiceprint p)) active ids))
      baseline metadata session robust manifest"

text \<open>The metadata of phrases, which are no parts of runs.\<close>

definition phrase_piece_metadata ::
  "string \<Rightarrow> dbl \<Rightarrow> json \<Rightarrow> posterior_policy \<Rightarrow> json \<Rightarrow> json \<Rightarrow> voiced_piece list \<Rightarrow> (string \<times> file_identity) list \<Rightarrow> json" where
  "phrase_piece_metadata kind period policy voiceprint asr align pieces files = JObj
     [(''schema_version'', JInt 1), (''kind'', JStr kind), (''frame_period_sec'', JFlt period), (''policy'', policy),
      (''voiceprint_policy'', posterior_policy_doc voiceprint), (''asr'', asr), (''align'', align),
      (''pieces'', JArr (map voiced_doc pieces)), (''piece_count'', JInt (int (length pieces))),
      (''sources'', sources_doc files)]"

text \<open>The spans command, for any way to add to the pieces; the bracketed candidates have the same command.\<close>

definition local_spans ::
  "(json \<Rightarrow> voiced_piece list \<Rightarrow> voiced_piece list res) \<Rightarrow> string \<Rightarrow> string list \<Rightarrow> local_policy \<Rightarrow> json \<Rightarrow> csv_table
     \<Rightarrow> activity_source \<Rightarrow> (string \<times> file_identity) list \<Rightarrow> (table \<times> json) res" where
  "local_spans annotate kind extra p metadata frame_table activity files =
    rbind (vget metadata ''kind'' JNull) (\<lambda>mk.
    raise_if (mk \<noteq> JStr ''orator_punctuation_phrase_spans'')
      (ValueError ''alignment is not punctuation-phrase metadata'')
    (rbind (read_top1_frames frame_table) (\<lambda>(frames, period).
     rbind (read_activity activity) (\<lambda>vad.
     rbind (rbind (local_pieces metadata frames vad p) (annotate metadata)) (\<lambda>pieces.
     rbind (vitem metadata ''asr'') (\<lambda>asr. rbind (vitem metadata ''align'') (\<lambda>align.
     Inr (write_voiced_spans pieces,
       phrase_piece_metadata kind period (local_policy_doc extra p) (lp_voiceprint p) asr align pieces files))))))))"

definition command_local_spans ::
  "json \<Rightarrow> csv_table \<Rightarrow> activity_source \<Rightarrow> obj \<Rightarrow> (string \<times> file_identity) list \<Rightarrow> (table \<times> json) res" where
  "command_local_spans metadata frame_table activity config files =
    rbind (load_local_policy config) (\<lambda>p.
    local_spans (\<lambda>_. Inr) ''orator_complete_local_phrase_spans'' [] p metadata frame_table activity files)"

definition command_local_build ::
  "json \<Rightarrow> json \<Rightarrow> csv_table \<Rightarrow> csv_table \<Rightarrow> json \<Rightarrow> obj \<Rightarrow> (string \<times> file_identity) list \<Rightarrow> obj res" where
  "command_local_build baseline metadata session_table robust_table manifest config files =
    rbind (load_local_policy config) (\<lambda>p.
    rbind (read_voice session_table) (\<lambda>session. rbind (read_voice robust_table) (\<lambda>robust.
    rbind (build_local_candidate baseline metadata session robust manifest p) (\<lambda>r.
    Inr (dset ''sources'' (sources_doc files)
      (piece_result_doc ''v21_complete_local_phrase_consensus'' (local_policy_doc [] p) (lp_voiceprint p) r))))))"

end
