(* ===== verification/Bracketed_Phrases.thy ===== *)
theory Bracketed_Phrases
  imports Complete_Local
begin

text \<open>
  \<^verbatim>\<open>tools/archive/spec013-speaker-candidates/speaker_bracketed_unknown_phrase_candidate.py\<close> and
  \<^verbatim>\<open>speaker_bracketed_local_phrase_candidate.py\<close>: the phrases of the complete local candidate are
  decided by their neighbours.  A phrase without identity takes the one identity of the fragments
  around it; a phrase of one known identity takes that of the phrases around it.
\<close>

section \<open>Policies\<close>

definition unknown_flags :: "string list" where
  "unknown_flags = [''enabled'', ''require_unknown_only_phrase'', ''require_immediately_adjacent_known_fragments'',
     ''require_same_adjacent_identity'', ''require_raw_local_identity_agreement'',
     ''veto_any_different_session_voiceprint'', ''veto_any_different_robust_voiceprint'', ''project_complete_phrase'']"

definition load_unknown_policy :: "obj \<Rightarrow> local_policy res" where
  "load_unknown_policy document = rbind (load_local_policy document) (\<lambda>p.
     rbind (require_flags (dget document ''bracketed_unknown_phrase'' (JObj [])) unknown_flags
       ''bracketed-unknown policy missing: '' ''all bracketed-unknown contracts are mandatory'') (\<lambda>_. Inr p))"

definition known_flags :: "string list" where
  "known_flags = [''enabled'', ''require_uniform_known_phrase_identity'', ''require_immediately_adjacent_phrases'',
     ''require_uniform_known_adjacent_phrases'', ''require_same_adjacent_identity'',
     ''require_raw_local_identity_agreement'', ''require_known_phrase_conflict'',
     ''veto_any_different_session_voiceprint'', ''veto_any_different_robust_voiceprint'', ''project_complete_phrase'']"

definition load_known_policy :: "obj \<Rightarrow> local_policy res" where
  "load_known_policy document = rbind (load_local_policy document) (\<lambda>p.
     rbind (require_flags (dget document ''bracketed_local_phrase'' (JObj [])) known_flags
       ''bracketed-local policy missing: '' ''all bracketed-local contracts are mandatory'') (\<lambda>_. Inr p))"

section \<open>Neighbours\<close>

text \<open>The entries of the track on both sides of a piece, where there are any.\<close>

type_synonym neighbours = "json option \<times> json option"

text \<open>The first of the greatest, and of the least elements of a list by a number.\<close>

definition most_by :: "('a \<Rightarrow> nat) \<Rightarrow> 'a list \<Rightarrow> 'a" where
  "most_by key xs = foldl (\<lambda>x y. if key x < key y then y else x) (hd xs) (tl xs)"

definition least_by :: "('a \<Rightarrow> nat) \<Rightarrow> 'a list \<Rightarrow> 'a" where
  "least_by key xs = foldl (\<lambda>x y. if key y < key x then y else x) (hd xs) (tl xs)"

definition adjacent_fragments :: "json \<Rightarrow> fragment list \<Rightarrow> neighbours res" where
  "adjacent_fragments piece frs =
    rbind (accepted_range piece) (\<lambda>(a, b).
    let left = filter (\<lambda>fr. int (fr_end fr) \<le> a) frs; right = filter (\<lambda>fr. b \<le> int (fr_start fr)) frs in
    if left = [] \<or> right = [] then Inr (None, None)
    else let l = most_by fr_end left; r = least_by fr_start right in
      if int (fr_end l) \<noteq> a \<or> int (fr_start r) \<noteq> b then Inr (None, None)
      else Inr (Some (fr_entry l), Some (fr_entry r)))"

text \<open>The range that an annotated piece names on one side; without one there is no neighbour.\<close>

definition named_range :: "json \<Rightarrow> string \<Rightarrow> (int \<times> int) option res" where
  "named_range piece side = rbind (name_set piece) (\<lambda>names.
     if side @ ''_phrase_source_start'' \<notin> set names \<or> side @ ''_phrase_source_end'' \<notin> set names then Inr None
     else rbind (rbind (vitem piece (side @ ''_phrase_source_start'')) py_int) (\<lambda>a.
       rbind (rbind (vitem piece (side @ ''_phrase_source_end'')) py_int) (\<lambda>b. Inr (Some (a, b)))))"

definition uniform_phrase_fragment :: "json \<Rightarrow> fragment list \<Rightarrow> string \<Rightarrow> json option res" where
  "uniform_phrase_fragment piece frs side = rbind (named_range piece side) (\<lambda>r. case r of None \<Rightarrow> Inr None
     | Some (a, b) \<Rightarrow>
         rbind (overlapping_fragments (JObj [(''source_start'', JInt a), (''source_end'', JInt b)]) frs) (\<lambda>met.
         rbind (fragment_ids met) (\<lambda>ids.
         Inr (if uniform_known ids then Some (JObj [(''speaker_id'', JStr (hd (known_ids ids)))]) else None))))"

definition phrase_neighbours :: "json \<Rightarrow> fragment list \<Rightarrow> neighbours res" where
  "phrase_neighbours piece frs = rbind (uniform_phrase_fragment piece frs ''left'') (\<lambda>l.
     rbind (uniform_phrase_fragment piece frs ''right'') (\<lambda>r. Inr (l, r)))"

definition side_identity :: "json option \<Rightarrow> json res" where
  "side_identity side = (case side of None \<Rightarrow> Inr JNull | Some entry \<Rightarrow> vget entry ''speaker_id'' JNull)"

definition bracket_identity :: "json \<Rightarrow> json \<Rightarrow> json" where
  "bracket_identity l r = (if l \<noteq> JNull \<and> py_eq l r then l else JNull)"

section \<open>Decisions\<close>

text \<open>
  What a decision looks at: the identities under the piece, those on both sides, whether both
  sides are there, the mapped identity and the two tables.
\<close>

record bracket_view =
  bv_ids :: "json list"
  bv_sides :: neighbours
  bv_left :: json
  bv_right :: json
  bv_mapped :: "string option"
  bv_session :: selection
  bv_robust :: selection

definition bv_bracket :: "bracket_view \<Rightarrow> json" where
  "bv_bracket v = bracket_identity (bv_left v) (bv_right v)"

definition side_missing :: "bracket_view \<Rightarrow> bool" where
  "side_missing v \<longleftrightarrow> fst (bv_sides v) = None \<or> snd (bv_sides v) = None"

definition unmapped_bracket :: "string list \<Rightarrow> bracket_view \<Rightarrow> bool" where
  "unmapped_bracket active v \<longleftrightarrow> opt_json (bv_mapped v) \<noteq> bv_bracket v \<or> bv_mapped v \<notin> Some ` set active"

definition voice_against :: "selection \<Rightarrow> bracket_view \<Rightarrow> bool" where
  "voice_against voice v \<longleftrightarrow> fst voice \<noteq> None \<and> opt_json (fst voice) \<noteq> bv_bracket v"

definition unknown_verdict :: "string list \<Rightarrow> bracket_view \<Rightarrow> bool \<times> string" where
  "unknown_verdict active v =
    (if \<not> (bv_ids v \<noteq> [] \<and> (\<forall>x \<in> set (bv_ids v). x = JNull)) then (False, ''bracketed_unknown_not_unknown_only'')
     else if side_missing v then (False, ''bracketed_unknown_adjacent_fragment_missing'')
     else if bv_bracket v = JNull then (False, ''bracketed_unknown_adjacent_identity_disagreement'')
     else if unmapped_bracket active v then (False, ''bracketed_unknown_raw_local_identity_disagreement'')
     else if voice_against (bv_session v) v then (False, ''bracketed_unknown_session_voiceprint_veto'')
     else if voice_against (bv_robust v) v then (False, ''bracketed_unknown_robust_voiceprint_veto'')
     else (True, ''bracketed_unknown_temporal_local_consensus''))"

definition known_verdict :: "string list \<Rightarrow> bracket_view \<Rightarrow> bool \<times> string" where
  "known_verdict active v =
    (if \<not> uniform_known (bv_ids v) then (False, ''bracketed_local_phrase_not_uniform_known'')
     else if side_missing v then (False, ''bracketed_local_phrase_adjacent_phrase_missing'')
     else if bv_bracket v = JNull then (False, ''bracketed_local_phrase_adjacent_phrase_identity_disagreement'')
     else if JStr (hd (known_ids (bv_ids v))) = bv_bracket v
       then (False, ''bracketed_local_phrase_known_conflict_missing'')
     else if unmapped_bracket active v then (False, ''bracketed_local_phrase_raw_local_identity_disagreement'')
     else if voice_against (bv_session v) v then (False, ''bracketed_local_phrase_session_voiceprint_veto'')
     else if voice_against (bv_robust v) v then (False, ''bracketed_local_phrase_robust_voiceprint_veto'')
     else (True, ''bracketed_local_phrase_temporal_local_consensus''))"

text \<open>The entries of a decision dict between the mapped identity and the neighbours.\<close>

definition unknown_entries :: "bracket_view \<Rightarrow> obj" where
  "unknown_entries v = [(''unknown_only_baseline'', JBool (bv_ids v \<noteq> [] \<and> (\<forall>x \<in> set (bv_ids v). x = JNull)))]"

definition known_entries :: "bracket_view \<Rightarrow> obj" where
  "known_entries v = [(''phrase_speaker_ids'', JArr (map JStr (known_ids (bv_ids v)))),
     (''uniform_known_phrase'', JBool (uniform_known (bv_ids v)))]"

definition bracket_decision :: "(bracket_view \<Rightarrow> obj) \<Rightarrow> obj \<Rightarrow> bracket_view \<Rightarrow> bool \<times> string \<Rightarrow> obj" where
  "bracket_decision entries d v verdict = updated d
     ((''mapped_speaker_id'', opt_json (bv_mapped v)) # entries v @
      [(''left_speaker_id'', bv_left v), (''right_speaker_id'', bv_right v), (''bracket_speaker_id'', bv_bracket v)] @
      view_entries (bv_session v) (bv_robust v) @ outcome_entries (bv_bracket v) verdict)"

text \<open>
  Both decision functions: they differ in the verdict and in what they write of the phrase.  An
  accepted bracket is the mapped identity.
\<close>

definition decide_bracketed ::
  "(json \<Rightarrow> fragment list \<Rightarrow> neighbours res) \<Rightarrow> (string list \<Rightarrow> bracket_view \<Rightarrow> bool \<times> string) \<Rightarrow> (bracket_view \<Rightarrow> obj)
     \<Rightarrow> gate_policy \<Rightarrow> string list \<Rightarrow> (int, string) pydict \<Rightarrow> piece_decider" where
  "decide_bracketed around judge entries g active local_to_id piece session robust frs =
    rbind (overlapping_fragments piece frs) (\<lambda>met. rbind (around piece frs) (\<lambda>(l, r).
    rbind (rbind (vitem piece ''local_speaker'') py_int) (\<lambda>local.
    rbind (fragment_ids met) (\<lambda>ids. rbind (side_identity l) (\<lambda>left. rbind (side_identity r) (\<lambda>right.
    let v = \<lparr>bv_ids = ids, bv_sides = (l, r), bv_left = left, bv_right = right, bv_mapped = map_of local_to_id local,
          bv_session = select_identity (Some session) active g, bv_robust = select_identity (Some robust) active g\<rparr>;
        verdict = judge active v in
    rbind (vdict piece) (\<lambda>d. Inr (bracket_decision entries d v verdict, verdict, bv_mapped v))))))))"

section \<open>Neighbouring phrases\<close>

definition phrase_indices :: "json list \<Rightarrow> (string, nat) pydict res" where
  "phrase_indices phrases = rfold (\<lambda>d (i, x). rbind (vitem x ''evidence_id'') (\<lambda>v. Inr (dset (py_str v) i d))) []
     (enumerate 0 phrases)"

definition side_range :: "json list \<Rightarrow> nat \<Rightarrow> string \<Rightarrow> nat \<Rightarrow> obj res" where
  "side_range phrases i side j =
    rbind (vitem (phrases ! j) ''text_id'') (\<lambda>t. rbind (vitem (phrases ! i) ''text_id'') (\<lambda>u.
    if \<not> py_eq t u then Inr []
    else rbind (accepted_range (phrases ! j)) (\<lambda>(a, b).
      Inr [(side @ ''_phrase_source_start'', JInt a), (side @ ''_phrase_source_end'', JInt b)])))"

definition annotate_piece :: "json list \<Rightarrow> (string, nat) pydict \<Rightarrow> voiced_piece \<Rightarrow> voiced_piece res" where
  "annotate_piece phrases indices x =
    rbind (ditem indices (vq_id x) (KeyError (vq_id x))) (\<lambda>i.
    rbind (if 0 < i then side_range phrases i ''left'' (i - 1) else Inr []) (\<lambda>l.
    rbind (if i + 1 < length phrases then side_range phrases i ''right'' (i + 1) else Inr []) (\<lambda>r.
    Inr (x\<lparr>vq_fields := vq_fields x @ l @ r\<rparr>))))"

definition annotate_phrase_neighbours :: "json \<Rightarrow> voiced_piece list \<Rightarrow> voiced_piece list res" where
  "annotate_phrase_neighbours alignment pieces =
    rbind (rbind (vget alignment ''phrases'' (JArr [])) py_iter) (\<lambda>phrases.
    rbind (phrase_indices phrases) (\<lambda>indices. rmap (annotate_piece phrases indices) pieces))"

section \<open>Build and commands\<close>

definition build_unknown_candidate ::
  "json \<Rightarrow> json \<Rightarrow> voice_table \<Rightarrow> voice_table \<Rightarrow> json \<Rightarrow> local_policy \<Rightarrow> relative_result res" where
  "build_unknown_candidate baseline metadata session robust manifest p =
    build_piece_candidate \<lparr>kc_kind = ''orator_bracketed_unknown_phrase_spans'',
      kc_mismatch = ''metadata is not bracketed-unknown evidence''\<rparr>
      (decide_bracketed adjacent_fragments unknown_verdict unknown_entries (bp_gates (lp_voiceprint p)))
      baseline metadata session robust manifest"

definition build_known_candidate ::
  "json \<Rightarrow> json \<Rightarrow> voice_table \<Rightarrow> voice_table \<Rightarrow> json \<Rightarrow> local_policy \<Rightarrow> relative_result res" where
  "build_known_candidate baseline metadata session robust manifest p =
    build_piece_candidate \<lparr>kc_kind = ''orator_bracketed_local_phrase_spans'',
      kc_mismatch = ''metadata is not bracketed-unknown evidence''\<rparr>
      (decide_bracketed phrase_neighbours known_verdict known_entries (bp_gates (lp_voiceprint p)))
      baseline metadata session robust manifest"

definition command_unknown_spans ::
  "json \<Rightarrow> csv_table \<Rightarrow> activity_source \<Rightarrow> obj \<Rightarrow> (string \<times> file_identity) list \<Rightarrow> (table \<times> json) res" where
  "command_unknown_spans metadata frame_table activity config files =
    rbind (load_unknown_policy config) (\<lambda>p.
    local_spans (\<lambda>_. Inr) ''orator_bracketed_unknown_phrase_spans'' unknown_flags p metadata frame_table activity files)"

definition command_known_spans ::
  "json \<Rightarrow> csv_table \<Rightarrow> activity_source \<Rightarrow> obj \<Rightarrow> (string \<times> file_identity) list \<Rightarrow> (table \<times> json) res" where
  "command_known_spans metadata frame_table activity config files =
    rbind (load_known_policy config) (\<lambda>p.
    local_spans annotate_phrase_neighbours ''orator_bracketed_local_phrase_spans'' known_flags p metadata frame_table
      activity files)"

definition command_unknown_build ::
  "json \<Rightarrow> json \<Rightarrow> csv_table \<Rightarrow> csv_table \<Rightarrow> json \<Rightarrow> obj \<Rightarrow> (string \<times> file_identity) list \<Rightarrow> obj res" where
  "command_unknown_build baseline metadata session_table robust_table manifest config files =
    rbind (load_unknown_policy config) (\<lambda>p.
    rbind (read_voice session_table) (\<lambda>session. rbind (read_voice robust_table) (\<lambda>robust.
    rbind (build_unknown_candidate baseline metadata session robust manifest p) (\<lambda>r.
    Inr (dset ''sources'' (sources_doc files)
      (piece_result_doc ''v21_bracketed_unknown_phrase_consensus'' (local_policy_doc unknown_flags p) (lp_voiceprint p) r))))))"

definition command_known_build ::
  "json \<Rightarrow> json \<Rightarrow> csv_table \<Rightarrow> csv_table \<Rightarrow> json \<Rightarrow> obj \<Rightarrow> (string \<times> file_identity) list \<Rightarrow> obj res" where
  "command_known_build baseline metadata session_table robust_table manifest config files =
    rbind (load_known_policy config) (\<lambda>p.
    rbind (read_voice session_table) (\<lambda>session. rbind (read_voice robust_table) (\<lambda>robust.
    rbind (build_known_candidate baseline metadata session robust manifest p) (\<lambda>r.
    Inr (dset ''sources'' (sources_doc files)
      (piece_result_doc ''v21_bracketed_local_phrase_consensus'' (local_policy_doc known_flags p) (lp_voiceprint p) r))))))"

end
