(* ===== verification/Local_Runs.thy ===== *)
theory Local_Runs
  imports Complete_Local Spans
begin

text \<open>
  \<^verbatim>\<open>speaker_expanded_local_run_phrase_candidate.py\<close>,
  \<^verbatim>\<open>speaker_bounded_local_run_voiceprint_candidate.py\<close> and
  \<^verbatim>\<open>speaker_complete_source_voiceprint_candidate.py\<close> of
  \<^verbatim>\<open>tools/archive/spec013-speaker-candidates\<close>: a complete local phrase is compared by the voice of the
  maximal run of its speaker around it, of at most a maximal length in the second candidate; the third
  projects the decisions of the second over texts that have a single phrase.
\<close>

section \<open>Maximal runs\<close>

text \<open>The two loops of \<^verbatim>\<open>maximal_query\<close>: the positions before and after a phrase that go on with its speaker.\<close>

fun run_first :: "(top1_frame \<Rightarrow> bool) \<Rightarrow> top1_frame list \<Rightarrow> nat \<Rightarrow> nat" where
  "run_first continues frames 0 = 0"
| "run_first continues frames (Suc n) =
     (if continues (frames ! n) then run_first continues frames n else Suc n)"

function run_last :: "(top1_frame \<Rightarrow> bool) \<Rightarrow> top1_frame list \<Rightarrow> nat \<Rightarrow> nat" where
  "run_last continues frames n =
     (if n + 1 < length frames \<and> continues (frames ! (n + 1)) then run_last continues frames (n + 1) else n)"
  by pat_completeness auto
termination by (relation "measure (\<lambda>(_, frames, n). length frames - n)") auto

declare run_last.simps [simp del]

definition continues_before :: "int \<Rightarrow> dbl \<Rightarrow> top1_frame \<Rightarrow> bool" where
  "continues_before local vad_start f \<longleftrightarrow> \<not> (tf_local f \<noteq> local \<or> tf_time f < vad_start - EPSILON)"

definition continues_after :: "int \<Rightarrow> dbl \<Rightarrow> top1_frame \<Rightarrow> bool" where
  "continues_after local vad_end f \<longleftrightarrow> \<not> (tf_local f \<noteq> local \<or> vad_end + EPSILON \<le> tf_time f)"

record run_query =
  rq_start :: dbl
  rq_end :: dbl
  rq_frames :: "top1_frame list"

definition rq_seconds :: "run_query \<Rightarrow> dbl" where
  "rq_seconds q = rq_end q - rq_start q"

text \<open>A field of a piece as the code reads it.\<close>

definition piece_int :: "voiced_piece \<Rightarrow> string \<Rightarrow> int res" where
  "piece_int x k = rbind (vitem (voiced_doc x) k) py_int"

definition frame_position :: "top1_frame list \<Rightarrow> int \<Rightarrow> nat option" where
  "frame_position frames n = map_of (rev (zip (map tf_frame frames) [0..<length frames])) n"

definition run_range :: "top1_frame list \<Rightarrow> voiced_piece \<Rightarrow> (nat \<times> nat) res" where
  "run_range frames x =
    rbind (piece_int x ''frame_start'') (\<lambda>a. rbind (piece_int x ''frame_end'') (\<lambda>b.
    case (frame_position frames a, frame_position frames (b - 1)) of
      (Some i, Some j) \<Rightarrow> if j < i then Inl (ValueError (''phrase frame range is missing: '' @ vq_id x)) else Inr (i, j)
    | _ \<Rightarrow> Inl (ValueError (''phrase frame range is missing: '' @ vq_id x))))"

definition maximal_query :: "top1_frame list \<Rightarrow> dbl \<Rightarrow> voiced_piece \<Rightarrow> run_query res" where
  "maximal_query frames period x =
    rbind (run_range frames x) (\<lambda>(i, j). rbind (piece_int x ''local_speaker'') (\<lambda>local.
    rbind (float_item (voiced_doc x) ''vad_start'') (\<lambda>vs. rbind (float_item (voiced_doc x) ''vad_end'') (\<lambda>ve.
    let first = run_first (continues_before local vs) frames i; last = run_last (continues_after local ve) frames j in
    Inr \<lparr>rq_start = max vs (tf_time (frames ! first) - period / D 2), rq_end = min ve (tf_time (frames ! last) + period / D 2),
      rq_frames = slice first (last + 1) frames\<rparr>))))"

definition query_fields :: "run_query \<Rightarrow> obj" where
  "query_fields q = [(''query_start'', JFlt (rq_start q)), (''query_end'', JFlt (rq_end q)),
     (''query_duration_sec'', JFlt (rq_seconds q)), (''query_frame_start'', JInt (tf_frame (hd (rq_frames q)))),
     (''query_frame_end'', JInt (tf_frame (last (rq_frames q)) + 1)),
     (''query_frame_count'', JInt (int (length (rq_frames q)))),
     (''query_minimum_probability'', JFlt (least (map tf_probability (rq_frames q)))),
     (''query_mean_probability'', JFlt (mean_probability (rq_frames q))),
     (''query_maximum_probability'', JFlt (greatest (map tf_probability (rq_frames q))))]"

section \<open>Phrases and the baseline under them\<close>

text \<open>The one known identity of the fragments under a piece, if there is one.\<close>

definition uniform_identity :: "json \<Rightarrow> fragment list \<Rightarrow> string option res" where
  "uniform_identity piece frs = rbind (overlapping_fragments piece frs) (\<lambda>met. rbind (fragment_ids met) (\<lambda>ids.
     Inr (if uniform_known ids then Some (hd (known_ids ids)) else None)))"

text \<open>\<^verbatim>\<open>manifest.get("mapping", {}).items()\<close>.\<close>

definition slot_names_or_empty :: "json \<Rightarrow> (int, string) pydict res" where
  "slot_names_or_empty manifest = rbind (rbind (vget manifest ''mapping'' (JObj [])) vdict) (rfold add_slot_name [])"

text \<open>
  What both enumerations do first: the phrases whose slot is mapped and whose baseline is uniform,
  with the two identities, each decided by the rest of the loop body.
\<close>

definition mapped_phrase ::
  "fragments_by_text \<Rightarrow> (int, string) pydict \<Rightarrow> (voiced_piece \<Rightarrow> string \<Rightarrow> string \<Rightarrow> 'a option res) \<Rightarrow> voiced_piece \<Rightarrow> 'a option res" where
  "mapped_phrase fragments local_to_id rest x =
    rbind (piece_int x ''local_speaker'') (\<lambda>local. case map_of local_to_id local of None \<Rightarrow> Inr None
    | Some mapped \<Rightarrow>
        rbind (piece_int x ''text_id'') (\<lambda>text_id. rbind (ditem fragments text_id (KeyError (int_repr text_id))) (\<lambda>frs.
        rbind (uniform_identity (voiced_doc x) frs) (\<lambda>baseline. case baseline of None \<Rightarrow> Inr None
          | Some b \<Rightarrow> rest x mapped b))))"

definition mapped_phrases ::
  "(voiced_piece \<Rightarrow> string \<Rightarrow> string \<Rightarrow> (dbl \<times> dbl \<times> obj) option res) \<Rightarrow> string \<Rightarrow> json \<Rightarrow> top1_frame list \<Rightarrow> span list \<Rightarrow> json
     \<Rightarrow> json \<Rightarrow> local_policy \<Rightarrow> voiced_piece list res" where
  "mapped_phrases rest label metadata frames vad baseline manifest p =
    rbind (rbind (vget baseline ''track'' (JArr [])) track_fragments) (\<lambda>fragments.
    rbind (validate_source_text fragments metadata ''baseline'') (\<lambda>_.
    rbind (slot_names_or_empty manifest) (\<lambda>local_to_id.
    rbind (local_pieces metadata frames vad p) (\<lambda>phrases.
    rbind (rcollect (mapped_phrase fragments local_to_id rest) phrases) (\<lambda>xs. Inr (numbered_pieces label xs))))))"

definition phrase_copies :: "voiced_piece \<Rightarrow> string list \<Rightarrow> obj" where
  "phrase_copies x ks = (''phrase_evidence_id'', JStr (vq_id x)) #
     map (\<lambda>k. (''phrase_'' @ k, get (vq_fields x) k)) ks"

section \<open>Expanded runs\<close>

definition expanded_flags :: "string list" where
  "expanded_flags = [''enabled'', ''require_maximal_contiguous_top1_run'', ''require_query_strictly_expands_phrase'',
     ''require_query_within_padded_vad'', ''require_query_within_existing_embedding_window'',
     ''require_uniform_known_baseline_identity'', ''require_session_registry_agreement'',
     ''require_robust_gallery_agreement'', ''require_raw_local_identity_agreement'', ''project_complete_phrase'']"

record run_policy =
  rn_local :: local_policy
  rn_minimum :: dbl
  rn_maximum :: dbl

text \<open>The window of the speaker section is there: the policy of complete phrases has read it.\<close>

definition load_expanded_policy :: "obj \<Rightarrow> run_policy res" where
  "load_expanded_policy document =
    rbind (load_local_policy document) (\<lambda>p.
    let section = dget document ''expanded_local_run_phrase'' (JObj []); label = ''expanded-local-run policy missing: '' in
    rbind (require_flags section expanded_flags label ''all expanded-local-run contracts are mandatory'') (\<lambda>_.
    rbind (required_number section label ''minimum_query_sec'') (\<lambda>a.
    rbind (required_number section label ''maximum_query_sec'') (\<lambda>b.
    raise_if (EPSILON < \<bar>a - bp_minimum_run (lp_voiceprint p)\<bar>)
      (ValueError ''expanded-local-run minimum differs from FR16J'')
    (rbind (embed_window document) (\<lambda>window.
     raise_if (EPSILON < \<bar>b - window\<bar>) (ValueError ''expanded-local-run maximum differs from speaker'')
     (Inr \<lparr>rn_local = p, rn_minimum = a, rn_maximum = b\<rparr>)))))))"

definition run_policy_doc :: "string list \<Rightarrow> obj \<Rightarrow> run_policy \<Rightarrow> json" where
  "run_policy_doc flags numbers p = JObj (flags_doc local_flags @
     [(''minimum_phrase_sec'', JFlt (lp_minimum (rn_local p))), (''maximum_phrase_sec'', JFlt (lp_maximum (rn_local p)))] @
     flags_doc (filter (\<lambda>k. k \<notin> set local_flags) flags) @
     [(''minimum_query_sec'', JFlt (rn_minimum p)), (''maximum_query_sec'', JFlt (rn_maximum p))] @ numbers)"

definition expanded_piece ::
  "top1_frame list \<Rightarrow> dbl \<Rightarrow> run_policy \<Rightarrow> voiced_piece \<Rightarrow> string \<Rightarrow> string \<Rightarrow> (dbl \<times> dbl \<times> obj) option res" where
  "expanded_piece frames period p x mapped baseline = (if baseline = mapped then Inr None else
    rbind (maximal_query frames period x) (\<lambda>q.
    let expands = (rq_start q < vq_start x - EPSILON \<or> vq_end x + EPSILON < rq_end q) in
    Inr (if \<not> expands \<or> vq_start x + EPSILON < rq_start q \<or> rq_end q < vq_end x - EPSILON
           \<or> rq_seconds q + EPSILON < rn_minimum p \<or> rn_maximum p + EPSILON < rq_seconds q then None
         else Some (rq_start q, rq_end q, updated (vq_fields x)
           (phrase_copies x [''start'', ''end'', ''duration_sec'', ''frame_start'', ''frame_end'', ''frame_count''] @
            [(''start'', JFlt (rq_start q)), (''end'', JFlt (rq_end q)), (''duration_sec'', JFlt (rq_seconds q)),
             (''mapped_speaker_id'', JStr mapped), (''baseline_speaker_id'', JStr baseline),
             (''query_strictly_expands_phrase'', JBool expands)] @ query_fields q)))))"

definition expanded_verdict ::
  "string \<Rightarrow> string list \<Rightarrow> string option \<Rightarrow> json list \<Rightarrow> selection \<Rightarrow> selection \<Rightarrow> bool \<times> string" where
  "expanded_verdict label active mapped ids current robust =
    (if \<not> uniform_known ids then (False, label @ ''_baseline_not_uniform_known'')
     else if Some (hd (known_ids ids)) = mapped then (False, label @ ''_known_baseline_conflict_missing'')
     else if fst current = None then (False, label @ ''_session_registry_abstention'')
     else if fst robust = None then (False, label @ ''_robust_gallery_abstention'')
     else if fst current \<noteq> fst robust then (False, label @ ''_registry_disagreement'')
     else if fst current \<noteq> mapped then (False, label @ ''_raw_local_identity_disagreement'')
     else if mapped \<notin> Some ` set active then (False, label @ ''_local_mapping_missing'')
     else (True, label @ ''_dual_voiceprint_local_consensus''))"

definition decide_expanded ::
  "string \<Rightarrow> gate_policy \<Rightarrow> string list \<Rightarrow> (int, string) pydict \<Rightarrow> piece_decider" where
  "decide_expanded label g active local_to_id piece session robust frs =
    (let current = select_identity (Some session) active g; other = select_identity (Some robust) active g in
     rbind (rbind (vitem piece ''local_speaker'') py_int) (\<lambda>local.
     rbind (fragment_ids frs) (\<lambda>ids.
     let mapped = map_of local_to_id local; verdict = expanded_verdict label active mapped ids current other in
     rbind (vdict piece) (\<lambda>d. Inr (local_decision d mapped ids current other verdict, verdict, mapped)))))"

definition build_expanded_candidate ::
  "json \<Rightarrow> json \<Rightarrow> voice_table \<Rightarrow> voice_table \<Rightarrow> json \<Rightarrow> local_policy \<Rightarrow> relative_result res" where
  "build_expanded_candidate baseline metadata session robust manifest p =
    build_piece_candidate \<lparr>kc_kind = ''orator_expanded_local_run_phrase_spans'',
      kc_mismatch = ''metadata kind differs from candidate contract''\<rparr>
      (\<lambda>active ids. on_overlaps (decide_expanded ''expanded_local_run_phrase'' (bp_gates (lp_voiceprint p)) active ids))
      baseline metadata session robust manifest"

text \<open>The spans commands of this theory, from the pieces they enumerate.\<close>

definition run_spans ::
  "(top1_frame list \<Rightarrow> dbl \<Rightarrow> span list \<Rightarrow> voiced_piece list res) \<Rightarrow> string \<Rightarrow> json \<Rightarrow> posterior_policy \<Rightarrow> json \<Rightarrow> csv_table
     \<Rightarrow> activity_source \<Rightarrow> (string \<times> file_identity) list \<Rightarrow> (table \<times> json) res" where
  "run_spans enumerate_runs kind policy voiceprint metadata frame_table activity files =
    rbind (vget metadata ''kind'' JNull) (\<lambda>mk.
    raise_if (mk \<noteq> JStr ''orator_punctuation_phrase_spans'')
      (ValueError ''alignment is not punctuation-phrase metadata'')
    (rbind (read_top1_frames frame_table) (\<lambda>(frames, period).
     rbind (read_activity activity) (\<lambda>vad.
     rbind (enumerate_runs frames period vad) (\<lambda>pieces.
     rbind (vitem metadata ''asr'') (\<lambda>asr. rbind (vitem metadata ''align'') (\<lambda>align.
     Inr (write_voiced_spans pieces, phrase_piece_metadata kind period policy voiceprint asr align pieces files))))))))"

definition command_expanded_spans ::
  "json \<Rightarrow> csv_table \<Rightarrow> activity_source \<Rightarrow> json \<Rightarrow> json \<Rightarrow> obj \<Rightarrow> (string \<times> file_identity) list \<Rightarrow> (table \<times> json) res" where
  "command_expanded_spans metadata frame_table activity baseline manifest config files =
    rbind (load_expanded_policy config) (\<lambda>p.
    run_spans (\<lambda>frames period vad. mapped_phrases (expanded_piece frames period p) ''expanded_local_run_phrase:'' metadata
        frames vad baseline manifest (rn_local p))
      ''orator_expanded_local_run_phrase_spans'' (run_policy_doc expanded_flags [] p) (lp_voiceprint (rn_local p))
      metadata frame_table activity files)"

definition command_expanded_build ::
  "json \<Rightarrow> json \<Rightarrow> csv_table \<Rightarrow> csv_table \<Rightarrow> json \<Rightarrow> obj \<Rightarrow> (string \<times> file_identity) list \<Rightarrow> obj res" where
  "command_expanded_build baseline metadata session_table robust_table manifest config files =
    rbind (load_expanded_policy config) (\<lambda>p.
    rbind (read_voice session_table) (\<lambda>session. rbind (read_voice robust_table) (\<lambda>robust.
    rbind (build_expanded_candidate baseline metadata session robust manifest (rn_local p)) (\<lambda>r.
    Inr (dset ''sources'' (sources_doc files) (piece_result_doc ''v21_expanded_local_run_phrase_consensus''
      (run_policy_doc expanded_flags [] p) (lp_voiceprint (rn_local p)) r))))))"

section \<open>Bounded runs: policy and tables\<close>

definition bounded_flags :: "string list" where
  "bounded_flags = [''enabled'', ''require_complete_punctuation_phrase'', ''require_same_top1_context'',
     ''require_uniform_known_baseline_identity'', ''require_dual_voiceprint_agreement'',
     ''require_voiceprint_conflict_with_baseline'', ''require_voiceprint_conflict_with_raw_local'',
     ''require_selected_identity_active_raw_channel'', ''allow_unanimous_top2_selected_channel'',
     ''deterministic_max_window_query'', ''project_complete_phrase'']"

text \<open>The policy with the seconds a selected channel needs.\<close>

definition load_bounded_policy :: "obj \<Rightarrow> (run_policy \<times> dbl) res" where
  "load_bounded_policy document =
    rbind (load_local_policy document) (\<lambda>p.
    let section = dget document ''bounded_local_run_voiceprint'' (JObj []); label = ''bounded-local-run policy missing: '';
        shortest_run = bp_minimum_run (lp_voiceprint p) in
    rbind (require_flags section bounded_flags label ''all bounded-local-run contracts are mandatory'') (\<lambda>_.
    rbind (required_number section label ''minimum_query_sec'') (\<lambda>a.
    rbind (required_number section label ''maximum_query_sec'') (\<lambda>b.
    rbind (required_number section label ''minimum_selected_channel_sec'') (\<lambda>c.
    raise_if (EPSILON < \<bar>a - shortest_run\<bar>) (ValueError ''bounded-local-run minimum differs from FR16J'')
    (raise_if (EPSILON < \<bar>c - shortest_run\<bar>) (ValueError ''selected-channel minimum differs from FR16J'')
    (rbind (embed_window document) (\<lambda>window.
     raise_if (EPSILON < \<bar>b - window\<bar>) (ValueError ''bounded-local-run maximum differs from speaker'')
     (Inr (\<lparr>rn_local = p, rn_minimum = a, rn_maximum = b\<rparr>, c))))))))))"

definition native_segment :: "csv_row \<Rightarrow> (int \<times> span) res" where
  "native_segment row = rbind (csv_float row ''start_sec'') (\<lambda>s. rbind (csv_float row ''end_sec'') (\<lambda>e.
     raise_if (e \<le> s) (ValueError ''native diar interval is not positive'')
     (rbind (csv_int row ''local_speaker'') (\<lambda>spk. Inr (spk, s, e)))))"

definition read_diar :: "csv_table \<Rightarrow> (int \<times> span) list res" where
  "read_diar t = raise_if (\<not> {''start_sec'', ''end_sec'', ''local_speaker''} \<subseteq> set (csv_fields t))
     (ValueError ''native diar table is missing required columns'') (rmap native_segment (csv_rows t))"

definition add_top2 :: "(int, int) pydict \<Rightarrow> csv_row \<Rightarrow> (int, int) pydict res" where
  "add_top2 values row = rbind (csv_int row ''frame'') (\<lambda>n.
     raise_if (map_of values n \<noteq> None) (ValueError (''duplicate native frame '' @ int_repr n))
     (rbind (csv_int row ''top2'') (\<lambda>spk. Inr (dset n spk values))))"

definition read_top2 :: "csv_table \<Rightarrow> (int, int) pydict res" where
  "read_top2 t = raise_if (\<not> {''frame'', ''top2''} \<subseteq> set (csv_fields t)) (ValueError ''native frame table is missing top2'')
     (rfold add_top2 [] (csv_rows t))"

section \<open>Bounded runs: pieces\<close>

definition add_channel :: "span \<Rightarrow> (int, span list) pydict \<Rightarrow> int \<times> span \<Rightarrow> (int, span list) pydict" where
  "add_channel window intervals = (\<lambda>(local, a, b).
    (let s = max (fst window) a; e = min (snd window) b in
     if e \<le> s + EPSILON then intervals
     else dset local ((case map_of intervals local of None \<Rightarrow> [] | Some xs \<Rightarrow> xs) @ [(s, e)]) intervals))"

definition raw_channel_support :: "span \<Rightarrow> (int \<times> span) list \<Rightarrow> (string, dbl) pydict" where
  "raw_channel_support window diar = map (\<lambda>(local, xs). (int_repr local, total_span (merge_spans EPSILON xs)))
     (foldl (add_channel window) [] diar)"

definition bounded_query :: "voiced_piece \<Rightarrow> run_query \<Rightarrow> dbl \<Rightarrow> span res" where
  "bounded_query x q maximum =
    raise_if (vq_start x + EPSILON < rq_start q \<or> rq_end q < vq_end x - EPSILON)
      (ValueError (''local run does not contain phrase: '' @ vq_id x))
    (if rq_seconds q \<le> maximum + EPSILON then Inr (rq_start q, rq_end q)
     else let earliest = max (rq_start q) (vq_end x - maximum); latest = min (vq_start x) (rq_end q - maximum);
              preferred = (vq_start x + vq_end x - maximum) / D 2; s = min (max preferred earliest) latest in
       raise_if (latest + EPSILON < earliest) (ValueError (''bounded query cannot contain phrase: '' @ vq_id x))
         (Inr (s, s + maximum)))"

definition count_top2 :: "(int, int) pydict \<Rightarrow> (string, nat) pydict \<Rightarrow> top1_frame \<Rightarrow> (string, nat) pydict res" where
  "count_top2 top2 counts f =
    rbind (ditem top2 (tf_frame f) (ValueError (''top2 is missing frame '' @ int_repr (tf_frame f)))) (\<lambda>spk.
    Inr (dset (int_repr spk) (Suc (case map_of counts (int_repr spk) of None \<Rightarrow> 0 | Some n \<Rightarrow> n)) counts))"

definition query_frames :: "span \<Rightarrow> top1_frame list \<Rightarrow> top1_frame list" where
  "query_frames window frames = filter (\<lambda>f. fst window - EPSILON \<le> tf_time f \<and> tf_time f < snd window - EPSILON) frames"

definition bounded_fields ::
  "voiced_piece \<Rightarrow> run_query \<Rightarrow> span \<Rightarrow> dbl \<Rightarrow> top1_frame list \<Rightarrow> (string, dbl) pydict \<Rightarrow> (string, nat) pydict \<Rightarrow> string \<Rightarrow> string \<Rightarrow> obj" where
  "bounded_fields x q window maximum heard support counts mapped baseline = updated (vq_fields x)
     (phrase_copies x [''start'', ''end'', ''duration_sec'', ''frame_start'', ''frame_end''] @
      [(''start'', JFlt (fst window)), (''end'', JFlt (snd window)), (''duration_sec'', JFlt (snd window - fst window)),
       (''full_run_start'', JFlt (rq_start q)), (''full_run_end'', JFlt (rq_end q)),
       (''full_run_duration_sec'', JFlt (rq_seconds q)), (''query_was_bounded'', JBool (maximum + EPSILON < rq_seconds q)),
       (''query_frame_start'', JInt (tf_frame (hd heard))), (''query_frame_end'', JInt (tf_frame (last heard) + 1)),
       (''query_frame_count'', JInt (int (length heard))),
       (''raw_channel_support_sec'', JObj (map (\<lambda>(k, v). (k, JFlt v)) support)),
       (''raw_top2_frame_count'', JObj (map (\<lambda>(k, n). (k, JInt (int n))) counts)),
       (''mapped_speaker_id'', JStr mapped), (''baseline_speaker_id'', JStr baseline)])"

definition bounded_piece ::
  "top1_frame list \<Rightarrow> dbl \<Rightarrow> (int, int) pydict \<Rightarrow> (int \<times> span) list \<Rightarrow> run_policy \<Rightarrow> voiced_piece \<Rightarrow> string \<Rightarrow> string
     \<Rightarrow> (dbl \<times> dbl \<times> obj) option res" where
  "bounded_piece frames period top2 diar p x mapped baseline =
    rbind (maximal_query frames period x) (\<lambda>q.
    if vq_start x + EPSILON < rq_start q \<or> rq_end q < vq_end x - EPSILON then Inr None
    else rbind (bounded_query x q (rn_maximum p)) (\<lambda>window.
      let heard = query_frames window frames in
      if snd window - fst window + EPSILON < rn_minimum p
         \<or> vq_start x - EPSILON \<le> fst window \<and> snd window \<le> vq_end x + EPSILON \<or> heard = [] then Inr None
      else rbind (rfold (count_top2 top2) [] heard) (\<lambda>counts.
        Inr (Some (fst window, snd window,
          bounded_fields x q window (rn_maximum p) heard (raw_channel_support window diar) counts mapped baseline)))))"

section \<open>Bounded runs: decision and commands\<close>

text \<open>\<^verbatim>\<open>str(id_to_local.get(current_id))\<close>.\<close>

definition slot_text :: "(int, string) pydict \<Rightarrow> string \<Rightarrow> string" where
  "slot_text local_to_id s = (case map_of (invert_mapping local_to_id) s of None \<Rightarrow> ''None'' | Some i \<Rightarrow> int_repr i)"

text \<open>The slot of the selected identity was active for long enough, or second in every frame.\<close>

definition channel_active :: "json \<Rightarrow> dbl \<Rightarrow> string \<Rightarrow> bool res" where
  "channel_active piece minimum slot =
    rbind (rbind (rbind (vget piece ''raw_channel_support_sec'' (JObj [])) (\<lambda>v. vget v slot (JFlt 0))) py_float) (\<lambda>seconds.
    rbind (rbind (rbind (vget piece ''raw_top2_frame_count'' (JObj [])) (\<lambda>v. vget v slot (JInt 0))) py_int) (\<lambda>seconds_best.
    rbind (rbind (vget piece ''query_frame_count'' (JInt (- 1))) py_int) (\<lambda>n.
    Inr (minimum \<le> seconds + EPSILON \<or> seconds_best = n))))"

definition bounded_verdict ::
  "string \<Rightarrow> string list \<Rightarrow> string option \<Rightarrow> json list \<Rightarrow> selection \<Rightarrow> selection \<Rightarrow> (string \<Rightarrow> bool res) \<Rightarrow> (bool \<times> string) res" where
  "bounded_verdict label active mapped ids current robust active_channel =
    (if \<not> uniform_known ids then Inr (False, label @ ''_baseline_not_uniform_known'')
     else case fst current of None \<Rightarrow> Inr (False, label @ ''_session_registry_abstention'')
     | Some s \<Rightarrow>
         if fst robust = None then Inr (False, label @ ''_robust_gallery_abstention'')
         else if fst robust \<noteq> Some s then Inr (False, label @ ''_registry_disagreement'')
         else if s = hd (known_ids ids) then Inr (False, label @ ''_baseline_identity_conflict_missing'')
         else if mapped = Some s then Inr (False, label @ ''_raw_local_identity_conflict_missing'')
         else if mapped \<notin> Some ` set active then Inr (False, label @ ''_local_mapping_missing'')
         else rbind (active_channel s) (\<lambda>ok. Inr (if ok then (True, label @ ''_dual_voiceprint_override'')
           else (False, label @ ''_selected_raw_channel_missing''))))"

definition bounded_decision ::
  "obj \<Rightarrow> string option \<Rightarrow> json list \<Rightarrow> selection \<Rightarrow> selection \<Rightarrow> bool \<times> string \<Rightarrow> obj" where
  "bounded_decision d mapped ids current robust verdict = updated d
     ([(''mapped_speaker_id'', opt_json mapped), (''baseline_speaker_ids'', JArr (map JStr (known_ids ids))),
       (''uniform_known_baseline'', JBool (uniform_known ids))] @ view_entries current robust @
      outcome_entries (opt_json (fst current)) verdict)"

definition decide_bounded ::
  "string \<Rightarrow> dbl \<Rightarrow> gate_policy \<Rightarrow> string list \<Rightarrow> (int, string) pydict \<Rightarrow> piece_decider" where
  "decide_bounded label minimum g active local_to_id piece session robust frs =
    (let current = select_identity (Some session) active g; other = select_identity (Some robust) active g in
     rbind (rbind (vitem piece ''local_speaker'') py_int) (\<lambda>local.
     rbind (fragment_ids frs) (\<lambda>ids.
     let mapped = map_of local_to_id local in
     rbind (bounded_verdict label active mapped ids current other
       (\<lambda>s. channel_active piece minimum (slot_text local_to_id s))) (\<lambda>verdict.
     rbind (vdict piece) (\<lambda>d. Inr (bounded_decision d mapped ids current other verdict, verdict, fst current))))))"

definition build_bounded_candidate ::
  "string \<Rightarrow> string \<Rightarrow> json \<Rightarrow> json \<Rightarrow> voice_table \<Rightarrow> voice_table \<Rightarrow> json \<Rightarrow> run_policy \<times> dbl \<Rightarrow> relative_result res" where
  "build_bounded_candidate kind label baseline metadata session robust manifest = (\<lambda>(p, minimum).
    build_piece_candidate \<lparr>kc_kind = kind, kc_mismatch = ''metadata kind differs from candidate contract''\<rparr>
      (\<lambda>active ids. on_overlaps (decide_bounded label minimum (bp_gates (lp_voiceprint (rn_local p))) active ids))
      baseline metadata session robust manifest)"

definition bounded_policy_doc :: "obj \<Rightarrow> run_policy \<times> dbl \<Rightarrow> json" where
  "bounded_policy_doc extra = (\<lambda>(p, minimum).
     run_policy_doc bounded_flags ((''minimum_selected_channel_sec'', JFlt minimum) # extra) p)"

definition command_bounded_spans ::
  "json \<Rightarrow> csv_table \<Rightarrow> activity_source \<Rightarrow> csv_table \<Rightarrow> json \<Rightarrow> json \<Rightarrow> obj \<Rightarrow> (string \<times> file_identity) list \<Rightarrow> (table \<times> json) res" where
  "command_bounded_spans metadata frame_table activity diar_table baseline manifest config files =
    rbind (load_bounded_policy config) (\<lambda>(p, minimum).
    rbind (vget metadata ''kind'' JNull) (\<lambda>mk.
    raise_if (mk \<noteq> JStr ''orator_punctuation_phrase_spans'')
      (ValueError ''alignment is not punctuation-phrase metadata'')
    (rbind (read_top1_frames frame_table) (\<lambda>(frames, period).
     rbind (read_top2 frame_table) (\<lambda>top2.
     rbind (read_activity activity) (\<lambda>vad.
     rbind (read_diar diar_table) (\<lambda>diar.
     rbind (mapped_phrases (bounded_piece frames period top2 diar p) ''bounded_local_run_voiceprint:'' metadata frames vad
       baseline manifest (rn_local p)) (\<lambda>pieces.
     rbind (vitem metadata ''asr'') (\<lambda>asr. rbind (vitem metadata ''align'') (\<lambda>align.
     Inr (write_voiced_spans pieces, phrase_piece_metadata ''orator_bounded_local_run_voiceprint_spans'' period
       (bounded_policy_doc [] (p, minimum)) (lp_voiceprint (rn_local p)) asr align pieces files)))))))))))"

definition command_bounded_build ::
  "json \<Rightarrow> json \<Rightarrow> csv_table \<Rightarrow> csv_table \<Rightarrow> json \<Rightarrow> obj \<Rightarrow> (string \<times> file_identity) list \<Rightarrow> obj res" where
  "command_bounded_build baseline metadata session_table robust_table manifest config files =
    rbind (load_bounded_policy config) (\<lambda>(p, minimum).
    rbind (read_voice session_table) (\<lambda>session. rbind (read_voice robust_table) (\<lambda>robust.
    rbind (build_bounded_candidate ''orator_bounded_local_run_voiceprint_spans'' ''bounded_local_run_voiceprint''
      baseline metadata session robust manifest (p, minimum)) (\<lambda>r.
    Inr (dset ''sources'' (sources_doc files) (piece_result_doc ''v21_bounded_local_run_voiceprint_override''
      (bounded_policy_doc [] (p, minimum)) (lp_voiceprint (rn_local p)) r))))))"

section \<open>Complete sources\<close>

definition source_flags :: "string list" where
  "source_flags = [''enabled'', ''require_single_indexed_phrase_in_source'',
     ''require_complete_source_alignment_in_query'', ''require_uniform_known_source_identity'',
     ''reuse_bounded_local_run_voiceprint_decision'', ''project_complete_asr_source'']"

definition load_source_policy :: "obj \<Rightarrow> (run_policy \<times> dbl) res" where
  "load_source_policy document = rbind (load_bounded_policy document) (\<lambda>p.
     rbind (require_flags (dget document ''complete_source_voiceprint'' (JObj [])) source_flags
       ''complete-source policy missing: '' ''all complete-source contracts are mandatory'') (\<lambda>_. Inr p))"

text \<open>The separators among the characters of the model.\<close>

definition source_separator :: "char \<Rightarrow> bool" where
  "source_separator c \<longleftrightarrow> c \<in> set '',.?!;: '' \<or> c = CHR 0x09 \<or> c = CHR 0x0A \<or> c = CHR 0x0D"

definition alignment_inside :: "string \<Rightarrow> char_times \<Rightarrow> span \<Rightarrow> bool" where
  "alignment_inside source ts window \<longleftrightarrow> list_all (\<lambda>(c, t). source_separator c \<or>
     (case t of None \<Rightarrow> False | Some (s, e) \<Rightarrow> \<not> (s < fst window - EPSILON \<or> snd window + EPSILON < e))) (zip source ts)"

definition index_phrase :: "(int, json list) pydict \<Rightarrow> json \<Rightarrow> (int, json list) pydict res" where
  "index_phrase d x = rbind (rbind (vitem x ''text_id'') py_int) (\<lambda>t.
     Inr (dset t ((case map_of d t of None \<Rightarrow> [] | Some xs \<Rightarrow> xs) @ [x]) d))"

definition source_piece ::
  "json \<Rightarrow> fragments_by_text \<Rightarrow> (int, json list) pydict \<Rightarrow> json \<Rightarrow> obj option res" where
  "source_piece alignment fragments phrases piece =
    rbind (rbind (vitem piece ''text_id'') py_int) (\<lambda>t.
    case map_of phrases t of Some [x] \<Rightarrow>
      rbind (vitem x ''evidence_id'') (\<lambda>i. rbind (vitem piece ''phrase_evidence_id'') (\<lambda>j.
      if py_str i \<noteq> py_str j then Inr None
      else rbind (rbind (vitem alignment ''asr'') (\<lambda>asr. source_text asr t)) (\<lambda>source.
        rbind (float_item piece ''start'') (\<lambda>s. rbind (float_item piece ''end'') (\<lambda>e.
        rbind (rbind (rbind (vitem alignment ''align'') (\<lambda>align. vitem align (int_repr t))) py_iter) (\<lambda>us.
        rbind (aligned_character_times source us) (\<lambda>ts.
        if \<not> alignment_inside source ts (s, e) then Inr None
        else rbind (vdict piece) (\<lambda>d.
          let whole = updated d [(''source_start'', JInt 0), (''source_end'', JInt (int (length source))),
                (''text'', JStr source), (''projection_start'', JInt 0), (''projection_end'', JInt (int (length source))),
                (''indexed_phrase_count'', JInt 1), (''complete_source_alignment'', JBool True)] in
          rbind (ditem fragments t (KeyError (int_repr t))) (\<lambda>frs.
          rbind (uniform_identity (JObj whole) frs) (\<lambda>b.
          Inr (if b = None then None else Some whole)))))))))))
    | _ \<Rightarrow> Inr None)"

definition same_entry :: "json \<Rightarrow> json \<Rightarrow> string \<Rightarrow> bool res" where
  "same_entry v w k = rbind (vget v k JNull) (\<lambda>a. rbind (vget w k JNull) (\<lambda>b. Inr (py_eq a b)))"

definition source_pieces :: "json \<Rightarrow> json \<Rightarrow> json \<Rightarrow> obj list res" where
  "source_pieces bounded alignment baseline =
    rbind (vget bounded ''kind'' JNull) (\<lambda>bk.
    raise_if (bk \<noteq> JStr ''orator_bounded_local_run_voiceprint_spans'')
      (ValueError ''bounded metadata kind differs from source contract'')
    (rbind (vget alignment ''kind'' JNull) (\<lambda>ak.
     raise_if (ak \<noteq> JStr ''orator_punctuation_phrase_spans'')
       (ValueError ''alignment is not punctuation-phrase metadata'')
     (rbind (same_entry bounded alignment ''asr'') (\<lambda>same_asr.
      raise_if (\<not> same_asr) (ValueError ''bounded and phrase ASR metadata differ'')
      (rbind (same_entry bounded alignment ''align'') (\<lambda>same_align.
       raise_if (\<not> same_align) (ValueError ''bounded and phrase alignment metadata differ'')
       (rbind (rbind (vget baseline ''track'' (JArr [])) track_fragments) (\<lambda>fragments.
        rbind (validate_source_text fragments alignment ''baseline'') (\<lambda>_.
        rbind (rbind (rbind (vget alignment ''phrases'' (JArr [])) py_iter) (rfold index_phrase [])) (\<lambda>phrases.
        rbind (rbind (vget bounded ''pieces'' (JArr [])) py_iter)
          (rcollect (source_piece alignment fragments phrases)))))))))))))"

text \<open>The pieces keep their identifiers; a bounded piece has one.\<close>

definition source_span :: "obj \<Rightarrow> string list res" where
  "source_span d = rbind (rmap (item d) [''evidence_id'', ''start'', ''end'']) (\<lambda>vs. Inr (map py_str vs))"

definition command_source_spans ::
  "json \<Rightarrow> json \<Rightarrow> json \<Rightarrow> obj \<Rightarrow> (string \<times> file_identity) list \<Rightarrow> (table \<times> json) res" where
  "command_source_spans bounded alignment baseline config files =
    rbind (load_source_policy config) (\<lambda>(p, minimum).
    rbind (source_pieces bounded alignment baseline) (\<lambda>pieces.
    rbind (rmap source_span pieces) (\<lambda>spans.
    rbind (vitem bounded ''frame_period_sec'') (\<lambda>period.
    rbind (vitem alignment ''asr'') (\<lambda>asr. rbind (vitem alignment ''align'') (\<lambda>align.
    Inr ([''evidence_id'', ''start_sec'', ''end_sec''] # spans, JObj
      [(''schema_version'', JInt 1), (''kind'', JStr ''orator_complete_source_voiceprint_spans''),
       (''frame_period_sec'', period),
       (''policy'', bounded_policy_doc [(''complete_source_voiceprint'', JObj (flags_doc source_flags))] (p, minimum)),
       (''voiceprint_policy'', posterior_policy_doc (lp_voiceprint (rn_local p))), (''asr'', asr), (''align'', align),
       (''pieces'', JArr (map JObj pieces)), (''piece_count'', JInt (int (length pieces))),
       (''sources'', sources_doc files)])))))))"

definition command_source_build ::
  "json \<Rightarrow> json \<Rightarrow> csv_table \<Rightarrow> csv_table \<Rightarrow> json \<Rightarrow> obj \<Rightarrow> (string \<times> file_identity) list \<Rightarrow> obj res" where
  "command_source_build baseline metadata session_table robust_table manifest config files =
    rbind (load_source_policy config) (\<lambda>(p, minimum).
    rbind (read_voice session_table) (\<lambda>session. rbind (read_voice robust_table) (\<lambda>robust.
    rbind (build_bounded_candidate ''orator_complete_source_voiceprint_spans'' ''complete_source_voiceprint''
      baseline metadata session robust manifest (p, minimum)) (\<lambda>r.
    Inr (dset ''sources'' (sources_doc files) (piece_result_doc ''v21_complete_source_voiceprint_override''
      (bounded_policy_doc [(''complete_source_voiceprint'', JObj (flags_doc source_flags))] (p, minimum))
      (lp_voiceprint (rn_local p)) r))))))"

section \<open>Maximality\<close>

text \<open>A run goes on over every frame it takes and ends where no further frame goes on with it.\<close>

lemma run_first_maximal:
  "run_first continues frames n \<le> n \<and> (\<forall>k. run_first continues frames n \<le> k \<and> k < n \<longrightarrow> continues (frames ! k)) \<and>
   (run_first continues frames n = 0 \<or> \<not> continues (frames ! (run_first continues frames n - 1)))"
proof (induction n)
  case (Suc n)
  show ?case
  proof (cases "continues (frames ! n)")
    case True
    with Suc show ?thesis by (auto simp: less_Suc_eq)
  qed auto
qed simp

lemma run_last_maximal:
  assumes "n < length frames"
  shows "n \<le> run_last continues frames n \<and> run_last continues frames n < length frames \<and>
    (\<forall>k. n < k \<and> k \<le> run_last continues frames n \<longrightarrow> continues (frames ! k)) \<and>
    (run_last continues frames n + 1 = length frames \<or> \<not> continues (frames ! (run_last continues frames n + 1)))"
  using assms
proof (induction continues frames n rule: run_last.induct)
  case (1 continues frames n)
  show ?case
  proof (cases "n + 1 < length frames \<and> continues (frames ! (n + 1))")
    case True
    then have step: "run_last continues frames n = run_last continues frames (n + 1)" by (subst run_last.simps) simp
    have "continues (frames ! k)" if "n < k" "k \<le> run_last continues frames (n + 1)" for k
      using 1(1)[OF True] True that by (cases "k = n + 1") auto
    with 1(1)[OF True] True show ?thesis unfolding step by auto
  next
    case False
    then have "run_last continues frames n = n" by (subst run_last.simps) auto
    with False 1(2) show ?thesis by auto
  qed
qed

end
