(* ===== verification/Piece_Properties.thy ===== *)
theory Piece_Properties
  imports Relative_Properties Bracketed_Phrases Local_Runs Clause_Properties
begin

text \<open>
  Properties of the candidates that call one build with their own decision function: what the
  runs and the pieces are, and that a character changes only where the decision function of the
  candidate accepted a piece, with the consequences for the several decision functions.
\<close>

section \<open>Runs and pieces\<close>

interpretation channel: gated_loop "\<lambda>_. True" "finish_raw b" for b
  by unfold_locales (simp add: finish_raw_def)

text \<open>The runs of an interval are its frames in plain groups of one speaker.\<close>

lemma frame_groups: "gated_groups (\<lambda>_. True) fs = key_groups tf_local fs"
proof -
  have g: "key_groups (frame_key (\<lambda>_. True)) fs = key_groups tf_local fs"
    by (induction "frame_key (\<lambda>_. True)" fs rule: key_groups.induct) (simp_all add: frame_key_def)
  show ?thesis unfolding gated_groups_def g by (simp add: frame_key_def)
qed

lemma raw_runs_are_groups:
  "raw_runs_for_vad frames period interval =
    (let b = \<lparr>rb_first = fst interval, rb_last = snd interval, rb_period = period\<rparr> in
     concat (map (finish_raw b) (key_groups tf_local (filter (in_interval interval) (phrase_frames frames b)))))"
  by (simp add: raw_runs_for_vad_def channel.runs_are_groups frame_groups Let_def)

text \<open>
  The positions inside the bounds come in stretches of neighbours, each finished once: the loop's
  test for a gap between two positions never holds, since a position outside ends the stretch.
\<close>

definition contained_stretches :: "dbl \<times> dbl \<Rightarrow> (nat \<times> (dbl \<times> dbl) option) list \<Rightarrow> nat list list" where
  "contained_stretches bounds its =
    map (map fst) (filter (\<lambda>g. char_inside bounds (snd (hd g))) (key_groups (char_inside bounds \<circ> snd) its))"

lemma stretches_outside:
  "\<not> char_inside bounds t \<Longrightarrow> contained_stretches bounds ((i, t) # its) = contained_stretches bounds its"
  by (cases its) (auto simp: contained_stretches_def)

lemma stretches_extend:
  assumes "\<forall>x \<in> set cur. char_inside bounds (snd x)" "cur \<noteq> []" "its = [] \<or> \<not> char_inside bounds (snd (hd its))"
  shows "contained_stretches bounds (cur @ its) = map fst cur # contained_stretches bounds its"
proof -
  have "key_groups (char_inside bounds \<circ> snd) (cur @ its) = cur # key_groups (char_inside bounds \<circ> snd) its"
    by (rule key_groups_append[where c = True]) (use assms in auto)
  with assms(1,2) show ?thesis by (simp add: contained_stretches_def)
qed

lemma group_steps:
  assumes "finish [] = []" "\<forall>x \<in> set cur. char_inside bounds (snd x)" "map fst cur = [n - length cur..<n]"
  shows "(let (out', cur') = foldl (group_step bounds finish) (out, map fst cur) (enumerate n ts) in out' @ finish cur')
    = out @ concat (map finish (contained_stretches bounds (cur @ enumerate n ts)))"
  using assms(2,3)
proof (induction ts arbitrary: out cur n)
  case Nil
  then show ?case using stretches_extend[of cur bounds "[]"] assms(1)
    by (cases "cur = []") (simp_all add: contained_stretches_def)
next
  case (Cons t ts)
  have last: "cur \<noteq> [] \<Longrightarrow> Suc (last (map fst cur)) = n"
  proof -
    assume "cur \<noteq> []"
    then have "n - length cur < n" using Cons.prems(2) by (metis length_map length_upt length_0_conv zero_less_diff neq0_conv)
    with Cons.prems(2) show "Suc (last (map fst cur)) = n" by simp
  qed
  show ?case
  proof (cases "char_inside bounds t")
    case False
    have "group_step bounds finish (out, map fst cur) (n, t) = (out @ finish (map fst cur), [])"
      using False by (simp add: group_step_def)
    moreover have "contained_stretches bounds (cur @ (n, t) # enumerate (Suc n) ts)
        = (if cur = [] then [] else [map fst cur]) @ contained_stretches bounds (enumerate (Suc n) ts)"
      using stretches_extend[of cur bounds "(n, t) # enumerate (Suc n) ts"] Cons.prems(1) False
      by (simp add: stretches_outside)
    ultimately show ?thesis using Cons.IH[of "[]" "Suc n" "out @ finish (map fst cur)"] assms(1) by simp
  next
    case True
    have "group_step bounds finish (out, map fst cur) (n, t) = (out, map fst (cur @ [(n, t)]))"
      using True last by (auto simp: group_step_def)
    moreover have "map fst (cur @ [(n, t)]) = [Suc n - length (cur @ [(n, t)])..<Suc n]"
      using Cons.prems(2) by simp
    ultimately show ?thesis using Cons.IH[of "cur @ [(n, t)]" "Suc n" out] Cons.prems(1) True by simp
  qed
qed

lemma char_groups_are_stretches:
  "char_groups bounds (finish_group text_id source ts) ts
    = concat (map (finish_group text_id source ts) (contained_stretches bounds (enumerate 0 ts)))"
  using group_steps[of "finish_group text_id source ts" "[]" bounds 0 "[]" ts]
  by (simp add: char_groups_def finish_group_def)

section \<open>Accepted pieces\<close>

text \<open>What the decision function says of a piece of a text: its verdict and the identity it selects.\<close>

definition piece_verdict ::
  "piece_decider \<Rightarrow> voice_table \<Rightarrow> voice_table \<Rightarrow> fragment list \<Rightarrow> json \<Rightarrow> ((bool \<times> string) \<times> string option) option" where
  "piece_verdict decider session robust frs piece =
    (case vitem piece ''evidence_id'' of Inl _ \<Rightarrow> None
     | Inr k \<Rightarrow> (case (map_of session (Some (py_str k)), map_of robust (Some (py_str k))) of
         (Some v, Some w) \<Rightarrow> (case decider piece v w frs of Inl _ \<Rightarrow> None | Inr (_, verdict) \<Rightarrow> Some verdict)
       | _ \<Rightarrow> None))"

definition accepted_overlay ::
  "piece_decider \<Rightarrow> voice_table \<Rightarrow> voice_table \<Rightarrow> fragments_by_text \<Rightarrow> int \<Rightarrow> json \<Rightarrow> obj \<Rightarrow> bool" where
  "accepted_overlay decider session robust fragments text_id piece ov \<longleftrightarrow>
     rbind (vitem piece ''text_id'') py_int = Inr text_id \<and>
     (\<exists>frs selected reason r. map_of fragments text_id = Some frs \<and> accepted_range piece = Inr r \<and>
       piece_verdict decider session robust frs piece = Some ((True, reason), selected) \<and> ov = range_overlay selected reason r)"

lemma evaluate_voiced_overlays:
  assumes "evaluate_voiced decider session robust fragments (overlays, ds) piece = Inr (overlays', ds')"
  shows "\<exists>text_id. (\<forall>t. t \<noteq> text_id \<longrightarrow> overlays_of overlays' t = overlays_of overlays t) \<and>
    (\<forall>ov \<in> set (overlays_of overlays' text_id). ov \<in> set (overlays_of overlays text_id) \<or>
      accepted_overlay decider session robust fragments text_id piece ov)"
proof -
  from assms obtain k v w text_id frs d accepted reason selected ranges where
    k: "vitem piece ''evidence_id'' = Inr k" "map_of session (Some (py_str k)) = Some v" "map_of robust (Some (py_str k)) = Some w"
    and t: "rbind (vitem piece ''text_id'') py_int = Inr text_id" "map_of fragments text_id = Some frs"
    and dec: "decider piece v w frs = Inr (d, (accepted, reason), selected)"
    and r: "(if accepted then rbind (accepted_range piece) (\<lambda>r. Inr [r]) else Inr []) = Inr ranges"
    and o: "overlays' = add_ranges overlays text_id selected reason ranges"
    by (auto simp: evaluate_voiced_def rbind_Inr_iff ditem_def option_Inr_iff case_prod_beta)
  have "accepted_overlay decider session robust fragments text_id piece ov"
    if ov: "ov \<in> set (overlays_of overlays' text_id)" "ov \<notin> set (overlays_of overlays text_id)" for ov
  proof -
    from ov have m: "ov \<in> set (map (range_overlay selected reason) ranges)"
      by (auto simp: o add_ranges_def overlays_of_dset split: if_splits)
    then have a: "accepted" using r by (cases accepted) auto
    with r obtain ab where "accepted_range piece = Inr ab" "ranges = [ab]" by (auto simp: rbind_Inr_iff)
    moreover have "piece_verdict decider session robust frs piece = Some ((True, reason), selected)"
      using k dec a by (simp add: piece_verdict_def)
    ultimately show ?thesis using t m unfolding accepted_overlay_def by auto
  qed
  moreover have "overlays_of overlays' t = overlays_of overlays t" if "t \<noteq> text_id" for t
    using that by (simp add: o add_ranges_def overlays_of_dset)
  ultimately show ?thesis by blast
qed

text \<open>A character inside a piece, and a certain key whose identity and reason satisfy a predicate.\<close>

definition in_piece :: "int \<Rightarrow> nat \<Rightarrow> nat \<Rightarrow> json \<Rightarrow> bool" where
  "in_piece text_id n i piece \<longleftrightarrow> rbind (vitem piece ''text_id'') py_int = Inr text_id \<and>
     (case accepted_range piece of Inl _ \<Rightarrow> False | Inr (a, b) \<Rightarrow> covers n [a..b - 1] i)"

definition certain_key :: "(string \<Rightarrow> string \<Rightarrow> bool) \<Rightarrow> json \<times> bool \<times> string \<Rightarrow> bool" where
  "certain_key q key \<longleftrightarrow> (case key of (JStr s, uncertain, reason) \<Rightarrow> \<not> uncertain \<and> q s reason | _ \<Rightarrow> False)"

definition piece_accepts :: "piece_decider \<Rightarrow> voice_table \<Rightarrow> voice_table \<Rightarrow> fragment list \<Rightarrow> json \<Rightarrow> string \<Rightarrow> string \<Rightarrow> bool" where
  "piece_accepts decider session robust frs piece s reason \<longleftrightarrow>
     piece_verdict decider session robust frs piece = Some ((True, reason), Some s)"

lemma accepted_relabels:
  assumes "accepted_overlay decider session robust fragments text_id piece ov" "map_of fragments text_id = Some frs"
    "overlay_effect ids ov = Inr (js, l)" "covers n js i"
  shows "in_piece text_id n i piece \<and> certain_key (piece_accepts decider session robust frs piece) (label_key l)"
proof -
  from assms(1,2) obtain selected reason a b where s: "rbind (vitem piece ''text_id'') py_int = Inr text_id"
    "accepted_range piece = Inr (a, b)" "piece_verdict decider session robust frs piece = Some ((True, reason), selected)"
    "ov = range_overlay selected reason (a, b)" by (auto simp: accepted_overlay_def)
  from assms(3) obtain who where "selected = Some who" "js = [a..b - 1]" "label_key l = (JStr who, False, reason)"
    by (cases selected) (auto simp: s(4) overlay_effect_def overlay_label_def range_overlay_def anchor_id_def opt_json_def
      label_key_def rbind_Inr_iff range_bound_def)
  with s assms(4) show ?thesis by (simp add: in_piece_def certain_key_def piece_accepts_def)
qed

text \<open>
  What the track of the build says of its pieces, for every decision function and everything that
  follows from its acceptance.
\<close>

lemma piece_change:
  assumes build: "build_piece_candidate contract decider baseline metadata session robust manifest = Inr r"
    and fragments: "rbind (vget baseline ''track'' (JArr [])) track_fragments = Inr fragments"
    and slots: "piece_identities baseline manifest = Inr (active, local_to_id)"
    and pieces: "rbind (vitem metadata ''pieces'') py_iter = Inr pieces"
    and plain: "list_all (\<lambda>(_, frs). list_all plain_fragment frs) fragments"
    and fr: "map_of fragments text_id = Some frs" "fr \<in> set frs" "fr_start fr \<le> i" "i < fr_end fr"
    and why: "\<And>piece s reason. piece_accepts (decider active local_to_id) session robust frs piece s reason \<Longrightarrow> q piece s reason"
  shows "let labels = expand_turns (filter (\<lambda>t. pt_text_id t = text_id) (rv_track r)) in i < length labels \<and>
    (rbind (entry_label (fr_entry fr)) (\<lambda>l. Inr (label_key l)) = Inr (labels ! i) \<or>
     list_ex (\<lambda>piece. in_piece text_id (length labels) i piece \<and> certain_key (q piece) (labels ! i)) pieces)"
proof -
  from build fragments slots pieces obtain overlays ds where
    fold: "rfold (evaluate_voiced (decider active local_to_id) session robust fragments) ([], []) pieces = Inr (overlays, ds)"
    and track: "project_track metadata fragments overlays (invert_mapping local_to_id) = Inr (rv_track r)"
    by (auto simp: build_piece_candidate_def rbind_Inr_iff raise_if_Inr_iff)
  from fragments obtain v where v: "track_fragments v = Inr fragments" by (auto simp: rbind_Inr_iff)
  show ?thesis
  proof (rule projected_label[OF track v plain fr])
    fix ov js l
    let ?labels = "expand_turns (filter (\<lambda>t. pt_text_id t = text_id) (rv_track r))"
    assume l: "i < length ?labels" "ov \<in> set (overlays_of overlays text_id)"
      "overlay_effect (invert_mapping local_to_id) ov = Inr (js, l)" "covers (length ?labels) js i" "?labels ! i = label_key l"
    obtain piece where p: "piece \<in> set pieces"
      "accepted_overlay (decider active local_to_id) session robust fragments text_id piece ov"
      by (rule folded_overlay[OF fold evaluate_voiced_overlays l(2)])
    from accepted_relabels[OF p(2) fr(1) l(3,4)] have "in_piece text_id (length ?labels) i piece"
      "certain_key (q piece) (?labels ! i)" by (auto simp: l(5) certain_key_def intro: why split: prod.splits json.splits)
    with p(1) l(1) show ?thesis by (auto simp: Let_def list_ex_iff)
  qed (simp add: Let_def)
qed

section \<open>The decision functions\<close>

text \<open>The identity that a table selects for a piece, and that of the piece's slot.\<close>

definition voice_of :: "voice_table \<Rightarrow> string list \<Rightarrow> gate_policy \<Rightarrow> json \<Rightarrow> string option" where
  "voice_of table active g piece = (case vitem piece ''evidence_id'' of Inl _ \<Rightarrow> None
     | Inr k \<Rightarrow> (case map_of table (Some (py_str k)) of None \<Rightarrow> None
         | Some v \<Rightarrow> fst (select_identity (Some v) active g)))"

definition slot_of :: "(int, string) pydict \<Rightarrow> json \<Rightarrow> string option" where
  "slot_of local_to_id piece = (case rbind (vitem piece ''local_speaker'') py_int of Inl _ \<Rightarrow> None
     | Inr n \<Rightarrow> map_of local_to_id n)"

lemma verdict_cases:
  assumes "piece_accepts decider session robust frs piece s reason"
  obtains k v w d where "vitem piece ''evidence_id'' = Inr k" "map_of session (Some (py_str k)) = Some v"
    "map_of robust (Some (py_str k)) = Some w" "decider piece v w frs = Inr (d, (True, reason), Some s)"
    "voice_of session active g piece = fst (select_identity (Some v) active g)"
    "voice_of robust active g piece = fst (select_identity (Some w) active g)"
  using assms by (auto simp: piece_accepts_def piece_verdict_def voice_of_def split: sum.splits option.splits)

text \<open>Islands, utterances and edge runs: both tables and the slot agree, against the baseline.\<close>

definition agreed ::
  "gate_policy \<Rightarrow> string list \<Rightarrow> (int, string) pydict \<Rightarrow> voice_table \<Rightarrow> voice_table \<Rightarrow> fragment list \<Rightarrow> json \<Rightarrow> string \<Rightarrow> bool" where
  "agreed g active ids session robust frs piece s \<longleftrightarrow> voice_of session active g piece = Some s \<and>
     voice_of robust active g piece = Some s \<and> slot_of ids piece = Some s \<and> contradicts frs piece s"

lemma consensus_accepts:
  assumes "piece_accepts (on_overlaps (decide_consensus label g active ids)) session robust frs piece s reason"
  shows "agreed g active ids session robust frs piece s \<and> reason = label @ ''_dual_voiceprint_consensus''"
proof (rule verdict_cases[OF assms, of active g])
  fix k v w d
  assume v: "on_overlaps (decide_consensus label g active ids) piece v w frs = Inr (d, (True, reason), Some s)"
    "voice_of session active g piece = fst (select_identity (Some v) active g)"
    "voice_of robust active g piece = fst (select_identity (Some w) active g)"
  then obtain met n conflicts where "overlapping_fragments piece frs = Inr met"
    "rbind (vitem piece ''local_speaker'') py_int = Inr n" "known_conflicts met (Some s) = Inr conflicts"
    "consensus_verdict label (fst (select_identity (Some v) active g)) (fst (select_identity (Some w) active g))
       (map_of ids n) conflicts = (True, reason)" "fst (select_identity (Some v) active g) = Some s"
    by (fastforce simp: on_overlaps_def decide_consensus_def rbind_Inr_iff Let_def)
  with v(2,3) show ?thesis
    by (auto simp: agreed_def slot_of_def contradicts_def consensus_verdict_def split: if_splits)
qed

text \<open>Active edges: the slot's identity, which the tables do not agree against.\<close>

definition handed_over ::
  "gate_policy \<Rightarrow> string list \<Rightarrow> (int, string) pydict \<Rightarrow> voice_table \<Rightarrow> voice_table \<Rightarrow> fragment list \<Rightarrow> json \<Rightarrow> string \<Rightarrow> bool" where
  "handed_over g active ids session robust frs piece s \<longleftrightarrow> s \<in> set active \<and> slot_of ids piece = Some s \<and>
     contradicts frs piece s \<and> (voice_of session active g piece = voice_of robust active g piece \<longrightarrow>
       voice_of session active g piece = None \<or> voice_of session active g piece = Some s)"

lemma handoff_accepts:
  assumes "piece_accepts (on_overlaps (decide_handoff label g active ids)) session robust frs piece s reason"
  shows "handed_over g active ids session robust frs piece s \<and> reason = label @ ''_sortformer_handoff''"
proof (rule verdict_cases[OF assms, of active g])
  fix k v w d
  assume v: "on_overlaps (decide_handoff label g active ids) piece v w frs = Inr (d, (True, reason), Some s)"
    "voice_of session active g piece = fst (select_identity (Some v) active g)"
    "voice_of robust active g piece = fst (select_identity (Some w) active g)"
  then obtain met n conflicts where "overlapping_fragments piece frs = Inr met"
    "rbind (vitem piece ''local_speaker'') py_int = Inr n" "map_of ids n = Some s" "known_conflicts met (Some s) = Inr conflicts"
    "handoff_verdict label active (Some s) (dual_conflict (fst (select_identity (Some v) active g))
       (fst (select_identity (Some w) active g)) (Some s)) conflicts = (True, reason)"
    by (fastforce simp: on_overlaps_def decide_handoff_def rbind_Inr_iff Let_def)
  with v(2,3) show ?thesis
    by (auto simp: handed_over_def slot_of_def contradicts_def handoff_verdict_def dual_conflict_def split: if_splits)
qed

text \<open>Bracketed phrases: both neighbours and the slot have the identity, and no table selects another.\<close>

definition bracketed ::
  "(json \<Rightarrow> fragment list \<Rightarrow> neighbours res) \<Rightarrow> gate_policy \<Rightarrow> string list \<Rightarrow> (int, string) pydict \<Rightarrow> voice_table \<Rightarrow> voice_table
     \<Rightarrow> fragment list \<Rightarrow> json \<Rightarrow> string \<Rightarrow> bool" where
  "bracketed around g active ids session robust frs piece s \<longleftrightarrow> s \<in> set active \<and> slot_of ids piece = Some s \<and>
     (case around piece frs of Inr (Some l, Some r) \<Rightarrow> vget l ''speaker_id'' JNull = Inr (JStr s) \<and>
        vget r ''speaker_id'' JNull = Inr (JStr s) | _ \<Rightarrow> False) \<and>
     voice_of session active g piece \<in> {None, Some s} \<and> voice_of robust active g piece \<in> {None, Some s}"

lemma bracket_JStr: "bracket_identity l r = JStr s \<longleftrightarrow> l = JStr s \<and> r = JStr s"
  by (auto simp: bracket_identity_def)

lemma bracket_verdicts:
  assumes "unknown_verdict active v = (True, reason) \<or> known_verdict active v = (True, reason)"
  obtains s where "bv_mapped v = Some s" "s \<in> set active" "fst (bv_sides v) \<noteq> None" "snd (bv_sides v) \<noteq> None"
    "bv_left v = JStr s" "bv_right v = JStr s" "fst (bv_session v) \<in> {None, Some s}" "fst (bv_robust v) \<in> {None, Some s}"
proof -
  from assms have v: "\<not> side_missing v" "\<not> unmapped_bracket active v" "\<not> voice_against (bv_session v) v"
    "\<not> voice_against (bv_robust v) v" by (auto simp: unknown_verdict_def known_verdict_def split: if_splits)
  from v(2) obtain s where s: "bv_mapped v = Some s" "s \<in> set active" "bv_bracket v = JStr s"
    by (auto simp: unmapped_bracket_def opt_json_def)
  then have "bv_left v = JStr s" "bv_right v = JStr s" by (simp_all add: bv_bracket_def bracket_JStr)
  moreover have "fst x = None \<or> fst x = Some s" if "\<not> voice_against x v" for x
    using that s(3) by (cases "fst x") (auto simp: voice_against_def opt_json_def)
  ultimately show ?thesis using that[OF s(1,2)] v by (auto simp: side_missing_def)
qed

lemma bracketed_accepts:
  assumes judge: "judge = unknown_verdict \<or> judge = known_verdict"
    and acc: "piece_accepts (decide_bracketed around judge entries g active ids) session robust frs piece s reason"
  shows "bracketed around g active ids session robust frs piece s"
proof (rule verdict_cases[OF acc, of active g])
  fix k v w d
  assume v: "decide_bracketed around judge entries g active ids piece v w frs = Inr (d, (True, reason), Some s)"
    "voice_of session active g piece = fst (select_identity (Some v) active g)"
    "voice_of robust active g piece = fst (select_identity (Some w) active g)"
  from v(1) obtain l r n ids' left right where o: "around piece frs = Inr (l, r)"
    "rbind (vitem piece ''local_speaker'') py_int = Inr n" "side_identity l = Inr left" "side_identity r = Inr right"
    and j: "let x = \<lparr>bv_ids = ids', bv_sides = (l, r), bv_left = left, bv_right = right, bv_mapped = map_of ids n,
        bv_session = select_identity (Some v) active g, bv_robust = select_identity (Some w) active g\<rparr>
      in judge active x = (True, reason) \<and> bv_mapped x = Some s"
    by (auto simp: decide_bracketed_def rbind_Inr_iff Let_def)
  from o j obtain x where x: "around piece frs = Inr (l, r)" "rbind (vitem piece ''local_speaker'') py_int = Inr n"
    "side_identity l = Inr (bv_left x)" "side_identity r = Inr (bv_right x)" "bv_sides x = (l, r)" "bv_mapped x = map_of ids n"
    "bv_session x = select_identity (Some v) active g" "bv_robust x = select_identity (Some w) active g"
    "judge active x = (True, reason)" "bv_mapped x = Some s"
    unfolding Let_def by (metis bracket_view.select_convs)
  from x(9) judge have "unknown_verdict active x = (True, reason) \<or> known_verdict active x = (True, reason)" by auto
  then show ?thesis
    by (rule bracket_verdicts) (use x v(2,3) in \<open>auto simp: bracketed_def slot_of_def side_identity_def split: option.splits\<close>)
qed

text \<open>
  Phrases with runs: both tables agree against one known identity of the baseline, with the slot for
  an expanded run, and against it for a bounded one, where the identity's own slot was active.
\<close>

definition baseline_differs :: "fragment list \<Rightarrow> json \<Rightarrow> string \<Rightarrow> bool" where
  "baseline_differs frs piece s \<longleftrightarrow> (case uniform_identity piece frs of Inr (Some b) \<Rightarrow> b \<noteq> s | _ \<Rightarrow> False)"

definition both_voices ::
  "gate_policy \<Rightarrow> string list \<Rightarrow> voice_table \<Rightarrow> voice_table \<Rightarrow> fragment list \<Rightarrow> json \<Rightarrow> string \<Rightarrow> bool" where
  "both_voices g active session robust frs piece s \<longleftrightarrow> voice_of session active g piece = Some s \<and>
     voice_of robust active g piece = Some s \<and> baseline_differs frs piece s"

lemma expanded_accepts:
  assumes "piece_accepts (on_overlaps (decide_expanded label g active ids)) session robust frs piece s reason"
  shows "both_voices g active session robust frs piece s \<and> slot_of ids piece = Some s \<and> s \<in> set active"
proof (rule verdict_cases[OF assms, of active g])
  fix k v w d
  assume v: "on_overlaps (decide_expanded label g active ids) piece v w frs = Inr (d, (True, reason), Some s)"
    "voice_of session active g piece = fst (select_identity (Some v) active g)"
    "voice_of robust active g piece = fst (select_identity (Some w) active g)"
  then obtain met n fids where "overlapping_fragments piece frs = Inr met" "fragment_ids met = Inr fids"
    "rbind (vitem piece ''local_speaker'') py_int = Inr n" "map_of ids n = Some s"
    "expanded_verdict label active (Some s) fids (select_identity (Some v) active g) (select_identity (Some w) active g) = (True, reason)"
    by (fastforce simp: on_overlaps_def decide_expanded_def rbind_Inr_iff Let_def)
  with v(2,3) show ?thesis
    by (auto simp: both_voices_def baseline_differs_def uniform_identity_def slot_of_def expanded_verdict_def split: if_splits)
qed

lemma bounded_accepts:
  assumes "piece_accepts (on_overlaps (decide_bounded label minimum g active ids)) session robust frs piece s reason"
  shows "both_voices g active session robust frs piece s \<and> slot_of ids piece \<noteq> Some s \<and>
    channel_active piece minimum (slot_text ids s) = Inr True"
proof (rule verdict_cases[OF assms, of active g])
  fix k v w d
  assume v: "on_overlaps (decide_bounded label minimum g active ids) piece v w frs = Inr (d, (True, reason), Some s)"
    "voice_of session active g piece = fst (select_identity (Some v) active g)"
    "voice_of robust active g piece = fst (select_identity (Some w) active g)"
  then obtain met n fids where m: "overlapping_fragments piece frs = Inr met" "fragment_ids met = Inr fids"
    "rbind (vitem piece ''local_speaker'') py_int = Inr n" "fst (select_identity (Some v) active g) = Some s"
    "bounded_verdict label active (map_of ids n) fids (select_identity (Some v) active g) (select_identity (Some w) active g)
      (\<lambda>s. channel_active piece minimum (slot_text ids s)) = Inr (True, reason)"
    by (fastforce simp: on_overlaps_def decide_bounded_def rbind_Inr_iff Let_def)
  with v(2,3) show ?thesis
    by (auto simp: both_voices_def baseline_differs_def uniform_identity_def slot_of_def bounded_verdict_def rbind_Inr_iff
      split: if_splits)
qed

section \<open>Relabelled characters\<close>

text \<open>
  C38: in the build of islands, utterances and edge runs a character of the baseline keeps its
  identity, certainty and reason, or it lies in a piece for which both voiceprint tables select one
  identity that the piece's slot is mapped to and that contradicts a known identity of the baseline
  there; then it has that identity.
\<close>

theorem consensus_changes_agreed:
  assumes build: "build_piece_candidate contract (\<lambda>active ids. on_overlaps (decide_consensus label g active ids))
      baseline metadata session robust manifest = Inr r"
    and fragments: "rbind (vget baseline ''track'' (JArr [])) track_fragments = Inr fragments"
    and slots: "piece_identities baseline manifest = Inr (active, ids)"
    and pieces: "rbind (vitem metadata ''pieces'') py_iter = Inr pieces"
    and plain: "list_all (\<lambda>(_, frs). list_all plain_fragment frs) fragments"
    and fr: "map_of fragments text_id = Some frs" "fr \<in> set frs" "fr_start fr \<le> i" "i < fr_end fr"
  shows "let labels = expand_turns (filter (\<lambda>t. pt_text_id t = text_id) (rv_track r)) in i < length labels \<and>
    (rbind (entry_label (fr_entry fr)) (\<lambda>l. Inr (label_key l)) = Inr (labels ! i) \<or>
     list_ex (\<lambda>piece. in_piece text_id (length labels) i piece \<and>
       certain_key (\<lambda>s reason. agreed g active ids session robust frs piece s \<and> reason = label @ ''_dual_voiceprint_consensus'')
         (labels ! i)) pieces)"
  by (rule piece_change[OF build fragments slots pieces plain fr]) (rule consensus_accepts)

text \<open>
  In the build of active edges a character of the baseline keeps its label, or it lies in a
  piece whose slot is mapped to an active identity that contradicts the baseline there and that the
  two voiceprint tables do not agree against; then it has that identity.
\<close>

lemma handoff_changes_mapped:
  assumes build: "build_handoff_candidate baseline metadata session robust manifest p = Inr r"
    and fragments: "rbind (vget baseline ''track'' (JArr [])) track_fragments = Inr fragments"
    and slots: "piece_identities baseline manifest = Inr (active, ids)"
    and pieces: "rbind (vitem metadata ''pieces'') py_iter = Inr pieces"
    and plain: "list_all (\<lambda>(_, frs). list_all plain_fragment frs) fragments"
    and fr: "map_of fragments text_id = Some frs" "fr \<in> set frs" "fr_start fr \<le> i" "i < fr_end fr"
  shows "let labels = expand_turns (filter (\<lambda>t. pt_text_id t = text_id) (rv_track r)) in i < length labels \<and>
    (rbind (entry_label (fr_entry fr)) (\<lambda>l. Inr (label_key l)) = Inr (labels ! i) \<or>
     list_ex (\<lambda>piece. in_piece text_id (length labels) i piece \<and>
       certain_key (\<lambda>s reason. handed_over (bp_gates (hp_voiceprint p)) active ids session robust frs piece s \<and>
         reason = ''vad_active_edge_sortformer_handoff'')
         (labels ! i)) pieces)"
  by (rule piece_change[OF build[unfolded build_handoff_candidate_def] fragments slots pieces plain fr])
    (use handoff_accepts[where label = "''vad_active_edge''"] in \<open>simp add: append_eq_appendI\<close>)

text \<open>
  In the builds of bounded runs and complete sources a character keeps its label, or it lies in a
  piece both of whose voices name an identity that the one known identity of the baseline there and
  the piece's slot contradict, and whose own slot was active; then it has that identity.
\<close>

lemma bounded_changes_overridden:
  assumes build: "build_bounded_candidate kind label baseline metadata session robust manifest (p, minimum) = Inr r"
    and fragments: "rbind (vget baseline ''track'' (JArr [])) track_fragments = Inr fragments"
    and slots: "piece_identities baseline manifest = Inr (active, ids)"
    and pieces: "rbind (vitem metadata ''pieces'') py_iter = Inr pieces"
    and plain: "list_all (\<lambda>(_, frs). list_all plain_fragment frs) fragments"
    and fr: "map_of fragments text_id = Some frs" "fr \<in> set frs" "fr_start fr \<le> i" "i < fr_end fr"
  shows "let labels = expand_turns (filter (\<lambda>t. pt_text_id t = text_id) (rv_track r)) in i < length labels \<and>
    (rbind (entry_label (fr_entry fr)) (\<lambda>l. Inr (label_key l)) = Inr (labels ! i) \<or>
     list_ex (\<lambda>piece. in_piece text_id (length labels) i piece \<and>
       certain_key (\<lambda>s reason. both_voices (bp_gates (lp_voiceprint (rn_local p))) active session robust frs piece s \<and>
         slot_of ids piece \<noteq> Some s \<and> channel_active piece minimum (slot_text ids s) = Inr True) (labels ! i)) pieces)"
  by (rule piece_change[OF build[unfolded build_bounded_candidate_def prod.case] fragments slots pieces plain fr])
    (rule bounded_accepts)

text \<open>
  C39: in the bracketed builds a character of the baseline keeps its label, or it lies in a piece
  whose neighbours on both sides and whose slot have one identity that no voiceprint table selects
  another against; then it has that identity.  The neighbours are the adjoining fragments for
  phrases without identity, and the adjoining phrases for phrases of one known identity.
\<close>

theorem bracketed_changes_between:
  assumes build: "build_unknown_candidate baseline metadata session robust manifest p = Inr r \<and> around = adjacent_fragments \<or>
      build_known_candidate baseline metadata session robust manifest p = Inr r \<and> around = phrase_neighbours"
    and fragments: "rbind (vget baseline ''track'' (JArr [])) track_fragments = Inr fragments"
    and slots: "piece_identities baseline manifest = Inr (active, ids)"
    and pieces: "rbind (vitem metadata ''pieces'') py_iter = Inr pieces"
    and plain: "list_all (\<lambda>(_, frs). list_all plain_fragment frs) fragments"
    and fr: "map_of fragments text_id = Some frs" "fr \<in> set frs" "fr_start fr \<le> i" "i < fr_end fr"
  shows "let labels = expand_turns (filter (\<lambda>t. pt_text_id t = text_id) (rv_track r)) in i < length labels \<and>
    (rbind (entry_label (fr_entry fr)) (\<lambda>l. Inr (label_key l)) = Inr (labels ! i) \<or>
     list_ex (\<lambda>piece. in_piece text_id (length labels) i piece \<and>
       certain_key (\<lambda>s reason. bracketed around (bp_gates (lp_voiceprint p)) active ids session robust frs piece s)
         (labels ! i)) pieces)"
proof -
  from build obtain contract judge entries where b: "build_piece_candidate contract
      (decide_bracketed around judge entries (bp_gates (lp_voiceprint p))) baseline metadata session robust manifest = Inr r"
    and judge: "judge = unknown_verdict \<or> judge = known_verdict"
    unfolding build_unknown_candidate_def build_known_candidate_def by blast
  show ?thesis by (rule piece_change[OF b fragments slots pieces plain fr]) (rule bracketed_accepts[OF judge])
qed

end
