(* ===== verification/Candidate_Witnesses.thy ===== *)
theory Candidate_Witnesses
  imports Phrase_Witnesses Expansion_Properties Raw_Properties Direct_Properties Piece_Properties
begin

text \<open>
  Concrete inputs of the candidates composed over the two-fragment text of the phrase witnesses:
  an accepted clause envelope, an expanded phrase, an authoritative production range, the two
  candidates that decide turns by their own voiceprints, the candidates that decide pieces and the
  challenges of utterances.
\<close>

section \<open>Inputs\<close>

definition demo_clause_policy :: clause_policy where
  "demo_clause_policy = \<lparr>ac_minimum = 1, ac_maximum = 1, ac_visible = 1, ac_punctuation = '','', ac_gates = demo_gates,
     ac_protected = [''kept'']\<rparr>"

definition demo_envelope :: "int \<Rightarrow> json" where
  "demo_envelope a = JObj [(''evidence_id'', JStr ''p''), (''text_id'', JInt 0), (''source_start'', JInt a),
     (''source_end'', JInt 4), (''start'', JInt 1), (''end'', JInt 2)]"

definition demo_marks :: marks_by_text where
  "demo_marks = [(0, map (\<lambda>s. \<lparr>bm_speaker = JStr s, bm_reason = ''baseline''\<rparr>) [''A'', ''A'', ''B'', ''B''])]"

definition demo_clause_metadata :: json where
  "demo_clause_metadata = JObj [(''kind'', JStr ''orator_adjacent_subminimum_clause_spans''),
     (''asr'', JObj [(''0'', JObj [(''text'', JStr ''abcd'')])]), (''align'', JObj [(''0'', demo_align)]),
     (''envelopes'', JArr [demo_envelope 2])]"

definition demo_expansion_policy :: expansion_policy where
  "demo_expansion_policy = \<lparr>xp_kind = ''relative'', xp_piece_reason = ''agreed'', xp_margin = 1, xp_protected = [''kept'']\<rparr>"

definition demo_phrase_voices :: voice_table where
  "demo_phrase_voices = [(Some ''p'', \<lparr>pv_status = Some ''ok'', pv_duration = 1 + 1, pv_scores = [(''A'', 1), (''B'', 0)]\<rparr>)]"

definition demo_relative_pieces :: json where
  "demo_relative_pieces = JObj [(''candidate_kind'', JStr ''relative''), (''piece_decisions'', JArr
     [JObj [(''evidence_id'', JStr ''q''), (''accepted'', JBool True), (''reason'', JStr ''agreed''),
        (''phrase_evidence_id'', JStr ''p''), (''text_id'', JInt 0), (''source_start'', JInt 2), (''source_end'', JInt 4),
        (''selected_speaker_id'', JStr ''A''), (''local_speaker'', JInt 0)]])]"

definition demo_raw :: json where
  "demo_raw = JObj [(''candidate_kind'', JStr ''production_business_speaker_replay''),
     (''track'', JArr
       [JObj [(''text_id'', JInt 0), (''text'', JStr ''a'')],
        JObj [(''text_id'', JInt 0), (''text'', JStr ''bcd''), (''speaker_id'', JStr ''A''), (''decision_reason'', JStr ''sole'')]])]"

definition demo_raw_fragments :: "fragment list" where
  "demo_raw_fragments = (case rbind (vget demo_raw ''track'' (JArr [])) track_fragments of Inr (g # _) \<Rightarrow> snd g | _ \<Rightarrow> [])"

definition demo_drift_config :: json where
  "demo_drift_config = JObj [(''speaker'', JObj
     [(''local_drift_competing_threshold'', JInt 1), (''local_drift_competing_margin'', JInt 1),
      (''local_drift_competing_candidate_threshold'', JInt 0), (''local_drift_competing_candidate_margin'', JInt 0)])]"

definition demo_voice_turn :: json where
  "demo_voice_turn = JObj [(''turn_id'', JStr ''t''), (''diar_segments'', JArr [JObj
       [(''evidence_id'', JStr ''s''), (''overlap_sec'', JInt 1),
        (''titanet'', JObj [(''status'', JStr ''ok''), (''scores'', JObj [(''A'', JInt 1), (''B'', JInt 0)])])]]),
     (''titanet'', JObj [(''status'', JStr ''ok''), (''scores'', JObj [(''A'', JInt 1), (''B'', JInt 0)])]),
     (''baseline_output'', JObj [(''speaker_id'', JStr ''B'')])]"

definition demo_replay_voices :: voice_table where
  "demo_replay_voices = map (\<lambda>i. (Some (replay_id i), \<lparr>pv_status = Some ''ok'', pv_duration = 1,
     pv_scores = [(''A'', 1), (''B'', 0)]\<rparr>)) [0, 1]"

section \<open>Evaluations\<close>

lemma demo_runs:
  "case rmap (decide_envelope demo_clause_policy demo_voices demo_voices demo_marks [''A'', ''B''])
      [demo_envelope 2, demo_envelope 3] of Inr proposed \<Rightarrow> list_all cd_accepted proposed \<and>
        filter cd_accepted (withdraw_conflicts proposed) = [] | Inl _ \<Rightarrow> False"
  "case build_clause_candidate demo_direct demo_clause_metadata demo_voices demo_voices demo_slots demo_clause_policy of
     Inr r \<Rightarrow> (case find (clause_holds 0 3) (cr_decisions r) of Some d \<Rightarrow> fst (cd_session d) = Some ''A'' | None \<Rightarrow> False)
   | Inl _ \<Rightarrow> False"
  "case build_expansion_candidate demo_direct demo_relative_pieces demo_phrase_metadata demo_phrase_voices demo_phrase_voices
      demo_slots demo_expansion_policy of
     Inr r \<Rightarrow> (case filter (expansion_holds 0 3) (xr_decisions r) of [d] \<Rightarrow> so_speaker d = ''A'' | _ \<Rightarrow> False)
   | Inl _ \<Rightarrow> False"
  "case build_raw_candidate demo_raw demo_direct demo_phrase_metadata demo_slots [''sole''] of
     Inr r \<Rightarrow> True | Inl _ \<Rightarrow> False"
  "case decide_turn demo_voice_turn [''A'', ''B''] demo_drift_config of
     Inr d \<Rightarrow> dd_changed d \<and> dd_speaker d = JStr ''A'' | Inl _ \<Rightarrow> False"
  "case build_replay_candidate demo_direct demo_replay_voices demo_slots demo_gates of
     Inr r \<Rightarrow> map rd_changed (rt_decisions r) = [False, True] | Inl _ \<Rightarrow> False"
  "case rbind (vget demo_direct ''track'' (JArr [])) py_iter of Inr items \<Rightarrow> length items = 2 | Inl _ \<Rightarrow> False"
  "local_mapping demo_slots = Inr [(0, ''A''), (1, ''B'')]"
  "rbind (vget demo_raw ''track'' (JArr [])) track_fragments = Inr [(0, demo_raw_fragments)]"
  "last demo_raw_fragments \<in> set demo_raw_fragments" "fr_start (last demo_raw_fragments) \<le> 3" "3 < fr_end (last demo_raw_fragments)"
  "raw_claim [''sole''] (last demo_raw_fragments) = Some ''A''"
  "list_all (\<lambda>f. plain_fragment (as_fragment f)) demo_base_fragments"
  by code_simp+

section \<open>Adjacent clauses\<close>

text \<open>Both proposals lie on the second fragment; they overlap, so that both are withdrawn.\<close>

theorem clause_overlays_valid_witness:
  "\<exists>proposed. rmap (decide_envelope demo_clause_policy demo_voices demo_voices demo_marks [''A'', ''B''])
      [demo_envelope 2, demo_envelope 3] = Inr proposed \<and> list_all cd_accepted proposed \<and>
    validate_overlays (clause_overlays proposed (withdraw_conflicts proposed)) = Inr ()"
proof -
  from demo_runs(1) obtain proposed where p: "rmap (decide_envelope demo_clause_policy demo_voices demo_voices demo_marks [''A'', ''B''])
      [demo_envelope 2, demo_envelope 3] = Inr proposed" "list_all cd_accepted proposed"
    "filter cd_accepted (withdraw_conflicts proposed) = []" by (auto split: sum.splits)
  from clause_overlays_valid[OF p(1)] p show ?thesis by simp
qed

lemma demo_base_at: "map_of [(0 :: int, demo_base_fragments)] 0 = Some demo_base_fragments"
  "bf_start (last demo_base_fragments) \<le> 3" "3 < bf_end (last demo_base_fragments)"
  by (simp_all add: demo_base_facts)

theorem clause_labels_exact_witness:
  "\<exists>r. build_clause_candidate demo_direct demo_clause_metadata demo_voices demo_voices demo_slots demo_clause_policy = Inr r \<and>
     expand_turns (filter (\<lambda>t. pt_text_id t = 0) (cr_track r)) ! 3
       = (JStr ''A'', False, ''adjacent_subminimum_clause_dual_voiceprint_challenge'')"
proof -
  from demo_runs(2) obtain r where
    r: "build_clause_candidate demo_direct demo_clause_metadata demo_voices demo_voices demo_slots demo_clause_policy = Inr r"
    and f: "case find (clause_holds 0 3) (cr_decisions r) of Some d \<Rightarrow> fst (cd_session d) = Some ''A'' | None \<Rightarrow> False"
    by (auto split: sum.splits)
  from clause_labels_exact[OF r demo_base demo_base_at(1) demo_base_facts(2) demo_runs(14) demo_base_at(2,3)] f r show ?thesis
    by (auto simp: Let_def list_ex_iff split: option.splits)
qed

section \<open>Relative expansion\<close>

theorem expansion_labels_exact_witness:
  "\<exists>r. build_expansion_candidate demo_direct demo_relative_pieces demo_phrase_metadata demo_phrase_voices demo_phrase_voices
      demo_slots demo_expansion_policy = Inr r \<and>
     expand_turns (filter (\<lambda>t. pt_text_id t = 0) (xr_track r)) ! 3 = (JStr ''A'', False, ''relative_top1_complete_phrase_expansion'')"
proof -
  from demo_runs(3) obtain r where r: "build_expansion_candidate demo_direct demo_relative_pieces demo_phrase_metadata demo_phrase_voices
      demo_phrase_voices demo_slots demo_expansion_policy = Inr r"
    and f: "case filter (expansion_holds 0 3) (xr_decisions r) of [d] \<Rightarrow> so_speaker d = ''A'' | _ \<Rightarrow> False"
    by (auto split: sum.splits)
  from f obtain d where d: "filter (expansion_holds 0 3) (xr_decisions r) = [d]" "so_speaker d = ''A''"
    by (auto split: list.splits)
  from expansion_labels_exact[OF r demo_base demo_base_at(1) demo_base_facts(2) demo_runs(14) demo_base_at(2,3)] d r show ?thesis
    by (auto simp: Let_def)
qed

section \<open>Raw authority\<close>

theorem raw_claims_prevail_witness:
  "\<exists>r. build_raw_candidate demo_raw demo_direct demo_phrase_metadata demo_slots [''sole''] = Inr r \<and>
     expand_turns (filter (\<lambda>t. pt_text_id t = 0) (ra_track r)) ! 3 = (JStr ''A'', False, sole_support)"
proof -
  from demo_runs(4) obtain r where r: "build_raw_candidate demo_raw demo_direct demo_phrase_metadata demo_slots [''sole''] = Inr r"
    by (auto split: sum.splits)
  have m: "map_of [(0 :: int, demo_raw_fragments)] 0 = Some demo_raw_fragments"
    "map_of [(0 :: int, demo_relative_fragments)] 0 = Some demo_relative_fragments" by simp_all
  have i: "fr_start (last demo_relative_fragments) \<le> 3" "3 < fr_end (last demo_relative_fragments)"
    by (simp_all add: demo_relative_last)
  from raw_claims_prevail[OF r demo_runs(9) m(1) demo_runs(10-12) demo_relative(1) m(2) demo_relative_last(1) i
      demo_relative(4)] r show ?thesis by (auto simp: Let_def demo_runs(13))
qed

section \<open>Voiceprints of turns\<close>

theorem direct_change_unanimous_witness:
  "\<exists>d. decide_turn demo_voice_turn [''A'', ''B''] demo_drift_config = Inr d \<and> dd_speaker d = JStr ''A'' \<and> \<not> dd_uncertain d \<and>
     (\<exists>pooled. pooled_scores demo_voice_turn [''A'', ''B''] pooled)"
proof -
  from demo_runs(5) obtain d where d: "decide_turn demo_voice_turn [''A'', ''B''] demo_drift_config = Inr d" "dd_changed d"
    "dd_speaker d = JStr ''A''" by (auto split: sum.splits)
  from direct_change_unanimous[OF d(1)] have "\<not> dd_uncertain d" unfolding Let_def
    by (elim exE conjE) (rule mp, assumption, rule d(2))
  moreover from direct_change_unanimous[OF d(1)] have "\<exists>pooled. pooled_scores demo_voice_turn [''A'', ''B''] pooled"
    by (elim exE conjE) (rule exI, assumption)
  ultimately show ?thesis using d(1,3) by blast
qed

theorem replay_keeps_fields_witness:
  "\<exists>r items. build_replay_candidate demo_direct demo_replay_voices demo_slots demo_gates = Inr r \<and>
     rbind (vget demo_direct ''track'' (JArr [])) py_iter = Inr items \<and>
     list_all2 (replayed (rt_active r) (invert_mapping [(0, ''A''), (1, ''B'')])) items (zip (rt_track r) (rt_decisions r))"
proof -
  from demo_runs(6) obtain r where r: "build_replay_candidate demo_direct demo_replay_voices demo_slots demo_gates = Inr r"
    by (auto split: sum.splits)
  from demo_runs(7) obtain items where i: "rbind (vget demo_direct ''track'' (JArr [])) py_iter = Inr items" by (auto split: sum.splits)
  from replay_keeps_fields[OF r i demo_runs(8)] r i show ?thesis by blast
qed

section \<open>Candidates that decide pieces\<close>

text \<open>
  Concrete inputs of the candidates that decide pieces and of the challenges of utterances: the
  two-fragment text of the phrase witnesses, and a text whose middle character has no identity.
\<close>

subsection \<open>Inputs\<close>

definition demo_contract :: piece_contract where
  "demo_contract = \<lparr>kc_kind = ''orator_relative_top1_phrase_spans'', kc_mismatch = []\<rparr>"

definition demo_edge_metadata :: json where
  "demo_edge_metadata = JObj [(''kind'', JStr ''orator_vad_active_edge_spans''),
     (''asr'', JObj [(''0'', JObj [(''text'', JStr ''abcd'')])]), (''align'', JObj [(''0'', demo_align)]),
     (''pieces'', JArr demo_spans)]"

definition demo_handoff_policy :: handoff_policy where
  "demo_handoff_policy = \<lparr>hp_minimum = 1, hp_maximum = 1, hp_threshold = 1, hp_voiceprint = demo_posterior_policy\<rparr>"

definition demo_gap_turn :: "string \<Rightarrow> int \<Rightarrow> json \<Rightarrow> json" where
  "demo_gap_turn t s who = JObj [(''text_id'', JInt 0), (''text'', JStr t), (''start'', JInt s), (''end'', JInt (s + 1)),
     (''speaker'', JInt 0), (''speaker_id'', who)]"

definition demo_gap :: json where
  "demo_gap = JObj [(''kind'', JStr ''orator_frozen_speaker_candidate''),
     (''active_speaker_ids'', JArr [JStr ''A'', JStr ''B'']), (''audio_sec'', JInt 3), (''sample_rate'', JInt 1),
     (''track'', JArr [demo_gap_turn ''a'' 0 (JStr ''A''), demo_gap_turn ''b'' 1 JNull, demo_gap_turn ''c'' 2 (JStr ''A'')])]"

definition demo_gap_pieces :: "json list" where
  "demo_gap_pieces = [JObj [(''evidence_id'', JStr ''p''), (''text_id'', JInt 0), (''source_start'', JInt 1),
     (''source_end'', JInt 2), (''local_speaker'', JInt 0)]]"

definition demo_gap_metadata :: json where
  "demo_gap_metadata = JObj [(''kind'', JStr ''orator_bracketed_unknown_phrase_spans''),
     (''asr'', JObj [(''0'', JObj [(''text'', JStr ''abc'')])]),
     (''align'', JObj [(''0'', JArr [JObj [(''text'', JStr ''abc''), (''start'', JInt 0), (''end'', JInt 3)]])]),
     (''pieces'', JArr demo_gap_pieces)]"

definition demo_gap_fragments :: "fragment list" where
  "demo_gap_fragments = (case rbind (vget demo_gap ''track'' (JArr [])) track_fragments of Inr (g # _) \<Rightarrow> snd g | _ \<Rightarrow> [])"

definition demo_local_policy :: local_policy where
  "demo_local_policy = \<lparr>lp_minimum = 1, lp_maximum = 1, lp_voiceprint = demo_posterior_policy\<rparr>"

definition demo_utterances :: json where
  "demo_utterances = JObj [(''kind'', JStr ''orator_vad_utterance_spans''), (''frame_period_sec'', JInt 1),
     (''pieces'', JArr [JObj [(''evidence_id'', JStr ''p''), (''text_id'', JInt 0), (''source_start'', JInt 2),
       (''source_end'', JInt 4), (''start'', JInt 1), (''end'', JInt 2), (''local_speaker'', JInt 1)]])]"

definition demo_challenge_phrases :: json where
  "demo_challenge_phrases = JObj [(''kind'', JStr ''orator_punctuation_phrase_spans''),
     (''asr'', JObj [(''0'', JObj [(''text'', JStr ''abcd'')])]), (''align'', JObj [(''0'', demo_align)]),
     (''phrases'', JArr [demo_envelope 2])]"

definition demo_tables :: four_tables where
  "demo_tables = \<lparr>ft_vad_session = demo_voices, ft_vad_robust = demo_voices, ft_phrase_session = demo_voices,
     ft_phrase_robust = demo_voices\<rparr>"

definition demo_challenge_policy :: challenge_policy where
  "demo_challenge_policy = \<lparr>vp_gates = demo_gates, vp_protected = [''kept'']\<rparr>"

subsection \<open>Evaluations\<close>

lemma demo_pieces:
  "case build_piece_candidate demo_contract (\<lambda>active ids. on_overlaps (decide_consensus ''x'' demo_gates active ids))
      demo_direct demo_relative_metadata demo_voices demo_voices demo_slots of
     Inr r \<Rightarrow> map (\<lambda>t. cl_reason (pt_label t)) (rv_track r) = [''x_dual_voiceprint_consensus''] | Inl _ \<Rightarrow> False"
  "piece_identities demo_direct demo_slots = Inr ([''A'', ''B''], [(0, ''A''), (1, ''B'')])"
  "case build_handoff_candidate demo_direct demo_edge_metadata demo_voices demo_voices demo_slots demo_handoff_policy of
     Inr r \<Rightarrow> map (\<lambda>t. cl_reason (pt_label t)) (rv_track r) = [''vad_active_edge_sortformer_handoff''] | Inl _ \<Rightarrow> False"
  "rbind (vitem demo_edge_metadata ''pieces'') py_iter = Inr demo_spans"
  "case build_unknown_candidate demo_gap demo_gap_metadata demo_voices demo_voices demo_slots demo_local_policy of
     Inr r \<Rightarrow> length (rv_track r) = 3 \<and> list_all (\<lambda>t. cl_speaker_id (pt_label t) = JStr ''A'') (rv_track r) | Inl _ \<Rightarrow> False"
  "rbind (vget demo_gap ''track'' (JArr [])) track_fragments = Inr [(0, demo_gap_fragments)]"
  "piece_identities demo_gap demo_slots = Inr ([''A'', ''B''], [(0, ''A''), (1, ''B'')])"
  "rbind (vitem demo_gap_metadata ''pieces'') py_iter = Inr demo_gap_pieces"
  "list_all plain_fragment demo_gap_fragments"
  "demo_gap_fragments ! 1 \<in> set demo_gap_fragments"
  "fr_start (demo_gap_fragments ! 1) \<le> 1"
  "1 < fr_end (demo_gap_fragments ! 1)"
  "case build_challenge_candidate demo_direct demo_utterances demo_challenge_phrases demo_tables demo_slots demo_challenge_policy of
     Inr r \<Rightarrow> (case filter (challenge_holds 0 3) (vr_decisions r) of [d] \<Rightarrow> so_speaker d = ''A'' | _ \<Rightarrow> False)
   | Inl _ \<Rightarrow> False"
  by code_simp+

lemma demo_relative_plain: "list_all (\<lambda>(_, frs). list_all plain_fragment frs) [(0 :: int, demo_relative_fragments)]"
  using demo_relative(4) by simp

lemma demo_relative_at: "map_of [(0 :: int, demo_relative_fragments)] 0 = Some demo_relative_fragments"
  "fr_start (last demo_relative_fragments) \<le> 3" "3 < fr_end (last demo_relative_fragments)"
  by (simp_all add: demo_relative_last)

subsection \<open>Witnesses\<close>

theorem consensus_changes_agreed_witness:
  "\<exists>r. build_piece_candidate demo_contract (\<lambda>active ids. on_overlaps (decide_consensus ''x'' demo_gates active ids))
      demo_direct demo_relative_metadata demo_voices demo_voices demo_slots = Inr r \<and>
     3 < length (expand_turns (filter (\<lambda>t. pt_text_id t = 0) (rv_track r)))"
proof -
  from demo_pieces(1) obtain r where r: "build_piece_candidate demo_contract
      (\<lambda>active ids. on_overlaps (decide_consensus ''x'' demo_gates active ids))
      demo_direct demo_relative_metadata demo_voices demo_voices demo_slots = Inr r" by (auto split: sum.splits)
  from consensus_changes_agreed[OF r demo_relative(1) demo_pieces(2) demo_relative(3) demo_relative_plain
      demo_relative_at(1) demo_relative_last(1) demo_relative_at(2,3)] r show ?thesis by (auto simp: Let_def)
qed

theorem handoff_changes_mapped_witness:
  "\<exists>r. build_handoff_candidate demo_direct demo_edge_metadata demo_voices demo_voices demo_slots demo_handoff_policy = Inr r \<and>
     3 < length (expand_turns (filter (\<lambda>t. pt_text_id t = 0) (rv_track r)))"
proof -
  from demo_pieces(3) obtain r where r: "build_handoff_candidate demo_direct demo_edge_metadata demo_voices demo_voices
      demo_slots demo_handoff_policy = Inr r" by (auto split: sum.splits)
  from handoff_changes_mapped[OF r demo_relative(1) demo_pieces(2,4) demo_relative_plain
      demo_relative_at(1) demo_relative_last(1) demo_relative_at(2,3)] r show ?thesis by (auto simp: Let_def)
qed

theorem bracketed_changes_between_witness:
  "\<exists>r. build_unknown_candidate demo_gap demo_gap_metadata demo_voices demo_voices demo_slots demo_local_policy = Inr r \<and>
     1 < length (expand_turns (filter (\<lambda>t. pt_text_id t = 0) (rv_track r)))"
proof -
  from demo_pieces(5) obtain r where r: "build_unknown_candidate demo_gap demo_gap_metadata demo_voices demo_voices
      demo_slots demo_local_policy = Inr r" by (auto split: sum.splits)
  have b: "build_unknown_candidate demo_gap demo_gap_metadata demo_voices demo_voices demo_slots demo_local_policy = Inr r \<and>
      adjacent_fragments = adjacent_fragments \<or>
    build_known_candidate demo_gap demo_gap_metadata demo_voices demo_voices demo_slots demo_local_policy = Inr r \<and>
      adjacent_fragments = phrase_neighbours" using r by simp
  have p: "list_all (\<lambda>(_, frs). list_all plain_fragment frs) [(0 :: int, demo_gap_fragments)]" using demo_pieces(9) by simp
  have m: "map_of [(0 :: int, demo_gap_fragments)] 0 = Some demo_gap_fragments" by simp
  from bracketed_changes_between[OF b demo_pieces(6-8) p m demo_pieces(10-12)] r show ?thesis by (auto simp: Let_def)
qed

theorem challenge_labels_exact_witness:
  "\<exists>r. build_challenge_candidate demo_direct demo_utterances demo_challenge_phrases demo_tables demo_slots
      demo_challenge_policy = Inr r \<and>
     expand_turns (filter (\<lambda>t. pt_text_id t = 0) (vr_track r)) ! 3 = (JStr ''A'', False, challenge_reason)"
proof -
  from demo_pieces(13) obtain r where r: "build_challenge_candidate demo_direct demo_utterances demo_challenge_phrases
      demo_tables demo_slots demo_challenge_policy = Inr r"
    and f: "case filter (challenge_holds 0 3) (vr_decisions r) of [d] \<Rightarrow> so_speaker d = ''A'' | _ \<Rightarrow> False"
    by (auto split: sum.splits)
  from f obtain d where d: "filter (challenge_holds 0 3) (vr_decisions r) = [d]" "so_speaker d = ''A''"
    by (auto split: list.splits)
  from challenge_labels_exact[OF r demo_base demo_base_at(1) demo_base_facts(2) demo_runs(14) demo_base_at(2,3)] d r
  show ?thesis by (auto simp: Let_def)
qed

end
