(* ===== verification/Freeze_Guard.thy ===== *)
theory Freeze_Guard
  imports Py_Json Py_Text
begin

text \<open>
  \<^verbatim>\<open>tools/verify/py/spec015_freeze_guard.py\<close>: the manifest that freezes sources, models and
  configuration sections, and the comparison of a working tree with it.  The files below a path
  are a finite tree without symbolic links or special files.  SHA-256, the TOML parser, git, the
  text of an \<^verbatim>\<open>OSError\<close> and what lies at a path are parameters; argument parsing, printing
  and the layout of the written JSON are left out.
\<close>

section \<open>File trees\<close>

datatype tree = File string | Folder "(string \<times> tree) list"

text \<open>The files below a tree: their path relative to it, in parts, and their bytes.\<close>

fun tree_files :: "tree \<Rightarrow> (string list \<times> string) list" where
  "tree_files (File b) = [([], b)]"
| "tree_files (Folder es) = concat (map (\<lambda>(n, t). map (\<lambda>(p, b). (n # p, b)) (tree_files t)) es)"

record workspace =
  ws_at :: "string \<Rightarrow> tree option"
  ws_sha256 :: "string \<Rightarrow> string"
  ws_toml :: "string \<Rightarrow> obj res"
  ws_os_text :: "string \<Rightarrow> string"
  ws_git :: "string \<Rightarrow> string list \<Rightarrow> int \<times> string \<times> string"
  ws_is_dir :: "string \<Rightarrow> bool"

text \<open>\<^verbatim>\<open>sorted(item for item in path.rglob("*") if item.is_file())\<close>: paths compare by parts.\<close>

definition listed_files :: "tree \<Rightarrow> (string \<times> string) list" where
  "listed_files t = map (\<lambda>(p, b). (join_with ''/'' p, b)) (sort_key fst (tree_files t))"

definition file_entry :: "(string \<Rightarrow> string) \<Rightarrow> string \<times> string \<Rightarrow> json" where
  "file_entry sha f = JObj [(''path'', JStr (fst f)), (''size'', JInt (int (length (snd f)))), (''sha256'', JStr (sha (snd f)))]"

text \<open>\<^verbatim>\<open>json.dumps\<close> with \<^verbatim>\<open>ensure_ascii\<close>: outside texts there are only ASCII characters.\<close>

definition ascii_char :: "char \<Rightarrow> string" where
  "ascii_char c = (let n = of_char c :: nat in
     if n < 127 then [c] else [CHR 0x5C, CHR ''u'', CHR ''0'', CHR ''0'', hex_digit (n div 16), hex_digit (n mod 16)])"

definition listing_text :: "json list \<Rightarrow> string" where
  "listing_text files = concat (map ascii_char (canonical_text (JArr files)))"

definition hash_path :: "workspace \<Rightarrow> string \<Rightarrow> obj" where
  "hash_path ws path = (case ws_at ws path of
     None \<Rightarrow> [(''exists'', JBool False)]
   | Some (File b) \<Rightarrow> [(''exists'', JBool True), (''kind'', JStr ''file''),
       (''size'', JInt (int (length b))), (''sha256'', JStr (ws_sha256 ws b))]
   | Some (Folder es) \<Rightarrow>
       let children = listed_files (Folder es); files = map (file_entry (ws_sha256 ws)) children in
       [(''exists'', JBool True), (''kind'', JStr ''directory''),
        (''size'', JInt (sum_list (map (int \<circ> length \<circ> snd) children))),
        (''file_count'', JInt (int (length files))),
        (''sha256'', JStr (ws_sha256 ws (listing_text files))), (''files'', JArr files)])"

section \<open>Building the manifest\<close>

text \<open>\<^verbatim>\<open>{k: f(k) for k in ks}\<close>\<close>

definition dict_of :: "('k \<Rightarrow> 'v) \<Rightarrow> 'k list \<Rightarrow> ('k, 'v) pydict" where
  "dict_of f ks = foldl (\<lambda>d k. dset k (f k) d) [] ks"

definition config_bytes :: "workspace \<Rightarrow> string \<Rightarrow> string res" where
  "config_bytes ws path = (case ws_at ws path of Some (File b) \<Rightarrow> Inr b | _ \<Rightarrow> Inl OSError)"

definition load_config_sections :: "workspace \<Rightarrow> string \<Rightarrow> string list \<Rightarrow> obj res" where
  "load_config_sections ws path names = rbind (config_bytes ws path) (\<lambda>b. rbind (ws_toml ws b) (\<lambda>config.
     let missing = filter (\<lambda>n. map_of config n = None) names in
     raise_if (missing \<noteq> []) (RuntimeError (''missing frozen TOML sections: '' @ join_with '', '' missing))
     (Inr (dict_of (get config) names))))"

definition expected_official_revision :: string where
  "expected_official_revision = ''7c6daf77a2421100f5fb066495372c00129d39ff''"

definition missing_paths :: "(string \<times> obj) list \<Rightarrow> (string \<times> obj) list \<Rightarrow> string list" where
  "missing_paths source models =
     map fst (filter (\<lambda>(p, r). \<not> truthy (get r ''exists'')) (foldl (\<lambda>d (p, r). dset p r d) source models))"

definition build_manifest ::
  "workspace \<Rightarrow> string \<Rightarrow> string list \<Rightarrow> string list \<Rightarrow> string list \<Rightarrow> string \<Rightarrow> obj res" where
  "build_manifest ws commit source_paths model_paths config_sections config_path = (
     let source = dict_of (hash_path ws) source_paths; models = dict_of (hash_path ws) model_paths in
     raise_if (missing_paths source models \<noteq> []) OSError
     (rbind (load_config_sections ws config_path config_sections) (\<lambda>sections. Inr
       [(''schema_version'', JInt 1),
        (''purpose'', JStr ''Spec 015 mechanical freeze; no product evaluation''),
        (''runtime_baseline_commit'', JStr commit),
        (''official_reference_revision'', JStr expected_official_revision),
        (''config'', JObj [(''path'', JStr config_path), (''sections'', JObj sections)]),
        (''source'', JObj (map (\<lambda>(p, r). (p, JObj r)) source)),
        (''models'', JObj (map (\<lambda>(p, r). (p, JObj r)) models))])))"

section \<open>Verifying a tree against the manifest\<close>

definition run_git :: "workspace \<Rightarrow> string \<Rightarrow> string list \<Rightarrow> string res" where
  "run_git ws dir args = (let (code, out, err) = ws_git ws dir args in
     if code \<noteq> 0 then Inl (RuntimeError (if strip err \<noteq> [] then strip err else strip out)) else Inr (strip out))"

definition reference_state :: "workspace \<Rightarrow> string \<Rightarrow> (string \<times> string) res" where
  "reference_state ws dir = rbind (run_git ws dir [''rev-parse'', ''HEAD'']) (\<lambda>revision.
     rbind (run_git ws dir [''status'', ''--short'']) (\<lambda>status. Inr (revision, status)))"

definition verify_reference :: "workspace \<Rightarrow> string \<Rightarrow> json \<Rightarrow> string list res" where
  "verify_reference ws dir expected =
    (if \<not> ws_is_dir ws dir then Inr [''official reference is missing: '' @ dir]
     else case reference_state ws dir of
       Inl (RuntimeError e) \<Rightarrow> Inr [''cannot inspect official reference: '' @ e]
     | Inl e \<Rightarrow> Inl e
     | Inr (revision, status) \<Rightarrow> Inr (
         (if py_eq expected (JStr revision) then []
          else [''official revision mismatch: '' @ revision @ '' != '' @ py_str expected]) @
         (if status = [] then [] else [''official reference worktree is dirty: '' @ status])))"

definition record_fields :: "string list" where
  "record_fields = [''exists'', ''kind'', ''size'', ''file_count'', ''sha256'']"

definition compare_record :: "string \<Rightarrow> json \<Rightarrow> obj \<Rightarrow> string list res" where
  "compare_record label expected actual = rbind (vdict expected) (\<lambda>e. Inr (
     map (\<lambda>k. label @ '' '' @ k @ '' changed: '' @ py_repr (get actual k) @ '' != '' @ py_repr (get e k))
       (filter (\<lambda>k. \<not> py_eq (get e k) (get actual k)) record_fields)))"

definition records_errors :: "workspace \<Rightarrow> string \<Rightarrow> json \<Rightarrow> string list res" where
  "records_errors ws kind records = rbind (vdict records) (\<lambda>d. rbind (rmap (\<lambda>(path, expected).
     compare_record (kind @ '' '' @ path) expected (hash_path ws path)) d) (\<lambda>es. Inr (concat es)))"

text \<open>\<^verbatim>\<open>repo / path\<close> of a value read from JSON.\<close>

fun path_text :: "json \<Rightarrow> string res" where
  "path_text (JStr s) = Inr s"
| "path_text _ = Inl TypeError"

definition config_failure :: "workspace \<Rightarrow> string \<Rightarrow> py_error \<Rightarrow> string list res" where
  "config_failure ws path e = (case e of
     OSError \<Rightarrow> Inr [''cannot read frozen config: '' @ ws_os_text ws path]
   | RuntimeError t \<Rightarrow> Inr [''cannot read frozen config: '' @ t]
   | _ \<Rightarrow> Inl e)"

definition config_errors :: "workspace \<Rightarrow> json \<Rightarrow> string list res" where
  "config_errors ws config =
     rbind (vget config ''path'' (JStr ''orator.toml'')) (\<lambda>p. rbind (path_text p) (\<lambda>path.
     rbind (vget config ''sections'' (JObj [])) (\<lambda>s. rbind (vdict s) (\<lambda>d.
     case load_config_sections ws path (map fst d) of
       Inl e \<Rightarrow> config_failure ws path e
     | Inr actual \<Rightarrow> rbind (vget config ''sections'' JNull) (\<lambda>frozen. Inr (
         if py_eq (JObj actual) frozen then [] else [''one or more frozen TOML sections changed'']))))))"

definition verify_manifest :: "workspace \<Rightarrow> json \<Rightarrow> bool \<Rightarrow> string option \<Rightarrow> string list res" where
  "verify_manifest ws manifest include_models reference_root = rbind (vdict manifest) (\<lambda>m.
     let schema = (if py_eq (get m ''schema_version'') (JInt 1) then [] else [''unsupported freeze manifest schema'']) in
     rbind (config_errors ws (dget m ''config'' (JObj []))) (\<lambda>config.
     rbind (records_errors ws ''source'' (dget m ''source'' (JObj []))) (\<lambda>source.
     rbind (if include_models then records_errors ws ''model'' (dget m ''models'' (JObj [])) else Inr []) (\<lambda>models.
     rbind (case reference_root of None \<Rightarrow> Inr []
            | Some dir \<Rightarrow> verify_reference ws dir (dget m ''official_reference_revision'' (JStr []))) (\<lambda>reference.
     Inr (schema @ config @ source @ models @ reference))))))"

section \<open>The command\<close>

definition frozen_config_sections :: "string list" where
  "frozen_config_sections = [''align'', ''timeline'', ''speaker'', ''speaker_fusion'', ''vad'', ''diarizer'']"

definition frozen_source_paths :: "string list" where
  "frozen_source_paths = [''include/core/time_base.h'', ''include/model/forced_align_decode.h'',
     ''include/model/qwen3_aligner_lm.h'', ''include/model/qwen3_forced_aligner.h'',
     ''include/model/sortformer_decoder.h'', ''include/model/speaker_database.h'',
     ''include/model/streaming_sortformer.h'', ''include/model/titanet_embedder.h'',
     ''include/pipeline/align_worker.h'', ''include/pipeline/business_speaker_pipeline.h'',
     ''include/pipeline/comprehensive_timeline.h'', ''include/pipeline/diar_postprocess.h'',
     ''include/pipeline/diarization_worker.h'', ''include/pipeline/gpu_vad.h'',
     ''include/pipeline/speaker_evidence_stage.h'', ''include/pipeline/speaker_identity_stage.h'',
     ''src/model/forced_align_decode.cc'', ''src/model/qwen3_aligner_lm.cu'',
     ''src/model/qwen3_forced_aligner.cc'', ''src/model/sortformer_decoder.cu'',
     ''src/model/speaker_database.cc'', ''src/model/streaming_sortformer.cc'',
     ''src/model/titanet_embedder.cu'', ''src/pipeline/align_worker.cc'',
     ''src/pipeline/business_speaker_pipeline.cc'', ''src/pipeline/business_speaker_utils.h'',
     ''src/pipeline/comprehensive_timeline.cc'', ''src/pipeline/diar_postprocess.cc'',
     ''src/pipeline/diarization_worker.cc'', ''src/pipeline/gpu_vad.cu'',
     ''src/pipeline/speaker_evidence_stage.cc'', ''src/pipeline/speaker_fusion_policy.cc'',
     ''src/pipeline/speaker_fusion_policy.h'', ''src/pipeline/speaker_identity_stage.cc'']"

definition frozen_model_paths :: "string list" where
  "frozen_model_paths = [''models/asr/Qwen/Qwen3-ASR-1.7B'', ''models/ForcedAligner'',
     ''models/sortformer_4spk_v2.1.safetensors'', ''models/diar_streaming_sortformer_4spk-v2.1.nemo'',
     ''models/speaker'', ''models/vad/silero_vad.safetensors'']"

record freeze_args =
  fz_create :: bool
  fz_baseline :: "string option"
  fz_include_models :: bool
  fz_reference_root :: "string option"

datatype freeze_outcome = Created obj | Verified | Rejected "string list"

text \<open>The manifest file is parsed only when it is verified.\<close>

definition freeze_main :: "workspace \<Rightarrow> freeze_args \<Rightarrow> json res \<Rightarrow> freeze_outcome res" where
  "freeze_main ws args manifest_file =
    (if fz_create args then
       (case fz_baseline args of
          Some (c # commit) \<Rightarrow> rbind (build_manifest ws (c # commit) frozen_source_paths frozen_model_paths
              frozen_config_sections ''orator.toml'') (\<lambda>manifest. Inr (Created manifest))
        | _ \<Rightarrow> Inl (RuntimeError ''--runtime-baseline-commit is required with --create''))
     else rbind manifest_file (\<lambda>manifest.
       rbind (verify_manifest ws manifest (fz_include_models args) (fz_reference_root args)) (\<lambda>errors.
       Inr (if errors \<noteq> [] then Rejected errors else Verified))))"

end
