(* ===== verification/Freeze_Properties.thy ===== *)
theory Freeze_Properties
  imports Freeze_Guard
begin

text \<open>
  What a passed verification of the frozen control says of the tree: the listing of a directory
  determines its files, so that equal records mean equal content as long as the digest has no
  collision among the texts that were hashed.
\<close>

section \<open>Reading a listing back\<close>

definition escaped :: "string \<Rightarrow> string" where
  "escaped s = concat (map ascii_char s)"

definition escaped_char :: "char \<Rightarrow> string" where
  "escaped_char c = escaped (json_char c)"

definition hex_number :: "char \<Rightarrow> nat" where
  "hex_number c = (let n = of_char c :: nat in if n < 58 then n - 48 else n - 87)"

text \<open>The first character of an escaped text, and the rest.\<close>

fun read_char :: "string \<Rightarrow> char \<times> string" where
  "read_char (c # s) = (if c \<noteq> CHR 0x5C then (c, s) else case s of
     [] \<Rightarrow> (c, s)
   | e # s' \<Rightarrow>
       if e = CHR ''u'' then (char_of (hex_number (s' ! 2) * 16 + hex_number (s' ! 3)), drop 4 s')
       else if e = CHR ''n'' then (CHR 0x0A, s') else if e = CHR ''r'' then (CHR 0x0D, s')
       else if e = CHR ''t'' then (CHR 0x09, s') else if e = CHR ''b'' then (CHR 0x08, s')
       else if e = CHR ''f'' then (CHR 0x0C, s') else (e, s'))"
| "read_char [] = (CHR 0x00, [])"

lemma escaped_append [simp]: "escaped (s @ t) = escaped s @ escaped t" "escaped [] = []"
  by (simp_all add: escaped_def)

lemma hex_digits_hold: "list_all (\<lambda>k. hex_number (hex_digit k) = k \<and> ascii_char (hex_digit k) = [hex_digit k]) [0..<16]"
  by code_simp

lemma hex_digit_facts: "k < 16 \<Longrightarrow> hex_number (hex_digit k) = k" "k < 16 \<Longrightarrow> ascii_char (hex_digit k) = [hex_digit k]"
  using hex_digits_hold by (simp_all add: list_all_iff)

lemma code_point: "char_of ((of_char c :: nat) div 16 * 16 + of_char c mod 16) = c"
  by (simp only: div_mult_mod_eq char_of_char)

lemma read_escaped_char: "read_char (escaped_char c @ s) = (c, s)"
proof -
  have ascii: "ascii_char (CHR 0x5C) = [CHR 0x5C]" "ascii_char (CHR ''u'') = ''u''" "ascii_char (CHR ''0'') = ''0''"
    "ascii_char (CHR ''n'') = ''n''" "ascii_char (CHR ''r'') = ''r''" "ascii_char (CHR ''t'') = ''t''"
    "ascii_char (CHR ''b'') = ''b''" "ascii_char (CHR ''f'') = ''f''" "ascii_char (CHR 0x22) = [CHR 0x22]"
    by code_simp+
  have hx: "(of_char c :: nat) div 16 < 16" "(of_char c :: nat) mod 16 < 16" using nat_of_char_less_256[of c] by (simp_all add: less_mult_imp_div_less)
  note hd = hex_digit_facts[OF hx(1)] hex_digit_facts[OF hx(2)]
  consider "c \<in> {CHR 0x22, CHR 0x5C, CHR 0x0A, CHR 0x0D, CHR 0x09, CHR 0x08, CHR 0x0C}"
    | "c \<notin> {CHR 0x22, CHR 0x5C, CHR 0x0A, CHR 0x0D, CHR 0x09, CHR 0x08, CHR 0x0C}" "(of_char c :: nat) < 32"
    | "c \<notin> {CHR 0x22, CHR 0x5C, CHR 0x0A, CHR 0x0D, CHR 0x09, CHR 0x08, CHR 0x0C}" "\<not> (of_char c :: nat) < 32" by blast
  then show ?thesis
  proof cases
    case 1
    then show ?thesis by (auto simp: escaped_char_def json_char_def escaped_def ascii)
  next
    case 2
    then have "escaped_char c = [CHR 0x5C, CHR ''u'', CHR ''0'', CHR ''0'', hex_digit (of_char c div 16), hex_digit (of_char c mod 16)]"
      by (simp add: escaped_char_def json_char_def escaped_def ascii hd Let_def)
    then show ?thesis by (simp add: hd code_point)
  next
    case 3
    then have e: "escaped_char c = ascii_char c" by (simp add: escaped_char_def json_char_def escaped_def Let_def)
    show ?thesis
    proof (cases "(of_char c :: nat) < 127")
      case True
      then have "escaped_char c = [c]" by (simp only: e ascii_char_def Let_def if_True)
      with 3 show ?thesis by simp
    next
      case False
      have "ascii_char c = [CHR 0x5C, CHR ''u'', CHR ''0'', CHR ''0'', hex_digit (of_char c div 16), hex_digit (of_char c mod 16)]"
        by (simp only: ascii_char_def Let_def False if_False)
      then show ?thesis by (simp add: e hd code_point)
    qed
  qed
qed

lemma escaped_char_split: "escaped_char c @ s = escaped_char d @ t \<Longrightarrow> c = d \<and> s = t"
  by (metis read_escaped_char prod.inject)

lemma escaped_char_start: "\<exists>a s. escaped_char c = a # s \<and> a \<noteq> CHR 0x22"
proof (cases "escaped_char c")
  case Nil
  with read_escaped_char[of c "''aa''"] show ?thesis by auto
next
  case (Cons a s)
  have "a \<noteq> CHR 0x22"
  proof
    assume "a = CHR 0x22"
    with read_escaped_char[of c "[]"] Cons have "c = CHR 0x22" by simp
    moreover have "escaped_char (CHR 0x22) = [CHR 0x5C, CHR 0x22]" by code_simp
    ultimately have "escaped_char c = [CHR 0x5C, CHR 0x22]" by simp
    with Cons \<open>a = CHR 0x22\<close> show False by simp
  qed
  with Cons show ?thesis by blast
qed

lemma quoted_split:
  "concat (map escaped_char s) @ CHR 0x22 # r = concat (map escaped_char t) @ CHR 0x22 # r' \<Longrightarrow> s = t \<and> r = r'"
proof (induction s arbitrary: t)
  case Nil
  then show ?case by (cases t) (use escaped_char_start[of "hd t"] in auto)
next
  case (Cons c s)
  show ?case
  proof (cases t)
    case Nil
    with Cons.prems show ?thesis using escaped_char_start[of c] by auto
  next
    case (Cons d u)
    with Cons.prems have "escaped_char c @ (concat (map escaped_char s) @ CHR 0x22 # r)
      = escaped_char d @ (concat (map escaped_char u) @ CHR 0x22 # r')" by simp
    from escaped_char_split[OF this] have "c = d"
      "concat (map escaped_char s) @ CHR 0x22 # r = concat (map escaped_char u) @ CHR 0x22 # r'" by blast+
    with Cons.IH Cons show ?thesis by blast
  qed
qed

lemma escaped_string: "escaped (json_string s) = CHR 0x22 # concat (map escaped_char s) @ [CHR 0x22]"
proof -
  have "escaped (concat (map json_char s)) = concat (map escaped_char s)"
    by (induction s) (simp_all add: escaped_char_def)
  moreover have "escaped [CHR 0x22] = [CHR 0x22]" by code_simp
  ultimately show ?thesis by (simp add: json_string_def del: append_Cons)
qed

lemma string_split: "escaped (json_string s) @ r = escaped (json_string t) @ r' \<Longrightarrow> s = t \<and> r = r'"
  using quoted_split[of s r t r'] by (simp add: escaped_string)

section \<open>A listing determines its files\<close>

text \<open>An entry as it stands in the canonical text, and what follows the first entry.\<close>

definition listed_text :: "string \<times> string \<times> nat \<Rightarrow> string" where
  "listed_text e = escaped (''{'' @ json_string ''path'' @ '':'' @ json_string (fst e) @ '','' @ json_string ''sha256'' @ '':'' @
     json_string (fst (snd e)) @ '','' @ json_string ''size'' @ '':'' @ int_repr (int (snd (snd e))) @ ''}'')"

definition listed_entry :: "(string \<Rightarrow> string) \<Rightarrow> string \<times> string \<Rightarrow> string \<times> string \<times> nat" where
  "listed_entry sha f = (fst f, sha (snd f), length (snd f))"

lemma no_brace_digits: "0 \<le> n \<Longrightarrow> CHR ''}'' \<notin> set (digits n)"
proof (induction n rule: digits.induct)
  case (1 n)
  have d: "CHR ''}'' \<noteq> char_of (48 + m)" if "0 \<le> m" "m < 10" for m :: int
  proof
    assume "CHR ''}'' = char_of (48 + m)"
    then have "of_char (CHR ''}'') = (of_char (char_of (48 + m)) :: int)" by simp
    with that show False by simp
  qed
  from 1 show ?case by (subst digits.simps) (auto simp: d)
qed

lemma no_brace_escaped: "CHR ''}'' \<notin> set s \<Longrightarrow> CHR ''}'' \<notin> set (escaped s)"
proof (induction s)
  case (Cons c s)
  have h: "CHR ''}'' \<noteq> hex_digit k" if "k < 16" for k
  proof -
    have "list_all (\<lambda>k. CHR ''}'' \<noteq> hex_digit k) [0..<16]" by code_simp
    with that show ?thesis by (simp add: list_all_iff)
  qed
  have "(of_char c :: nat) div 16 < 16" using nat_of_char_less_256[of c] by (simp add: less_mult_imp_div_less)
  then have "CHR ''}'' \<notin> set (ascii_char c)" using Cons.prems h by (auto simp: ascii_char_def Let_def)
  with Cons show ?case by (simp add: escaped_def)
qed (simp add: escaped_def)

lemma first_split: "a @ z # r = b @ z # r' \<Longrightarrow> z \<notin> set a \<Longrightarrow> z \<notin> set b \<Longrightarrow> a = b \<and> r = r'"
proof (induction a arbitrary: b)
  case Nil
  then show ?case by (cases b) auto
next
  case (Cons x a)
  then show ?case by (cases b) auto
qed

lemma entry_split:
  assumes "listed_text d @ r = listed_text e @ r'"
  shows "fst d = fst e" "fst (snd d) = fst (snd e)" "r = r'"
proof -
  have brace: "escaped ''}'' = ''}''" by code_simp
  from assms have p: "fst d = fst e" and
    rest: "escaped ('','' @ json_string ''sha256'' @ '':'') @ escaped (json_string (fst (snd d))) @
        escaped ('','' @ json_string ''size'' @ '':'') @ escaped (int_repr (int (snd (snd d)))) @ ''}'' @ r
      = escaped ('','' @ json_string ''sha256'' @ '':'') @ escaped (json_string (fst (snd e))) @
        escaped ('','' @ json_string ''size'' @ '':'') @ escaped (int_repr (int (snd (snd e)))) @ ''}'' @ r'"
    by (auto simp: listed_text_def brace simp del: append_Cons dest!: string_split)
  then have h: "fst (snd d) = fst (snd e)" and
    rest2: "escaped (int_repr (int (snd (snd d)))) @ CHR ''}'' # r = escaped (int_repr (int (snd (snd e)))) @ CHR ''}'' # r'"
    by (auto dest!: string_split)
  show "fst d = fst e" "fst (snd d) = fst (snd e)" using p h .
  have "CHR ''}'' \<notin> set (escaped (int_repr (int n)))" for n
    by (rule no_brace_escaped) (simp add: int_repr_def no_brace_digits)
  from first_split[OF rest2 this this] show "r = r'" by blast
qed

lemma entries_split:
  assumes "concat (map (\<lambda>e. CHR '','' # listed_text e) ds) @ '']'' = concat (map (\<lambda>e. CHR '','' # listed_text e) es) @ '']''"
  shows "map fst ds = map fst es \<and> map (fst \<circ> snd) ds = map (fst \<circ> snd) es"
  using assms
proof (induction ds arbitrary: es)
  case Nil
  then show ?case by (cases es) auto
next
  case (Cons d ds)
  then obtain e us where es: "es = e # us" by (cases es) auto
  let ?tail = "\<lambda>xs. concat (map (\<lambda>e. CHR '','' # listed_text e) xs) @ '']''"
  from Cons.prems es have "listed_text d @ ?tail ds = listed_text e @ ?tail us" by simp
  note split = entry_split[OF this]
  from Cons.IH[OF split(3)] split(1,2) es show ?case by simp
qed

lemma sorted_entry: "sort_keys (file_entry sha f) =
    JObj [(''path'', JStr (fst f)), (''sha256'', JStr (sha (snd f))), (''size'', JInt (int (length (snd f))))]"
proof -
  have "''path'' < ''sha256''" "''path'' < ''size''" "''sha256'' < ''size''" by code_simp+
  then show ?thesis by (simp add: file_entry_def)
qed

lemma join_tail: "join_with '','' (x # xs) = x @ concat (map (\<lambda>y. CHR '','' # y) xs)"
  by (induction xs arbitrary: x) auto

lemma listing_entries: "listing_text (map (file_entry sha) fs) = ''['' @ (case map (listed_entry sha) fs of [] \<Rightarrow> []
    | e # es \<Rightarrow> listed_text e @ concat (map (\<lambda>e. CHR '','' # listed_text e) es)) @ '']''"
proof -
  have ascii: "ascii_char CHR ''['' = ''[''" "ascii_char CHR '']'' = '']''" "ascii_char CHR '','' = '',''" by code_simp+
  have entry: "escaped (json_text '','' '':'' (sort_keys (file_entry sha f))) = listed_text (listed_entry sha f)" for f
    by (simp add: sorted_entry listed_text_def listed_entry_def del: append_Cons)
  have tail: "escaped (concat (map ((#) CHR '','' \<circ> (json_text '','' '':'' \<circ> (sort_keys \<circ> file_entry sha))) fs)) =
      concat (map ((\<lambda>e. CHR '','' # listed_text e) \<circ> listed_entry sha) fs)" for fs
    by (induction fs) (simp_all add: entry escaped_def ascii flip: entry)
  show ?thesis
  proof (cases fs)
    case Nil
    have "escaped ''[]'' = ''[]''" by code_simp
    with Nil show ?thesis by (simp add: listing_text_def canonical_text_def escaped_def)
  next
    case (Cons f gs)
    then show ?thesis
      by (simp add: listing_text_def canonical_text_def join_tail ascii entry tail comp_assoc flip: escaped_def del: append_Cons)
  qed
qed

lemma listing_determines:
  assumes "listing_text (map (file_entry sha) fs) = listing_text (map (file_entry sha) gs)"
  shows "map fst fs = map fst gs \<and> map (sha \<circ> snd) fs = map (sha \<circ> snd) gs"
proof -
  have "map fst ds = map fst es \<and> map (fst \<circ> snd) ds = map (fst \<circ> snd) es"
    if eq: "''['' @ (case ds of [] \<Rightarrow> [] | e # us \<Rightarrow> listed_text e @ concat (map (\<lambda>e. CHR '','' # listed_text e) us)) @ '']''
      = ''['' @ (case es of [] \<Rightarrow> [] | e # us \<Rightarrow> listed_text e @ concat (map (\<lambda>e. CHR '','' # listed_text e) us)) @ '']''" for ds es
  proof -
    have start: "\<exists>s. listed_text e = CHR ''{'' # s" for e
    proof -
      have "ascii_char CHR ''{'' = ''{''" by code_simp
      then show ?thesis by (simp add: listed_text_def escaped_def)
    qed
    show ?thesis
    proof (cases ds)
      case Nil
      show ?thesis
      proof (cases es)
        case (Cons e vs)
        obtain u where "listed_text e = CHR ''{'' # u" using start[of e] ..
        with eq Nil Cons show ?thesis by simp
      qed (simp add: Nil)
    next
      case ds: (Cons d us)
      show ?thesis
      proof (cases es)
        case Nil
        obtain u where "listed_text d = CHR ''{'' # u" using start[of d] ..
        with eq ds Nil show ?thesis by simp
      next
        case es: (Cons e vs)
        from eq[unfolded ds es] have "listed_text d @ (concat (map (\<lambda>e. CHR '','' # listed_text e) us) @ '']'')
          = listed_text e @ (concat (map (\<lambda>e. CHR '','' # listed_text e) vs) @ '']'')" by simp
        note split = entry_split[OF this]
        from entries_split[OF split(3)] split(1,2) ds es show ?thesis by simp
      qed
    qed
  qed
  from this[OF assms[unfolded listing_entries]] show ?thesis by (simp add: listed_entry_def comp_def)
qed

section \<open>Equal records\<close>

text \<open>The texts whose digest is taken to hash what lies at a path.\<close>

fun hashed_texts :: "(string \<Rightarrow> string) \<Rightarrow> tree option \<Rightarrow> string set" where
  "hashed_texts sha None = {}"
| "hashed_texts sha (Some (File b)) = {b}"
| "hashed_texts sha (Some (Folder es)) =
     insert (listing_text (map (file_entry sha) (listed_files (Folder es)))) (snd ` set (listed_files (Folder es)))"

text \<open>Two paths hold files with the same bytes, or directories with the same files below them.\<close>

fun same_content :: "tree option \<Rightarrow> tree option \<Rightarrow> bool" where
  "same_content (Some (File b)) (Some (File c)) \<longleftrightarrow> b = c"
| "same_content (Some (Folder ds)) (Some (Folder es)) \<longleftrightarrow> listed_files (Folder ds) = listed_files (Folder es)"
| "same_content _ _ \<longleftrightarrow> False"

lemma same_content_refl: "same_content (Some t) (Some t)"
  by (cases t) simp_all

lemma listed_by_digest:
  assumes "map fst fs = map fst gs" "map (sha \<circ> snd) fs = map (sha \<circ> snd) gs" "inj_on sha (snd ` set fs \<union> snd ` set gs)"
  shows "fs = gs"
  using assms
proof (induction fs arbitrary: gs)
  case (Cons f fs)
  then obtain g hs where gs: "gs = g # hs" by (cases gs) auto
  have "snd f = snd g"
    by (rule inj_onD[OF Cons.prems(3)]) (use Cons.prems(2) gs in simp_all)
  moreover have "fs = hs"
    using Cons.prems(1,2) gs by (intro Cons.IH inj_on_subset[OF Cons.prems(3)]) auto
  ultimately show ?case using Cons.prems(1) gs by (simp add: prod_eq_iff)
qed simp

lemma compare_record_empty: "compare_record label (JObj e) actual = Inr es \<Longrightarrow>
    es = [] \<longleftrightarrow> (\<forall>k \<in> set record_fields. py_eq (get e k) (get actual k))"
  by (auto simp: compare_record_def filter_empty_conv)

lemma record_faithful:
  assumes "ws_at ws p = Some t" and "ws_sha256 ws' = ws_sha256 ws"
    and "inj_on (ws_sha256 ws) (hashed_texts (ws_sha256 ws) (ws_at ws p) \<union> hashed_texts (ws_sha256 ws) (ws_at ws' p))"
    and "compare_record label (JObj (hash_path ws p)) (hash_path ws' p) = Inr es"
  shows "es = [] \<longleftrightarrow> same_content (ws_at ws p) (ws_at ws' p)"
proof -
  let ?sha = "ws_sha256 ws"
  have "(\<forall>k \<in> set record_fields. py_eq (get (hash_path ws p) k) (get (hash_path ws' p) k))
      \<longleftrightarrow> same_content (ws_at ws p) (ws_at ws' p)"
  proof (cases "ws_at ws' p")
    case None
    then show ?thesis using assms(1) by (cases t) (simp_all add: hash_path_def record_fields_def Let_def)
  next
    case (Some u)
    show ?thesis
    proof (cases t; cases u)
      fix b c assume "t = File b" "u = File c"
      with assms(1-3) Some show ?thesis by (auto simp: hash_path_def record_fields_def dest: inj_onD)
    next
      fix ds es assume k: "t = Folder ds" "u = Folder es"
      let ?fs = "listed_files (Folder ds)" and ?gs = "listed_files (Folder es)"
      from assms(1,3) Some k have inj: "inj_on ?sha ({listing_text (map (file_entry ?sha) ?fs)} \<union> snd ` set ?fs
        \<union> ({listing_text (map (file_entry ?sha) ?gs)} \<union> snd ` set ?gs))" by simp
      have "?fs = ?gs" if "?sha (listing_text (map (file_entry ?sha) ?fs)) = ?sha (listing_text (map (file_entry ?sha) ?gs))"
      proof -
        from inj_onD[OF inj that] have "listing_text (map (file_entry ?sha) ?fs) = listing_text (map (file_entry ?sha) ?gs)" by simp
        from listing_determines[OF this] show ?thesis
          by (intro listed_by_digest[of _ _ ?sha] inj_on_subset[OF inj]) auto
      qed
      with assms(1,2) Some k show ?thesis by (auto simp: hash_path_def record_fields_def Let_def)
    qed (use assms(1) Some in \<open>simp_all add: hash_path_def record_fields_def Let_def\<close>)
  qed
  with compare_record_empty[OF assms(4)] show ?thesis by simp
qed

section \<open>Frozen dictionaries\<close>

lemma map_of_dict_of: "map_of (dict_of f ks) k = (if k \<in> set ks then Some (f k) else None)"
  by (induction ks rule: rev_induct) (auto simp: dict_of_def)

lemma distinct_dict_of: "distinct (map fst (dict_of f ks))"
  by (induction ks rule: rev_induct) (auto simp: dict_of_def distinct_dset)

lemma set_dict_of: "set (dict_of f ks) = (\<lambda>k. (k, f k)) ` set ks"
proof -
  have "(k, v) \<in> set (dict_of f ks) \<longleftrightarrow> k \<in> set ks \<and> v = f k" for k v
    using map_of_eq_Some_iff[OF distinct_dict_of, of f ks k v] by (auto simp: map_of_dict_of split: if_splits)
  then show ?thesis by auto
qed

lemma keys_dict_of: "set (map fst (dict_of f ks)) = set ks"
  by (simp add: set_dict_of image_image)

lemma map_fst_dict_of: "map fst (dict_of f ks) = map fst (dict_of g ks)"
  by (induction ks rule: rev_induct) (simp_all add: dict_of_def update_keys)

lemma records_faithful:
  assumes "ws_sha256 ws' = ws_sha256 ws" and "\<forall>p \<in> set ps. ws_at ws p \<noteq> None"
    and "\<forall>p \<in> set ps. inj_on (ws_sha256 ws) (hashed_texts (ws_sha256 ws) (ws_at ws p) \<union> hashed_texts (ws_sha256 ws) (ws_at ws' p))"
    and "records_errors ws' kind (JObj (map (\<lambda>(p, r). (p, JObj r)) (dict_of (hash_path ws) ps))) = Inr es"
  shows "es = [] \<longleftrightarrow> (\<forall>p \<in> set ps. same_content (ws_at ws p) (ws_at ws' p))"
proof -
  let ?d = "dict_of (hash_path ws) ps"
  let ?f = "\<lambda>(p, r). compare_record (kind @ '' '' @ p) (JObj r) (hash_path ws' p)"
  from assms(4) obtain xs where xs: "rmap ?f ?d = Inr xs" "es = concat xs"
    by (auto simp: records_errors_def rbind_Inr_iff rmap_Inr_iff list_all2_map1 list_all2_conv_all_nth split_def)
  have one: "x = [] \<longleftrightarrow> same_content (ws_at ws p) (ws_at ws' p)"
    if "p \<in> set ps" "?f (p, hash_path ws p) = Inr x" for p x
  proof -
    from assms(2) that(1) obtain t where "ws_at ws p = Some t" by blast
    from record_faithful[OF this assms(1) bspec[OF assms(3) that(1)]] that(2) show ?thesis by simp
  qed
  show ?thesis
  proof
    assume "es = []"
    then have nil: "\<forall>x \<in> set xs. x = []" using xs(2) by simp
    show "\<forall>p \<in> set ps. same_content (ws_at ws p) (ws_at ws' p)"
    proof
      fix p assume p: "p \<in> set ps"
      then have "(p, hash_path ws p) \<in> set ?d" by (simp add: set_dict_of)
      from rmap_member[OF xs(1) this] obtain x where "x \<in> set xs" "?f (p, hash_path ws p) = Inr x" by blast
      with one[OF p] nil show "same_content (ws_at ws p) (ws_at ws' p)" by blast
    qed
  next
    assume all: "\<forall>p \<in> set ps. same_content (ws_at ws p) (ws_at ws' p)"
    have "x = []" if x: "x \<in> set xs" for x
    proof -
      from rmap_image[OF xs(1) x] obtain p where "p \<in> set ps" "?f (p, hash_path ws p) = Inr x"
        by (auto simp: set_dict_of)
      with one all show ?thesis by blast
    qed
    with xs(2) show "es = []" by simp
  qed
qed

lemma load_sections_Inr: "load_config_sections ws path names = Inr d \<longleftrightarrow>
    (\<exists>b config. config_bytes ws path = Inr b \<and> ws_toml ws b = Inr config \<and>
       (\<forall>n \<in> set names. map_of config n \<noteq> None) \<and> d = dict_of (get config) names)"
  by (auto simp: load_config_sections_def rbind_Inr_iff raise_if_Inr_iff Let_def filter_empty_conv)

lemma load_sections_fails: "load_config_sections ws path names = Inl e \<Longrightarrow>
    config_failure ws path e = Inr es \<Longrightarrow> es \<noteq> []"
  by (auto simp: config_failure_def split: py_error.splits)

lemma dset_fresh: "k \<notin> set (map fst d) \<Longrightarrow> dset k v d = d @ [(k, v)]"
  by (induction d) auto

text \<open>The section names of the manifest load the same dict as the names it was built from.\<close>

lemma dict_of_keys: "dict_of f (map fst (dict_of g ks)) = dict_of f ks"
proof -
  have "dict_of f ks = map (\<lambda>k. (k, f k)) (map fst (dict_of f ks))"
    by (simp only: map_map comp_def) (rule map_idI[symmetric], auto simp: set_dict_of)
  moreover have "dict_of f ks' = map (\<lambda>k. (k, f k)) ks'" if "distinct ks'" for ks'
    using that by (induction ks' rule: rev_induct) (auto simp: dict_of_def dset_fresh)
  ultimately show ?thesis using distinct_dict_of[of g ks] by (metis map_fst_dict_of)
qed

lemma py_eq_dicts: "py_eq (JObj (dict_of f ks)) (JObj (dict_of g ks)) \<longleftrightarrow> (\<forall>k \<in> set ks. py_eq (f k) (g k))"
proof -
  have "length (dict_of f ks) = length (dict_of g ks)"
    using arg_cong[OF map_fst_dict_of[of f ks g], of length] by simp
  then show ?thesis by (simp add: list_all_iff set_dict_of map_of_dict_of)
qed

text \<open>The frozen sections are there and equal to those of the parsed configuration \<open>frozen\<close>.\<close>

definition sections_unchanged :: "workspace \<Rightarrow> string \<Rightarrow> string list \<Rightarrow> obj \<Rightarrow> bool" where
  "sections_unchanged ws path names frozen \<longleftrightarrow>
     (case rbind (config_bytes ws path) (ws_toml ws) of Inl e \<Rightarrow> False
      | Inr config \<Rightarrow> list_all (\<lambda>n. map_of config n \<noteq> None \<and> py_eq (get config n) (get frozen n)) names)"

lemma config_faithful:
  assumes "config_errors ws (JObj [(''path'', JStr path), (''sections'', JObj (dict_of (get frozen) names))]) = Inr es"
  shows "es = [] \<longleftrightarrow> sections_unchanged ws path names frozen"
proof -
  let ?names = "map fst (dict_of (get frozen) names)"
  note keys = keys_dict_of[of "get frozen" names]
  show ?thesis
  proof (cases "load_config_sections ws path ?names")
    case (Inl e)
    with assms have "es \<noteq> []" by (auto simp: config_errors_def dest: load_sections_fails)
    moreover have "\<not> sections_unchanged ws path names frozen"
    proof
      assume "sections_unchanged ws path names frozen"
      then obtain b config where "config_bytes ws path = Inr b" "ws_toml ws b = Inr config" "\<forall>n \<in> set names. map_of config n \<noteq> None"
        by (auto simp: sections_unchanged_def list_all_iff rbind_Inr_iff split: sum.splits)
      then have "load_config_sections ws path ?names = Inr (dict_of (get config) ?names)"
        unfolding load_sections_Inr keys by blast
      with Inl show False by simp
    qed
    ultimately show ?thesis by simp
  next
    case (Inr d)
    then obtain b config where c: "config_bytes ws path = Inr b" "ws_toml ws b = Inr config"
      "\<forall>n \<in> set names. map_of config n \<noteq> None" "d = dict_of (get config) names"
      unfolding load_sections_Inr keys dict_of_keys by blast
    with assms Inr have "es = [] \<longleftrightarrow> py_eq (JObj (dict_of (get config) names)) (JObj (dict_of (get frozen) names))"
      by (auto simp: config_errors_def split: if_splits simp del: py_eq.simps)
    also have "\<dots> \<longleftrightarrow> sections_unchanged ws path names frozen"
      using c(1-3) by (simp only: py_eq_dicts) (simp add: sections_unchanged_def list_all_iff)
    finally show ?thesis .
  qed
qed

section \<open>The frozen control\<close>

lemma build_manifest_facts:
  assumes "build_manifest ws commit sources models names path = Inr m"
  obtains b config where "config_bytes ws path = Inr b" "ws_toml ws b = Inr config"
    "get m ''schema_version'' = JInt 1"
    "dget m ''config'' c = JObj [(''path'', JStr path), (''sections'', JObj (dict_of (get config) names))]"
    "dget m ''source'' c = JObj (map (\<lambda>(p, r). (p, JObj r)) (dict_of (hash_path ws) sources))"
    "dget m ''models'' c = JObj (map (\<lambda>(p, r). (p, JObj r)) (dict_of (hash_path ws) models))"
    "\<forall>p \<in> set (sources @ models). ws_at ws p \<noteq> None"
proof -
  let ?d = "foldl (\<lambda>d (p, r). dset p r d) (dict_of (hash_path ws) sources) (dict_of (hash_path ws) models)"
  from assms obtain sections where s: "load_config_sections ws path names = Inr sections"
    "missing_paths (dict_of (hash_path ws) sources) (dict_of (hash_path ws) models) = []"
    "m = [(''schema_version'', JInt 1),
        (''purpose'', JStr ''Spec 015 mechanical freeze; no product evaluation''),
        (''runtime_baseline_commit'', JStr commit),
        (''official_reference_revision'', JStr expected_official_revision),
        (''config'', JObj [(''path'', JStr path), (''sections'', JObj sections)]),
        (''source'', JObj (map (\<lambda>(p, r). (p, JObj r)) (dict_of (hash_path ws) sources))),
        (''models'', JObj (map (\<lambda>(p, r). (p, JObj r)) (dict_of (hash_path ws) models)))]"
    by (auto simp: build_manifest_def Let_def rbind_Inr_iff raise_if_Inr_iff)
  have merged: "map_of (foldl (\<lambda>d (p, r). dset p r d) d rs) p =
      (case map_of (rev rs) p of None \<Rightarrow> map_of d p | Some r \<Rightarrow> Some r)" for d rs and p :: string
    by (induction rs arbitrary: d) (auto split: option.splits)
  have "map_of ?d p = Some (hash_path ws p)" if "p \<in> set (sources @ models)" for p
  proof -
    have "map_of (rev (dict_of (hash_path ws) models)) p = map_of (dict_of (hash_path ws) models) p"
      using map_of_inject_set[of "rev (dict_of (hash_path ws) models)" "dict_of (hash_path ws) models"]
      by (simp add: distinct_dict_of rev_map[symmetric])
    with that show ?thesis by (auto simp: merged map_of_dict_of)
  qed
  then have "truthy (get (hash_path ws p) ''exists'')" if "p \<in> set (sources @ models)" for p
    using s(2) that by (auto simp: missing_paths_def filter_empty_conv dest!: map_of_SomeD)
  then have there: "\<forall>p \<in> set (sources @ models). ws_at ws p \<noteq> None" by (fastforce simp: hash_path_def split: option.splits)
  from s(1) obtain b config where "config_bytes ws path = Inr b" "ws_toml ws b = Inr config"
    "sections = dict_of (get config) names" unfolding load_sections_Inr by blast
  then show thesis using there by (intro that) (simp_all add: s(3))
qed

text \<open>Verifying a built manifest returns as soon as the configuration parses where it can be read.\<close>

lemma compare_record_returns: "\<exists>es. compare_record label (JObj e) actual = Inr es"
  by (simp add: compare_record_def)

lemma records_errors_return: "\<exists>es. records_errors ws kind (JObj (map (\<lambda>(p, r). (p, JObj r)) d)) = Inr es"
proof -
  have "\<exists>xs. rmap (\<lambda>(p, e). compare_record (kind @ '' '' @ p) e (hash_path ws p)) (map (\<lambda>(p, r). (p, JObj r)) d) = Inr xs"
    by (rule rmap_exists) (auto simp: compare_record_returns)
  then show ?thesis by (auto simp: records_errors_def)
qed

lemma config_errors_return:
  assumes "\<forall>b. config_bytes ws path = Inr b \<longrightarrow> (\<exists>config. ws_toml ws b = Inr config)"
  shows "\<exists>es. config_errors ws (JObj [(''path'', JStr path), (''sections'', JObj d)]) = Inr es"
proof (cases "load_config_sections ws path (map fst d)")
  case (Inl e)
  with assms have "e = OSError \<or> (\<exists>t. e = RuntimeError t)"
    by (cases "config_bytes ws path") (auto simp: load_config_sections_def raise_if_def Let_def config_bytes_def
      split: if_splits option.splits tree.splits)
  with Inl show ?thesis by (auto simp: config_errors_def config_failure_def)
qed (simp add: config_errors_def del: py_eq.simps)

text \<open>The errors of the configuration, the sources and the models, in this order.\<close>

lemma verify_built:
  assumes build: "build_manifest ws commit sources models names path = Inr m"
    and frozen: "rbind (config_bytes ws path) (ws_toml ws) = Inr config"
    and parses: "\<forall>b. config_bytes ws' path = Inr b \<longrightarrow> (\<exists>c. ws_toml ws' b = Inr c)"
  obtains es ss ms where "verify_manifest ws' (JObj m) True None = Inr (es @ ss @ ms)"
    "verify_manifest ws' (JObj m) False None = Inr (es @ ss)"
    "config_errors ws' (JObj [(''path'', JStr path), (''sections'', JObj (dict_of (get config) names))]) = Inr es"
    "records_errors ws' ''source'' (JObj (map (\<lambda>(p, r). (p, JObj r)) (dict_of (hash_path ws) sources))) = Inr ss"
    "records_errors ws' ''model'' (JObj (map (\<lambda>(p, r). (p, JObj r)) (dict_of (hash_path ws) models))) = Inr ms"
    "\<forall>p \<in> set (sources @ models). ws_at ws p \<noteq> None"
proof -
  obtain b config' where facts: "config_bytes ws path = Inr b" "ws_toml ws b = Inr config'"
    "get m ''schema_version'' = JInt 1"
    "dget m ''config'' (JObj []) = JObj [(''path'', JStr path), (''sections'', JObj (dict_of (get config') names))]"
    "dget m ''source'' (JObj []) = JObj (map (\<lambda>(p, r). (p, JObj r)) (dict_of (hash_path ws) sources))"
    "dget m ''models'' (JObj []) = JObj (map (\<lambda>(p, r). (p, JObj r)) (dict_of (hash_path ws) models))"
    "\<forall>p \<in> set (sources @ models). ws_at ws p \<noteq> None"
    by (rule build_manifest_facts[OF build])
  from frozen facts(1,2) have "config' = config" by simp
  with config_errors_return[OF parses] records_errors_return facts(3-7) that show thesis
    by (simp add: verify_manifest_def) (metis rbind_simps(2))
qed

text \<open>
  C26: a tree passes the verification against a manifest exactly when every frozen file has the
  bytes it had, every frozen directory the same files with the same bytes, and every frozen
  configuration section is equal, if no two of the hashed texts collide under the digest.
\<close>

theorem freeze_passes_iff_unchanged:
  assumes build: "build_manifest ws commit sources models names path = Inr m"
    and frozen: "rbind (config_bytes ws path) (ws_toml ws) = Inr config"
    and parses: "\<forall>b. config_bytes ws' path = Inr b \<longrightarrow> (\<exists>c. ws_toml ws' b = Inr c)"
    and same: "ws_sha256 ws' = ws_sha256 ws"
    and collision_free: "\<forall>p \<in> set (sources @ models). inj_on (ws_sha256 ws)
      (hashed_texts (ws_sha256 ws) (ws_at ws p) \<union> hashed_texts (ws_sha256 ws) (ws_at ws' p))"
  shows "\<exists>errors. verify_manifest ws' (JObj m) True None = Inr errors \<and>
    (errors = [] \<longleftrightarrow> (\<forall>p \<in> set (sources @ models). same_content (ws_at ws p) (ws_at ws' p)) \<and>
      sections_unchanged ws' path names config)"
proof -
  obtain es ss ms where v: "verify_manifest ws' (JObj m) True None = Inr (es @ ss @ ms)"
    and es: "config_errors ws' (JObj [(''path'', JStr path), (''sections'', JObj (dict_of (get config) names))]) = Inr es"
    and ss: "records_errors ws' ''source'' (JObj (map (\<lambda>(p, r). (p, JObj r)) (dict_of (hash_path ws) sources))) = Inr ss"
    and ms: "records_errors ws' ''model'' (JObj (map (\<lambda>(p, r). (p, JObj r)) (dict_of (hash_path ws) models))) = Inr ms"
    and there: "\<forall>p \<in> set (sources @ models). ws_at ws p \<noteq> None"
    by (rule verify_built[OF build frozen parses])
  have "ss = [] \<longleftrightarrow> (\<forall>p \<in> set sources. same_content (ws_at ws p) (ws_at ws' p))"
    by (rule records_faithful[OF same _ _ ss]) (use there collision_free in auto)
  moreover have "ms = [] \<longleftrightarrow> (\<forall>p \<in> set models. same_content (ws_at ws p) (ws_at ws' p))"
    by (rule records_faithful[OF same _ _ ms]) (use there collision_free in auto)
  ultimately show ?thesis using v config_faithful[OF es] by auto
qed

section \<open>Creating and verifying\<close>

lemma compare_same: "compare_record label (JObj (hash_path ws p)) (hash_path ws p) = Inr []"
proof -
  have "\<forall>k \<in> set record_fields. py_eq (get (hash_path ws p) k) (get (hash_path ws p) k)"
    by (auto simp: record_fields_def hash_path_def Let_def split: option.split tree.split)
  then show ?thesis by (simp add: compare_record_def filter_empty_conv)
qed

lemma records_same:
  assumes "records_errors ws kind (JObj (map (\<lambda>(p, r). (p, JObj r)) (dict_of (hash_path ws) ps))) = Inr es"
  shows "es = []"
proof -
  have "rmap (\<lambda>(p, e). compare_record (kind @ '' '' @ p) e (hash_path ws p))
      (map (\<lambda>(p, r). (p, JObj r)) (dict_of (hash_path ws) ps)) =
    Inr (map (\<lambda>_. []) (map (\<lambda>(p, r). (p, JObj r)) (dict_of (hash_path ws) ps)))"
    by (rule rmap_map) (auto simp: set_dict_of compare_same)
  with assms show ?thesis by (auto simp: records_errors_def)
qed

text \<open>
  C27: on an unchanged tree the command accepts the manifest it has created, with and without the
  models, unless a frozen configuration section differs from itself (a NaN).
\<close>

theorem freeze_created_verifies:
  assumes created: "freeze_main ws args file = Inr (Created m)"
    and frozen: "rbind (config_bytes ws ''orator.toml'') (ws_toml ws) = Inr config"
    and reflexive: "\<forall>n \<in> set frozen_config_sections. py_eq (get config n) (get config n)"
    and verifying: "\<not> fz_create args'" "fz_reference_root args' = None"
  shows "freeze_main ws args' (Inr (JObj m)) = Inr Verified"
proof -
  from created obtain commit where build: "build_manifest ws commit frozen_source_paths frozen_model_paths
      frozen_config_sections ''orator.toml'' = Inr m"
    by (auto simp: freeze_main_def rbind_Inr_iff split: if_splits option.splits list.splits)
  from frozen have parses: "\<forall>b. config_bytes ws ''orator.toml'' = Inr b \<longrightarrow> (\<exists>c. ws_toml ws b = Inr c)" by auto
  obtain es ss ms where v: "verify_manifest ws (JObj m) True None = Inr (es @ ss @ ms)" "verify_manifest ws (JObj m) False None = Inr (es @ ss)"
    and es: "config_errors ws (JObj [(''path'', JStr ''orator.toml''), (''sections'', JObj (dict_of (get config) frozen_config_sections))]) = Inr es"
    and ss: "records_errors ws ''source'' (JObj (map (\<lambda>(p, r). (p, JObj r)) (dict_of (hash_path ws) frozen_source_paths))) = Inr ss"
    and ms: "records_errors ws ''model'' (JObj (map (\<lambda>(p, r). (p, JObj r)) (dict_of (hash_path ws) frozen_model_paths))) = Inr ms"
    by (rule verify_built[OF build frozen parses])
  from build frozen obtain s where "load_config_sections ws ''orator.toml'' frozen_config_sections = Inr s"
    by (auto simp: build_manifest_def Let_def rbind_Inr_iff raise_if_Inr_iff)
  with frozen reflexive have "sections_unchanged ws ''orator.toml'' frozen_config_sections config"
    by (auto simp: load_sections_Inr sections_unchanged_def list_all_iff)
  with config_faithful[OF es] records_same[OF ss] records_same[OF ms] v
  have "verify_manifest ws (JObj m) inc None = Inr []" for inc by (cases inc) simp_all
  with verifying show ?thesis by (simp add: freeze_main_def)
qed

section \<open>Concrete trees\<close>

text \<open>A repository with one source, one model directory and a configuration; the digest is the text itself.\<close>

definition demo_workspace :: "string \<Rightarrow> workspace" where
  "demo_workspace weights = \<lparr>ws_at = (\<lambda>p. if p = ''m'' then Some (Folder [(''b'', Folder [(''w'', File weights)]), (''a'', File ''1'')])
       else if p = ''orator.toml'' then Some (File ''t'') else Some (File ''s'')),
     ws_sha256 = (\<lambda>t. t), ws_toml = (\<lambda>b. Inr (map (\<lambda>n. (n, JObj [(''enable'', JBool True)])) frozen_config_sections)),
     ws_os_text = (\<lambda>p. []), ws_git = (\<lambda>d args. (0, [], [])), ws_is_dir = (\<lambda>d. False)\<rparr>"

theorem freeze_passes_iff_unchanged_witness:
  "\<exists>m es. build_manifest (demo_workspace ''x'') ''c'' [''s''] [''m''] [''vad''] ''orator.toml'' = Inr m \<and>
     verify_manifest (demo_workspace ''y'') (JObj m) True None = Inr es \<and> es \<noteq> []"
proof -
  have "case build_manifest (demo_workspace ''x'') ''c'' [''s''] [''m''] [''vad''] ''orator.toml'' of Inl e \<Rightarrow> False | Inr m \<Rightarrow> True"
    "rbind (config_bytes (demo_workspace ''x'') ''orator.toml'') (ws_toml (demo_workspace ''x'')) =
      Inr (map (\<lambda>n. (n, JObj [(''enable'', JBool True)])) frozen_config_sections)"
    "\<not> same_content (ws_at (demo_workspace ''x'') ''m'') (ws_at (demo_workspace ''y'') ''m'')"
    by code_simp+
  moreover from this(1) obtain m where m: "build_manifest (demo_workspace ''x'') ''c'' [''s''] [''m''] [''vad''] ''orator.toml'' = Inr m"
    by (auto split: sum.splits)
  ultimately show ?thesis
    using freeze_passes_iff_unchanged[OF m, where ws' = "demo_workspace ''y''"]
    by (auto simp: demo_workspace_def inj_on_def)
qed

theorem freeze_created_verifies_witness:
  "\<exists>m. freeze_main (demo_workspace ''x'') \<lparr>fz_create = True, fz_baseline = Some ''c'', fz_include_models = False,
       fz_reference_root = None\<rparr> (Inl OSError) = Inr (Created m) \<and>
     freeze_main (demo_workspace ''x'') \<lparr>fz_create = False, fz_baseline = None, fz_include_models = True,
       fz_reference_root = None\<rparr> (Inr (JObj m)) = Inr Verified"
proof -
  let ?args = "\<lparr>fz_create = True, fz_baseline = Some ''c'', fz_include_models = False, fz_reference_root = None\<rparr>"
  let ?config = "map (\<lambda>n. (n, JObj [(''enable'', JBool True)])) frozen_config_sections"
  have made: "case freeze_main (demo_workspace ''x'') ?args (Inl OSError) of Inr (Created m) \<Rightarrow> True | _ \<Rightarrow> False"
    and frozen: "rbind (config_bytes (demo_workspace ''x'') ''orator.toml'') (ws_toml (demo_workspace ''x'')) = Inr ?config"
    and eq: "list_all (\<lambda>n. py_eq (get ?config n) (get ?config n)) frozen_config_sections"
    by code_simp+
  from made obtain m where m: "freeze_main (demo_workspace ''x'') ?args (Inl OSError) = Inr (Created m)"
    by (auto split: sum.splits freeze_outcome.splits)
  from freeze_created_verifies[OF m frozen] eq m show ?thesis by (auto simp: list_all_iff)
qed

end
