(* ===== verification/Repro_Manifest.thy ===== *)
theory Repro_Manifest
  imports Freeze_Guard
begin

text \<open>
  \<^verbatim>\<open>tools/verify/py/repro_manifest.py\<close>: the manifest of a validation fixture, with the digests
  of its assets and models, the state of the checkout and of the machine, and a digest of itself.
  Paths, files and digests are those of a \<open>workspace\<close>; what commands, the clock, the environment
  and the platform report are parameters; argument parsing, progress output and writing are left out.
\<close>

section \<open>The machine\<close>

text \<open>What \<^verbatim>\<open>subprocess.run\<close> did: a return code with both outputs, an \<^verbatim>\<open>OSError\<close>, or a timeout.\<close>

datatype command_run = Ran int string string | NotStarted string | TimedOut string string

record machine =
  mc_ws :: workspace
  mc_abspath :: "string \<Rightarrow> string"
  mc_run :: "string list \<Rightarrow> string \<Rightarrow> command_run"
  mc_read :: "string \<Rightarrow> string option"
  mc_stamp :: string
  mc_isoformat :: string
  mc_environ :: "(string \<times> string) list"
  mc_platform :: string
  mc_machine :: string
  mc_python :: string

record repro_args =
  rp_repo :: string
  rp_config :: string
  rp_audio :: string
  rp_reference :: string
  rp_executable :: string
  rp_registry :: "string option"
  rp_skip_models :: bool

section \<open>Digests\<close>

text \<open>
  \<^verbatim>\<open>os.walk\<close> with sorted directories and names: the files of a directory before those of its
  subdirectories.  A file has nothing below it.
\<close>

definition plain_files :: "(string \<times> tree) list \<Rightarrow> (string \<times> string) list" where
  "plain_files es = List.map_filter (\<lambda>(n, t). case t of File b \<Rightarrow> Some (n, b) | Folder _ \<Rightarrow> None) es"

fun walk_files :: "tree \<Rightarrow> (string list \<times> string) list" where
  "walk_files (File b) = []"
| "walk_files (Folder es) = map (\<lambda>(n, b). ([n], b)) (sort_key fst (plain_files es)) @
     concat (map (\<lambda>(n, fs). map (\<lambda>(p, b). (n # p, b)) fs) (sort_key fst (map (\<lambda>(n, t). (n, walk_files t)) es)))"

definition asset_hash :: "machine \<Rightarrow> string \<Rightarrow> obj" where
  "asset_hash mc path = (let absolute = mc_abspath mc path; sha = ws_sha256 (mc_ws mc) in
     case ws_at (mc_ws mc) absolute of
       None \<Rightarrow> [(''path'', JStr absolute), (''exists'', JBool False)]
     | Some (File b) \<Rightarrow> [(''path'', JStr absolute), (''exists'', JBool True), (''kind'', JStr ''file''),
         (''size'', JInt (int (length b))), (''sha256'', JStr (sha b))]
     | Some (Folder es) \<Rightarrow>
         let children = map (\<lambda>(p, b). (join_with ''/'' p, b)) (walk_files (Folder es));
             files = map (file_entry sha) children in
         [(''path'', JStr absolute), (''exists'', JBool True), (''kind'', JStr ''directory''),
          (''size'', JInt (sum_list (map (int \<circ> length \<circ> snd) children))),
          (''file_count'', JInt (int (length files))),
          (''sha256'', JStr (sha (canonical_text (JArr files)))), (''files'', JArr files)])"

section \<open>Commands\<close>

definition command_probe :: "machine \<Rightarrow> string list \<Rightarrow> string \<Rightarrow> int option \<times> string" where
  "command_probe mc command cwd = (case mc_run mc command cwd of
     NotStarted e \<Rightarrow> (None, e)
   | TimedOut out err \<Rightarrow> (Some 124, strip (out @ err))
   | Ran code out err \<Rightarrow> (Some code, strip (out @ err)))"

definition probe_doc :: "int option \<times> string \<Rightarrow> json" where
  "probe_doc p = JObj [(''returncode'', case fst p of None \<Rightarrow> JNull | Some c \<Rightarrow> JInt c), (''output'', JStr (snd p))]"

definition command_output :: "machine \<Rightarrow> string list \<Rightarrow> string \<Rightarrow> string option" where
  "command_output mc command cwd = (let (code, output) = command_probe mc command cwd in
     if code \<noteq> Some 0 then None else if output = [] then None else Some output)"

text \<open>\<^verbatim>\<open>s.splitlines()\<close>: a carriage return and a line feed end one line together.\<close>

definition line_break :: "char \<Rightarrow> bool" where
  "line_break c \<longleftrightarrow> (CHR 0x0A \<le> c \<and> c \<le> CHR 0x0D) \<or> (CHR 0x1C \<le> c \<and> c \<le> CHR 0x1E) \<or> c = CHR 0x85"

fun split_lines :: "string \<Rightarrow> string \<Rightarrow> string list" where
  "split_lines l [] = (if l = [] then [] else [rev l])"
| "split_lines l (c # s) =
    (if c = CHR 0x0D \<and> s \<noteq> [] \<and> hd s = CHR 0x0A then split_lines l s
     else if line_break c then rev l # split_lines [] s else split_lines (c # l) s)"

definition splitlines :: "string \<Rightarrow> string list" where
  "splitlines s = split_lines [] s"

definition first_line :: "machine \<Rightarrow> string list \<Rightarrow> string \<Rightarrow> json" where
  "first_line mc command cwd = (case command_output mc command cwd of
     None \<Rightarrow> JNull | Some output \<Rightarrow> JStr (splitlines output ! 0))"

definition read_optional :: "machine \<Rightarrow> string \<Rightarrow> json" where
  "read_optional mc path = (case mc_read mc path of None \<Rightarrow> JNull | Some t \<Rightarrow> JStr (strip t))"

section \<open>Paths\<close>

text \<open>\<^verbatim>\<open>os.path.join(repo, value)\<close> unless the value is absolute; a value that is no text raises.\<close>

definition join_path :: "string \<Rightarrow> string \<Rightarrow> string" where
  "join_path repo value =
    (if value \<noteq> [] \<and> hd value = CHR ''/'' then value
     else if repo = [] \<or> last repo = CHR ''/'' then repo @ value else repo @ ''/'' @ value)"

definition resolve_path :: "string \<Rightarrow> json \<Rightarrow> json res" where
  "resolve_path repo value = (if \<not> truthy value then Inr JNull
     else case value of JStr s \<Rightarrow> Inr (JStr (join_path repo s)) | _ \<Rightarrow> Inl TypeError)"

definition hash_value :: "machine \<Rightarrow> json \<Rightarrow> obj res" where
  "hash_value mc v = (case v of JStr s \<Rightarrow> Inr (asset_hash mc s) | _ \<Rightarrow> Inl TypeError)"

definition hash_resolved :: "machine \<Rightarrow> string \<Rightarrow> json \<Rightarrow> obj res" where
  "hash_resolved mc repo v = rbind (resolve_path repo v) (hash_value mc)"

definition config_value :: "obj \<Rightarrow> string \<Rightarrow> string \<Rightarrow> json res" where
  "config_value config name k = vget (dget config name (JObj [])) k JNull"

definition model_settings :: "(string \<times> string) list" where
  "model_settings = [(''diarizer'', ''model_weights''), (''asr'', ''model_dir''), (''vad'', ''model''),
     (''align'', ''model_dir''), (''speaker'', ''model_dir'')]"

definition model_paths :: "obj \<Rightarrow> string \<Rightarrow> (string, json) pydict res" where
  "model_paths config repo =
     rbind (rmap (\<lambda>(name, k). rbind (config_value config name k) (\<lambda>v. Inr (name, v))) model_settings) (\<lambda>candidates.
     rmap (\<lambda>(name, v). rbind (resolve_path repo v) (\<lambda>p. Inr (name, p))) (filter (\<lambda>(name, v). truthy v) candidates))"

section \<open>The manifest\<close>

definition required_assets :: "machine \<Rightarrow> repro_args \<Rightarrow> string \<Rightarrow> json \<Rightarrow> (string, obj) pydict res" where
  "required_assets mc args repo config_path =
     rbind (hash_value mc config_path) (\<lambda>c.
     rbind (hash_resolved mc repo (JStr (rp_audio args))) (\<lambda>a.
     rbind (hash_resolved mc repo (JStr (rp_reference args))) (\<lambda>r.
     if rp_executable args = [] then Inr [(''config'', c), (''audio'', a), (''reference'', r)]
     else rbind (hash_resolved mc repo (JStr (rp_executable args))) (\<lambda>x.
       Inr [(''config'', c), (''audio'', a), (''reference'', r), (''executable'', x)]))))"

definition registry_path :: "repro_args \<Rightarrow> obj \<Rightarrow> json res" where
  "registry_path args config = (case rp_registry args of
     Some (c # s) \<Rightarrow> Inr (JStr (c # s)) | _ \<Rightarrow> config_value config ''speaker'' ''registry_path'')"

definition fixture_assets :: "machine \<Rightarrow> repro_args \<Rightarrow> string \<Rightarrow> json \<Rightarrow> obj \<Rightarrow> (string, obj) pydict res" where
  "fixture_assets mc args repo config_path config = rbind (required_assets mc args repo config_path) (\<lambda>assets.
     rbind (registry_path args config) (\<lambda>registry.
     if truthy registry
     then rbind (hash_resolved mc repo registry) (\<lambda>h. Inr (dset ''speaker_registry'' h assets))
     else Inr assets))"

text \<open>\<^verbatim>\<open>asset["exists"]\<close>: every digest has the field.\<close>

definition absent :: "(string \<times> obj) list \<Rightarrow> string list" where
  "absent assets = map fst (filter (\<lambda>(n, r). \<not> truthy (get r ''exists'')) assets)"

definition fixture_models :: "machine \<Rightarrow> repro_args \<Rightarrow> string \<Rightarrow> obj \<Rightarrow> (string, obj) pydict res" where
  "fixture_models mc args repo config = (if rp_skip_models args then Inr [] else
     rbind (model_paths config repo) (\<lambda>paths.
     rbind (rmap (\<lambda>(n, p). rbind (hash_value mc p) (\<lambda>h. Inr (n, h))) paths) (\<lambda>models.
     raise_if (absent models \<noteq> []) OSError (Inr models))))"

definition device_doc :: "machine \<Rightarrow> string \<Rightarrow> json" where
  "device_doc mc repo = JObj [(''platform'', JStr (mc_platform mc)), (''machine'', JStr (mc_machine mc)),
     (''jetson_release'', read_optional mc ''/etc/nv_tegra_release''),
     (''nvpmodel'', probe_doc (command_probe mc [''nvpmodel'', ''-q''] repo)),
     (''jetson_clocks'', probe_doc (command_probe mc [''jetson_clocks'', ''--show''] repo)),
     (''tegrastats_probe'', probe_doc (command_probe mc [''timeout'', ''2s'', ''tegrastats'', ''--interval'', ''1000''] repo))]"

definition tools_doc :: "machine \<Rightarrow> string \<Rightarrow> json" where
  "tools_doc mc repo = JObj [(''python'', JStr (mc_python mc)),
     (''git'', first_line mc [''git'', ''--version''] repo), (''cmake'', first_line mc [''cmake'', ''--version''] repo),
     (''compiler'', first_line mc [''c++'', ''--version''] repo), (''nvcc'', first_line mc [''nvcc'', ''--version''] repo),
     (''ffmpeg'', first_line mc [''ffmpeg'', ''-version''] repo)]"

definition environment_overrides :: "machine \<Rightarrow> json" where
  "environment_overrides mc = JObj (map (\<lambda>(k, v). (k, JStr v))
     (filter (\<lambda>(k, v). has_prefix ''ORATOR_'' k) (sort_key (\<lambda>e. e) (mc_environ mc))))"

definition objects :: "(string \<times> obj) list \<Rightarrow> json" where
  "objects d = JObj (map (\<lambda>(n, r). (n, JObj r)) d)"

definition fixture_body :: "machine \<Rightarrow> string \<Rightarrow> (string \<times> obj) list \<Rightarrow> (string \<times> obj) list \<Rightarrow> obj" where
  "fixture_body mc repo assets models =
    (let commit = command_output mc [''git'', ''rev-parse'', ''HEAD''] repo;
         status = (case command_output mc [''git'', ''status'', ''--porcelain'', ''--untracked-files=normal''] repo of
           None \<Rightarrow> [] | Some t \<Rightarrow> splitlines t)
     in [(''schema_version'', JInt 1),
         (''manifest_id'', JStr (''orator-fixture-'' @ mc_stamp mc @ ''-'' @
            take 12 (case commit of None \<Rightarrow> ''unknown'' | Some c \<Rightarrow> c))),
         (''generated_utc'', JStr (mc_isoformat mc)), (''repo'', JStr repo),
         (''git'', JObj [(''commit'', opt_json commit), (''dirty'', JBool (status \<noteq> [])), (''status'', JArr (map JStr status))]),
         (''assets'', objects assets), (''models'', objects models),
         (''environment_overrides'', environment_overrides mc),
         (''device'', device_doc mc repo), (''tools'', tools_doc mc repo)])"

definition build_fixture_manifest :: "machine \<Rightarrow> repro_args \<Rightarrow> obj res" where
  "build_fixture_manifest mc args = (let repo = mc_abspath mc (rp_repo args) in
     rbind (resolve_path repo (JStr (rp_config args))) (\<lambda>config_path.
     rbind (path_text config_path) (\<lambda>path.
     rbind (config_bytes (mc_ws mc) (mc_abspath mc path)) (\<lambda>b.
     rbind (ws_toml (mc_ws mc) b) (\<lambda>config.
     rbind (fixture_assets mc args repo config_path config) (\<lambda>assets.
     raise_if (filter (\<lambda>n. n \<noteq> ''speaker_registry'') (absent assets) \<noteq> []) OSError
     (rbind (fixture_models mc args repo config) (\<lambda>models.
     let body = fixture_body mc repo assets models in
     Inr (body @ [(''content_sha256'', JStr (ws_sha256 (mc_ws mc) (canonical_text (JObj body))))])))))))))"

section \<open>What a manifest says\<close>

text \<open>Both hashing tools see the same files of a directory, in different orders.\<close>

lemma mset_concat_map: "mset xs = mset ys \<Longrightarrow> mset (concat (map f xs)) = mset (concat (map f ys))"
proof -
  assume eq: "mset xs = mset ys"
  have "mset (concat (map f zs)) = sum_mset (image_mset (mset \<circ> f) (mset zs))" for zs
    by (induction zs) simp_all
  with eq show ?thesis by simp
qed

lemma walk_entries:
  assumes "\<And>n ds. (n, Folder ds) \<in> set es \<Longrightarrow> mset (walk_files (Folder ds)) = mset (tree_files (Folder ds))"
  shows "mset (map (\<lambda>(n, b). ([n], b)) (plain_files es)) + mset (concat (map (\<lambda>(n, t). map (\<lambda>(p, b). (n # p, b)) (walk_files t)) es))
    = mset (concat (map (\<lambda>(n, t). map (\<lambda>(p, b). (n # p, b)) (tree_files t)) es))"
  using assms
proof (induction es)
  case (Cons e es)
  obtain n t where e: "e = (n, t)" by fastforce
  have "mset (map (\<lambda>(p, b). (n # p, b)) (walk_files t)) = mset (map (\<lambda>(p, b). (n # p, b)) (tree_files t))" if "t = Folder ds" for ds
    using Cons.prems[of n ds] that e by (simp only: mset_map) simp
  moreover have "mset (map (\<lambda>(n, b). ([n], b)) (plain_files es)) + mset (concat (map (\<lambda>(n, t). map (\<lambda>(p, b). (n # p, b)) (walk_files t)) es))
    = mset (concat (map (\<lambda>(n, t). map (\<lambda>(p, b). (n # p, b)) (tree_files t)) es))" by (rule Cons.IH) (use Cons.prems in auto)
  ultimately show ?case
    by (cases t) (simp_all add: e plain_files_def map_filter_simps ac_simps del: walk_files.simps(2) tree_files.simps(2) mset_map)
qed (simp add: plain_files_def map_filter_simps)

lemma walk_same_files: "mset (walk_files (Folder es)) = mset (tree_files (Folder es))"
proof (induction "Folder es" arbitrary: es rule: walk_files.induct)
  case (2 es)
  have "mset (concat (map (\<lambda>(n, fs). map (\<lambda>(p, b). (n # p, b)) fs) (sort_key fst (map (\<lambda>(n, t). (n, walk_files t)) es))))
      = mset (concat (map (\<lambda>(n, fs). map (\<lambda>(p, b). (n # p, b)) fs) (map (\<lambda>(n, t). (n, walk_files t)) es)))"
    by (rule mset_concat_map) simp
  with walk_entries[of es] 2 show ?case by (simp add: comp_def split_def)
qed

text \<open>A manifest is built only when every required asset and every hashed model is there, and signs the rest of itself.\<close>

lemma fixture_manifest_sound:
  assumes "build_fixture_manifest mc args = Inr m"
  obtains body assets models where "m = body @ [(''content_sha256'', JStr (ws_sha256 (mc_ws mc) (canonical_text (JObj body))))]"
    "body = fixture_body mc (mc_abspath mc (rp_repo args)) assets models"
    "\<forall>(n, r) \<in> set assets. n = ''speaker_registry'' \<or> truthy (get r ''exists'')"
    "\<forall>(n, r) \<in> set models. truthy (get r ''exists'')"
proof -
  from assms obtain path config assets models where
    a: "filter (\<lambda>n. n \<noteq> ''speaker_registry'') (absent assets) = []"
    and m: "fixture_models mc args (mc_abspath mc (rp_repo args)) config = Inr models"
    "m = fixture_body mc (mc_abspath mc (rp_repo args)) assets models @ [(''content_sha256'', JStr (ws_sha256 (mc_ws mc)
       (canonical_text (JObj (fixture_body mc (mc_abspath mc (rp_repo args)) assets models)))))]"
    by (auto simp: build_fixture_manifest_def Let_def rbind_Inr_iff raise_if_Inr_iff)
  from m(1) have "absent models = []"
    by (auto simp: fixture_models_def rbind_Inr_iff raise_if_Inr_iff absent_def split: if_splits)
  with a m(2) show thesis by (intro that) (auto simp: absent_def filter_empty_conv)
qed

end
