(* ===== verification/Spec2Isabelle.thy ===== *)
theory Spec2Isabelle
  imports Fusion_Properties Decision_Properties Closing_Properties Frozen_Properties Short_Properties Top1_Properties Gallery_Properties Packet_Properties Residual_Properties Residual_Files Replay_Properties Candidate_Witnesses Freeze_Properties Repro_Manifest
begin

text \<open>
  \<^bold>\<open>The program.\<close>  Orator is a streaming speech system: a C++/CUDA engine produces a timeline of
  tracks (ASR text, forced alignment, voice activity, diarization, speaker identities) and a
  fused \<^emph>\<open>comprehensive\<close> view of who said what.  The Python tools under
  \<^verbatim>\<open>src/tools/verify/py\<close> and \<^verbatim>\<open>src/tools/archive/spec013-speaker-candidates\<close> read the captured
  timeline and the model outputs, recompute the fused view and the speaker decisions
  independently, and build the evidence on which a release is accepted.  This library models
  those tools.  They are batch programs: each reads files, computes, and writes documents, so
  every tool is a function from parsed inputs to documents or to the exception it raises.

  \<^bold>\<open>Foundations.\<close>
  \<^item> \<^theory_text>\<open>Prelude\<close>: results \<open>py_error + 'a\<close> with \<open>rbind\<close> (exceptions are values), loops whose body
    may raise (\<open>rmap\<close>, \<open>rfold\<close>), insertion-ordered dicts, and the ``append or merge into the last
    element'' loop \<open>merge_runs\<close>.  Its contracts are the locales \<open>run_content\<close>, \<open>run_maximal\<close>,
    \<open>run_content_on\<close>, \<open>run_uniform\<close>, \<open>run_span\<close> and \<open>run_key\<close>; every component that contains such a
    loop interprets the ones its properties need.
  \<^item> \<^theory_text>\<open>Py_Float\<close>, \<^theory_text>\<open>Py_Rounding\<close>: binary64 as rationals with a 53-bit significand,
    each operation the exact one followed by rounding to nearest even; \<^verbatim>\<open>round\<close>, \<^verbatim>\<open>sum\<close> (compensated,
    as in CPython 3.12), \<^verbatim>\<open>sqrt\<close>, printing.
  \<^item> \<^theory_text>\<open>Py_Value\<close>, \<^theory_text>\<open>Py_Json\<close>, \<^theory_text>\<open>Py_Text\<close>, \<^theory_text>\<open>Spans\<close>: parsed JSON values with Python's
    truth, equality and conversions; canonical JSON text; \<^verbatim>\<open>str\<close> operations; tables of
    \<^verbatim>\<open>csv.DictReader\<close>; union of intervals.

  \<^bold>\<open>Components.\<close>  Each theory opens with the file it models; names are the code's names.
  \<^item> \<^theory_text>\<open>Fusion_Extract\<close>, \<^theory_text>\<open>Fusion_Turns\<close>, \<^theory_text>\<open>Fusion_Candidate\<close>, \<^theory_text>\<open>Fusion_Audit\<close>
    (\<^verbatim>\<open>fusion_audit.py\<close>): dataclasses as records; \<^verbatim>\<open>diar_turns\<close>, attribution, gap filling, unit runs;
    \<^verbatim>\<open>fuse\<close>, coalescing, downgrade, smoothing, business turns; \<^verbatim>\<open>audit\<close> and \<^verbatim>\<open>main\<close>.
    \<^theory_text>\<open>Fusion_Properties\<close>: turns partition the ASR span, attribution agrees with a full scan, aligned
    text is neither lost nor repeated, relabelling keeps evidence, turns account for every entry.
  \<^item> \<^theory_text>\<open>Decision_Evidence\<close>, \<^theory_text>\<open>Decision_Report\<close> (\<^verbatim>\<open>speaker_decision_evidence.py\<close>): the replayed
    speaker decision and the report.  \<^theory_text>\<open>Decision_Properties\<close>: interval union, rounding, ranking,
    the meaning of a decision's reason, the JSON round trip, and that a recorded decision is accepted
    only within the bounds of the replay of its entry.
  \<^item> \<^theory_text>\<open>Closing_Ledger\<close>, \<^theory_text>\<open>Closing_Review\<close> (\<^verbatim>\<open>closing_ledger.py\<close>): \<^verbatim>\<open>init-reference\<close>,
    \<^verbatim>\<open>prepare-review\<close> and \<^verbatim>\<open>validate\<close>.  \<^theory_text>\<open>Closing_Properties\<close>: what is written validates, what
    validates is complete, a freshly prepared review is rejected as unfinished.
  \<^item> \<^theory_text>\<open>Frozen_Evidence\<close>, \<^theory_text>\<open>Frozen_Build\<close> (\<^verbatim>\<open>speaker_frozen_evidence.py\<close>): frame and score tables,
    interval metrics, the package.  \<^theory_text>\<open>Frozen_Properties\<close>: no frame of an interval is missed,
    islands are the union of the clipped voice activity and the gap is the longest stretch without any,
    every segment has exactly one score row.
  \<^item> \<^theory_text>\<open>Short_Primary\<close>, \<^theory_text>\<open>Short_Inventory\<close> (\<^verbatim>\<open>speaker_short_primary_evidence.py\<close>): the inventory of
    short runs whose identity conflicts.  \<^theory_text>\<open>Short_Properties\<close>: the loop refines a declarative
    specification, and its records are well formed.
  \<^item> \<^theory_text>\<open>Top1_Runs\<close> (\<^verbatim>\<open>speaker_primary_top1_replay_inputs.py\<close>): the top-1 track inside VAD spans.
    \<^theory_text>\<open>Top1_Properties\<close>: the run-collecting loop equals filtering plus maximal runs.
  \<^item> \<^theory_text>\<open>Gallery_Robust\<close> (\<^verbatim>\<open>speaker_robust_gallery_evidence.py\<close>) and \<^theory_text>\<open>Multi_Prototype\<close>
    (\<^verbatim>\<open>speaker_multiprototype_evidence.py\<close>): scores against a gallery, and fusion of two score
    tables.  \<^theory_text>\<open>Gallery_Properties\<close>: valid inputs are scored, fused scores are the maxima.
  \<^item> \<^theory_text>\<open>Review_Packet\<close> (\<^verbatim>\<open>speaker_business_review_packet.py\<close>): windows of a reference beside
    candidate views.  \<^theory_text>\<open>Packet_Properties\<close>: when the loop over windows ends, no reference row is
    lost, the two change signatures are related.
  \<^item> \<^theory_text>\<open>Residual_Sources\<close>, \<^theory_text>\<open>Residual_Timeline\<close>, \<^theory_text>\<open>Residual_Frames\<close>, \<^theory_text>\<open>Residual_Packet\<close>,
    \<^theory_text>\<open>Residual_Spans\<close>, \<^theory_text>\<open>Residual_Export\<close> (\<^verbatim>\<open>speaker_residual_evidence_packet.py\<close>): evidence tables
    and their checks, the timeline, frames and identity epochs, selection and rendering, tables on the
    common clock, and the files written.  \<^theory_text>\<open>Residual_Properties\<close>, \<^theory_text>\<open>Residual_Files\<close>: epochs
    tile the audio, the checks accept exactly the tables they describe, every file is listed once.
  \<^item> \<^theory_text>\<open>Gallery_Queries\<close> (\<^verbatim>\<open>speaker_gallery_independence_inputs.py\<close>), \<^theory_text>\<open>Identity_Snapshots\<close>
    (\<^verbatim>\<open>speaker_identity_snapshot_evidence.py\<close>) and \<^theory_text>\<open>Business_Inputs\<close>
    (\<^verbatim>\<open>speaker_business_replay_inputs.py\<close>): the inputs of replays.  \<^theory_text>\<open>Replay_Properties\<close>: the texts
    written as hexadecimal digits are read back.
  \<^item> \<^theory_text>\<open>Freeze_Guard\<close> (\<^verbatim>\<open>spec015_freeze_guard.py\<close>) and \<^theory_text>\<open>Repro_Manifest\<close>
    (\<^verbatim>\<open>repro_manifest.py\<close>): digests of file trees, the frozen control and the manifest of a fixture.
    \<^theory_text>\<open>Freeze_Properties\<close>: a listing determines its files, a tree passes exactly when nothing frozen
    changed, and what the command creates it accepts.  Both tools hash the same files of a directory.

  \<^bold>\<open>Archived candidates.\<close>  Each is a script under \<^verbatim>\<open>spec013-speaker-candidates\<close> that relabels a
  retained track; their theories import each other as the scripts do.
  \<^item> \<^theory_text>\<open>Phrase_Spans\<close>, \<^theory_text>\<open>Phrase_Overlay\<close>, \<^theory_text>\<open>Phrase_Candidate\<close> (\<^verbatim>\<open>speaker_punctuation_phrase\<close>):
    phrases, voiceprint gates, anchors and the reprojection of a text.  \<^theory_text>\<open>Phrase_Labels\<close>,
    \<^theory_text>\<open>Phrase_Properties\<close>: turns refine a labelling of characters, and anchors survive the build.
  \<^item> \<^theory_text>\<open>Posterior_Pieces\<close>, \<^theory_text>\<open>Posterior_Overlay\<close> (\<^verbatim>\<open>speaker_posterior_bounded_phrase\<close>): phrases cut at
    sustained runs.  \<^theory_text>\<open>Posterior_Properties\<close>: the frame loop is a plain grouping (the locale
    \<open>gated_loop\<close>, which the relative and island candidates interpret as well), and regular anchors
    survive.
  \<^item> \<^theory_text>\<open>Reviewed_Overlay\<close> (\<^verbatim>\<open>speaker_reviewed_overlay\<close>): overlays checked for conflicts and a
    reprojection that keeps base turns.  \<^theory_text>\<open>Reviewed_Properties\<close>: untouched turns are kept, checked
    overlays are exactly the disjoint ones.
  \<^item> \<^theory_text>\<open>Relative_Top1\<close> and \<^theory_text>\<open>Relative_Expansion\<close> (\<^verbatim>\<open>speaker_relative_top1_phrase\<close> and its
    \<^verbatim>\<open>expansion\<close>), with \<^theory_text>\<open>Relative_Properties\<close> and \<^theory_text>\<open>Expansion_Properties\<close>: which pieces and
    phrases change a character, and that both voiceprint tables rank its new identity first.
  \<^item> \<^theory_text>\<open>Adjacent_Clauses\<close> (\<^verbatim>\<open>speaker_adjacent_subminimum_clause\<close>), with \<^theory_text>\<open>Clause_Properties\<close>:
    overlapping proposals are withdrawn, and only they.
  \<^item> \<^theory_text>\<open>Direct_Fusion\<close>, \<^theory_text>\<open>Replay_Voiceprint\<close> (\<^verbatim>\<open>speaker_direct_fusion\<close>,
    \<^verbatim>\<open>speaker_short_phrase\<close>, \<^verbatim>\<open>speaker_replay_voiceprint\<close>), with \<^theory_text>\<open>Direct_Properties\<close> (the decision of a turn
    from its voiceprint, the pooled voiceprints of its segments and its baseline), and
    \<^theory_text>\<open>Raw_Authoritative\<close> (\<^verbatim>\<open>speaker_raw_authoritative\<close>), with \<^theory_text>\<open>Raw_Properties\<close>.
  \<^item> \<^theory_text>\<open>Piece_Consensus\<close>, \<^theory_text>\<open>Channel_Islands\<close>, \<^theory_text>\<open>Vad_Utterances\<close>, \<^theory_text>\<open>Vad_Edges\<close>,
    \<^theory_text>\<open>Complete_Local\<close>, \<^theory_text>\<open>Bracketed_Phrases\<close>
    (\<^verbatim>\<open>speaker_local_channel_island\<close>, \<^verbatim>\<open>speaker_vad_utterance\<close>, \<^verbatim>\<open>speaker_vad_edge_run\<close>,
    \<^verbatim>\<open>speaker_vad_active_edge\<close>, \<^verbatim>\<open>speaker_complete_local_phrase\<close>,
    \<^verbatim>\<open>speaker_bracketed_unknown_phrase\<close>, \<^verbatim>\<open>speaker_bracketed_local_phrase\<close>): one build over pieces
    with a decision function of each candidate.  \<^theory_text>\<open>Piece_Properties\<close>: a character changes only where
    the decision function accepted a piece, and what acceptance means for each of them.
  \<^item> \<^theory_text>\<open>Local_Runs\<close> (\<^verbatim>\<open>speaker_expanded_local_run_phrase\<close>,
    \<^verbatim>\<open>speaker_bounded_local_run_voiceprint\<close>, \<^verbatim>\<open>speaker_complete_source_voiceprint\<close>): the maximal
    runs around complete phrases, with the same build; the runs are maximal, and
    \<^theory_text>\<open>Piece_Properties\<close> says which characters they change.
  \<^item> \<^theory_text>\<open>Cross_Prototype\<close>, \<^theory_text>\<open>Vad_Challenges\<close> (\<^verbatim>\<open>speaker_complete_phrase_cross_prototype\<close>,
    \<^verbatim>\<open>speaker_complete_vad_phrase_challenge\<close>): challenges laid over a baseline, with
    \<^theory_text>\<open>Expansion_Properties\<close>: which challenge a changed character lies in, and what its four voiceprint
    rows and its slot say.
  \<^item> \<^theory_text>\<open>Phrase_Witnesses\<close>, \<^theory_text>\<open>Candidate_Witnesses\<close>: concrete inputs at which
    the hypotheses of these properties hold.

  \<^bold>\<open>How they interact.\<close>  The tools exchange files.  In the model they share the interval, rounding
  and table theories: \<^theory_text>\<open>Frozen_Evidence\<close> reuses the decision tool's interval code as the source
  imports it, the gallery, short-primary and top-1 tools read the same tables, and
  \<^theory_text>\<open>Review_Packet\<close> uses the timestamp pattern of the closing ledger.  The texts that
  \<^theory_text>\<open>Business_Inputs\<close> writes are those the phrase candidate reads.  The phrase, posterior, relative
  and piece candidates share one reprojection, so that the lemmas on labels of characters carry all
  their builds; the expansion, clause, cross-prototype and challenge candidates share the checked
  overlays and the reprojection of the reviewed overlay candidate in the same way.  The pieces of the
  relative candidate are those the expansion candidate widens, and the utterances of
  \<^theory_text>\<open>Vad_Utterances\<close> are those \<^theory_text>\<open>Vad_Challenges\<close> starts from.

  \<^bold>\<open>Parameters and idealisations.\<close>  SHA-256, file contents as parsed by the \<^verbatim>\<open>json\<close>, \<^verbatim>\<open>csv\<close> and
  \<^verbatim>\<open>tomllib\<close> modules, absolute paths, \<^verbatim>\<open>ffprobe\<close> and the clock are arguments of the definitions
  that use them; nothing is assumed of them beyond what a statement spells out (that SHA-256 has no
  collision among the texts hashed, where a digest stands for content).  Git and other commands,
  and what lies at a path (a finite tree without links), are arguments as well.  Floats have an
  unbounded exponent and no negative zero; infinities and NaN exist as parsed values, tests for
  them are modelled, and code that computes with them untested yields \<open>OutOfModel\<close>.  Strings have
  the first 256 code points, also in UTF-8.  Identities in the labels of a baseline that are numbers or
  truth values are \<open>OutOfModel\<close> where a candidate collects them in a set.

  \<^bold>\<open>Termination and fuel.\<close>  All loops over lists are structural.  \<open>window_loop\<close> (the window cursor
  of the review packet) is a partial function: it is proved to return exactly if the audio is
  empty or adding the step moves every position before its end, so never for a step of zero or less (nor
  for one that rounding swallows), and always if at most \<open>2 ^ 50\<close> steps make up the audio.  The search of \<open>float_repr\<close> has fuel 16 because 17 significant
  digits always identify a double; the 17th is the fallback it returns then.  \<open>bisect_search\<close> (the
  binary search itself, on starts that need not be sorted), \<open>extend_piece\<close>, \<open>key_groups\<close> and \<open>run_last\<close> have termination proofs.

  \<^bold>\<open>Not modelled.\<close>  Argument parsing, reading and writing of files and printing, in every tool; the
  C++/CUDA engine (another language); the WebSocket capture and user-interface drivers, the model
  conversion, download and dump scripts and the oracle scripts (network, tensor libraries and
  subprocesses with next to no logic of their own); the archived candidates not named above, rejected
  variants of the same relabelling.  The manifest lists them one by one.
\<close>

end
